(* ===== verification/JL_Prelude.thy ===== *)
theory JL_Prelude
  imports Main "HOL-Library.AList"
begin

text \<open>
  Shared vocabulary of the development: Python exceptions as values, operations that
  thread a state and keep it when they raise, replies of injected authorities,
  timestamps, dictionaries in insertion order and the identifier grammars that the
  packages under src/ share.
\<close>

named_theorems res_simps \<open>inversion of computations that may raise\<close>
named_theorems inv_intros \<open>preservation facts of the component invariants\<close>

section \<open>Exceptions as values\<close>

text \<open>
  The exception classes the modelled code raises. Only the class is kept, except for
  \<open>ContractViolation\<close>, whose message is a code that the reference models compare.
\<close>

datatype exn =
    ValueError | TypeError | KeyError | RuntimeError
  | AdmissionDenied
  | IntegrityConflict | ReconciliationBlocked | InvalidTransition
  | ReleaseError | ObservationError
  | CursorInvalid
  | CredentialResolutionError | EgressAdmissionError
  | ProviderAuthenticationError | ProviderUnavailableError | ProviderProtocolError
  | PermissionError | LookupError | OverflowError | AssertionError | OtherError
  | PolicyViolation | ContractError | DuplicateMemberError
  | PrematureProgress | IntegrityFailure | Uncertainty | FenceViolation
  | AuthorizationDenied | ClassificationDenied
  | ContractViolation string

type_synonym 'a res = "exn + 'a"

definition bindR :: "'a res \<Rightarrow> ('a \<Rightarrow> 'b res) \<Rightarrow> 'b res" where
  "bindR r k = (case r of Inl e \<Rightarrow> Inl e | Inr v \<Rightarrow> k v)"

lemma bindR_simps [simp]: "bindR (Inl e) k = Inl e" "bindR (Inr v) k = k v"
  by (simp_all add: bindR_def)

lemma bindR_Inr_iff [res_simps]:
  "bindR r k = Inr w \<longleftrightarrow> (\<exists>v. r = Inr v \<and> k v = Inr w)"
  by (cases r) simp_all

lemma bindR_Inl_iff:
  "bindR r k = Inl e \<longleftrightarrow> r = Inl e \<or> (\<exists>v. r = Inr v \<and> k v = Inl e)"
  by (cases r) simp_all

text \<open>\<open>if not b: raise e\<close>\<close>

definition ensure :: "bool \<Rightarrow> exn \<Rightarrow> unit res" where
  "ensure b e = (if b then Inr () else Inl e)"

lemma ensure_simps [simp]: "ensure True e = Inr ()" "ensure False e = Inl e"
  by (simp_all add: ensure_def)

lemma ensure_Inr_iff [res_simps]: "ensure b e = Inr u \<longleftrightarrow> b"
  by (simp add: ensure_def)

lemma ensure_Inl_iff: "ensure b e = Inl x \<longleftrightarrow> \<not> b \<and> x = e"
  by (auto simp: ensure_def)

text \<open>\<open>try: r / except h as exc: raise e from exc\<close>\<close>

definition rethrow :: "(exn \<Rightarrow> bool) \<Rightarrow> exn \<Rightarrow> 'a res \<Rightarrow> 'a res" where
  "rethrow h e r = (case r of Inl x \<Rightarrow> Inl (if h x then e else x) | Inr v \<Rightarrow> Inr v)"

lemma rethrow_simps [simp]:
  "rethrow h e (Inr v) = Inr v" "rethrow h e (Inl x) = Inl (if h x then e else x)"
  by (simp_all add: rethrow_def)

lemma rethrow_Inr_iff [res_simps]: "rethrow h e r = Inr v \<longleftrightarrow> r = Inr v"
  by (cases r) simp_all

text \<open>
  Constructors of frozen dataclasses: \<open>__post_init__\<close> either raises \<open>ValueError\<close> or
  accepts the value as it is.
\<close>

definition construct :: "('a \<Rightarrow> bool) \<Rightarrow> exn \<Rightarrow> 'a \<Rightarrow> 'a res" where
  "construct valid e x = (if valid x then Inr x else Inl e)"

lemma construct_Inr_iff [res_simps]: "construct valid e x = Inr y \<longleftrightarrow> valid x \<and> y = x"
  by (auto simp: construct_def)

lemma construct_Inl_iff: "construct valid e x = Inl z \<longleftrightarrow> \<not> valid x \<and> z = e"
  by (auto simp: construct_def)

section \<open>Operations on a state\<close>

text \<open>
  A method of a mutable object returns or raises, and the mutations made before a raise
  stay: the result and the new state are independent components.
\<close>

type_synonym ('s, 'a) op = "'s \<Rightarrow> 'a res \<times> 's"

definition returnS :: "'a \<Rightarrow> ('s, 'a) op" where
  "returnS v = (\<lambda>s. (Inr v, s))"

definition raiseS :: "exn \<Rightarrow> ('s, 'a) op" where
  "raiseS e = (\<lambda>s. (Inl e, s))"

definition liftS :: "'a res \<Rightarrow> ('s, 'a) op" where
  "liftS r = (\<lambda>s. (r, s))"

definition getS :: "('s \<Rightarrow> 'a) \<Rightarrow> ('s, 'a) op" where
  "getS f = (\<lambda>s. (Inr (f s), s))"

definition modifyS :: "('s \<Rightarrow> 's) \<Rightarrow> ('s, unit) op" where
  "modifyS f = (\<lambda>s. (Inr (), f s))"

definition bindS :: "('s, 'a) op \<Rightarrow> ('a \<Rightarrow> ('s, 'b) op) \<Rightarrow> ('s, 'b) op" where
  "bindS m k = (\<lambda>s. case m s of (Inl e, t) \<Rightarrow> (Inl e, t) | (Inr v, t) \<Rightarrow> k v t)"

definition thenS :: "('s, unit) op \<Rightarrow> ('s, 'b) op \<Rightarrow> ('s, 'b) op" where
  "thenS m k = bindS m (\<lambda>_. k)"

lemma op_simps [simp]:
  "returnS v s = (Inr v, s)" "raiseS e s = (Inl e, s)" "liftS r s = (r, s)"
  "getS f s = (Inr (f s), s)" "modifyS h s = (Inr (), h s)"
  by (simp_all add: returnS_def raiseS_def liftS_def getS_def modifyS_def)

lemma bindS_apply:
  "bindS m k s = (case m s of (Inl e, t) \<Rightarrow> (Inl e, t) | (Inr v, t) \<Rightarrow> k v t)"
  by (simp add: bindS_def)

lemma bindS_simps [simp]:
  "m s = (Inl e, t) \<Longrightarrow> bindS m k s = (Inl e, t)"
  "m s = (Inr v, t) \<Longrightarrow> bindS m k s = k v t"
  by (simp_all add: bindS_def)

lemma bindS_returns_iff [res_simps]:
  "bindS m k s = (Inr w, t) \<longleftrightarrow> (\<exists>v s'. m s = (Inr v, s') \<and> k v s' = (Inr w, t))"
  by (auto simp: bindS_def split: prod.splits sum.splits)

lemma bindS_raises_iff:
  "bindS m k s = (Inl e, t) \<longleftrightarrow>
     m s = (Inl e, t) \<or> (\<exists>v s'. m s = (Inr v, s') \<and> k v s' = (Inl e, t))"
  by (auto simp: bindS_def split: prod.splits sum.splits)

lemma thenS_apply [simp]: "thenS m k s = bindS m (\<lambda>_. k) s"
  by (simp add: thenS_def)

text \<open>Evaluation of the first command of a sequence.\<close>

lemma bindS_steps [simp]:
  "bindS (liftS r) k s = (case r of Inl e \<Rightarrow> (Inl e, s) | Inr v \<Rightarrow> k v s)"
  "bindS (getS f) k s = k (f s) s"
  "bindS (modifyS h) k s = k () (h s)"
  "bindS (returnS v) k s = k v s"
  "bindS (raiseS e) k s = (Inl e, s)"
  by (simp_all add: bindS_def split: sum.split)

lemma case_ensure [simp]:
  "(case ensure b e of Inl x \<Rightarrow> f x | Inr u \<Rightarrow> g u) = (if b then g () else f e)"
  by (simp add: ensure_def)

lemma case_construct [simp]:
  "(case construct valid e x of Inl y \<Rightarrow> f y | Inr v \<Rightarrow> g v) = (if valid x then g x else f e)"
  by (simp add: construct_def)

text \<open>An assertion that does not look at the state.\<close>

abbreviation ensureS :: "bool \<Rightarrow> exn \<Rightarrow> ('s, unit) op" where
  "ensureS b e \<equiv> liftS (ensure b e)"

lemma thenS_returns_iff:
  "thenS m k s = (Inr v, t) \<longleftrightarrow> (\<exists>s'. m s = (Inr (), s') \<and> k s' = (Inr v, t))"
  by (simp add: bindS_returns_iff)

lemma ensureS_returns_iff: "ensureS b e s = (Inr u, t) \<longleftrightarrow> b \<and> t = s"
  by (auto simp: ensure_def)

lemma liftS_returns_iff: "liftS r s = (Inr v, t) \<longleftrightarrow> r = Inr v \<and> t = s"
  by auto

lemma ensureS_passes: "b \<Longrightarrow> ensureS b e s = (Inr (), s)"
  by (simp add: ensureS_returns_iff)

lemmas sequence_returns = thenS_returns_iff bindS_returns_iff

text \<open>
  A small calculus for the component proofs: \<open>triple P m Q E\<close> says that from a state
  in \<open>P\<close> the operation returns into \<open>Q\<close> or raises into \<open>E\<close>.
\<close>

definition triple ::
  "('s \<Rightarrow> bool) \<Rightarrow> ('s, 'a) op \<Rightarrow> ('a \<Rightarrow> 's \<Rightarrow> bool) \<Rightarrow> ('s \<Rightarrow> bool) \<Rightarrow> bool" where
  "triple P m Q E \<longleftrightarrow>
     (\<forall>s. P s \<longrightarrow> (case m s of (Inr v, t) \<Rightarrow> Q v t | (Inl e, t) \<Rightarrow> E t))"

lemma triple_bindS:
  "triple P m R E \<Longrightarrow> (\<And>v. triple (R v) (k v) Q E) \<Longrightarrow> triple P (bindS m k) Q E"
  by (fastforce simp: triple_def bindS_def split: prod.splits sum.splits)

lemma triple_thenS:
  "triple P m (\<lambda>_. R) E \<Longrightarrow> triple R k Q E \<Longrightarrow> triple P (thenS m k) Q E"
  unfolding thenS_def by (rule triple_bindS)

lemma triple_liftS:
  "(\<And>v s. P s \<Longrightarrow> r = Inr v \<Longrightarrow> Q v s) \<Longrightarrow> (\<And>s. P s \<Longrightarrow> E s) \<Longrightarrow> triple P (liftS r) Q E"
  by (auto simp: triple_def split: sum.splits)

lemma triple_returnS: "(\<And>s. P s \<Longrightarrow> Q v s) \<Longrightarrow> triple P (returnS v) Q E"
  by (simp add: triple_def)

lemma triple_raiseS: "(\<And>s. P s \<Longrightarrow> E s) \<Longrightarrow> triple P (raiseS e) Q E"
  by (simp add: triple_def)

lemma triple_getS: "(\<And>s. P s \<Longrightarrow> Q (f s) s) \<Longrightarrow> triple P (getS f) Q E"
  by (simp add: triple_def)

lemma triple_modifyS: "(\<And>s. P s \<Longrightarrow> Q () (h s)) \<Longrightarrow> triple P (modifyS h) Q E"
  by (simp add: triple_def)

lemma triple_weaken:
  "triple P m Q E \<Longrightarrow> (\<And>s. P' s \<Longrightarrow> P s) \<Longrightarrow> (\<And>v s. Q v s \<Longrightarrow> Q' v s) \<Longrightarrow>
   (\<And>s. E s \<Longrightarrow> E' s) \<Longrightarrow> triple P' m Q' E'"
  by (fastforce simp: triple_def split: prod.splits sum.splits)

lemmas triple_basic =
  triple_liftS triple_returnS triple_raiseS triple_getS triple_modifyS

text \<open>An operation keeps a state predicate whether it returns or raises.\<close>

definition preserves :: "('s \<Rightarrow> bool) \<Rightarrow> ('s, 'a) op \<Rightarrow> bool" where
  "preserves I m \<longleftrightarrow> (\<forall>s. I s \<longrightarrow> I (snd (m s)))"

lemma preserves_triple: "preserves I m \<longleftrightarrow> triple I m (\<lambda>_. I) I"
proof -
  have "(case m s of (Inr v, t) \<Rightarrow> I t | (Inl e, t) \<Rightarrow> I t) = I (snd (m s))" for s
    by (simp split: prod.split sum.split)
  then show ?thesis by (simp add: preserves_def triple_def)
qed

lemma preservesD: "preserves I m \<Longrightarrow> I s \<Longrightarrow> m s = (r, t) \<Longrightarrow> I t"
  by (fastforce simp: preserves_def dest: spec [of _ s])

lemma preserves_bindS:
  "preserves I m \<Longrightarrow> (\<And>v. preserves I (k v)) \<Longrightarrow> preserves I (bindS m k)"
  by (simp add: preserves_triple triple_bindS)

lemma preserves_basic [simp, intro]:
  "preserves I (returnS v)" "preserves I (raiseS e)" "preserves I (liftS r)"
  "preserves I (getS f)"
  by (simp_all add: preserves_def)

section \<open>Replies of injected authorities\<close>

text \<open>
  The packages depend on \<open>Protocol\<close> objects supplied by adapters outside the package.
  A call returns a value of the expected class, returns something else (the
  \<open>isinstance\<close> check fails) or raises. A missing object is \<open>None\<close> of an option.
\<close>

datatype 'a reply = Returned 'a | Malformed | Raised exn

text \<open>
  A call that may be repeated is an operation on the state of its environment, so that a
  later call can be answered otherwise. The caller either lets the exceptions of the
  authority through or turns every one of them into a denial.
\<close>

type_synonym ('s, 'a) call = "'s \<Rightarrow> 'a reply \<times> 's"

definition open_call :: "('s, 'a) call \<Rightarrow> ('s, 'a) op" where
  "open_call c = (\<lambda>s. case c s of
     (Returned v, t) \<Rightarrow> (Inr v, t)
   | (Malformed, t) \<Rightarrow> (Inl AdmissionDenied, t)
   | (Raised e, t) \<Rightarrow> (Inl e, t))"

definition closed_call :: "('s, 'a) call \<Rightarrow> ('s, 'a) op" where
  "closed_call c = (\<lambda>s. case c s of
     (Returned v, t) \<Rightarrow> (Inr v, t) | (_, t) \<Rightarrow> (Inl AdmissionDenied, t))"

lemma open_call_Inr_iff [res_simps]:
  "open_call c s = (Inr v, t) \<longleftrightarrow> c s = (Returned v, t)"
  by (auto simp: open_call_def split: prod.splits reply.splits)

lemma closed_call_Inr_iff [res_simps]:
  "closed_call c s = (Inr v, t) \<longleftrightarrow> c s = (Returned v, t)"
  by (auto simp: closed_call_def split: prod.splits reply.splits)

lemma closed_call_Inl: "closed_call c s = (Inl e, t) \<Longrightarrow> e = AdmissionDenied"
  by (auto simp: closed_call_def split: prod.splits reply.splits)

lemma call_returned [simp]:
  "c s = (Returned v, t) \<Longrightarrow> open_call c s = (Inr v, t)"
  "c s = (Returned v, t) \<Longrightarrow> closed_call c s = (Inr v, t)"
  by (simp_all add: res_simps)

section \<open>Timestamps\<close>

text \<open>
  An aware \<open>datetime\<close> compares and is equal by its instant, here in microseconds;
  \<open>astimezone\<close> keeps the instant. A naive one only makes the guards raise.
\<close>

datatype instant = At (micros: int)

instantiation instant :: linorder
begin

definition less_eq_instant :: "instant \<Rightarrow> instant \<Rightarrow> bool" where
  "less_eq_instant a b \<longleftrightarrow> micros a \<le> micros b"

definition less_instant :: "instant \<Rightarrow> instant \<Rightarrow> bool" where
  "less_instant a b \<longleftrightarrow> micros a < micros b"

instance
  by standard (auto simp: less_eq_instant_def less_instant_def intro: instant.expand)

end

lemma instant_le_iff [simp]: "At a \<le> At b \<longleftrightarrow> a \<le> b"
  and instant_less_iff [simp]: "At a < At b \<longleftrightarrow> a < b"
  by (simp_all add: less_eq_instant_def less_instant_def)

datatype datetime = Naive int | Aware instant

fun aware :: "datetime \<Rightarrow> instant res" where
  "aware (Naive _) = Inl ValueError"
| "aware (Aware t) = Inr t"

lemma aware_Inr_iff [res_simps]: "aware d = Inr t \<longleftrightarrow> d = Aware t"
  by (cases d) auto

lemma aware_Inl_iff: "aware d = Inl e \<longleftrightarrow> (\<exists>n. d = Naive n) \<and> e = ValueError"
  by (cases d) auto

definition is_aware :: "datetime \<Rightarrow> bool" where
  "is_aware d = (case d of Aware _ \<Rightarrow> True | Naive _ \<Rightarrow> False)"

section \<open>Dictionaries\<close>

text \<open>
  A Python dict keeps insertion order and assignment to a present key keeps its
  position: \<open>AList.update\<close> on an association list. \<open>map_of\<close> is \<open>dict.get\<close>.
\<close>

type_synonym ('k, 'v) dict = "('k \<times> 'v) list"

lemma map_of_update [simp]:
  "map_of (AList.update k v d) x = (if x = k then Some v else map_of d x)"
  by (simp add: update_conv')

lemma keys_update_present:
  "map_of d k = Some w \<Longrightarrow> map fst (AList.update k v d) = map fst d"
  by (induction d) (auto split: if_splits)

lemma keys_update_fresh:
  "map_of d k = None \<Longrightarrow> AList.update k v d = d @ [(k, v)]"
  by (induction d) (auto split: if_splits)

text \<open>Mutating every value in place (a loop over \<open>dict.values()\<close>).\<close>

definition map_vals :: "('v \<Rightarrow> 'v) \<Rightarrow> ('k, 'v) dict \<Rightarrow> ('k, 'v) dict" where
  "map_vals f d = map (\<lambda>(k, v). (k, f v)) d"

lemma map_of_map_vals [simp]: "map_of (map_vals f d) k = map_option f (map_of d k)"
  by (induction d) (auto simp: map_vals_def)

lemma keys_map_vals [simp]: "map fst (map_vals f d) = map fst d"
  by (induction d) (auto simp: map_vals_def)

lemma set_vals_map_of:
  "distinct (map fst d) \<Longrightarrow> (k, v) \<in> set d \<longleftrightarrow> map_of d k = Some v"
  by simp

declare map_of_eq_Some_iff [simp del] Some_eq_map_of_iff [simp del]

section \<open>Identifier grammars\<close>

definition code_in :: "nat \<Rightarrow> nat \<Rightarrow> char \<Rightarrow> bool" where
  "code_in lo hi c \<longleftrightarrow> lo \<le> of_char c \<and> of_char c \<le> hi"

definition is_lower :: "char \<Rightarrow> bool" where "is_lower c \<longleftrightarrow> code_in 97 122 c"
definition is_upper :: "char \<Rightarrow> bool" where "is_upper c \<longleftrightarrow> code_in 65 90 c"
definition is_digit :: "char \<Rightarrow> bool" where "is_digit c \<longleftrightarrow> code_in 48 57 c"
definition is_alnum :: "char \<Rightarrow> bool" where
  "is_alnum c \<longleftrightarrow> is_lower c \<or> is_upper c \<or> is_digit c"

lemmas char_class_defs = code_in_def is_lower_def is_upper_def is_digit_def is_alnum_def

definition id_char :: "char \<Rightarrow> bool" where
  "id_char c \<longleftrightarrow> is_alnum c \<or> c \<in> set ''._:@/-''"

text \<open>\<open>_ID_RE = ^[A-Za-z0-9][A-Za-z0-9._:@/-]{0,255}$\<close>\<close>

fun is_identifier :: "string \<Rightarrow> bool" where
  "is_identifier [] = False"
| "is_identifier (c # cs) = (is_alnum c \<and> length cs \<le> 255 \<and> list_all id_char cs)"

lemma is_identifier_bounds: "is_identifier s \<Longrightarrow> s \<noteq> [] \<and> length s \<le> 256"
  by (cases s) auto

lemmas grammar_eval = is_identifier.simps id_char_def char_class_defs

declare is_identifier.simps [simp del]

definition require_identifier :: "string \<Rightarrow> string res" where
  "require_identifier s = construct is_identifier ValueError s"

lemma require_identifier_Inr_iff [res_simps]:
  "require_identifier s = Inr t \<longleftrightarrow> is_identifier s \<and> t = s"
  by (simp add: require_identifier_def construct_Inr_iff)

definition opt_identifier :: "string option \<Rightarrow> bool" where
  "opt_identifier o1 = (case o1 of None \<Rightarrow> True | Some s \<Rightarrow> is_identifier s)"

lemma opt_identifier_simps [simp]:
  "opt_identifier None" "opt_identifier (Some s) = is_identifier s"
  by (simp_all add: opt_identifier_def)

text \<open>Segments between the occurrences of a separator character.\<close>

fun split_on :: "char \<Rightarrow> string \<Rightarrow> string list" where
  "split_on d [] = [[]]"
| "split_on d (c # cs) =
     (if c = d then [] # split_on d cs
      else (case split_on d cs of [] \<Rightarrow> [[c]] | w # ws \<Rightarrow> (c # w) # ws))"

text \<open>\<open>sep.join(parts)\<close>, and when the parts can be read back.\<close>

fun joined :: "char \<Rightarrow> string list \<Rightarrow> string" where
  "joined d [] = []"
| "joined d [x] = x"
| "joined d (x # y # ys) = x @ d # joined d (y # ys)"

lemma split_on_absent: "d \<notin> set s \<Longrightarrow> split_on d s = [s]"
  by (induction s) auto

lemma split_on_first: "d \<notin> set s \<Longrightarrow> split_on d (s @ d # t) = s # split_on d t"
  by (induction s) (auto split: list.splits)

lemma split_on_joined:
  "xs \<noteq> [] \<Longrightarrow> \<forall>x \<in> set xs. d \<notin> set x \<Longrightarrow> split_on d (joined d xs) = xs"
  by (induction d xs rule: joined.induct) (simp_all add: split_on_absent split_on_first)

lemma joined_inject:
  "xs \<noteq> [] \<Longrightarrow> ys \<noteq> [] \<Longrightarrow> \<forall>x \<in> set xs \<union> set ys. d \<notin> set x \<Longrightarrow>
   joined d xs = joined d ys \<longleftrightarrow> xs = ys"
  by (metis UnCI split_on_joined)

fun head_tail_ok :: "(char \<Rightarrow> bool) \<Rightarrow> (char \<Rightarrow> bool) \<Rightarrow> string \<Rightarrow> bool" where
  "head_tail_ok p q [] = False"
| "head_tail_ok p q (c # cs) = (p c \<and> list_all q cs)"

text \<open>\<open>_CONTRACT_RE = ^[a-z][a-z0-9-]*(?:\.[a-z][a-z0-9-]*)+$\<close>\<close>

definition contract_char :: "char \<Rightarrow> bool" where
  "contract_char c \<longleftrightarrow> is_lower c \<or> is_digit c \<or> c = CHR ''-''"

definition is_contract_name :: "string \<Rightarrow> bool" where
  "is_contract_name s =
     (let ws = split_on (CHR ''.'') s
      in 2 \<le> length ws \<and> list_all (head_tail_ok is_lower contract_char) ws)"

section \<open>Explicit bindings\<close>

text \<open>
  Strings are sequences of the code points 0 to 255. \<open>str.strip\<close> removes blanks at both
  ends; the control characters among them are refused anywhere.
\<close>

definition is_control :: "char \<Rightarrow> bool" where
  "is_control c \<longleftrightarrow> code_in 0 31 c \<or> code_in 127 127 c"

definition is_blank :: "char \<Rightarrow> bool" where
  "is_blank c \<longleftrightarrow> code_in 9 13 c \<or> code_in 28 32 c \<or> code_in 133 133 c \<or> code_in 160 160 c"

definition is_explicit :: "string \<Rightarrow> bool" where
  "is_explicit s \<longleftrightarrow>
     s \<noteq> [] \<and> \<not> is_blank (hd s) \<and> \<not> is_blank (last s) \<and> list_all (\<lambda>c. \<not> is_control c) s"

lemmas explicit_eval = is_explicit_def is_control_def is_blank_def char_class_defs

end
