(* ===== verification/Authority_Model.thy ===== *)
theory Authority_Model
  imports JL_Prelude
begin

text \<open>
  The data model of src/src/jlmirror_authority/model.py: principals, authentication
  strength evidence, authorization declarations, tenant contexts and secret references,
  each with the check its constructor runs. \<open>isinstance\<close> tests on enum and record fields
  hold by typing; everything else of each \<open>__post_init__\<close> is written out.
\<close>

section \<open>Canonical enumerations\<close>

datatype principal_kind =
    HumanBrowserSession | MachineApiPrincipal | InternalServicePrincipal
  | PlatformAdminPrincipal | ScheduledSystemProcess

datatype scope_class = ScopePlatform | ScopeTenant | ScopeResource

datatype tenant_requirement = TenantNone | TenantRequired | ExplicitCrossTenantPrivileged

datatype step_up_class = StepUpNone | StepUpPolicyDriven | StepUpRequired

datatype audit_class = AuditNone | AuditNormal | AuditPrivileged | AuditSecurityCritical

datatype environment_class = EnvDevelopment | EnvValidation | EnvProduction | EnvRecovery

fun environment_value :: "environment_class \<Rightarrow> string" where
  "environment_value EnvDevelopment = ''environment.development@1''"
| "environment_value EnvValidation = ''environment.validation@1''"
| "environment_value EnvProduction = ''environment.production@1''"
| "environment_value EnvRecovery = ''environment.recovery@1''"

section \<open>Grammars of this package\<close>

definition action_char :: "char \<Rightarrow> bool" where
  "action_char c \<longleftrightarrow> is_lower c \<or> is_digit c \<or> c = CHR ''_''"

text \<open>\<open>_ACTION_RE = ^[a-z][a-z0-9_]*(?:\.[a-z][a-z0-9_]*){2,}$\<close>\<close>

definition is_action :: "string \<Rightarrow> bool" where
  "is_action s =
     (let ws = split_on (CHR ''.'') s
      in 3 \<le> length ws \<and> list_all (head_tail_ok is_lower action_char) ws)"

text \<open>\<open>_VERSIONED_ID_RE = ^[a-z][a-z0-9-]*(?:\.[a-z0-9-]+)+@[1-9][0-9]*$\<close>\<close>

definition is_versioned_id :: "string \<Rightarrow> bool" where
  "is_versioned_id s =
     (case split_on (CHR ''@'') s of
        [body, version] \<Rightarrow>
          head_tail_ok (\<lambda>c. is_digit c \<and> c \<noteq> CHR ''0'') is_digit version \<and>
          (case split_on (CHR ''.'') body of
             w # w' # ws \<Rightarrow>
               head_tail_ok is_lower contract_char w \<and>
               list_all (head_tail_ok contract_char contract_char) (w' # ws)
           | _ \<Rightarrow> False)
      | _ \<Rightarrow> False)"

definition starts_with :: "string \<Rightarrow> string \<Rightarrow> bool" where
  "starts_with p s \<longleftrightarrow> take (length p) s = p"

definition is_versioned_in :: "string \<Rightarrow> string \<Rightarrow> bool" where
  "is_versioned_in p s \<longleftrightarrow> is_versioned_id s \<and> starts_with p s"

section \<open>Principals\<close>

record principal =
  pr_principal_id :: string
  pr_kind :: principal_kind
  pr_credential_generation :: string
  pr_active :: bool

definition valid_principal :: "principal \<Rightarrow> bool" where
  "valid_principal p \<longleftrightarrow>
     is_identifier (pr_principal_id p) \<and> is_identifier (pr_credential_generation p)"

definition is_human_kind :: "principal_kind \<Rightarrow> bool" where
  "is_human_kind k \<longleftrightarrow> k \<in> {HumanBrowserSession, PlatformAdminPrincipal}"

section \<open>Authentication-strength evidence\<close>

record strength_evidence =
  se_issuer :: string
  se_acr :: "string option"
  se_amr :: "string set"
  se_authenticated_at :: datetime
  se_evidence_expires_at :: datetime
  se_policy_version :: string
  se_principal_id :: "string option"
  se_principal_credential_generation :: "string option"

definition aware_ordered :: "datetime \<Rightarrow> datetime \<Rightarrow> bool" where
  "aware_ordered a b =
     (case (a, b) of (Aware s, Aware t) \<Rightarrow> s < t | _ \<Rightarrow> False)"

lemma aware_ordered_iff: "aware_ordered a b \<longleftrightarrow> (\<exists>s t. a = Aware s \<and> b = Aware t \<and> s < t)"
  by (cases a; cases b) (auto simp: aware_ordered_def)

definition valid_strength_evidence :: "strength_evidence \<Rightarrow> bool" where
  "valid_strength_evidence e \<longleftrightarrow>
     opt_identifier (se_principal_id e) \<and>
     opt_identifier (se_principal_credential_generation e) \<and>
     (se_principal_id e = None \<longleftrightarrow> se_principal_credential_generation e = None) \<and>
     is_identifier (se_issuer e) \<and>
     opt_identifier (se_acr e) \<and>
     (\<forall>x\<in>se_amr e. is_identifier x) \<and>
     aware_ordered (se_authenticated_at e) (se_evidence_expires_at e) \<and>
     is_identifier (se_policy_version e)"

text \<open>\<open>authenticated <= now < expires\<close>, with Python's left-to-right evaluation.\<close>

definition window_contains :: "datetime \<Rightarrow> datetime \<Rightarrow> datetime \<Rightarrow> bool res" where
  "window_contains a n b =
     bindR (aware a) (\<lambda>from. bindR (aware n) (\<lambda>now.
       if from \<le> now then bindR (aware b) (\<lambda>until. Inr (now < until)) else Inr False))"

lemma window_contains_True_iff [res_simps]:
  "window_contains a n b = Inr True \<longleftrightarrow>
     (\<exists>s t u. a = Aware s \<and> n = Aware t \<and> b = Aware u \<and> s \<le> t \<and> t < u)"
  by (cases a; cases n; cases b) (auto simp: window_contains_def)

definition strength_is_current :: "strength_evidence \<Rightarrow> datetime \<Rightarrow> bool res" where
  "strength_is_current e now =
     window_contains (se_authenticated_at e) now (se_evidence_expires_at e)"

section \<open>Authorization declarations\<close>

record authorization_declaration =
  ad_action :: string
  ad_scope :: scope_class
  ad_tenant_required :: bool
  ad_step_up :: step_up_class
  ad_audit_class :: audit_class
  ad_resource_scope :: "string option"
  ad_strength_policy_id :: "string option"
  ad_tenant_requirement :: "tenant_requirement option"

definition canonical_requirement :: "authorization_declaration \<Rightarrow> tenant_requirement" where
  "canonical_requirement d =
     (case ad_tenant_requirement d of
        None \<Rightarrow> if ad_tenant_required d then TenantRequired else TenantNone
      | Some r \<Rightarrow> r)"

text \<open>
  The constructor fills in \<open>tenant_requirement\<close> and rejects contradictions; every check
  raises the same class, so they are one conjunction, in the order of the code.
\<close>

definition declaration_admissible :: "authorization_declaration \<Rightarrow> bool" where
  "declaration_admissible d \<longleftrightarrow>
     is_action (ad_action d) \<and>
     opt_identifier (ad_resource_scope d) \<and>
     (ad_scope d = ScopeResource \<longleftrightarrow> ad_resource_scope d \<noteq> None) \<and>
     opt_identifier (ad_strength_policy_id d) \<and>
     (ad_step_up d = StepUpNone \<longleftrightarrow> ad_strength_policy_id d = None) \<and>
     (ad_tenant_requirement d = None \<or>
      ad_tenant_required d = (canonical_requirement d = TenantRequired)) \<and>
     (ad_scope d \<in> {ScopeTenant, ScopeResource} \<longrightarrow>
        canonical_requirement d = TenantRequired) \<and>
     (canonical_requirement d = ExplicitCrossTenantPrivileged \<longrightarrow>
        ad_scope d = ScopePlatform \<and>
        ad_audit_class d \<in> {AuditPrivileged, AuditSecurityCritical})"

definition authorization_declaration_init ::
  "authorization_declaration \<Rightarrow> authorization_declaration res" where
  "authorization_declaration_init d =
     (if declaration_admissible d
      then Inr (d\<lparr>ad_tenant_requirement := Some (canonical_requirement d)\<rparr>)
      else Inl ValueError)"

lemma canonical_requirement_init [simp]:
  "canonical_requirement (d\<lparr>ad_tenant_requirement := Some r\<rparr>) = r"
  by (simp add: canonical_requirement_def)

lemma authorization_declaration_init_Inr_iff [res_simps]:
  "authorization_declaration_init d = Inr d' \<longleftrightarrow>
     declaration_admissible d \<and>
     d' = d\<lparr>ad_tenant_requirement := Some (canonical_requirement d)\<rparr>"
  by (auto simp: authorization_declaration_init_def)

text \<open>
  A constructed declaration carries its requirement and satisfies the conditions again,
  so re-running the constructor (\<open>dataclasses.replace\<close>) accepts it unchanged.
\<close>

definition declaration_ok :: "authorization_declaration \<Rightarrow> bool" where
  "declaration_ok d \<longleftrightarrow>
     declaration_admissible d \<and> ad_tenant_requirement d = Some (canonical_requirement d)"

lemma declaration_admissible_init:
  assumes "declaration_admissible d"
  shows "declaration_admissible (d\<lparr>ad_tenant_requirement := Some (canonical_requirement d)\<rparr>)"
proof -
  have flag: "ad_tenant_required d = (canonical_requirement d = TenantRequired)"
  proof (cases "ad_tenant_requirement d")
    case None
    then show ?thesis by (simp add: canonical_requirement_def)
  next
    case (Some r)
    from assms have "ad_tenant_requirement d = None \<or>
        ad_tenant_required d = (canonical_requirement d = TenantRequired)"
      unfolding declaration_admissible_def by blast
    with Some show ?thesis by simp
  qed
  from assms flag show ?thesis
    unfolding declaration_admissible_def canonical_requirement_init
    by (simp (no_asm)) blast
qed

lemma authorization_declaration_init_ok:
  "authorization_declaration_init d = Inr d' \<Longrightarrow> declaration_ok d'"
  by (auto simp: res_simps declaration_ok_def declaration_admissible_init)

lemma authorization_declaration_init_idem:
  "declaration_ok d \<Longrightarrow> authorization_declaration_init d = Inr d"
  by (cases d) (auto simp: res_simps declaration_ok_def)

section \<open>Tenant contexts\<close>

record tenant_context =
  tc_tenant_id :: string
  tc_principal_id :: string
  tc_principal_kind :: principal_kind
  tc_principal_credential_generation :: string
  tc_cell_id :: string
  tc_placement_version :: string
  tc_runtime_generation :: string
  tc_runtime_profile_id :: string
  tc_runtime_isolation_class :: string
  tc_configuration_generation :: string
  tc_workload_credential_generation :: string
  tc_network_policy_generation :: string
  tc_environment_class :: environment_class
  tc_isolation_class :: string
  tc_fence_scope_id :: string
  tc_fence_epoch :: int
  tc_constructed_at :: datetime
  tc_membership_id :: "string option"
  tc_authorization_context :: "string option"
  tc_request_id :: "string option"
  tc_correlation_id :: "string option"
  tc_causation_id :: "string option"
  tc_operation_id :: "string option"

definition valid_tenant_context :: "tenant_context \<Rightarrow> bool" where
  "valid_tenant_context c \<longleftrightarrow>
     list_all is_identifier
       [tc_tenant_id c, tc_principal_id c, tc_principal_credential_generation c, tc_cell_id c,
        tc_placement_version c, tc_runtime_generation c, tc_configuration_generation c,
        tc_workload_credential_generation c, tc_network_policy_generation c,
        tc_isolation_class c, tc_fence_scope_id c] \<and>
     is_versioned_in ''runtime.'' (tc_runtime_profile_id c) \<and>
     is_versioned_in ''isolation.'' (tc_runtime_isolation_class c) \<and>
     0 < tc_fence_epoch c \<and>
     is_aware (tc_constructed_at c) \<and>
     list_all opt_identifier
       [tc_membership_id c, tc_authorization_context c, tc_request_id c, tc_correlation_id c,
        tc_causation_id c, tc_operation_id c]"

definition matches_principal :: "tenant_context \<Rightarrow> principal \<Rightarrow> bool" where
  "matches_principal c p \<longleftrightarrow>
     pr_active p \<and>
     tc_principal_id c = pr_principal_id p \<and>
     tc_principal_kind c = pr_kind p \<and>
     tc_principal_credential_generation c = pr_credential_generation p"

text \<open>A context admits at most one active principal.\<close>

lemma matches_principal_unique:
  "matches_principal c p \<Longrightarrow> matches_principal c q \<Longrightarrow> p = q"
  by (cases p; cases q) (auto simp: matches_principal_def)

section \<open>Secret references\<close>

record secret_reference =
  sr_reference_id :: string
  sr_reference_class :: string
  sr_generation :: string

definition valid_secret_reference :: "secret_reference \<Rightarrow> bool" where
  "valid_secret_reference r \<longleftrightarrow>
     is_identifier (sr_reference_id r) \<and>
     is_versioned_in ''secretref.'' (sr_reference_class r) \<and>
     is_identifier (sr_generation r)"

end
