(* ===== verification/Async_Model.thy ===== *)
theory Async_Model
  imports Authority_Model
begin

text \<open>
  The data model of src/src/jlmirror_async/model.py: message identities, comparison
  evidence, logical messages, operation snapshots and publication receipts, each with
  the check of its constructor.
\<close>

section \<open>Enumerations\<close>

datatype message_class =
    DomainEvent | IntegrationEvent | JobCommand | ProcessSignal
  | RealtimeProjection | OutboundWebhookDelivery

datatype message_scope = MsgTenant | MsgGlobal

datatype equivalence_relation = Equivalent | Mismatch | Unknown

datatype inbox_state =
    Admitted | Processing | InboxCompleted | InboxFailedTerminal
  | InboxReconciliationRequired | InboxQuarantined

datatype outbox_dispatch_state = Pending | Claimed | Published | Quarantined

datatype operation_state =
    Prepared | Attempting | OpCompleted | OpReconciliationRequired | OpFailedTerminal

datatype reconciliation_resolution = EffectConfirmed | EffectProvenAbsent | StillUnknown

section \<open>Comparison evidence\<close>

record comparison_evidence =
  ce_profile_id :: string
  ce_profile_version :: string
  ce_form :: string
  ce_evidence :: "nat list"
  ce_verifier_generation :: "string option"

definition valid_comparison_evidence :: "comparison_evidence \<Rightarrow> bool" where
  "valid_comparison_evidence c \<longleftrightarrow>
     is_identifier (ce_profile_id c) \<and> is_identifier (ce_profile_version c) \<and>
     is_identifier (ce_form c) \<and> opt_identifier (ce_verifier_generation c) \<and>
     ce_evidence c \<noteq> []"

text \<open>
  The bytes are compared only under one profile, version, form and verifier
  generation; \<open>hmac.compare_digest\<close> is equality of byte strings.
\<close>

definition relation_to :: "comparison_evidence \<Rightarrow> comparison_evidence \<Rightarrow> equivalence_relation" where
  "relation_to a b =
     (if ce_profile_id a \<noteq> ce_profile_id b \<or>
         ce_profile_version a \<noteq> ce_profile_version b \<or>
         ce_form a \<noteq> ce_form b \<or>
         ce_verifier_generation a \<noteq> ce_verifier_generation b
      then Unknown
      else if ce_evidence a = ce_evidence b then Equivalent else Mismatch)"

lemma relation_to_Equivalent_iff: "relation_to a b = Equivalent \<longleftrightarrow> a = b"
  by (cases a; cases b) (auto simp: relation_to_def)

lemma relation_to_refl [simp]: "relation_to a a = Equivalent"
  by (simp add: relation_to_def)

lemma relation_to_sym: "relation_to a b = relation_to b a"
  by (auto simp: relation_to_def)

section \<open>Logical messages\<close>

record message_subject =
  ms_subject_type :: string
  ms_subject_id :: string

definition valid_message_subject :: "message_subject \<Rightarrow> bool" where
  "valid_message_subject m \<longleftrightarrow>
     is_identifier (ms_subject_type m) \<and> is_identifier (ms_subject_id m)"

record logical_message =
  lm_message_id :: string
  lm_producer_message_scope :: string
  lm_message_class :: message_class
  lm_contract_name :: string
  lm_contract_version :: string
  lm_producer :: string
  lm_scope :: message_scope
  lm_correlation_id :: string
  lm_data_classification :: string
  lm_serialization_profile_id :: string
  lm_encoded_payload :: "nat list"
  lm_comparison_evidence :: comparison_evidence
  lm_tenant_id :: "string option"
  lm_producer_generation :: "string option"
  lm_causation_id :: "string option"
  lm_subject :: "message_subject option"
  lm_occurred_at :: "datetime option"
  lm_created_at :: "datetime option"
  lm_operation_id :: "string option"
  lm_not_before :: "datetime option"
  lm_deadline :: "datetime option"

definition is_fact_class :: "message_class \<Rightarrow> bool" where
  "is_fact_class c \<longleftrightarrow> c \<in> {DomainEvent, IntegrationEvent, RealtimeProjection}"

definition is_work_class :: "message_class \<Rightarrow> bool" where
  "is_work_class c \<longleftrightarrow> c \<in> {JobCommand, ProcessSignal, OutboundWebhookDelivery}"

definition opt_aware :: "datetime option \<Rightarrow> bool" where
  "opt_aware d = (case d of None \<Rightarrow> False | Some t \<Rightarrow> is_aware t)"

text \<open>\<open>later\<close> compares two timestamps that the constructor has found aware.\<close>

definition not_before_ok :: "datetime option \<Rightarrow> datetime option \<Rightarrow> bool" where
  "not_before_ok lower upper =
     (case (lower, upper) of
        (Some (Aware s), Some (Aware t)) \<Rightarrow> s \<le> t
      | (_, None) \<Rightarrow> True
      | (None, Some (Aware _)) \<Rightarrow> True
      | _ \<Rightarrow> False)"

definition message_times_ok :: "logical_message \<Rightarrow> bool" where
  "message_times_ok m =
     (if is_fact_class (lm_message_class m)
      then opt_aware (lm_occurred_at m) \<and> lm_created_at m = None
      else
        opt_aware (lm_created_at m) \<and> lm_occurred_at m = None \<and>
        (lm_message_class m = JobCommand \<longrightarrow> lm_operation_id m \<noteq> None) \<and>
        (lm_message_class m \<noteq> JobCommand \<longrightarrow> lm_not_before m = None \<and> lm_deadline m = None) \<and>
        not_before_ok (lm_created_at m) (lm_not_before m) \<and>
        not_before_ok (lm_created_at m) (lm_deadline m) \<and>
        not_before_ok (lm_not_before m) (lm_deadline m))"

definition valid_logical_message :: "logical_message \<Rightarrow> bool" where
  "valid_logical_message m \<longleftrightarrow>
     is_identifier (lm_message_id m) \<and>
     is_identifier (lm_producer_message_scope m) \<and>
     is_contract_name (lm_contract_name m) \<and>
     is_identifier (lm_contract_version m) \<and>
     is_identifier (lm_producer m) \<and>
     is_identifier (lm_correlation_id m) \<and>
     is_identifier (lm_data_classification m) \<and>
     is_identifier (lm_serialization_profile_id m) \<and>
     opt_identifier (lm_producer_generation m) \<and>
     opt_identifier (lm_causation_id m) \<and>
     opt_identifier (lm_operation_id m) \<and>
     (if lm_scope m = MsgTenant
      then lm_tenant_id m \<noteq> None \<and> opt_identifier (lm_tenant_id m)
      else lm_tenant_id m = None) \<and>
     message_times_ok m"

definition logical_message_init :: "logical_message \<Rightarrow> logical_message res" where
  "logical_message_init = construct valid_logical_message ValueError"

definition outbox_identity :: "logical_message \<Rightarrow> string \<times> string" where
  "outbox_identity m = (lm_producer_message_scope m, lm_message_id m)"

text \<open>Every message class is a fact class or a work class, never both.\<close>

lemma message_class_partition: "is_work_class c \<longleftrightarrow> \<not> is_fact_class c"
  by (cases c) (simp_all add: is_work_class_def is_fact_class_def)

lemma valid_message_one_clock:
  "valid_logical_message m \<Longrightarrow> (lm_occurred_at m = None) \<longleftrightarrow> (lm_created_at m \<noteq> None)"
  by (auto simp: valid_logical_message_def message_times_ok_def opt_aware_def
      split: if_splits option.splits)

lemma valid_job_command_schedule:
  "valid_logical_message m \<Longrightarrow> lm_message_class m = JobCommand \<Longrightarrow>
   lm_not_before m = Some (Aware s) \<Longrightarrow> lm_deadline m = Some (Aware t) \<Longrightarrow> s \<le> t"
  by (auto simp: valid_logical_message_def message_times_ok_def is_fact_class_def
      not_before_ok_def)

section \<open>Inbox identities and results\<close>

record scoped_message_identity =
  si_consumer_contract :: string
  si_message_identity_scope :: string
  si_message_id :: string
  si_tenant_id :: "string option"

definition valid_scoped_identity :: "scoped_message_identity \<Rightarrow> bool" where
  "valid_scoped_identity i \<longleftrightarrow>
     is_contract_name (si_consumer_contract i) \<and>
     is_identifier (si_message_identity_scope i) \<and>
     is_identifier (si_message_id i) \<and> opt_identifier (si_tenant_id i)"

type_synonym inbox_key = "string \<times> string \<times> string"

definition identity_key :: "scoped_message_identity \<Rightarrow> inbox_key" where
  "identity_key i = (si_consumer_contract i, si_message_identity_scope i, si_message_id i)"

text \<open>The key forgets the tenant: only key and tenant together determine an identity.\<close>

lemma identity_key_tenant_inj:
  "identity_key i = identity_key j \<Longrightarrow> si_tenant_id i = si_tenant_id j \<Longrightarrow> i = j"
  by (cases i; cases j) (auto simp: identity_key_def)

record effect_result_link =
  rl_result_id :: string
  rl_result_kind :: string

definition valid_result_link :: "effect_result_link \<Rightarrow> bool" where
  "valid_result_link r \<longleftrightarrow> is_identifier (rl_result_id r) \<and> is_identifier (rl_result_kind r)"

section \<open>Cross-authority operation snapshots\<close>

record operation_snapshot =
  os_operation_id :: string
  os_state :: operation_state
  os_attempt_generation :: int
  os_owner_contract :: "string option"
  os_tenant_id :: "string option"
  os_outcome :: "effect_result_link option"
  os_reconciliation_resolution :: "reconciliation_resolution option"
  os_reconciliation_revision :: "string option"
  os_reconciliation_attempt_generation :: "int option"

definition reconciliation_fields_together :: "operation_snapshot \<Rightarrow> bool" where
  "reconciliation_fields_together s \<longleftrightarrow>
     (os_reconciliation_resolution s = None \<longleftrightarrow> os_reconciliation_revision s = None) \<and>
     (os_reconciliation_revision s = None \<longleftrightarrow> os_reconciliation_attempt_generation s = None)"

definition resolution_state_ok :: "operation_snapshot \<Rightarrow> bool" where
  "resolution_state_ok s =
     (case os_reconciliation_resolution s of
        Some EffectConfirmed \<Rightarrow> os_state s = OpCompleted \<and> os_outcome s \<noteq> None
      | Some EffectProvenAbsent \<Rightarrow> os_state s = Prepared \<and> os_outcome s = None
      | Some StillUnknown \<Rightarrow> os_state s = OpReconciliationRequired \<and> os_outcome s = None
      | None \<Rightarrow> True)"

definition valid_operation_snapshot :: "operation_snapshot \<Rightarrow> bool" where
  "valid_operation_snapshot s \<longleftrightarrow>
     is_identifier (os_operation_id s) \<and>
     opt_identifier (os_owner_contract s) \<and>
     opt_identifier (os_tenant_id s) \<and>
     0 \<le> os_attempt_generation s \<and>
     opt_identifier (os_reconciliation_revision s) \<and>
     (case os_reconciliation_attempt_generation s of
        None \<Rightarrow> True | Some g \<Rightarrow> 1 \<le> g \<and> g = os_attempt_generation s) \<and>
     reconciliation_fields_together s \<and>
     (os_state s = OpCompleted \<longleftrightarrow> os_outcome s \<noteq> None) \<and>
     resolution_state_ok s"

definition operation_snapshot_init :: "operation_snapshot \<Rightarrow> operation_snapshot res" where
  "operation_snapshot_init = construct valid_operation_snapshot ValueError"

section \<open>Broker receipts\<close>

record publication_receipt =
  br_receipt_id :: string
  br_observed_at :: datetime

definition valid_publication_receipt :: "publication_receipt \<Rightarrow> bool" where
  "valid_publication_receipt r \<longleftrightarrow> is_identifier (br_receipt_id r) \<and> is_aware (br_observed_at r)"

section \<open>Sample values for the worked instances\<close>

definition sample_evidence :: "nat list \<Rightarrow> comparison_evidence" where
  "sample_evidence b =
     \<lparr>ce_profile_id = ''cmp'', ce_profile_version = ''1'', ce_form = ''digest'',
      ce_evidence = b, ce_verifier_generation = None\<rparr>"

definition sample_message :: "string \<Rightarrow> nat list \<Rightarrow> logical_message" where
  "sample_message mid b =
     \<lparr>lm_message_id = mid, lm_producer_message_scope = ''scope'',
      lm_message_class = DomainEvent, lm_contract_name = ''mon.host'',
      lm_contract_version = ''1'', lm_producer = ''prod'', lm_scope = MsgGlobal,
      lm_correlation_id = ''corr'', lm_data_classification = ''internal'',
      lm_serialization_profile_id = ''json'', lm_encoded_payload = b,
      lm_comparison_evidence = sample_evidence b, lm_tenant_id = None,
      lm_producer_generation = None, lm_causation_id = None, lm_subject = None,
      lm_occurred_at = Some (Aware (At 0)), lm_created_at = None, lm_operation_id = None,
      lm_not_before = None, lm_deadline = None\<rparr>"

lemma sample_message_fields [simp]:
  "outbox_identity (sample_message mid b) = (''scope'', mid)"
  "lm_comparison_evidence (sample_message mid b) = sample_evidence b"
  by (simp_all add: outbox_identity_def sample_message_def)

lemma sample_evidence_eq [simp]: "sample_evidence a = sample_evidence b \<longleftrightarrow> a = b"
  by (simp add: sample_evidence_def)

lemma valid_sample_message: "valid_logical_message (sample_message ''m1'' b)"
  by (simp add: sample_message_def valid_logical_message_def message_times_ok_def
      is_fact_class_def opt_aware_def is_aware_def is_contract_name_def contract_char_def
      grammar_eval Let_def)

end
