(* ===== verification/Lease_Protocol.thy ===== *)
theory Lease_Protocol
  imports JL_Prelude
begin

text \<open>
  The contract that the three ledgers of src/src/jlmirror_async share. A record is held
  under a lease that carries the record's generation; generations never decrease, and a
  lease appears only together with a strictly larger generation. Whatever satisfies
  these laws never lets a lost lease act again.
\<close>

locale fenced_lease =
  fixes step :: "'s \<Rightarrow> 's \<Rightarrow> bool"
    and inv :: "'s \<Rightarrow> bool"
    and generation :: "'s \<Rightarrow> 'k \<Rightarrow> int"
    and lease :: "'s \<Rightarrow> 'k \<Rightarrow> 'c option"
    and lease_generation :: "'c \<Rightarrow> int"
  assumes inv_step: "inv s \<Longrightarrow> step s t \<Longrightarrow> inv t"
    and lease_current: "inv s \<Longrightarrow> lease s k = Some c \<Longrightarrow> lease_generation c = generation s k"
    and generation_step: "inv s \<Longrightarrow> step s t \<Longrightarrow> generation s k \<le> generation t k"
    and lease_step: "inv s \<Longrightarrow> step s t \<Longrightarrow> lease t k = Some c \<Longrightarrow>
          lease s k = Some c \<or> generation s k < generation t k"
begin

lemma inv_run: "step\<^sup>*\<^sup>* s t \<Longrightarrow> inv s \<Longrightarrow> inv t"
  by (induction rule: rtranclp_induct) (auto intro: inv_step)

lemma generation_run: "step\<^sup>*\<^sup>* s t \<Longrightarrow> inv s \<Longrightarrow> generation s k \<le> generation t k"
proof (induction rule: rtranclp_induct)
  case (step t u)
  then show ?case
    using generation_step [of t u k] inv_run [of s t] by fastforce
qed simp

lemma lost_lease_stays_lost:
  assumes "step\<^sup>*\<^sup>* s t" "inv s" "lease s k \<noteq> Some c" "lease_generation c \<le> generation s k"
  shows "lease t k \<noteq> Some c"
  using assms
proof (induction rule: rtranclp_induct)
  case (step t u)
  have inv_t: "inv t" using step.hyps(1) step.prems(1) by (rule inv_run)
  have gen: "generation s k \<le> generation t k"
    using step.hyps(1) step.prems(1) by (rule generation_run)
  show ?case
  proof
    assume held: "lease u k = Some c"
    from lease_step [OF inv_t step.hyps(2) held] step
    have "generation t k < generation u k" by blast
    moreover from lease_current [OF inv_step [OF inv_t step.hyps(2)] held]
    have "lease_generation c = generation u k" .
    ultimately show False using gen step.prems(3) by linarith
  qed
qed simp

lemma generation_identifies_lease:
  assumes "step\<^sup>*\<^sup>* s t" "inv s" "lease s k = Some c" "lease t k = Some d"
    "lease_generation d = lease_generation c"
  shows "d = c"
proof (rule ccontr)
  assume "d \<noteq> c"
  moreover have "lease_generation d \<le> generation s k"
    using lease_current [OF assms(2,3)] assms(5) by simp
  ultimately have "lease t k \<noteq> Some d"
    using lost_lease_stays_lost [OF assms(1,2), of k d] assms(3) by simp
  with assms(4) show False by simp
qed

lemma successor_generation:
  assumes "step\<^sup>*\<^sup>* s t" "inv s" "lease s k = Some c" "lease t k = Some d" "d \<noteq> c"
  shows "lease_generation c < lease_generation d"
proof -
  have "lease_generation c = generation s k" by (rule lease_current [OF assms(2,3)])
  moreover have "generation s k \<le> generation t k" by (rule generation_run [OF assms(1,2)])
  moreover have "lease_generation d = generation t k"
    by (rule lease_current [OF inv_run [OF assms(1,2)] assms(4)])
  ultimately show ?thesis
    using generation_identifies_lease [OF assms(1,2,3,4)] assms(5) by fastforce
qed

end

end
