(* ===== verification/Outbox.thy ===== *)
theory Outbox
  imports Async_Model Lease_Protocol
begin

text \<open>
  src/src/jlmirror_async/outbox.py: the outbox ledger. A record holds an immutable
  message and a mutable dispatch state; dispatchers hold it under expiring claims. Each
  method runs under the ledger's lock and is one operation on the ledger state.
\<close>

section \<open>State\<close>

record outbox_claim =
  oc_record_id :: int
  oc_owner_id :: string
  oc_claim_generation :: int
  oc_claim_expires_at :: instant
  oc_message :: logical_message

record outbox_entry =
  oe_record_id :: int
  oe_message :: logical_message
  oe_state :: outbox_dispatch_state
  oe_claim_owner :: "string option"
  oe_claim_generation :: int
  oe_claim_expires_at :: "instant option"
  oe_attempt_count :: int
  oe_last_error_class :: "string option"
  oe_publication_receipt :: "publication_receipt option"

record outbox =
  ob_next_id :: int
  ob_by_id :: "(int, outbox_entry) dict"
  ob_by_message :: "(string \<times> string, int) dict"

definition empty_outbox :: outbox where
  "empty_outbox = \<lparr>ob_next_id = 1, ob_by_id = [], ob_by_message = []\<rparr>"

definition new_outbox_entry :: "int \<Rightarrow> logical_message \<Rightarrow> outbox_entry" where
  "new_outbox_entry rid m =
     \<lparr>oe_record_id = rid, oe_message = m, oe_state = Pending, oe_claim_owner = None,
      oe_claim_generation = 0, oe_claim_expires_at = None, oe_attempt_count = 0,
      oe_last_error_class = None, oe_publication_receipt = None\<rparr>"

definition put_entry :: "int \<Rightarrow> outbox_entry \<Rightarrow> outbox \<Rightarrow> outbox" where
  "put_entry rid e s = s\<lparr>ob_by_id := AList.update rid e (ob_by_id s)\<rparr>"

section \<open>Constructing a tenant message\<close>

text \<open>
  The caller supplies everything but scope and tenant; both come from the trusted
  context. The draft's scope and tenant are overwritten, so no caller value reaches them.
\<close>

definition tenant_message_from_context ::
  "tenant_context \<Rightarrow> logical_message \<Rightarrow> logical_message res" where
  "tenant_message_from_context c draft =
     logical_message_init
       (draft\<lparr>lm_scope := MsgTenant, lm_tenant_id := Some (tc_tenant_id c)\<rparr>)"

section \<open>Operations\<close>

definition append_committed :: "logical_message \<Rightarrow> (outbox, int) op" where
  "append_committed m s =
     (case map_of (ob_by_message s) (outbox_identity m) of
        Some existing \<Rightarrow>
          (case map_of (ob_by_id s) existing of
             None \<Rightarrow> (Inl KeyError, s)
           | Some original \<Rightarrow>
               if relation_to (lm_comparison_evidence (oe_message original))
                    (lm_comparison_evidence m) \<noteq> Equivalent \<or> oe_message original \<noteq> m
               then (Inl InvalidTransition, s)
               else (Inr existing, s))
      | None \<Rightarrow>
          let rid = ob_next_id s in
          (Inr rid,
           s\<lparr>ob_next_id := rid + 1,
             ob_by_id := AList.update rid (new_outbox_entry rid m) (ob_by_id s),
             ob_by_message := AList.update (outbox_identity m) rid (ob_by_message s)\<rparr>))"

definition expire_entry :: "instant \<Rightarrow> outbox_entry \<Rightarrow> outbox_entry" where
  "expire_entry now e =
     (if oe_state e = Claimed \<and>
         (case oe_claim_expires_at e of None \<Rightarrow> False | Some x \<Rightarrow> x \<le> now)
      then e\<lparr>oe_state := Pending, oe_claim_owner := None, oe_claim_expires_at := None,
             oe_last_error_class :=
               Some ''dispatcher_claim_expired_outcome_not_proven_absent''\<rparr>
      else e)"

definition expire_claims_locked :: "instant \<Rightarrow> outbox \<Rightarrow> outbox" where
  "expire_claims_locked now s = s\<lparr>ob_by_id := map_vals (expire_entry now) (ob_by_id s)\<rparr>"

definition is_pending :: "outbox \<Rightarrow> int \<Rightarrow> bool" where
  "is_pending s rid =
     (case map_of (ob_by_id s) rid of None \<Rightarrow> False | Some e \<Rightarrow> oe_state e = Pending)"

definition claimed_entry :: "string \<Rightarrow> instant \<Rightarrow> outbox_entry \<Rightarrow> outbox_entry" where
  "claimed_entry owner expires e =
     e\<lparr>oe_state := Claimed, oe_claim_owner := Some owner,
       oe_claim_generation := oe_claim_generation e + 1,
       oe_claim_expires_at := Some expires, oe_attempt_count := oe_attempt_count e + 1\<rparr>"

definition claim_first_pending ::
  "string \<Rightarrow> instant \<Rightarrow> (outbox, outbox_claim option) op" where
  "claim_first_pending owner expires s =
     (case find (is_pending s) (sort (map fst (ob_by_id s))) of
        None \<Rightarrow> (Inr None, s)
      | Some rid \<Rightarrow>
          (case map_of (ob_by_id s) rid of
             None \<Rightarrow> (Inl KeyError, s)
           | Some e \<Rightarrow>
               let e' = claimed_entry owner expires e in
               (Inr (Some \<lparr>oc_record_id = rid, oc_owner_id = owner,
                           oc_claim_generation = oe_claim_generation e',
                           oc_claim_expires_at = expires, oc_message = oe_message e'\<rparr>),
                put_entry rid e' s)))"

definition claim_next ::
  "string \<Rightarrow> datetime \<Rightarrow> datetime \<Rightarrow> (outbox, outbox_claim option) op" where
  "claim_next owner observed_at claim_expires_at =
     thenS (ensureS (is_identifier owner) ValueError)
     (bindS (liftS (aware observed_at)) (\<lambda>now.
      bindS (liftS (aware claim_expires_at)) (\<lambda>expires.
      thenS (ensureS (now < expires) ValueError)
      (thenS (modifyS (expire_claims_locked now))
       (claim_first_pending owner expires)))))"

definition claim_matches :: "outbox_claim \<Rightarrow> outbox_entry \<Rightarrow> bool" where
  "claim_matches c e \<longleftrightarrow>
     oe_state e = Claimed \<and>
     oe_claim_owner e = Some (oc_owner_id c) \<and>
     oe_claim_generation e = oc_claim_generation c \<and>
     oe_claim_expires_at e = Some (oc_claim_expires_at c)"

definition require_current_claim :: "outbox_claim \<Rightarrow> instant \<Rightarrow> (outbox, outbox_entry) op" where
  "require_current_claim c now =
     thenS (modifyS (expire_claims_locked now))
     (\<lambda>s. case map_of (ob_by_id s) (oc_record_id c) of
        None \<Rightarrow> (Inl InvalidTransition, s)
      | Some e \<Rightarrow> if claim_matches c e then (Inr e, s) else (Inl InvalidTransition, s))"

definition settle_claim ::
  "outbox_claim \<Rightarrow> datetime \<Rightarrow> (outbox_entry \<Rightarrow> outbox_entry) \<Rightarrow> (outbox, unit) op" where
  "settle_claim c observed_at f =
     bindS (liftS (aware observed_at)) (\<lambda>now.
     bindS (require_current_claim c now) (\<lambda>e.
     modifyS (put_entry (oc_record_id c)
       ((f e)\<lparr>oe_claim_owner := None, oe_claim_expires_at := None\<rparr>))))"

definition mark_published ::
  "outbox_claim \<Rightarrow> publication_receipt \<Rightarrow> datetime \<Rightarrow> (outbox, unit) op" where
  "mark_published c receipt observed_at =
     settle_claim c observed_at
       (\<lambda>e. e\<lparr>oe_state := Published, oe_publication_receipt := Some receipt,
              oe_last_error_class := None\<rparr>)"

definition mark_publication_ambiguous :: "outbox_claim \<Rightarrow> datetime \<Rightarrow> (outbox, unit) op" where
  "mark_publication_ambiguous c observed_at =
     settle_claim c observed_at
       (\<lambda>e. e\<lparr>oe_state := Pending,
              oe_last_error_class := Some ''publication_outcome_ambiguous''\<rparr>)"

definition outbox_quarantine :: "outbox_claim \<Rightarrow> string \<Rightarrow> datetime \<Rightarrow> (outbox, unit) op" where
  "outbox_quarantine c error_class observed_at =
     thenS (ensureS (is_identifier error_class) ValueError)
     (settle_claim c observed_at
       (\<lambda>e. e\<lparr>oe_state := Quarantined, oe_last_error_class := Some error_class\<rparr>))"

definition release_claim :: "outbox_claim \<Rightarrow> string \<Rightarrow> datetime \<Rightarrow> (outbox, unit) op" where
  "release_claim c error_class observed_at =
     thenS (ensureS (is_identifier error_class) ValueError)
     (settle_claim c observed_at
       (\<lambda>e. e\<lparr>oe_state := Pending, oe_last_error_class := Some error_class\<rparr>))"

definition entry_field :: "(outbox_entry \<Rightarrow> 'a) \<Rightarrow> int \<Rightarrow> (outbox, 'a) op" where
  "entry_field f rid s =
     (case map_of (ob_by_id s) rid of None \<Rightarrow> (Inl KeyError, s) | Some e \<Rightarrow> (Inr (f e), s))"

definition outbox_message :: "int \<Rightarrow> (outbox, logical_message) op" where
  "outbox_message = entry_field oe_message"

definition outbox_state :: "int \<Rightarrow> (outbox, outbox_dispatch_state) op" where
  "outbox_state = entry_field oe_state"

definition outbox_attempt_count :: "int \<Rightarrow> (outbox, int) op" where
  "outbox_attempt_count = entry_field oe_attempt_count"

definition pending_now :: "outbox \<Rightarrow> logical_message list" where
  "pending_now s =
     map (oe_message \<circ> snd) (filter (\<lambda>(k, e). oe_state e = Pending) (ob_by_id s))"

definition pending_messages :: "datetime option \<Rightarrow> (outbox, logical_message list) op" where
  "pending_messages observed_at =
     (case observed_at of
        None \<Rightarrow> getS pending_now
      | Some t \<Rightarrow>
          bindS (liftS (aware t)) (\<lambda>now.
          thenS (modifyS (expire_claims_locked now)) (getS pending_now)))"

section \<open>The invariant of the ledger\<close>

definition entry_ok :: "outbox_entry \<Rightarrow> bool" where
  "entry_ok e \<longleftrightarrow>
     0 \<le> oe_claim_generation e \<and>
     oe_attempt_count e = oe_claim_generation e \<and>
     (oe_state e = Claimed \<longleftrightarrow> oe_claim_owner e \<noteq> None) \<and>
     (oe_state e = Claimed \<longleftrightarrow> oe_claim_expires_at e \<noteq> None) \<and>
     (oe_state e = Published \<longleftrightarrow> oe_publication_receipt e \<noteq> None) \<and>
     (oe_state e \<noteq> Pending \<longrightarrow> 1 \<le> oe_claim_generation e)"

text \<open>
  Record numbers are 1, 2, 3, ... in the order of the dictionary, every entry stands
  under its own number, and the message index is exactly the inverse of the entries'
  identities.
\<close>

definition outbox_inv :: "outbox \<Rightarrow> bool" where
  "outbox_inv s \<longleftrightarrow>
     1 \<le> ob_next_id s \<and>
     map fst (ob_by_id s) = [1..ob_next_id s - 1] \<and>
     (\<forall>rid e. map_of (ob_by_id s) rid = Some e \<longrightarrow> entry_ok e \<and> oe_record_id e = rid) \<and>
     (\<forall>k rid. map_of (ob_by_message s) k = Some rid \<longleftrightarrow>
        (\<exists>e. map_of (ob_by_id s) rid = Some e \<and> outbox_identity (oe_message e) = k))"

lemma outbox_inv_empty: "outbox_inv empty_outbox"
  by (simp add: outbox_inv_def empty_outbox_def)

lemma outbox_inv_entry:
  "outbox_inv s \<Longrightarrow> map_of (ob_by_id s) rid = Some e \<Longrightarrow> entry_ok e \<and> oe_record_id e = rid"
  by (simp add: outbox_inv_def)

lemma outbox_inv_index:
  "outbox_inv s \<Longrightarrow> map_of (ob_by_message s) k = Some rid \<longleftrightarrow>
     (\<exists>e. map_of (ob_by_id s) rid = Some e \<and> outbox_identity (oe_message e) = k)"
  unfolding outbox_inv_def by blast

lemma outbox_inv_fresh: "outbox_inv s \<Longrightarrow> map_of (ob_by_id s) (ob_next_id s) = None"
proof -
  assume "outbox_inv s"
  then have "ob_next_id s \<notin> set (map fst (ob_by_id s))"
    unfolding outbox_inv_def by (metis atLeastAtMost_iff set_upto zle_diff1_eq less_irrefl)
  then show ?thesis by (simp add: map_of_eq_None_iff)
qed

text \<open>Replacing an entry by one with the same message keeps the index correct.\<close>

lemma outbox_inv_put:
  assumes "outbox_inv s" "map_of (ob_by_id s) rid = Some e" "oe_message e' = oe_message e"
    "oe_record_id e' = oe_record_id e" "entry_ok e'"
  shows "outbox_inv (put_entry rid e' s)"
  using assms outbox_inv_entry [OF assms(1,2)]
  by (auto simp: outbox_inv_def put_entry_def keys_update_present)

section \<open>Elementary transitions\<close>

text \<open>
  Every method is a sequence of elementary transitions: a fresh record, an expiry sweep,
  a claim of a pending record, or the settlement of a claimed one.
\<close>

definition append_fresh :: "logical_message \<Rightarrow> outbox \<Rightarrow> outbox" where
  "append_fresh m s =
     s\<lparr>ob_next_id := ob_next_id s + 1,
       ob_by_id := AList.update (ob_next_id s) (new_outbox_entry (ob_next_id s) m) (ob_by_id s),
       ob_by_message := AList.update (outbox_identity m) (ob_next_id s) (ob_by_message s)\<rparr>"

definition settled_as :: "outbox_entry \<Rightarrow> outbox_entry \<Rightarrow> bool" where
  "settled_as e e' \<longleftrightarrow>
     oe_message e' = oe_message e \<and> oe_record_id e' = oe_record_id e \<and>
     oe_claim_generation e' = oe_claim_generation e \<and>
     oe_attempt_count e' = oe_attempt_count e \<and>
     oe_claim_owner e' = None \<and> oe_claim_expires_at e' = None \<and>
     oe_state e' \<noteq> Claimed \<and>
     (oe_publication_receipt e = None \<longrightarrow>
        (oe_state e' = Published \<longleftrightarrow> oe_publication_receipt e' \<noteq> None))"

inductive outbox_micro :: "outbox \<Rightarrow> outbox \<Rightarrow> bool" where
  micro_append: "map_of (ob_by_message s) (outbox_identity m) = None \<Longrightarrow>
     outbox_micro s (append_fresh m s)"
| micro_expire: "outbox_micro s (expire_claims_locked now s)"
| micro_claim: "map_of (ob_by_id s) rid = Some e \<Longrightarrow> oe_state e = Pending \<Longrightarrow>
     outbox_micro s (put_entry rid (claimed_entry owner expires e) s)"
| micro_settle: "map_of (ob_by_id s) rid = Some e \<Longrightarrow> oe_state e = Claimed \<Longrightarrow>
     settled_as e e' \<Longrightarrow> outbox_micro s (put_entry rid e' s)"

lemma expire_entry_frame [simp]:
  "oe_message (expire_entry now e) = oe_message e"
  "oe_record_id (expire_entry now e) = oe_record_id e"
  "oe_claim_generation (expire_entry now e) = oe_claim_generation e"
  "oe_attempt_count (expire_entry now e) = oe_attempt_count e"
  "oe_publication_receipt (expire_entry now e) = oe_publication_receipt e"
  by (simp_all add: expire_entry_def)

lemma entry_ok_expire: "entry_ok e \<Longrightarrow> entry_ok (expire_entry now e)"
  by (auto simp: entry_ok_def expire_entry_def)

lemma expire_claims_lookup [simp]:
  "map_of (ob_by_id (expire_claims_locked now s)) rid =
     map_option (expire_entry now) (map_of (ob_by_id s) rid)"
  by (simp add: expire_claims_locked_def)

lemma expire_claims_frame [simp]:
  "ob_next_id (expire_claims_locked now s) = ob_next_id s"
  "ob_by_message (expire_claims_locked now s) = ob_by_message s"
  "map fst (ob_by_id (expire_claims_locked now s)) = map fst (ob_by_id s)"
  by (simp_all add: expire_claims_locked_def)

lemma put_entry_lookup [simp]:
  "map_of (ob_by_id (put_entry rid e s)) k = (if k = rid then Some e else map_of (ob_by_id s) k)"
  by (simp add: put_entry_def)

lemma put_entry_frame [simp]:
  "ob_next_id (put_entry rid e s) = ob_next_id s"
  "ob_by_message (put_entry rid e s) = ob_by_message s"
  by (simp_all add: put_entry_def)

lemma append_fresh_lookup [simp]:
  "map_of (ob_by_id (append_fresh m s)) k =
     (if k = ob_next_id s then Some (new_outbox_entry (ob_next_id s) m)
      else map_of (ob_by_id s) k)"
  by (simp add: append_fresh_def)

lemma claimed_entry_frame [simp]:
  "oe_message (claimed_entry ow x e) = oe_message e"
  "oe_record_id (claimed_entry ow x e) = oe_record_id e"
  "oe_state (claimed_entry ow x e) = Claimed"
  "oe_claim_owner (claimed_entry ow x e) = Some ow"
  "oe_claim_expires_at (claimed_entry ow x e) = Some x"
  "oe_claim_generation (claimed_entry ow x e) = oe_claim_generation e + 1"
  "oe_publication_receipt (claimed_entry ow x e) = oe_publication_receipt e"
  by (simp_all add: claimed_entry_def)

lemma entry_ok_claimed:
  "entry_ok e \<Longrightarrow> oe_state e = Pending \<Longrightarrow> entry_ok (claimed_entry ow x e)"
  by (auto simp: entry_ok_def claimed_entry_def)

lemma entry_ok_settled:
  "entry_ok e \<Longrightarrow> oe_state e = Claimed \<Longrightarrow> settled_as e e' \<Longrightarrow> entry_ok e'"
  by (auto simp: entry_ok_def settled_as_def)

lemma outbox_inv_expire: "outbox_inv s \<Longrightarrow> outbox_inv (expire_claims_locked now s)"
  unfolding outbox_inv_def by (fastforce simp: entry_ok_expire)

lemma new_outbox_entry_simps [simp]:
  "oe_message (new_outbox_entry rid m) = m"
  "oe_record_id (new_outbox_entry rid m) = rid"
  "oe_state (new_outbox_entry rid m) = Pending"
  "oe_claim_generation (new_outbox_entry rid m) = 0"
  by (simp_all add: new_outbox_entry_def)

lemma entry_ok_new [simp]: "entry_ok (new_outbox_entry rid m)"
  by (simp add: entry_ok_def new_outbox_entry_def)

lemma outbox_inv_append:
  assumes inv: "outbox_inv s" and new: "map_of (ob_by_message s) (outbox_identity m) = None"
  shows "outbox_inv (append_fresh m s)"
proof -
  let ?n = "ob_next_id s" and ?t = "append_fresh m s"
  note fresh = outbox_inv_fresh [OF inv]
  have n: "1 \<le> ?n" and keys: "map fst (ob_by_id s) = [1..?n - 1]"
    using inv by (simp_all add: outbox_inv_def)
  have "map fst (ob_by_id ?t) = [1..?n - 1] @ [?n]"
    by (simp add: append_fresh_def keys_update_fresh [OF fresh] keys)
  also have "\<dots> = [1..?n]" using n by (simp add: upto_rec2)
  finally have keys': "map fst (ob_by_id ?t) = [1..ob_next_id ?t - 1]"
    by (simp add: append_fresh_def)
  have entries: "entry_ok e \<and> oe_record_id e = rid"
    if "map_of (ob_by_id ?t) rid = Some e" for rid e
    using that outbox_inv_entry [OF inv, of rid e] by (auto split: if_splits)
  have no_old: "outbox_identity (oe_message e) \<noteq> outbox_identity m"
    if "map_of (ob_by_id s) rid = Some e" for rid e
    using that new outbox_inv_index [OF inv, of "outbox_identity m" rid] by auto
  have index: "map_of (ob_by_message ?t) k = Some rid \<longleftrightarrow>
      (\<exists>e. map_of (ob_by_id ?t) rid = Some e \<and> outbox_identity (oe_message e) = k)" for k rid
    using outbox_inv_index [OF inv, of k rid] fresh no_old [of rid] no_old [of ?n]
    by (auto simp: append_fresh_def)
  show ?thesis
    unfolding outbox_inv_def using n keys' entries index by (simp add: append_fresh_def)
qed

lemma outbox_micro_inv: "outbox_micro s t \<Longrightarrow> outbox_inv s \<Longrightarrow> outbox_inv t"
proof (induction rule: outbox_micro.induct)
  case (micro_claim s rid e owner expires)
  then show ?case
    by (intro outbox_inv_put [of s rid e]) (auto dest: outbox_inv_entry intro: entry_ok_claimed)
next
  case (micro_settle s rid e e')
  then show ?case
    by (intro outbox_inv_put [of s rid e])
      (auto dest: outbox_inv_entry intro: entry_ok_settled simp: settled_as_def)
qed (auto intro: outbox_inv_append outbox_inv_expire)

section \<open>Methods as runs of elementary transitions\<close>

lemma append_committed_cases:
  "append_committed m s = (r, t) \<Longrightarrow> outbox_micro\<^sup>*\<^sup>* s t"
  by (auto simp: append_committed_def append_fresh_def [symmetric] Let_def
      intro: micro_append split: option.splits if_splits)

lemma micro_expire_run: "outbox_micro\<^sup>*\<^sup>* s (expire_claims_locked now s)"
  by (auto intro: micro_expire)

lemma find_pending_SomeD:
  "find (is_pending s) rs = Some rid \<Longrightarrow>
     \<exists>e. map_of (ob_by_id s) rid = Some e \<and> oe_state e = Pending"
  by (auto simp: find_Some_iff is_pending_def split: option.splits)

lemma claim_first_pending_run:
  "claim_first_pending ow x s = (r, t) \<Longrightarrow> outbox_micro\<^sup>*\<^sup>* s t"
  by (auto simp: claim_first_pending_def Let_def split: option.splits
      dest!: find_pending_SomeD intro!: r_into_rtranclp micro_claim)

lemma claim_next_run:
  assumes "claim_next ow obs ex s = (r, t)"
  shows "outbox_micro\<^sup>*\<^sup>* s t"
proof -
  consider "t = s" | now x where "claim_first_pending ow x (expire_claims_locked now s) = (r, t)"
    using assms
    by (cases "is_identifier ow"; cases obs; cases ex)
      (auto simp: claim_next_def bindS_apply ensure_def split: if_splits)
  then show ?thesis
  proof cases
    case 2
    from micro_expire_run claim_first_pending_run [OF 2] show ?thesis by (rule rtranclp_trans)
  qed simp
qed

lemma require_current_claim_result:
  "require_current_claim c now s =
     (case map_of (ob_by_id (expire_claims_locked now s)) (oc_record_id c) of
        None \<Rightarrow> (Inl InvalidTransition, expire_claims_locked now s)
      | Some e \<Rightarrow>
          ((if claim_matches c e then Inr e else Inl InvalidTransition),
           expire_claims_locked now s))"
  by (simp add: require_current_claim_def bindS_apply split: option.split)

lemma settle_claim_run:
  assumes "settle_claim c obs f s = (r, t)"
    and "\<And>e. oe_state e = Claimed \<Longrightarrow>
      settled_as e ((f e)\<lparr>oe_claim_owner := None, oe_claim_expires_at := None\<rparr>)"
  shows "outbox_micro\<^sup>*\<^sup>* s t"
proof (cases obs)
  case (Naive n)
  with assms(1) show ?thesis by (simp add: settle_claim_def bindS_apply)
next
  case (Aware now)
  let ?s = "expire_claims_locked now s"
  have "t = ?s \<or> (\<exists>e. map_of (ob_by_id ?s) (oc_record_id c) = Some e \<and> oe_state e = Claimed \<and>
      t = put_entry (oc_record_id c)
        ((f e)\<lparr>oe_claim_owner := None, oe_claim_expires_at := None\<rparr>) ?s)"
    using assms(1) unfolding settle_claim_def Aware bindS_apply require_current_claim_result
    by (auto simp: claim_matches_def split: option.splits if_splits)
  then show ?thesis
    using micro_expire_run [of s now] assms(2) micro_settle rtranclp.rtrancl_into_rtrancl
    by metis
qed

lemma settle_ops_run:
  "mark_published c rc obs s = (r1, t1) \<Longrightarrow> outbox_micro\<^sup>*\<^sup>* s t1"
  "mark_publication_ambiguous c obs s = (r2, t2) \<Longrightarrow> outbox_micro\<^sup>*\<^sup>* s t2"
  "outbox_quarantine c err obs s = (r3, t3) \<Longrightarrow> outbox_micro\<^sup>*\<^sup>* s t3"
  "release_claim c err obs s = (r4, t4) \<Longrightarrow> outbox_micro\<^sup>*\<^sup>* s t4"
  unfolding mark_published_def mark_publication_ambiguous_def outbox_quarantine_def
    release_claim_def thenS_apply bindS_apply
  by (auto simp: settled_as_def ensure_def split: if_splits elim!: settle_claim_run)

lemma pending_messages_run: "pending_messages obs s = (r, t) \<Longrightarrow> outbox_micro\<^sup>*\<^sup>* s t"
  by (auto simp: pending_messages_def bindS_apply intro: micro_expire_run
      split: option.splits sum.splits elim!: aware.elims)

section \<open>The dispatch protocol\<close>

inductive outbox_step :: "outbox \<Rightarrow> outbox \<Rightarrow> bool" where
  step_append: "append_committed m s = (r, t) \<Longrightarrow> outbox_step s t"
| step_claim_next: "claim_next ow obs ex s = (r', t) \<Longrightarrow> outbox_step s t"
| step_mark_published: "mark_published c rc obs s = (u, t) \<Longrightarrow> outbox_step s t"
| step_ambiguous: "mark_publication_ambiguous c obs s = (u, t) \<Longrightarrow> outbox_step s t"
| step_quarantine: "outbox_quarantine c err obs s = (u, t) \<Longrightarrow> outbox_step s t"
| step_release: "release_claim c err obs s = (u, t) \<Longrightarrow> outbox_step s t"
| step_pending: "pending_messages t0 s = (ms, t) \<Longrightarrow> outbox_step s t"

lemma outbox_step_micro: "outbox_step s t \<Longrightarrow> outbox_micro\<^sup>*\<^sup>* s t"
  by (induction rule: outbox_step.induct)
    (auto elim: append_committed_cases claim_next_run settle_ops_run pending_messages_run)

lemma outbox_run_micro: "outbox_step\<^sup>*\<^sup>* s t \<Longrightarrow> outbox_micro\<^sup>*\<^sup>* s t"
  by (induction rule: rtranclp_induct) (auto dest: outbox_step_micro intro: rtranclp_trans)

definition outbox_reachable :: "outbox \<Rightarrow> bool" where
  "outbox_reachable s \<longleftrightarrow> outbox_step\<^sup>*\<^sup>* empty_outbox s"

section \<open>Claims are fenced leases\<close>

type_synonym lease_key = "string \<times> int \<times> instant"

definition lease_key_generation :: "lease_key \<Rightarrow> int" where
  "lease_key_generation l = fst (snd l)"

definition entry_lease :: "outbox_entry \<Rightarrow> lease_key option" where
  "entry_lease e =
     (if oe_state e = Claimed
      then (case (oe_claim_owner e, oe_claim_expires_at e) of
              (Some ow, Some x) \<Rightarrow> Some (ow, oe_claim_generation e, x)
            | _ \<Rightarrow> None)
      else None)"

definition outbox_lease :: "outbox \<Rightarrow> int \<Rightarrow> lease_key option" where
  "outbox_lease s rid =
     (case map_of (ob_by_id s) rid of None \<Rightarrow> None | Some e \<Rightarrow> entry_lease e)"

definition outbox_generation :: "outbox \<Rightarrow> int \<Rightarrow> int" where
  "outbox_generation s rid =
     (case map_of (ob_by_id s) rid of None \<Rightarrow> 0 | Some e \<Rightarrow> oe_claim_generation e)"

definition claim_lease :: "outbox_claim \<Rightarrow> lease_key" where
  "claim_lease c = (oc_owner_id c, oc_claim_generation c, oc_claim_expires_at c)"

lemma claim_matches_iff_lease: "claim_matches c e \<longleftrightarrow> entry_lease e = Some (claim_lease c)"
  by (auto simp: claim_matches_def entry_lease_def claim_lease_def split: option.splits)

lemma entry_lease_simps [simp]:
  "entry_lease (new_outbox_entry rid m) = None"
  "settled_as e e' \<Longrightarrow> entry_lease e' = None"
  "entry_lease (claimed_entry ow x e) = Some (ow, oe_claim_generation e + 1, x)"
  by (simp_all add: entry_lease_def settled_as_def)

lemma entry_lease_generation:
  "entry_lease e = Some l \<Longrightarrow> lease_key_generation l = oe_claim_generation e"
  by (auto simp: entry_lease_def lease_key_generation_def split: if_splits option.splits)

lemma entry_lease_expire:
  "entry_lease (expire_entry now e) = Some l \<Longrightarrow> entry_lease e = Some l"
  by (auto simp: entry_lease_def expire_entry_def split: if_splits option.splits)

lemma outbox_micro_generation:
  "outbox_micro s t \<Longrightarrow> outbox_inv s \<Longrightarrow> outbox_generation s k \<le> outbox_generation t k"
  by (induction rule: outbox_micro.induct)
    (auto simp: outbox_generation_def settled_as_def outbox_inv_fresh split: option.splits)

lemma outbox_micro_lease:
  "outbox_micro s t \<Longrightarrow> outbox_lease t k = Some l \<Longrightarrow>
     outbox_lease s k = Some l \<or> outbox_generation s k < outbox_generation t k"
  by (induction rule: outbox_micro.induct)
    (auto simp: outbox_lease_def outbox_generation_def split: option.splits if_splits
      dest: entry_lease_expire)

interpretation outbox_fence: fenced_lease outbox_micro outbox_inv outbox_generation outbox_lease
  lease_key_generation
proof
  fix s t k c
  assume inv: "outbox_inv s"
  show "outbox_lease s k = Some c \<Longrightarrow> lease_key_generation c = outbox_generation s k"
    by (auto simp: outbox_lease_def outbox_generation_def entry_lease_generation
        split: option.splits)
  assume step: "outbox_micro s t"
  show "outbox_inv t" using step inv by (rule outbox_micro_inv)
  show "outbox_generation s k \<le> outbox_generation t k"
    using step inv by (rule outbox_micro_generation)
  show "outbox_lease t k = Some c \<Longrightarrow>
      outbox_lease s k = Some c \<or> outbox_generation s k < outbox_generation t k"
    using step by (rule outbox_micro_lease)
qed

lemma outbox_run_inv: "outbox_step\<^sup>*\<^sup>* s t \<Longrightarrow> outbox_inv s \<Longrightarrow> outbox_inv t"
  by (rule outbox_fence.inv_run [OF outbox_run_micro])

section \<open>Consequences for the methods\<close>

lemma outbox_micro_entry:
  "outbox_micro s t \<Longrightarrow> outbox_inv s \<Longrightarrow> map_of (ob_by_id s) rid = Some e \<Longrightarrow>
   \<exists>e'. map_of (ob_by_id t) rid = Some e' \<and> oe_message e' = oe_message e \<and>
     (oe_state e \<in> {Published, Quarantined} \<longrightarrow> e' = e)"
  by (induction rule: outbox_micro.induct)
    (auto simp: outbox_inv_fresh settled_as_def expire_entry_def)

lemma outbox_run_entry:
  assumes "outbox_micro\<^sup>*\<^sup>* s t" "outbox_inv s" "map_of (ob_by_id s) rid = Some e"
  shows "\<exists>e'. map_of (ob_by_id t) rid = Some e' \<and> oe_message e' = oe_message e \<and>
     (oe_state e \<in> {Published, Quarantined} \<longrightarrow> e' = e)"
  using assms
proof (induction rule: rtranclp_induct)
  case (step t u)
  then obtain e' where e': "map_of (ob_by_id t) rid = Some e'" "oe_message e' = oe_message e"
    "oe_state e \<in> {Published, Quarantined} \<longrightarrow> e' = e" by blast
  have "outbox_inv t" using step.hyps(1) step.prems(1) by (rule outbox_fence.inv_run)
  from outbox_micro_entry [OF step.hyps(2) this e'(1)] e' show ?case by auto
qed simp

lemma find_sorted_Min:
  assumes "find P xs = Some x" "sorted xs"
  shows "x \<in> set xs \<and> P x \<and> (\<forall>y\<in>set xs. P y \<longrightarrow> x \<le> y)"
proof -
  obtain i where i: "i < length xs" "P (xs ! i)" "x = xs ! i" "\<forall>j<i. \<not> P (xs ! j)"
    using assms(1) by (auto simp: find_Some_iff)
  have "x \<le> y" if "y \<in> set xs" "P y" for y
  proof -
    from that(1) obtain j where j: "j < length xs" "xs ! j = y"
      unfolding in_set_conv_nth by blast
    with i(4) that(2) have "i \<le> j" by (meson not_le_imp_less)
    then have "xs ! i \<le> xs ! j" using assms(2) j(1) by (intro sorted_nth_mono)
    with i(3) j show ?thesis by simp
  qed
  with i show ?thesis by auto
qed

lemma is_pending_keys: "is_pending s k \<Longrightarrow> k \<in> set (map fst (ob_by_id s))"
  by (auto simp: is_pending_def split: option.splits dest!: map_of_SomeD) force

lemma claim_first_pending_Some:
  assumes "claim_first_pending ow x s = (Inr (Some c), t)"
  shows "\<exists>e. map_of (ob_by_id s) (oc_record_id c) = Some e \<and> oe_state e = Pending \<and>
    (\<forall>k. is_pending s k \<longrightarrow> oc_record_id c \<le> k) \<and>
    oc_message c = oe_message e \<and> oc_owner_id c = ow \<and> oc_claim_expires_at c = x \<and>
    oc_claim_generation c = oe_claim_generation e + 1 \<and>
    t = put_entry (oc_record_id c) (claimed_entry ow x e) s"
proof -
  obtain rid e where f: "find (is_pending s) (sort (map fst (ob_by_id s))) = Some rid"
    and e: "map_of (ob_by_id s) rid = Some e"
    and c: "c = \<lparr>oc_record_id = rid, oc_owner_id = ow,
      oc_claim_generation = oe_claim_generation e + 1, oc_claim_expires_at = x,
      oc_message = oe_message e\<rparr>"
    and t: "t = put_entry rid (claimed_entry ow x e) s"
    using assms by (auto simp: claim_first_pending_def Let_def split: option.splits)
  have "\<forall>y\<in>set (map fst (ob_by_id s)). is_pending s y \<longrightarrow> rid \<le> y" and p: "is_pending s rid"
    using find_sorted_Min [OF f] by simp_all
  then have "\<forall>k. is_pending s k \<longrightarrow> rid \<le> k" using is_pending_keys by blast
  then show ?thesis using e p c t by (auto simp: is_pending_def)
qed

lemma claim_first_pending_returns: "claim_first_pending ow x s \<noteq> (Inl e, t)"
  by (auto simp: claim_first_pending_def Let_def split: option.splits dest!: find_pending_SomeD)

lemma claim_first_pending_None:
  "claim_first_pending ow x s = (Inr None, t) \<longleftrightarrow> t = s \<and> (\<forall>k. \<not> is_pending s k)"
proof -
  show ?thesis
    using is_pending_keys [of s]
    by (auto simp: claim_first_pending_def Let_def find_None_iff split: option.splits)
      (force simp: is_pending_def find_Some_iff split: option.splits)+
qed

lemma claim_next_aware:
  "is_identifier ow \<Longrightarrow> now < x \<Longrightarrow>
   claim_next ow (Aware now) (Aware x) s = claim_first_pending ow x (expire_claims_locked now s)"
  by (simp add: claim_next_def bindS_apply)

lemma settle_claim_aware:
  "settle_claim c (Aware now) f s =
     (let s' = expire_claims_locked now s in
      case map_of (ob_by_id s') (oc_record_id c) of
        None \<Rightarrow> (Inl InvalidTransition, s')
      | Some e \<Rightarrow>
          if claim_matches c e
          then (Inr (), put_entry (oc_record_id c)
                  ((f e)\<lparr>oe_claim_owner := None, oe_claim_expires_at := None\<rparr>) s')
          else (Inl InvalidTransition, s'))"
  unfolding settle_claim_def
  by (simp add: bindS_apply require_current_claim_result Let_def split: option.split)

lemma claim_matches_expire:
  "claim_matches c (expire_entry now e) \<longleftrightarrow> claim_matches c e \<and> now < oc_claim_expires_at c"
  by (auto simp: claim_matches_def expire_entry_def not_le split: option.splits)

lemma settle_claim_effect:
  assumes "outbox_lease s (oc_record_id c) = Some (claim_lease c)" "now < oc_claim_expires_at c"
  shows "\<exists>e. map_of (ob_by_id s) (oc_record_id c) = Some e \<and> claim_matches c e \<and>
    settle_claim c (Aware now) f s =
      (Inr (), put_entry (oc_record_id c)
        ((f (expire_entry now e))\<lparr>oe_claim_owner := None, oe_claim_expires_at := None\<rparr>)
        (expire_claims_locked now s))"
  using assms
  by (auto simp: outbox_lease_def claim_matches_iff_lease [symmetric] settle_claim_aware
      claim_matches_expire split: option.splits)

lemma settle_claim_refused:
  assumes "outbox_lease s (oc_record_id c) \<noteq> Some (claim_lease c) \<or> oc_claim_expires_at c \<le> now"
  shows "settle_claim c (Aware now) f s = (Inl InvalidTransition, expire_claims_locked now s)"
  using assms
  by (auto simp: outbox_lease_def claim_matches_iff_lease [symmetric] settle_claim_aware
      claim_matches_expire Let_def split: option.splits)

lemma settle_claim_stale:
  "outbox_lease s (oc_record_id c) \<noteq> Some (claim_lease c) \<Longrightarrow>
   \<exists>e. fst (settle_claim c obs f s) = Inl e"
  by (cases obs) (simp_all add: settle_claim_refused, simp add: settle_claim_def bindS_apply)

section \<open>Properties\<close>

text \<open>Every state the ledger's methods can produce from the empty ledger satisfies
  the ledger invariant: consecutive record numbers, an exact message index, and a claim
  owner, expiry and generation that agree with the dispatch state of each record.\<close>

theorem outbox_reachable_inv: "outbox_reachable s \<Longrightarrow> outbox_inv s"
  unfolding outbox_reachable_def by (rule outbox_run_inv [OF _ outbox_inv_empty])

definition sample_outbox :: outbox where
  "sample_outbox = snd (append_committed (sample_message ''m1'' [7]) empty_outbox)"

lemma sample_outbox_append:
  "append_committed (sample_message ''m1'' [7]) empty_outbox = (Inr 1, sample_outbox)"
  by (simp add: sample_outbox_def append_committed_def empty_outbox_def)

lemma sample_outbox_reachable: "outbox_reachable sample_outbox"
  unfolding outbox_reachable_def
  by (rule r_into_rtranclp) (rule step_append [OF sample_outbox_append])

lemma sample_outbox_inv: "outbox_inv sample_outbox"
  using sample_outbox_reachable outbox_run_inv [OF _ outbox_inv_empty]
  by (simp add: outbox_reachable_def)

lemma sample_outbox_eq:
  "sample_outbox =
     \<lparr>ob_next_id = 2, ob_by_id = [(1, new_outbox_entry 1 (sample_message ''m1'' [7]))],
      ob_by_message = [((''scope'', ''m1''), 1)]\<rparr>"
  by (simp add: sample_outbox_def append_committed_def empty_outbox_def)

theorem outbox_reachable_inv_witness: "outbox_reachable sample_outbox \<and> outbox_inv sample_outbox"
  using sample_outbox_reachable outbox_reachable_inv [OF sample_outbox_reachable] by simp

text \<open>The outbox is append-only and settled records are final. Along every run of the
  methods a stored record keeps its message, and a published or quarantined record does
  not change in any field.\<close>

theorem outbox_append_only:
  assumes "outbox_inv s" "outbox_step\<^sup>*\<^sup>* s t" "map_of (ob_by_id s) rid = Some e"
  shows "\<exists>e'. map_of (ob_by_id t) rid = Some e' \<and> oe_message e' = oe_message e \<and>
     (oe_state e \<in> {Published, Quarantined} \<longrightarrow> e' = e)"
  by (rule outbox_run_entry [OF outbox_run_micro [OF assms(2)] assms(1,3)])

theorem outbox_append_only_witness:
  "\<exists>e'. map_of (ob_by_id sample_outbox) 1 = Some e' \<and> oe_message e' = sample_message ''m1'' [7]"
  using outbox_append_only [OF sample_outbox_inv rtranclp.rtrancl_refl, of 1
      "new_outbox_entry 1 (sample_message ''m1'' [7])"]
  by (simp add: sample_outbox_eq)

text \<open>Appending is idempotent for ever. Once a message was appended under a number,
  appending the same message after any further run returns that number and changes
  nothing; appending a different message under the same identity raises
  \<open>InvalidTransition\<close> and changes nothing.\<close>

theorem append_committed_idempotent:
  assumes inv: "outbox_inv s" and app: "append_committed m s = (Inr rid, t)"
    and run: "outbox_step\<^sup>*\<^sup>* t u"
  shows "append_committed m u = (Inr rid, u) \<and>
    (outbox_identity m' = outbox_identity m \<and> m' \<noteq> m \<longrightarrow>
       append_committed m' u = (Inl InvalidTransition, u))"
proof -
  have inv_t: "outbox_inv t"
    using append_committed_cases [OF app] inv by (rule outbox_fence.inv_run)
  obtain e where "map_of (ob_by_id t) rid = Some e" "oe_message e = m"
    using app by (auto simp: append_committed_def Let_def split: option.splits if_splits)
  then obtain e' where e': "map_of (ob_by_id u) rid = Some e'" "oe_message e' = m"
    using outbox_run_entry [OF outbox_run_micro [OF run] inv_t] by blast
  have "map_of (ob_by_message u) (outbox_identity m) = Some rid"
    using e' outbox_inv_index [OF outbox_run_inv [OF run inv_t]] by blast
  with e' show ?thesis by (auto simp: append_committed_def)
qed

theorem append_committed_idempotent_witness:
  "append_committed (sample_message ''m1'' [7]) sample_outbox = (Inr 1, sample_outbox) \<and>
   append_committed (sample_message ''m1'' [8]) sample_outbox =
     (Inl InvalidTransition, sample_outbox)"
  using append_committed_idempotent [OF outbox_inv_empty sample_outbox_append
      rtranclp.rtrancl_refl, of "sample_message ''m1'' [8]"]
  by (simp add: sample_message_def outbox_identity_def)

text \<open>C37: \<open>claim_next\<close> serves the oldest pending record. After sweeping the expired
  claims it hands out the least pending record number with that record's message and the
  next generation and records exactly that claim; it returns \<open>None\<close> only when no record
  is pending.\<close>

theorem claim_next_serves_oldest:
  assumes "is_identifier ow" "now < x"
  shows "case claim_next ow (Aware now) (Aware x) s of
      (Inr (Some c), t) \<Rightarrow>
        (\<exists>e. map_of (ob_by_id (expire_claims_locked now s)) (oc_record_id c) = Some e \<and>
           oe_state e = Pending \<and> oc_message c = oe_message e \<and>
           oc_claim_generation c = oe_claim_generation e + 1) \<and>
        (\<forall>k. is_pending (expire_claims_locked now s) k \<longrightarrow> oc_record_id c \<le> k) \<and>
        outbox_lease t (oc_record_id c) = Some (claim_lease c) \<and>
        (\<forall>k. k \<noteq> oc_record_id c \<longrightarrow>
           map_of (ob_by_id t) k = map_of (ob_by_id (expire_claims_locked now s)) k)
    | (Inr None, t) \<Rightarrow>
        t = expire_claims_locked now s \<and> (\<forall>k. \<not> is_pending t k)
    | (Inl e, t) \<Rightarrow> False"
proof -
  let ?s = "expire_claims_locked now s"
  have run: "claim_next ow (Aware now) (Aware x) s = claim_first_pending ow x ?s"
    by (rule claim_next_aware [OF assms])
  obtain r t where rt: "claim_first_pending ow x ?s = (r, t)" by fastforce
  show ?thesis
  proof (cases r)
    case (Inl e)
    with rt show ?thesis by (simp add: claim_first_pending_returns)
  next
    case (Inr co)
    show ?thesis
    proof (cases co)
      case None
      with rt Inr show ?thesis by (simp add: run) (simp add: claim_first_pending_None)
    next
      case (Some c)
      from claim_first_pending_Some [of ow x ?s c t] rt Inr Some
      obtain e where "map_of (ob_by_id ?s) (oc_record_id c) = Some e" "oe_state e = Pending"
        "\<forall>k. is_pending ?s k \<longrightarrow> oc_record_id c \<le> k" "oc_message c = oe_message e"
        "oc_owner_id c = ow" "oc_claim_expires_at c = x"
        "oc_claim_generation c = oe_claim_generation e + 1"
        "t = put_entry (oc_record_id c) (claimed_entry ow x e) ?s" by blast
      then show ?thesis
        using rt Inr Some by (auto simp: run outbox_lease_def claim_lease_def)
    qed
  qed
qed

definition sample_claim :: outbox_claim where
  "sample_claim =
     \<lparr>oc_record_id = 1, oc_owner_id = ''w1'', oc_claim_generation = 1,
      oc_claim_expires_at = At 10, oc_message = sample_message ''m1'' [7]\<rparr>"

definition sample_claimed_outbox :: outbox where
  "sample_claimed_outbox =
     put_entry 1 (claimed_entry ''w1'' (At 10)
       (new_outbox_entry 1 (sample_message ''m1'' [7]))) sample_outbox"

lemma sample_identifiers [simp]: "is_identifier ''w1''" "is_identifier ''w2''"
  by (simp_all add: grammar_eval)

lemma sample_claim_next:
  "claim_next ''w1'' (Aware (At 0)) (Aware (At 10)) sample_outbox =
     (Inr (Some sample_claim), sample_claimed_outbox)"
  by (simp add: claim_next_aware sample_outbox_eq expire_claims_locked_def map_vals_def
      expire_entry_def claim_first_pending_def is_pending_def Let_def sample_claim_def
      sample_claimed_outbox_def)

theorem claim_next_serves_oldest_witness:
  "\<exists>c t. claim_next ''w1'' (Aware (At 0)) (Aware (At 10)) sample_outbox = (Inr (Some c), t) \<and>
     outbox_lease t (oc_record_id c) = Some (claim_lease c)"
  using claim_next_serves_oldest [of "''w1''" "At 0" "At 10" sample_outbox]
  by (simp add: sample_claim_next)

text \<open>C36: a lost claim is powerless for ever. If a claim is not the one currently recorded
  and its generation is not ahead of the record, then after any further run of the
  methods no settlement with that claim succeeds, whatever the clock says.\<close>

theorem lost_claim_powerless:
  assumes inv: "outbox_inv s"
    and lost: "outbox_lease s (oc_record_id c) \<noteq> Some (claim_lease c)"
    and past: "oc_claim_generation c \<le> outbox_generation s (oc_record_id c)"
    and run: "outbox_step\<^sup>*\<^sup>* s t"
  shows "fst (mark_published c rc obs t) \<noteq> Inr () \<and>
    fst (mark_publication_ambiguous c obs t) \<noteq> Inr () \<and>
    fst (outbox_quarantine c err obs t) \<noteq> Inr () \<and>
    fst (release_claim c err obs t) \<noteq> Inr ()"
proof -
  have "outbox_lease t (oc_record_id c) \<noteq> Some (claim_lease c)"
    by (rule outbox_fence.lost_lease_stays_lost [OF outbox_run_micro [OF run] inv lost])
      (simp add: claim_lease_def lease_key_generation_def past)
  then have "\<exists>e. fst (settle_claim c obs f t) = Inl e" for f by (rule settle_claim_stale)
  then have "fst (settle_claim c obs f t) \<noteq> Inr ()" for f by (metis Inl_Inr_False)
  then show ?thesis
    by (simp add: mark_published_def mark_publication_ambiguous_def outbox_quarantine_def
        release_claim_def bindS_apply ensure_def)
qed

lemma sample_claimed_inv: "outbox_inv sample_claimed_outbox"
  using outbox_fence.inv_run [OF claim_next_run [OF sample_claim_next] sample_outbox_inv] .

theorem lost_claim_powerless_witness:
  "fst (mark_published (sample_claim\<lparr>oc_owner_id := ''w2''\<rparr>)
     \<lparr>br_receipt_id = ''r1'', br_observed_at = Aware (At 1)\<rparr> (Aware (At 1))
     sample_claimed_outbox) \<noteq> Inr ()"
proof -
  have "outbox_lease sample_claimed_outbox 1 = Some (''w1'', 1, At 10)"
    "outbox_generation sample_claimed_outbox 1 = 1"
    by (simp_all add: outbox_lease_def outbox_generation_def sample_claimed_outbox_def)
  then show ?thesis
    using lost_claim_powerless [OF sample_claimed_inv _ _ rtranclp.rtrancl_refl,
        of "sample_claim\<lparr>oc_owner_id := ''w2''\<rparr>"]
    by (simp add: sample_claim_def claim_lease_def)
qed

text \<open>Settlement is exact. Marking a claim published at an aware time succeeds exactly
  when the claim is the recorded one and has not expired; it then leaves a published
  record with that receipt, no holder and the same message. Otherwise it raises
  \<open>InvalidTransition\<close> and only the expiry sweep has happened.\<close>

theorem mark_published_exact:
  "case mark_published c rc (Aware now) s of
     (Inr u, t) \<Rightarrow>
       outbox_lease s (oc_record_id c) = Some (claim_lease c) \<and> now < oc_claim_expires_at c \<and>
       (\<exists>e e'. map_of (ob_by_id s) (oc_record_id c) = Some e \<and>
          map_of (ob_by_id t) (oc_record_id c) = Some e' \<and>
          oe_state e' = Published \<and> oe_publication_receipt e' = Some rc \<and>
          oe_claim_owner e' = None \<and> oe_claim_expires_at e' = None \<and>
          oe_message e' = oe_message e)
   | (Inl e, t) \<Rightarrow>
       e = InvalidTransition \<and> t = expire_claims_locked now s \<and>
       \<not> (outbox_lease s (oc_record_id c) = Some (claim_lease c) \<and> now < oc_claim_expires_at c)"
proof (cases "outbox_lease s (oc_record_id c) = Some (claim_lease c) \<and> now < oc_claim_expires_at c")
  case True
  then show ?thesis
    unfolding mark_published_def
    using settle_claim_effect [of s c now "\<lambda>e. e\<lparr>oe_state := Published,
      oe_publication_receipt := Some rc, oe_last_error_class := None\<rparr>"] by auto
next
  case False
  then show ?thesis
    unfolding mark_published_def
    using settle_claim_refused [of s c now "\<lambda>e. e\<lparr>oe_state := Published,
      oe_publication_receipt := Some rc, oe_last_error_class := None\<rparr>"] by (auto simp: not_less)
qed

text \<open>C38: claim expiry restores liveness and nothing else. When a claimed record's expiry
  has passed, the next \<open>claim_next\<close> returns a claim (that record is pending again), with
  a strictly larger generation if it is for the same record, and the message identity
  that is republished is unchanged.\<close>

theorem expired_claim_is_reclaimed:
  assumes inv: "outbox_inv s" and held: "outbox_lease s rid = Some (ow', g, y)"
    and expired: "y \<le> now" and args: "is_identifier ow" "now < x"
  shows "\<exists>c t e. claim_next ow (Aware now) (Aware x) s = (Inr (Some c), t) \<and>
    oc_record_id c \<le> rid \<and>
    map_of (ob_by_id s) rid = Some e \<and>
    (oc_record_id c = rid \<longrightarrow> g < oc_claim_generation c \<and> oc_message c = oe_message e)"
proof -
  let ?s = "expire_claims_locked now s"
  obtain e where e: "map_of (ob_by_id s) rid = Some e" "entry_lease e = Some (ow', g, y)"
    using held by (auto simp: outbox_lease_def split: option.splits)
  have pend: "is_pending ?s rid" and gen: "oe_claim_generation e = g"
    using e expired
    by (auto simp: is_pending_def expire_entry_def entry_lease_def
        split: if_splits option.splits)
  obtain r t where rt: "claim_first_pending ow x ?s = (r, t)" by fastforce
  have "\<exists>c. r = Inr (Some c)"
  proof (cases r)
    case (Inl e)
    with rt show ?thesis by (simp add: claim_first_pending_returns)
  next
    case (Inr co)
    with rt pend show ?thesis by (cases co) (auto simp: claim_first_pending_None)
  qed
  then obtain c where c: "claim_first_pending ow x ?s = (Inr (Some c), t)" using rt by blast
  from claim_first_pending_Some [OF c] pend
  have "oc_record_id c \<le> rid" by blast
  moreover have "oc_record_id c = rid \<longrightarrow> g < oc_claim_generation c \<and> oc_message c = oe_message e"
    using claim_first_pending_Some [OF c] e gen by auto
  ultimately show ?thesis
    using c e(1) by (auto simp: claim_next_aware [OF args])
qed

theorem expired_claim_is_reclaimed_witness:
  "\<exists>c t. claim_next ''w2'' (Aware (At 10)) (Aware (At 20)) sample_claimed_outbox =
     (Inr (Some c), t) \<and> oc_record_id c \<le> 1"
proof -
  have "outbox_lease sample_claimed_outbox 1 = Some (''w1'', 1, At 10)"
    by (simp add: outbox_lease_def sample_claimed_outbox_def)
  from expired_claim_is_reclaimed [OF sample_claimed_inv this, of "At 10" "''w2''" "At 20"]
  show ?thesis by auto
qed

end
