(* ===== verification/Execution.thy ===== *)
theory Execution
  imports Async_Model
begin

text \<open>
  src/src/jlmirror_async/execution.py: the exact scope of a protected execution, the
  revision-bound admission that an authority returns for it, and the fail-closed check
  that the ledgers run before every effect. The authority itself is supplied by an
  adapter: a function from requests to replies, or absent.
\<close>

section \<open>Execution requests\<close>

record execution_request =
  er_authority_contract :: string
  er_runtime_profile_id :: string
  er_tenant_id :: "string option"
  er_message_identity :: "scoped_message_identity option"
  er_operation_id :: "string option"

definition allowed_runtime_profiles :: "string list" where
  "allowed_runtime_profiles = [''runtime.api@1'', ''runtime.worker@1'']"

definition valid_execution_request :: "execution_request \<Rightarrow> bool" where
  "valid_execution_request r \<longleftrightarrow>
     is_contract_name (er_authority_contract r) \<and>
     is_identifier (er_runtime_profile_id r) \<and>
     er_runtime_profile_id r \<in> set allowed_runtime_profiles \<and>
     opt_identifier (er_tenant_id r) \<and>
     opt_identifier (er_operation_id r) \<and>
     (er_message_identity r = None) \<noteq> (er_operation_id r = None) \<and>
     (case er_message_identity r of
        None \<Rightarrow> True
      | Some i \<Rightarrow>
          er_authority_contract r = si_consumer_contract i \<and> er_tenant_id r = si_tenant_id i)"

definition execution_request_init :: "execution_request \<Rightarrow> execution_request res" where
  "execution_request_init = construct valid_execution_request ValueError"

section \<open>Execution admissions\<close>

record execution_admission =
  ea_request :: execution_request
  ea_principal_id :: string
  ea_principal_credential_generation :: string
  ea_authorization_revision :: string
  ea_admission_revision :: string
  ea_runtime_generation :: string
  ea_environment_class :: environment_class
  ea_observed_at :: datetime
  ea_current :: bool
  ea_tenant_context :: "tenant_context option"

definition admission_matches_context :: "execution_admission \<Rightarrow> tenant_context \<Rightarrow> bool" where
  "admission_matches_context a c \<longleftrightarrow>
     Some (tc_tenant_id c) = er_tenant_id (ea_request a) \<and>
     tc_principal_id c = ea_principal_id a \<and>
     tc_principal_credential_generation c = ea_principal_credential_generation a \<and>
     tc_runtime_profile_id c = er_runtime_profile_id (ea_request a) \<and>
     tc_runtime_generation c = ea_runtime_generation a \<and>
     tc_environment_class c = ea_environment_class a"

definition valid_execution_admission :: "execution_admission \<Rightarrow> bool" where
  "valid_execution_admission a \<longleftrightarrow>
     list_all is_identifier
       [ea_principal_id a, ea_principal_credential_generation a, ea_authorization_revision a,
        ea_admission_revision a, ea_runtime_generation a] \<and>
     is_aware (ea_observed_at a) \<and>
     (case (er_tenant_id (ea_request a), ea_tenant_context a) of
        (None, None) \<Rightarrow> True
      | (Some _, Some c) \<Rightarrow> admission_matches_context a c
      | _ \<Rightarrow> False)"

section \<open>The fail-closed check\<close>

type_synonym execution_authority = "(execution_request \<Rightarrow> execution_admission reply) option"

definition require_current_execution ::
  "execution_authority \<Rightarrow> execution_request \<Rightarrow> execution_admission res" where
  "require_current_execution authority request =
     (case authority of
        None \<Rightarrow> Inl ValueError
      | Some finalize_current_execution \<Rightarrow>
          (case finalize_current_execution request of
             Raised e \<Rightarrow> Inl ValueError
           | Malformed \<Rightarrow> Inl ValueError
           | Returned admission \<Rightarrow>
               if ea_request admission \<noteq> request then Inl ValueError
               else if \<not> ea_current admission then Inl ValueError
               else if er_runtime_profile_id (ea_request admission) \<noteq> er_runtime_profile_id request
               then Inl ValueError
               else Inr admission))"

lemma require_current_execution_Inr_iff [res_simps]:
  "require_current_execution authority request = Inr a \<longleftrightarrow>
     (\<exists>f. authority = Some f \<and> f request = Returned a \<and> ea_request a = request \<and> ea_current a)"
  by (auto simp: require_current_execution_def split: option.splits reply.splits)

lemma require_current_execution_Inl:
  "require_current_execution authority request = Inl e \<Longrightarrow> e = ValueError"
  by (auto simp: require_current_execution_def split: option.splits reply.splits if_splits)

text \<open>
  \<open>try: admission = require_current_execution(...) except ValueError: raise
  ReconciliationBlocked\<close>, as both ledgers call it.
\<close>

definition admit_execution ::
  "execution_authority \<Rightarrow> execution_request \<Rightarrow> execution_admission res" where
  "admit_execution authority request =
     rethrow (\<lambda>e. e = ValueError) ReconciliationBlocked
       (require_current_execution authority request)"

lemma admit_execution_Inr_iff [res_simps]:
  "admit_execution authority request = Inr a \<longleftrightarrow>
     (\<exists>f. authority = Some f \<and> f request = Returned a \<and> ea_request a = request \<and> ea_current a)"
  by (simp add: admit_execution_def res_simps)

lemma admit_execution_Inl: "admit_execution authority request = Inl e \<Longrightarrow> e = ReconciliationBlocked"
  by (auto simp: admit_execution_def rethrow_def split: sum.splits
      dest: require_current_execution_Inl)

text \<open>
  A valid request names exactly one effect, and an admission for a valid tenant request
  carries a context of exactly that tenant.
\<close>

lemma valid_execution_request_one_effect:
  "valid_execution_request r \<Longrightarrow>
     (\<exists>i. er_message_identity r = Some i \<and> er_operation_id r = None) \<or>
     (\<exists>p. er_message_identity r = None \<and> er_operation_id r = Some p)"
  by (cases "er_message_identity r"; cases "er_operation_id r")
    (auto simp: valid_execution_request_def)

lemma valid_admission_tenant:
  "valid_execution_admission a \<Longrightarrow> er_tenant_id (ea_request a) = Some t \<Longrightarrow>
     \<exists>c. ea_tenant_context a = Some c \<and> tc_tenant_id c = t"
  by (auto simp: valid_execution_admission_def admission_matches_context_def
      split: option.splits)

section \<open>A sample authority for the worked instances\<close>

definition sample_admission :: "execution_request \<Rightarrow> execution_admission" where
  "sample_admission r =
     \<lparr>ea_request = r, ea_principal_id = ''p1'', ea_principal_credential_generation = ''g7'',
      ea_authorization_revision = ''a7'', ea_admission_revision = ''d7'',
      ea_runtime_generation = ''r7'', ea_environment_class = EnvValidation,
      ea_observed_at = Aware (At 0), ea_current = True, ea_tenant_context = None\<rparr>"

definition sample_authority :: execution_authority where
  "sample_authority = Some (\<lambda>r. Returned (sample_admission r))"

lemma admit_sample [simp]: "admit_execution sample_authority r = Inr (sample_admission r)"
  by (simp add: admit_execution_def require_current_execution_def sample_authority_def
      sample_admission_def)

lemma sample_admission_time [simp]: "ea_observed_at (sample_admission r) = Aware (At 0)"
  by (simp add: sample_admission_def)

end
