(* ===== verification/Inbox.thy ===== *)
theory Inbox
  imports Execution Lease_Protocol
begin

text \<open>
  src/src/jlmirror_async/inbox.py: the inbox ledger, one durable receipt per scoped
  message identity. A receipt is executed under an expiring claim; a lapsed or ambiguous
  execution blocks it until the operation authority proves what happened. Each method
  runs under the ledger's lock and is one operation on the ledger state.
\<close>

section \<open>State\<close>

datatype inbox_admission =
    NewReceipt | DuplicateCompleted | ObserveInProgress | AdmitBlocked | AdmitConflict

text \<open>The port \<open>CrossAuthorityReconciliationPort\<close>: one call, \<open>snapshot(operation_id)\<close>.\<close>

type_synonym operation_authority = "string \<Rightarrow> operation_snapshot reply"

record executor_claim =
  ic_identity :: scoped_message_identity
  ic_executor_id :: string
  ic_execution_generation :: int
  ic_claim_expires_at :: instant
  ic_execution_admission :: execution_admission

record inbox_receipt =
  ir_identity :: scoped_message_identity
  ir_comparison_evidence :: comparison_evidence
  ir_state :: inbox_state
  ir_executor_id :: "string option"
  ir_execution_generation :: int
  ir_claim_expires_at :: "instant option"
  ir_execution_admission :: "execution_admission option"
  ir_result_link :: "effect_result_link option"
  ir_operation_id :: "string option"
  ir_terminal_reason :: "string option"
  ir_reconciliation_revision :: "string option"

record inbox =
  ib_receipts :: "(inbox_key, inbox_receipt) dict"

definition empty_inbox :: inbox where
  "empty_inbox = \<lparr>ib_receipts = []\<rparr>"

definition new_receipt :: "scoped_message_identity \<Rightarrow> comparison_evidence \<Rightarrow> inbox_receipt" where
  "new_receipt i c =
     \<lparr>ir_identity = i, ir_comparison_evidence = c, ir_state = Admitted, ir_executor_id = None,
      ir_execution_generation = 0, ir_claim_expires_at = None, ir_execution_admission = None,
      ir_result_link = None, ir_operation_id = None, ir_terminal_reason = None,
      ir_reconciliation_revision = None\<rparr>"

definition put_receipt :: "inbox_receipt \<Rightarrow> inbox \<Rightarrow> inbox" where
  "put_receipt r s =
     s\<lparr>ib_receipts := AList.update (identity_key (ir_identity r)) r (ib_receipts s)\<rparr>"

section \<open>Changes of one receipt\<close>

definition release_executor :: "inbox_state \<Rightarrow> string \<Rightarrow> inbox_receipt \<Rightarrow> inbox_receipt" where
  "release_executor st why r =
     r\<lparr>ir_state := st, ir_executor_id := None, ir_claim_expires_at := None,
       ir_execution_admission := None, ir_terminal_reason := Some why\<rparr>"

definition block_receipt :: "string \<Rightarrow> inbox_receipt \<Rightarrow> inbox_receipt" where
  "block_receipt why r =
     (release_executor InboxReconciliationRequired why r)\<lparr>ir_reconciliation_revision := None\<rparr>"

definition processing_lapsed :: "instant \<Rightarrow> inbox_receipt \<Rightarrow> bool" where
  "processing_lapsed now r \<longleftrightarrow>
     ir_state r = Processing \<and>
     (case ir_claim_expires_at r of None \<Rightarrow> False | Some x \<Rightarrow> x \<le> now)"

definition processing_expired_reason :: string where
  "processing_expired_reason = ''processing_lease_expired_effect_absence_unproven''"

definition lapse_receipt :: "instant \<Rightarrow> inbox_receipt \<Rightarrow> inbox_receipt" where
  "lapse_receipt now r =
     (if processing_lapsed now r then block_receipt processing_expired_reason r else r)"

definition claimed_receipt ::
  "string \<Rightarrow> instant \<Rightarrow> execution_admission \<Rightarrow> inbox_receipt \<Rightarrow> inbox_receipt" where
  "claimed_receipt executor expires admission r =
     r\<lparr>ir_state := Processing, ir_executor_id := Some executor,
       ir_execution_generation := ir_execution_generation r + 1,
       ir_claim_expires_at := Some expires, ir_execution_admission := Some admission,
       ir_reconciliation_revision := None\<rparr>"

definition completed_receipt :: "effect_result_link \<Rightarrow> inbox_receipt \<Rightarrow> inbox_receipt" where
  "completed_receipt link r =
     r\<lparr>ir_state := InboxCompleted, ir_result_link := Some link, ir_executor_id := None,
       ir_claim_expires_at := None, ir_terminal_reason := None\<rparr>"

definition readmitted_receipt :: "string \<Rightarrow> inbox_receipt \<Rightarrow> inbox_receipt" where
  "readmitted_receipt rv r =
     r\<lparr>ir_state := Admitted, ir_terminal_reason := None, ir_reconciliation_revision := Some rv\<rparr>"

definition confirmed_receipt ::
  "string \<Rightarrow> effect_result_link \<Rightarrow> inbox_receipt \<Rightarrow> inbox_receipt" where
  "confirmed_receipt rv link r =
     r\<lparr>ir_reconciliation_revision := Some rv, ir_state := InboxCompleted,
       ir_result_link := Some link, ir_terminal_reason := None\<rparr>"

section \<open>Operations\<close>

definition admit ::
  "scoped_message_identity \<Rightarrow> comparison_evidence \<Rightarrow> (inbox, inbox_admission) op" where
  "admit i c s =
     (case map_of (ib_receipts s) (identity_key i) of
        None \<Rightarrow> (Inr NewReceipt, put_receipt (new_receipt i c) s)
      | Some r \<Rightarrow>
          if ir_identity r \<noteq> i
          then (Inr AdmitConflict,
                put_receipt (release_executor InboxQuarantined
                  ''same_scoped_identity_conflicting_trusted_binding'' r) s)
          else
            (case relation_to (ir_comparison_evidence r) c of
               Mismatch \<Rightarrow>
                 (Inr AdmitConflict,
                  put_receipt (release_executor InboxQuarantined
                    ''same_scoped_identity_conflicting_immutable_content'' r) s)
             | Unknown \<Rightarrow>
                 (Inr AdmitBlocked,
                  put_receipt (release_executor InboxReconciliationRequired
                    ''message_equivalence_authority_unknown'' r) s)
             | Equivalent \<Rightarrow>
                 (Inr (if ir_state r = InboxCompleted then DuplicateCompleted
                       else if ir_state r \<in> {InboxReconciliationRequired, InboxQuarantined,
                                             InboxFailedTerminal}
                       then AdmitBlocked
                       else ObserveInProgress), s)))"

definition inbox_require :: "scoped_message_identity \<Rightarrow> (inbox, inbox_receipt) op" where
  "inbox_require i s =
     (case map_of (ib_receipts s) (identity_key i) of
        None \<Rightarrow> (Inl InvalidTransition, s)
      | Some r \<Rightarrow> if ir_identity r \<noteq> i then (Inl IntegrityConflict, s) else (Inr r, s))"

definition receipt_request :: "inbox_receipt \<Rightarrow> string \<Rightarrow> execution_request" where
  "receipt_request r profile =
     \<lparr>er_authority_contract = si_consumer_contract (ir_identity r),
      er_runtime_profile_id = profile, er_tenant_id = si_tenant_id (ir_identity r),
      er_message_identity = Some (ir_identity r), er_operation_id = None\<rparr>"

definition claim_effect ::
  "scoped_message_identity \<Rightarrow> string \<Rightarrow> execution_authority \<Rightarrow> datetime \<Rightarrow> string \<Rightarrow>
   (inbox, executor_claim) op" where
  "claim_effect i executor authority claim_expires_at profile =
     thenS (ensureS (is_identifier executor) ValueError)
     (bindS (inbox_require i) (\<lambda>r.
      thenS (ensureS (ir_state r \<notin> {InboxReconciliationRequired, InboxQuarantined})
               ReconciliationBlocked)
     (thenS (ensureS (ir_state r = Admitted) InvalidTransition)
     (bindS (liftS (execution_request_init (receipt_request r profile))) (\<lambda>request.
      bindS (liftS (admit_execution authority request)) (\<lambda>admission.
      bindS (liftS (aware claim_expires_at)) (\<lambda>expires.
      bindS (liftS (aware (ea_observed_at admission))) (\<lambda>admitted_at.
      thenS (ensureS (admitted_at < expires) ValueError)
     (thenS (modifyS (put_receipt (claimed_receipt executor expires admission r)))
     (returnS \<lparr>ic_identity = ir_identity r, ic_executor_id = executor,
               ic_execution_generation = ir_execution_generation r + 1,
               ic_claim_expires_at = expires, ic_execution_admission = admission\<rparr>))))))))))"

definition expire_processing_claim ::
  "scoped_message_identity \<Rightarrow> datetime \<Rightarrow> (inbox, bool) op" where
  "expire_processing_claim i observed_at =
     bindS (liftS (aware observed_at)) (\<lambda>now.
     bindS (inbox_require i) (\<lambda>r.
       if processing_lapsed now r
       then thenS (modifyS (put_receipt (block_receipt processing_expired_reason r)))
              (returnS True)
       else returnS False))"

definition claim_current :: "executor_claim \<Rightarrow> inbox_receipt \<Rightarrow> bool" where
  "claim_current c r \<longleftrightarrow>
     ir_state r = Processing \<and>
     ir_executor_id r = Some (ic_executor_id c) \<and>
     ir_execution_generation r = ic_execution_generation c \<and>
     ir_claim_expires_at r = Some (ic_claim_expires_at c) \<and>
     ir_execution_admission r = Some (ic_execution_admission c)"

definition require_current_executor :: "executor_claim \<Rightarrow> instant \<Rightarrow> (inbox, inbox_receipt) op" where
  "require_current_executor c now =
     bindS (inbox_require (ic_identity c)) (\<lambda>r.
     thenS (modifyS (put_receipt (lapse_receipt now r)))
     (thenS (ensureS (claim_current c (lapse_receipt now r)) InvalidTransition)
     (returnS (lapse_receipt now r))))"

definition in_operation_scope :: "inbox_receipt \<Rightarrow> string \<Rightarrow> operation_snapshot \<Rightarrow> bool" where
  "in_operation_scope r oid snap \<longleftrightarrow>
     os_operation_id snap = oid \<and>
     os_owner_contract snap = Some (si_consumer_contract (ir_identity r)) \<and>
     os_tenant_id snap = si_tenant_id (ir_identity r)"

definition snapshot_for_receipt ::
  "inbox_receipt \<Rightarrow> string \<Rightarrow> operation_authority \<Rightarrow> operation_snapshot res" where
  "snapshot_for_receipt r oid authority =
     (case authority oid of
        Raised e \<Rightarrow> Inl ReconciliationBlocked
      | Malformed \<Rightarrow> Inl ReconciliationBlocked
      | Returned snap \<Rightarrow>
          if in_operation_scope r oid snap then Inr snap else Inl ReconciliationBlocked)"

definition complete_local_effect ::
  "executor_claim \<Rightarrow> effect_result_link \<Rightarrow> datetime \<Rightarrow> (inbox, unit) op" where
  "complete_local_effect c link observed_at =
     bindS (liftS (aware observed_at)) (\<lambda>now.
     bindS (require_current_executor c now) (\<lambda>r.
     thenS (ensureS (ir_operation_id r = None) InvalidTransition)
     (modifyS (put_receipt (completed_receipt link r)))))"

definition complete_cross_authority_effect ::
  "executor_claim \<Rightarrow> effect_result_link \<Rightarrow> operation_authority \<Rightarrow> datetime \<Rightarrow> (inbox, unit) op" where
  "complete_cross_authority_effect c link authority observed_at =
     bindS (liftS (aware observed_at)) (\<lambda>now.
     bindS (require_current_executor c now) (\<lambda>r.
     (case ir_operation_id r of
        None \<Rightarrow> raiseS ReconciliationBlocked
      | Some oid \<Rightarrow>
          bindS (liftS (snapshot_for_receipt r oid authority)) (\<lambda>snap.
          thenS (ensureS (os_state snap = OpCompleted \<and> os_outcome snap = Some link)
                   ReconciliationBlocked)
         (thenS (ensureS (os_reconciliation_resolution snap = None \<and>
                          os_reconciliation_revision snap = None) ReconciliationBlocked)
         (modifyS (put_receipt (completed_receipt link r))))))))"

definition bind_cross_authority_operation ::
  "executor_claim \<Rightarrow> string \<Rightarrow> operation_authority \<Rightarrow> datetime \<Rightarrow> (inbox, unit) op" where
  "bind_cross_authority_operation c oid authority observed_at =
     thenS (ensureS (is_identifier oid) ValueError)
     (bindS (liftS (aware observed_at)) (\<lambda>now.
      bindS (require_current_executor c now) (\<lambda>r.
      thenS (ensureS (ir_operation_id r \<in> {None, Some oid}) InvalidTransition)
     (bindS (liftS (snapshot_for_receipt r oid authority)) (\<lambda>snap.
      modifyS (put_receipt (r\<lparr>ir_operation_id := Some oid\<rparr>)))))))"

definition require_reconciliation ::
  "executor_claim \<Rightarrow> string \<Rightarrow> datetime \<Rightarrow> (inbox, unit) op" where
  "require_reconciliation c reason observed_at =
     thenS (ensureS (is_identifier reason) ValueError)
     (bindS (liftS (aware observed_at)) (\<lambda>now.
      bindS (require_current_executor c now) (\<lambda>r.
      modifyS (put_receipt (block_receipt reason r)))))"

definition inbox_fail_terminal ::
  "executor_claim \<Rightarrow> string \<Rightarrow> datetime \<Rightarrow> (inbox, unit) op" where
  "inbox_fail_terminal c reason observed_at =
     thenS (ensureS (is_identifier reason) ValueError)
     (bindS (liftS (aware observed_at)) (\<lambda>now.
      bindS (require_current_executor c now) (\<lambda>r.
      modifyS (put_receipt (release_executor InboxFailedTerminal reason r)))))"

text \<open>
  Both reconciliations need an \<open>isinstance(revision, str)\<close> snapshot and then a revision
  that is an identifier.
\<close>

definition evidence_revision :: "operation_snapshot \<Rightarrow> bool \<Rightarrow> string res" where
  "evidence_revision snap settled =
     (case os_reconciliation_revision snap of
        Some rv \<Rightarrow> if settled then require_identifier rv else Inl ReconciliationBlocked
      | None \<Rightarrow> Inl ReconciliationBlocked)"

definition reconcile_retry_eligible ::
  "scoped_message_identity \<Rightarrow> operation_authority \<Rightarrow> (inbox, unit) op" where
  "reconcile_retry_eligible i authority =
     bindS (inbox_require i) (\<lambda>r.
     thenS (ensureS (ir_state r = InboxReconciliationRequired) InvalidTransition)
     (case ir_operation_id r of
        None \<Rightarrow> raiseS ReconciliationBlocked
      | Some oid \<Rightarrow>
          bindS (liftS (snapshot_for_receipt r oid authority)) (\<lambda>snap.
          bindS (liftS (evidence_revision snap
            (os_state snap = Prepared \<and>
             os_reconciliation_resolution snap = Some EffectProvenAbsent))) (\<lambda>rv.
          modifyS (put_receipt (readmitted_receipt rv r))))))"

definition reconcile_completed ::
  "scoped_message_identity \<Rightarrow> effect_result_link \<Rightarrow> operation_authority option \<Rightarrow>
   (inbox, unit) op" where
  "reconcile_completed i link operation_authority =
     bindS (inbox_require i) (\<lambda>r.
     thenS (ensureS (ir_state r = InboxReconciliationRequired) InvalidTransition)
     (case (ir_operation_id r, operation_authority) of
        (Some oid, Some authority) \<Rightarrow>
          bindS (liftS (snapshot_for_receipt r oid authority)) (\<lambda>snap.
          bindS (liftS (evidence_revision snap
            (os_state snap = OpCompleted \<and> os_outcome snap = Some link \<and>
             os_reconciliation_resolution snap = Some EffectConfirmed))) (\<lambda>rv.
          modifyS (put_receipt (confirmed_receipt rv link r))))
      | _ \<Rightarrow> raiseS ReconciliationBlocked))"

definition receipt_field ::
  "(inbox_receipt \<Rightarrow> 'a) \<Rightarrow> scoped_message_identity \<Rightarrow> (inbox, 'a) op" where
  "receipt_field f i = bindS (inbox_require i) (\<lambda>r. returnS (f r))"

definition get_receipt_state :: "scoped_message_identity \<Rightarrow> (inbox, inbox_state) op" where
  "get_receipt_state = receipt_field ir_state"

definition get_result_link ::
  "scoped_message_identity \<Rightarrow> (inbox, effect_result_link option) op" where
  "get_result_link = receipt_field ir_result_link"

definition get_bound_operation :: "scoped_message_identity \<Rightarrow> (inbox, string option) op" where
  "get_bound_operation = receipt_field ir_operation_id"

definition get_receipt_admission ::
  "scoped_message_identity \<Rightarrow> (inbox, execution_admission option) op" where
  "get_receipt_admission = receipt_field ir_execution_admission"

section \<open>The invariant of the ledger\<close>

definition receipt_ok :: "inbox_receipt \<Rightarrow> bool" where
  "receipt_ok r \<longleftrightarrow>
     0 \<le> ir_execution_generation r \<and>
     (ir_state r = Processing \<longleftrightarrow> ir_executor_id r \<noteq> None) \<and>
     (ir_state r = Processing \<longleftrightarrow> ir_claim_expires_at r \<noteq> None) \<and>
     (ir_state r = Processing \<longrightarrow> ir_execution_admission r \<noteq> None) \<and>
     (ir_state r \<in> {Processing, InboxCompleted, InboxFailedTerminal} \<longrightarrow>
        1 \<le> ir_execution_generation r) \<and>
     (ir_state r = InboxCompleted \<longrightarrow> ir_result_link r \<noteq> None) \<and>
     (ir_operation_id r \<noteq> None \<longrightarrow> 1 \<le> ir_execution_generation r) \<and>
     (ir_state r = Admitted \<and> 1 \<le> ir_execution_generation r \<longrightarrow>
        ir_reconciliation_revision r \<noteq> None)"

definition inbox_inv :: "inbox \<Rightarrow> bool" where
  "inbox_inv s \<longleftrightarrow>
     (\<forall>k r. map_of (ib_receipts s) k = Some r \<longrightarrow> identity_key (ir_identity r) = k \<and> receipt_ok r)"

lemma inbox_inv_empty: "inbox_inv empty_inbox"
  by (simp add: inbox_inv_def empty_inbox_def)

lemma inbox_inv_receipt:
  "inbox_inv s \<Longrightarrow> map_of (ib_receipts s) k = Some r \<Longrightarrow>
     identity_key (ir_identity r) = k \<and> receipt_ok r"
  unfolding inbox_inv_def by blast

lemma put_receipt_lookup [simp]:
  "map_of (ib_receipts (put_receipt r s)) k =
     (if k = identity_key (ir_identity r) then Some r else map_of (ib_receipts s) k)"
  by (simp add: put_receipt_def)

lemma inbox_inv_put:
  assumes "inbox_inv s" "receipt_ok r"
  shows "inbox_inv (put_receipt r s)"
  unfolding inbox_inv_def
proof (intro allI impI)
  fix k q
  assume "map_of (ib_receipts (put_receipt r s)) k = Some q"
  then show "identity_key (ir_identity q) = k \<and> receipt_ok q"
    using assms(2) inbox_inv_receipt [OF assms(1), of k q] by (simp split: if_splits)
qed

lemma put_same_receipt:
  assumes "map_of (ib_receipts s) (identity_key (ir_identity r)) = Some r"
  shows "put_receipt r s = s"
proof -
  have "map_of d k = Some r \<Longrightarrow> AList.update k r d = d"
    for d :: "(inbox_key, inbox_receipt) dict" and k
    by (induction d) (auto split: if_splits)
  with assms show ?thesis by (simp add: put_receipt_def)
qed

lemma put_put_receipt [simp]:
  "ir_identity q = ir_identity r \<Longrightarrow> put_receipt q (put_receipt r s) = put_receipt q s"
proof -
  have "AList.update k q (AList.update k r d) = AList.update k q d"
    for d :: "(inbox_key, inbox_receipt) dict" and k by (induction d) auto
  then show "ir_identity q = ir_identity r \<Longrightarrow> put_receipt q (put_receipt r s) = put_receipt q s"
    by (simp add: put_receipt_def)
qed

section \<open>Elementary transitions\<close>

text \<open>
  What can happen to one receipt. Only the last four transitions need the operation
  authority, which is a parameter: each says what its snapshot must show.
\<close>

inductive receipt_step :: "operation_authority \<Rightarrow> inbox_receipt \<Rightarrow> inbox_receipt \<Rightarrow> bool"
  for authority where
  r_conflict: "receipt_step authority r (release_executor InboxQuarantined why r)"
| r_unknown: "receipt_step authority r (release_executor InboxReconciliationRequired why r)"
| r_claim: "ir_state r = Admitted \<Longrightarrow> ea_request ad = receipt_request r profile \<Longrightarrow>
     receipt_step authority r (claimed_receipt ex x ad r)"
| r_block: "ir_state r = Processing \<Longrightarrow> receipt_step authority r (block_receipt why r)"
| r_fail: "ir_state r = Processing \<Longrightarrow>
     receipt_step authority r (release_executor InboxFailedTerminal why r)"
| r_local: "ir_state r = Processing \<Longrightarrow> ir_operation_id r = None \<Longrightarrow>
     receipt_step authority r (completed_receipt link r)"
| r_bind: "ir_state r = Processing \<Longrightarrow> ir_operation_id r \<in> {None, Some oid} \<Longrightarrow>
     authority oid = Returned snap \<Longrightarrow> in_operation_scope r oid snap \<Longrightarrow>
     receipt_step authority r (r\<lparr>ir_operation_id := Some oid\<rparr>)"
| r_cross: "ir_state r = Processing \<Longrightarrow> ir_operation_id r = Some oid \<Longrightarrow>
     authority oid = Returned snap \<Longrightarrow> in_operation_scope r oid snap \<Longrightarrow>
     os_state snap = OpCompleted \<Longrightarrow> os_outcome snap = Some link \<Longrightarrow>
     receipt_step authority r (completed_receipt link r)"
| r_readmit: "ir_state r = InboxReconciliationRequired \<Longrightarrow> ir_operation_id r = Some oid \<Longrightarrow>
     authority oid = Returned snap \<Longrightarrow> in_operation_scope r oid snap \<Longrightarrow>
     os_state snap = Prepared \<Longrightarrow>
     os_reconciliation_resolution snap = Some EffectProvenAbsent \<Longrightarrow>
     os_reconciliation_revision snap = Some rv \<Longrightarrow>
     receipt_step authority r (readmitted_receipt rv r)"
| r_confirm: "ir_state r = InboxReconciliationRequired \<Longrightarrow> ir_operation_id r = Some oid \<Longrightarrow>
     authority oid = Returned snap \<Longrightarrow> in_operation_scope r oid snap \<Longrightarrow>
     os_state snap = OpCompleted \<Longrightarrow> os_outcome snap = Some link \<Longrightarrow>
     os_reconciliation_resolution snap = Some EffectConfirmed \<Longrightarrow>
     os_reconciliation_revision snap = Some rv \<Longrightarrow>
     receipt_step authority r (confirmed_receipt rv link r)"

inductive inbox_micro :: "operation_authority \<Rightarrow> inbox \<Rightarrow> inbox \<Rightarrow> bool" for authority where
  i_new: "map_of (ib_receipts s) (identity_key i) = None \<Longrightarrow>
     inbox_micro authority s (put_receipt (new_receipt i c) s)"
| i_step: "map_of (ib_receipts s) (identity_key (ir_identity r)) = Some r \<Longrightarrow>
     receipt_step authority r r' \<Longrightarrow> inbox_micro authority s (put_receipt r' s)"

lemma receipt_fields [simp]:
  "ir_identity (release_executor st why r) = ir_identity r"
  "ir_identity (block_receipt why r) = ir_identity r"
  "ir_identity (claimed_receipt ex x ad r) = ir_identity r"
  "ir_identity (completed_receipt link r) = ir_identity r"
  "ir_identity (readmitted_receipt rv r) = ir_identity r"
  "ir_identity (confirmed_receipt rv link r) = ir_identity r"
  "ir_identity (new_receipt i c) = i"
  "ir_execution_generation (release_executor st why r) = ir_execution_generation r"
  "ir_execution_generation (block_receipt why r) = ir_execution_generation r"
  "ir_execution_generation (claimed_receipt ex x ad r) = ir_execution_generation r + 1"
  "ir_execution_generation (completed_receipt link r) = ir_execution_generation r"
  "ir_execution_generation (readmitted_receipt rv r) = ir_execution_generation r"
  "ir_execution_generation (confirmed_receipt rv link r) = ir_execution_generation r"
  "ir_execution_generation (new_receipt i c) = 0"
  by (simp_all add: release_executor_def block_receipt_def claimed_receipt_def
      completed_receipt_def readmitted_receipt_def confirmed_receipt_def new_receipt_def)

lemma receipt_states [simp]:
  "ir_state (release_executor st why r) = st"
  "ir_state (block_receipt why r) = InboxReconciliationRequired"
  "ir_state (claimed_receipt ex x ad r) = Processing"
  "ir_state (completed_receipt link r) = InboxCompleted"
  "ir_state (readmitted_receipt rv r) = Admitted"
  "ir_state (confirmed_receipt rv link r) = InboxCompleted"
  "ir_state (new_receipt i c) = Admitted"
  by (simp_all add: release_executor_def block_receipt_def claimed_receipt_def
      completed_receipt_def readmitted_receipt_def confirmed_receipt_def new_receipt_def)

lemma receipt_links [simp]:
  "ir_result_link (release_executor st why r) = ir_result_link r"
  "ir_result_link (block_receipt why r) = ir_result_link r"
  "ir_result_link (claimed_receipt ex x ad r) = ir_result_link r"
  "ir_result_link (completed_receipt link r) = Some link"
  "ir_result_link (readmitted_receipt rv r) = ir_result_link r"
  "ir_result_link (confirmed_receipt rv link r) = Some link"
  "ir_result_link (new_receipt i c) = None"
  "ir_operation_id (release_executor st why r) = ir_operation_id r"
  "ir_operation_id (block_receipt why r) = ir_operation_id r"
  "ir_operation_id (claimed_receipt ex x ad r) = ir_operation_id r"
  "ir_operation_id (completed_receipt link r) = ir_operation_id r"
  "ir_operation_id (readmitted_receipt rv r) = ir_operation_id r"
  "ir_operation_id (confirmed_receipt rv link r) = ir_operation_id r"
  by (simp_all add: release_executor_def block_receipt_def claimed_receipt_def
      completed_receipt_def readmitted_receipt_def confirmed_receipt_def new_receipt_def)

lemma receipt_step_identity: "receipt_step authority r r' \<Longrightarrow> ir_identity r' = ir_identity r"
  by (induction rule: receipt_step.induct) simp_all

lemma receipt_step_evidence:
  "receipt_step authority r r' \<Longrightarrow> ir_comparison_evidence r' = ir_comparison_evidence r"
  by (induction rule: receipt_step.induct)
    (simp_all add: release_executor_def block_receipt_def claimed_receipt_def
      completed_receipt_def readmitted_receipt_def confirmed_receipt_def)

lemma receipt_step_ok: "receipt_step authority r r' \<Longrightarrow> receipt_ok r \<Longrightarrow> receipt_ok r'"
  by (induction rule: receipt_step.induct)
    (auto simp: receipt_ok_def release_executor_def block_receipt_def claimed_receipt_def
      completed_receipt_def readmitted_receipt_def confirmed_receipt_def)

lemma receipt_ok_new: "receipt_ok (new_receipt i c)"
  by (simp add: receipt_ok_def new_receipt_def)

lemma inbox_micro_inv: "inbox_micro authority s t \<Longrightarrow> inbox_inv s \<Longrightarrow> inbox_inv t"
proof (induction rule: inbox_micro.induct)
  case (i_new s i c)
  then show ?case using inbox_inv_put receipt_ok_new by blast
next
  case (i_step s r r')
  have "receipt_ok r" using inbox_inv_receipt [OF i_step.prems i_step.hyps(1)] by blast
  with i_step.hyps(2) have "receipt_ok r'" by (rule receipt_step_ok)
  with i_step.prems show ?case by (rule inbox_inv_put)
qed

text \<open>A receipt never disappears and keeps its identity and its comparison evidence.\<close>

lemma inbox_micro_receipt:
  "inbox_micro authority s t \<Longrightarrow> map_of (ib_receipts s) k = Some r \<Longrightarrow>
     map_of (ib_receipts t) k = Some r \<or>
     (\<exists>r'. map_of (ib_receipts t) k = Some r' \<and> receipt_step authority r r')"
proof (induction rule: inbox_micro.induct)
  case (i_step s q q')
  then show ?case
    using receipt_step_identity [OF i_step.hyps(2)] by (cases "k = identity_key (ir_identity q)") auto
qed auto

section \<open>Methods as runs of elementary transitions\<close>

lemma i_step_at:
  "map_of (ib_receipts s) k = Some r \<Longrightarrow> identity_key (ir_identity r) = k \<Longrightarrow>
     receipt_step authority r r' \<Longrightarrow> inbox_micro authority s (put_receipt r' s)"
  using i_step by blast

lemma admit_run: "inbox_inv s \<Longrightarrow> admit i c s = (a, t) \<Longrightarrow> (inbox_micro authority)\<^sup>*\<^sup>* s t"
  using inbox_inv_receipt [of s "identity_key i"]
  by (auto simp: admit_def intro!: r_into_rtranclp
      intro: i_new i_step_at r_conflict r_unknown
      split: option.splits if_splits equivalence_relation.splits)

lemma inbox_require_Inr:
  "inbox_require i s = (Inr r, t) \<longleftrightarrow>
     t = s \<and> ir_identity r = i \<and> map_of (ib_receipts s) (identity_key i) = Some r"
  by (auto simp: inbox_require_def split: option.splits if_splits)

lemma inbox_require_Inl: "inbox_require i s = (Inl e, t) \<Longrightarrow> t = s"
  by (auto simp: inbox_require_def split: option.splits if_splits)

lemma claim_effect_Inr:
  assumes "claim_effect i executor authority expiry profile s = (Inr c, t)"
  obtains r f ad now x where
    "map_of (ib_receipts s) (identity_key i) = Some r" "ir_identity r = i" "ir_state r = Admitted"
    "authority = Some f" "f (receipt_request r profile) = Returned ad"
    "ea_request ad = receipt_request r profile" "ea_current ad"
    "valid_execution_request (receipt_request r profile)"
    "expiry = Aware x" "ea_observed_at ad = Aware now" "now < x"
    "c = \<lparr>ic_identity = i, ic_executor_id = executor,
          ic_execution_generation = ir_execution_generation r + 1,
          ic_claim_expires_at = x, ic_execution_admission = ad\<rparr>"
    "t = put_receipt (claimed_receipt executor x ad r) s"
  using assms unfolding claim_effect_def thenS_apply
  by (auto simp: res_simps bindS_apply inbox_require_Inr execution_request_init_def
      split: if_splits sum.splits prod.splits)

lemma claim_effect_Inl:
  "claim_effect i executor authority expiry profile s = (Inl e, t) \<Longrightarrow> t = s"
  unfolding claim_effect_def
  by (auto simp: bindS_apply inbox_require_Inr dest: inbox_require_Inl
      split: if_splits sum.splits prod.splits)

lemma claim_effect_ready:
  assumes "map_of (ib_receipts s) (identity_key i) = Some r" "ir_identity r = i"
    "is_identifier executor" "ir_state r = Admitted"
    "valid_execution_request (receipt_request r profile)"
    "admit_execution authority (receipt_request r profile) = Inr ad"
    "ea_observed_at ad = Aware now" "now < x"
  shows "claim_effect i executor authority (Aware x) profile s =
    (Inr \<lparr>ic_identity = i, ic_executor_id = executor,
          ic_execution_generation = ir_execution_generation r + 1,
          ic_claim_expires_at = x, ic_execution_admission = ad\<rparr>,
     put_receipt (claimed_receipt executor x ad r) s)"
  using assms
  by (simp add: claim_effect_def bindS_apply inbox_require_def execution_request_init_def)

lemma claim_effect_run:
  assumes "claim_effect i executor ea expiry profile s = (r, t)"
  shows "(inbox_micro authority)\<^sup>*\<^sup>* s t"
proof (cases r)
  case (Inl e)
  with assms claim_effect_Inl show ?thesis by blast
next
  case (Inr c)
  with assms have "claim_effect i executor ea expiry profile s = (Inr c, t)" by simp
  then obtain q ad x where q: "map_of (ib_receipts s) (identity_key (ir_identity q)) = Some q"
    and st: "ir_state q = Admitted" "ea_request ad = receipt_request q profile"
    and t: "t = put_receipt (claimed_receipt executor x ad q) s"
    by (rule claim_effect_Inr) blast
  from i_step [OF q r_claim [OF st]] show ?thesis unfolding t by (rule r_into_rtranclp)
qed

lemma expire_processing_run:
  "expire_processing_claim i obs s = (r, t) \<Longrightarrow> (inbox_micro authority)\<^sup>*\<^sup>* s t"
  by (cases obs)
    (auto simp: expire_processing_claim_def bindS_apply inbox_require_def processing_lapsed_def
      intro!: r_into_rtranclp i_step r_block split: option.splits if_splits)

lemma lapse_receipt_identity [simp]: "ir_identity (lapse_receipt now r) = ir_identity r"
  by (simp add: lapse_receipt_def)

lemma lapse_receipt_run:
  assumes "map_of (ib_receipts s) (identity_key (ir_identity r)) = Some r"
  shows "(inbox_micro authority)\<^sup>*\<^sup>* s (put_receipt (lapse_receipt now r) s)"
proof (cases "processing_lapsed now r")
  case True
  then have "ir_state r = Processing" by (simp add: processing_lapsed_def)
  from i_step [OF assms r_block [OF this]] True show ?thesis
    by (simp add: lapse_receipt_def r_into_rtranclp)
next
  case False
  then show ?thesis using put_same_receipt [OF assms] by (simp add: lapse_receipt_def)
qed

lemma claim_current_lapse:
  "claim_current c (lapse_receipt now r) \<longleftrightarrow> claim_current c r \<and> now < ic_claim_expires_at c"
  by (auto simp: claim_current_def lapse_receipt_def processing_lapsed_def not_le
      split: option.splits)

lemma lapse_receipt_current:
  "claim_current c r \<Longrightarrow> now < ic_claim_expires_at c \<Longrightarrow> lapse_receipt now r = r"
  by (auto simp: claim_current_def lapse_receipt_def processing_lapsed_def)

text \<open>The guard of the five claim-holding methods, in one equation.\<close>

lemma require_current_executor_result:
  "require_current_executor c now s =
     (case inbox_require (ic_identity c) s of
        (Inl e, s') \<Rightarrow> (Inl e, s')
      | (Inr r, s') \<Rightarrow>
          if claim_current c r \<and> now < ic_claim_expires_at c then (Inr r, s)
          else (Inl InvalidTransition, put_receipt (lapse_receipt now r) s))"
proof -
  have "put_receipt r s = s" if "inbox_require (ic_identity c) s = (Inr r, s')" for r s'
    using that put_same_receipt [of s r] by (auto simp: inbox_require_Inr)
  then show ?thesis
    by (auto simp: require_current_executor_def bindS_apply claim_current_lapse
        lapse_receipt_current inbox_require_Inr split: sum.split prod.split)
qed

lemma require_current_executor_Inr:
  "require_current_executor c now s = (Inr r, t) \<longleftrightarrow>
     t = s \<and> ir_identity r = ic_identity c \<and>
     map_of (ib_receipts s) (identity_key (ic_identity c)) = Some r \<and>
     claim_current c r \<and> now < ic_claim_expires_at c"
  unfolding require_current_executor_result
  by (auto simp: inbox_require_def split: option.splits if_splits)

lemma require_current_executor_Inl:
  assumes "require_current_executor c now s = (Inl e, t)"
  shows "t = s \<or> (\<exists>r. map_of (ib_receipts s) (identity_key (ir_identity r)) = Some r \<and>
    t = put_receipt (lapse_receipt now r) s)"
proof (cases "inbox_require (ic_identity c) s")
  case (Pair v s')
  show ?thesis
  proof (cases v)
    case (Inl e')
    with Pair assms inbox_require_Inl [of "ic_identity c" s e' s'] show ?thesis
      by (simp add: require_current_executor_result)
  next
    case (Inr r)
    with Pair have "map_of (ib_receipts s) (identity_key (ir_identity r)) = Some r"
      by (simp add: inbox_require_Inr)
    moreover have "t = put_receipt (lapse_receipt now r) s"
      using Pair Inr assms by (simp add: require_current_executor_result split: if_splits)
    ultimately show ?thesis by blast
  qed
qed

lemma require_current_executor_run:
  "require_current_executor c now s = (r, t) \<Longrightarrow> (inbox_micro authority)\<^sup>*\<^sup>* s t"
  using require_current_executor_Inl [of c now s _ t] require_current_executor_Inr [of c now s _ t]
    lapse_receipt_run by (cases r) blast+

text \<open>
  All five have the shape: check the time, check the claim, then either raise without a
  change or replace the receipt.
\<close>

lemma with_current_executor_run:
  assumes run: "bindS (liftS (aware obs)) (\<lambda>now. bindS (require_current_executor c now) k) s = (u, t)"
    and k: "\<And>r. map_of (ib_receipts s) (identity_key (ir_identity r)) = Some r \<Longrightarrow>
      ir_state r = Processing \<Longrightarrow> k r s = (u, t) \<Longrightarrow>
      t = s \<or> (\<exists>r'. receipt_step authority r r' \<and> t = put_receipt r' s)"
  shows "(inbox_micro authority)\<^sup>*\<^sup>* s t"
proof (cases obs)
  case (Naive n)
  with run show ?thesis by simp
next
  case (Aware now)
  obtain v s' where v: "require_current_executor c now s = (v, s')" by fastforce
  show ?thesis
  proof (cases v)
    case (Inl e)
    with run v Aware have "t = s'" by (simp add: bindS_apply)
    with require_current_executor_run [OF v] show ?thesis by simp
  next
    case (Inr r)
    with v have r: "s' = s" "map_of (ib_receipts s) (identity_key (ir_identity r)) = Some r"
      "ir_state r = Processing"
      by (auto simp: require_current_executor_Inr claim_current_def)
    with run v Aware Inr have "k r s = (u, t)" by (simp add: bindS_apply)
    from k [OF r(2,3) this] show ?thesis
      using i_step [OF r(2), of authority] by (auto intro: r_into_rtranclp)
  qed
qed

lemma snapshot_for_receipt_Inr [res_simps]:
  "snapshot_for_receipt r oid authority = Inr snap \<longleftrightarrow>
     authority oid = Returned snap \<and> in_operation_scope r oid snap"
  by (auto simp: snapshot_for_receipt_def split: reply.splits)

lemma evidence_revision_Inr [res_simps]:
  "evidence_revision snap settled = Inr rv \<longleftrightarrow>
     settled \<and> os_reconciliation_revision snap = Some rv \<and> is_identifier rv"
  by (auto simp: evidence_revision_def res_simps split: option.splits)

lemma complete_local_run:
  "complete_local_effect c link obs s = (u, t) \<Longrightarrow> (inbox_micro authority)\<^sup>*\<^sup>* s t"
  unfolding complete_local_effect_def
  by (erule with_current_executor_run) (auto intro: r_local split: if_splits)

lemma complete_cross_run:
  "complete_cross_authority_effect c link authority obs s = (u, t) \<Longrightarrow>
     (inbox_micro authority)\<^sup>*\<^sup>* s t"
  unfolding complete_cross_authority_effect_def
  by (erule with_current_executor_run)
    (auto simp: bindS_apply snapshot_for_receipt_Inr intro: r_cross
      split: if_splits option.splits sum.splits)

lemma bind_operation_run:
  "bind_cross_authority_operation c oid authority obs s = (u, t) \<Longrightarrow>
     (inbox_micro authority)\<^sup>*\<^sup>* s t"
  unfolding bind_cross_authority_operation_def thenS_apply bindS_steps case_ensure
  by (auto split: if_splits elim!: with_current_executor_run)
    (auto simp: bindS_apply snapshot_for_receipt_Inr intro: r_bind split: if_splits sum.splits)

lemma require_reconciliation_run:
  "require_reconciliation c why obs s = (u, t) \<Longrightarrow> (inbox_micro authority)\<^sup>*\<^sup>* s t"
  unfolding require_reconciliation_def thenS_apply bindS_steps case_ensure
  by (auto split: if_splits elim!: with_current_executor_run intro: r_block)

lemma inbox_fail_run:
  "inbox_fail_terminal c why obs s = (u, t) \<Longrightarrow> (inbox_micro authority)\<^sup>*\<^sup>* s t"
  unfolding inbox_fail_terminal_def thenS_apply bindS_steps case_ensure
  by (auto split: if_splits elim!: with_current_executor_run intro: r_fail)

lemma reconcile_retry_Inr:
  assumes "reconcile_retry_eligible i authority s = (Inr u, t)"
  obtains r oid snap rv where
    "map_of (ib_receipts s) (identity_key i) = Some r" "ir_identity r = i"
    "ir_state r = InboxReconciliationRequired" "ir_operation_id r = Some oid"
    "authority oid = Returned snap" "in_operation_scope r oid snap"
    "os_state snap = Prepared" "os_reconciliation_resolution snap = Some EffectProvenAbsent"
    "os_reconciliation_revision snap = Some rv"
    "t = put_receipt (readmitted_receipt rv r) s"
  using assms unfolding reconcile_retry_eligible_def thenS_apply
  by (auto simp: bindS_apply inbox_require_Inr snapshot_for_receipt_Inr evidence_revision_Inr
      split: if_splits sum.splits prod.splits option.splits)

lemma reconcile_retry_Inl: "reconcile_retry_eligible i authority s = (Inl e, t) \<Longrightarrow> t = s"
  unfolding reconcile_retry_eligible_def
  by (auto simp: bindS_apply inbox_require_Inr dest: inbox_require_Inl
      split: if_splits sum.splits prod.splits option.splits)

lemma reconcile_retry_run:
  assumes "reconcile_retry_eligible i authority s = (r, t)"
  shows "(inbox_micro authority)\<^sup>*\<^sup>* s t"
proof (cases r)
  case (Inl e)
  with assms reconcile_retry_Inl show ?thesis by blast
next
  case (Inr u)
  with assms have "reconcile_retry_eligible i authority s = (Inr u, t)" by simp
  then show ?thesis
    by (rule reconcile_retry_Inr) (auto intro!: r_into_rtranclp i_step_at intro: r_readmit)
qed

lemma reconcile_completed_Inr:
  assumes "reconcile_completed i link authority s = (Inr u, t)"
  obtains r oid snap rv auth where
    "map_of (ib_receipts s) (identity_key i) = Some r" "ir_identity r = i"
    "ir_state r = InboxReconciliationRequired" "ir_operation_id r = Some oid"
    "authority = Some auth" "auth oid = Returned snap" "in_operation_scope r oid snap"
    "os_state snap = OpCompleted" "os_outcome snap = Some link"
    "os_reconciliation_resolution snap = Some EffectConfirmed"
    "os_reconciliation_revision snap = Some rv"
    "t = put_receipt (confirmed_receipt rv link r) s"
  using assms unfolding reconcile_completed_def thenS_apply
  by (auto simp: bindS_apply inbox_require_Inr snapshot_for_receipt_Inr evidence_revision_Inr
      split: if_splits sum.splits prod.splits option.splits)

lemma reconcile_completed_Inl: "reconcile_completed i link authority s = (Inl e, t) \<Longrightarrow> t = s"
  unfolding reconcile_completed_def
  by (auto simp: bindS_apply inbox_require_Inr dest: inbox_require_Inl
      split: if_splits sum.splits prod.splits option.splits)

lemma reconcile_completed_run:
  assumes "reconcile_completed i link authority s = (r, t)" "authority \<in> {None, Some auth}"
  shows "(inbox_micro auth)\<^sup>*\<^sup>* s t"
proof (cases r)
  case (Inl e)
  with assms reconcile_completed_Inl show ?thesis by blast
next
  case (Inr u)
  with assms have "reconcile_completed i link authority s = (Inr u, t)" by simp
  then show ?thesis
    by (rule reconcile_completed_Inr)
      (use assms(2) in \<open>auto intro!: r_into_rtranclp i_step_at intro: r_confirm\<close>)
qed

section \<open>The inbox protocol\<close>

inductive inbox_step :: "operation_authority \<Rightarrow> inbox \<Rightarrow> inbox \<Rightarrow> bool" for authority where
  step_admit: "admit i c s = (a, t) \<Longrightarrow> inbox_step authority s t"
| step_claim: "claim_effect i ex ea expiry profile s = (cl, t) \<Longrightarrow> inbox_step authority s t"
| step_expire: "expire_processing_claim i obs s = (b, t) \<Longrightarrow> inbox_step authority s t"
| step_local: "complete_local_effect c link obs s = (u, t) \<Longrightarrow> inbox_step authority s t"
| step_cross: "complete_cross_authority_effect c link authority obs s = (u, t) \<Longrightarrow>
     inbox_step authority s t"
| step_bind: "bind_cross_authority_operation c oid authority obs s = (u, t) \<Longrightarrow>
     inbox_step authority s t"
| step_block: "require_reconciliation c why obs s = (u, t) \<Longrightarrow> inbox_step authority s t"
| step_fail: "inbox_fail_terminal c why obs s = (u, t) \<Longrightarrow> inbox_step authority s t"
| step_retry: "reconcile_retry_eligible i authority s = (u, t) \<Longrightarrow> inbox_step authority s t"
| step_confirm: "reconcile_completed i link oa s = (u, t) \<Longrightarrow> oa \<in> {None, Some authority} \<Longrightarrow>
     inbox_step authority s t"

lemma inbox_step_micro:
  "inbox_step authority s t \<Longrightarrow> inbox_inv s \<Longrightarrow> (inbox_micro authority)\<^sup>*\<^sup>* s t"
  by (induction rule: inbox_step.induct)
    (auto elim: admit_run claim_effect_run expire_processing_run complete_local_run
      complete_cross_run bind_operation_run require_reconciliation_run inbox_fail_run
      reconcile_retry_run intro: reconcile_completed_run)

text \<open>A run of the methods, each with an operation authority of its own.\<close>

definition inbox_any_step :: "inbox \<Rightarrow> inbox \<Rightarrow> bool" where
  "inbox_any_step s t \<longleftrightarrow> (\<exists>authority. inbox_step authority s t)"

definition inbox_any_micro :: "inbox \<Rightarrow> inbox \<Rightarrow> bool" where
  "inbox_any_micro s t \<longleftrightarrow> (\<exists>authority. inbox_micro authority s t)"

definition inbox_reachable :: "inbox \<Rightarrow> bool" where
  "inbox_reachable s \<longleftrightarrow> inbox_any_step\<^sup>*\<^sup>* empty_inbox s"

section \<open>Executor claims are fenced leases\<close>

type_synonym claim_key = "string \<times> int \<times> instant \<times> execution_admission"

definition claim_key_generation :: "claim_key \<Rightarrow> int" where
  "claim_key_generation l = fst (snd l)"

definition receipt_lease :: "inbox_receipt \<Rightarrow> claim_key option" where
  "receipt_lease r =
     (if ir_state r = Processing
      then (case (ir_executor_id r, ir_claim_expires_at r, ir_execution_admission r) of
              (Some ex, Some x, Some ad) \<Rightarrow> Some (ex, ir_execution_generation r, x, ad)
            | _ \<Rightarrow> None)
      else None)"

definition inbox_lease :: "inbox \<Rightarrow> inbox_key \<Rightarrow> claim_key option" where
  "inbox_lease s k =
     (case map_of (ib_receipts s) k of None \<Rightarrow> None | Some r \<Rightarrow> receipt_lease r)"

definition inbox_generation :: "inbox \<Rightarrow> inbox_key \<Rightarrow> int" where
  "inbox_generation s k =
     (case map_of (ib_receipts s) k of None \<Rightarrow> 0 | Some r \<Rightarrow> ir_execution_generation r)"

definition executor_lease :: "executor_claim \<Rightarrow> claim_key" where
  "executor_lease c =
     (ic_executor_id c, ic_execution_generation c, ic_claim_expires_at c,
      ic_execution_admission c)"

lemma claim_current_iff_lease: "claim_current c r \<longleftrightarrow> receipt_lease r = Some (executor_lease c)"
  by (auto simp: claim_current_def receipt_lease_def executor_lease_def split: option.splits)

lemma receipt_lease_generation:
  "receipt_lease r = Some l \<Longrightarrow> claim_key_generation l = ir_execution_generation r"
  by (auto simp: receipt_lease_def claim_key_generation_def split: if_splits option.splits)

lemma receipt_lease_none [simp]: "ir_state r \<noteq> Processing \<Longrightarrow> receipt_lease r = None"
  by (simp add: receipt_lease_def)

lemma receipt_step_lease:
  "receipt_step authority r r' \<Longrightarrow> receipt_lease r' = Some l \<Longrightarrow>
     receipt_lease r = Some l \<or> ir_execution_generation r < ir_execution_generation r'"
proof (induction rule: receipt_step.induct)
  case (r_bind r oid snap)
  have "receipt_lease (r\<lparr>ir_operation_id := Some oid\<rparr>) = receipt_lease r"
    by (simp add: receipt_lease_def split: option.split)
  with r_bind show ?case by simp
qed (auto dest: receipt_lease_none)

lemma receipt_step_generation:
  "receipt_step authority r r' \<Longrightarrow> ir_execution_generation r \<le> ir_execution_generation r'"
  by (induction rule: receipt_step.induct) simp_all

lemma inbox_micro_lookup:
  assumes "inbox_micro authority s t" "map_of (ib_receipts t) k = Some r'"
  shows "map_of (ib_receipts s) k = Some r' \<or>
    map_of (ib_receipts s) k = None \<and> (\<exists>i c. r' = new_receipt i c \<and> k = identity_key i) \<or>
    (\<exists>r. map_of (ib_receipts s) k = Some r \<and> receipt_step authority r r')"
  using assms
proof (induction rule: inbox_micro.induct)
  case (i_step s q q')
  then show ?case
    using receipt_step_identity [OF i_step.hyps(2)] by (cases "k = identity_key (ir_identity q)") auto
qed (auto split: if_splits)

lemma inbox_micro_lease:
  assumes "inbox_micro authority s t" "inbox_lease t k = Some l"
  shows "inbox_lease s k = Some l \<or> inbox_generation s k < inbox_generation t k"
proof -
  obtain r' where r': "map_of (ib_receipts t) k = Some r'" "receipt_lease r' = Some l"
    using assms(2) by (auto simp: inbox_lease_def split: option.splits)
  then have "r' \<noteq> new_receipt i c" for i c by auto
  with inbox_micro_lookup [OF assms(1) r'(1)]
  consider "map_of (ib_receipts s) k = Some r'"
    | r where "map_of (ib_receipts s) k = Some r" "receipt_step authority r r'" by blast
  then show ?thesis
    using r' receipt_step_lease by cases (auto simp: inbox_lease_def inbox_generation_def)
qed

interpretation inbox_fence: fenced_lease inbox_any_micro inbox_inv inbox_generation inbox_lease
  claim_key_generation
proof
  fix s t k c
  assume inv: "inbox_inv s"
  show "inbox_lease s k = Some c \<Longrightarrow> claim_key_generation c = inbox_generation s k"
    by (auto simp: inbox_lease_def inbox_generation_def receipt_lease_generation
        split: option.splits)
  assume "inbox_any_micro s t"
  then obtain authority where step: "inbox_micro authority s t"
    unfolding inbox_any_micro_def by blast
  show "inbox_inv t" using step inv by (rule inbox_micro_inv)
  show "inbox_generation s k \<le> inbox_generation t k"
  proof (cases "map_of (ib_receipts s) k")
    case None
    then show ?thesis
      using inbox_inv_receipt [OF inbox_micro_inv [OF step inv], of k]
      by (auto simp: inbox_generation_def receipt_ok_def split: option.splits)
  next
    case (Some r)
    with inbox_micro_receipt [OF step Some] receipt_step_generation show ?thesis
      by (fastforce simp: inbox_generation_def)
  qed
  show "inbox_lease t k = Some c \<Longrightarrow>
      inbox_lease s k = Some c \<or> inbox_generation s k < inbox_generation t k"
    using inbox_micro_lease [OF step] .
qed

lemma micro_any_run: "(inbox_micro authority)\<^sup>*\<^sup>* s t \<Longrightarrow> inbox_any_micro\<^sup>*\<^sup>* s t"
  by (erule rtranclp_mono [THEN predicate2D, rotated]) (auto simp: inbox_any_micro_def)

lemma inbox_run_micro: "inbox_any_step\<^sup>*\<^sup>* s t \<Longrightarrow> inbox_inv s \<Longrightarrow> inbox_any_micro\<^sup>*\<^sup>* s t"
proof (induction rule: rtranclp_induct)
  case (step t u)
  then have "inbox_inv t" using inbox_fence.inv_run by blast
  with step.hyps(2) have "inbox_any_micro\<^sup>*\<^sup>* t u"
    unfolding inbox_any_step_def using inbox_step_micro micro_any_run by blast
  with step show ?case by (meson rtranclp_trans)
qed simp

lemma inbox_run_inv: "inbox_any_step\<^sup>*\<^sup>* s t \<Longrightarrow> inbox_inv s \<Longrightarrow> inbox_inv t"
  using inbox_run_micro inbox_fence.inv_run by blast

lemma inbox_reachable_inv: "inbox_reachable s \<Longrightarrow> inbox_inv s"
  unfolding inbox_reachable_def using inbox_run_inv inbox_inv_empty by blast

section \<open>Worked receipts\<close>

definition sample_identity :: scoped_message_identity where
  "sample_identity =
     \<lparr>si_consumer_contract = ''mon.host'', si_message_identity_scope = ''scope'',
      si_message_id = ''m1'', si_tenant_id = None\<rparr>"

definition sample_receipt :: inbox_receipt where
  "sample_receipt = new_receipt sample_identity (sample_evidence [7])"

definition sample_inbox :: inbox where
  "sample_inbox = put_receipt sample_receipt empty_inbox"

definition sample_receipt_request :: execution_request where
  "sample_receipt_request = receipt_request sample_receipt ''runtime.worker@1''"

definition sample_processing :: inbox_receipt where
  "sample_processing =
     claimed_receipt ''w1'' (At 10) (sample_admission sample_receipt_request) sample_receipt"

definition sample_executor :: executor_claim where
  "sample_executor =
     \<lparr>ic_identity = sample_identity, ic_executor_id = ''w1'', ic_execution_generation = 1,
      ic_claim_expires_at = At 10,
      ic_execution_admission = sample_admission sample_receipt_request\<rparr>"

definition sample_processing_inbox :: inbox where
  "sample_processing_inbox = put_receipt sample_processing sample_inbox"

lemma sample_receipt_fields [simp]:
  "ir_identity sample_receipt = sample_identity" "ir_identity sample_processing = sample_identity"
  "ir_state sample_receipt = Admitted" "ir_state sample_processing = Processing"
  "ir_operation_id sample_processing = None" "ir_result_link sample_processing = None"
  "ir_execution_generation sample_processing = 1"
  "ir_comparison_evidence sample_processing = sample_evidence [7]"
  by (simp_all add: sample_receipt_def sample_processing_def)
    (simp_all add: new_receipt_def claimed_receipt_def)

lemma sample_executor_fields [simp]:
  "ic_identity sample_executor = sample_identity" "ic_claim_expires_at sample_executor = At 10"
  "ic_execution_generation sample_executor = 1"
  by (simp_all add: sample_executor_def)

lemma sample_admit: "admit sample_identity (sample_evidence [7]) empty_inbox =
    (Inr NewReceipt, sample_inbox)"
  by (simp add: admit_def empty_inbox_def sample_inbox_def sample_receipt_def)

lemma valid_sample_receipt_request: "valid_execution_request sample_receipt_request"
  by (simp add: sample_receipt_request_def receipt_request_def sample_identity_def
      valid_execution_request_def is_contract_name_def contract_char_def
      allowed_runtime_profiles_def Let_def grammar_eval)

lemma sample_claim_effect:
  "claim_effect sample_identity ''w1'' sample_authority (Aware (At 10)) ''runtime.worker@1''
     sample_inbox = (Inr sample_executor, sample_processing_inbox)"
proof -
  have w1: "is_identifier ''w1''" by (simp add: grammar_eval)
  have "map_of (ib_receipts sample_inbox) (identity_key sample_identity) = Some sample_receipt"
    by (simp add: sample_inbox_def)
  then show ?thesis
    using claim_effect_ready [of sample_inbox sample_identity sample_receipt "''w1''"
        "''runtime.worker@1''" sample_authority "sample_admission sample_receipt_request" "At 0"
        "At 10"] w1 valid_sample_receipt_request
    by (simp add: sample_receipt_request_def [symmetric] sample_processing_inbox_def
        sample_executor_def sample_processing_def) (simp add: sample_receipt_def)
qed

lemma inbox_reachable_step: "inbox_reachable s \<Longrightarrow> inbox_step authority s t \<Longrightarrow> inbox_reachable t"
  unfolding inbox_reachable_def
  by (rule rtranclp.rtrancl_into_rtrancl) (auto simp: inbox_any_step_def)

lemma sample_inbox_reachable: "inbox_reachable sample_inbox"
proof -
  have "inbox_reachable empty_inbox" by (simp add: inbox_reachable_def)
  then show ?thesis by (rule inbox_reachable_step) (rule step_admit [OF sample_admit])
qed

lemma sample_processing_reachable: "inbox_reachable sample_processing_inbox"
  by (rule inbox_reachable_step [OF sample_inbox_reachable step_claim [OF sample_claim_effect]])

lemma sample_processing_lookup:
  "map_of (ib_receipts sample_processing_inbox) (identity_key sample_identity) =
     Some sample_processing"
  by (simp add: sample_processing_inbox_def)

lemma sample_claim_current: "claim_current sample_executor sample_processing"
  by (simp add: claim_current_def sample_executor_def sample_processing_def claimed_receipt_def
      sample_receipt_def new_receipt_def)

section \<open>Properties\<close>

text \<open>A lost executor is powerless for ever. If an executor's claim is not the one
  recorded and its generation is not ahead, then after any further run, whatever the
  clock and the operation authority say, it can neither complete, bind, block nor fail
  the receipt.\<close>

theorem lost_executor_powerless:
  assumes inv: "inbox_inv s"
    and lost: "inbox_lease s (identity_key (ic_identity c)) \<noteq> Some (executor_lease c)"
    and past: "ic_execution_generation c \<le> inbox_generation s (identity_key (ic_identity c))"
    and run: "inbox_any_step\<^sup>*\<^sup>* s t"
  shows "fst (complete_local_effect c link obs t) \<noteq> Inr () \<and>
    fst (complete_cross_authority_effect c link authority obs t) \<noteq> Inr () \<and>
    fst (bind_cross_authority_operation c oid authority obs t) \<noteq> Inr () \<and>
    fst (require_reconciliation c why obs t) \<noteq> Inr () \<and>
    fst (inbox_fail_terminal c why obs t) \<noteq> Inr ()"
proof -
  have gone: "inbox_lease t (identity_key (ic_identity c)) \<noteq> Some (executor_lease c)"
    by (rule inbox_fence.lost_lease_stays_lost [OF inbox_run_micro [OF run inv] inv lost])
      (simp add: executor_lease_def claim_key_generation_def past)
  have "\<exists>e u. require_current_executor c now t = (Inl e, u)" for now
  proof (cases "require_current_executor c now t")
    case (Pair v u)
    with gone show ?thesis
      by (cases v) (auto simp: require_current_executor_Inr inbox_lease_def
          claim_current_iff_lease)
  qed
  then have refused: "fst (bindS (require_current_executor c now) k t) \<noteq> Inr ()" for now k
    by (metis bindS_simps(1) fst_conv Inl_Inr_False)
  have "fst (bindS (liftS (aware obs)) (\<lambda>now. bindS (require_current_executor c now) k) t) \<noteq> Inr ()"
    for k using refused by (cases obs) simp_all
  then show ?thesis
    by (simp add: complete_local_effect_def complete_cross_authority_effect_def
        bind_cross_authority_operation_def require_reconciliation_def inbox_fail_terminal_def
        del: bindS_steps) (simp add: ensure_def)
qed

theorem lost_executor_powerless_witness:
  "fst (complete_local_effect (sample_executor\<lparr>ic_executor_id := ''w2''\<rparr>)
     \<lparr>rl_result_id = ''r'', rl_result_kind = ''k''\<rparr> (Aware (At 5)) sample_processing_inbox) \<noteq> Inr ()"
proof -
  have "receipt_lease sample_processing = Some (executor_lease sample_executor)"
    using sample_claim_current by (simp add: claim_current_iff_lease)
  then have "inbox_lease sample_processing_inbox (identity_key sample_identity) \<noteq>
      Some (executor_lease (sample_executor\<lparr>ic_executor_id := ''w2''\<rparr>))"
    by (simp add: inbox_lease_def sample_processing_lookup executor_lease_def sample_executor_def)
  moreover have "inbox_generation sample_processing_inbox (identity_key sample_identity) = 1"
    by (simp add: inbox_generation_def sample_processing_lookup)
  ultimately show ?thesis
    using lost_executor_powerless [OF inbox_reachable_inv [OF sample_processing_reachable] _ _
        rtranclp.rtrancl_refl, of "sample_executor\<lparr>ic_executor_id := ''w2''\<rparr>"] by simp
qed

lemma inbox_micro_keeps:
  "inbox_any_micro\<^sup>*\<^sup>* s t \<Longrightarrow> map_of (ib_receipts s) k = Some r \<Longrightarrow>
     \<exists>r'. map_of (ib_receipts t) k = Some r' \<and> ir_identity r' = ir_identity r \<and>
       ir_comparison_evidence r' = ir_comparison_evidence r"
proof (induction rule: rtranclp_induct)
  case (step t u)
  from step.IH [OF step.prems] obtain r' where r': "map_of (ib_receipts t) k = Some r'"
    "ir_identity r' = ir_identity r" "ir_comparison_evidence r' = ir_comparison_evidence r" by blast
  from step.hyps(2) obtain authority where "inbox_micro authority t u"
    unfolding inbox_any_micro_def by blast
  from inbox_micro_receipt [OF this r'(1)] show ?case
  proof (elim disjE exE conjE)
    fix q
    assume "map_of (ib_receipts u) k = Some q" "receipt_step authority r' q"
    with r'(2,3) show ?thesis by (simp add: receipt_step_identity receipt_step_evidence)
  qed (use r' in simp)
qed simp

definition quarantined_at :: "inbox \<Rightarrow> inbox_key \<Rightarrow> bool" where
  "quarantined_at s k \<longleftrightarrow>
     (\<exists>r. map_of (ib_receipts s) k = Some r \<and> ir_state r = InboxQuarantined) \<and>
     inbox_lease s k = None"

lemma admit_conflict:
  assumes "map_of (ib_receipts s) (identity_key i) = Some r"
    "ir_identity r \<noteq> i \<or> relation_to (ir_comparison_evidence r) c = Mismatch"
    "identity_key (ir_identity r) = identity_key i"
  shows "\<exists>t. admit i c s = (Inr AdmitConflict, t) \<and> quarantined_at t (identity_key i)"
proof -
  obtain why where "admit i c s =
      (Inr AdmitConflict, put_receipt (release_executor InboxQuarantined why r) s)"
    using assms by (cases "ir_identity r = i") (auto simp: admit_def)
  then show ?thesis using assms(3) by (simp add: quarantined_at_def inbox_lease_def)
qed

text \<open>One receipt per message. Once a message was admitted as new, then after any
  further run it is never new again: the same identity and evidence is only observed and
  changes nothing; other content under the same evidence profile, or another trusted
  identity under the same key, is a conflict that quarantines the receipt and takes it
  from its executor.\<close>

theorem admit_once:
  assumes inv: "inbox_inv s" and new: "admit i c s = (Inr NewReceipt, t)"
    and run: "inbox_any_step\<^sup>*\<^sup>* t u"
  shows "(\<exists>a. a \<noteq> NewReceipt \<and> admit i c u = (Inr a, u)) \<and>
    (relation_to c c' = Mismatch \<longrightarrow>
       (\<exists>v. admit i c' u = (Inr AdmitConflict, v) \<and> quarantined_at v (identity_key i))) \<and>
    (i' \<noteq> i \<and> identity_key i' = identity_key i \<longrightarrow>
       (\<exists>v. admit i' c' u = (Inr AdmitConflict, v) \<and> quarantined_at v (identity_key i)))"
proof -
  have t: "t = put_receipt (new_receipt i c) s"
    using new by (simp add: admit_def split: option.splits if_splits equivalence_relation.splits)
  have "inbox_inv t" unfolding t by (rule inbox_inv_put [OF inv receipt_ok_new])
  moreover have "map_of (ib_receipts t) (identity_key i) = Some (new_receipt i c)"
    by (simp add: t)
  ultimately obtain r where r: "map_of (ib_receipts u) (identity_key i) = Some r"
    "ir_identity r = i" "ir_comparison_evidence r = c"
    using inbox_micro_keeps [OF inbox_run_micro [OF run]] by (fastforce simp: new_receipt_def)
  have "\<exists>a. a \<noteq> NewReceipt \<and> admit i c u = (Inr a, u)" using r by (simp add: admit_def)
  moreover have "relation_to c c' = Mismatch \<Longrightarrow>
      \<exists>v. admit i c' u = (Inr AdmitConflict, v) \<and> quarantined_at v (identity_key i)"
    using admit_conflict [OF r(1)] r(2,3) by simp
  moreover have "i' \<noteq> i \<Longrightarrow> identity_key i' = identity_key i \<Longrightarrow>
      \<exists>v. admit i' c' u = (Inr AdmitConflict, v) \<and> quarantined_at v (identity_key i)"
    using admit_conflict [of u i' r c'] r(1,2) by auto
  ultimately show ?thesis by blast
qed

theorem admit_once_witness:
  "admit sample_identity (sample_evidence [7]) sample_processing_inbox =
     (Inr ObserveInProgress, sample_processing_inbox) \<and>
   fst (admit sample_identity (sample_evidence [8]) sample_processing_inbox) = Inr AdmitConflict"
proof -
  have run: "inbox_any_step\<^sup>*\<^sup>* sample_inbox sample_processing_inbox"
    using step_claim [OF sample_claim_effect] by (auto simp: inbox_any_step_def)
  have "relation_to (sample_evidence [7]) (sample_evidence [8]) = Mismatch"
    by (simp add: relation_to_def sample_evidence_def)
  then show ?thesis
    using admit_once [OF inbox_inv_empty sample_admit run, of "sample_evidence [8]"]
    by (auto simp: admit_def sample_processing_lookup)
qed

text \<open>Expiry is never read as absence of the effect. Completing a local effect on a
  reachable ledger succeeds exactly for the recorded, unexpired executor of a receipt
  that is not bound to an operation, and stores the result; an expired executor raises
  and leaves the receipt blocked for reconciliation, not executable; all other calls
  raise and change nothing.\<close>

theorem complete_local_exact:
  assumes reach: "inbox_reachable s"
    and r: "map_of (ib_receipts s) (identity_key (ic_identity c)) = Some r"
    and id: "ir_identity r = ic_identity c"
  shows "complete_local_effect c link (Aware now) s =
    (if inbox_lease s (identity_key (ic_identity c)) = Some (executor_lease c) \<and>
        now < ic_claim_expires_at c \<and> ir_operation_id r = None
     then (Inr (), put_receipt (completed_receipt link r) s)
     else if ir_state r = Processing \<and> (\<exists>x\<le>now. ir_claim_expires_at r = Some x)
     then (Inl InvalidTransition, put_receipt (block_receipt processing_expired_reason r) s)
     else (Inl InvalidTransition, s))"
proof -
  have lease: "inbox_lease s (identity_key (ic_identity c)) = Some (executor_lease c) \<longleftrightarrow>
      claim_current c r"
    using r by (simp add: inbox_lease_def claim_current_iff_lease)
  have req: "inbox_require (ic_identity c) s = (Inr r, s)"
    using r id by (simp add: inbox_require_Inr)
  have same: "put_receipt r s = s" using r id by (simp add: put_same_receipt)
  show ?thesis
  proof (cases "claim_current c r \<and> now < ic_claim_expires_at c")
    case True
    then have "\<not> processing_lapsed now r" by (auto simp: processing_lapsed_def claim_current_def)
    with True show ?thesis
      by (auto simp: complete_local_effect_def bindS_apply require_current_executor_result req
          lease processing_lapsed_def split: option.splits)
  next
    case False
    then show ?thesis
      by (auto simp: complete_local_effect_def bindS_apply require_current_executor_result req
          lease lapse_receipt_def processing_lapsed_def same split: option.splits)
  qed
qed

theorem complete_local_exact_witness:
  "complete_local_effect sample_executor \<lparr>rl_result_id = ''r'', rl_result_kind = ''k''\<rparr>
     (Aware (At 10)) sample_processing_inbox =
   (Inl InvalidTransition,
    put_receipt (block_receipt processing_expired_reason sample_processing)
      sample_processing_inbox)"
proof -
  have "ir_claim_expires_at sample_processing = Some (At 10)"
    using sample_claim_current by (simp add: claim_current_def)
  then show ?thesis
    using complete_local_exact [OF sample_processing_reachable, of sample_executor
        sample_processing _ "At 10"] sample_processing_lookup by simp
qed

definition absence_shown :: "inbox_receipt \<Rightarrow> operation_authority \<Rightarrow> bool" where
  "absence_shown r authority \<longleftrightarrow>
     (\<exists>oid snap rv. ir_operation_id r = Some oid \<and> authority oid = Returned snap \<and>
        os_operation_id snap = oid \<and>
        os_owner_contract snap = Some (si_consumer_contract (ir_identity r)) \<and>
        os_tenant_id snap = si_tenant_id (ir_identity r) \<and>
        os_state snap = Prepared \<and>
        os_reconciliation_resolution snap = Some EffectProvenAbsent \<and>
        os_reconciliation_revision snap = Some rv \<and> is_identifier rv)"

text \<open>A blocked receipt becomes executable again only on proof of absence.
  \<open>reconcile_retry_eligible\<close> succeeds exactly when the receipt is blocked, is bound to an
  operation, and the operation authority returns a snapshot of exactly that operation in
  the receipt's own contract and tenant that is prepared again after its effect was
  proven absent; otherwise it raises and changes nothing.\<close>

theorem reconcile_retry_exact:
  assumes r: "map_of (ib_receipts s) (identity_key i) = Some r" "ir_identity r = i"
  shows "case reconcile_retry_eligible i authority s of
      (Inr u, t) \<Rightarrow>
        ir_state r = InboxReconciliationRequired \<and> absence_shown r authority \<and>
        (\<exists>rv. t = put_receipt (readmitted_receipt rv r) s)
    | (Inl e, t) \<Rightarrow>
        t = s \<and> \<not> (ir_state r = InboxReconciliationRequired \<and> absence_shown r authority)"
proof -
  have req: "inbox_require i s = (Inr r, s)" using r by (simp add: inbox_require_Inr)
  show ?thesis
    using r(2)
    by (cases "ir_operation_id r")
      (auto simp: reconcile_retry_eligible_def bindS_apply req snapshot_for_receipt_def
        evidence_revision_def require_identifier_def in_operation_scope_def construct_def
        absence_shown_def split: sum.splits reply.splits option.splits)
qed

definition sample_blocked :: inbox_receipt where
  "sample_blocked = (block_receipt ''why1'' sample_processing)\<lparr>ir_operation_id := Some ''op1''\<rparr>"

definition sample_absent_snapshot :: operation_snapshot where
  "sample_absent_snapshot =
     \<lparr>os_operation_id = ''op1'', os_state = Prepared, os_attempt_generation = 1,
      os_owner_contract = Some ''mon.host'', os_tenant_id = None, os_outcome = None,
      os_reconciliation_resolution = Some EffectProvenAbsent,
      os_reconciliation_revision = Some ''rev1'',
      os_reconciliation_attempt_generation = Some 1\<rparr>"

definition sample_absent_authority :: operation_authority where
  "sample_absent_authority = (\<lambda>_. Returned sample_absent_snapshot)"

lemma sample_blocked_fields [simp]:
  "ir_identity sample_blocked = sample_identity" "ir_operation_id sample_blocked = Some ''op1''"
  "ir_state sample_blocked = InboxReconciliationRequired"
  "ir_comparison_evidence sample_blocked = sample_evidence [7]"
proof -
  have "ir_identity (block_receipt ''why1'' sample_processing) = sample_identity" by simp
  then show "ir_identity sample_blocked = sample_identity" by (simp add: sample_blocked_def)
  show "ir_operation_id sample_blocked = Some ''op1''" by (simp add: sample_blocked_def)
  have "ir_state (block_receipt ''why1'' sample_processing) = InboxReconciliationRequired" by simp
  then show "ir_state sample_blocked = InboxReconciliationRequired" by (simp add: sample_blocked_def)
  show "ir_comparison_evidence sample_blocked = sample_evidence [7]"
    using receipt_step_evidence [OF r_block [OF sample_receipt_fields(4)], of "''why1''"]
    by (simp add: sample_blocked_def)
qed

lemma sample_absence_shown: "absence_shown sample_blocked sample_absent_authority"
  by (simp add: absence_shown_def sample_absent_authority_def sample_absent_snapshot_def
      sample_identity_def grammar_eval)

theorem reconcile_retry_exact_witness:
  "\<exists>u t. reconcile_retry_eligible sample_identity sample_absent_authority
     (put_receipt sample_blocked empty_inbox) = (Inr u, t)"
proof -
  have "map_of (ib_receipts (put_receipt sample_blocked empty_inbox))
      (identity_key sample_identity) = Some sample_blocked" by simp
  from reconcile_retry_exact [OF this, of sample_absent_authority] show ?thesis
    using sample_absence_shown
    by (cases "reconcile_retry_eligible sample_identity sample_absent_authority
        (put_receipt sample_blocked empty_inbox)") (auto split: sum.splits)
qed

section \<open>Quarantine is not absorbing\<close>

text \<open>A quarantined receipt leaves quarantine through \<open>admit\<close>: a later delivery whose
  evidence cannot be compared moves it to \<open>reconciliation_required\<close>, and proof of the
  operation's absence then makes it executable again, although the conflict that
  quarantined it was never resolved. The same holds for a terminally failed receipt.
\<close>

theorem quarantine_not_absorbing:
  assumes "map_of (ib_receipts s) (identity_key i) = Some r" "ir_identity r = i"
    and "ir_state r \<in> {InboxQuarantined, InboxFailedTerminal}"
    and "relation_to (ir_comparison_evidence r) c = Unknown" "absence_shown r authority"
  shows "\<exists>t u v. admit i c s = (Inr AdmitBlocked, t) \<and>
    reconcile_retry_eligible i authority t = (Inr u, v) \<and>
    get_receipt_state i v = (Inr Admitted, v)"
proof -
  let ?q = "release_executor InboxReconciliationRequired ''message_equivalence_authority_unknown'' r"
  have t: "admit i c s = (Inr AdmitBlocked, put_receipt ?q s)"
    using assms by (simp add: admit_def)
  have q: "map_of (ib_receipts (put_receipt ?q s)) (identity_key i) = Some ?q" "ir_identity ?q = i"
    using assms(2) by simp_all
  have "absence_shown ?q authority" using assms(5) by (simp add: absence_shown_def)
  then obtain u rv where "reconcile_retry_eligible i authority (put_receipt ?q s) =
      (Inr u, put_receipt (readmitted_receipt rv ?q) (put_receipt ?q s))"
    using reconcile_retry_exact [OF q, of authority]
    by (cases "reconcile_retry_eligible i authority (put_receipt ?q s)") (auto split: sum.splits)
  moreover have "get_receipt_state i (put_receipt (readmitted_receipt rv ?q) (put_receipt ?q s)) =
      (Inr Admitted, put_receipt (readmitted_receipt rv ?q) (put_receipt ?q s))"
    using assms(2) by (simp add: get_receipt_state_def receipt_field_def bindS_apply inbox_require_def)
  ultimately show ?thesis using t by blast
qed

theorem quarantine_not_absorbing_witness:
  "\<exists>t u v. admit sample_identity ((sample_evidence [7])\<lparr>ce_form := ''mac''\<rparr>)
       (put_receipt (sample_blocked\<lparr>ir_state := InboxQuarantined\<rparr>) empty_inbox) =
     (Inr AdmitBlocked, t) \<and>
     reconcile_retry_eligible sample_identity sample_absent_authority t = (Inr u, v) \<and>
     get_receipt_state sample_identity v = (Inr Admitted, v)"
proof -
  let ?q = "sample_blocked\<lparr>ir_state := InboxQuarantined\<rparr>"
  have "map_of (ib_receipts (put_receipt ?q empty_inbox)) (identity_key sample_identity) = Some ?q"
    by simp
  moreover have "relation_to (ir_comparison_evidence ?q) ((sample_evidence [7])\<lparr>ce_form := ''mac''\<rparr>) =
      Unknown"
    by (simp add: relation_to_def) (simp add: sample_evidence_def)
  moreover have "absence_shown ?q sample_absent_authority"
    using sample_absence_shown by (simp add: absence_shown_def)
  ultimately show ?thesis by (intro quarantine_not_absorbing) simp_all
qed

end
