(* ===== verification/Reconciliation.thy ===== *)
theory Reconciliation
  imports Execution Lease_Protocol
begin

text \<open>
  src/src/jlmirror_async/reconciliation.py: the ledger of cross-authority operations. An
  attempt whose outcome is unknown blocks its operation until evidence for exactly that
  attempt resolves it; evidence is append-only. Each method runs under the ledger's lock
  and is one operation on the ledger state.
\<close>

section \<open>State\<close>

record operation_attempt =
  oa_operation_id :: string
  oa_attempt_generation :: int
  oa_executor_id :: string
  oa_attempt_expires_at :: instant
  oa_execution_admission :: execution_admission

record reconciliation_evidence =
  re_operation_id :: string
  re_attempt_generation :: int
  re_reconciliation_revision :: string
  re_resolution :: reconciliation_resolution
  re_confirmed_outcome :: "effect_result_link option"

definition valid_reconciliation_evidence :: "reconciliation_evidence \<Rightarrow> bool" where
  "valid_reconciliation_evidence ev \<longleftrightarrow>
     is_identifier (re_operation_id ev) \<and>
     1 \<le> re_attempt_generation ev \<and>
     is_identifier (re_reconciliation_revision ev) \<and>
     (re_resolution ev = EffectConfirmed \<longleftrightarrow> re_confirmed_outcome ev \<noteq> None)"

record operation =
  op_operation_id :: string
  op_tenant_id :: "string option"
  op_owner_contract :: string
  op_state :: operation_state
  op_attempt_generation :: int
  op_executor_id :: "string option"
  op_attempt_expires_at :: "instant option"
  op_execution_admission :: "execution_admission option"
  op_outcome :: "effect_result_link option"
  op_ambiguity_reason :: "string option"
  op_reconciliation_revision :: "string option"
  op_reconciliation_resolution :: "reconciliation_resolution option"

record op_ledger =
  ol_operations :: "(string, operation) dict"
  ol_evidence :: "(string \<times> string, reconciliation_evidence) dict"

definition empty_op_ledger :: op_ledger where
  "empty_op_ledger = \<lparr>ol_operations = [], ol_evidence = []\<rparr>"

definition new_operation :: "string \<Rightarrow> string option \<Rightarrow> string \<Rightarrow> operation" where
  "new_operation oid tenant owner =
     \<lparr>op_operation_id = oid, op_tenant_id = tenant, op_owner_contract = owner,
      op_state = Prepared, op_attempt_generation = 0, op_executor_id = None,
      op_attempt_expires_at = None, op_execution_admission = None, op_outcome = None,
      op_ambiguity_reason = None, op_reconciliation_revision = None,
      op_reconciliation_resolution = None\<rparr>"

definition put_operation :: "string \<Rightarrow> operation \<Rightarrow> op_ledger \<Rightarrow> op_ledger" where
  "put_operation oid p s = s\<lparr>ol_operations := AList.update oid p (ol_operations s)\<rparr>"

definition put_evidence :: "reconciliation_evidence \<Rightarrow> op_ledger \<Rightarrow> op_ledger" where
  "put_evidence ev s =
     s\<lparr>ol_evidence :=
         AList.update (re_operation_id ev, re_reconciliation_revision ev) ev (ol_evidence s)\<rparr>"

section \<open>Operations\<close>

definition op_require :: "string \<Rightarrow> (op_ledger, operation) op" where
  "op_require oid =
     thenS (ensureS (is_identifier oid) ValueError)
     (\<lambda>s. case map_of (ol_operations s) oid of
        None \<Rightarrow> (Inl InvalidTransition, s)
      | Some p \<Rightarrow> (Inr p, s))"

definition prepare :: "string \<Rightarrow> string \<Rightarrow> string option \<Rightarrow> (op_ledger, unit) op" where
  "prepare oid owner tenant =
     thenS (ensureS (is_identifier oid) ValueError)
     (thenS (ensureS (is_identifier owner) ValueError)
     (thenS (ensureS (opt_identifier tenant) ValueError)
     (\<lambda>s. case map_of (ol_operations s) oid of
        Some existing \<Rightarrow>
          if op_owner_contract existing \<noteq> owner \<or> op_tenant_id existing \<noteq> tenant
          then (Inl InvalidTransition, s) else (Inr (), s)
      | None \<Rightarrow> (Inr (), put_operation oid (new_operation oid tenant owner) s))))"

definition operation_request :: "operation \<Rightarrow> string \<Rightarrow> execution_request" where
  "operation_request p profile =
     \<lparr>er_authority_contract = op_owner_contract p, er_runtime_profile_id = profile,
      er_tenant_id = op_tenant_id p, er_message_identity = None,
      er_operation_id = Some (op_operation_id p)\<rparr>"

definition begun :: "string \<Rightarrow> instant \<Rightarrow> execution_admission \<Rightarrow> operation \<Rightarrow> operation" where
  "begun executor expires admission p =
     p\<lparr>op_state := Attempting, op_attempt_generation := op_attempt_generation p + 1,
       op_executor_id := Some executor, op_attempt_expires_at := Some expires,
       op_execution_admission := Some admission, op_reconciliation_revision := None,
       op_reconciliation_resolution := None\<rparr>"

definition begin_attempt ::
  "string \<Rightarrow> string \<Rightarrow> execution_authority \<Rightarrow> datetime \<Rightarrow> string \<Rightarrow>
   (op_ledger, operation_attempt) op" where
  "begin_attempt oid executor authority attempt_expires_at profile =
     thenS (ensureS (is_identifier executor) ValueError)
     (bindS (op_require oid) (\<lambda>p.
      thenS (ensureS (op_state p \<noteq> OpReconciliationRequired) ReconciliationBlocked)
     (thenS (ensureS (op_state p = Prepared) InvalidTransition)
     (thenS (ensureS (op_reconciliation_resolution p \<in> {None, Some EffectProvenAbsent})
               InvalidTransition)
     (bindS (liftS (execution_request_init (operation_request p profile))) (\<lambda>request.
      bindS (liftS (admit_execution authority request)) (\<lambda>admission.
      bindS (liftS (aware attempt_expires_at)) (\<lambda>expires.
      bindS (liftS (aware (ea_observed_at admission))) (\<lambda>observed.
      thenS (ensureS (observed < expires) ValueError)
     (thenS (modifyS (put_operation oid (begun executor expires admission p)))
     (returnS \<lparr>oa_operation_id = oid, oa_attempt_generation = op_attempt_generation p + 1,
               oa_executor_id = executor, oa_attempt_expires_at = expires,
               oa_execution_admission = admission\<rparr>)))))))))))"

definition block_for_reconciliation :: "string \<Rightarrow> operation \<Rightarrow> operation" where
  "block_for_reconciliation reason p =
     p\<lparr>op_state := OpReconciliationRequired, op_executor_id := None,
       op_attempt_expires_at := None, op_execution_admission := None,
       op_ambiguity_reason := Some reason, op_reconciliation_revision := None,
       op_reconciliation_resolution := None\<rparr>"

definition lease_expired_reason :: string where
  "lease_expired_reason = ''attempt_lease_expired_effect_absence_unproven''"

definition attempt_lapsed :: "instant \<Rightarrow> operation \<Rightarrow> bool" where
  "attempt_lapsed now p \<longleftrightarrow>
     op_state p = Attempting \<and>
     (case op_attempt_expires_at p of None \<Rightarrow> False | Some x \<Rightarrow> x \<le> now)"

definition expire_attempt :: "string \<Rightarrow> datetime \<Rightarrow> (op_ledger, bool) op" where
  "expire_attempt oid observed_at =
     bindS (liftS (aware observed_at)) (\<lambda>now.
     bindS (op_require oid) (\<lambda>p.
       if attempt_lapsed now p
       then thenS (modifyS (put_operation oid (block_for_reconciliation lease_expired_reason p)))
              (returnS True)
       else returnS False))"

definition attempt_matches :: "operation_attempt \<Rightarrow> operation \<Rightarrow> bool" where
  "attempt_matches a p \<longleftrightarrow>
     op_state p = Attempting \<and>
     op_executor_id p = Some (oa_executor_id a) \<and>
     op_attempt_generation p = oa_attempt_generation a \<and>
     op_attempt_expires_at p = Some (oa_attempt_expires_at a) \<and>
     op_execution_admission p = Some (oa_execution_admission a)"

definition lapse :: "instant \<Rightarrow> operation \<Rightarrow> operation" where
  "lapse now p =
     (if attempt_lapsed now p then block_for_reconciliation lease_expired_reason p else p)"

definition require_current_attempt ::
  "operation_attempt \<Rightarrow> instant \<Rightarrow> (op_ledger, operation) op" where
  "require_current_attempt a now =
     bindS (op_require (oa_operation_id a)) (\<lambda>p.
     thenS (modifyS (put_operation (oa_operation_id a) (lapse now p)))
     (thenS (ensureS (attempt_matches a (lapse now p)) InvalidTransition)
     (returnS (lapse now p))))"

definition settle_attempt ::
  "operation_attempt \<Rightarrow> datetime \<Rightarrow> (operation \<Rightarrow> operation) \<Rightarrow> (op_ledger, unit) op" where
  "settle_attempt a observed_at f =
     bindS (liftS (aware observed_at)) (\<lambda>now.
     bindS (require_current_attempt a now) (\<lambda>p.
     modifyS (put_operation (oa_operation_id a) (f p))))"

definition completed_with :: "effect_result_link \<Rightarrow> operation \<Rightarrow> operation" where
  "completed_with outcome p =
     p\<lparr>op_state := OpCompleted, op_outcome := Some outcome, op_executor_id := None,
       op_attempt_expires_at := None, op_ambiguity_reason := None\<rparr>"

definition failed_with :: "string \<Rightarrow> operation \<Rightarrow> operation" where
  "failed_with reason p =
     p\<lparr>op_state := OpFailedTerminal, op_executor_id := None, op_attempt_expires_at := None,
       op_execution_admission := None, op_ambiguity_reason := Some reason\<rparr>"

definition complete_attempt ::
  "operation_attempt \<Rightarrow> effect_result_link \<Rightarrow> datetime \<Rightarrow> (op_ledger, unit) op" where
  "complete_attempt a outcome observed_at = settle_attempt a observed_at (completed_with outcome)"

definition mark_ambiguous :: "operation_attempt \<Rightarrow> string \<Rightarrow> datetime \<Rightarrow> (op_ledger, unit) op" where
  "mark_ambiguous a reason observed_at =
     thenS (ensureS (is_identifier reason) ValueError)
     (settle_attempt a observed_at (block_for_reconciliation reason))"

definition op_fail_terminal ::
  "operation_attempt \<Rightarrow> string \<Rightarrow> datetime \<Rightarrow> (op_ledger, unit) op" where
  "op_fail_terminal a reason observed_at =
     thenS (ensureS (is_identifier reason) ValueError)
     (settle_attempt a observed_at (failed_with reason))"

definition resolved_with :: "reconciliation_evidence \<Rightarrow> operation \<Rightarrow> operation" where
  "resolved_with ev p =
     (let q = p\<lparr>op_reconciliation_revision := Some (re_reconciliation_revision ev),
                op_reconciliation_resolution := Some (re_resolution ev)\<rparr>
      in case re_resolution ev of
           StillUnknown \<Rightarrow> q
         | EffectConfirmed \<Rightarrow>
             q\<lparr>op_state := OpCompleted, op_outcome := re_confirmed_outcome ev,
               op_ambiguity_reason := None\<rparr>
         | EffectProvenAbsent \<Rightarrow>
             q\<lparr>op_state := Prepared, op_outcome := None, op_ambiguity_reason := None\<rparr>)"

definition reconcile ::
  "string \<Rightarrow> reconciliation_resolution \<Rightarrow> string \<Rightarrow> effect_result_link option \<Rightarrow>
   (op_ledger, operation_state) op" where
  "reconcile oid resolution revision confirmed =
     thenS (ensureS (is_identifier oid) ValueError)
     (thenS (ensureS (is_identifier revision) ValueError)
     (bindS (op_require oid) (\<lambda>p.
      thenS (ensureS (op_state p = OpReconciliationRequired) InvalidTransition)
     (thenS (ensureS (1 \<le> op_attempt_generation p) InvalidTransition)
     (bindS (liftS (construct valid_reconciliation_evidence ValueError
               \<lparr>re_operation_id = oid, re_attempt_generation = op_attempt_generation p,
                re_reconciliation_revision = revision, re_resolution = resolution,
                re_confirmed_outcome = confirmed\<rparr>)) (\<lambda>ev.
      bindS (getS (\<lambda>s. map_of (ol_evidence s) (oid, revision))) (\<lambda>existing.
      thenS (ensureS (existing = None \<or> existing = Some ev) InvalidTransition)
     (thenS (modifyS (put_evidence ev))
     (thenS (modifyS (put_operation oid (resolved_with ev p)))
     (returnS (op_state (resolved_with ev p))))))))))))"

definition snapshot_of :: "operation \<Rightarrow> int option \<Rightarrow> operation_snapshot" where
  "snapshot_of p generation =
     \<lparr>os_operation_id = op_operation_id p, os_state = op_state p,
      os_attempt_generation = op_attempt_generation p,
      os_owner_contract = Some (op_owner_contract p), os_tenant_id = op_tenant_id p,
      os_outcome = op_outcome p, os_reconciliation_resolution = op_reconciliation_resolution p,
      os_reconciliation_revision = op_reconciliation_revision p,
      os_reconciliation_attempt_generation = generation\<rparr>"

definition op_snapshot :: "string \<Rightarrow> (op_ledger, operation_snapshot) op" where
  "op_snapshot oid =
     bindS (op_require oid) (\<lambda>p.
     (case op_reconciliation_revision p of
        None \<Rightarrow> liftS (operation_snapshot_init (snapshot_of p None))
      | Some revision \<Rightarrow>
          bindS (getS (\<lambda>s. map_of (ol_evidence s) (op_operation_id p, revision))) (\<lambda>found.
          (case found of
             None \<Rightarrow> raiseS InvalidTransition
           | Some ev \<Rightarrow>
               thenS (ensureS (re_attempt_generation ev = op_attempt_generation p)
                        InvalidTransition)
               (liftS (operation_snapshot_init
                  (snapshot_of p (Some (re_attempt_generation ev)))))))))"

definition operation_field :: "(operation \<Rightarrow> 'a) \<Rightarrow> string \<Rightarrow> (op_ledger, 'a) op" where
  "operation_field f oid = bindS (op_require oid) (\<lambda>p. returnS (f p))"

definition get_operation_state :: "string \<Rightarrow> (op_ledger, operation_state) op" where
  "get_operation_state = operation_field op_state"

definition get_operation_outcome :: "string \<Rightarrow> (op_ledger, effect_result_link option) op" where
  "get_operation_outcome = operation_field op_outcome"

definition get_operation_admission :: "string \<Rightarrow> (op_ledger, execution_admission option) op" where
  "get_operation_admission = operation_field op_execution_admission"

definition get_reconciliation_resolution ::
  "string \<Rightarrow> (op_ledger, reconciliation_resolution option) op" where
  "get_reconciliation_resolution = operation_field op_reconciliation_resolution"

definition get_reconciliation_revision :: "string \<Rightarrow> (op_ledger, string option) op" where
  "get_reconciliation_revision = operation_field op_reconciliation_revision"

definition get_reconciliation_evidence ::
  "string \<Rightarrow> string \<Rightarrow> (op_ledger, reconciliation_evidence option) op" where
  "get_reconciliation_evidence oid revision =
     thenS (ensureS (is_identifier oid) ValueError)
     (thenS (ensureS (is_identifier revision) ValueError)
     (getS (\<lambda>s. map_of (ol_evidence s) (oid, revision))))"

section \<open>The invariant of the ledger\<close>

text \<open>
  The evidence pointer of an operation: present only together with its resolution, backed
  by stored evidence for the current attempt, and agreeing with the operation's state.
\<close>

definition pointer_ok ::
  "(string \<times> string, reconciliation_evidence) dict \<Rightarrow> operation \<Rightarrow> bool" where
  "pointer_ok evs p =
     (case (op_reconciliation_revision p, op_reconciliation_resolution p) of
        (None, None) \<Rightarrow> True
      | (Some revision, Some resolution) \<Rightarrow>
          (\<exists>ev. map_of evs (op_operation_id p, revision) = Some ev \<and>
             re_attempt_generation ev = op_attempt_generation p \<and>
             re_resolution ev = resolution \<and>
             (resolution = EffectConfirmed \<longrightarrow> re_confirmed_outcome ev = op_outcome p)) \<and>
          op_state p =
            (case resolution of EffectConfirmed \<Rightarrow> OpCompleted
             | EffectProvenAbsent \<Rightarrow> Prepared | StillUnknown \<Rightarrow> OpReconciliationRequired)
      | _ \<Rightarrow> False)"

definition operation_ok :: "operation \<Rightarrow> bool" where
  "operation_ok p \<longleftrightarrow>
     is_identifier (op_operation_id p) \<and> is_identifier (op_owner_contract p) \<and>
     opt_identifier (op_tenant_id p) \<and>
     0 \<le> op_attempt_generation p \<and>
     (op_state p = Attempting \<longleftrightarrow> op_executor_id p \<noteq> None) \<and>
     (op_state p = Attempting \<longleftrightarrow> op_attempt_expires_at p \<noteq> None) \<and>
     (op_state p = Attempting \<longrightarrow> op_execution_admission p \<noteq> None) \<and>
     (op_state p \<noteq> Prepared \<longrightarrow> 1 \<le> op_attempt_generation p) \<and>
     (op_state p = OpCompleted \<longleftrightarrow> op_outcome p \<noteq> None)"

definition evidence_ok :: "op_ledger \<Rightarrow> reconciliation_evidence \<Rightarrow> bool" where
  "evidence_ok s ev \<longleftrightarrow>
     valid_reconciliation_evidence ev \<and>
     (\<exists>p. map_of (ol_operations s) (re_operation_id ev) = Some p \<and>
        re_attempt_generation ev \<le> op_attempt_generation p)"

definition op_ledger_inv :: "op_ledger \<Rightarrow> bool" where
  "op_ledger_inv s \<longleftrightarrow>
     (\<forall>oid p. map_of (ol_operations s) oid = Some p \<longrightarrow>
        op_operation_id p = oid \<and> operation_ok p \<and> pointer_ok (ol_evidence s) p) \<and>
     (\<forall>k ev. map_of (ol_evidence s) k = Some ev \<longrightarrow>
        k = (re_operation_id ev, re_reconciliation_revision ev) \<and> evidence_ok s ev)"

lemma op_ledger_inv_empty: "op_ledger_inv empty_op_ledger"
  by (simp add: op_ledger_inv_def empty_op_ledger_def)

lemma op_ledger_inv_operation:
  "op_ledger_inv s \<Longrightarrow> map_of (ol_operations s) oid = Some p \<Longrightarrow>
     op_operation_id p = oid \<and> operation_ok p \<and> pointer_ok (ol_evidence s) p"
  by (simp add: op_ledger_inv_def)

lemma op_ledger_inv_evidence:
  "op_ledger_inv s \<Longrightarrow> map_of (ol_evidence s) k = Some ev \<Longrightarrow>
     k = (re_operation_id ev, re_reconciliation_revision ev) \<and> evidence_ok s ev"
  unfolding op_ledger_inv_def by blast

lemma put_operation_simps [simp]:
  "map_of (ol_operations (put_operation oid p s)) k =
     (if k = oid then Some p else map_of (ol_operations s) k)"
  "ol_evidence (put_operation oid p s) = ol_evidence s"
  by (simp_all add: put_operation_def)

lemma put_evidence_simps [simp]:
  "ol_operations (put_evidence ev s) = ol_operations s"
  "map_of (ol_evidence (put_evidence ev s)) k =
     (if k = (re_operation_id ev, re_reconciliation_revision ev) then Some ev
      else map_of (ol_evidence s) k)"
  by (simp_all add: put_evidence_def)

lemma op_ledger_inv_put:
  assumes "op_ledger_inv s"
    and "op_operation_id q = oid" "operation_ok q" "pointer_ok (ol_evidence s) q"
    and "\<And>p. map_of (ol_operations s) oid = Some p \<Longrightarrow>
           op_attempt_generation p \<le> op_attempt_generation q"
  shows "op_ledger_inv (put_operation oid q s)"
  unfolding op_ledger_inv_def
proof (intro conjI allI impI)
  fix k p
  assume "map_of (ol_operations (put_operation oid q s)) k = Some p"
  then show "op_operation_id p = k" "operation_ok p"
      "pointer_ok (ol_evidence (put_operation oid q s)) p"
    using assms(2-4) op_ledger_inv_operation [OF assms(1), of k p] by (auto split: if_splits)
next
  fix k ev
  assume "map_of (ol_evidence (put_operation oid q s)) k = Some ev"
  then have "k = (re_operation_id ev, re_reconciliation_revision ev) \<and> evidence_ok s ev"
    using op_ledger_inv_evidence [OF assms(1)] by simp
  then show "k = (re_operation_id ev, re_reconciliation_revision ev)"
      "evidence_ok (put_operation oid q s) ev"
    using assms(5) by (auto simp: evidence_ok_def intro: order_trans)
qed

section \<open>Elementary transitions\<close>

inductive op_micro :: "op_ledger \<Rightarrow> op_ledger \<Rightarrow> bool" where
  op_prepare: "map_of (ol_operations s) oid = None \<Longrightarrow>
     is_identifier oid \<Longrightarrow> is_identifier owner \<Longrightarrow> opt_identifier tenant \<Longrightarrow>
     op_micro s (put_operation oid (new_operation oid tenant owner) s)"
| op_begin: "map_of (ol_operations s) oid = Some p \<Longrightarrow> op_state p = Prepared \<Longrightarrow>
     op_micro s (put_operation oid (begun ex x ad p) s)"
| op_block: "map_of (ol_operations s) oid = Some p \<Longrightarrow> op_state p = Attempting \<Longrightarrow>
     op_micro s (put_operation oid (block_for_reconciliation why p) s)"
| op_complete: "map_of (ol_operations s) oid = Some p \<Longrightarrow> op_state p = Attempting \<Longrightarrow>
     op_micro s (put_operation oid (completed_with outcome p) s)"
| op_fail: "map_of (ol_operations s) oid = Some p \<Longrightarrow> op_state p = Attempting \<Longrightarrow>
     op_micro s (put_operation oid (failed_with why p) s)"
| op_resolve: "map_of (ol_operations s) oid = Some p \<Longrightarrow> op_state p = OpReconciliationRequired \<Longrightarrow>
     valid_reconciliation_evidence ev \<Longrightarrow> re_operation_id ev = oid \<Longrightarrow>
     re_attempt_generation ev = op_attempt_generation p \<Longrightarrow>
     map_of (ol_evidence s) (oid, re_reconciliation_revision ev) \<in> {None, Some ev} \<Longrightarrow>
     op_micro s (put_operation oid (resolved_with ev p) (put_evidence ev s))"

lemma resolved_with_fields [simp]:
  "op_operation_id (resolved_with ev p) = op_operation_id p"
  "op_owner_contract (resolved_with ev p) = op_owner_contract p"
  "op_tenant_id (resolved_with ev p) = op_tenant_id p"
  "op_attempt_generation (resolved_with ev p) = op_attempt_generation p"
  "op_reconciliation_revision (resolved_with ev p) = Some (re_reconciliation_revision ev)"
  "op_reconciliation_resolution (resolved_with ev p) = Some (re_resolution ev)"
  by (simp_all add: resolved_with_def Let_def split: reconciliation_resolution.split)

lemma transition_fields [simp]:
  "op_operation_id (begun ex x ad p) = op_operation_id p"
  "op_attempt_generation (begun ex x ad p) = op_attempt_generation p + 1"
  "op_operation_id (block_for_reconciliation why p) = op_operation_id p"
  "op_attempt_generation (block_for_reconciliation why p) = op_attempt_generation p"
  "op_operation_id (completed_with out p) = op_operation_id p"
  "op_attempt_generation (completed_with out p) = op_attempt_generation p"
  "op_operation_id (failed_with why p) = op_operation_id p"
  "op_attempt_generation (failed_with why p) = op_attempt_generation p"
  "op_operation_id (new_operation oid tenant owner) = oid"
  by (simp_all add: begun_def block_for_reconciliation_def completed_with_def failed_with_def
      new_operation_def)

lemma operation_ok_new:
  "is_identifier oid \<Longrightarrow> is_identifier owner \<Longrightarrow> opt_identifier tenant \<Longrightarrow>
     operation_ok (new_operation oid tenant owner) \<and> pointer_ok evs (new_operation oid tenant owner)"
  by (simp add: operation_ok_def pointer_ok_def new_operation_def)

lemma operation_ok_begun:
  "operation_ok p \<Longrightarrow> op_state p = Prepared \<Longrightarrow>
     operation_ok (begun ex x ad p) \<and> pointer_ok evs (begun ex x ad p)"
  by (simp add: operation_ok_def pointer_ok_def begun_def)

lemma operation_ok_block:
  "operation_ok p \<Longrightarrow> op_state p = Attempting \<Longrightarrow>
     operation_ok (block_for_reconciliation why p) \<and>
     pointer_ok evs (block_for_reconciliation why p)"
  by (simp add: operation_ok_def pointer_ok_def block_for_reconciliation_def)

lemma attempting_no_pointer:
  "pointer_ok evs p \<Longrightarrow> op_state p = Attempting \<Longrightarrow>
     op_reconciliation_revision p = None \<and> op_reconciliation_resolution p = None"
  by (auto simp: pointer_ok_def split: option.splits reconciliation_resolution.splits)

lemma operation_ok_settled:
  assumes "operation_ok p" "pointer_ok evs p" "op_state p = Attempting"
  shows "operation_ok (completed_with outcome p) \<and> pointer_ok evs (completed_with outcome p)"
    and "operation_ok (failed_with why p) \<and> pointer_ok evs (failed_with why p)"
  using assms attempting_no_pointer [OF assms(2,3)]
  by (simp_all add: operation_ok_def pointer_ok_def completed_with_def failed_with_def)

lemma operation_ok_resolved:
  assumes "operation_ok p" "op_state p = OpReconciliationRequired"
    "valid_reconciliation_evidence ev" "re_attempt_generation ev = op_attempt_generation p"
    "map_of evs (op_operation_id p, re_reconciliation_revision ev) = Some ev"
  shows "operation_ok (resolved_with ev p) \<and> pointer_ok evs (resolved_with ev p)"
  using assms
  by (cases "re_resolution ev")
    (auto simp: operation_ok_def pointer_ok_def resolved_with_def
      valid_reconciliation_evidence_def Let_def)

lemma pointer_ok_mono:
  "pointer_ok evs p \<Longrightarrow> (\<And>k v. map_of evs k = Some v \<Longrightarrow> map_of evs' k = Some v) \<Longrightarrow>
   pointer_ok evs' p"
  by (auto simp: pointer_ok_def split: option.splits)

lemma op_ledger_inv_put_evidence:
  assumes inv: "op_ledger_inv s" and ev: "evidence_ok s ev"
    and new: "map_of (ol_evidence s) (re_operation_id ev, re_reconciliation_revision ev)
      \<in> {None, Some ev}"
  shows "op_ledger_inv (put_evidence ev s)"
  unfolding op_ledger_inv_def
proof (intro conjI allI impI)
  fix oid p
  assume "map_of (ol_operations (put_evidence ev s)) oid = Some p"
  then have p: "op_operation_id p = oid \<and> operation_ok p \<and> pointer_ok (ol_evidence s) p"
    using op_ledger_inv_operation [OF inv] by simp
  then show "op_operation_id p = oid" "operation_ok p" by simp_all
  from p have "pointer_ok (ol_evidence s) p" by simp
  then show "pointer_ok (ol_evidence (put_evidence ev s)) p"
    by (rule pointer_ok_mono) (use new in auto)
next
  fix k ev'
  assume "map_of (ol_evidence (put_evidence ev s)) k = Some ev'"
  then show "k = (re_operation_id ev', re_reconciliation_revision ev')"
      "evidence_ok (put_evidence ev s) ev'"
    using op_ledger_inv_evidence [OF inv, of k ev'] ev
    by (auto simp: evidence_ok_def split: if_splits)
qed

lemma op_micro_inv: "op_micro s t \<Longrightarrow> op_ledger_inv s \<Longrightarrow> op_ledger_inv t"
proof (induction rule: op_micro.induct)
  case (op_prepare s oid owner tenant)
  then show ?case
    using operation_ok_new [of oid owner tenant] by (intro op_ledger_inv_put) simp_all
next
  case (op_begin s oid p ex x ad)
  then show ?case
    using op_ledger_inv_operation [of s oid p] operation_ok_begun [of p]
    by (intro op_ledger_inv_put) simp_all
next
  case (op_block s oid p why)
  then show ?case
    using op_ledger_inv_operation [of s oid p] operation_ok_block [of p]
    by (intro op_ledger_inv_put) simp_all
next
  case (op_complete s oid p outcome)
  then show ?case
    using op_ledger_inv_operation [of s oid p]
      operation_ok_settled(1) [of p "ol_evidence s" outcome]
    by (intro op_ledger_inv_put) simp_all
next
  case (op_fail s oid p why)
  then show ?case
    using op_ledger_inv_operation [of s oid p] operation_ok_settled(2) [of p "ol_evidence s" why]
    by (intro op_ledger_inv_put) simp_all
next
  case (op_resolve s oid p ev)
  note p = op_ledger_inv_operation [OF op_resolve.prems op_resolve.hyps(1)]
  have "evidence_ok s ev" using op_resolve by (simp add: evidence_ok_def)
  then have "op_ledger_inv (put_evidence ev s)"
    using op_resolve by (intro op_ledger_inv_put_evidence) simp_all
  moreover have "operation_ok (resolved_with ev p) \<and>
      pointer_ok (ol_evidence (put_evidence ev s)) (resolved_with ev p)"
    using p op_resolve by (intro operation_ok_resolved) simp_all
  ultimately show ?case
    using p op_resolve.hyps by (intro op_ledger_inv_put) simp_all
qed

section \<open>Methods as runs of elementary transitions\<close>

lemma op_require_result:
  "op_require oid s =
     (if \<not> is_identifier oid then (Inl ValueError, s)
      else case map_of (ol_operations s) oid of
             None \<Rightarrow> (Inl InvalidTransition, s) | Some p \<Rightarrow> (Inr p, s))"
  by (simp add: op_require_def)

lemma op_require_Inr:
  "op_require oid s = (Inr p, t) \<longleftrightarrow>
     t = s \<and> is_identifier oid \<and> map_of (ol_operations s) oid = Some p"
  by (auto simp: op_require_result split: option.splits)

lemma op_require_Inl: "op_require oid s = (Inl e, t) \<Longrightarrow> t = s"
  by (auto simp: op_require_result split: option.splits if_splits)

lemma put_same_operation:
  "map_of (ol_operations s) oid = Some p \<Longrightarrow> put_operation oid p s = s"
proof -
  have "map_of d oid = Some p \<Longrightarrow> AList.update oid p d = d" for d :: "(string, operation) dict"
    by (induction d) (auto split: if_splits)
  then show "map_of (ol_operations s) oid = Some p \<Longrightarrow> put_operation oid p s = s"
    by (simp add: put_operation_def)
qed

lemma put_put_operation [simp]: "put_operation oid q (put_operation oid p s) = put_operation oid q s"
proof -
  have "AList.update oid q (AList.update oid p d) = AList.update oid q d"
    for d :: "(string, operation) dict" by (induction d) auto
  then show ?thesis by (simp add: put_operation_def)
qed

lemma prepare_run: "prepare oid owner tenant s = (r, t) \<Longrightarrow> op_micro\<^sup>*\<^sup>* s t"
  by (auto simp: prepare_def bindS_apply ensure_def intro: op_prepare
      split: option.splits if_splits)

text \<open>A successful \<open>begin_attempt\<close>, with everything its guards have established.\<close>

lemma begin_attempt_Inr:
  assumes "begin_attempt oid executor authority expiry profile s = (Inr a, t)"
  obtains p f ad now x where
    "map_of (ol_operations s) oid = Some p" "op_state p = Prepared"
    "authority = Some f" "f (operation_request p profile) = Returned ad"
    "ea_request ad = operation_request p profile" "ea_current ad"
    "valid_execution_request (operation_request p profile)"
    "expiry = Aware x" "ea_observed_at ad = Aware now" "now < x"
    "a = \<lparr>oa_operation_id = oid, oa_attempt_generation = op_attempt_generation p + 1,
          oa_executor_id = executor, oa_attempt_expires_at = x, oa_execution_admission = ad\<rparr>"
    "t = put_operation oid (begun executor x ad p) s"
  using assms unfolding begin_attempt_def thenS_apply
  by (auto simp: res_simps bindS_apply op_require_Inr execution_request_init_def
      split: if_splits sum.splits prod.splits option.splits)

lemma begin_attempt_ready:
  assumes "map_of (ol_operations s) oid = Some p" "is_identifier oid" "is_identifier executor"
    "op_state p = Prepared" "op_reconciliation_resolution p \<in> {None, Some EffectProvenAbsent}"
    "valid_execution_request (operation_request p profile)"
    "admit_execution authority (operation_request p profile) = Inr ad"
    "ea_observed_at ad = Aware now" "now < x"
  shows "begin_attempt oid executor authority (Aware x) profile s =
    (Inr \<lparr>oa_operation_id = oid, oa_attempt_generation = op_attempt_generation p + 1,
          oa_executor_id = executor, oa_attempt_expires_at = x, oa_execution_admission = ad\<rparr>,
     put_operation oid (begun executor x ad p) s)"
  using assms
  by (simp add: begin_attempt_def bindS_apply op_require_result execution_request_init_def)

lemma begin_attempt_Inl:
  assumes "begin_attempt oid executor authority expiry profile s = (Inl e, t)"
  shows "t = s"
  using assms unfolding begin_attempt_def
  by (auto simp: bindS_apply op_require_Inr dest: op_require_Inl
      split: if_splits sum.splits prod.splits option.splits)

lemma begin_attempt_run:
  "begin_attempt oid executor authority expiry profile s = (r, t) \<Longrightarrow> op_micro\<^sup>*\<^sup>* s t"
proof (cases r)
  case (Inl e)
  moreover assume "begin_attempt oid executor authority expiry profile s = (r, t)"
  ultimately show ?thesis using begin_attempt_Inl by blast
next
  case (Inr a)
  moreover assume "begin_attempt oid executor authority expiry profile s = (r, t)"
  ultimately have "begin_attempt oid executor authority expiry profile s = (Inr a, t)" by simp
  then show ?thesis by (rule begin_attempt_Inr) (auto intro: op_begin)
qed

lemma expire_attempt_run: "expire_attempt oid obs s = (r, t) \<Longrightarrow> op_micro\<^sup>*\<^sup>* s t"
  by (cases obs)
    (auto simp: expire_attempt_def bindS_apply op_require_result attempt_lapsed_def
      intro: op_block split: option.splits if_splits)

lemma require_current_attempt_result:
  "require_current_attempt a now s =
     (case op_require (oa_operation_id a) s of
        (Inl e, s') \<Rightarrow> (Inl e, s')
      | (Inr p, s') \<Rightarrow>
          ((if attempt_matches a (lapse now p) then Inr (lapse now p) else Inl InvalidTransition),
           put_operation (oa_operation_id a) (lapse now p) s'))"
  by (simp add: require_current_attempt_def bindS_apply split: sum.split prod.split)

lemma lapse_run:
  assumes "map_of (ol_operations s) oid = Some p"
  shows "op_micro\<^sup>*\<^sup>* s (put_operation oid (lapse now p) s)"
proof (cases "attempt_lapsed now p")
  case True
  then have "op_micro s (put_operation oid (block_for_reconciliation lease_expired_reason p) s)"
    using assms by (auto simp: attempt_lapsed_def intro: op_block)
  with True show ?thesis by (simp add: lapse_def)
next
  case False
  then show ?thesis using put_same_operation [OF assms] by (simp add: lapse_def)
qed

lemma attempt_matches_attempting: "attempt_matches a p \<Longrightarrow> op_state p = Attempting"
  by (simp add: attempt_matches_def)

lemma attempt_matches_lapse:
  "attempt_matches a (lapse now p) \<longleftrightarrow> attempt_matches a p \<and> now < oa_attempt_expires_at a"
  by (auto simp: attempt_matches_def lapse_def attempt_lapsed_def block_for_reconciliation_def
      not_le split: option.splits)

lemma lapse_matching:
  "attempt_matches a p \<Longrightarrow> now < oa_attempt_expires_at a \<Longrightarrow> lapse now p = p"
  by (auto simp: attempt_matches_def lapse_def attempt_lapsed_def)

text \<open>The three settlements succeed exactly for the recorded, unexpired attempt.\<close>

lemma settle_attempt_result:
  assumes "map_of (ol_operations s) (oa_operation_id a) = Some p" "is_identifier (oa_operation_id a)"
  shows "settle_attempt a (Aware now) f s =
     (if attempt_matches a p \<and> now < oa_attempt_expires_at a
      then (Inr (), put_operation (oa_operation_id a) (f p) s)
      else (Inl InvalidTransition, put_operation (oa_operation_id a) (lapse now p) s))"
  using assms
  by (auto simp: settle_attempt_def bindS_apply require_current_attempt_result op_require_result
      attempt_matches_lapse lapse_matching)

lemma settle_attempt_unknown:
  assumes "map_of (ol_operations s) (oa_operation_id a) = None \<or> \<not> is_identifier (oa_operation_id a)"
  shows "\<exists>e. settle_attempt a (Aware now) f s = (Inl e, s)"
  using assms
  by (auto simp: settle_attempt_def bindS_apply require_current_attempt_result op_require_result)

lemma settle_attempt_naive: "settle_attempt a (Naive n) f s = (Inl ValueError, s)"
  by (simp add: settle_attempt_def)

lemma settle_attempt_run:
  assumes "settle_attempt a obs f s = (r, t)"
    and f: "\<And>p oid. map_of (ol_operations s) oid = Some p \<Longrightarrow> op_state p = Attempting \<Longrightarrow>
      op_micro s (put_operation oid (f p) s)"
  shows "op_micro\<^sup>*\<^sup>* s t"
proof (cases obs)
  case (Naive n)
  with assms(1) show ?thesis by (simp add: settle_attempt_naive)
next
  case (Aware now)
  show ?thesis
  proof (cases "is_identifier (oa_operation_id a) \<and>
      map_of (ol_operations s) (oa_operation_id a) \<noteq> None")
    case False
    with settle_attempt_unknown [of s a now f] assms(1) Aware show ?thesis by auto
  next
    case True
    then obtain p where p: "map_of (ol_operations s) (oa_operation_id a) = Some p" by blast
    with True assms(1) Aware settle_attempt_result [OF p, of now f] lapse_run [OF p, of now]
      f [OF p] attempt_matches_attempting [of a p]
    show ?thesis by (auto split: if_splits)
  qed
qed

lemma op_settle_run:
  "complete_attempt a out obs s = (r1, t1) \<Longrightarrow> op_micro\<^sup>*\<^sup>* s t1"
  "mark_ambiguous a why obs s = (r2, t2) \<Longrightarrow> op_micro\<^sup>*\<^sup>* s t2"
  "op_fail_terminal a why obs s = (r3, t3) \<Longrightarrow> op_micro\<^sup>*\<^sup>* s t3"
  unfolding complete_attempt_def mark_ambiguous_def op_fail_terminal_def
  by (auto simp: ensure_def split: if_splits
      elim!: settle_attempt_run intro: op_complete op_block op_fail)

text \<open>A reconciliation either records evidence and resolves the operation, or changes nothing.\<close>

lemma reconcile_Inr:
  assumes "reconcile oid res rv conf s = (Inr st, t)"
  obtains p ev where
    "map_of (ol_operations s) oid = Some p" "op_state p = OpReconciliationRequired"
    "ev = \<lparr>re_operation_id = oid, re_attempt_generation = op_attempt_generation p,
           re_reconciliation_revision = rv, re_resolution = res, re_confirmed_outcome = conf\<rparr>"
    "valid_reconciliation_evidence ev"
    "map_of (ol_evidence s) (oid, rv) \<in> {None, Some ev}"
    "st = op_state (resolved_with ev p)"
    "t = put_operation oid (resolved_with ev p) (put_evidence ev s)"
  using assms unfolding reconcile_def thenS_apply
  by (auto simp: res_simps bindS_apply op_require_Inr
      split: if_splits sum.splits prod.splits)

lemma reconcile_result:
  assumes "map_of (ol_operations s) oid = Some p" "is_identifier oid" "is_identifier rv"
    and ev: "ev = \<lparr>re_operation_id = oid, re_attempt_generation = op_attempt_generation p,
      re_reconciliation_revision = rv, re_resolution = res, re_confirmed_outcome = conf\<rparr>"
  shows "reconcile oid res rv conf s =
    (if op_state p \<noteq> OpReconciliationRequired \<or> op_attempt_generation p < 1
     then (Inl InvalidTransition, s)
     else if (res = EffectConfirmed) \<noteq> (conf \<noteq> None) then (Inl ValueError, s)
     else if map_of (ol_evidence s) (oid, rv) \<notin> {None, Some ev} then (Inl InvalidTransition, s)
     else (Inr (op_state (resolved_with ev p)),
           put_operation oid (resolved_with ev p) (put_evidence ev s)))"
  using assms(1-3) unfolding ev
  by (simp add: reconcile_def bindS_apply op_require_result valid_reconciliation_evidence_def
      not_less) auto

lemma reconcile_Inl: "reconcile oid res rv conf s = (Inl e, t) \<Longrightarrow> t = s"
  unfolding reconcile_def
  by (auto simp: bindS_apply op_require_Inr dest: op_require_Inl split: if_splits sum.splits prod.splits)

lemma reconcile_run: "reconcile oid res rv conf s = (r, t) \<Longrightarrow> op_micro\<^sup>*\<^sup>* s t"
proof (cases r)
  case (Inl e)
  moreover assume "reconcile oid res rv conf s = (r, t)"
  ultimately show ?thesis using reconcile_Inl by blast
next
  case (Inr st)
  moreover assume "reconcile oid res rv conf s = (r, t)"
  ultimately have "reconcile oid res rv conf s = (Inr st, t)" by simp
  then obtain p ev where p: "map_of (ol_operations s) oid = Some p"
    "op_state p = OpReconciliationRequired" "valid_reconciliation_evidence ev"
    and ev: "re_operation_id ev = oid" "re_attempt_generation ev = op_attempt_generation p"
    "map_of (ol_evidence s) (oid, re_reconciliation_revision ev) \<in> {None, Some ev}"
    and t: "t = put_operation oid (resolved_with ev p) (put_evidence ev s)"
    by (rule reconcile_Inr) simp
  from op_resolve [OF p ev] show ?thesis unfolding t by (rule r_into_rtranclp)
qed

section \<open>The operation protocol\<close>

inductive op_step :: "op_ledger \<Rightarrow> op_ledger \<Rightarrow> bool" where
  step_prepare: "prepare oid owner tenant s = (u, t) \<Longrightarrow> op_step s t"
| step_begin: "begin_attempt oid executor authority expiry profile s = (r, t) \<Longrightarrow> op_step s t"
| step_expire: "expire_attempt oid obs s = (b, t) \<Longrightarrow> op_step s t"
| step_complete: "complete_attempt a out obs s = (u, t) \<Longrightarrow> op_step s t"
| step_mark_ambiguous: "mark_ambiguous a why obs s = (u, t) \<Longrightarrow> op_step s t"
| step_fail: "op_fail_terminal a why obs s = (u, t) \<Longrightarrow> op_step s t"
| step_reconcile: "reconcile oid res rv conf s = (st, t) \<Longrightarrow> op_step s t"

lemma op_step_micro: "op_step s t \<Longrightarrow> op_micro\<^sup>*\<^sup>* s t"
  by (induction rule: op_step.induct)
    (auto elim: prepare_run begin_attempt_run expire_attempt_run op_settle_run reconcile_run)

lemma op_run_micro: "op_step\<^sup>*\<^sup>* s t \<Longrightarrow> op_micro\<^sup>*\<^sup>* s t"
  by (induction rule: rtranclp_induct) (auto dest: op_step_micro intro: rtranclp_trans)

definition op_reachable :: "op_ledger \<Rightarrow> bool" where
  "op_reachable s \<longleftrightarrow> op_step\<^sup>*\<^sup>* empty_op_ledger s"

section \<open>Attempts are fenced leases\<close>

type_synonym attempt_key = "string \<times> int \<times> instant \<times> execution_admission"

definition attempt_key_generation :: "attempt_key \<Rightarrow> int" where
  "attempt_key_generation l = fst (snd l)"

definition operation_lease :: "operation \<Rightarrow> attempt_key option" where
  "operation_lease p =
     (if op_state p = Attempting
      then (case (op_executor_id p, op_attempt_expires_at p, op_execution_admission p) of
              (Some ex, Some x, Some ad) \<Rightarrow> Some (ex, op_attempt_generation p, x, ad)
            | _ \<Rightarrow> None)
      else None)"

definition op_lease :: "op_ledger \<Rightarrow> string \<Rightarrow> attempt_key option" where
  "op_lease s oid =
     (case map_of (ol_operations s) oid of None \<Rightarrow> None | Some p \<Rightarrow> operation_lease p)"

definition op_generation :: "op_ledger \<Rightarrow> string \<Rightarrow> int" where
  "op_generation s oid =
     (case map_of (ol_operations s) oid of None \<Rightarrow> 0 | Some p \<Rightarrow> op_attempt_generation p)"

definition attempt_lease :: "operation_attempt \<Rightarrow> attempt_key" where
  "attempt_lease a =
     (oa_executor_id a, oa_attempt_generation a, oa_attempt_expires_at a,
      oa_execution_admission a)"

lemma attempt_matches_iff_lease:
  "attempt_matches a p \<longleftrightarrow> operation_lease p = Some (attempt_lease a)"
  by (auto simp: attempt_matches_def operation_lease_def attempt_lease_def split: option.splits)

lemma transition_states [simp]:
  "op_state (new_operation oid tenant owner) = Prepared"
  "op_state (begun ex x ad p) = Attempting"
  "op_state (block_for_reconciliation why p) = OpReconciliationRequired"
  "op_state (completed_with out p) = OpCompleted"
  "op_state (failed_with why p) = OpFailedTerminal"
  "op_attempt_generation (new_operation oid tenant owner) = 0"
  by (simp_all add: new_operation_def begun_def block_for_reconciliation_def
      completed_with_def failed_with_def)

lemma resolved_with_state:
  "op_state (resolved_with ev p) =
     (case re_resolution ev of EffectConfirmed \<Rightarrow> OpCompleted | EffectProvenAbsent \<Rightarrow> Prepared
      | StillUnknown \<Rightarrow> op_state p)"
  by (simp add: resolved_with_def Let_def split: reconciliation_resolution.split)

lemma operation_lease_simps [simp]:
  "operation_lease (begun ex x ad p) = Some (ex, op_attempt_generation p + 1, x, ad)"
  "op_state p \<noteq> Attempting \<Longrightarrow> operation_lease p = None"
  by (simp_all add: operation_lease_def begun_def)

lemma operation_lease_resolved [simp]:
  "op_state p = OpReconciliationRequired \<Longrightarrow> operation_lease (resolved_with ev p) = None"
  by (simp add: resolved_with_state split: reconciliation_resolution.split)

lemma operation_lease_generation:
  "operation_lease p = Some l \<Longrightarrow> attempt_key_generation l = op_attempt_generation p"
  by (auto simp: operation_lease_def attempt_key_generation_def split: if_splits option.splits)

lemma op_micro_generation:
  "op_micro s t \<Longrightarrow> op_generation s k \<le> op_generation t k"
  by (induction rule: op_micro.induct) (auto simp: op_generation_def split: option.splits)

lemma op_micro_lease:
  "op_micro s t \<Longrightarrow> op_lease t k = Some l \<Longrightarrow>
     op_lease s k = Some l \<or> op_generation s k < op_generation t k"
  by (induction rule: op_micro.induct)
    (auto simp: op_lease_def op_generation_def split: option.splits if_splits)

interpretation op_fence: fenced_lease op_micro op_ledger_inv op_generation op_lease
  attempt_key_generation
proof
  fix s t k c
  assume inv: "op_ledger_inv s"
  show "op_lease s k = Some c \<Longrightarrow> attempt_key_generation c = op_generation s k"
    by (auto simp: op_lease_def op_generation_def operation_lease_generation split: option.splits)
  assume step: "op_micro s t"
  show "op_ledger_inv t" using step inv by (rule op_micro_inv)
  show "op_generation s k \<le> op_generation t k" using step by (rule op_micro_generation)
  show "op_lease t k = Some c \<Longrightarrow> op_lease s k = Some c \<or> op_generation s k < op_generation t k"
    using step by (rule op_micro_lease)
qed

lemma op_run_inv: "op_step\<^sup>*\<^sup>* s t \<Longrightarrow> op_ledger_inv s \<Longrightarrow> op_ledger_inv t"
  by (rule op_fence.inv_run [OF op_run_micro])

section \<open>Evidence is append-only and binds every retry\<close>

lemma op_micro_evidence:
  "op_micro s t \<Longrightarrow> map_of (ol_evidence s) k = Some ev \<Longrightarrow> map_of (ol_evidence t) k = Some ev"
  by (induction rule: op_micro.induct) auto

lemma op_run_evidence:
  "op_micro\<^sup>*\<^sup>* s t \<Longrightarrow> map_of (ol_evidence s) k = Some ev \<Longrightarrow> map_of (ol_evidence t) k = Some ev"
  by (induction rule: rtranclp_induct) (auto dest: op_micro_evidence)

lemma op_micro_final:
  "op_micro s t \<Longrightarrow> map_of (ol_operations s) oid = Some p \<Longrightarrow>
     op_state p \<in> {OpCompleted, OpFailedTerminal} \<Longrightarrow> map_of (ol_operations t) oid = Some p"
  by (induction rule: op_micro.induct) auto

lemma op_run_final:
  "op_micro\<^sup>*\<^sup>* s t \<Longrightarrow> map_of (ol_operations s) oid = Some p \<Longrightarrow>
     op_state p \<in> {OpCompleted, OpFailedTerminal} \<Longrightarrow> map_of (ol_operations t) oid = Some p"
  by (induction rule: rtranclp_induct) (auto dest: op_micro_final)

text \<open>Stored evidence says that attempt \<open>k\<close> of the operation had no effect.\<close>

definition proven_absent ::
  "(string \<times> string, reconciliation_evidence) dict \<Rightarrow> string \<Rightarrow> int \<Rightarrow> bool" where
  "proven_absent evs oid k \<longleftrightarrow>
     (\<exists>rv ev. map_of evs (oid, rv) = Some ev \<and> re_attempt_generation ev = k \<and>
        re_resolution ev = EffectProvenAbsent)"

definition superseded :: "operation \<Rightarrow> int \<Rightarrow> bool" where
  "superseded p k \<longleftrightarrow>
     1 \<le> k \<and> (k < op_attempt_generation p \<or> k = op_attempt_generation p \<and> op_state p = Prepared)"

definition op_history_inv :: "op_ledger \<Rightarrow> bool" where
  "op_history_inv s \<longleftrightarrow>
     (\<forall>oid p k. map_of (ol_operations s) oid = Some p \<and> superseded p k \<longrightarrow>
        proven_absent (ol_evidence s) oid k)"

lemma proven_absent_mono:
  "proven_absent evs oid k \<Longrightarrow> (\<And>k v. map_of evs k = Some v \<Longrightarrow> map_of evs' k = Some v) \<Longrightarrow>
   proven_absent evs' oid k"
  unfolding proven_absent_def by blast

lemma superseded_step:
  "op_micro s t \<Longrightarrow> map_of (ol_operations t) oid = Some p \<Longrightarrow> superseded p k \<Longrightarrow>
     (\<exists>q. map_of (ol_operations s) oid = Some q \<and> superseded q k) \<or>
     proven_absent (ol_evidence t) oid k"
proof (induction rule: op_micro.induct)
  case (op_resolve s oid' q ev)
  show ?case
  proof (cases "oid = oid' \<and> re_resolution ev = EffectProvenAbsent \<and> k = op_attempt_generation q")
    case True
    then have "map_of (ol_evidence (put_operation oid' (resolved_with ev q) (put_evidence ev s)))
        (oid, re_reconciliation_revision ev) = Some ev"
      using op_resolve.hyps by simp
    with True op_resolve.hyps show ?thesis unfolding proven_absent_def by blast
  next
    case False
    with op_resolve show ?thesis
      by (auto simp: superseded_def resolved_with_state
          split: if_splits reconciliation_resolution.splits)
  qed
qed (auto simp: superseded_def split: if_splits)

lemma op_history_step:
  assumes "op_micro s t" "op_history_inv s"
  shows "op_history_inv t"
  unfolding op_history_inv_def
proof (intro allI impI, elim conjE)
  fix oid p k
  assume "map_of (ol_operations t) oid = Some p" "superseded p k"
  from superseded_step [OF assms(1) this]
  show "proven_absent (ol_evidence t) oid k"
    using assms(2) proven_absent_mono [OF _ op_micro_evidence [OF assms(1)]]
    unfolding op_history_inv_def by blast
qed

lemma op_history_run: "op_micro\<^sup>*\<^sup>* s t \<Longrightarrow> op_history_inv s \<Longrightarrow> op_history_inv t"
  by (induction rule: rtranclp_induct) (auto intro: op_history_step)

lemma op_history_empty: "op_history_inv empty_op_ledger"
  by (simp add: op_history_inv_def empty_op_ledger_def)

section \<open>Snapshots of well-formed operations\<close>

lemma snapshot_valid_without_pointer:
  "operation_ok p \<Longrightarrow> pointer_ok evs p \<Longrightarrow> op_reconciliation_revision p = None \<Longrightarrow>
     valid_operation_snapshot (snapshot_of p None)"
  by (cases "op_reconciliation_resolution p")
    (simp_all add: valid_operation_snapshot_def snapshot_of_def operation_ok_def pointer_ok_def
      reconciliation_fields_together_def resolution_state_ok_def)

lemma snapshot_valid_with_pointer:
  assumes "operation_ok p" "pointer_ok evs p" "op_reconciliation_revision p = Some rv"
    "map_of evs (op_operation_id p, rv) = Some ev" "valid_reconciliation_evidence ev"
    "re_reconciliation_revision ev = rv"
  shows "valid_operation_snapshot (snapshot_of p (Some (re_attempt_generation ev)))"
proof -
  obtain res where "op_reconciliation_resolution p = Some res"
    "re_attempt_generation ev = op_attempt_generation p"
    "op_state p = (case res of EffectConfirmed \<Rightarrow> OpCompleted | EffectProvenAbsent \<Rightarrow> Prepared
       | StillUnknown \<Rightarrow> OpReconciliationRequired)"
    using assms by (auto simp: pointer_ok_def split: option.splits)
  moreover have "1 \<le> re_attempt_generation ev" "is_identifier rv"
    using assms(5,6) by (auto simp: valid_reconciliation_evidence_def)
  ultimately show ?thesis
    using assms(1,3)
    by (cases res)
      (simp_all add: valid_operation_snapshot_def snapshot_of_def operation_ok_def
        reconciliation_fields_together_def resolution_state_ok_def)
qed

lemma op_snapshot_defined:
  assumes inv: "op_ledger_inv s" and p: "map_of (ol_operations s) oid = Some p"
  shows "\<exists>snap. op_snapshot oid s = (Inr snap, s) \<and> valid_operation_snapshot snap \<and>
    os_operation_id snap = oid \<and> os_state snap = op_state p \<and> os_outcome snap = op_outcome p \<and>
    os_attempt_generation snap = op_attempt_generation p \<and>
    os_reconciliation_resolution snap = op_reconciliation_resolution p"
proof -
  note facts = op_ledger_inv_operation [OF inv p]
  have req: "op_require oid s = (Inr p, s)"
    using p facts by (auto simp: op_require_result operation_ok_def)
  show ?thesis
  proof (cases "op_reconciliation_revision p")
    case None
    then have "valid_operation_snapshot (snapshot_of p None)"
      using facts snapshot_valid_without_pointer by blast
    with None facts show ?thesis
      by (simp add: op_snapshot_def bindS_apply req operation_snapshot_init_def construct_def
          snapshot_of_def)
  next
    case (Some rv)
    obtain ev where ev: "map_of (ol_evidence s) (oid, rv) = Some ev"
      "re_attempt_generation ev = op_attempt_generation p"
      using facts Some by (auto simp: pointer_ok_def split: option.splits)
    have id: "op_operation_id p = oid" using facts by simp
    have "valid_reconciliation_evidence ev" "re_reconciliation_revision ev = rv"
      using op_ledger_inv_evidence [OF inv ev(1)] by (simp_all add: evidence_ok_def)
    then have valid: "valid_operation_snapshot (snapshot_of p (Some (op_attempt_generation p)))"
      using facts Some ev snapshot_valid_with_pointer [of p "ol_evidence s" rv ev] by metis
    have "op_snapshot oid s = (Inr (snapshot_of p (Some (op_attempt_generation p))), s)"
      by (simp add: op_snapshot_def bindS_apply req Some ev id operation_snapshot_init_def
          construct_def valid)
    with valid show ?thesis by (auto simp: snapshot_of_def id)
  qed
qed

section \<open>Worked ledgers\<close>

definition sample_op_prepared :: op_ledger where
  "sample_op_prepared = put_operation ''op1'' (new_operation ''op1'' None ''mon.host'') empty_op_ledger"

lemma sample_op_identifiers [simp]:
  "is_identifier ''op1''" "is_identifier ''mon.host''" "is_identifier ''w1''"
  "is_identifier ''rev1''" "is_identifier ''why1''" "is_identifier ''runtime.worker@1''"
  by (simp_all add: grammar_eval)

lemma sample_prepare: "prepare ''op1'' ''mon.host'' None empty_op_ledger = (Inr (), sample_op_prepared)"
  by (simp add: prepare_def sample_op_prepared_def empty_op_ledger_def)

definition sample_op_request :: execution_request where
  "sample_op_request =
     operation_request (new_operation ''op1'' None ''mon.host'') ''runtime.worker@1''"

lemma valid_sample_op_request [simp]: "valid_execution_request sample_op_request"
  by (simp add: sample_op_request_def operation_request_def new_operation_def
      valid_execution_request_def is_contract_name_def contract_char_def
      allowed_runtime_profiles_def Let_def char_class_defs)

definition sample_attempt :: operation_attempt where
  "sample_attempt =
     \<lparr>oa_operation_id = ''op1'', oa_attempt_generation = 1, oa_executor_id = ''w1'',
      oa_attempt_expires_at = At 10, oa_execution_admission = sample_admission sample_op_request\<rparr>"

definition sample_operation :: operation where
  "sample_operation =
     begun ''w1'' (At 10) (sample_admission sample_op_request)
       (new_operation ''op1'' None ''mon.host'')"

lemma sample_attempt_matches: "attempt_matches sample_attempt sample_operation"
  by (simp add: attempt_matches_def sample_attempt_def sample_operation_def begun_def
      new_operation_def)

lemma sample_attempt_fields [simp]:
  "oa_operation_id sample_attempt = ''op1''" "oa_attempt_expires_at sample_attempt = At 10"
  "oa_attempt_generation sample_attempt = 1" "op_attempt_generation sample_operation = 1"
  "op_state sample_operation = Attempting" "op_operation_id sample_operation = ''op1''"
  by (simp_all add: sample_attempt_def sample_operation_def)

definition sample_op_attempting :: op_ledger where
  "sample_op_attempting = put_operation ''op1'' sample_operation sample_op_prepared"

lemma sample_begin:
  "begin_attempt ''op1'' ''w1'' sample_authority (Aware (At 10)) ''runtime.worker@1''
     sample_op_prepared = (Inr sample_attempt, sample_op_attempting)"
proof -
  let ?p = "new_operation ''op1'' None ''mon.host''"
  have "op_state ?p = Prepared" "op_reconciliation_resolution ?p = None"
    "op_attempt_generation ?p = 0"
    by (simp_all add: new_operation_def)
  moreover have "map_of (ol_operations sample_op_prepared) ''op1'' = Some ?p"
    by (simp add: sample_op_prepared_def)
  ultimately show ?thesis
    using begin_attempt_ready [of sample_op_prepared "''op1''" ?p "''w1''" "''runtime.worker@1''"
        sample_authority "sample_admission sample_op_request" "At 0" "At 10"]
    by (simp add: sample_op_request_def [symmetric] sample_op_attempting_def sample_attempt_def
        sample_operation_def)
qed

definition sample_op_ambiguous :: op_ledger where
  "sample_op_ambiguous =
     put_operation ''op1'' (block_for_reconciliation ''why1'' sample_operation)
       sample_op_attempting"

lemma sample_mark_ambiguous:
  "mark_ambiguous sample_attempt ''why1'' (Aware (At 5)) sample_op_attempting =
     (Inr (), sample_op_ambiguous)"
  using settle_attempt_result [of sample_op_attempting sample_attempt sample_operation "At 5"]
  by (simp add: mark_ambiguous_def sample_op_attempting_def sample_op_ambiguous_def
      sample_attempt_matches)

definition sample_absence :: reconciliation_evidence where
  "sample_absence =
     \<lparr>re_operation_id = ''op1'', re_attempt_generation = 1, re_reconciliation_revision = ''rev1'',
      re_resolution = EffectProvenAbsent, re_confirmed_outcome = None\<rparr>"

definition sample_op_absent :: op_ledger where
  "sample_op_absent =
     put_operation ''op1''
       (resolved_with sample_absence (block_for_reconciliation ''why1'' sample_operation))
       (put_evidence sample_absence sample_op_ambiguous)"

lemma sample_reconcile:
  "reconcile ''op1'' EffectProvenAbsent ''rev1'' None sample_op_ambiguous =
     (Inr Prepared, sample_op_absent)"
proof -
  let ?p = "block_for_reconciliation ''why1'' sample_operation"
  have "map_of (ol_operations sample_op_ambiguous) ''op1'' = Some ?p"
    "map_of (ol_evidence sample_op_ambiguous) (''op1'', ''rev1'') = None"
    by (simp_all add: sample_op_ambiguous_def sample_op_attempting_def sample_op_prepared_def
        empty_op_ledger_def)
  moreover have "sample_absence =
      \<lparr>re_operation_id = ''op1'', re_attempt_generation = op_attempt_generation ?p,
       re_reconciliation_revision = ''rev1'', re_resolution = EffectProvenAbsent,
       re_confirmed_outcome = None\<rparr>"
    by (simp add: sample_absence_def)
  ultimately show ?thesis
    using reconcile_result [of sample_op_ambiguous "''op1''" ?p "''rev1''" sample_absence
        EffectProvenAbsent None]
    by (simp add: sample_op_absent_def) (simp add: sample_absence_def resolved_with_state)
qed

definition sample_retry :: operation_attempt where
  "sample_retry = sample_attempt\<lparr>oa_attempt_generation := 2\<rparr>"

lemma sample_retry_begin:
  "fst (begin_attempt ''op1'' ''w1'' sample_authority (Aware (At 10)) ''runtime.worker@1''
     sample_op_absent) = Inr sample_retry"
proof -
  let ?p = "resolved_with sample_absence (block_for_reconciliation ''why1'' sample_operation)"
  have "map_of (ol_operations sample_op_absent) ''op1'' = Some ?p"
    by (simp add: sample_op_absent_def)
  moreover have "op_state ?p = Prepared" "op_reconciliation_resolution ?p = Some EffectProvenAbsent"
    by (simp_all add: resolved_with_state) (simp_all add: sample_absence_def)
  moreover have "operation_request ?p ''runtime.worker@1'' = sample_op_request"
    by (simp add: sample_op_request_def operation_request_def new_operation_def
        sample_operation_def begun_def block_for_reconciliation_def)
  ultimately show ?thesis
    using begin_attempt_ready [of sample_op_absent "''op1''" ?p "''w1''" "''runtime.worker@1''"
        sample_authority "sample_admission sample_op_request" "At 0" "At 10"]
    by (simp add: sample_retry_def) (simp add: sample_attempt_def)
qed

lemma sample_prepared_reachable: "op_reachable sample_op_prepared"
  unfolding op_reachable_def by (rule r_into_rtranclp) (rule step_prepare [OF sample_prepare])

lemma op_reachable_step: "op_reachable s \<Longrightarrow> op_step s t \<Longrightarrow> op_reachable t"
  unfolding op_reachable_def by (rule rtranclp.rtrancl_into_rtrancl)

lemma sample_attempting_reachable: "op_reachable sample_op_attempting"
  by (rule op_reachable_step [OF sample_prepared_reachable step_begin [OF sample_begin]])

lemma sample_ambiguous_reachable: "op_reachable sample_op_ambiguous"
  by (rule op_reachable_step [OF sample_attempting_reachable
        step_mark_ambiguous [OF sample_mark_ambiguous]])

lemma sample_absent_reachable: "op_reachable sample_op_absent"
  by (rule op_reachable_step [OF sample_ambiguous_reachable step_reconcile [OF sample_reconcile]])

lemma op_reachable_invs: "op_reachable s \<Longrightarrow> op_ledger_inv s \<and> op_history_inv s"
  unfolding op_reachable_def
  using op_run_inv [OF _ op_ledger_inv_empty] op_history_run [OF op_run_micro op_history_empty]
  by blast

section \<open>Properties\<close>

text \<open>C2: no attempt is retried on hope, and none starts without admission. Whenever
  \<open>begin_attempt\<close> succeeds on a reachable ledger, be it the first attempt or a later one,
  the supplied authority was asked for exactly this operation, with its owner contract and
  tenant and the given runtime profile, and returned the current admission that the attempt
  carries; the attempt has the next generation; and for every earlier generation of the
  operation the evidence store holds evidence that proves that attempt's effect absent.\<close>

theorem retry_needs_proven_absence:
  assumes "op_reachable s"
    and "begin_attempt oid ex authority expiry profile s = (Inr a, t)"
  shows "(\<forall>k. 1 \<le> k \<and> k < oa_attempt_generation a \<longrightarrow> proven_absent (ol_evidence s) oid k) \<and>
    (\<exists>p f ad. map_of (ol_operations s) oid = Some p \<and>
       oa_operation_id a = oid \<and> oa_attempt_generation a = op_attempt_generation p + 1 \<and>
       oa_execution_admission a = ad \<and> authority = Some f \<and> f (ea_request ad) = Returned ad \<and>
       ea_current ad \<and> er_operation_id (ea_request ad) = Some oid \<and>
       er_authority_contract (ea_request ad) = op_owner_contract p \<and>
       er_tenant_id (ea_request ad) = op_tenant_id p \<and>
       er_runtime_profile_id (ea_request ad) = profile)"
proof -
  obtain p f ad now x where p: "map_of (ol_operations s) oid = Some p" "op_state p = Prepared"
    and ad: "authority = Some f" "f (operation_request p profile) = Returned ad"
      "ea_request ad = operation_request p profile" "ea_current ad"
    and a: "a = \<lparr>oa_operation_id = oid, oa_attempt_generation = op_attempt_generation p + 1,
      oa_executor_id = ex, oa_attempt_expires_at = x, oa_execution_admission = ad\<rparr>"
    using begin_attempt_Inr [OF assms(2)] by metis
  have inv: "op_ledger_inv s" and hist: "op_history_inv s"
    using op_reachable_invs [OF assms(1)] by simp_all
  have oid: "op_operation_id p = oid" using op_ledger_inv_operation [OF inv p(1)] by simp
  have "proven_absent (ol_evidence s) oid k" if "1 \<le> k" "k < oa_attempt_generation a" for k
  proof -
    have "superseded p k" using that p(2) a by (auto simp: superseded_def)
    then show ?thesis using hist p(1) oid unfolding op_history_inv_def by blast
  qed
  then show ?thesis using p(1) ad a oid by (auto simp: operation_request_def)
qed

theorem retry_needs_proven_absence_witness:
  "oa_attempt_generation sample_retry = 2 \<and>
   proven_absent (ol_evidence sample_op_absent) ''op1'' 1"
proof -
  obtain t where "begin_attempt ''op1'' ''w1'' sample_authority (Aware (At 10))
      ''runtime.worker@1'' sample_op_absent = (Inr sample_retry, t)"
    using sample_retry_begin by (metis prod.collapse)
  from retry_needs_proven_absence [OF sample_absent_reachable this] show ?thesis
    by (simp add: sample_retry_def)
qed

text \<open>A lost attempt is powerless for ever. If an attempt is not the one recorded and
  its generation is not ahead, then after any further run neither completion nor
  ambiguity nor terminal failure can be recorded with it.\<close>

theorem lost_attempt_powerless:
  assumes inv: "op_ledger_inv s"
    and lost: "op_lease s (oa_operation_id a) \<noteq> Some (attempt_lease a)"
    and past: "oa_attempt_generation a \<le> op_generation s (oa_operation_id a)"
    and run: "op_step\<^sup>*\<^sup>* s t"
  shows "fst (complete_attempt a out obs t) \<noteq> Inr () \<and>
    fst (mark_ambiguous a why obs t) \<noteq> Inr () \<and> fst (op_fail_terminal a why obs t) \<noteq> Inr ()"
proof -
  have gone: "op_lease t (oa_operation_id a) \<noteq> Some (attempt_lease a)"
    by (rule op_fence.lost_lease_stays_lost [OF op_run_micro [OF run] inv lost])
      (simp add: attempt_lease_def attempt_key_generation_def past)
  have "fst (settle_attempt a obs f t) \<noteq> Inr ()" for f
  proof (cases obs)
    case (Aware now)
    show ?thesis
    proof (cases "is_identifier (oa_operation_id a) \<and>
        map_of (ol_operations t) (oa_operation_id a) \<noteq> None")
      case True
      then obtain p where p: "map_of (ol_operations t) (oa_operation_id a) = Some p" by blast
      with gone have "\<not> attempt_matches a p" by (simp add: op_lease_def attempt_matches_iff_lease)
      with True Aware show ?thesis by (simp add: settle_attempt_result [OF p])
    next
      case False
      with settle_attempt_unknown [of t a now f] Aware show ?thesis by auto
    qed
  qed (simp add: settle_attempt_naive)
  then show ?thesis
    by (simp add: complete_attempt_def mark_ambiguous_def op_fail_terminal_def ensure_def)
qed

theorem lost_attempt_powerless_witness:
  "fst (complete_attempt sample_attempt \<lparr>rl_result_id = ''r'', rl_result_kind = ''k''\<rparr>
     (Aware (At 5)) sample_op_ambiguous) \<noteq> Inr ()"
proof -
  have "op_ledger_inv sample_op_ambiguous"
    using op_reachable_invs [OF sample_ambiguous_reachable] by simp
  moreover have "op_lease sample_op_ambiguous ''op1'' = None"
    "op_generation sample_op_ambiguous ''op1'' = 1"
    by (simp_all add: op_lease_def op_generation_def sample_op_ambiguous_def)
  ultimately show ?thesis
    using lost_attempt_powerless [OF _ _ _ rtranclp.rtrancl_refl, of sample_op_ambiguous
        sample_attempt] by simp
qed

text \<open>Reconciliation history and settled operations are immutable: along every run
  stored evidence stays as it is under its key, and a completed or terminally failed
  operation never changes.\<close>

theorem reconciliation_history_immutable:
  assumes "op_step\<^sup>*\<^sup>* s t"
  shows "(map_of (ol_evidence s) k = Some ev \<longrightarrow> map_of (ol_evidence t) k = Some ev) \<and>
    (map_of (ol_operations s) oid = Some p \<and> op_state p \<in> {OpCompleted, OpFailedTerminal} \<longrightarrow>
       map_of (ol_operations t) oid = Some p)"
  using op_run_evidence [OF op_run_micro [OF assms]] op_run_final [OF op_run_micro [OF assms]]
  by blast

theorem reconciliation_history_immutable_witness:
  "map_of (ol_evidence sample_op_absent) (''op1'', ''rev1'') = Some sample_absence"
proof -
  have "map_of (ol_evidence sample_op_absent) (''op1'', ''rev1'') = Some sample_absence"
    by (simp add: sample_op_absent_def) (simp add: sample_absence_def)
  then show ?thesis
    using reconciliation_history_immutable [OF rtranclp.rtrancl_refl, of sample_op_absent] by blast
qed



text \<open>Completing an attempt on a reachable ledger succeeds exactly for the recorded,
  unexpired attempt and then stores its outcome. For an expired attempt it raises
  \<open>InvalidTransition\<close> and blocks the operation for reconciliation: expiry is never read
  as absence of the effect. In every other case it raises and changes nothing.\<close>

theorem complete_attempt_exact:
  assumes reach: "op_reachable s" and p: "map_of (ol_operations s) (oa_operation_id a) = Some p"
  shows "complete_attempt a out (Aware now) s =
    (if op_lease s (oa_operation_id a) = Some (attempt_lease a) \<and> now < oa_attempt_expires_at a
     then (Inr (), put_operation (oa_operation_id a) (completed_with out p) s)
     else if op_state p = Attempting \<and> (\<exists>x\<le>now. op_attempt_expires_at p = Some x)
     then (Inl InvalidTransition,
           put_operation (oa_operation_id a)
             (block_for_reconciliation lease_expired_reason p) s)
     else (Inl InvalidTransition, s))"
proof -
  have "is_identifier (oa_operation_id a)"
    using op_ledger_inv_operation [OF conjunct1 [OF op_reachable_invs [OF reach]] p]
    by (auto simp: operation_ok_def)
  from settle_attempt_result [OF p this, of now "completed_with out"] show ?thesis
    using p by (auto simp: complete_attempt_def op_lease_def attempt_matches_iff_lease lapse_def
        attempt_lapsed_def put_same_operation split: option.splits)
qed

theorem complete_attempt_exact_witness:
  "complete_attempt sample_attempt \<lparr>rl_result_id = ''r'', rl_result_kind = ''k''\<rparr> (Aware (At 5))
     sample_op_attempting =
   (Inr (), put_operation ''op1''
     (completed_with \<lparr>rl_result_id = ''r'', rl_result_kind = ''k''\<rparr> sample_operation)
     sample_op_attempting)"
proof -
  have p: "map_of (ol_operations sample_op_attempting) ''op1'' = Some sample_operation"
    by (simp add: sample_op_attempting_def)
  then have "op_lease sample_op_attempting ''op1'' = Some (attempt_lease sample_attempt)"
    using sample_attempt_matches by (simp add: op_lease_def attempt_matches_iff_lease)
  then show ?thesis
    using complete_attempt_exact [OF sample_attempting_reachable, of sample_attempt
        sample_operation _ "At 5"] p by simp
qed

text \<open>\<open>reconcile\<close> resolves an operation only from the ambiguous state, only with
  evidence whose outcome matches its resolution, and never reuses a revision for other
  evidence; the new state, outcome and evidence are exactly those of the resolution.\<close>

theorem reconcile_exact:
  assumes reach: "op_reachable s" and p: "map_of (ol_operations s) oid = Some p"
    and rv: "is_identifier rv"
    and ev: "ev = \<lparr>re_operation_id = oid, re_attempt_generation = op_attempt_generation p,
      re_reconciliation_revision = rv, re_resolution = res, re_confirmed_outcome = conf\<rparr>"
  shows "case reconcile oid res rv conf s of
      (Inl e, t) \<Rightarrow> t = s \<and>
        (op_state p \<noteq> OpReconciliationRequired \<and> e = InvalidTransition \<or>
         op_state p = OpReconciliationRequired \<and>
           (if (res = EffectConfirmed) \<noteq> (conf \<noteq> None) then e = ValueError
            else e = InvalidTransition \<and> map_of (ol_evidence s) (oid, rv) \<notin> {None, Some ev}))
    | (Inr st, t) \<Rightarrow>
        op_state p = OpReconciliationRequired \<and>
        map_of (ol_evidence s) (oid, rv) \<in> {None, Some ev} \<and>
        map_of (ol_evidence t) (oid, rv) = Some ev \<and>
        (\<exists>q. map_of (ol_operations t) oid = Some q \<and> op_state q = st \<and>
           op_attempt_generation q = op_attempt_generation p \<and>
           op_reconciliation_revision q = Some rv \<and>
           (case res of
              EffectConfirmed \<Rightarrow> st = OpCompleted \<and> op_outcome q = conf \<and> conf \<noteq> None
            | EffectProvenAbsent \<Rightarrow> st = Prepared \<and> op_outcome q = None
            | StillUnknown \<Rightarrow> st = OpReconciliationRequired \<and> op_outcome q = None))"
proof -
  have "operation_ok p" "op_operation_id p = oid"
    using op_ledger_inv_operation [OF conjunct1 [OF op_reachable_invs [OF reach]] p] by simp_all
  then have oid: "is_identifier oid"
    and gen: "op_state p = OpReconciliationRequired \<Longrightarrow> 1 \<le> op_attempt_generation p"
    and out: "op_state p = OpReconciliationRequired \<Longrightarrow> op_outcome p = None"
    by (auto simp: operation_ok_def)
  show ?thesis
    unfolding reconcile_result [OF p oid rv ev] using gen out
    by (cases res) (auto simp: ev resolved_with_def Let_def)
qed

theorem reconcile_exact_witness:
  "fst (reconcile ''op1'' EffectConfirmed ''rev1'' None sample_op_ambiguous) = Inl ValueError"
proof -
  let ?p = "block_for_reconciliation ''why1'' sample_operation"
  have p: "map_of (ol_operations sample_op_ambiguous) ''op1'' = Some ?p"
    by (simp add: sample_op_ambiguous_def)
  obtain r t where r: "reconcile ''op1'' EffectConfirmed ''rev1'' None sample_op_ambiguous = (r, t)"
    by fastforce
  show ?thesis
    using reconcile_exact [OF sample_ambiguous_reachable p _ refl, of "''rev1''" EffectConfirmed None]
    unfolding r by (cases r) simp_all
qed

end
