(* ===== verification/Async_System.thy ===== *)
theory Async_System
  imports Inbox Reconciliation
begin

text \<open>
  The inbox ledger against its operation authority. The inbox calls the authority
  through one port, \<open>snapshot(operation_id)\<close>; the port's contract is a locale, what it
  gives the inbox is proved inside it, and the operation ledger of Reconciliation
  provides it.
\<close>

section \<open>The coupled system\<close>

text \<open>
  The two ledgers run side by side: an inbox transition sees the authority's present
  state through the port, and the authority moves on its own.
\<close>

inductive coupled_step ::
  "('o \<Rightarrow> 'o \<Rightarrow> bool) \<Rightarrow> ('o \<Rightarrow> operation_authority) \<Rightarrow> inbox \<times> 'o \<Rightarrow> inbox \<times> 'o \<Rightarrow> bool"
  for ostep view where
  c_inbox: "inbox_micro (view oo) s t \<Longrightarrow> coupled_step ostep view (s, oo) (t, oo)"
| c_authority: "ostep oo pp \<Longrightarrow> coupled_step ostep view (s, oo) (s, pp)"

text \<open>
  A receipt that carries a result was executed: it is not executable now, and a bound
  operation durably shows exactly that result.
\<close>

definition result_anchored :: "operation_authority \<Rightarrow> inbox_receipt \<Rightarrow> bool" where
  "result_anchored authority r \<longleftrightarrow>
     (\<forall>link. ir_result_link r = Some link \<longrightarrow>
        ir_state r \<notin> {Admitted, Processing} \<and>
        (\<forall>oid. ir_operation_id r = Some oid \<longrightarrow>
           (\<exists>snap. authority oid = Returned snap \<and> os_state snap = OpCompleted \<and>
              os_outcome snap = Some link)))"

definition coupled_inv :: "('o \<Rightarrow> bool) \<Rightarrow> ('o \<Rightarrow> operation_authority) \<Rightarrow> inbox \<times> 'o \<Rightarrow> bool" where
  "coupled_inv oinv view so \<longleftrightarrow>
     inbox_inv (fst so) \<and> oinv (snd so) \<and>
     (\<forall>k r. map_of (ib_receipts (fst so)) k = Some r \<longrightarrow> result_anchored (view (snd so)) r)"

lemma result_anchored_new: "result_anchored authority (new_receipt i c)"
  by (simp add: result_anchored_def)

lemma result_anchored_step:
  "receipt_step authority r r' \<Longrightarrow> result_anchored authority r \<Longrightarrow> result_anchored authority r'"
  by (induction rule: receipt_step.induct) (auto simp: result_anchored_def)

text \<open>Under the invariant a recorded result is never replaced by another one.\<close>

lemma receipt_step_result:
  "receipt_step authority r r' \<Longrightarrow> result_anchored authority r \<Longrightarrow>
     ir_result_link r = Some link \<Longrightarrow> ir_result_link r' = Some link"
  by (induction rule: receipt_step.induct) (auto simp: result_anchored_def)

section \<open>The contract of the operation authority\<close>

locale operation_authority_port =
  fixes ostep :: "'o \<Rightarrow> 'o \<Rightarrow> bool"
    and oinv :: "'o \<Rightarrow> bool"
    and view :: "'o \<Rightarrow> string \<Rightarrow> operation_snapshot reply"
  assumes oinv_step: "oinv a \<Longrightarrow> ostep a b \<Longrightarrow> oinv b"
    and completed_final: "oinv a \<Longrightarrow> ostep a b \<Longrightarrow> view a oid = Returned snap \<Longrightarrow>
          os_state snap = OpCompleted \<Longrightarrow> view b oid = Returned snap"
begin

lemma anchored_authority:
  "oinv a \<Longrightarrow> ostep a b \<Longrightarrow> result_anchored (view a) r \<Longrightarrow> result_anchored (view b) r"
  unfolding result_anchored_def using completed_final by blast

lemma coupled_inv_step:
  assumes "coupled_step ostep view so tp" "coupled_inv oinv view so"
  shows "coupled_inv oinv view tp"
  using assms
proof (induction rule: coupled_step.induct)
  case (c_inbox a s t)
  then have inv: "inbox_inv s" "oinv a"
    and anchored: "\<And>k r. map_of (ib_receipts s) k = Some r \<Longrightarrow> result_anchored (view a) r"
    unfolding coupled_inv_def by auto
  have "result_anchored (view a) r'" if r': "map_of (ib_receipts t) k = Some r'" for k r'
    using inbox_micro_lookup [OF c_inbox.hyps r'] anchored result_anchored_new
      result_anchored_step by blast
  then show ?case
    using inbox_micro_inv [OF c_inbox.hyps inv(1)] inv(2) unfolding coupled_inv_def by simp
next
  case (c_authority a b s)
  then show ?case
    unfolding coupled_inv_def using oinv_step anchored_authority by fastforce
qed

lemma coupled_inv_run:
  "(coupled_step ostep view)\<^sup>*\<^sup>* so tp \<Longrightarrow> coupled_inv oinv view so \<Longrightarrow> coupled_inv oinv view tp"
  by (induction rule: rtranclp_induct) (auto intro: coupled_inv_step)

lemma coupled_result_step:
  assumes "coupled_step ostep view so tp" "coupled_inv oinv view so"
    "map_of (ib_receipts (fst so)) k = Some r" "ir_result_link r = Some link"
  shows "\<exists>q. map_of (ib_receipts (fst tp)) k = Some q \<and> ir_result_link q = Some link"
  using assms
proof (induction rule: coupled_step.induct)
  case (c_inbox a s t)
  then have r: "map_of (ib_receipts s) k = Some r" by simp
  with c_inbox.prems(1) have "result_anchored (view a) r"
    unfolding coupled_inv_def fst_conv snd_conv by blast
  with c_inbox.prems inbox_micro_receipt [OF c_inbox.hyps, of k r] receipt_step_result r
  show ?case by fastforce
qed simp

lemma coupled_result_final:
  assumes "(coupled_step ostep view)\<^sup>*\<^sup>* so tp" "coupled_inv oinv view so"
    "map_of (ib_receipts (fst so)) k = Some r" "ir_result_link r = Some link"
  shows "\<exists>q. map_of (ib_receipts (fst tp)) k = Some q \<and> ir_result_link q = Some link \<and>
    ir_state q \<notin> {Admitted, Processing}"
proof -
  have "\<exists>q. map_of (ib_receipts (fst tp)) k = Some q \<and> ir_result_link q = Some link"
    using assms
  proof (induction rule: rtranclp_induct)
    case (step t u)
    with coupled_inv_run coupled_result_step show ?case by blast
  qed simp
  moreover have "coupled_inv oinv view tp" by (rule coupled_inv_run [OF assms(1,2)])
  ultimately show ?thesis unfolding coupled_inv_def result_anchored_def by blast
qed

end

section \<open>The operation ledger provides the port\<close>

definition ledger_view :: "op_ledger \<Rightarrow> operation_authority" where
  "ledger_view s oid =
     (case fst (op_snapshot oid s) of Inl e \<Rightarrow> Raised e | Inr snap \<Rightarrow> Returned snap)"

lemma op_snapshot_known:
  "op_snapshot oid s = (Inr snap, t) \<Longrightarrow> \<exists>p. map_of (ol_operations s) oid = Some p"
  by (auto simp: op_snapshot_def bindS_apply op_require_result
      split: if_splits option.splits prod.splits sum.splits)

lemma op_snapshot_state:
  assumes "op_snapshot oid s = (Inr snap, t)" "map_of (ol_operations s) oid = Some p"
  shows "os_state snap = op_state p \<and> os_outcome snap = op_outcome p \<and>
    os_reconciliation_resolution snap = op_reconciliation_resolution p \<and>
    os_operation_id snap = op_operation_id p \<and>
    os_attempt_generation snap = op_attempt_generation p \<and>
    os_owner_contract snap = Some (op_owner_contract p) \<and> os_tenant_id snap = op_tenant_id p \<and>
    os_reconciliation_revision snap = op_reconciliation_revision p"
  using assms
  by (auto simp: op_snapshot_def bindS_apply op_require_result operation_snapshot_init_def
      construct_def snapshot_of_def split: if_splits option.splits prod.splits sum.splits)

text \<open>A snapshot depends on the operation's record and its evidence only.\<close>

lemma op_snapshot_frame:
  assumes "map_of (ol_operations s) oid = Some p" "map_of (ol_operations t) oid = Some p"
    and "\<And>k ev. map_of (ol_evidence s) k = Some ev \<Longrightarrow> map_of (ol_evidence t) k = Some ev"
    and "fst (op_snapshot oid s) = Inr snap"
  shows "fst (op_snapshot oid t) = Inr snap"
proof (cases "op_reconciliation_revision p")
  case None
  with assms show ?thesis
    by (auto simp: op_snapshot_def bindS_apply op_require_result split: if_splits)
next
  case (Some rv)
  then obtain ev where ev: "map_of (ol_evidence s) (op_operation_id p, rv) = Some ev"
    using assms(1,4)
    by (auto simp: op_snapshot_def bindS_apply op_require_result split: if_splits option.splits)
  from ev assms(3) have "map_of (ol_evidence t) (op_operation_id p, rv) = Some ev" by blast
  with assms(1,2,4) Some ev show ?thesis
    by (auto simp: op_snapshot_def bindS_apply op_require_result split: if_splits)
qed

lemma ledger_view_Returned: "ledger_view s oid = Returned snap \<longleftrightarrow> fst (op_snapshot oid s) = Inr snap"
  by (simp add: ledger_view_def split: sum.split)

definition op_full_inv :: "op_ledger \<Rightarrow> bool" where
  "op_full_inv s \<longleftrightarrow> op_ledger_inv s \<and> op_history_inv s"

interpretation ledger_port: operation_authority_port op_micro op_full_inv ledger_view
proof
  fix a b oid snap
  assume inv: "op_full_inv a" and step: "op_micro a b"
  show "op_full_inv b"
    using inv op_micro_inv [OF step] op_history_step [OF step] by (simp add: op_full_inv_def)
  assume view: "ledger_view a oid = Returned snap" and completed: "os_state snap = OpCompleted"
  then obtain u where snap: "op_snapshot oid a = (Inr snap, u)"
    by (metis ledger_view_Returned prod.collapse)
  then obtain p where p: "map_of (ol_operations a) oid = Some p" using op_snapshot_known by blast
  with snap completed have "op_state p = OpCompleted" using op_snapshot_state by metis
  then have "map_of (ol_operations b) oid = Some p" using op_micro_final [OF step p] by simp
  then show "ledger_view b oid = Returned snap"
    unfolding ledger_view_Returned
    by (rule op_snapshot_frame [OF p _ op_micro_evidence [OF step]]) (simp_all add: snap)
qed

section \<open>The running system\<close>

inductive system_step :: "inbox \<times> op_ledger \<Rightarrow> inbox \<times> op_ledger \<Rightarrow> bool" where
  sys_inbox: "inbox_step (ledger_view oo) s t \<Longrightarrow> system_step (s, oo) (t, oo)"
| sys_operations: "op_step oo pp \<Longrightarrow> system_step (s, oo) (s, pp)"

definition system_reachable :: "inbox \<times> op_ledger \<Rightarrow> bool" where
  "system_reachable so \<longleftrightarrow> system_step\<^sup>*\<^sup>* (empty_inbox, empty_op_ledger) so"

abbreviation system_inv :: "inbox \<times> op_ledger \<Rightarrow> bool" where
  "system_inv \<equiv> coupled_inv op_full_inv ledger_view"

lemma coupled_inbox_run:
  "(inbox_micro (view oo))\<^sup>*\<^sup>* s t \<Longrightarrow> (coupled_step ostep view)\<^sup>*\<^sup>* (s, oo) (t, oo)"
  by (induction rule: rtranclp_induct) (auto intro: c_inbox rtranclp.rtrancl_into_rtrancl)

lemma coupled_authority_run:
  "ostep\<^sup>*\<^sup>* oo pp \<Longrightarrow> (coupled_step ostep view)\<^sup>*\<^sup>* (s, oo) (s, pp)"
  by (induction rule: rtranclp_induct) (auto intro: c_authority rtranclp.rtrancl_into_rtrancl)

lemma system_step_coupled:
  "system_step so tp \<Longrightarrow> system_inv so \<Longrightarrow> (coupled_step op_micro ledger_view)\<^sup>*\<^sup>* so tp"
proof (induction rule: system_step.induct)
  case (sys_inbox a s t)
  then have "inbox_inv s" by (simp add: coupled_inv_def)
  from inbox_step_micro [OF sys_inbox.hyps this] show ?case by (rule coupled_inbox_run)
next
  case (sys_operations a b s)
  from op_step_micro [OF sys_operations.hyps] show ?case by (rule coupled_authority_run)
qed

lemma system_run_coupled:
  "system_step\<^sup>*\<^sup>* so tp \<Longrightarrow> system_inv so \<Longrightarrow> (coupled_step op_micro ledger_view)\<^sup>*\<^sup>* so tp"
proof (induction rule: rtranclp_induct)
  case (step t u)
  then have "system_inv t" using ledger_port.coupled_inv_run by blast
  with step system_step_coupled show ?case by (meson rtranclp_trans)
qed simp

lemma system_inv_empty: "system_inv (empty_inbox, empty_op_ledger)"
proof -
  have "ib_receipts empty_inbox = []" by (simp add: empty_inbox_def)
  then show ?thesis
    by (simp add: coupled_inv_def inbox_inv_empty op_full_inv_def op_ledger_inv_empty
        op_history_empty)
qed

lemma system_reachable_inv: "system_reachable so \<Longrightarrow> system_inv so"
  unfolding system_reachable_def
  using system_run_coupled [OF _ system_inv_empty] ledger_port.coupled_inv_run system_inv_empty
  by blast

lemma claim_effect_refused:
  assumes "map_of (ib_receipts s) (identity_key i) = Some r" "ir_state r \<noteq> Admitted"
  shows "\<exists>e. claim_effect i ex ea expiry profile s = (Inl e, s)"
proof (cases "claim_effect i ex ea expiry profile s")
  case (Pair v t)
  with assms claim_effect_Inl show ?thesis
    by (cases v) (auto elim!: claim_effect_Inr)
qed

section \<open>A worked run\<close>

definition sample_link :: effect_result_link where
  "sample_link = \<lparr>rl_result_id = ''res'', rl_result_kind = ''kind''\<rparr>"

definition sample_op_done :: op_ledger where
  "sample_op_done =
     put_operation ''op1'' (completed_with sample_link sample_operation) sample_op_attempting"

lemma sample_complete_operation:
  "complete_attempt sample_attempt sample_link (Aware (At 5)) sample_op_attempting =
     (Inr (), sample_op_done)"
  using settle_attempt_result [of sample_op_attempting sample_attempt sample_operation "At 5"]
  by (simp add: complete_attempt_def sample_op_attempting_def sample_op_done_def
      sample_attempt_matches)

lemma sample_done_reachable: "op_reachable sample_op_done"
  by (rule op_reachable_step [OF sample_attempting_reachable
        step_complete [OF sample_complete_operation]])

lemma sample_operation_scope [simp]:
  "op_owner_contract sample_operation = ''mon.host''" "op_tenant_id sample_operation = None"
  "op_reconciliation_revision sample_operation = None"
  "op_reconciliation_resolution sample_operation = None"
  by (simp_all add: sample_operation_def begun_def new_operation_def)

lemma completed_with_frame [simp]:
  "op_owner_contract (completed_with link p) = op_owner_contract p"
  "op_tenant_id (completed_with link p) = op_tenant_id p"
  "op_outcome (completed_with link p) = Some link"
  "op_reconciliation_revision (completed_with link p) = op_reconciliation_revision p"
  "op_reconciliation_resolution (completed_with link p) = op_reconciliation_resolution p"
  by (simp_all add: completed_with_def)

lemma ledger_view_known:
  assumes "op_reachable oo" "map_of (ol_operations oo) oid = Some p"
  shows "\<exists>snap. ledger_view oo oid = Returned snap \<and> os_operation_id snap = oid \<and>
    os_state snap = op_state p \<and> os_outcome snap = op_outcome p \<and>
    os_owner_contract snap = Some (op_owner_contract p) \<and> os_tenant_id snap = op_tenant_id p \<and>
    os_reconciliation_resolution snap = op_reconciliation_resolution p \<and>
    os_reconciliation_revision snap = op_reconciliation_revision p"
proof -
  obtain snap where "op_snapshot oid oo = (Inr snap, oo)" "os_operation_id snap = oid"
    using op_snapshot_defined [OF _ assms(2)] op_reachable_invs [OF assms(1)] by blast
  with op_snapshot_state [OF _ assms(2)] show ?thesis by (auto simp: ledger_view_Returned)
qed

lemma sample_view:
  "\<exists>snap. ledger_view sample_op_done ''op1'' = Returned snap \<and>
     in_operation_scope sample_processing ''op1'' snap \<and> os_state snap = OpCompleted \<and>
     os_outcome snap = Some sample_link \<and> os_reconciliation_resolution snap = None \<and>
     os_reconciliation_revision snap = None"
proof -
  have "map_of (ol_operations sample_op_done) ''op1'' =
      Some (completed_with sample_link sample_operation)" by (simp add: sample_op_done_def)
  from ledger_view_known [OF sample_done_reachable this] show ?thesis
    by (auto simp: in_operation_scope_def sample_identity_def)
qed

definition sample_bound :: inbox_receipt where
  "sample_bound = sample_processing\<lparr>ir_operation_id := Some ''op1''\<rparr>"

lemma sample_bound_fields [simp]:
  "ir_identity sample_bound = sample_identity" "ir_operation_id sample_bound = Some ''op1''"
  by (simp_all add: sample_bound_def)

lemma sample_bound_current: "claim_current sample_executor sample_bound"
  using sample_claim_current by (simp add: claim_current_def sample_bound_def)

lemma sample_bind:
  "bind_cross_authority_operation sample_executor ''op1'' (ledger_view sample_op_done)
     (Aware (At 5)) sample_processing_inbox =
   (Inr (), put_receipt sample_bound sample_processing_inbox)"
proof -
  have "require_current_executor sample_executor (At 5) sample_processing_inbox =
      (Inr sample_processing, sample_processing_inbox)"
    by (simp add: require_current_executor_Inr sample_processing_lookup sample_claim_current)
  moreover obtain snap where
    "snapshot_for_receipt sample_processing ''op1'' (ledger_view sample_op_done) = Inr snap"
    using sample_view snapshot_for_receipt_Inr by blast
  ultimately show ?thesis
    by (simp add: bind_cross_authority_operation_def bindS_apply sample_bound_def)
qed

definition sample_done_inbox :: inbox where
  "sample_done_inbox = put_receipt (completed_receipt sample_link sample_bound)
     (put_receipt sample_bound sample_processing_inbox)"

lemma sample_complete_cross:
  "complete_cross_authority_effect sample_executor sample_link (ledger_view sample_op_done)
     (Aware (At 6)) (put_receipt sample_bound sample_processing_inbox) =
   (Inr (), sample_done_inbox)"
proof -
  have "require_current_executor sample_executor (At 6)
      (put_receipt sample_bound sample_processing_inbox) =
      (Inr sample_bound, put_receipt sample_bound sample_processing_inbox)"
    by (simp add: require_current_executor_Inr sample_bound_current)
  moreover obtain snap where
    "snapshot_for_receipt sample_bound ''op1'' (ledger_view sample_op_done) = Inr snap"
    "os_state snap = OpCompleted" "os_outcome snap = Some sample_link"
    "os_reconciliation_resolution snap = None" "os_reconciliation_revision snap = None"
    using sample_view by (auto simp: snapshot_for_receipt_Inr in_operation_scope_def)
  ultimately show ?thesis
    by (simp add: complete_cross_authority_effect_def bindS_apply sample_done_inbox_def)
qed

lemma system_operations_run:
  "op_step\<^sup>*\<^sup>* oo pp \<Longrightarrow> system_step\<^sup>*\<^sup>* (s, oo) (s, pp)"
  by (induction rule: rtranclp_induct)
    (auto intro: sys_operations rtranclp.rtrancl_into_rtrancl)

lemma sample_system_reachable: "system_reachable (sample_done_inbox, sample_op_done)"
proof -
  have "system_step\<^sup>*\<^sup>* (empty_inbox, empty_op_ledger) (empty_inbox, sample_op_done)"
    using sample_done_reachable unfolding op_reachable_def by (rule system_operations_run)
  moreover have "system_step (empty_inbox, sample_op_done) (sample_inbox, sample_op_done)"
    by (rule sys_inbox [OF step_admit [OF sample_admit]])
  moreover have "system_step (sample_inbox, sample_op_done) (sample_processing_inbox, sample_op_done)"
    by (rule sys_inbox [OF step_claim [OF sample_claim_effect]])
  moreover have "system_step (sample_processing_inbox, sample_op_done)
      (put_receipt sample_bound sample_processing_inbox, sample_op_done)"
    by (rule sys_inbox [OF step_bind [OF sample_bind]])
  moreover have "system_step (put_receipt sample_bound sample_processing_inbox, sample_op_done)
      (sample_done_inbox, sample_op_done)"
    by (rule sys_inbox [OF step_cross [OF sample_complete_cross]])
  ultimately show ?thesis unfolding system_reachable_def by (meson rtranclp.rtrancl_into_rtrancl)
qed

lemma sample_done_lookup:
  "map_of (ib_receipts sample_done_inbox) (identity_key sample_identity) =
     Some (completed_receipt sample_link sample_bound)"
  by (simp add: sample_done_inbox_def)

section \<open>Properties\<close>

text \<open>C1: at most one logical effect. In the system of inbox and operation ledger, once a
  receipt carries a result, then after any further run of either ledger it still carries
  exactly that result, and every attempt to claim the effect again is refused without a
  change.\<close>

theorem completed_effect_final:
  assumes reach: "system_reachable (s, oo)" and run: "system_step\<^sup>*\<^sup>* (s, oo) (t, pp)"
    and r: "map_of (ib_receipts s) (identity_key i) = Some r" "ir_result_link r = Some link"
  shows "(\<exists>q. map_of (ib_receipts t) (identity_key i) = Some q \<and> ir_result_link q = Some link) \<and>
    (\<exists>e. claim_effect i ex ea expiry profile t = (Inl e, t))"
proof -
  note inv = system_reachable_inv [OF reach]
  obtain q where q: "map_of (ib_receipts t) (identity_key i) = Some q"
    "ir_result_link q = Some link" "ir_state q \<notin> {Admitted, Processing}"
    using ledger_port.coupled_result_final [OF system_run_coupled [OF run inv] inv,
        of "identity_key i" r link] r by auto
  then show ?thesis using claim_effect_refused [OF q(1)] by auto
qed

theorem completed_effect_final_witness:
  "\<exists>e. claim_effect sample_identity ''w2'' sample_authority (Aware (At 20)) ''runtime.worker@1''
     sample_done_inbox = (Inl e, sample_done_inbox)"
  using completed_effect_final [OF sample_system_reachable rtranclp.rtrancl_refl sample_done_lookup,
      of sample_link] by simp

text \<open>C35: inbox and operation ledger agree. In every reachable state of the system, a
  receipt that carries a result and is bound to an operation is matched by an operation
  that is completed with exactly that outcome.\<close>

theorem inbox_agrees_with_operations:
  assumes reach: "system_reachable (s, oo)"
    and r: "map_of (ib_receipts s) k = Some r" "ir_result_link r = Some link"
      "ir_operation_id r = Some oid"
  shows "get_operation_state oid oo = (Inr OpCompleted, oo) \<and>
    get_operation_outcome oid oo = (Inr (Some link), oo)"
proof -
  have inv: "system_inv (s, oo)" by (rule system_reachable_inv [OF reach])
  then have "result_anchored (ledger_view oo) r" using r(1)
    unfolding coupled_inv_def fst_conv snd_conv by blast
  then obtain snap u where snap: "op_snapshot oid oo = (Inr snap, u)"
    "os_state snap = OpCompleted" "os_outcome snap = Some link"
    using r(2,3) unfolding result_anchored_def ledger_view_Returned by (metis prod.collapse)
  then obtain p where p: "map_of (ol_operations oo) oid = Some p" using op_snapshot_known by blast
  from op_snapshot_state [OF snap(1) p] snap have "op_state p = OpCompleted" "op_outcome p = Some link"
    by simp_all
  moreover have "op_ledger_inv oo" using inv by (simp add: coupled_inv_def op_full_inv_def)
  then have "is_identifier oid" using op_ledger_inv_operation [OF _ p] by (auto simp: operation_ok_def)
  ultimately show ?thesis
    using p by (simp add: get_operation_state_def get_operation_outcome_def operation_field_def
        bindS_apply op_require_result)
qed

theorem inbox_agrees_with_operations_witness:
  "get_operation_outcome ''op1'' sample_op_done = (Inr (Some sample_link), sample_op_done)"
  using inbox_agrees_with_operations [OF sample_system_reachable sample_done_lookup,
      of sample_link "''op1''"] by simp

text \<open>Re-admission means proof of absence of everything that was tried. When the inbox
  makes a blocked receipt executable again from the operation ledger's snapshot, the
  ledger's evidence store proves, for every attempt ever begun on the bound operation,
  that its effect is absent.\<close>

theorem readmission_proves_absence:
  assumes reach: "op_reachable oo"
    and retry: "reconcile_retry_eligible i (ledger_view oo) s = (Inr u, t)"
    and r: "map_of (ib_receipts s) (identity_key i) = Some r" "ir_operation_id r = Some oid"
    and k: "1 \<le> k" "k \<le> op_generation oo oid"
  shows "proven_absent (ol_evidence oo) oid k"
proof -
  obtain snap where "ledger_view oo oid = Returned snap" "os_state snap = Prepared"
    using retry r by (auto elim!: reconcile_retry_Inr)
  then obtain v where snap: "op_snapshot oid oo = (Inr snap, v)" "os_state snap = Prepared"
    unfolding ledger_view_Returned by (metis prod.collapse)
  then obtain p where p: "map_of (ol_operations oo) oid = Some p" using op_snapshot_known by blast
  with op_snapshot_state [OF snap(1) p] snap(2) k have "superseded p k"
    by (auto simp: superseded_def op_generation_def)
  with op_reachable_invs [OF reach] p show ?thesis unfolding op_history_inv_def by blast
qed

theorem readmission_proves_absence_witness:
  "(\<exists>u t. reconcile_retry_eligible sample_identity (ledger_view sample_op_absent)
      (put_receipt sample_blocked empty_inbox) = (Inr u, t)) \<and>
   proven_absent (ol_evidence sample_op_absent) ''op1'' 1"
proof -
  let ?s = "put_receipt sample_blocked empty_inbox"
  let ?p = "resolved_with sample_absence (block_for_reconciliation ''why1'' sample_operation)"
  have p: "map_of (ol_operations sample_op_absent) ''op1'' = Some ?p"
    by (simp add: sample_op_absent_def)
  have "op_state ?p = Prepared" "op_reconciliation_resolution ?p = Some EffectProvenAbsent"
    "op_reconciliation_revision ?p = Some ''rev1''"
    by (simp_all add: resolved_with_state) (simp_all add: sample_absence_def)
  moreover have "op_owner_contract ?p = ''mon.host''" "op_tenant_id ?p = None"
    by simp_all (simp_all add: block_for_reconciliation_def)
  ultimately obtain snap where "ledger_view sample_op_absent ''op1'' = Returned snap"
    "in_operation_scope sample_blocked ''op1'' snap" "os_state snap = Prepared"
    "os_reconciliation_resolution snap = Some EffectProvenAbsent"
    "os_reconciliation_revision snap = Some ''rev1''"
    using ledger_view_known [OF sample_absent_reachable p]
    by (auto simp: in_operation_scope_def sample_identity_def)
  moreover have "inbox_require sample_identity ?s = (Inr sample_blocked, ?s)"
    by (simp add: inbox_require_Inr)
  ultimately have retry: "reconcile_retry_eligible sample_identity (ledger_view sample_op_absent) ?s =
      (Inr (), put_receipt (readmitted_receipt ''rev1'' sample_blocked) ?s)"
    by (simp add: reconcile_retry_eligible_def bindS_apply snapshot_for_receipt_def
        evidence_revision_def require_identifier_def construct_def)
  moreover have "op_generation sample_op_absent ''op1'' = 1" by (simp add: op_generation_def p)
  ultimately show ?thesis
    using readmission_proves_absence [OF sample_absent_reachable retry, of sample_blocked "''op1''" 1]
    by simp
qed

end
