(* ===== verification/Quarantine.thy ===== *)
theory Quarantine
  imports Async_Model
begin

text \<open>
  src/src/jlmirror_async/quarantine.py: the exact, payload-free scope of a redrive, the
  privileged admission for it and the fail-closed check that binds the two.
\<close>

section \<open>Quarantine subjects\<close>

datatype quarantine_source = OutboxPublication | ConsumerInbox | ReplayConsume

fun reliability_profile_by_source :: "quarantine_source \<Rightarrow> string" where
  "reliability_profile_by_source OutboxPublication = ''rel.outbox-publication@1''"
| "reliability_profile_by_source ConsumerInbox = ''rel.consumer-inbox-effect@1''"
| "reliability_profile_by_source ReplayConsume = ''rel.replay-consume-state@1''"

record quarantine_subject =
  qs_source :: quarantine_source
  qs_owner_contract :: string
  qs_identity_scope :: string
  qs_message_id :: string
  qs_quarantine_generation :: int
  qs_quarantine_reason_class :: string
  qs_correlation_id :: string
  qs_reliability_profile_id :: string
  qs_tenant_id :: "string option"
  qs_operation_id :: "string option"
  qs_source_generation :: "string option"

definition valid_quarantine_subject :: "quarantine_subject \<Rightarrow> bool" where
  "valid_quarantine_subject q \<longleftrightarrow>
     is_contract_name (qs_owner_contract q) \<and>
     is_identifier (qs_identity_scope q) \<and>
     is_identifier (qs_message_id q) \<and>
     0 \<le> qs_quarantine_generation q \<and>
     is_identifier (qs_quarantine_reason_class q) \<and>
     is_identifier (qs_correlation_id q) \<and>
     is_identifier (qs_reliability_profile_id q) \<and>
     opt_identifier (qs_tenant_id q) \<and>
     opt_identifier (qs_operation_id q) \<and>
     opt_identifier (qs_source_generation q) \<and>
     qs_reliability_profile_id q = reliability_profile_by_source (qs_source q)"

record redrive_request =
  rr_redrive_operation_id :: string
  rr_subject :: quarantine_subject

definition valid_redrive_request :: "redrive_request \<Rightarrow> bool" where
  "valid_redrive_request r \<longleftrightarrow>
     is_identifier (rr_redrive_operation_id r) \<and> valid_quarantine_subject (rr_subject r)"

record redrive_admission =
  ra_request :: redrive_request
  ra_quarantine_state_revision :: string
  ra_authorizing_principal_id :: string
  ra_privileged_authority_revision :: string
  ra_compatibility_revision :: string
  ra_effect_safety_revision :: string
  ra_capacity_admission_revision :: string
  ra_audit_revision :: string
  ra_observed_at :: datetime
  ra_current :: bool
  ra_eligible :: bool
  ra_placement_version :: "string option"
  ra_reconciliation_revision :: "string option"

definition valid_redrive_admission :: "redrive_admission \<Rightarrow> bool" where
  "valid_redrive_admission a \<longleftrightarrow>
     list_all is_identifier
       [ra_quarantine_state_revision a, ra_authorizing_principal_id a,
        ra_privileged_authority_revision a, ra_compatibility_revision a,
        ra_effect_safety_revision a, ra_capacity_admission_revision a, ra_audit_revision a] \<and>
     is_aware (ra_observed_at a) \<and>
     opt_identifier (ra_placement_version a) \<and>
     opt_identifier (ra_reconciliation_revision a) \<and>
     (qs_tenant_id (rr_subject (ra_request a)) \<noteq> None \<longleftrightarrow> ra_placement_version a \<noteq> None)"

section \<open>The fail-closed redrive check\<close>

type_synonym redrive_authority = "(redrive_request \<Rightarrow> redrive_admission reply) option"

definition require_current_redrive ::
  "redrive_authority \<Rightarrow> redrive_request \<Rightarrow> redrive_admission res" where
  "require_current_redrive authority request =
     (case authority of
        None \<Rightarrow> Inl ReconciliationBlocked
      | Some authorize_redrive \<Rightarrow>
          (case authorize_redrive request of
             Raised e \<Rightarrow> Inl ReconciliationBlocked
           | Malformed \<Rightarrow> Inl ReconciliationBlocked
           | Returned admission \<Rightarrow>
               if ra_request admission \<noteq> request then Inl ReconciliationBlocked
               else if \<not> ra_current admission then Inl ReconciliationBlocked
               else if \<not> ra_eligible admission then Inl ReconciliationBlocked
               else Inr admission))"

section \<open>Redrive requests from trusted records\<close>

definition redrive_request_init :: "string \<Rightarrow> quarantine_subject \<Rightarrow> redrive_request res" where
  "redrive_request_init redrive_operation_id subject =
     bindR (construct valid_quarantine_subject ValueError subject) (\<lambda>q.
     construct valid_redrive_request ValueError
       \<lparr>rr_redrive_operation_id = redrive_operation_id, rr_subject = q\<rparr>)"

definition outbox_redrive_request ::
  "logical_message \<Rightarrow> int \<Rightarrow> string \<Rightarrow> string \<Rightarrow> redrive_request res" where
  "outbox_redrive_request m claim_generation reason_class redrive_operation_id =
     redrive_request_init redrive_operation_id
       \<lparr>qs_source = OutboxPublication, qs_owner_contract = lm_contract_name m,
        qs_identity_scope = lm_producer_message_scope m, qs_message_id = lm_message_id m,
        qs_quarantine_generation = claim_generation, qs_quarantine_reason_class = reason_class,
        qs_correlation_id = lm_correlation_id m,
        qs_reliability_profile_id = ''rel.outbox-publication@1'',
        qs_tenant_id = lm_tenant_id m, qs_operation_id = lm_operation_id m,
        qs_source_generation = lm_producer_generation m\<rparr>"

definition inbox_redrive_request ::
  "scoped_message_identity \<Rightarrow> int \<Rightarrow> string \<Rightarrow> string \<Rightarrow> string \<Rightarrow> string option \<Rightarrow>
   string option \<Rightarrow> redrive_request res" where
  "inbox_redrive_request i execution_generation reason_class correlation_id
     redrive_operation_id operation_id source_generation =
     redrive_request_init redrive_operation_id
       \<lparr>qs_source = ConsumerInbox, qs_owner_contract = si_consumer_contract i,
        qs_identity_scope = si_message_identity_scope i, qs_message_id = si_message_id i,
        qs_quarantine_generation = execution_generation,
        qs_quarantine_reason_class = reason_class, qs_correlation_id = correlation_id,
        qs_reliability_profile_id = ''rel.consumer-inbox-effect@1'',
        qs_tenant_id = si_tenant_id i, qs_operation_id = operation_id,
        qs_source_generation = source_generation\<rparr>"

lemma redrive_request_init_Inr [res_simps]:
  "redrive_request_init oid q = Inr r \<longleftrightarrow>
     is_identifier oid \<and> valid_quarantine_subject q \<and>
     r = \<lparr>rr_redrive_operation_id = oid, rr_subject = q\<rparr>"
  by (auto simp: redrive_request_init_def valid_redrive_request_def res_simps)

lemma redrive_request_init_Inl: "redrive_request_init oid q = Inl e \<Longrightarrow> e = ValueError"
  by (auto simp: redrive_request_init_def bindR_Inl_iff construct_Inl_iff)

lemma require_current_redrive_Inr [res_simps]:
  "require_current_redrive authority request = Inr a \<longleftrightarrow>
     (\<exists>f. authority = Some f \<and> f request = Returned a \<and> ra_request a = request \<and>
        ra_current a \<and> ra_eligible a)"
  by (auto simp: require_current_redrive_def split: option.splits reply.splits)

lemma require_current_redrive_Inl:
  "require_current_redrive authority request = Inl e \<Longrightarrow> e = ReconciliationBlocked"
  by (auto simp: require_current_redrive_def split: option.splits reply.splits if_splits)

section \<open>Properties\<close>

text \<open>A redrive admission cannot be transferred. If the check accepts an admission for
  the request built from one inbox identity, generation and reason, then the admission
  was issued as current and eligible for exactly that request, and no request built from
  another identity, generation, reason or correlation, nor from any outbox message, is
  the request it answers.\<close>

theorem redrive_not_transferable:
  assumes req: "inbox_redrive_request i g why corr rid oid sg = Inr request"
    and adm: "require_current_redrive authority request = Inr a"
    and other: "inbox_redrive_request i' g' why' corr' rid' oid' sg' = Inr request' \<and>
        (i', g', why', corr', rid', oid', sg') \<noteq> (i, g, why, corr, rid, oid, sg) \<or>
      outbox_redrive_request m g' why' rid' = Inr request'"
  shows "ra_request a = request \<and> ra_current a \<and> ra_eligible a \<and> ra_request a \<noteq> request' \<and>
    rr_redrive_operation_id (ra_request a) = rid \<and>
    qs_tenant_id (rr_subject (ra_request a)) = si_tenant_id i"
proof -
  have a: "ra_request a = request" "ra_current a" "ra_eligible a"
    using adm by (auto simp: require_current_redrive_Inr)
  have "request \<noteq> request'"
    using req other
    by (cases i; cases i')
      (auto simp: inbox_redrive_request_def outbox_redrive_request_def redrive_request_init_Inr)
  with a req show ?thesis
    by (auto simp: inbox_redrive_request_def redrive_request_init_Inr)
qed

definition sample_redrive_identity :: scoped_message_identity where
  "sample_redrive_identity =
     \<lparr>si_consumer_contract = ''mon.host'', si_message_identity_scope = ''scope'',
      si_message_id = ''m1'', si_tenant_id = None\<rparr>"

definition sample_redrive_request :: "int \<Rightarrow> redrive_request" where
  "sample_redrive_request g =
     \<lparr>rr_redrive_operation_id = ''rd1'', rr_subject =
        \<lparr>qs_source = ConsumerInbox, qs_owner_contract = ''mon.host'', qs_identity_scope = ''scope'',
         qs_message_id = ''m1'', qs_quarantine_generation = g,
         qs_quarantine_reason_class = ''why1'', qs_correlation_id = ''corr'',
         qs_reliability_profile_id = ''rel.consumer-inbox-effect@1'', qs_tenant_id = None,
         qs_operation_id = None, qs_source_generation = None\<rparr>\<rparr>"

definition sample_redrive_admission :: "redrive_request \<Rightarrow> redrive_admission" where
  "sample_redrive_admission r =
     \<lparr>ra_request = r, ra_quarantine_state_revision = ''q1'', ra_authorizing_principal_id = ''p1'',
      ra_privileged_authority_revision = ''v1'', ra_compatibility_revision = ''c1'',
      ra_effect_safety_revision = ''e1'', ra_capacity_admission_revision = ''k1'',
      ra_audit_revision = ''a1'', ra_observed_at = Aware (At 0), ra_current = True,
      ra_eligible = True, ra_placement_version = None, ra_reconciliation_revision = None\<rparr>"

lemma sample_redrive:
  "0 \<le> g \<Longrightarrow> inbox_redrive_request sample_redrive_identity g ''why1'' ''corr'' ''rd1'' None None =
     Inr (sample_redrive_request g)"
  by (simp add: inbox_redrive_request_def sample_redrive_identity_def redrive_request_init_Inr
      sample_redrive_request_def valid_quarantine_subject_def is_contract_name_def
      contract_char_def Let_def grammar_eval)

theorem redrive_not_transferable_witness:
  "ra_request (sample_redrive_admission (sample_redrive_request 7)) \<noteq> sample_redrive_request 8"
proof -
  have "require_current_redrive (Some (\<lambda>r. Returned (sample_redrive_admission r)))
      (sample_redrive_request 7) = Inr (sample_redrive_admission (sample_redrive_request 7))"
    by (simp add: require_current_redrive_def sample_redrive_admission_def)
  from redrive_not_transferable [OF sample_redrive this, of sample_redrive_identity 8 "''why1''"
      "''corr''" "''rd1''" None None]
  show ?thesis using sample_redrive [of 8] by simp
qed

end
