(* ===== verification/Fencing.thy ===== *)
theory Fencing
  imports Authority_Model
begin

text \<open>
  src/src/jlmirror_authority/fencing.py: fence records and tokens, the admission of a
  fenced effect and the acquisition of a successor fence. Both go through the port
  \<open>FenceAuthorityPort\<close>, whose contract is a locale; the in-memory authority of
  src/app/auth.py provides it.
\<close>

section \<open>Records and tokens\<close>

definition max_signed_bigint :: int where
  "max_signed_bigint = 9223372036854775807"

definition valid_epoch :: "int \<Rightarrow> bool" where
  "valid_epoch e \<longleftrightarrow> 0 < e \<and> e \<le> max_signed_bigint"

record fence_record =
  fr_fence_scope_id :: string
  fr_current_fence_epoch :: int
  fr_current_generation_id :: string
  fr_authority_state :: string

definition valid_fence_record :: "fence_record \<Rightarrow> bool" where
  "valid_fence_record r \<longleftrightarrow>
     is_identifier (fr_fence_scope_id r) \<and> is_identifier (fr_current_generation_id r) \<and>
     is_identifier (fr_authority_state r) \<and> valid_epoch (fr_current_fence_epoch r)"

record fence_token =
  ft_fence_scope_id :: string
  ft_fence_epoch :: int
  ft_generation_id :: string

definition valid_fence_token :: "fence_token \<Rightarrow> bool" where
  "valid_fence_token k \<longleftrightarrow>
     is_identifier (ft_fence_scope_id k) \<and> is_identifier (ft_generation_id k) \<and>
     valid_epoch (ft_fence_epoch k)"

definition effect_eligible_state :: string where
  "effect_eligible_state = ''active''"

section \<open>The two operations\<close>

text \<open>
  The port's methods act on the authority's own state. \<open>None\<close> is every reply that is not
  a \<open>FenceRecord\<close>; an exception of the authority is not caught.
\<close>

type_synonym 's fence_current = "string \<Rightarrow> ('s, fence_record option) op"
type_synonym 's fence_acquire =
  "string \<Rightarrow> int \<Rightarrow> string \<Rightarrow> string \<Rightarrow> string \<Rightarrow> ('s, fence_record option) op"

definition admit_fenced_effect :: "'s fence_current \<Rightarrow> fence_token \<Rightarrow> ('s, unit) op" where
  "admit_fenced_effect current k =
     bindS (current (ft_fence_scope_id k)) (\<lambda>reply.
     (case reply of
        None \<Rightarrow> raiseS AdmissionDenied
      | Some r \<Rightarrow>
          thenS (ensureS (fr_authority_state r = effect_eligible_state) AdmissionDenied)
         (thenS (ensureS (ft_fence_scope_id k = fr_fence_scope_id r) AdmissionDenied)
         (thenS (ensureS (ft_fence_epoch k = fr_current_fence_epoch r) AdmissionDenied)
         (ensureS (ft_generation_id k = fr_current_generation_id r) AdmissionDenied)))))"

definition predecessor_of :: "string option \<Rightarrow> fence_record \<Rightarrow> string" where
  "predecessor_of eg old = (case eg of Some g \<Rightarrow> g | None \<Rightarrow> fr_current_generation_id old)"

definition acquire_next_fence ::
  "'s fence_current \<Rightarrow> 's fence_acquire \<Rightarrow> string \<Rightarrow> int \<Rightarrow> string \<Rightarrow> string \<Rightarrow> string option \<Rightarrow>
   ('s, fence_record) op" where
  "acquire_next_fence current acquire scope epoch successor_generation successor_state
     expected_generation =
     thenS (ensureS (is_identifier scope \<and> is_identifier successor_generation \<and>
                     is_identifier successor_state) AdmissionDenied)
     (thenS (ensureS (0 < epoch) AdmissionDenied)
     (thenS (ensureS (epoch < max_signed_bigint) AdmissionDenied)
     (bindS (current scope) (\<lambda>reply.
     (case reply of
        None \<Rightarrow> raiseS AdmissionDenied
      | Some observed \<Rightarrow>
          thenS (ensureS (fr_fence_scope_id observed = scope) AdmissionDenied)
         (thenS (ensureS (fr_authority_state observed = effect_eligible_state) AdmissionDenied)
         (thenS (ensureS (fr_current_fence_epoch observed = epoch) AdmissionDenied)
         (thenS (ensureS (is_identifier (predecessor_of expected_generation observed))
                   AdmissionDenied)
         (thenS (ensureS (fr_current_generation_id observed =
                          predecessor_of expected_generation observed) AdmissionDenied)
         (bindS (acquire scope epoch (predecessor_of expected_generation observed)
                   successor_generation successor_state) (\<lambda>winner.
              (case winner of
                 None \<Rightarrow> raiseS AdmissionDenied
               | Some w \<Rightarrow>
                   thenS (ensureS (fr_fence_scope_id w = scope) AdmissionDenied)
                  (thenS (ensureS (fr_current_fence_epoch w = epoch + 1) AdmissionDenied)
                  (thenS (ensureS (fr_current_generation_id w = successor_generation)
                           AdmissionDenied)
                  (thenS (ensureS (fr_authority_state w = successor_state) AdmissionDenied)
                  (returnS w))))))))))))))))"

section \<open>The contract of the authority\<close>

definition record_of :: "string \<Rightarrow> int \<Rightarrow> string \<Rightarrow> string \<Rightarrow> fence_record" where
  "record_of scope e g st =
     \<lparr>fr_fence_scope_id = scope, fr_current_fence_epoch = e, fr_current_generation_id = g,
      fr_authority_state = st\<rparr>"

lemma record_of_simps [simp]:
  "fr_fence_scope_id (record_of scope e g st) = scope"
  "fr_current_fence_epoch (record_of scope e g st) = e"
  "fr_current_generation_id (record_of scope e g st) = g"
  "fr_authority_state (record_of scope e g st) = st"
  by (simp_all add: record_of_def)

definition token_admitted :: "(string \<Rightarrow> fence_record option) \<Rightarrow> fence_token \<Rightarrow> bool" where
  "token_admitted store k \<longleftrightarrow>
     (\<exists>r. store (ft_fence_scope_id k) = Some r \<and> fr_authority_state r = effect_eligible_state \<and>
        ft_fence_epoch k = fr_current_fence_epoch r \<and>
        ft_generation_id k = fr_current_generation_id r)"

text \<open>One acquisition attempt by any client, whatever its outcome.\<close>

inductive fence_step :: "'s fence_current \<Rightarrow> 's fence_acquire \<Rightarrow> 's \<Rightarrow> 's \<Rightarrow> bool"
  for current acquire where
  fence_attempt: "acquire_next_fence current acquire scope e g st eg s = (r, t) \<Longrightarrow>
     fence_step current acquire s t"

text \<open>Everything \<open>acquire_next_fence\<close> has checked when it asks the authority to advance.\<close>

definition acquire_ready ::
  "string \<Rightarrow> int \<Rightarrow> string \<Rightarrow> string \<Rightarrow> string option \<Rightarrow> fence_record \<Rightarrow> bool" where
  "acquire_ready scope e g' st eg old \<longleftrightarrow>
     is_identifier scope \<and> is_identifier g' \<and> is_identifier st \<and>
     0 < e \<and> e < max_signed_bigint \<and>
     fr_fence_scope_id old = scope \<and> fr_authority_state old = effect_eligible_state \<and>
     fr_current_fence_epoch old = e \<and>
     is_identifier (predecessor_of eg old) \<and>
     fr_current_generation_id old = predecessor_of eg old"

definition check_winner ::
  "fence_record \<Rightarrow> fence_record option res \<times> 's \<Rightarrow> fence_record res \<times> 's" where
  "check_winner expected wt =
     (case wt of
        (Inl x, t) \<Rightarrow> (Inl x, t)
      | (Inr None, t) \<Rightarrow> (Inl AdmissionDenied, t)
      | (Inr (Some z), t) \<Rightarrow> (if z = expected then Inr z else Inl AdmissionDenied, t))"

lemma record_of_eq_iff:
  "z = record_of scope e g st \<longleftrightarrow>
     fr_fence_scope_id z = scope \<and> fr_current_fence_epoch z = e \<and>
     fr_current_generation_id z = g \<and> fr_authority_state z = st"
  by (cases z) (auto simp: record_of_def)

lemma acquire_ready_epoch: "acquire_ready scope e g' st eg old \<Longrightarrow> fr_current_fence_epoch old = e"
  by (simp add: acquire_ready_def)

locale fence_authority =
  fixes current :: "'s fence_current"
    and acquire :: "'s fence_acquire"
    and store :: "'s \<Rightarrow> string \<Rightarrow> fence_record option"
    and finv :: "'s \<Rightarrow> bool"
  assumes current_reads: "current scope s = (Inr (store s scope), s)"
    and store_scope: "finv s \<Longrightarrow> store s scope = Some r \<Longrightarrow> fr_fence_scope_id r = scope"
    and acquire_inv: "finv s \<Longrightarrow> acquire scope e g g' st s = (w, t) \<Longrightarrow> finv t"
    and acquire_cas: "finv s \<Longrightarrow> acquire scope e g g' st s = (w, t) \<Longrightarrow>
          (t = s \<and> (\<forall>r. w \<noteq> Inr (Some r))) \<or>
          (\<exists>old. store s scope = Some old \<and> fr_current_fence_epoch old = e \<and>
             fr_current_generation_id old = g \<and> w = Inr (Some (record_of scope (e + 1) g' st)) \<and>
             store t = (store s)(scope \<mapsto> record_of scope (e + 1) g' st))"
begin

lemma admit_iff:
  "finv s \<Longrightarrow> admit_fenced_effect current k s =
     ((if token_admitted (store s) k then Inr () else Inl AdmissionDenied), s)"
  using store_scope [of s "ft_fence_scope_id k"]
  by (auto simp: admit_fenced_effect_def bindS_apply current_reads token_admitted_def ensure_def
      split: option.split)

lemma acquire_next_eq:
  "acquire_next_fence current acquire scope e g' st eg s =
     (case store s scope of
        None \<Rightarrow> (Inl AdmissionDenied, s)
      | Some old \<Rightarrow>
          if acquire_ready scope e g' st eg old
          then check_winner (record_of scope (e + 1) g' st)
                 (acquire scope e (predecessor_of eg old) g' st s)
          else (Inl AdmissionDenied, s))"
proof (cases "store s scope")
  case None
  then show ?thesis by (simp add: acquire_next_fence_def bindS_apply current_reads)
next
  case (Some old)
  obtain w t where w: "acquire scope e (predecessor_of eg old) g' st s = (w, t)" by fastforce
  then show ?thesis
    using Some
    by (simp add: acquire_next_fence_def bindS_apply current_reads acquire_ready_def
        check_winner_def record_of_eq_iff split: sum.split option.split)
qed

lemma acquire_next_effect:
  assumes inv: "finv s"
    and run: "acquire_next_fence current acquire scope e g' st eg s = (r, t)"
  shows "(t = s \<and> (\<exists>x. r = Inl x)) \<or>
    (\<exists>old. store s scope = Some old \<and> acquire_ready scope e g' st eg old \<and>
       r = Inr (record_of scope (e + 1) g' st) \<and>
       store t = (store s)(scope \<mapsto> record_of scope (e + 1) g' st))"
proof (cases "\<exists>old. store s scope = Some old \<and> acquire_ready scope e g' st eg old")
  case True
  then obtain old where old: "store s scope = Some old" "acquire_ready scope e g' st eg old"
    by blast
  obtain w u where w: "acquire scope e (predecessor_of eg old) g' st s = (w, u)" by fastforce
  have "(r, t) = check_winner (record_of scope (e + 1) g' st) (w, u)"
    using run old by (simp add: acquire_next_eq w)
  with acquire_cas [OF inv w] old show ?thesis
    by (auto simp: check_winner_def split: sum.splits option.splits)
next
  case False
  with run show ?thesis by (auto simp: acquire_next_eq split: option.splits)
qed

lemma step_inv:
  assumes "fence_step current acquire s t" "finv s"
  shows "finv t"
  using assms
proof (induction rule: fence_step.induct)
  case (fence_attempt scope e g st eg s r t)
  show ?case
  proof (cases "\<exists>old. store s scope = Some old \<and> acquire_ready scope e g st eg old")
    case True
    then obtain old where old: "store s scope = Some old" "acquire_ready scope e g st eg old"
      by blast
    obtain w u where w: "acquire scope e (predecessor_of eg old) g st s = (w, u)" by fastforce
    have "t = u"
      using fence_attempt.hyps old
      by (auto simp: acquire_next_eq w check_winner_def split: sum.splits option.splits)
    with acquire_inv [OF fence_attempt.prems w] show ?thesis by simp
  next
    case False
    with fence_attempt show ?thesis by (auto simp: acquire_next_eq split: option.splits)
  qed
qed

lemma run_inv: "(fence_step current acquire)\<^sup>*\<^sup>* s t \<Longrightarrow> finv s \<Longrightarrow> finv t"
  by (induction rule: rtranclp_induct) (auto dest: step_inv)

text \<open>A record is either untouched or superseded by one with a larger epoch.\<close>

lemma step_record:
  assumes "fence_step current acquire s t" "finv s" "store s scope = Some r"
  shows "\<exists>r'. store t scope = Some r' \<and>
    (r' = r \<or> fr_current_fence_epoch r < fr_current_fence_epoch r')"
  using assms
proof (induction rule: fence_step.induct)
  case (fence_attempt sc e g st eg s v t)
  from acquire_next_effect [OF fence_attempt.prems(1) fence_attempt.hyps] fence_attempt.prems(2)
  show ?case by (cases "sc = scope") (auto dest: acquire_ready_epoch)
qed

lemma run_record:
  assumes "(fence_step current acquire)\<^sup>*\<^sup>* s t" "finv s" "store s scope = Some r"
  shows "\<exists>r'. store t scope = Some r' \<and>
    (r' = r \<or> fr_current_fence_epoch r < fr_current_fence_epoch r')"
  using assms
proof (induction rule: rtranclp_induct)
  case (step t u)
  then obtain r' where r': "store t scope = Some r'"
    "r' = r \<or> fr_current_fence_epoch r < fr_current_fence_epoch r'" by blast
  from step_record [OF step.hyps(2) run_inv [OF step.hyps(1) step.prems(1)] r'(1)] r'(2)
  show ?case by auto
qed simp

lemma superseded_token:
  assumes "(fence_step current acquire)\<^sup>*\<^sup>* s t" "finv s"
    "store s (ft_fence_scope_id k) = Some r" "ft_fence_epoch k < fr_current_fence_epoch r"
  shows "\<not> token_admitted (store t) k"
  using run_record [OF assms(1,2,3)] assms(4) by (auto simp: token_admitted_def)

lemma one_holder_per_epoch:
  assumes "(fence_step current acquire)\<^sup>*\<^sup>* s t" "finv s"
    "token_admitted (store s) k" "token_admitted (store t) k'"
    "ft_fence_scope_id k' = ft_fence_scope_id k" "ft_fence_epoch k' = ft_fence_epoch k"
  shows "k' = k"
proof -
  obtain r where r: "store s (ft_fence_scope_id k) = Some r"
    "ft_fence_epoch k = fr_current_fence_epoch r" "ft_generation_id k = fr_current_generation_id r"
    using assms(3) by (auto simp: token_admitted_def)
  obtain r' where r': "store t (ft_fence_scope_id k) = Some r'"
    "ft_fence_epoch k' = fr_current_fence_epoch r'" "ft_generation_id k' = fr_current_generation_id r'"
    using assms(4,5) by (auto simp: token_admitted_def)
  have "r' = r" using run_record [OF assms(1,2) r(1)] r' r(2) assms(6) by simp
  then show ?thesis using r r' assms(5,6) by simp
qed

lemma single_winner:
  assumes win: "acquire_next_fence current acquire scope e g st eg s = (Inr w, t)" and "finv s"
    and run: "(fence_step current acquire)\<^sup>*\<^sup>* t u"
    and other: "acquire_next_fence current acquire scope e g' st' eg' u = (r, v)"
  shows "(\<exists>x. r = Inl x) \<and> v = u"
proof -
  have t: "finv t" using step_inv [OF fence_attempt [OF win]] assms(2) by simp
  have "store t scope = Some (record_of scope (e + 1) g st)"
    using acquire_next_effect [OF assms(2) win] by auto
  from run_record [OF run t this]
  obtain r' where "store u scope = Some r'" "e < fr_current_fence_epoch r'" by auto
  with acquire_next_effect [OF run_inv [OF run t] other] show ?thesis
    by (auto dest: acquire_ready_epoch)
qed

end

section \<open>The in-memory authority of the development server\<close>

text \<open>src/app/auth.py, \<open>InMemoryFenceAuthority\<close>: a dictionary from scopes to records.\<close>

type_synonym fence_store = "(string, fence_record) dict"

definition mem_fence_current :: "fence_store fence_current" where
  "mem_fence_current scope s = (Inr (map_of s scope), s)"

definition mem_fence_acquire :: "fence_store fence_acquire" where
  "mem_fence_acquire scope epoch generation successor_generation successor_state s =
     (case map_of s scope of
        None \<Rightarrow> (Inr None, s)
      | Some c \<Rightarrow>
          if fr_current_fence_epoch c \<noteq> epoch \<or> fr_current_generation_id c \<noteq> generation
          then (Inr None, s)
          else
            (case construct valid_fence_record ValueError
                \<lparr>fr_fence_scope_id = scope,
                 fr_current_fence_epoch = fr_current_fence_epoch c + 1,
                 fr_current_generation_id = successor_generation,
                 fr_authority_state = successor_state\<rparr> of
               Inl e \<Rightarrow> (Inl e, s)
             | Inr w \<Rightarrow> (Inr (Some w), AList.update scope w s)))"

definition mem_fence_bootstrap :: "string \<Rightarrow> string \<Rightarrow> (fence_store, fence_record) op" where
  "mem_fence_bootstrap scope generation s =
     (case construct valid_fence_record ValueError
         \<lparr>fr_fence_scope_id = scope, fr_current_fence_epoch = 1,
          fr_current_generation_id = generation, fr_authority_state = ''active''\<rparr> of
        Inl e \<Rightarrow> (Inl e, s)
      | Inr w \<Rightarrow> (Inr w, AList.update scope w s))"

definition fence_store_inv :: "fence_store \<Rightarrow> bool" where
  "fence_store_inv s \<longleftrightarrow>
     (\<forall>scope r. map_of s scope = Some r \<longrightarrow> fr_fence_scope_id r = scope \<and> valid_fence_record r)"

lemma fence_store_inv_update:
  "fence_store_inv s \<Longrightarrow> fr_fence_scope_id r = scope \<Longrightarrow> valid_fence_record r \<Longrightarrow>
     fence_store_inv (AList.update scope r s)"
  by (auto simp: fence_store_inv_def)

lemma map_of_update_fun: "map_of (AList.update k v d) = (map_of d)(k \<mapsto> v)"
  by (simp add: update_conv')

interpretation mem_fence: fence_authority mem_fence_current mem_fence_acquire map_of fence_store_inv
proof
  fix s scope r e g g' st w t
  show "mem_fence_current scope s = (Inr (map_of s scope), s)" by (simp add: mem_fence_current_def)
  assume inv: "fence_store_inv s"
  show "map_of s scope = Some r \<Longrightarrow> fr_fence_scope_id r = scope"
    using inv by (simp add: fence_store_inv_def)
  assume run: "mem_fence_acquire scope e g g' st s = (w, t)"
  show "fence_store_inv t"
    using run inv
    by (auto simp: mem_fence_acquire_def intro: fence_store_inv_update split: option.splits if_splits)
  show "(t = s \<and> (\<forall>r. w \<noteq> Inr (Some r))) \<or>
      (\<exists>old. map_of s scope = Some old \<and> fr_current_fence_epoch old = e \<and>
         fr_current_generation_id old = g \<and> w = Inr (Some (record_of scope (e + 1) g' st)) \<and>
         map_of t = (map_of s)(scope \<mapsto> record_of scope (e + 1) g' st))"
    using run
    by (auto simp: mem_fence_acquire_def record_of_def map_of_update_fun
        split: option.splits if_splits)
qed

abbreviation mem_fence_run :: "fence_store \<Rightarrow> fence_store \<Rightarrow> bool" where
  "mem_fence_run \<equiv> (fence_step mem_fence_current mem_fence_acquire)\<^sup>*\<^sup>*"

abbreviation mem_acquire_next ::
  "string \<Rightarrow> int \<Rightarrow> string \<Rightarrow> string \<Rightarrow> string option \<Rightarrow> (fence_store, fence_record) op" where
  "mem_acquire_next \<equiv> acquire_next_fence mem_fence_current mem_fence_acquire"

section \<open>Worked fences\<close>

definition sample_fences :: fence_store where
  "sample_fences = [(''f1'', record_of ''f1'' 7 ''g7'' ''active'')]"

definition sample_fences_next :: fence_store where
  "sample_fences_next = [(''f1'', record_of ''f1'' 8 ''g8'' ''active'')]"

lemma sample_fence_identifiers [simp]:
  "is_identifier ''f1''" "is_identifier ''g7''" "is_identifier ''g8''" "is_identifier ''active''"
  by (simp_all add: grammar_eval)

lemma sample_fences_inv: "fence_store_inv sample_fences"
  by (simp add: fence_store_inv_def sample_fences_def valid_fence_record_def valid_epoch_def
      max_signed_bigint_def)

lemma sample_acquire:
  "mem_acquire_next ''f1'' 7 ''g8'' ''active'' None sample_fences =
     (Inr (record_of ''f1'' 8 ''g8'' ''active''), sample_fences_next)"
  by (simp add: mem_fence.acquire_next_eq sample_fences_def acquire_ready_def
      max_signed_bigint_def effect_eligible_state_def predecessor_of_def mem_fence_acquire_def
      valid_fence_record_def valid_epoch_def check_winner_def sample_fences_next_def)

section \<open>Properties\<close>

text \<open>A superseded token is fenced out for ever. Once any client has acquired the
  successor of epoch \<open>e\<close> from the in-memory authority, no effect carrying a token of that
  scope with epoch \<open>e\<close> or earlier is admitted, after any number of further acquisition
  attempts by anyone.\<close>

theorem superseded_token_fenced_out:
  assumes inv: "fence_store_inv s" and win: "mem_acquire_next scope e g st eg s = (Inr w, t)"
    and run: "mem_fence_run t u"
    and k: "ft_fence_scope_id k = scope" "ft_fence_epoch k \<le> e"
  shows "admit_fenced_effect mem_fence_current k u = (Inl AdmissionDenied, u)"
proof -
  have t: "fence_store_inv t" using mem_fence.step_inv [OF fence_attempt [OF win]] inv by simp
  have "map_of t scope = Some (record_of scope (e + 1) g st)"
    using mem_fence.acquire_next_effect [OF inv win] by auto
  then have "\<not> token_admitted (map_of u) k"
    using mem_fence.superseded_token [OF run t] k by fastforce
  with mem_fence.admit_iff [OF mem_fence.run_inv [OF run t]] show ?thesis by simp
qed

theorem superseded_token_fenced_out_witness:
  "fst (admit_fenced_effect mem_fence_current
     \<lparr>ft_fence_scope_id = ''f1'', ft_fence_epoch = 7, ft_generation_id = ''g7''\<rparr>
     sample_fences_next) = Inl AdmissionDenied"
  using superseded_token_fenced_out [OF sample_fences_inv sample_acquire rtranclp.rtrancl_refl]
  by simp

text \<open>One winner per epoch. If a client has acquired the successor of epoch \<open>e\<close>, every
  later attempt of anyone to acquire from the same predecessor epoch raises and leaves
  the authority as it is.\<close>

theorem fence_single_winner:
  assumes "fence_store_inv s" "mem_acquire_next scope e g st eg s = (Inr w, t)"
    "mem_fence_run t u"
  shows "\<exists>x. mem_acquire_next scope e g' st' eg' u = (Inl x, u)"
proof (cases "mem_acquire_next scope e g' st' eg' u")
  case (Pair r v)
  from mem_fence.single_winner [OF assms(2,1,3) Pair] Pair show ?thesis by auto
qed

theorem fence_single_winner_witness:
  "\<exists>x. mem_acquire_next ''f1'' 7 ''g7'' ''active'' None sample_fences_next =
     (Inl x, sample_fences_next)"
  using fence_single_winner [OF sample_fences_inv sample_acquire rtranclp.rtrancl_refl] .

text \<open>Acquisition is an exact compare-and-swap. On a well-formed store it succeeds
  exactly when the scope is held actively at the expected epoch (and generation, when one
  is given), the epoch is not exhausted and the inputs are canonical; it then advances
  that scope by exactly one epoch and nothing else. Otherwise it is denied without a
  change.\<close>

theorem acquire_next_fence_exact:
  assumes inv: "fence_store_inv s"
  shows "if \<exists>old. map_of s scope = Some old \<and> acquire_ready scope e g' st eg old
    then \<exists>t. mem_acquire_next scope e g' st eg s = (Inr (record_of scope (e + 1) g' st), t) \<and>
      map_of t = (map_of s)(scope \<mapsto> record_of scope (e + 1) g' st) \<and> fence_store_inv t
    else mem_acquire_next scope e g' st eg s = (Inl AdmissionDenied, s)"
proof (cases "\<exists>old. map_of s scope = Some old \<and> acquire_ready scope e g' st eg old")
  case True
  then obtain old where old: "map_of s scope = Some old" "acquire_ready scope e g' st eg old"
    by blast
  then have "valid_fence_record (record_of scope (e + 1) g' st)"
    by (simp add: acquire_ready_def valid_fence_record_def valid_epoch_def)
  with old have eq: "mem_acquire_next scope e g' st eg s =
      (Inr (record_of scope (e + 1) g' st), AList.update scope (record_of scope (e + 1) g' st) s)"
    by (simp add: mem_fence.acquire_next_eq mem_fence_acquire_def check_winner_def
        acquire_ready_def record_of_def)
  from mem_fence.step_inv [OF fence_attempt [OF eq] inv]
  show ?thesis using True by (auto simp: eq map_of_update_fun)
next
  case False
  then show ?thesis by (auto simp: mem_fence.acquire_next_eq split: option.split)
qed

theorem acquire_next_fence_exact_witness:
  "fst (mem_acquire_next ''f1'' 8 ''g8'' ''active'' None sample_fences) = Inl AdmissionDenied"
proof -
  have "\<not> (\<exists>old. map_of sample_fences ''f1'' = Some old \<and>
      acquire_ready ''f1'' 8 ''g8'' ''active'' None old)"
    by (simp add: sample_fences_def acquire_ready_def)
  with acquire_next_fence_exact [OF sample_fences_inv, of "''f1''" 8 "''g8''" "''active''" None]
  show ?thesis by simp
qed

section \<open>Bootstrap is not fenced\<close>

text \<open>\<open>bootstrap\<close> of the development authority overwrites whatever the scope holds with
  epoch 1: a token of epoch 1 that a successor had superseded is admitted again.\<close>

theorem bootstrap_revives_token:
  assumes "is_identifier scope" "is_identifier g"
    and "k = \<lparr>ft_fence_scope_id = scope, ft_fence_epoch = 1, ft_generation_id = g\<rparr>"
  shows "\<exists>r t. mem_fence_bootstrap scope g s = (Inr r, t) \<and>
    admit_fenced_effect mem_fence_current k t = (Inr (), t)"
  using assms
  by (simp add: mem_fence_bootstrap_def valid_fence_record_def valid_epoch_def
      max_signed_bigint_def admit_fenced_effect_def bindS_apply mem_fence_current_def
      effect_eligible_state_def ensure_def grammar_eval)

theorem bootstrap_revives_token_witness:
  "\<exists>r t. mem_fence_bootstrap ''f1'' ''g7'' sample_fences_next = (Inr r, t) \<and>
     fst (admit_fenced_effect mem_fence_current
       \<lparr>ft_fence_scope_id = ''f1'', ft_fence_epoch = 1, ft_generation_id = ''g7''\<rparr> t) = Inr ()"
  using bootstrap_revives_token [of "''f1''" "''g7''" _ sample_fences_next] by fastforce

end
