(* ===== verification/Session.thy ===== *)
theory Session
  imports Authority_Model
begin

text \<open>
  src/src/jlmirror_authority/session.py: opaque browser sessions, issued, resolved,
  rotated and retired through the port \<open>SessionAuthorityPort\<close>. The port's contract is a
  locale; the in-memory authority of src/app/auth.py provides it. SHA-256 is the
  parameter \<open>sha\<close> and the values drawn from \<open>secrets\<close> are arguments.
\<close>

section \<open>Handles and records\<close>

definition token_char :: "char \<Rightarrow> bool" where
  "token_char c \<longleftrightarrow> is_alnum c \<or> c \<in> set ''_-''"

text \<open>\<open>_SESSION_HANDLE_RE = ^[A-Za-z0-9_-]{43,128}$\<close>\<close>

definition is_session_handle :: "string \<Rightarrow> bool" where
  "is_session_handle h \<longleftrightarrow> 43 \<le> length h \<and> length h \<le> 128 \<and> list_all token_char h"

definition is_sha256_hex :: "string \<Rightarrow> bool" where
  "is_sha256_hex d \<longleftrightarrow> length d = 64 \<and> list_all (\<lambda>c. is_digit c \<or> code_in 97 102 c) d"

record session_record =
  bs_handle_digest :: string
  bs_principal :: principal
  bs_session_generation :: string
  bs_created_at :: datetime
  bs_expires_at :: datetime
  bs_retired :: bool
  bs_authentication_strength :: "strength_evidence option"

definition valid_session_record :: "session_record \<Rightarrow> bool" where
  "valid_session_record r \<longleftrightarrow>
     is_sha256_hex (bs_handle_digest r) \<and>
     bs_session_generation r \<noteq> [] \<and>
     is_human_kind (pr_kind (bs_principal r)) \<and>
     pr_credential_generation (bs_principal r) = bs_session_generation r \<and>
     (case bs_authentication_strength r of
        None \<Rightarrow> True
      | Some e \<Rightarrow>
          se_principal_id e = Some (pr_principal_id (bs_principal r)) \<and>
          se_principal_credential_generation e = Some (bs_session_generation r)) \<and>
     aware_ordered (bs_created_at r) (bs_expires_at r)"

definition session_is_current :: "session_record \<Rightarrow> datetime \<Rightarrow> bool res" where
  "session_is_current r now =
     (if bs_retired r \<or> \<not> pr_active (bs_principal r) then Inr False
      else window_contains (bs_created_at r) now (bs_expires_at r))"

section \<open>New records\<close>

definition session_generation_of :: "string \<Rightarrow> string" where
  "session_generation_of token = ''session-'' @ token"

definition add_lifetime :: "instant \<Rightarrow> int \<Rightarrow> instant" where
  "add_lifetime t d = At (micros t + d)"

definition rebind_strength :: "string \<Rightarrow> strength_evidence \<Rightarrow> strength_evidence res" where
  "rebind_strength generation e =
     construct valid_strength_evidence ValueError
       (e\<lparr>se_principal_credential_generation := Some generation\<rparr>)"

definition strength_belongs :: "principal \<Rightarrow> strength_evidence option \<Rightarrow> bool" where
  "strength_belongs p so =
     (case so of
        None \<Rightarrow> True
      | Some e \<Rightarrow>
          se_principal_id e = Some (pr_principal_id p) \<and>
          se_principal_credential_generation e = Some (pr_credential_generation p))"

fun rebind_optional :: "string \<Rightarrow> strength_evidence option \<Rightarrow> strength_evidence option res" where
  "rebind_optional generation None = Inr None"
| "rebind_optional generation (Some e) = bindR (rebind_strength generation e) (\<lambda>x. Inr (Some x))"

definition new_session_record ::
  "string \<Rightarrow> string \<Rightarrow> principal \<Rightarrow> datetime \<Rightarrow> int \<Rightarrow> strength_evidence option \<Rightarrow>
   session_record res" where
  "new_session_record digest token p now lifetime strength =
     bindR (aware now) (\<lambda>t.
     bindR (ensure (0 < lifetime) ValueError) (\<lambda>_.
     bindR (ensure (is_human_kind (pr_kind p)) AdmissionDenied) (\<lambda>_.
     bindR (ensure (strength_belongs p strength) AdmissionDenied) (\<lambda>_.
     bindR (construct valid_principal ValueError
              \<lparr>pr_principal_id = pr_principal_id p, pr_kind = pr_kind p,
               pr_credential_generation = session_generation_of token,
               pr_active = pr_active p\<rparr>) (\<lambda>session_principal.
     bindR (rebind_optional (session_generation_of token) strength) (\<lambda>rebound.
     construct valid_session_record ValueError
       \<lparr>bs_handle_digest = digest, bs_principal = session_principal,
        bs_session_generation = session_generation_of token, bs_created_at = Aware t,
        bs_expires_at = Aware (add_lifetime t lifetime), bs_retired = False,
        bs_authentication_strength = rebound\<rparr>))))))"

section \<open>The four operations\<close>

text \<open>
  The port's methods act on the authority's state. A reply of \<open>resolve\<close> that is no
  \<open>BrowserSessionRecord\<close> is \<open>None\<close>; of the others only the literal \<open>True\<close> counts.
\<close>

type_synonym 's session_resolve = "string \<Rightarrow> ('s, session_record option) op"
type_synonym 's session_create = "session_record \<Rightarrow> ('s, bool) op"
type_synonym 's session_rotate = "string \<Rightarrow> string \<Rightarrow> session_record \<Rightarrow> ('s, bool) op"
type_synonym 's session_retire = "string \<Rightarrow> string \<Rightarrow> ('s, bool) op"

definition new_session_handle :: "string \<Rightarrow> string res" where
  "new_session_handle h = construct is_session_handle ValueError h"

text \<open>At most three draws of a handle and a generation token; a collision tries the next.\<close>

fun issue_attempts ::
  "(string \<Rightarrow> string) \<Rightarrow> 's session_create \<Rightarrow> principal \<Rightarrow> datetime \<Rightarrow> int \<Rightarrow>
   strength_evidence option \<Rightarrow> (string \<times> string) list \<Rightarrow> ('s, string) op" where
  "issue_attempts sha create p now lifetime strength [] = raiseS AdmissionDenied"
| "issue_attempts sha create p now lifetime strength ((h, token) # draws) =
     bindS (liftS (new_session_handle h)) (\<lambda>handle.
     bindS (liftS (new_session_record (sha handle) token p now lifetime strength)) (\<lambda>r.
     bindS (create r) (\<lambda>created.
       if created then returnS handle
       else issue_attempts sha create p now lifetime strength draws)))"

definition issue_browser_session ::
  "(string \<Rightarrow> string) \<Rightarrow> 's session_create \<Rightarrow> principal \<Rightarrow> datetime \<Rightarrow> int \<Rightarrow>
   strength_evidence option \<Rightarrow> (string \<times> string) \<times> (string \<times> string) \<times> (string \<times> string) \<Rightarrow>
   ('s, string) op" where
  "issue_browser_session sha create p now lifetime strength draws =
     (case draws of (a, b, c) \<Rightarrow>
        issue_attempts sha create p now lifetime strength [a, b, c])"

definition resolve_browser_session ::
  "(string \<Rightarrow> string) \<Rightarrow> 's session_resolve \<Rightarrow> string \<Rightarrow> datetime \<Rightarrow> ('s, session_record) op" where
  "resolve_browser_session sha resolve handle now =
     bindS (resolve (sha handle)) (\<lambda>reply.
     (case reply of
        None \<Rightarrow> raiseS AdmissionDenied
      | Some r \<Rightarrow>
          thenS (ensureS (bs_handle_digest r = sha handle) AdmissionDenied)
         (bindS (liftS (session_is_current r now)) (\<lambda>current.
          thenS (ensureS current AdmissionDenied) (returnS r)))))"

text \<open>
  What the successor session is built from: the current principal and the given or current
  strength, or a reauthenticated principal of the same subject with only the given strength.
\<close>

definition rotation_source ::
  "session_record \<Rightarrow> strength_evidence option \<Rightarrow> principal option \<Rightarrow>
   (principal \<times> strength_evidence option) res" where
  "rotation_source current strength reauthenticated =
     (case reauthenticated of
        None \<Rightarrow>
          Inr (bs_principal current,
               case strength of Some e \<Rightarrow> Some e | None \<Rightarrow> bs_authentication_strength current)
      | Some p \<Rightarrow>
          bindR (ensure (pr_active p) AdmissionDenied) (\<lambda>_.
          bindR (ensure (pr_principal_id p = pr_principal_id (bs_principal current) \<and>
                         pr_kind p = pr_kind (bs_principal current)) AdmissionDenied) (\<lambda>_.
          bindR (ensure (strength_belongs p strength) AdmissionDenied) (\<lambda>_.
          Inr (p, strength)))))"

definition rotate_browser_session ::
  "(string \<Rightarrow> string) \<Rightarrow> 's session_resolve \<Rightarrow> 's session_rotate \<Rightarrow> string \<Rightarrow> datetime \<Rightarrow> int \<Rightarrow>
   strength_evidence option \<Rightarrow> principal option \<Rightarrow> string \<times> string \<Rightarrow> ('s, string) op" where
  "rotate_browser_session sha resolve swap predecessor now lifetime strength reauthenticated
     draw =
     bindS (resolve_browser_session sha resolve predecessor now) (\<lambda>current.
     bindS (liftS (rotation_source current strength reauthenticated)) (\<lambda>source.
     bindS (liftS (new_session_handle (fst draw))) (\<lambda>successor_handle.
     bindS (liftS (new_session_record (sha successor_handle) (snd draw) (fst source) now lifetime
              (snd source))) (\<lambda>successor.
     bindS (swap (sha predecessor) (bs_session_generation current) successor) (\<lambda>won.
     thenS (ensureS won AdmissionDenied) (returnS successor_handle))))))"

definition retire_browser_session ::
  "(string \<Rightarrow> string) \<Rightarrow> 's session_resolve \<Rightarrow> 's session_retire \<Rightarrow> string \<Rightarrow> datetime \<Rightarrow>
   ('s, unit) op" where
  "retire_browser_session sha resolve retire handle now =
     bindS (resolve_browser_session sha resolve handle now) (\<lambda>current.
     bindS (retire (sha handle) (bs_session_generation current)) (\<lambda>won.
     ensureS won AdmissionDenied))"

section \<open>Facts about new records\<close>

lemma rebind_optional_Inr:
  "rebind_optional g strength = Inr rebound \<longleftrightarrow>
     rebound = map_option (\<lambda>e. e\<lparr>se_principal_credential_generation := Some g\<rparr>) strength \<and>
     (\<forall>e. strength = Some e \<longrightarrow>
        valid_strength_evidence (e\<lparr>se_principal_credential_generation := Some g\<rparr>))"
  by (cases strength) (auto simp: rebind_strength_def res_simps)

lemma new_session_record_Inr:
  assumes "new_session_record digest token p now lifetime strength = Inr r"
  shows "valid_session_record r \<and> bs_handle_digest r = digest \<and>
    pr_principal_id (bs_principal r) = pr_principal_id p \<and>
    pr_kind (bs_principal r) = pr_kind p \<and> pr_active (bs_principal r) = pr_active p \<and>
    bs_session_generation r = session_generation_of token \<and> \<not> bs_retired r \<and>
    strength_belongs p strength \<and>
    (\<exists>t. now = Aware t \<and> bs_created_at r = Aware t \<and>
       bs_expires_at r = Aware (add_lifetime t lifetime)) \<and> 0 < lifetime \<and>
    bs_authentication_strength r =
      map_option (\<lambda>e. e\<lparr>se_principal_credential_generation :=
        Some (session_generation_of token)\<rparr>) strength"
  using assms
  by (auto simp: new_session_record_def res_simps rebind_optional_Inr)

lemma new_session_record_current:
  assumes "new_session_record digest token p now lifetime strength = Inr r" "pr_active p"
  shows "session_is_current r now = Inr True"
  using new_session_record_Inr [OF assms(1)] assms(2)
  by (auto simp: session_is_current_def window_contains_def add_lifetime_def less_instant_def)

section \<open>The contract of the authority\<close>

text \<open>Rotation replaces the predecessor by the successor; retirement marks the record.\<close>

definition retired_copy :: "session_record \<Rightarrow> session_record" where
  "retired_copy r = r\<lparr>bs_retired := True\<rparr>"

text \<open>
  One call by any client. Every handle it draws hashes to something other than \<open>d\<close>: the
  draws of \<open>secrets.token_urlsafe(48)\<close> do not collide with the session under \<open>d\<close>.
\<close>

inductive session_step ::
  "(string \<Rightarrow> string) \<Rightarrow> 's session_resolve \<Rightarrow> 's session_create \<Rightarrow> 's session_rotate \<Rightarrow>
   's session_retire \<Rightarrow> string \<Rightarrow> 's \<Rightarrow> 's \<Rightarrow> bool"
  for sha resolve create swap retire d where
  s_issue: "issue_attempts sha create p now lifetime strength draws s = (h, t) \<Longrightarrow>
     \<forall>(x, y)\<in>set draws. sha x \<noteq> d \<Longrightarrow> session_step sha resolve create swap retire d s t"
| s_rotate: "rotate_browser_session sha resolve swap h now lifetime strength re draw s = (h', t) \<Longrightarrow>
     sha (fst draw) \<noteq> d \<Longrightarrow> session_step sha resolve create swap retire d s t"
| s_retire: "retire_browser_session sha resolve retire h now s = (u, t) \<Longrightarrow>
     session_step sha resolve create swap retire d s t"

definition ended_at :: "(string \<Rightarrow> session_record option) \<Rightarrow> string \<Rightarrow> bool" where
  "ended_at store d \<longleftrightarrow> (\<forall>r. store d = Some r \<longrightarrow> bs_retired r)"

locale session_registry =
  fixes resolve :: "'s session_resolve"
    and create :: "'s session_create"
    and retire :: "'s session_retire"
    and store :: "'s \<Rightarrow> string \<Rightarrow> session_record option"
  assumes resolve_reads: "resolve d s = (Inr (store s d), s)"
    and create_effect: "create r s = (Inr b, t) \<Longrightarrow>
          (if b then store s (bs_handle_digest r) = None \<and>
                store t = (store s)(bs_handle_digest r \<mapsto> r) else t = s)"
    and raise_effect: "create r s = (Inl e, t) \<Longrightarrow> t = s" "retire d g s = (Inl e, t) \<Longrightarrow> t = s"
    and retire_effect: "retire d g s = (Inr b, t) \<Longrightarrow>
          (if b then (\<exists>c. store s d = Some c \<and> bs_session_generation c = g \<and>
                store t = (store s)(d \<mapsto> retired_copy c)) else t = s)"
begin

lemma resolve_iff:
  "resolve_browser_session sha resolve h now s = (Inr r, t) \<longleftrightarrow>
     t = s \<and> store s (sha h) = Some r \<and> bs_handle_digest r = sha h \<and>
     session_is_current r now = Inr True"
  by (auto simp: resolve_browser_session_def bindS_apply resolve_reads
      split: option.splits sum.splits if_splits)

lemma resolve_absent:
  "store s (sha h) = None \<Longrightarrow>
     resolve_browser_session sha resolve h now s = (Inl AdmissionDenied, s)"
  by (simp add: resolve_browser_session_def bindS_apply resolve_reads)

lemma resolve_retired:
  "store s (sha h) = Some r \<Longrightarrow> bs_retired r \<Longrightarrow>
     resolve_browser_session sha resolve h now s = (Inl AdmissionDenied, s)"
  by (simp add: resolve_browser_session_def bindS_apply resolve_reads session_is_current_def)

lemma retire_Inr:
  assumes "retire_browser_session sha resolve retire h now s = (Inr u, t)"
  shows "\<exists>current. store s (sha h) = Some current \<and>
    store t = (store s)(sha h \<mapsto> retired_copy current)"
proof -
  obtain current where c: "store s (sha h) = Some current"
    and r: "retire (sha h) (bs_session_generation current) s = (Inr True, t)"
    using assms unfolding retire_browser_session_def
    by (auto simp: res_simps resolve_iff)
  from retire_effect [OF r] c show ?thesis by auto
qed

lemma ended_refused:
  "ended_at (store s) (sha h) \<Longrightarrow> resolve_browser_session sha resolve h now s = (Inl AdmissionDenied, s)"
  unfolding ended_at_def by (cases "store s (sha h)") (auto intro: resolve_absent resolve_retired)

lemma ended_issue:
  "issue_attempts sha create p now lifetime strength draws s = (r, t) \<Longrightarrow>
   \<forall>(x, y)\<in>set draws. sha x \<noteq> d \<Longrightarrow> ended_at (store s) d \<Longrightarrow> ended_at (store t) d"
proof (induction draws arbitrary: s)
  case (Cons a draws)
  obtain h token where a: "a = (h, token)" by fastforce
  show ?case
  proof (cases "is_session_handle h \<and> (\<exists>x. new_session_record (sha h) token p now lifetime strength = Inr x)")
    case True
    then obtain x where x: "new_session_record (sha h) token p now lifetime strength = Inr x"
      and h: "new_session_handle h = Inr h"
      by (auto simp: new_session_handle_def construct_def)
    then have digest: "bs_handle_digest x \<noteq> d"
      using new_session_record_Inr [OF x] Cons.prems(2) a by auto
    obtain b u where u: "create x s = (b, u)" by fastforce
    have "ended_at (store u) d"
    proof (cases b)
      case (Inl e)
      with u raise_effect(1) Cons.prems(3) show ?thesis by blast
    next
      case (Inr c)
      with u have "create x s = (Inr c, u)" by simp
      from create_effect [OF this] Cons.prems(3) digest show ?thesis
        by (cases c) (auto simp: ended_at_def)
    qed
    moreover have "t = u \<or> issue_attempts sha create p now lifetime strength draws u = (r, t)"
      using Cons.prems(1) by (simp add: a bindS_apply h x u split: sum.splits if_splits)
    ultimately show ?thesis using Cons.IH [of u] Cons.prems(2) by auto
  next
    case False
    then have "t = s"
      using Cons.prems(1)
      by (auto simp: a bindS_apply new_session_handle_def construct_def split: if_splits sum.splits)
    with Cons.prems(3) show ?thesis by simp
  qed
qed simp

text \<open>An issued handle is that of the record stored for it.\<close>

lemma issue_returns:
  "issue_attempts sha create p now lifetime strength draws s = (Inr h, t) \<Longrightarrow>
   is_session_handle h \<and>
   (\<exists>token r. new_session_record (sha h) token p now lifetime strength = Inr r \<and> store t (sha h) = Some r)"
proof (induction draws arbitrary: s)
  case (Cons a draws)
  obtain x token where a: "a = (x, token)" by fastforce
  from Cons.prems obtain r c u where x: "is_session_handle x"
    "new_session_record (sha x) token p now lifetime strength = Inr r" "create r s = (Inr c, u)"
    and rest: "(if c then returnS x else issue_attempts sha create p now lifetime strength draws) u = (Inr h, t)"
    by (auto simp: a sequence_returns liftS_returns_iff new_session_handle_def construct_Inr_iff)
  show ?case
  proof (cases c)
    case True
    then have "store t (sha x) = Some r"
      using create_effect [OF x(3)] new_session_record_Inr [OF x(2)] rest by simp
    then show ?thesis using x rest True by auto
  next
    case False
    then show ?thesis using Cons.IH [of u] rest by simp
  qed
qed simp

lemma resolve_state: "resolve_browser_session sha resolve h now s = (r, t) \<Longrightarrow> t = s"
  by (auto simp: resolve_browser_session_def bindS_apply resolve_reads
      split: option.splits sum.splits if_splits)

lemma retire_Inl:
  assumes "retire_browser_session sha resolve retire h now s = (Inl e, t)"
  shows "t = s"
proof -
  have "b = False \<and> t = s" if "retire d g s = (Inr b, t)" "\<not> b" for d g b
    using that retire_effect [OF that(1)] by simp
  then show ?thesis
    using assms unfolding retire_browser_session_def
    by (auto simp: bindS_raises_iff ensure_def dest!: resolve_state raise_effect(2)
        split: sum.splits if_splits)
qed

end

text \<open>An authority that also rotates: the successor takes the place of the predecessor.\<close>

locale session_authority = session_registry resolve create retire store
  for resolve :: "'s session_resolve"
    and create :: "'s session_create"
    and swap :: "'s session_rotate"
    and retire :: "'s session_retire"
    and store :: "'s \<Rightarrow> string \<Rightarrow> session_record option" +
  assumes rotate_effect: "swap d g r s = (Inr b, t) \<Longrightarrow>
          (if b then (\<exists>c. store s d = Some c \<and> bs_session_generation c = g) \<and>
                store t = ((store s)(d := None))(bs_handle_digest r \<mapsto> r) else t = s)"
    and rotate_raise: "swap d g r s = (Inl e, t) \<Longrightarrow> t = s"
    and rotate_wins: "store s d = Some c \<Longrightarrow> \<exists>t. swap d (bs_session_generation c) r s = (Inr True, t)"
begin

lemma rotate_Inr:
  assumes "rotate_browser_session sha resolve swap h now lifetime strength re draw s = (Inr h', t)"
  obtains current src r where
    "store s (sha h) = Some current" "bs_handle_digest current = sha h"
    "session_is_current current now = Inr True"
    "rotation_source current strength re = Inr src" "h' = fst draw" "is_session_handle h'"
    "new_session_record (sha h') (snd draw) (fst src) now lifetime (snd src) = Inr r"
    "store t = ((store s)(sha h := None))(sha h' \<mapsto> r)"
proof -
  obtain current src r where c: "resolve_browser_session sha resolve h now s = (Inr current, s)"
    and rest: "rotation_source current strength re = Inr src" "h' = fst draw" "is_session_handle h'"
    "new_session_record (sha h') (snd draw) (fst src) now lifetime (snd src) = Inr r"
    and rot: "swap (sha h) (bs_session_generation current) r s = (Inr True, t)"
    using assms unfolding rotate_browser_session_def thenS_apply new_session_handle_def
    by (auto simp: res_simps resolve_iff split: if_splits sum.splits)
  have "store t = ((store s)(sha h := None))(sha h' \<mapsto> r)"
    using rotate_effect [OF rot] new_session_record_Inr [OF rest(4)] by simp
  with c rest show ?thesis using that by (simp add: resolve_iff)
qed

lemma rotate_Inl:
  assumes "rotate_browser_session sha resolve swap h now lifetime strength re draw s = (Inl e, t)"
  shows "t = s"
proof -
  have "b = False \<and> t = s" if "swap d g r s = (Inr b, t)" "\<not> b" for d g r b
    using that rotate_effect [OF that(1)] by simp
  then show ?thesis
    using assms unfolding rotate_browser_session_def thenS_apply
    by (auto simp: bindS_raises_iff ensure_def dest!: resolve_state rotate_raise
        split: sum.splits if_splits)
qed

lemma ended_step:
  "session_step sha resolve create swap retire d s t \<Longrightarrow> ended_at (store s) d \<Longrightarrow>
     ended_at (store t) d"
proof (induction rule: session_step.induct)
  case (s_issue p now lifetime strength draws s h t)
  then show ?case using ended_issue by blast
next
  case (s_rotate h now lifetime strength re draw s h' t)
  show ?case
  proof (cases h')
    case (Inl e)
    with s_rotate rotate_Inl show ?thesis by blast
  next
    case (Inr k)
    with s_rotate.hyps(1)
    have "rotate_browser_session sha resolve swap h now lifetime strength re draw s = (Inr k, t)"
      by simp
    then show ?thesis
      by (rule rotate_Inr) (use s_rotate in \<open>auto simp: ended_at_def\<close>)
  qed
next
  case (s_retire h now s u t)
  show ?case
  proof (cases u)
    case (Inl e)
    with s_retire retire_Inl show ?thesis by blast
  next
    case (Inr k)
    with s_retire.hyps
    have "retire_browser_session sha resolve retire h now s = (Inr k, t)" by simp
    from retire_Inr [OF this] s_retire.prems show ?thesis
      by (auto simp: ended_at_def retired_copy_def split: if_splits)
  qed
qed

lemma ended_run:
  "(session_step sha resolve create swap retire d)\<^sup>*\<^sup>* s t \<Longrightarrow> ended_at (store s) d \<Longrightarrow>
     ended_at (store t) d"
  by (induction rule: rtranclp_induct) (auto intro: ended_step)

end

section \<open>The in-memory authority of the development server\<close>

text \<open>src/app/auth.py, \<open>InMemorySessionAuthority\<close>: a dictionary from digests to records.\<close>

type_synonym session_store = "(string, session_record) dict"

definition mem_session_create :: "session_store session_create" where
  "mem_session_create r s =
     (case map_of s (bs_handle_digest r) of
        Some _ \<Rightarrow> (Inr False, s)
      | None \<Rightarrow> (Inr True, AList.update (bs_handle_digest r) r s))"

definition mem_session_resolve :: "session_store session_resolve" where
  "mem_session_resolve d s = (Inr (map_of s d), s)"

definition mem_session_rotate :: "session_store session_rotate" where
  "mem_session_rotate d generation successor s =
     (case map_of s d of
        None \<Rightarrow> (Inr False, s)
      | Some c \<Rightarrow>
          if bs_session_generation c \<noteq> generation then (Inr False, s)
          else (Inr True, AList.update (bs_handle_digest successor) successor (AList.delete d s)))"

definition mem_session_retire :: "session_store session_retire" where
  "mem_session_retire d generation s =
     (case map_of s d of
        None \<Rightarrow> (Inr False, s)
      | Some c \<Rightarrow>
          if bs_session_generation c \<noteq> generation then (Inr False, s)
          else
            (case construct valid_session_record ValueError (c\<lparr>bs_retired := True\<rparr>) of
               Inl e \<Rightarrow> (Inl e, s)
             | Inr r \<Rightarrow> (Inr True, AList.update d r s)))"

interpretation mem_session: session_authority mem_session_resolve mem_session_create
  mem_session_rotate mem_session_retire map_of
proof
  fix s t d g r b c e
  show "mem_session_resolve d s = (Inr (map_of s d), s)" by (simp add: mem_session_resolve_def)
  show "mem_session_create r s = (Inr b, t) \<Longrightarrow>
      (if b then map_of s (bs_handle_digest r) = None \<and>
         map_of t = (map_of s)(bs_handle_digest r \<mapsto> r) else t = s)"
    by (auto simp: mem_session_create_def update_conv' split: option.splits)
  show "mem_session_rotate d g r s = (Inr b, t) \<Longrightarrow>
      (if b then (\<exists>c. map_of s d = Some c \<and> bs_session_generation c = g) \<and>
         map_of t = ((map_of s)(d := None))(bs_handle_digest r \<mapsto> r) else t = s)"
    by (auto simp: mem_session_rotate_def update_conv' delete_conv' split: option.splits if_splits)
  show "mem_session_create r s = (Inl e, t) \<Longrightarrow> t = s"
    by (auto simp: mem_session_create_def split: option.splits)
  show "mem_session_rotate d g r s = (Inl e, t) \<Longrightarrow> t = s"
    by (auto simp: mem_session_rotate_def split: option.splits if_splits)
  show "mem_session_retire d g s = (Inl e, t) \<Longrightarrow> t = s"
    by (auto simp: mem_session_retire_def split: option.splits if_splits)
  show "map_of s d = Some c \<Longrightarrow>
      \<exists>t. mem_session_rotate d (bs_session_generation c) r s = (Inr True, t)"
    by (simp add: mem_session_rotate_def)
  show "mem_session_retire d g s = (Inr b, t) \<Longrightarrow>
      (if b then (\<exists>c. map_of s d = Some c \<and> bs_session_generation c = g \<and>
         map_of t = (map_of s)(d \<mapsto> retired_copy c)) else t = s)"
    by (auto simp: mem_session_retire_def retired_copy_def update_conv'
        split: option.splits if_splits)
qed

abbreviation mem_rotate_session ::
  "(string \<Rightarrow> string) \<Rightarrow> string \<Rightarrow> datetime \<Rightarrow> int \<Rightarrow> strength_evidence option \<Rightarrow> principal option \<Rightarrow>
   string \<times> string \<Rightarrow> (session_store, string) op" where
  "mem_rotate_session sha \<equiv> rotate_browser_session sha mem_session_resolve mem_session_rotate"

abbreviation mem_resolve_session ::
  "(string \<Rightarrow> string) \<Rightarrow> string \<Rightarrow> datetime \<Rightarrow> (session_store, session_record) op" where
  "mem_resolve_session sha \<equiv> resolve_browser_session sha mem_session_resolve"

abbreviation mem_session_run :: "(string \<Rightarrow> string) \<Rightarrow> string \<Rightarrow> session_store \<Rightarrow> session_store \<Rightarrow> bool" where
  "mem_session_run sha d \<equiv>
     (session_step sha mem_session_resolve mem_session_create mem_session_rotate
       mem_session_retire d)\<^sup>*\<^sup>*"

section \<open>Worked sessions\<close>

definition sample_hash :: "string \<Rightarrow> string" where
  "sample_hash s = replicate 64 (if s = replicate 43 CHR ''a'' then CHR ''a'' else CHR ''b'')"

definition sample_handle :: string where
  "sample_handle = replicate 43 (CHR ''a'')"

definition sample_next_handle :: string where
  "sample_next_handle = replicate 43 (CHR ''c'')"

definition sample_session_principal :: principal where
  "sample_session_principal =
     \<lparr>pr_principal_id = ''u1'', pr_kind = HumanBrowserSession,
      pr_credential_generation = ''session-t1'', pr_active = True\<rparr>"

definition sample_session :: session_record where
  "sample_session =
     \<lparr>bs_handle_digest = sample_hash sample_handle, bs_principal = sample_session_principal,
      bs_session_generation = ''session-t1'', bs_created_at = Aware (At 0),
      bs_expires_at = Aware (At 10), bs_retired = False, bs_authentication_strength = None\<rparr>"

definition sample_successor :: session_record where
  "sample_successor =
     \<lparr>bs_handle_digest = sample_hash sample_next_handle,
      bs_principal = sample_session_principal\<lparr>pr_credential_generation := ''session-t2''\<rparr>,
      bs_session_generation = ''session-t2'', bs_created_at = Aware (At 5),
      bs_expires_at = Aware (At 25), bs_retired = False, bs_authentication_strength = None\<rparr>"

definition sample_sessions :: session_store where
  "sample_sessions = [(sample_hash sample_handle, sample_session)]"

definition sample_sessions_next :: session_store where
  "sample_sessions_next = [(sample_hash sample_next_handle, sample_successor)]"

lemma sample_hash_distinct [simp]:
  "sample_hash sample_next_handle \<noteq> sample_hash sample_handle"
  "sample_hash sample_handle \<noteq> sample_hash sample_next_handle"
  by (simp_all add: sample_hash_def sample_handle_def sample_next_handle_def)

lemma sample_hash_hex: "is_sha256_hex (sample_hash s)"
  by (simp add: sample_hash_def is_sha256_hex_def char_class_defs list_all_iff)

lemma sample_new_record:
  "new_session_record (sample_hash sample_next_handle) ''t2'' sample_session_principal
     (Aware (At 5)) 20 None = Inr sample_successor"
  using sample_hash_hex
  by (simp add: new_session_record_def sample_session_principal_def is_human_kind_def
      strength_belongs_def construct_def valid_principal_def session_generation_of_def
      add_lifetime_def valid_session_record_def aware_ordered_def sample_successor_def grammar_eval)

lemma sample_rotate:
  "mem_rotate_session sample_hash sample_handle (Aware (At 5)) 20 None None
     (sample_next_handle, ''t2'') sample_sessions = (Inr sample_next_handle, sample_sessions_next)"
proof -
  have "mem_resolve_session sample_hash sample_handle (Aware (At 5)) sample_sessions =
      (Inr sample_session, sample_sessions)"
    by (simp add: mem_session.resolve_iff sample_sessions_def sample_session_def
        session_is_current_def sample_session_principal_def window_contains_def)
  moreover have "rotation_source sample_session None None = Inr (sample_session_principal, None)"
    by (simp add: rotation_source_def sample_session_def)
  moreover have "new_session_handle sample_next_handle = Inr sample_next_handle"
    by (simp add: new_session_handle_def construct_def is_session_handle_def
        sample_next_handle_def token_char_def char_class_defs list_all_iff)
  moreover have "mem_session_rotate (sample_hash sample_handle) (bs_session_generation sample_session)
      sample_successor sample_sessions = (Inr True, sample_sessions_next)"
    by (simp add: mem_session_rotate_def sample_sessions_def sample_sessions_next_def)
      (simp add: sample_successor_def)
  ultimately show ?thesis
    by (simp add: rotate_browser_session_def bindS_apply sample_new_record)
qed

section \<open>Properties\<close>

text \<open>A rotated or retired session is over. Once a handle was rotated (to a handle with
  another digest) or retired, it is denied at every later time after any further calls by
  any clients, as long as no drawn handle collides with its digest.\<close>

theorem ended_session_stays_ended:
  assumes "(\<exists>now lifetime strength re draw h'.
      mem_rotate_session sha h now lifetime strength re draw s = (Inr h', t) \<and> sha h' \<noteq> sha h) \<or>
    (\<exists>now. retire_browser_session sha mem_session_resolve mem_session_retire h now s = (Inr (), t))"
    and run: "mem_session_run sha (sha h) t u"
  shows "mem_resolve_session sha h later u = (Inl AdmissionDenied, u)"
proof -
  have "ended_at (map_of t) (sha h)"
    using assms(1)
  proof (elim disjE exE conjE)
    fix now lifetime strength re draw h'
    assume rot: "mem_rotate_session sha h now lifetime strength re draw s = (Inr h', t)"
      and "sha h' \<noteq> sha h"
    then show ?thesis by (auto simp: ended_at_def elim: mem_session.rotate_Inr)
  next
    fix now
    assume "retire_browser_session sha mem_session_resolve mem_session_retire h now s = (Inr (), t)"
    from mem_session.retire_Inr [OF this] show ?thesis
      by (auto simp: ended_at_def retired_copy_def)
  qed
  then have "ended_at (map_of u) (sha h)" by (rule mem_session.ended_run [OF run])
  then show ?thesis by (rule mem_session.ended_refused)
qed

theorem ended_session_stays_ended_witness:
  "mem_resolve_session sample_hash sample_handle (Aware (At 6)) sample_sessions_next =
     (Inl AdmissionDenied, sample_sessions_next)"
  using ended_session_stays_ended [OF disjI1 rtranclp.rtrancl_refl, of sample_hash sample_handle
      sample_sessions sample_sessions_next] sample_rotate sample_hash_distinct by blast

text \<open>Rotation keeps the subject and never launders assurance. After a successful
  rotation the new handle resolves at once to a session of the same principal and kind
  under a fresh generation. Its authentication strength, if any, belongs to that principal
  and generation, and after a reauthentication it is exactly the evidence that was
  supplied with it, never the one of the old session.\<close>

theorem rotation_keeps_subject:
  assumes rot: "mem_rotate_session sha h now lifetime strength re draw s = (Inr h', t)"
  shows "\<exists>old new. map_of s (sha h) = Some old \<and>
    mem_resolve_session sha h' now t = (Inr new, t) \<and>
    pr_principal_id (bs_principal new) = pr_principal_id (bs_principal old) \<and>
    pr_kind (bs_principal new) = pr_kind (bs_principal old) \<and>
    bs_session_generation new = session_generation_of (snd draw) \<and>
    strength_belongs (bs_principal new) (bs_authentication_strength new) \<and>
    (re \<noteq> None \<longrightarrow> bs_authentication_strength new =
       map_option (\<lambda>e. e\<lparr>se_principal_credential_generation :=
         Some (session_generation_of (snd draw))\<rparr>) strength)"
proof -
  obtain old src r where old: "map_of s (sha h) = Some old" "session_is_current old now = Inr True"
    and src: "rotation_source old strength re = Inr src"
    and r: "new_session_record (sha h') (snd draw) (fst src) now lifetime (snd src) = Inr r"
    and t: "map_of t = ((map_of s)(sha h := None))(sha h' \<mapsto> r)"
    using mem_session.rotate_Inr [OF rot] by metis
  have active: "pr_active (bs_principal old)" using old(2) by (simp add: session_is_current_def split: if_splits)
  then have p: "pr_active (fst src)" "pr_principal_id (fst src) = pr_principal_id (bs_principal old)"
    "pr_kind (fst src) = pr_kind (bs_principal old)" "re \<noteq> None \<longrightarrow> snd src = strength"
    using src by (auto simp: rotation_source_def res_simps split: option.splits)
  note facts = new_session_record_Inr [OF r]
  have "strength_belongs (bs_principal r) (bs_authentication_strength r)"
    using facts by (auto simp: valid_session_record_def strength_belongs_def split: option.splits)
  moreover have "mem_resolve_session sha h' now t = (Inr r, t)"
    using facts t new_session_record_current [OF r p(1)] by (simp add: mem_session.resolve_iff)
  ultimately show ?thesis using old(1) facts p by auto
qed

theorem rotation_keeps_subject_witness:
  "\<exists>new. mem_resolve_session sample_hash sample_next_handle (Aware (At 5)) sample_sessions_next =
     (Inr new, sample_sessions_next) \<and> pr_principal_id (bs_principal new) = ''u1''"
proof -
  have "map_of sample_sessions (sample_hash sample_handle) = Some sample_session"
    by (simp add: sample_sessions_def)
  then show ?thesis
    using rotation_keeps_subject [OF sample_rotate]
    by (auto simp: sample_session_def sample_session_principal_def)
qed

end
