(* ===== verification/Machine.thy ===== *)
theory Machine
  imports Authority_Model
begin

text \<open>
  src/src/jlmirror_authority/machine.py: authentication of one machine assertion. The
  verifier is a function to replies (its exceptions are not caught) and the replay
  authority an operation on its own state; both are parameters.
\<close>

datatype replay_claim = ClaimClaimed | AlreadyUsed | AuthorityUnavailable | ContinuityUnproven

record machine_assertion =
  ma_client_principal :: string
  ma_jti :: string
  ma_audience :: string
  ma_issued_at :: datetime
  ma_not_before :: datetime
  ma_expires_at :: datetime
  ma_key_generation :: string
  ma_replay_generation :: string

definition max_machine_jti_bytes :: nat where
  "max_machine_jti_bytes = 512"

text \<open>The length of \<open>s.encode("utf-8")\<close>.\<close>

definition utf8_length :: "string \<Rightarrow> nat" where
  "utf8_length s = (\<Sum>c\<leftarrow>s. if code_in 0 127 c then 1 else 2)"

type_synonym machine_verifier = "string \<Rightarrow> string \<Rightarrow> machine_assertion reply"
type_synonym 's replay_authority =
  "string \<Rightarrow> string \<Rightarrow> instant \<Rightarrow> string \<Rightarrow> ('s, replay_claim) op"

definition verify_assertion ::
  "machine_verifier \<Rightarrow> string \<Rightarrow> string \<Rightarrow> machine_assertion res" where
  "verify_assertion verifier compact expected =
     (case verifier compact expected of
        Raised e \<Rightarrow> Inl e
      | Malformed \<Rightarrow> Inl AdmissionDenied
      | Returned v \<Rightarrow> Inr v)"

text \<open>\<open>try: _utc(value) / except ValueError: raise AdmissionDenied\<close>\<close>

definition aware_or_denied :: "datetime \<Rightarrow> instant res" where
  "aware_or_denied d = rethrow (\<lambda>e. e = ValueError) AdmissionDenied (aware d)"

lemma aware_or_denied_Inr [res_simps]: "aware_or_denied d = Inr t \<longleftrightarrow> d = Aware t"
  by (simp add: aware_or_denied_def res_simps)

lemma aware_or_denied_Inl: "aware_or_denied d = Inl e \<Longrightarrow> e = AdmissionDenied"
  by (cases d) (auto simp: aware_or_denied_def)

definition jti_ok :: "string \<Rightarrow> bool" where
  "jti_ok j \<longleftrightarrow>
     j \<noteq> [] \<and> utf8_length j \<le> max_machine_jti_bytes \<and> list_all (\<lambda>c. \<not> is_control c) j"

text \<open>The bindings of the verified claims to the expected and current values.\<close>

definition assertion_bound ::
  "machine_assertion \<Rightarrow> string \<Rightarrow> string \<Rightarrow> string \<Rightarrow> string \<Rightarrow> bool" where
  "assertion_bound v client audience key replay \<longleftrightarrow>
     is_identifier (ma_client_principal v) \<and> is_explicit (ma_audience v) \<and>
     is_identifier (ma_key_generation v) \<and> is_identifier (ma_replay_generation v) \<and>
     ma_client_principal v = client \<and> ma_audience v = audience \<and>
     ma_key_generation v = key \<and> ma_replay_generation v = replay"

definition assertion_timely :: "instant \<Rightarrow> instant \<Rightarrow> instant \<Rightarrow> instant \<Rightarrow> int \<Rightarrow> bool" where
  "assertion_timely issued start until now lifetime \<longleftrightarrow>
     \<not> (until \<le> start \<or> until \<le> issued) \<and>
     micros until - micros issued \<le> lifetime \<and>
     start \<le> now \<and> now < until \<and> issued \<le> now"

definition machine_principal :: "machine_assertion \<Rightarrow> principal" where
  "machine_principal v =
     \<lparr>pr_principal_id = ma_client_principal v, pr_kind = MachineApiPrincipal,
      pr_credential_generation = ma_key_generation v, pr_active = True\<rparr>"

definition authenticate_machine_assertion ::
  "machine_verifier \<Rightarrow> 's replay_authority \<Rightarrow> string \<Rightarrow> string \<Rightarrow> string \<Rightarrow> string \<Rightarrow> string \<Rightarrow>
   int \<Rightarrow> datetime \<Rightarrow> ('s, principal) op" where
  "authenticate_machine_assertion verifier claim_once compact client audience key replay
     lifetime observed_now =
     bindS (liftS (aware_or_denied observed_now)) (\<lambda>now.
     thenS (ensureS (is_explicit compact) AdmissionDenied)
    (thenS (ensureS (is_identifier client) AdmissionDenied)
    (thenS (ensureS (is_explicit audience) AdmissionDenied)
    (thenS (ensureS (is_identifier key) AdmissionDenied)
    (thenS (ensureS (is_identifier replay) AdmissionDenied)
    (thenS (ensureS (0 < lifetime) AdmissionDenied)
    (bindS (liftS (verify_assertion verifier compact client)) (\<lambda>v.
     thenS (ensureS (assertion_bound v client audience key replay) AdmissionDenied)
    (bindS (liftS (aware_or_denied (ma_issued_at v))) (\<lambda>issued.
     bindS (liftS (aware_or_denied (ma_not_before v))) (\<lambda>start.
     bindS (liftS (aware_or_denied (ma_expires_at v))) (\<lambda>until.
     thenS (ensureS (assertion_timely issued start until now lifetime) AdmissionDenied)
    (thenS (ensureS (jti_ok (ma_jti v)) AdmissionDenied)
    (bindS (liftS (construct valid_principal AdmissionDenied (machine_principal v))) (\<lambda>p.
     bindS (claim_once (ma_client_principal v) (ma_jti v) until (ma_replay_generation v))
       (\<lambda>claim.
     thenS (ensureS (claim = ClaimClaimed) AdmissionDenied)
     (returnS p)))))))))))))))))"

section \<open>The admission in one equation\<close>

definition machine_admissible ::
  "machine_assertion \<Rightarrow> string \<Rightarrow> string \<Rightarrow> string \<Rightarrow> string \<Rightarrow> string \<Rightarrow> int \<Rightarrow> datetime \<Rightarrow> bool" where
  "machine_admissible v compact client audience key replay lifetime observed_now \<longleftrightarrow>
     (\<exists>now issued start until.
        observed_now = Aware now \<and> ma_issued_at v = Aware issued \<and>
        ma_not_before v = Aware start \<and> ma_expires_at v = Aware until \<and>
        assertion_timely issued start until now lifetime) \<and>
     is_explicit compact \<and> is_identifier client \<and> is_explicit audience \<and>
     is_identifier key \<and> is_identifier replay \<and> 0 < lifetime \<and>
     assertion_bound v client audience key replay \<and> jti_ok (ma_jti v)"

lemma valid_machine_principal:
  "assertion_bound v client audience key replay \<Longrightarrow> valid_principal (machine_principal v)"
  by (auto simp: assertion_bound_def valid_principal_def machine_principal_def)

definition claim_result :: "principal \<Rightarrow> replay_claim res \<times> 's \<Rightarrow> principal res \<times> 's" where
  "claim_result p ct =
     (case ct of
        (Inl e, t) \<Rightarrow> (Inl e, t)
      | (Inr c, t) \<Rightarrow> (if c = ClaimClaimed then Inr p else Inl AdmissionDenied, t))"

lemma aware_or_denied_simps [simp]:
  "aware_or_denied (Aware t) = Inr t" "aware_or_denied (Naive n) = Inl AdmissionDenied"
  by (simp_all add: aware_or_denied_def)

text \<open>
  Inversion of the chain of guards: whatever happens, either the replay authority was not
  reached and nothing changed, or the assertion was admissible and the outcome is its.
\<close>

lemma authenticate_cases:
  assumes v: "verifier compact client = Returned v"
  shows "authenticate_machine_assertion verifier claim_once compact client audience key replay
      lifetime obs s =
    (if machine_admissible v compact client audience key replay lifetime obs
     then claim_result (machine_principal v)
       (claim_once (ma_client_principal v) (ma_jti v)
         (projr (aware (ma_expires_at v))) (ma_replay_generation v) s)
     else (Inl AdmissionDenied, s))"
proof (cases "\<exists>now issued start until. obs = Aware now \<and> ma_issued_at v = Aware issued \<and>
    ma_not_before v = Aware start \<and> ma_expires_at v = Aware until")
  case True
  then obtain now issued start until where times: "obs = Aware now" "ma_issued_at v = Aware issued"
    "ma_not_before v = Aware start" "ma_expires_at v = Aware until" by blast
  obtain c t where c: "claim_once (ma_client_principal v) (ma_jti v) until
      (ma_replay_generation v) s = (c, t)" by fastforce
  show ?thesis
    using valid_machine_principal [of v client audience key replay]
    by (simp add: authenticate_machine_assertion_def bindS_apply verify_assertion_def v times
        machine_admissible_def claim_result_def c split: sum.split)
next
  case False
  then show ?thesis
    by (cases obs; cases "ma_issued_at v"; cases "ma_not_before v"; cases "ma_expires_at v")
      (simp_all add: authenticate_machine_assertion_def bindS_apply verify_assertion_def v
        machine_admissible_def)
qed

lemma authenticate_no_assertion:
  assumes "\<And>v. verifier compact client \<noteq> Returned v"
  shows "\<exists>e. authenticate_machine_assertion verifier claim_once compact client audience key replay
      lifetime obs s = (Inl e, s)"
  using assms
  by (cases "verifier compact client"; cases obs)
    (auto simp: authenticate_machine_assertion_def bindS_apply verify_assertion_def)

section \<open>The replay authority\<close>

text \<open>
  What the documentation of \<open>MachineReplayAuthority.claim_once\<close> promises, for the set of
  claims an authority remembers: a claim is won only once per client, identifier and
  replay generation, and no call forgets a claim.
\<close>

definition single_winner :: "'s replay_authority \<Rightarrow> ('s \<Rightarrow> (string \<times> string \<times> string) set) \<Rightarrow> bool" where
  "single_winner claim_once remembered \<longleftrightarrow>
     (\<forall>c j u g s r t. claim_once c j u g s = (r, t) \<longrightarrow>
        remembered s \<subseteq> remembered t \<and>
        (r = Inr ClaimClaimed \<longrightarrow> (c, j, g) \<notin> remembered s \<and> (c, j, g) \<in> remembered t))"

inductive machine_step :: "'s replay_authority \<Rightarrow> 's \<Rightarrow> 's \<Rightarrow> bool" for claim_once where
  machine_call: "authenticate_machine_assertion verifier claim_once compact client audience key
       replay lifetime obs s = (r, t) \<Longrightarrow> machine_step claim_once s t"

lemma authenticate_state:
  assumes "authenticate_machine_assertion verifier claim_once compact client audience key replay
      lifetime obs s = (r, t)"
  shows "t = s \<or> (\<exists>c j u g x. claim_once c j u g s = (x, t) \<and>
    (\<forall>p. r = Inr p \<longrightarrow> x = Inr ClaimClaimed))"
proof (cases "\<exists>v. verifier compact client = Returned v")
  case True
  then obtain v where v: "verifier compact client = Returned v" by blast
  obtain x u where x: "claim_once (ma_client_principal v) (ma_jti v)
      (projr (aware (ma_expires_at v))) (ma_replay_generation v) s = (x, u)" by fastforce
  show ?thesis
  proof (cases "machine_admissible v compact client audience key replay lifetime obs")
    case True
    then have "(r, t) = claim_result (machine_principal v) (x, u)"
      using assms by (simp add: authenticate_cases [of verifier, OF v] x)
    then have "t = u" "\<forall>p. r = Inr p \<longrightarrow> x = Inr ClaimClaimed"
      by (auto simp: claim_result_def split: sum.splits if_splits)
    with x show ?thesis by blast
  next
    case False
    with assms show ?thesis by (simp add: authenticate_cases [of verifier, OF v])
  qed
next
  case False
  then have "\<And>v. verifier compact client \<noteq> Returned v" by blast
  from authenticate_no_assertion [of verifier, OF this] assms show ?thesis by (metis prod.inject)
qed

lemma machine_run_remembers:
  "(machine_step claim_once)\<^sup>*\<^sup>* s t \<Longrightarrow> single_winner claim_once remembered \<Longrightarrow>
     remembered s \<subseteq> remembered t"
proof (induction rule: rtranclp_induct)
  case (step t u)
  from step.hyps(2) have "remembered t \<subseteq> remembered u"
  proof (cases rule: machine_step.cases)
    case (machine_call verifier compact client audience key replay lifetime obs r)
    from authenticate_state [OF machine_call] step.prems show ?thesis
      unfolding single_winner_def by blast
  qed
  with step show ?case by blast
qed simp

lemma authenticate_claims:
  assumes v: "verifier compact client = Returned v"
    and ok: "authenticate_machine_assertion verifier claim_once compact client audience key replay
      lifetime obs s = (Inr p, t)"
  shows "\<exists>until. claim_once client (ma_jti v) until replay s = (Inr ClaimClaimed, t)"
proof -
  have adm: "machine_admissible v compact client audience key replay lifetime obs"
    using ok by (simp add: authenticate_cases [of verifier, OF v] split: if_splits)
  then have "ma_client_principal v = client" "ma_replay_generation v = replay"
    by (simp_all add: machine_admissible_def assertion_bound_def)
  moreover obtain x u where x: "claim_once (ma_client_principal v) (ma_jti v)
      (projr (aware (ma_expires_at v))) (ma_replay_generation v) s = (x, u)" by fastforce
  moreover have "(Inr p, t) = claim_result (machine_principal v) (x, u)"
    using ok adm by (simp add: authenticate_cases [of verifier, OF v] x)
  then have "x = Inr ClaimClaimed" "u = t"
    by (auto simp: claim_result_def split: sum.splits if_splits)
  ultimately show ?thesis by auto
qed

section \<open>A worked admission\<close>

definition sample_machine_assertion :: machine_assertion where
  "sample_machine_assertion =
     \<lparr>ma_client_principal = ''client1'', ma_jti = ''j1'', ma_audience = ''aud1'',
      ma_issued_at = Aware (At 0), ma_not_before = Aware (At 0), ma_expires_at = Aware (At 10),
      ma_key_generation = ''k7'', ma_replay_generation = ''r7''\<rparr>"

definition sample_verifier :: machine_verifier where
  "sample_verifier = (\<lambda>_ _. Returned sample_machine_assertion)"

text \<open>A replay authority that remembers its claims in a list.\<close>

definition sample_claim_once :: "(string \<times> string \<times> string) list replay_authority" where
  "sample_claim_once c j u g s =
     (if (c, j, g) \<in> set s then (Inr AlreadyUsed, s) else (Inr ClaimClaimed, (c, j, g) # s))"

lemma sample_single_winner: "single_winner sample_claim_once set"
  by (auto simp: single_winner_def sample_claim_once_def split: if_splits)

lemma sample_machine_admissible:
  "machine_admissible sample_machine_assertion ''compact'' ''client1'' ''aud1'' ''k7'' ''r7'' 10
     (Aware (At 5))"
  by (simp add: machine_admissible_def sample_machine_assertion_def assertion_timely_def
      assertion_bound_def jti_ok_def utf8_length_def max_machine_jti_bytes_def grammar_eval
      explicit_eval)

section \<open>Properties\<close>

text \<open>A machine assertion is admitted exactly when it is fresh, bound to the expected
  client, audience, key and replay generations and within the lifetime policy, and the
  replay authority lets it win; the principal is then the asserted client under the
  current key. The replay claim is the last step: an inadmissible assertion never
  reaches the replay authority.\<close>

theorem machine_admission_exact:
  assumes "verifier compact client = Returned v"
  shows "authenticate_machine_assertion verifier claim_once compact client audience key replay
      lifetime obs s =
    (if machine_admissible v compact client audience key replay lifetime obs
     then case claim_once client (ma_jti v) (projr (aware (ma_expires_at v))) replay s of
        (Inl e, t) \<Rightarrow> (Inl e, t)
      | (Inr c, t) \<Rightarrow>
          ((if c = ClaimClaimed
            then Inr \<lparr>pr_principal_id = client, pr_kind = MachineApiPrincipal,
                      pr_credential_generation = key, pr_active = True\<rparr>
            else Inl AdmissionDenied), t)
     else (Inl AdmissionDenied, s))"
proof (cases "machine_admissible v compact client audience key replay lifetime obs")
  case True
  then have "ma_client_principal v = client" "ma_key_generation v = key"
    "ma_replay_generation v = replay"
    by (simp_all add: machine_admissible_def assertion_bound_def)
  with True show ?thesis
    by (simp add: authenticate_cases [of verifier, OF assms] claim_result_def machine_principal_def)
next
  case False
  then show ?thesis by (simp add: authenticate_cases [of verifier, OF assms])
qed

theorem machine_admission_exact_witness:
  "fst (authenticate_machine_assertion sample_verifier sample_claim_once ''compact'' ''client1''
     ''aud1'' ''k7'' ''r7'' 10 (Aware (At 5)) []) =
   Inr \<lparr>pr_principal_id = ''client1'', pr_kind = MachineApiPrincipal,
        pr_credential_generation = ''k7'', pr_active = True\<rparr>"
proof -
  have "sample_verifier ''compact'' ''client1'' = Returned sample_machine_assertion"
    by (simp add: sample_verifier_def)
  from machine_admission_exact [of sample_verifier, OF this, of sample_claim_once "''aud1''"
      "''k7''" "''r7''" 10 "Aware (At 5)" "[]"] sample_machine_admissible
  show ?thesis by (simp add: sample_claim_once_def)
qed

text \<open>An assertion is admitted at most once. With a replay authority that keeps its
  documented promise, once an assertion of a client under a replay generation was
  admitted, no later call, after any further calls by anyone, admits an assertion with
  the same client, identifier and replay generation.\<close>

theorem assertion_admitted_once:
  assumes law: "single_winner claim_once remembered"
    and first: "verifier compact client = Returned v"
      "authenticate_machine_assertion verifier claim_once compact client audience key replay
         lifetime obs s = (Inr p, t)"
    and run: "(machine_step claim_once)\<^sup>*\<^sup>* t u"
    and again: "verifier' compact' client = Returned v'" "ma_jti v' = ma_jti v"
  shows "fst (authenticate_machine_assertion verifier' claim_once compact' client audience' key'
      replay lifetime' obs' u) \<noteq> Inr p'"
proof
  assume "fst (authenticate_machine_assertion verifier' claim_once compact' client audience' key'
      replay lifetime' obs' u) = Inr p'"
  then obtain w where w: "authenticate_machine_assertion verifier' claim_once compact' client
      audience' key' replay lifetime' obs' u = (Inr p', w)" by (metis prod.collapse)
  from authenticate_claims [of verifier, OF first] law
  have "(client, ma_jti v, replay) \<in> remembered t" unfolding single_winner_def by blast
  with machine_run_remembers [OF run law] have "(client, ma_jti v, replay) \<in> remembered u" by blast
  moreover from authenticate_claims [of verifier', OF again(1) w] law again(2)
  have "(client, ma_jti v, replay) \<notin> remembered u" unfolding single_winner_def by fastforce
  ultimately show False by blast
qed

theorem assertion_admitted_once_witness:
  "fst (authenticate_machine_assertion sample_verifier sample_claim_once ''compact'' ''client1''
     ''aud1'' ''k7'' ''r7'' 10 (Aware (At 6)) [(''client1'', ''j1'', ''r7'')]) \<noteq>
   Inr (machine_principal sample_machine_assertion)"
proof -
  have v: "sample_verifier ''compact'' ''client1'' = Returned sample_machine_assertion"
    by (simp add: sample_verifier_def)
  have "authenticate_machine_assertion sample_verifier sample_claim_once ''compact'' ''client1''
      ''aud1'' ''k7'' ''r7'' 10 (Aware (At 5)) [] =
      (Inr (machine_principal sample_machine_assertion), [(''client1'', ''j1'', ''r7'')])"
    using sample_machine_admissible
    by (simp add: authenticate_cases [of sample_verifier, OF v] claim_result_def
        sample_claim_once_def) (simp add: sample_machine_assertion_def)
  from assertion_admitted_once [of sample_claim_once set sample_verifier, OF sample_single_winner
      v this rtranclp.rtrancl_refl, of sample_verifier "''compact''" sample_machine_assertion] v
  show ?thesis by blast
qed

end
