(* ===== verification/Runtime_Profiles.thy ===== *)
theory Runtime_Profiles
  imports Authority_Model
begin

text \<open>
  src/src/jlmirror_authority/runtime_profiles.py: runtime bindings and the three accepted
  Wave 1 bindings. \<open>_PROFILE_ID_RE\<close> is the grammar \<open>is_versioned_id\<close> of Authority_Model.
  The last section is the grammar of prefixed profiles that the workload and
  configuration modules use.
\<close>

record runtime_binding =
  rb_runtime_profile_id :: string
  rb_principal_class :: string
  rb_lifecycle_class :: string
  rb_isolation_class :: string
  rb_ingress_profile :: string
  rb_egress_profiles :: "string set"
  rb_secret_reference_classes :: "string set"
  rb_resource_profile :: string
  rb_allowed_environment_classes :: "environment_class set"

definition valid_runtime_binding :: "runtime_binding \<Rightarrow> bool" where
  "valid_runtime_binding b \<longleftrightarrow>
     list_all is_versioned_id
       [rb_runtime_profile_id b, rb_principal_class b, rb_lifecycle_class b,
        rb_isolation_class b, rb_ingress_profile b, rb_resource_profile b] \<and>
     rb_egress_profiles b \<noteq> {} \<and> (\<forall>p\<in>rb_egress_profiles b. is_versioned_id p) \<and>
     rb_secret_reference_classes b \<noteq> {} \<and>
     (\<forall>p\<in>rb_secret_reference_classes b. is_versioned_id p) \<and>
     rb_allowed_environment_classes b \<noteq> {}"

definition admit_environment :: "runtime_binding \<Rightarrow> environment_class \<Rightarrow> unit res" where
  "admit_environment b env =
     ensure (env \<in> rb_allowed_environment_classes b) AdmissionDenied"

definition serving_environments :: "environment_class set" where
  "serving_environments = {EnvDevelopment, EnvValidation, EnvProduction}"

definition web_bff :: runtime_binding where
  "web_bff =
     \<lparr>rb_runtime_profile_id = ''runtime.web-bff@1'', rb_principal_class = ''principal.web-bff@1'',
      rb_lifecycle_class = ''lifecycle.serving-replica@1'',
      rb_isolation_class = ''isolation.confidential-web@1'',
      rb_ingress_profile = ''ingress.public-browser@1'',
      rb_egress_profiles = {''egress.platform-bounded@1''},
      rb_secret_reference_classes =
        {''secretref.web-session@1'', ''secretref.service-communication@1''},
      rb_resource_profile = ''resource.web@1'',
      rb_allowed_environment_classes = serving_environments\<rparr>"

definition api_auth_boundary :: runtime_binding where
  "api_auth_boundary =
     \<lparr>rb_runtime_profile_id = ''runtime.api@1'',
      rb_principal_class = ''principal.application-serving@1'',
      rb_lifecycle_class = ''lifecycle.serving-replica@1'',
      rb_isolation_class = ''isolation.application-serving@1'',
      rb_ingress_profile = ''ingress.authenticated-api@1'',
      rb_egress_profiles = {''egress.platform-bounded@1''},
      rb_secret_reference_classes =
        {''secretref.state-port@1'', ''secretref.service-communication@1''},
      rb_resource_profile = ''resource.api@1'',
      rb_allowed_environment_classes = serving_environments\<rparr>"

definition control_plane :: runtime_binding where
  "control_plane =
     \<lparr>rb_runtime_profile_id = ''runtime.control-plane@1'',
      rb_principal_class = ''principal.control-plane@1'',
      rb_lifecycle_class = ''lifecycle.control-plane-serving@1'',
      rb_isolation_class = ''isolation.control-plane@1'',
      rb_ingress_profile = ''ingress.privileged-platform@1'',
      rb_egress_profiles = {''egress.platform-bounded@1''},
      rb_secret_reference_classes =
        {''secretref.state-port@1'', ''secretref.service-communication@1''},
      rb_resource_profile = ''resource.control-plane@1'',
      rb_allowed_environment_classes = serving_environments\<rparr>"

definition wave1_runtime_bindings :: "runtime_binding list" where
  "wave1_runtime_bindings = [web_bff, api_auth_boundary, control_plane]"

lemmas binding_defs = web_bff_def api_auth_boundary_def control_plane_def serving_environments_def

text \<open>The accepted bindings pass their own constructor, and none admits recovery.\<close>

lemma versioned_samples [simp]:
  "is_versioned_id ''runtime.web-bff@1''" "is_versioned_id ''principal.web-bff@1''"
  "is_versioned_id ''lifecycle.serving-replica@1''" "is_versioned_id ''isolation.confidential-web@1''"
  "is_versioned_id ''ingress.public-browser@1''" "is_versioned_id ''resource.web@1''"
  "is_versioned_id ''runtime.api@1''" "is_versioned_id ''principal.application-serving@1''"
  "is_versioned_id ''isolation.application-serving@1''"
  "is_versioned_id ''ingress.authenticated-api@1''" "is_versioned_id ''resource.api@1''"
  "is_versioned_id ''runtime.control-plane@1''" "is_versioned_id ''principal.control-plane@1''"
  "is_versioned_id ''lifecycle.control-plane-serving@1''"
  "is_versioned_id ''isolation.control-plane@1''" "is_versioned_id ''ingress.privileged-platform@1''"
  "is_versioned_id ''resource.control-plane@1''" "is_versioned_id ''egress.platform-bounded@1''"
  "is_versioned_id ''secretref.web-session@1''" "is_versioned_id ''secretref.state-port@1''"
  "is_versioned_id ''secretref.service-communication@1''"
  by (simp_all add: is_versioned_id_def contract_char_def char_class_defs)

lemma wave1_bindings_valid:
  "b \<in> set wave1_runtime_bindings \<Longrightarrow> valid_runtime_binding b \<and>
     admit_environment b EnvRecovery = Inl AdmissionDenied"
  by (auto simp: wave1_runtime_bindings_def binding_defs valid_runtime_binding_def
      admit_environment_def)

lemma control_plane_distinct [simp]: "api_auth_boundary \<noteq> control_plane" "control_plane \<noteq> api_auth_boundary"
  by (simp_all add: binding_defs)

section \<open>Prefixed profiles\<close>

text \<open>\<open>^PREFIX\.[a-z0-9-]+(?:\.[a-z0-9-]+)*@[1-9][0-9]*$\<close>\<close>

definition is_prefixed_profile :: "string \<Rightarrow> string \<Rightarrow> bool" where
  "is_prefixed_profile p s =
     (case split_on (CHR ''@'') s of
        [body, version] \<Rightarrow>
          head_tail_ok (\<lambda>c. is_digit c \<and> c \<noteq> CHR ''0'') is_digit version \<and>
          (case split_on (CHR ''.'') body of
             w # w' # ws \<Rightarrow>
               w = p \<and> list_all (head_tail_ok contract_char contract_char) (w' # ws)
           | _ \<Rightarrow> False)
      | _ \<Rightarrow> False)"

definition is_runtime_profile :: "string \<Rightarrow> bool" where
  "is_runtime_profile s = is_prefixed_profile ''runtime'' s"

end
