(* ===== verification/Workload.thy ===== *)
theory Workload
  imports Runtime_Profiles
begin

text \<open>
  src/src/jlmirror_authority/workload.py: SPIFFE workload identities, their textual form,
  the strict parser and the admission of a verified workload peer.
\<close>

section \<open>Grammars\<close>

definition domain_edge_char :: "char \<Rightarrow> bool" where
  "domain_edge_char c \<longleftrightarrow> is_lower c \<or> is_digit c"

definition domain_char :: "char \<Rightarrow> bool" where
  "domain_char c \<longleftrightarrow> domain_edge_char c \<or> c \<in> set ''.-''"

text \<open>\<open>_TRUST_DOMAIN_RE = ^[a-z0-9](?:[a-z0-9.-]{0,251}[a-z0-9])?$\<close> without \<open>..\<close>\<close>

fun has_double_dot :: "string \<Rightarrow> bool" where
  "has_double_dot (a # b # cs) = (a = CHR ''.'' \<and> b = CHR ''.'' \<or> has_double_dot (b # cs))"
| "has_double_dot _ = False"

definition is_trust_domain :: "string \<Rightarrow> bool" where
  "is_trust_domain s \<longleftrightarrow>
     s \<noteq> [] \<and> length s \<le> 253 \<and> domain_edge_char (hd s) \<and> domain_edge_char (last s) \<and>
     list_all domain_char s \<and> \<not> has_double_dot s"

definition segment_char :: "char \<Rightarrow> bool" where
  "segment_char c \<longleftrightarrow> is_alnum c \<or> c \<in> set ''._@-''"

text \<open>\<open>_SEGMENT_RE = ^[A-Za-z0-9][A-Za-z0-9._@-]{0,127}$\<close>\<close>

definition is_segment :: "string \<Rightarrow> bool" where
  "is_segment s \<longleftrightarrow>
     s \<noteq> [] \<and> length s \<le> 128 \<and> is_alnum (hd s) \<and> list_all segment_char s"

section \<open>Identities\<close>

record workload_identity =
  wi_trust_domain :: string
  wi_environment_class :: environment_class
  wi_runtime_profile_id :: string
  wi_workload_id :: string

definition valid_workload_identity :: "workload_identity \<Rightarrow> bool" where
  "valid_workload_identity w \<longleftrightarrow>
     is_explicit (wi_trust_domain w) \<and> is_trust_domain (wi_trust_domain w) \<and>
     is_runtime_profile (wi_runtime_profile_id w) \<and>
     is_explicit (wi_workload_id w) \<and> is_segment (wi_workload_id w)"

definition spiffe_id :: "workload_identity \<Rightarrow> string" where
  "spiffe_id w =
     ''spiffe://'' @ wi_trust_domain w @ ''/'' @ environment_value (wi_environment_class w) @ ''/'' @
     wi_runtime_profile_id w @ ''/'' @ wi_workload_id w"

section \<open>Parsing\<close>

text \<open>
  \<open>urlsplit\<close> of a text that starts with \<open>spiffe://\<close>: the authority up to the first of
  \<open>/?#\<close>, then the path up to the first of \<open>?#\<close>. Other spellings that \<open>urlsplit\<close>
  normalises (an upper-case scheme, stripped blanks) fail the final comparison of the
  parser with its own rendering, with the same exception.
\<close>

definition authority_char :: "char \<Rightarrow> bool" where
  "authority_char c \<longleftrightarrow> c \<notin> set ''/?#''"

definition path_char :: "char \<Rightarrow> bool" where
  "path_char c \<longleftrightarrow> c \<notin> set ''?#''"

definition split_spiffe :: "string \<Rightarrow> (string \<times> string \<times> string) option" where
  "split_spiffe v =
     (if starts_with ''spiffe://'' v
      then
        let rest = drop 9 v;
            netloc = takeWhile authority_char rest;
            tail = dropWhile authority_char rest;
            path = takeWhile path_char tail
        in Some (netloc, path, drop (length path) tail)
      else None)"

definition environment_of :: "string \<Rightarrow> environment_class option" where
  "environment_of s =
     find (\<lambda>e. environment_value e = s) [EnvDevelopment, EnvValidation, EnvProduction, EnvRecovery]"

definition identity_from ::
  "string \<Rightarrow> string \<Rightarrow> string \<Rightarrow> string \<Rightarrow> string \<Rightarrow> workload_identity res" where
  "identity_from v netloc env profile workload =
     (if \<not> list_all is_segment [env, profile, workload] then Inl AdmissionDenied
      else
        (case environment_of env of
           None \<Rightarrow> Inl AdmissionDenied
         | Some e \<Rightarrow>
             if \<not> is_runtime_profile profile then Inl AdmissionDenied
             else
               let w = \<lparr>wi_trust_domain = netloc, wi_environment_class = e,
                        wi_runtime_profile_id = profile, wi_workload_id = workload\<rparr>
               in if \<not> valid_workload_identity w then Inl AdmissionDenied
                  else if spiffe_id w \<noteq> v then Inl AdmissionDenied
                  else Inr w))"

text \<open>
  The authority must equal its own host name: no userinfo, no port and nothing in upper
  case, which for a text of the trust-domain grammar is no further condition.
\<close>

definition parse_workload_identity :: "string \<Rightarrow> workload_identity res" where
  "parse_workload_identity v =
     (if CHR ''%'' \<in> set v \<or> CHR 0x5C \<in> set v then Inl AdmissionDenied
      else
        case split_spiffe v of
          None \<Rightarrow> Inl AdmissionDenied
        | Some (netloc, path, suffix) \<Rightarrow>
            if netloc = [] \<or> suffix \<notin> {[], ''?'', ''#'', ''?#''} then Inl AdmissionDenied
            else if CHR ''@'' \<in> set netloc \<or> CHR '':'' \<in> set netloc then Inl AdmissionDenied
            else if \<not> is_trust_domain netloc then Inl AdmissionDenied
            else
              (case tl (split_on (CHR ''/'') path) of
                 [env, profile, workload] \<Rightarrow> identity_from v netloc env profile workload
               | _ \<Rightarrow> Inl AdmissionDenied))"

section \<open>Facts about the text of an identity\<close>

lemma trust_domain_chars:
  "is_trust_domain s \<Longrightarrow> c \<in> set s \<Longrightarrow> c \<notin> set ''/?#@:%'' \<and> c \<noteq> CHR 0x5C"
  by (auto simp: is_trust_domain_def list_all_iff domain_char_def domain_edge_char_def
      char_class_defs)

lemma segment_chars: "is_segment s \<Longrightarrow> c \<in> set s \<Longrightarrow> c \<notin> set ''/?#%'' \<and> c \<noteq> CHR 0x5C"
  by (auto simp: is_segment_def list_all_iff segment_char_def char_class_defs)

lemma environment_of_value: "environment_of (environment_value e) = Some e"
  by (cases e) (simp_all add: environment_of_def)

lemma environment_value_segment: "is_segment (environment_value e)"
  by (cases e) (simp_all add: is_segment_def segment_char_def char_class_defs)

lemma split_on_append:
  "d \<notin> set s \<Longrightarrow> split_on d (s @ d # t) = s # split_on d t"
  by (induction s) auto

lemma split_on_none: "d \<notin> set s \<Longrightarrow> split_on d s = [s]"
  by (induction s) auto

lemma takeWhile_dropWhile_stop:
  "(\<And>c. c \<in> set s \<Longrightarrow> P c) \<Longrightarrow> \<not> P x \<Longrightarrow>
     takeWhile P (s @ x # t) = s \<and> dropWhile P (s @ x # t) = x # t"
  by simp

text \<open>The three path segments of an identity.\<close>

definition identity_path :: "workload_identity \<Rightarrow> string" where
  "identity_path w =
     ''/'' @ environment_value (wi_environment_class w) @ ''/'' @ wi_runtime_profile_id w @ ''/'' @
     wi_workload_id w"

lemma spiffe_id_path: "spiffe_id w = ''spiffe://'' @ wi_trust_domain w @ identity_path w"
  by (simp add: spiffe_id_def identity_path_def)

lemma identity_path_chars:
  assumes "is_segment (wi_runtime_profile_id w)" "is_segment (wi_workload_id w)"
    and "c \<in> set (identity_path w)"
  shows "c \<notin> set ''?#%'' \<and> c \<noteq> CHR 0x5C"
  using assms segment_chars environment_value_segment [of "wi_environment_class w"]
  by (fastforce simp: identity_path_def)

lemma split_spiffe_id:
  assumes "is_trust_domain (wi_trust_domain w)"
    "is_segment (wi_runtime_profile_id w)" "is_segment (wi_workload_id w)"
  shows "split_spiffe (spiffe_id w) = Some (wi_trust_domain w, identity_path w, [])"
proof -
  have "\<forall>c\<in>set (wi_trust_domain w). authority_char c"
    using trust_domain_chars [OF assms(1)] by (simp add: authority_char_def)
  then have a: "takeWhile authority_char (wi_trust_domain w @ identity_path w) = wi_trust_domain w"
    "dropWhile authority_char (wi_trust_domain w @ identity_path w) = identity_path w"
    by (simp_all add: identity_path_def takeWhile_append dropWhile_append) (simp_all add: authority_char_def)
  have b: "takeWhile path_char (identity_path w) = identity_path w"
    using identity_path_chars [OF assms(2,3)] by (simp add: takeWhile_eq_all_conv path_char_def)
  show ?thesis by (simp add: split_spiffe_def spiffe_id_path starts_with_def Let_def a b)
qed

lemma split_identity_path:
  assumes "is_segment (wi_runtime_profile_id w)" "is_segment (wi_workload_id w)"
  shows "tl (split_on (CHR ''/'') (identity_path w)) =
    [environment_value (wi_environment_class w), wi_runtime_profile_id w, wi_workload_id w]"
proof -
  have "CHR ''/'' \<notin> set (environment_value (wi_environment_class w))"
    "CHR ''/'' \<notin> set (wi_runtime_profile_id w)" "CHR ''/'' \<notin> set (wi_workload_id w)"
    using segment_chars assms environment_value_segment by fastforce+
  then show ?thesis
    by (simp add: identity_path_def split_on_append split_on_none)
qed

lemma spiffe_id_plain:
  assumes "is_trust_domain (wi_trust_domain w)"
    "is_segment (wi_runtime_profile_id w)" "is_segment (wi_workload_id w)"
  shows "CHR ''%'' \<notin> set (spiffe_id w) \<and> CHR 0x5C \<notin> set (spiffe_id w)"
  using trust_domain_chars [OF assms(1)] identity_path_chars [OF assms(2,3)]
  by (auto simp: spiffe_id_path)

lemma identity_from_Inr:
  "identity_from v netloc env profile workload = Inr w \<Longrightarrow>
     valid_workload_identity w \<and> spiffe_id w = v \<and> is_segment (wi_runtime_profile_id w)"
  by (auto simp: identity_from_def Let_def split: if_splits option.splits)

lemma parse_Inr:
  assumes "parse_workload_identity v = Inr w"
  shows "valid_workload_identity w \<and> spiffe_id w = v \<and> is_segment (wi_runtime_profile_id w)"
proof -
  obtain netloc env profile workload where
    "identity_from v netloc env profile workload = Inr w"
    using assms
    by (auto simp: parse_workload_identity_def split: if_splits option.splits list.splits)
  then show ?thesis by (rule identity_from_Inr)
qed

lemma parse_Inl: "parse_workload_identity v = Inl e \<Longrightarrow> e = AdmissionDenied"
proof -
  have "identity_from v netloc env profile workload = Inl e \<Longrightarrow> e = AdmissionDenied"
    for netloc env profile workload
    by (auto simp: identity_from_def Let_def split: if_splits option.splits)
  then show "parse_workload_identity v = Inl e \<Longrightarrow> e = AdmissionDenied"
    by (auto simp: parse_workload_identity_def split: if_splits option.splits list.splits)
qed

lemma parse_spiffe_segment:
  assumes "valid_workload_identity w" "is_segment (wi_runtime_profile_id w)"
  shows "parse_workload_identity (spiffe_id w) = Inr w"
proof -
  have d: "is_trust_domain (wi_trust_domain w)" and s: "is_segment (wi_workload_id w)"
    and r: "is_runtime_profile (wi_runtime_profile_id w)"
    using assms(1) by (simp_all add: valid_workload_identity_def)
  have eq: "\<lparr>wi_trust_domain = wi_trust_domain w, wi_environment_class = wi_environment_class w,
      wi_runtime_profile_id = wi_runtime_profile_id w, wi_workload_id = wi_workload_id w\<rparr> = w"
    by (cases w) simp
  have "identity_from (spiffe_id w) (wi_trust_domain w) (environment_value (wi_environment_class w))
      (wi_runtime_profile_id w) (wi_workload_id w) = Inr w"
    using assms r s by (simp add: identity_from_def Let_def environment_of_value
      environment_value_segment eq)
  moreover have "wi_trust_domain w \<noteq> []" using d by (auto simp: is_trust_domain_def)
  moreover have "CHR ''@'' \<notin> set (wi_trust_domain w)" "CHR '':'' \<notin> set (wi_trust_domain w)"
    using trust_domain_chars [OF d] by auto
  ultimately show ?thesis
    using spiffe_id_plain [OF d assms(2) s] d
    by (simp add: parse_workload_identity_def split_spiffe_id [OF d assms(2) s]
        split_identity_path [OF assms(2) s])
qed

text \<open>A runtime profile is a segment unless it is longer than the segment grammar allows.\<close>

lemma split_on_chars: "c \<in> set s \<Longrightarrow> c = d \<or> (\<exists>w\<in>set (split_on d s). c \<in> set w)"
  by (induction s) (auto split: list.splits if_splits)

lemma split_on_hd: "split_on d s = (a # w) # ws \<Longrightarrow> s \<noteq> [] \<and> hd s = a"
  by (cases s) (auto split: list.splits if_splits)

lemma runtime_profile_segment:
  assumes "is_runtime_profile s" "length s \<le> 128"
  shows "is_segment s"
proof -
  obtain body version w' ws where at: "split_on (CHR ''@'') s = [body, version]"
    and version: "head_tail_ok (\<lambda>c. is_digit c \<and> c \<noteq> CHR ''0'') is_digit version"
    and dot: "split_on (CHR ''.'') body = ''runtime'' # w' # ws"
    and words: "list_all (head_tail_ok contract_char contract_char) (w' # ws)"
    using assms(1)
    by (auto simp: is_runtime_profile_def is_prefixed_profile_def split: list.splits)
  have "body \<noteq> []" "hd body = CHR ''r''" using split_on_hd [OF dot] by auto
  then obtain body' where "body = CHR ''r'' # body'" by (cases body) auto
  with at have hd: "s \<noteq> []" "hd s = CHR ''r''" using split_on_hd by auto
  have word_char: "c \<in> set w \<Longrightarrow> segment_char c" if "w \<in> set (w' # ws)" for w c
  proof -
    from that words have "head_tail_ok contract_char contract_char w" by (auto simp: list_all_iff)
    then show "c \<in> set w \<Longrightarrow> segment_char c"
      by (cases w) (auto simp: list_all_iff contract_char_def segment_char_def is_alnum_def)
  qed
  have "list_all segment_char ''runtime''" by (simp add: segment_char_def char_class_defs)
  then have "c \<in> set ''runtime'' \<Longrightarrow> segment_char c" for c unfolding list_all_iff by blast
  moreover have "segment_char (CHR ''.'')" "segment_char (CHR ''@'')"
    by (simp_all add: segment_char_def)
  ultimately have body_char: "segment_char c" if "c \<in> set body" for c
    using split_on_chars [OF that, of "CHR ''.''"] word_char unfolding dot by auto
  have version_char: "c \<in> set version \<Longrightarrow> segment_char c" for c
    using version by (cases version) (auto simp: list_all_iff segment_char_def is_alnum_def)
  have "segment_char c" if "c \<in> set s" for c
    using split_on_chars [OF that, of "CHR ''@''"] body_char version_char
      \<open>segment_char (CHR ''@'')\<close> unfolding at by auto
  then show ?thesis
    using hd assms(2) by (simp add: is_segment_def list_all_iff char_class_defs)
qed

section \<open>Admission of a verified peer\<close>

record workload_peer =
  wp_spiffe_id :: string
  wp_certificate_not_before :: datetime
  wp_certificate_not_after :: datetime
  wp_trust_bundle_generation :: string
  wp_workload_credential_generation :: string

definition valid_workload_peer :: "workload_peer \<Rightarrow> bool" where
  "valid_workload_peer p \<longleftrightarrow>
     is_explicit (wp_spiffe_id p) \<and>
     aware_ordered (wp_certificate_not_before p) (wp_certificate_not_after p) \<and>
     is_identifier (wp_trust_bundle_generation p) \<and>
     is_identifier (wp_workload_credential_generation p)"

text \<open>What the caller says the current authority is; checked before the peer's identity.\<close>

definition admission_policy_ok ::
  "string \<Rightarrow> string list \<Rightarrow> string \<Rightarrow> string \<Rightarrow> int \<Rightarrow> bool" where
  "admission_policy_ok domain profiles bundle credential lifetime \<longleftrightarrow>
     is_explicit domain \<and> is_trust_domain domain \<and> is_identifier bundle \<and>
     is_identifier credential \<and> profiles \<noteq> [] \<and> list_all is_runtime_profile profiles \<and>
     0 < lifetime"

definition peer_bound ::
  "workload_peer \<Rightarrow> workload_identity \<Rightarrow> string \<Rightarrow> environment_class \<Rightarrow> string list \<Rightarrow> string \<Rightarrow>
   string \<Rightarrow> bool" where
  "peer_bound p w domain env profiles bundle credential \<longleftrightarrow>
     wi_trust_domain w = domain \<and> wi_environment_class w = env \<and>
     wi_runtime_profile_id w \<in> set profiles \<and>
     wp_trust_bundle_generation p = bundle \<and>
     wp_workload_credential_generation p = credential"

definition admit_workload_peer ::
  "workload_peer \<Rightarrow> string \<Rightarrow> environment_class \<Rightarrow> string list \<Rightarrow> string \<Rightarrow> string \<Rightarrow> int \<Rightarrow>
   datetime \<Rightarrow> principal res" where
  "admit_workload_peer p domain env profiles bundle credential lifetime observed_now =
     bindR (aware observed_now) (\<lambda>now.
     bindR (ensure (admission_policy_ok domain profiles bundle credential lifetime)
              AdmissionDenied) (\<lambda>_.
     bindR (parse_workload_identity (wp_spiffe_id p)) (\<lambda>w.
     bindR (ensure (peer_bound p w domain env profiles bundle credential) AdmissionDenied) (\<lambda>_.
     bindR (aware (wp_certificate_not_before p)) (\<lambda>start.
     bindR (aware (wp_certificate_not_after p)) (\<lambda>stop.
     bindR (ensure (start \<le> now \<and> now < stop) AdmissionDenied) (\<lambda>_.
     bindR (ensure (micros stop - micros start \<le> lifetime) AdmissionDenied) (\<lambda>_.
     construct valid_principal ValueError
       \<lparr>pr_principal_id = spiffe_id w, pr_kind = InternalServicePrincipal,
        pr_credential_generation = wp_workload_credential_generation p,
        pr_active = True\<rparr>))))))))"

section \<open>Worked identities\<close>

definition sample_workload :: workload_identity where
  "sample_workload =
     \<lparr>wi_trust_domain = ''td.example'', wi_environment_class = EnvDevelopment,
      wi_runtime_profile_id = ''runtime.api@1'', wi_workload_id = ''w1''\<rparr>"

lemma sample_runtime_profile [simp]: "is_runtime_profile ''runtime.api@1''"
  by (simp add: is_runtime_profile_def is_prefixed_profile_def contract_char_def char_class_defs)

lemma sample_trust_domain [simp]: "is_trust_domain ''td.example''" "is_explicit ''td.example''"
  by (simp_all add: is_trust_domain_def domain_char_def domain_edge_char_def explicit_eval)

lemma valid_sample_workload: "valid_workload_identity sample_workload"
  by (simp add: valid_workload_identity_def sample_workload_def is_segment_def segment_char_def
      explicit_eval)

definition sample_workload_peer :: workload_peer where
  "sample_workload_peer =
     \<lparr>wp_spiffe_id = spiffe_id sample_workload, wp_certificate_not_before = Aware (At 0),
      wp_certificate_not_after = Aware (At 10), wp_trust_bundle_generation = ''b7'',
      wp_workload_credential_generation = ''c7''\<rparr>"

section \<open>Properties\<close>

text \<open>The parser inverts the rendering and accepts nothing else. A text parses to an
  identity exactly when that identity is valid, renders to exactly this text and its
  runtime profile has at most 128 characters; every other text is denied, with
  \<open>AdmissionDenied\<close> and nothing else.\<close>

theorem parse_renders:
  "(case parse_workload_identity v of
      Inr w \<Rightarrow> valid_workload_identity w \<and> spiffe_id w = v \<and> length (wi_runtime_profile_id w) \<le> 128
    | Inl e \<Rightarrow> e = AdmissionDenied \<and>
        (\<forall>w. spiffe_id w = v \<longrightarrow>
           \<not> valid_workload_identity w \<or> 128 < length (wi_runtime_profile_id w)))"
proof (cases "parse_workload_identity v")
  case (Inl e)
  moreover have "\<not> valid_workload_identity w \<or> 128 < length (wi_runtime_profile_id w)"
    if "spiffe_id w = v" for w
    using that parse_spiffe_segment [of w] runtime_profile_segment [of "wi_runtime_profile_id w"] Inl
    by (cases "128 < length (wi_runtime_profile_id w)") (auto simp: valid_workload_identity_def)
  ultimately show ?thesis using parse_Inl [OF Inl] by simp
next
  case (Inr w)
  with parse_Inr [OF Inr] show ?thesis by (simp add: is_segment_def)
qed

theorem parse_renders_witness:
  "\<exists>w. parse_workload_identity (spiffe_id sample_workload) = Inr w \<and>
     spiffe_id w = spiffe_id sample_workload"
proof -
  have "length (wi_runtime_profile_id sample_workload) \<le> 128" by (simp add: sample_workload_def)
  with valid_sample_workload parse_renders [of "spiffe_id sample_workload"]
  show ?thesis
    by (cases "parse_workload_identity (spiffe_id sample_workload)") (auto simp: not_less)
qed

text \<open>A workload peer is admitted exactly for the expected trust domain, environment and
  an allowed runtime profile, under the current bundle and credential generations, while
  its certificate is current and short-lived. The principal is an internal service whose
  id is the peer's SPIFFE id.\<close>

theorem workload_admission_exact:
  assumes "valid_workload_peer p"
  shows "admit_workload_peer p domain env profiles bundle credential lifetime (Aware now) = Inr q \<longleftrightarrow>
    admission_policy_ok domain profiles bundle credential lifetime \<and>
    is_identifier (wp_spiffe_id p) \<and>
    (\<exists>w start stop. parse_workload_identity (wp_spiffe_id p) = Inr w \<and>
       peer_bound p w domain env profiles bundle credential \<and>
       wp_certificate_not_before p = Aware start \<and> wp_certificate_not_after p = Aware stop \<and>
       start \<le> now \<and> now < stop \<and> micros stop - micros start \<le> lifetime) \<and>
    q = \<lparr>pr_principal_id = wp_spiffe_id p, pr_kind = InternalServicePrincipal,
         pr_credential_generation = credential, pr_active = True\<rparr>"
proof -
  have "is_identifier (wp_workload_credential_generation p)"
    using assms by (simp add: valid_workload_peer_def)
  then show ?thesis
    using parse_Inr [of "wp_spiffe_id p"]
    by (auto simp: admit_workload_peer_def res_simps peer_bound_def valid_principal_def)
qed

theorem workload_admission_exact_witness:
  "admit_workload_peer sample_workload_peer ''td.example'' EnvDevelopment [''runtime.api@1''] ''b7''
     ''c7'' 10 (Aware (At 5)) =
   Inr \<lparr>pr_principal_id = spiffe_id sample_workload, pr_kind = InternalServicePrincipal,
        pr_credential_generation = ''c7'', pr_active = True\<rparr>"
proof -
  have rendered: "spiffe_id sample_workload =
      ''spiffe://td.example/environment.development@1/runtime.api@1/w1''"
    by (simp add: spiffe_id_def sample_workload_def)
  have "is_segment (wi_runtime_profile_id sample_workload)"
    by (simp add: sample_workload_def is_segment_def segment_char_def char_class_defs)
  with valid_sample_workload
  have "parse_workload_identity (spiffe_id sample_workload) = Inr sample_workload"
    by (rule parse_spiffe_segment)
  moreover have "valid_workload_peer sample_workload_peer"
    by (simp add: valid_workload_peer_def sample_workload_peer_def rendered aware_ordered_def
        grammar_eval explicit_eval)
  moreover have "admission_policy_ok ''td.example'' [''runtime.api@1''] ''b7'' ''c7'' 10"
    by (simp add: admission_policy_ok_def grammar_eval)
  moreover have "peer_bound sample_workload_peer sample_workload ''td.example'' EnvDevelopment
      [''runtime.api@1''] ''b7'' ''c7''"
    by (simp add: peer_bound_def sample_workload_peer_def sample_workload_def)
  moreover have "is_identifier (spiffe_id sample_workload)" unfolding rendered by (simp add: grammar_eval)
  ultimately show ?thesis
    using workload_admission_exact [of sample_workload_peer] by (simp add: sample_workload_peer_def)
qed

end
