(* ===== verification/Admission_Evidence.thy ===== *)
theory Admission_Evidence
  imports Runtime_Profiles "HOL-Library.List_Lexorder" "HOL-Library.Char_ord"
begin

text \<open>
  The evidence records of src/src/jlmirror_authority/control_plane.py: placements,
  authorization decisions, runtime execution evidence, cross-tenant targets and the final
  admission snapshot, each with the check its constructor runs. \<open>_profile_id\<close> is the
  grammar \<open>is_versioned_in\<close> of Authority_Model and \<open>_identifier\<close> is \<open>is_identifier\<close>.
\<close>

section \<open>Placements\<close>

datatype runtime_lifecycle =
    RtProvisioning | RtValidating | RtAdmitted | RtActive | RtDraining | RtQuarantined
  | RtRetired | RtFailed

record placement_evidence =
  pe_tenant_id :: string
  pe_cell_id :: string
  pe_placement_version :: string
  pe_runtime_generation :: string
  pe_runtime_profile_id :: string
  pe_runtime_isolation_class :: string
  pe_configuration_generation :: string
  pe_workload_credential_generation :: string
  pe_network_policy_generation :: string
  pe_environment_class :: environment_class
  pe_isolation_class :: string
  pe_runtime_lifecycle :: runtime_lifecycle
  pe_placement_current :: bool
  pe_operation_eligible :: bool
  pe_cell_admission_current :: bool
  pe_fence_scope_id :: string
  pe_fence_epoch :: int

definition valid_placement :: "placement_evidence \<Rightarrow> bool" where
  "valid_placement e \<longleftrightarrow>
     list_all is_identifier
       [pe_tenant_id e, pe_cell_id e, pe_placement_version e, pe_runtime_generation e,
        pe_configuration_generation e, pe_workload_credential_generation e,
        pe_network_policy_generation e, pe_isolation_class e, pe_fence_scope_id e] \<and>
     is_versioned_in ''runtime.'' (pe_runtime_profile_id e) \<and>
     is_versioned_in ''isolation.'' (pe_runtime_isolation_class e) \<and>
     0 < pe_fence_epoch e"

section \<open>Decisions and executing runtimes\<close>

record authorization_decision =
  az_granted :: bool
  az_current :: bool
  az_policy_revision :: string

definition valid_decision :: "authorization_decision \<Rightarrow> bool" where
  "valid_decision d \<longleftrightarrow> is_identifier (az_policy_revision d)"

record runtime_execution =
  re_runtime_profile_id :: string
  re_principal_class :: string
  re_isolation_class :: string
  re_ingress_profile :: string
  re_runtime_generation :: string
  re_environment_class :: environment_class
  re_runtime_lifecycle :: runtime_lifecycle
  re_current :: bool

definition valid_runtime_execution :: "runtime_execution \<Rightarrow> bool" where
  "valid_runtime_execution e \<longleftrightarrow>
     is_versioned_in ''runtime.'' (re_runtime_profile_id e) \<and>
     is_versioned_in ''principal.'' (re_principal_class e) \<and>
     is_versioned_in ''isolation.'' (re_isolation_class e) \<and>
     is_versioned_in ''ingress.'' (re_ingress_profile e) \<and>
     is_identifier (re_runtime_generation e)"

section \<open>Cross-tenant targets\<close>

record target_binding =
  tb_target_tenant_ids :: "string list"
  tb_selection_criteria_id :: "string option"

text \<open>The constructor sorts the tenant ids, by code points.\<close>

definition target_binding_init :: "string list \<Rightarrow> string option \<Rightarrow> target_binding res" where
  "target_binding_init ids criteria =
     bindR (ensure (list_all is_identifier ids) ValueError) (\<lambda>_.
     bindR (ensure (distinct ids) ValueError) (\<lambda>_.
     bindR (ensure (opt_identifier criteria) ValueError) (\<lambda>_.
     bindR (ensure ((ids \<noteq> []) \<noteq> (criteria \<noteq> None)) ValueError) (\<lambda>_.
     Inr \<lparr>tb_target_tenant_ids = sort ids, tb_selection_criteria_id = criteria\<rparr>))))"

definition valid_target :: "target_binding \<Rightarrow> bool" where
  "valid_target t \<longleftrightarrow>
     list_all is_identifier (tb_target_tenant_ids t) \<and> distinct (tb_target_tenant_ids t) \<and>
     sorted (tb_target_tenant_ids t) \<and> opt_identifier (tb_selection_criteria_id t) \<and>
     (tb_target_tenant_ids t \<noteq> []) \<noteq> (tb_selection_criteria_id t \<noteq> None)"

lemma target_binding_init_Inr [res_simps]:
  "target_binding_init ids criteria = Inr t \<longleftrightarrow>
     list_all is_identifier ids \<and> distinct ids \<and> opt_identifier criteria \<and>
     ((ids \<noteq> []) \<noteq> (criteria \<noteq> None)) \<and>
     t = \<lparr>tb_target_tenant_ids = sort ids, tb_selection_criteria_id = criteria\<rparr>"
  by (auto simp: target_binding_init_def res_simps)

lemma sort_Nil_iff [simp]: "sort xs = [] \<longleftrightarrow> xs = []"
  by (metis length_0_conv length_sort)

lemma target_binding_init_valid:
  "target_binding_init ids criteria = Inr t \<Longrightarrow> valid_target t"
  by (auto simp: res_simps valid_target_def list_all_iff)

text \<open>
  The canonical form does not depend on the order in which the tenants are named: two
  accepted requests have equal bindings exactly when they name the same tenants.
\<close>

lemma target_binding_canonical:
  assumes "target_binding_init ids criteria = Inr t"
    and "target_binding_init ids' criteria' = Inr t'"
  shows "t = t' \<longleftrightarrow> set ids = set ids' \<and> criteria = criteria'"
proof -
  have "distinct ids" "distinct ids'" using assms by (auto simp: res_simps)
  then have "sort ids = sort ids' \<longleftrightarrow> set ids = set ids'"
    using sorted_distinct_set_unique [of "sort ids" "sort ids'"]
    by (metis distinct_sort set_sort sorted_sort)
  with assms show ?thesis by (auto simp: res_simps)
qed

lemma target_binding_init_idem:
  "valid_target t \<Longrightarrow>
     target_binding_init (tb_target_tenant_ids t) (tb_selection_criteria_id t) = Inr t"
  by (cases t) (auto simp: res_simps valid_target_def sorted_sort_id)

section \<open>The final admission snapshot\<close>

record final_evidence =
  fe_granted :: bool
  fe_current :: bool
  fe_admission_revision :: string
  fe_authorization_policy_revision :: string
  fe_principal_authority_revision :: string
  fe_principal_id :: string
  fe_principal_kind :: principal_kind
  fe_principal_credential_generation :: string
  fe_action :: string
  fe_scope :: scope_class
  fe_tenant_requirement :: tenant_requirement
  fe_resource_scope :: "string option"
  fe_cross_tenant_target :: "target_binding option"
  fe_strength_policy_id :: "string option"
  fe_tenant_id :: "string option"
  fe_cell_id :: "string option"
  fe_placement_authority_revision :: "string option"
  fe_placement_version :: "string option"
  fe_runtime_generation :: "string option"
  fe_runtime_profile_id :: "string option"
  fe_runtime_isolation_class :: "string option"
  fe_configuration_generation :: "string option"
  fe_workload_credential_generation :: "string option"
  fe_network_policy_generation :: "string option"
  fe_environment_class :: "environment_class option"
  fe_isolation_class :: "string option"
  fe_fence_scope_id :: "string option"
  fe_fence_epoch :: "int option"
  fe_strength_policy_revision :: "string option"
  fe_executing_runtime_authority_revision :: "string option"
  fe_executing_runtime_profile_id :: "string option"
  fe_executing_runtime_generation :: "string option"
  fe_executing_runtime_environment_class :: "environment_class option"

definition given :: "('a \<Rightarrow> bool) \<Rightarrow> 'a option \<Rightarrow> bool" where
  "given P x = (case x of None \<Rightarrow> False | Some v \<Rightarrow> P v)"

lemma given_iff: "given P x \<longleftrightarrow> (\<exists>v. x = Some v \<and> P v)"
  by (auto simp: given_def split: option.splits)

text \<open>The tenant bindings that are identifiers, in the order of the code.\<close>

definition tenant_identifiers :: "final_evidence \<Rightarrow> string option list" where
  "tenant_identifiers e =
     [fe_tenant_id e, fe_cell_id e, fe_placement_authority_revision e, fe_placement_version e,
      fe_runtime_generation e, fe_configuration_generation e,
      fe_workload_credential_generation e, fe_network_policy_generation e,
      fe_isolation_class e, fe_fence_scope_id e]"

definition tenant_bindings_absent :: "final_evidence \<Rightarrow> bool" where
  "tenant_bindings_absent e \<longleftrightarrow>
     list_all (\<lambda>x. x = None) (tenant_identifiers e) \<and>
     fe_runtime_profile_id e = None \<and> fe_runtime_isolation_class e = None \<and>
     fe_environment_class e = None \<and> fe_fence_epoch e = None"

text \<open>All or nothing: a partial tenant binding raises as a malformed one does.\<close>

definition tenant_bindings_complete :: "final_evidence \<Rightarrow> bool" where
  "tenant_bindings_complete e \<longleftrightarrow>
     list_all (given is_identifier) (tenant_identifiers e) \<and>
     given (is_versioned_in ''runtime.'') (fe_runtime_profile_id e) \<and>
     given (is_versioned_in ''isolation.'') (fe_runtime_isolation_class e) \<and>
     fe_environment_class e \<noteq> None \<and> given (\<lambda>n. 0 < n) (fe_fence_epoch e)"

definition valid_final_evidence :: "final_evidence \<Rightarrow> bool" where
  "valid_final_evidence e \<longleftrightarrow>
     list_all is_identifier
       [fe_admission_revision e, fe_authorization_policy_revision e,
        fe_principal_authority_revision e, fe_principal_id e,
        fe_principal_credential_generation e, fe_action e] \<and>
     list_all opt_identifier
       [fe_resource_scope e, fe_strength_policy_id e, fe_strength_policy_revision e] \<and>
     (tenant_bindings_absent e \<or> tenant_bindings_complete e) \<and>
     given is_identifier (fe_executing_runtime_authority_revision e) \<and>
     given (is_versioned_in ''runtime.'') (fe_executing_runtime_profile_id e) \<and>
     given is_identifier (fe_executing_runtime_generation e) \<and>
     fe_executing_runtime_environment_class e \<noteq> None"

text \<open>A tenantless snapshot has no tenant binding of any kind.\<close>

lemma final_evidence_tenantless:
  "valid_final_evidence e \<Longrightarrow> fe_tenant_id e = None \<Longrightarrow> tenant_bindings_absent e"
  by (auto simp: valid_final_evidence_def tenant_bindings_complete_def tenant_identifiers_def
      given_iff)

end
