(* ===== verification/Browser.thy ===== *)
theory Browser
  imports Authority_Model
begin

text \<open>
  src/src/jlmirror_authority/browser.py: the authorization-code transaction of a browser
  login, its completion and the check of authentication strength. SHA-256 and its
  URL-safe form are the parameters \<open>sha\<close> and \<open>challenge\<close>, the values drawn from
  \<open>secrets\<close> are arguments, and the ports are functions or operations.
\<close>

section \<open>Transactions\<close>

definition url_token_char :: "char \<Rightarrow> bool" where
  "url_token_char c \<longleftrightarrow> is_alnum c \<or> c \<in> set ''_-''"

text \<open>\<open>^[A-Za-z0-9_-]{32}$\<close>\<close>

definition is_transaction_id :: "string \<Rightarrow> bool" where
  "is_transaction_id s \<longleftrightarrow> length s = 32 \<and> list_all url_token_char s"

definition is_hex_digest :: "string \<Rightarrow> bool" where
  "is_hex_digest d \<longleftrightarrow> length d = 64 \<and> list_all (\<lambda>c. is_digit c \<or> code_in 97 102 c) d"

text \<open>\<open>^[A-Za-z0-9._~-]{43,128}$\<close>\<close>

definition is_pkce_verifier :: "string \<Rightarrow> bool" where
  "is_pkce_verifier s \<longleftrightarrow>
     43 \<le> length s \<and> length s \<le> 128 \<and> list_all (\<lambda>c. is_alnum c \<or> c \<in> set ''._~-'') s"

record auth_transaction =
  bt_transaction_id :: string
  bt_initiating_session_digest :: string
  bt_state_digest :: string
  bt_nonce_digest :: string
  bt_pkce_verifier :: string
  bt_expected_issuer :: string
  bt_expected_client_id :: string
  bt_expected_redirect_uri :: string
  bt_created_at :: datetime
  bt_expires_at :: datetime

definition valid_auth_transaction :: "auth_transaction \<Rightarrow> bool" where
  "valid_auth_transaction t \<longleftrightarrow>
     is_transaction_id (bt_transaction_id t) \<and>
     is_hex_digest (bt_initiating_session_digest t) \<and> is_hex_digest (bt_state_digest t) \<and>
     is_hex_digest (bt_nonce_digest t) \<and>
     is_pkce_verifier (bt_pkce_verifier t) \<and>
     is_explicit (bt_expected_issuer t) \<and> is_explicit (bt_expected_client_id t) \<and>
     is_explicit (bt_expected_redirect_uri t) \<and>
     aware_ordered (bt_created_at t) (bt_expires_at t)"

record auth_initiation =
  bi_transaction :: auth_transaction
  bi_state :: string
  bi_nonce :: string
  bi_pkce_challenge :: string

record browser_draws =
  dr_state :: string
  dr_nonce :: string
  dr_verifier :: string
  dr_transaction_id :: string

definition begin_browser_auth ::
  "(string \<Rightarrow> string) \<Rightarrow> (string \<Rightarrow> string) \<Rightarrow> string \<Rightarrow> string \<Rightarrow> string \<Rightarrow> string \<Rightarrow> datetime \<Rightarrow>
   int \<Rightarrow> browser_draws \<Rightarrow> auth_initiation res" where
  "begin_browser_auth sha challenge session_binding issuer client_id redirect_uri now lifetime
     draws =
     bindR (aware now) (\<lambda>t.
     bindR (ensure (is_explicit session_binding \<and> is_explicit issuer \<and> is_explicit client_id \<and>
                    is_explicit redirect_uri) ValueError) (\<lambda>_.
     bindR (ensure (0 < lifetime) ValueError) (\<lambda>_.
     bindR (ensure (is_pkce_verifier (dr_verifier draws)) RuntimeError) (\<lambda>_.
     bindR (construct valid_auth_transaction ValueError
       \<lparr>bt_transaction_id = dr_transaction_id draws,
        bt_initiating_session_digest = sha session_binding,
        bt_state_digest = sha (dr_state draws), bt_nonce_digest = sha (dr_nonce draws),
        bt_pkce_verifier = dr_verifier draws, bt_expected_issuer = issuer,
        bt_expected_client_id = client_id, bt_expected_redirect_uri = redirect_uri,
        bt_created_at = Aware t, bt_expires_at = Aware (At (micros t + lifetime))\<rparr>)
       (\<lambda>transaction.
     Inr \<lparr>bi_transaction = transaction, bi_state = dr_state draws, bi_nonce = dr_nonce draws,
          bi_pkce_challenge = challenge (dr_verifier draws)\<rparr>)))))"

section \<open>Completion\<close>

record oidc_identity =
  oi_principal_id :: string
  oi_issuer :: string
  oi_client_id :: string
  oi_nonce :: string
  oi_authenticated_at :: datetime
  oi_token_expires_at :: datetime
  oi_acr :: "string option"
  oi_amr :: "string set"
  oi_policy_version :: string

type_synonym 's consume_transaction = "string \<Rightarrow> ('s, auth_transaction option) op"
type_synonym oidc_port =
  "string \<Rightarrow> string \<Rightarrow> string \<Rightarrow> string \<Rightarrow> string \<Rightarrow> oidc_identity reply"

definition transaction_current :: "auth_transaction \<Rightarrow> instant \<Rightarrow> bool res" where
  "transaction_current t now = window_contains (bt_created_at t) (Aware now) (bt_expires_at t)"

definition exchange_and_verify :: "oidc_port \<Rightarrow> string \<Rightarrow> auth_transaction \<Rightarrow> oidc_identity res" where
  "exchange_and_verify oidc code t =
     (case oidc code (bt_pkce_verifier t) (bt_expected_issuer t) (bt_expected_client_id t)
        (bt_expected_redirect_uri t) of
        Raised e \<Rightarrow> Inl e
      | Malformed \<Rightarrow> Inl AdmissionDenied
      | Returned v \<Rightarrow> Inr v)"

definition session_principal :: "auth_transaction \<Rightarrow> oidc_identity \<Rightarrow> principal" where
  "session_principal t v =
     \<lparr>pr_principal_id = oi_principal_id v, pr_kind = HumanBrowserSession,
      pr_credential_generation = ''session:'' @ bt_transaction_id t, pr_active = True\<rparr>"

definition oidc_strength :: "auth_transaction \<Rightarrow> oidc_identity \<Rightarrow> strength_evidence" where
  "oidc_strength t v =
     \<lparr>se_issuer = oi_issuer v, se_acr = oi_acr v, se_amr = oi_amr v,
      se_authenticated_at = oi_authenticated_at v,
      se_evidence_expires_at = oi_token_expires_at v, se_policy_version = oi_policy_version v,
      se_principal_id = Some (oi_principal_id v),
      se_principal_credential_generation = Some (''session:'' @ bt_transaction_id t)\<rparr>"

text \<open>The \<open>try\<close> block of the completion: its \<open>ValueError\<close>s become \<open>AdmissionDenied\<close>.\<close>

definition accept_identity ::
  "(string \<Rightarrow> string) \<Rightarrow> auth_transaction \<Rightarrow> oidc_identity \<Rightarrow> instant \<Rightarrow>
   (principal \<times> strength_evidence) res" where
  "accept_identity sha t v now =
     rethrow (\<lambda>e. e \<in> {ValueError, TypeError}) AdmissionDenied
       (bindR (ensure (oi_issuer v = bt_expected_issuer t \<and>
                       oi_client_id v = bt_expected_client_id t) AdmissionDenied) (\<lambda>_.
        bindR (ensure (bt_nonce_digest t = sha (oi_nonce v)) AdmissionDenied) (\<lambda>_.
        bindR (window_contains (oi_authenticated_at v) (Aware now) (oi_token_expires_at v))
          (\<lambda>current.
        bindR (ensure current AdmissionDenied) (\<lambda>_.
        bindR (construct valid_principal ValueError (session_principal t v)) (\<lambda>p.
        bindR (construct valid_strength_evidence ValueError (oidc_strength t v)) (\<lambda>e.
        Inr (p, e))))))))"

definition complete_browser_auth ::
  "(string \<Rightarrow> string) \<Rightarrow> 's consume_transaction \<Rightarrow> oidc_port \<Rightarrow> string \<Rightarrow> string \<Rightarrow> string \<Rightarrow>
   string \<Rightarrow> datetime \<Rightarrow> ('s, principal \<times> strength_evidence) op" where
  "complete_browser_auth sha consume oidc transaction_id session_binding returned_state code
     observed_now =
     bindS (liftS (aware observed_now)) (\<lambda>now.
     thenS (ensureS (is_transaction_id transaction_id) AdmissionDenied)
    (thenS (ensureS (is_explicit session_binding \<and> is_explicit returned_state \<and>
                     is_explicit code) AdmissionDenied)
    (bindS (consume transaction_id) (\<lambda>reply.
    (case reply of
       None \<Rightarrow> raiseS AdmissionDenied
     | Some t \<Rightarrow>
         thenS (ensureS (bt_transaction_id t = transaction_id) AdmissionDenied)
        (bindS (liftS (transaction_current t now)) (\<lambda>current.
         thenS (ensureS current AdmissionDenied)
        (thenS (ensureS (bt_initiating_session_digest t = sha session_binding) AdmissionDenied)
        (thenS (ensureS (bt_state_digest t = sha returned_state) AdmissionDenied)
        (bindS (liftS (exchange_and_verify oidc code t)) (\<lambda>v.
         liftS (accept_identity sha t v now))))))))))))"

section \<open>Authentication strength\<close>

type_synonym 's strength_policy = "string \<Rightarrow> strength_evidence \<Rightarrow> instant \<Rightarrow> ('s, bool) call"

definition policy_permits ::
  "'s strength_policy \<Rightarrow> string \<Rightarrow> strength_evidence \<Rightarrow> datetime \<Rightarrow> ('s, unit) op" where
  "policy_permits policy policy_id e now =
     bindS (liftS (aware now)) (\<lambda>t.
     bindS (open_call (policy policy_id e t)) (\<lambda>b. ensureS b AdmissionDenied))"

definition require_authentication_strength ::
  "'s strength_policy \<Rightarrow> string \<Rightarrow> strength_evidence option \<Rightarrow> datetime \<Rightarrow> principal option \<Rightarrow>
   ('s, unit) op" where
  "require_authentication_strength policy policy_id evidence now who =
     (case who of
        None \<Rightarrow> raiseS AdmissionDenied
      | Some p \<Rightarrow>
          thenS (ensureS (pr_active p) AdmissionDenied)
         (thenS (ensureS (is_human_kind (pr_kind p)) AdmissionDenied)
         (case evidence of
            None \<Rightarrow> raiseS AdmissionDenied
          | Some e \<Rightarrow>
              bindS (liftS (rethrow (\<lambda>x. x = ValueError) AdmissionDenied
                              (strength_is_current e now))) (\<lambda>current.
              thenS (ensureS current AdmissionDenied)
             (thenS (ensureS (se_principal_id e = Some (pr_principal_id p)) AdmissionDenied)
             (thenS (ensureS (se_principal_credential_generation e =
                              Some (pr_credential_generation p)) AdmissionDenied)
             (policy_permits policy policy_id e now)))))))"

lemma policy_permits_ok [res_simps]:
  "policy_permits policy policy_id e now s = (Inr u, s') \<longleftrightarrow>
     (\<exists>t. now = Aware t \<and> policy policy_id e t s = (Returned True, s'))"
  by (cases now) (auto simp: policy_permits_def res_simps)

lemma require_authentication_strength_ok [res_simps]:
  "require_authentication_strength policy policy_id evidence now who s = (Inr u, s') \<longleftrightarrow>
     (\<exists>p e t. who = Some p \<and> evidence = Some e \<and> now = Aware t \<and> pr_active p \<and>
        is_human_kind (pr_kind p) \<and> strength_is_current e now = Inr True \<and>
        se_principal_id e = Some (pr_principal_id p) \<and>
        se_principal_credential_generation e = Some (pr_credential_generation p) \<and>
        policy policy_id e t s = (Returned True, s'))"
proof (cases who)
  case None
  then show ?thesis by (simp add: require_authentication_strength_def)
next
  case w: (Some p)
  show ?thesis
  proof (cases evidence)
    case None
    with w show ?thesis by (simp add: require_authentication_strength_def ensure_def)
  next
    case (Some e)
    with w show ?thesis
      by (cases "strength_is_current e now")
        (auto simp: require_authentication_strength_def res_simps ensure_def)
  qed
qed

section \<open>What a login establishes\<close>

lemma begin_browser_auth_Inr:
  assumes "begin_browser_auth sha challenge binding issuer client redirect now lifetime draws =
    Inr init"
  shows "\<exists>t. now = Aware t \<and> 0 < lifetime \<and> init =
      \<lparr>bi_transaction =
        \<lparr>bt_transaction_id = dr_transaction_id draws, bt_initiating_session_digest = sha binding,
         bt_state_digest = sha (dr_state draws), bt_nonce_digest = sha (dr_nonce draws),
         bt_pkce_verifier = dr_verifier draws, bt_expected_issuer = issuer,
         bt_expected_client_id = client, bt_expected_redirect_uri = redirect,
         bt_created_at = Aware t, bt_expires_at = Aware (At (micros t + lifetime))\<rparr>,
       bi_state = dr_state draws, bi_nonce = dr_nonce draws,
       bi_pkce_challenge = challenge (dr_verifier draws)\<rparr>"
    and "valid_auth_transaction (bi_transaction init)"
  using assms by (auto simp: begin_browser_auth_def res_simps)

lemma session_generation_identifier:
  assumes "is_transaction_id tid"
  shows "is_identifier (''session:'' @ tid)"
proof -
  have "list_all id_char tid"
    using assms by (auto simp: is_transaction_id_def list_all_iff url_token_char_def id_char_def)
  then show ?thesis
    using assms by (simp add: is_transaction_id_def grammar_eval)
qed

lemma transaction_current_iff:
  assumes "bt_created_at t = Aware a" and "bt_expires_at t = Aware b"
  shows "transaction_current t now = Inr (a \<le> now \<and> now < b)"
  using assms by (simp add: transaction_current_def window_contains_def)

text \<open>Every way in which the evidence is refused denies the admission.\<close>

definition identity_acceptable ::
  "(string \<Rightarrow> string) \<Rightarrow> auth_transaction \<Rightarrow> oidc_identity \<Rightarrow> instant \<Rightarrow> bool" where
  "identity_acceptable sha t v now \<longleftrightarrow>
     oi_issuer v = bt_expected_issuer t \<and> oi_client_id v = bt_expected_client_id t \<and>
     sha (oi_nonce v) = bt_nonce_digest t \<and>
     window_contains (oi_authenticated_at v) (Aware now) (oi_token_expires_at v) = Inr True \<and>
     is_identifier (oi_principal_id v) \<and> valid_strength_evidence (oidc_strength t v)"

lemma accept_identity_iff:
  assumes tid: "is_transaction_id (bt_transaction_id t)"
  shows "accept_identity sha t v now =
    (if identity_acceptable sha t v now then Inr (session_principal t v, oidc_strength t v)
     else Inl AdmissionDenied)"
proof -
  have p: "valid_principal (session_principal t v) = is_identifier (oi_principal_id v)"
    using session_generation_identifier [OF tid]
    by (simp add: valid_principal_def session_principal_def)
  show ?thesis
  proof (cases "window_contains (oi_authenticated_at v) (Aware now) (oi_token_expires_at v)")
    case (Inl e)
    then have "e = ValueError"
      by (auto simp: window_contains_def bindR_Inl_iff aware_Inl_iff split: if_splits)
    with Inl show ?thesis
      by (simp add: accept_identity_def identity_acceptable_def ensure_def)
  next
    case (Inr b)
    then show ?thesis
      by (simp add: accept_identity_def identity_acceptable_def ensure_def construct_def p
          eq_commute [of "bt_nonce_digest t"])
  qed
qed

section \<open>A sample login\<close>

definition sample_sha :: "string \<Rightarrow> string" where
  "sample_sha s = replicate 64 (if s = ''browser'' then CHR ''a'' else CHR ''b'')"

definition sample_draws :: browser_draws where
  "sample_draws =
     \<lparr>dr_state = ''st'', dr_nonce = ''nc'', dr_verifier = replicate 64 (CHR ''v''),
      dr_transaction_id = replicate 32 (CHR ''t'')\<rparr>"

definition sample_transaction :: auth_transaction where
  "sample_transaction =
     \<lparr>bt_transaction_id = replicate 32 (CHR ''t''),
      bt_initiating_session_digest = sample_sha ''browser'', bt_state_digest = sample_sha ''st'',
      bt_nonce_digest = sample_sha ''nc'', bt_pkce_verifier = replicate 64 (CHR ''v''),
      bt_expected_issuer = ''iss'', bt_expected_client_id = ''cli'',
      bt_expected_redirect_uri = ''uri'', bt_created_at = Aware (At 0),
      bt_expires_at = Aware (At 9)\<rparr>"

definition sample_identity :: oidc_identity where
  "sample_identity =
     \<lparr>oi_principal_id = ''u'', oi_issuer = ''iss'', oi_client_id = ''cli'', oi_nonce = ''nc'',
      oi_authenticated_at = Aware (At 2), oi_token_expires_at = Aware (At 8), oi_acr = None,
      oi_amr = {''otp''}, oi_policy_version = ''p''\<rparr>"

text \<open>An authority that hands its transaction out once.\<close>

definition consume_once :: "auth_transaction option consume_transaction" where
  "consume_once = (\<lambda>tid s. (Inr s, None))"

definition sample_initiation :: auth_initiation where
  "sample_initiation =
     \<lparr>bi_transaction = sample_transaction, bi_state = ''st'', bi_nonce = ''nc'',
      bi_pkce_challenge = ''c''\<rparr>"

lemma sample_login_begun:
  "begin_browser_auth sample_sha (\<lambda>_. ''c'') ''browser'' ''iss'' ''cli'' ''uri'' (Aware (At 0)) 9
     sample_draws = Inr sample_initiation"
  by (simp add: begin_browser_auth_def sample_draws_def sample_initiation_def
      sample_transaction_def construct_def valid_auth_transaction_def explicit_eval
      is_pkce_verifier_def is_transaction_id_def is_hex_digest_def sample_sha_def url_token_char_def
      aware_ordered_def list_all_iff)

lemma sample_accepted:
  "valid_strength_evidence (oidc_strength sample_transaction sample_identity)"
  by (simp add: valid_strength_evidence_def oidc_strength_def sample_transaction_def
      sample_identity_def aware_ordered_def grammar_eval list_all_iff)

lemma sample_login:
  "complete_browser_auth sample_sha consume_once (\<lambda>_ _ _ _ _. Returned sample_identity)
     (dr_transaction_id sample_draws) ''browser'' ''st'' ''code'' (Aware (At 5))
     (Some sample_transaction) =
   (Inr (session_principal sample_transaction sample_identity,
         oidc_strength sample_transaction sample_identity), None)"
proof -
  have tid: "is_transaction_id (bt_transaction_id sample_transaction)"
    by (simp add: sample_transaction_def is_transaction_id_def url_token_char_def char_class_defs
        list_all_iff)
  have "identity_acceptable sample_sha sample_transaction sample_identity (At 5)"
    using sample_accepted by (simp add: identity_acceptable_def sample_transaction_def
        sample_identity_def window_contains_def grammar_eval less_instant_def)
  moreover have "transaction_current sample_transaction (At 5) = Inr True"
    by (simp add: transaction_current_def sample_transaction_def window_contains_def less_instant_def)
  moreover have "dr_transaction_id sample_draws = bt_transaction_id sample_transaction"
    "bt_initiating_session_digest sample_transaction = sample_sha ''browser''"
    "bt_state_digest sample_transaction = sample_sha ''st''"
    by (simp_all add: sample_draws_def sample_transaction_def)
  ultimately show ?thesis
    using tid by (simp add: complete_browser_auth_def consume_once_def exchange_and_verify_def
        accept_identity_iff bindS_apply explicit_eval)
qed

text \<open>C40: a login that was begun is completed by the browser that began it and by nobody
  else; the outcome of every completion is determined. For a transaction issued by
  \<open>begin_browser_auth\<close> and still stored, whatever is returned with it: inputs that are not
  explicit are denied and the transaction stays; otherwise it is consumed. Outside its
  lifetime, or when the session binding or the returned state has another digest than the
  one issued, the login is denied without asking the provider. Then the provider is asked
  with the issued verifier: an exception of it is passed on, an answer that is no identity is
  denied, and an identity is accepted, as a session of a principal bound to this very
  transaction, exactly if it is current, canonical, from the expected issuer and client and
  its nonce has the digest that was issued.\<close>

theorem browser_login_round_trip:
  assumes begun: "begin_browser_auth sha challenge binding issuer client redirect (Aware t0)
      lifetime draws = Inr init"
    and consumed: "consume (dr_transaction_id draws) s = (Inr (Some (bi_transaction init)), s')"
  shows "complete_browser_auth sha consume oidc (dr_transaction_id draws) binding' state code
      (Aware now) s =
    (if \<not> (is_explicit binding' \<and> is_explicit state \<and> is_explicit code) then (Inl AdmissionDenied, s)
     else if \<not> (t0 \<le> now \<and> micros now < micros t0 + lifetime) \<or>
        sha binding' \<noteq> sha binding \<or> sha state \<noteq> sha (bi_state init) then (Inl AdmissionDenied, s')
     else (case oidc code (dr_verifier draws) issuer client redirect of
        Raised e \<Rightarrow> (Inl e, s')
      | Malformed \<Rightarrow> (Inl AdmissionDenied, s')
      | Returned v \<Rightarrow>
          (if oi_issuer v = issuer \<and> oi_client_id v = client \<and>
              sha (oi_nonce v) = sha (bi_nonce init) \<and>
              window_contains (oi_authenticated_at v) (Aware now) (oi_token_expires_at v) = Inr True \<and>
              is_identifier (oi_principal_id v) \<and>
              valid_strength_evidence (oidc_strength (bi_transaction init) v)
           then Inr (session_principal (bi_transaction init) v, oidc_strength (bi_transaction init) v)
           else Inl AdmissionDenied, s')))"
proof -
  define t where "t = bi_transaction init"
  note facts = begin_browser_auth_Inr [OF begun]
  have fields: "bt_transaction_id t = dr_transaction_id draws"
      "bt_initiating_session_digest t = sha binding" "bt_state_digest t = sha (bi_state init)"
      "bt_nonce_digest t = sha (bi_nonce init)" "bt_pkce_verifier t = dr_verifier draws"
      "bt_expected_issuer t = issuer" "bt_expected_client_id t = client"
      "bt_expected_redirect_uri t = redirect"
      "bt_created_at t = Aware t0" "bt_expires_at t = Aware (At (micros t0 + lifetime))"
    using facts(1) by (auto simp: t_def)
  have tid: "is_transaction_id (bt_transaction_id t)"
    using facts(2) by (simp add: t_def valid_auth_transaction_def)
  have current: "transaction_current t now = Inr (t0 \<le> now \<and> micros now < micros t0 + lifetime)"
    by (simp add: transaction_current_iff [OF fields(9,10)] less_instant_def)
  have exchange: "exchange_and_verify oidc code t =
      (case oidc code (dr_verifier draws) issuer client redirect of
         Raised e \<Rightarrow> Inl e | Malformed \<Rightarrow> Inl AdmissionDenied | Returned v \<Rightarrow> Inr v)"
    by (simp add: exchange_and_verify_def fields)
  note consumed' = consumed [folded t_def]
  show ?thesis
    using tid
    by (simp add: complete_browser_auth_def fields consumed' current exchange ensure_def
        accept_identity_iff [OF tid] identity_acceptable_def t_def [symmetric]
        eq_commute [of "sha binding"] eq_commute [of "sha (bi_state init)"] split: reply.split)
qed

theorem browser_login_round_trip_witness:
  "complete_browser_auth sample_sha consume_once (\<lambda>_ _ _ _ _. Returned sample_identity)
     (dr_transaction_id sample_draws) ''browser'' ''st'' ''code'' (Aware (At 5))
     (Some sample_transaction) =
   (Inr (session_principal sample_transaction sample_identity,
         oidc_strength sample_transaction sample_identity), None)"
proof -
  have "consume_once (dr_transaction_id sample_draws) (Some sample_transaction) =
    (Inr (Some (bi_transaction sample_initiation)), None)"
    by (simp add: consume_once_def sample_initiation_def)
  note round_trip = browser_login_round_trip [where sha = sample_sha and challenge = "\<lambda>_. ''c''"
      and binding = "''browser''" and issuer = "''iss''" and client = "''cli''"
      and redirect = "''uri''" and ?t0.0 = "At 0" and lifetime = 9 and draws = sample_draws
      and init = sample_initiation and consume = consume_once and s = "Some sample_transaction"
      and s' = None and oidc = "\<lambda>_ _ _ _ _. Returned sample_identity"
      and now = "At 5" and binding' = "''browser''" and state = "''st''" and code = "''code''",
      OF sample_login_begun this]
  show ?thesis
    using sample_accepted
    by (subst round_trip)
      (simp_all add: explicit_eval sample_initiation_def sample_identity_def window_contains_def
        grammar_eval less_instant_def)
qed

text \<open>The strength a login establishes is usable by its principal only. After a
  successful completion the evidence passes \<open>require_authentication_strength\<close> at that
  moment for exactly the active human principals with the identity and the credential
  generation of the login, and for them exactly if the policy answers literally true.\<close>

theorem login_strength_not_transferable:
  assumes completed: "complete_browser_auth sha consume oidc tid binding state code now s =
      (Inr (p, e), t)"
  shows "require_authentication_strength policy policy_id (Some e) now (Some q) u = (Inr (), u') \<longleftrightarrow>
    pr_active q \<and> is_human_kind (pr_kind q) \<and> pr_principal_id q = pr_principal_id p \<and>
    pr_credential_generation q = ''session:'' @ tid \<and>
    (\<exists>n. now = Aware n \<and> policy policy_id e n u = (Returned True, u'))"
proof -
  obtain n tx v where n: "now = Aware n" and tx: "bt_transaction_id tx = tid" "is_transaction_id tid"
    and acc: "accept_identity sha tx v n = Inr (p, e)"
    using completed unfolding complete_browser_auth_def
    by (auto simp: res_simps ensure_def split: option.splits if_splits sum.splits)
  have ok: "identity_acceptable sha tx v n" "p = session_principal tx v" "e = oidc_strength tx v"
    using acc tx by (auto simp: accept_identity_iff split: if_splits)
  then have "strength_is_current e (Aware n) = Inr True"
    by (simp add: identity_acceptable_def strength_is_current_def oidc_strength_def)
  then show ?thesis
    using ok tx n by (auto simp: require_authentication_strength_ok session_principal_def
        oidc_strength_def)
qed

theorem login_strength_not_transferable_witness:
  "require_authentication_strength (\<lambda>_ _ _ n. (Returned True, Suc n)) ''pol''
     (Some (oidc_strength sample_transaction sample_identity)) (Aware (At 5))
     (Some (session_principal sample_transaction sample_identity)) 0 = (Inr (), 1)"
  using login_strength_not_transferable [OF sample_login,
      where policy = "\<lambda>_ _ _ n. (Returned True, Suc n)" and policy_id = "''pol''"
        and q = "session_principal sample_transaction sample_identity" and u = 0 and u' = 1]
  by (simp add: session_principal_def is_human_kind_def sample_transaction_def sample_draws_def)

end
