(* ===== verification/Control_Plane.thy ===== *)
theory Control_Plane
  imports Admission_Evidence Browser
begin

text \<open>
  src/src/jlmirror_authority/control_plane.py: the construction of tenant contexts and the
  admission of protected operations. The authorities are calls on the state of their
  environment: between two calls of one admission everything may have changed. A call
  answers \<open>Malformed\<close> for every value that is not of the expected class, \<open>None\<close>
  included, and a missing authority is \<open>None\<close>.
\<close>

section \<open>The authorities\<close>

record 's authorities =
  au_principal :: "(principal \<Rightarrow> instant \<Rightarrow> ('s, bool) call) option"
  au_placement :: "string \<Rightarrow> ('s, placement_evidence) call"
  au_context :: "tenant_context \<Rightarrow> ('s, bool) call"
  au_authorization ::
    "principal \<Rightarrow> tenant_context option \<Rightarrow> authorization_declaration \<Rightarrow>
     ('s, authorization_decision) call"
  au_strength :: "'s strength_policy option"
  au_runtime :: "(instant \<Rightarrow> ('s, runtime_execution) call) option"
  au_final ::
    "(principal \<Rightarrow> tenant_context option \<Rightarrow> authorization_declaration \<Rightarrow> runtime_binding \<Rightarrow>
      strength_evidence option \<Rightarrow> target_binding option \<Rightarrow> ('s, final_evidence) call) option"

section \<open>The single gates\<close>

definition require_current_principal ::
  "'s authorities \<Rightarrow> principal \<Rightarrow> datetime \<Rightarrow> ('s, unit) op" where
  "require_current_principal a p now =
     thenS (ensureS (pr_active p) AdmissionDenied)
     (case au_principal a of
        None \<Rightarrow> raiseS AdmissionDenied
      | Some is_current \<Rightarrow>
          bindS (liftS (rethrow (\<lambda>_. True) AdmissionDenied (aware now))) (\<lambda>t.
          bindS (closed_call (is_current p t)) (\<lambda>b. ensureS b AdmissionDenied)))"

definition placement_is_admissible :: "placement_evidence \<Rightarrow> bool" where
  "placement_is_admissible e \<longleftrightarrow>
     pe_runtime_lifecycle e = RtActive \<and> pe_placement_current e \<and> pe_operation_eligible e \<and>
     pe_cell_admission_current e \<and> 0 < pe_fence_epoch e"

definition placement_matches_runtime_binding ::
  "placement_evidence \<Rightarrow> runtime_binding \<Rightarrow> bool" where
  "placement_matches_runtime_binding e b \<longleftrightarrow>
     pe_runtime_profile_id e = rb_runtime_profile_id b \<and>
     pe_runtime_isolation_class e = rb_isolation_class b \<and>
     pe_environment_class e \<in> rb_allowed_environment_classes b"

definition context_matches_runtime_binding :: "tenant_context \<Rightarrow> runtime_binding \<Rightarrow> bool" where
  "context_matches_runtime_binding c b \<longleftrightarrow>
     tc_runtime_profile_id c = rb_runtime_profile_id b \<and>
     tc_runtime_isolation_class c = rb_isolation_class b \<and>
     tc_environment_class c \<in> rb_allowed_environment_classes b"

definition placement_matches_context :: "placement_evidence \<Rightarrow> tenant_context \<Rightarrow> bool" where
  "placement_matches_context e c \<longleftrightarrow>
     placement_is_admissible e \<and>
     pe_tenant_id e = tc_tenant_id c \<and>
     pe_cell_id e = tc_cell_id c \<and>
     pe_placement_version e = tc_placement_version c \<and>
     pe_runtime_generation e = tc_runtime_generation c \<and>
     pe_runtime_profile_id e = tc_runtime_profile_id c \<and>
     pe_runtime_isolation_class e = tc_runtime_isolation_class c \<and>
     pe_configuration_generation e = tc_configuration_generation c \<and>
     pe_workload_credential_generation e = tc_workload_credential_generation c \<and>
     pe_network_policy_generation e = tc_network_policy_generation c \<and>
     pe_environment_class e = tc_environment_class c \<and>
     pe_isolation_class e = tc_isolation_class c \<and>
     pe_fence_scope_id e = tc_fence_scope_id c \<and>
     pe_fence_epoch e = tc_fence_epoch c"

definition require_wave1_runtime_binding :: "runtime_binding \<Rightarrow> unit res" where
  "require_wave1_runtime_binding b = ensure (b \<in> set wave1_runtime_bindings) AdmissionDenied"

definition execution_matches_binding :: "runtime_execution \<Rightarrow> runtime_binding \<Rightarrow> bool" where
  "execution_matches_binding e b \<longleftrightarrow>
     re_runtime_profile_id e = rb_runtime_profile_id b \<and>
     re_principal_class e = rb_principal_class b \<and>
     re_isolation_class e = rb_isolation_class b \<and>
     re_ingress_profile e = rb_ingress_profile b"

definition require_current_runtime_execution ::
  "'s authorities \<Rightarrow> runtime_binding \<Rightarrow> datetime \<Rightarrow> ('s, runtime_execution) op" where
  "require_current_runtime_execution a b now =
     thenS (liftS (require_wave1_runtime_binding b))
     (case au_runtime a of
        None \<Rightarrow> raiseS AdmissionDenied
      | Some resolve \<Rightarrow>
          bindS (liftS (rethrow (\<lambda>_. True) AdmissionDenied (aware now))) (\<lambda>t.
          bindS (closed_call (resolve t)) (\<lambda>e.
          thenS (ensureS (re_current e \<and> re_runtime_lifecycle e = RtActive) AdmissionDenied)
         (thenS (ensureS (execution_matches_binding e b) AdmissionDenied)
         (thenS (liftS (admit_environment b (re_environment_class e)))
         (returnS e))))))"

definition privileged_classes :: "audit_class set" where
  "privileged_classes = {AuditPrivileged, AuditSecurityCritical}"

definition require_privileged_human_assurance_declaration ::
  "principal \<Rightarrow> authorization_declaration \<Rightarrow> unit res" where
  "require_privileged_human_assurance_declaration p d =
     ensure (\<not> (is_human_kind (pr_kind p) \<and> ad_audit_class d \<in> privileged_classes \<and>
                ad_step_up d = StepUpNone)) AdmissionDenied"

definition require_declared_authentication_strength ::
  "'s authorities \<Rightarrow> principal \<Rightarrow> authorization_declaration \<Rightarrow> strength_evidence option \<Rightarrow>
   datetime \<Rightarrow> ('s, unit) op" where
  "require_declared_authentication_strength a p d strength now =
     (if ad_step_up d = StepUpNone then returnS ()
      else
        (case (ad_strength_policy_id d, au_strength a) of
           (Some policy_id, Some policy) \<Rightarrow>
             thenS (ensureS (policy_id \<noteq> []) AdmissionDenied)
            (bindS (liftS (aware now)) (\<lambda>t.
             require_authentication_strength policy policy_id strength (Aware t) (Some p)))
         | _ \<Rightarrow> raiseS AdmissionDenied))"

definition evaluate_current_authorization ::
  "'s authorities \<Rightarrow> principal \<Rightarrow> tenant_context option \<Rightarrow> authorization_declaration \<Rightarrow>
   ('s, authorization_decision) op" where
  "evaluate_current_authorization a p context d =
     bindS (closed_call (au_authorization a p context d)) (\<lambda>decision.
     thenS (ensureS (az_current decision) AdmissionDenied)
    (thenS (ensureS (az_granted decision) AdmissionDenied)
    (returnS decision)))"

section \<open>The final admission\<close>

definition final_binds_request ::
  "final_evidence \<Rightarrow> principal \<Rightarrow> authorization_declaration \<Rightarrow> target_binding option \<Rightarrow> bool" where
  "final_binds_request e p d target \<longleftrightarrow>
     fe_principal_id e = pr_principal_id p \<and>
     fe_principal_kind e = pr_kind p \<and>
     fe_principal_credential_generation e = pr_credential_generation p \<and>
     fe_action e = ad_action d \<and>
     fe_scope e = ad_scope d \<and>
     fe_tenant_requirement e = canonical_requirement d \<and>
     fe_resource_scope e = ad_resource_scope d \<and>
     fe_cross_tenant_target e = target \<and>
     fe_strength_policy_id e = ad_strength_policy_id d"

fun final_binds_context :: "final_evidence \<Rightarrow> tenant_context option \<Rightarrow> bool" where
  "final_binds_context e None = (fe_tenant_id e = None)"
| "final_binds_context e (Some c) =
     (fe_tenant_id e = Some (tc_tenant_id c) \<and>
      fe_cell_id e = Some (tc_cell_id c) \<and>
      fe_placement_version e = Some (tc_placement_version c) \<and>
      fe_runtime_generation e = Some (tc_runtime_generation c) \<and>
      fe_runtime_profile_id e = Some (tc_runtime_profile_id c) \<and>
      fe_runtime_isolation_class e = Some (tc_runtime_isolation_class c) \<and>
      fe_configuration_generation e = Some (tc_configuration_generation c) \<and>
      fe_workload_credential_generation e = Some (tc_workload_credential_generation c) \<and>
      fe_network_policy_generation e = Some (tc_network_policy_generation c) \<and>
      fe_environment_class e = Some (tc_environment_class c) \<and>
      fe_isolation_class e = Some (tc_isolation_class c) \<and>
      fe_fence_scope_id e = Some (tc_fence_scope_id c) \<and>
      fe_fence_epoch e = Some (tc_fence_epoch c) \<and>
      fe_placement_authority_revision e \<noteq> None)"

definition final_binds_strength ::
  "final_evidence \<Rightarrow> authorization_declaration \<Rightarrow> strength_evidence option \<Rightarrow> bool" where
  "final_binds_strength e d strength \<longleftrightarrow>
     (if ad_step_up d = StepUpNone then fe_strength_policy_revision e = None
      else (case strength of
              None \<Rightarrow> False
            | Some x \<Rightarrow> fe_strength_policy_revision e = Some (se_policy_version x)))"

definition final_binds_runtime ::
  "final_evidence \<Rightarrow> authorization_declaration \<Rightarrow> runtime_binding \<Rightarrow> runtime_execution option \<Rightarrow>
   bool" where
  "final_binds_runtime e d b latest \<longleftrightarrow>
     fe_executing_runtime_authority_revision e \<noteq> None \<and>
     fe_executing_runtime_profile_id e = Some (rb_runtime_profile_id b) \<and>
     fe_executing_runtime_generation e \<noteq> None \<and>
     (case fe_executing_runtime_environment_class e of
        None \<Rightarrow> False
      | Some env \<Rightarrow> admit_environment b env = Inr ()) \<and>
     (case latest of
        None \<Rightarrow> True
      | Some l \<Rightarrow>
          fe_executing_runtime_profile_id e = Some (re_runtime_profile_id l) \<and>
          fe_executing_runtime_generation e = Some (re_runtime_generation l) \<and>
          fe_executing_runtime_environment_class e = Some (re_environment_class l)) \<and>
     (canonical_requirement d = ExplicitCrossTenantPrivileged \<longrightarrow>
        fe_executing_runtime_profile_id e = Some (rb_runtime_profile_id control_plane))"

definition finalize_current_admission ::
  "'s authorities \<Rightarrow> principal \<Rightarrow> tenant_context option \<Rightarrow> authorization_declaration \<Rightarrow>
   runtime_binding \<Rightarrow> strength_evidence option \<Rightarrow> runtime_execution option \<Rightarrow>
   target_binding option \<Rightarrow> ('s, authorization_decision) op" where
  "finalize_current_admission a p context d b strength latest target =
     (case au_final a of
        None \<Rightarrow> raiseS AdmissionDenied
      | Some finalize \<Rightarrow>
          bindS (closed_call (finalize p context d b strength target)) (\<lambda>e.
          thenS (ensureS (fe_current e \<and> fe_granted e) AdmissionDenied)
         (thenS (ensureS (final_binds_request e p d target) AdmissionDenied)
         (thenS (ensureS (final_binds_context e context) AdmissionDenied)
         (thenS (ensureS (final_binds_strength e d strength) AdmissionDenied)
         (thenS (ensureS (final_binds_runtime e d b latest) AdmissionDenied)
         (liftS (construct valid_decision ValueError
            \<lparr>az_granted = True, az_current = True,
             az_policy_revision = fe_authorization_policy_revision e\<rparr>))))))))"

section \<open>Construction of a tenant context\<close>

text \<open>What the caller says about the destination cell, and the request's trace ids.\<close>

record destination =
  dn_tenant_id :: string
  dn_cell_id :: string
  dn_runtime_generation :: string
  dn_configuration_generation :: string
  dn_workload_credential_generation :: string
  dn_network_policy_generation :: string
  dn_required_environment :: environment_class

record trace_ids =
  tr_request_id :: "string option"
  tr_correlation_id :: "string option"
  tr_causation_id :: "string option"
  tr_operation_id :: "string option"

definition canonical_destination :: "destination \<Rightarrow> bool" where
  "canonical_destination w \<longleftrightarrow>
     list_all is_identifier
       [dn_tenant_id w, dn_cell_id w, dn_runtime_generation w, dn_configuration_generation w,
        dn_workload_credential_generation w, dn_network_policy_generation w]"

definition placement_at_destination :: "placement_evidence \<Rightarrow> destination \<Rightarrow> bool" where
  "placement_at_destination e w \<longleftrightarrow>
     pe_tenant_id e = dn_tenant_id w \<and>
     pe_cell_id e = dn_cell_id w \<and>
     pe_runtime_generation e = dn_runtime_generation w \<and>
     pe_configuration_generation e = dn_configuration_generation w \<and>
     pe_workload_credential_generation e = dn_workload_credential_generation w \<and>
     pe_network_policy_generation e = dn_network_policy_generation w \<and>
     pe_environment_class e = dn_required_environment w"

definition context_of ::
  "principal \<Rightarrow> placement_evidence \<Rightarrow> instant \<Rightarrow> trace_ids \<Rightarrow> tenant_context" where
  "context_of p e now ids =
     \<lparr>tc_tenant_id = pe_tenant_id e, tc_principal_id = pr_principal_id p,
      tc_principal_kind = pr_kind p,
      tc_principal_credential_generation = pr_credential_generation p,
      tc_cell_id = pe_cell_id e, tc_placement_version = pe_placement_version e,
      tc_runtime_generation = pe_runtime_generation e,
      tc_runtime_profile_id = pe_runtime_profile_id e,
      tc_runtime_isolation_class = pe_runtime_isolation_class e,
      tc_configuration_generation = pe_configuration_generation e,
      tc_workload_credential_generation = pe_workload_credential_generation e,
      tc_network_policy_generation = pe_network_policy_generation e,
      tc_environment_class = pe_environment_class e, tc_isolation_class = pe_isolation_class e,
      tc_fence_scope_id = pe_fence_scope_id e, tc_fence_epoch = pe_fence_epoch e,
      tc_constructed_at = Aware now, tc_membership_id = None, tc_authorization_context = None,
      tc_request_id = tr_request_id ids, tc_correlation_id = tr_correlation_id ids,
      tc_causation_id = tr_causation_id ids, tc_operation_id = tr_operation_id ids\<rparr>"

definition construct_tenant_context ::
  "'s authorities \<Rightarrow> principal \<Rightarrow> destination \<Rightarrow> datetime \<Rightarrow> trace_ids \<Rightarrow> runtime_binding \<Rightarrow>
   ('s, tenant_context) op" where
  "construct_tenant_context a p w now ids b =
     thenS (require_current_principal a p now)
    (thenS (liftS (require_wave1_runtime_binding b))
    (thenS (ensureS (canonical_destination w) AdmissionDenied)
    (bindS (open_call (au_placement a (dn_tenant_id w))) (\<lambda>e.
     thenS (ensureS (placement_at_destination e w) AdmissionDenied)
    (thenS (liftS (admit_environment b (pe_environment_class e)))
    (thenS (ensureS (placement_matches_runtime_binding e b) AdmissionDenied)
    (thenS (ensureS (placement_is_admissible e) AdmissionDenied)
    (thenS (require_current_principal a p now)
    (bindS (liftS (rethrow (\<lambda>x. x \<in> {TypeError, ValueError}) AdmissionDenied (aware now))) (\<lambda>t.
     liftS (construct valid_tenant_context AdmissionDenied (context_of p e t ids))))))))))))"

section \<open>Admission of a protected operation\<close>

text \<open>The placement checks, run before and after the authorization is evaluated.\<close>

definition placement_gate ::
  "'s authorities \<Rightarrow> runtime_binding \<Rightarrow> tenant_context \<Rightarrow> ('s, unit) op" where
  "placement_gate a b c =
     bindS (open_call (au_context a c)) (\<lambda>current.
     thenS (ensureS current AdmissionDenied)
    (bindS (open_call (au_placement a (tc_tenant_id c))) (\<lambda>e.
     thenS (ensureS (placement_matches_context e c) AdmissionDenied)
    (ensureS (placement_matches_runtime_binding e b) AdmissionDenied))))"

definition require_context ::
  "'s authorities \<Rightarrow> principal \<Rightarrow> runtime_binding \<Rightarrow> tenant_context option \<Rightarrow> ('s, unit) op" where
  "require_context a p b context =
     (case context of
        None \<Rightarrow> returnS ()
      | Some c \<Rightarrow>
          thenS (ensureS (matches_principal c p) AdmissionDenied)
         (thenS (ensureS (context_matches_runtime_binding c b) AdmissionDenied)
         (placement_gate a b c)))"

definition recheck_context ::
  "'s authorities \<Rightarrow> runtime_binding \<Rightarrow> tenant_context option \<Rightarrow> ('s, unit) op" where
  "recheck_context a b context =
     (case context of None \<Rightarrow> returnS () | Some c \<Rightarrow> placement_gate a b c)"

definition tenant_scoped :: "authorization_declaration \<Rightarrow> bool" where
  "tenant_scoped d \<longleftrightarrow> ad_scope d \<in> {ScopeTenant, ScopeResource}"

abbreviation cross_tenant :: "authorization_declaration \<Rightarrow> bool" where
  "cross_tenant d \<equiv> canonical_requirement d = ExplicitCrossTenantPrivileged"

definition cross_tenant_gate ::
  "'s authorities \<Rightarrow> principal \<Rightarrow> authorization_declaration \<Rightarrow> runtime_binding \<Rightarrow>
   tenant_context option \<Rightarrow> datetime \<Rightarrow> ('s, unit) op" where
  "cross_tenant_gate a p d b context now =
     (if cross_tenant d then
        thenS (ensureS (b = control_plane) AdmissionDenied)
       (bindS (require_current_runtime_execution a control_plane now) (\<lambda>_.
        thenS (ensureS (context = None) AdmissionDenied)
       (thenS (ensureS (pr_kind p = PlatformAdminPrincipal) AdmissionDenied)
       (ensureS (ad_audit_class d \<in> privileged_classes) AdmissionDenied))))
      else returnS ())"

definition latest_runtime ::
  "'s authorities \<Rightarrow> authorization_declaration \<Rightarrow> datetime \<Rightarrow> ('s, runtime_execution option) op" where
  "latest_runtime a d now =
     (if cross_tenant d then
        bindS (require_current_runtime_execution a control_plane now) (\<lambda>e. returnS (Some e))
      else returnS None)"

definition authorize_protected_operation ::
  "'s authorities \<Rightarrow> principal \<Rightarrow> authorization_declaration \<Rightarrow> tenant_context option \<Rightarrow> datetime \<Rightarrow>
   strength_evidence option \<Rightarrow> runtime_binding \<Rightarrow> target_binding option \<Rightarrow>
   ('s, authorization_decision) op" where
  "authorize_protected_operation a p d context now strength b target =
     thenS (require_current_principal a p now)
    (thenS (liftS (require_wave1_runtime_binding b))
    (thenS (liftS (require_privileged_human_assurance_declaration p d))
    (thenS (ensureS (cross_tenant d \<longleftrightarrow> target \<noteq> None) AdmissionDenied)
    (thenS (ensureS (tenant_scoped d \<longrightarrow> b = api_auth_boundary) AdmissionDenied)
    (thenS (ensureS (canonical_requirement d = TenantRequired \<longrightarrow> context \<noteq> None) AdmissionDenied)
    (thenS (cross_tenant_gate a p d b context now)
    (thenS (require_context a p b context)
    (thenS (ensureS (tenant_scoped d \<longrightarrow> context \<noteq> None) AdmissionDenied)
    (thenS (require_declared_authentication_strength a p d strength now)
    (thenS (require_current_principal a p now)
    (bindS (evaluate_current_authorization a p context d) (\<lambda>_.
     thenS (recheck_context a b context)
    (thenS (require_declared_authentication_strength a p d strength now)
    (thenS (require_current_principal a p now)
    (bindS (latest_runtime a d now) (\<lambda>latest.
     bindS (evaluate_current_authorization a p context d) (\<lambda>_.
     finalize_current_admission a p context d b strength latest target)))))))))))))))))"

section \<open>What the gates have established when they return\<close>

lemma require_current_principal_returns [res_simps]:
  "require_current_principal a p now s = (Inr u, t) \<longleftrightarrow>
     pr_active p \<and>
     (\<exists>f n. au_principal a = Some f \<and> now = Aware n \<and> f p n s = (Returned True, t))"
  by (cases "au_principal a") (auto simp: require_current_principal_def res_simps)

lemma require_current_runtime_execution_returns [res_simps]:
  "require_current_runtime_execution a b now s = (Inr e, t) \<longleftrightarrow>
     b \<in> set wave1_runtime_bindings \<and> re_current e \<and> re_runtime_lifecycle e = RtActive \<and>
     execution_matches_binding e b \<and>
     re_environment_class e \<in> rb_allowed_environment_classes b \<and>
     (\<exists>f n. au_runtime a = Some f \<and> now = Aware n \<and> f n s = (Returned e, t))"
  by (cases "au_runtime a")
    (auto simp: require_current_runtime_execution_def require_wave1_runtime_binding_def
      admit_environment_def res_simps ensure_def)

lemma evaluate_current_authorization_returns [res_simps]:
  "evaluate_current_authorization a p context d s = (Inr r, t) \<longleftrightarrow>
     az_current r \<and> az_granted r \<and> au_authorization a p context d s = (Returned r, t)"
  by (auto simp: evaluate_current_authorization_def res_simps)

lemma declared_strength_returns [res_simps]:
  "require_declared_authentication_strength a p d strength now s = (Inr u, t) \<longleftrightarrow>
     (if ad_step_up d = StepUpNone then s = t
      else (\<exists>policy_id policy x n.
        ad_strength_policy_id d = Some policy_id \<and> policy_id \<noteq> [] \<and>
        au_strength a = Some policy \<and> strength = Some x \<and> now = Aware n \<and>
        pr_active p \<and> is_human_kind (pr_kind p) \<and>
        strength_is_current x now = Inr True \<and>
        se_principal_id x = Some (pr_principal_id p) \<and>
        se_principal_credential_generation x = Some (pr_credential_generation p) \<and>
        policy policy_id x n s = (Returned True, t)))"
  by (cases "ad_strength_policy_id d"; cases "au_strength a"; cases now)
    (auto simp: require_declared_authentication_strength_def res_simps)

lemma placement_gate_returns [res_simps]:
  "placement_gate a b c s = (Inr u, t) \<longleftrightarrow>
     (\<exists>s' e. au_context a c s = (Returned True, s') \<and>
        au_placement a (tc_tenant_id c) s' = (Returned e, t) \<and>
        placement_matches_context e c \<and> placement_matches_runtime_binding e b)"
  by (auto simp: placement_gate_def res_simps)

lemma finalize_returns [res_simps]:
  "finalize_current_admission a p context d b strength latest target s = (Inr r, t) \<longleftrightarrow>
     (\<exists>f e. au_final a = Some f \<and> f p context d b strength target s = (Returned e, t) \<and>
        fe_current e \<and> fe_granted e \<and> final_binds_request e p d target \<and>
        final_binds_context e context \<and> final_binds_strength e d strength \<and>
        final_binds_runtime e d b latest \<and>
        is_identifier (fe_authorization_policy_revision e) \<and>
        r = \<lparr>az_granted = True, az_current = True,
             az_policy_revision = fe_authorization_policy_revision e\<rparr>)"
  by (cases "au_final a")
    (auto simp: finalize_current_admission_def res_simps valid_decision_def)

text \<open>
  An admission that returns passed every gate in order, each on the state the previous one
  left behind.
\<close>

definition static_gates ::
  "principal \<Rightarrow> authorization_declaration \<Rightarrow> tenant_context option \<Rightarrow> runtime_binding \<Rightarrow>
   target_binding option \<Rightarrow> bool" where
  "static_gates p d context b target \<longleftrightarrow>
     b \<in> set wave1_runtime_bindings \<and>
     \<not> (is_human_kind (pr_kind p) \<and> ad_audit_class d \<in> privileged_classes \<and>
        ad_step_up d = StepUpNone) \<and>
     (cross_tenant d \<longleftrightarrow> target \<noteq> None) \<and>
     (tenant_scoped d \<longrightarrow> b = api_auth_boundary) \<and>
     (canonical_requirement d = TenantRequired \<longrightarrow> context \<noteq> None) \<and>
     (tenant_scoped d \<longrightarrow> context \<noteq> None)"

lemma authorize_returns:
  "authorize_protected_operation a p d context now strength b target s = (Inr r, t) \<longleftrightarrow>
     static_gates p d context b target \<and>
     (\<exists>s1 s2 s3 s4 s5 s6 s7 s8 s9 s10 s11 d1 d2 latest.
        require_current_principal a p now s = (Inr (), s1) \<and>
        cross_tenant_gate a p d b context now s1 = (Inr (), s2) \<and>
        require_context a p b context s2 = (Inr (), s3) \<and>
        require_declared_authentication_strength a p d strength now s3 = (Inr (), s4) \<and>
        require_current_principal a p now s4 = (Inr (), s5) \<and>
        evaluate_current_authorization a p context d s5 = (Inr d1, s6) \<and>
        recheck_context a b context s6 = (Inr (), s7) \<and>
        require_declared_authentication_strength a p d strength now s7 = (Inr (), s8) \<and>
        require_current_principal a p now s8 = (Inr (), s9) \<and>
        latest_runtime a d now s9 = (Inr latest, s10) \<and>
        evaluate_current_authorization a p context d s10 = (Inr d2, s11) \<and>
        finalize_current_admission a p context d b strength latest target s11 = (Inr r, t))"
  unfolding authorize_protected_operation_def static_gates_def sequence_returns
    require_wave1_runtime_binding_def require_privileged_human_assurance_declaration_def
  apply (rule iffI)
   apply (elim exE conjE)
   apply (simp (no_asm_use) only: ensureS_returns_iff)
   apply (elim conjE)
   apply hypsubst
   apply (intro conjI exI; assumption)
  apply (elim exE conjE)
  apply (intro conjI exI; (assumption | rule ensureS_passes, assumption))
  done

lemma cross_tenant_gate_returns [res_simps]:
  "cross_tenant_gate a p d b context now s = (Inr u, t) \<longleftrightarrow>
     (if cross_tenant d then
        b = control_plane \<and> context = None \<and> pr_kind p = PlatformAdminPrincipal \<and>
        ad_audit_class d \<in> privileged_classes \<and>
        (\<exists>e. require_current_runtime_execution a control_plane now s = (Inr e, t))
      else s = t)"
  by (auto simp: cross_tenant_gate_def sequence_returns ensureS_returns_iff ensure_Inr_iff)

lemma latest_runtime_returns [res_simps]:
  "latest_runtime a d now s = (Inr latest, t) \<longleftrightarrow>
     (if cross_tenant d then
        (\<exists>e. require_current_runtime_execution a control_plane now s = (Inr e, t) \<and>
             latest = Some e)
      else s = t \<and> latest = None)"
  by (auto simp: latest_runtime_def sequence_returns)

lemma require_context_returns [res_simps]:
  "require_context a p b context s = (Inr u, t) \<longleftrightarrow>
     (case context of
        None \<Rightarrow> s = t
      | Some c \<Rightarrow> matches_principal c p \<and> context_matches_runtime_binding c b \<and>
                  placement_gate a b c s = (Inr (), t))"
  by (auto simp: require_context_def sequence_returns ensureS_returns_iff ensure_Inr_iff
      split: option.splits)

lemma recheck_context_returns [res_simps]:
  "recheck_context a b context s = (Inr u, t) \<longleftrightarrow>
     (case context of None \<Rightarrow> s = t | Some c \<Rightarrow> placement_gate a b c s = (Inr (), t))"
  by (auto simp: recheck_context_def split: option.splits)

text \<open>
  The final authority is always asked last, about exactly this request, and its answer is
  the only source of the decision.
\<close>

lemma authorize_asks_final_authority:
  assumes "authorize_protected_operation a p d context now strength b target s = (Inr r, t)"
  obtains f e u latest where
    "au_final a = Some f" "f p context d b strength target u = (Returned e, t)"
    "fe_granted e" "fe_current e" "final_binds_request e p d target"
    "final_binds_context e context" "final_binds_strength e d strength"
    "final_binds_runtime e d b latest"
    "r = \<lparr>az_granted = True, az_current = True,
          az_policy_revision = fe_authorization_policy_revision e\<rparr>"
  using assms unfolding authorize_returns finalize_returns by blast

section \<open>Cross-tenant operations\<close>

text \<open>C4: a privileged cross-tenant operation is admitted from the control plane only, by an
  active platform administrator with a current, principal-bound authentication strength
  that the declared policy accepts, and without any tenant context. The final authority
  then granted exactly this action for exactly the requested targets, executing on the
  control-plane runtime that was last observed to be current and active, and its policy
  revision is what the decision carries.\<close>

theorem cross_tenant_admission_gated:
  assumes ok: "authorize_protected_operation a p d context now strength b target s = (Inr r, t)"
    and cross: "cross_tenant d"
  shows "b = control_plane \<and> context = None \<and> pr_active p \<and>
    pr_kind p = PlatformAdminPrincipal \<and> ad_audit_class d \<in> privileged_classes \<and>
    (\<exists>x n policy policy_id u v. strength = Some x \<and> now = Aware n \<and>
       strength_is_current x now = Inr True \<and> se_principal_id x = Some (pr_principal_id p) \<and>
       se_principal_credential_generation x = Some (pr_credential_generation p) \<and>
       ad_strength_policy_id d = Some policy_id \<and> au_strength a = Some policy \<and>
       policy policy_id x n u = (Returned True, v)) \<and>
    (\<exists>f g e l n tb u u' v. au_final a = Some f \<and> au_runtime a = Some g \<and> now = Aware n \<and>
       target = Some tb \<and> g n u = (Returned l, u') \<and> re_current l \<and>
       re_runtime_lifecycle l = RtActive \<and> execution_matches_binding l control_plane \<and>
       f p None d control_plane strength target v = (Returned e, t) \<and> fe_granted e \<and>
       fe_current e \<and> fe_cross_tenant_target e = Some tb \<and> fe_tenant_id e = None \<and>
       fe_principal_id e = pr_principal_id p \<and> fe_action e = ad_action d \<and>
       fe_executing_runtime_generation e = Some (re_runtime_generation l) \<and>
       r = \<lparr>az_granted = True, az_current = True,
            az_policy_revision = fe_authorization_policy_revision e\<rparr>)"
proof -
  from ok obtain s1 s2 s3 s4 s7 s8 s9 s10 s11 latest where
    static: "static_gates p d context b target" and
    steps: "require_current_principal a p now s = (Inr (), s1)"
      "cross_tenant_gate a p d b context now s1 = (Inr (), s2)"
      "require_declared_authentication_strength a p d strength now s7 = (Inr (), s8)"
      "latest_runtime a d now s9 = (Inr latest, s10)"
      "finalize_current_admission a p context d b strength latest target s11 = (Inr r, t)"
    unfolding authorize_returns by blast
  have gate: "b = control_plane" "context = None" "pr_kind p = PlatformAdminPrincipal"
      "ad_audit_class d \<in> privileged_classes" "pr_active p"
    using steps(1,2) cross by (auto simp: res_simps)
  then have "ad_step_up d \<noteq> StepUpNone"
    using static by (simp add: static_gates_def is_human_kind_def)
  then obtain policy_id policy x n where strength: "ad_strength_policy_id d = Some policy_id"
      "au_strength a = Some policy" "strength = Some x" "now = Aware n"
      "strength_is_current x now = Inr True" "se_principal_id x = Some (pr_principal_id p)"
      "se_principal_credential_generation x = Some (pr_credential_generation p)"
      "policy policy_id x n s7 = (Returned True, s8)"
    using steps(3) by (auto simp: declared_strength_returns)
  obtain l g where runtime: "latest = Some l" "au_runtime a = Some g"
      "g n s9 = (Returned l, s10)" "re_current l" "re_runtime_lifecycle l = RtActive"
      "execution_matches_binding l control_plane"
    using steps(4) cross strength(4)
    by (auto simp: latest_runtime_returns require_current_runtime_execution_returns)
  obtain tb where target: "target = Some tb" using static cross by (auto simp: static_gates_def)
  obtain f e where final: "au_final a = Some f"
      "f p None d control_plane strength target s11 = (Returned e, t)" "fe_granted e"
      "fe_current e" "final_binds_request e p d target" "final_binds_context e None"
      "final_binds_runtime e d control_plane (Some l)"
      "r = \<lparr>az_granted = True, az_current = True,
            az_policy_revision = fe_authorization_policy_revision e\<rparr>"
    using steps(5) gate(1,2) runtime(1) by (auto simp: finalize_returns)
  have bound: "fe_cross_tenant_target e = Some tb" "fe_principal_id e = pr_principal_id p"
      "fe_action e = ad_action d" "fe_tenant_id e = None"
      "fe_executing_runtime_generation e = Some (re_runtime_generation l)"
    using final(5,6,7) target by (simp_all add: final_binds_request_def final_binds_runtime_def)
  show ?thesis
    using gate strength runtime target final(1-4,8) bound by blast
qed

text \<open>A sample: an administrator reads two tenants from the control plane.\<close>

definition sample_admin :: principal where
  "sample_admin =
     \<lparr>pr_principal_id = ''root'', pr_kind = PlatformAdminPrincipal,
      pr_credential_generation = ''g1'', pr_active = True\<rparr>"

definition sample_strength :: strength_evidence where
  "sample_strength =
     \<lparr>se_issuer = ''iss'', se_acr = None, se_amr = {''otp''}, se_authenticated_at = Aware (At 1),
      se_evidence_expires_at = Aware (At 9), se_policy_version = ''pv'',
      se_principal_id = Some ''root'', se_principal_credential_generation = Some ''g1''\<rparr>"

definition sample_declaration :: authorization_declaration where
  "sample_declaration =
     \<lparr>ad_action = ''a.b.c'', ad_scope = ScopePlatform, ad_tenant_required = False,
      ad_step_up = StepUpRequired, ad_audit_class = AuditPrivileged, ad_resource_scope = None,
      ad_strength_policy_id = Some ''mfa'',
      ad_tenant_requirement = Some ExplicitCrossTenantPrivileged\<rparr>"

definition sample_target :: target_binding where
  "sample_target = \<lparr>tb_target_tenant_ids = [''t1'', ''t2''], tb_selection_criteria_id = None\<rparr>"

definition sample_execution :: runtime_execution where
  "sample_execution =
     \<lparr>re_runtime_profile_id = rb_runtime_profile_id control_plane,
      re_principal_class = rb_principal_class control_plane,
      re_isolation_class = rb_isolation_class control_plane,
      re_ingress_profile = rb_ingress_profile control_plane, re_runtime_generation = ''rg'',
      re_environment_class = EnvProduction, re_runtime_lifecycle = RtActive, re_current = True\<rparr>"

definition sample_final :: final_evidence where
  "sample_final =
     \<lparr>fe_granted = True, fe_current = True, fe_admission_revision = ''r1'',
      fe_authorization_policy_revision = ''r2'', fe_principal_authority_revision = ''r3'',
      fe_principal_id = ''root'', fe_principal_kind = PlatformAdminPrincipal,
      fe_principal_credential_generation = ''g1'', fe_action = ''a.b.c'',
      fe_scope = ScopePlatform, fe_tenant_requirement = ExplicitCrossTenantPrivileged,
      fe_resource_scope = None, fe_cross_tenant_target = Some sample_target,
      fe_strength_policy_id = Some ''mfa'', fe_tenant_id = None, fe_cell_id = None,
      fe_placement_authority_revision = None, fe_placement_version = None,
      fe_runtime_generation = None, fe_runtime_profile_id = None,
      fe_runtime_isolation_class = None, fe_configuration_generation = None,
      fe_workload_credential_generation = None, fe_network_policy_generation = None,
      fe_environment_class = None, fe_isolation_class = None, fe_fence_scope_id = None,
      fe_fence_epoch = None, fe_strength_policy_revision = Some ''pv'',
      fe_executing_runtime_authority_revision = Some ''r4'',
      fe_executing_runtime_profile_id = Some (rb_runtime_profile_id control_plane),
      fe_executing_runtime_generation = Some ''rg'',
      fe_executing_runtime_environment_class = Some EnvProduction\<rparr>"

text \<open>The state of this environment counts the calls.\<close>

definition sample_authorities :: "nat authorities" where
  "sample_authorities =
     \<lparr>au_principal = Some (\<lambda>_ _ n. (Returned True, Suc n)),
      au_placement = (\<lambda>_ n. (Malformed, Suc n)), au_context = (\<lambda>_ n. (Returned False, Suc n)),
      au_authorization = (\<lambda>_ _ _ n. (Returned
        \<lparr>az_granted = True, az_current = True, az_policy_revision = ''old''\<rparr>, Suc n)),
      au_strength = Some (\<lambda>_ _ _ n. (Returned True, Suc n)),
      au_runtime = Some (\<lambda>_ n. (Returned sample_execution, Suc n)),
      au_final = Some (\<lambda>_ _ _ _ _ _ n. (Returned sample_final, Suc n))\<rparr>"

lemma sample_cross_tenant:
  "authorize_protected_operation sample_authorities sample_admin sample_declaration None
     (Aware (At 5)) (Some sample_strength) control_plane (Some sample_target) 0 =
   (Inr \<lparr>az_granted = True, az_current = True, az_policy_revision = ''r2''\<rparr>, 10)"
proof -
  note evals = sample_authorities_def sample_admin_def sample_declaration_def
  have static: "static_gates sample_admin sample_declaration None control_plane (Some sample_target)"
    by (simp add: static_gates_def evals is_human_kind_def canonical_requirement_def
        tenant_scoped_def wave1_runtime_bindings_def)
  have principal: "require_current_principal sample_authorities sample_admin (Aware (At 5)) n =
      (Inr (), Suc n)" for n
    by (simp add: require_current_principal_returns evals)
  have runtime: "require_current_runtime_execution sample_authorities control_plane (Aware (At 5)) n =
      (Inr sample_execution, Suc n)" for n
    by (simp add: require_current_runtime_execution_returns evals sample_execution_def
        wave1_runtime_bindings_def execution_matches_binding_def control_plane_def
        serving_environments_def)
  have cross: "cross_tenant sample_declaration" by (simp add: evals canonical_requirement_def)
  have gate: "cross_tenant_gate sample_authorities sample_admin sample_declaration control_plane None
      (Aware (At 5)) n = (Inr (), Suc n)" for n
    using runtime cross by (simp add: cross_tenant_gate_returns privileged_classes_def evals)
  have strength: "require_declared_authentication_strength sample_authorities sample_admin
      sample_declaration (Some sample_strength) (Aware (At 5)) n = (Inr (), Suc n)" for n
    by (simp add: declared_strength_returns evals sample_strength_def is_human_kind_def
        strength_is_current_def window_contains_def less_instant_def)
  have authorization: "evaluate_current_authorization sample_authorities sample_admin None
      sample_declaration n =
      (Inr \<lparr>az_granted = True, az_current = True, az_policy_revision = ''old''\<rparr>, Suc n)" for n
    by (simp add: evaluate_current_authorization_returns evals)
  have latest: "latest_runtime sample_authorities sample_declaration (Aware (At 5)) n =
      (Inr (Some sample_execution), Suc n)" for n
    using runtime cross by (simp add: latest_runtime_returns)
  have contexts: "require_context sample_authorities sample_admin control_plane None n = (Inr (), n)"
      "recheck_context sample_authorities control_plane None n = (Inr (), n)" for n
    by (simp_all add: require_context_def recheck_context_def)
  have final: "finalize_current_admission sample_authorities sample_admin None sample_declaration
      control_plane (Some sample_strength) (Some sample_execution) (Some sample_target) n =
      (Inr \<lparr>az_granted = True, az_current = True, az_policy_revision = ''r2''\<rparr>, Suc n)" for n
    by (simp add: finalize_returns evals sample_final_def final_binds_request_def
        final_binds_strength_def final_binds_runtime_def canonical_requirement_def
        sample_strength_def sample_execution_def admit_environment_def control_plane_def
        serving_environments_def grammar_eval)
  show ?thesis
    unfolding authorize_returns
    by (simp add: static principal gate contexts strength authorization latest final)
qed

theorem cross_tenant_admission_gated_witness:
  "\<exists>x. Some sample_strength = Some x \<and> pr_kind sample_admin = PlatformAdminPrincipal \<and>
     se_principal_id x = Some (pr_principal_id sample_admin)"
  using cross_tenant_admission_gated [OF sample_cross_tenant]
  by (auto simp: sample_declaration_def canonical_requirement_def)

section \<open>Operations of a tenant\<close>

text \<open>C3: an operation admitted under a tenant context is admitted for that tenant and that
  principal only. The context is the principal's own and fits the runtime that serves it;
  directly after the owning authorization was granted the placement authority still placed
  the tenant exactly as the context says, fence epoch included; and the final authority
  then granted this action for this tenant, cell, runtime and fence epoch. A context never
  serves a cross-tenant operation.\<close>

theorem tenant_admission_bound:
  assumes ok: "authorize_protected_operation a p d (Some c) now strength b target s = (Inr r, t)"
  shows "matches_principal c p \<and> context_matches_runtime_binding c b \<and>
    (tenant_scoped d \<longrightarrow> b = api_auth_boundary) \<and> \<not> cross_tenant d \<and> target = None \<and>
    (\<exists>d1 e u u0 u1 u2. au_authorization a p (Some c) d u = (Returned d1, u0) \<and> az_granted d1 \<and>
       az_current d1 \<and> au_context a c u0 = (Returned True, u1) \<and>
       au_placement a (tc_tenant_id c) u1 = (Returned e, u2) \<and>
       placement_matches_context e c \<and> placement_matches_runtime_binding e b) \<and>
    (\<exists>f e u. au_final a = Some f \<and> f p (Some c) d b strength None u = (Returned e, t) \<and>
       fe_granted e \<and> fe_current e \<and> fe_principal_id e = pr_principal_id p \<and>
       fe_action e = ad_action d \<and> fe_resource_scope e = ad_resource_scope d \<and>
       fe_tenant_id e = Some (tc_tenant_id c) \<and> fe_cell_id e = Some (tc_cell_id c) \<and>
       fe_runtime_generation e = Some (tc_runtime_generation c) \<and>
       fe_fence_scope_id e = Some (tc_fence_scope_id c) \<and>
       fe_fence_epoch e = Some (tc_fence_epoch c) \<and>
       r = \<lparr>az_granted = True, az_current = True,
            az_policy_revision = fe_authorization_policy_revision e\<rparr>)"
proof -
  from ok obtain s1 s2 s3 s5 s6 s7 d1 where
    static: "static_gates p d (Some c) b target" and
    steps: "cross_tenant_gate a p d b (Some c) now s1 = (Inr (), s2)"
      "require_context a p b (Some c) s2 = (Inr (), s3)"
      "evaluate_current_authorization a p (Some c) d s5 = (Inr d1, s6)"
      "recheck_context a b (Some c) s6 = (Inr (), s7)"
    unfolding authorize_returns by blast
  have "\<not> cross_tenant d" using steps(1) by (auto simp: cross_tenant_gate_returns)
  then have target: "target = None" using static by (auto simp: static_gates_def)
  have own: "matches_principal c p" "context_matches_runtime_binding c b"
    using steps(2) by (auto simp: require_context_returns)
  have recheck: "\<exists>e u1 u2. au_context a c s6 = (Returned True, u1) \<and>
      au_placement a (tc_tenant_id c) u1 = (Returned e, u2) \<and> placement_matches_context e c \<and>
      placement_matches_runtime_binding e b"
    using steps(4) by (auto simp: recheck_context_returns placement_gate_returns)
  have granted: "az_granted d1" "az_current d1" "au_authorization a p (Some c) d s5 = (Returned d1, s6)"
    using steps(3) by (auto simp: evaluate_current_authorization_returns)
  obtain f e u where final: "au_final a = Some f"
      "f p (Some c) d b strength target u = (Returned e, t)"
      "fe_granted e" "fe_current e" "final_binds_request e p d target"
      "final_binds_context e (Some c)"
      "r = \<lparr>az_granted = True, az_current = True,
            az_policy_revision = fe_authorization_policy_revision e\<rparr>"
    using ok by (rule authorize_asks_final_authority)
  show ?thesis
    using final recheck granted own target static \<open>\<not> cross_tenant d\<close>
    by (simp add: final_binds_request_def static_gates_def) blast
qed

section \<open>Failing closed\<close>

text \<open>
  The placement authority, its check of a context and the strength policy are the only
  authorities whose exceptions reach the caller.
\<close>

definition escaping :: "'s authorities \<Rightarrow> exn \<Rightarrow> bool" where
  "escaping a e \<longleftrightarrow>
     (\<exists>i s t. au_placement a i s = (Raised e, t)) \<or> (\<exists>c s t. au_context a c s = (Raised e, t)) \<or>
     (\<exists>f i x n s t. au_strength a = Some f \<and> f i x n s = (Raised e, t))"

text \<open>An operation that raises \<open>AdmissionDenied\<close> or lets one of these exceptions through.\<close>

definition denies_only :: "'s authorities \<Rightarrow> ('s, 'a) op \<Rightarrow> bool" where
  "denies_only a m \<longleftrightarrow> (\<forall>s e t. m s = (Inl e, t) \<longrightarrow> e = AdmissionDenied \<or> escaping a e)"

lemma denies_only_bindS:
  "denies_only a m \<Longrightarrow> (\<And>v. denies_only a (k v)) \<Longrightarrow> denies_only a (bindS m k)"
  unfolding denies_only_def bindS_raises_iff by blast

lemma denies_only_thenS: "denies_only a m \<Longrightarrow> denies_only a k \<Longrightarrow> denies_only a (thenS m k)"
  unfolding thenS_def by (rule denies_only_bindS)

lemma denies_only_basic:
  "denies_only a (ensureS b AdmissionDenied)" "denies_only a (returnS v)"
  "denies_only a (raiseS AdmissionDenied)" "denies_only a (liftS (Inr v))"
  "denies_only a (liftS (rethrow (\<lambda>_. True) AdmissionDenied r))" "denies_only a (closed_call c)"
  "denies_only a (liftS (require_wave1_runtime_binding b'))"
  "denies_only a (liftS (admit_environment b' env))"
  "denies_only a (liftS (require_privileged_human_assurance_declaration p d))"
  "denies_only a (liftS (construct valid AdmissionDenied x))"
  by (auto simp: denies_only_def ensure_def rethrow_def construct_def
      require_wave1_runtime_binding_def admit_environment_def
      require_privileged_human_assurance_declaration_def closed_call_Inl split: sum.splits if_splits)

lemma denies_only_open_call:
  "(\<And>s e t. c s = (Raised e, t) \<Longrightarrow> escaping a e) \<Longrightarrow> denies_only a (open_call c)"
  by (auto simp: denies_only_def open_call_def split: prod.splits reply.splits)

lemmas denies_only_intros =
  denies_only_thenS denies_only_bindS denies_only_basic denies_only_open_call

text \<open>The evidence that the final authority returns has passed its constructor.\<close>

definition evidence_constructed :: "'s authorities \<Rightarrow> bool" where
  "evidence_constructed a \<longleftrightarrow>
     (\<forall>f p c d b x g s e t. au_final a = Some f \<longrightarrow> f p c d b x g s = (Returned e, t) \<longrightarrow>
        valid_final_evidence e)"

lemma principal_gate_denies: "denies_only a (require_current_principal a p now)"
  unfolding require_current_principal_def
  by (cases "au_principal a") (auto intro!: denies_only_intros)

lemma runtime_gate_denies: "denies_only a (require_current_runtime_execution a b now)"
  unfolding require_current_runtime_execution_def
  by (cases "au_runtime a") (auto intro!: denies_only_intros)

lemma authorization_gate_denies: "denies_only a (evaluate_current_authorization a p context d)"
  unfolding evaluate_current_authorization_def by (auto intro!: denies_only_intros)

lemma placement_gate_denies: "denies_only a (placement_gate a b c)"
  unfolding placement_gate_def by (intro denies_only_intros) (auto simp: escaping_def)

lemma context_gates_deny:
  "denies_only a (require_context a p b context)" "denies_only a (recheck_context a b context)"
  using placement_gate_denies
  by (auto simp: require_context_def recheck_context_def intro!: denies_only_intros
      split: option.splits)

lemma bind_value: "bindS (liftS (Inr v)) k = k v"
  by (rule ext) simp

lemma strength_gate_denies:
  "denies_only a (require_declared_authentication_strength a p d strength (Aware n))"
proof -
  have current: "denies_only a (liftS (rethrow (\<lambda>x. x = ValueError) AdmissionDenied
      (strength_is_current x (Aware n))))" for x
    by (auto simp: denies_only_def strength_is_current_def window_contains_def bindR_Inl_iff
        aware_Inl_iff rethrow_def split: sum.splits if_splits)
  have "denies_only a (require_authentication_strength f i strength (Aware n) (Some p))"
    if "au_strength a = Some f" for f i
    unfolding require_authentication_strength_def policy_permits_def aware.simps
    unfolding bind_value using that by (cases strength)
      (auto intro!: denies_only_intros current simp: escaping_def)
  then show ?thesis
    unfolding require_declared_authentication_strength_def aware.simps bind_value
    by (auto intro!: denies_only_intros split: option.splits)
qed

lemma runtime_lookups_deny:
  "denies_only a (cross_tenant_gate a p d b context now)" "denies_only a (latest_runtime a d now)"
  using runtime_gate_denies
  by (auto simp: cross_tenant_gate_def latest_runtime_def intro!: denies_only_intros)

lemma finalize_denies:
  assumes "evidence_constructed a"
  shows "denies_only a (finalize_current_admission a p context d b strength latest target)"
proof -
  have "e = AdmissionDenied"
    if "finalize_current_admission a p context d b strength latest target s = (Inl e, t)" for s e t
  proof (cases "au_final a")
    case None
    with that show ?thesis by (simp add: finalize_current_admission_def)
  next
    case (Some f)
    show ?thesis
    proof (cases "f p context d b strength target s")
      case (Pair r u)
      show ?thesis
      proof (cases r)
        case (Returned v)
        then have "is_identifier (fe_authorization_policy_revision v)"
          using assms Some Pair unfolding evidence_constructed_def valid_final_evidence_def by fastforce
        with that Some Pair Returned show ?thesis
          by (auto simp: finalize_current_admission_def ensure_def construct_def valid_decision_def
              bindS_apply split: if_splits)
      qed (use that Some Pair in \<open>simp_all add: finalize_current_admission_def bindS_apply closed_call_def\<close>)
    qed
  qed
  then show ?thesis by (simp add: denies_only_def)
qed

lemma naive_time_denied:
  "fst (require_current_principal a p (Naive m) s) = Inl AdmissionDenied"
  by (simp add: require_current_principal_def ensure_def split: option.splits)

text \<open>C5: the admission fails closed. Whatever the authorities do (missing ones, malformed
  answers, exceptions of any class, changes between two calls), every call of
  \<open>authorize_protected_operation\<close> ends in one of three ways: with a decision that is granted and
  current, with \<open>AdmissionDenied\<close>, or with an exception that the placement authority, its
  check of the context or the strength policy itself raised; the exceptions of the principal,
  runtime, authorization and final authorities never reach the caller. The evidence of
  the final authority is taken to have passed its constructor.\<close>

theorem admission_fails_closed:
  assumes "evidence_constructed a"
  shows "case fst (authorize_protected_operation a p d context now strength b target s) of
      Inl e \<Rightarrow> e = AdmissionDenied \<or>
        (\<exists>i u v. au_placement a i u = (Raised e, v)) \<or> (\<exists>c u v. au_context a c u = (Raised e, v)) \<or>
        (\<exists>f i x n u v. au_strength a = Some f \<and> f i x n u = (Raised e, v))
    | Inr r \<Rightarrow> az_granted r \<and> az_current r \<and> is_identifier (az_policy_revision r)"
proof (cases "authorize_protected_operation a p d context now strength b target s")
  case (Pair x t)
  show ?thesis
  proof (cases x)
    case (Inr r)
    with Pair have "az_granted r \<and> az_current r \<and> is_identifier (az_policy_revision r)"
      by (auto simp: authorize_returns finalize_returns)
    with Pair Inr show ?thesis by simp
  next
    case (Inl e)
    show ?thesis
    proof (cases now)
      case (Naive m)
      with Pair Inl naive_time_denied [of a p m s] show ?thesis
        by (auto simp: authorize_protected_operation_def bindS_apply split: prod.splits sum.splits)
    next
      case (Aware n)
      have "denies_only a (authorize_protected_operation a p d context (Aware n) strength b target)"
        unfolding authorize_protected_operation_def
        by (intro denies_only_intros principal_gate_denies authorization_gate_denies
            runtime_lookups_deny context_gates_deny strength_gate_denies finalize_denies [OF assms])
      then have "e = AdmissionDenied \<or> escaping a e"
        using Pair Inl Aware unfolding denies_only_def by blast
      with Pair Inl show ?thesis by (simp add: escaping_def)
    qed
  qed
qed

end
