(* ===== verification/Dev_App.thy ===== *)
theory Dev_App
  imports Control_Plane
begin

text \<open>
  The development composition of the admission: the fixed authorities of src/app/auth.py,
  the request dependencies of src/app/context.py and the authorization endpoint of
  src/app/routers/authority.py. The framework's parsing of headers and bodies is not
  modelled: a header is an optional string, the body's fields are typed.
\<close>

section \<open>The interface of a steady environment\<close>

text \<open>
  What the composition relies on: answers that do not change during a request. \<open>placed\<close>
  is what the placement authority knows, \<open>live\<close> the principals it calls current.
\<close>

locale steady_environment =
  fixes is_current :: "principal \<Rightarrow> instant \<Rightarrow> ('s, bool) call"
    and resolve :: "string \<Rightarrow> ('s, placement_evidence) call"
    and context_current :: "tenant_context \<Rightarrow> ('s, bool) call"
    and live :: "principal \<Rightarrow> bool"
    and placed :: "string \<Rightarrow> placement_evidence option"
  assumes current_live: "is_current p n s = (Returned (live p), s)"
    and resolve_placed: "placed i = Some e \<Longrightarrow> resolve i s = (Returned e, s)"
    and resolve_unplaced: "placed i = None \<Longrightarrow> resolve i s \<noteq> (Returned e, t)"
    and context_placed: "placed (tc_tenant_id c) = Some e \<Longrightarrow> placement_matches_context e c \<Longrightarrow>
      context_current c s = (Returned True, s)"
begin

lemma principal_gate_iff:
  assumes "au_principal a = Some is_current"
  shows "require_current_principal a p (Aware n) s = (Inr (), t) \<longleftrightarrow> pr_active p \<and> live p \<and> t = s"
  using assms by (auto simp: require_current_principal_returns current_live)

lemma resolve_iff: "resolve i s = (Returned e, t) \<longleftrightarrow> placed i = Some e \<and> t = s"
  using resolve_placed resolve_unplaced by (cases "placed i") fastforce+

text \<open>When a context is constructed, and which one.\<close>

lemma construct_iff:
  assumes "au_principal a = Some is_current" "au_placement a = resolve"
  shows "construct_tenant_context a p w (Aware n) ids b s = (Inr c, t) \<longleftrightarrow>
    t = s \<and> pr_active p \<and> live p \<and> b \<in> set wave1_runtime_bindings \<and> canonical_destination w \<and>
    (\<exists>e. placed (dn_tenant_id w) = Some e \<and> placement_at_destination e w \<and>
       placement_matches_runtime_binding e b \<and> placement_is_admissible e \<and>
       c = context_of p e n ids \<and> valid_tenant_context c)"
  using assms
  by (auto simp: construct_tenant_context_def sequence_returns ensureS_returns_iff
      principal_gate_iff open_call_Inr_iff resolve_iff require_wave1_runtime_binding_def
      admit_environment_def ensure_Inr_iff construct_Inr_iff placement_matches_runtime_binding_def)

text \<open>A context that was constructed passes the placement gate for as long as it lasts.\<close>

lemma placement_gate_passes:
  assumes a: "au_placement a = resolve" "au_context a = context_current"
    and e: "placed (tc_tenant_id c) = Some e" "placement_matches_context e c"
      "placement_matches_runtime_binding e b"
  shows "placement_gate a b c s = (Inr (), s)"
  using assms by (auto simp: placement_gate_returns resolve_iff context_placed)

end

section \<open>The authorities of the development application\<close>

definition dev_placement :: "string \<Rightarrow> string \<Rightarrow> placement_evidence" where
  "dev_placement tenant cell =
     \<lparr>pe_tenant_id = tenant, pe_cell_id = cell, pe_placement_version = ''pv-dev-1'',
      pe_runtime_generation = ''runtime-gen-dev-1'',
      pe_runtime_profile_id = rb_runtime_profile_id api_auth_boundary,
      pe_runtime_isolation_class = rb_isolation_class api_auth_boundary,
      pe_configuration_generation = ''cfg-gen-dev-1'',
      pe_workload_credential_generation = ''wc-gen-dev-1'',
      pe_network_policy_generation = ''np-gen-dev-1'', pe_environment_class = EnvDevelopment,
      pe_isolation_class = ''pooled'', pe_runtime_lifecycle = RtActive,
      pe_placement_current = True, pe_operation_eligible = True,
      pe_cell_admission_current = True, pe_fence_scope_id = ''tenant:'' @ tenant,
      pe_fence_epoch = 1\<rparr>"

text \<open>The evidence is built on every call, so its constructor may raise.\<close>

definition dev_resolve :: "string \<Rightarrow> string \<Rightarrow> string \<Rightarrow> ('s, placement_evidence) call" where
  "dev_resolve tenant cell i s =
     (if i \<noteq> tenant then Malformed
      else if valid_placement (dev_placement tenant cell) then Returned (dev_placement tenant cell)
      else Raised ValueError, s)"

definition dev_context_is_current :: "tenant_context \<Rightarrow> ('s, bool) call" where
  "dev_context_is_current c s = (Returned True, s)"

definition dev_is_current :: "principal \<Rightarrow> instant \<Rightarrow> ('s, bool) call" where
  "dev_is_current p n s = (Returned (pr_active p), s)"

definition dev_evaluate ::
  "principal \<Rightarrow> tenant_context option \<Rightarrow> authorization_declaration \<Rightarrow>
   ('s, authorization_decision) call" where
  "dev_evaluate p context d s =
     (Returned \<lparr>az_granted = True, az_current = True, az_policy_revision = ''dev-policy-r1''\<rparr>, s)"

definition dev_resolve_execution :: "instant \<Rightarrow> ('s, runtime_execution) call" where
  "dev_resolve_execution n s =
     (Returned
        \<lparr>re_runtime_profile_id = rb_runtime_profile_id api_auth_boundary,
         re_principal_class = rb_principal_class api_auth_boundary,
         re_isolation_class = rb_isolation_class api_auth_boundary,
         re_ingress_profile = rb_ingress_profile api_auth_boundary,
         re_runtime_generation = ''runtime-gen-dev-1'', re_environment_class = EnvDevelopment,
         re_runtime_lifecycle = RtActive, re_current = True\<rparr>, s)"

definition dev_final_evidence ::
  "principal \<Rightarrow> tenant_context option \<Rightarrow> authorization_declaration \<Rightarrow> runtime_binding \<Rightarrow>
   final_evidence" where
  "dev_final_evidence p context d b =
     \<lparr>fe_granted = True, fe_current = True, fe_admission_revision = ''admission-rev-dev-1'',
      fe_authorization_policy_revision = ''dev-policy-r1'',
      fe_principal_authority_revision = ''principal-rev-dev-1'',
      fe_principal_id = pr_principal_id p, fe_principal_kind = pr_kind p,
      fe_principal_credential_generation = pr_credential_generation p,
      fe_action = ad_action d, fe_scope = ad_scope d,
      fe_tenant_requirement = canonical_requirement d,
      fe_resource_scope = ad_resource_scope d, fe_cross_tenant_target = None,
      fe_strength_policy_id = ad_strength_policy_id d,
      fe_tenant_id = map_option tc_tenant_id context,
      fe_cell_id = map_option tc_cell_id context,
      fe_placement_authority_revision = map_option (\<lambda>_. ''placement-rev-dev-1'') context,
      fe_placement_version = map_option tc_placement_version context,
      fe_runtime_generation = map_option tc_runtime_generation context,
      fe_runtime_profile_id = map_option tc_runtime_profile_id context,
      fe_runtime_isolation_class = map_option tc_runtime_isolation_class context,
      fe_configuration_generation = map_option tc_configuration_generation context,
      fe_workload_credential_generation =
        map_option tc_workload_credential_generation context,
      fe_network_policy_generation = map_option tc_network_policy_generation context,
      fe_environment_class = map_option tc_environment_class context,
      fe_isolation_class = map_option tc_isolation_class context,
      fe_fence_scope_id = map_option tc_fence_scope_id context,
      fe_fence_epoch = map_option tc_fence_epoch context,
      fe_strength_policy_revision = None,
      fe_executing_runtime_authority_revision = Some ''runtime-rev-dev-1'',
      fe_executing_runtime_profile_id = Some (rb_runtime_profile_id b),
      fe_executing_runtime_generation = Some ''runtime-gen-dev-1'',
      fe_executing_runtime_environment_class = Some EnvDevelopment\<rparr>"

definition dev_finalize ::
  "principal \<Rightarrow> tenant_context option \<Rightarrow> authorization_declaration \<Rightarrow> runtime_binding \<Rightarrow>
   strength_evidence option \<Rightarrow> target_binding option \<Rightarrow> ('s, final_evidence) call" where
  "dev_finalize p context d b strength target s =
     (if valid_final_evidence (dev_final_evidence p context d b)
      then Returned (dev_final_evidence p context d b) else Raised ValueError, s)"

text \<open>The endpoint passes no strength policy.\<close>

definition dev_authorities :: "string \<Rightarrow> string \<Rightarrow> 's authorities" where
  "dev_authorities tenant cell =
     \<lparr>au_principal = Some dev_is_current, au_placement = dev_resolve tenant cell,
      au_context = dev_context_is_current, au_authorization = dev_evaluate,
      au_strength = None, au_runtime = Some dev_resolve_execution,
      au_final = Some dev_finalize\<rparr>"

definition dev_placed :: "string \<Rightarrow> string \<Rightarrow> string \<Rightarrow> placement_evidence option" where
  "dev_placed tenant cell i =
     (if i = tenant \<and> valid_placement (dev_placement tenant cell)
      then Some (dev_placement tenant cell) else None)"

interpretation dev: steady_environment dev_is_current "dev_resolve tenant cell"
  dev_context_is_current pr_active "dev_placed tenant cell"
  by unfold_locales
    (auto simp: dev_is_current_def dev_resolve_def dev_placed_def dev_context_is_current_def
      split: if_splits)

section \<open>The request dependencies and the endpoint\<close>

text \<open>
  The outcome of a request: a result, an \<open>HTTPException\<close> with its status, or an exception
  no handler catches, which the server reports as an internal error.
\<close>

datatype 'a http = HttpOk 'a | HttpError nat | Uncaught exn

definition bindH :: "'a http \<Rightarrow> ('a \<Rightarrow> 'b http) \<Rightarrow> 'b http" where
  "bindH r k = (case r of HttpOk v \<Rightarrow> k v | HttpError n \<Rightarrow> HttpError n | Uncaught e \<Rightarrow> Uncaught e)"

lemma bindH_ok [res_simps]: "bindH r k = HttpOk w \<longleftrightarrow> (\<exists>v. r = HttpOk v \<and> k v = HttpOk w)"
  by (cases r) (simp_all add: bindH_def)

definition uncaught :: "'a res \<Rightarrow> 'a http" where
  "uncaught r = (case r of Inl e \<Rightarrow> Uncaught e | Inr v \<Rightarrow> HttpOk v)"

definition forbidden :: "'a res \<Rightarrow> 'a http" where
  "forbidden r = (case r of Inl e \<Rightarrow> HttpError 403 | Inr v \<Rightarrow> HttpOk v)"

lemma http_ok [res_simps]:
  "uncaught r = HttpOk v \<longleftrightarrow> r = Inr v" "forbidden r = HttpOk v \<longleftrightarrow> r = Inr v"
  by (cases r; simp add: uncaught_def forbidden_def)+

text \<open>\<open>header or default\<close>: an absent header and an empty one both give the default.\<close>

definition header_or :: "string option \<Rightarrow> string \<Rightarrow> string" where
  "header_or h v = (case h of None \<Rightarrow> v | Some s \<Rightarrow> if s = [] then v else s)"

definition set_request_principal :: "string \<Rightarrow> principal http" where
  "set_request_principal i =
     uncaught (construct valid_principal ValueError
       \<lparr>pr_principal_id = i, pr_kind = HumanBrowserSession,
        pr_credential_generation = ''credential-gen-dev-1'', pr_active = True\<rparr>)"

definition resolve_dev_principal :: "bool \<Rightarrow> string option \<Rightarrow> principal http" where
  "resolve_dev_principal dev_mode header =
     (if \<not> dev_mode then HttpError 503
      else set_request_principal (header_or header ''dev-user-1''))"

definition resolve_dev_tenant_id :: "bool \<Rightarrow> string option \<Rightarrow> string http" where
  "resolve_dev_tenant_id dev_mode header =
     (if \<not> dev_mode then HttpError 503 else HttpOk (header_or header ''tenant:dev''))"

definition dev_cell :: string where "dev_cell = ''cell:dev-a''"

definition destination_of :: "string \<Rightarrow> placement_evidence \<Rightarrow> destination" where
  "destination_of tenant e =
     \<lparr>dn_tenant_id = tenant, dn_cell_id = pe_cell_id e,
      dn_runtime_generation = pe_runtime_generation e,
      dn_configuration_generation = pe_configuration_generation e,
      dn_workload_credential_generation = pe_workload_credential_generation e,
      dn_network_policy_generation = pe_network_policy_generation e,
      dn_required_environment = pe_environment_class e\<rparr>"

definition dev_trace_ids :: trace_ids where
  "dev_trace_ids =
     \<lparr>tr_request_id = Some ''dev-request'', tr_correlation_id = Some ''dev-correlation'',
      tr_causation_id = None, tr_operation_id = Some ''dev-operation''\<rparr>"

definition build_tenant_context :: "principal \<Rightarrow> string \<Rightarrow> instant \<Rightarrow> tenant_context http" where
  "build_tenant_context p tenant now =
     (case fst (dev_resolve tenant dev_cell tenant ()) of
        Raised e \<Rightarrow> Uncaught e
      | Malformed \<Rightarrow> HttpError 403
      | Returned e \<Rightarrow>
          forbidden (fst (construct_tenant_context (dev_authorities tenant dev_cell) p
            (destination_of tenant e) (Aware now) dev_trace_ids api_auth_boundary ())))"

definition parse_scope :: "string \<Rightarrow> scope_class option" where
  "parse_scope s =
     (if s = ''platform'' then Some ScopePlatform
      else if s = ''tenant'' then Some ScopeTenant
      else if s = ''resource'' then Some ScopeResource else None)"

definition requested_declaration :: "string \<Rightarrow> scope_class \<Rightarrow> bool \<Rightarrow> authorization_declaration" where
  "requested_declaration action scope required =
     \<lparr>ad_action = action, ad_scope = scope, ad_tenant_required = required,
      ad_step_up = StepUpNone, ad_audit_class = AuditNormal, ad_resource_scope = None,
      ad_strength_policy_id = None, ad_tenant_requirement = None\<rparr>"

text \<open>\<open>POST /auth/authorize\<close>, from the request's headers and body.\<close>

definition authorize_endpoint ::
  "bool \<Rightarrow> string option \<Rightarrow> string option \<Rightarrow> string \<Rightarrow> string \<Rightarrow> bool \<Rightarrow> instant \<Rightarrow> instant \<Rightarrow>
   authorization_decision http" where
  "authorize_endpoint dev_mode principal_header tenant_header action scope required t1 t2 =
     bindH (resolve_dev_principal dev_mode principal_header) (\<lambda>p.
     bindH (resolve_dev_tenant_id dev_mode tenant_header) (\<lambda>tenant.
     bindH (build_tenant_context p tenant t1) (\<lambda>c.
     (case parse_scope scope of
        None \<Rightarrow> HttpError 400
      | Some sc \<Rightarrow>
          bindH (uncaught (authorization_declaration_init
            (requested_declaration action sc required))) (\<lambda>d.
          forbidden (fst (authorize_protected_operation
            (dev_authorities (tc_tenant_id c) dev_cell) p d (Some c) (Aware t2) None
            api_auth_boundary None ())))))))"

section \<open>What the endpoint admits\<close>

lemma identifier_chars: "is_identifier s \<Longrightarrow> list_all id_char s"
  by (cases s) (auto simp: is_identifier.simps id_char_def)

lemma identifier_with_prefix:
  "is_identifier (''tenant:'' @ s) \<longleftrightarrow> list_all id_char s \<and> length s \<le> 249"
  by (auto simp: grammar_eval)

lemma dev_placement_valid:
  "valid_placement (dev_placement tenant dev_cell) \<longleftrightarrow>
     is_identifier tenant \<and> length tenant \<le> 249"
proof -
  have "is_identifier dev_cell" "is_versioned_in ''runtime.'' (rb_runtime_profile_id api_auth_boundary)"
    "is_versioned_in ''isolation.'' (rb_isolation_class api_auth_boundary)"
    by (simp_all add: dev_cell_def grammar_eval is_versioned_in_def starts_with_def
        api_auth_boundary_def)
  moreover have "is_identifier ''pv-dev-1''" "is_identifier ''runtime-gen-dev-1''"
    "is_identifier ''cfg-gen-dev-1''" "is_identifier ''wc-gen-dev-1''"
    "is_identifier ''np-gen-dev-1''" "is_identifier ''pooled''"
    by (simp_all add: grammar_eval)
  ultimately show ?thesis
    using identifier_chars [of tenant] identifier_with_prefix [of tenant]
    by (auto simp: valid_placement_def dev_placement_def)
qed

definition dev_context :: "principal \<Rightarrow> string \<Rightarrow> instant \<Rightarrow> tenant_context" where
  "dev_context p tenant n = context_of p (dev_placement tenant dev_cell) n dev_trace_ids"

lemma dev_context_matches:
  "placement_matches_context (dev_placement tenant dev_cell) (dev_context p tenant n)"
  "context_matches_runtime_binding (dev_context p tenant n) api_auth_boundary"
  "placement_matches_runtime_binding (dev_placement tenant dev_cell) api_auth_boundary"
  "placement_is_admissible (dev_placement tenant dev_cell)"
  "matches_principal (dev_context p tenant n) p \<longleftrightarrow> pr_active p"
  "tc_tenant_id (dev_context p tenant n) = tenant"
  by (simp_all add: placement_matches_context_def placement_is_admissible_def dev_context_def
      context_matches_runtime_binding_def placement_matches_runtime_binding_def context_of_def
      dev_placement_def api_auth_boundary_def serving_environments_def matches_principal_def)

lemma dev_context_valid:
  assumes "valid_placement (dev_placement tenant dev_cell)" "valid_principal p"
  shows "valid_tenant_context (dev_context p tenant n)"
proof -
  have "is_identifier ''dev-request''" "is_identifier ''dev-correlation''"
    "is_identifier ''dev-operation''"
    by (simp_all add: grammar_eval)
  with assms show ?thesis
    by (simp add: valid_tenant_context_def dev_context_def context_of_def valid_placement_def
        valid_principal_def dev_trace_ids_def is_aware_def)
qed

lemma fst_unit_iff: "fst x = v \<longleftrightarrow> x = (v, ())"
  by (cases x) simp

lemma build_tenant_context_ok:
  assumes "valid_principal p" "pr_active p"
  shows "build_tenant_context p tenant n = HttpOk c \<longleftrightarrow>
    valid_placement (dev_placement tenant dev_cell) \<and> c = dev_context p tenant n"
proof (cases "valid_placement (dev_placement tenant dev_cell)")
  case False
  then show ?thesis by (simp add: build_tenant_context_def dev_resolve_def)
next
  case True
  let ?a = "dev_authorities tenant dev_cell :: unit authorities"
  let ?w = "destination_of tenant (dev_placement tenant dev_cell)"
  have ports: "au_principal ?a = Some dev_is_current" "au_placement ?a = dev_resolve tenant dev_cell"
    by (simp_all add: dev_authorities_def)
  have dest: "canonical_destination ?w" "placement_at_destination (dev_placement tenant dev_cell) ?w"
      "dn_tenant_id ?w = tenant"
    using True by (simp_all add: canonical_destination_def destination_of_def
        placement_at_destination_def valid_placement_def dev_placement_def)
  have "construct_tenant_context ?a p ?w (Aware n) dev_trace_ids api_auth_boundary () = (Inr c, ())
    \<longleftrightarrow> c = dev_context p tenant n" for c
    unfolding dev.construct_iff [OF ports]
    using assms dest True dev_context_matches(3,4) [of tenant] dev_context_valid [OF True assms(1)]
    by (auto simp: dev_placed_def dev_context_def wave1_runtime_bindings_def)
  then have "fst (construct_tenant_context ?a p ?w (Aware n) dev_trace_ids api_auth_boundary ()) = Inr c
    \<longleftrightarrow> c = dev_context p tenant n" for c
    by (simp add: fst_unit_iff)
  then show ?thesis using True by (simp add: build_tenant_context_def dev_resolve_def http_ok)
qed

lemma dev_final_evidence_valid:
  assumes "valid_placement (dev_placement tenant dev_cell)" "valid_principal p"
    and "ad_resource_scope d = None" "ad_strength_policy_id d = None"
  shows "valid_final_evidence
      (dev_final_evidence p (Some (dev_context p tenant n)) d api_auth_boundary) \<longleftrightarrow>
    is_identifier (ad_action d)"
proof -
  have "is_identifier ''admission-rev-dev-1''" "is_identifier ''dev-policy-r1''"
    "is_identifier ''principal-rev-dev-1''" "is_identifier ''placement-rev-dev-1''"
    "is_identifier ''runtime-rev-dev-1''" "is_identifier ''runtime-gen-dev-1''"
    "is_versioned_in ''runtime.'' (rb_runtime_profile_id api_auth_boundary)"
    by (simp_all add: grammar_eval is_versioned_in_def starts_with_def api_auth_boundary_def)
  moreover have "valid_tenant_context (dev_context p tenant n)"
    by (rule dev_context_valid [OF assms(1,2)])
  ultimately show ?thesis
    using assms
    by (simp add: valid_final_evidence_def dev_final_evidence_def tenant_bindings_complete_def
        tenant_bindings_absent_def tenant_identifiers_def given_def valid_tenant_context_def
        valid_principal_def)
qed

lemma dev_final_evidence_binds:
  "fe_granted (dev_final_evidence p context d b)" "fe_current (dev_final_evidence p context d b)"
  "final_binds_request (dev_final_evidence p context d b) p d None"
  "final_binds_context (dev_final_evidence p c d b) c"
  "ad_step_up d = StepUpNone \<Longrightarrow> final_binds_strength (dev_final_evidence p context d b) d x"
  "\<not> cross_tenant d \<Longrightarrow> final_binds_runtime (dev_final_evidence p context d api_auth_boundary) d
     api_auth_boundary None"
  "fe_authorization_policy_revision (dev_final_evidence p context d b) = ''dev-policy-r1''"
  by (simp_all add: dev_final_evidence_def final_binds_request_def final_binds_strength_def
      final_binds_runtime_def admit_environment_def api_auth_boundary_def
      serving_environments_def split: option.split) (cases c; simp)

definition dev_decision :: authorization_decision where
  "dev_decision = \<lparr>az_granted = True, az_current = True, az_policy_revision = ''dev-policy-r1''\<rparr>"

lemma dev_authorize_ok:
  fixes s :: 's
  assumes p: "valid_principal p" "pr_active p"
    and tenant: "valid_placement (dev_placement tenant dev_cell)"
    and d: "ad_step_up d = StepUpNone" "ad_audit_class d = AuditNormal" "\<not> cross_tenant d"
      "ad_resource_scope d = None" "ad_strength_policy_id d = None"
  shows "authorize_protected_operation (dev_authorities tenant dev_cell) p d
      (Some (dev_context p tenant n)) (Aware m) None api_auth_boundary None s = (Inr r, s) \<longleftrightarrow>
    is_identifier (ad_action d) \<and> r = dev_decision"
proof -
  let ?c = "dev_context p tenant n"
  let ?a = "dev_authorities tenant dev_cell :: 's authorities"
  have ports: "au_principal ?a = Some dev_is_current" "au_placement ?a = dev_resolve tenant dev_cell"
    "au_context ?a = dev_context_is_current" "au_authorization ?a = dev_evaluate"
    "au_final ?a = Some dev_finalize"
    by (simp_all add: dev_authorities_def)
  have static: "static_gates p d (Some ?c) api_auth_boundary None"
    using d by (simp add: static_gates_def privileged_classes_def wave1_runtime_bindings_def)
  have principal: "require_current_principal ?a p (Aware m) s = (Inr u, t) \<longleftrightarrow> t = s" for s t u
    using p dev.principal_gate_iff [OF ports(1)] by simp
  have "dev_placed tenant dev_cell (tc_tenant_id ?c) = Some (dev_placement tenant dev_cell)"
    using tenant dev_context_matches(6) by (simp add: dev_placed_def)
  then have gate: "placement_gate ?a api_auth_boundary ?c s = (Inr (), s)" for s
    using dev.placement_gate_passes [OF ports(2,3)] dev_context_matches by blast
  have ctx: "require_context ?a p api_auth_boundary (Some ?c) s = (Inr u, t) \<longleftrightarrow> t = s"
    "recheck_context ?a api_auth_boundary (Some ?c) s = (Inr u, t) \<longleftrightarrow> t = s" for s t u
    using p dev_context_matches gate by (auto simp: require_context_returns recheck_context_returns)
  have authorization: "evaluate_current_authorization ?a p (Some ?c) d s = (Inr x, t) \<longleftrightarrow>
      x = dev_decision \<and> t = s" for s t x
    by (auto simp: evaluate_current_authorization_returns ports dev_evaluate_def dev_decision_def)
  have finalize: "finalize_current_admission ?a p (Some ?c) d api_auth_boundary None None None s =
      (Inr x, t) \<longleftrightarrow> is_identifier (ad_action d) \<and> x = dev_decision \<and> t = s" for s t x
    using d unfolding finalize_returns ports dev_finalize_def
    by (auto simp: dev_decision_def grammar_eval dev_final_evidence_binds
        dev_final_evidence_valid [OF tenant p(1) d(4,5)] simp del: final_binds_context.simps)
  show ?thesis
    unfolding authorize_returns principal ctx authorization cross_tenant_gate_returns
      latest_runtime_returns declared_strength_returns
    using static d by (auto simp: finalize)
qed

lemma split_on_members:
  "list_all (list_all P) (split_on d s) \<Longrightarrow> list_all (\<lambda>c. c = d \<or> P c) s"
  by (induction s) (auto split: list.splits if_splits)

lemma split_on_head:
  "split_on d (c # s) = w # ws \<Longrightarrow> w \<noteq> [] \<Longrightarrow> hd w = c"
  by (auto split: list.splits if_splits)

text \<open>An action is an identifier unless it is too long.\<close>

lemma action_identifier:
  assumes "is_action s"
  shows "is_identifier s \<longleftrightarrow> length s \<le> 256"
proof -
  obtain w ws where ws: "split_on (CHR ''.'') s = w # ws" "list_all (head_tail_ok is_lower action_char) (w # ws)"
    using assms by (cases "split_on (CHR ''.'') s") (auto simp: is_action_def Let_def)
  have seg: "list_all action_char u" if "head_tail_ok is_lower action_char u" for u
    using that by (cases u) (auto simp: action_char_def)
  obtain c cs where s: "s = c # cs" using ws by (cases s) auto
  have w: "w \<noteq> []" "is_lower (hd w)" using ws(2) by (cases w; simp)+
  have "is_lower c" using split_on_head [OF ws(1) [unfolded s]] w by simp
  moreover have "list_all (\<lambda>c. c = CHR ''.'' \<or> action_char c) s"
    using ws seg by (intro split_on_members) (auto simp: list_all_iff)
  then have "list_all id_char s"
    by (auto simp: list_all_iff action_char_def id_char_def is_alnum_def)
  ultimately show ?thesis
    by (auto simp: s is_identifier.simps is_alnum_def)
qed

lemma declaration_requested:
  "authorization_declaration_init (requested_declaration action sc required) = Inr d \<longleftrightarrow>
     is_action action \<and> sc \<noteq> ScopeResource \<and> (sc = ScopeTenant \<longrightarrow> required) \<and>
     d = (requested_declaration action sc required)
       \<lparr>ad_tenant_requirement := Some (if required then TenantRequired else TenantNone)\<rparr>"
  by (cases sc)
    (auto simp: res_simps requested_declaration_def declaration_admissible_def
      canonical_requirement_def)

text \<open>The principal of a header, and the decision on a declared request.\<close>

definition header_principal :: "string \<Rightarrow> principal" where
  "header_principal i =
     \<lparr>pr_principal_id = i, pr_kind = HumanBrowserSession,
      pr_credential_generation = ''credential-gen-dev-1'', pr_active = True\<rparr>"

lemma header_principal_valid:
  "valid_principal (header_principal i) \<longleftrightarrow> is_identifier i" "pr_active (header_principal i)"
  by (simp_all add: header_principal_def valid_principal_def grammar_eval)

lemma resolve_dev_principal_ok:
  "resolve_dev_principal dev_mode h = HttpOk q \<longleftrightarrow>
     dev_mode \<and> is_identifier (header_or h ''dev-user-1'') \<and>
     q = header_principal (header_or h ''dev-user-1'')"
  using header_principal_valid
  by (auto simp: resolve_dev_principal_def set_request_principal_def res_simps
      header_principal_def [symmetric])

lemma resolve_dev_tenant_id_ok:
  "resolve_dev_tenant_id dev_mode h = HttpOk i \<longleftrightarrow> dev_mode \<and> i = header_or h ''tenant:dev''"
  by (auto simp: resolve_dev_tenant_id_def)

lemma dev_request_decided:
  assumes p: "valid_principal p" "pr_active p"
    and tenant: "valid_placement (dev_placement tenant dev_cell)"
  shows "(\<exists>d. authorization_declaration_init (requested_declaration action sc required) = Inr d \<and>
      fst (authorize_protected_operation (dev_authorities tenant dev_cell) p d
        (Some (dev_context p tenant t1)) (Aware t2) None api_auth_boundary None ()) = Inr r) \<longleftrightarrow>
    is_action action \<and> length action \<le> 256 \<and> sc \<noteq> ScopeResource \<and>
    (sc = ScopeTenant \<longrightarrow> required) \<and> r = dev_decision"
proof -
  have "fst (authorize_protected_operation (dev_authorities tenant dev_cell) p d
        (Some (dev_context p tenant t1)) (Aware t2) None api_auth_boundary None ()) = Inr r \<longleftrightarrow>
      length action \<le> 256 \<and> r = dev_decision"
    if "authorization_declaration_init (requested_declaration action sc required) = Inr d" for d
  proof -
    have d: "ad_step_up d = StepUpNone" "ad_audit_class d = AuditNormal" "\<not> cross_tenant d"
        "ad_resource_scope d = None" "ad_strength_policy_id d = None" "ad_action d = action"
        "is_action action"
      using that unfolding declaration_requested
      by (auto simp: requested_declaration_def canonical_requirement_def)
    show ?thesis
      unfolding fst_unit_iff dev_authorize_ok [OF p tenant d(1-5)] d(6) action_identifier [OF d(7)]
      by (rule refl)
  qed
  then show ?thesis unfolding declaration_requested by blast
qed

lemma dev_scope_decided:
  assumes "valid_principal p" "pr_active p" "valid_placement (dev_placement tenant dev_cell)"
  shows "(case parse_scope scope of None \<Rightarrow> HttpError 400
      | Some sc \<Rightarrow> bindH (uncaught (authorization_declaration_init
            (requested_declaration action sc required))) (\<lambda>d.
          forbidden (fst (authorize_protected_operation
            (dev_authorities (tc_tenant_id (dev_context p tenant t1)) dev_cell) p d
            (Some (dev_context p tenant t1)) (Aware t2) None api_auth_boundary None ())))) = HttpOk r
    \<longleftrightarrow> is_action action \<and> length action \<le> 256 \<and>
      (scope = ''platform'' \<or> scope = ''tenant'' \<and> required) \<and> r = dev_decision"
  unfolding dev_context_matches(6)
  by (cases "parse_scope scope")
    (auto simp: bindH_ok http_ok dev_request_decided [OF assms] parse_scope_def split: if_splits)

text \<open>What the development deployment admits. In development mode the authorization
  endpoint grants exactly the requests whose principal header (or its default) is an
  identifier, whose tenant header (or its default) is an identifier short enough to name a
  fence scope, whose action is a canonical action that fits an identifier and whose scope
  is \<open>platform\<close>, or \<open>tenant\<close> with a tenant required; the resource scope is never
  granted. Outside development mode nothing is granted.\<close>

theorem dev_endpoint_exact:
  "authorize_endpoint dev_mode principal_header tenant_header action scope required t1 t2 =
     HttpOk r \<longleftrightarrow>
   dev_mode \<and> is_identifier (header_or principal_header ''dev-user-1'') \<and>
   is_identifier (header_or tenant_header ''tenant:dev'') \<and>
   length (header_or tenant_header ''tenant:dev'') \<le> 249 \<and>
   is_action action \<and> length action \<le> 256 \<and>
   (scope = ''platform'' \<or> scope = ''tenant'' \<and> required) \<and> r = dev_decision"
proof -
  let ?i = "header_or principal_header ''dev-user-1''"
  let ?tenant = "header_or tenant_header ''tenant:dev''"
  let ?p = "header_principal ?i"
  let ?placed = "valid_placement (dev_placement ?tenant dev_cell)"
  have "authorize_endpoint dev_mode principal_header tenant_header action scope required t1 t2 =
      HttpOk r \<longleftrightarrow> dev_mode \<and> is_identifier ?i \<and> ?placed \<and>
      (is_action action \<and> length action \<le> 256 \<and>
       (scope = ''platform'' \<or> scope = ''tenant'' \<and> required) \<and> r = dev_decision)"
  proof (cases "is_identifier ?i")
    case False
    then show ?thesis by (simp add: authorize_endpoint_def bindH_ok resolve_dev_principal_ok)
  next
    case True
    then have p: "valid_principal ?p" "pr_active ?p" by (simp_all add: header_principal_valid)
    show ?thesis
      unfolding authorize_endpoint_def bindH_ok resolve_dev_principal_ok resolve_dev_tenant_id_ok
      using True by (simp add: build_tenant_context_ok [OF p] dev_scope_decided [OF p] cong: conj_cong)
  qed
  then show ?thesis unfolding dev_placement_valid by blast
qed

section \<open>The admission theorems at work\<close>

definition dev_user :: principal where
  "dev_user =
     \<lparr>pr_principal_id = ''dev-user-1'', pr_kind = HumanBrowserSession,
      pr_credential_generation = ''credential-gen-dev-1'', pr_active = True\<rparr>"

definition dev_declaration :: authorization_declaration where
  "dev_declaration =
     (requested_declaration ''a.b.c'' ScopeTenant True)\<lparr>ad_tenant_requirement := Some TenantRequired\<rparr>"

lemma dev_tenant_placed: "valid_placement (dev_placement ''tenant:dev'' dev_cell)"
  by (simp add: dev_placement_valid grammar_eval)

lemma dev_granted:
  "authorize_protected_operation (dev_authorities ''tenant:dev'' dev_cell) dev_user
     dev_declaration (Some (dev_context dev_user ''tenant:dev'' (At 1))) (Aware (At 2)) None
     api_auth_boundary None () = (Inr dev_decision, ())"
proof -
  have "valid_principal dev_user" "pr_active dev_user"
    by (simp_all add: dev_user_def valid_principal_def grammar_eval)
  then show ?thesis
    by (subst dev_authorize_ok [OF _ _ dev_tenant_placed])
      (simp_all add: dev_declaration_def requested_declaration_def canonical_requirement_def
        grammar_eval)
qed

theorem tenant_admission_bound_witness:
  "matches_principal (dev_context dev_user ''tenant:dev'' (At 1)) dev_user \<and>
   \<not> cross_tenant dev_declaration"
  using tenant_admission_bound [OF dev_granted] by blast

text \<open>A placement authority that raises: its exception is the outcome.\<close>

definition failing_placement :: "unit authorities" where
  "failing_placement = (dev_authorities ''tenant:dev'' dev_cell)\<lparr>au_context := (\<lambda>_ u. (Raised LookupError, u))\<rparr>"

theorem admission_fails_closed_witness:
  "fst (authorize_protected_operation failing_placement (dev_user\<lparr>pr_active := False\<rparr>) dev_declaration
     None (Aware (At 2)) None api_auth_boundary None ()) \<in> {Inl AdmissionDenied, Inl LookupError}"
proof -
  have "evidence_constructed failing_placement"
    by (auto simp: evidence_constructed_def failing_placement_def dev_authorities_def dev_finalize_def
        split: if_splits)
  moreover have "fst (authorize_protected_operation failing_placement (dev_user\<lparr>pr_active := False\<rparr>)
      dev_declaration None (Aware (At 2)) None api_auth_boundary None ()) \<noteq> Inr r" for r
    unfolding fst_unit_iff authorize_returns require_current_principal_returns by simp
  moreover have "au_placement failing_placement i u \<noteq> (Raised e, v)" for i u e v
    using dev_tenant_placed by (auto simp: failing_placement_def dev_authorities_def dev_resolve_def split: if_splits)
  ultimately show ?thesis
    using admission_fails_closed [of failing_placement "dev_user\<lparr>pr_active := False\<rparr>" dev_declaration None
        "Aware (At 2)" None api_auth_boundary None "()"]
    by (auto simp: failing_placement_def dev_authorities_def split: sum.splits)
qed

end
