(* ===== verification/Canonical_JSON.thy ===== *)
theory Canonical_JSON
  imports JL_Prelude "HOL-Library.List_Lexorder" "HOL-Library.Char_ord"
begin

text \<open>
  \<open>json.dumps(value, separators=(",", ":"), sort_keys=True)\<close> on the values that the
  monitoring domain fingerprints: text, flags, arrays and objects. The text is uniquely
  readable, which is what makes a digest of it bind the value.
\<close>

section \<open>Rendering\<close>

datatype json =
    JText string
  | JFlag bool
  | JArr "json list"
  | JObj "(string \<times> json) list"

definition hex_digit :: "nat \<Rightarrow> char" where
  "hex_digit n = char_of (if n < 10 then 48 + n else 87 + n)"

text \<open>One character; \<open>ascii\<close> is \<open>ensure_ascii\<close>.\<close>

definition json_char :: "bool \<Rightarrow> char \<Rightarrow> string" where
  "json_char ascii c =
    (if c = CHR 0x22 then [CHR 0x5C, CHR 0x22]
     else if c = CHR 0x5C then [CHR 0x5C, CHR 0x5C]
     else if c = CHR 0x0A then [CHR 0x5C, CHR ''n'']
     else if c = CHR 0x0D then [CHR 0x5C, CHR ''r'']
     else if c = CHR 0x09 then [CHR 0x5C, CHR ''t'']
     else if c = CHR 0x0C then [CHR 0x5C, CHR ''f'']
     else if c = CHR 0x08 then [CHR 0x5C, CHR ''b'']
     else if code_in 0 31 c \<or> (ascii \<and> code_in 127 255 c)
     then [CHR 0x5C, CHR ''u'', CHR ''0'', CHR ''0'', hex_digit (of_char c div 16), hex_digit (of_char c mod 16)]
     else [c])"

definition json_text :: "bool \<Rightarrow> string \<Rightarrow> string" where
  "json_text ascii s = CHR 0x22 # concat (map (json_char ascii) s) @ [CHR 0x22]"

fun commas :: "string list \<Rightarrow> string" where
  "commas [] = []"
| "commas [x] = x"
| "commas (x # y # ys) = x @ CHR '','' # commas (y # ys)"

definition member_text :: "bool \<Rightarrow> string \<times> string \<Rightarrow> string" where
  "member_text ascii m = json_text ascii (fst m) @ CHR '':'' # snd m"

primrec dumps :: "bool \<Rightarrow> json \<Rightarrow> string" where
  "dumps ascii (JText s) = json_text ascii s"
| "dumps ascii (JFlag b) = (if b then ''true'' else ''false'')"
| "dumps ascii (JArr vs) = CHR ''['' # commas (map (dumps ascii) vs) @ '']''"
| "dumps ascii (JObj fs) =
     CHR ''{'' # commas (map (member_text ascii) (sort_key fst (map (map_prod id (dumps ascii)) fs))) @ ''}''"

text \<open>\<open>str.encode("utf-8")\<close> for the code points 0 to 255.\<close>

definition utf8_char :: "char \<Rightarrow> nat list" where
  "utf8_char c =
     (if of_char c < (128 :: nat) then [of_char c]
      else [192 + of_char c div 64, 128 + of_char c mod 64])"

definition utf8 :: "string \<Rightarrow> nat list" where
  "utf8 s = concat (map utf8_char s)"

section \<open>Unique reading\<close>

text \<open>An object is canonical when its fields are in the order in which they are written.\<close>

fun canonical_json :: "json \<Rightarrow> bool" where
  "canonical_json (JText s) = True"
| "canonical_json (JFlag b) = True"
| "canonical_json (JArr vs) = list_all canonical_json vs"
| "canonical_json (JObj fs) =
     (sorted_wrt (<) (map fst fs) \<and> list_all (\<lambda>(k, v). canonical_json v) fs)"

definition hex_value :: "char \<Rightarrow> nat" where
  "hex_value c = (if of_char c < (58 :: nat) then of_char c - 48 else of_char c - 87)"

text \<open>Reading one rendered character back.\<close>

fun read_hex :: "string \<Rightarrow> char \<times> string" where
  "read_hex (_ # _ # h # l # rest) = (char_of (16 * hex_value h + hex_value l), rest)"
| "read_hex rest = (CHR 0x00, rest)"

definition simple_escape :: "char \<Rightarrow> char" where
  "simple_escape e =
     (if e = CHR ''n'' then CHR 0x0A else if e = CHR ''r'' then CHR 0x0D
      else if e = CHR ''t'' then CHR 0x09 else if e = CHR ''f'' then CHR 0x0C
      else if e = CHR ''b'' then CHR 0x08 else e)"

fun read_char :: "string \<Rightarrow> char \<times> string" where
  "read_char (c # e # rest) =
     (if c \<noteq> CHR 0x5C then (c, e # rest)
      else if e = CHR ''u'' then read_hex rest else (simple_escape e, rest))"
| "read_char [c] = (c, [])"
| "read_char [] = (CHR 0x00, [])"

lemma hex_value_digit: "n < 16 \<Longrightarrow> hex_value (hex_digit n) = n"
  by (auto simp: hex_value_def hex_digit_def)

lemma hex_round_trip:
  "char_of (16 * hex_value (hex_digit (of_char c div 16)) + hex_value (hex_digit (of_char c mod 16))) = (c :: char)"
proof -
  have "of_char c < (256 :: nat)" by simp
  then have "of_char c div 16 < (16 :: nat)" by (simp add: less_mult_imp_div_less)
  then show ?thesis by (simp add: hex_value_digit)
qed

lemma read_plain: "c \<noteq> CHR 0x5C \<Longrightarrow> read_char (c # x) = (c, x)"
  by (cases x) simp_all

lemma read_json_char: "read_char (json_char ascii c @ x) = (c, x)"
proof (cases "c \<in> {CHR 0x22, CHR 0x5C, CHR 0x0A, CHR 0x0D, CHR 0x09, CHR 0x0C, CHR 0x08}")
  case True
  then show ?thesis by (elim insertE emptyE) (simp_all add: json_char_def simple_escape_def)
next
  case False
  then show ?thesis
    by (simp add: json_char_def read_plain hex_round_trip del: read_char.simps(2,3))
qed

lemma json_char_unique: "json_char ascii c @ x = json_char ascii d @ y \<Longrightarrow> c = d \<and> x = y"
  by (drule arg_cong [of _ _ read_char]) (simp only: read_json_char prod.inject)

lemma json_char_shape: "\<exists>h t. json_char ascii c = h # t \<and> h \<noteq> CHR 0x22"
  by (simp add: json_char_def)

lemma json_text_unique:
  "json_text ascii s @ x = json_text ascii t @ y \<Longrightarrow> s = t \<and> x = y"
proof -
  have "concat (map (json_char ascii) s) @ CHR 0x22 # x = concat (map (json_char ascii) t) @ CHR 0x22 # y
      \<Longrightarrow> s = t \<and> x = y"
  proof (induction s arbitrary: t)
    case Nil
    then show ?case using json_char_shape [of ascii "hd t"] by (cases t) auto
  next
    case (Cons c s)
    then obtain d t' where t: "t = d # t'"
      using json_char_shape [of ascii c] by (cases t) auto
    then show ?case
      using Cons json_char_unique [of ascii c _ d] by fastforce
  qed
  then show "json_text ascii s @ x = json_text ascii t @ y \<Longrightarrow> s = t \<and> x = y"
    by (simp add: json_text_def)
qed

text \<open>Elements between commas, when each of them is uniquely readable.\<close>

lemma commas_Cons: "commas (x # xs) = x @ concat (map (\<lambda>y. CHR '','' # y) xs)"
  by (induction xs arbitrary: x) auto

definition readable :: "('a \<Rightarrow> string) \<Rightarrow> 'a set \<Rightarrow> 'a set \<Rightarrow> bool" where
  "readable f A B \<longleftrightarrow> (\<forall>v\<in>A. \<forall>w\<in>B. \<forall>x y. f v @ x = f w @ y \<longrightarrow> v = w \<and> x = y)"

lemma readableD:
  "readable f A B \<Longrightarrow> v \<in> A \<Longrightarrow> w \<in> B \<Longrightarrow> f v @ x = f w @ y \<Longrightarrow> v = w \<and> x = y"
  unfolding readable_def by blast

lemma readable_mono: "readable f A B \<Longrightarrow> A' \<subseteq> A \<Longrightarrow> B' \<subseteq> B \<Longrightarrow> readable f A' B'"
  unfolding readable_def by blast

lemma comma_tail_unique:
  assumes "readable f (set xs) (set ys)" "c \<noteq> CHR '',''"
    and "concat (map (\<lambda>v. CHR '','' # f v) xs) @ c # x = concat (map (\<lambda>v. CHR '','' # f v) ys) @ c # y"
  shows "xs = ys \<and> x = y"
  using assms
proof (induction xs arbitrary: ys)
  case Nil
  then show ?case by (cases ys) auto
next
  case (Cons v vs)
  from Cons.prems(2,3) obtain w ws where ys: "ys = w # ws" by (cases ys) auto
  have "v = w \<and> concat (map (\<lambda>v. CHR '','' # f v) vs) @ c # x = concat (map (\<lambda>v. CHR '','' # f v) ws) @ c # y"
    using Cons.prems(3) ys by (intro readableD [OF Cons.prems(1)]) simp_all
  moreover have "readable f (set vs) (set ws)"
    by (rule readable_mono [OF Cons.prems(1)]) (auto simp: ys)
  ultimately show ?case using Cons.IH Cons.prems(2) ys by blast
qed

lemma commas_unique:
  assumes r: "readable f (set xs) (set ys)" and c: "c \<noteq> CHR '',''"
    and shape: "\<And>v. \<exists>h t. f v = h # t \<and> h \<noteq> c"
    and eq: "commas (map f xs) @ c # x = commas (map f ys) @ c # y"
  shows "xs = ys \<and> x = y"
proof (cases xs)
  case Nil
  then show ?thesis using eq shape [of "hd ys"] by (cases ys) (auto simp: commas_Cons)
next
  case (Cons v vs)
  then obtain w ws where ys: "ys = w # ws"
    using eq shape [of v] by (cases ys) (auto simp: commas_Cons)
  have split: "commas (map f (v # vs)) @ c # x = f v @ concat (map (\<lambda>v. CHR '','' # f v) vs) @ c # x"
    for v vs x by (simp add: commas_Cons comp_def)
  have "f v @ concat (map (\<lambda>v. CHR '','' # f v) vs) @ c # x = f w @ concat (map (\<lambda>v. CHR '','' # f v) ws) @ c # y"
    using eq unfolding Cons ys split .
  then have "v = w \<and> concat (map (\<lambda>v. CHR '','' # f v) vs) @ c # x = concat (map (\<lambda>v. CHR '','' # f v) ws) @ c # y"
    by (intro readableD [OF r]) (simp_all add: Cons ys)
  moreover have "readable f (set vs) (set ws)"
    by (rule readable_mono [OF r]) (auto simp: Cons ys)
  ultimately show ?thesis using comma_tail_unique [OF _ c] Cons ys by blast
qed

lemma json_text_shape: "\<exists>t. json_text ascii s = CHR 0x22 # t"
  by (simp add: json_text_def)

lemma dumps_shape: "\<exists>h t. dumps ascii v = h # t \<and> h \<in> set ''[{tf'' \<union> {CHR 0x22}"
  by (cases v) (simp_all add: json_text_def)

lemma dumps_kinds:
  "dumps ascii (JText s) @ x = dumps ascii w @ y \<Longrightarrow> \<exists>t. w = JText t"
  "dumps ascii (JFlag b) @ x = dumps ascii w @ y \<Longrightarrow> w = JFlag b"
  "dumps ascii (JArr vs) @ x = dumps ascii w @ y \<Longrightarrow> \<exists>ws. w = JArr ws"
  "dumps ascii (JObj fs) @ x = dumps ascii w @ y \<Longrightarrow> \<exists>gs. w = JObj gs"
  by (cases w; simp add: json_text_def split: if_splits)+

lemma sort_canonical:
  "sorted_wrt (<) (map fst fs) \<Longrightarrow>
   sort_key fst (map (map_prod id g) fs) = map (map_prod id g) (fs :: (string \<times> json) list)"
  by (rule sort_key_id_if_sorted) (simp add: strict_sorted_imp_sorted comp_def)

lemma member_readable:
  assumes "\<And>k v k' w. (k, v) \<in> A \<Longrightarrow> (k', w) \<in> B \<Longrightarrow> readable (dumps ascii) {v} {w}"
  shows "readable (\<lambda>m. member_text ascii (map_prod id (dumps ascii) m)) A B"
  unfolding readable_def
proof (intro ballI allI impI)
  fix m n x y
  assume mn: "m \<in> A" "n \<in> B"
    and eq: "member_text ascii (map_prod id (dumps ascii) m) @ x = member_text ascii (map_prod id (dumps ascii) n) @ y"
  obtain k v k' w where p: "m = (k, v)" "n = (k', w)" by (cases m, cases n)
  have "json_text ascii k @ CHR '':'' # dumps ascii v @ x = json_text ascii k' @ CHR '':'' # dumps ascii w @ y"
    using eq p by (simp add: member_text_def)
  then have "k = k'" "dumps ascii v @ x = dumps ascii w @ y" using json_text_unique by blast+
  then show "m = n \<and> x = y"
    using assms [of k v k' w] mn p by (simp add: readable_def)
qed

lemma dumps_unique:
  "canonical_json v \<Longrightarrow> canonical_json w \<Longrightarrow> dumps ascii v @ x = dumps ascii w @ y \<Longrightarrow> v = w \<and> x = y"
proof (induction v arbitrary: w x y)
  case (JText s)
  from dumps_kinds(1) [OF JText.prems(3)] obtain t where w: "w = JText t" by blast
  show ?case using json_text_unique [of ascii s x t y] JText.prems(3) unfolding w by simp
next
  case (JFlag b)
  from dumps_kinds(2) [OF JFlag.prems(3)] have "w = JFlag b" .
  then show ?case using JFlag.prems(3) by simp
next
  case (JArr vs)
  from dumps_kinds(3) [OF JArr.prems(3)] obtain ws where w: "w = JArr ws" by blast
  have "readable (dumps ascii) (set vs) (set ws)"
    unfolding readable_def using JArr.IH JArr.prems(1,2) by (auto simp: w list_all_iff)
  moreover have "\<exists>h t. dumps ascii v = h # t \<and> h \<noteq> CHR '']''" for v
    using dumps_shape [of ascii v] by auto
  moreover have "commas (map (dumps ascii) vs) @ CHR '']'' # x = commas (map (dumps ascii) ws) @ CHR '']'' # y"
    using JArr.prems(3) by (simp add: w)
  ultimately show ?case using commas_unique [of "dumps ascii" vs ws "CHR '']''" x y] w by simp
next
  case (JObj fs)
  from dumps_kinds(4) [OF JObj.prems(3)] obtain gs where w: "w = JObj gs" by blast
  let ?m = "\<lambda>m. member_text ascii (map_prod id (dumps ascii) m)"
  have "readable (dumps ascii) {v} {u}" if kv: "(k, v) \<in> set fs" and ku: "(k', u) \<in> set gs" for k v k' u
  proof -
    have "canonical_json v" "canonical_json u"
      using JObj.prems(1,2) kv ku unfolding w by (auto simp: list_all_iff)
    then show ?thesis using JObj.IH [OF kv, of v u] unfolding readable_def by auto
  qed
  then have "readable ?m (set fs) (set gs)" by (rule member_readable)
  moreover have "\<exists>h t. ?m p = h # t \<and> h \<noteq> CHR ''}''" for p
    by (simp add: member_text_def json_text_def)
  moreover have "commas (map ?m fs) @ CHR ''}'' # x = commas (map ?m gs) @ CHR ''}'' # y"
    using JObj.prems by (simp add: w sort_canonical comp_def)
  ultimately show ?case using commas_unique [of ?m fs gs "CHR ''}''" x y] w by simp
qed

text \<open>The text of a canonical value determines the value.\<close>

lemma dumps_injective:
  "canonical_json v \<Longrightarrow> canonical_json w \<Longrightarrow> dumps ascii v = dumps ascii w \<longleftrightarrow> v = w"
  using dumps_unique [of v w ascii "[]" "[]"] by auto

lemma utf8_char_unique: "utf8_char c @ x = utf8_char d @ y \<Longrightarrow> c = d \<and> x = y"
proof -
  have decoded: "(if b < 128 then b else (b - 192) * 64 + (e - 128)) = (of_char c :: nat)"
    if "utf8_char c @ z = b # r" "r \<noteq> [] \<longrightarrow> e = hd r" "b < 128 \<or> r \<noteq> []" for c z b r e
    using that by (auto simp: utf8_char_def split: if_splits)
  assume eq: "utf8_char c @ x = utf8_char d @ y"
  obtain b r where br: "utf8_char c @ x = b # r"
    by (cases "utf8_char c @ x") (auto simp: utf8_char_def split: if_splits)
  have long: "b < 128 \<or> r \<noteq> []" using br by (auto simp: utf8_char_def split: if_splits)
  have "(of_char c :: nat) = of_char d"
    using decoded [OF br _ long, of "hd r"] decoded [of d y b r "hd r"] eq br long by simp
  then have "c = d" by simp
  then show ?thesis using eq by simp
qed

lemma utf8_injective: "utf8 s = utf8 t \<longleftrightarrow> s = t"
proof
  show "utf8 s = utf8 t \<Longrightarrow> s = t"
  proof (induction s arbitrary: t)
    case Nil
    then show ?case by (cases t) (auto simp: utf8_def utf8_char_def split: if_splits)
  next
    case (Cons c s)
    from Cons.prems obtain d u where t: "t = d # u"
      by (cases t) (auto simp: utf8_def utf8_char_def split: if_splits)
    have "utf8_char c @ utf8 s = utf8_char d @ utf8 u"
      using Cons.prems by (simp add: t utf8_def)
    then have "c = d \<and> utf8 s = utf8 u" by (rule utf8_char_unique)
    then show ?case using Cons.IH t by simp
  qed
qed simp

end
