(* ===== verification/Monitoring_Source.thy ===== *)
theory Monitoring_Source
  imports Canonical_JSON
begin

text \<open>
  src/src/jlmirror_monitoring/source.py: the configuration of a monitoring source, its
  canonical fingerprint and the plan that creates the source, its first generation and
  its first synchronisation. \<open>urlsplit\<close> is written out as far as the constructor of the
  provider configuration can tell it apart: that constructor compares the text with its
  own rendering at the end and every failure is \<open>ValueError\<close>.
\<close>

section \<open>States and canonical text\<close>

datatype operational_evidence =
    EvidenceCurrent | EvidenceStale | EvidenceIncomplete | EvidenceReconciliation
  | EvidenceUnavailable

datatype sync_state =
    SyncPending | SyncRunning | SyncSucceeded | SyncReconciliation | SyncFailedTerminal

definition canonical_text :: "nat \<Rightarrow> string \<Rightarrow> bool" where
  "canonical_text max_len s \<longleftrightarrow> is_explicit s \<and> length s \<le> max_len"

definition canonical_explicit_text :: "nat \<Rightarrow> string \<Rightarrow> string res" where
  "canonical_explicit_text max_len s = construct (canonical_text max_len) ValueError s"

section \<open>Provider configuration\<close>

definition digits_value :: "string \<Rightarrow> nat" where
  "digits_value s = foldl (\<lambda>n c. 10 * n + (of_char c - 48)) 0 s"

definition all_digits :: "string \<Rightarrow> bool" where
  "all_digits s \<longleftrightarrow> s \<noteq> [] \<and> list_all is_digit s"

text \<open>Decimal text as \<open>str(int)\<close> writes it.\<close>

definition canonical_decimal :: "string \<Rightarrow> bool" where
  "canonical_decimal s \<longleftrightarrow> all_digits s \<and> (s = ''0'' \<or> hd s \<noteq> CHR ''0'')"

definition is_hex :: "char \<Rightarrow> bool" where
  "is_hex c \<longleftrightarrow> is_digit c \<or> code_in 97 102 c \<or> code_in 65 70 c"

definition ipv4_text :: "string \<Rightarrow> bool" where
  "ipv4_text s \<longleftrightarrow>
     (let octets = split_on (CHR ''.'') s
      in length octets = 4 \<and>
         list_all (\<lambda>w. canonical_decimal w \<and> length w \<le> 3 \<and> digits_value w \<le> 255) octets)"

definition hextet :: "string \<Rightarrow> bool" where
  "hextet s \<longleftrightarrow> s \<noteq> [] \<and> length s \<le> 4 \<and> list_all is_hex s"

text \<open>\<open>ipaddress.IPv6Address\<close> without a scope: at most one run of groups is left out.\<close>

definition ipv6_groups :: "string list \<Rightarrow> bool" where
  "ipv6_groups parts \<longleftrightarrow>
     length parts \<le> 9 \<and>
     (case filter (\<lambda>i. parts ! i = []) [1 ..< length parts - 1] of
        [] \<Rightarrow> length parts = 8 \<and> list_all hextet parts
      | [k] \<Rightarrow>
          (let ahead = (if hd parts = [] then tl (take k parts) else take k parts);
               behind = (if last parts = [] then butlast (drop (Suc k) parts) else drop (Suc k) parts)
           in (hd parts = [] \<longrightarrow> ahead = []) \<and> (last parts = [] \<longrightarrow> behind = []) \<and>
              length ahead + length behind < 8 \<and>
              list_all hextet ahead \<and> list_all hextet behind)
      | _ \<Rightarrow> False)"

definition ipv6_text :: "string \<Rightarrow> bool" where
  "ipv6_text s \<longleftrightarrow>
     (let parts = split_on (CHR '':'') s
      in 3 \<le> length parts \<and>
         (if CHR ''.'' \<in> set (last parts)
          then ipv4_text (last parts) \<and> ipv6_groups (butlast parts @ [''0'', ''0''])
          else ipv6_groups parts))"

text \<open>What may stand in brackets: an address, with a scope behind \<open>%\<close>, or an IPvFuture form.\<close>

definition bracket_host :: "string \<Rightarrow> bool" where
  "bracket_host h \<longleftrightarrow>
     (if h \<noteq> [] \<and> hd h = CHR ''v''
      then
        (let version = takeWhile is_hex (tl h); rest = dropWhile is_hex (tl h)
         in version \<noteq> [] \<and> 2 \<le> length rest \<and> hd rest = CHR ''.'')
      else
        (let address = takeWhile (\<lambda>c. c \<noteq> CHR ''%'') h;
             scope = dropWhile (\<lambda>c. c \<noteq> CHR ''%'') h
         in ipv6_text address \<and>
            (scope = [] \<or> tl scope \<noteq> [] \<and> CHR ''%'' \<notin> set (tl scope))))"

definition port_suffix :: "string \<Rightarrow> bool" where
  "port_suffix s \<longleftrightarrow>
     s = [] \<or> hd s = CHR '':'' \<and> canonical_decimal (tl s) \<and> digits_value (tl s) \<le> 65535"

definition lower_host :: "string \<Rightarrow> bool" where
  "lower_host h \<longleftrightarrow> h \<noteq> [] \<and> list_all (\<lambda>c. \<not> is_upper c) h \<and> last h \<noteq> CHR ''.''"

definition canonical_netloc :: "string \<Rightarrow> bool" where
  "canonical_netloc n \<longleftrightarrow>
     CHR ''@'' \<notin> set n \<and>
     (if n \<noteq> [] \<and> hd n = CHR ''[''
      then
        (let h = takeWhile (\<lambda>c. c \<noteq> CHR '']'') (tl n);
             rest = dropWhile (\<lambda>c. c \<noteq> CHR '']'') (tl n)
         in rest \<noteq> [] \<and> CHR '':'' \<in> set h \<and> lower_host h \<and> bracket_host h \<and> port_suffix (tl rest))
      else
        (let h = takeWhile (\<lambda>c. c \<noteq> CHR '':'') n; rest = dropWhile (\<lambda>c. c \<noteq> CHR '':'') n
         in CHR ''['' \<notin> set n \<and> CHR '']'' \<notin> set n \<and> lower_host h \<and> port_suffix rest))"

definition https_prefix :: string where "https_prefix = ''https://''"

definition valid_base_url :: "string \<Rightarrow> bool" where
  "valid_base_url raw \<longleftrightarrow>
     canonical_text 2048 raw \<and>
     list_all (\<lambda>c. c \<noteq> CHR 0x5C \<and> code_in 0 127 c \<and> c \<noteq> CHR ''?'' \<and> c \<noteq> CHR ''#'') raw \<and>
     take 8 raw = https_prefix \<and>
     (let rest = drop 8 raw;
          netloc = takeWhile (\<lambda>c. c \<noteq> CHR ''/'') rest;
          path = dropWhile (\<lambda>c. c \<noteq> CHR ''/'') rest
      in canonical_netloc netloc \<and>
         list_all (\<lambda>w. w \<noteq> ''.'' \<and> w \<noteq> ''..'') (split_on (CHR ''/'') path))"

record provider_configuration =
  pc_base_url :: string

definition provider_configuration_init :: "provider_configuration \<Rightarrow> provider_configuration res" where
  "provider_configuration_init c = construct (\<lambda>c. valid_base_url (pc_base_url c)) ValueError c"

section \<open>Scope and command\<close>

record provider_scope =
  ps_host_group_refs :: "string list"

definition valid_provider_scope :: "provider_scope \<Rightarrow> bool" where
  "valid_provider_scope s \<longleftrightarrow>
     length (ps_host_group_refs s) \<le> 256 \<and>
     list_all (canonical_text 256) (ps_host_group_refs s) \<and> distinct (ps_host_group_refs s)"

definition from_refs :: "string list \<Rightarrow> provider_scope res" where
  "from_refs refs = construct valid_provider_scope ValueError \<lparr>ps_host_group_refs = refs\<rparr>"

definition scope_canonical_json :: "provider_scope \<Rightarrow> string" where
  "scope_canonical_json s =
     dumps True (JObj [(''host_group_refs'', JArr (map JText (ps_host_group_refs s)))])"

record create_source_command =
  cc_tenant_id :: string
  cc_display_name :: string
  cc_provider_instance_ref :: string
  cc_provider_configuration :: provider_configuration
  cc_credential_binding_ref :: string
  cc_configured_provider_scope :: provider_scope

definition create_source_command_init :: "create_source_command \<Rightarrow> create_source_command res" where
  "create_source_command_init c =
     construct (\<lambda>c. canonical_text 256 (cc_tenant_id c) \<and> canonical_text 512 (cc_display_name c) \<and>
       canonical_text 512 (cc_provider_instance_ref c) \<and>
       canonical_text 512 (cc_credential_binding_ref c)) ValueError c"

definition request_body :: "create_source_command \<Rightarrow> json" where
  "request_body c = JObj
     [(''provider_profile'', JText ''zabbix''),
      (''display_name'', JText (cc_display_name c)),
      (''provider_instance_ref'', JText (cc_provider_instance_ref c)),
      (''provider_configuration'', JObj [(''base_url'', JText (pc_base_url (cc_provider_configuration c)))]),
      (''credential_binding_ref'', JText (cc_credential_binding_ref c)),
      (''configured_provider_scope'',
       JObj [(''host_group_refs'', JArr (map JText (ps_host_group_refs (cc_configured_provider_scope c))))])]"

definition request_bytes :: "create_source_command \<Rightarrow> nat list" where
  "request_bytes c = utf8 (dumps True (request_body c))"

definition canonical_fingerprint :: "(nat list \<Rightarrow> string) \<Rightarrow> create_source_command \<Rightarrow> string" where
  "canonical_fingerprint sha256_hex c = sha256_hex (request_bytes c)"

section \<open>The creation plan\<close>

record monitoring_source =
  ms_tenant_id :: string
  ms_monitoring_source_id :: string
  ms_provider_scope_tenant_binding_id :: string
  ms_provider_profile :: string
  ms_active_source_instance_generation :: string
  ms_configuration_revision :: int
  ms_scope_revision :: int
  ms_display_name :: string
  ms_credential_binding_ref :: string
  ms_configured_provider_scope :: provider_scope
  ms_operational_evidence_state :: operational_evidence
  ms_replacement_candidate_ref :: "string option"
  ms_last_successful_sync_at :: "instant option"
  ms_last_attempt_at :: "instant option"
  ms_last_sync_operation_id :: string
  ms_created_at :: instant
  ms_updated_at :: instant

record source_generation =
  sg_tenant_id :: string
  sg_monitoring_source_id :: string
  sg_source_instance_generation :: string
  sg_provider_profile :: string
  sg_provider_instance_ref :: string
  sg_provider_configuration :: provider_configuration
  sg_created_at :: instant

record sync_operation =
  so_tenant_id :: string
  so_monitoring_sync_operation_id :: string
  so_monitoring_source_id :: string
  so_source_instance_generation :: string
  so_configuration_revision :: int
  so_scope_revision :: int
  so_responsibility_kind :: string
  so_state :: sync_state
  so_created_at :: instant

record source_creation_plan =
  sp_source :: monitoring_source
  sp_generation :: source_generation
  sp_sync_operation :: sync_operation
  sp_audit_evidence_id :: string
  sp_canonical_request_fingerprint :: string

text \<open>\<open>str.isalnum\<close> on the code points 0 to 255.\<close>

definition alnum_char :: "char \<Rightarrow> bool" where
  "alnum_char c \<longleftrightarrow>
     is_alnum c \<or> c \<in> {CHR 0xAA, CHR 0xB2, CHR 0xB3, CHR 0xB5} \<or>
     code_in 185 186 c \<or> code_in 188 190 c \<or>
     code_in 192 214 c \<or> code_in 216 246 c \<or> code_in 248 255 c"

text \<open>\<open>secret\<close> is what \<open>secrets.token_urlsafe(32)\<close> returns.\<close>

definition opaque_token :: "string \<Rightarrow> string \<Rightarrow> string res" where
  "opaque_token prefix secret =
     (let letters = filter (\<lambda>c. c \<noteq> CHR ''-'') prefix in
      if letters = [] \<or> \<not> list_all alnum_char letters then Inl ValueError
      else Inr (prefix @ ''_'' @ secret))"

text \<open>The three records and what they share.\<close>

definition linked_plan ::
  "(nat list \<Rightarrow> string) \<Rightarrow> create_source_command \<Rightarrow> instant \<Rightarrow> string \<Rightarrow> string \<Rightarrow> string \<Rightarrow>
   string \<Rightarrow> string \<Rightarrow> source_creation_plan" where
  "linked_plan sha256_hex command created_at source_id generation binding_id operation_id audit_id =
     \<lparr>sp_source =
        \<lparr>ms_tenant_id = cc_tenant_id command, ms_monitoring_source_id = source_id,
         ms_provider_scope_tenant_binding_id = binding_id, ms_provider_profile = ''zabbix'',
         ms_active_source_instance_generation = generation,
         ms_configuration_revision = 1, ms_scope_revision = 1,
         ms_display_name = cc_display_name command,
         ms_credential_binding_ref = cc_credential_binding_ref command,
         ms_configured_provider_scope = cc_configured_provider_scope command,
         ms_operational_evidence_state = EvidenceReconciliation,
         ms_replacement_candidate_ref = None, ms_last_successful_sync_at = None,
         ms_last_attempt_at = None, ms_last_sync_operation_id = operation_id,
         ms_created_at = created_at, ms_updated_at = created_at\<rparr>,
      sp_generation =
        \<lparr>sg_tenant_id = cc_tenant_id command, sg_monitoring_source_id = source_id,
         sg_source_instance_generation = generation, sg_provider_profile = ''zabbix'',
         sg_provider_instance_ref = cc_provider_instance_ref command,
         sg_provider_configuration = cc_provider_configuration command,
         sg_created_at = created_at\<rparr>,
      sp_sync_operation =
        \<lparr>so_tenant_id = cc_tenant_id command, so_monitoring_sync_operation_id = operation_id,
         so_monitoring_source_id = source_id, so_source_instance_generation = generation,
         so_configuration_revision = 1, so_scope_revision = 1,
         so_responsibility_kind = ''validation_and_initial_sync'', so_state = SyncPending,
         so_created_at = created_at\<rparr>,
      sp_audit_evidence_id = audit_id,
      sp_canonical_request_fingerprint = canonical_fingerprint sha256_hex command\<rparr>"

definition plan_source_creation ::
  "(nat list \<Rightarrow> string) \<Rightarrow> ('s, string) op \<Rightarrow> ('s, string) op \<Rightarrow> ('s, string) op \<Rightarrow> ('s, string) op \<Rightarrow>
   ('s, string) op \<Rightarrow> ('s, datetime) op \<Rightarrow> create_source_command \<Rightarrow> ('s, source_creation_plan) op" where
  "plan_source_creation sha256_hex source_id_factory generation_factory
     scope_tenant_binding_id_factory operation_id_factory audit_evidence_id_factory now command =
   bindS now (\<lambda>clock.
   bindS (liftS (aware clock)) (\<lambda>created_at.
   bindS source_id_factory (\<lambda>source_id.
   bindS generation_factory (\<lambda>generation.
   bindS scope_tenant_binding_id_factory (\<lambda>binding_id.
   bindS operation_id_factory (\<lambda>operation_id.
   bindS audit_evidence_id_factory (\<lambda>audit_id.
   (let generated = [source_id, generation, binding_id, operation_id, audit_id] in
    thenS (ensureS (list_all (canonical_text 512) generated) ValueError)
   (thenS (ensureS (distinct generated) ValueError)
   (returnS
     (linked_plan sha256_hex command created_at source_id generation binding_id operation_id
       audit_id)))))))))))"

section \<open>What a fingerprint binds\<close>

text \<open>The body with its fields in the order in which they are written.\<close>

definition ordered_body :: "create_source_command \<Rightarrow> json" where
  "ordered_body c = JObj
     [(''configured_provider_scope'',
       JObj [(''host_group_refs'', JArr (map JText (ps_host_group_refs (cc_configured_provider_scope c))))]),
      (''credential_binding_ref'', JText (cc_credential_binding_ref c)),
      (''display_name'', JText (cc_display_name c)),
      (''provider_configuration'', JObj [(''base_url'', JText (pc_base_url (cc_provider_configuration c)))]),
      (''provider_instance_ref'', JText (cc_provider_instance_ref c)),
      (''provider_profile'', JText ''zabbix'')]"

lemma inj_JText: "inj JText"
  by (simp add: inj_def)

lemma ordered_body_canonical: "canonical_json (ordered_body c)"
  by (simp add: ordered_body_def list_all_iff less_char_def)

lemma dumps_request_body: "dumps True (request_body c) = dumps True (ordered_body c)"
  by (simp add: request_body_def ordered_body_def less_char_def less_eq_char_def)

text \<open>The fingerprint of a creation request is taken over a text that determines the
  request. Two commands have the same canonical bytes exactly when they agree on display
  name, provider instance, address, credential binding and host groups in order; the
  tenant is not part of it. So equal requests have equal fingerprints, whatever the digest.\<close>

theorem request_bytes_bind_command:
  "request_bytes c = request_bytes d \<longleftrightarrow>
     cc_display_name c = cc_display_name d \<and>
     cc_provider_instance_ref c = cc_provider_instance_ref d \<and>
     pc_base_url (cc_provider_configuration c) = pc_base_url (cc_provider_configuration d) \<and>
     cc_credential_binding_ref c = cc_credential_binding_ref d \<and>
     ps_host_group_refs (cc_configured_provider_scope c) =
       ps_host_group_refs (cc_configured_provider_scope d)"
  unfolding request_bytes_def utf8_injective dumps_request_body
    dumps_injective [OF ordered_body_canonical ordered_body_canonical]
  by (auto simp: ordered_body_def inj_map_eq_map [OF inj_JText])

section \<open>What a plan links\<close>

text \<open>A creation plan is one linked unit. The five generated identities are canonical and
  distinct, generation and synchronisation name the source and its active generation, all
  three belong to the tenant of the command and carry the same aware creation time. The
  source starts at revision 1 without evidence that is current, and the synchronisation
  that would establish it is pending.\<close>

theorem creation_plan_linked:
  assumes "plan_source_creation sha source_ids generations bindings operations audits now
      command s = (Inr p, t)"
  shows "distinct [ms_monitoring_source_id (sp_source p),
      ms_active_source_instance_generation (sp_source p),
      ms_provider_scope_tenant_binding_id (sp_source p),
      ms_last_sync_operation_id (sp_source p), sp_audit_evidence_id p] \<and>
    list_all (canonical_text 512) [ms_monitoring_source_id (sp_source p),
      ms_active_source_instance_generation (sp_source p), sp_audit_evidence_id p] \<and>
    sg_monitoring_source_id (sp_generation p) = ms_monitoring_source_id (sp_source p) \<and>
    so_monitoring_source_id (sp_sync_operation p) = ms_monitoring_source_id (sp_source p) \<and>
    sg_source_instance_generation (sp_generation p) = ms_active_source_instance_generation (sp_source p) \<and>
    so_source_instance_generation (sp_sync_operation p) = ms_active_source_instance_generation (sp_source p) \<and>
    so_monitoring_sync_operation_id (sp_sync_operation p) = ms_last_sync_operation_id (sp_source p) \<and>
    (\<forall>tenant \<in> {ms_tenant_id (sp_source p), sg_tenant_id (sp_generation p), so_tenant_id (sp_sync_operation p)}.
       tenant = cc_tenant_id command) \<and>
    ms_created_at (sp_source p) = sg_created_at (sp_generation p) \<and>
    ms_created_at (sp_source p) = so_created_at (sp_sync_operation p) \<and>
    (\<exists>u. now s = (Inr (Aware (ms_created_at (sp_source p))), u)) \<and>
    ms_configuration_revision (sp_source p) = 1 \<and> ms_scope_revision (sp_source p) = 1 \<and>
    ms_operational_evidence_state (sp_source p) \<noteq> EvidenceCurrent \<and>
    so_state (sp_sync_operation p) = SyncPending \<and>
    sp_canonical_request_fingerprint p = sha (request_bytes command)"
proof -
  from assms obtain clock created a b c d e u where facts:
    "now s = (Inr clock, u)" "aware clock = Inr created"
    "list_all (canonical_text 512) [a, b, c, d, e]" "distinct [a, b, c, d, e]"
    "p = linked_plan sha command created a b c d e"
    unfolding plan_source_creation_def Let_def sequence_returns liftS_returns_iff ensure_Inr_iff
      op_simps prod.inject sum.inject by blast
  then have "now s = (Inr (Aware created), u)" by (simp add: aware_Inr_iff)
  then show ?thesis
    using facts(3,4) unfolding facts(5) by (simp add: linked_plan_def canonical_fingerprint_def)
qed

text \<open>A sample request.\<close>

definition sample_source_command :: create_source_command where
  "sample_source_command =
     \<lparr>cc_tenant_id = ''tenant-a'', cc_display_name = ''Main site'', cc_provider_instance_ref = ''zbx-1'',
      cc_provider_configuration = \<lparr>pc_base_url = ''https://zabbix.example.org:8443/ui''\<rparr>,
      cc_credential_binding_ref = ''cred-1'',
      cc_configured_provider_scope = \<lparr>ps_host_group_refs = [''10'', ''20'']\<rparr>\<rparr>"

definition sample_plan :: source_creation_plan where
  "sample_plan = linked_plan (map char_of) sample_source_command (At 7) ''s'' ''g'' ''b'' ''o'' ''a''"

lemma sample_plan_created:
  "plan_source_creation (map char_of) (returnS ''s'') (returnS ''g'') (returnS ''b'') (returnS ''o'')
     (returnS ''a'') (returnS (Aware (At 7))) sample_source_command () = (Inr sample_plan, ())"
  by (simp add: plan_source_creation_def sample_plan_def canonical_text_def explicit_eval)

theorem creation_plan_linked_witness:
  "so_state (sp_sync_operation sample_plan) = SyncPending"
  using creation_plan_linked [OF sample_plan_created] by (elim conjE)

end
