(* ===== verification/Provider_Access.thy ===== *)
theory Provider_Access
  imports Monitoring_Source
begin

text \<open>
  src/src/jlmirror_monitoring/validation_worker.py: credentials, admitted endpoints and host
  groups, the ports that every collector uses, and the validation of a configured scope.
  The contract that all collectors share is the locale \<open>evidence_collector\<close>: a result
  claims current evidence only when it names no failure. A worker that claims work,
  collects and completes is the client of that contract.
\<close>

section \<open>Catching\<close>

text \<open>
  \<open>try: x = m / except ...: return handler\<close>, then the rest of the function. Exceptions
  for which there is no handler pass through.
\<close>

definition tryS ::
  "('s, 'a) op \<Rightarrow> (exn \<Rightarrow> 'b option) \<Rightarrow> ('a \<Rightarrow> ('s, 'b) op) \<Rightarrow> ('s, 'b) op" where
  "tryS m handler k = (\<lambda>s. case m s of
     (Inr v, t) \<Rightarrow> k v t
   | (Inl e, t) \<Rightarrow> (case handler e of Some r \<Rightarrow> (Inr r, t) | None \<Rightarrow> (Inl e, t)))"

lemma tryS_returns_iff:
  "tryS m handler k s = (Inr r, t) \<longleftrightarrow>
     (\<exists>v u. m s = (Inr v, u) \<and> k v u = (Inr r, t)) \<or>
     (\<exists>e. m s = (Inl e, t) \<and> handler e = Some r)"
  by (auto simp: tryS_def split: prod.splits sum.splits option.splits)

lemma tryS_raises_iff:
  "tryS m handler k s = (Inl e, t) \<longleftrightarrow>
     (\<exists>v u. m s = (Inr v, u) \<and> k v u = (Inl e, t)) \<or>
     (m s = (Inl e, t) \<and> handler e = None)"
  by (auto simp: tryS_def split: prod.splits sum.splits option.splits)

lemma tryS_steps [simp]:
  "m s = (Inr v, t) \<Longrightarrow> tryS m handler k s = k v t"
  "m s = (Inl e, t) \<Longrightarrow> tryS m handler k s =
     (case handler e of Some r \<Rightarrow> (Inr r, t) | None \<Rightarrow> (Inl e, t))"
  by (simp_all add: tryS_def)

text \<open>\<open>except ValueError\<close> also catches the subclass that reports an invalid cursor.\<close>

definition is_value_error :: "exn \<Rightarrow> bool" where
  "is_value_error e \<longleftrightarrow> e \<in> {ValueError, CursorInvalid}"

definition catch_only :: "exn \<Rightarrow> 'b \<Rightarrow> exn \<Rightarrow> 'b option" where
  "catch_only caught r e = (if e = caught then Some r else None)"

text \<open>The three clauses around a read; \<open>wide\<close> tells whether the last one also names
  \<open>TypeError\<close> and \<open>ValueError\<close>.\<close>

definition catch_provider :: "bool \<Rightarrow> 'b \<Rightarrow> 'b \<Rightarrow> 'b \<Rightarrow> exn \<Rightarrow> 'b option" where
  "catch_provider wide rejected unavailable protocol e =
     (if e = ProviderAuthenticationError then Some rejected
      else if e = ProviderUnavailableError then Some unavailable
      else if e = ProviderProtocolError \<or> wide \<and> (e = TypeError \<or> is_value_error e) then Some protocol
      else None)"

lemma catch_only_Some: "catch_only c r e = Some x \<longleftrightarrow> e = c \<and> x = r"
  by (auto simp: catch_only_def)

lemma catch_provider_Some:
  "catch_provider wide a b c e = Some x \<Longrightarrow> x = a \<or> x = b \<or> x = c"
  by (auto simp: catch_provider_def split: if_splits)

section \<open>Credentials, endpoints and host groups\<close>

record zabbix_credential =
  zc_api_token :: string
  zc_credential_generation_ref :: string

definition valid_zabbix_credential :: "zabbix_credential \<Rightarrow> bool" where
  "valid_zabbix_credential c \<longleftrightarrow> zc_api_token c \<noteq> [] \<and> zc_credential_generation_ref c \<noteq> []"

record admitted_endpoint =
  ae_api_url :: string
  ae_egress_decision_ref :: string

definition valid_admitted_endpoint :: "admitted_endpoint \<Rightarrow> bool" where
  "valid_admitted_endpoint e \<longleftrightarrow>
     (\<exists>n \<le> length (ae_api_url e). drop n (ae_api_url e) = ''/api_jsonrpc.php'') \<and>
     ae_egress_decision_ref e \<noteq> []"

record host_group =
  hg_groupid :: string
  hg_name :: "string option"

definition valid_host_group :: "host_group \<Rightarrow> bool" where
  "valid_host_group g \<longleftrightarrow> hg_groupid g \<noteq> []"

type_synonym 's credential_resolver = "string \<Rightarrow> ('s, zabbix_credential) op"
type_synonym 's outbound_admission = "provider_configuration \<Rightarrow> ('s, admitted_endpoint) op"
type_synonym 's group_reader =
  "admitted_endpoint \<Rightarrow> zabbix_credential \<Rightarrow> string list \<Rightarrow> ('s, host_group list) op"

section \<open>The contract of a collector\<close>

locale evidence_collector =
  fixes collect :: "'c \<Rightarrow> ('s, 'r) op"
    and failure :: "'r \<Rightarrow> 'f option"
    and operation :: "'r \<Rightarrow> sync_state"
    and evidence :: "'r \<Rightarrow> operational_evidence"
  assumes settled: "collect c s = (Inr r, t) \<Longrightarrow>
      operation r = (if failure r = None then SyncSucceeded else SyncReconciliation)"
    and current_needs_success: "collect c s = (Inr r, t) \<Longrightarrow>
      evidence r = EvidenceCurrent \<Longrightarrow> failure r = None"
begin

text \<open>
  A worker claims the operation, collects under the claim and hands the result to the
  repository, whose answer it returns.
\<close>

definition worker :: "('s, 'c) op \<Rightarrow> ('c \<Rightarrow> 'r \<Rightarrow> ('s, 'a) op) \<Rightarrow> ('s, 'a) op" where
  "worker claim complete =
     bindS claim (\<lambda>c. bindS (collect c) (\<lambda>r. complete c r))"

lemma worker_completes_collected:
  assumes "worker claim complete s = (Inr a, t)"
  obtains c r u v where "claim s = (Inr c, u)" "collect c u = (Inr r, v)" "complete c r v = (Inr a, t)"
    and "operation r \<in> {SyncSucceeded, SyncReconciliation}"
    and "operation r = SyncReconciliation \<longleftrightarrow> failure r \<noteq> None"
    and "evidence r = EvidenceCurrent \<longrightarrow> operation r = SyncSucceeded"
proof -
  from assms obtain c r u v where run: "claim s = (Inr c, u)" "collect c u = (Inr r, v)"
    "complete c r v = (Inr a, t)"
    unfolding worker_def sequence_returns by blast
  show thesis
    using that [OF run] settled [OF run(2)] current_needs_success [OF run(2)] by simp
qed

text \<open>Nothing is completed when the collection raises.\<close>

lemma worker_raises_uncompleted:
  assumes "claim s = (Inr c, u)" "collect c u = (Inl e, v)"
  shows "worker claim complete s = (Inl e, v)"
  using assms by (simp add: worker_def)

end

section \<open>Initial validation\<close>

datatype validation_failure =
    VfCredentialUnavailable | VfAuthenticationRejected | VfEgressNotAdmitted
  | VfProviderUnavailable | VfProtocolInvalid | VfScopeAnchorInaccessible

record validation_claim =
  vc_claim_token :: string
  vc_tenant_id :: string
  vc_monitoring_sync_operation_id :: string
  vc_monitoring_source_id :: string
  vc_provider_scope_tenant_binding_id :: string
  vc_source_instance_generation :: string
  vc_configuration_revision :: int
  vc_scope_revision :: int
  vc_provider_instance_ref :: string
  vc_provider_configuration :: provider_configuration
  vc_credential_binding_ref :: string
  vc_configured_provider_scope :: provider_scope

record validation_result =
  vr_operational_evidence_state :: operational_evidence
  vr_operation_state :: sync_state
  vr_visible_host_group_refs :: "string list"
  vr_missing_host_group_refs :: "string list"
  vr_failure_class :: "validation_failure option"
  vr_egress_decision_ref :: "string option"
  vr_credential_generation_ref :: "string option"

definition vr_succeeded :: "validation_result \<Rightarrow> bool" where
  "vr_succeeded r \<longleftrightarrow> vr_operation_state r = SyncSucceeded"

definition reconciliation_result ::
  "validation_failure \<Rightarrow> operational_evidence \<Rightarrow> string option \<Rightarrow> string option \<Rightarrow>
   string list \<Rightarrow> string list \<Rightarrow> validation_result" where
  "reconciliation_result failure evidence egress generation visible missing =
     \<lparr>vr_operational_evidence_state = evidence, vr_operation_state = SyncReconciliation,
      vr_visible_host_group_refs = visible, vr_missing_host_group_refs = missing,
      vr_failure_class = Some failure, vr_egress_decision_ref = egress,
      vr_credential_generation_ref = generation\<rparr>"

text \<open>The verdict on what the provider returned for the configured groups.\<close>

definition scope_verdict ::
  "string list \<Rightarrow> string list \<Rightarrow> string option \<Rightarrow> string option \<Rightarrow> validation_result" where
  "scope_verdict configured returned egress generation =
     (if \<not> distinct returned
      then reconciliation_result VfProtocolInvalid EvidenceUnavailable egress generation [] []
      else if \<not> list_all (\<lambda>g. g \<in> set configured) returned
      then reconciliation_result VfProtocolInvalid EvidenceUnavailable egress generation [] []
      else
        (let visible = filter (\<lambda>r. r \<in> set returned) configured;
             missing = filter (\<lambda>r. r \<notin> set returned) configured
         in if missing \<noteq> []
            then reconciliation_result VfScopeAnchorInaccessible EvidenceIncomplete egress generation
                   visible missing
            else \<lparr>vr_operational_evidence_state = EvidenceCurrent, vr_operation_state = SyncSucceeded,
                  vr_visible_host_group_refs = visible, vr_missing_host_group_refs = [],
                  vr_failure_class = None, vr_egress_decision_ref = egress,
                  vr_credential_generation_ref = generation\<rparr>))"

definition validate_host_group_scope ::
  "'s credential_resolver \<Rightarrow> 's outbound_admission \<Rightarrow> 's group_reader \<Rightarrow> validation_claim \<Rightarrow>
   ('s, validation_result) op" where
  "validate_host_group_scope resolver admission reader claim =
     tryS (resolver (vc_credential_binding_ref claim))
       (catch_only CredentialResolutionError
         (reconciliation_result VfCredentialUnavailable EvidenceUnavailable None None [] []))
       (\<lambda>credential.
        (let generation = Some (zc_credential_generation_ref credential) in
     tryS (admission (vc_provider_configuration claim))
       (catch_only EgressAdmissionError
         (reconciliation_result VfEgressNotAdmitted EvidenceUnavailable None generation [] []))
       (\<lambda>endpoint.
        (let egress = Some (ae_egress_decision_ref endpoint);
             configured = ps_host_group_refs (vc_configured_provider_scope claim);
             failed = (\<lambda>f. reconciliation_result f EvidenceUnavailable egress generation [] [])
         in
     tryS (reader endpoint credential configured)
       (catch_provider False (failed VfAuthenticationRejected) (failed VfProviderUnavailable)
          (failed VfProtocolInvalid))
       (\<lambda>groups. returnS (scope_verdict configured (map hg_groupid groups) egress generation))))))"

text \<open>\<open>secret\<close> draws the random part of a token.\<close>

definition initial_validation_run ::
  "(string \<Rightarrow> string \<Rightarrow> ('s, validation_claim) op) \<Rightarrow>
   (validation_claim \<Rightarrow> validation_result \<Rightarrow> string \<Rightarrow> ('s, unit) op) \<Rightarrow> ('s, string) op \<Rightarrow>
   's credential_resolver \<Rightarrow> 's outbound_admission \<Rightarrow> 's group_reader \<Rightarrow> string \<Rightarrow>
   ('s, validation_result) op" where
  "initial_validation_run claim_initial complete_initial secret resolver admission reader operation_id =
     bindS (bindS secret (\<lambda>x. liftS (opaque_token ''mon-claim'' x))) (\<lambda>token.
     bindS (claim_initial operation_id token) (\<lambda>claim.
     bindS (validate_host_group_scope resolver admission reader claim) (\<lambda>result.
     bindS (bindS secret (\<lambda>x. liftS (opaque_token ''mon-validation'' x))) (\<lambda>evidence_id.
     thenS (complete_initial claim result evidence_id)
    (returnS result)))))"

lemma reconciliation_result_fields [simp]:
  "vr_failure_class (reconciliation_result f e g c v m) = Some f"
  "vr_operation_state (reconciliation_result f e g c v m) = SyncReconciliation"
  "vr_operational_evidence_state (reconciliation_result f e g c v m) = e"
  by (simp_all add: reconciliation_result_def)

lemma scope_verdict_settled:
  "vr_operation_state (scope_verdict cs rs g c) =
     (if vr_failure_class (scope_verdict cs rs g c) = None then SyncSucceeded else SyncReconciliation)"
  "vr_operational_evidence_state (scope_verdict cs rs g c) = EvidenceCurrent \<Longrightarrow>
     vr_failure_class (scope_verdict cs rs g c) = None"
  by (auto simp: scope_verdict_def Let_def split: if_splits)

lemma validation_cases:
  assumes "validate_host_group_scope resolver admission reader claim s = (Inr r, t)"
  shows "(\<exists>f e g c. r = reconciliation_result f e g c [] [] \<and> e = EvidenceUnavailable) \<or>
    (\<exists>credential endpoint groups u v.
       resolver (vc_credential_binding_ref claim) s = (Inr credential, u) \<and>
       admission (vc_provider_configuration claim) u = (Inr endpoint, v) \<and>
       reader endpoint credential (ps_host_group_refs (vc_configured_provider_scope claim)) v =
         (Inr groups, t) \<and>
       r = scope_verdict (ps_host_group_refs (vc_configured_provider_scope claim))
             (map hg_groupid groups) (Some (ae_egress_decision_ref endpoint))
             (Some (zc_credential_generation_ref credential)))"
  using assms unfolding validate_host_group_scope_def Let_def tryS_returns_iff catch_only_Some
  by (fastforce dest!: catch_provider_Some simp: returnS_def)

interpretation validation: evidence_collector
  "validate_host_group_scope resolver admission reader" vr_failure_class vr_operation_state
  vr_operational_evidence_state
proof
  fix c s r t
  assume "validate_host_group_scope resolver admission reader c s = (Inr r, t)"
  from validation_cases [OF this]
  show "vr_operation_state r = (if vr_failure_class r = None then SyncSucceeded else SyncReconciliation)"
    and "vr_operational_evidence_state r = EvidenceCurrent \<Longrightarrow> vr_failure_class r = None"
    using scope_verdict_settled by fastforce+
qed

end
