(* ===== verification/Host_Inventory.thy ===== *)
theory Host_Inventory
  imports Provider_Access
begin

text \<open>
  src/src/jlmirror_monitoring/host_inventory.py: the normalised evidence of hosts with its
  bounds and its canonical text, and the collection of a snapshot of the hosts in the
  configured groups.
\<close>

section \<open>Host evidence\<close>

datatype inventory_failure =
    IfCredentialUnavailable | IfAuthenticationRejected | IfEgressNotAdmitted
  | IfProviderUnavailable | IfProtocolInvalid | IfSnapshotTruncated
  | IfScopeEvidenceInvalid | IfScopeAnchorInaccessible

definition max_hosts_per_snapshot :: nat where "max_hosts_per_snapshot = 50000"
definition max_interfaces_per_host :: nat where "max_interfaces_per_host = 32"
definition max_groups_per_host :: nat where "max_groups_per_host = 256"
definition max_templates_per_host :: nat where "max_templates_per_host = 256"
definition max_tags_per_host :: nat where "max_tags_per_host = 128"
definition max_normalized_evidence_bytes :: nat where "max_normalized_evidence_bytes = 60000"

definition opt_canonical_text :: "nat \<Rightarrow> string option \<Rightarrow> bool" where
  "opt_canonical_text n x = (case x of None \<Rightarrow> True | Some s \<Rightarrow> canonical_text n s)"

record host_interface =
  hi_interfaceid :: string
  hi_interface_type :: string
  hi_main :: bool
  hi_use_ip :: bool
  hi_ip :: "string option"
  hi_dns :: "string option"
  hi_port :: "string option"

definition valid_host_interface :: "host_interface \<Rightarrow> bool" where
  "valid_host_interface i \<longleftrightarrow>
     canonical_text 256 (hi_interfaceid i) \<and>
     hi_interface_type i \<in> {''agent'', ''snmp'', ''ipmi'', ''jmx'', ''unknown''} \<and>
     opt_canonical_text 255 (hi_ip i) \<and> opt_canonical_text 255 (hi_dns i) \<and>
     opt_canonical_text 32 (hi_port i)"

record named_ref =
  nr_ref :: string
  nr_name :: "string option"

definition valid_named_ref :: "named_ref \<Rightarrow> bool" where
  "valid_named_ref r \<longleftrightarrow> canonical_text 256 (nr_ref r) \<and> opt_canonical_text 512 (nr_name r)"

record host_tag =
  ht_tag :: string
  ht_value :: string

definition valid_host_tag :: "host_tag \<Rightarrow> bool" where
  "valid_host_tag t \<longleftrightarrow>
     canonical_text 255 (ht_tag t) \<and> length (ht_value t) \<le> 1024 \<and>
     list_all (\<lambda>c. \<not> is_control c) (ht_value t)"

record host_inventory =
  iv_device_type :: "string option"
  iv_device_type_full :: "string option"
  iv_os :: "string option"
  iv_os_full :: "string option"
  iv_vendor :: "string option"
  iv_model :: "string option"
  iv_serial_primary :: "string option"
  iv_serial_secondary :: "string option"
  iv_asset_tag :: "string option"
  iv_hardware :: "string option"
  iv_hardware_full :: "string option"
  iv_software :: "string option"
  iv_software_full :: "string option"
  iv_location :: "string option"
  iv_mac_primary :: "string option"
  iv_mac_secondary :: "string option"
  iv_contact :: "string option"
  iv_poc_1_name :: "string option"
  iv_poc_1_email :: "string option"
  iv_poc_1_phone :: "string option"
  iv_poc_2_name :: "string option"
  iv_poc_2_email :: "string option"
  iv_poc_2_phone :: "string option"
  iv_site_city :: "string option"
  iv_site_rack :: "string option"
  iv_site_notes :: "string option"
  iv_url_a :: "string option"
  iv_url_b :: "string option"
  iv_url_c :: "string option"

text \<open>Every field with its name and its bound.\<close>

definition inventory_fields :: "host_inventory \<Rightarrow> (string \<times> string option \<times> nat) list" where
  "inventory_fields v =
     [(''device_type'', iv_device_type v, 512),
      (''device_type_full'', iv_device_type_full v, 2048),
      (''os'', iv_os v, 512),
      (''os_full'', iv_os_full v, 2048),
      (''vendor'', iv_vendor v, 512),
      (''model'', iv_model v, 512),
      (''serial_primary'', iv_serial_primary v, 512),
      (''serial_secondary'', iv_serial_secondary v, 512),
      (''asset_tag'', iv_asset_tag v, 512),
      (''hardware'', iv_hardware v, 2048),
      (''hardware_full'', iv_hardware_full v, 2048),
      (''software'', iv_software v, 2048),
      (''software_full'', iv_software_full v, 2048),
      (''location'', iv_location v, 1024),
      (''mac_primary'', iv_mac_primary v, 32),
      (''mac_secondary'', iv_mac_secondary v, 32),
      (''contact'', iv_contact v, 512),
      (''poc_1_name'', iv_poc_1_name v, 512),
      (''poc_1_email'', iv_poc_1_email v, 255),
      (''poc_1_phone'', iv_poc_1_phone v, 64),
      (''poc_2_name'', iv_poc_2_name v, 512),
      (''poc_2_email'', iv_poc_2_email v, 255),
      (''poc_2_phone'', iv_poc_2_phone v, 64),
      (''site_city'', iv_site_city v, 255),
      (''site_rack'', iv_site_rack v, 255),
      (''site_notes'', iv_site_notes v, 2048),
      (''url_a'', iv_url_a v, 512),
      (''url_b'', iv_url_b v, 512),
      (''url_c'', iv_url_c v, 512)]"

definition valid_inventory :: "host_inventory \<Rightarrow> bool" where
  "valid_inventory v \<longleftrightarrow> list_all (\<lambda>(_, x, n). opt_canonical_text n x) (inventory_fields v)"

record host_evidence =
  he_hostid :: string
  he_technical_name :: string
  he_display_name :: string
  he_inventory :: host_inventory
  he_interfaces :: "host_interface list"
  he_groups :: "named_ref list"
  he_templates :: "named_ref list"
  he_tags :: "host_tag list"
  he_host_status :: string
  he_agent_availability :: string
  he_snmp_availability :: string
  he_ipmi_availability :: string
  he_jmx_availability :: string
  he_agent_error :: "string option"
  he_snmp_error :: "string option"
  he_maintenance_status :: string
  he_maintenance_type :: "string option"

text \<open>A member that is left out when there is no value.\<close>

definition present :: "string \<Rightarrow> string option \<Rightarrow> (string \<times> json) list" where
  "present name x = (case x of None \<Rightarrow> [] | Some s \<Rightarrow> [(name, JText s)])"

definition named_ref_json :: "named_ref \<Rightarrow> json" where
  "named_ref_json r = JObj ((''ref'', JText (nr_ref r)) # present ''name'' (nr_name r))"

definition interface_json :: "host_interface \<Rightarrow> json" where
  "interface_json i = JObj
     ([(''interfaceid'', JText (hi_interfaceid i)), (''interface_type'', JText (hi_interface_type i)),
       (''main'', JFlag (hi_main i)), (''use_ip'', JFlag (hi_use_ip i))] @
      present ''ip'' (hi_ip i) @ present ''dns'' (hi_dns i) @ present ''port'' (hi_port i))"

definition canonical_evidence :: "host_evidence \<Rightarrow> json" where
  "canonical_evidence h = JObj
     ([(''technical_name'', JText (he_technical_name h)), (''display_name'', JText (he_display_name h)),
       (''host_status'', JText (he_host_status h)),
       (''agent_availability'', JText (he_agent_availability h)),
       (''snmp_availability'', JText (he_snmp_availability h)),
       (''ipmi_availability'', JText (he_ipmi_availability h)),
       (''jmx_availability'', JText (he_jmx_availability h))] @
      present ''agent_error'' (he_agent_error h) @ present ''snmp_error'' (he_snmp_error h) @
      [(''maintenance_status'', JText (he_maintenance_status h))] @
      present ''maintenance_type'' (he_maintenance_type h) @
      [(''inventory'', JObj (concat (map (\<lambda>(name, x, _). present name x) (inventory_fields (he_inventory h))))),
       (''interfaces'', JArr (map interface_json (he_interfaces h))),
       (''groups'', JArr (map named_ref_json (he_groups h))),
       (''templates'', JArr (map named_ref_json (he_templates h))),
       (''tags'', JArr (map (\<lambda>t. JObj [(''tag'', JText (ht_tag t)), (''value'', JText (ht_value t))])
                        (he_tags h)))])"

definition evidence_bytes :: "host_evidence \<Rightarrow> nat list" where
  "evidence_bytes h = utf8 (dumps False (canonical_evidence h))"

definition evidence_fingerprint :: "(nat list \<Rightarrow> string) \<Rightarrow> host_evidence \<Rightarrow> string" where
  "evidence_fingerprint sha256_hex h = sha256_hex (evidence_bytes h)"

definition valid_availability :: "string \<Rightarrow> bool" where
  "valid_availability s \<longleftrightarrow> s \<in> {''unknown'', ''available'', ''unavailable''}"

definition valid_host_evidence :: "host_evidence \<Rightarrow> bool" where
  "valid_host_evidence h \<longleftrightarrow>
     canonical_text 256 (he_hostid h) \<and> canonical_text 512 (he_technical_name h) \<and>
     canonical_text 512 (he_display_name h) \<and>
     length (he_interfaces h) \<le> max_interfaces_per_host \<and> length (he_groups h) \<le> max_groups_per_host \<and>
     length (he_templates h) \<le> max_templates_per_host \<and> length (he_tags h) \<le> max_tags_per_host \<and>
     distinct (map hi_interfaceid (he_interfaces h)) \<and> distinct (map nr_ref (he_groups h)) \<and>
     distinct (map nr_ref (he_templates h)) \<and>
     distinct (map (\<lambda>t. (ht_tag t, ht_value t)) (he_tags h)) \<and>
     he_host_status h \<in> {''enabled'', ''disabled''} \<and>
     list_all valid_availability
       [he_agent_availability h, he_snmp_availability h, he_ipmi_availability h, he_jmx_availability h] \<and>
     opt_canonical_text 2048 (he_agent_error h) \<and> opt_canonical_text 2048 (he_snmp_error h) \<and>
     he_maintenance_status h \<in> {''none'', ''active''} \<and>
     (case he_maintenance_type h of
        None \<Rightarrow> True
      | Some m \<Rightarrow> m \<in> {''with_data'', ''no_data''} \<and> he_maintenance_status h = ''active'') \<and>
     length (evidence_bytes h) \<le> max_normalized_evidence_bytes"

record host_snapshot =
  hs_hosts :: "host_evidence list"
  hs_complete :: bool

definition valid_host_snapshot :: "host_snapshot \<Rightarrow> bool" where
  "valid_host_snapshot s \<longleftrightarrow>
     length (hs_hosts s) \<le> max_hosts_per_snapshot \<and> distinct (map he_hostid (hs_hosts s))"

section \<open>Collection\<close>

record inventory_claim =
  ic_claim_token :: string
  ic_tenant_id :: string
  ic_monitoring_sync_operation_id :: string
  ic_monitoring_source_id :: string
  ic_provider_scope_tenant_binding_id :: string
  ic_source_instance_generation :: string
  ic_configuration_revision :: int
  ic_scope_revision :: int
  ic_provider_instance_ref :: string
  ic_provider_configuration :: provider_configuration
  ic_credential_binding_ref :: string
  ic_configured_provider_scope :: provider_scope

record inventory_result =
  ir_operational_evidence_state :: operational_evidence
  ir_operation_state :: sync_state
  ir_hosts :: "host_evidence list"
  ir_snapshot_complete :: bool
  ir_failure_class :: "inventory_failure option"
  ir_egress_decision_ref :: "string option"
  ir_credential_generation_ref :: "string option"

definition ir_succeeded :: "inventory_result \<Rightarrow> bool" where
  "ir_succeeded r \<longleftrightarrow> ir_operation_state r = SyncSucceeded"

type_synonym 's host_reader =
  "admitted_endpoint \<Rightarrow> zabbix_credential \<Rightarrow> string list \<Rightarrow> nat \<Rightarrow> ('s, host_snapshot) op"

definition inventory_degraded ::
  "inventory_failure \<Rightarrow> operational_evidence \<Rightarrow> host_evidence list \<Rightarrow> string option \<Rightarrow>
   string option \<Rightarrow> inventory_result" where
  "inventory_degraded failure evidence hosts egress generation =
     \<lparr>ir_operational_evidence_state = evidence, ir_operation_state = SyncReconciliation,
      ir_hosts = hosts, ir_snapshot_complete = False, ir_failure_class = Some failure,
      ir_egress_decision_ref = egress, ir_credential_generation_ref = generation\<rparr>"

text \<open>The verdict on the visible groups, and the one on a snapshot.\<close>

definition groups_refused :: "string list \<Rightarrow> string list \<Rightarrow> (inventory_failure \<times> operational_evidence) option" where
  "groups_refused configured returned =
     (if \<not> distinct returned \<or> \<not> list_all (\<lambda>r. r \<in> set configured) returned
      then Some (IfProtocolInvalid, EvidenceUnavailable)
      else if \<not> list_all (\<lambda>r. r \<in> set returned) configured
      then Some (IfScopeAnchorInaccessible, EvidenceIncomplete)
      else None)"

definition host_in_scope :: "string list \<Rightarrow> host_evidence \<Rightarrow> bool" where
  "host_in_scope configured h \<longleftrightarrow> set (map nr_ref (he_groups h)) \<inter> set configured \<noteq> {}"

definition snapshot_verdict ::
  "string list \<Rightarrow> string option \<Rightarrow> string option \<Rightarrow> host_snapshot \<Rightarrow> inventory_result" where
  "snapshot_verdict configured egress generation snapshot =
     (if \<not> list_all (host_in_scope configured) (hs_hosts snapshot)
      then inventory_degraded IfScopeEvidenceInvalid EvidenceIncomplete [] egress generation
      else if \<not> hs_complete snapshot
      then inventory_degraded IfSnapshotTruncated EvidenceIncomplete (hs_hosts snapshot) egress generation
      else \<lparr>ir_operational_evidence_state = EvidenceCurrent, ir_operation_state = SyncSucceeded,
            ir_hosts = hs_hosts snapshot, ir_snapshot_complete = True, ir_failure_class = None,
            ir_egress_decision_ref = egress, ir_credential_generation_ref = generation\<rparr>)"

text \<open>What follows once the endpoint is admitted: the groups, then the hosts.\<close>

definition read_inventory ::
  "'s group_reader \<Rightarrow> 's host_reader \<Rightarrow> string list \<Rightarrow> zabbix_credential \<Rightarrow> admitted_endpoint \<Rightarrow>
   ('s, inventory_result) op" where
  "read_inventory hostgroup_get host_get configured credential endpoint =
     (let generation = Some (zc_credential_generation_ref credential);
          egress = Some (ae_egress_decision_ref endpoint);
          failed = (\<lambda>f. inventory_degraded f EvidenceUnavailable [] egress generation);
          caught = catch_provider True (failed IfAuthenticationRejected)
                     (failed IfProviderUnavailable) (failed IfProtocolInvalid)
      in
     tryS (hostgroup_get endpoint credential configured) caught
       (\<lambda>visible.
        (case groups_refused configured (map hg_groupid visible) of
           Some (f, e) \<Rightarrow> returnS (inventory_degraded f e [] egress generation)
         | None \<Rightarrow>
             tryS (host_get endpoint credential configured max_hosts_per_snapshot) caught
               (\<lambda>snapshot. returnS (snapshot_verdict configured egress generation snapshot)))))"

definition collect_host_inventory ::
  "'s credential_resolver \<Rightarrow> 's outbound_admission \<Rightarrow> 's group_reader \<Rightarrow> 's host_reader \<Rightarrow>
   inventory_claim \<Rightarrow> ('s, inventory_result) op" where
  "collect_host_inventory resolver admission hostgroup_get host_get claim =
     tryS (resolver (ic_credential_binding_ref claim))
       (catch_only CredentialResolutionError
         (inventory_degraded IfCredentialUnavailable EvidenceUnavailable [] None None))
       (\<lambda>credential.
     tryS (admission (ic_provider_configuration claim))
       (catch_only EgressAdmissionError
         (inventory_degraded IfEgressNotAdmitted EvidenceUnavailable [] None
           (Some (zc_credential_generation_ref credential))))
       (\<lambda>endpoint.
     read_inventory hostgroup_get host_get (ps_host_group_refs (ic_configured_provider_scope claim))
       credential endpoint))"

definition host_inventory_run ::
  "(string \<Rightarrow> string \<Rightarrow> ('s, inventory_claim) op) \<Rightarrow>
   (inventory_claim \<Rightarrow> inventory_result \<Rightarrow> string \<Rightarrow> ('s, inventory_result) op) \<Rightarrow> ('s, string) op \<Rightarrow>
   's credential_resolver \<Rightarrow> 's outbound_admission \<Rightarrow> 's group_reader \<Rightarrow> 's host_reader \<Rightarrow> string \<Rightarrow>
   ('s, inventory_result) op" where
  "host_inventory_run claim_inventory complete_inventory secret resolver admission hostgroup_get
     host_get operation_id =
     bindS (bindS secret (\<lambda>x. liftS (opaque_token ''mon-host-claim'' x))) (\<lambda>token.
     bindS (claim_inventory operation_id token) (\<lambda>claim.
     bindS (collect_host_inventory resolver admission hostgroup_get host_get claim) (\<lambda>collected.
     bindS (bindS secret (\<lambda>x. liftS (opaque_token ''mon-host-snapshot'' x))) (\<lambda>evidence_id.
     complete_inventory claim collected evidence_id))))"

section \<open>What a collected inventory is worth\<close>

lemma inventory_degraded_fields [simp]:
  "ir_failure_class (inventory_degraded f e h g c) = Some f"
  "ir_operation_state (inventory_degraded f e h g c) = SyncReconciliation"
  "ir_operational_evidence_state (inventory_degraded f e h g c) = e"
  by (simp_all add: inventory_degraded_def)

lemma groups_refused_evidence: "groups_refused cs rs = Some (f, e) \<Longrightarrow> e \<noteq> EvidenceCurrent"
  by (auto simp: groups_refused_def split: if_splits)

lemma groups_accepted:
  "groups_refused cs rs = None \<longleftrightarrow> distinct rs \<and> set rs = set cs"
  by (auto simp: groups_refused_def list_all_iff)

text \<open>Either the collection was degraded without any host, or it is the verdict on a snapshot
  read after exactly the configured groups were visible.\<close>

definition inventory_unread :: "inventory_result \<Rightarrow> bool" where
  "inventory_unread r \<longleftrightarrow> (\<exists>f e g c. r = inventory_degraded f e [] g c \<and> e \<noteq> EvidenceCurrent)"

lemma inventory_unread_degraded [simp]:
  "e \<noteq> EvidenceCurrent \<Longrightarrow> inventory_unread (inventory_degraded f e [] g c)"
  by (auto simp: inventory_unread_def)

lemma inventory_caught:
  "catch_provider w (inventory_degraded f1 EvidenceUnavailable [] g c)
     (inventory_degraded f2 EvidenceUnavailable [] g c)
     (inventory_degraded f3 EvidenceUnavailable [] g c) e = Some r \<Longrightarrow> inventory_unread r"
  by (drule catch_provider_Some) auto

lemma read_inventory_cases:
  assumes "read_inventory hostgroup_get host_get cs credential endpoint s = (Inr r, t)"
    and "\<not> inventory_unread r"
  shows "\<exists>visible snapshot u.
    hostgroup_get endpoint credential cs s = (Inr visible, u) \<and>
    distinct (map hg_groupid visible) \<and> set (map hg_groupid visible) = set cs \<and>
    host_get endpoint credential cs max_hosts_per_snapshot u = (Inr snapshot, t) \<and>
    r = snapshot_verdict cs (Some (ae_egress_decision_ref endpoint))
          (Some (zc_credential_generation_ref credential)) snapshot"
proof -
  from assms obtain visible u where
    seen: "hostgroup_get endpoint credential cs s = (Inr visible, u)"
    and passed: "groups_refused cs (map hg_groupid visible) = None"
    unfolding read_inventory_def Let_def tryS_returns_iff
    by (fastforce dest: inventory_caught groups_refused_evidence split: option.splits prod.splits)
  from assms seen passed obtain snapshot where
    "host_get endpoint credential cs max_hosts_per_snapshot u = (Inr snapshot, t)"
    "r = snapshot_verdict cs (Some (ae_egress_decision_ref endpoint))
       (Some (zc_credential_generation_ref credential)) snapshot"
    unfolding read_inventory_def Let_def by (auto simp: tryS_returns_iff dest: inventory_caught)
  then show ?thesis using seen passed [unfolded groups_accepted] by blast
qed

lemma inventory_cases:
  assumes "collect_host_inventory resolver admission hostgroup_get host_get claim s = (Inr r, t)"
    and "\<not> inventory_unread r"
  shows "\<exists>credential endpoint u v.
    resolver (ic_credential_binding_ref claim) s = (Inr credential, u) \<and>
    admission (ic_provider_configuration claim) u = (Inr endpoint, v) \<and>
    read_inventory hostgroup_get host_get (ps_host_group_refs (ic_configured_provider_scope claim))
      credential endpoint v = (Inr r, t)"
  using assms unfolding collect_host_inventory_def tryS_returns_iff catch_only_Some by auto

lemma snapshot_verdict_settled:
  "ir_operation_state (snapshot_verdict cs g c sn) =
     (if ir_failure_class (snapshot_verdict cs g c sn) = None then SyncSucceeded else SyncReconciliation)"
  "ir_operational_evidence_state (snapshot_verdict cs g c sn) = EvidenceCurrent \<Longrightarrow>
     ir_failure_class (snapshot_verdict cs g c sn) = None"
  by (auto simp: snapshot_verdict_def split: if_splits)

interpretation inventory: evidence_collector
  "collect_host_inventory resolver admission hostgroup_get host_get" ir_failure_class
  ir_operation_state ir_operational_evidence_state
proof
  fix c s r t
  assume run: "collect_host_inventory resolver admission hostgroup_get host_get c s = (Inr r, t)"
  have "(\<exists>cs g k sn. r = snapshot_verdict cs g k sn) \<or> inventory_unread r"
    using inventory_cases [OF run] read_inventory_cases [of hostgroup_get host_get _ _ _ _ r t]
    by metis
  then show "ir_operation_state r = (if ir_failure_class r = None then SyncSucceeded else SyncReconciliation)"
    and "ir_operational_evidence_state r = EvidenceCurrent \<Longrightarrow> ir_failure_class r = None"
    using snapshot_verdict_settled by (auto simp: inventory_unread_def)
qed

text \<open>An inventory counts as current only for exactly the configured scope. When the
  collection of hosts succeeds, the credential was resolved and the endpoint admitted, the
  provider showed each configured group once and no other, and the result is a complete
  snapshot read under that credential and endpoint, each host of which lies in a configured
  group. In every other outcome that is a result the evidence is not current.\<close>

theorem inventory_success_scoped:
  assumes "collect_host_inventory resolver admission hostgroup_get host_get claim s = (Inr r, t)"
  shows "(ir_operational_evidence_state r = EvidenceCurrent \<longleftrightarrow> ir_succeeded r) \<and>
    (ir_succeeded r \<longrightarrow>
      (let configured = ps_host_group_refs (ic_configured_provider_scope claim) in
       \<exists>credential endpoint visible snapshot u v w.
         resolver (ic_credential_binding_ref claim) s = (Inr credential, u) \<and>
         admission (ic_provider_configuration claim) u = (Inr endpoint, v) \<and>
         hostgroup_get endpoint credential configured v = (Inr visible, w) \<and>
         distinct (map hg_groupid visible) \<and> set (map hg_groupid visible) = set configured \<and>
         host_get endpoint credential configured 50000 w = (Inr snapshot, t) \<and>
         hs_complete snapshot \<and> ir_hosts r = hs_hosts snapshot \<and>
         (\<forall>h \<in> set (ir_hosts r). \<exists>g \<in> set (he_groups h). nr_ref g \<in> set configured)))"
proof (cases "inventory_unread r")
  case True
  then show ?thesis by (auto simp: inventory_unread_def ir_succeeded_def)
next
  case False
  let ?cs = "ps_host_group_refs (ic_configured_provider_scope claim)"
  from inventory_cases [OF assms False] obtain credential endpoint u v where
    access: "resolver (ic_credential_binding_ref claim) s = (Inr credential, u)"
      "admission (ic_provider_configuration claim) u = (Inr endpoint, v)"
    and read: "read_inventory hostgroup_get host_get ?cs credential endpoint v = (Inr r, t)" by blast
  from read_inventory_cases [OF read False] obtain visible snapshot w where
    seen: "hostgroup_get endpoint credential ?cs v = (Inr visible, w)"
      "distinct (map hg_groupid visible)" "set (map hg_groupid visible) = set ?cs"
      "host_get endpoint credential ?cs max_hosts_per_snapshot w = (Inr snapshot, t)"
    and r: "r = snapshot_verdict ?cs (Some (ae_egress_decision_ref endpoint))
      (Some (zc_credential_generation_ref credential)) snapshot" by blast
  have "hs_complete snapshot \<and> ir_hosts r = hs_hosts snapshot \<and>
      (\<forall>h \<in> set (ir_hosts r). \<exists>g \<in> set (he_groups h). nr_ref g \<in> set ?cs)" if "ir_succeeded r"
    using that unfolding r
    by (auto simp: snapshot_verdict_def ir_succeeded_def list_all_iff host_in_scope_def split: if_splits)
  moreover have "ir_operational_evidence_state r = EvidenceCurrent \<longleftrightarrow> ir_succeeded r"
    unfolding r by (auto simp: snapshot_verdict_def ir_succeeded_def)
  ultimately show ?thesis
    using access seen unfolding Let_def max_hosts_per_snapshot_def by blast
qed

text \<open>The worker is a client of the collector's contract, so what it completes is settled.\<close>

lemma host_inventory_run_worker:
  "host_inventory_run claim complete secret resolver admission hostgroup_get host_get operation_id =
     bindS (bindS secret (\<lambda>x. liftS (opaque_token ''mon-host-claim'' x))) (\<lambda>token.
       inventory.worker resolver admission hostgroup_get host_get (claim operation_id token)
         (\<lambda>c r. bindS (bindS secret (\<lambda>x. liftS (opaque_token ''mon-host-snapshot'' x))) (complete c r)))"
  by (simp add: host_inventory_run_def inventory.worker_def)

lemma inventory_run_completes_collected:
  assumes "host_inventory_run claim complete secret resolver admission hostgroup_get host_get
      operation_id s = (Inr a, t)"
  obtains c r evidence_id u v where
    "collect_host_inventory resolver admission hostgroup_get host_get c u = (Inr r, v)"
    and "\<exists>w. complete c r evidence_id w = (Inr a, t)"
    and "ir_operational_evidence_state r = EvidenceCurrent \<longrightarrow> ir_operation_state r = SyncSucceeded"
proof -
  from assms obtain token u where "inventory.worker resolver admission hostgroup_get host_get
      (claim operation_id token)
      (\<lambda>c r. bindS (bindS secret (\<lambda>x. liftS (opaque_token ''mon-host-snapshot'' x))) (complete c r)) u
      = (Inr a, t)"
    unfolding host_inventory_run_worker sequence_returns by blast
  from inventory.worker_completes_collected [OF this] show thesis
    using that unfolding sequence_returns by metis
qed

text \<open>The defaults of the inventory, and a host of group 10.\<close>

definition empty_inventory :: host_inventory where
  "empty_inventory =
     \<lparr>iv_device_type = None, iv_device_type_full = None, iv_os = None,
      iv_os_full = None, iv_vendor = None, iv_model = None,
      iv_serial_primary = None, iv_serial_secondary = None, iv_asset_tag = None,
      iv_hardware = None, iv_hardware_full = None, iv_software = None,
      iv_software_full = None, iv_location = None, iv_mac_primary = None,
      iv_mac_secondary = None, iv_contact = None, iv_poc_1_name = None,
      iv_poc_1_email = None, iv_poc_1_phone = None, iv_poc_2_name = None,
      iv_poc_2_email = None, iv_poc_2_phone = None, iv_site_city = None,
      iv_site_rack = None, iv_site_notes = None, iv_url_a = None,
      iv_url_b = None, iv_url_c = None\<rparr>"

definition sample_host :: host_evidence where
  "sample_host =
     \<lparr>he_hostid = ''501'', he_technical_name = ''web'', he_display_name = ''Web'',
      he_inventory = empty_inventory, he_interfaces = [],
      he_groups = [\<lparr>nr_ref = ''10'', nr_name = None\<rparr>], he_templates = [], he_tags = [],
      he_host_status = ''enabled'', he_agent_availability = ''unknown'',
      he_snmp_availability = ''unknown'', he_ipmi_availability = ''unknown'',
      he_jmx_availability = ''unknown'', he_agent_error = None, he_snmp_error = None,
      he_maintenance_status = ''none'', he_maintenance_type = None\<rparr>"

definition sample_inventory_claim :: inventory_claim where
  "sample_inventory_claim =
     \<lparr>ic_claim_token = ''c'', ic_tenant_id = ''tenant-a'', ic_monitoring_sync_operation_id = ''o'',
      ic_monitoring_source_id = ''s'', ic_provider_scope_tenant_binding_id = ''b'',
      ic_source_instance_generation = ''g'', ic_configuration_revision = 2, ic_scope_revision = 2,
      ic_provider_instance_ref = ''zbx-1'',
      ic_provider_configuration = \<lparr>pc_base_url = ''https://zabbix.example.org''\<rparr>,
      ic_credential_binding_ref = ''cred-1'',
      ic_configured_provider_scope = \<lparr>ps_host_group_refs = [''10'']\<rparr>\<rparr>"

definition sample_inventory_result :: inventory_result where
  "sample_inventory_result =
     \<lparr>ir_operational_evidence_state = EvidenceCurrent, ir_operation_state = SyncSucceeded,
      ir_hosts = [sample_host], ir_snapshot_complete = True, ir_failure_class = None,
      ir_egress_decision_ref = Some ''d'', ir_credential_generation_ref = Some ''k''\<rparr>"

lemma sample_host_in_scope: "host_in_scope [''10''] sample_host"
  by (simp add: host_in_scope_def sample_host_def)

lemma sample_inventory_collected:
  "collect_host_inventory (\<lambda>_. returnS \<lparr>zc_api_token = ''t'', zc_credential_generation_ref = ''k''\<rparr>)
     (\<lambda>_. returnS \<lparr>ae_api_url = ''https://zabbix.example.org/api_jsonrpc.php'', ae_egress_decision_ref = ''d''\<rparr>)
     (\<lambda>_ _ refs. returnS (map (\<lambda>r. \<lparr>hg_groupid = r, hg_name = None\<rparr>) refs))
     (\<lambda>_ _ _ _. returnS \<lparr>hs_hosts = [sample_host], hs_complete = True\<rparr>)
     sample_inventory_claim () = (Inr sample_inventory_result, ())"
  by (simp add: collect_host_inventory_def read_inventory_def Let_def sample_inventory_claim_def
      groups_refused_def snapshot_verdict_def sample_inventory_result_def sample_host_in_scope)

theorem inventory_success_scoped_witness:
  "ir_operational_evidence_state sample_inventory_result = EvidenceCurrent \<longleftrightarrow>
     ir_succeeded sample_inventory_result"
  using inventory_success_scoped [OF sample_inventory_collected] by (elim conjE)

end
