(* ===== verification/Metric_Definitions.thy ===== *)
theory Metric_Definitions
  imports Provider_Access
begin

text \<open>
  src/src/jlmirror_monitoring/metric_definitions.py: the items of the configured host groups
  as metric definitions. Unlike the host inventory it accepts host groups beyond the
  configured ones.
\<close>

section \<open>Items\<close>

datatype metric_value_kind =
    NumberKind | IntegerKind | BooleanKind | StringKind | TextKind | LogKind

datatype native_value_type =
    FloatType | UnsignedType | CharacterType | TextType | LogType

datatype item_state = ItemEnabled | ItemDisabled | ItemUnsupported

datatype definition_failure =
    DfCredentialUnavailable | DfAuthenticationRejected | DfEgressNotAdmitted
  | DfProviderUnavailable | DfProtocolInvalid | DfSnapshotTruncated
  | DfScopeAnchorInaccessible | DfHostAssociationInvalid | DfValueKindDrift

fun canonical_value_kind :: "native_value_type \<Rightarrow> metric_value_kind" where
  "canonical_value_kind FloatType = NumberKind"
| "canonical_value_kind UnsignedType = IntegerKind"
| "canonical_value_kind CharacterType = StringKind"
| "canonical_value_kind TextType = TextKind"
| "canonical_value_kind LogType = LogKind"

definition max_items_per_snapshot :: nat where "max_items_per_snapshot = 200000"

record item_evidence =
  it_itemid :: string
  it_hostid :: string
  it_name :: string
  it_key :: string
  it_unit :: string
  it_native_value_type :: native_value_type
  it_operational_state :: item_state

definition valid_item_evidence :: "item_evidence \<Rightarrow> bool" where
  "valid_item_evidence i \<longleftrightarrow>
     canonical_text 256 (it_itemid i) \<and> canonical_text 256 (it_hostid i) \<and>
     canonical_text 1024 (it_name i) \<and> canonical_text 2048 (it_key i) \<and>
     length (it_unit i) \<le> 255 \<and> list_all (\<lambda>c. \<not> is_control c) (it_unit i)"

definition item_value_kind :: "item_evidence \<Rightarrow> metric_value_kind" where
  "item_value_kind i = canonical_value_kind (it_native_value_type i)"

record item_snapshot =
  is_items :: "item_evidence list"
  is_complete :: bool

definition valid_item_snapshot :: "item_snapshot \<Rightarrow> bool" where
  "valid_item_snapshot s \<longleftrightarrow>
     length (is_items s) \<le> max_items_per_snapshot \<and> distinct (map it_itemid (is_items s))"

section \<open>Collection\<close>

record definition_claim =
  dc_claim_token :: string
  dc_tenant_id :: string
  dc_monitoring_sync_operation_id :: string
  dc_monitoring_source_id :: string
  dc_provider_scope_tenant_binding_id :: string
  dc_source_instance_generation :: string
  dc_configuration_revision :: int
  dc_scope_revision :: int
  dc_item_definition_poll_epoch :: int
  dc_item_definition_poll_generation :: int
  dc_provider_instance_ref :: string
  dc_provider_configuration :: provider_configuration
  dc_credential_binding_ref :: string
  dc_configured_provider_scope :: provider_scope

record definition_result =
  dr_operational_evidence_state :: operational_evidence
  dr_operation_state :: sync_state
  dr_items :: "item_evidence list"
  dr_snapshot_complete :: bool
  dr_failure_class :: "definition_failure option"
  dr_egress_decision_ref :: "string option"
  dr_credential_generation_ref :: "string option"

definition dr_succeeded :: "definition_result \<Rightarrow> bool" where
  "dr_succeeded r \<longleftrightarrow> dr_operation_state r = SyncSucceeded"

type_synonym 's item_reader =
  "admitted_endpoint \<Rightarrow> zabbix_credential \<Rightarrow> string list \<Rightarrow> nat \<Rightarrow> ('s, item_snapshot) op"

definition definition_degraded ::
  "definition_failure \<Rightarrow> operational_evidence \<Rightarrow> item_evidence list \<Rightarrow> string option \<Rightarrow>
   string option \<Rightarrow> definition_result" where
  "definition_degraded failure evidence items egress generation =
     \<lparr>dr_operational_evidence_state = evidence, dr_operation_state = SyncReconciliation,
      dr_items = items, dr_snapshot_complete = False, dr_failure_class = Some failure,
      dr_egress_decision_ref = egress, dr_credential_generation_ref = generation\<rparr>"

definition anchors_refused ::
  "string list \<Rightarrow> string list \<Rightarrow> (definition_failure \<times> operational_evidence) option" where
  "anchors_refused configured returned =
     (if \<not> distinct returned then Some (DfProtocolInvalid, EvidenceUnavailable)
      else if \<not> list_all (\<lambda>r. r \<in> set returned) configured
      then Some (DfScopeAnchorInaccessible, EvidenceIncomplete)
      else None)"

definition items_verdict ::
  "string option \<Rightarrow> string option \<Rightarrow> item_snapshot \<Rightarrow> definition_result" where
  "items_verdict egress generation snapshot =
     (if \<not> is_complete snapshot
      then definition_degraded DfSnapshotTruncated EvidenceIncomplete (is_items snapshot) egress generation
      else \<lparr>dr_operational_evidence_state = EvidenceCurrent, dr_operation_state = SyncSucceeded,
            dr_items = is_items snapshot, dr_snapshot_complete = True, dr_failure_class = None,
            dr_egress_decision_ref = egress, dr_credential_generation_ref = generation\<rparr>)"

definition read_definitions ::
  "'s group_reader \<Rightarrow> 's item_reader \<Rightarrow> string list \<Rightarrow> zabbix_credential \<Rightarrow> admitted_endpoint \<Rightarrow>
   ('s, definition_result) op" where
  "read_definitions hostgroup_get item_get configured credential endpoint =
     (let generation = Some (zc_credential_generation_ref credential);
          egress = Some (ae_egress_decision_ref endpoint);
          failed = (\<lambda>f. definition_degraded f EvidenceUnavailable [] egress generation);
          caught = catch_provider True (failed DfAuthenticationRejected)
                     (failed DfProviderUnavailable) (failed DfProtocolInvalid)
      in
     tryS (hostgroup_get endpoint credential configured) caught
       (\<lambda>visible.
        (case anchors_refused configured (map hg_groupid visible) of
           Some (f, e) \<Rightarrow> returnS (definition_degraded f e [] egress generation)
         | None \<Rightarrow>
             tryS (item_get endpoint credential configured max_items_per_snapshot) caught
               (\<lambda>snapshot. returnS (items_verdict egress generation snapshot)))))"

definition collect_metric_definitions ::
  "'s credential_resolver \<Rightarrow> 's outbound_admission \<Rightarrow> 's group_reader \<Rightarrow> 's item_reader \<Rightarrow>
   definition_claim \<Rightarrow> ('s, definition_result) op" where
  "collect_metric_definitions resolver admission hostgroup_get item_get claim =
     tryS (resolver (dc_credential_binding_ref claim))
       (catch_only CredentialResolutionError
         (definition_degraded DfCredentialUnavailable EvidenceUnavailable [] None None))
       (\<lambda>credential.
     tryS (admission (dc_provider_configuration claim))
       (catch_only EgressAdmissionError
         (definition_degraded DfEgressNotAdmitted EvidenceUnavailable [] None
           (Some (zc_credential_generation_ref credential))))
       (\<lambda>endpoint.
     read_definitions hostgroup_get item_get (ps_host_group_refs (dc_configured_provider_scope claim))
       credential endpoint))"

definition metric_definition_run ::
  "(string \<Rightarrow> string \<Rightarrow> ('s, definition_claim) op) \<Rightarrow>
   (definition_claim \<Rightarrow> definition_result \<Rightarrow> string \<Rightarrow> ('s, definition_result) op) \<Rightarrow>
   ('s, string) op \<Rightarrow> 's credential_resolver \<Rightarrow> 's outbound_admission \<Rightarrow> 's group_reader \<Rightarrow>
   's item_reader \<Rightarrow> string \<Rightarrow> ('s, definition_result) op" where
  "metric_definition_run claim_definitions complete_definitions secret resolver admission
     hostgroup_get item_get operation_id =
     bindS (bindS secret (\<lambda>x. liftS (opaque_token ''mon-item-claim'' x))) (\<lambda>token.
     bindS (claim_definitions operation_id token) (\<lambda>claim.
     bindS (collect_metric_definitions resolver admission hostgroup_get item_get claim) (\<lambda>collected.
     bindS (bindS secret (\<lambda>x. liftS (opaque_token ''mon-item-snapshot'' x))) (\<lambda>evidence_id.
     complete_definitions claim collected evidence_id))))"

section \<open>The contract\<close>

definition definitions_unread :: "definition_result \<Rightarrow> bool" where
  "definitions_unread r \<longleftrightarrow> (\<exists>f e g c. r = definition_degraded f e [] g c \<and> e \<noteq> EvidenceCurrent)"

lemma definition_degraded_fields [simp]:
  "dr_failure_class (definition_degraded f e i g c) = Some f"
  "dr_operation_state (definition_degraded f e i g c) = SyncReconciliation"
  "dr_operational_evidence_state (definition_degraded f e i g c) = e"
  by (simp_all add: definition_degraded_def)

lemma definitions_unread_degraded [simp]:
  "e \<noteq> EvidenceCurrent \<Longrightarrow> definitions_unread (definition_degraded f e [] g c)"
  by (auto simp: definitions_unread_def)

lemma definitions_caught:
  "catch_provider w (definition_degraded f1 EvidenceUnavailable [] g c)
     (definition_degraded f2 EvidenceUnavailable [] g c)
     (definition_degraded f3 EvidenceUnavailable [] g c) e = Some r \<Longrightarrow> definitions_unread r"
  by (drule catch_provider_Some) auto

lemma anchors_refused_evidence: "anchors_refused cs rs = Some (f, e) \<Longrightarrow> e \<noteq> EvidenceCurrent"
  by (auto simp: anchors_refused_def split: if_splits)

lemma read_definitions_cases:
  assumes "read_definitions hostgroup_get item_get cs credential endpoint s = (Inr r, t)"
    and "\<not> definitions_unread r"
  shows "\<exists>g k sn. r = items_verdict g k sn"
  using assms unfolding read_definitions_def Let_def tryS_returns_iff
  by (fastforce dest: definitions_caught anchors_refused_evidence
      simp: tryS_returns_iff split: option.splits prod.splits)

interpretation definitions: evidence_collector
  "collect_metric_definitions resolver admission hostgroup_get item_get" dr_failure_class
  dr_operation_state dr_operational_evidence_state
proof
  fix c s r t
  assume run: "collect_metric_definitions resolver admission hostgroup_get item_get c s = (Inr r, t)"
  have "\<exists>cs credential endpoint u. read_definitions hostgroup_get item_get cs credential endpoint u = (Inr r, t)"
    if "\<not> definitions_unread r"
    using run that unfolding collect_metric_definitions_def tryS_returns_iff catch_only_Some by auto
  then have "(\<exists>g k sn. r = items_verdict g k sn) \<or> definitions_unread r"
    using read_definitions_cases [of hostgroup_get item_get _ _ _ _ r t] by metis
  then show "dr_operation_state r = (if dr_failure_class r = None then SyncSucceeded else SyncReconciliation)"
    and "dr_operational_evidence_state r = EvidenceCurrent \<Longrightarrow> dr_failure_class r = None"
    by (auto simp: definitions_unread_def items_verdict_def split: if_splits)
qed

lemma metric_definition_run_worker:
  "metric_definition_run claim complete secret resolver admission hostgroup_get item_get operation_id =
     bindS (bindS secret (\<lambda>x. liftS (opaque_token ''mon-item-claim'' x))) (\<lambda>token.
       definitions.worker resolver admission hostgroup_get item_get (claim operation_id token)
         (\<lambda>c r. bindS (bindS secret (\<lambda>x. liftS (opaque_token ''mon-item-snapshot'' x))) (complete c r)))"
  by (simp add: metric_definition_run_def definitions.worker_def)

end
