(* ===== verification/Metric_Values.thy ===== *)
theory Metric_Values
  imports Metric_Definitions
begin

text \<open>
  src/src/jlmirror_monitoring/metric_current_state.py: canonical values from provider text,
  and the collection of the current value of each target.
\<close>

section \<open>Canonical values\<close>

text \<open>A finite \<open>Decimal\<close> is its sign, coefficient and exponent.\<close>

datatype metric_value =
    NumberValue bool nat int
  | IntegerValue nat
  | TextValue string
  | FlagValue bool

definition sign_of :: "string \<Rightarrow> bool \<times> string" where
  "sign_of s =
     (if s \<noteq> [] \<and> hd s = CHR ''-'' then (True, tl s)
      else if s \<noteq> [] \<and> hd s = CHR ''+'' then (False, tl s)
      else (False, s))"

text \<open>The text after the mantissa: nothing, or an exponent with optional sign.\<close>

definition exponent_of :: "string \<Rightarrow> int option" where
  "exponent_of s =
     (if s = [] then Some 0
      else
        (let (neg, ds) = sign_of (tl s) in
         if all_digits ds
         then Some (if neg then - int (digits_value ds) else int (digits_value ds))
         else None))"

definition coefficient_digits :: "string \<Rightarrow> nat" where
  "coefficient_digits ds = max 1 (length (dropWhile (\<lambda>c. c = CHR ''0'') ds))"

text \<open>
  \<open>Decimal(raw)\<close> for text without blanks at its ends, when the value is finite: underscores
  are ignored and exponents outside the range of the implementation are refused.
  Infinities and NaNs are not finite, so that the caller refuses them like malformed text.
\<close>

definition finite_decimal :: "string \<Rightarrow> (bool \<times> nat \<times> int) option" where
  "finite_decimal raw =
     (let (neg, s) = sign_of (filter (\<lambda>c. c \<noteq> CHR ''_'') raw);
          mantissa = takeWhile (\<lambda>c. c \<notin> set ''eE'') s;
          whole = takeWhile (\<lambda>c. c \<noteq> CHR ''.'') mantissa;
          fraction = tl (dropWhile (\<lambda>c. c \<noteq> CHR ''.'') mantissa)
      in
        if \<not> all_digits (whole @ fraction) then None
        else
          (case exponent_of (dropWhile (\<lambda>c. c \<notin> set ''eE'') s) of
             None \<Rightarrow> None
           | Some e \<Rightarrow>
               (let exponent = e - int (length fraction) in
                if exponent + int (coefficient_digits (whole @ fraction)) - 1 \<le> 999999999999999999 \<and>
                   - 1999999999999999997 \<le> exponent
                then Some (neg, digits_value (whole @ fraction), exponent)
                else None)))"

text \<open>\<open>int(raw)\<close> refuses more than 4300 digits.\<close>

definition max_int_digits :: nat where "max_int_digits = 4300"

fun parse_canonical_value :: "metric_value_kind \<Rightarrow> string \<Rightarrow> metric_value res" where
  "parse_canonical_value NumberKind raw =
     (if raw = [] \<or> is_blank (hd raw) \<or> is_blank (last raw) then Inl ValueError
      else
        (case finite_decimal raw of
           None \<Rightarrow> Inl ValueError
         | Some (neg, coefficient, exponent) \<Rightarrow> Inr (NumberValue neg coefficient exponent)))"
| "parse_canonical_value IntegerKind raw =
     (if \<not> all_digits raw \<or> max_int_digits < length raw then Inl ValueError
      else Inr (IntegerValue (digits_value raw)))"
| "parse_canonical_value StringKind raw = Inr (TextValue raw)"
| "parse_canonical_value TextKind raw = Inr (TextValue raw)"
| "parse_canonical_value LogKind raw = Inr (TextValue raw)"
| "parse_canonical_value BooleanKind raw =
     (if raw = ''1'' then Inr (FlagValue True)
      else if raw = ''0'' then Inr (FlagValue False)
      else Inl ValueError)"

lemma parse_raises_value_error: "parse_canonical_value kind raw = Inl e \<Longrightarrow> e = ValueError"
  by (cases kind) (auto split: if_splits option.splits prod.splits)

section \<open>Current values\<close>

datatype current_failure =
    CfCredentialUnavailable | CfAuthenticationRejected | CfEgressNotAdmitted
  | CfProviderUnavailable | CfProtocolInvalid | CfSampleTimeInvalid | CfValueParseInvalid
  | CfDefinitionNotCurrent | CfScopeNotCurrent | CfBindingReconciliation | CfPollSuperseded

definition max_current_samples :: nat where "max_current_samples = 200000"

record current_evidence =
  ce_itemid :: string
  ce_raw_value :: string
  ce_lastclock :: int
  ce_lastns :: int

definition valid_current_evidence :: "current_evidence \<Rightarrow> bool" where
  "valid_current_evidence r \<longleftrightarrow>
     ce_itemid r \<noteq> [] \<and> length (ce_itemid r) \<le> 256 \<and> length (ce_raw_value r) \<le> 65536 \<and>
     0 < ce_lastclock r \<and> 0 \<le> ce_lastns r \<and> ce_lastns r \<le> 999999999"

record current_target =
  ct_metric_definition_id :: string
  ct_monitoring_resource_id :: string
  ct_provider_external_ref :: string
  ct_value_kind :: metric_value_kind

record current_claim =
  uc_claim_token :: string
  uc_tenant_id :: string
  uc_monitoring_sync_operation_id :: string
  uc_monitoring_source_id :: string
  uc_source_instance_generation :: string
  uc_configuration_revision :: int
  uc_scope_revision :: int
  uc_current_state_poll_epoch :: int
  uc_current_state_poll_generation :: int
  uc_provider_instance_ref :: string
  uc_provider_configuration :: provider_configuration
  uc_credential_binding_ref :: string
  uc_targets :: "current_target list"

record current_observation =
  ob_metric_definition_id :: string
  ob_monitoring_resource_id :: string
  ob_provider_external_ref :: string
  ob_observation_id :: string
  ob_observed_at_epoch_seconds :: int
  ob_observed_at_nanoseconds :: int
  ob_value_kind :: metric_value_kind
  ob_canonical_value :: metric_value

record current_result =
  cr_operation_state :: sync_state
  cr_operational_evidence_state :: operational_evidence
  cr_accepted_observations :: "current_observation list"
  cr_failure_class :: "current_failure option"
  cr_egress_decision_ref :: "string option"
  cr_credential_generation_ref :: "string option"

definition cr_succeeded :: "current_result \<Rightarrow> bool" where
  "cr_succeeded r \<longleftrightarrow> cr_operation_state r = SyncSucceeded"

type_synonym 's current_reader =
  "admitted_endpoint \<Rightarrow> zabbix_credential \<Rightarrow> string list \<Rightarrow> nat \<Rightarrow> ('s, current_evidence list) op"

definition current_degraded ::
  "current_failure \<Rightarrow> operational_evidence \<Rightarrow> string option \<Rightarrow> string option \<Rightarrow> current_result" where
  "current_degraded failure evidence egress generation =
     \<lparr>cr_operation_state = SyncReconciliation, cr_operational_evidence_state = evidence,
      cr_accepted_observations = [], cr_failure_class = Some failure,
      cr_egress_decision_ref = egress, cr_credential_generation_ref = generation\<rparr>"

definition observation_of ::
  "current_target \<Rightarrow> current_evidence \<Rightarrow> metric_value \<Rightarrow> string \<Rightarrow> current_observation" where
  "observation_of target row value observation_id =
     \<lparr>ob_metric_definition_id = ct_metric_definition_id target,
      ob_monitoring_resource_id = ct_monitoring_resource_id target,
      ob_provider_external_ref = ct_provider_external_ref target,
      ob_observation_id = observation_id,
      ob_observed_at_epoch_seconds = ce_lastclock row,
      ob_observed_at_nanoseconds = ce_lastns row,
      ob_value_kind = ct_value_kind target, ob_canonical_value = value\<rparr>"

text \<open>The loop over the rows; it ends with the failure of the first row that is refused.\<close>

fun accept_current ::
  "current_target list \<Rightarrow> ('s, string) op \<Rightarrow> current_evidence list \<Rightarrow>
   ('s, current_failure + current_observation list) op" where
  "accept_current targets secret [] = returnS (Inr [])"
| "accept_current targets secret (row # rows) =
     (case find (\<lambda>g. ct_provider_external_ref g = ce_itemid row) targets of
        None \<Rightarrow> returnS (Inl CfProtocolInvalid)
      | Some target \<Rightarrow>
          (case parse_canonical_value (ct_value_kind target) (ce_raw_value row) of
             Inl e \<Rightarrow> returnS (Inl CfValueParseInvalid)
           | Inr value \<Rightarrow>
               bindS (bindS secret (\<lambda>x. liftS (opaque_token ''mon-current-observation'' x)))
                 (\<lambda>observation_id.
               bindS (accept_current targets secret rows) (\<lambda>accepted.
               returnS (map_sum id (Cons (observation_of target row value observation_id)) accepted)))))"

definition read_current ::
  "'s current_reader \<Rightarrow> ('s, string) op \<Rightarrow> current_target list \<Rightarrow> zabbix_credential \<Rightarrow>
   admitted_endpoint \<Rightarrow> ('s, current_result) op" where
  "read_current reader secret targets credential endpoint =
     (let generation = Some (zc_credential_generation_ref credential);
          egress = Some (ae_egress_decision_ref endpoint);
          failed = (\<lambda>f. current_degraded f EvidenceUnavailable egress generation)
      in
     tryS (reader endpoint credential (map ct_provider_external_ref targets) max_current_samples)
       (catch_provider True (failed CfAuthenticationRejected) (failed CfProviderUnavailable)
          (failed CfProtocolInvalid))
       (\<lambda>returned.
        if max_current_samples < length returned \<or> \<not> distinct (map ce_itemid returned)
        then returnS (current_degraded CfProtocolInvalid EvidenceReconciliation egress generation)
        else
          bindS (accept_current targets secret returned) (\<lambda>accepted.
          (case accepted of
             Inl f \<Rightarrow> returnS (current_degraded f EvidenceReconciliation egress generation)
           | Inr observations \<Rightarrow>
               returnS \<lparr>cr_operation_state = SyncSucceeded,
                        cr_operational_evidence_state = EvidenceCurrent,
                        cr_accepted_observations = observations, cr_failure_class = None,
                        cr_egress_decision_ref = egress,
                        cr_credential_generation_ref = generation\<rparr>))))"

definition collect_metric_current_state ::
  "'s credential_resolver \<Rightarrow> 's outbound_admission \<Rightarrow> 's current_reader \<Rightarrow> ('s, string) op \<Rightarrow>
   current_claim \<Rightarrow> ('s, current_result) op" where
  "collect_metric_current_state resolver admission reader secret claim =
     (if max_current_samples < length (uc_targets claim) \<or>
         \<not> distinct (map ct_provider_external_ref (uc_targets claim))
      then returnS (current_degraded CfProtocolInvalid EvidenceReconciliation None None)
      else
     tryS (resolver (uc_credential_binding_ref claim))
       (catch_only CredentialResolutionError
         (current_degraded CfCredentialUnavailable EvidenceUnavailable None None))
       (\<lambda>credential.
     tryS (admission (uc_provider_configuration claim))
       (catch_only EgressAdmissionError
         (current_degraded CfEgressNotAdmitted EvidenceUnavailable None
           (Some (zc_credential_generation_ref credential))))
       (\<lambda>endpoint. read_current reader secret (uc_targets claim) credential endpoint)))"

definition metric_current_run ::
  "(string \<Rightarrow> string \<Rightarrow> ('s, current_claim) op) \<Rightarrow>
   (current_claim \<Rightarrow> current_result \<Rightarrow> ('s, current_result) op) \<Rightarrow> ('s, string) op \<Rightarrow>
   's credential_resolver \<Rightarrow> 's outbound_admission \<Rightarrow> 's current_reader \<Rightarrow> string \<Rightarrow>
   ('s, current_result) op" where
  "metric_current_run claim_current complete_current secret resolver admission reader operation_id =
     bindS (bindS secret (\<lambda>x. liftS (opaque_token ''mon-current-claim'' x))) (\<lambda>token.
     bindS (claim_current operation_id token) (\<lambda>claim.
     bindS (collect_metric_current_state resolver admission reader secret claim) (\<lambda>collected.
     complete_current claim collected)))"

section \<open>What an accepted observation is worth\<close>

definition current_unread :: "current_result \<Rightarrow> bool" where
  "current_unread r \<longleftrightarrow> (\<exists>f e g c. r = current_degraded f e g c \<and> e \<noteq> EvidenceCurrent)"

lemma current_degraded_fields [simp]:
  "cr_failure_class (current_degraded f e g c) = Some f"
  "cr_operation_state (current_degraded f e g c) = SyncReconciliation"
  "cr_operational_evidence_state (current_degraded f e g c) = e"
  by (simp_all add: current_degraded_def)

lemma current_unread_degraded [simp]:
  "e \<noteq> EvidenceCurrent \<Longrightarrow> current_unread (current_degraded f e g c)"
  by (auto simp: current_unread_def)

lemma current_caught:
  "catch_provider w (current_degraded f1 EvidenceUnavailable g c)
     (current_degraded f2 EvidenceUnavailable g c)
     (current_degraded f3 EvidenceUnavailable g c) e = Some r \<Longrightarrow> current_unread r"
  by (drule catch_provider_Some) auto

text \<open>An observation restates one row under the target that the row names.\<close>

definition observes :: "current_target list \<Rightarrow> current_evidence \<Rightarrow> current_observation \<Rightarrow> bool" where
  "observes targets row ob \<longleftrightarrow>
     (\<exists>target \<in> set targets. \<exists>value.
        ct_provider_external_ref target = ce_itemid row \<and>
        parse_canonical_value (ct_value_kind target) (ce_raw_value row) = Inr value \<and>
        ob = observation_of target row value (ob_observation_id ob))"

lemma map_sum_id_Inr: "map_sum id f x = Inr y \<longleftrightarrow> (\<exists>z. x = Inr z \<and> y = f z)"
  by (cases x) auto

lemma accept_current_observes:
  "accept_current targets secret rows s = (Inr (Inr obs), t) \<Longrightarrow> list_all2 (observes targets) rows obs"
proof (induction rows arbitrary: s obs)
  case Nil
  then show ?case by simp
next
  case (Cons row rows)
  from Cons.prems obtain target val observation_id rest u where
    "find (\<lambda>g. ct_provider_external_ref g = ce_itemid row) targets = Some target"
    "parse_canonical_value (ct_value_kind target) (ce_raw_value row) = Inr val"
    "accept_current targets secret rows u = (Inr (Inr rest), t)"
    "obs = observation_of target row val observation_id # rest"
    by (auto simp: sequence_returns returnS_def map_sum_id_Inr split: option.splits sum.splits)
  then show ?case
    using Cons.IH by (fastforce simp: observes_def observation_of_def find_Some_iff)
qed

lemma read_current_cases:
  assumes "read_current reader secret targets credential endpoint s = (Inr r, t)"
    and "\<not> current_unread r"
  shows "\<exists>returned u w.
    reader endpoint credential (map ct_provider_external_ref targets) max_current_samples s =
      (Inr returned, u) \<and>
    distinct (map ce_itemid returned) \<and>
    accept_current targets secret returned w = (Inr (Inr (cr_accepted_observations r)), t) \<and>
    cr_operation_state r = SyncSucceeded \<and> cr_operational_evidence_state r = EvidenceCurrent \<and>
    cr_failure_class r = None"
proof -
  let ?g = "Some (zc_credential_generation_ref credential)"
  let ?e = "Some (ae_egress_decision_ref endpoint)"
  from assms obtain returned u where
    seen: "reader endpoint credential (map ct_provider_external_ref targets) max_current_samples s =
      (Inr returned, u)"
    and rest: "(if max_current_samples < length returned \<or> \<not> distinct (map ce_itemid returned)
      then returnS (current_degraded CfProtocolInvalid EvidenceReconciliation ?e ?g)
      else
        bindS (accept_current targets secret returned) (\<lambda>accepted.
        (case accepted of
           Inl f \<Rightarrow> returnS (current_degraded f EvidenceReconciliation ?e ?g)
         | Inr observations \<Rightarrow>
             returnS \<lparr>cr_operation_state = SyncSucceeded,
                      cr_operational_evidence_state = EvidenceCurrent,
                      cr_accepted_observations = observations, cr_failure_class = None,
                      cr_egress_decision_ref = ?e, cr_credential_generation_ref = ?g\<rparr>))) u = (Inr r, t)"
    unfolding read_current_def Let_def tryS_returns_iff by (blast dest: current_caught)
  have d: "distinct (map ce_itemid returned)"
    using rest assms(2) by (auto split: if_splits)
  then obtain accepted w where "accept_current targets secret returned u = (Inr accepted, w)"
    and verdict: "(case accepted of
           Inl f \<Rightarrow> returnS (current_degraded f EvidenceReconciliation ?e ?g)
         | Inr observations \<Rightarrow>
             returnS \<lparr>cr_operation_state = SyncSucceeded,
                      cr_operational_evidence_state = EvidenceCurrent,
                      cr_accepted_observations = observations, cr_failure_class = None,
                      cr_egress_decision_ref = ?e, cr_credential_generation_ref = ?g\<rparr>) w = (Inr r, t)"
    using rest assms(2) by (auto simp: bindS_returns_iff split: if_splits)
  moreover from verdict assms(2) obtain obs where "accepted = Inr obs" by (cases accepted) auto
  ultimately show ?thesis using seen d by auto
qed

lemma current_cases:
  assumes "collect_metric_current_state resolver admission reader secret claim s = (Inr r, t)"
    and "\<not> current_unread r"
  shows "distinct (map ct_provider_external_ref (uc_targets claim)) \<and>
    (\<exists>credential endpoint u v.
      resolver (uc_credential_binding_ref claim) s = (Inr credential, u) \<and>
      admission (uc_provider_configuration claim) u = (Inr endpoint, v) \<and>
      read_current reader secret (uc_targets claim) credential endpoint v = (Inr r, t))"
  using assms unfolding collect_metric_current_state_def
  by (auto simp: tryS_returns_iff catch_only_Some split: if_splits)

interpretation current: evidence_collector
  "collect_metric_current_state resolver admission reader secret" cr_failure_class
  cr_operation_state cr_operational_evidence_state
proof
  fix c s r t
  assume run: "collect_metric_current_state resolver admission reader secret c s = (Inr r, t)"
  have "cr_operation_state r = SyncSucceeded \<and> cr_failure_class r = None \<or> current_unread r"
    using current_cases [OF run] read_current_cases [of reader secret _ _ _ _ r t] by metis
  then show "cr_operation_state r = (if cr_failure_class r = None then SyncSucceeded else SyncReconciliation)"
    and "cr_operational_evidence_state r = EvidenceCurrent \<Longrightarrow> cr_failure_class r = None"
    by (auto simp: current_unread_def)
qed

text \<open>Every accepted current value comes from the provider under its own target. When a
  collection succeeds, the targets had distinct provider references, the provider was asked
  for exactly these, its rows are distinct, and the observations restate them one by one
  and in order: definition and resource of the one target with the item of the row, the
  sample time of the row, and the value of its text in the kind of the target. Otherwise no
  observation is accepted.\<close>

theorem current_observations_exact:
  assumes "collect_metric_current_state resolver admission reader secret claim s = (Inr r, t)"
  shows "(\<not> cr_succeeded r \<longrightarrow> cr_accepted_observations r = []) \<and>
    (cr_succeeded r \<longrightarrow>
      distinct (map ct_provider_external_ref (uc_targets claim)) \<and>
      (\<exists>endpoint credential returned v w.
         reader endpoint credential (map ct_provider_external_ref (uc_targets claim)) 200000 v =
           (Inr returned, w) \<and>
         distinct (map ce_itemid returned) \<and>
         list_all2 (observes (uc_targets claim)) returned (cr_accepted_observations r)))"
proof (cases "current_unread r")
  case True
  then show ?thesis by (auto simp: current_unread_def cr_succeeded_def current_degraded_def)
next
  case False
  from current_cases [OF assms False] obtain credential endpoint v where
    d: "distinct (map ct_provider_external_ref (uc_targets claim))"
    and read: "read_current reader secret (uc_targets claim) credential endpoint v = (Inr r, t)" by blast
  from read_current_cases [OF read False] obtain returned u w where
    "reader endpoint credential (map ct_provider_external_ref (uc_targets claim)) max_current_samples v =
       (Inr returned, u)"
    "distinct (map ce_itemid returned)"
    "accept_current (uc_targets claim) secret returned w = (Inr (Inr (cr_accepted_observations r)), t)"
    "cr_operation_state r = SyncSucceeded" by blast
  then show ?thesis
    using d accept_current_observes [of "uc_targets claim" secret returned w] 
    unfolding cr_succeeded_def max_current_samples_def by metis
qed

text \<open>One target, one row.\<close>

definition sample_current_target :: current_target where
  "sample_current_target =
     \<lparr>ct_metric_definition_id = ''m'', ct_monitoring_resource_id = ''r'',
      ct_provider_external_ref = ''77'', ct_value_kind = IntegerKind\<rparr>"

definition sample_current_claim :: current_claim where
  "sample_current_claim =
     \<lparr>uc_claim_token = ''c'', uc_tenant_id = ''tenant-a'', uc_monitoring_sync_operation_id = ''o'',
      uc_monitoring_source_id = ''s'', uc_source_instance_generation = ''g'',
      uc_configuration_revision = 2, uc_scope_revision = 2, uc_current_state_poll_epoch = 3,
      uc_current_state_poll_generation = 4, uc_provider_instance_ref = ''zbx-1'',
      uc_provider_configuration = \<lparr>pc_base_url = ''https://zabbix.example.org''\<rparr>,
      uc_credential_binding_ref = ''cred-1'', uc_targets = [sample_current_target]\<rparr>"

definition sample_current_row :: current_evidence where
  "sample_current_row =
     \<lparr>ce_itemid = ''77'', ce_raw_value = ''42'', ce_lastclock = 1700000000, ce_lastns = 5\<rparr>"

definition sample_current_result :: current_result where
  "sample_current_result =
     \<lparr>cr_operation_state = SyncSucceeded, cr_operational_evidence_state = EvidenceCurrent,
      cr_accepted_observations =
        [observation_of sample_current_target sample_current_row (IntegerValue 42)
           ''mon-current-observation_x''],
      cr_failure_class = None, cr_egress_decision_ref = Some ''d'',
      cr_credential_generation_ref = Some ''k''\<rparr>"

lemma sample_current_collected:
  "collect_metric_current_state
     (\<lambda>_. returnS \<lparr>zc_api_token = ''t'', zc_credential_generation_ref = ''k''\<rparr>)
     (\<lambda>_. returnS \<lparr>ae_api_url = ''https://zabbix.example.org/api_jsonrpc.php'', ae_egress_decision_ref = ''d''\<rparr>)
     (\<lambda>_ _ _ _. returnS [sample_current_row]) (returnS ''x'') sample_current_claim () =
   (Inr sample_current_result, ())"
  by (simp add: collect_metric_current_state_def sample_current_claim_def max_current_samples_def
      read_current_def Let_def sample_current_row_def sample_current_target_def opaque_token_def
      alnum_char_def char_class_defs all_digits_def max_int_digits_def digits_value_def
      sample_current_result_def)

theorem current_observations_exact_witness:
  "cr_succeeded sample_current_result \<longrightarrow>
     distinct (map ct_provider_external_ref (uc_targets sample_current_claim))"
  using current_observations_exact [OF sample_current_collected] by blast

end
