(* ===== verification/Metric_History.thy ===== *)
theory Metric_History
  imports Metric_Values
begin

text \<open>
  src/src/jlmirror_monitoring/metric_history.py: a bounded window of metric history, read type
  by type. The model keeps the dictionary from item references to targets in which a later
  target replaces an earlier one with the same reference.
\<close>

section \<open>Targets, windows, evidence\<close>

datatype history_failure =
    HfCredentialUnavailable | HfAuthenticationRejected | HfEgressNotAdmitted
  | HfProviderUnavailable | HfProtocolInvalid | HfWindowInvalid | HfPageTruncated
  | HfStreamNotCurrent | HfBindingReconciliation

datatype coverage_state = CoverageOpen | CoverageReconciliation | CoverageGap | CoverageFinalized

definition max_history_items :: nat where "max_history_items = 512"
definition max_history_rows :: nat where "max_history_rows = 20000"
definition max_history_window :: int where "max_history_window = 86400"

record history_target =
  gt_metric_definition_id :: string
  gt_monitoring_resource_id :: string
  gt_provider_external_ref :: string
  gt_value_kind :: metric_value_kind
  gt_history_value_type :: int

definition valid_history_target :: "history_target \<Rightarrow> bool" where
  "valid_history_target g \<longleftrightarrow>
     gt_metric_definition_id g \<noteq> [] \<and> gt_monitoring_resource_id g \<noteq> [] \<and>
     gt_provider_external_ref g \<noteq> [] \<and> length (gt_provider_external_ref g) \<le> 256 \<and>
     gt_history_value_type g \<in> {0, 1, 2, 3, 4, 5}"

record history_window =
  hw_time_from :: int
  hw_time_till :: int

definition valid_history_window :: "history_window \<Rightarrow> bool" where
  "valid_history_window w \<longleftrightarrow>
     0 < hw_time_from w \<and> hw_time_from w \<le> hw_time_till w \<and>
     hw_time_till w - hw_time_from w \<le> max_history_window"

record history_claim =
  hc_claim_token :: string
  hc_tenant_id :: string
  hc_monitoring_sync_operation_id :: string
  hc_monitoring_source_id :: string
  hc_source_instance_generation :: string
  hc_configuration_revision :: int
  hc_scope_revision :: int
  hc_provider_instance_ref :: string
  hc_provider_configuration :: provider_configuration
  hc_credential_binding_ref :: string
  hc_targets :: "history_target list"
  hc_window :: history_window

record history_evidence =
  hv_itemid :: string
  hv_clock :: int
  hv_ns :: int
  hv_raw_value :: string

definition valid_history_evidence :: "history_evidence \<Rightarrow> bool" where
  "valid_history_evidence r \<longleftrightarrow>
     hv_itemid r \<noteq> [] \<and> length (hv_itemid r) \<le> 256 \<and> 0 < hv_clock r \<and>
     0 \<le> hv_ns r \<and> hv_ns r \<le> 999999999 \<and> length (hv_raw_value r) \<le> 65536"

record history_observation =
  ho_observation_id :: string
  ho_metric_definition_id :: string
  ho_monitoring_resource_id :: string
  ho_provider_external_ref :: string
  ho_provider_clock :: int
  ho_provider_ns :: int
  ho_value_kind :: metric_value_kind
  ho_canonical_value :: metric_value

record history_result =
  yr_operation_state :: sync_state
  yr_operational_evidence_state :: operational_evidence
  yr_coverage_state :: coverage_state
  yr_observations :: "history_observation list"
  yr_failure_class :: "history_failure option"
  yr_request_exhausted :: bool
  yr_egress_decision_ref :: "string option"
  yr_credential_generation_ref :: "string option"

definition yr_succeeded :: "history_result \<Rightarrow> bool" where
  "yr_succeeded r \<longleftrightarrow> yr_operation_state r = SyncSucceeded"

text \<open>\<open>read_history\<close>: value type, items, window and row ceiling.\<close>

type_synonym 's history_reader =
  "admitted_endpoint \<Rightarrow> zabbix_credential \<Rightarrow> int \<Rightarrow> string list \<Rightarrow> int \<Rightarrow> int \<Rightarrow> nat \<Rightarrow>
   ('s, history_evidence list) op"

section \<open>Reading a window\<close>

definition history_degraded ::
  "history_failure \<Rightarrow> operational_evidence \<Rightarrow> string option \<Rightarrow> string option \<Rightarrow> history_result" where
  "history_degraded failure evidence egress generation =
     \<lparr>yr_operation_state = SyncReconciliation, yr_operational_evidence_state = evidence,
      yr_coverage_state = CoverageReconciliation, yr_observations = [],
      yr_failure_class = Some failure, yr_request_exhausted = False,
      yr_egress_decision_ref = egress, yr_credential_generation_ref = generation\<rparr>"

text \<open>The targets by value type in ascending order, and the target of an item reference.\<close>

definition targets_by_type :: "history_target list \<Rightarrow> (int \<times> history_target list) list" where
  "targets_by_type targets =
     map (\<lambda>ty. (ty, filter (\<lambda>g. gt_history_value_type g = ty) targets))
       (sort (remdups (map gt_history_value_type targets)))"

definition target_by_itemid :: "history_target list \<Rightarrow> string \<Rightarrow> history_target option" where
  "target_by_itemid targets = map_of (rev (map (\<lambda>g. (gt_provider_external_ref g, g)) targets))"

fun read_types ::
  "(int \<Rightarrow> string list \<Rightarrow> ('s, history_evidence list) op) \<Rightarrow> (int \<times> history_target list) list \<Rightarrow>
   ('s, history_failure + history_evidence list) op" where
  "read_types read [] = returnS (Inr [])"
| "read_types read ((ty, targets) # groups) =
     bindS (read ty (map gt_provider_external_ref targets)) (\<lambda>rows.
     if max_history_rows \<le> length rows then returnS (Inl HfPageTruncated)
     else if \<not> list_all (\<lambda>r. hv_itemid r \<in> set (map gt_provider_external_ref targets)) rows
     then returnS (Inl HfProtocolInvalid)
     else bindS (read_types read groups) (\<lambda>others. returnS (map_sum id (\<lambda>xs. rows @ xs) others)))"

definition history_observation_of ::
  "history_target \<Rightarrow> history_evidence \<Rightarrow> metric_value \<Rightarrow> string \<Rightarrow> history_observation" where
  "history_observation_of target row value observation_id =
     \<lparr>ho_observation_id = observation_id, ho_metric_definition_id = gt_metric_definition_id target,
      ho_monitoring_resource_id = gt_monitoring_resource_id target,
      ho_provider_external_ref = hv_itemid row, ho_provider_clock = hv_clock row,
      ho_provider_ns = hv_ns row, ho_value_kind = gt_value_kind target,
      ho_canonical_value = value\<rparr>"

fun accept_history ::
  "history_target list \<Rightarrow> ('s, string) op \<Rightarrow> history_evidence list \<Rightarrow>
   ('s, history_observation list) op" where
  "accept_history targets secret [] = returnS []"
| "accept_history targets secret (row # rows) =
     (case target_by_itemid targets (hv_itemid row) of
        None \<Rightarrow> raiseS KeyError
      | Some target \<Rightarrow>
          bindS (liftS (parse_canonical_value (gt_value_kind target) (hv_raw_value row))) (\<lambda>value.
          bindS (bindS secret (\<lambda>x. liftS (opaque_token ''hist-obs'' x))) (\<lambda>observation_id.
          bindS (accept_history targets secret rows) (\<lambda>observations.
          returnS (history_observation_of target row value observation_id # observations)))))"

definition history_success ::
  "string option \<Rightarrow> string option \<Rightarrow> nat \<Rightarrow> history_observation list \<Rightarrow> history_result" where
  "history_success egress generation returned observations =
     (let request_exhausted = max_history_rows \<le> returned in
      \<lparr>yr_operation_state = SyncSucceeded, yr_operational_evidence_state = EvidenceCurrent,
       yr_coverage_state = (if \<not> request_exhausted then CoverageFinalized else CoverageGap),
       yr_observations = observations, yr_failure_class = None,
       yr_request_exhausted = (\<not> request_exhausted),
       yr_egress_decision_ref = egress, yr_credential_generation_ref = generation\<rparr>)"

text \<open>\<open>except (TypeError, ValueError)\<close>\<close>

definition catch_values :: "'b \<Rightarrow> exn \<Rightarrow> 'b option" where
  "catch_values r e = (if e = TypeError \<or> is_value_error e then Some r else None)"

definition read_window ::
  "'s history_reader \<Rightarrow> ('s, string) op \<Rightarrow> history_target list \<Rightarrow> history_window \<Rightarrow>
   zabbix_credential \<Rightarrow> admitted_endpoint \<Rightarrow> ('s, history_result) op" where
  "read_window reader secret targets window credential endpoint =
     (let generation = Some (zc_credential_generation_ref credential);
          egress = Some (ae_egress_decision_ref endpoint);
          failed = (\<lambda>f. history_degraded f EvidenceUnavailable egress generation);
          read = (\<lambda>ty itemids. reader endpoint credential ty itemids (hw_time_from window)
                                 (hw_time_till window) max_history_rows)
      in
     tryS (read_types read (targets_by_type targets))
       (catch_provider True (failed HfAuthenticationRejected) (failed HfProviderUnavailable)
          (failed HfProtocolInvalid))
       (\<lambda>outcome.
        (case outcome of
           Inl f \<Rightarrow> returnS (history_degraded f EvidenceReconciliation egress generation)
         | Inr returned \<Rightarrow>
             tryS (accept_history targets secret returned)
               (catch_values (failed HfProtocolInvalid))
               (\<lambda>observations.
                 returnS (history_success egress generation (length returned) observations)))))"

definition read_metric_history_window ::
  "'s credential_resolver \<Rightarrow> 's outbound_admission \<Rightarrow> 's history_reader \<Rightarrow> ('s, string) op \<Rightarrow>
   history_claim \<Rightarrow> ('s, history_result) op" where
  "read_metric_history_window resolver admission reader secret claim =
     (if hc_targets claim = [] \<or> max_history_items < length (hc_targets claim) \<or>
         \<not> distinct (map (\<lambda>g. (gt_provider_external_ref g, gt_history_value_type g)) (hc_targets claim))
      then returnS (history_degraded HfProtocolInvalid EvidenceReconciliation None None)
      else
     tryS (resolver (hc_credential_binding_ref claim))
       (catch_only CredentialResolutionError
         (history_degraded HfCredentialUnavailable EvidenceUnavailable None None))
       (\<lambda>credential.
     tryS (admission (hc_provider_configuration claim))
       (catch_only EgressAdmissionError
         (history_degraded HfEgressNotAdmitted EvidenceUnavailable None
           (Some (zc_credential_generation_ref credential))))
       (\<lambda>endpoint.
     read_window reader secret (hc_targets claim) (hc_window claim) credential endpoint)))"

section \<open>Attribution of observations\<close>

definition history_unread :: "history_result \<Rightarrow> bool" where
  "history_unread r \<longleftrightarrow> (\<exists>f e g c. r = history_degraded f e g c \<and> e \<noteq> EvidenceCurrent)"

lemma history_degraded_fields [simp]:
  "yr_failure_class (history_degraded f e g c) = Some f"
  "yr_operation_state (history_degraded f e g c) = SyncReconciliation"
  "yr_operational_evidence_state (history_degraded f e g c) = e"
  by (simp_all add: history_degraded_def)

lemma history_unread_degraded [simp]:
  "e \<noteq> EvidenceCurrent \<Longrightarrow> history_unread (history_degraded f e g c)"
  by (auto simp: history_unread_def)

lemma history_caught:
  "catch_provider w (history_degraded f1 EvidenceUnavailable g c)
     (history_degraded f2 EvidenceUnavailable g c)
     (history_degraded f3 EvidenceUnavailable g c) e = Some r \<Longrightarrow> history_unread r"
  by (drule catch_provider_Some) auto

lemma history_success_fields [simp]:
  "yr_failure_class (history_success e g n obs) = None"
  "yr_operation_state (history_success e g n obs) = SyncSucceeded"
  "yr_observations (history_success e g n obs) = obs"
  by (simp_all add: history_success_def Let_def)

text \<open>A row was read when the reader returned it for the items of its group.\<close>

definition row_read ::
  "(int \<Rightarrow> string list \<Rightarrow> ('s, history_evidence list) op) \<Rightarrow> int \<Rightarrow> string list \<Rightarrow> history_evidence \<Rightarrow> bool" where
  "row_read read ty itemids row \<longleftrightarrow>
     (\<exists>u v rows. read ty itemids u = (Inr rows, v) \<and> row \<in> set rows \<and> length rows < max_history_rows) \<and>
     hv_itemid row \<in> set itemids"

lemma read_types_rows:
  "read_types read groups s = (Inr (Inr rows), t) \<Longrightarrow> row \<in> set rows \<Longrightarrow>
   \<exists>(ty, targets) \<in> set groups. row_read read ty (map gt_provider_external_ref targets) row"
proof (induction groups arbitrary: s rows)
  case Nil
  then show ?case by simp
next
  case (Cons grp groups)
  obtain ty targets where grp: "grp = (ty, targets)" by (cases grp)
  from Cons.prems(1) obtain here others u v where
    "read ty (map gt_provider_external_ref targets) s = (Inr here, u)"
    "length here < max_history_rows"
    "list_all (\<lambda>r. hv_itemid r \<in> set (map gt_provider_external_ref targets)) here"
    "read_types read groups u = (Inr (Inr others), v)" "rows = here @ others" "v = t"
    by (auto simp: grp bindS_returns_iff map_sum_id_Inr returnS_def split: if_splits)
  then show ?case
    using Cons.IH Cons.prems(2) unfolding grp
    by (fastforce simp: row_read_def list_all_iff)
qed

text \<open>What an observation restates of a row.\<close>

definition restates :: "history_target \<Rightarrow> history_evidence \<Rightarrow> history_observation \<Rightarrow> bool" where
  "restates target row ob \<longleftrightarrow>
     (\<exists>value. parse_canonical_value (gt_value_kind target) (hv_raw_value row) = Inr value \<and>
        ob = history_observation_of target row value (ho_observation_id ob))"

lemma accept_history_restates:
  "accept_history targets secret rows s = (Inr obs, t) \<Longrightarrow>
   list_all2 (\<lambda>row ob. \<exists>target. target_by_itemid targets (hv_itemid row) = Some target \<and>
     restates target row ob) rows obs"
proof (induction rows arbitrary: s obs)
  case Nil
  then show ?case by simp
next
  case (Cons row rows)
  then obtain target val observation_id others u where
    "target_by_itemid targets (hv_itemid row) = Some target"
    "parse_canonical_value (gt_value_kind target) (hv_raw_value row) = Inr val"
    "accept_history targets secret rows u = (Inr others, t)"
    "obs = history_observation_of target row val observation_id # others"
    by (auto simp: sequence_returns returnS_def raiseS_def split: option.splits sum.splits)
  then show ?case
    using Cons.IH by (fastforce simp: restates_def history_observation_of_def)
qed

lemma read_window_cases:
  assumes "read_window reader secret targets window credential endpoint s = (Inr r, t)"
    and "\<not> history_unread r"
  shows "\<exists>u returned obs.
    read_types (\<lambda>ty itemids. reader endpoint credential ty itemids (hw_time_from window)
      (hw_time_till window) max_history_rows) (targets_by_type targets) s = (Inr (Inr returned), u) \<and>
    accept_history targets secret returned u = (Inr obs, t) \<and>
    r = history_success (Some (ae_egress_decision_ref endpoint))
          (Some (zc_credential_generation_ref credential)) (length returned) obs"
proof -
  let ?d = "\<lambda>f e. history_degraded f e (Some (ae_egress_decision_ref endpoint))
    (Some (zc_credential_generation_ref credential))"
  let ?read = "\<lambda>ty itemids. reader endpoint credential ty itemids (hw_time_from window)
    (hw_time_till window) max_history_rows"
  from assms obtain outcome u where
    types: "read_types ?read (targets_by_type targets) s = (Inr outcome, u)"
    and verdict: "(case outcome of
        Inl f \<Rightarrow> returnS (?d f EvidenceReconciliation)
      | Inr returned \<Rightarrow>
          tryS (accept_history targets secret returned)
            (catch_values (?d HfProtocolInvalid EvidenceUnavailable))
            (\<lambda>observations. returnS (history_success (Some (ae_egress_decision_ref endpoint))
               (Some (zc_credential_generation_ref credential)) (length returned) observations))) u = (Inr r, t)"
    unfolding read_window_def Let_def tryS_returns_iff by (blast dest: history_caught)
  from verdict assms(2) obtain returned where outcome: "outcome = Inr returned" by (cases outcome) auto
  have "catch_values (?d HfProtocolInvalid EvidenceUnavailable) e \<noteq> Some r" for e
    using assms(2) by (auto simp: catch_values_def)
  then show ?thesis
    using types verdict unfolding outcome by (fastforce simp: tryS_returns_iff)
qed

lemma history_cases:
  assumes "read_metric_history_window resolver admission reader secret claim s = (Inr r, t)"
    and "\<not> history_unread r"
  shows "\<exists>credential endpoint u.
    read_window reader secret (hc_targets claim) (hc_window claim) credential endpoint u = (Inr r, t)"
  using assms unfolding read_metric_history_window_def
  by (auto simp: tryS_returns_iff catch_only_Some split: if_splits)

interpretation history: evidence_collector
  "read_metric_history_window resolver admission reader secret" yr_failure_class
  yr_operation_state yr_operational_evidence_state
proof
  fix c s r t
  assume run: "read_metric_history_window resolver admission reader secret c s = (Inr r, t)"
  have "(\<exists>e g n obs. r = history_success e g n obs) \<or> history_unread r"
    using history_cases [OF run] read_window_cases [of reader secret _ _ _ _ _ r t] by metis
  then show "yr_operation_state r = (if yr_failure_class r = None then SyncSucceeded else SyncReconciliation)"
    and "yr_operational_evidence_state r = EvidenceCurrent \<Longrightarrow> yr_failure_class r = None"
    by (auto simp: history_unread_def)
qed

lemma target_by_itemid_Some:
  "target_by_itemid targets x = Some g \<Longrightarrow> g \<in> set targets \<and> gt_provider_external_ref g = x"
  by (auto simp: target_by_itemid_def dest!: map_of_SomeD)

text \<open>The hypothesis the code does not check: references are distinct, not only pairs of
  reference and type.\<close>

definition distinct_refs :: "history_target list \<Rightarrow> bool" where
  "distinct_refs targets \<longleftrightarrow> distinct (map gt_provider_external_ref targets)"

lemma list_all2_member: "list_all2 P xs ys \<Longrightarrow> y \<in> set ys \<Longrightarrow> \<exists>x \<in> set xs. P x y"
  by (induction rule: list_all2_induct) auto

lemma same_ref_same_target:
  "distinct_refs targets \<Longrightarrow> g \<in> set targets \<Longrightarrow> h \<in> set targets \<Longrightarrow>
   gt_provider_external_ref g = gt_provider_external_ref h \<Longrightarrow> g = h"
  unfolding distinct_refs_def distinct_map by (blast dest: inj_onD)

text \<open>History is attributed to the target it was read for, when the item references of
  the targets are distinct. Each observation of a result then belongs to a target of the
  claim and restates a row that the reader returned for the value type and the item of that
  target, within the window of the claim.\<close>

theorem history_observations_attributed:
  assumes "read_metric_history_window resolver admission reader secret claim s = (Inr r, t)"
    and "distinct_refs (hc_targets claim)"
    and "ob \<in> set (yr_observations r)"
  shows "\<exists>target \<in> set (hc_targets claim). \<exists>row endpoint credential itemids u v rows.
    reader endpoint credential (gt_history_value_type target) itemids
      (hw_time_from (hc_window claim)) (hw_time_till (hc_window claim)) 20000 u = (Inr rows, v) \<and>
    row \<in> set rows \<and> length rows < 20000 \<and>
    hv_itemid row = gt_provider_external_ref target \<and> restates target row ob"
proof -
  let ?ts = "hc_targets claim"
  have "\<not> history_unread r"
    using assms(3) by (auto simp: history_unread_def history_degraded_def)
  note read_at_all = this
  from history_cases [OF assms(1) read_at_all] obtain credential endpoint u where
    window: "read_window reader secret ?ts (hc_window claim) credential endpoint u = (Inr r, t)" by blast
  from read_window_cases [OF window read_at_all] obtain v returned obs where
    types: "read_types (\<lambda>ty itemids. reader endpoint credential ty itemids
      (hw_time_from (hc_window claim)) (hw_time_till (hc_window claim)) max_history_rows)
      (targets_by_type ?ts) u = (Inr (Inr returned), v)"
    and accepted: "accept_history ?ts secret returned v = (Inr obs, t)"
    and obs: "yr_observations r = obs" by auto
  from assms(3) obtain row target where
    row: "row \<in> set returned" "target_by_itemid ?ts (hv_itemid row) = Some target" "restates target row ob"
    using list_all2_member [OF accept_history_restates [OF accepted]] unfolding obs by blast
  from target_by_itemid_Some [OF row(2)] have target: "target \<in> set ?ts"
    "gt_provider_external_ref target = hv_itemid row" by simp_all
  from read_types_rows [OF types row(1)] obtain ty targets where
    grp: "(ty, targets) \<in> set (targets_by_type ?ts)"
    and read: "row_read (\<lambda>ty itemids. reader endpoint credential ty itemids
      (hw_time_from (hc_window claim)) (hw_time_till (hc_window claim)) max_history_rows) ty
      (map gt_provider_external_ref targets) row" by blast
  from read obtain other where "other \<in> set targets" "gt_provider_external_ref other = hv_itemid row"
    by (auto simp: row_read_def)
  moreover have "set targets \<subseteq> set ?ts" "\<forall>g \<in> set targets. gt_history_value_type g = ty"
    using grp by (auto simp: targets_by_type_def)
  ultimately have "gt_history_value_type target = ty"
    using same_ref_same_target [OF assms(2) target(1)] target(2) by force
  moreover from read obtain w x rows where
    "reader endpoint credential ty (map gt_provider_external_ref targets)
      (hw_time_from (hc_window claim)) (hw_time_till (hc_window claim)) 20000 w = (Inr rows, x)"
    "row \<in> set rows" "length rows < 20000"
    unfolding row_read_def max_history_rows_def by blast
  ultimately show ?thesis
    using row(3) target by (intro bexI [OF _ target(1)] exI conjI) simp_all
qed

section \<open>Two value types of one item\<close>

definition float_target :: history_target where
  "float_target =
     \<lparr>gt_metric_definition_id = ''m-float'', gt_monitoring_resource_id = ''r'',
      gt_provider_external_ref = ''77'', gt_value_kind = NumberKind, gt_history_value_type = 0\<rparr>"

definition integer_target :: history_target where
  "integer_target =
     \<lparr>gt_metric_definition_id = ''m-integer'', gt_monitoring_resource_id = ''r'',
      gt_provider_external_ref = ''77'', gt_value_kind = IntegerKind, gt_history_value_type = 3\<rparr>"

definition sample_history_claim :: "history_target list \<Rightarrow> history_claim" where
  "sample_history_claim targets =
     \<lparr>hc_claim_token = ''c'', hc_tenant_id = ''tenant-a'', hc_monitoring_sync_operation_id = ''o'',
      hc_monitoring_source_id = ''s'', hc_source_instance_generation = ''g'',
      hc_configuration_revision = 2, hc_scope_revision = 2, hc_provider_instance_ref = ''zbx-1'',
      hc_provider_configuration = \<lparr>pc_base_url = ''https://zabbix.example.org''\<rparr>,
      hc_credential_binding_ref = ''cred-1'', hc_targets = targets,
      hc_window = \<lparr>hw_time_from = 1000, hw_time_till = 2000\<rparr>\<rparr>"

text \<open>The provider holds one sample of each type, told apart by its clock.\<close>

definition sample_history_row :: "int \<Rightarrow> history_evidence" where
  "sample_history_row clock = \<lparr>hv_itemid = ''77'', hv_clock = clock, hv_ns = 0, hv_raw_value = ''15''\<rparr>"

definition sample_history_reader :: "unit history_reader" where
  "sample_history_reader endpoint credential ty itemids time_from time_till max_rows =
     returnS [sample_history_row (if ty = 0 then 1100 else 1200)]"

definition sample_history_read :: "history_target list \<Rightarrow> history_result res" where
  "sample_history_read targets = fst (read_metric_history_window
     (\<lambda>_. returnS \<lparr>zc_api_token = ''t'', zc_credential_generation_ref = ''k''\<rparr>)
     (\<lambda>_. returnS \<lparr>ae_api_url = ''https://zabbix.example.org/api_jsonrpc.php'', ae_egress_decision_ref = ''d''\<rparr>)
     sample_history_reader (returnS ''x'') (sample_history_claim targets) ())"

definition attributions :: "history_result res \<Rightarrow> (int \<times> string) list" where
  "attributions r = (case r of Inl _ \<Rightarrow> []
     | Inr h \<Rightarrow> map (\<lambda>ob. (ho_provider_clock ob, ho_metric_definition_id ob)) (yr_observations h))"

lemmas sample_history_eval =
  sample_history_read_def read_metric_history_window_def sample_history_claim_def
  max_history_items_def float_target_def integer_target_def read_window_def Let_def
  targets_by_type_def sample_history_reader_def sample_history_row_def max_history_rows_def
  target_by_itemid_def all_digits_def max_int_digits_def char_class_defs opaque_token_def
  alnum_char_def history_success_def digits_value_def attributions_def
  history_observation_of_def finite_decimal_def sign_of_def
  exponent_of_def coefficient_digits_def is_blank_def

text \<open>History can be attributed to the wrong metric. Two targets with the same item and
  different value types pass the checks, because these compare pairs of item and type; the
  rows of both types are then recorded under the last of the targets. The sample taken at
  1100 is read for the float metric but recorded as an observation of the integer metric,
  while each target alone is read correctly.\<close>

theorem history_misattribution:
  "sample_history_reader e c (gt_history_value_type float_target) [gt_provider_external_ref float_target]
     1000 2000 20000 () = (Inr [sample_history_row 1100], ()) \<and>
   attributions (sample_history_read [float_target]) = [(1100, ''m-float'')] \<and>
   attributions (sample_history_read [integer_target]) = [(1200, ''m-integer'')] \<and>
   attributions (sample_history_read [float_target, integer_target]) =
     [(1100, ''m-integer''), (1200, ''m-integer'')]"
  by (intro conjI; simp add: sample_history_eval)

definition float_observation :: history_observation where
  "float_observation = history_observation_of float_target (sample_history_row 1100)
     (NumberValue False 15 0) ''hist-obs_x''"

lemma sample_history_run:
  "read_metric_history_window
     (\<lambda>_. returnS \<lparr>zc_api_token = ''t'', zc_credential_generation_ref = ''k''\<rparr>)
     (\<lambda>_. returnS \<lparr>ae_api_url = ''https://zabbix.example.org/api_jsonrpc.php'', ae_egress_decision_ref = ''d''\<rparr>)
     sample_history_reader (returnS ''x'') (sample_history_claim [float_target]) () =
   (Inr (history_success (Some ''d'') (Some ''k'') 1 [float_observation]), ())"
  by (simp add: sample_history_eval float_observation_def)

theorem history_observations_attributed_witness:
  "\<exists>target \<in> set [float_target]. \<exists>row. hv_itemid row = gt_provider_external_ref target \<and>
     restates target row float_observation"
proof -
  have "distinct_refs (hc_targets (sample_history_claim [float_target]))"
    by (simp add: distinct_refs_def sample_history_claim_def)
  from history_observations_attributed [OF sample_history_run this, of float_observation]
  show ?thesis by (auto simp: sample_history_claim_def)
qed

end
