(* ===== verification/Paging.thy ===== *)
theory Paging
  imports JL_Prelude "HOL-Library.List_Lexorder" "HOL-Library.Char_ord"
begin

text \<open>
  Keyset pages: the reading algorithm that src/src/jlmirror_monitoring/health_reads.py and
  problem_reads.py share. A page asks the repository for one row more than it emits,
  checks what it got and names the last emitted row as the cursor of the next page. The
  repository's contract is a locale; in it, following the cursors reads everything once.
\<close>

section \<open>One page\<close>

record 'r page =
  pg_items :: "'r list"
  pg_next_cursor :: "string option"

definition cursor_ok :: "string option \<Rightarrow> bool" where
  "cursor_ok c = (case c of None \<Rightarrow> True | Some x \<Rightarrow> x \<noteq> [] \<and> length x \<le> 512)"

text \<open>The checks on the rows, and the page they give; \<open>limit\<close> is at least 1 here.\<close>

definition emit_page ::
  "('r \<Rightarrow> string) \<Rightarrow> ('r \<Rightarrow> 'k::linorder) \<Rightarrow> ('r \<Rightarrow> bool) \<Rightarrow> ('r \<Rightarrow> int) \<Rightarrow> int \<Rightarrow> int \<Rightarrow> 'r list \<Rightarrow>
   'r page res" where
  "emit_page ident key matches weight max_bytes limit rows =
     bindR (ensure (int (length rows) \<le> limit + 1) ValueError) (\<lambda>_.
     bindR (ensure (sorted (map key rows)) ValueError) (\<lambda>_.
     bindR (ensure (list_all matches rows) ValueError) (\<lambda>_.
     (let emitted = take (nat limit) rows in
      bindR (ensure (sum_list (map weight emitted) \<le> max_bytes) ValueError) (\<lambda>_.
      Inr \<lparr>pg_items = emitted,
           pg_next_cursor =
             (if limit < int (length rows) \<and> emitted \<noteq> [] then Some (ident (last emitted))
              else None)\<rparr>)))))"

definition keyset_page ::
  "int \<Rightarrow> ('s, unit) op \<Rightarrow> (string \<Rightarrow> ('s, 'a option) op) \<Rightarrow> (string \<Rightarrow> 'a \<Rightarrow> bool) \<Rightarrow>
   ('a option \<Rightarrow> int \<Rightarrow> ('s, 'r list) op) \<Rightarrow> (int \<Rightarrow> 'r list \<Rightarrow> 'r page res) \<Rightarrow>
   string option \<Rightarrow> int \<Rightarrow> ('s, 'r page) op" where
  "keyset_page max_limit authorize resolve acceptable list_rows emit cursor limit =
     thenS (ensureS (1 \<le> limit \<and> limit \<le> max_limit) ValueError)
    (thenS (ensureS (cursor_ok cursor) CursorInvalid)
    (thenS authorize
    (bindS
      (case cursor of
         None \<Rightarrow> returnS None
       | Some c \<Rightarrow>
           bindS (resolve c) (\<lambda>anchor.
           (case anchor of
              None \<Rightarrow> raiseS CursorInvalid
            | Some a \<Rightarrow>
                thenS (ensureS (acceptable c a) CursorInvalid) (returnS (Some a)))))
      (\<lambda>after.
     bindS (list_rows after (limit + 1)) (\<lambda>rows. liftS (emit limit rows))))))"

text \<open>\<open>sorted(rows, key=key) == rows\<close> holds exactly for sorted keys, because the sort is stable.\<close>

lemma stable_sort_fixpoint: "sort_key key rows = rows \<longleftrightarrow> sorted (map key rows)"
proof
  assume "sort_key key rows = rows"
  then show "sorted (map key rows)" using sorted_sort_key [of key rows] by simp
next
  assume "sorted (map key rows)"
  then show "sort_key key rows = rows" by (simp add: sort_key_id_if_sorted)
qed

lemma emit_page_Inr:
  "emit_page ident key matches weight max_bytes limit rows = Inr p \<longleftrightarrow>
     int (length rows) \<le> limit + 1 \<and> sorted (map key rows) \<and> list_all matches rows \<and>
     sum_list (map weight (take (nat limit) rows)) \<le> max_bytes \<and>
     p = \<lparr>pg_items = take (nat limit) rows,
          pg_next_cursor =
            (if limit < int (length rows) \<and> take (nat limit) rows \<noteq> []
             then Some (ident (last (take (nat limit) rows))) else None)\<rparr>"
  by (auto simp: emit_page_def Let_def res_simps)

text \<open>What a page promises whatever the repository does.\<close>

lemma keyset_page_Inr:
  assumes "keyset_page max_limit authorize resolve acceptable list_rows
      (emit_page ident key matches weight max_bytes) cursor limit s = (Inr p, t)"
  shows "1 \<le> limit \<and> limit \<le> max_limit \<and> cursor_ok cursor \<and>
    int (length (pg_items p)) \<le> limit \<and> sorted (map key (pg_items p)) \<and>
    list_all matches (pg_items p) \<and> sum_list (map weight (pg_items p)) \<le> max_bytes \<and>
    (\<exists>u. authorize s = (Inr (), u))"
proof -
  from assms obtain rows u where facts: "1 \<le> limit \<and> limit \<le> max_limit" "cursor_ok cursor"
    "authorize s = (Inr (), u)" "emit_page ident key matches weight max_bytes limit rows = Inr p"
    unfolding keyset_page_def sequence_returns liftS_returns_iff ensure_Inr_iff by blast
  have "sorted (take n (map key rows))" if "sorted (map key rows)" for n
    using that by (rule sorted_wrt_take)
  with facts show ?thesis
    by (auto simp: emit_page_Inr list_all_iff take_map dest: in_set_takeD)
qed

section \<open>Following the cursors\<close>

text \<open>Reading page after page; \<open>fuel\<close> bounds the number of pages.\<close>

fun read_all ::
  "nat \<Rightarrow> (string option \<Rightarrow> ('s, 'r page) op) \<Rightarrow> string option \<Rightarrow> 's \<Rightarrow> ('r list res \<times> 's) option" where
  "read_all 0 get cursor s = None"
| "read_all (Suc n) get cursor s =
     (case get cursor s of
        (Inl e, t) \<Rightarrow> Some (Inl e, t)
      | (Inr p, t) \<Rightarrow>
          (case pg_next_cursor p of
             None \<Rightarrow> Some (Inr (pg_items p), t)
           | Some c \<Rightarrow>
               map_option (\<lambda>(r, u). (map_sum id (\<lambda>rows. pg_items p @ rows) r, u))
                 (read_all n get (Some c) t)))"

text \<open>Every page of \<open>l\<close> rows is within the byte budget.\<close>

definition pages_fit :: "('r \<Rightarrow> int) \<Rightarrow> int \<Rightarrow> nat \<Rightarrow> 'r list \<Rightarrow> bool" where
  "pages_fit weight max_bytes l ys \<longleftrightarrow> (\<forall>i. sum_list (map weight (take l (drop (i * l) ys))) \<le> max_bytes)"

lemma pages_fit_here: "pages_fit weight max_bytes l ys \<Longrightarrow> sum_list (map weight (take l ys)) \<le> max_bytes"
  unfolding pages_fit_def by (drule spec [of _ 0]) simp

lemma pages_fit_rest:
  assumes "sum_list (map weight (take l ys)) \<le> max_bytes"
  shows "pages_fit weight max_bytes l ys \<longleftrightarrow> pages_fit weight max_bytes l (drop l ys)"
proof
  assume fit: "pages_fit weight max_bytes l ys"
  show "pages_fit weight max_bytes l (drop l ys)"
    unfolding pages_fit_def
  proof
    fix i
    show "sum_list (map weight (take l (drop (i * l) (drop l ys)))) \<le> max_bytes"
      using fit [unfolded pages_fit_def, rule_format, of "Suc i"] by (simp add: add.commute)
  qed
next
  assume fit: "pages_fit weight max_bytes l (drop l ys)"
  show "pages_fit weight max_bytes l ys"
    unfolding pages_fit_def
  proof
    fix i
    show "sum_list (map weight (take l (drop (i * l) ys))) \<le> max_bytes"
      using fit assms unfolding pages_fit_def by (cases i) (simp_all add: add.commute)
  qed
qed

lemma pages_fit_short:
  assumes "length ys \<le> l" "0 \<le> max_bytes"
  shows "pages_fit weight max_bytes l ys \<longleftrightarrow> sum_list (map weight (take l ys)) \<le> max_bytes"
proof
  assume first: "sum_list (map weight (take l ys)) \<le> max_bytes"
  show "pages_fit weight max_bytes l ys"
    unfolding pages_fit_def
  proof
    fix i
    show "sum_list (map weight (take l (drop (i * l) ys))) \<le> max_bytes"
      using first assms by (cases i) auto
  qed
qed (rule pages_fit_here)

text \<open>
  The contract of a repository in a \<open>good\<close> state, whose rows under fixed filters are
  \<open>rows s\<close>: they are strictly ordered, a cursor naming one of them resolves to an anchor with its key, and
  listing after an anchor gives the first rows behind it. Nothing changes while reading.
\<close>

locale keyset_repository =
  fixes authorize :: "('s, unit) op"
    and resolve :: "string \<Rightarrow> ('s, 'a option) op"
    and acceptable :: "string \<Rightarrow> 'a \<Rightarrow> bool"
    and list_rows :: "'a option \<Rightarrow> int \<Rightarrow> ('s, 'r list) op"
    and ident :: "'r \<Rightarrow> string"
    and key :: "'r \<Rightarrow> 'k::linorder"
    and matches :: "'r \<Rightarrow> bool"
    and anchor_key :: "'a \<Rightarrow> 'k"
    and good :: "'s \<Rightarrow> bool"
    and rows :: "'s \<Rightarrow> 'r list"
  assumes authorized: "good s \<Longrightarrow> authorize s = (Inr (), s)"
    and ordered: "good s \<Longrightarrow> sorted_wrt (<) (map key (rows s))"
    and matching: "good s \<Longrightarrow> r \<in> set (rows s) \<Longrightarrow> matches r"
    and addressable: "good s \<Longrightarrow> r \<in> set (rows s) \<Longrightarrow> cursor_ok (Some (ident r))"
    and anchored: "good s \<Longrightarrow> r \<in> set (rows s) \<Longrightarrow>
      \<exists>a. resolve (ident r) s = (Inr (Some a), s) \<and> acceptable (ident r) a \<and> anchor_key a = key r"
    and listed: "good s \<Longrightarrow> list_rows after n s = (Inr (take (nat n)
      (filter (\<lambda>r. case after of None \<Rightarrow> True | Some a \<Rightarrow> anchor_key a < key r) (rows s))), s)"
begin

lemma behind_a_row:
  assumes good: "good s" and "rows s = xs @ r # ys"
  shows "filter (\<lambda>x. key r < key x) (rows s) = ys"
proof -
  have o: "sorted_wrt (<) (map key (xs @ r # ys))" using ordered [OF good] assms by simp
  have "filter (\<lambda>x. key r < key x) xs = []"
    using o by (auto simp: filter_empty_conv sorted_wrt_append dest: order.asym)
  moreover have "filter (\<lambda>x. key r < key x) ys = ys"
    using o by (auto simp: filter_id_conv sorted_wrt_append)
  ultimately show ?thesis using assms by simp
qed

text \<open>The page that starts behind a prefix that was already read.\<close>

definition at_prefix :: "'s \<Rightarrow> 'r list \<Rightarrow> string option \<Rightarrow> bool" where
  "at_prefix s xs cursor \<longleftrightarrow>
     (case cursor of None \<Rightarrow> xs = [] | Some c \<Rightarrow> xs \<noteq> [] \<and> c = ident (last xs))"

lemma page_at_prefix:
  assumes good: "good s" and split: "rows s = xs @ ys" and at: "at_prefix s xs cursor"
    and limit: "1 \<le> limit" "limit \<le> max_limit"
  shows "keyset_page max_limit authorize resolve acceptable list_rows
      (emit_page ident key matches weight max_bytes) cursor limit s =
    (if sum_list (map weight (take (nat limit) ys)) \<le> max_bytes
     then Inr \<lparr>pg_items = take (nat limit) ys,
               pg_next_cursor = (if nat limit < length ys then Some (ident (last (take (nat limit) ys)))
                                 else None)\<rparr>
     else Inl ValueError, s)"
proof -
  have found: "filter (\<lambda>r. case cursor of None \<Rightarrow> True | Some _ \<Rightarrow> key (last xs) < key r) (rows s) = ys"
  proof (cases cursor)
    case None
    then show ?thesis using at split by (simp add: at_prefix_def)
  next
    case (Some c)
    then obtain zs r where xs: "xs = zs @ [r]" using at by (cases xs rule: rev_cases) (auto simp: at_prefix_def)
    then show ?thesis using Some behind_a_row [OF good, of zs r ys] split by simp
  qed
  have ys: "sorted (map key (take n ys))" "list_all matches (take n ys)" for n
    using ordered [OF good] matching [OF good] split
    by (auto simp: list_all_iff sorted_wrt_append take_map [symmetric] dest: in_set_takeD
        intro!: sorted_wrt_take strict_sorted_imp_sorted)
  have anchor: "cursor_ok cursor \<and>
      (case cursor of None \<Rightarrow> True
       | Some c \<Rightarrow> \<exists>a. resolve c s = (Inr (Some a), s) \<and> acceptable c a \<and> anchor_key a = key (last xs))"
  proof (cases cursor)
    case (Some c)
    then have "last xs \<in> set (rows s)" "c = ident (last xs)"
      using at split by (auto simp: at_prefix_def)
    then show ?thesis using Some addressable [OF good] anchored [OF good] by fastforce
  qed (simp add: cursor_ok_def)
  have emit: "emit_page ident key matches weight max_bytes limit (take (nat (limit + 1)) ys) =
    (if sum_list (map weight (take (nat limit) ys)) \<le> max_bytes
     then Inr \<lparr>pg_items = take (nat limit) ys,
               pg_next_cursor = (if nat limit < length ys then Some (ident (last (take (nat limit) ys)))
                                 else None)\<rparr>
     else Inl ValueError)"
  proof -
    have first: "take (nat limit) (take (nat (limit + 1)) ys) = take (nat limit) ys" using limit by (simp add: min_def)
    have "int (length (take (nat (limit + 1)) ys)) \<le> limit + 1"
      "limit < int (length (take (nat (limit + 1)) ys)) \<longleftrightarrow> nat limit < length ys"
      "nat limit < length ys \<Longrightarrow> take (nat limit) ys \<noteq> []"
      using limit by (auto simp: min_def)
    then show ?thesis unfolding emit_page_def Let_def first using ys by (simp add: ensure_def)
  qed
  show ?thesis
    using anchor found limit emit
    by (cases cursor)
      (auto simp: keyset_page_def authorized [OF good] listed [OF good] bindS_apply ensure_def)
qed

text \<open>
  Following the cursors returns every row once and in order, in at most one page per
  \<open>limit\<close> rows and one more, unless one of these pages is over the byte budget: then it raises
  \<open>ValueError\<close>.
\<close>

lemma read_all_behind:
  assumes good: "good s" and "rows s = xs @ ys" "at_prefix s xs cursor" "1 \<le> limit" "limit \<le> max_limit"
    and budget: "0 \<le> max_bytes" and fuel: "length ys \<le> n * nat limit \<and> 0 < n"
  shows "read_all n (\<lambda>c. keyset_page max_limit authorize resolve acceptable list_rows
      (emit_page ident key matches weight max_bytes) c limit) cursor s =
    Some (if pages_fit weight max_bytes (nat limit) ys then Inr ys else Inl ValueError, s)"
  using assms(2,3) fuel
proof (induction n arbitrary: xs ys cursor)
  case 0
  then show ?case by simp
next
  case (Suc n)
  let ?l = "nat limit"
  let ?fits = "sum_list (map weight (take ?l ys)) \<le> max_bytes"
  have l: "0 < ?l" using assms(4) by simp
  note page = page_at_prefix [OF good Suc.prems(1,2) assms(4,5), of weight max_bytes]
  show ?case
  proof (cases "?fits \<and> ?l < length ys")
    case False
    then consider "\<not> ?fits" | "?fits" "length ys \<le> ?l" by linarith
    then show ?thesis
    proof cases
      case 1
      then show ?thesis using pages_fit_here by (auto simp: page)
    next
      case 2
      then show ?thesis using pages_fit_short [OF 2(2) budget, of weight] by (simp add: page)
    qed
  next
    case True
    let ?xs = "xs @ take ?l ys"
    have "rows s = ?xs @ drop ?l ys" using Suc.prems(1) by simp
    moreover have "take ?l ys \<noteq> []" using True l by (simp add: take_eq_Nil) auto
    then have "at_prefix s ?xs (Some (ident (last (take ?l ys))))"
      by (simp add: at_prefix_def)
    moreover have "length (drop ?l ys) \<le> n * ?l \<and> 0 < n"
      using Suc.prems(3) True by (cases n) auto
    ultimately have "read_all n (\<lambda>c. keyset_page max_limit authorize resolve acceptable list_rows
        (emit_page ident key matches weight max_bytes) c limit)
        (Some (ident (last (take ?l ys)))) s =
      Some (if pages_fit weight max_bytes ?l (drop ?l ys) then Inr (drop ?l ys) else Inl ValueError, s)"
      using Suc.IH by blast
    then show ?thesis using True pages_fit_rest [of weight ?l ys max_bytes] by (simp add: page)
  qed
qed

lemma read_all_budget:
  assumes "good s" "1 \<le> limit" "limit \<le> max_limit" "length (rows s) \<le> n * nat limit" "0 < n" "0 \<le> max_bytes"
  shows "read_all n (\<lambda>c. keyset_page max_limit authorize resolve acceptable list_rows
      (emit_page ident key matches weight max_bytes) c limit) None s =
    Some (if pages_fit weight max_bytes (nat limit) (rows s) then Inr (rows s) else Inl ValueError, s)"
  using assms by (intro read_all_behind [of s "[]" "rows s"]) (auto simp: at_prefix_def)

lemma read_all_complete:
  assumes "good s" "1 \<le> limit" "limit \<le> max_limit" "length (rows s) \<le> n * nat limit" "0 < n" "0 \<le> max_bytes"
    and "\<And>i. sum_list (map weight (take (nat limit) (drop i (rows s)))) \<le> max_bytes"
  shows "read_all n (\<lambda>c. keyset_page max_limit authorize resolve acceptable list_rows
      (emit_page ident key matches weight max_bytes) c limit) None s = Some (Inr (rows s), s)"
  using read_all_budget [OF assms(1-6), of weight] assms(7) by (simp add: pages_fit_def)

end

end
