(* ===== verification/Problem_State.thy ===== *)
theory Problem_State
  imports Provider_Access
begin

text \<open>
  src/src/jlmirror_monitoring/problem_state.py: the active problems of a provider as
  canonical problem evidence, each bound to the resource that its trigger is associated
  with. The absence of a problem has authority only in a complete snapshot.
\<close>

section \<open>Evidence\<close>

datatype problem_failure =
    PfCredentialUnavailable | PfAuthenticationRejected | PfEgressNotAdmitted
  | PfProviderUnavailable | PfProtocolInvalid | PfResultTruncated
  | PfAssociationReconciliation | PfPollSuperseded

datatype problem_severity =
    ProblemUnknown | ProblemInformational | ProblemWarning | ProblemDegraded | ProblemCritical

datatype problem_state = ProblemActive | ProblemResolved

definition max_problems_per_poll :: nat where "max_problems_per_poll = 20000"
definition max_trigger_metadata :: nat where "max_trigger_metadata = 5000"

record provider_tag =
  pt_key :: string
  pt_value :: string

definition valid_provider_tag :: "provider_tag \<Rightarrow> bool" where
  "valid_provider_tag t \<longleftrightarrow>
     pt_key t \<noteq> [] \<and> length (pt_key t) \<le> 255 \<and> length (pt_value t) \<le> 2048"

record zabbix_problem =
  zp_eventid :: string
  zp_objectid :: string
  zp_clock :: int
  zp_name :: string
  zp_severity :: int
  zp_acknowledged :: bool
  zp_tags :: "provider_tag list"

definition valid_zabbix_problem :: "zabbix_problem \<Rightarrow> bool" where
  "valid_zabbix_problem p \<longleftrightarrow>
     zp_eventid p \<noteq> [] \<and> length (zp_eventid p) \<le> 256 \<and>
     zp_objectid p \<noteq> [] \<and> length (zp_objectid p) \<le> 256 \<and> 0 < zp_clock p \<and>
     zp_name p \<noteq> [] \<and> length (zp_name p) \<le> 8192 \<and>
     zp_severity p \<in> {0, 1, 2, 3, 4, 5} \<and> length (zp_tags p) \<le> 128"

record zabbix_recovery =
  zr_problem_eventid :: string
  zr_recovery_eventid :: string
  zr_clock :: int

definition valid_zabbix_recovery :: "zabbix_recovery \<Rightarrow> bool" where
  "valid_zabbix_recovery r \<longleftrightarrow>
     zr_problem_eventid r \<noteq> [] \<and> zr_recovery_eventid r \<noteq> [] \<and>
     length (zr_problem_eventid r) \<le> 256 \<and> length (zr_recovery_eventid r) \<le> 256 \<and> 0 < zr_clock r"

record problem_association =
  pa_provider_trigger_ref :: string
  pa_monitoring_resource_id :: string

definition valid_problem_association :: "problem_association \<Rightarrow> bool" where
  "valid_problem_association a \<longleftrightarrow>
     pa_provider_trigger_ref a \<noteq> [] \<and> length (pa_provider_trigger_ref a) \<le> 256 \<and>
     pa_monitoring_resource_id a \<noteq> []"

record problem_claim =
  lc_claim_token :: string
  lc_tenant_id :: string
  lc_monitoring_sync_operation_id :: string
  lc_monitoring_source_id :: string
  lc_source_instance_generation :: string
  lc_configuration_revision :: int
  lc_scope_revision :: int
  lc_problem_poll_epoch :: int
  lc_problem_poll_generation :: int
  lc_provider_instance_ref :: string
  lc_provider_configuration :: provider_configuration
  lc_credential_binding_ref :: string
  lc_associations :: "problem_association list"

record canonical_problem =
  cp_provider_eventid :: string
  cp_monitoring_resource_id :: string
  cp_state :: problem_state
  cp_severity_class :: problem_severity
  cp_summary :: string
  cp_opened_at_epoch_seconds :: int
  cp_resolved_at_epoch_seconds :: "int option"
  cp_provider_acknowledged :: bool
  cp_tags :: "provider_tag list"

record problem_result =
  pr_operation_state :: sync_state
  pr_operational_evidence_state :: operational_evidence
  pr_problems :: "canonical_problem list"
  pr_failure_class :: "problem_failure option"
  pr_complete_snapshot :: bool
  pr_egress_decision_ref :: "string option"
  pr_credential_generation_ref :: "string option"

definition pr_succeeded :: "problem_result \<Rightarrow> bool" where
  "pr_succeeded r \<longleftrightarrow> pr_operation_state r = SyncSucceeded"

type_synonym 's problem_reader =
  "admitted_endpoint \<Rightarrow> zabbix_credential \<Rightarrow> nat \<Rightarrow> ('s, zabbix_problem list \<times> bool) op"

section \<open>Collection\<close>

definition normalize_zabbix_severity :: "int \<Rightarrow> problem_severity res" where
  "normalize_zabbix_severity n =
     (case map_of [(0, ProblemUnknown), (1, ProblemInformational), (2, ProblemWarning),
                   (3, ProblemDegraded), (4, ProblemCritical), (5, ProblemCritical)] n of
        None \<Rightarrow> Inl ValueError
      | Some c \<Rightarrow> Inr c)"

definition problem_degraded ::
  "problem_failure \<Rightarrow> operational_evidence \<Rightarrow> string option \<Rightarrow> string option \<Rightarrow> problem_result" where
  "problem_degraded failure evidence egress generation =
     \<lparr>pr_operation_state = SyncReconciliation, pr_operational_evidence_state = evidence,
      pr_problems = [], pr_failure_class = Some failure, pr_complete_snapshot = False,
      pr_egress_decision_ref = egress, pr_credential_generation_ref = generation\<rparr>"

definition canonical_problem_of ::
  "problem_association \<Rightarrow> zabbix_problem \<Rightarrow> problem_severity \<Rightarrow> canonical_problem" where
  "canonical_problem_of a p severity =
     \<lparr>cp_provider_eventid = zp_eventid p, cp_monitoring_resource_id = pa_monitoring_resource_id a,
      cp_state = ProblemActive, cp_severity_class = severity, cp_summary = zp_name p,
      cp_opened_at_epoch_seconds = zp_clock p, cp_resolved_at_epoch_seconds = None,
      cp_provider_acknowledged = zp_acknowledged p, cp_tags = zp_tags p\<rparr>"

text \<open>The loop over the rows; \<open>None\<close> stands for a row without association.\<close>

fun accept_problems ::
  "problem_association list \<Rightarrow> zabbix_problem list \<Rightarrow> canonical_problem list option res" where
  "accept_problems associations [] = Inr (Some [])"
| "accept_problems associations (p # ps) =
     (case find (\<lambda>a. pa_provider_trigger_ref a = zp_objectid p) associations of
        None \<Rightarrow> Inr None
      | Some a \<Rightarrow>
          bindR (normalize_zabbix_severity (zp_severity p)) (\<lambda>severity.
          bindR (accept_problems associations ps) (\<lambda>accepted.
          Inr (map_option (Cons (canonical_problem_of a p severity)) accepted))))"

text \<open>The body of the outer \<open>try\<close>: \<open>Inl\<close> is an early return with its failure.\<close>

definition read_rows ::
  "'s problem_reader \<Rightarrow> problem_association list \<Rightarrow> zabbix_credential \<Rightarrow> admitted_endpoint \<Rightarrow>
   ('s, problem_failure + canonical_problem list \<times> bool) op" where
  "read_rows reader associations credential endpoint =
     bindS (reader endpoint credential max_problems_per_poll) (\<lambda>(rows, complete_snapshot).
     if max_problems_per_poll \<le> length rows then returnS (Inl PfResultTruncated)
     else if \<not> distinct (map zp_eventid rows) then returnS (Inl PfProtocolInvalid)
     else bindS (liftS (accept_problems associations rows)) (\<lambda>accepted.
       (case accepted of
          None \<Rightarrow> returnS (Inl PfAssociationReconciliation)
        | Some problems \<Rightarrow> returnS (Inr (problems, complete_snapshot)))))"

definition read_problems ::
  "'s problem_reader \<Rightarrow> problem_association list \<Rightarrow> zabbix_credential \<Rightarrow> admitted_endpoint \<Rightarrow>
   ('s, problem_result) op" where
  "read_problems reader associations credential endpoint =
     (let generation = Some (zc_credential_generation_ref credential);
          egress = Some (ae_egress_decision_ref endpoint);
          failed = (\<lambda>f. problem_degraded f EvidenceUnavailable egress generation)
      in
     tryS (read_rows reader associations credential endpoint)
       (catch_provider True (failed PfAuthenticationRejected) (failed PfProviderUnavailable)
          (failed PfProtocolInvalid))
       (\<lambda>outcome.
        (case outcome of
           Inl f \<Rightarrow> returnS (problem_degraded f EvidenceReconciliation egress generation)
         | Inr (problems, complete_snapshot) \<Rightarrow>
             returnS
               \<lparr>pr_operation_state = SyncSucceeded,
                pr_operational_evidence_state =
                  (if complete_snapshot then EvidenceCurrent else EvidenceReconciliation),
                pr_problems = problems, pr_failure_class = None,
                pr_complete_snapshot = complete_snapshot, pr_egress_decision_ref = egress,
                pr_credential_generation_ref = generation\<rparr>)))"

definition collect_problem_state ::
  "'s credential_resolver \<Rightarrow> 's outbound_admission \<Rightarrow> 's problem_reader \<Rightarrow> problem_claim \<Rightarrow>
   ('s, problem_result) op" where
  "collect_problem_state resolver admission reader claim =
     (if \<not> distinct (map pa_provider_trigger_ref (lc_associations claim)) \<or>
         max_trigger_metadata < length (lc_associations claim)
      then returnS (problem_degraded PfProtocolInvalid EvidenceReconciliation None None)
      else
     tryS (resolver (lc_credential_binding_ref claim))
       (catch_only CredentialResolutionError
         (problem_degraded PfCredentialUnavailable EvidenceUnavailable None None))
       (\<lambda>credential.
     tryS (admission (lc_provider_configuration claim))
       (catch_only EgressAdmissionError
         (problem_degraded PfEgressNotAdmitted EvidenceUnavailable None
           (Some (zc_credential_generation_ref credential))))
       (\<lambda>endpoint. read_problems reader (lc_associations claim) credential endpoint)))"

section \<open>What a problem snapshot is worth\<close>

definition problem_unread :: "problem_result \<Rightarrow> bool" where
  "problem_unread r \<longleftrightarrow> (\<exists>f e g c. r = problem_degraded f e g c \<and> e \<noteq> EvidenceCurrent)"

lemma problem_degraded_fields [simp]:
  "pr_failure_class (problem_degraded f e g c) = Some f"
  "pr_operation_state (problem_degraded f e g c) = SyncReconciliation"
  "pr_operational_evidence_state (problem_degraded f e g c) = e"
  "pr_problems (problem_degraded f e g c) = []"
  "\<not> pr_complete_snapshot (problem_degraded f e g c)"
  by (simp_all add: problem_degraded_def)

lemma problem_unread_degraded [simp]:
  "e \<noteq> EvidenceCurrent \<Longrightarrow> problem_unread (problem_degraded f e g c)"
  by (auto simp: problem_unread_def)

lemma problem_caught:
  "catch_provider w (problem_degraded f1 EvidenceUnavailable g c)
     (problem_degraded f2 EvidenceUnavailable g c)
     (problem_degraded f3 EvidenceUnavailable g c) e = Some r \<Longrightarrow> problem_unread r"
  by (drule catch_provider_Some) auto

text \<open>
  A canonical problem restates one provider problem, field by field: it is active, for the
  resource of the association of its trigger, with the class of its severity in Zabbix's scale of
  0 to 5.
\<close>

definition restates_problem :: "problem_association list \<Rightarrow> zabbix_problem \<Rightarrow> canonical_problem \<Rightarrow> bool" where
  "restates_problem associations p c \<longleftrightarrow>
     (\<exists>a \<in> set associations. pa_provider_trigger_ref a = zp_objectid p \<and>
        cp_monitoring_resource_id c = pa_monitoring_resource_id a) \<and>
     cp_provider_eventid c = zp_eventid p \<and> cp_state c = ProblemActive \<and>
     (zp_severity p = 0 \<and> cp_severity_class c = ProblemUnknown \<or>
      zp_severity p = 1 \<and> cp_severity_class c = ProblemInformational \<or>
      zp_severity p = 2 \<and> cp_severity_class c = ProblemWarning \<or>
      zp_severity p = 3 \<and> cp_severity_class c = ProblemDegraded \<or>
      (zp_severity p = 4 \<or> zp_severity p = 5) \<and> cp_severity_class c = ProblemCritical) \<and>
     cp_summary c = zp_name p \<and> cp_opened_at_epoch_seconds c = zp_clock p \<and>
     cp_resolved_at_epoch_seconds c = None \<and>
     cp_provider_acknowledged c = zp_acknowledged p \<and> cp_tags c = zp_tags p"

lemma canonical_restates:
  assumes "a \<in> set associations" "pa_provider_trigger_ref a = zp_objectid p"
    and "normalize_zabbix_severity (zp_severity p) = Inr severity"
  shows "restates_problem associations p (canonical_problem_of a p severity)"
  using assms unfolding restates_problem_def canonical_problem_of_def
  by (auto simp: normalize_zabbix_severity_def split: option.splits if_splits)

lemma accept_problems_restates:
  "accept_problems associations ps = Inr (Some cs) \<Longrightarrow> list_all2 (restates_problem associations) ps cs"
proof (induction ps arbitrary: cs)
  case Nil
  then show ?case by simp
next
  case (Cons p ps)
  then obtain a severity ds where "find (\<lambda>a. pa_provider_trigger_ref a = zp_objectid p) associations = Some a"
    "normalize_zabbix_severity (zp_severity p) = Inr severity"
    "accept_problems associations ps = Inr (Some ds)" "cs = canonical_problem_of a p severity # ds"
    by (auto simp: bindR_Inr_iff split: option.splits)
  then show ?case using Cons.IH canonical_restates [of a associations p severity]
    by (auto simp: find_Some_iff dest: nth_mem)
qed

lemma read_rows_accepted:
  assumes "read_rows reader associations credential endpoint s = (Inr (Inr (problems, complete)), t)"
  shows "\<exists>rows. reader endpoint credential max_problems_per_poll s = (Inr (rows, complete), t) \<and>
    length rows < max_problems_per_poll \<and> distinct (map zp_eventid rows) \<and>
    list_all2 (restates_problem associations) rows problems"
  using assms unfolding read_rows_def
  by (auto simp: bindS_returns_iff returnS_def accept_problems_restates split: if_splits option.splits)

lemma read_problems_cases:
  assumes "read_problems reader associations credential endpoint s = (Inr r, t)"
    and "\<not> problem_unread r"
  shows "read_rows reader associations credential endpoint s =
      (Inr (Inr (pr_problems r, pr_complete_snapshot r)), t) \<and>
    pr_operation_state r = SyncSucceeded \<and> pr_failure_class r = None \<and>
    (pr_operational_evidence_state r = EvidenceCurrent \<longleftrightarrow> pr_complete_snapshot r) \<and>
    pr_egress_decision_ref r = Some (ae_egress_decision_ref endpoint) \<and>
    pr_credential_generation_ref r = Some (zc_credential_generation_ref credential)"
proof -
  from assms obtain outcome u where rows: "read_rows reader associations credential endpoint s = (Inr outcome, u)"
    and verdict: "(case outcome of
        Inl f \<Rightarrow> returnS (problem_degraded f EvidenceReconciliation (Some (ae_egress_decision_ref endpoint))
          (Some (zc_credential_generation_ref credential)))
      | Inr (problems, complete_snapshot) \<Rightarrow>
          returnS
            \<lparr>pr_operation_state = SyncSucceeded,
             pr_operational_evidence_state =
               (if complete_snapshot then EvidenceCurrent else EvidenceReconciliation),
             pr_problems = problems, pr_failure_class = None,
             pr_complete_snapshot = complete_snapshot,
             pr_egress_decision_ref = Some (ae_egress_decision_ref endpoint),
             pr_credential_generation_ref = Some (zc_credential_generation_ref credential)\<rparr>) u = (Inr r, t)"
    unfolding read_problems_def Let_def tryS_returns_iff by (blast dest: problem_caught)
  from verdict assms(2) obtain problems complete where "outcome = Inr (problems, complete)"
    by (cases outcome) auto
  then show ?thesis using rows verdict by (auto split: if_splits)
qed

lemma problem_cases:
  assumes "collect_problem_state resolver admission reader claim s = (Inr r, t)"
    and "\<not> problem_unread r"
  shows "distinct (map pa_provider_trigger_ref (lc_associations claim)) \<and>
    (\<exists>credential endpoint u v. resolver (lc_credential_binding_ref claim) s = (Inr credential, u) \<and>
       admission (lc_provider_configuration claim) u = (Inr endpoint, v) \<and>
       read_problems reader (lc_associations claim) credential endpoint v = (Inr r, t))"
  using assms unfolding collect_problem_state_def
  by (auto simp: tryS_returns_iff catch_only_Some split: if_splits)

interpretation problems: evidence_collector
  "collect_problem_state resolver admission reader" pr_failure_class pr_operation_state
  pr_operational_evidence_state
proof
  fix c s r t
  assume run: "collect_problem_state resolver admission reader c s = (Inr r, t)"
  have "pr_operation_state r = SyncSucceeded \<and> pr_failure_class r = None \<or> problem_unread r"
    using problem_cases [OF run] read_problems_cases [of reader _ _ _ _ r t] by metis
  then show "pr_operation_state r = (if pr_failure_class r = None then SyncSucceeded else SyncReconciliation)"
    and "pr_operational_evidence_state r = EvidenceCurrent \<Longrightarrow> pr_failure_class r = None"
    by (auto simp: problem_unread_def)
qed

text \<open>C33: problems are collected all or not at all. A result either failed, and then carries no
  problem and claims neither a complete snapshot nor current evidence. Or it was read with the
  credential and from the endpoint resolved and admitted for its claim; its problems restate the
  provider's rows one by one, every field of them, each for the resource associated with the
  trigger the row names and with the class of its severity; the rows have distinct events, are
  fewer than 20000, and the evidence is current exactly if the provider declared the snapshot
  complete.\<close>

theorem problem_snapshot_exact:
  assumes "collect_problem_state resolver admission reader claim s = (Inr r, t)"
  shows "if pr_succeeded r
    then distinct (map pa_provider_trigger_ref (lc_associations claim)) \<and>
      (pr_operational_evidence_state r = EvidenceCurrent \<longleftrightarrow> pr_complete_snapshot r) \<and>
      (\<exists>endpoint credential rows u v. resolver (lc_credential_binding_ref claim) s = (Inr credential, u) \<and>
         admission (lc_provider_configuration claim) u = (Inr endpoint, v) \<and>
         reader endpoint credential 20000 v = (Inr (rows, pr_complete_snapshot r), t) \<and>
         pr_egress_decision_ref r = Some (ae_egress_decision_ref endpoint) \<and>
         pr_credential_generation_ref r = Some (zc_credential_generation_ref credential) \<and>
         length rows < 20000 \<and> distinct (map zp_eventid rows) \<and>
         list_all2 (restates_problem (lc_associations claim)) rows (pr_problems r))
    else pr_problems r = [] \<and> \<not> pr_complete_snapshot r \<and>
      pr_operational_evidence_state r \<noteq> EvidenceCurrent \<and> pr_operation_state r = SyncReconciliation"
proof (cases "problem_unread r")
  case True
  then show ?thesis by (auto simp: problem_unread_def pr_succeeded_def)
next
  case False
  from problem_cases [OF assms False] obtain credential endpoint u v where
    d: "distinct (map pa_provider_trigger_ref (lc_associations claim))"
    and ports: "resolver (lc_credential_binding_ref claim) s = (Inr credential, u)"
      "admission (lc_provider_configuration claim) u = (Inr endpoint, v)"
    and read: "read_problems reader (lc_associations claim) credential endpoint v = (Inr r, t)" by blast
  note cases = read_problems_cases [OF read False]
  obtain rows where "reader endpoint credential 20000 v = (Inr (rows, pr_complete_snapshot r), t)"
    "length rows < 20000" "distinct (map zp_eventid rows)"
    "list_all2 (restates_problem (lc_associations claim)) rows (pr_problems r)"
    using read_rows_accepted [OF cases [THEN conjunct1]] unfolding max_problems_per_poll_def by blast
  then show ?thesis using d ports cases unfolding pr_succeeded_def by auto
qed

text \<open>Two problems, of two triggers of different resources.\<close>

definition sample_zabbix_problem :: zabbix_problem where
  "sample_zabbix_problem =
     \<lparr>zp_eventid = ''900'', zp_objectid = ''13'', zp_clock = 1700000000, zp_name = ''Disk full'',
      zp_severity = 4, zp_acknowledged = False, zp_tags = []\<rparr>"

definition other_zabbix_problem :: zabbix_problem where
  "other_zabbix_problem =
     \<lparr>zp_eventid = ''901'', zp_objectid = ''14'', zp_clock = 1700000060, zp_name = ''Slow'',
      zp_severity = 2, zp_acknowledged = True, zp_tags = [\<lparr>pt_key = ''scope'', pt_value = ''disk''\<rparr>]\<rparr>"

definition sample_association :: problem_association where
  "sample_association = \<lparr>pa_provider_trigger_ref = ''13'', pa_monitoring_resource_id = ''res-1''\<rparr>"

definition other_association :: problem_association where
  "other_association = \<lparr>pa_provider_trigger_ref = ''14'', pa_monitoring_resource_id = ''res-2''\<rparr>"

definition sample_problem_claim :: problem_claim where
  "sample_problem_claim =
     \<lparr>lc_claim_token = ''c'', lc_tenant_id = ''tenant-a'', lc_monitoring_sync_operation_id = ''o'',
      lc_monitoring_source_id = ''s'', lc_source_instance_generation = ''g'',
      lc_configuration_revision = 2, lc_scope_revision = 2, lc_problem_poll_epoch = 3,
      lc_problem_poll_generation = 4, lc_provider_instance_ref = ''zbx-1'',
      lc_provider_configuration = \<lparr>pc_base_url = ''https://zabbix.example.org''\<rparr>,
      lc_credential_binding_ref = ''cred-1'', lc_associations = [other_association, sample_association]\<rparr>"

definition sample_problem_result :: problem_result where
  "sample_problem_result =
     \<lparr>pr_operation_state = SyncSucceeded, pr_operational_evidence_state = EvidenceCurrent,
      pr_problems =
        [\<lparr>cp_provider_eventid = ''900'', cp_monitoring_resource_id = ''res-1'', cp_state = ProblemActive,
          cp_severity_class = ProblemCritical, cp_summary = ''Disk full'',
          cp_opened_at_epoch_seconds = 1700000000, cp_resolved_at_epoch_seconds = None,
          cp_provider_acknowledged = False, cp_tags = []\<rparr>,
         \<lparr>cp_provider_eventid = ''901'', cp_monitoring_resource_id = ''res-2'', cp_state = ProblemActive,
          cp_severity_class = ProblemWarning, cp_summary = ''Slow'',
          cp_opened_at_epoch_seconds = 1700000060, cp_resolved_at_epoch_seconds = None,
          cp_provider_acknowledged = True, cp_tags = [\<lparr>pt_key = ''scope'', pt_value = ''disk''\<rparr>]\<rparr>],
      pr_failure_class = None, pr_complete_snapshot = True, pr_egress_decision_ref = Some ''d'',
      pr_credential_generation_ref = Some ''k''\<rparr>"

lemma sample_problems_collected:
  "collect_problem_state
     (\<lambda>_. returnS \<lparr>zc_api_token = ''t'', zc_credential_generation_ref = ''k''\<rparr>)
     (\<lambda>_. returnS \<lparr>ae_api_url = ''https://zabbix.example.org/api_jsonrpc.php'', ae_egress_decision_ref = ''d''\<rparr>)
     (\<lambda>_ _ _. returnS ([sample_zabbix_problem, other_zabbix_problem], True)) sample_problem_claim () =
   (Inr sample_problem_result, ())"
  by (simp add: collect_problem_state_def sample_problem_claim_def sample_association_def other_association_def
      max_trigger_metadata_def read_problems_def Let_def read_rows_def max_problems_per_poll_def
      sample_zabbix_problem_def other_zabbix_problem_def normalize_zabbix_severity_def canonical_problem_of_def
      sample_problem_result_def)

theorem problem_snapshot_exact_witness:
  "pr_succeeded sample_problem_result \<and> pr_operational_evidence_state sample_problem_result = EvidenceCurrent \<and>
   list_all2 (restates_problem (lc_associations sample_problem_claim))
     [sample_zabbix_problem, other_zabbix_problem] (pr_problems sample_problem_result) \<and>
   map cp_monitoring_resource_id (pr_problems sample_problem_result) = [''res-1'', ''res-2''] \<and>
   map cp_severity_class (pr_problems sample_problem_result) = [ProblemCritical, ProblemWarning]"
proof -
  have ok: "pr_succeeded sample_problem_result" by (simp add: pr_succeeded_def sample_problem_result_def)
  have fields: "map cp_monitoring_resource_id (pr_problems sample_problem_result) = [''res-1'', ''res-2'']"
    "map cp_severity_class (pr_problems sample_problem_result) = [ProblemCritical, ProblemWarning]"
    "pr_complete_snapshot sample_problem_result"
    by (simp_all add: sample_problem_result_def)
  show ?thesis
    using problem_snapshot_exact [OF sample_problems_collected] ok fields by simp
qed

end
