(* ===== verification/Problem_Reads.thy ===== *)
theory Problem_Reads
  imports Paging Problem_State "HOL-Library.Product_Lexorder"
begin

text \<open>
  src/src/jlmirror_monitoring/problem_reads.py: pages of problems, the latest first. The
  authorizer and the repository are ports: what their protocols promise is a hypothesis, which a
  list of stored rows that applies every filter satisfies.
\<close>

section \<open>Filters and rows\<close>

datatype problem_generation = ActiveProblems | HistoricalProblems

record problem_filters =
  pf_tenant_id :: string
  pf_monitoring_source_id :: "string option"
  pf_monitoring_resource_id :: "string option"
  pf_generation_state :: problem_generation
  pf_problem_state :: "problem_state option"
  pf_severity_class :: "problem_severity option"
  pf_opened_from :: "int option"
  pf_opened_to :: "int option"

definition nonempty_upto :: "nat \<Rightarrow> string \<Rightarrow> bool" where
  "nonempty_upto n s \<longleftrightarrow> s \<noteq> [] \<and> length s \<le> n"

definition valid_problem_filters :: "problem_filters \<Rightarrow> bool" where
  "valid_problem_filters f \<longleftrightarrow>
     nonempty_upto 256 (pf_tenant_id f) \<and>
     pred_option (nonempty_upto 512) (pf_monitoring_source_id f) \<and>
     pred_option (nonempty_upto 512) (pf_monitoring_resource_id f) \<and>
     pred_option (\<lambda>x. 0 < x) (pf_opened_from f) \<and> pred_option (\<lambda>x. 0 < x) (pf_opened_to f) \<and>
     (case (pf_opened_from f, pf_opened_to f) of
        (Some a, Some b) \<Rightarrow> a < b
      | _ \<Rightarrow> True)"

record problem_anchor =
  an_problem_id :: string
  an_opened_at_epoch_seconds :: int

definition valid_problem_anchor :: "problem_anchor \<Rightarrow> bool" where
  "valid_problem_anchor a \<longleftrightarrow>
     nonempty_upto 512 (an_problem_id a) \<and> 0 < an_opened_at_epoch_seconds a"

record problem_row =
  pw_tenant_id :: string
  pw_problem_id :: string
  pw_monitoring_source_id :: string
  pw_monitoring_resource_id :: string
  pw_source_instance_generation :: string
  pw_active_source_instance_generation :: string
  pw_problem_state :: problem_state
  pw_severity_class :: problem_severity
  pw_summary :: string
  pw_opened_at_epoch_seconds :: int
  pw_resolved_at_epoch_seconds :: "int option"
  pw_evidence_state :: string
  pw_provider_acknowledged :: bool
  pw_serialized_size_bytes :: int

definition max_problem_page_size :: int where "max_problem_page_size = 200"
definition max_problem_response_bytes :: int where "max_problem_response_bytes = 1048576"

definition valid_problem_row :: "problem_row \<Rightarrow> bool" where
  "valid_problem_row r \<longleftrightarrow>
     nonempty_upto 256 (pw_tenant_id r) \<and> nonempty_upto 512 (pw_problem_id r) \<and>
     nonempty_upto 512 (pw_monitoring_source_id r) \<and> nonempty_upto 512 (pw_monitoring_resource_id r) \<and>
     nonempty_upto 512 (pw_source_instance_generation r) \<and>
     nonempty_upto 512 (pw_active_source_instance_generation r) \<and>
     nonempty_upto 8192 (pw_summary r) \<and> 0 < pw_opened_at_epoch_seconds r \<and>
     pred_option (\<lambda>x. 0 < x) (pw_resolved_at_epoch_seconds r) \<and>
     0 < pw_serialized_size_bytes r \<and> pw_serialized_size_bytes r \<le> max_problem_response_bytes"

definition problem_generation_state :: "problem_row \<Rightarrow> problem_generation" where
  "problem_generation_state r =
     (if pw_source_instance_generation r = pw_active_source_instance_generation r
      then ActiveProblems else HistoricalProblems)"

definition problem_sort_key :: "problem_row \<Rightarrow> int \<times> string" where
  "problem_sort_key r = (- pw_opened_at_epoch_seconds r, pw_problem_id r)"

definition matches_filters :: "problem_filters \<Rightarrow> problem_row \<Rightarrow> bool" where
  "matches_filters f r \<longleftrightarrow>
     pw_tenant_id r = pf_tenant_id f \<and>
     pred_option (\<lambda>x. pw_monitoring_source_id r = x) (pf_monitoring_source_id f) \<and>
     pred_option (\<lambda>x. pw_monitoring_resource_id r = x) (pf_monitoring_resource_id f) \<and>
     problem_generation_state r = pf_generation_state f \<and>
     pred_option (\<lambda>x. pw_problem_state r = x) (pf_problem_state f) \<and>
     pred_option (\<lambda>x. pw_severity_class r = x) (pf_severity_class f) \<and>
     pred_option (\<lambda>x. x \<le> pw_opened_at_epoch_seconds r) (pf_opened_from f) \<and>
     pred_option (\<lambda>x. pw_opened_at_epoch_seconds r < x) (pf_opened_to f)"

section \<open>A page\<close>

type_synonym 's problem_authorizer = "problem_filters \<Rightarrow> ('s, unit) op"
type_synonym 's problem_anchors = "problem_filters \<Rightarrow> string \<Rightarrow> ('s, problem_anchor option) op"
type_synonym 's problem_lister =
  "problem_filters \<Rightarrow> problem_anchor option \<Rightarrow> int \<Rightarrow> ('s, problem_row list) op"

definition emit_problems :: "problem_filters \<Rightarrow> int \<Rightarrow> problem_row list \<Rightarrow> problem_row page res" where
  "emit_problems f =
     emit_page pw_problem_id problem_sort_key (matches_filters f) pw_serialized_size_bytes
       max_problem_response_bytes"

text \<open>The anchor is trusted to be eligible under the filters; only its identity is compared.\<close>

definition list_problem_page ::
  "problem_filters \<Rightarrow> 's problem_authorizer \<Rightarrow> 's problem_anchors \<Rightarrow> 's problem_lister \<Rightarrow>
   string option \<Rightarrow> int \<Rightarrow> ('s, problem_row page) op" where
  "list_problem_page f authorize resolve list_rows cursor limit =
     keyset_page max_problem_page_size (authorize f) (resolve f)
       (\<lambda>c a. an_problem_id a = c) (list_rows f) (emit_problems f) cursor limit"

section \<open>The ports\<close>

definition anchor_of :: "problem_row \<Rightarrow> problem_anchor" where
  "anchor_of r = \<lparr>an_problem_id = pw_problem_id r, an_opened_at_epoch_seconds = pw_opened_at_epoch_seconds r\<rparr>"

definition anchor_sort_key :: "problem_anchor \<Rightarrow> int \<times> string" where
  "anchor_sort_key a = (- an_opened_at_epoch_seconds a, an_problem_id a)"

text \<open>
  The protocols in the state \<open>s\<close>, where \<open>rows\<close> are the rows eligible under the filters \<open>f\<close>, the
  latest first and those of one second by their identity: every page is authorized, a row's
  identity resolves to its anchor, and listing after an anchor gives the first rows behind it.
\<close>

definition serves_problems ::
  "problem_filters \<Rightarrow> 's problem_authorizer \<Rightarrow> 's problem_anchors \<Rightarrow> 's problem_lister \<Rightarrow> problem_row list \<Rightarrow>
   's \<Rightarrow> bool" where
  "serves_problems f authorize resolve list_rows rows s \<longleftrightarrow>
     authorize f s = (Inr (), s) \<and>
     sorted_wrt (<) (map (\<lambda>r. (- pw_opened_at_epoch_seconds r, pw_problem_id r)) rows) \<and>
     (\<forall>r \<in> set rows. matches_filters f r \<and> valid_problem_row r) \<and>
     (\<forall>r \<in> set rows. resolve f (pw_problem_id r) s = (Inr (Some (anchor_of r)), s)) \<and>
     (\<forall>after n. list_rows f after n s = (Inr (take (nat n) (filter (\<lambda>r. case after of None \<Rightarrow> True
        | Some a \<Rightarrow> anchor_sort_key a < (- pw_opened_at_epoch_seconds r, pw_problem_id r)) rows)), s))"

lemma problem_sort_key_alt: "problem_sort_key = (\<lambda>r. (- pw_opened_at_epoch_seconds r, pw_problem_id r))"
  by (simp add: fun_eq_iff problem_sort_key_def)

interpretation problem_rows: keyset_repository "authorize f" "resolve f"
  "\<lambda>c a. an_problem_id a = c" "list_rows f" pw_problem_id problem_sort_key
  "matches_filters f" anchor_sort_key "serves_problems f authorize resolve list_rows served" "\<lambda>_. served"
  by unfold_locales
    (unfold serves_problems_def problem_sort_key_alt, auto simp: anchor_sort_key_def anchor_of_def
      valid_problem_row_def nonempty_upto_def cursor_ok_def comp_def)

text \<open>C32: a client that follows the problem cursors reads every problem once, latest first,
  and stops. Over any ports that keep their protocols and do not change between the pages, with
  any page limit from 1 to 200, \<open>n\<close> requests are enough for \<open>n * limit\<close> problems: the client gets
  exactly the eligible problems, none skipped or repeated at a page boundary, not even among
  those opened in the same second, when each of the pages is within the budget of 1048576
  bytes, and otherwise \<open>ValueError\<close>. No page has a problem outside the filters.\<close>

theorem problem_pages_complete:
  assumes "serves_problems f authorize resolve list_rows rows s" "1 \<le> limit" "limit \<le> 200"
    and "length rows \<le> n * nat limit" "0 < n"
  shows "read_all n (\<lambda>c. list_problem_page f authorize resolve list_rows c limit) None s =
    Some (if \<forall>i. sum_list (map pw_serialized_size_bytes (take (nat limit) (drop (i * nat limit) rows))) \<le> 1048576
          then Inr rows else Inl ValueError, s)"
  using problem_rows.read_all_budget [OF assms(1,2), of max_problem_page_size n max_problem_response_bytes
      pw_serialized_size_bytes] assms(3-5)
  unfolding list_problem_page_def emit_problems_def pages_fit_def
  by (simp add: max_problem_page_size_def max_problem_response_bytes_def)

section \<open>A list of stored rows\<close>

text \<open>Its rows are in any order and of any tenant and generation; it applies every filter and sorts.\<close>

definition eligible_problems :: "problem_filters \<Rightarrow> problem_row list \<Rightarrow> problem_row list" where
  "eligible_problems f rows = sort_key problem_sort_key (filter (matches_filters f) rows)"

definition stored_authorize :: "problem_row list problem_authorizer" where
  "stored_authorize f = returnS ()"

definition stored_resolve :: "problem_row list problem_anchors" where
  "stored_resolve f c = getS (\<lambda>rows.
     map_option anchor_of (find (\<lambda>r. pw_problem_id r = c) (eligible_problems f rows)))"

definition stored_list :: "problem_row list problem_lister" where
  "stored_list f after limit = getS (\<lambda>rows.
     take (nat limit) (filter (\<lambda>r. case after of None \<Rightarrow> True
       | Some a \<Rightarrow> anchor_sort_key a < problem_sort_key r) (eligible_problems f rows)))"

lemma find_distinct: "distinct (map g rows) \<Longrightarrow> r \<in> set rows \<Longrightarrow> find (\<lambda>x. g x = g r) rows = Some r"
  by (induction rows) auto

lemma stored_serves:
  assumes "distinct (map pw_problem_id rows)" "list_all valid_problem_row rows"
  shows "serves_problems f stored_authorize stored_resolve stored_list (eligible_problems f rows) rows"
proof -
  let ?es = "eligible_problems f rows"
  have ids: "distinct (map pw_problem_id ?es)"
    using assms(1) unfolding eligible_problems_def
    by (simp add: distinct_map inj_on_def)
  have inj: "inj_on problem_sort_key (set ?es)"
    using ids unfolding distinct_map inj_on_def problem_sort_key_def by simp
  have apart: "distinct (map problem_sort_key ?es)"
    unfolding distinct_map using ids inj by (simp add: distinct_map)
  have "sorted (map problem_sort_key ?es)" unfolding eligible_problems_def by (rule sorted_sort_key)
  with apart have "sorted_wrt (<) (map problem_sort_key ?es)" by (simp add: strict_sorted_iff)
  moreover have "find (\<lambda>x. pw_problem_id x = pw_problem_id r) ?es = Some r" if "r \<in> set ?es" for r
    using find_distinct [OF ids that] .
  moreover have "\<forall>r \<in> set ?es. matches_filters f r \<and> valid_problem_row r"
    using assms(2) by (simp add: eligible_problems_def list_all_iff)
  ultimately show ?thesis
    unfolding serves_problems_def stored_authorize_def stored_resolve_def stored_list_def problem_sort_key_alt
    by simp
qed

text \<open>Two problems of one second, an earlier and a large one, stored in no order among problems of
  an old generation and of another tenant.\<close>

definition sample_problem_filters :: problem_filters where
  "sample_problem_filters =
     \<lparr>pf_tenant_id = ''tenant-a'', pf_monitoring_source_id = None, pf_monitoring_resource_id = None,
      pf_generation_state = ActiveProblems, pf_problem_state = None, pf_severity_class = None,
      pf_opened_from = None, pf_opened_to = None\<rparr>"

definition sample_problem_row :: "string \<Rightarrow> string \<times> int \<Rightarrow> int \<Rightarrow> problem_row" where
  "sample_problem_row generation p n =
     \<lparr>pw_tenant_id = ''tenant-a'', pw_problem_id = fst p, pw_monitoring_source_id = ''source-a'',
      pw_monitoring_resource_id = ''resource-a'', pw_source_instance_generation = generation,
      pw_active_source_instance_generation = ''gen-active'', pw_problem_state = ProblemActive,
      pw_severity_class = ProblemWarning, pw_summary = ''problem'', pw_opened_at_epoch_seconds = snd p,
      pw_resolved_at_epoch_seconds = None, pw_evidence_state = ''current'',
      pw_provider_acknowledged = False, pw_serialized_size_bytes = n\<rparr>"

definition sample_problem_rows :: "problem_row list" where
  "sample_problem_rows =
     [sample_problem_row ''gen-active'' (''c'', 200) 1048576, sample_problem_row ''gen-active'' (''b'', 300) 100,
      sample_problem_row ''gen-old'' (''d'', 250) 100,
      (sample_problem_row ''gen-active'' (''e'', 300) 100)\<lparr>pw_tenant_id := ''tenant-b''\<rparr>,
      sample_problem_row ''gen-active'' (''a'', 300) 100]"

definition sample_eligible :: "problem_row list" where
  "sample_eligible =
     [sample_problem_row ''gen-active'' (''a'', 300) 100, sample_problem_row ''gen-active'' (''b'', 300) 100,
      sample_problem_row ''gen-active'' (''c'', 200) 1048576]"

lemma sample_problems_served:
  "serves_problems sample_problem_filters stored_authorize stored_resolve stored_list sample_eligible sample_problem_rows"
proof -
  have "distinct (map pw_problem_id sample_problem_rows)" "list_all valid_problem_row sample_problem_rows"
    by (simp_all add: sample_problem_rows_def sample_problem_row_def valid_problem_row_def nonempty_upto_def
        max_problem_response_bytes_def)
  moreover have "eligible_problems sample_problem_filters sample_problem_rows = sample_eligible"
    by (simp add: eligible_problems_def sample_problem_rows_def sample_eligible_def sample_problem_row_def
        sample_problem_filters_def matches_filters_def problem_generation_state_def problem_sort_key_def
        less_char_def)
  ultimately show ?thesis using stored_serves [of sample_problem_rows sample_problem_filters] by simp
qed

theorem problem_pages_complete_witness:
  "let get = (\<lambda>limit c. list_problem_page sample_problem_filters stored_authorize stored_resolve stored_list c limit)
   in read_all 2 (get 2) None sample_problem_rows = Some (Inr sample_eligible, sample_problem_rows) \<and>
      read_all 1 (get 3) None sample_problem_rows = Some (Inl ValueError, sample_problem_rows)"
proof -
  have two: "sum_list (map pw_serialized_size_bytes (take 2 (drop (i * 2) sample_eligible))) \<le> 1048576" for i
  proof (cases i)
    case (Suc j)
    then show ?thesis by (cases j) (simp_all add: sample_eligible_def sample_problem_row_def)
  qed (simp add: sample_eligible_def sample_problem_row_def numeral_2_eq_2)
  have three: "\<not> sum_list (map pw_serialized_size_bytes (take 3 (drop (0 * 3) sample_eligible))) \<le> 1048576"
    by (simp add: sample_eligible_def sample_problem_row_def numeral_3_eq_3)
  have length: "length sample_eligible = 3" by (simp add: sample_eligible_def)
  have "read_all 2 (\<lambda>c. list_problem_page sample_problem_filters stored_authorize stored_resolve stored_list c 2)
      None sample_problem_rows = Some (Inr sample_eligible, sample_problem_rows)"
    using problem_pages_complete [OF sample_problems_served, of 2 2] two by (simp add: length)
  moreover have "read_all 1 (\<lambda>c. list_problem_page sample_problem_filters stored_authorize stored_resolve stored_list c 3)
      None sample_problem_rows = Some (Inl ValueError, sample_problem_rows)"
  proof -
    have "\<not> (\<forall>i. sum_list (map pw_serialized_size_bytes (take (nat 3) (drop (i * nat 3) sample_eligible))) \<le> 1048576)"
      using three by (intro notI, elim allE [of _ 0]) simp
    then show ?thesis using problem_pages_complete [OF sample_problems_served, of 3 1] unfolding length by simp
  qed
  ultimately show ?thesis unfolding Let_def ..
qed

end
