(* ===== verification/Health.thy ===== *)
theory Health
  imports Paging
begin

text \<open>
  src/src/jlmirror_monitoring/health_projection.py and health_reads.py: the health of a
  resource from its active problems and the state of the evidence, and the pages on which
  health is read. The repository of src/tests/wave4/test_health_reads.py, a list of rows,
  provides the contract of the read port.
\<close>

section \<open>Deriving health\<close>

datatype health_class = HealthUnknown | HealthHealthy | HealthDegraded | HealthUnhealthy

datatype evidence_state = EvCurrent | EvStale | EvIncomplete | EvReconciliation | EvUnavailable

datatype severity_class = SevUnknown | SevInformational | SevWarning | SevDegraded | SevCritical

record health_input =
  hi_tenant_id :: string
  hi_monitoring_source_id :: string
  hi_source_instance_generation :: string
  hi_monitoring_resource_id :: string
  hi_source_is_current :: bool
  hi_resource_present :: bool
  hi_scope_is_current_and_in_scope :: bool
  hi_problem_completeness_is_current :: bool
  hi_evidence_state :: evidence_state
  hi_active_problem_severities :: "severity_class list"
  hi_reason_refs :: "string list"

record health_decision =
  hd_health_class :: health_class
  hd_evidence_state :: evidence_state
  hd_reason_refs :: "string list"

definition max_health_reason_refs :: nat where "max_health_reason_refs = 64"

definition bounded_reason_refs :: "string list \<Rightarrow> string list res" where
  "bounded_reason_refs refs =
     bindR (ensure (length refs \<le> max_health_reason_refs) ValueError) (\<lambda>_.
     bindR (ensure (list_all (\<lambda>r. r \<noteq> [] \<and> length r \<le> 512) refs) ValueError) (\<lambda>_.
     Inr refs))"

definition current_authority :: "health_input \<Rightarrow> bool" where
  "current_authority v \<longleftrightarrow>
     hi_source_is_current v \<and> hi_resource_present v \<and> hi_scope_is_current_and_in_scope v \<and>
     hi_problem_completeness_is_current v \<and> hi_evidence_state v = EvCurrent"

definition effective_evidence :: "health_input \<Rightarrow> evidence_state" where
  "effective_evidence v =
     (if current_authority v then EvCurrent
      else if hi_evidence_state v = EvCurrent then EvReconciliation
      else hi_evidence_state v)"

definition derive_health :: "health_input \<Rightarrow> health_decision res" where
  "derive_health v =
     bindR (bounded_reason_refs (hi_reason_refs v)) (\<lambda>reasons.
     (let severities = set (hi_active_problem_severities v);
          decide = (\<lambda>c e. Inr \<lparr>hd_health_class = c, hd_evidence_state = e,
                               hd_reason_refs = reasons\<rparr>)
      in
        if SevCritical \<in> severities then decide HealthUnhealthy (effective_evidence v)
        else if SevWarning \<in> severities \<or> SevDegraded \<in> severities
        then decide HealthDegraded (effective_evidence v)
        else if SevUnknown \<in> severities then decide HealthUnknown (effective_evidence v)
        else if current_authority v then decide HealthHealthy EvCurrent
        else decide HealthUnknown (effective_evidence v)))"

definition semantic_health_change :: "health_decision option \<Rightarrow> health_decision \<Rightarrow> bool" where
  "semantic_health_change previous current \<longleftrightarrow>
     (case previous of None \<Rightarrow> True | Some p \<Rightarrow> hd_health_class p \<noteq> hd_health_class current)"

text \<open>The reference: health is the worst active severity on one scale.\<close>

fun severity_rank :: "severity_class \<Rightarrow> nat" where
  "severity_rank SevInformational = 0"
| "severity_rank SevUnknown = 1"
| "severity_rank SevWarning = 2"
| "severity_rank SevDegraded = 2"
| "severity_rank SevCritical = 3"

definition worst_rank :: "severity_class list \<Rightarrow> nat" where
  "worst_rank sevs = foldr (\<lambda>s n. max (severity_rank s) n) sevs 0"

definition health_of_rank :: "bool \<Rightarrow> nat \<Rightarrow> health_class" where
  "health_of_rank authority n =
     (if n = 0 then (if authority then HealthHealthy else HealthUnknown)
      else if n = 1 then HealthUnknown
      else if n = 2 then HealthDegraded
      else HealthUnhealthy)"

lemma worst_rank_bounds: "n \<le> worst_rank sevs \<longleftrightarrow> n = 0 \<or> (\<exists>s\<in>set sevs. n \<le> severity_rank s)"
  by (induction sevs) (auto simp: worst_rank_def)

lemma rank_members:
  "3 \<le> severity_rank s \<longleftrightarrow> s = SevCritical"
  "2 \<le> severity_rank s \<longleftrightarrow> s \<in> {SevWarning, SevDegraded, SevCritical}"
  "1 \<le> severity_rank s \<longleftrightarrow> s \<noteq> SevInformational"
  by (cases s; simp)+

text \<open>More problems never make a rank better.\<close>

lemma worst_rank_mono: "set xs \<subseteq> set ys \<Longrightarrow> worst_rank xs \<le> worst_rank ys"
  using worst_rank_bounds [of "worst_rank xs" xs] worst_rank_bounds [of "worst_rank xs" ys] by blast

lemma bounded_reason_refs_Inr [res_simps]:
  "bounded_reason_refs refs = Inr out \<longleftrightarrow>
     length refs \<le> max_health_reason_refs \<and> list_all (\<lambda>r. r \<noteq> [] \<and> length r \<le> 512) refs \<and>
     out = refs"
  by (auto simp: bounded_reason_refs_def res_simps)

lemma health_class_ranked:
  "(if SevCritical \<in> set sevs then HealthUnhealthy
    else if SevWarning \<in> set sevs \<or> SevDegraded \<in> set sevs then HealthDegraded
    else if SevUnknown \<in> set sevs then HealthUnknown
    else if authority then HealthHealthy else HealthUnknown) =
   health_of_rank authority (worst_rank sevs)"
proof -
  have r3: "3 \<le> worst_rank sevs \<longleftrightarrow> SevCritical \<in> set sevs"
    by (auto simp: worst_rank_bounds rank_members)
  have r2: "2 \<le> worst_rank sevs \<longleftrightarrow> SevCritical \<in> set sevs \<or> SevWarning \<in> set sevs \<or> SevDegraded \<in> set sevs"
    by (auto simp: worst_rank_bounds rank_members)
  have r1: "1 \<le> worst_rank sevs \<longleftrightarrow> (\<exists>s\<in>set sevs. s \<noteq> SevInformational)"
    using rank_members(3) by (auto simp: worst_rank_bounds simp del: One_nat_def)
  have known: "SevUnknown \<in> set sevs" if "1 \<le> worst_rank sevs" "\<not> 2 \<le> worst_rank sevs"
  proof -
    from that(1) obtain s where "s \<in> set sevs" "s \<noteq> SevInformational" unfolding r1 by blast
    then show ?thesis using that(2) unfolding r2 by - (cases s; auto)
  qed
  have least: "1 \<le> worst_rank sevs" if "SevUnknown \<in> set sevs"
    unfolding r1 using that by blast
  consider "3 \<le> worst_rank sevs" | "worst_rank sevs = 2" | "worst_rank sevs = 1" | "worst_rank sevs = 0"
    by linarith
  then show ?thesis
  proof cases
    case 1
    then show ?thesis using r3 by (simp add: health_of_rank_def)
  next
    case 2
    then show ?thesis using r3 r2 by (simp add: health_of_rank_def)
  next
    case 3
    then show ?thesis using r3 r2 known by (simp add: health_of_rank_def)
  next
    case 4
    then show ?thesis using r3 r2 least by (auto simp: health_of_rank_def)
  qed
qed

text \<open>C34: the health of a resource is its worst active severity. With bounded reason
  references, \<open>derive_health\<close> gives exactly the class of the highest rank among the active
  problems: unhealthy for a critical one, degraded for a warning or degraded one, unknown
  for an unknown one; without any of these it is healthy only under full current authority: of a
  current source, a present resource, a current scope that contains it, a current complete
  problem snapshot and current evidence. The evidence of the decision is current exactly under
  that authority. Otherwise
  \<open>ValueError\<close> is raised.\<close>

theorem health_is_worst_severity:
  "derive_health v =
    (if length (hi_reason_refs v) \<le> 64 \<and> list_all (\<lambda>r. r \<noteq> [] \<and> length r \<le> 512) (hi_reason_refs v)
     then Inr \<lparr>hd_health_class =
                health_of_rank (current_authority v) (worst_rank (hi_active_problem_severities v)),
              hd_evidence_state = effective_evidence v, hd_reason_refs = hi_reason_refs v\<rparr>
     else Inl ValueError) \<and>
   (effective_evidence v = EvCurrent \<longleftrightarrow> current_authority v) \<and>
   (current_authority v \<longleftrightarrow>
      hi_source_is_current v \<and> hi_resource_present v \<and> hi_scope_is_current_and_in_scope v \<and>
      hi_problem_completeness_is_current v \<and> hi_evidence_state v = EvCurrent)"
proof -
  have authority: "current_authority v \<longleftrightarrow>
      hi_source_is_current v \<and> hi_resource_present v \<and> hi_scope_is_current_and_in_scope v \<and>
      hi_problem_completeness_is_current v \<and> hi_evidence_state v = EvCurrent"
    by (simp add: current_authority_def)
  have evidence: "effective_evidence v = EvCurrent \<longleftrightarrow> current_authority v"
    by (auto simp: effective_evidence_def current_authority_def)
  have current: "current_authority v \<Longrightarrow> effective_evidence v = EvCurrent" using evidence by simp
  show ?thesis
    unfolding health_class_ranked [symmetric]
    by (simp add: derive_health_def bounded_reason_refs_def max_health_reason_refs_def ensure_def
        list_all_iff evidence current authority)
qed

section \<open>Reading health\<close>

datatype generation_state = ActiveGeneration | HistoricalGeneration

record health_filters =
  hf_tenant_id :: string
  hf_monitoring_source_id :: "string option"
  hf_generation_state :: generation_state
  hf_health_class :: "health_class option"
  hf_evidence_state :: "evidence_state option"

definition bounded_text :: "nat \<Rightarrow> string \<Rightarrow> bool" where
  "bounded_text n s \<longleftrightarrow> s \<noteq> [] \<and> length s \<le> n"

definition opt_bounded_text :: "nat \<Rightarrow> string option \<Rightarrow> bool" where
  "opt_bounded_text n x = (case x of None \<Rightarrow> True | Some s \<Rightarrow> bounded_text n s)"

definition valid_health_filters :: "health_filters \<Rightarrow> bool" where
  "valid_health_filters f \<longleftrightarrow>
     bounded_text 256 (hf_tenant_id f) \<and> opt_bounded_text 512 (hf_monitoring_source_id f)"

record health_row =
  hr_tenant_id :: string
  hr_monitoring_resource_id :: string
  hr_monitoring_source_id :: string
  hr_source_instance_generation :: string
  hr_active_source_instance_generation :: string
  hr_health_class :: health_class
  hr_evidence_state :: evidence_state
  hr_projection_revision :: int
  hr_serialized_size_bytes :: int

definition health_generation_state :: "health_row \<Rightarrow> generation_state" where
  "health_generation_state r =
     (if hr_source_instance_generation r = hr_active_source_instance_generation r
      then ActiveGeneration else HistoricalGeneration)"

text \<open>An optional filter that is given must be met.\<close>

definition met :: "'a option \<Rightarrow> 'a \<Rightarrow> bool" where
  "met wanted actual = (case wanted of None \<Rightarrow> True | Some w \<Rightarrow> actual = w)"

definition health_matches :: "health_filters \<Rightarrow> health_row \<Rightarrow> bool" where
  "health_matches f r \<longleftrightarrow>
     hr_tenant_id r = hf_tenant_id f \<and>
     met (hf_monitoring_source_id f) (hr_monitoring_source_id r) \<and>
     health_generation_state r = hf_generation_state f \<and>
     met (hf_health_class f) (hr_health_class r) \<and>
     met (hf_evidence_state f) (hr_evidence_state r)"

definition max_health_page_rows :: int where "max_health_page_rows = 500"
definition max_health_serialized_bytes :: int where "max_health_serialized_bytes = 1048576"

type_synonym 's health_authorizer = "health_filters \<Rightarrow> ('s, unit) op"
type_synonym 's health_anchor = "health_filters \<Rightarrow> string \<Rightarrow> ('s, health_row option) op"
type_synonym 's health_lister =
  "health_filters \<Rightarrow> string option \<Rightarrow> int \<Rightarrow> ('s, health_row list) op"

definition emit_health :: "health_filters \<Rightarrow> int \<Rightarrow> health_row list \<Rightarrow> health_row page res" where
  "emit_health f =
     emit_page hr_monitoring_resource_id hr_monitoring_resource_id (health_matches f)
       hr_serialized_size_bytes max_health_serialized_bytes"

text \<open>The anchor is the row; the listing gets its id, which is the cursor.\<close>

definition list_health_page ::
  "health_filters \<Rightarrow> 's health_authorizer \<Rightarrow> 's health_anchor \<Rightarrow> 's health_lister \<Rightarrow>
   string option \<Rightarrow> int \<Rightarrow> ('s, health_row page) op" where
  "list_health_page f authorize resolve list_rows cursor limit =
     keyset_page max_health_page_rows (authorize f) (resolve f)
       (\<lambda>c a. hr_monitoring_resource_id a = c \<and> health_matches f a)
       (\<lambda>after. list_rows f (map_option hr_monitoring_resource_id after))
       (emit_health f) cursor limit"

text \<open>No page of health rows exceeds its bounds, whatever the repository does. A page
  that is returned was authorized, has at most as many rows as asked for and at most 500,
  at most a mebibyte of serialized rows, in ascending order of the resource, all of the
  tenant, generation and classes that the filters name.\<close>

theorem health_page_bounded:
  assumes "list_health_page f authorize resolve list_rows cursor limit s = (Inr p, t)"
  shows "int (length (pg_items p)) \<le> limit \<and> limit \<le> 500 \<and>
    sum_list (map hr_serialized_size_bytes (pg_items p)) \<le> 1048576 \<and>
    sorted (map hr_monitoring_resource_id (pg_items p)) \<and>
    (\<forall>r\<in>set (pg_items p). health_matches f r \<and> hr_tenant_id r = hf_tenant_id f) \<and>
    (\<exists>u. authorize f s = (Inr (), u))"
  using keyset_page_Inr [OF assms [unfolded list_health_page_def emit_health_def]]
  by (auto simp: max_health_page_rows_def max_health_serialized_bytes_def list_all_iff
      health_matches_def)

section \<open>The list repository\<close>

definition mem_authorize_health :: "health_row list health_authorizer" where
  "mem_authorize_health f = returnS ()"

definition mem_resolve_health :: "health_row list health_anchor" where
  "mem_resolve_health f c = getS (find (\<lambda>r. hr_monitoring_resource_id r = c))"

definition mem_list_health :: "health_row list health_lister" where
  "mem_list_health f after limit =
     getS (\<lambda>rows. take (nat limit)
       (filter (\<lambda>r. case after of None \<Rightarrow> True | Some a \<Rightarrow> a < hr_monitoring_resource_id r) rows))"

text \<open>A repository that serves one filter: ordered, distinct, matching rows.\<close>

definition health_store_ok :: "health_filters \<Rightarrow> health_row list \<Rightarrow> bool" where
  "health_store_ok f rows \<longleftrightarrow>
     sorted_wrt (<) (map hr_monitoring_resource_id rows) \<and>
     (\<forall>r\<in>set rows. health_matches f r \<and> bounded_text 512 (hr_monitoring_resource_id r))"

lemma find_by_key:
  assumes "sorted_wrt (<) (map key rows)" "r \<in> set rows"
  shows "find (\<lambda>x. key x = (key r :: 'k :: linorder)) rows = Some r"
  using assms by (induction rows) (auto dest: order.strict_implies_not_eq)

interpretation health: keyset_repository "mem_authorize_health f" "mem_resolve_health f"
  "\<lambda>c a. hr_monitoring_resource_id a = c \<and> health_matches f a"
  "\<lambda>after. mem_list_health f (map_option hr_monitoring_resource_id after)"
  hr_monitoring_resource_id hr_monitoring_resource_id "health_matches f"
  hr_monitoring_resource_id "health_store_ok f" "\<lambda>rows. rows"
  by unfold_locales
    (auto simp: mem_authorize_health_def mem_resolve_health_def mem_list_health_def
      health_store_ok_def cursor_ok_def bounded_text_def find_by_key split: option.splits)

text \<open>A client that follows the cursors reads every row of health once, in order, and
  then stops. Over a list repository whose rows are ordered, distinct and match the filters,
  with any page limit from 1 to 500 under which a page fits the byte budget, \<open>n\<close> requests
  are enough for \<open>n * limit\<close> rows.\<close>

theorem health_pages_complete:
  assumes "health_store_ok f rows" "1 \<le> limit" "limit \<le> 500"
    and "length rows \<le> n * nat limit" "0 < n"
    and "\<And>i. sum_list (map hr_serialized_size_bytes (take (nat limit) (drop i rows))) \<le> 1048576"
  shows "read_all n (\<lambda>c. list_health_page f mem_authorize_health mem_resolve_health
      mem_list_health c limit) None rows = Some (Inr rows, rows)"
  unfolding list_health_page_def emit_health_def
  by (rule health.read_all_complete)
    (use assms in \<open>auto simp: max_health_page_rows_def max_health_serialized_bytes_def\<close>)

text \<open>Three rows, two on a page.\<close>

definition sample_health_filters :: health_filters where
  "sample_health_filters =
     \<lparr>hf_tenant_id = ''tenant-a'', hf_monitoring_source_id = None,
      hf_generation_state = ActiveGeneration, hf_health_class = None, hf_evidence_state = None\<rparr>"

definition sample_health_row :: "string \<Rightarrow> health_row" where
  "sample_health_row r =
     \<lparr>hr_tenant_id = ''tenant-a'', hr_monitoring_resource_id = r,
      hr_monitoring_source_id = ''source-a'', hr_source_instance_generation = ''gen-1'',
      hr_active_source_instance_generation = ''gen-1'', hr_health_class = HealthDegraded,
      hr_evidence_state = EvCurrent, hr_projection_revision = 7,
      hr_serialized_size_bytes = 100\<rparr>"

definition sample_health_rows :: "health_row list" where
  "sample_health_rows = map sample_health_row [''a'', ''b'', ''c'']"

lemma sample_health_store: "health_store_ok sample_health_filters sample_health_rows"
  by (simp add: health_store_ok_def sample_health_rows_def sample_health_row_def
      sample_health_filters_def health_matches_def met_def health_generation_state_def
      bounded_text_def)

lemma sample_health_bytes:
  "sum_list (map hr_serialized_size_bytes (take 2 (drop i sample_health_rows))) \<le> 1048576"
proof -
  have "sum_list (map hr_serialized_size_bytes xs) = 100 * int (length xs)"
    if "set xs \<subseteq> range sample_health_row" for xs
    using that by (induction xs) (auto simp: sample_health_row_def)
  moreover have "set (take 2 (drop i sample_health_rows)) \<subseteq> range sample_health_row"
    by (auto simp: sample_health_rows_def dest!: in_set_takeD in_set_dropD)
  ultimately show ?thesis by simp
qed

theorem health_pages_complete_witness:
  "read_all 2 (\<lambda>c. list_health_page sample_health_filters mem_authorize_health mem_resolve_health
      mem_list_health c 2) None sample_health_rows = Some (Inr sample_health_rows, sample_health_rows)"
  by (rule health_pages_complete [OF sample_health_store])
    (use sample_health_bytes in \<open>simp_all add: sample_health_rows_def\<close>)

lemma sample_health_page:
  "list_health_page sample_health_filters mem_authorize_health mem_resolve_health mem_list_health
     (Some ''b'') 2 sample_health_rows =
   (Inr \<lparr>pg_items = [sample_health_row ''c''], pg_next_cursor = None\<rparr>, sample_health_rows)"
  by code_simp

theorem health_page_bounded_witness:
  "sum_list (map hr_serialized_size_bytes [sample_health_row ''c'']) \<le> 1048576"
  using health_page_bounded [OF sample_health_page] by simp

end
