(* ===== verification/Observability.thy ===== *)
theory Observability
  imports JL_Prelude
begin

text \<open>
  src/src/jlmirror_observability: the finite registries of signals, health, service levels
  and alerts, the admission of a signal record, and the catalogue that joins each
  reliability profile to the evidence that observes it.
\<close>

section \<open>Registries\<close>

datatype signal_family = MetricSignal | LogSignal | TraceSignal | EventSignal | HealthSignal

datatype evidence_plane = OperationalPlane | CustomerPlane | AuditPlane

datatype observed_health =
    HsHealthy | HsDegraded | HsUnavailable | HsUnknown | HsDraining | HsQuarantined

datatype comparison_outcome =
    EquivalentDuplicateProven | IdentityConflict | EquivalenceUnknown | VerifierUnavailable
  | ContinuityBlocked | AuthorityUntrusted | PoisonOrInvalid

fun comparison_outcome_value :: "comparison_outcome \<Rightarrow> string" where
  "comparison_outcome_value EquivalentDuplicateProven = ''equivalent_duplicate_proven''"
| "comparison_outcome_value IdentityConflict = ''identity_conflict''"
| "comparison_outcome_value EquivalenceUnknown = ''equivalence_unknown''"
| "comparison_outcome_value VerifierUnavailable = ''verifier_temporarily_unavailable''"
| "comparison_outcome_value ContinuityBlocked = ''historical_comparison_continuity_blocked''"
| "comparison_outcome_value AuthorityUntrusted = ''comparison_authority_compromised_or_untrusted''"
| "comparison_outcome_value PoisonOrInvalid = ''poison_or_contract_invalid''"

definition comparison_outcomes :: "string list" where
  "comparison_outcomes = map comparison_outcome_value
     [EquivalentDuplicateProven, IdentityConflict, EquivalenceUnknown, VerifierUnavailable,
      ContinuityBlocked, AuthorityUntrusted, PoisonOrInvalid]"

definition core_signal_profiles :: "string list" where
  "core_signal_profiles =
     [''obs.request.outcome@1'', ''obs.operation.state@1'', ''obs.async.progress@1'',
      ''obs.async.transport@1'', ''obs.provider.operation@1'', ''obs.realtime.lifecycle@1'',
      ''obs.webhook.delivery@1'', ''obs.telemetry.acceptance@1'',
      ''obs.observability.pipeline@1'', ''obs.recovery.reconciliation@1'',
      ''obs.security.authority-freshness@1'', ''obs.message-equivalence.admission@1'',
      ''obs.message-equivalence.verifier@1'', ''obs.configuration.generation@1'',
      ''obs.audit.responsibility-health@1'', ''obs.artifact.lifecycle@1'']"

definition core_health_profiles :: "string list" where
  "core_health_profiles =
     [''health.api-bff@1'', ''health.async-worker@1'', ''health.provider-adapter@1'',
      ''health.realtime@1'', ''health.webhook-delivery@1'', ''health.control-plane@1'',
      ''health.cell@1'', ''health.security-authority@1'', ''health.message-equivalence@1'',
      ''health.customer-telemetry@1'', ''health.audit-plane@1'', ''health.artifact@1'',
      ''health.observability-pipeline@1'', ''health.recovery@1'']"

definition core_sli_profiles :: "string list" where
  "core_sli_profiles =
     [''sli.api.outcome@1'', ''sli.api.latency@1'', ''sli.async.progress@1'',
      ''sli.provider.outcome@1'', ''sli.realtime.delivery@1'', ''sli.webhook.convergence@1'',
      ''sli.customer-telemetry.acceptance@1'', ''sli.observability.integrity@1'',
      ''sli.control-plane.admission@1'', ''sli.cell.admission@1'', ''sli.artifact.delivery@1'',
      ''sli.recovery.convergence@1'']"

definition core_alert_profiles :: "string list" where
  "core_alert_profiles =
     [''alert.customer-impact@1'', ''alert.durable-progress@1'',
      ''alert.capacity-saturation@1'', ''alert.security-trust@1'',
      ''alert.recovery-continuity@1'', ''alert.telemetry-integrity@1'']"

definition signal_allowed_families :: "(string \<times> signal_family list) list" where
  "signal_allowed_families =
     [(''obs.request.outcome@1'', [MetricSignal, LogSignal, TraceSignal]),
      (''obs.operation.state@1'', [EventSignal, MetricSignal, LogSignal]),
      (''obs.async.progress@1'', [MetricSignal, EventSignal]),
      (''obs.async.transport@1'', [MetricSignal, EventSignal, HealthSignal]),
      (''obs.provider.operation@1'', [MetricSignal, TraceSignal, LogSignal]),
      (''obs.realtime.lifecycle@1'', [MetricSignal, EventSignal, LogSignal]),
      (''obs.webhook.delivery@1'', [MetricSignal, EventSignal, LogSignal]),
      (''obs.telemetry.acceptance@1'', [MetricSignal, EventSignal]),
      (''obs.observability.pipeline@1'', [MetricSignal, HealthSignal, EventSignal]),
      (''obs.recovery.reconciliation@1'', [MetricSignal, EventSignal, HealthSignal]),
      (''obs.security.authority-freshness@1'', [HealthSignal, EventSignal]),
      (''obs.message-equivalence.admission@1'', [MetricSignal, EventSignal, LogSignal]),
      (''obs.message-equivalence.verifier@1'', [MetricSignal, HealthSignal, EventSignal]),
      (''obs.configuration.generation@1'', [EventSignal, HealthSignal]),
      (''obs.audit.responsibility-health@1'', [HealthSignal, EventSignal]),
      (''obs.artifact.lifecycle@1'', [EventSignal, HealthSignal, MetricSignal])]"

definition signal_evidence_plane :: "string \<Rightarrow> evidence_plane option" where
  "signal_evidence_plane profile =
     (if profile = ''obs.telemetry.acceptance@1'' then Some CustomerPlane
      else if profile = ''obs.audit.responsibility-health@1'' then Some AuditPlane
      else if profile \<in> set core_signal_profiles then Some OperationalPlane
      else None)"

definition profile_metric_dimensions :: "(string \<times> string list) list" where
  "profile_metric_dimensions =
     [(''obs.request.outcome@1'', [''outcome_class'', ''operation_class'']),
      (''obs.operation.state@1'', [''state_class'', ''operation_class'']),
      (''obs.async.progress@1'', [''state_class'', ''workload_class'', ''saturation_class'']),
      (''obs.async.transport@1'', [''state_class'', ''workload_class'', ''saturation_class'']),
      (''obs.provider.operation@1'', [''outcome_class'', ''provider_class'', ''saturation_class'']),
      (''obs.realtime.lifecycle@1'', [''state_class'', ''saturation_class'']),
      (''obs.webhook.delivery@1'', [''outcome_class'', ''state_class'', ''saturation_class'']),
      (''obs.telemetry.acceptance@1'', [''outcome_class'', ''state_class'', ''saturation_class'']),
      (''obs.observability.pipeline@1'', [''state_class'', ''saturation_class'']),
      (''obs.recovery.reconciliation@1'', [''state_class'', ''failure_class'']),
      (''obs.security.authority-freshness@1'', [''state_class'', ''failure_class'']),
      (''obs.message-equivalence.admission@1'', [''comparison_outcome_class'', ''reliability_failure_class'', ''reliability_degradation_mode'']),
      (''obs.message-equivalence.verifier@1'', [''state_class'', ''saturation_class'']),
      (''obs.configuration.generation@1'', [''state_class'']),
      (''obs.audit.responsibility-health@1'', [''state_class'']),
      (''obs.artifact.lifecycle@1'', [''state_class'', ''saturation_class''])]"

definition profile_diagnostic_fields :: "(string \<times> string list) list" where
  "profile_diagnostic_fields =
     [(''obs.request.outcome@1'', [''request_id'', ''trace_id'']),
      (''obs.operation.state@1'', [''operation_id'', ''trace_id'']),
      (''obs.async.progress@1'', [''operation_id'', ''message_id'', ''trace_id'']),
      (''obs.async.transport@1'', [''message_id'', ''trace_id'']),
      (''obs.provider.operation@1'', [''operation_id'', ''trace_id'']),
      (''obs.realtime.lifecycle@1'', [''connection_id'', ''trace_id'']),
      (''obs.webhook.delivery@1'', [''operation_id'', ''trace_id'']),
      (''obs.telemetry.acceptance@1'', [''operation_id'', ''trace_id'']),
      (''obs.observability.pipeline@1'', [''trace_id'']),
      (''obs.recovery.reconciliation@1'', [''operation_id'', ''trace_id'']),
      (''obs.security.authority-freshness@1'', [''trace_id'', ''authority_generation_ref'']),
      (''obs.message-equivalence.admission@1'', [''message_id'', ''trace_id'', ''comparison_generation_ref'']),
      (''obs.message-equivalence.verifier@1'', [''trace_id'', ''comparison_generation_ref'']),
      (''obs.configuration.generation@1'', [''configuration_generation'', ''trace_id'']),
      (''obs.audit.responsibility-health@1'', [''accountability_reference'', ''trace_id'']),
      (''obs.artifact.lifecycle@1'', [''artifact_id'', ''operation_id'', ''trace_id''])]"

definition allowed_signal_classifications :: "string list" where
  "allowed_signal_classifications =
     [''internal'', ''protected'']"

definition allowed_tenant_scope_classes :: "string list" where
  "allowed_tenant_scope_classes =
     [''none'', ''bounded'', ''tenant_scoped_bounded'', ''cross_tenant_aggregate'',
      ''platform_bounded'']"

definition canonical_outcome_classes :: "string list" where
  "canonical_outcome_classes =
     [''success'', ''denied'', ''invalid'', ''not_found_or_concealed'', ''throttled'',
      ''unavailable'', ''timed_out'', ''cancelled'', ''ambiguous_external_outcome'',
      ''reconciliation_required'', ''quarantined'', ''recovery_blocked'',
      ''compromised_or_untrusted'', ''internal_failure'']"

definition canonical_failure_classes :: "string list" where
  "canonical_failure_classes =
     [''unavailable'', ''slow_or_timed_out'', ''throttled'', ''saturated'', ''partitioned'',
      ''stale'', ''duplicate'', ''identity_conflict'', ''out_of_order_or_gap'',
      ''contract_permanent'', ''policy_denied'', ''poison_or_unknown'',
      ''external_outcome_ambiguous'', ''recovery_continuity_blocked'',
      ''compromised_or_untrusted'', ''governance_blocked'']"

definition canonical_degradation_modes :: "string list" where
  "canonical_degradation_modes =
     [''fail_closed'', ''fail_fast'', ''stale_tolerant'', ''queued_or_deferred'',
      ''shed_or_reject'', ''reconciliation_blocked'', ''resync_required'',
      ''capability_unavailable'']"

definition canonical_health_reason_classes :: "string list" where
  "canonical_health_reason_classes =
     [''healthy_or_eligible'', ''dependency_unavailable'', ''dependency_slow_or_saturated'',
      ''throttled_or_shed'', ''configuration_unavailable_or_stale'',
      ''current_authority_unprovable'', ''compromised_or_untrusted'',
      ''reconciliation_required'', ''recovery_continuity_blocked'', ''draining'',
      ''startup_or_warmup'', ''internal_failure'']"

definition health_reason_extensions :: "string list" where
  "health_reason_extensions =
     [''telemetry_missing'']"

definition reviewed_health_reasons :: "string list" where
  "reviewed_health_reasons = canonical_health_reason_classes @ health_reason_extensions"

definition reviewed_operation_classes :: "string list" where
  "reviewed_operation_classes =
     [''api.read'', ''monitoring.accept'', ''audit.responsibility'', ''security.currentness'',
      ''message.equivalence'']"

definition reviewed_dimension_values :: "(string \<times> string list) list" where
  "reviewed_dimension_values =
     [(''failure_class'', canonical_failure_classes),
      (''reliability_failure_class'', canonical_failure_classes),
      (''reliability_degradation_mode'', canonical_degradation_modes),
      (''state_class'', []),
      (''workload_class'', []),
      (''provider_class'', []),
      (''saturation_class'', [])]"

section \<open>Signal records\<close>

definition token_char :: "char \<Rightarrow> bool" where
  "token_char c \<longleftrightarrow> is_alnum c \<or> c \<in> set ''_.:@/-''"

text \<open>\<open>_SAFE_TOKEN_RE = ^[A-Za-z0-9][A-Za-z0-9_.:@/-]{0,95}$\<close>\<close>

definition safe_token :: "string \<Rightarrow> bool" where
  "safe_token s \<longleftrightarrow> head_tail_ok is_alnum token_char s \<and> length s \<le> 96"

text \<open>\<open>_OPERATION_CLASS_RE = ^[a-z][a-z0-9_-]{0,31}(?:\.[a-z][a-z0-9_-]{0,31})+$\<close>\<close>

definition operation_char :: "char \<Rightarrow> bool" where
  "operation_char c \<longleftrightarrow> is_lower c \<or> is_digit c \<or> c \<in> set ''_-''"

definition operation_class_text :: "string \<Rightarrow> bool" where
  "operation_class_text s \<longleftrightarrow>
     (let ws = split_on (CHR ''.'') s
      in 2 \<le> length ws \<and> list_all (\<lambda>w. head_tail_ok is_lower operation_char w \<and> length w \<le> 32) ws)"

definition valid_operation_class :: "string \<Rightarrow> bool" where
  "valid_operation_class s \<longleftrightarrow> operation_class_text s \<and> s \<in> set reviewed_operation_classes"

definition valid_metric_dimension :: "string \<Rightarrow> string \<times> string \<Rightarrow> bool" where
  "valid_metric_dimension operation_class kv \<longleftrightarrow>
     (let (name, v) = kv in
      safe_token v \<and>
      (if name = ''operation_class'' then v = operation_class
       else if name = ''outcome_class'' then v \<in> set canonical_outcome_classes
       else if name = ''comparison_outcome_class'' then v \<in> set comparison_outcomes
       else (case map_of reviewed_dimension_values name of
               None \<Rightarrow> False
             | Some allowed \<Rightarrow> v \<in> set allowed)))"

definition diagnostic_char :: "char \<Rightarrow> bool" where
  "diagnostic_char c \<longleftrightarrow> is_alnum c \<or> c \<in> set ''_:@/-''"

text \<open>\<open>str.lower\<close> on the code points 0 to 255.\<close>

definition lower_char :: "char \<Rightarrow> char" where
  "lower_char c =
     (if code_in 65 90 c \<or> code_in 192 214 c \<or> code_in 216 222 c
      then char_of (of_char c + 32 :: nat) else c)"

definition lower :: "string \<Rightarrow> string" where
  "lower s = map lower_char s"

text \<open>
  \<open>_DIAGNOSTIC_ID_RE = ^[A-Za-z0-9][A-Za-z0-9_:@/-]{0,191}$\<close>; the prefixes of credentials
  end with a blank.
\<close>

definition valid_diagnostic_identifier :: "string \<Rightarrow> bool" where
  "valid_diagnostic_identifier v \<longleftrightarrow>
     head_tail_ok is_alnum diagnostic_char v \<and> length v \<le> 192 \<and>
     take 7 (lower v) \<noteq> ''bearer '' \<and> take 6 (lower v) \<noteq> ''basic ''"

definition forbidden_fragments :: "string list" where
  "forbidden_fragments =
     [''password'', ''private_key'', ''refresh_token'', ''access_token'', ''authorization_code'',
      ''session_handle'', ''client_secret'', ''cookie'', ''authorization'']"

fun contains :: "string \<Rightarrow> string \<Rightarrow> bool" where
  "contains w [] = (w = [])"
| "contains w (c # cs) = (take (length w) (c # cs) = w \<or> contains w cs)"

definition forbidden_key :: "string \<Rightarrow> bool" where
  "forbidden_key k \<longleftrightarrow> list_ex (\<lambda>w. contains w (lower k)) forbidden_fragments"

record signal_record =
  sr_profile_id :: string
  sr_family :: signal_family
  sr_operation_class :: string
  sr_classification :: string
  sr_tenant_scope_class :: string
  sr_metric_dimensions :: "(string, string) dict"
  sr_diagnostic_fields :: "(string, string) dict"

text \<open>\<open>allowed\<close> looks a profile up in a table that covers every core profile.\<close>

definition allowed :: "(string \<times> 'a list) list \<Rightarrow> string \<Rightarrow> 'a list" where
  "allowed tab profile = (case map_of tab profile of None \<Rightarrow> [] | Some xs \<Rightarrow> xs)"

definition valid_signal_record :: "signal_record \<Rightarrow> bool" where
  "valid_signal_record r \<longleftrightarrow>
     sr_profile_id r \<in> set core_signal_profiles \<and>
     sr_family r \<in> set (allowed signal_allowed_families (sr_profile_id r)) \<and>
     valid_operation_class (sr_operation_class r) \<and>
     sr_classification r \<in> set allowed_signal_classifications \<and>
     sr_tenant_scope_class r \<in> set allowed_tenant_scope_classes \<and>
     list_all (\<lambda>kv. fst kv \<in> set (allowed profile_metric_dimensions (sr_profile_id r)))
       (sr_metric_dimensions r) \<and>
     list_all (\<lambda>kv. \<not> forbidden_key (fst kv) \<and> valid_metric_dimension (sr_operation_class r) kv)
       (sr_metric_dimensions r) \<and>
     list_all (\<lambda>kv. fst kv \<in> set (allowed profile_diagnostic_fields (sr_profile_id r)))
       (sr_diagnostic_fields r) \<and>
     list_all (\<lambda>kv. \<not> forbidden_key (fst kv) \<and> valid_diagnostic_identifier (snd kv))
       (sr_diagnostic_fields r)"

definition signal_record_init :: "signal_record \<Rightarrow> signal_record res" where
  "signal_record_init r = construct valid_signal_record ObservationError r"

definition evidence_plane_of :: "signal_record \<Rightarrow> evidence_plane option" where
  "evidence_plane_of r = signal_evidence_plane (sr_profile_id r)"

record correlation_context =
  co_request_id :: "string option"
  co_operation_id :: "string option"
  co_trace_id :: "string option"
  co_message_id :: "string option"

definition as_diagnostic :: "correlation_context \<Rightarrow> (string, string) dict res" where
  "as_diagnostic c =
     (let fields = [(''request_id'', co_request_id c), (''operation_id'', co_operation_id c),
                    (''trace_id'', co_trace_id c), (''message_id'', co_message_id c)];
          given = concat (map (\<lambda>(k, x). case x of None \<Rightarrow> [] | Some v \<Rightarrow> [(k, v)]) fields)
      in construct (list_all (\<lambda>kv. valid_diagnostic_identifier (snd kv))) ObservationError given)"

section \<open>Health assessments\<close>

record health_assessment =
  ha_profile_id :: string
  ha_state :: observed_health
  ha_reason_class :: string
  ha_evidence_complete :: bool

definition valid_health_assessment :: "health_assessment \<Rightarrow> bool" where
  "valid_health_assessment a \<longleftrightarrow>
     ha_profile_id a \<in> set core_health_profiles \<and>
     ha_reason_class a \<in> set reviewed_health_reasons \<and>
     (ha_evidence_complete a \<or> ha_state a = HsUnknown)"

definition health_assessment_init :: "health_assessment \<Rightarrow> health_assessment res" where
  "health_assessment_init a = construct valid_health_assessment ObservationError a"

definition missing_health :: "string \<Rightarrow> string \<Rightarrow> health_assessment res" where
  "missing_health profile_id reason_class = health_assessment_init
     \<lparr>ha_profile_id = profile_id, ha_state = HsUnknown, ha_reason_class = reason_class,
      ha_evidence_complete = False\<rparr>"

record pipeline_evidence =
  pe_ingest_current :: "bool option"
  pe_export_current :: "bool option"
  pe_query_current :: "bool option"
  pe_self_observation_confidence_current :: "bool option"
  pe_drop_state_known :: bool

definition pipeline_health :: "observed_health \<Rightarrow> string \<Rightarrow> bool \<Rightarrow> health_assessment res" where
  "pipeline_health state reason complete = health_assessment_init
     \<lparr>ha_profile_id = ''health.observability-pipeline@1'', ha_state = state,
      ha_reason_class = reason, ha_evidence_complete = complete\<rparr>"

definition assess_pipeline :: "pipeline_evidence \<Rightarrow> health_assessment res" where
  "assess_pipeline e =
     (if list_ex (\<lambda>v. v = None) [pe_ingest_current e, pe_export_current e, pe_query_current e,
           pe_self_observation_confidence_current e] \<or> \<not> pe_drop_state_known e
      then pipeline_health HsUnknown ''telemetry_missing'' False
      else if pe_self_observation_confidence_current e = Some False
      then pipeline_health HsUnknown ''telemetry_missing'' False
      else if \<not> list_all (\<lambda>v. v = Some True)
             [pe_ingest_current e, pe_export_current e, pe_query_current e]
      then pipeline_health HsDegraded ''dependency_unavailable'' True
      else pipeline_health HsHealthy ''healthy_or_eligible'' True)"

section \<open>Applicability evidence\<close>

text \<open>\<open>_EVIDENCE_REFERENCE_RE = ^evidence:[A-Za-z0-9][A-Za-z0-9_.:@/-]{0,190}$\<close>\<close>

definition evidence_reference :: "string \<Rightarrow> bool" where
  "evidence_reference s \<longleftrightarrow>
     take 9 s = ''evidence:'' \<and> head_tail_ok is_alnum token_char (drop 9 s) \<and> length s \<le> 200"

record no_case_evidence =
  nc_reason :: string
  nc_authority_profile :: string
  nc_evidence_reference :: string
  nc_scope_binding :: string
  nc_current :: bool

definition no_case_valid_for :: "no_case_evidence \<Rightarrow> string \<Rightarrow> bool" where
  "no_case_valid_for e expected_scope \<longleftrightarrow>
     nc_reason e \<noteq> [] \<and> nc_authority_profile e \<noteq> [] \<and> nc_scope_binding e \<noteq> [] \<and>
     expected_scope \<noteq> [] \<and> nc_authority_profile e = ''observability.applicability-policy@1'' \<and>
     evidence_reference (nc_evidence_reference e) \<and> nc_current e \<and>
     nc_scope_binding e = expected_scope"

record product_evidence =
  pv_selector_id :: string
  pv_authority_profile :: string
  pv_evidence_reference :: string
  pv_scope_binding :: string
  pv_current :: bool
  pv_enabled :: bool

definition product_valid_for :: "product_evidence \<Rightarrow> string \<Rightarrow> string \<Rightarrow> bool" where
  "product_valid_for e expected_scope expected_selector \<longleftrightarrow>
     pv_selector_id e \<noteq> [] \<and> pv_authority_profile e \<noteq> [] \<and> pv_scope_binding e \<noteq> [] \<and>
     expected_scope \<noteq> [] \<and> pv_authority_profile e = ''product.scope-authority@1'' \<and>
     evidence_reference (pv_evidence_reference e) \<and> pv_current e \<and>
     pv_scope_binding e = expected_scope \<and> pv_selector_id e = expected_selector"

definition require_product_applicability :: "product_evidence \<Rightarrow> string \<Rightarrow> string \<Rightarrow> bool res" where
  "require_product_applicability e expected_scope expected_selector =
     bindR (ensure (product_valid_for e expected_scope expected_selector) ObservationError)
       (\<lambda>_. Inr (pv_enabled e))"

record observability_binding =
  bd_health_profile_id :: string
  bd_sli_profile_ids :: "string list"
  bd_alert_profile_ids :: "string list"
  bd_direct_sli_applicable :: bool
  bd_binding_scope :: string
  bd_no_applicable_case :: "no_case_evidence option"

definition valid_observability_binding :: "observability_binding \<Rightarrow> bool" where
  "valid_observability_binding b \<longleftrightarrow>
     bd_health_profile_id b \<in> set core_health_profiles \<and>
     list_all (\<lambda>x. x \<in> set core_sli_profiles) (bd_sli_profile_ids b) \<and>
     list_all (\<lambda>x. x \<in> set core_alert_profiles) (bd_alert_profile_ids b) \<and>
     bd_binding_scope b \<noteq> [] \<and>
     (if \<not> bd_direct_sli_applicable b
      then (case bd_no_applicable_case b of
              None \<Rightarrow> False
            | Some e \<Rightarrow> no_case_valid_for e (bd_binding_scope b))
      else bd_no_applicable_case b = None)"

section \<open>The catalogue of joins\<close>

record reliability_join =
  rj_reliability_profile_id :: string
  rj_profile_version :: int
  rj_diagnostic_signal_ids :: "string list"
  rj_health_profile_ids :: "string list"
  rj_sli_profile_ids :: "string list"
  rj_impact_sli_profile_ids :: "string list"
  rj_alert_profile_ids :: "string list"
  rj_required_fault_vectors :: "string list"
  rj_direct_sli_no_case_reason :: "string option"
  rj_product_selector :: "string option"

definition given :: "string option \<Rightarrow> bool" where
  "given x = (case x of None \<Rightarrow> False | Some s \<Rightarrow> s \<noteq> [])"

definition valid_reliability_join :: "reliability_join \<Rightarrow> bool" where
  "valid_reliability_join j \<longleftrightarrow>
     take 4 (rj_reliability_profile_id j) = ''rel.'' \<and> rj_profile_version j = 1 \<and>
     list_all (\<lambda>x. x \<in> set core_signal_profiles) (rj_diagnostic_signal_ids j) \<and>
     list_all (\<lambda>x. x \<in> set core_health_profiles) (rj_health_profile_ids j) \<and>
     list_all (\<lambda>x. x \<in> set core_sli_profiles) (rj_sli_profile_ids j @ rj_impact_sli_profile_ids j) \<and>
     list_all (\<lambda>x. x \<in> set core_alert_profiles) (rj_alert_profile_ids j) \<and>
     rj_diagnostic_signal_ids j \<noteq> [] \<and> rj_health_profile_ids j \<noteq> [] \<and>
     rj_required_fault_vectors j \<noteq> [] \<and>
     (rj_product_selector j = None \<longrightarrow>
        (rj_sli_profile_ids j \<noteq> [] \<or> given (rj_direct_sli_no_case_reason j)) \<and>
        \<not> (rj_sli_profile_ids j \<noteq> [] \<and> given (rj_direct_sli_no_case_reason j)))"

datatype applicability_state = OpenDecision | NoApplicableCase | Applicable

record applicability_resolution =
  ap_state :: applicability_state
  ap_sli_profile_ids :: "string list"
  ap_alert_profile_ids :: "string list"
  ap_open_decision_id :: "string option"
  ap_no_applicable_case_reason :: "string option"

definition resolve_product_applicability ::
  "reliability_join \<Rightarrow> product_evidence option \<Rightarrow> string \<Rightarrow> applicability_resolution res" where
  "resolve_product_applicability j evidence expected_scope =
     (case rj_product_selector j of
        None \<Rightarrow> Inl ObservationError
      | Some selector \<Rightarrow>
         (case evidence of
            None \<Rightarrow> Inr \<lparr>ap_state = OpenDecision, ap_sli_profile_ids = [],
                          ap_alert_profile_ids = rj_alert_profile_ids j,
                          ap_open_decision_id = Some ''OPEN-OBS-037'',
                          ap_no_applicable_case_reason = None\<rparr>
          | Some e \<Rightarrow>
              bindR (ensure (product_valid_for e expected_scope selector) ObservationError) (\<lambda>_.
              if selector = ''webhook_product_state''
              then
                (if pv_enabled e
                 then Inr \<lparr>ap_state = OpenDecision, ap_sli_profile_ids = [], ap_alert_profile_ids = [],
                           ap_open_decision_id = Some ''OPEN-OBS-035'',
                           ap_no_applicable_case_reason = None\<rparr>
                 else Inr \<lparr>ap_state = NoApplicableCase, ap_sli_profile_ids = [],
                           ap_alert_profile_ids = [], ap_open_decision_id = None,
                           ap_no_applicable_case_reason =
                             Some ''outbound webhook Product capability is not enabled''\<rparr>)
              else if selector = ''artifact_delivery_product_state''
              then
                (if pv_enabled e
                 then Inr \<lparr>ap_state = Applicable, ap_sli_profile_ids = [''sli.artifact.delivery@1''],
                           ap_alert_profile_ids = rj_alert_profile_ids j, ap_open_decision_id = None,
                           ap_no_applicable_case_reason = None\<rparr>
                 else Inr \<lparr>ap_state = NoApplicableCase, ap_sli_profile_ids = [],
                           ap_alert_profile_ids = rj_alert_profile_ids j, ap_open_decision_id = None,
                           ap_no_applicable_case_reason =
                             Some ''Product-facing artifact delivery is not exposed''\<rparr>)
              else Inl ObservationError)))"

definition join_of ::
  "string \<Rightarrow> string list \<Rightarrow> string list \<Rightarrow> string list \<Rightarrow> string list \<Rightarrow> string list \<Rightarrow> string list \<Rightarrow>
   string option \<Rightarrow> string option \<Rightarrow> reliability_join" where
  "join_of rid signals health slis impact alerts vectors na selector =
     \<lparr>rj_reliability_profile_id = rid, rj_profile_version = 1, rj_diagnostic_signal_ids = signals,
      rj_health_profile_ids = health, rj_sli_profile_ids = slis, rj_impact_sli_profile_ids = impact,
      rj_alert_profile_ids = alerts, rj_required_fault_vectors = vectors,
      rj_direct_sli_no_case_reason = na, rj_product_selector = selector\<rparr>"

definition reliability_joins :: "reliability_join list" where
  "reliability_joins =
     [join_of ''rel.control-plane-placement@1''
        [''obs.operation.state@1'', ''obs.security.authority-freshness@1'', ''obs.recovery.reconciliation@1'']
        [''health.control-plane@1''] [''sli.control-plane.admission@1'']
        []
        [''alert.customer-impact@1'', ''alert.recovery-continuity@1'', ''alert.security-trust@1'']
        [''OBSV-013'', ''OBSV-014'', ''OBSV-015'', ''OBSV-021'']
        None None,
      join_of ''rel.cell-transactional-store@1''
        [''obs.request.outcome@1'', ''obs.operation.state@1'', ''obs.recovery.reconciliation@1'']
        [''health.cell@1''] [''sli.cell.admission@1'', ''sli.api.outcome@1'']
        []
        [''alert.customer-impact@1'', ''alert.recovery-continuity@1'', ''alert.capacity-saturation@1'']
        [''OBSV-013'', ''OBSV-014'', ''OBSV-016'', ''OBSV-025'']
        None None,
      join_of ''rel.security-session-authority@1''
        [''obs.security.authority-freshness@1'', ''obs.request.outcome@1'']
        [''health.security-authority@1''] []
        [''sli.api.outcome@1'']
        [''alert.security-trust@1'', ''alert.customer-impact@1'']
        [''OBSV-003'', ''OBSV-013'', ''OBSV-015'', ''OBSV-027'']
        (Some ''authorization correctness is a hard gate, not an error-budget allowance'') None,
      join_of ''rel.placement-reference-cache@1''
        [''obs.security.authority-freshness@1'', ''obs.operation.state@1'']
        [''health.control-plane@1''] []
        [''sli.control-plane.admission@1'', ''sli.cell.admission@1'']
        [''alert.recovery-continuity@1'', ''alert.customer-impact@1'']
        [''OBSV-013'', ''OBSV-014'', ''OBSV-021'']
        (Some ''placement cache correctness is observed through consuming admission outcomes'') None,
      join_of ''rel.performance-cache@1''
        [''obs.request.outcome@1'']
        [''health.api-bff@1''] [''sli.api.outcome@1'', ''sli.api.latency@1'']
        []
        [''alert.customer-impact@1'', ''alert.capacity-saturation@1'']
        [''OBSV-011'', ''OBSV-025'']
        None None,
      join_of ''rel.replay-consume-state@1''
        [''obs.message-equivalence.admission@1'', ''obs.message-equivalence.verifier@1'', ''obs.recovery.reconciliation@1'']
        [''health.message-equivalence@1'', ''health.recovery@1''] []
        [''sli.recovery.convergence@1'']
        [''alert.recovery-continuity@1'', ''alert.security-trust@1'']
        [''OBSV-023'', ''OBSV-032'', ''OBSV-033'', ''OBSV-034'', ''OBSV-035'', ''OBSV-036'']
        (Some ''duplicate/replay correctness is a hard gate; recovery convergence carries impact'') None,
      join_of ''rel.secret-key-authority@1''
        [''obs.security.authority-freshness@1'']
        [''health.security-authority@1''] []
        [''sli.api.outcome@1'', ''sli.async.progress@1'', ''sli.recovery.convergence@1'']
        [''alert.security-trust@1'', ''alert.durable-progress@1'']
        [''OBSV-015'', ''OBSV-027'']
        (Some ''cryptographic authority correctness is a hard gate'') None,
      join_of ''rel.configuration-authority@1''
        [''obs.configuration.generation@1'', ''obs.security.authority-freshness@1'']
        [''health.control-plane@1'', ''health.cell@1''] []
        [''sli.control-plane.admission@1'', ''sli.cell.admission@1'']
        [''alert.customer-impact@1'', ''alert.security-trust@1'']
        [''OBSV-013'', ''OBSV-021'']
        (Some ''configuration authority correctness is measured through consuming admission'') None,
      join_of ''rel.outbox-publication@1''
        [''obs.async.progress@1'', ''obs.operation.state@1'']
        [''health.async-worker@1''] [''sli.async.progress@1'']
        []
        [''alert.durable-progress@1'', ''alert.capacity-saturation@1'']
        [''OBSV-001'', ''OBSV-016'', ''OBSV-025'']
        None None,
      join_of ''rel.broker-job-transport@1''
        [''obs.async.transport@1'', ''obs.async.progress@1'']
        [''health.async-worker@1''] [''sli.async.progress@1'']
        []
        [''alert.durable-progress@1'', ''alert.capacity-saturation@1'']
        [''OBSV-008'', ''OBSV-016'', ''OBSV-025'']
        None None,
      join_of ''rel.consumer-inbox-effect@1''
        [''obs.async.progress@1'', ''obs.message-equivalence.admission@1'', ''obs.message-equivalence.verifier@1'']
        [''health.async-worker@1'', ''health.message-equivalence@1''] [''sli.async.progress@1'']
        []
        [''alert.durable-progress@1'', ''alert.recovery-continuity@1'', ''alert.security-trust@1'']
        [''OBSV-016'', ''OBSV-031'', ''OBSV-033'', ''OBSV-034'', ''OBSV-035'', ''OBSV-036'']
        None None,
      join_of ''rel.external-provider@1''
        [''obs.provider.operation@1'', ''obs.operation.state@1'', ''obs.recovery.reconciliation@1'']
        [''health.provider-adapter@1''] [''sli.provider.outcome@1'']
        []
        [''alert.customer-impact@1'', ''alert.durable-progress@1'', ''alert.capacity-saturation@1'', ''alert.security-trust@1'']
        [''OBSV-001'', ''OBSV-015'', ''OBSV-017'', ''OBSV-025'']
        None None,
      join_of ''rel.realtime-fanout@1''
        [''obs.realtime.lifecycle@1'']
        [''health.realtime@1''] [''sli.realtime.delivery@1'']
        []
        [''alert.customer-impact@1'', ''alert.capacity-saturation@1'']
        [''OBSV-001'', ''OBSV-013'', ''OBSV-025'']
        None None,
      join_of ''rel.webhook-delivery@1''
        [''obs.webhook.delivery@1'', ''obs.recovery.reconciliation@1'']
        [''health.webhook-delivery@1''] []
        []
        []
        [''OBSV-017'', ''OBSV-019'', ''OBSV-025'', ''OBSV-037'']
        None (Some ''webhook_product_state''),
      join_of ''rel.telemetry-plane@1''
        [''obs.observability.pipeline@1'']
        [''health.observability-pipeline@1''] [''sli.observability.integrity@1'']
        []
        [''alert.telemetry-integrity@1'', ''alert.capacity-saturation@1'']
        [''OBSV-008'', ''OBSV-010'', ''OBSV-011'', ''OBSV-026'']
        None None,
      join_of ''rel.customer-telemetry-acceptance@1''
        [''obs.telemetry.acceptance@1'', ''obs.async.progress@1'', ''obs.recovery.reconciliation@1'']
        [''health.customer-telemetry@1''] [''sli.customer-telemetry.acceptance@1'']
        []
        [''alert.customer-impact@1'', ''alert.durable-progress@1'', ''alert.capacity-saturation@1'', ''alert.recovery-continuity@1'']
        [''OBSV-010'', ''OBSV-012'', ''OBSV-016'', ''OBSV-025'']
        None None,
      join_of ''rel.mandatory-audit-plane@1''
        [''obs.audit.responsibility-health@1'']
        [''health.audit-plane@1''] []
        [''sli.api.outcome@1'', ''sli.async.progress@1'']
        [''alert.customer-impact@1'', ''alert.security-trust@1'']
        [''OBSV-009'', ''OBSV-011'', ''OBSV-015'']
        (Some ''mandatory audit durability is a hard responsibility gate'') None,
      join_of ''rel.artifact-storage@1''
        [''obs.artifact.lifecycle@1'', ''obs.recovery.reconciliation@1'']
        [''health.artifact@1''] []
        []
        [''alert.customer-impact@1'', ''alert.recovery-continuity@1'', ''alert.capacity-saturation@1'', ''alert.security-trust@1'']
        [''OBSV-014'', ''OBSV-024'', ''OBSV-025'', ''OBSV-028'', ''OBSV-037'']
        None (Some ''artifact_delivery_product_state''),
      join_of ''rel.reporting-derived@1''
        [''obs.request.outcome@1'', ''obs.operation.state@1'', ''obs.async.progress@1'']
        [''health.api-bff@1'', ''health.async-worker@1''] [''sli.api.outcome@1'', ''sli.async.progress@1'']
        []
        [''alert.customer-impact@1'', ''alert.durable-progress@1'', ''alert.capacity-saturation@1'']
        [''OBSV-016'', ''OBSV-025'', ''OBSV-029'']
        None None,
      join_of ''rel.privileged-operations@1''
        [''obs.operation.state@1'', ''obs.security.authority-freshness@1'', ''obs.recovery.reconciliation@1'']
        [''health.security-authority@1'', ''health.recovery@1'', ''health.async-worker@1''] []
        [''sli.async.progress@1'', ''sli.recovery.convergence@1'']
        [''alert.security-trust@1'', ''alert.recovery-continuity@1'', ''alert.durable-progress@1'']
        [''OBSV-003'', ''OBSV-014'', ''OBSV-015'', ''OBSV-028'']
        (Some ''privileged authorization correctness is a hard gate'') None]"

definition find_join :: "string \<Rightarrow> reliability_join option" where
  "find_join rid = find (\<lambda>j. rj_reliability_profile_id j = rid) reliability_joins"

definition expected_reliability_ids :: "string list" where
  "expected_reliability_ids = map rj_reliability_profile_id reliability_joins"

definition join_for :: "string \<Rightarrow> reliability_join res" where
  "join_for rid = (case find_join rid of None \<Rightarrow> Inl ObservationError | Some j \<Rightarrow> Inr j)"

section \<open>Facts about the registries\<close>

lemma reliability_joins_valid: "list_all valid_reliability_join reliability_joins"
  by code_simp

lemma expected_ids_distinct: "distinct expected_reliability_ids"
  by code_simp

lemma find_join_expected: "find_join rid \<noteq> None \<longleftrightarrow> rid \<in> set expected_reliability_ids"
  by (induction reliability_joins) (auto simp: find_join_def expected_reliability_ids_def find_None_iff)

lemma find_join_Some:
  "find_join rid = Some j \<Longrightarrow> rj_reliability_profile_id j = rid \<and> valid_reliability_join j"
  using reliability_joins_valid by (auto simp: find_join_def find_Some_iff list_all_length)

text \<open>The values a metric dimension of an accepted record can have.\<close>

definition metric_values :: "string list" where
  "metric_values = reviewed_operation_classes @ canonical_outcome_classes @ comparison_outcomes @
     canonical_failure_classes @ canonical_degradation_modes"

lemma reviewed_values_bounded:
  "map_of reviewed_dimension_values name = Some xs \<Longrightarrow>
     set xs \<subseteq> set canonical_failure_classes \<union> set canonical_degradation_modes"
  by (auto simp: reviewed_dimension_values_def split: if_splits)

text \<open>Telemetry of a metric cannot carry caller data. Every dimension of an accepted
  signal record belongs to its profile and has one of the 50 values that the registries
  list, whatever the caller supplied; the operation class is the record's own.\<close>

theorem metric_dimensions_finite:
  assumes "signal_record_init r = Inr s" "(k, v) \<in> set (sr_metric_dimensions s)"
  shows "k \<in> set (allowed profile_metric_dimensions (sr_profile_id r)) \<and>
    v \<in> set metric_values \<and> length metric_values = 50 \<and>
    (k = ''operation_class'' \<longrightarrow> v = sr_operation_class r)"
proof -
  from assms have r: "valid_signal_record r" "s = r" by (simp_all add: signal_record_init_def construct_Inr_iff)
  with assms(2) have "valid_metric_dimension (sr_operation_class r) (k, v)"
    and key: "k \<in> set (allowed profile_metric_dimensions (sr_profile_id r))"
    by (fastforce simp: valid_signal_record_def list_all_iff)+
  moreover have "sr_operation_class r \<in> set reviewed_operation_classes"
    using r by (simp add: valid_signal_record_def valid_operation_class_def)
  ultimately have "v \<in> set metric_values \<and> (k = ''operation_class'' \<longrightarrow> v = sr_operation_class r)"
    using reviewed_values_bounded [of k]
    unfolding valid_metric_dimension_def metric_values_def
    by (auto simp: Let_def split: if_splits option.splits)
  moreover have "length metric_values = 50" by code_simp
  ultimately show ?thesis using key by blast
qed

definition sample_signal :: signal_record where
  "sample_signal =
     \<lparr>sr_profile_id = ''obs.request.outcome@1'', sr_family = MetricSignal,
      sr_operation_class = ''api.read'', sr_classification = ''internal'',
      sr_tenant_scope_class = ''none'',
      sr_metric_dimensions = [(''outcome_class'', ''denied''), (''operation_class'', ''api.read'')],
      sr_diagnostic_fields = [(''request_id'', ''req-1'')]\<rparr>"

lemma sample_signal_accepted: "signal_record_init sample_signal = Inr sample_signal"
  by code_simp

theorem metric_dimensions_finite_witness: "''denied'' \<in> set metric_values"
  using metric_dimensions_finite [OF sample_signal_accepted, of "''outcome_class''" "''denied''"]
  by (simp add: sample_signal_def)

end
