(* ===== verification/Release_Evidence.thy ===== *)
theory Release_Evidence
  imports Observability
begin

text \<open>
  src/src/jlmirror_release/model.py, provenance.py, compatibility.py, configuration.py and
  recovery.py: artifacts, deployment intents and the evidence that a release needs. Every
  refusal of these modules is \<open>ReleaseError\<close>, so a validation is a predicate; \<open>demand\<close>
  turns one into an operation that may raise.
\<close>

definition demand :: "bool \<Rightarrow> unit res" where
  "demand b = ensure b ReleaseError"

lemma demand_Inr_iff [res_simps]: "demand b = Inr u \<longleftrightarrow> b"
  by (simp add: demand_def ensure_Inr_iff)

section \<open>Artifacts, configurations and intents\<close>

datatype source_trust = UntrustedCandidate | AcceptedReviewState

datatype validation_scope = GeneralValidation | ReferenceCell

datatype promotion_state =
    Proposed | Validating | Eligible | Approved | Deploying | RuntimeVerification | Completed
  | Paused | Rejected | Aborted | Superseded | ReleaseReconciliation

datatype outcome_class =
    RollbackEligible | ForwardRecoveryRequired | OutcomeReconciliation | IrreversibleChange

definition release_principals :: "string list" where
  "release_principals =
     [''principal.release-untrusted-validation@1'', ''principal.release-build@1'',
      ''principal.release-publish@1'', ''principal.release-promote@1'',
      ''principal.release-deploy@1'', ''principal.release-migrate@1'',
      ''principal.release-verify@1'', ''principal.release-emergency@1'']"

definition allowed_environments :: "string list" where
  "allowed_environments =
     [''environment.development@1'', ''environment.validation@1'', ''environment.production@1'',
      ''environment.recovery@1'']"

definition canonical_runtime_profiles :: "string list" where
  "canonical_runtime_profiles =
     [''runtime.web-bff@1'', ''runtime.api@1'', ''runtime.worker@1'', ''runtime.realtime@1'',
      ''runtime.control-plane@1'', ''runtime.automation@1'', ''runtime.untrusted-parser@1'',
      ''runtime.migration-admin@1'', ''runtime.recovery@1'', ''runtime.edge-optional@1'']"

definition canonical_worker_specializations :: "string list" where
  "canonical_worker_specializations =
     [''worker.outbox-publication@1'', ''worker.async-consumer@1'',
      ''worker.provider-integration@1'', ''worker.webhook-delivery@1'',
      ''worker.reporting-export@1'', ''worker.customer-telemetry@1'',
      ''worker.artifact-lifecycle@1'', ''worker.reconciliation@1'']"

record artifact_identity =
  ai_algorithm :: string
  ai_digest :: string

definition hex_char :: "char \<Rightarrow> bool" where
  "hex_char c \<longleftrightarrow> is_digit c \<or> code_in 97 102 c \<or> code_in 65 70 c"

text \<open>Digits with single underscores between them.\<close>

fun grouped_digits :: "string \<Rightarrow> bool" where
  "grouped_digits [] = False"
| "grouped_digits [c] = hex_char c"
| "grouped_digits (c # d # cs) =
     (hex_char c \<and> (if d = CHR ''_'' then grouped_digits cs else grouped_digits (d # cs)))"

definition strip_blanks :: "string \<Rightarrow> string" where
  "strip_blanks s = rev (dropWhile is_blank (rev (dropWhile is_blank s)))"

text \<open>The texts that \<open>int(text, 16)\<close> reads: blanks around, a sign, a prefix \<open>0x\<close>.\<close>

definition hex_integer_text :: "string \<Rightarrow> bool" where
  "hex_integer_text s =
     (let t = strip_blanks s;
          u = (if t \<noteq> [] \<and> hd t \<in> set ''+-'' then tl t else t)
      in
        if 2 \<le> length u \<and> hd u = CHR ''0'' \<and> u ! 1 \<in> set ''xX''
        then
          (let v = drop 2 u in grouped_digits (if v \<noteq> [] \<and> hd v = CHR ''_'' then tl v else v))
        else grouped_digits u)"

definition valid_artifact_identity :: "artifact_identity \<Rightarrow> bool" where
  "valid_artifact_identity a \<longleftrightarrow>
     ai_algorithm a \<in> {''sha256'', ''sha512''} \<and>
     length (ai_digest a) = (if ai_algorithm a = ''sha256'' then 64 else 128) \<and>
     hex_integer_text (ai_digest a)"

definition artifact_canonical :: "artifact_identity \<Rightarrow> string" where
  "artifact_canonical a = ai_algorithm a @ '':'' @ lower (ai_digest a)"

record target_configuration =
  tc_identity :: string
  tc_generation :: string
  tc_semantic_profile :: string

definition valid_target_configuration :: "target_configuration \<Rightarrow> bool" where
  "valid_target_configuration c \<longleftrightarrow>
     tc_identity c \<noteq> [] \<and> tc_generation c \<noteq> [] \<and> tc_semantic_profile c \<noteq> []"

record deployment_intent =
  di_deployment_operation_id :: string
  di_target_id :: string
  di_expected_release_target_state_version :: int
  di_artifact :: artifact_identity
  di_configuration :: target_configuration
  di_target_environment_class :: string
  di_runtime_profile_set :: "string list"
  di_promotion_id :: string
  di_release_policy_profile_and_version :: string
  di_validation_scope :: validation_scope
  di_rollout_scope :: string
  di_schema_state :: string
  di_api_compatibility_family :: string
  di_event_compatibility_set :: "string list"
  di_worker_specialization_set :: "string list"

definition worker_runtime :: string where "worker_runtime = ''runtime.worker@1''"

definition valid_deployment_intent :: "deployment_intent \<Rightarrow> bool" where
  "valid_deployment_intent i \<longleftrightarrow>
     di_deployment_operation_id i \<noteq> [] \<and> di_target_id i \<noteq> [] \<and> di_promotion_id i \<noteq> [] \<and>
     0 \<le> di_expected_release_target_state_version i \<and>
     di_target_environment_class i \<in> set allowed_environments \<and>
     di_runtime_profile_set i \<noteq> [] \<and> distinct (di_runtime_profile_set i) \<and>
     list_all (\<lambda>p. p \<in> set canonical_runtime_profiles) (di_runtime_profile_set i) \<and>
     (if worker_runtime \<in> set (di_runtime_profile_set i)
      then di_worker_specialization_set i \<noteq> [] \<and> distinct (di_worker_specialization_set i) \<and>
           list_all (\<lambda>w. w \<in> set canonical_worker_specializations) (di_worker_specialization_set i)
      else di_worker_specialization_set i = []) \<and>
     di_release_policy_profile_and_version i \<noteq> [] \<and> di_rollout_scope i \<noteq> [] \<and>
     di_schema_state i \<noteq> [] \<and> di_api_compatibility_family i \<noteq> [] \<and>
     di_event_compatibility_set i \<noteq> []"

section \<open>Provenance\<close>

text \<open>\<open>_GIT_SOURCE_STATE_RE = ^[0-9a-f]{40}(?:[0-9a-f]{24})?$\<close>\<close>

definition git_object_id :: "string \<Rightarrow> bool" where
  "git_object_id s \<longleftrightarrow>
     length s \<in> {40, 64} \<and> list_all (\<lambda>c. is_digit c \<or> code_in 97 102 c) s"

record accepted_source =
  as_source_state_id :: string
  as_source_trust_class :: source_trust
  as_source_change_authority_profile :: string
  as_source_change_evidence :: string
  as_review_assurance_profile :: string
  as_review_assurance_evidence :: string
  as_source_trust_policy_profile :: string
  as_source_trust_policy_evidence :: string

definition source_trusted :: "accepted_source \<Rightarrow> bool" where
  "source_trusted s \<longleftrightarrow>
     as_source_trust_class s = AcceptedReviewState \<and> git_object_id (as_source_state_id s) \<and>
     as_source_change_authority_profile s \<noteq> [] \<and> as_review_assurance_profile s \<noteq> [] \<and>
     as_source_trust_policy_profile s \<noteq> [] \<and>
     list_all evidence_reference
       [as_source_change_evidence s, as_review_assurance_evidence s, as_source_trust_policy_evidence s] \<and>
     distinct
       [as_source_change_evidence s, as_review_assurance_evidence s, as_source_trust_policy_evidence s]"

record build_provenance =
  bp_accepted_source :: accepted_source
  bp_release_policy_profile :: string
  bp_release_policy_evidence :: string
  bp_release_policy_current :: bool
  bp_builder_principal_class :: string
  bp_builder_authority_evidence :: string
  bp_builder_authorized_current :: bool
  bp_declared_input_set_id :: string
  bp_declared_inputs_integrity_evidence :: string
  bp_declared_inputs_integrity_proven :: bool
  bp_build_record_id :: string
  bp_artifact :: artifact_identity
  bp_provenance_profile :: string
  bp_provenance_record_id :: string
  bp_provenance_verifier_profile :: string
  bp_provenance_verifier_evidence :: string
  bp_provenance_verifier_current :: bool
  bp_sbom_reference :: string
  bp_artifact_attestation_profile :: string
  bp_artifact_lifecycle_evidence :: string
  bp_artifact_retired :: bool

definition build_provenance_valid :: "build_provenance \<Rightarrow> bool" where
  "build_provenance_valid b \<longleftrightarrow>
     source_trusted (bp_accepted_source b) \<and>
     bp_release_policy_profile b \<noteq> [] \<and> bp_release_policy_current b \<and>
     evidence_reference (bp_release_policy_evidence b) \<and>
     as_source_trust_policy_profile (bp_accepted_source b) = bp_release_policy_profile b \<and>
     bp_builder_principal_class b = ''principal.release-build@1'' \<and>
     evidence_reference (bp_builder_authority_evidence b) \<and>
     bp_builder_principal_class b \<in> set release_principals \<and> bp_builder_authorized_current b \<and>
     bp_declared_input_set_id b \<noteq> [] \<and> bp_declared_inputs_integrity_proven b \<and>
     evidence_reference (bp_declared_inputs_integrity_evidence b) \<and>
     bp_provenance_profile b \<noteq> [] \<and> bp_provenance_verifier_profile b \<noteq> [] \<and>
     bp_artifact_attestation_profile b \<noteq> [] \<and>
     list_all evidence_reference
       [bp_build_record_id b, bp_provenance_record_id b, bp_provenance_verifier_evidence b,
        bp_sbom_reference b, bp_artifact_lifecycle_evidence b] \<and>
     bp_provenance_verifier_current b \<and> \<not> bp_artifact_retired b"

record promotion_evidence =
  pm_promotion_id :: string
  pm_promotion_evidence :: string
  pm_promotion_principal_class :: string
  pm_promotion_principal_authority_evidence :: string
  pm_promotion_principal_authorized_current :: bool
  pm_approval_current :: bool
  pm_approval_evidence :: string
  pm_release_policy_profile :: string
  pm_release_policy_evidence :: string
  pm_release_policy_current :: bool
  pm_artifact_identity :: string
  pm_target_id :: string
  pm_target_environment_class :: string
  pm_validation_scope :: validation_scope
  pm_rollout_scope_id :: string
  pm_runtime_profile_set :: "string list"
  pm_target_configuration :: target_configuration
  pm_configuration_validation_evidence :: string
  pm_rollout_compatibility_evidence :: string
  pm_schema_state :: string
  pm_api_compatibility_family :: string
  pm_event_compatibility_set :: "string list"
  pm_required_evidence_set :: string
  pm_validation_evidence_current :: bool
  pm_compatibility_evidence_current :: bool
  pm_cell_metadata_identity :: "string option"
  pm_cell_metadata_generation :: "string option"

text \<open>The three configuration fields of the promotion are one record here.\<close>

definition promotion_authorized :: "promotion_evidence \<Rightarrow> build_provenance \<Rightarrow> bool" where
  "promotion_authorized p b \<longleftrightarrow>
     build_provenance_valid b \<and>
     pm_promotion_principal_class p = ''principal.release-promote@1'' \<and>
     list_all evidence_reference
       [pm_promotion_evidence p, pm_promotion_principal_authority_evidence p, pm_approval_evidence p,
        pm_release_policy_evidence p, pm_configuration_validation_evidence p,
        pm_rollout_compatibility_evidence p, pm_required_evidence_set p] \<and>
     pm_promotion_principal_authorized_current p \<and>
     pm_promotion_id p \<noteq> [] \<and> pm_approval_current p \<and>
     pm_release_policy_profile p \<noteq> [] \<and> pm_release_policy_current p \<and>
     pm_release_policy_profile p = bp_release_policy_profile b \<and>
     pm_artifact_identity p = artifact_canonical (bp_artifact b) \<and>
     pm_target_id p \<noteq> [] \<and> pm_rollout_scope_id p \<noteq> [] \<and>
     valid_target_configuration (pm_target_configuration p) \<and>
     pm_schema_state p \<noteq> [] \<and> pm_api_compatibility_family p \<noteq> [] \<and>
     pm_runtime_profile_set p \<noteq> [] \<and> pm_event_compatibility_set p \<noteq> [] \<and>
     distinct (pm_runtime_profile_set p) \<and>
     list_all (\<lambda>r. r \<in> set canonical_runtime_profiles) (pm_runtime_profile_set p) \<and>
     pm_target_environment_class p \<in> set allowed_environments \<and>
     pm_validation_evidence_current p \<and> pm_compatibility_evidence_current p \<and>
     (pm_cell_metadata_identity p = None \<longleftrightarrow> pm_cell_metadata_generation p = None)"

section \<open>Compatibility\<close>

record no_case_claim =
  na_reason :: string
  na_authority_profile :: string
  na_evidence :: string
  na_scope_binding :: string
  na_current :: bool

definition no_case_for :: "no_case_claim \<Rightarrow> string \<Rightarrow> bool" where
  "no_case_for n expected_scope \<longleftrightarrow>
     na_reason n \<noteq> [] \<and> na_authority_profile n \<noteq> [] \<and> na_scope_binding n \<noteq> [] \<and>
     evidence_reference (na_evidence n) \<and> na_current n \<and> na_scope_binding n = expected_scope"

record version_matrix =
  vm_runtime :: bool
  vm_schema :: bool
  vm_api :: bool
  vm_event :: bool
  vm_configuration :: bool
  vm_worker :: bool
  vm_policy_verifier :: bool

definition all_supported :: "version_matrix \<Rightarrow> bool" where
  "all_supported m \<longleftrightarrow>
     vm_runtime m \<and> vm_schema m \<and> vm_api m \<and> vm_event m \<and> vm_configuration m \<and> vm_worker m \<and>
     vm_policy_verifier m"

record cell_compatibility =
  cl_applicable :: bool
  cl_metadata_identity :: "string option"
  cl_metadata_generation :: "string option"
  cl_metadata_current :: bool
  cl_combination_admitted :: bool
  cl_no_applicable_case :: "no_case_claim option"

record rollout_compatibility =
  rc_evidence :: string
  rc_evidence_current :: bool
  rc_release_scope_id :: string
  rc_mixed_version :: version_matrix
  rc_validation_scope :: validation_scope
  rc_cell_affecting_release :: bool
  rc_reference_cell_evidence_current :: bool
  rc_reference_cell_no_case :: "no_case_claim option"
  rc_cell_compatibility :: cell_compatibility

text \<open>Applicable cell compatibility, with the metadata it needs.\<close>

definition cell_admitted :: "cell_compatibility \<Rightarrow> bool" where
  "cell_admitted c \<longleftrightarrow>
     cl_no_applicable_case c = None \<and> given (cl_metadata_identity c) \<and>
     given (cl_metadata_generation c) \<and> cl_metadata_current c \<and> cl_combination_admitted c"

definition rollout_compatible :: "rollout_compatibility \<Rightarrow> bool" where
  "rollout_compatible r \<longleftrightarrow>
     evidence_reference (rc_evidence r) \<and> rc_evidence_current r \<and> rc_release_scope_id r \<noteq> [] \<and>
     all_supported (rc_mixed_version r) \<and>
     (let cell = rc_cell_compatibility r in
      if rc_cell_affecting_release r
      then
        (if rc_validation_scope r \<noteq> ReferenceCell
         then (case rc_reference_cell_no_case r of
                 None \<Rightarrow> False
               | Some n \<Rightarrow> no_case_for n (rc_release_scope_id r))
         else rc_reference_cell_evidence_current r) \<and>
        cl_applicable cell \<and> cell_admitted cell
      else
        (case rc_reference_cell_no_case r of
           None \<Rightarrow> True
         | Some n \<Rightarrow> no_case_for n (rc_release_scope_id r)) \<and>
        (if cl_applicable cell then cell_admitted cell
         else (case cl_no_applicable_case cell of
                 None \<Rightarrow> False
               | Some n \<Rightarrow> no_case_for n (rc_release_scope_id r))))"

section \<open>Configuration validation and recovery\<close>

record configuration_validation =
  cv_validation_configuration :: target_configuration
  cv_target_configuration :: target_configuration
  cv_validation_scope :: validation_scope
  cv_evidence :: string
  cv_evidence_current :: bool
  cv_semantic_equivalence_proven :: bool
  cv_target_specific_validation_proven :: bool
  cv_copied_secret_values :: bool

definition configuration_validated :: "configuration_validation \<Rightarrow> bool" where
  "configuration_validated c \<longleftrightarrow>
     evidence_reference (cv_evidence c) \<and> cv_evidence_current c \<and> \<not> cv_copied_secret_values c \<and>
     (cv_validation_configuration c = cv_target_configuration c \<or>
      cv_semantic_equivalence_proven c \<or> cv_target_specific_validation_proven c)"

record recovery_evidence =
  rv_evidence :: string
  rv_authority_profile :: string
  rv_scope_binding :: string
  rv_current :: bool
  rv_effect_outcome_ambiguous :: bool
  rv_irreversible :: bool
  rv_previous_runtime_can_interpret :: bool
  rv_rollback_configuration_current :: bool
  rv_cell_allows_previous :: bool
  rv_policy_and_verifier_current :: bool
  rv_target_state_allows_rollback :: bool
  rv_governance_current :: bool
  rv_required_evidence_preserved :: bool

definition recovery_valid_for :: "recovery_evidence \<Rightarrow> string \<Rightarrow> bool" where
  "recovery_valid_for e expected_scope \<longleftrightarrow>
     evidence_reference (rv_evidence e) \<and> rv_authority_profile e \<noteq> [] \<and>
     expected_scope \<noteq> [] \<and> rv_scope_binding e = expected_scope \<and> rv_current e"

definition classify_change_outcome :: "recovery_evidence \<Rightarrow> string \<Rightarrow> outcome_class res" where
  "classify_change_outcome e expected_scope =
     bindR (demand (recovery_valid_for e expected_scope)) (\<lambda>_.
     Inr (if rv_effect_outcome_ambiguous e then OutcomeReconciliation
          else if rv_irreversible e then IrreversibleChange
          else if list_all id
            [rv_previous_runtime_can_interpret e, rv_rollback_configuration_current e,
             rv_cell_allows_previous e, rv_policy_and_verifier_current e,
             rv_target_state_allows_rollback e, rv_governance_current e,
             rv_required_evidence_preserved e]
          then RollbackEligible
          else ForwardRecoveryRequired))"

section \<open>A digest that is no digest\<close>

text \<open>An artifact identity need not be a digest. The test \<open>int(digest, 16)\<close> also reads a
  sign, blanks, underscores and the prefix \<open>0x\<close>, so a text of the right length with these is
  accepted as an identity, and its canonical form differs from every hexadecimal digest.\<close>

definition loose_digest :: string where
  "loose_digest = '' +0x_1_'' @ replicate 57 (CHR ''a'')"

lemma artifact_identity_not_hexadecimal:
  "valid_artifact_identity \<lparr>ai_algorithm = ''sha256'', ai_digest = loose_digest\<rparr> \<and>
   \<not> list_all hex_char loose_digest \<and>
   artifact_canonical \<lparr>ai_algorithm = ''sha256'', ai_digest = loose_digest\<rparr> = ''sha256:'' @ loose_digest"
  by (intro conjI; code_simp)

end
