(* ===== verification/Release_Verification.thy ===== *)
theory Release_Verification
  imports Release_Evidence
begin

text \<open>
  src/src/jlmirror_release/verification.py: the reliability floor of a deployment, the
  requirements fixed before its effect, and the verification of what runs.
\<close>

section \<open>The reliability floor\<close>

definition profile_floors :: "(string \<times> string list) list" where
  "profile_floors =
     [(''runtime.web-bff@1'', [''rel.security-session-authority@1'']),
      (''runtime.api@1'', [''rel.cell-transactional-store@1'', ''rel.security-session-authority@1'',
         ''rel.performance-cache@1'', ''rel.configuration-authority@1'']),
      (''runtime.worker@1'', []),
      (''runtime.realtime@1'', [''rel.realtime-fanout@1'', ''rel.security-session-authority@1'',
         ''rel.replay-consume-state@1'']),
      (''runtime.control-plane@1'', [''rel.control-plane-placement@1'',
         ''rel.placement-reference-cache@1'', ''rel.configuration-authority@1'']),
      (''runtime.automation@1'', [''rel.privileged-operations@1'']),
      (''runtime.untrusted-parser@1'', []),
      (''runtime.migration-admin@1'', [''rel.privileged-operations@1'',
         ''rel.cell-transactional-store@1'', ''rel.configuration-authority@1'']),
      (''runtime.recovery@1'', [''rel.privileged-operations@1'', ''rel.control-plane-placement@1'',
         ''rel.replay-consume-state@1'', ''rel.secret-key-authority@1'']),
      (''runtime.edge-optional@1'', [])]"

definition worker_floors :: "(string \<times> string list) list" where
  "worker_floors =
     [(''worker.outbox-publication@1'', [''rel.outbox-publication@1'', ''rel.broker-job-transport@1'']),
      (''worker.async-consumer@1'', [''rel.consumer-inbox-effect@1'', ''rel.broker-job-transport@1'']),
      (''worker.provider-integration@1'', [''rel.external-provider@1'']),
      (''worker.webhook-delivery@1'', [''rel.webhook-delivery@1'']),
      (''worker.reporting-export@1'', [''rel.reporting-derived@1'']),
      (''worker.customer-telemetry@1'', [''rel.customer-telemetry-acceptance@1'']),
      (''worker.artifact-lifecycle@1'', [''rel.artifact-storage@1'']),
      (''worker.reconciliation@1'', [])]"

definition deployment_scope :: "deployment_intent \<Rightarrow> string" where
  "deployment_scope i = ''deployment:'' @ di_target_id i @ '':'' @ di_deployment_operation_id i"

text \<open>The union of the floors; a name that is not in the table raises \<open>KeyError\<close>.\<close>

fun gather_floors :: "(string \<times> string list) list \<Rightarrow> string list \<Rightarrow> string list res" where
  "gather_floors tab [] = Inr []"
| "gather_floors tab (x # xs) =
     (case map_of tab x of
        None \<Rightarrow> Inl KeyError
      | Some floor \<Rightarrow> bindR (gather_floors tab xs) (\<lambda>rest. Inr (floor @ rest)))"

definition minimum_reliability :: "deployment_intent \<Rightarrow> string list res" where
  "minimum_reliability i =
     bindR (demand (di_runtime_profile_set i \<noteq> [] \<and> distinct (di_runtime_profile_set i) \<and>
              list_all (\<lambda>p. p \<in> set canonical_runtime_profiles) (di_runtime_profile_set i))) (\<lambda>_.
     bindR (gather_floors profile_floors (di_runtime_profile_set i)) (\<lambda>floor.
     if worker_runtime \<in> set (di_runtime_profile_set i)
     then
       bindR (demand (di_worker_specialization_set i \<noteq> [])) (\<lambda>_.
       bindR (gather_floors worker_floors (di_worker_specialization_set i)) (\<lambda>extra.
       Inr (floor @ extra)))
     else Inr floor))"

section \<open>Requirements fixed before the effect\<close>

record floor_justification =
  fj_reason :: string
  fj_authority_profile :: string
  fj_evidence :: string
  fj_scope_binding :: string
  fj_current :: bool

definition justified_for :: "floor_justification \<Rightarrow> string \<Rightarrow> bool" where
  "justified_for j expected_scope \<longleftrightarrow>
     fj_reason j \<noteq> [] \<and> fj_authority_profile j \<noteq> [] \<and> fj_scope_binding j \<noteq> [] \<and>
     expected_scope \<noteq> [] \<and>
     fj_authority_profile j = ''release.empty-reliability-floor-authority@1'' \<and>
     evidence_reference (fj_evidence j) \<and> fj_current j \<and> fj_scope_binding j = expected_scope"

record verification_requirements =
  vq_authority_profile :: string
  vq_evidence :: string
  vq_scope_binding :: string
  vq_release_target_state_version :: int
  vq_release_policy_profile :: string
  vq_release_policy_evidence :: string
  vq_required_reliability_ids :: "string list"
  vq_required_health_ids :: "string list"
  vq_current :: bool
  vq_requirements_principal :: string
  vq_empty_floor_justification :: "floor_justification option"

definition requirements_bound ::
  "verification_requirements \<Rightarrow> deployment_intent \<Rightarrow> int \<Rightarrow> string option \<Rightarrow> bool" where
  "requirements_bound q i version policy_evidence \<longleftrightarrow>
     vq_authority_profile q = ''release.runtime-verification-requirements@1'' \<and>
     vq_requirements_principal q = ''principal.release-promote@1'' \<and>
     evidence_reference (vq_evidence q) \<and> evidence_reference (vq_release_policy_evidence q) \<and>
     vq_scope_binding q = deployment_scope i \<and> vq_release_target_state_version q = version \<and>
     vq_release_policy_profile q = di_release_policy_profile_and_version i \<and>
     (case policy_evidence of None \<Rightarrow> True | Some e \<Rightarrow> vq_release_policy_evidence q = e) \<and>
     vq_current q"

definition floor_covered :: "verification_requirements \<Rightarrow> string list \<Rightarrow> bool" where
  "floor_covered q floor \<longleftrightarrow>
     (if floor = []
      then (case vq_empty_floor_justification q of
              None \<Rightarrow> False
            | Some j \<Rightarrow> justified_for j (vq_scope_binding q))
      else vq_empty_floor_justification q = None) \<and>
     list_all (\<lambda>r. r \<in> set (vq_required_reliability_ids q)) floor"

definition health_of_reliability :: "string \<Rightarrow> string list" where
  "health_of_reliability rid = (case find_join rid of None \<Rightarrow> [] | Some j \<Rightarrow> rj_health_profile_ids j)"

definition known_health :: "string list" where
  "known_health = concat (map rj_health_profile_ids reliability_joins)"

definition health_covered :: "verification_requirements \<Rightarrow> bool" where
  "health_covered q \<longleftrightarrow>
     list_all (\<lambda>h. h \<in> set known_health) (vq_required_health_ids q) \<and>
     list_all (\<lambda>r. list_all (\<lambda>h. h \<in> set (vq_required_health_ids q)) (health_of_reliability r))
       (vq_required_reliability_ids q)"

definition requirements_validate ::
  "verification_requirements \<Rightarrow> deployment_intent \<Rightarrow> int \<Rightarrow> string option \<Rightarrow> string list res" where
  "requirements_validate q i version policy_evidence =
     bindR (demand (requirements_bound q i version policy_evidence)) (\<lambda>_.
     bindR (demand (vq_required_reliability_ids q \<noteq> [] \<and> distinct (vq_required_reliability_ids q) \<and>
              vq_required_health_ids q \<noteq> [] \<and> distinct (vq_required_health_ids q) \<and>
              list_all (\<lambda>r. r \<in> set expected_reliability_ids) (vq_required_reliability_ids q))) (\<lambda>_.
     bindR (minimum_reliability i) (\<lambda>floor.
     bindR (demand (floor_covered q floor)) (\<lambda>_.
     bindR (demand (health_covered q)) (\<lambda>_.
     Inr (vq_required_health_ids q))))))"

section \<open>Verification of what runs\<close>

record health_gate =
  hg_assessment :: health_assessment
  hg_evidence :: string
  hg_owning_policy_profile :: string
  hg_policy_evidence :: string
  hg_scope_binding :: string
  hg_release_target_state_version :: int
  hg_policy_current :: bool
  hg_admission_eligible :: bool

definition valid_health_gate :: "health_gate \<Rightarrow> bool" where
  "valid_health_gate g \<longleftrightarrow>
     evidence_reference (hg_evidence g) \<and> evidence_reference (hg_policy_evidence g) \<and>
     hg_owning_policy_profile g \<noteq> [] \<and> hg_scope_binding g \<noteq> [] \<and>
     0 \<le> hg_release_target_state_version g"

definition gate_profile :: "health_gate \<Rightarrow> string" where
  "gate_profile g = ha_profile_id (hg_assessment g)"

record verification_evidence =
  ve_evidence :: string
  ve_evidence_current :: bool
  ve_scope_binding :: string
  ve_release_target_state_version :: int
  ve_observed_artifact :: "string option"
  ve_observed_configuration_generation :: "string option"
  ve_runtime_profile_set :: "string list"
  ve_runtime_admission_evidence :: string
  ve_runtime_admission_current :: bool
  ve_configuration_currentness_evidence :: string
  ve_configuration_current :: bool
  ve_release_policy_profile :: string
  ve_release_policy_evidence :: string
  ve_release_policy_current :: bool
  ve_verifier_authority_profile :: string
  ve_verifier_authority_evidence :: string
  ve_verifier_authority_current :: bool
  ve_health_gates :: "health_gate list"
  ve_vendor_controller_green :: bool
  ve_worker_specialization_set :: "string list"

definition observation_matches ::
  "deployment_intent \<Rightarrow> verification_evidence \<Rightarrow> verification_requirements \<Rightarrow> int \<Rightarrow> bool" where
  "observation_matches i e q version \<longleftrightarrow>
     evidence_reference (ve_evidence e) \<and> ve_evidence_current e \<and>
     ve_scope_binding e = deployment_scope i \<and> ve_release_target_state_version e = version \<and>
     ve_observed_artifact e = Some (artifact_canonical (di_artifact i)) \<and>
     ve_observed_configuration_generation e = Some (tc_generation (di_configuration i)) \<and>
     ve_runtime_profile_set e = di_runtime_profile_set i \<and>
     ve_worker_specialization_set e = di_worker_specialization_set i \<and>
     list_all evidence_reference
       [ve_runtime_admission_evidence e, ve_configuration_currentness_evidence e,
        ve_release_policy_evidence e, ve_verifier_authority_evidence e] \<and>
     ve_runtime_admission_current e \<and> ve_configuration_current e \<and>
     ve_release_policy_profile e = di_release_policy_profile_and_version i \<and>
     ve_release_policy_evidence e = vq_release_policy_evidence q \<and> ve_release_policy_current e \<and>
     ve_verifier_authority_profile e = ''principal.release-verify@1'' \<and>
     ve_verifier_authority_current e"

definition gate_admits :: "health_gate \<Rightarrow> bool" where
  "gate_admits g \<longleftrightarrow>
     ha_evidence_complete (hg_assessment g) \<and> ha_state (hg_assessment g) \<noteq> HsUnknown \<and>
     ha_state (hg_assessment g) \<notin> {HsUnavailable, HsQuarantined, HsDraining} \<and>
     hg_policy_current g \<and> hg_admission_eligible g"

definition gates_pass ::
  "health_gate list \<Rightarrow> string list \<Rightarrow> string \<Rightarrow> int \<Rightarrow> bool" where
  "gates_pass gates required scope version \<longleftrightarrow>
     distinct (map gate_profile gates) \<and>
     list_all (\<lambda>g. hg_scope_binding g = scope \<and> hg_release_target_state_version g = version) gates \<and>
     set (map gate_profile gates) = set required \<and>
     list_all (\<lambda>h. case find (\<lambda>g. gate_profile g = h) gates of
                     None \<Rightarrow> False | Some g \<Rightarrow> gate_admits g) required"

definition verify_runtime ::
  "deployment_intent \<Rightarrow> verification_evidence \<Rightarrow> verification_requirements \<Rightarrow> int \<Rightarrow> unit res" where
  "verify_runtime i e q version =
     bindR (demand (observation_matches i e q version)) (\<lambda>_.
     bindR (requirements_validate q i version (Some (ve_release_policy_evidence e))) (\<lambda>required.
     demand (gates_pass (ve_health_gates e) required (deployment_scope i) version)))"

section \<open>What a verified deployment shows\<close>

lemma gather_floors_members:
  "gather_floors tab xs = Inr fs \<Longrightarrow> x \<in> set xs \<Longrightarrow>
   \<exists>floor. map_of tab x = Some floor \<and> set floor \<subseteq> set fs"
proof (induction xs arbitrary: fs)
  case Nil
  then show ?case by simp
next
  case (Cons y ys)
  then obtain floor rest where "map_of tab y = Some floor" "gather_floors tab ys = Inr rest"
    "fs = floor @ rest"
    by (auto simp: bindR_Inr_iff split: option.splits)
  then show ?case using Cons.IH Cons.prems(2) by fastforce
qed

lemma minimum_reliability_members:
  assumes "minimum_reliability i = Inr floor" "p \<in> set (di_runtime_profile_set i)"
  shows "\<exists>fs. map_of profile_floors p = Some fs \<and> set fs \<subseteq> set floor"
proof -
  from assms(1) obtain base where "gather_floors profile_floors (di_runtime_profile_set i) = Inr base"
    "set base \<subseteq> set floor"
    unfolding minimum_reliability_def bindR_Inr_iff by (auto simp: bindR_Inr_iff split: if_splits)
  then show ?thesis using gather_floors_members assms(2) by blast
qed

lemma minimum_reliability_worker_members:
  assumes "minimum_reliability i = Inr floor" "worker_runtime \<in> set (di_runtime_profile_set i)"
    and "w \<in> set (di_worker_specialization_set i)"
  shows "\<exists>fs. map_of worker_floors w = Some fs \<and> set fs \<subseteq> set floor"
proof -
  from assms(1,2) obtain extra where "gather_floors worker_floors (di_worker_specialization_set i) = Inr extra"
    "set extra \<subseteq> set floor"
    unfolding minimum_reliability_def bindR_Inr_iff by (auto simp: bindR_Inr_iff)
  then show ?thesis using gather_floors_members assms(3) by blast
qed

text \<open>Every floor of the tables is a profile of the catalogue, so a floor can be met.\<close>

lemma floors_expected:
  "list_all (\<lambda>(p, fs). list_all (\<lambda>r. r \<in> set expected_reliability_ids) fs) (profile_floors @ worker_floors)"
  by code_simp

lemma floors_cover_profiles:
  "set (map fst profile_floors) = set canonical_runtime_profiles \<and>
   set (map fst worker_floors) = set canonical_worker_specializations"
  by code_simp

definition floor_of :: "deployment_intent \<Rightarrow> string \<Rightarrow> bool" where
  "floor_of i r \<longleftrightarrow>
     (\<exists>p \<in> set (di_runtime_profile_set i). \<exists>fs. map_of profile_floors p = Some fs \<and> r \<in> set fs) \<or>
     (worker_runtime \<in> set (di_runtime_profile_set i) \<and>
      (\<exists>w \<in> set (di_worker_specialization_set i). \<exists>fs. map_of worker_floors w = Some fs \<and> r \<in> set fs))"

lemma floor_of_required:
  assumes "minimum_reliability i = Inr floor" "floor_of i r"
  shows "r \<in> set floor"
  using assms(2) minimum_reliability_members [OF assms(1)]
    minimum_reliability_worker_members [OF assms(1)]
  unfolding floor_of_def by fastforce

lemma gather_floors_from:
  "gather_floors tab xs = Inr fs \<Longrightarrow> r \<in> set fs \<Longrightarrow>
   \<exists>x \<in> set xs. \<exists>floor. map_of tab x = Some floor \<and> r \<in> set floor"
proof (induction xs arbitrary: fs)
  case (Cons y ys)
  then obtain floor rest where "map_of tab y = Some floor" "gather_floors tab ys = Inr rest"
    "fs = floor @ rest"
    by (auto simp: bindR_Inr_iff split: option.splits)
  then show ?case using Cons.IH Cons.prems(2) by fastforce
qed simp

lemma floor_of_only:
  assumes "minimum_reliability i = Inr floor" "r \<in> set floor"
  shows "floor_of i r"
proof -
  from assms(1) obtain base where base: "gather_floors profile_floors (di_runtime_profile_set i) = Inr base"
    and rest: "if worker_runtime \<in> set (di_runtime_profile_set i)
      then \<exists>extra. gather_floors worker_floors (di_worker_specialization_set i) = Inr extra \<and> floor = base @ extra
      else floor = base"
    unfolding minimum_reliability_def bindR_Inr_iff by (auto simp: bindR_Inr_iff split: if_splits)
  show ?thesis
  proof (cases "r \<in> set base")
    case True
    then show ?thesis using gather_floors_from [OF base] unfolding floor_of_def by blast
  next
    case False
    then obtain extra where "gather_floors worker_floors (di_worker_specialization_set i) = Inr extra"
      "r \<in> set extra" "worker_runtime \<in> set (di_runtime_profile_set i)"
      using rest assms(2) by (auto split: if_splits)
    then show ?thesis using gather_floors_from unfolding floor_of_def by blast
  qed
qed

lemma requirements_validate_Inr:
  "requirements_validate q i version pe = Inr hs \<longleftrightarrow>
     requirements_bound q i version pe \<and>
     vq_required_reliability_ids q \<noteq> [] \<and> distinct (vq_required_reliability_ids q) \<and>
     vq_required_health_ids q \<noteq> [] \<and> distinct (vq_required_health_ids q) \<and>
     list_all (\<lambda>r. r \<in> set expected_reliability_ids) (vq_required_reliability_ids q) \<and>
     (\<exists>floor. minimum_reliability i = Inr floor \<and> floor_covered q floor) \<and>
     health_covered q \<and> hs = vq_required_health_ids q"
  unfolding requirements_validate_def bindR_Inr_iff demand_Inr_iff by blast

lemma gates_pass_admitted:
  assumes "gates_pass gates required scope version" "h \<in> set required"
  shows "\<exists>g \<in> set gates. gate_profile g = h \<and> gate_admits g \<and> hg_scope_binding g = scope \<and>
    hg_release_target_state_version g = version"
proof -
  from assms obtain g where "find (\<lambda>g. gate_profile g = h) gates = Some g" "gate_admits g"
    unfolding gates_pass_def list_all_iff by (fastforce split: option.splits)
  then show ?thesis using assms(1) unfolding gates_pass_def list_all_iff
    by (auto simp: find_Some_iff intro!: bexI [of _ g])
qed

text \<open>
  A gate of this deployment and target version for a health profile, whose complete evidence is
  healthy or degraded and which its current policy admits.
\<close>

definition admitting_gate :: "deployment_intent \<Rightarrow> verification_evidence \<Rightarrow> int \<Rightarrow> string \<Rightarrow> bool" where
  "admitting_gate i e version h \<longleftrightarrow>
     (\<exists>g \<in> set (ve_health_gates e). ha_profile_id (hg_assessment g) = h \<and>
        hg_scope_binding g = ''deployment:'' @ di_target_id i @ '':'' @ di_deployment_operation_id i \<and>
        hg_release_target_state_version g = version \<and>
        ha_evidence_complete (hg_assessment g) \<and>
        (ha_state (hg_assessment g) = HsHealthy \<or> ha_state (hg_assessment g) = HsDegraded) \<and>
        hg_policy_current g \<and> hg_admission_eligible g)"

lemma gates_pass_admitting:
  assumes "gates_pass (ve_health_gates e) required (deployment_scope i) version" "h \<in> set required"
  shows "admitting_gate i e version h"
proof -
  from gates_pass_admitted [OF assms] obtain g where g: "g \<in> set (ve_health_gates e)"
    "gate_profile g = h" "gate_admits g" "hg_scope_binding g = deployment_scope i"
    "hg_release_target_state_version g = version" by blast
  have "ha_state (hg_assessment g) = HsHealthy \<or> ha_state (hg_assessment g) = HsDegraded"
    using g(3) by (cases "ha_state (hg_assessment g)") (auto simp: gate_admits_def)
  then show ?thesis
    using g unfolding admitting_gate_def gate_admits_def gate_profile_def deployment_scope_def by blast
qed

text \<open>C31: a verified deployment runs what was approved and meets its reliability floor. Whenever
  \<open>verify_runtime\<close> passes, with a floor or with none, the observed artifact, configuration,
  runtime profiles and worker specialisations are those of the intent, some health profile is
  required, and each required one has a gate of this deployment and target version whose complete
  evidence is healthy or degraded and admitted by its current policy. Every reliability profile
  that the floors of its runtime profiles and worker specialisations demand is required, and
  each health profile which the catalogue joins to it has such a gate; a deployment of which they
  demand none has a current justification for its own scope by the authority for empty floors. A
  green or red vendor controller plays no part.\<close>

theorem verified_deployment_meets_floor:
  assumes "verify_runtime i e q version = Inr ()"
  shows "ve_observed_artifact e = Some (artifact_canonical (di_artifact i)) \<and>
    ve_observed_configuration_generation e = Some (tc_generation (di_configuration i)) \<and>
    ve_runtime_profile_set e = di_runtime_profile_set i \<and>
    ve_worker_specialization_set e = di_worker_specialization_set i \<and>
    vq_required_health_ids q \<noteq> [] \<and>
    (\<forall>h \<in> set (vq_required_health_ids q). admitting_gate i e version h) \<and>
    (\<forall>r. floor_of i r \<longrightarrow> r \<in> set (vq_required_reliability_ids q) \<and>
       (\<forall>j h. find_join r = Some j \<and> h \<in> set (rj_health_profile_ids j) \<longrightarrow> admitting_gate i e version h)) \<and>
    ((\<forall>r. \<not> floor_of i r) \<longrightarrow> (\<exists>j. vq_empty_floor_justification q = Some j \<and>
       fj_authority_profile j = ''release.empty-reliability-floor-authority@1'' \<and> fj_reason j \<noteq> [] \<and>
       fj_current j \<and> fj_scope_binding j = deployment_scope i)) \<and>
    (\<forall>green. verify_runtime i (e\<lparr>ve_vendor_controller_green := green\<rparr>) q version = Inr ())"
proof -
  from assms(1) obtain required where
    m: "observation_matches i e q version"
    and v: "requirements_validate q i version (Some (ve_release_policy_evidence e)) = Inr required"
    and g: "gates_pass (ve_health_gates e) required (deployment_scope i) version"
    unfolding verify_runtime_def bindR_Inr_iff demand_Inr_iff by blast
  from v obtain floor where req: "required = vq_required_health_ids q" "health_covered q"
    "minimum_reliability i = Inr floor" "floor_covered q floor" "vq_required_health_ids q \<noteq> []"
    "vq_scope_binding q = deployment_scope i"
    unfolding requirements_validate_Inr requirements_bound_def by blast
  have gates: "\<forall>h \<in> set (vq_required_health_ids q). admitting_gate i e version h"
    using gates_pass_admitting [OF g] req(1) by blast
  have floor: "r \<in> set (vq_required_reliability_ids q)" if "floor_of i r" for r
    using floor_of_required [OF req(3) that] req(4) by (auto simp: floor_covered_def list_all_iff)
  have joined: "admitting_gate i e version h"
    if "floor_of i r" "find_join r = Some j" "h \<in> set (rj_health_profile_ids j)" for r j h
    using floor [OF that(1)] that(2,3) req(2) gates
    by (auto simp: health_covered_def health_of_reliability_def list_all_iff)
  have empty: "\<exists>j. vq_empty_floor_justification q = Some j \<and>
       fj_authority_profile j = ''release.empty-reliability-floor-authority@1'' \<and> fj_reason j \<noteq> [] \<and>
       fj_current j \<and> fj_scope_binding j = deployment_scope i" if "\<forall>r. \<not> floor_of i r"
  proof -
    have "floor = []" using floor_of_only [OF req(3)] that by (cases floor) auto
    then show ?thesis using req(4,6)
      by (auto simp: floor_covered_def justified_for_def split: option.splits)
  qed
  have "verify_runtime i (e\<lparr>ve_vendor_controller_green := green\<rparr>) q version = Inr ()" for green
    using assms(1) by (simp add: verify_runtime_def observation_matches_def)
  then show ?thesis using m gates floor joined empty req(5) unfolding observation_matches_def by blast
qed

section \<open>A deployment that is verified\<close>

definition sample_reference :: string where "sample_reference = ''evidence:e''"

definition sample_intent :: deployment_intent where
  "sample_intent =
     \<lparr>di_deployment_operation_id = ''op'', di_target_id = ''t'',
      di_expected_release_target_state_version = 0,
      di_artifact = \<lparr>ai_algorithm = ''sha256'', ai_digest = replicate 64 (CHR ''a'')\<rparr>,
      di_configuration = \<lparr>tc_identity = ''c'', tc_generation = ''g'', tc_semantic_profile = ''s''\<rparr>,
      di_target_environment_class = ''environment.validation@1'',
      di_runtime_profile_set = [''runtime.web-bff@1''], di_promotion_id = ''p'',
      di_release_policy_profile_and_version = ''policy'', di_validation_scope = GeneralValidation,
      di_rollout_scope = ''r'', di_schema_state = ''schema'', di_api_compatibility_family = ''api'',
      di_event_compatibility_set = [''e''], di_worker_specialization_set = []\<rparr>"

definition sample_requirements :: verification_requirements where
  "sample_requirements =
     \<lparr>vq_authority_profile = ''release.runtime-verification-requirements@1'',
      vq_evidence = sample_reference, vq_scope_binding = ''deployment:t:op'',
      vq_release_target_state_version = 1, vq_release_policy_profile = ''policy'',
      vq_release_policy_evidence = sample_reference,
      vq_required_reliability_ids = [''rel.security-session-authority@1''],
      vq_required_health_ids = [''health.security-authority@1''], vq_current = True,
      vq_requirements_principal = ''principal.release-promote@1'',
      vq_empty_floor_justification = None\<rparr>"

definition sample_health_gate :: health_gate where
  "sample_health_gate =
     \<lparr>hg_assessment = \<lparr>ha_profile_id = ''health.security-authority@1'', ha_state = HsHealthy,
        ha_reason_class = ''healthy_or_eligible'', ha_evidence_complete = True\<rparr>,
      hg_evidence = sample_reference, hg_owning_policy_profile = ''policy'',
      hg_policy_evidence = sample_reference, hg_scope_binding = ''deployment:t:op'',
      hg_release_target_state_version = 1, hg_policy_current = True, hg_admission_eligible = True\<rparr>"

definition sample_verification :: verification_evidence where
  "sample_verification =
     \<lparr>ve_evidence = sample_reference, ve_evidence_current = True,
      ve_scope_binding = ''deployment:t:op'', ve_release_target_state_version = 1,
      ve_observed_artifact = Some (''sha256:'' @ replicate 64 (CHR ''a'')),
      ve_observed_configuration_generation = Some ''g'',
      ve_runtime_profile_set = [''runtime.web-bff@1''],
      ve_runtime_admission_evidence = sample_reference, ve_runtime_admission_current = True,
      ve_configuration_currentness_evidence = sample_reference, ve_configuration_current = True,
      ve_release_policy_profile = ''policy'', ve_release_policy_evidence = sample_reference,
      ve_release_policy_current = True,
      ve_verifier_authority_profile = ''principal.release-verify@1'',
      ve_verifier_authority_evidence = sample_reference, ve_verifier_authority_current = True,
      ve_health_gates = [sample_health_gate], ve_vendor_controller_green = False,
      ve_worker_specialization_set = []\<rparr>"

lemma sample_requirements_validate:
  "requirements_validate sample_requirements sample_intent 1 (Some sample_reference) =
     Inr [''health.security-authority@1'']"
  by code_simp

lemma sample_verified: "verify_runtime sample_intent sample_verification sample_requirements 1 = Inr ()"
  by code_simp

lemma sample_join:
  "find_join ''rel.security-session-authority@1'' \<noteq> None \<and>
   rj_health_profile_ids (the (find_join ''rel.security-session-authority@1'')) =
     [''health.security-authority@1'']"
  by code_simp

lemma sample_floor: "floor_of sample_intent ''rel.security-session-authority@1''"
  unfolding floor_of_def sample_intent_def profile_floors_def by simp

text \<open>A deployment whose floor is empty: the optional edge, under a justification for its scope.\<close>

definition edge_intent :: deployment_intent where
  "edge_intent = sample_intent\<lparr>di_runtime_profile_set := [''runtime.edge-optional@1'']\<rparr>"

definition edge_requirements :: verification_requirements where
  "edge_requirements = sample_requirements\<lparr>vq_empty_floor_justification := Some
     \<lparr>fj_reason = ''no floor'', fj_authority_profile = ''release.empty-reliability-floor-authority@1'',
      fj_evidence = sample_reference, fj_scope_binding = ''deployment:t:op'', fj_current = True\<rparr>\<rparr>"

definition edge_verification :: verification_evidence where
  "edge_verification = sample_verification\<lparr>ve_runtime_profile_set := [''runtime.edge-optional@1'']\<rparr>"

lemma edge_verified: "verify_runtime edge_intent edge_verification edge_requirements 1 = Inr ()"
  by code_simp

theorem verified_deployment_meets_floor_witness:
  "admitting_gate sample_intent sample_verification 1 ''health.security-authority@1'' \<and>
   (\<forall>green. verify_runtime edge_intent (edge_verification\<lparr>ve_vendor_controller_green := green\<rparr>)
      edge_requirements 1 = Inr ()) \<and>
   admitting_gate edge_intent edge_verification 1 ''health.security-authority@1'' \<and>
   vq_empty_floor_justification edge_requirements \<noteq> None"
proof -
  obtain j where j: "find_join ''rel.security-session-authority@1'' = Some j"
    "rj_health_profile_ids j = [''health.security-authority@1'']"
    using sample_join by force
  have "\<not> floor_of edge_intent r" for r
    by (simp add: floor_of_def edge_intent_def profile_floors_def worker_runtime_def)
  then have "vq_empty_floor_justification edge_requirements \<noteq> None"
    using verified_deployment_meets_floor [OF edge_verified] by auto
  moreover have "''health.security-authority@1'' \<in> set (vq_required_health_ids edge_requirements)"
    by (simp add: edge_requirements_def sample_requirements_def)
  moreover have "''health.security-authority@1'' \<in> set (rj_health_profile_ids j)" using j(2) by simp
  ultimately show ?thesis
    using verified_deployment_meets_floor [OF sample_verified] verified_deployment_meets_floor [OF edge_verified]
      sample_floor j(1) by blast
qed

end
