(* ===== verification/Release_Authority.thy ===== *)
theory Release_Authority
  imports Release_Verification
begin

text \<open>
  src/src/jlmirror_release/authority.py: the admission of a deployment and the authority of
  one release target, which admits one effectful deployment at a time, counts confirmed
  effects and makes an artifact current only after its runtime verification.
\<close>

section \<open>Records\<close>

datatype deployment_observation = NotObserved | EffectConfirmed | EffectAbsentProven | Ambiguous

record release_target =
  tg_target_id :: string
  tg_release_target_state_version :: int
  tg_current_artifact :: "string option"
  tg_current_configuration_generation :: "string option"
  tg_unresolved_operation_id :: "string option"
  tg_pending_artifact :: "string option"
  tg_pending_configuration_generation :: "string option"

record authority_gate =
  ag_gate_id :: string
  ag_authority_profile :: string
  ag_evidence :: string
  ag_scope_binding :: string
  ag_release_target_state_version :: int
  ag_current :: bool

definition gate_valid_for ::
  "authority_gate \<Rightarrow> deployment_intent \<Rightarrow> string \<Rightarrow> int option \<Rightarrow> string option \<Rightarrow> bool" where
  "gate_valid_for g i expected_gate expected_version expected_profile \<longleftrightarrow>
     ag_gate_id g = expected_gate \<and> ag_authority_profile g \<noteq> [] \<and>
     (case expected_profile of None \<Rightarrow> True | Some p \<Rightarrow> ag_authority_profile g = p) \<and>
     evidence_reference (ag_evidence g) \<and> ag_scope_binding g = deployment_scope i \<and>
     ag_release_target_state_version g =
       (case expected_version of
          None \<Rightarrow> di_expected_release_target_state_version i | Some v \<Rightarrow> v) \<and>
     ag_current g"

record deployment_record =
  dd_intent :: deployment_intent
  dd_state :: promotion_state
  dd_promotion_evidence :: string
  dd_configuration_validation_evidence :: string
  dd_rollout_compatibility_evidence :: string
  dd_admission_gate_evidence :: "string list"
  dd_requirements :: verification_requirements
  dd_requirements_evidence :: string
  dd_resulting_version :: "int option"
  dd_durable_target_evidence :: "string option"
  dd_observed_artifact :: "string option"
  dd_observed_configuration_generation :: "string option"
  dd_runtime_verification_evidence :: "string option"
  dd_reconciliation_authority_evidence :: "string option"

record admission_evidence =
  ad_provenance :: build_provenance
  ad_promotion :: promotion_evidence
  ad_configuration_validation :: configuration_validation
  ad_rollout_compatibility :: rollout_compatibility
  ad_deployment_principal_class :: string
  ad_current_authority_gates :: "authority_gate list"
  ad_requirements :: verification_requirements

section \<open>Admission\<close>

text \<open>The gates with their owners, in the order in which their evidence is recorded.\<close>

definition admission_gates :: "(string \<times> string) list" where
  "admission_gates =
     [(''deployment_principal'', ''release.deployment-principal@1''),
      (''release_policy'', ''release.release-policy@1''),
      (''release_target_authority'', ''release.release-target-authority@1''),
      (''reliability'', ''release.reliability@1''),
      (''security_recovery'', ''release.security-recovery@1'')]"

definition gate_named :: "admission_evidence \<Rightarrow> string \<Rightarrow> authority_gate option" where
  "gate_named a name = find (\<lambda>g. ag_gate_id g = name) (ad_current_authority_gates a)"

definition gate_evidence :: "admission_evidence \<Rightarrow> string \<Rightarrow> string" where
  "gate_evidence a name = (case gate_named a name of None \<Rightarrow> [] | Some g \<Rightarrow> ag_evidence g)"

definition gates_validated :: "deployment_intent \<Rightarrow> admission_evidence \<Rightarrow> bool" where
  "gates_validated i a \<longleftrightarrow>
     distinct (map ag_gate_id (ad_current_authority_gates a)) \<and>
     set (map ag_gate_id (ad_current_authority_gates a)) = set (map fst admission_gates) \<and>
     list_all (\<lambda>g. gate_valid_for g i (ag_gate_id g) None (map_of admission_gates (ag_gate_id g)))
       (ad_current_authority_gates a)"

definition promotion_matches_intent :: "promotion_evidence \<Rightarrow> deployment_intent \<Rightarrow> bool" where
  "promotion_matches_intent p i \<longleftrightarrow>
     pm_promotion_id p = di_promotion_id i \<and>
     pm_artifact_identity p = artifact_canonical (di_artifact i) \<and>
     pm_target_id p = di_target_id i \<and>
     pm_target_environment_class p = di_target_environment_class i \<and>
     pm_validation_scope p = di_validation_scope i \<and>
     pm_rollout_scope_id p = di_rollout_scope i \<and>
     pm_runtime_profile_set p = di_runtime_profile_set i \<and>
     pm_target_configuration p = di_configuration i \<and>
     pm_release_policy_profile p = di_release_policy_profile_and_version i \<and>
     pm_schema_state p = di_schema_state i \<and>
     pm_api_compatibility_family p = di_api_compatibility_family i \<and>
     pm_event_compatibility_set p = di_event_compatibility_set i"

definition configuration_matches ::
  "configuration_validation \<Rightarrow> promotion_evidence \<Rightarrow> deployment_intent \<Rightarrow> bool" where
  "configuration_matches c p i \<longleftrightarrow>
     cv_target_configuration c = di_configuration i \<and> cv_validation_scope c = di_validation_scope i \<and>
     configuration_validated c \<and> pm_configuration_validation_evidence p = cv_evidence c"

definition rollout_matches ::
  "rollout_compatibility \<Rightarrow> promotion_evidence \<Rightarrow> deployment_intent \<Rightarrow> bool" where
  "rollout_matches r p i \<longleftrightarrow>
     rc_release_scope_id r = di_rollout_scope i \<and> rc_validation_scope r = di_validation_scope i \<and>
     rollout_compatible r \<and> pm_rollout_compatibility_evidence p = rc_evidence r \<and>
     (let cell = rc_cell_compatibility r in
      if cl_applicable cell
      then pm_cell_metadata_identity p = cl_metadata_identity cell \<and>
           pm_cell_metadata_generation p = cl_metadata_generation cell
      else pm_cell_metadata_identity p = None \<and> pm_cell_metadata_generation p = None)"

definition require_deployment_admission :: "deployment_intent \<Rightarrow> admission_evidence \<Rightarrow> unit res" where
  "require_deployment_admission i a =
     bindR (demand (promotion_authorized (ad_promotion a) (ad_provenance a))) (\<lambda>_.
     bindR (demand (promotion_matches_intent (ad_promotion a) i)) (\<lambda>_.
     bindR (demand (configuration_matches (ad_configuration_validation a) (ad_promotion a) i)) (\<lambda>_.
     bindR (demand (rollout_matches (ad_rollout_compatibility a) (ad_promotion a) i)) (\<lambda>_.
     bindR (demand (ad_deployment_principal_class a = ''principal.release-deploy@1'')) (\<lambda>_.
     bindR (demand (gates_validated i a)) (\<lambda>_.
     bindR (demand (bp_release_policy_current (ad_provenance a))) (\<lambda>_.
     bindR (requirements_validate (ad_requirements a) i
              (di_expected_release_target_state_version i + 1)
              (Some (gate_evidence a ''release_policy''))) (\<lambda>_.
     Inr ()))))))))"

section \<open>The authority of a target\<close>

record release_authority =
  ra_target :: release_target
  ra_records :: "(string, deployment_record) dict"

definition release_authority_init :: "release_target \<Rightarrow> release_authority res" where
  "release_authority_init t =
     bindR (demand (0 \<le> tg_release_target_state_version t \<and> tg_target_id t \<noteq> [])) (\<lambda>_.
     Inr \<lparr>ra_target = t, ra_records = []\<rparr>)"

text \<open>The methods hold the lock and change nothing before they raise.\<close>

type_synonym 'a transition = "release_authority \<Rightarrow> ('a \<times> release_authority) res"

definition put_record :: "string \<Rightarrow> deployment_record \<Rightarrow> deployment_record transition" where
  "put_record k r s = Inr (r, s\<lparr>ra_records := AList.update k r (ra_records s)\<rparr>)"

definition new_record :: "deployment_intent \<Rightarrow> admission_evidence \<Rightarrow> deployment_record" where
  "new_record i a =
     \<lparr>dd_intent = i, dd_state = Deploying,
      dd_promotion_evidence = pm_promotion_evidence (ad_promotion a),
      dd_configuration_validation_evidence = cv_evidence (ad_configuration_validation a),
      dd_rollout_compatibility_evidence = rc_evidence (ad_rollout_compatibility a),
      dd_admission_gate_evidence = map (\<lambda>(name, _). gate_evidence a name) admission_gates,
      dd_requirements = ad_requirements a,
      dd_requirements_evidence = vq_evidence (ad_requirements a),
      dd_resulting_version = None, dd_durable_target_evidence = None,
      dd_observed_artifact = None, dd_observed_configuration_generation = None,
      dd_runtime_verification_evidence = None, dd_reconciliation_authority_evidence = None\<rparr>"

definition create_or_observe :: "deployment_intent \<Rightarrow> admission_evidence \<Rightarrow> deployment_record transition" where
  "create_or_observe i a s =
     bindR (require_deployment_admission i a) (\<lambda>_.
     (case map_of (ra_records s) (di_deployment_operation_id i) of
        Some existing \<Rightarrow>
          bindR (demand (dd_intent existing = i)) (\<lambda>_.
          bindR (demand (dd_requirements existing = ad_requirements a)) (\<lambda>_.
          Inr (existing, s)))
      | None \<Rightarrow>
          bindR (demand (di_target_id i = tg_target_id (ra_target s))) (\<lambda>_.
          bindR (demand (di_expected_release_target_state_version i =
                         tg_release_target_state_version (ra_target s))) (\<lambda>_.
          bindR (demand (tg_unresolved_operation_id (ra_target s) = None)) (\<lambda>_.
          put_record (di_deployment_operation_id i) (new_record i a)
            (s\<lparr>ra_target := (ra_target s)
                 \<lparr>tg_unresolved_operation_id := Some (di_deployment_operation_id i)\<rparr>\<rparr>))))))"

definition terminal :: "promotion_state \<Rightarrow> bool" where
  "terminal p \<longleftrightarrow> p \<in> {Completed, Rejected, Aborted, Superseded}"

definition clear_pending :: "string \<Rightarrow> release_target \<Rightarrow> release_target" where
  "clear_pending k t = t
     \<lparr>tg_unresolved_operation_id :=
        (if tg_unresolved_operation_id t = Some k then None else tg_unresolved_operation_id t),
      tg_pending_artifact := None, tg_pending_configuration_generation := None\<rparr>"

text \<open>What the record says was seen of the effect.\<close>

definition effect_matches :: "deployment_record \<Rightarrow> string option \<Rightarrow> string option \<Rightarrow> bool" where
  "effect_matches r artifact configuration \<longleftrightarrow>
     artifact = Some (artifact_canonical (di_artifact (dd_intent r))) \<and>
     configuration = Some (tc_generation (di_configuration (dd_intent r)))"

definition observe_settled ::
  "string \<Rightarrow> deployment_record \<Rightarrow> deployment_observation \<Rightarrow> string option \<Rightarrow> string option \<Rightarrow>
   string \<Rightarrow> string option \<Rightarrow> deployment_record transition" where
  "observe_settled k r observation artifact configuration evidence reconciliation s =
     (if observation = EffectAbsentProven
      then put_record k
             (r\<lparr>dd_state := Aborted, dd_durable_target_evidence := Some evidence,
                dd_reconciliation_authority_evidence := reconciliation\<rparr>)
             (s\<lparr>ra_target := clear_pending k (ra_target s)\<rparr>)
      else
        bindR (demand (effect_matches r artifact configuration)) (\<lambda>_.
        (let next_version = tg_release_target_state_version (ra_target s) + 1 in
         bindR (demand (next_version = vq_release_target_state_version (dd_requirements r))) (\<lambda>_.
         put_record k
           (r\<lparr>dd_state := RuntimeVerification, dd_resulting_version := Some next_version,
              dd_durable_target_evidence := Some evidence, dd_observed_artifact := artifact,
              dd_observed_configuration_generation := configuration,
              dd_reconciliation_authority_evidence := reconciliation\<rparr>)
           (s\<lparr>ra_target := (ra_target s)
                \<lparr>tg_release_target_state_version := next_version, tg_pending_artifact := artifact,
                 tg_pending_configuration_generation := configuration\<rparr>\<rparr>)))))"

definition observe_effect ::
  "string \<Rightarrow> deployment_observation \<Rightarrow> string option \<Rightarrow> string option \<Rightarrow> string option \<Rightarrow>
   authority_gate option \<Rightarrow> deployment_record transition" where
  "observe_effect k observation artifact configuration evidence authority s =
     (case map_of (ra_records s) k of
        None \<Rightarrow> Inl ReleaseError
      | Some r \<Rightarrow>
          if terminal (dd_state r)
          then (if dd_state r = Aborted \<and> observation = EffectAbsentProven then Inr (r, s)
                else Inl ReleaseError)
          else if dd_state r = RuntimeVerification
          then (if observation = EffectConfirmed \<and> effect_matches r artifact configuration
                then Inr (r, s) else Inl ReleaseError)
          else if observation \<in> {Ambiguous, NotObserved}
          then put_record k (r\<lparr>dd_state := ReleaseReconciliation\<rparr>) s
          else
            (case evidence of
               None \<Rightarrow> Inl ReleaseError
             | Some ref \<Rightarrow>
                 bindR (demand (evidence_reference ref)) (\<lambda>_.
                 if dd_state r = ReleaseReconciliation
                 then
                   (case authority of
                      None \<Rightarrow> Inl ReleaseError
                    | Some g \<Rightarrow>
                        bindR (demand (gate_valid_for g (dd_intent r) ''reconciliation_authority''
                                 (Some (tg_release_target_state_version (ra_target s))) None)) (\<lambda>_.
                        observe_settled k r observation artifact configuration ref
                          (Some (ag_evidence g)) s))
                 else observe_settled k r observation artifact configuration ref
                        (dd_reconciliation_authority_evidence r) s)))"

definition complete_runtime_verification ::
  "string \<Rightarrow> verification_evidence \<Rightarrow> deployment_record transition" where
  "complete_runtime_verification k e s =
     (case map_of (ra_records s) k of
        None \<Rightarrow> Inl ReleaseError
      | Some r \<Rightarrow>
          if dd_state r = Completed then Inr (r, s)
          else
            bindR (demand (dd_state r = RuntimeVerification)) (\<lambda>_.
            bindR (demand (tg_unresolved_operation_id (ra_target s) = Some k)) (\<lambda>_.
            bindR (verify_runtime (dd_intent r) e (dd_requirements r)
                     (tg_release_target_state_version (ra_target s))) (\<lambda>_.
            bindR (demand (effect_matches r (tg_pending_artifact (ra_target s))
                     (tg_pending_configuration_generation (ra_target s)))) (\<lambda>_.
            put_record k
              (r\<lparr>dd_state := Completed, dd_runtime_verification_evidence := Some (ve_evidence e)\<rparr>)
              (s\<lparr>ra_target := clear_pending k ((ra_target s)
                   \<lparr>tg_current_artifact := tg_pending_artifact (ra_target s),
                    tg_current_configuration_generation :=
                      tg_pending_configuration_generation (ra_target s)\<rparr>)\<rparr>))))))"

section \<open>Runs\<close>

inductive release_step :: "release_authority \<Rightarrow> release_authority \<Rightarrow> bool" where
  create: "create_or_observe i a s = Inr (r, t) \<Longrightarrow> release_step s t"
| observe: "observe_effect k ob artifact configuration evidence authority s = Inr (r, t) \<Longrightarrow> release_step s t"
| complete: "complete_runtime_verification k e s = Inr (r, t) \<Longrightarrow> release_step s t"

inductive release_run :: "release_authority \<Rightarrow> release_authority \<Rightarrow> bool" where
  run_refl: "release_run s s"
| run_step: "release_run s t \<Longrightarrow> release_step t u \<Longrightarrow> release_run s u"

definition unsettled :: "promotion_state \<Rightarrow> bool" where
  "unsettled p \<longleftrightarrow> \<not> terminal p \<and> p \<noteq> RuntimeVerification"

text \<open>
  The effect of a step on the records is the insertion of a fresh one or the replacement of
  one by a later state of it. These are the five ways in which a state changes.
\<close>

inductive release_change :: "release_authority \<Rightarrow> release_authority \<Rightarrow> bool" where
  same: "release_change s s"
| created:
    "require_deployment_admission i a = Inr () \<Longrightarrow>
     map_of (ra_records s) (di_deployment_operation_id i) = None \<Longrightarrow>
     di_target_id i = tg_target_id (ra_target s) \<Longrightarrow>
     di_expected_release_target_state_version i = tg_release_target_state_version (ra_target s) \<Longrightarrow>
     tg_unresolved_operation_id (ra_target s) = None \<Longrightarrow>
     release_change s
       \<lparr>ra_target = (ra_target s)\<lparr>tg_unresolved_operation_id := Some (di_deployment_operation_id i)\<rparr>,
        ra_records = AList.update (di_deployment_operation_id i) (new_record i a) (ra_records s)\<rparr>"
| ambiguous:
    "map_of (ra_records s) k = Some r \<Longrightarrow> unsettled (dd_state r) \<Longrightarrow>
     release_change s
       (s\<lparr>ra_records := AList.update k (r\<lparr>dd_state := ReleaseReconciliation\<rparr>) (ra_records s)\<rparr>)"
| absent:
    "map_of (ra_records s) k = Some r \<Longrightarrow> unsettled (dd_state r) \<Longrightarrow>
     release_change s
       \<lparr>ra_target = clear_pending k (ra_target s),
        ra_records = AList.update k
          (r\<lparr>dd_state := Aborted, dd_durable_target_evidence := Some ref,
             dd_reconciliation_authority_evidence := rec\<rparr>) (ra_records s)\<rparr>"
| confirmed:
    "map_of (ra_records s) k = Some r \<Longrightarrow> unsettled (dd_state r) \<Longrightarrow>
     effect_matches r artifact configuration \<Longrightarrow>
     v = tg_release_target_state_version (ra_target s) + 1 \<Longrightarrow>
     release_change s
       \<lparr>ra_target = (ra_target s)
          \<lparr>tg_release_target_state_version := v, tg_pending_artifact := artifact,
           tg_pending_configuration_generation := configuration\<rparr>,
        ra_records = AList.update k
          (r\<lparr>dd_state := RuntimeVerification, dd_resulting_version := Some v,
             dd_durable_target_evidence := Some ref, dd_observed_artifact := artifact,
             dd_observed_configuration_generation := configuration,
             dd_reconciliation_authority_evidence := rec\<rparr>) (ra_records s)\<rparr>"
| completed:
    "map_of (ra_records s) k = Some r \<Longrightarrow> dd_state r = RuntimeVerification \<Longrightarrow>
     tg_unresolved_operation_id (ra_target s) = Some k \<Longrightarrow>
     verify_runtime (dd_intent r) e (dd_requirements r) (tg_release_target_state_version (ra_target s)) = Inr () \<Longrightarrow>
     effect_matches r (tg_pending_artifact (ra_target s)) (tg_pending_configuration_generation (ra_target s)) \<Longrightarrow>
     release_change s
       \<lparr>ra_target = clear_pending k ((ra_target s)
          \<lparr>tg_current_artifact := tg_pending_artifact (ra_target s),
           tg_current_configuration_generation := tg_pending_configuration_generation (ra_target s)\<rparr>),
        ra_records = AList.update k
          (r\<lparr>dd_state := Completed, dd_runtime_verification_evidence := Some (ve_evidence e)\<rparr>)
          (ra_records s)\<rparr>"

text \<open>States that a record can have.\<close>

definition deployment_states :: "promotion_state set" where
  "deployment_states = {Deploying, ReleaseReconciliation, RuntimeVerification, Completed, Aborted}"


section \<open>Every step is one of the changes\<close>

lemma put_record_Inr [res_simps]:
  "put_record k r s = Inr (r', t) \<longleftrightarrow>
     r' = r \<and> t = s\<lparr>ra_records := AList.update k r (ra_records s)\<rparr>"
  by (auto simp: put_record_def)

lemma create_or_observe_Inr:
  "create_or_observe i a s = Inr (r, t) \<longleftrightarrow>
     require_deployment_admission i a = Inr () \<and>
     (case map_of (ra_records s) (di_deployment_operation_id i) of
        Some existing \<Rightarrow> dd_intent existing = i \<and> dd_requirements existing = ad_requirements a \<and>
          r = existing \<and> t = s
      | None \<Rightarrow> di_target_id i = tg_target_id (ra_target s) \<and>
          di_expected_release_target_state_version i = tg_release_target_state_version (ra_target s) \<and>
          tg_unresolved_operation_id (ra_target s) = None \<and> r = new_record i a \<and>
          t = \<lparr>ra_target = (ra_target s)
                 \<lparr>tg_unresolved_operation_id := Some (di_deployment_operation_id i)\<rparr>,
               ra_records = AList.update (di_deployment_operation_id i) (new_record i a) (ra_records s)\<rparr>)"
  by (cases "map_of (ra_records s) (di_deployment_operation_id i)")
     (auto simp: create_or_observe_def bindR_Inr_iff demand_Inr_iff put_record_Inr)

lemma create_or_observe_change:
  assumes "create_or_observe i a s = Inr (r, t)"
  shows "release_change s t"
proof (cases "map_of (ra_records s) (di_deployment_operation_id i)")
  case None
  with assms have m: "require_deployment_admission i a = Inr ()"
    "di_target_id i = tg_target_id (ra_target s)"
    "di_expected_release_target_state_version i = tg_release_target_state_version (ra_target s)"
    "tg_unresolved_operation_id (ra_target s) = None"
    and t: "t = \<lparr>ra_target = (ra_target s)
        \<lparr>tg_unresolved_operation_id := Some (di_deployment_operation_id i)\<rparr>,
      ra_records = AList.update (di_deployment_operation_id i) (new_record i a) (ra_records s)\<rparr>"
    unfolding create_or_observe_Inr by simp_all
  show ?thesis unfolding t by (rule release_change.created [OF m(1) None m(2-4)])
next
  case (Some existing)
  with assms have "t = s" unfolding create_or_observe_Inr by simp
  then show ?thesis by (simp add: release_change.same)
qed

lemma observe_settled_change:
  assumes "observe_settled k r ob artifact configuration ref rec s = Inr (r', t)"
    and "map_of (ra_records s) k = Some r" "unsettled (dd_state r)"
  shows "release_change s t"
proof (cases "ob = EffectAbsentProven")
  case True
  with assms(1) have t: "t = \<lparr>ra_target = clear_pending k (ra_target s),
      ra_records = AList.update k (r\<lparr>dd_state := Aborted, dd_durable_target_evidence := Some ref,
        dd_reconciliation_authority_evidence := rec\<rparr>) (ra_records s)\<rparr>"
    by (simp add: observe_settled_def put_record_Inr)
  show ?thesis unfolding t by (rule release_change.absent [OF assms(2,3)])
next
  case False
  with assms(1) have m: "effect_matches r artifact configuration"
    and t: "t = \<lparr>ra_target = (ra_target s)
          \<lparr>tg_release_target_state_version := tg_release_target_state_version (ra_target s) + 1,
           tg_pending_artifact := artifact, tg_pending_configuration_generation := configuration\<rparr>,
        ra_records = AList.update k
          (r\<lparr>dd_state := RuntimeVerification,
             dd_resulting_version := Some (tg_release_target_state_version (ra_target s) + 1),
             dd_durable_target_evidence := Some ref, dd_observed_artifact := artifact,
             dd_observed_configuration_generation := configuration,
             dd_reconciliation_authority_evidence := rec\<rparr>) (ra_records s)\<rparr>"
    by (simp_all add: observe_settled_def Let_def bindR_Inr_iff demand_Inr_iff put_record_Inr)
  show ?thesis unfolding t by (rule release_change.confirmed [OF assms(2,3) m refl])
qed

text \<open>What an observation that is accepted has found, by the state of its record.\<close>

lemma observe_effect_cases:
  assumes "observe_effect k ob artifact configuration evidence authority s = Inr (r', t)"
  obtains (unchanged) r where "map_of (ra_records s) k = Some r" "t = s" "r' = r"
      "dd_state r \<in> {Aborted, RuntimeVerification}"
  | (unclear) r where "map_of (ra_records s) k = Some r" "unsettled (dd_state r)" "ob \<in> {Ambiguous, NotObserved}"
      "r' = r\<lparr>dd_state := ReleaseReconciliation\<rparr>"
      "t = s\<lparr>ra_records := AList.update k r' (ra_records s)\<rparr>"
  | (settled) r ref rec where "map_of (ra_records s) k = Some r" "unsettled (dd_state r)" "evidence_reference ref"
      "observe_settled k r ob artifact configuration ref rec s = Inr (r', t)"
proof -
  from assms obtain r where r: "map_of (ra_records s) k = Some r"
    by (cases "map_of (ra_records s) k") (auto simp: observe_effect_def)
  consider (t) "terminal (dd_state r)" | (rv) "dd_state r = RuntimeVerification" "\<not> terminal (dd_state r)"
    | (open_state) "unsettled (dd_state r)" unfolding unsettled_def by blast
  then show ?thesis
  proof cases
    case t
    then show ?thesis using assms r unchanged [of r] by (simp add: observe_effect_def split: if_splits)
  next
    case rv
    then show ?thesis using assms r unchanged [of r] by (simp add: observe_effect_def split: if_splits)
  next
    case open_state
    show ?thesis
    proof (cases "ob \<in> {Ambiguous, NotObserved}")
      case True
      then have "r' = r\<lparr>dd_state := ReleaseReconciliation\<rparr>"
        "t = s\<lparr>ra_records := AList.update k r' (ra_records s)\<rparr>"
        using assms r open_state by (simp_all add: observe_effect_def put_record_Inr unsettled_def)
      then show ?thesis using unclear r open_state True by blast
    next
      case False
      then obtain ref rec where "evidence_reference ref"
        "observe_settled k r ob artifact configuration ref rec s = Inr (r', t)"
        using assms r open_state
        by (auto simp: observe_effect_def unsettled_def bindR_Inr_iff demand_Inr_iff split: option.splits if_splits)
      then show ?thesis using settled r open_state by blast
    qed
  qed
qed

lemma observe_effect_change:
  assumes "observe_effect k ob artifact configuration evidence authority s = Inr (r', t)"
  shows "release_change s t"
  using assms
proof (cases rule: observe_effect_cases)
  case unchanged
  then show ?thesis by (simp add: release_change.same)
next
  case (unclear r)
  then show ?thesis using release_change.ambiguous [of s k r] by simp
next
  case (settled r ref rec)
  then show ?thesis using observe_settled_change by blast
qed

lemma complete_change:
  assumes "complete_runtime_verification k e s = Inr (r', t)"
  shows "release_change s t"
proof -
  from assms obtain r where r: "map_of (ra_records s) k = Some r"
    by (cases "map_of (ra_records s) k") (auto simp: complete_runtime_verification_def)
  show ?thesis
  proof (cases "dd_state r = Completed")
    case True
    then show ?thesis using assms r by (simp add: complete_runtime_verification_def release_change.same)
  next
    case False
    then have m: "dd_state r = RuntimeVerification" "tg_unresolved_operation_id (ra_target s) = Some k"
      "verify_runtime (dd_intent r) e (dd_requirements r) (tg_release_target_state_version (ra_target s)) = Inr ()"
      "effect_matches r (tg_pending_artifact (ra_target s)) (tg_pending_configuration_generation (ra_target s))"
      and t: "t = \<lparr>ra_target = clear_pending k ((ra_target s)
            \<lparr>tg_current_artifact := tg_pending_artifact (ra_target s),
             tg_current_configuration_generation := tg_pending_configuration_generation (ra_target s)\<rparr>),
          ra_records = AList.update k
            (r\<lparr>dd_state := Completed, dd_runtime_verification_evidence := Some (ve_evidence e)\<rparr>)
            (ra_records s)\<rparr>"
      using assms r
      by (simp_all add: complete_runtime_verification_def bindR_Inr_iff demand_Inr_iff put_record_Inr)
    show ?thesis unfolding t by (rule release_change.completed [OF r m])
  qed
qed

lemma release_step_change: "release_step s t \<Longrightarrow> release_change s t"
  by (auto elim!: release_step.cases
        intro: create_or_observe_change observe_effect_change complete_change)

section \<open>The invariant of a target\<close>

definition resulting :: "release_authority \<Rightarrow> string \<Rightarrow> int option" where
  "resulting s k = Option.bind (map_of (ra_records s) k) dd_resulting_version"

definition record_ok :: "release_target \<Rightarrow> string \<Rightarrow> deployment_record \<Rightarrow> bool" where
  "record_ok t k r \<longleftrightarrow>
     di_deployment_operation_id (dd_intent r) = k \<and> di_target_id (dd_intent r) = tg_target_id t \<and>
     dd_state r \<in> deployment_states \<and>
     (\<not> terminal (dd_state r) \<longrightarrow> tg_unresolved_operation_id t = Some k) \<and>
     (unsettled (dd_state r) \<longrightarrow>
        di_expected_release_target_state_version (dd_intent r) = tg_release_target_state_version t \<and>
        dd_resulting_version r = None) \<and>
     (dd_state r = Aborted \<longrightarrow> dd_resulting_version r = None) \<and>
     (dd_state r = RuntimeVerification \<longrightarrow>
        dd_resulting_version r = Some (tg_release_target_state_version t) \<and>
        effect_matches r (tg_pending_artifact t) (tg_pending_configuration_generation t)) \<and>
     (dd_state r = Completed \<longrightarrow>
        (\<exists>v e. dd_resulting_version r = Some v \<and> v \<le> tg_release_target_state_version t \<and>
           verify_runtime (dd_intent r) e (dd_requirements r) v = Inr () \<and>
           dd_runtime_verification_evidence r = Some (ve_evidence e)))"

definition records_ok :: "release_authority \<Rightarrow> bool" where
  "records_ok s \<longleftrightarrow> (\<forall>k r. map_of (ra_records s) k = Some r \<longrightarrow> record_ok (ra_target s) k r)"

lemmas state_defs = deployment_states_def terminal_def unsettled_def

lemma records_okD: "records_ok s \<Longrightarrow> map_of (ra_records s) k = Some r \<Longrightarrow> record_ok (ra_target s) k r"
  unfolding records_ok_def by blast

text \<open>An open record is the only one: a second one would own the target as well.\<close>

lemma single_open:
  "records_ok s \<Longrightarrow> map_of (ra_records s) k = Some r \<Longrightarrow> \<not> terminal (dd_state r) \<Longrightarrow>
   map_of (ra_records s) k' = Some r' \<Longrightarrow> \<not> terminal (dd_state r') \<Longrightarrow> k' = k"
  using records_okD [of s k r] records_okD [of s k' r'] unfolding record_ok_def by simp

text \<open>
  A change replaces one record. The others keep their invariant when they are terminal, as
  long as the version of the target does not fall.
\<close>

lemma record_ok_terminal:
  "record_ok t k r \<Longrightarrow> terminal (dd_state r) \<Longrightarrow> tg_target_id u = tg_target_id t \<Longrightarrow>
   tg_release_target_state_version t \<le> tg_release_target_state_version u \<Longrightarrow> record_ok u k r"
  unfolding record_ok_def
  by (cases "dd_state r"; simp add: state_defs; blast intro: order_trans)

lemma records_ok_replace:
  assumes "records_ok s" "record_ok t k r"
    and "\<And>k' r'. k' \<noteq> k \<Longrightarrow> map_of (ra_records s) k' = Some r' \<Longrightarrow> terminal (dd_state r')"
    and "tg_target_id t = tg_target_id (ra_target s)"
    and "tg_release_target_state_version (ra_target s) \<le> tg_release_target_state_version t"
  shows "records_ok \<lparr>ra_target = t, ra_records = AList.update k r (ra_records s)\<rparr>"
  unfolding records_ok_def
  using assms(2) record_ok_terminal [OF records_okD [OF assms(1)] assms(3) assms(4,5)] by simp

lemma records_ok_replace_open:
  assumes "records_ok s" "map_of (ra_records s) k = Some r" "\<not> terminal (dd_state r)"
    and "record_ok t k r'" "tg_target_id t = tg_target_id (ra_target s)"
    and "tg_release_target_state_version (ra_target s) \<le> tg_release_target_state_version t"
  shows "records_ok \<lparr>ra_target = t, ra_records = AList.update k r' (ra_records s)\<rparr>"
proof (rule records_ok_replace [OF assms(1,4) _ assms(5,6)])
  fix k' q
  assume "k' \<noteq> k" "map_of (ra_records s) k' = Some q"
  then show "terminal (dd_state q)" using single_open [OF assms(1-3)] by blast
qed

lemma records_ok_change:
  assumes "release_change s t" "records_ok s"
  shows "records_ok t"
  using assms(1)
proof cases
  case same
  then show ?thesis using assms(2) by simp
next
  case (created i a)
  have "terminal (dd_state r')" if "map_of (ra_records s) k' = Some r'" for k' r'
    using records_okD [OF assms(2) that] created(6) unfolding record_ok_def by auto
  then show ?thesis unfolding created(1)
    using created(3-6)
    by (intro records_ok_replace [OF assms(2)]) (simp_all add: record_ok_def new_record_def state_defs)
next
  case (ambiguous k r)
  have "records_ok \<lparr>ra_target = ra_target s,
      ra_records = AList.update k (r\<lparr>dd_state := ReleaseReconciliation\<rparr>) (ra_records s)\<rparr>"
    using records_okD [OF assms(2) ambiguous(2)] ambiguous(3)
    by (intro records_ok_replace_open [OF assms(2) ambiguous(2)])
       (simp_all add: record_ok_def state_defs)
  then show ?thesis unfolding ambiguous(1) by (cases s) simp
next
  case (absent k r ref rec)
  show ?thesis unfolding absent(1)
    using records_okD [OF assms(2) absent(2)] absent(3)
    by (intro records_ok_replace_open [OF assms(2) absent(2)])
       (simp_all add: record_ok_def clear_pending_def state_defs)
next
  case (confirmed k r artifact configuration v ref rec)
  show ?thesis unfolding confirmed(1)
    using records_okD [OF assms(2) confirmed(2)] confirmed(3-5)
    by (intro records_ok_replace_open [OF assms(2) confirmed(2)])
       (simp_all add: record_ok_def effect_matches_def state_defs)
next
  case (completed k r e)
  have "\<exists>e'. verify_runtime (dd_intent r) e' (dd_requirements r)
      (tg_release_target_state_version (ra_target s)) = Inr () \<and> ve_evidence e = ve_evidence e'"
    using completed(5) by blast
  then show ?thesis unfolding completed(1)
    using records_okD [OF assms(2) completed(2)] completed(3,4)
    by (intro records_ok_replace_open [OF assms(2) completed(2)])
       (simp_all add: record_ok_def clear_pending_def state_defs)
qed

text \<open>The versions above the initial one are those of the confirmed deployments, one each.\<close>

definition versions_ok :: "int \<Rightarrow> release_authority \<Rightarrow> bool" where
  "versions_ok v0 s \<longleftrightarrow>
     v0 \<le> tg_release_target_state_version (ra_target s) \<and>
     (\<forall>v. (\<exists>k. resulting s k = Some v) \<longleftrightarrow> v0 < v \<and> v \<le> tg_release_target_state_version (ra_target s)) \<and>
     (\<forall>k k' v. resulting s k = Some v \<longrightarrow> resulting s k' = Some v \<longrightarrow> k' = k)"

lemma resulting_update [simp]:
  "resulting \<lparr>ra_target = t, ra_records = AList.update k r (ra_records s)\<rparr> k' =
     (if k' = k then dd_resulting_version r else resulting s k')"
  by (simp add: resulting_def)

lemma resulting_update_same:
  assumes "dd_resulting_version r = resulting s k"
  shows "resulting \<lparr>ra_target = t, ra_records = AList.update k r (ra_records s)\<rparr> = resulting s"
  using assms by (auto simp: fun_eq_iff)

lemma versions_ok_same:
  "versions_ok v0 s \<Longrightarrow> resulting t = resulting s \<Longrightarrow>
   tg_release_target_state_version (ra_target t) = tg_release_target_state_version (ra_target s) \<Longrightarrow>
   versions_ok v0 t"
  unfolding versions_ok_def by simp

lemma versions_ok_range:
  "versions_ok v0 s \<Longrightarrow> (\<exists>k. resulting s k = Some v) \<longleftrightarrow>
     v0 < v \<and> v \<le> tg_release_target_state_version (ra_target s)"
  unfolding versions_ok_def by blast

lemma versions_ok_next:
  assumes "versions_ok v0 s" "resulting s k = None"
    and "resulting t = (resulting s)(k := Some v)" "tg_release_target_state_version (ra_target t) = v"
    and "v = tg_release_target_state_version (ra_target s) + 1"
  shows "versions_ok v0 t"
proof -
  have fresh: "resulting s k' \<noteq> Some v" for k'
    using versions_ok_range [OF assms(1), of v] assms(5) by simp
  have "(\<exists>k'. resulting t k' = Some w) \<longleftrightarrow> w = v \<or> (\<exists>k'. resulting s k' = Some w)" for w
    unfolding assms(3) using assms(2) by (cases "w = v") (simp, blast, simp, metis option.distinct(1))
  then have "(\<exists>k'. resulting t k' = Some w) \<longleftrightarrow> v0 < w \<and> w \<le> v" for w
    using versions_ok_range [OF assms(1), of w] assms(1,5) unfolding versions_ok_def by simp linarith
  moreover have "k'' = k'" if "resulting t k' = Some w" "resulting t k'' = Some w" for k' k'' w
    using that fresh assms(1,3) unfolding versions_ok_def by (auto split: if_splits)
  ultimately show ?thesis using assms(1,4,5) unfolding versions_ok_def by auto
qed

lemma resulting_unsettled:
  "records_ok s \<Longrightarrow> map_of (ra_records s) k = Some r \<Longrightarrow> unsettled (dd_state r) \<Longrightarrow> resulting s k = None"
  using records_okD [of s k r] by (simp add: record_ok_def resulting_def)

lemma clear_pending_version [simp]:
  "tg_release_target_state_version (clear_pending k t) = tg_release_target_state_version t"
  by (simp add: clear_pending_def)

lemma versions_ok_change:
  assumes "release_change s t" "records_ok s" "versions_ok v0 s"
  shows "versions_ok v0 t"
  using assms(1)
proof cases
  case same
  then show ?thesis using assms(3) by simp
next
  case (created i a)
  show ?thesis unfolding created(1)
    by (intro versions_ok_same [OF assms(3)] resulting_update_same)
       (use created(3) in \<open>simp_all add: new_record_def resulting_def\<close>)
next
  case (ambiguous k r)
  have "versions_ok v0 \<lparr>ra_target = ra_target s,
      ra_records = AList.update k (r\<lparr>dd_state := ReleaseReconciliation\<rparr>) (ra_records s)\<rparr>"
    by (intro versions_ok_same [OF assms(3)] resulting_update_same)
       (use ambiguous(2) in \<open>simp_all add: resulting_def\<close>)
  then show ?thesis unfolding ambiguous(1) by (cases s) simp
next
  case (absent k r ref rec)
  show ?thesis unfolding absent(1)
    by (intro versions_ok_same [OF assms(3)] resulting_update_same)
       (use absent(2) in \<open>simp_all add: resulting_def\<close>)
next
  case (confirmed k r artifact configuration v ref rec)
  show ?thesis unfolding confirmed(1)
    by (rule versions_ok_next [OF assms(3) resulting_unsettled [OF assms(2) confirmed(2,3)] _ _ confirmed(5)])
       (auto simp: fun_eq_iff)
next
  case (completed k r e)
  show ?thesis unfolding completed(1)
    by (intro versions_ok_same [OF assms(3)] resulting_update_same)
       (use completed(2) in \<open>simp_all add: resulting_def\<close>)
qed

text \<open>What is current: the initial artifact, or that of the latest completed deployment.\<close>

definition completed_at :: "release_authority \<Rightarrow> string \<Rightarrow> deployment_record \<Rightarrow> int \<Rightarrow> bool" where
  "completed_at s k r v \<longleftrightarrow>
     map_of (ra_records s) k = Some r \<and> dd_state r = Completed \<and> dd_resulting_version r = Some v"

definition runs_effect_of :: "release_target \<Rightarrow> deployment_record \<Rightarrow> bool" where
  "runs_effect_of t r \<longleftrightarrow> effect_matches r (tg_current_artifact t) (tg_current_configuration_generation t)"

definition latest_current :: "release_target \<Rightarrow> release_authority \<Rightarrow> bool" where
  "latest_current t0 s \<longleftrightarrow>
     ((\<nexists>k r v. completed_at s k r v) \<and> tg_current_artifact (ra_target s) = tg_current_artifact t0 \<and>
        tg_current_configuration_generation (ra_target s) = tg_current_configuration_generation t0) \<or>
     (\<exists>k r v. completed_at s k r v \<and> runs_effect_of (ra_target s) r \<and>
        (\<forall>k' r' v'. completed_at s k' r' v' \<longrightarrow> v' \<le> v))"

lemma latest_current_same:
  assumes "latest_current t0 s" "completed_at t = completed_at s"
    and "tg_current_artifact (ra_target t) = tg_current_artifact (ra_target s)"
    and "tg_current_configuration_generation (ra_target t) = tg_current_configuration_generation (ra_target s)"
  shows "latest_current t0 t"
  using assms unfolding latest_current_def runs_effect_of_def by simp

lemma completed_at_same:
  assumes "map_of (ra_records s) k = q" "\<And>r'. q = Some r' \<Longrightarrow> dd_state r' \<noteq> Completed"
    and "dd_state r \<noteq> Completed"
  shows "completed_at \<lparr>ra_target = t, ra_records = AList.update k r (ra_records s)\<rparr> = completed_at s"
  using assms by (auto simp: completed_at_def fun_eq_iff)

lemma clear_pending_current [simp]:
  "tg_current_artifact (clear_pending k t) = tg_current_artifact t"
  "tg_current_configuration_generation (clear_pending k t) = tg_current_configuration_generation t"
  by (simp_all add: clear_pending_def)

lemma completed_version_le:
  "records_ok s \<Longrightarrow> completed_at s k r v \<Longrightarrow> v \<le> tg_release_target_state_version (ra_target s)"
  using records_okD [of s k r] by (auto simp: completed_at_def record_ok_def)

lemma latest_current_change:
  assumes "release_change s t" "records_ok s" "latest_current t0 s"
  shows "latest_current t0 t"
  using assms(1)
proof cases
  case same
  then show ?thesis using assms(3) by simp
next
  case (created i a)
  show ?thesis unfolding created(1)
    by (intro latest_current_same [OF assms(3)] completed_at_same [OF created(3)])
       (simp_all add: new_record_def)
next
  case (ambiguous k r)
  have "latest_current t0 \<lparr>ra_target = ra_target s,
      ra_records = AList.update k (r\<lparr>dd_state := ReleaseReconciliation\<rparr>) (ra_records s)\<rparr>"
    by (intro latest_current_same [OF assms(3)] completed_at_same [OF ambiguous(2)])
       (use ambiguous(3) in \<open>auto simp: state_defs\<close>)
  then show ?thesis unfolding ambiguous(1) by (cases s) simp
next
  case (absent k r ref rec)
  show ?thesis unfolding absent(1)
    by (intro latest_current_same [OF assms(3)] completed_at_same [OF absent(2)])
       (use absent(3) in \<open>auto simp: state_defs\<close>)
next
  case (confirmed k r artifact configuration v ref rec)
  show ?thesis unfolding confirmed(1)
    by (intro latest_current_same [OF assms(3)] completed_at_same [OF confirmed(2)])
       (use confirmed(3) in \<open>auto simp: state_defs\<close>)
next
  case (completed k r e)
  have v: "dd_resulting_version r = Some (tg_release_target_state_version (ra_target s))"
    using records_okD [OF assms(2) completed(2)] completed(3) by (simp add: record_ok_def)
  let ?r = "r\<lparr>dd_state := Completed, dd_runtime_verification_evidence := Some (ve_evidence e)\<rparr>"
  have "completed_at t k ?r (tg_release_target_state_version (ra_target s))"
    unfolding completed(1) by (simp add: completed_at_def v)
  moreover have "runs_effect_of (ra_target t) ?r"
    using completed(6) unfolding completed(1) by (simp add: runs_effect_of_def effect_matches_def)
  moreover have "v' \<le> tg_release_target_state_version (ra_target s)" if "completed_at t k' r' v'" for k' r' v'
  proof (cases "k' = k")
    case True
    then show ?thesis using that v unfolding completed(1) by (auto simp: completed_at_def)
  next
    case False
    then have "completed_at s k' r' v'" using that unfolding completed(1) by (simp add: completed_at_def)
    then show ?thesis by (rule completed_version_le [OF assms(2)])
  qed
  ultimately show ?thesis unfolding latest_current_def by blast
qed

definition admitted_records :: "release_authority \<Rightarrow> bool" where
  "admitted_records s \<longleftrightarrow>
     (\<forall>k r. map_of (ra_records s) k = Some r \<longrightarrow>
        (\<exists>a. require_deployment_admission (dd_intent r) a = Inr () \<and> dd_requirements r = ad_requirements a))"

lemma admitted_records_change:
  assumes "release_change s t" "admitted_records s"
  shows "admitted_records t"
  using assms by cases (auto simp: admitted_records_def new_record_def)

section \<open>Runs keep the invariant\<close>

definition release_inv :: "release_target \<Rightarrow> release_authority \<Rightarrow> bool" where
  "release_inv t0 s \<longleftrightarrow> records_ok s \<and> versions_ok (tg_release_target_state_version t0) s \<and>
     latest_current t0 s \<and> admitted_records s \<and> tg_target_id (ra_target s) = tg_target_id t0"

lemma release_inv_init:
  "release_authority_init t0 = Inr s \<Longrightarrow> release_inv t0 s"
  by (auto simp: release_authority_init_def bindR_Inr_iff release_inv_def records_ok_def
        versions_ok_def latest_current_def admitted_records_def completed_at_def resulting_def)

lemma release_change_target: "release_change s t \<Longrightarrow> tg_target_id (ra_target t) = tg_target_id (ra_target s)"
  by (induction rule: release_change.induct) (simp_all add: clear_pending_def)

lemma release_inv_step:
  "release_step s t \<Longrightarrow> release_inv t0 s \<Longrightarrow> release_inv t0 t"
  using release_step_change [of s t] records_ok_change [of s t]
    versions_ok_change [of s t "tg_release_target_state_version t0"]
    latest_current_change [of s t t0] admitted_records_change [of s t] release_change_target [of s t]
  by (simp add: release_inv_def)

lemma release_inv_run: "release_run s t \<Longrightarrow> release_inv t0 s \<Longrightarrow> release_inv t0 t"
  by (induction rule: release_run.induct) (auto intro: release_inv_step)

definition release_reachable :: "release_target \<Rightarrow> release_authority \<Rightarrow> bool" where
  "release_reachable t0 s \<longleftrightarrow> (\<exists>s0. release_authority_init t0 = Inr s0 \<and> release_run s0 s)"

lemma release_inv_reachable: "release_reachable t0 s \<Longrightarrow> release_inv t0 s"
  unfolding release_reachable_def using release_inv_init release_inv_run by blast

section \<open>What the authority promises\<close>

text \<open>C30: a target has at most one deployment in flight. In every reachable state a deployment
  that is neither completed nor aborted owns the target, every other deployment is settled,
  and while it is open every admission that succeeds only returns an existing record.\<close>

theorem single_deployment_in_flight:
  assumes "release_reachable t0 s" "map_of (ra_records s) k = Some r"
    and "dd_state r \<notin> {Completed, Aborted}"
  shows "tg_unresolved_operation_id (ra_target s) = Some k \<and>
    (\<forall>k' r'. map_of (ra_records s) k' = Some r' \<and> k' \<noteq> k \<longrightarrow> dd_state r' \<in> {Completed, Aborted}) \<and>
    (\<forall>i a r' s'. create_or_observe i a s = Inr (r', s') \<longrightarrow>
       s' = s \<and> map_of (ra_records s) (di_deployment_operation_id i) = Some r')"
proof -
  have inv: "records_ok s" using release_inv_reachable [OF assms(1)] by (simp add: release_inv_def)
  have settled: "dd_state q \<in> {Completed, Aborted} \<longleftrightarrow> terminal (dd_state q)"
    if "map_of (ra_records s) j = Some q" for j q
    using records_okD [OF inv that] by (auto simp: record_ok_def state_defs)
  have own: "tg_unresolved_operation_id (ra_target s) = Some k"
    using records_okD [OF inv assms(2)] settled [OF assms(2)] assms(3) by (simp add: record_ok_def)
  have "dd_state q \<in> {Completed, Aborted}" if "map_of (ra_records s) j = Some q" "j \<noteq> k" for j q
    using single_open [OF inv assms(2) _ that(1)] settled [OF assms(2)] settled [OF that(1)] assms(3) that(2)
    by blast
  moreover have "s' = s \<and> map_of (ra_records s) (di_deployment_operation_id i) = Some r'"
    if "create_or_observe i a s = Inr (r', s')" for i a r' s'
    using that own unfolding create_or_observe_Inr
    by (cases "map_of (ra_records s) (di_deployment_operation_id i)") simp_all
  ultimately show ?thesis using own by blast
qed

text \<open>C29: what is current was admitted, confirmed and verified. In every reachable state the
  current artifact and configuration are those the target started with, and then no
  deployment has completed, or those of the completed deployment with the highest target
  version, whose intent passed the admission and whose runtime verification passed at that
  version under the requirements fixed at its admission.\<close>

theorem current_artifact_verified:
  assumes "release_reachable t0 s"
  shows "((\<nexists>k r v. completed_at s k r v) \<and>
      tg_current_artifact (ra_target s) = tg_current_artifact t0 \<and>
      tg_current_configuration_generation (ra_target s) = tg_current_configuration_generation t0) \<or>
    (\<exists>k r v a e. completed_at s k r v \<and> runs_effect_of (ra_target s) r \<and>
       (\<forall>k' r' v'. completed_at s k' r' v' \<longrightarrow> v' \<le> v) \<and>
       require_deployment_admission (dd_intent r) a = Inr () \<and> dd_requirements r = ad_requirements a \<and>
       verify_runtime (dd_intent r) e (dd_requirements r) v = Inr () \<and>
       dd_runtime_verification_evidence r = Some (ve_evidence e))"
proof -
  have inv: "records_ok s" "latest_current t0 s" "admitted_records s"
    using release_inv_reachable [OF assms] by (simp_all add: release_inv_def)
  show ?thesis
  proof (cases "\<exists>k r v. completed_at s k r v")
    case False
    then show ?thesis using inv(2) unfolding latest_current_def by blast
  next
    case True
    then obtain k r v where c: "completed_at s k r v" "runs_effect_of (ra_target s) r"
      "\<forall>k' r' v'. completed_at s k' r' v' \<longrightarrow> v' \<le> v"
      using inv(2) unfolding latest_current_def by blast
    then have r: "map_of (ra_records s) k = Some r" "dd_state r = Completed" "dd_resulting_version r = Some v"
      by (simp_all add: completed_at_def)
    obtain e where e: "verify_runtime (dd_intent r) e (dd_requirements r) v = Inr ()"
      "dd_runtime_verification_evidence r = Some (ve_evidence e)"
      using records_okD [OF inv(1) r(1)] r(2,3) by (auto simp: record_ok_def)
    obtain a where "require_deployment_admission (dd_intent r) a = Inr ()" "dd_requirements r = ad_requirements a"
      using inv(3) r(1) unfolding admitted_records_def by blast
    then show ?thesis using c e by blast
  qed
qed

text \<open>The version of a target counts its confirmed effects. In every reachable state the
  deployments whose effect was confirmed correspond one to one to the versions above the
  initial one, so no confirmation is lost, counted twice or undone.\<close>

theorem version_counts_confirmed:
  assumes "release_reachable t0 s"
  shows "bij_betw (\<lambda>k. the (resulting s k)) {k. resulting s k \<noteq> None}
    {tg_release_target_state_version t0 <.. tg_release_target_state_version (ra_target s)}"
proof -
  have inv: "versions_ok (tg_release_target_state_version t0) s"
    using release_inv_reachable [OF assms] by (simp add: release_inv_def)
  have "inj_on (\<lambda>k. the (resulting s k)) {k. resulting s k \<noteq> None}"
    using inv unfolding versions_ok_def inj_on_def by (metis (mono_tags) mem_Collect_eq option.exhaust_sel)
  moreover have "(\<lambda>k. the (resulting s k)) ` {k. resulting s k \<noteq> None} = {v. \<exists>k. resulting s k = Some v}"
    by force
  ultimately show ?thesis unfolding bij_betw_def versions_ok_range [OF inv] by (simp add: set_eq_iff)
qed

text \<open>A record keeps its intent and its requirements, and a settled one does not change.\<close>

lemma release_change_keeps:
  assumes "release_change s t" "map_of (ra_records s) k = Some r"
  shows "\<exists>r'. map_of (ra_records t) k = Some r' \<and> dd_intent r' = dd_intent r \<and>
    dd_requirements r' = dd_requirements r \<and> (terminal (dd_state r) \<longrightarrow> r' = r)"
  using assms(1)
proof cases
  case same
  then show ?thesis using assms(2) by simp
next
  case (created i a)
  then show ?thesis using assms(2) by (cases "k = di_deployment_operation_id i") simp_all
next
  case (ambiguous k' q)
  then show ?thesis using assms(2) by (cases "k = k'") (simp_all add: unsettled_def)
next
  case (absent k' q)
  then show ?thesis using assms(2) by (cases "k = k'") (simp_all add: unsettled_def)
next
  case (confirmed k' q)
  then show ?thesis using assms(2) by (cases "k = k'") (simp_all add: unsettled_def)
next
  case (completed k' q)
  then show ?thesis using assms(2) by (cases "k = k'") (simp_all add: terminal_def)
qed

lemma release_run_keeps:
  "release_run s t \<Longrightarrow> map_of (ra_records s) k = Some r \<Longrightarrow>
   \<exists>r'. map_of (ra_records t) k = Some r' \<and> dd_intent r' = dd_intent r \<and>
     dd_requirements r' = dd_requirements r \<and> (terminal (dd_state r) \<longrightarrow> r' = r)"
proof (induction rule: release_run.induct)
  case (run_refl s)
  then show ?case by simp
next
  case (run_step s t u)
  then obtain r' where r': "map_of (ra_records t) k = Some r'" "dd_intent r' = dd_intent r"
    "dd_requirements r' = dd_requirements r" "terminal (dd_state r) \<longrightarrow> r' = r" by blast
  show ?case using release_change_keeps [OF release_step_change [OF run_step.hyps(2)] r'(1)] r'(2-4) by auto
qed

text \<open>A request that was admitted can be repeated at any time. However the target moved on,
  the same request returns the record of the same intent and changes nothing, so a retry
  never starts a second effect; a record that was settled is returned as it was.\<close>

theorem deployment_retry_observes:
  assumes "create_or_observe i a s = Inr (r, t)" "release_run t u"
  shows "\<exists>r'. create_or_observe i a u = Inr (r', u) \<and> dd_intent r' = i \<and>
    map_of (ra_records u) (di_deployment_operation_id i) = Some r' \<and>
    (terminal (dd_state r) \<longrightarrow> r' = r)"
proof -
  have "map_of (ra_records t) (di_deployment_operation_id i) = Some r \<and> dd_intent r = i \<and>
      dd_requirements r = ad_requirements a"
    using assms(1) unfolding create_or_observe_Inr
    by (cases "map_of (ra_records s) (di_deployment_operation_id i)") (simp_all add: new_record_def)
  then obtain r' where r': "map_of (ra_records u) (di_deployment_operation_id i) = Some r'"
    "dd_intent r' = i" "dd_requirements r' = ad_requirements a" "terminal (dd_state r) \<longrightarrow> r' = r"
    using release_run_keeps [OF assms(2)] by metis
  then have "create_or_observe i a u = Inr (r', u)"
    using assms(1) unfolding create_or_observe_Inr by simp
  then show ?thesis using r' by blast
qed

section \<open>A run\<close>

definition sample_gate :: "string \<times> string \<Rightarrow> authority_gate" where
  "sample_gate p =
     \<lparr>ag_gate_id = fst p, ag_authority_profile = snd p, ag_evidence = sample_reference,
      ag_scope_binding = ''deployment:t:op'', ag_release_target_state_version = 0, ag_current = True\<rparr>"

definition sample_source :: accepted_source where
  "sample_source =
     \<lparr>as_source_state_id = replicate 40 (CHR ''a''), as_source_trust_class = AcceptedReviewState,
      as_source_change_authority_profile = ''author'', as_source_change_evidence = ''evidence:1'',
      as_review_assurance_profile = ''review'', as_review_assurance_evidence = ''evidence:2'',
      as_source_trust_policy_profile = ''policy'', as_source_trust_policy_evidence = ''evidence:3''\<rparr>"

definition sample_provenance :: build_provenance where
  "sample_provenance =
     \<lparr>bp_accepted_source = sample_source, bp_release_policy_profile = ''policy'',
      bp_release_policy_evidence = sample_reference, bp_release_policy_current = True,
      bp_builder_principal_class = ''principal.release-build@1'',
      bp_builder_authority_evidence = sample_reference, bp_builder_authorized_current = True,
      bp_declared_input_set_id = ''inputs'',
      bp_declared_inputs_integrity_evidence = sample_reference,
      bp_declared_inputs_integrity_proven = True, bp_build_record_id = sample_reference,
      bp_artifact = di_artifact sample_intent, bp_provenance_profile = ''provenance'',
      bp_provenance_record_id = sample_reference, bp_provenance_verifier_profile = ''verifier'',
      bp_provenance_verifier_evidence = sample_reference, bp_provenance_verifier_current = True,
      bp_sbom_reference = sample_reference, bp_artifact_attestation_profile = ''attestation'',
      bp_artifact_lifecycle_evidence = sample_reference, bp_artifact_retired = False\<rparr>"

definition sample_promotion :: promotion_evidence where
  "sample_promotion =
     \<lparr>pm_promotion_id = ''p'', pm_promotion_evidence = sample_reference,
      pm_promotion_principal_class = ''principal.release-promote@1'',
      pm_promotion_principal_authority_evidence = sample_reference,
      pm_promotion_principal_authorized_current = True, pm_approval_current = True,
      pm_approval_evidence = sample_reference, pm_release_policy_profile = ''policy'',
      pm_release_policy_evidence = sample_reference, pm_release_policy_current = True,
      pm_artifact_identity = artifact_canonical (di_artifact sample_intent), pm_target_id = ''t'',
      pm_target_environment_class = ''environment.validation@1'',
      pm_validation_scope = GeneralValidation, pm_rollout_scope_id = ''r'',
      pm_runtime_profile_set = [''runtime.web-bff@1''],
      pm_target_configuration = di_configuration sample_intent,
      pm_configuration_validation_evidence = sample_reference,
      pm_rollout_compatibility_evidence = sample_reference, pm_schema_state = ''schema'',
      pm_api_compatibility_family = ''api'', pm_event_compatibility_set = [''e''],
      pm_required_evidence_set = sample_reference, pm_validation_evidence_current = True,
      pm_compatibility_evidence_current = True, pm_cell_metadata_identity = None,
      pm_cell_metadata_generation = None\<rparr>"

definition sample_rollout :: rollout_compatibility where
  "sample_rollout =
     \<lparr>rc_evidence = sample_reference, rc_evidence_current = True, rc_release_scope_id = ''r'',
      rc_mixed_version = \<lparr>vm_runtime = True, vm_schema = True, vm_api = True, vm_event = True,
        vm_configuration = True, vm_worker = True, vm_policy_verifier = True\<rparr>,
      rc_validation_scope = GeneralValidation, rc_cell_affecting_release = False,
      rc_reference_cell_evidence_current = False, rc_reference_cell_no_case = None,
      rc_cell_compatibility = \<lparr>cl_applicable = False, cl_metadata_identity = None,
        cl_metadata_generation = None, cl_metadata_current = False, cl_combination_admitted = False,
        cl_no_applicable_case = Some \<lparr>na_reason = ''none'', na_authority_profile = ''cells'',
          na_evidence = sample_reference, na_scope_binding = ''r'', na_current = True\<rparr>\<rparr>\<rparr>"

definition sample_admission_evidence :: admission_evidence where
  "sample_admission_evidence =
     \<lparr>ad_provenance = sample_provenance, ad_promotion = sample_promotion,
      ad_configuration_validation =
        \<lparr>cv_validation_configuration = di_configuration sample_intent,
         cv_target_configuration = di_configuration sample_intent,
         cv_validation_scope = GeneralValidation, cv_evidence = sample_reference,
         cv_evidence_current = True, cv_semantic_equivalence_proven = False,
         cv_target_specific_validation_proven = False, cv_copied_secret_values = False\<rparr>,
      ad_rollout_compatibility = sample_rollout,
      ad_deployment_principal_class = ''principal.release-deploy@1'',
      ad_current_authority_gates = map sample_gate admission_gates,
      ad_requirements = sample_requirements\<rparr>"

lemma sample_admitted:
  "require_deployment_admission sample_intent sample_admission_evidence = Inr ()"
  by code_simp

definition sample_target :: release_target where
  "sample_target =
     \<lparr>tg_target_id = ''t'', tg_release_target_state_version = 0, tg_current_artifact = Some ''old'',
      tg_current_configuration_generation = Some ''old'', tg_unresolved_operation_id = None,
      tg_pending_artifact = None, tg_pending_configuration_generation = None\<rparr>"

definition sample_record :: deployment_record where
  "sample_record = new_record sample_intent sample_admission_evidence"

definition sample_started :: release_authority where
  "sample_started =
     \<lparr>ra_target = sample_target\<lparr>tg_unresolved_operation_id := Some ''op''\<rparr>,
      ra_records = [(''op'', sample_record)]\<rparr>"

definition sample_artifact :: "string option" where
  "sample_artifact = Some (artifact_canonical (di_artifact sample_intent))"

definition sample_confirmed :: deployment_record where
  "sample_confirmed = sample_record
     \<lparr>dd_state := RuntimeVerification, dd_resulting_version := Some 1,
      dd_durable_target_evidence := Some sample_reference, dd_observed_artifact := sample_artifact,
      dd_observed_configuration_generation := Some ''g'',
      dd_reconciliation_authority_evidence := None\<rparr>"

definition sample_verifying :: release_authority where
  "sample_verifying =
     \<lparr>ra_target = (ra_target sample_started)
        \<lparr>tg_release_target_state_version := 1, tg_pending_artifact := sample_artifact,
         tg_pending_configuration_generation := Some ''g''\<rparr>,
      ra_records = [(''op'', sample_confirmed)]\<rparr>"

definition sample_completed :: release_authority where
  "sample_completed =
     \<lparr>ra_target = sample_target
        \<lparr>tg_release_target_state_version := 1, tg_current_artifact := sample_artifact,
         tg_current_configuration_generation := Some ''g''\<rparr>,
      ra_records = [(''op'', sample_confirmed
        \<lparr>dd_state := Completed, dd_runtime_verification_evidence := Some sample_reference\<rparr>)]\<rparr>"

lemma sample_intent_fields:
  "di_deployment_operation_id sample_intent = ''op''" "di_target_id sample_intent = ''t''"
  "di_expected_release_target_state_version sample_intent = 0"
  "tc_generation (di_configuration sample_intent) = ''g''"
  by (simp_all add: sample_intent_def)

lemma sample_record_fields:
  "dd_intent sample_record = sample_intent" "dd_state sample_record = Deploying"
  "dd_requirements sample_record = sample_requirements"
  "dd_reconciliation_authority_evidence sample_record = None"
  by (simp_all add: sample_record_def new_record_def sample_admission_evidence_def)

lemma sample_requirements_version: "vq_release_target_state_version sample_requirements = 1"
  by (simp add: sample_requirements_def)

lemma sample_reference_valid: "evidence_reference sample_reference"
  by code_simp

lemma sample_creates:
  "create_or_observe sample_intent sample_admission_evidence \<lparr>ra_target = sample_target, ra_records = []\<rparr> =
     Inr (sample_record, sample_started)"
  unfolding create_or_observe_Inr
  by (simp add: sample_admitted sample_intent_fields sample_target_def sample_started_def sample_record_def)

lemma sample_observes:
  "observe_effect ''op'' EffectConfirmed sample_artifact (Some ''g'') (Some sample_reference) None sample_started =
     Inr (sample_confirmed, sample_verifying)"
  by (simp add: observe_effect_def observe_settled_def put_record_def sample_started_def demand_def
      sample_record_fields terminal_def sample_reference_valid effect_matches_def sample_artifact_def
      sample_intent_fields sample_target_def sample_requirements_version sample_confirmed_def
      sample_verifying_def)

lemma sample_confirmed_fields:
  "dd_state sample_confirmed = RuntimeVerification" "dd_intent sample_confirmed = sample_intent"
  "dd_requirements sample_confirmed = sample_requirements" "dd_resulting_version sample_confirmed = Some 1"
  by (simp_all add: sample_confirmed_def sample_record_fields)

lemma sample_verification_evidence: "ve_evidence sample_verification = sample_reference"
  by (simp add: sample_verification_def)

lemma sample_completes:
  "complete_runtime_verification ''op'' sample_verification sample_verifying =
     Inr (sample_confirmed\<lparr>dd_state := Completed,
            dd_runtime_verification_evidence := Some sample_reference\<rparr>, sample_completed)"
  by (simp add: complete_runtime_verification_def put_record_def sample_verifying_def sample_started_def
      sample_target_def demand_def sample_confirmed_fields sample_verified effect_matches_def
      sample_artifact_def sample_intent_fields clear_pending_def sample_completed_def
      sample_verification_evidence)

lemma sample_runs:
  "release_run sample_started sample_verifying" "release_run sample_started sample_completed"
  by (blast intro: run_refl run_step release_step.observe [OF sample_observes]
        release_step.complete [OF sample_completes])+

lemma sample_reachable:
  "release_reachable sample_target sample_started" "release_reachable sample_target sample_completed"
proof -
  have "release_authority_init sample_target = Inr \<lparr>ra_target = sample_target, ra_records = []\<rparr>"
    by (simp add: release_authority_init_def demand_def sample_target_def)
  moreover have "release_run \<lparr>ra_target = sample_target, ra_records = []\<rparr> sample_started"
    by (blast intro: run_refl run_step release_step.create [OF sample_creates])
  moreover from this have "release_run \<lparr>ra_target = sample_target, ra_records = []\<rparr> sample_completed"
    by (blast intro: run_step release_step.observe [OF sample_observes]
          release_step.complete [OF sample_completes])
  ultimately show "release_reachable sample_target sample_started"
    "release_reachable sample_target sample_completed"
    unfolding release_reachable_def by blast+
qed

lemma sample_started_record: "map_of (ra_records sample_started) ''op'' = Some sample_record"
  by (simp add: sample_started_def)

theorem single_deployment_in_flight_witness:
  "tg_unresolved_operation_id (ra_target sample_started) = Some ''op''"
  using single_deployment_in_flight [OF sample_reachable(1) sample_started_record]
  by (simp add: sample_record_fields)

theorem current_artifact_verified_witness:
  "\<exists>k r v. completed_at sample_completed k r v \<and> runs_effect_of (ra_target sample_completed) r"
proof -
  have "completed_at sample_completed ''op''
      (sample_confirmed\<lparr>dd_state := Completed, dd_runtime_verification_evidence := Some sample_reference\<rparr>) 1"
    by (simp add: completed_at_def sample_completed_def sample_confirmed_fields)
  then show ?thesis using current_artifact_verified [OF sample_reachable(2)] by blast
qed

theorem version_counts_confirmed_witness:
  "bij_betw (\<lambda>k. the (resulting sample_completed k)) {k. resulting sample_completed k \<noteq> None} {0 <.. 1}"
  using version_counts_confirmed [OF sample_reachable(2)] by (simp add: sample_completed_def sample_target_def)

theorem deployment_retry_observes_witness:
  "\<exists>r'. create_or_observe sample_intent sample_admission_evidence sample_completed = Inr (r', sample_completed)"
  using deployment_retry_observes [OF sample_creates sample_runs(2)] by blast
end
