(* ===== verification/Configuration.thy ===== *)
theory Configuration
  imports Authority_Model
begin

text \<open>
  src/src/jlmirror_authority/config.py: the classification of configuration keys, snapshots of
  public values and secret references, and the admission of a snapshot by its authority.
\<close>

section \<open>Schemas and snapshots\<close>

text \<open>A float is represented by whether it is finite; other objects are no scalars.\<close>

datatype json_scalar =
    ScalarText string | ScalarInt int | ScalarFloat bool | ScalarBool bool | ScalarNone | NoScalar

fun is_json_scalar :: "json_scalar \<Rightarrow> bool" where
  "is_json_scalar (ScalarFloat finite_value) = finite_value"
| "is_json_scalar NoScalar = False"
| "is_json_scalar _ = True"

definition public_name :: "string \<Rightarrow> bool" where
  "public_name key \<longleftrightarrow> is_explicit key \<and> \<not> starts_with ''_'' key"

record configuration_schema =
  cs_public_keys :: "string set"
  cs_secret_reference_classes :: "(string, string set) dict"

definition valid_configuration_schema :: "configuration_schema \<Rightarrow> bool" where
  "valid_configuration_schema c \<longleftrightarrow>
     cs_public_keys c \<inter> fst ` set (cs_secret_reference_classes c) = {} \<and>
     (\<forall>key \<in> cs_public_keys c. public_name key) \<and>
     (\<forall>(key, classes) \<in> set (cs_secret_reference_classes c).
        public_name key \<and> classes \<noteq> {} \<and> (\<forall>x \<in> classes. is_versioned_in ''secretref.'' x))"

record configuration_snapshot =
  cf_generation :: string
  cf_public_values :: "(string, json_scalar) dict"
  cf_secret_references :: "(string, secret_reference) dict"
  cf_schema :: "configuration_schema option"

definition snapshot_classified :: "configuration_schema \<Rightarrow> configuration_snapshot \<Rightarrow> bool" where
  "snapshot_classified c s \<longleftrightarrow>
     fst ` set (cf_public_values s) \<subseteq> cs_public_keys c \<and>
     fst ` set (cf_secret_references s) \<subseteq> fst ` set (cs_secret_reference_classes c) \<and>
     (\<forall>(key, r) \<in> set (cf_secret_references s).
        case map_of (cs_secret_reference_classes c) key of
          None \<Rightarrow> False | Some allowed \<Rightarrow> sr_reference_class r \<in> allowed)"

definition valid_configuration_snapshot :: "configuration_snapshot \<Rightarrow> bool" where
  "valid_configuration_snapshot s \<longleftrightarrow>
     is_identifier (cf_generation s) \<and>
     fst ` set (cf_public_values s) \<inter> fst ` set (cf_secret_references s) = {} \<and>
     (\<forall>(key, v) \<in> set (cf_public_values s). public_name key \<and> is_json_scalar v) \<and>
     (\<forall>(key, r) \<in> set (cf_secret_references s). public_name key) \<and>
     (case cf_schema s of None \<Rightarrow> True | Some c \<Rightarrow> snapshot_classified c s)"

text \<open>The constructors raise the same class for every check.\<close>

definition configuration_schema_init :: "configuration_schema \<Rightarrow> configuration_schema res" where
  "configuration_schema_init c = construct valid_configuration_schema ValueError c"

definition configuration_snapshot_init :: "configuration_snapshot \<Rightarrow> configuration_snapshot res" where
  "configuration_snapshot_init s = construct valid_configuration_snapshot ValueError s"

definition classification_schema_present :: "configuration_snapshot \<Rightarrow> bool" where
  "classification_schema_present s \<longleftrightarrow> cf_schema s \<noteq> None"

section \<open>Admission\<close>

type_synonym 's configuration_authority =
  "configuration_snapshot \<Rightarrow> string \<Rightarrow> environment_class \<Rightarrow> string \<Rightarrow> ('s, bool) call"

definition require_classified_configuration ::
  "configuration_snapshot \<Rightarrow> 's configuration_authority option \<Rightarrow> string option \<Rightarrow>
   environment_class option \<Rightarrow> string option \<Rightarrow> ('s, configuration_snapshot) op" where
  "require_classified_configuration s authority profile env generation =
     thenS (ensureS (classification_schema_present s) AdmissionDenied)
    (case profile of None \<Rightarrow> raiseS AdmissionDenied | Some p \<Rightarrow>
     thenS (ensureS (is_versioned_in ''runtime.'' p) AdmissionDenied)
    (case env of None \<Rightarrow> raiseS AdmissionDenied | Some en \<Rightarrow>
    (case generation of None \<Rightarrow> raiseS AdmissionDenied | Some g \<Rightarrow>
     thenS (ensureS (is_identifier g) AdmissionDenied)
    (thenS (ensureS (cf_generation s = g) AdmissionDenied)
    (case authority of None \<Rightarrow> raiseS AdmissionDenied | Some a \<Rightarrow>
     bindS (closed_call (a s p en g)) (\<lambda>admitted.
     thenS (ensureS admitted AdmissionDenied) (returnS s)))))))"

lemma require_classified_returns:
  "require_classified_configuration s authority profile env generation w = (Inr v, t) \<longleftrightarrow>
     v = s \<and> classification_schema_present s \<and>
     (\<exists>a p en. authority = Some a \<and> profile = Some p \<and> env = Some en \<and>
        generation = Some (cf_generation s) \<and> is_versioned_in ''runtime.'' p \<and>
        is_identifier (cf_generation s) \<and> a s p en (cf_generation s) w = (Returned True, t))"
  unfolding require_classified_configuration_def
  by (cases profile; cases env; cases generation; cases authority)
    (auto simp: res_simps split: if_splits)

lemma require_classified_denies:
  "require_classified_configuration s authority profile env generation w = (Inl e, t) \<Longrightarrow>
   e = AdmissionDenied"
  unfolding require_classified_configuration_def
  by (auto simp: bindS_raises_iff ensure_Inl_iff dest: closed_call_Inl split: option.splits if_splits)

text \<open>An admitted configuration keeps secrets apart. When a snapshot is admitted, its own
  authority has just confirmed this very snapshot for the runtime profile, the environment
  and the generation asked for; it carries a classification; no key the classification
  reserves for secret references has a public value; each of its secret references has a
  class the classification allows for its key; and every public value is a finite scalar
  under a public key of the classification. Every other outcome is a denial.\<close>

theorem admitted_configuration_separates:
  assumes "configuration_snapshot_init s0 = Inr s"
    and "\<forall>c. cf_schema s = Some c \<longrightarrow> valid_configuration_schema c"
  shows "case require_classified_configuration s authority (Some p) (Some en) (Some g) w of
     (Inl e, t) \<Rightarrow> e = AdmissionDenied
   | (Inr v, t) \<Rightarrow> v = s \<and> cf_generation s = g \<and>
       (\<exists>a c. authority = Some a \<and> a s p en g w = (Returned True, t) \<and> cf_schema s = Some c \<and>
          (\<forall>key. map_of (cs_secret_reference_classes c) key \<noteq> None \<longrightarrow>
             map_of (cf_public_values s) key = None) \<and>
          (\<forall>key r. map_of (cf_secret_references s) key = Some r \<longrightarrow>
             key \<notin> cs_public_keys c \<and>
             (\<exists>allowed. map_of (cs_secret_reference_classes c) key = Some allowed \<and>
                sr_reference_class r \<in> allowed)) \<and>
          (\<forall>key x. map_of (cf_public_values s) key = Some x \<longrightarrow>
             key \<in> cs_public_keys c \<and> public_name key \<and> is_json_scalar x))"
proof (cases "require_classified_configuration s authority (Some p) (Some en) (Some g) w")
  case (Pair r t)
  show ?thesis
  proof (cases r)
    case (Inl e)
    then show ?thesis using Pair require_classified_denies by fastforce
  next
    case (Inr v)
    with Pair obtain a c where a: "v = s" "cf_generation s = g" "authority = Some a"
      "a s p en g w = (Returned True, t)" "cf_schema s = Some c"
      by (auto simp: require_classified_returns classification_schema_present_def)
    from assms a(5) have schema: "valid_configuration_schema c" and
      scalars: "\<And>key x. (key, x) \<in> set (cf_public_values s) \<Longrightarrow> public_name key \<and> is_json_scalar x"
        "fst ` set (cf_public_values s) \<subseteq> cs_public_keys c" and
      refs: "\<And>key r. (key, r) \<in> set (cf_secret_references s) \<Longrightarrow>
        (case map_of (cs_secret_reference_classes c) key of
           None \<Rightarrow> False | Some allowed \<Rightarrow> sr_reference_class r \<in> allowed)"
      by (auto simp: configuration_snapshot_init_def construct_Inr_iff valid_configuration_snapshot_def
          snapshot_classified_def)
    then have apart: "key \<notin> cs_public_keys c"
      if "map_of (cs_secret_reference_classes c) key = Some allowed" for key allowed
    proof -
      have "key \<in> fst ` set (cs_secret_reference_classes c)" using map_of_SomeD [OF that] by force
      then show ?thesis using schema unfolding valid_configuration_schema_def by blast
    qed
    have "map_of (cf_public_values s) key = None"
      if "map_of (cs_secret_reference_classes c) key = Some allowed" for key allowed
      using apart [OF that] scalars(2) by (meson map_of_eq_None_iff subsetD)
    moreover have "key \<notin> cs_public_keys c \<and>
        (\<exists>allowed. map_of (cs_secret_reference_classes c) key = Some allowed \<and>
           sr_reference_class q \<in> allowed)"
      if "map_of (cf_secret_references s) key = Some q" for key q
      using refs [OF map_of_SomeD [OF that]] apart by (auto split: option.splits)
    moreover have "key \<in> cs_public_keys c \<and> public_name key \<and> is_json_scalar x"
      if "map_of (cf_public_values s) key = Some x" for key x
      using scalars map_of_SomeD [OF that] by force
    ultimately show ?thesis using Pair Inr a by auto
  qed
qed

definition sample_snapshot :: configuration_snapshot where
  "sample_snapshot =
     \<lparr>cf_generation = ''config-1'', cf_public_values = [(''region'', ScalarText ''eu'')],
      cf_secret_references = [(''dsn'', \<lparr>sr_reference_id = ''r1'',
        sr_reference_class = ''secretref.database@1'', sr_generation = ''g1''\<rparr>)],
      cf_schema = Some \<lparr>cs_public_keys = {''region''},
        cs_secret_reference_classes = [(''dsn'', {''secretref.database@1''})]\<rparr>\<rparr>"

lemma sample_snapshot_valid:
  "configuration_snapshot_init sample_snapshot = Inr sample_snapshot"
  "\<forall>c. cf_schema sample_snapshot = Some c \<longrightarrow> valid_configuration_schema c"
proof -
  have "valid_configuration_snapshot sample_snapshot" by code_simp
  then show "configuration_snapshot_init sample_snapshot = Inr sample_snapshot"
    by (simp add: configuration_snapshot_init_def construct_def)
  have "valid_configuration_schema (the (cf_schema sample_snapshot))" by code_simp
  then show "\<forall>c. cf_schema sample_snapshot = Some c \<longrightarrow> valid_configuration_schema c" by auto
qed

lemma sample_snapshot_admitted:
  "require_classified_configuration sample_snapshot (Some (\<lambda>_ _ _ _ w. (Returned True, w)))
     (Some ''runtime.worker@1'') (Some EnvProduction) (Some ''config-1'') () = (Inr sample_snapshot, ())"
  by code_simp

theorem admitted_configuration_separates_witness:
  "\<exists>c. cf_schema sample_snapshot = Some c \<and>
     (\<forall>key. map_of (cs_secret_reference_classes c) key \<noteq> None \<longrightarrow>
        map_of (cf_public_values sample_snapshot) key = None)"
  using admitted_configuration_separates [OF sample_snapshot_valid,
      where authority = "Some (\<lambda>_ _ _ _ w. (Returned True, w))" and p = "''runtime.worker@1''"
        and en = EnvProduction and g = "''config-1''" and w = "()"]
  unfolding sample_snapshot_admitted by auto

end
