(* ===== verification/Csrf.thy ===== *)
theory Csrf
  imports Browser "HOL-Library.Word"
begin

text \<open>
  src/src/jlmirror_g1/csrf.py: tokens of a session lineage under one of two keys. The text
  form of the MAC is written out with its decoder; HMAC-SHA-256 is the parameter \<open>mac\<close>.
\<close>

section \<open>Bytes as text\<close>

type_synonym byte = "8 word"

definition b64_alphabet :: string where
  "b64_alphabet = ''ABCDEFGHIJKLMNOPQRSTUVWXYZabcdefghijklmnopqrstuvwxyz0123456789-_''"

definition b64_char :: "nat \<Rightarrow> char" where
  "b64_char n = b64_alphabet ! (n mod 64)"

text \<open>\<open>base64.urlsafe_b64encode\<close>: groups of three bytes, the last one padded.\<close>

fun b64_groups :: "byte list \<Rightarrow> string" where
  "b64_groups [] = []"
| "b64_groups [a] = (let n = unat a * 16 in [b64_char (n div 64), b64_char n, CHR ''='', CHR ''=''])"
| "b64_groups [a, b] =
     (let n = (unat a * 256 + unat b) * 4
      in [b64_char (n div 4096), b64_char (n div 64), b64_char n, CHR ''=''])"
| "b64_groups (a # b # c # xs) =
     (let n = unat a * 65536 + unat b * 256 + unat c
      in b64_char (n div 262144) # b64_char (n div 4096) # b64_char (n div 64) # b64_char n #
           b64_groups xs)"

definition rstrip_pad :: "string \<Rightarrow> string" where
  "rstrip_pad s = rev (dropWhile (\<lambda>c. c = CHR ''='') (rev s))"

definition b64url :: "byte list \<Rightarrow> string" where
  "b64url xs = rstrip_pad (b64_groups xs)"

text \<open>The position of a character in the alphabet, and the bytes of a text.\<close>

definition b64_index :: "char \<Rightarrow> nat" where
  "b64_index c = length (takeWhile (\<lambda>x. x \<noteq> c) b64_alphabet)"

fun b64_bytes :: "string \<Rightarrow> byte list" where
  "b64_bytes [p, q] = [of_nat ((b64_index p * 64 + b64_index q) div 16)]"
| "b64_bytes [p, q, r] =
     (let n = (b64_index p * 4096 + b64_index q * 64 + b64_index r) div 4
      in [of_nat (n div 256), of_nat n])"
| "b64_bytes (p # q # r # s # cs) =
     (let n = b64_index p * 262144 + b64_index q * 4096 + b64_index r * 64 + b64_index s
      in of_nat (n div 65536) # of_nat (n div 256) # of_nat n # b64_bytes cs)"
| "b64_bytes _ = []"

lemma all_below_64: "n < 64 \<Longrightarrow> (\<And>k. k \<in> set [0..<64] \<Longrightarrow> P k) \<Longrightarrow> P n"
  by simp

lemma b64_index_char [simp]: "b64_index (b64_char n) = n mod 64"
proof -
  have "list_all (\<lambda>k. b64_index (b64_alphabet ! k) = k) [0..<64]" by code_simp
  then show ?thesis by (simp add: list_all_iff b64_char_def)
qed

lemma b64_alphabet_chars: "list_all (\<lambda>c. url_token_char c \<and> c \<noteq> CHR ''='') b64_alphabet"
  by code_simp

lemma b64_char_class [simp]: "url_token_char (b64_char n)" "b64_char n \<noteq> CHR ''=''"
proof -
  have "b64_char n \<in> set b64_alphabet"
    unfolding b64_char_def by (rule nth_mem) (simp add: b64_alphabet_def)
  then show "url_token_char (b64_char n)" "b64_char n \<noteq> CHR ''=''"
    using b64_alphabet_chars by (auto simp: list_all_iff)
qed

text \<open>Without the padding: what the last group leaves.\<close>

fun b64_text :: "byte list \<Rightarrow> string" where
  "b64_text [] = []"
| "b64_text [a] = (let n = unat a * 16 in [b64_char (n div 64), b64_char n])"
| "b64_text [a, b] =
     (let n = (unat a * 256 + unat b) * 4 in [b64_char (n div 4096), b64_char (n div 64), b64_char n])"
| "b64_text (a # b # c # xs) =
     (let n = unat a * 65536 + unat b * 256 + unat c
      in b64_char (n div 262144) # b64_char (n div 4096) # b64_char (n div 64) # b64_char n #
           b64_text xs)"

lemma b64_text_class: "list_all url_token_char (b64_text xs)" "CHR ''='' \<notin> set (b64_text xs)"
  by (induction xs rule: b64_text.induct) (simp_all add: Let_def b64_char_class(2) [symmetric])

lemma b64_groups_text: "\<exists>k. b64_groups xs = b64_text xs @ replicate k (CHR ''='')"
proof (induction xs rule: b64_text.induct)
  case (2 a)
  show ?case by (rule exI [of _ 2]) (simp add: Let_def numeral_2_eq_2)
next
  case (3 a b)
  show ?case by (rule exI [of _ 1]) (simp add: Let_def)
qed (auto simp: Let_def)

lemma b64url_text: "b64url xs = b64_text xs"
proof -
  obtain k where "b64_groups xs = b64_text xs @ replicate k (CHR ''='')"
    using b64_groups_text by blast
  moreover have "dropWhile (\<lambda>c. c = CHR ''='') (rev (b64_text xs)) = rev (b64_text xs)"
    using b64_text_class(2) [of xs] by (cases "rev (b64_text xs)")
      (auto simp: rev_eq_Cons_iff)
  ultimately show ?thesis
    by (simp add: b64url_def rstrip_pad_def dropWhile_append)
qed

lemma byte_bound: "unat (a :: byte) < 256"
  using unsigned_less [of a] by simp

lemma of_nat_byte: "n mod 256 = unat (a :: byte) \<Longrightarrow> of_nat n = a"
  by (simp add: word_unat_eq_iff unat_of_nat)

lemma last_byte: "(k * 256 + unat (a :: byte)) mod 256 = unat a"
  using byte_bound [of a] by simp

lemma sextets:
  fixes n :: nat
  shows "n div 64 mod 64 * 64 + n mod 64 = n mod 4096"
    and "n div 4096 mod 64 * 4096 + n div 64 mod 64 * 64 + n mod 64 = n mod 262144"
    and "n div 262144 mod 64 * 262144 + n div 4096 mod 64 * 4096 + n div 64 mod 64 * 64 + n mod 64 =
      n mod 16777216"
  using mod_mult2_eq [of n 64 64] mod_mult2_eq [of n 4096 64] mod_mult2_eq [of n 262144 64]
  by simp_all

lemma b64_bytes_text: "b64_bytes (b64_text xs) = xs"
proof (induction xs rule: b64_text.induct)
  case (2 a)
  let ?n = "unat a * 16"
  have "?n mod 4096 = ?n" using byte_bound [of a] by simp
  then have "?n div 64 mod 64 * 64 + ?n mod 64 = ?n" unfolding sextets .
  then have "b64_bytes (b64_text [a]) = [of_nat (?n div 16)]"
    unfolding b64_text.simps Let_def b64_bytes.simps b64_index_char by argo
  then show ?case by simp
next
  case (3 a b)
  let ?n = "(unat a * 256 + unat b) * 4"
  have "?n mod 262144 = ?n" using byte_bound [of a] byte_bound [of b] by simp
  then have "b64_bytes (b64_text [a, b]) = [of_nat (?n div 4 div 256), of_nat (?n div 4)]"
    using sextets(2) [of ?n] by (simp add: Let_def add.assoc)
  also have "?n div 4 = unat a * 256 + unat b" by simp
  finally have "b64_bytes (b64_text [a, b]) =
      [of_nat ((unat a * 256 + unat b) div 256), of_nat (unat a * 256 + unat b)]" .
  moreover have "(unat a * 256 + unat b) div 256 = unat a" using byte_bound [of b] by simp
  moreover have "(of_nat (unat a * 256 + unat b) :: byte) = b"
    using byte_bound [of b] by (intro of_nat_byte) simp
  ultimately show ?case by (metis word_unat_eq_iff of_nat_byte mod_less byte_bound)
next
  case (4 a b c xs)
  let ?n = "unat a * 65536 + unat b * 256 + unat c"
  have "?n mod 16777216 = ?n" using byte_bound [of a] byte_bound [of b] byte_bound [of c] by simp
  then have "b64_bytes (b64_text (a # b # c # xs)) =
      of_nat (?n div 65536) # of_nat (?n div 256) # of_nat ?n # xs"
    using sextets(3) [of ?n] 4 by (simp add: Let_def add.assoc)
  moreover have "?n div 65536 = unat a" "?n div 256 = unat a * 256 + unat b"
    using byte_bound [of b] byte_bound [of c] by simp_all
  moreover have "(of_nat (unat a * 256 + unat b) :: byte) = b" "(of_nat ?n :: byte) = c"
    using last_byte [of "unat a" b] last_byte [of "unat a * 256 + unat b" c]
    by (intro of_nat_byte; simp add: algebra_simps)+
  ultimately show ?case by simp
qed simp

lemma b64url_inj: "b64url xs = b64url ys \<longleftrightarrow> xs = ys"
  by (metis b64url_text b64_bytes_text)

section \<open>Key rings\<close>

definition key_version_char :: "char \<Rightarrow> bool" where
  "key_version_char c \<longleftrightarrow> is_alnum c \<or> c \<in> set ''_-''"

text \<open>\<open>_VERSION_RE = ^[A-Za-z0-9][A-Za-z0-9_-]{0,31}$\<close>, \<open>_LINEAGE_RE = ^[A-Za-z0-9_-]{16,128}$\<close>\<close>

definition is_key_version :: "string \<Rightarrow> bool" where
  "is_key_version s \<longleftrightarrow> head_tail_ok is_alnum key_version_char s \<and> length s \<le> 32"

definition is_lineage :: "string \<Rightarrow> bool" where
  "is_lineage s \<longleftrightarrow> 16 \<le> length s \<and> length s \<le> 128 \<and> list_all url_token_char s"

record csrf_key_ring =
  kr_current_version :: string
  kr_previous_version :: string
  kr_keys :: "(string, byte list) dict"

definition valid_key_ring :: "csrf_key_ring \<Rightarrow> bool" where
  "valid_key_ring k \<longleftrightarrow>
     is_key_version (kr_current_version k) \<and> is_key_version (kr_previous_version k) \<and>
     kr_current_version k \<noteq> kr_previous_version k \<and>
     fst ` set (kr_keys k) = {kr_current_version k, kr_previous_version k} \<and>
     (\<forall>(v, key) \<in> set (kr_keys k). 32 \<le> length key)"

definition session_lineage :: "string \<Rightarrow> string res" where
  "session_lineage s = construct is_lineage ValueError s"

definition csrf_issue :: "(byte list \<Rightarrow> string \<Rightarrow> byte list) \<Rightarrow> csrf_key_ring \<Rightarrow> string \<Rightarrow> string res" where
  "csrf_issue mac k lineage =
     bindR (session_lineage lineage) (\<lambda>l.
     case map_of (kr_keys k) (kr_current_version k) of
       None \<Rightarrow> Inl KeyError
     | Some key \<Rightarrow> Inr (kr_current_version k @ ''.'' @ b64url (mac key l)))"

text \<open>\<open>hmac.compare_digest\<close> compares texts of ASCII characters only and raises \<open>TypeError\<close> on others.\<close>

definition is_ascii :: "string \<Rightarrow> bool" where
  "is_ascii s \<longleftrightarrow> list_all (\<lambda>c. (of_char c :: nat) < 128) s"

definition compare_digest :: "string \<Rightarrow> string \<Rightarrow> bool res" where
  "compare_digest a b = (if is_ascii a \<and> is_ascii b then Inr (a = b) else Inl TypeError)"

definition csrf_validate ::
  "(byte list \<Rightarrow> string \<Rightarrow> byte list) \<Rightarrow> csrf_key_ring \<Rightarrow> string \<Rightarrow> string \<Rightarrow> bool res" where
  "csrf_validate mac k token lineage =
     (case split_on (CHR ''.'') token of
        [version, encoded] \<Rightarrow>
          (case map_of (kr_keys k) version of
             None \<Rightarrow> Inr False
           | Some key \<Rightarrow>
               (case session_lineage lineage of
                  Inl _ \<Rightarrow> Inr False
                | Inr l \<Rightarrow> compare_digest encoded (b64url (mac key l))))
      | _ \<Rightarrow> Inr False)"

section \<open>What a token proves\<close>

lemma url_token_no_dot: "list_all url_token_char s \<Longrightarrow> CHR ''.'' \<notin> set s"
  by (auto simp: list_all_iff url_token_char_def char_class_defs)

lemma url_token_ascii: "list_all url_token_char s \<Longrightarrow> is_ascii s"
  by (auto simp: list_all_iff url_token_char_def is_ascii_def char_class_defs)

lemma b64url_class: "list_all url_token_char (b64url xs)"
  by (simp add: b64url_text b64_text_class)

lemma key_version_no_dot: "is_key_version s \<Longrightarrow> CHR ''.'' \<notin> set s"
  by (cases s) (auto simp: is_key_version_def key_version_char_def list_all_iff char_class_defs)

lemma ring_key: "valid_key_ring k \<Longrightarrow> \<exists>key. map_of (kr_keys k) (kr_current_version k) = Some key"
  unfolding valid_key_ring_def by (metis insertI1 map_of_eq_None_iff not_Some_eq)

text \<open>C28: a token is accepted exactly for the lineages that have its MAC. A ring that was
  accepted issues a token for every lineage of the grammar; another ring, which may be the
  one after a rotation, then accepts it for a lineage exactly when it is one of the grammar
  and the ring has a key under the token's version with which the MAC of that lineage is,
  byte for byte, the MAC the token was issued with; and it never raises on it.\<close>

theorem csrf_token_binds_lineage:
  assumes "valid_key_ring k" "is_lineage l"
  shows "\<exists>token key. csrf_issue mac k l = Inr token \<and>
    map_of (kr_keys k) (kr_current_version k) = Some key \<and> 32 \<le> length key \<and>
    (\<forall>k' l'. \<exists>b. csrf_validate mac k' token l' = Inr b \<and>
       (b \<longleftrightarrow> is_lineage l' \<and>
          (\<exists>key'. map_of (kr_keys k') (kr_current_version k) = Some key' \<and> mac key' l' = mac key l)))"
proof -
  obtain key where key: "map_of (kr_keys k) (kr_current_version k) = Some key"
    using ring_key [OF assms(1)] by blast
  then have long: "32 \<le> length key"
    using assms(1) map_of_SomeD [OF key] unfolding valid_key_ring_def by fast
  let ?token = "kr_current_version k @ ''.'' @ b64url (mac key l)"
  have split: "split_on (CHR ''.'') ?token = [kr_current_version k, b64url (mac key l)]"
    using assms(1) by (simp add: valid_key_ring_def key_version_no_dot split_on_first
        split_on_absent url_token_no_dot [OF b64url_class])
  have "csrf_issue mac k l = Inr ?token"
    using key assms(2) by (simp add: csrf_issue_def session_lineage_def construct_def)
  moreover have "\<exists>b. csrf_validate mac k' ?token l' = Inr b \<and>
      (b \<longleftrightarrow> is_lineage l' \<and>
        (\<exists>key'. map_of (kr_keys k') (kr_current_version k) = Some key' \<and> mac key' l' = mac key l))"
    for k' l'
    unfolding csrf_validate_def split
    by (auto simp: session_lineage_def construct_def compare_digest_def
        url_token_ascii [OF b64url_class] b64url_inj split: option.splits)
  ultimately show ?thesis using key long by blast
qed

definition sample_ring :: csrf_key_ring where
  "sample_ring =
     \<lparr>kr_current_version = ''v2'', kr_previous_version = ''v1'',
      kr_keys = [(''v2'', replicate 32 7), (''v1'', replicate 32 9)]\<rparr>"

theorem csrf_token_binds_lineage_witness:
  "\<exists>token. csrf_issue (\<lambda>key s. key) sample_ring (replicate 16 (CHR ''a'')) = Inr token \<and>
     csrf_validate (\<lambda>key s. key) sample_ring token (replicate 16 (CHR ''b'')) = Inr True"
proof -
  have ring: "valid_key_ring sample_ring" by code_simp
  have lineage: "is_lineage (replicate 16 (CHR ''a''))" "is_lineage (replicate 16 (CHR ''b''))"
    by code_simp+
  obtain token key where token: "csrf_issue (\<lambda>key s. key) sample_ring (replicate 16 (CHR ''a'')) = Inr token"
    "map_of (kr_keys sample_ring) (kr_current_version sample_ring) = Some key"
    and accepted: "\<forall>k' l'. \<exists>b. csrf_validate (\<lambda>key s. key) k' token l' = Inr b \<and>
       (b \<longleftrightarrow> is_lineage l' \<and>
          (\<exists>key'. map_of (kr_keys k') (kr_current_version sample_ring) = Some key' \<and> key' = key))"
    using csrf_token_binds_lineage [OF ring lineage(1), of "\<lambda>key s. key"] by blast
  then have "csrf_validate (\<lambda>key s. key) sample_ring token (replicate 16 (CHR ''b'')) = Inr True"
    using accepted [rule_format, of sample_ring "replicate 16 (CHR ''b'')"] lineage(2) token(2) by auto
  then show ?thesis using token(1) by blast
qed

text \<open>
  The header of a request may carry characters above 127: a token of an active version with
  such a character makes the comparison raise instead of returning false.
\<close>

lemma csrf_validate_raises:
  "csrf_validate mac sample_ring (''v2.'' @ [char_of (233 :: nat)]) (replicate 16 (CHR ''a'')) = Inl TypeError"
proof -
  have "split_on (CHR ''.'') (''v2.'' @ [char_of (233 :: nat)]) = [''v2'', [char_of (233 :: nat)]]"
    "map_of (kr_keys sample_ring) ''v2'' = Some (replicate 32 7)"
    "session_lineage (replicate 16 (CHR ''a'')) = Inr (replicate 16 (CHR ''a''))"
    "\<not> is_ascii [char_of (233 :: nat)]"
    by code_simp+
  then show ?thesis by (simp add: csrf_validate_def compare_digest_def)
qed

end
