(* ===== verification/Bound_Authorization.thy ===== *)
theory Bound_Authorization
  imports Dev_App
begin

text \<open>
  src/apps/g2-monitoring-source-onboarding/current_authorization.py and its siblings of the
  goals G3, G4 and G5, which differ in the actions they allow only, and the part that
  src/src/jlmirror_g1/authority.py shares with them: an admission by the control plane whose
  final evidence is captured on its way and becomes the result.
\<close>

section \<open>Capturing the final evidence\<close>

text \<open>
  The closure that wraps the final authority appends to a list of the caller. The list is
  a second component of the state; the other authorities do not see it.
\<close>

definition lift_call :: "('s, 'a) call \<Rightarrow> ('s \<times> 'c, 'a) call" where
  "lift_call c = (\<lambda>(s, xs). case c s of (r, t) \<Rightarrow> (r, (t, xs)))"

definition capture_call :: "('s, 'a) call \<Rightarrow> ('s \<times> 'a list, 'a) call" where
  "capture_call c = (\<lambda>(s, xs). case c s of
     (Returned e, t) \<Rightarrow> (Returned e, (t, xs @ [e])) | (r, t) \<Rightarrow> (r, (t, xs)))"

definition capturing :: "'s authorities \<Rightarrow> ('s \<times> final_evidence list) authorities" where
  "capturing a =
     \<lparr>au_principal = map_option (\<lambda>f p n. lift_call (f p n)) (au_principal a),
      au_placement = (\<lambda>i. lift_call (au_placement a i)),
      au_context = (\<lambda>c. lift_call (au_context a c)),
      au_authorization = (\<lambda>p c d. lift_call (au_authorization a p c d)),
      au_strength = map_option (\<lambda>f i x n. lift_call (f i x n)) (au_strength a),
      au_runtime = map_option (\<lambda>f n. lift_call (f n)) (au_runtime a),
      au_final = map_option (\<lambda>f p c d b x g. capture_call (f p c d b x g)) (au_final a)\<rparr>"

definition captured_by :: "('s \<times> 'c list, 'a) op \<Rightarrow> ('s, 'c list) op" where
  "captured_by m = (\<lambda>s. case m (s, []) of
     (Inl e, (t, xs)) \<Rightarrow> (Inl e, t) | (Inr v, (t, xs)) \<Rightarrow> (Inr xs, t))"

section \<open>The admission of a tenant operation\<close>

definition no_trace_ids :: trace_ids where
  "no_trace_ids =
     \<lparr>tr_request_id = None, tr_correlation_id = None, tr_causation_id = None,
      tr_operation_id = None\<rparr>"

definition shell_access_declaration :: "string \<Rightarrow> authorization_declaration" where
  "shell_access_declaration action =
     \<lparr>ad_action = action, ad_scope = ScopeTenant, ad_tenant_required = True,
      ad_step_up = StepUpPolicyDriven, ad_audit_class = AuditNormal, ad_resource_scope = None,
      ad_strength_policy_id = Some ''shell-access-v1'', ad_tenant_requirement = None\<rparr>"

definition admit_tenant ::
  "'s authorities \<Rightarrow> principal \<Rightarrow> strength_evidence option \<Rightarrow> datetime \<Rightarrow> string \<Rightarrow> string \<Rightarrow>
   ('s, final_evidence) op" where
  "admit_tenant a p strength now tenant action =
     bindS (open_call (au_placement a tenant)) (\<lambda>place.
     bindS (construct_tenant_context a p (destination_of tenant place) now no_trace_ids
              api_auth_boundary) (\<lambda>c.
     bindS (liftS (authorization_declaration_init (shell_access_declaration action))) (\<lambda>d.
     bindS (captured_by (authorize_protected_operation (capturing a) p d (Some c) now strength
              api_auth_boundary None)) (\<lambda>captured.
     (case captured of [e] \<Rightarrow> returnS e | _ \<Rightarrow> raiseS AdmissionDenied)))))"

fun principal_kind_value :: "principal_kind \<Rightarrow> string" where
  "principal_kind_value HumanBrowserSession = ''human_browser_session''"
| "principal_kind_value MachineApiPrincipal = ''machine_api_principal''"
| "principal_kind_value InternalServicePrincipal = ''internal_service_principal''"
| "principal_kind_value PlatformAdminPrincipal = ''platform_admin_principal''"
| "principal_kind_value ScheduledSystemProcess = ''scheduled/system_process''"

record actor_evidence =
  ac_principal_id :: string
  ac_principal_kind :: string
  ac_generation_ref :: string
  ac_decision_ref :: string

definition actor_of :: "final_evidence \<Rightarrow> actor_evidence" where
  "actor_of e =
     \<lparr>ac_principal_id = fe_principal_id e,
      ac_principal_kind = principal_kind_value (fe_principal_kind e),
      ac_generation_ref = fe_principal_credential_generation e,
      ac_decision_ref = fe_admission_revision e\<rparr>"

text \<open>The actions of the four goals.\<close>

definition g2_actions :: "string list" where
  "g2_actions = [''monitoring.source.manage'', ''monitoring.source.read'', ''monitoring.sync.read'']"

definition g3_actions :: "string list" where "g3_actions = [''monitoring.resource.read'']"

definition g4_actions :: "string list" where
  "g4_actions = [''monitoring.resource.read'', ''monitoring.metric.read'']"

definition g5_actions :: "string list" where
  "g5_actions =
     [''monitoring.resource.read'', ''monitoring.problem.read'', ''monitoring.health.read'']"

record 's bound_authorization =
  ba_principal :: principal
  ba_strength :: "strength_evidence option"
  ba_authorities :: "'s authorities"
  ba_now :: datetime

definition require_bound ::
  "string list \<Rightarrow> 's bound_authorization \<Rightarrow> string \<Rightarrow> string \<Rightarrow> string \<Rightarrow> ('s, actor_evidence) op" where
  "require_bound allowed g actor_ref tenant action =
     thenS (ensureS (actor_ref = pr_principal_id (ba_principal g)) AdmissionDenied)
    (thenS (ensureS (action \<in> set allowed) AdmissionDenied)
    (bindS (admit_tenant (ba_authorities g) (ba_principal g) (ba_strength g) (ba_now g) tenant
              action) (\<lambda>e.
     thenS (ensureS (fe_tenant_id e = Some tenant \<and> fe_action e = action) AdmissionDenied)
     (returnS (actor_of e)))))"

text \<open>The same for each of the other goals.\<close>

definition require_resources ::
  "'s bound_authorization \<Rightarrow> string \<Rightarrow> string \<Rightarrow> string \<Rightarrow> ('s, actor_evidence) op" where
  "require_resources g actor_ref tenant action = require_bound g3_actions g actor_ref tenant action"

definition require_metrics ::
  "'s bound_authorization \<Rightarrow> string \<Rightarrow> string \<Rightarrow> string \<Rightarrow> ('s, actor_evidence) op" where
  "require_metrics g actor_ref tenant action = require_bound g4_actions g actor_ref tenant action"

definition require_problems ::
  "'s bound_authorization \<Rightarrow> string \<Rightarrow> string \<Rightarrow> string \<Rightarrow> ('s, actor_evidence) op" where
  "require_problems g actor_ref tenant action = require_bound g5_actions g actor_ref tenant action"

section \<open>Only the final authority writes to the list\<close>

lemma lift_call_simps:
  "lift_call c (s, xs) = (r, (t, ys)) \<longleftrightarrow> c s = (r, t) \<and> ys = xs"
  by (auto simp: lift_call_def split: prod.splits)

definition keeps_list :: "('s \<times> 'c list, 'a) op \<Rightarrow> bool" where
  "keeps_list m \<longleftrightarrow> (\<forall>xs. preserves (\<lambda>s. snd s = xs) m)"

lemma keeps_bindS: "keeps_list m \<Longrightarrow> (\<And>v. keeps_list (k v)) \<Longrightarrow> keeps_list (bindS m k)"
  unfolding keeps_list_def by (blast intro: preserves_bindS)

lemma keeps_thenS: "keeps_list m \<Longrightarrow> keeps_list k \<Longrightarrow> keeps_list (thenS m k)"
  unfolding thenS_def by (rule keeps_bindS)

lemma keeps_basic:
  "keeps_list (returnS v)" "keeps_list (raiseS e)" "keeps_list (liftS r)"
  by (simp_all add: keeps_list_def)

lemma keeps_calls:
  "keeps_list (open_call (lift_call c))" "keeps_list (closed_call (lift_call c))"
  by (auto simp: keeps_list_def preserves_def open_call_def closed_call_def lift_call_def
      split: prod.splits reply.splits)

lemmas keeps_intros = keeps_thenS keeps_bindS keeps_basic keeps_calls

lemma keepsD: "keeps_list m \<Longrightarrow> m (s, xs) = (r, (t, ys)) \<Longrightarrow> ys = xs"
  unfolding keeps_list_def using preservesD [of "\<lambda>s. snd s = xs" m "(s, xs)"] by fastforce

lemma keeps_principal: "keeps_list (require_current_principal (capturing a) p now)"
  unfolding require_current_principal_def capturing_def
  by (cases "au_principal a") (auto intro!: keeps_intros)

lemma keeps_runtime: "keeps_list (require_current_runtime_execution (capturing a) b now)"
  unfolding require_current_runtime_execution_def capturing_def
  by (cases "au_runtime a") (auto intro!: keeps_intros)

lemma keeps_authorization: "keeps_list (evaluate_current_authorization (capturing a) p c d)"
  unfolding evaluate_current_authorization_def capturing_def by (auto intro!: keeps_intros)

lemma keeps_context:
  "keeps_list (require_context (capturing a) p b c)" "keeps_list (recheck_context (capturing a) b c)"
  by (auto simp: require_context_def recheck_context_def placement_gate_def capturing_def
      intro!: keeps_intros split: option.splits)

lemma keeps_strength:
  "keeps_list (require_declared_authentication_strength (capturing a) p d strength now)"
  unfolding require_declared_authentication_strength_def capturing_def
    require_authentication_strength_def policy_permits_def
  by (auto intro!: keeps_intros split: option.splits)

lemma keeps_lookups:
  "keeps_list (cross_tenant_gate (capturing a) p d b c now)" "keeps_list (latest_runtime (capturing a) d now)"
  using keeps_runtime [of a]
  by (auto simp: cross_tenant_gate_def latest_runtime_def intro!: keeps_intros)

text \<open>
  An admission that returns has asked the final authority once, last of all, so the list
  holds exactly the evidence that was checked.
\<close>

lemma authorize_capturing:
  assumes "authorize_protected_operation (capturing a) p d c now strength b target (s, xs) =
      (Inr r, (t, ys))"
  obtains f e u latest where "au_final a = Some f" "f p c d b strength target u = (Returned e, t)"
    "ys = xs @ [e]" "fe_granted e" "fe_current e" "final_binds_request e p d target"
    "final_binds_context e c" "final_binds_strength e d strength" "final_binds_runtime e d b latest"
proof -
  from assms obtain s1 s2 s3 s4 s5 s6 s7 s8 s9 s10 u zs d1 d2 latest where steps:
    "require_current_principal (capturing a) p now (s, xs) = (Inr (), s1)"
    "cross_tenant_gate (capturing a) p d b c now s1 = (Inr (), s2)"
    "require_context (capturing a) p b c s2 = (Inr (), s3)"
    "require_declared_authentication_strength (capturing a) p d strength now s3 = (Inr (), s4)"
    "require_current_principal (capturing a) p now s4 = (Inr (), s5)"
    "evaluate_current_authorization (capturing a) p c d s5 = (Inr d1, s6)"
    "recheck_context (capturing a) b c s6 = (Inr (), s7)"
    "require_declared_authentication_strength (capturing a) p d strength now s7 = (Inr (), s8)"
    "require_current_principal (capturing a) p now s8 = (Inr (), s9)"
    "latest_runtime (capturing a) d now s9 = (Inr latest, s10)"
    "evaluate_current_authorization (capturing a) p c d s10 = (Inr d2, (u, zs))"
    and final: "finalize_current_admission (capturing a) p c d b strength latest target (u, zs) =
      (Inr r, (t, ys))"
    unfolding authorize_returns by (metis surj_pair)
  have "zs = xs"
    using steps keepsD [OF keeps_principal] keepsD [OF keeps_lookups(1)] keepsD [OF keeps_context(1)]
      keepsD [OF keeps_strength] keepsD [OF keeps_authorization] keepsD [OF keeps_context(2)]
      keepsD [OF keeps_lookups(2)]
    by (metis surj_pair)
  then show thesis
    using final that unfolding finalize_returns
    by (auto simp: capturing_def capture_call_def split: prod.splits reply.splits)
qed

section \<open>What the evidence says\<close>

text \<open>The declared strength was accepted by the policy for this principal.\<close>

definition strength_accepted ::
  "'s authorities \<Rightarrow> principal \<Rightarrow> strength_evidence option \<Rightarrow> datetime \<Rightarrow> bool" where
  "strength_accepted a p strength now \<longleftrightarrow>
     (\<exists>x policy n u v. strength = Some x \<and> au_strength a = Some policy \<and> now = Aware n \<and>
        se_principal_id x = Some (pr_principal_id p) \<and>
        se_principal_credential_generation x = Some (pr_credential_generation p) \<and>
        strength_is_current x now = Inr True \<and>
        policy ''shell-access-v1'' x n u = (Returned True, v))"

lemma capturing_strength:
  assumes "authorize_protected_operation (capturing a) p d c now strength b target s = (Inr r, t)"
    and "ad_step_up d = StepUpPolicyDriven" "ad_strength_policy_id d = Some ''shell-access-v1''"
  shows "strength_accepted a p strength now"
proof -
  from assms(1) obtain s' t' where
    "require_declared_authentication_strength (capturing a) p d strength now s' = (Inr (), t')"
    unfolding authorize_returns by blast
  then show ?thesis
    using assms(2,3) unfolding declared_strength_returns strength_accepted_def
    by (cases s'; cases t') (auto simp: capturing_def lift_call_simps, blast)
qed

text \<open>
  \<open>finally_granted\<close>: the last thing that happened is that the final authority granted the
  action on the tenant to the principal, in a context the placement authority had placed.
\<close>

definition finally_granted ::
  "'s authorities \<Rightarrow> principal \<Rightarrow> strength_evidence option \<Rightarrow> datetime \<Rightarrow> string \<Rightarrow> string \<Rightarrow>
   final_evidence \<Rightarrow> 's \<Rightarrow> bool" where
  "finally_granted a p strength now tenant action e t \<longleftrightarrow>
     (\<exists>f c d u. au_final a = Some f \<and>
        f p (Some c) d api_auth_boundary strength None u = (Returned e, t) \<and>
        tc_tenant_id c = tenant \<and> matches_principal c p \<and> ad_action d = action) \<and>
     fe_granted e \<and> fe_current e \<and> fe_tenant_id e = Some tenant \<and> fe_action e = action \<and>
     fe_principal_id e = pr_principal_id p \<and> fe_principal_kind e = pr_kind p \<and>
     fe_principal_credential_generation e = pr_credential_generation p \<and>
     strength_accepted a p strength now"

lemma declaration_init_fields:
  "authorization_declaration_init (shell_access_declaration action) = Inr d \<Longrightarrow>
     ad_action d = action \<and> ad_step_up d = StepUpPolicyDriven \<and>
     ad_strength_policy_id d = Some ''shell-access-v1''"
  by (auto simp: authorization_declaration_init_def shell_access_declaration_def split: if_splits)

lemma construct_tenant_context_fields:
  assumes "construct_tenant_context a p w now ids b s = (Inr c, t)"
  shows "tc_tenant_id c = dn_tenant_id w \<and> matches_principal c p"
proof -
  from assms obtain e n where e: "placement_at_destination e w" "c = context_of p e n ids"
    unfolding construct_tenant_context_def sequence_returns ensureS_returns_iff liftS_returns_iff
      ensure_Inr_iff construct_Inr_iff by blast
  moreover have "pr_active p"
    using assms unfolding construct_tenant_context_def sequence_returns
      require_current_principal_returns by blast
  ultimately show ?thesis
    by (simp add: placement_at_destination_def context_of_def matches_principal_def)
qed

lemma single_returns:
  "(case xs of [x] \<Rightarrow> returnS x | _ \<Rightarrow> raiseS d) s = (Inr e, t) \<longleftrightarrow> xs = [e] \<and> s = t"
  by (auto split: list.splits)

lemma admit_tenant_returns:
  assumes "admit_tenant a p strength now tenant action s = (Inr e, t)"
  shows "finally_granted a p strength now tenant action e t"
proof -
  from assms obtain place c d s1 s2 xs where
    c: "construct_tenant_context a p (destination_of tenant place) now no_trace_ids api_auth_boundary s1 = (Inr c, s2)"
    and d: "authorization_declaration_init (shell_access_declaration action) = Inr d"
    and xs: "captured_by (authorize_protected_operation (capturing a) p d (Some c) now strength
        api_auth_boundary None) s2 = (Inr xs, t)" "xs = [e]"
    unfolding admit_tenant_def bindS_returns_iff liftS_returns_iff single_returns by blast
  from xs obtain r where r: "authorize_protected_operation (capturing a) p d (Some c) now strength
      api_auth_boundary None (s2, []) = (Inr r, (t, [e]))"
    by (auto simp: captured_by_def split: prod.splits sum.splits)
  obtain f e' u latest where f: "au_final a = Some f"
    "f p (Some c) d api_auth_boundary strength None u = (Returned e', t)"
    "[e] = [] @ [e']" "fe_granted e'" "fe_current e'" "final_binds_request e' p d None"
    "final_binds_context e' (Some c)"
    by (rule authorize_capturing [OF r])
  note fields = construct_tenant_context_fields [OF c] declaration_init_fields [OF d]
  have "strength_accepted a p strength now"
    using capturing_strength [OF r] fields by blast
  then show ?thesis
    using f fields unfolding finally_granted_def
    by (auto simp: final_binds_request_def destination_of_def)
qed

lemma require_bound_returns:
  "require_bound allowed g actor tenant action s = (Inr v, t) \<longleftrightarrow>
     actor = pr_principal_id (ba_principal g) \<and> action \<in> set allowed \<and>
     (\<exists>e. admit_tenant (ba_authorities g) (ba_principal g) (ba_strength g) (ba_now g) tenant action s =
         (Inr e, t) \<and> fe_tenant_id e = Some tenant \<and> fe_action e = action \<and> v = actor_of e)"
  unfolding require_bound_def sequence_returns ensureS_returns_iff ensure_Inr_iff
  by (auto simp: returnS_def)

text \<open>The evidence of a bound authorization is the final authority's own. When
  \<open>require\<close> returns, the caller is the principal of the request and the action is one the
  goal allows; the last event is that the final authority granted exactly this action on
  exactly this tenant to this principal under its current credential generation, after the
  policy \<open>shell-access-v1\<close> accepted the principal's own strength; and what is returned
  names that principal, its kind and generation and the revision of that grant.\<close>

theorem bound_evidence_is_final:
  assumes "require_bound allowed g actor tenant action s = (Inr v, t)"
  shows "actor = pr_principal_id (ba_principal g) \<and> action \<in> set allowed \<and>
    (\<exists>e. finally_granted (ba_authorities g) (ba_principal g) (ba_strength g) (ba_now g) tenant action e t \<and>
       v = actor_of e \<and> ac_principal_id v = actor \<and>
       ac_principal_kind v = principal_kind_value (pr_kind (ba_principal g)) \<and>
       ac_generation_ref v = pr_credential_generation (ba_principal g) \<and>
       ac_decision_ref v = fe_admission_revision e)"
proof -
  from assms obtain e where e: "actor = pr_principal_id (ba_principal g)" "action \<in> set allowed"
    "admit_tenant (ba_authorities g) (ba_principal g) (ba_strength g) (ba_now g) tenant action s = (Inr e, t)"
    "v = actor_of e"
    unfolding require_bound_returns by blast
  note granted = admit_tenant_returns [OF e(3)]
  then have "ac_principal_id v = actor \<and>
      ac_principal_kind v = principal_kind_value (pr_kind (ba_principal g)) \<and>
      ac_generation_ref v = pr_credential_generation (ba_principal g) \<and>
      ac_decision_ref v = fe_admission_revision e"
    using e(1,4) unfolding finally_granted_def by (simp add: actor_of_def)
  with granted e show ?thesis by blast
qed

section \<open>The interface of the goals\<close>

text \<open>
  The port \<open>CurrentAuthorizationPort\<close> of the goals: \<open>require\<close> for the actor of the request.
  What the views rely on is that it only returns in a state in which the action on the
  tenant was just granted.
\<close>

locale current_authorization =
  fixes require :: "string \<Rightarrow> string \<Rightarrow> ('s, actor_evidence) op"
    and granted_in :: "string \<Rightarrow> string \<Rightarrow> 's \<Rightarrow> bool"
  assumes require_grants: "require tenant action s = (Inr v, t) \<Longrightarrow> granted_in tenant action t"

definition require_own :: "string list \<Rightarrow> 's bound_authorization \<Rightarrow> string \<Rightarrow> string \<Rightarrow> ('s, actor_evidence) op" where
  "require_own allowed g tenant action = require_bound allowed g (pr_principal_id (ba_principal g)) tenant action"

definition bound_granted_in :: "'s bound_authorization \<Rightarrow> string \<Rightarrow> string \<Rightarrow> 's \<Rightarrow> bool" where
  "bound_granted_in g tenant action t \<longleftrightarrow>
     (\<exists>e. finally_granted (ba_authorities g) (ba_principal g) (ba_strength g) (ba_now g) tenant action e t)"

lemma require_own_grants:
  "require_own allowed g tenant action s = (Inr v, t) \<Longrightarrow> bound_granted_in g tenant action t"
  unfolding require_own_def bound_granted_in_def
  by (auto simp: require_bound_returns dest: admit_tenant_returns)

interpretation bound: current_authorization "require_own allowed g" "bound_granted_in g"
  for allowed g
  by unfold_locales (rule require_own_grants)

section \<open>A request that is admitted\<close>

text \<open>The development authorities with a strength policy.\<close>

definition sample_shell_final ::
  "principal \<Rightarrow> tenant_context option \<Rightarrow> authorization_declaration \<Rightarrow> runtime_binding \<Rightarrow>
   strength_evidence option \<Rightarrow> target_binding option \<Rightarrow> (unit, final_evidence) call" where
  "sample_shell_final p c d b strength target u =
     (Returned ((dev_final_evidence p c d b)
        \<lparr>fe_strength_policy_revision := map_option se_policy_version strength\<rparr>), u)"

definition sample_shell_authorities :: "unit authorities" where
  "sample_shell_authorities = (dev_authorities ''tenant:dev'' dev_cell)
     \<lparr>au_strength := Some (\<lambda>_ _ _ n. (Returned True, n)), au_final := Some sample_shell_final\<rparr>"

definition sample_shell_strength :: strength_evidence where
  "sample_shell_strength =
     \<lparr>se_issuer = ''i'', se_acr = None, se_amr = {}, se_authenticated_at = Aware (At 0),
      se_evidence_expires_at = Aware (At 9), se_policy_version = ''v'',
      se_principal_id = Some ''dev-user-1'',
      se_principal_credential_generation = Some ''credential-gen-dev-1''\<rparr>"

definition sample_bound :: "unit bound_authorization" where
  "sample_bound =
     \<lparr>ba_principal = dev_user, ba_strength = Some sample_shell_strength,
      ba_authorities = sample_shell_authorities, ba_now = Aware (At 2)\<rparr>"

definition sample_actor :: actor_evidence where
  "sample_actor =
     \<lparr>ac_principal_id = ''dev-user-1'', ac_principal_kind = ''human_browser_session'',
      ac_generation_ref = ''credential-gen-dev-1'', ac_decision_ref = ''admission-rev-dev-1''\<rparr>"

definition all_actions :: "string list" where
  "all_actions = g2_actions @ g4_actions @ [''monitoring.problem.read'', ''monitoring.health.read'']"

lemma sample_grants_source_manage:
  "require_bound [''monitoring.source.manage''] sample_bound ''dev-user-1'' ''tenant:dev'' ''monitoring.source.manage'' () =
     (Inr sample_actor, ())"
  by code_simp

lemma sample_grants_source_read:
  "require_bound [''monitoring.source.read''] sample_bound ''dev-user-1'' ''tenant:dev'' ''monitoring.source.read'' () =
     (Inr sample_actor, ())"
  by code_simp

lemma sample_grants_sync_read:
  "require_bound [''monitoring.sync.read''] sample_bound ''dev-user-1'' ''tenant:dev'' ''monitoring.sync.read'' () =
     (Inr sample_actor, ())"
  by code_simp

lemma sample_grants_resource_read:
  "require_bound [''monitoring.resource.read''] sample_bound ''dev-user-1'' ''tenant:dev'' ''monitoring.resource.read'' () =
     (Inr sample_actor, ())"
  by code_simp

lemma sample_grants_metric_read:
  "require_bound [''monitoring.metric.read''] sample_bound ''dev-user-1'' ''tenant:dev'' ''monitoring.metric.read'' () =
     (Inr sample_actor, ())"
  by code_simp

lemma sample_grants_problem_read:
  "require_bound [''monitoring.problem.read''] sample_bound ''dev-user-1'' ''tenant:dev'' ''monitoring.problem.read'' () =
     (Inr sample_actor, ())"
  by code_simp

lemma sample_grants_health_read:
  "require_bound [''monitoring.health.read''] sample_bound ''dev-user-1'' ''tenant:dev'' ''monitoring.health.read'' () =
     (Inr sample_actor, ())"
  by code_simp

lemma require_bound_member:
  "a \<in> set allowed \<Longrightarrow> a \<in> set allowed' \<Longrightarrow>
   require_bound allowed g actor tenant a s = require_bound allowed' g actor tenant a s"
  by (simp add: require_bound_def)

lemma sample_bound_runs:
  assumes "a \<in> set allowed" "a \<in> set all_actions"
  shows "require_bound allowed sample_bound ''dev-user-1'' ''tenant:dev'' a () = (Inr sample_actor, ())"
proof -
  have "require_bound [a] sample_bound ''dev-user-1'' ''tenant:dev'' a () = (Inr sample_actor, ())"
    using assms(2) sample_grants_source_manage sample_grants_source_read sample_grants_sync_read
      sample_grants_resource_read sample_grants_metric_read sample_grants_problem_read
      sample_grants_health_read
    unfolding all_actions_def g2_actions_def g4_actions_def set_append set_simps Un_iff insert_iff
    by (elim disjE) simp_all
  then show ?thesis
    by (subst require_bound_member [where allowed' = "[a]"]) (rule assms(1), simp_all)
qed

lemma sample_require_own:
  assumes "a \<in> set allowed" "a \<in> set all_actions"
  shows "require_own allowed sample_bound ''tenant:dev'' a () = (Inr sample_actor, ())"
  using sample_bound_runs [OF assms] by (simp add: require_own_def sample_bound_def dev_user_def)

lemmas action_lists = all_actions_def g2_actions_def g3_actions_def g4_actions_def g5_actions_def

theorem bound_evidence_is_final_witness:
  "bound_granted_in sample_bound ''tenant:dev'' ''monitoring.resource.read'' ()"
  using bound_evidence_is_final [OF sample_bound_runs [of _ g3_actions]]
  unfolding bound_granted_in_def by (auto simp: action_lists)

end
