(* ===== verification/Identity_Shell.thy ===== *)
theory Identity_Shell
  imports Bound_Authorization Session
begin

text \<open>
  src/src/jlmirror_g1/shell.py and the admission of src/src/jlmirror_g1/authority.py: logins,
  protected views and logouts, composed of the browser login, the session authority and the
  current admission of a tenant.
\<close>

section \<open>Records and ports\<close>

record shell_admission =
  ta_tenant_id :: string
  ta_admission_revision :: string

text \<open>\<open>value and value == value.strip()\<close>\<close>

definition canonical_binding :: "string \<Rightarrow> bool" where
  "canonical_binding s \<longleftrightarrow> s \<noteq> [] \<and> \<not> is_blank (hd s) \<and> \<not> is_blank (last s)"

definition valid_shell_admission :: "shell_admission \<Rightarrow> bool" where
  "valid_shell_admission a \<longleftrightarrow>
     canonical_binding (ta_tenant_id a) \<and> canonical_binding (ta_admission_revision a)"

record shell_view =
  sv_tenant_id :: string
  sv_principal_id :: string
  sv_admission_revision :: string
  sv_state :: string

record login_start =
  ls_transaction_id :: string
  ls_state :: string
  ls_nonce :: string
  ls_pkce_challenge :: string

record 's identity_shell =
  is_create_transaction :: "auth_transaction \<Rightarrow> ('s, bool) op"
  is_consume_transaction :: "'s consume_transaction"
  is_oidc :: oidc_port
  is_sessions_resolve :: "'s session_resolve"
  is_sessions_create :: "'s session_create"
  is_sessions_retire :: "'s session_retire"
  is_tenant_admission ::
    "principal \<Rightarrow> string \<Rightarrow> strength_evidence option \<Rightarrow> datetime \<Rightarrow> ('s, shell_admission) call"
  is_issuer :: string
  is_client_id :: string
  is_redirect_uri :: string
  is_transaction_lifetime :: int
  is_session_lifetime :: int

section \<open>The operations\<close>

definition begin_login ::
  "(string \<Rightarrow> string) \<Rightarrow> (string \<Rightarrow> string) \<Rightarrow> 's identity_shell \<Rightarrow> string \<Rightarrow> datetime \<Rightarrow>
   browser_draws \<Rightarrow> ('s, login_start) op" where
  "begin_login sha challenge w browser_binding now draws =
     bindS (liftS (begin_browser_auth sha challenge browser_binding (is_issuer w) (is_client_id w)
              (is_redirect_uri w) now (is_transaction_lifetime w) draws)) (\<lambda>init.
     bindS (is_create_transaction w (bi_transaction init)) (\<lambda>persisted.
     thenS (ensureS persisted AdmissionDenied)
     (returnS
        \<lparr>ls_transaction_id = bt_transaction_id (bi_transaction init), ls_state = bi_state init,
         ls_nonce = bi_nonce init, ls_pkce_challenge = bi_pkce_challenge init\<rparr>)))"

definition finish_login ::
  "(string \<Rightarrow> string) \<Rightarrow> 's identity_shell \<Rightarrow> string \<Rightarrow> string \<Rightarrow> string \<Rightarrow> string \<Rightarrow> datetime \<Rightarrow>
   (string \<times> string) \<times> (string \<times> string) \<times> (string \<times> string) \<Rightarrow> ('s, string) op" where
  "finish_login sha w transaction_id browser_binding returned_state code now draws =
     bindS (complete_browser_auth sha (is_consume_transaction w) (is_oidc w) transaction_id
              browser_binding returned_state code now) (\<lambda>(p, strength).
     issue_browser_session sha (is_sessions_create w) p now (is_session_lifetime w) (Some strength)
       draws)"

definition browser_handle :: "string \<Rightarrow> string res" where
  "browser_handle capability = rethrow (\<lambda>e. e = ValueError) AdmissionDenied (new_session_handle capability)"

definition open_shell ::
  "(string \<Rightarrow> string) \<Rightarrow> 's identity_shell \<Rightarrow> string \<Rightarrow> string \<Rightarrow> datetime \<Rightarrow> ('s, shell_view) op" where
  "open_shell sha w capability tenant now =
     bindS (liftS (browser_handle capability)) (\<lambda>handle.
     bindS (resolve_browser_session sha (is_sessions_resolve w) handle now) (\<lambda>r.
     bindS (open_call (is_tenant_admission w (bs_principal r) tenant (bs_authentication_strength r) now))
       (\<lambda>admission.
     thenS (ensureS (ta_tenant_id admission = tenant) AdmissionDenied)
    (thenS (ensureS (pr_active (bs_principal r)) AdmissionDenied)
    (returnS
       \<lparr>sv_tenant_id = ta_tenant_id admission, sv_principal_id = pr_principal_id (bs_principal r),
        sv_admission_revision = ta_admission_revision admission, sv_state = ''ready''\<rparr>)))))"

definition logout :: "(string \<Rightarrow> string) \<Rightarrow> 's identity_shell \<Rightarrow> string \<Rightarrow> datetime \<Rightarrow> ('s, unit) op" where
  "logout sha w capability now =
     bindS (liftS (browser_handle capability)) (\<lambda>handle.
     retire_browser_session sha (is_sessions_resolve w) (is_sessions_retire w) handle now)"

section \<open>The canonical admission\<close>

definition shell_action :: string where "shell_action = ''organization.memberships.read''"

definition require_current_shell ::
  "'s authorities \<Rightarrow> principal \<Rightarrow> string \<Rightarrow> strength_evidence option \<Rightarrow> datetime \<Rightarrow>
   ('s, shell_admission) op" where
  "require_current_shell a p tenant strength now =
     bindS (admit_tenant a p strength now tenant shell_action) (\<lambda>e.
     thenS (ensureS (fe_tenant_id e = Some tenant) AdmissionDenied)
     (liftS (construct valid_shell_admission ValueError
        \<lparr>ta_tenant_id = tenant, ta_admission_revision = fe_admission_revision e\<rparr>)))"

text \<open>An operation as a port of another component: its exceptions are the port's.\<close>

definition call_of :: "('s, 'a) op \<Rightarrow> ('s, 'a) call" where
  "call_of m s = (case m s of (Inr v, t) \<Rightarrow> (Returned v, t) | (Inl e, t) \<Rightarrow> (Raised e, t))"

lemma call_of_returns [res_simps]: "call_of m s = (Returned v, t) \<longleftrightarrow> m s = (Inr v, t)"
  by (auto simp: call_of_def split: prod.splits sum.splits)

lemma open_call_of: "open_call (call_of m) = m"
  by (rule ext) (auto simp: open_call_def call_of_def split: prod.splits sum.splits)


section \<open>Runs of the shell\<close>

text \<open>
  Any request of any browser, whether it succeeds or not. The digest \<open>d\<close> is the one under
  observation: handles drawn for new sessions have other digests.
\<close>

inductive shell_step ::
  "(string \<Rightarrow> string) \<Rightarrow> (string \<Rightarrow> string) \<Rightarrow> 's identity_shell \<Rightarrow> string \<Rightarrow> 's \<Rightarrow> 's \<Rightarrow> bool"
  for sha challenge w d where
  sh_begin: "begin_login sha challenge w binding now draws s = (r, t) \<Longrightarrow> shell_step sha challenge w d s t"
| sh_finish: "finish_login sha w tid binding state code now (a, b, c) s = (r, t) \<Longrightarrow>
    \<forall>(h, token) \<in> set [a, b, c]. sha h \<noteq> d \<Longrightarrow> shell_step sha challenge w d s t"
| sh_open: "open_shell sha w capability tenant now s = (r, t) \<Longrightarrow> shell_step sha challenge w d s t"
| sh_logout: "logout sha w capability now s = (r, t) \<Longrightarrow> shell_step sha challenge w d s t"

inductive_cases shell_stepE: "shell_step sha challenge w d s t"

text \<open>
  What the shell needs of its ports: the sessions form a session registry, and the other
  ports do not write to the sessions.
\<close>

locale shell_environment = session_registry resolve create retire store
  for resolve :: "'s session_resolve"
    and create :: "'s session_create"
    and retire :: "'s session_retire"
    and store :: "'s \<Rightarrow> string \<Rightarrow> session_record option" +
  fixes w :: "'s identity_shell"
  assumes ports: "is_sessions_resolve w = resolve" "is_sessions_create w = create"
      "is_sessions_retire w = retire"
    and create_transaction_keeps: "is_create_transaction w x s = (r1, t) \<Longrightarrow> store t = store s"
    and consume_keeps: "is_consume_transaction w i s = (r2, t) \<Longrightarrow> store t = store s"
    and admission_keeps: "is_tenant_admission w p i e n s = (r3, t) \<Longrightarrow> store t = store s"
begin

text \<open>When the shell opens, and what it shows.\<close>

lemma open_shell_iff:
  "open_shell sha w capability tenant now s = (Inr v, t) \<longleftrightarrow>
     is_session_handle capability \<and>
     (\<exists>r a. store s (sha capability) = Some r \<and> bs_handle_digest r = sha capability \<and>
        session_is_current r now = Inr True \<and>
        is_tenant_admission w (bs_principal r) tenant (bs_authentication_strength r) now s =
          (Returned a, t) \<and>
        ta_tenant_id a = tenant \<and> pr_active (bs_principal r) \<and>
        v = \<lparr>sv_tenant_id = tenant, sv_principal_id = pr_principal_id (bs_principal r),
             sv_admission_revision = ta_admission_revision a, sv_state = ''ready''\<rparr>)"
proof -
  have handle: "browser_handle capability = Inr h \<longleftrightarrow> is_session_handle capability \<and> h = capability" for h
    by (simp add: browser_handle_def rethrow_Inr_iff new_session_handle_def construct_Inr_iff)
  show ?thesis
    unfolding open_shell_def bindS_returns_iff thenS_returns_iff liftS_returns_iff ensureS_returns_iff
      ports resolve_iff handle open_call_Inr_iff ensure_Inr_iff returnS_def
    by auto
qed

lemma open_shell_ended:
  assumes "ended_at (store s) (sha capability)"
  shows "fst (open_shell sha w capability tenant now s) = Inl AdmissionDenied"
  by (cases "is_session_handle capability")
    (simp_all add: open_shell_def browser_handle_def new_session_handle_def construct_def
      bindS_apply ports ended_refused [where sha = sha and h = capability, OF assms])

lemma open_shell_keeps: "open_shell sha w capability tenant now s = (r, t) \<Longrightarrow> store t = store s"
  by (auto simp: open_shell_def bindS_apply ports open_call_def ensure_def
      dest!: resolve_state admission_keeps split: sum.splits prod.splits reply.splits if_splits)

lemma begin_login_keeps: "begin_login sha challenge w binding now draws s = (r, t) \<Longrightarrow> store t = store s"
  by (auto simp: begin_login_def bindS_apply ensure_def
      dest!: create_transaction_keeps split: sum.splits prod.splits if_splits)

lemma complete_browser_auth_keeps:
  "complete_browser_auth sha (is_consume_transaction w) oidc i binding state code now s = (r, t) \<Longrightarrow>
   store t = store s"
  by (auto simp: complete_browser_auth_def bindS_apply ensure_def
      dest!: consume_keeps split: sum.splits prod.splits option.splits if_splits)

lemma logout_ends:
  assumes "logout sha w capability now s = (Inr u, t)"
  shows "ended_at (store t) (sha capability)"
proof -
  have "retire_browser_session sha resolve retire capability now s = (Inr u, t)"
    using assms by (auto simp: logout_def bindS_apply ports browser_handle_def rethrow_def
        new_session_handle_def construct_def split: if_splits sum.splits)
  from retire_Inr [OF this] show ?thesis by (auto simp: ended_at_def retired_copy_def)
qed

lemma retire_keeps_ended:
  assumes "retire_browser_session sha resolve retire h now s = (r, t)" "ended_at (store s) d"
  shows "ended_at (store t) d"
proof (cases r)
  case (Inl e)
  then show ?thesis using assms retire_Inl by metis
next
  case (Inr u)
  with assms(1) have "retire_browser_session sha resolve retire h now s = (Inr u, t)" by simp
  from retire_Inr [OF this] assms(2) show ?thesis
    by (auto simp: ended_at_def retired_copy_def split: if_splits)
qed

lemma finish_keeps_ended:
  assumes "finish_login sha w tid binding state code now (a, b, c) s = (r, t)"
    and "\<forall>(h, token) \<in> set [a, b, c]. sha h \<noteq> d" "ended_at (store s) d"
  shows "ended_at (store t) d"
proof -
  obtain p u where c: "complete_browser_auth sha (is_consume_transaction w) (is_oidc w) tid binding
      state code now s = (p, u)" by fastforce
  then have u: "ended_at (store u) d" using complete_browser_auth_keeps [OF c] assms(3) by simp
  show ?thesis
  proof (cases p)
    case (Inl e)
    then show ?thesis using assms(1) c u by (simp add: finish_login_def)
  next
    case (Inr v)
    then have "issue_attempts sha create (fst v) now (is_session_lifetime w) (Some (snd v)) [a, b, c] u = (r, t)"
      using assms(1) c by (simp add: finish_login_def ports issue_browser_session_def split: prod.splits)
    then show ?thesis using ended_issue assms(2) u by blast
  qed
qed

lemma shell_step_keeps_ended:
  "shell_step sha challenge w d s t \<Longrightarrow> ended_at (store s) d \<Longrightarrow> ended_at (store t) d"
proof (induction rule: shell_step.induct)
  case (sh_begin binding now draws s r t)
  then show ?case by (auto dest!: begin_login_keeps)
next
  case (sh_finish tid binding state code now a b c s r t)
  then show ?case using finish_keeps_ended by blast
next
  case (sh_open capability tenant now s r t)
  then show ?case by (auto dest!: open_shell_keeps)
next
  case (sh_logout capability now s r t)
  then show ?case
    by (auto simp: logout_def bindS_apply ports split: sum.splits dest: retire_keeps_ended)
qed

lemma shell_run_keeps_ended:
  "(shell_step sha challenge w d)\<^sup>*\<^sup>* s t \<Longrightarrow> ended_at (store s) d \<Longrightarrow> ended_at (store t) d"
  by (induction rule: rtranclp_induct) (auto intro: shell_step_keeps_ended)

lemma logged_out_stays_closed:
  assumes "logout sha w capability now s = (Inr u, t)"
    and "(shell_step sha challenge w (sha capability))\<^sup>*\<^sup>* t t'"
  shows "fst (open_shell sha w capability tenant later t') = Inl AdmissionDenied"
  using open_shell_ended shell_run_keeps_ended [OF assms(2) logout_ends [OF assms(1)]] by blast

end

section \<open>The shell on its owners\<close>

text \<open>
  The sessions of the development server beside an environment in which the transactions
  and the authorities live.
\<close>

definition on_sessions :: "(session_store, 'a) op \<Rightarrow> (session_store \<times> 'e, 'a) op" where
  "on_sessions m = (\<lambda>(s, e). case m s of (r, t) \<Rightarrow> (r, (t, e)))"

definition on_environment :: "('e, 'a) op \<Rightarrow> ('s \<times> 'e, 'a) op" where
  "on_environment m = (\<lambda>(s, e). case m e of (r, f) \<Rightarrow> (r, (s, f)))"

lemma on_sessions_iff: "on_sessions m (s, e) = (r, (t, f)) \<longleftrightarrow> m s = (r, t) \<and> f = e"
  by (auto simp: on_sessions_def split: prod.splits)

lemma on_environment_iff: "on_environment m (s, e) = (r, (t, f)) \<longleftrightarrow> m e = (r, f) \<and> t = s"
  by (auto simp: on_environment_def split: prod.splits)

definition canonical_shell ::
  "'e authorities \<Rightarrow> (auth_transaction \<Rightarrow> ('e, bool) op) \<Rightarrow> 'e consume_transaction \<Rightarrow> oidc_port \<Rightarrow>
   string \<Rightarrow> string \<Rightarrow> string \<Rightarrow> int \<Rightarrow> int \<Rightarrow> (session_store \<times> 'e) identity_shell" where
  "canonical_shell a create_transaction consume oidc issuer client redirect transaction_lifetime
     session_lifetime =
     \<lparr>is_create_transaction = (\<lambda>x. on_environment (create_transaction x)),
      is_consume_transaction = (\<lambda>i. on_environment (consume i)), is_oidc = oidc,
      is_sessions_resolve = (\<lambda>d. on_sessions (mem_session_resolve d)),
      is_sessions_create = (\<lambda>r. on_sessions (mem_session_create r)),
      is_sessions_retire = (\<lambda>d g. on_sessions (mem_session_retire d g)),
      is_tenant_admission = (\<lambda>p tenant strength now.
        call_of (on_environment (require_current_shell a p tenant strength now))),
      is_issuer = issuer, is_client_id = client, is_redirect_uri = redirect,
      is_transaction_lifetime = transaction_lifetime, is_session_lifetime = session_lifetime\<rparr>"

lemma lifted_sessions: "session_registry (\<lambda>d. on_sessions (mem_session_resolve d))
  (\<lambda>r. on_sessions (mem_session_create r)) (\<lambda>d g. on_sessions (mem_session_retire d g)) (\<lambda>s. map_of (fst s))"
proof
  fix s t :: "session_store \<times> 'e" and d g r b c e
  obtain s1 s2 t1 t2 where [simp]: "s = (s1, s2)" "t = (t1, t2)" by fastforce
  show "on_sessions (mem_session_resolve d) s = (Inr (map_of (fst s) d), s)"
    by (simp add: on_sessions_iff mem_session.resolve_reads)
  show "on_sessions (mem_session_create r) s = (Inr b, t) \<Longrightarrow>
      if b then map_of (fst s) (bs_handle_digest r) = None \<and>
        map_of (fst t) = (map_of (fst s))(bs_handle_digest r \<mapsto> r) else t = s"
    using mem_session.create_effect [of r s1 b t1] by (auto simp: on_sessions_iff)
  show "on_sessions (mem_session_create r) s = (Inl e, t) \<Longrightarrow> t = s"
    using mem_session.raise_effect(1) [of r s1 e t1] by (auto simp: on_sessions_iff)
  show "on_sessions (mem_session_retire d g) s = (Inl e, t) \<Longrightarrow> t = s"
    using mem_session.raise_effect(2) [of d g s1 e t1] by (auto simp: on_sessions_iff)
  show "on_sessions (mem_session_retire d g) s = (Inr b, t) \<Longrightarrow>
      if b then \<exists>c. map_of (fst s) d = Some c \<and> bs_session_generation c = g \<and>
        map_of (fst t) = (map_of (fst s))(d \<mapsto> retired_copy c) else t = s"
    using mem_session.retire_effect [of d g s1 b t1] by (auto simp: on_sessions_iff)
qed

interpretation canonical: shell_environment "\<lambda>d. on_sessions (mem_session_resolve d)"
  "\<lambda>r. on_sessions (mem_session_create r)"
  "\<lambda>d g. on_sessions (mem_session_retire d g)" "\<lambda>s. map_of (fst s)"
  "canonical_shell a create_transaction consume oidc issuer client redirect tlife slife"
  for a :: "'e authorities" and create_transaction consume oidc issuer client redirect tlife slife
proof (intro shell_environment.intro lifted_sessions shell_environment_axioms.intro)
  fix s t :: "session_store \<times> 'e"
  obtain s1 s2 t1 t2 where [simp]: "s = (s1, s2)" "t = (t1, t2)" by fastforce
  let ?w = "canonical_shell a create_transaction consume oidc issuer client redirect tlife slife"
  show "is_create_transaction ?w x s = (r1, t) \<Longrightarrow> map_of (fst t) = map_of (fst s)" for x r1
    by (simp add: canonical_shell_def on_environment_iff)
  show "is_consume_transaction ?w i s = (r2, t) \<Longrightarrow> map_of (fst t) = map_of (fst s)" for i r2
    by (simp add: canonical_shell_def on_environment_iff)
  show "is_tenant_admission ?w p i e n s = (r3, t) \<Longrightarrow> map_of (fst t) = map_of (fst s)" for p i e n r3
    by (auto simp: canonical_shell_def call_of_def on_environment_def split: prod.splits sum.splits)
qed (simp_all add: canonical_shell_def)

section \<open>What the shell promises\<close>

lemma require_current_shell_returns:
  "require_current_shell a p tenant strength now s = (Inr v, t) \<longleftrightarrow>
     (\<exists>e. admit_tenant a p strength now tenant shell_action s = (Inr e, t) \<and>
        fe_tenant_id e = Some tenant \<and> valid_shell_admission v \<and>
        v = \<lparr>ta_tenant_id = tenant, ta_admission_revision = fe_admission_revision e\<rparr>)"
  unfolding require_current_shell_def sequence_returns ensureS_returns_iff liftS_returns_iff
    ensure_Inr_iff construct_Inr_iff by auto

text \<open>C6: the protected shell opens for a current session and a tenant that was granted to its
  principal, and for nothing else. A view is returned only when the capability's digest is
  that of a stored session that is neither retired nor outside its lifetime and whose
  principal is active; the sessions are as before; and the last event is that the final
  authority granted the reading of memberships of this very tenant to this principal, with
  the session's own authentication strength accepted. The view names that tenant, that
  principal and the revision of that grant.\<close>

theorem shell_opens_for_granted_session:
  assumes "open_shell sha (canonical_shell a create_transaction consume oidc issuer client redirect tlife slife)
      capability tenant now (sessions, env) = (Inr v, (sessions', env'))"
  shows "sessions' = sessions \<and>
    (\<exists>r e. map_of sessions (sha capability) = Some r \<and> bs_handle_digest r = sha capability \<and>
       session_is_current r now = Inr True \<and> \<not> bs_retired r \<and> pr_active (bs_principal r) \<and>
       finally_granted a (bs_principal r) (bs_authentication_strength r) now tenant shell_action e env' \<and>
       v = \<lparr>sv_tenant_id = tenant, sv_principal_id = pr_principal_id (bs_principal r),
            sv_admission_revision = fe_admission_revision e, sv_state = ''ready''\<rparr>)"
proof -
  from assms obtain r x where r: "map_of sessions (sha capability) = Some r"
    "bs_handle_digest r = sha capability" "session_is_current r now = Inr True" "pr_active (bs_principal r)"
    and x: "call_of (on_environment (require_current_shell a (bs_principal r) tenant
        (bs_authentication_strength r) now)) (sessions, env) = (Returned x, (sessions', env'))"
    and v: "v = \<lparr>sv_tenant_id = tenant, sv_principal_id = pr_principal_id (bs_principal r),
        sv_admission_revision = ta_admission_revision x, sv_state = ''ready''\<rparr>"
    unfolding canonical.open_shell_iff by (auto simp: canonical_shell_def)
  from x have shell: "require_current_shell a (bs_principal r) tenant (bs_authentication_strength r) now env =
      (Inr x, env')" "sessions' = sessions"
    by (simp_all add: call_of_returns on_environment_iff)
  then obtain e where e: "admit_tenant a (bs_principal r) (bs_authentication_strength r) now tenant
      shell_action env = (Inr e, env')" "ta_admission_revision x = fe_admission_revision e"
    unfolding require_current_shell_returns by auto
  have "\<not> bs_retired r" using r(3) by (simp add: session_is_current_def split: if_splits)
  then show ?thesis using r v e shell(2) admit_tenant_returns [OF e(1)] by auto
qed

text \<open>A logout is final. After a successful logout of a capability no later request opens
  the shell with it, whatever logins, views and logouts any browser makes in between, as
  long as no handle drawn for a new session has its digest.\<close>

theorem logged_out_shell_stays_closed:
  assumes "logout sha (canonical_shell a create_transaction consume oidc issuer client redirect tlife slife)
      capability now s = (Inr u, t)"
    and "(shell_step sha challenge (canonical_shell a create_transaction consume oidc issuer client
      redirect tlife slife) (sha capability))\<^sup>*\<^sup>* t t'"
  shows "fst (open_shell sha (canonical_shell a create_transaction consume oidc issuer client redirect tlife slife)
    capability tenant later t') = Inl AdmissionDenied"
  by (rule canonical.logged_out_stays_closed [OF assms])

section \<open>A shell that opens and closes\<close>

definition sample_stored :: session_record where
  "sample_stored = sample_session
     \<lparr>bs_authentication_strength := Some (sample_shell_strength
        \<lparr>se_principal_id := Some ''u1'', se_principal_credential_generation := Some ''session-t1''\<rparr>)\<rparr>"

definition sample_shell :: "(session_store \<times> unit) identity_shell" where
  "sample_shell = canonical_shell sample_shell_authorities (\<lambda>_. returnS True) (\<lambda>_. returnS None)
     (\<lambda>_ _ _ _ _. Raised AdmissionDenied) ''i'' ''c'' ''r'' 300 900"

lemma sample_shell_opens:
  "open_shell sample_hash sample_shell sample_handle ''tenant:dev'' (Aware (At 2))
     ([(sample_hash sample_handle, sample_stored)], ()) =
   (Inr \<lparr>sv_tenant_id = ''tenant:dev'', sv_principal_id = ''u1'',
         sv_admission_revision = ''admission-rev-dev-1'', sv_state = ''ready''\<rparr>,
    ([(sample_hash sample_handle, sample_stored)], ()))"
  by code_simp

lemma sample_shell_closes:
  "logout sample_hash sample_shell sample_handle (Aware (At 2))
     ([(sample_hash sample_handle, sample_stored)], ()) =
   (Inr (), ([(sample_hash sample_handle, retired_copy sample_stored)], ()))"
  by code_simp

theorem shell_opens_for_granted_session_witness:
  "\<exists>e. finally_granted sample_shell_authorities sample_session_principal
     (bs_authentication_strength sample_stored) (Aware (At 2)) ''tenant:dev'' shell_action e ()"
  using shell_opens_for_granted_session [OF sample_shell_opens [unfolded sample_shell_def]]
  by (auto simp: sample_stored_def sample_session_def)

theorem logged_out_shell_stays_closed_witness:
  "fst (open_shell sample_hash sample_shell sample_handle ''tenant:dev'' (Aware (At 2))
     ([(sample_hash sample_handle, retired_copy sample_stored)], ())) = Inl AdmissionDenied"
  using logged_out_shell_stays_closed [OF sample_shell_closes [unfolded sample_shell_def] rtranclp.rtrancl_refl]
  by (simp add: sample_shell_def)
end
