(* ===== verification/Payloads.thy ===== *)
theory Payloads
  imports Canonical_JSON
begin

text \<open>
  Decoded JSON values as the applications and the reference models handle them, their compact
  rendering in insertion order and their canonical rendering with sorted keys.
\<close>

section \<open>Payloads\<close>

text \<open>\<open>PNumber\<close> carries the text that \<open>json.dumps\<close> gives a float.\<close>

datatype payload =
    PNull | PText string | PInt int | PNumber string | PFlag bool
  | PArr "payload list" | PObj "(string \<times> payload) list"

fun nat_digits :: "nat \<Rightarrow> string" where
  "nat_digits n =
     (if n < 10 then [char_of (48 + n)] else nat_digits (n div 10) @ [char_of (48 + n mod 10)])"

declare nat_digits.simps [simp del]

definition int_text :: "int \<Rightarrow> string" where
  "int_text i = (if i < 0 then CHR ''-'' # nat_digits (nat (- i)) else nat_digits (nat i))"

text \<open>The digits determine the number.\<close>

definition digits_number :: "string \<Rightarrow> nat" where
  "digits_number = foldl (\<lambda>n c. 10 * n + (of_char c - 48)) 0"

lemma nat_digits_number: "digits_number (nat_digits n) = n"
proof (induction n rule: nat_digits.induct)
  case (1 n)
  then show ?case by (subst nat_digits.simps) (simp add: digits_number_def)
qed

lemma nat_digits_nonempty: "nat_digits n \<noteq> []"
  by (subst nat_digits.simps) simp

lemma nat_digits_chars: "list_all is_digit (nat_digits n)"
proof (induction n rule: nat_digits.induct)
  case (1 n)
  have "n mod 10 \<le> 9" using mod_less_divisor [of 10 n] by linarith
  then show ?case using 1
    by (subst nat_digits.simps) (simp add: list_all_iff is_digit_def code_in_def)
qed

lemma nat_digits_inj: "nat_digits m = nat_digits n \<longleftrightarrow> m = n"
  by (metis nat_digits_number)

lemma nat_digits_sign: "nat_digits n \<noteq> CHR ''-'' # s"
  using nat_digits_chars [of n] by (auto simp: is_digit_def code_in_def)

lemma int_text_inj: "int_text i = int_text j \<longleftrightarrow> i = j"
  by (auto simp: int_text_def nat_digits_inj nat_digits_sign nat_digits_sign [symmetric])

lemma int_text_chars: "CHR 0x1F \<notin> set (int_text i)"
proof -
  have "CHR 0x1F \<notin> set (nat_digits n)" for n
    using nat_digits_chars [of n] by (auto simp: list_all_iff is_digit_def code_in_def)
  then show ?thesis by (simp add: int_text_def)
qed

text \<open>\<open>json.dumps(value, ensure_ascii=False, separators=(",", ":"))\<close>\<close>

primrec compact :: "payload \<Rightarrow> string" where
  "compact PNull = ''null''"
| "compact (PText s) = json_text False s"
| "compact (PInt i) = int_text i"
| "compact (PNumber x) = x"
| "compact (PFlag b) = (if b then ''true'' else ''false'')"
| "compact (PArr vs) = CHR ''['' # commas (map compact vs) @ '']''"
| "compact (PObj fs) =
     CHR ''{'' # commas (map (member_text False) (map (map_prod id compact) fs)) @ ''}''"

definition payload_bytes :: "payload \<Rightarrow> nat" where
  "payload_bytes v = length (utf8 (compact v))"

text \<open>A bound on the rendering that does not render.\<close>

primrec weight :: "payload \<Rightarrow> nat" where
  "weight PNull = 4"
| "weight (PText s) = 6 * length s + 2"
| "weight (PInt i) = length (int_text i)"
| "weight (PNumber x) = length x"
| "weight (PFlag b) = 5"
| "weight (PArr vs) = 2 + sum_list (map (\<lambda>v. v + 1) (map weight vs))"
| "weight (PObj fs) = 2 + sum_list (map (\<lambda>(k, w). 6 * length k + w + 4) (map (map_prod id weight) fs))"

lemma json_text_length: "length (json_text False s) \<le> 6 * length s + 2"
proof -
  have "length (json_char False c) \<le> 6" for c by (simp add: json_char_def)
  then have "length (concat (map (json_char False) s)) \<le> 6 * length s"
    by (induction s) (simp_all add: add_mono)
  then show ?thesis by (simp add: json_text_def)
qed

lemma commas_length: "length (commas xs) \<le> sum_list (map (\<lambda>x. length x + 1) xs)"
  by (induction xs rule: commas.induct) simp_all

lemma compact_length: "length (compact v) \<le> weight v"
proof (induction v)
  case (PText s)
  then show ?case using json_text_length [of s] by simp
next
  case (PArr vs)
  then have "sum_list (map (\<lambda>x. length (compact x) + 1) vs) \<le> sum_list (map (\<lambda>x. weight x + 1) vs)"
    by (intro sum_list_mono) auto
  then show ?case using commas_length [of "map compact vs"] by (simp add: comp_def)
next
  case (PObj fs)
  then have "length (member_text False (k, compact v)) + 1 \<le> 6 * length k + weight v + 4"
    if "(k, v) \<in> set fs" for k v
    using that json_text_length [of k] by (fastforce simp: member_text_def)
  then have "sum_list (map (\<lambda>(k, v). length (member_text False (k, compact v)) + 1) fs) \<le>
      sum_list (map (\<lambda>(k, v). 6 * length k + weight v + 4) fs)"
    by (intro sum_list_mono) auto
  then show ?case
    using commas_length [of "map (member_text False) (map (map_prod id compact) fs)"]
    by (simp add: comp_def case_prod_unfold map_prod_def)
qed simp_all

lemma payload_bytes_weight: "payload_bytes v \<le> 2 * weight v"
proof -
  have "length (utf8 s) \<le> 2 * length s" for s
    unfolding utf8_def by (induction s) (simp_all add: utf8_char_def)
  from this [of "compact v"] compact_length [of v] show ?thesis by (simp add: payload_bytes_def)
qed

section \<open>Canonical rendering\<close>

text \<open>
  \<open>json.dumps(value, sort_keys=True, separators=(",", ":"), ensure_ascii=ascii)\<close>, and the
  value with the fields of every object in the order in which they are written: two values
  with the same fields have one normal form.
\<close>

primrec canonical :: "bool \<Rightarrow> payload \<Rightarrow> string" where
  "canonical ascii PNull = ''null''"
| "canonical ascii (PText s) = json_text ascii s"
| "canonical ascii (PInt i) = int_text i"
| "canonical ascii (PNumber x) = x"
| "canonical ascii (PFlag b) = (if b then ''true'' else ''false'')"
| "canonical ascii (PArr vs) = CHR ''['' # commas (map (canonical ascii) vs) @ '']''"
| "canonical ascii (PObj fs) =
     CHR ''{'' # commas (map (member_text ascii) (sort_key fst (map (map_prod id (canonical ascii)) fs)))
       @ ''}''"

primrec normal :: "payload \<Rightarrow> payload" where
  "normal PNull = PNull"
| "normal (PText s) = PText s"
| "normal (PInt i) = PInt i"
| "normal (PNumber x) = PNumber x"
| "normal (PFlag b) = PFlag b"
| "normal (PArr vs) = PArr (map normal vs)"
| "normal (PObj fs) = PObj (sort_key fst (map (map_prod id normal) fs))"

text \<open>Objects name every field once, and no number is a float.\<close>

fun plain_payload :: "payload \<Rightarrow> bool" where
  "plain_payload (PNumber x) = False"
| "plain_payload (PArr vs) = list_all plain_payload vs"
| "plain_payload (PObj fs) = (distinct (map fst fs) \<and> list_all (\<lambda>(k, v). plain_payload v) fs)"
| "plain_payload _ = True"

lemma sort_key_map_snd:
  fixes fs :: "(string \<times> 'a) list"
  shows "sort_key fst (map (map_prod id f) fs) = map (map_prod id f) (sort_key fst fs)"
proof -
  have "insort_key fst (map_prod id f p) (map (map_prod id f) xs) = map (map_prod id f) (insort_key fst p xs)"
    for p and xs :: "(string \<times> 'a) list"
    by (induction xs) simp_all
  then show ?thesis by (induction fs) simp_all
qed

lemma canonical_normal: "canonical ascii (normal v) = canonical ascii v"
proof (induction v)
  case (PArr vs)
  then show ?case by (simp add: comp_def cong: map_cong)
next
  case (PObj fs)
  have "canonical ascii (normal v) = canonical ascii v" if "(k, v) \<in> set fs" for k v
    using PObj that by fastforce
  then have "map (map_prod id (canonical ascii)) (map (map_prod id normal) fs) = map (map_prod id (canonical ascii)) fs"
    by auto
  then show ?case
    by (simp only: normal.simps canonical.simps sort_key_map_snd [symmetric]
        sort_key_id_if_sorted [OF sorted_sort_key])
qed simp_all

text \<open>A rendered value ends before a character that continues no number.\<close>

definition stops :: "string \<Rightarrow> bool" where
  "stops x \<longleftrightarrow> x = [] \<or> \<not> is_digit (hd x)"

lemma stops_simps [simp]: "stops []" "stops (c # x) \<longleftrightarrow> \<not> is_digit c"
  by (simp_all add: stops_def)

definition separable :: "('a \<Rightarrow> string) \<Rightarrow> 'a set \<Rightarrow> 'a set \<Rightarrow> bool" where
  "separable f A B \<longleftrightarrow>
     (\<forall>v\<in>A. \<forall>w\<in>B. \<forall>x y. stops x \<longrightarrow> stops y \<longrightarrow> f v @ x = f w @ y \<longrightarrow> v = w \<and> x = y)"

lemma separableD:
  "separable f A B \<Longrightarrow> v \<in> A \<Longrightarrow> w \<in> B \<Longrightarrow> stops x \<Longrightarrow> stops y \<Longrightarrow> f v @ x = f w @ y \<Longrightarrow> v = w \<and> x = y"
  unfolding separable_def by blast

lemma separable_mono: "separable f A B \<Longrightarrow> A' \<subseteq> A \<Longrightarrow> B' \<subseteq> B \<Longrightarrow> separable f A' B'"
  unfolding separable_def by blast

definition comma_tail :: "('a \<Rightarrow> string) \<Rightarrow> 'a list \<Rightarrow> string" where
  "comma_tail f vs = concat (map (\<lambda>v. CHR '','' # f v) vs)"

lemma comma_tail_simps [simp]: "comma_tail f [] = []" "comma_tail f (v # vs) = CHR '','' # f v @ comma_tail f vs"
  by (simp_all add: comma_tail_def)

lemma comma_tail_stops: "\<not> is_digit c \<Longrightarrow> stops (comma_tail f vs @ c # x)"
  by (cases vs) (simp_all add: is_digit_def code_in_def)

lemma separable_tail:
  assumes "separable f (set xs) (set ys)" "c \<noteq> CHR '',''" "\<not> is_digit c"
    and "comma_tail f xs @ c # x = comma_tail f ys @ c # y"
  shows "xs = ys \<and> x = y"
  using assms
proof (induction xs arbitrary: ys)
  case Nil
  then show ?case by (cases ys) auto
next
  case (Cons v vs)
  from Cons.prems(2,4) obtain w ws where ys: "ys = w # ws" by (cases ys) auto
  have "v = w \<and> comma_tail f vs @ c # x = comma_tail f ws @ c # y"
    using Cons.prems(4) ys
    by (intro separableD [OF Cons.prems(1)] comma_tail_stops Cons.prems(3)) simp_all
  moreover have "separable f (set vs) (set ws)"
    by (rule separable_mono [OF Cons.prems(1)]) (auto simp: ys)
  ultimately show ?case using Cons.IH Cons.prems(2,3) ys by blast
qed

lemma commas_tail: "commas (map f (v # vs)) @ x = f v @ comma_tail f vs @ x"
  by (simp add: commas_Cons comma_tail_def comp_def)

lemma separable_commas:
  assumes s: "separable f (set xs) (set ys)" and c: "c \<noteq> CHR '',''" "\<not> is_digit c"
    and shape: "\<And>v. v \<in> set xs \<union> set ys \<Longrightarrow> \<exists>h t. f v = h # t \<and> h \<noteq> c"
    and eq: "commas (map f xs) @ c # x = commas (map f ys) @ c # y"
  shows "xs = ys \<and> x = y"
proof (cases xs)
  case Nil
  then show ?thesis using eq shape [of "hd ys"] by (cases ys) (auto simp: commas_Cons)
next
  case (Cons v vs)
  then obtain w ws where ys: "ys = w # ws"
    using eq shape [of v] by (cases ys) (auto simp: commas_Cons)
  have "f v @ comma_tail f vs @ c # x = f w @ comma_tail f ws @ c # y"
    using eq unfolding Cons ys commas_tail .
  then have "v = w \<and> comma_tail f vs @ c # x = comma_tail f ws @ c # y"
    by (intro separableD [OF s] comma_tail_stops c) (simp_all add: Cons ys)
  moreover have "separable f (set vs) (set ws)"
    by (rule separable_mono [OF s]) (auto simp: Cons ys)
  ultimately show ?thesis using separable_tail [OF _ c] Cons ys by blast
qed

text \<open>Numbers end where no digit follows.\<close>

lemma digits_split:
  "list_all is_digit s \<Longrightarrow> list_all is_digit t \<Longrightarrow> stops x \<Longrightarrow> stops y \<Longrightarrow> s @ x = t @ y \<Longrightarrow> s = t \<and> x = y"
proof (induction s arbitrary: t)
  case Nil
  then show ?case by (cases t) (auto simp: stops_def)
next
  case (Cons c s)
  then show ?case by (cases t) (auto simp: stops_def)
qed

lemma int_text_split:
  assumes "stops x" "stops y" "int_text i @ x = int_text j @ y"
  shows "i = j \<and> x = y"
proof -
  have minus: "\<not> is_digit (CHR ''-'')" by (simp add: is_digit_def code_in_def)
  have apart: "nat_digits m @ u \<noteq> CHR ''-'' # z" for m u z
    using nat_digits_chars [of m] minus nat_digits_nonempty [of m] by (cases "nat_digits m") auto
  have digits: "nat_digits m @ x = nat_digits n @ y \<Longrightarrow> m = n \<and> x = y" for m n
    using digits_split [OF nat_digits_chars nat_digits_chars assms(1,2)] nat_digits_inj by blast
  show ?thesis
  proof (cases "i < 0"; cases "j < 0")
    assume "i < 0" "j < 0"
    then show ?thesis using assms(3) digits [of "nat (- i)" "nat (- j)"] by (auto simp: int_text_def)
  next
    assume "i < 0" "\<not> j < 0"
    then show ?thesis using assms(3) apart [of "nat j" y] by (auto simp: int_text_def dest: sym)
  next
    assume "\<not> i < 0" "j < 0"
    then show ?thesis using assms(3) apart [of "nat i"] by (simp add: int_text_def)
  next
    assume "\<not> i < 0" "\<not> j < 0"
    then show ?thesis using assms(3) digits [of "nat i" "nat j"] by (auto simp: int_text_def)
  qed
qed

definition kind_char :: "payload \<Rightarrow> char set" where
  "kind_char v =
     (case v of PNull \<Rightarrow> {CHR ''n''} | PText _ \<Rightarrow> {CHR 0x22} | PFlag b \<Rightarrow> {if b then CHR ''t'' else CHR ''f''}
      | PArr _ \<Rightarrow> {CHR ''[''} | PObj _ \<Rightarrow> {CHR ''{''} | _ \<Rightarrow> {c. is_digit c \<or> c = CHR ''-''})"

lemma int_text_head: "\<exists>h t. int_text i = h # t \<and> (is_digit h \<or> h = CHR ''-'')"
proof -
  obtain h t where "nat_digits (nat i) = h # t" "is_digit h"
    using nat_digits_chars [of "nat i"] nat_digits_nonempty [of "nat i"] by (cases "nat_digits (nat i)") auto
  then show ?thesis by (simp add: int_text_def)
qed

lemma canonical_head:
  "plain_payload v \<Longrightarrow> \<exists>h t. canonical ascii v = h # t \<and> h \<in> kind_char v"
  using int_text_head by (cases v) (simp_all add: json_text_def kind_char_def)

lemma kind_char_apart:
  "c \<in> kind_char v \<Longrightarrow> c \<in> kind_char w \<Longrightarrow> plain_payload v \<Longrightarrow> plain_payload w \<Longrightarrow>
   (case v of PNull \<Rightarrow> w = PNull | PText _ \<Rightarrow> \<exists>t. w = PText t | PInt _ \<Rightarrow> \<exists>j. w = PInt j
    | PFlag b \<Rightarrow> w = PFlag b | PArr _ \<Rightarrow> \<exists>ws. w = PArr ws | PObj _ \<Rightarrow> \<exists>gs. w = PObj gs | _ \<Rightarrow> False)"
  by (cases v; cases w) (auto simp: kind_char_def is_digit_def code_in_def split: if_splits)

lemma member_separable:
  assumes "\<And>k v k' w. (k, v) \<in> A \<Longrightarrow> (k', w) \<in> B \<Longrightarrow> separable (canonical ascii) {v} {w}"
  shows "separable (\<lambda>m. member_text ascii (map_prod id (canonical ascii) m)) A B"
  unfolding separable_def
proof (intro ballI allI impI)
  fix m n x y
  assume mn: "m \<in> A" "n \<in> B" and stops: "stops x" "stops y"
    and eq: "member_text ascii (map_prod id (canonical ascii) m) @ x =
      member_text ascii (map_prod id (canonical ascii) n) @ y"
  obtain k v k' w where p: "m = (k, v)" "n = (k', w)" by (cases m, cases n)
  have "json_text ascii k @ CHR '':'' # canonical ascii v @ x = json_text ascii k' @ CHR '':'' # canonical ascii w @ y"
    using eq p by (simp add: member_text_def)
  then have "k = k'" "canonical ascii v @ x = canonical ascii w @ y" using json_text_unique by blast+
  then show "m = n \<and> x = y"
    using assms [of k v k' w] mn p stops by (simp add: separable_def)
qed

fun in_order :: "payload \<Rightarrow> bool" where
  "in_order (PNumber x) = False"
| "in_order (PArr vs) = list_all in_order vs"
| "in_order (PObj fs) = (sorted_wrt (<) (map fst fs) \<and> list_all (\<lambda>(k, v). in_order v) fs)"
| "in_order _ = True"

lemma in_order_plain: "in_order v \<Longrightarrow> plain_payload v"
proof (induction v)
  case (PArr vs)
  then show ?case by (auto simp: list_all_iff)
next
  case (PObj fs)
  have "plain_payload v" if "(k, v) \<in> set fs" for k v
    using PObj that by (fastforce simp: list_all_iff)
  moreover have "distinct (map fst fs)" using PObj.prems by (simp add: strict_sorted_iff)
  ultimately show ?case by (auto simp: list_all_iff)
qed simp_all

lemma sort_in_order:
  "sorted_wrt (<) (map fst fs) \<Longrightarrow>
   sort_key fst (map (map_prod id g) fs) = map (map_prod id g) (fs :: (string \<times> payload) list)"
  by (rule sort_key_id_if_sorted) (simp add: strict_sorted_imp_sorted comp_def)

lemma keys_sorted: "map fst (sort_key fst fs) = sort (map fst (fs :: (string \<times> 'a) list))"
proof -
  have "map fst (insort_key fst p xs) = insort (fst p) (map fst xs)" for p and xs :: "(string \<times> 'a) list"
    by (induction xs) simp_all
  then show ?thesis by (induction fs) simp_all
qed

lemma normal_in_order: "plain_payload v \<Longrightarrow> in_order (normal v)"
proof (induction v)
  case (PArr vs)
  then show ?case by (auto simp: list_all_iff)
next
  case (PObj fs)
  have each: "in_order (normal v)" if "(k, v) \<in> set fs" for k v
    using PObj that by (fastforce simp: list_all_iff)
  have "distinct (map fst (sort_key fst (map (map_prod id normal) fs)))"
    using PObj.prems by (simp add: keys_sorted comp_def)
  then show ?case using each by (auto simp: list_all_iff strict_sorted_iff)
qed simp_all

lemma canonical_kinds:
  assumes "plain_payload v" "plain_payload w" "canonical ascii v @ x = canonical ascii w @ y"
  shows "case v of PNull \<Rightarrow> w = PNull | PText _ \<Rightarrow> \<exists>t. w = PText t | PInt _ \<Rightarrow> \<exists>j. w = PInt j
    | PFlag b \<Rightarrow> w = PFlag b | PArr _ \<Rightarrow> \<exists>ws. w = PArr ws | PObj _ \<Rightarrow> \<exists>gs. w = PObj gs | _ \<Rightarrow> False"
proof -
  obtain h t where h: "canonical ascii v = h # t" "h \<in> kind_char v"
    using canonical_head [OF assms(1)] by blast
  obtain k u where k: "canonical ascii w = k # u" "k \<in> kind_char w"
    using canonical_head [OF assms(2)] by blast
  have "h = k" using assms(3) h(1) k(1) by simp
  then show ?thesis using kind_char_apart [OF h(2) _ assms(1,2)] k(2) by simp
qed

lemma canonical_head_not:
  "plain_payload v \<Longrightarrow> c \<in> {CHR '']'', CHR ''}''} \<Longrightarrow> \<exists>h t. canonical ascii v = h # t \<and> h \<noteq> c"
  using canonical_head [of v ascii] by (cases v) (auto simp: kind_char_def is_digit_def code_in_def split: if_splits)

lemma canonical_unique:
  "in_order v \<Longrightarrow> in_order w \<Longrightarrow> stops x \<Longrightarrow> stops y \<Longrightarrow>
   canonical ascii v @ x = canonical ascii w @ y \<Longrightarrow> v = w \<and> x = y"
proof (induction v arbitrary: w x y)
  case PNull
  then show ?case using canonical_kinds [of PNull w ascii x y] in_order_plain by simp
next
  case (PText s)
  then obtain t where "w = PText t" using canonical_kinds [of "PText s" w ascii x y] in_order_plain by auto
  then show ?case using PText.prems(5) json_text_unique [of ascii s x t y] by simp
next
  case (PInt i)
  then obtain j where "w = PInt j" using canonical_kinds [of "PInt i" w ascii x y] in_order_plain by auto
  then show ?case using PInt.prems(3-5) int_text_split [of x y i j] by simp
next
  case (PNumber s)
  then show ?case by simp
next
  case (PFlag b)
  then show ?case using canonical_kinds [of "PFlag b" w ascii x y] in_order_plain by simp
next
  case (PArr vs)
  obtain ws where w: "w = PArr ws"
    using canonical_kinds [of "PArr vs" w ascii x y] PArr.prems in_order_plain by fastforce
  have "separable (canonical ascii) (set vs) (set ws)"
    unfolding separable_def using PArr.IH PArr.prems(1,2) by (auto simp: w list_all_iff)
  moreover have "commas (map (canonical ascii) vs) @ CHR '']'' # x = commas (map (canonical ascii) ws) @ CHR '']'' # y"
    using PArr.prems(5) by (simp add: w)
  moreover have "\<exists>h t. canonical ascii v = h # t \<and> h \<noteq> CHR '']''" if "v \<in> set vs \<union> set ws" for v
    using that PArr.prems(1,2) in_order_plain canonical_head_not [of v "CHR '']''" ascii]
    by (auto simp: w list_all_iff)
  ultimately show ?case
    using separable_commas [of "canonical ascii" vs ws "CHR '']''" x y] w by (simp add: is_digit_def code_in_def)
next
  case (PObj fs)
  obtain gs where w: "w = PObj gs"
    using canonical_kinds [of "PObj fs" w ascii x y] PObj.prems in_order_plain by fastforce
  let ?m = "\<lambda>m. member_text ascii (map_prod id (canonical ascii) m)"
  have "separable (canonical ascii) {v} {u}" if kv: "(k, v) \<in> set fs" and ku: "(k', u) \<in> set gs" for k v k' u
  proof -
    have "in_order v" "in_order u"
      using PObj.prems(1,2) kv ku unfolding w by (auto simp: list_all_iff)
    then show ?thesis using PObj.IH [OF kv, of v u] unfolding separable_def by auto
  qed
  then have "separable ?m (set fs) (set gs)" by (rule member_separable)
  moreover have "\<exists>h t. ?m p = h # t \<and> h \<noteq> CHR ''}''" for p
    by (simp add: member_text_def json_text_def)
  moreover have "commas (map ?m fs) @ CHR ''}'' # x = commas (map ?m gs) @ CHR ''}'' # y"
    using PObj.prems by (simp add: w sort_in_order comp_def)
  ultimately show ?case
    using separable_commas [of ?m fs gs "CHR ''}''" x y] w by (simp add: is_digit_def code_in_def)
qed

text \<open>The canonical text is that of exactly the values with one normal form.\<close>

lemma canonical_binds:
  assumes "plain_payload v" "plain_payload w"
  shows "canonical ascii v = canonical ascii w \<longleftrightarrow> normal v = normal w"
proof
  assume "canonical ascii v = canonical ascii w"
  then have "canonical ascii (normal v) @ [] = canonical ascii (normal w) @ []"
    by (simp add: canonical_normal)
  then show "normal v = normal w"
    using canonical_unique [of "normal v" "normal w" "[]" "[]" ascii] assms normal_in_order by auto
qed (metis canonical_normal)

text \<open>\<open>sha256(json.dumps(...).encode("utf-8")).hexdigest()\<close> for a digest \<open>sha\<close> of bytes.\<close>

definition content_digest :: "(nat list \<Rightarrow> string) \<Rightarrow> payload \<Rightarrow> string" where
  "content_digest sha v = sha (utf8 (canonical False v))"

lemma content_digest_binds:
  assumes "plain_payload v" "plain_payload w"
    and "inj_on sha {utf8 (canonical False v), utf8 (canonical False w)}"
  shows "content_digest sha v = content_digest sha w \<longleftrightarrow> normal v = normal w"
proof -
  have "content_digest sha v = content_digest sha w \<longleftrightarrow> utf8 (canonical False v) = utf8 (canonical False w)"
    unfolding content_digest_def by (rule inj_on_eq_iff [OF assms(3)]) simp_all
  then show ?thesis using canonical_binds [OF assms(1,2)] by (simp only: utf8_injective)
qed

end
