(* ===== verification/Identity_Bff.thy ===== *)
theory Identity_Bff
  imports Identity_Shell Csrf Payloads
begin

text \<open>
  src/apps/g1-identity-tenant-shell/bff_server.py: the server of the identity shell. A request
  is given by what the handlers read of it, its path and query as \<open>urlparse\<close> and
  \<open>parse_qs\<close> split them. SHA-256, the MAC, the identity provider and the decoding of
  UTF-8 with replacement are fields of the server. The in-memory stores and the fixture
  authorities are written out; an exception that no handler catches ends the connection
  and is the result of the operation.
\<close>

section \<open>Cookies\<close>

definition is_hex_char :: "char \<Rightarrow> bool" where
  "is_hex_char c \<longleftrightarrow> is_digit c \<or> code_in 65 70 c \<or> code_in 97 102 c"

definition hex_value :: "char \<Rightarrow> nat" where
  "hex_value c = (if is_digit c then of_char c - 48 else if code_in 65 70 c then of_char c - 55 else of_char c - 87)"

text \<open>\<open>urllib.parse.unquote\<close>: the escapes of each run of ASCII characters, decoded as UTF-8.\<close>

fun unescape :: "string \<Rightarrow> nat list" where
  "unescape (p # a # b # cs) =
     (if p = CHR ''%'' \<and> is_hex_char a \<and> is_hex_char b then (16 * hex_value a + hex_value b) # unescape cs
      else of_char p # unescape (a # b # cs))"
| "unescape (c # cs) = of_char c # unescape cs"
| "unescape [] = []"

definition ascii_char :: "char \<Rightarrow> bool" where
  "ascii_char c \<longleftrightarrow> (of_char c :: nat) < 128"

function unquote_runs :: "(nat list \<Rightarrow> string) \<Rightarrow> string \<Rightarrow> string" where
  "unquote_runs decode [] = []"
| "unquote_runs decode (c # cs) =
     (if ascii_char c
      then decode (unescape (takeWhile ascii_char (c # cs))) @ unquote_runs decode (dropWhile ascii_char (c # cs))
      else c # unquote_runs decode cs)"
  by pat_completeness auto
termination
  by (relation "measure (\<lambda>(decode, s). length s)") (auto simp: le_imp_less_Suc length_dropWhile_le)

definition unquote :: "(nat list \<Rightarrow> string) \<Rightarrow> string \<Rightarrow> string" where
  "unquote decode s = (if CHR ''%'' \<in> set s then unquote_runs decode s else s)"

text \<open>\<open>urllib.parse.quote\<close>\<close>

definition hex_digit :: "nat \<Rightarrow> char" where
  "hex_digit n = char_of (if n < 10 then 48 + n else 55 + n)"

definition quote_byte :: "string \<Rightarrow> nat \<Rightarrow> string" where
  "quote_byte safe b =
     (let c = char_of b
      in if b < 128 \<and> (is_alnum c \<or> c \<in> set ''_.-~'' \<or> c \<in> set safe) then [c]
         else [CHR ''%'', hex_digit (b div 16), hex_digit (b mod 16)])"

definition quote :: "string \<Rightarrow> string \<Rightarrow> string" where
  "quote safe s = concat (map (quote_byte safe) (utf8 s))"

definition strip :: "string \<Rightarrow> string" where
  "strip s = rev (dropWhile is_blank (rev (dropWhile is_blank s)))"

definition cookie_part :: "string \<Rightarrow> (string \<times> string) list" where
  "cookie_part part =
     (let item = strip part
      in if CHR ''='' \<in> set item
         then [(takeWhile (\<lambda>c. c \<noteq> CHR ''='') item, List.tl (dropWhile (\<lambda>c. c \<noteq> CHR ''='') item))] else [])"

definition cookie_values :: "(nat list \<Rightarrow> string) \<Rightarrow> string list \<Rightarrow> string \<Rightarrow> string list" where
  "cookie_values decode headers name =
     map (unquote decode \<circ> snd)
       (filter (\<lambda>(k, _). k = name) (concat (map cookie_part (concat (map (split_on (CHR '';'')) headers)))))"

definition single_cookie :: "(nat list \<Rightarrow> string) \<Rightarrow> string list \<Rightarrow> string \<Rightarrow> string option" where
  "single_cookie decode headers name = (case cookie_values decode headers name of [v] \<Rightarrow> Some v | _ \<Rightarrow> None)"

record set_cookie =
  ck_name :: string
  ck_value :: string
  ck_http_only :: bool
  ck_max_age :: int
  ck_same_site :: string

definition cookie_pair :: "set_cookie \<Rightarrow> string" where
  "cookie_pair c = ck_name c @ ''='' @ quote ''._~-'' (ck_value c)"

definition cookie_text :: "set_cookie \<Rightarrow> string" where
  "cookie_text c =
     cookie_pair c @ ''; Path=/; Secure; SameSite='' @ ck_same_site c @ ''; Max-Age='' @ int_text (ck_max_age c) @
     (if ck_http_only c then ''; HttpOnly'' else [])"

definition clear_cookie :: "string \<Rightarrow> bool \<Rightarrow> set_cookie" where
  "clear_cookie name http_only =
     \<lparr>ck_name = name, ck_value = [], ck_http_only = http_only, ck_max_age = 0, ck_same_site = ''Strict''\<rparr>"

definition session_cookie :: string where "session_cookie = ''__Host-jlmirror_session''"
definition csrf_cookie :: string where "csrf_cookie = ''__Host-jlmirror_csrf''"
definition binding_cookie :: string where "binding_cookie = ''__Host-jlmirror_login''"

section \<open>The stores\<close>

record bff_state =
  bf_transactions :: "string \<Rightarrow> auth_transaction option"
  bf_sessions :: "string \<Rightarrow> session_record option"
  bf_modes :: "string \<Rightarrow> string option"
  bf_lineages :: "string \<Rightarrow> string option"

definition bff_empty :: bff_state where
  "bff_empty =
     \<lparr>bf_transactions = Map.empty, bf_sessions = Map.empty, bf_modes = Map.empty, bf_lineages = Map.empty\<rparr>"

definition create_transaction :: "auth_transaction \<Rightarrow> (bff_state, bool) op" where
  "create_transaction x = (\<lambda>s.
     if bf_transactions s (bt_transaction_id x) \<noteq> None then (Inr False, s)
     else (Inr True, s\<lparr>bf_transactions := (bf_transactions s)(bt_transaction_id x \<mapsto> x)\<rparr>))"

definition consume_transaction :: "bff_state consume_transaction" where
  "consume_transaction i = (\<lambda>s.
     (Inr (bf_transactions s i), s\<lparr>bf_transactions := (bf_transactions s)(i := None)\<rparr>))"

definition bff_session_create :: "bff_state session_create" where
  "bff_session_create r = (\<lambda>s.
     if bf_sessions s (bs_handle_digest r) \<noteq> None then (Inr False, s)
     else (Inr True, s\<lparr>bf_sessions := (bf_sessions s)(bs_handle_digest r \<mapsto> r)\<rparr>))"

definition bff_session_resolve :: "bff_state session_resolve" where
  "bff_session_resolve d = (\<lambda>s. (Inr (bf_sessions s d), s))"

text \<open>\<open>replace(current, retired=True)\<close> runs the checks of the record again.\<close>

definition retired_record :: "session_record \<Rightarrow> session_record res" where
  "retired_record c = construct valid_session_record ValueError (c\<lparr>bs_retired := True\<rparr>)"

definition bff_session_rotate :: "bff_state session_rotate" where
  "bff_session_rotate d generation successor = (\<lambda>s.
     case bf_sessions s d of
       None \<Rightarrow> (Inr False, s)
     | Some c \<Rightarrow>
         if bs_retired c \<or> bs_session_generation c \<noteq> generation then (Inr False, s)
         else (case retired_record c of
                 Inl e \<Rightarrow> (Inl e, s)
               | Inr r \<Rightarrow> (Inr True, s\<lparr>bf_sessions :=
                   (bf_sessions s)(d \<mapsto> r, bs_handle_digest successor \<mapsto> successor)\<rparr>)))"

definition bff_session_retire :: "bff_state session_retire" where
  "bff_session_retire d generation = (\<lambda>s.
     case bf_sessions s d of
       None \<Rightarrow> (Inr False, s)
     | Some c \<Rightarrow>
         if bs_retired c \<or> bs_session_generation c \<noteq> generation then (Inr False, s)
         else (case retired_record c of
                 Inl e \<Rightarrow> (Inl e, s)
               | Inr r \<Rightarrow> (Inr True, s\<lparr>bf_sessions := (bf_sessions s)(d \<mapsto> r)\<rparr>)))"

definition authority_modes :: "string set" where
  "authority_modes = {''allowed'', ''revoked'', ''forbidden''}"

definition set_mode :: "string \<Rightarrow> string \<Rightarrow> (bff_state, unit) op" where
  "set_mode who mode =
     thenS (ensureS (mode \<in> authority_modes) ValueError)
    (modifyS (\<lambda>s. s\<lparr>bf_modes := (bf_modes s)(who \<mapsto> mode)\<rparr>))"

definition mode_for :: "bff_state \<Rightarrow> string \<Rightarrow> string" where
  "mode_for s who = (case bf_modes s who of None \<Rightarrow> ''allowed'' | Some m \<Rightarrow> m)"

section \<open>The fixture authorities\<close>

text \<open>Their constructors run on every call; the evidence of the placement is a valid constant.\<close>

definition fixture_evidence :: placement_evidence where
  "fixture_evidence =
     \<lparr>pe_tenant_id = ''tenant-a'', pe_cell_id = ''cell-a'', pe_placement_version = ''placement-r1'',
      pe_runtime_generation = ''runtime-api-g1'',
      pe_runtime_profile_id = rb_runtime_profile_id api_auth_boundary,
      pe_runtime_isolation_class = rb_isolation_class api_auth_boundary,
      pe_configuration_generation = ''configuration-g1'',
      pe_workload_credential_generation = ''workload-g1'',
      pe_network_policy_generation = ''network-g1'', pe_environment_class = EnvValidation,
      pe_isolation_class = ''pooled'', pe_runtime_lifecycle = RtActive,
      pe_placement_current = True, pe_operation_eligible = True,
      pe_cell_admission_current = True, pe_fence_scope_id = ''tenant-a'', pe_fence_epoch = 1\<rparr>"

definition fixture_is_current :: "principal \<Rightarrow> instant \<Rightarrow> (bff_state, bool) call" where
  "fixture_is_current p n s = (Returned (pr_active p \<and> mode_for s (pr_principal_id p) \<noteq> ''revoked''), s)"

definition fixture_resolve :: "string \<Rightarrow> (bff_state, placement_evidence) call" where
  "fixture_resolve i s = (if i = ''tenant-a'' then Returned fixture_evidence else Malformed, s)"

definition fixture_context_is_current :: "tenant_context \<Rightarrow> (bff_state, bool) call" where
  "fixture_context_is_current c s =
     (Returned
        (if tc_tenant_id c \<noteq> ''tenant-a'' \<or> mode_for s (tc_principal_id c) = ''revoked'' then False
         else
           tc_cell_id c = pe_cell_id fixture_evidence \<and>
           tc_placement_version c = pe_placement_version fixture_evidence \<and>
           tc_runtime_generation c = pe_runtime_generation fixture_evidence \<and>
           tc_runtime_profile_id c = pe_runtime_profile_id fixture_evidence \<and>
           tc_runtime_isolation_class c = pe_runtime_isolation_class fixture_evidence \<and>
           tc_configuration_generation c = pe_configuration_generation fixture_evidence \<and>
           tc_workload_credential_generation c = pe_workload_credential_generation fixture_evidence \<and>
           tc_network_policy_generation c = pe_network_policy_generation fixture_evidence \<and>
           tc_environment_class c = pe_environment_class fixture_evidence \<and>
           tc_isolation_class c = pe_isolation_class fixture_evidence \<and>
           tc_fence_scope_id c = pe_fence_scope_id fixture_evidence \<and>
           tc_fence_epoch c = pe_fence_epoch fixture_evidence), s)"

definition fixture_evaluate ::
  "principal \<Rightarrow> tenant_context option \<Rightarrow> authorization_declaration \<Rightarrow>
   (bff_state, authorization_decision) call" where
  "fixture_evaluate p context d s =
     (Returned
        \<lparr>az_granted =
           (case context of None \<Rightarrow> False | Some c \<Rightarrow> tc_tenant_id c = ''tenant-a'') \<and>
           mode_for s (pr_principal_id p) = ''allowed'',
         az_current = True, az_policy_revision = ''fixture-membership-permission-r1''\<rparr>, s)"

definition fixture_permits :: "bff_state strength_policy" where
  "fixture_permits policy_id e now s =
     (if policy_id = ''shell-access-v1'' \<and> se_policy_version e = ''fixture-auth-strength-v1''
      then (case strength_is_current e (Aware now) of Inl x \<Rightarrow> Raised x | Inr b \<Rightarrow> Returned b)
      else Returned False, s)"

definition fixture_final_evidence ::
  "principal \<Rightarrow> tenant_context \<Rightarrow> authorization_declaration \<Rightarrow> strength_evidence \<Rightarrow>
   target_binding option \<Rightarrow> final_evidence" where
  "fixture_final_evidence p c d strength target =
     \<lparr>fe_granted = True, fe_current = True, fe_admission_revision = ''fixture-current-admission-r1'',
      fe_authorization_policy_revision = ''fixture-membership-permission-r1'',
      fe_principal_authority_revision = ''fixture-principal-r1'',
      fe_principal_id = pr_principal_id p, fe_principal_kind = pr_kind p,
      fe_principal_credential_generation = pr_credential_generation p,
      fe_action = ad_action d, fe_scope = ad_scope d,
      fe_tenant_requirement = canonical_requirement d, fe_resource_scope = ad_resource_scope d,
      fe_cross_tenant_target = target, fe_strength_policy_id = ad_strength_policy_id d,
      fe_tenant_id = Some (tc_tenant_id c), fe_cell_id = Some (tc_cell_id c),
      fe_placement_authority_revision = Some ''fixture-placement-r1'',
      fe_placement_version = Some (tc_placement_version c),
      fe_runtime_generation = Some (tc_runtime_generation c),
      fe_runtime_profile_id = Some (tc_runtime_profile_id c),
      fe_runtime_isolation_class = Some (tc_runtime_isolation_class c),
      fe_configuration_generation = Some (tc_configuration_generation c),
      fe_workload_credential_generation = Some (tc_workload_credential_generation c),
      fe_network_policy_generation = Some (tc_network_policy_generation c),
      fe_environment_class = Some (tc_environment_class c),
      fe_isolation_class = Some (tc_isolation_class c),
      fe_fence_scope_id = Some (tc_fence_scope_id c), fe_fence_epoch = Some (tc_fence_epoch c),
      fe_strength_policy_revision = Some (se_policy_version strength),
      fe_executing_runtime_authority_revision = Some ''fixture-runtime-authority-r1'',
      fe_executing_runtime_profile_id = Some (rb_runtime_profile_id api_auth_boundary),
      fe_executing_runtime_generation = Some ''runtime-api-execution-g1'',
      fe_executing_runtime_environment_class = Some EnvValidation\<rparr>"

definition fixture_finalize ::
  "principal \<Rightarrow> tenant_context option \<Rightarrow> authorization_declaration \<Rightarrow> runtime_binding \<Rightarrow>
   strength_evidence option \<Rightarrow> target_binding option \<Rightarrow> (bff_state, final_evidence) call" where
  "fixture_finalize p context d b strength target s =
     (case (context, strength) of
        (Some c, Some e) \<Rightarrow>
          if tc_tenant_id c \<noteq> ''tenant-a'' \<or> b \<noteq> api_auth_boundary \<or> target \<noteq> None \<or>
             mode_for s (pr_principal_id p) \<noteq> ''allowed''
          then Raised AdmissionDenied
          else if valid_final_evidence (fixture_final_evidence p c d e target)
          then Returned (fixture_final_evidence p c d e target) else Raised ValueError
      | _ \<Rightarrow> Raised AdmissionDenied, s)"

definition fixture_authorities :: "bff_state authorities" where
  "fixture_authorities =
     \<lparr>au_principal = Some fixture_is_current, au_placement = fixture_resolve,
      au_context = fixture_context_is_current, au_authorization = fixture_evaluate,
      au_strength = Some fixture_permits, au_runtime = None, au_final = Some fixture_finalize\<rparr>"

section \<open>The server\<close>

record bff_server =
  bv_fixture :: bool
  bv_host :: string
  bv_port :: int
  bv_ring :: csrf_key_ring
  bv_sha :: "string \<Rightarrow> string"
  bv_challenge :: "string \<Rightarrow> string"
  bv_mac :: "byte list \<Rightarrow> string \<Rightarrow> byte list"
  bv_decode :: "nat list \<Rightarrow> string"
  bv_oidc :: oidc_port

text \<open>The keys are fixed for the fixture and drawn otherwise.\<close>

definition app_keys :: "bool \<Rightarrow> byte list \<times> byte list \<Rightarrow> csrf_key_ring" where
  "app_keys fixture drawn =
     \<lparr>kr_current_version = ''csrf-v2'', kr_previous_version = ''csrf-v1'',
      kr_keys =
        (if fixture then [(''csrf-v2'', replicate 32 50), (''csrf-v1'', replicate 32 49)]
         else [(''csrf-v2'', fst drawn), (''csrf-v1'', snd drawn)])\<rparr>"

definition app_oidc :: "bool \<Rightarrow> oidc_port \<Rightarrow> oidc_port" where
  "app_oidc fixture provider = (if fixture then provider else (\<lambda>_ _ _ _ _. Raised AdmissionDenied))"

definition app_admission ::
  "bool \<Rightarrow> principal \<Rightarrow> string \<Rightarrow> strength_evidence option \<Rightarrow> datetime \<Rightarrow>
   (bff_state, shell_admission) call" where
  "app_admission fixture p tenant strength now =
     (if fixture then call_of (require_current_shell fixture_authorities p tenant strength now)
      else (\<lambda>s. (Raised AdmissionDenied, s)))"

text \<open>Five minutes for a login and one hour for a session, in microseconds.\<close>

definition app_shell :: "bff_server \<Rightarrow> bff_state identity_shell" where
  "app_shell v =
     \<lparr>is_create_transaction = create_transaction, is_consume_transaction = consume_transaction,
      is_oidc = app_oidc (bv_fixture v) (bv_oidc v),
      is_sessions_resolve = bff_session_resolve, is_sessions_create = bff_session_create,
      is_sessions_retire = bff_session_retire,
      is_tenant_admission = app_admission (bv_fixture v),
      is_issuer = ''https://identity.example.test/realms/jlmirror'', is_client_id = ''jlmirror-bff'',
      is_redirect_uri = ''https://app.example.test/auth/callback'',
      is_transaction_lifetime = 300000000, is_session_lifetime = 3600000000\<rparr>"

definition server_origin :: "bff_server \<Rightarrow> string" where
  "server_origin v =
     ''https://'' @ (if bv_host v = ''0.0.0.0'' \<or> bv_host v = [] then ''127.0.0.1'' else bv_host v) @
     '':'' @ int_text (bv_port v)"

text \<open>The ring of the server is one its constructor accepts.\<close>

lemma app_keys_valid:
  assumes "32 \<le> length (fst drawn)" "32 \<le> length (snd drawn)"
  shows "valid_key_ring (app_keys fixture drawn)"
proof -
  have "is_key_version ''csrf-v2''" "is_key_version ''csrf-v1''" by code_simp+
  then show ?thesis using assms by (auto simp: valid_key_ring_def app_keys_def)
qed

section \<open>Requests and responses\<close>

record bff_request =
  rq_path :: string
  rq_query :: "(string, string list) dict"
  rq_cookies :: "string list"
  rq_origins :: "string list"
  rq_csrf :: "string list"

text \<open>What a request may draw: the binding of a browser, a login, three sessions, a lineage.\<close>

record bff_draws =
  dw_binding :: string
  dw_login :: browser_draws
  dw_handles :: "(string \<times> string) \<times> (string \<times> string) \<times> (string \<times> string)"
  dw_lineage :: string

datatype bff_response =
    BffJson int "(string \<times> string) list"
  | BffStatic string string
  | BffRedirect string "set_cookie list"
  | BffCleared "set_cookie list"

definition state_only :: "int \<Rightarrow> string \<Rightarrow> ('s, bff_response) op" where
  "state_only status x = returnS (BffJson status [(''state'', x)])"

definition request_cookie :: "bff_server \<Rightarrow> bff_request \<Rightarrow> string \<Rightarrow> string option" where
  "request_cookie v r name = single_cookie (bv_decode v) (rq_cookies r) name"

section \<open>The shell and the logout\<close>

definition refused_state :: "bff_server \<Rightarrow> string \<Rightarrow> bff_state \<Rightarrow> string" where
  "refused_state v session s =
     (case new_session_handle session of
        Inl _ \<Rightarrow> ''forbidden''
      | Inr h \<Rightarrow>
          (case bf_sessions s (bv_sha v h) of
             None \<Rightarrow> ''forbidden''
           | Some r \<Rightarrow>
               if bv_fixture v \<and> mode_for s (pr_principal_id (bs_principal r)) = ''revoked''
               then ''revoked'' else ''forbidden''))"

definition shell_body :: "shell_view \<Rightarrow> (string \<times> string) list" where
  "shell_body x =
     [(''state'', sv_state x), (''tenant_id'', sv_tenant_id x), (''principal_id'', sv_principal_id x),
      (''admission_revision'', sv_admission_revision x)]"

definition show_shell :: "bff_server \<Rightarrow> string \<Rightarrow> string \<Rightarrow> instant \<Rightarrow> (bff_state, bff_response) op" where
  "show_shell v session tenant now s =
     (case open_shell (bv_sha v) (app_shell v) session tenant (Aware now) s of
        (Inr x, t) \<Rightarrow> (Inr (BffJson 200 (shell_body x)), t)
      | (Inl e, t) \<Rightarrow> if e = AdmissionDenied then state_only 403 (refused_state v session t) t else (Inl e, t))"

definition handle_shell :: "bff_server \<Rightarrow> bff_request \<Rightarrow> instant \<Rightarrow> (bff_state, bff_response) op" where
  "handle_shell v r now =
     (let parts = split_on (CHR ''/'') (rq_path r)
      in if length parts \<noteq> 6 then state_only 404 ''unavailable''
         else (case request_cookie v r session_cookie of
                 None \<Rightarrow> state_only 401 ''unauthenticated''
               | Some session \<Rightarrow> show_shell v session (unquote (bv_decode v) (parts ! 4)) now))"

definition check_csrf :: "bff_server \<Rightarrow> string \<Rightarrow> string option \<Rightarrow> bool res" where
  "check_csrf v token lineage =
     (case lineage of None \<Rightarrow> Inr False | Some l \<Rightarrow> csrf_validate (bv_mac v) (bv_ring v) token l)"

text \<open>The checks of a logout and the logout itself; the result is the digest of the handle.\<close>

definition checked_logout ::
  "bff_server \<Rightarrow> string \<Rightarrow> string \<Rightarrow> string \<Rightarrow> instant \<Rightarrow> (bff_state, string) op" where
  "checked_logout v token session csrf now =
     bindS (liftS (new_session_handle session)) (\<lambda>handle.
     bindS (getS (\<lambda>s. bf_lineages s (bv_sha v handle))) (\<lambda>lineage.
     bindS (liftS (check_csrf v token lineage)) (\<lambda>bound.
     thenS (ensureS bound AdmissionDenied)
    (bindS (liftS (compare_digest csrf token)) (\<lambda>same.
     thenS (ensureS same AdmissionDenied)
    (bindS (logout (bv_sha v) (app_shell v) session (Aware now)) (\<lambda>_.
     returnS (bv_sha v handle))))))))"

definition cleared :: bff_response where
  "cleared = BffCleared [clear_cookie session_cookie True, clear_cookie csrf_cookie False]"

definition end_session ::
  "bff_server \<Rightarrow> string \<Rightarrow> string \<Rightarrow> string \<Rightarrow> instant \<Rightarrow> (bff_state, bff_response) op" where
  "end_session v token session csrf now s =
     (case checked_logout v token session csrf now s of
        (Inr d, t) \<Rightarrow> (Inr cleared, t\<lparr>bf_lineages := (bf_lineages t)(d := None)\<rparr>)
      | (Inl e, t) \<Rightarrow> if e \<in> {AdmissionDenied, ValueError} then state_only 403 ''forbidden'' t else (Inl e, t))"

definition handle_logout :: "bff_server \<Rightarrow> bff_request \<Rightarrow> instant \<Rightarrow> (bff_state, bff_response) op" where
  "handle_logout v r now =
     (if rq_origins r \<noteq> [server_origin v] then state_only 403 ''forbidden''
      else (case (rq_csrf r, request_cookie v r session_cookie, request_cookie v r csrf_cookie) of
              ([token], Some session, Some csrf) \<Rightarrow> end_session v token session csrf now
            | _ \<Rightarrow> state_only 403 ''forbidden''))"

section \<open>The login of the fixture\<close>

definition query_first :: "(string, string list) dict \<Rightarrow> string \<Rightarrow> string \<Rightarrow> string" where
  "query_first q name other = (case map_of q name of Some (x # _) \<Rightarrow> x | _ \<Rightarrow> other)"

definition query_single :: "(string, string list) dict \<Rightarrow> string \<Rightarrow> bool" where
  "query_single q name = (case map_of q name of Some [_] \<Rightarrow> True | _ \<Rightarrow> False)"

definition login_scenarios :: "string set" where
  "login_scenarios = {''allowed'', ''cross-tenant'', ''revoked'', ''csrf-reject'', ''logout''}"

definition callback_location :: "(string, string list) dict \<Rightarrow> login_start \<Rightarrow> string" where
  "callback_location q l =
     ''/__fixture__/idp/callback?transaction_id='' @ quote ''/'' (ls_transaction_id l) @
     ''&state='' @ quote ''/'' (ls_state l) @
     ''&authorization_code='' @ quote ''/'' (''fixture:'' @ ls_transaction_id l) @
     ''&target_tenant='' @ quote ''/'' (query_first q ''target_tenant'' ''tenant-a'') @
     ''&scenario='' @ quote ''/'' (query_first q ''scenario'' ''allowed'') @
     ''&mode='' @ quote ''/'' (query_first q ''mode'' ''allowed'')"

definition handle_login_start ::
  "bff_server \<Rightarrow> bff_request \<Rightarrow> bff_draws \<Rightarrow> instant \<Rightarrow> (bff_state, bff_response) op" where
  "handle_login_start v r draws now =
     (if \<not> bv_fixture v then state_only 404 ''unavailable''
      else if query_first (rq_query r) ''scenario'' ''allowed'' \<notin> login_scenarios
      then state_only 400 ''unavailable''
      else if query_first (rq_query r) ''mode'' ''allowed'' \<notin> authority_modes
      then state_only 400 ''unavailable''
      else bindS (begin_login (bv_sha v) (bv_challenge v) (app_shell v) (dw_binding draws) (Aware now)
                    (dw_login draws)) (\<lambda>l.
           returnS (BffRedirect (callback_location (rq_query r) l)
             [\<lparr>ck_name = binding_cookie, ck_value = dw_binding draws, ck_http_only = True,
               ck_max_age = 300, ck_same_site = ''Lax''\<rparr>])))"

definition callback_fields :: "string list" where
  "callback_fields =
     [''transaction_id'', ''state'', ''authorization_code'', ''target_tenant'', ''scenario'', ''mode'']"

definition login_cookies :: "string \<Rightarrow> string \<Rightarrow> set_cookie list" where
  "login_cookies handle csrf =
     [\<lparr>ck_name = session_cookie, ck_value = handle, ck_http_only = True, ck_max_age = 3600,
       ck_same_site = ''Strict''\<rparr>,
      \<lparr>ck_name = csrf_cookie, ck_value = csrf, ck_http_only = False, ck_max_age = 3600,
       ck_same_site = ''Strict''\<rparr>,
      \<lparr>ck_name = binding_cookie, ck_value = [], ck_http_only = True, ck_max_age = 0,
       ck_same_site = ''Lax''\<rparr>]"

text \<open>Behind a finished login: the mode, the lineage of the session, the token and the cookies.\<close>

definition bind_session ::
  "bff_server \<Rightarrow> (string, string list) dict \<Rightarrow> string \<Rightarrow> string \<Rightarrow> (bff_state, bff_response) op" where
  "bind_session v q lineage handle =
     thenS (set_mode ''principal-a'' (query_first q ''mode'' []))
    (thenS (modifyS (\<lambda>s. s\<lparr>bf_lineages := (bf_lineages s)(bv_sha v handle \<mapsto> lineage)\<rparr>))
    (bindS (liftS (csrf_issue (bv_mac v) (bv_ring v) lineage)) (\<lambda>csrf.
     returnS (BffRedirect
       (''/?tenant='' @ quote ''/'' (query_first q ''target_tenant'' []) @
        ''&scenario='' @ quote ''/'' (query_first q ''scenario'' []))
       (login_cookies handle csrf)))))"

definition handle_callback ::
  "bff_server \<Rightarrow> bff_request \<Rightarrow> bff_draws \<Rightarrow> instant \<Rightarrow> (bff_state, bff_response) op" where
  "handle_callback v r draws now s =
     (let q = rq_query r
      in if \<not> bv_fixture v then state_only 404 ''unavailable'' s
         else (case request_cookie v r binding_cookie of
                 None \<Rightarrow> state_only 400 ''unavailable'' s
               | Some binding \<Rightarrow>
                   if \<not> list_all (query_single q) callback_fields then state_only 400 ''unavailable'' s
                   else (case finish_login (bv_sha v) (app_shell v) (query_first q ''transaction_id'' [])
                           binding (query_first q ''state'' []) (query_first q ''authorization_code'' [])
                           (Aware now) (dw_handles draws) s of
                           (Inr handle, t) \<Rightarrow> bind_session v q (dw_lineage draws) handle t
                         | (Inl e, t) \<Rightarrow>
                             if e = AdmissionDenied then state_only 401 ''unauthenticated'' t else (Inl e, t))))"

section \<open>The routes\<close>

definition ends_with :: "string \<Rightarrow> string \<Rightarrow> bool" where
  "ends_with e s \<longleftrightarrow> starts_with (rev e) (rev s)"

definition is_shell_path :: "string \<Rightarrow> bool" where
  "is_shell_path p \<longleftrightarrow> starts_with ''/bff/v1/tenants/'' p \<and> ends_with ''/shell'' p"

definition do_get ::
  "bff_server \<Rightarrow> bff_request \<Rightarrow> bff_draws \<Rightarrow> instant \<Rightarrow> (bff_state, bff_response) op" where
  "do_get v r draws now =
     (let p = rq_path r
      in if p = ''/healthz'' then returnS (BffJson 200 [(''status'', ''ok'')])
         else if p = ''/'' \<or> p = ''/index.html'' then returnS (BffStatic ''index.html'' ''text/html; charset=utf-8'')
         else if p = ''/app.mjs'' then returnS (BffStatic ''app.mjs'' ''text/javascript; charset=utf-8'')
         else if p = ''/shell-state.mjs''
         then returnS (BffStatic ''shell-state.mjs'' ''text/javascript; charset=utf-8'')
         else if is_shell_path p then handle_shell v r now
         else if p = ''/__fixture__/login/start'' then handle_login_start v r draws now
         else if p = ''/__fixture__/idp/callback'' then handle_callback v r draws now
         else state_only 404 ''unavailable'')"

definition do_post :: "bff_server \<Rightarrow> bff_request \<Rightarrow> instant \<Rightarrow> (bff_state, bff_response) op" where
  "do_post v r now =
     (if rq_path r = ''/bff/v1/logout'' then handle_logout v r now else state_only 404 ''unavailable'')"

text \<open>
  One request of any browser, whatever its result. The handles drawn for new sessions have
  digests other than \<open>d\<close>.
\<close>

inductive bff_step :: "bff_server \<Rightarrow> string \<Rightarrow> bff_state \<Rightarrow> bff_state \<Rightarrow> bool" for v d where
  bff_get: "do_get v r draws now s = (x, t) \<Longrightarrow> dw_handles draws = (a, b, c) \<Longrightarrow>
     \<forall>(h, token) \<in> set [a, b, c]. bv_sha v h \<noteq> d \<Longrightarrow> bff_step v d s t"
| bff_post: "do_post v r now s = (x, t) \<Longrightarrow> bff_step v d s t"

section \<open>Admissions that do not write\<close>

text \<open>If no authority writes, an admission does not: every call keeps the predicate.\<close>

definition call_keeps :: "('s \<Rightarrow> bool) \<Rightarrow> ('s, 'a) call \<Rightarrow> bool" where
  "call_keeps I c \<longleftrightarrow> (\<forall>s. I s \<longrightarrow> I (snd (c s)))"

definition authorities_keep :: "('s \<Rightarrow> bool) \<Rightarrow> 's authorities \<Rightarrow> bool" where
  "authorities_keep I a \<longleftrightarrow>
     (\<forall>f p n. au_principal a = Some f \<longrightarrow> call_keeps I (f p n)) \<and>
     (\<forall>i. call_keeps I (au_placement a i)) \<and> (\<forall>c. call_keeps I (au_context a c)) \<and>
     (\<forall>p c d. call_keeps I (au_authorization a p c d)) \<and>
     (\<forall>f i x n. au_strength a = Some f \<longrightarrow> call_keeps I (f i x n)) \<and>
     (\<forall>f n. au_runtime a = Some f \<longrightarrow> call_keeps I (f n)) \<and>
     (\<forall>f p c d b x g. au_final a = Some f \<longrightarrow> call_keeps I (f p c d b x g))"

lemma preserves_thenS: "preserves I m \<Longrightarrow> preserves I k \<Longrightarrow> preserves I (thenS m k)"
  unfolding thenS_def by (rule preserves_bindS)

lemma preserves_calls:
  "call_keeps I c \<Longrightarrow> preserves I (open_call c)" "call_keeps I c \<Longrightarrow> preserves I (closed_call c)"
  by (auto simp: call_keeps_def preserves_def open_call_def closed_call_def split: prod.splits reply.splits)

lemmas preserves_intros = preserves_thenS preserves_bindS preserves_basic preserves_calls

lemma gates_keep:
  assumes "authorities_keep I a"
  shows "preserves I (require_current_principal a p now)"
    and "preserves I (require_current_runtime_execution a b now)"
    and "preserves I (evaluate_current_authorization a p c d)"
    and "preserves I (placement_gate a b k)"
    and "preserves I (require_declared_authentication_strength a p d strength now)"
    and "preserves I (finalize_current_admission a p c d b strength latest target)"
  using assms
  by (auto simp: require_current_principal_def require_current_runtime_execution_def
      evaluate_current_authorization_def placement_gate_def require_declared_authentication_strength_def
      require_authentication_strength_def policy_permits_def finalize_current_admission_def
      authorities_keep_def intro!: preserves_intros split: option.splits)

lemma authorize_keeps:
  assumes "authorities_keep I a"
  shows "preserves I (authorize_protected_operation a p d c now strength b target)"
  using gates_keep [OF assms]
  by (auto simp: authorize_protected_operation_def require_context_def recheck_context_def
      cross_tenant_gate_def latest_runtime_def intro!: preserves_intros split: option.splits)

lemma construct_context_keeps:
  assumes "authorities_keep I a"
  shows "preserves I (construct_tenant_context a p w now ids b)"
  using gates_keep (1) [OF assms] assms
  by (auto simp: construct_tenant_context_def authorities_keep_def intro!: preserves_intros)

lemma capturing_keeps: "authorities_keep I a \<Longrightarrow> authorities_keep (\<lambda>(s, xs). I s) (capturing a)"
  by (auto simp: authorities_keep_def capturing_def call_keeps_def lift_call_def capture_call_def
      split: prod.splits reply.splits) (metis snd_conv)+

lemma captured_by_keeps:
  assumes "preserves (\<lambda>(s, xs). I s) m"
  shows "preserves I (captured_by m)"
proof -
  have "I t" if "I s" "m (s, []) = (r, (t, xs))" for s r t xs
    using preservesD [OF assms _ that(2)] that(1) by simp
  then show ?thesis by (auto simp: preserves_def captured_by_def split: prod.splits sum.splits)
qed

lemma require_current_shell_keeps:
  assumes "authorities_keep I a"
  shows "preserves I (require_current_shell a p tenant strength now)"
  using assms captured_by_keeps [OF authorize_keeps [OF capturing_keeps [OF assms]]]
    construct_context_keeps [OF assms]
  by (auto simp: require_current_shell_def admit_tenant_def authorities_keep_def
      intro!: preserves_intros split: list.splits)

lemma fixture_authorities_keep: "authorities_keep I fixture_authorities"
  by (simp add: authorities_keep_def fixture_authorities_def call_keeps_def fixture_is_current_def
      fixture_resolve_def fixture_context_is_current_def fixture_evaluate_def fixture_permits_def
      fixture_finalize_def)

lemma app_admission_keeps: "app_admission fixture p tenant strength now s = (r, t) \<Longrightarrow> t = s"
  using preservesD [OF require_current_shell_keeps [OF fixture_authorities_keep [of "\<lambda>x. x = s"]], of s
      p tenant strength now]
  by (auto simp: app_admission_def call_of_def split: if_splits prod.splits sum.splits)

section \<open>The stores provide the shell's environment\<close>

interpretation bff_sessions: session_registry bff_session_resolve bff_session_create bff_session_retire bf_sessions
  by unfold_locales
    (auto simp: bff_session_resolve_def bff_session_create_def bff_session_retire_def retired_record_def
      retired_copy_def construct_def split: option.splits if_splits)

interpretation bff: shell_environment bff_session_resolve bff_session_create bff_session_retire bf_sessions
  "app_shell v" for v
proof
  fix x i p e n s t r1 r2 r3
  show "is_create_transaction (app_shell v) x s = (r1, t) \<Longrightarrow> bf_sessions t = bf_sessions s"
    by (auto simp: app_shell_def create_transaction_def split: if_splits)
  show "is_consume_transaction (app_shell v) i s = (r2, t) \<Longrightarrow> bf_sessions t = bf_sessions s"
    by (auto simp: app_shell_def consume_transaction_def)
  show "is_tenant_admission (app_shell v) p i e n s = (r3, t) \<Longrightarrow> bf_sessions t = bf_sessions s"
    by (auto simp: app_shell_def dest: app_admission_keeps)
qed (simp_all add: app_shell_def)

section \<open>The logout\<close>

lemma valid_retired: "valid_session_record (r\<lparr>bs_retired := b\<rparr>) = valid_session_record r"
  by (auto simp: valid_session_record_def split: option.splits)

lemma retire_marks:
  "bff_session_retire d g s = (Inr True, t) \<longleftrightarrow>
     (\<exists>r. bf_sessions s d = Some r \<and> \<not> bs_retired r \<and> bs_session_generation r = g \<and> valid_session_record r \<and>
        t = s\<lparr>bf_sessions := (bf_sessions s)(d \<mapsto> retired_copy r)\<rparr>)"
  by (auto simp: bff_session_retire_def retired_record_def construct_def valid_retired retired_copy_def
      split: option.splits if_splits)

lemma retire_returns:
  "retire_browser_session sha bff_session_resolve bff_session_retire h now s = (Inr u, t) \<longleftrightarrow>
     (\<exists>r. bf_sessions s (sha h) = Some r \<and> bs_handle_digest r = sha h \<and> session_is_current r now = Inr True \<and>
        valid_session_record r \<and> t = s\<lparr>bf_sessions := (bf_sessions s)(sha h \<mapsto> retired_copy r)\<rparr>)"
proof -
  have live: "\<not> bs_retired r" if "session_is_current r now = Inr True" for r
    using that by (simp add: session_is_current_def split: if_splits)
  have "retire_browser_session sha bff_session_resolve bff_session_retire h now s = (Inr u, t) \<longleftrightarrow>
      (\<exists>r. resolve_browser_session sha bff_session_resolve h now s = (Inr r, s) \<and>
         bff_session_retire (sha h) (bs_session_generation r) s = (Inr True, t))"
    unfolding retire_browser_session_def bindS_returns_iff ensureS_returns_iff bff_sessions.resolve_iff by auto
  also have "\<dots> \<longleftrightarrow> (\<exists>r. bf_sessions s (sha h) = Some r \<and> bs_handle_digest r = sha h \<and>
      session_is_current r now = Inr True \<and> valid_session_record r \<and>
      t = s\<lparr>bf_sessions := (bf_sessions s)(sha h \<mapsto> retired_copy r)\<rparr>)"
    unfolding bff_sessions.resolve_iff retire_marks using live by auto
  finally show ?thesis .
qed

lemma logout_returns:
  "logout sha (app_shell v) h now s = (Inr u, t) \<longleftrightarrow>
     is_session_handle h \<and>
     (\<exists>r. bf_sessions s (sha h) = Some r \<and> bs_handle_digest r = sha h \<and> session_is_current r now = Inr True \<and>
        valid_session_record r \<and> t = s\<lparr>bf_sessions := (bf_sessions s)(sha h \<mapsto> retired_copy r)\<rparr>)"
  unfolding logout_def bindS_returns_iff liftS_returns_iff bff.ports retire_returns
  by (auto simp: browser_handle_def rethrow_Inr_iff new_session_handle_def construct_Inr_iff)

lemma session_is_current_raises: "session_is_current r now = Inl e \<Longrightarrow> e = ValueError"
  by (auto simp: session_is_current_def window_contains_def bindR_Inl_iff aware_Inl_iff split: if_splits)

lemma retire_raises:
  "retire_browser_session sha bff_session_resolve bff_session_retire h now s = (Inl e, t) \<Longrightarrow>
     t = s \<and> e \<in> {AdmissionDenied, ValueError}"
  by (auto simp: retire_browser_session_def resolve_browser_session_def bindS_apply bff_session_resolve_def
      bff_session_retire_def retired_record_def construct_def ensure_def
      dest: session_is_current_raises split: sum.splits option.splits if_splits)

lemma logout_raises:
  "logout sha (app_shell v) h now s = (Inl e, t) \<Longrightarrow> t = s \<and> e \<in> {AdmissionDenied, ValueError}"
  by (auto simp: logout_def bindS_apply bff.ports browser_handle_def rethrow_def new_session_handle_def
      construct_def dest: retire_raises split: sum.splits if_splits)

lemma compare_raises: "compare_digest a b = Inl e \<Longrightarrow> e = TypeError"
  by (simp add: compare_digest_def split: if_splits)

lemma check_csrf_raises: "check_csrf v token l = Inl e \<Longrightarrow> e = TypeError"
  by (auto simp: check_csrf_def csrf_validate_def dest: compare_raises
      split: option.splits list.splits sum.splits)

text \<open>\<open>due\<close>: everything the server asks of a logout, for the handle and the session it ends.\<close>

definition logout_due :: "bff_server \<Rightarrow> bff_request \<Rightarrow> instant \<Rightarrow> bff_state \<Rightarrow> string \<Rightarrow> session_record \<Rightarrow> bool" where
  "logout_due v q now s h r \<longleftrightarrow>
     rq_origins q = [server_origin v] \<and> request_cookie v q session_cookie = Some h \<and>
     (\<exists>token l. rq_csrf q = [token] \<and> request_cookie v q csrf_cookie = Some token \<and> is_ascii token \<and>
        bf_lineages s (bv_sha v h) = Some l \<and> csrf_validate (bv_mac v) (bv_ring v) token l = Inr True) \<and>
     is_session_handle h \<and> bf_sessions s (bv_sha v h) = Some r \<and> bs_handle_digest r = bv_sha v h \<and>
     session_is_current r (Aware now) = Inr True \<and> valid_session_record r"

lemma passed: "(\<exists>b. x = Inr b \<and> b \<and> P) \<longleftrightarrow> x = Inr True \<and> P" "(\<exists>b. x = Inr b \<and> b) \<longleftrightarrow> x = Inr True"
  by auto

lemma checked_logout_returns:
  "checked_logout v token h csrf now s = (Inr d, t) \<longleftrightarrow>
     d = bv_sha v h \<and> csrf = token \<and> is_ascii token \<and>
     (\<exists>l. bf_lineages s d = Some l \<and> csrf_validate (bv_mac v) (bv_ring v) token l = Inr True) \<and>
     is_session_handle h \<and>
     (\<exists>r. bf_sessions s d = Some r \<and> bs_handle_digest r = d \<and> session_is_current r (Aware now) = Inr True \<and>
        valid_session_record r \<and> t = s\<lparr>bf_sessions := (bf_sessions s)(d \<mapsto> retired_copy r)\<rparr>)"
proof -
  have same: "compare_digest csrf token = Inr True \<longleftrightarrow> csrf = token \<and> is_ascii token"
    by (auto simp: compare_digest_def)
  have bound: "check_csrf v token lineage = Inr True \<longleftrightarrow>
      (\<exists>l. lineage = Some l \<and> csrf_validate (bv_mac v) (bv_ring v) token l = Inr True)" for lineage
    by (simp add: check_csrf_def split: option.splits)
  show ?thesis
    unfolding checked_logout_def bindS_returns_iff thenS_returns_iff liftS_returns_iff ensureS_returns_iff
      logout_returns new_session_handle_def construct_Inr_iff
    by (auto simp: getS_def returnS_def ensure_Inr_iff passed same bound)
qed

lemma checked_logout_raises:
  "checked_logout v token h csrf now s = (Inl e, t) \<Longrightarrow> t = s \<and> e \<in> {AdmissionDenied, ValueError, TypeError}"
  by (auto simp: checked_logout_def bindS_apply new_session_handle_def construct_def ensure_def
      dest: logout_raises compare_raises check_csrf_raises split: sum.splits prod.splits if_splits)

text \<open>C8: a logout is answered 204 exactly when it is due, and then it ends this one session. The
  request must come from the server's own origin, with a single CSRF header that equals its
  single CSRF cookie and was issued for the lineage bound to its single session cookie, and
  that cookie must be the handle of a current session. Then the record is marked as retired
  and the lineage unbound, and nothing else changes. Every other request leaves the stores
  as they were: it is refused with 403 or, where a token has characters outside ASCII, the
  comparison raises and the connection ends without an answer.\<close>

theorem logout_exactly_when_due:
  "if \<exists>h r. logout_due v q now s h r
   then \<exists>h r. logout_due v q now s h r \<and>
     handle_logout v q now s =
       (Inr cleared,
        s\<lparr>bf_sessions := (bf_sessions s)(bv_sha v h \<mapsto> retired_copy r),
          bf_lineages := (bf_lineages s)(bv_sha v h := None)\<rparr>)
   else handle_logout v q now s = (Inr (BffJson 403 [(''state'', ''forbidden'')]), s) \<or>
     handle_logout v q now s = (Inl TypeError, s)"
proof (cases "rq_origins q = [server_origin v] \<and> (\<exists>token h csrf. rq_csrf q = [token] \<and>
    request_cookie v q session_cookie = Some h \<and> request_cookie v q csrf_cookie = Some csrf)")
  case False
  then have "\<not> (\<exists>h r. logout_due v q now s h r)" by (auto simp: logout_due_def)
  moreover have "handle_logout v q now s = (Inr (BffJson 403 [(''state'', ''forbidden'')]), s)"
    using False by (auto simp: handle_logout_def state_only_def split: list.splits option.splits)
  ultimately show ?thesis by simp
next
  case True
  then obtain token h csrf where q: "rq_origins q = [server_origin v]" "rq_csrf q = [token]"
    "request_cookie v q session_cookie = Some h" "request_cookie v q csrf_cookie = Some csrf" by blast
  then have handle: "handle_logout v q now s = end_session v token h csrf now s"
    by (simp add: handle_logout_def)
  obtain x t where x: "checked_logout v token h csrf now s = (x, t)" by fastforce
  show ?thesis
  proof (cases x)
    case (Inr d)
    then obtain r where "logout_due v q now s h r" "d = bv_sha v h"
      "t = s\<lparr>bf_sessions := (bf_sessions s)(bv_sha v h \<mapsto> retired_copy r)\<rparr>"
      using x q unfolding Inr checked_logout_returns logout_due_def by blast
    moreover from this have "handle_logout v q now s = (Inr cleared,
        s\<lparr>bf_sessions := (bf_sessions s)(bv_sha v h \<mapsto> retired_copy r),
          bf_lineages := (bf_lineages s)(bv_sha v h := None)\<rparr>)"
      using handle x Inr by (simp add: end_session_def)
    ultimately show ?thesis by auto
  next
    case (Inl e)
    have "\<not> logout_due v q now s h' r" for h' r
      using x Inl q unfolding logout_due_def
      by (metis Inl_Inr_False checked_logout_returns list.inject option.inject prod.inject)
    then show ?thesis
      using handle x Inl checked_logout_raises [of v token h csrf now s e t]
      by (auto simp: end_session_def state_only_def)
  qed
qed

section \<open>What stays closed\<close>

lemma do_get_shell: "is_shell_path (rq_path q) \<Longrightarrow> do_get v q draws now = handle_shell v q now"
proof -
  have "\<forall>p \<in> {''/healthz'', ''/'', ''/index.html'', ''/app.mjs'', ''/shell-state.mjs''}. \<not> is_shell_path p"
    by code_simp
  then show "is_shell_path (rq_path q) \<Longrightarrow> ?thesis" by (auto simp: do_get_def Let_def)
qed

lemma end_session_effect:
  assumes "end_session v token h csrf now s = (x, t)"
  shows "(\<exists>r. bf_sessions s (bv_sha v h) = Some r \<and> bf_sessions t = (bf_sessions s)(bv_sha v h \<mapsto> retired_copy r)) \<or>
    x \<noteq> Inr cleared \<and> t = s"
proof -
  obtain y u where y: "checked_logout v token h csrf now s = (y, u)" by fastforce
  show ?thesis
  proof (cases y)
    case (Inl e)
    then have "u = s" using y checked_logout_raises by blast
    then show ?thesis using assms y Inl by (auto simp: end_session_def state_only_def cleared_def split: if_splits)
  next
    case (Inr d)
    then obtain r where "d = bv_sha v h" "bf_sessions s d = Some r" "bf_sessions u = (bf_sessions s)(d \<mapsto> retired_copy r)"
      using y unfolding Inr checked_logout_returns by auto
    then show ?thesis using assms y Inr by (auto simp: end_session_def)
  qed
qed

lemma do_post_effect:
  assumes "do_post v q now s = (x, t)"
  shows "(\<exists>h r. request_cookie v q session_cookie = Some h \<and> bf_sessions s (bv_sha v h) = Some r \<and>
      bf_sessions t = (bf_sessions s)(bv_sha v h \<mapsto> retired_copy r)) \<or> x \<noteq> Inr cleared \<and> t = s"
  using assms
  by (auto simp: do_post_def handle_logout_def state_only_def cleared_def
      split: if_splits list.splits option.splits dest!: end_session_effect)

lemma do_post_keeps_ended:
  "do_post v q now s = (x, t) \<Longrightarrow> ended_at (bf_sessions s) d \<Longrightarrow> ended_at (bf_sessions t) d"
  by (drule do_post_effect) (auto simp: ended_at_def retired_copy_def split: if_splits)

lemma bind_session_keeps: "bind_session v q lineage handle s = (x, t) \<Longrightarrow> bf_sessions t = bf_sessions s"
  by (auto simp: bind_session_def set_mode_def bindS_apply ensure_def modifyS_def
      split: sum.splits prod.splits if_splits)

lemma handle_shell_keeps: "handle_shell v q now s = (x, t) \<Longrightarrow> bf_sessions t = bf_sessions s"
  by (auto simp: handle_shell_def show_shell_def state_only_def Let_def dest: bff.open_shell_keeps
      split: if_splits option.splits prod.splits sum.splits)

lemma callback_keeps_ended:
  assumes "handle_callback v q draws now s = (x, t)" "dw_handles draws = (a, b, c)"
    and "\<forall>(h, token) \<in> set [a, b, c]. bv_sha v h \<noteq> d" "ended_at (bf_sessions s) d"
  shows "ended_at (bf_sessions t) d"
proof -
  have kept: "ended_at (bf_sessions u) d"
    if "finish_login (bv_sha v) (app_shell v) tid binding st code now' (a, b, c) s = (y, u)" for tid binding st code now' y u
    using bff.finish_keeps_ended [OF that assms(3,4)] .
  then show ?thesis
    using assms by (auto simp: handle_callback_def state_only_def Let_def dest!: kept bind_session_keeps
        split: if_splits option.splits prod.splits sum.splits)
qed

lemma bff_step_keeps_ended: "bff_step v d s t \<Longrightarrow> ended_at (bf_sessions s) d \<Longrightarrow> ended_at (bf_sessions t) d"
proof (induction rule: bff_step.induct)
  case (bff_get r draws now s x t a b c)
  have start: "bf_sessions t = bf_sessions s" if "handle_login_start v r draws now s = (x, t)"
    using that by (auto simp: handle_login_start_def state_only_def bindS_apply dest!: bff.begin_login_keeps
        split: if_splits prod.splits sum.splits)
  show ?case
    using bff_get callback_keeps_ended [of v r draws now s x t a b c d]
    by (auto simp: do_get_def state_only_def Let_def dest!: start handle_shell_keeps split: if_splits)
next
  case (bff_post r now s x t)
  then show ?case by (rule do_post_keeps_ended)
qed

lemma bff_run_keeps_ended: "(bff_step v d)\<^sup>*\<^sup>* s t \<Longrightarrow> ended_at (bf_sessions s) d \<Longrightarrow> ended_at (bf_sessions t) d"
  by (induction rule: rtranclp_induct) (auto intro: bff_step_keeps_ended)

lemma ended_shell_denied:
  assumes "ended_at (bf_sessions s) (bv_sha v h)"
  shows "open_shell (bv_sha v) (app_shell v) h tenant now s = (Inl AdmissionDenied, s)"
  using bff_sessions.ended_refused [where sha = "bv_sha v" and h = h, OF assms, of now]
  by (cases "is_session_handle h")
    (simp_all add: open_shell_def browser_handle_def new_session_handle_def construct_def bindS_apply bff.ports)

text \<open>C7: a cookie that was logged out opens nothing any more. After a logout answered 204,
  whatever requests any browsers send in between (logins, views and logouts, refused or
  not, as long as no handle drawn for a new session has the digest of this one), the shell
  answers every request that carries the same session cookie with its state only, 403 or,
  for a path of another shape, 404, and that request changes nothing.\<close>

theorem logged_out_cookie_opens_nothing:
  assumes "do_post v q now s = (Inr cleared, t)" "request_cookie v q session_cookie = Some h"
    and "(bff_step v (bv_sha v h))\<^sup>*\<^sup>* t t'"
    and "is_shell_path (rq_path q')" "request_cookie v q' session_cookie = Some h"
  shows "\<exists>code x. code \<in> {403, 404} \<and> do_get v q' draws later t' = (Inr (BffJson code [(''state'', x)]), t')"
proof -
  have "ended_at (bf_sessions t) (bv_sha v h)"
    using assms(2) do_post_effect [OF assms(1)] by (auto simp: ended_at_def retired_copy_def)
  from ended_shell_denied [OF bff_run_keeps_ended [OF assms(3) this]]
  show ?thesis
    using assms(5)
    by (simp add: do_get_shell [OF assms(4)] handle_shell_def show_shell_def state_only_def Let_def)
qed

section \<open>What is shown\<close>

lemma fixture_grant:
  assumes "finally_granted fixture_authorities p strength now tenant action e s"
  shows "tenant = ''tenant-a'' \<and> mode_for s (pr_principal_id p) = ''allowed'' \<and>
    fe_admission_revision e = ''fixture-current-admission-r1'' \<and>
    (\<exists>x. strength = Some x \<and> se_policy_version x = ''fixture-auth-strength-v1'' \<and>
       se_principal_id x = Some (pr_principal_id p) \<and> strength_is_current x now = Inr True)"
  using assms
  by (auto simp: finally_granted_def strength_accepted_def fixture_authorities_def fixture_finalize_def
      fixture_final_evidence_def fixture_permits_def split: if_splits option.splits sum.splits)

text \<open>The shell is shown to a current member only. A request for a shell answered 200 comes to
  a server with the fixture, carries a single session cookie, the handle of a stored session
  that is neither retired nor outside its lifetime and whose principal is active; the path
  names the tenant of the fixture; the mode of the principal is \<open>allowed\<close> and the
  session's own evidence of strength, of that principal and of the fixture's policy, is
  still current. The answer names the tenant, the principal and the revision of the grant;
  nothing is written.\<close>

theorem shell_shown_to_current_member:
  assumes "is_shell_path (rq_path q)" "do_get v q draws now s = (Inr (BffJson 200 body), t)"
  shows "t = s \<and> bv_fixture v \<and>
    (\<exists>h r x. request_cookie v q session_cookie = Some h \<and> is_session_handle h \<and>
       bf_sessions s (bv_sha v h) = Some r \<and> bs_handle_digest r = bv_sha v h \<and> \<not> bs_retired r \<and>
       session_is_current r (Aware now) = Inr True \<and> pr_active (bs_principal r) \<and>
       unquote (bv_decode v) (split_on (CHR ''/'') (rq_path q) ! 4) = ''tenant-a'' \<and>
       mode_for s (pr_principal_id (bs_principal r)) = ''allowed'' \<and>
       bs_authentication_strength r = Some x \<and> se_policy_version x = ''fixture-auth-strength-v1'' \<and>
       se_principal_id x = Some (pr_principal_id (bs_principal r)) \<and>
       strength_is_current x (Aware now) = Inr True \<and>
       body = [(''state'', ''ready''), (''tenant_id'', ''tenant-a''),
         (''principal_id'', pr_principal_id (bs_principal r)),
         (''admission_revision'', ''fixture-current-admission-r1'')])"
proof -
  let ?tenant = "unquote (bv_decode v) (split_on (CHR ''/'') (rq_path q) ! 4)"
  from assms(2) obtain h where h: "request_cookie v q session_cookie = Some h"
    "show_shell v h ?tenant now s = (Inr (BffJson 200 body), t)"
    by (auto simp: do_get_shell [OF assms(1)] handle_shell_def state_only_def Let_def split: if_splits option.splits)
  then obtain x where x: "open_shell (bv_sha v) (app_shell v) h ?tenant (Aware now) s = (Inr x, t)"
    "body = shell_body x"
    by (auto simp: show_shell_def state_only_def split: prod.splits sum.splits if_splits)
  then obtain r a where r: "is_session_handle h" "bf_sessions s (bv_sha v h) = Some r"
    "bs_handle_digest r = bv_sha v h" "session_is_current r (Aware now) = Inr True" "pr_active (bs_principal r)"
    and a: "app_admission (bv_fixture v) (bs_principal r) ?tenant (bs_authentication_strength r) (Aware now) s =
      (Returned a, t)"
    and view: "x = \<lparr>sv_tenant_id = ?tenant, sv_principal_id = pr_principal_id (bs_principal r),
        sv_admission_revision = ta_admission_revision a, sv_state = ''ready''\<rparr>"
    unfolding bff.open_shell_iff by (auto simp: app_shell_def)
  from app_admission_keeps [OF a] have t: "t = s" .
  from a have fixture: "bv_fixture v"
    and shell: "require_current_shell fixture_authorities (bs_principal r) ?tenant
      (bs_authentication_strength r) (Aware now) s = (Inr a, t)"
    by (auto simp: app_admission_def call_of_returns split: if_splits)
  then obtain e where "admit_tenant fixture_authorities (bs_principal r) (bs_authentication_strength r) (Aware now)
      ?tenant shell_action s = (Inr e, t)" "ta_admission_revision a = fe_admission_revision e"
    unfolding require_current_shell_returns by auto
  from fixture_grant [OF admit_tenant_returns [OF this(1)]] this(2)
  have "?tenant = ''tenant-a''" "mode_for s (pr_principal_id (bs_principal r)) = ''allowed''"
    "ta_admission_revision a = ''fixture-current-admission-r1''"
    "\<exists>x. bs_authentication_strength r = Some x \<and> se_policy_version x = ''fixture-auth-strength-v1'' \<and>
       se_principal_id x = Some (pr_principal_id (bs_principal r)) \<and> strength_is_current x (Aware now) = Inr True"
    unfolding t by auto
  moreover have "\<not> bs_retired r" using r(4) by (simp add: session_is_current_def split: if_splits)
  ultimately show ?thesis using t fixture h(1) r x(2) view by (auto simp: shell_body_def)
qed

section \<open>Cookies come back as they were set\<close>

definition cookie_char :: "char \<Rightarrow> bool" where
  "cookie_char c \<longleftrightarrow> is_alnum c \<or> c \<in> set ''_.-~''"

text \<open>The \<open>Cookie\<close> header of a browser: its pairs, joined by a semicolon and a blank.\<close>

fun cookie_header :: "set_cookie list \<Rightarrow> string" where
  "cookie_header [] = []"
| "cookie_header [c] = cookie_pair c"
| "cookie_header (c # d # cs) = cookie_pair c @ CHR '';'' # CHR '' '' # cookie_header (d # cs)"

definition plain_cookie :: "set_cookie \<Rightarrow> bool" where
  "plain_cookie c \<longleftrightarrow> list_all cookie_char (ck_name c) \<and> list_all cookie_char (ck_value c)"

lemma cookie_char_code: "cookie_char c \<Longrightarrow> (of_char c :: nat) < 128"
  by (auto simp: cookie_char_def char_class_defs)

lemma quote_plain: "list_all cookie_char s \<Longrightarrow> quote safe s = s"
proof (induction s)
  case (Cons c s)
  then have "quote_byte safe (of_char c) = [c]" "utf8_char c = [of_char c]"
    using cookie_char_code [of c] by (auto simp: quote_byte_def cookie_char_def Let_def utf8_char_def)
  with Cons show ?case by (simp add: quote_def utf8_def)
qed (simp add: quote_def utf8_def)

lemma unquote_plain: "list_all cookie_char s \<Longrightarrow> unquote decode s = s"
proof -
  have "\<not> cookie_char (CHR ''%'')" by code_simp
  then show "list_all cookie_char s \<Longrightarrow> ?thesis" by (auto simp: unquote_def list_all_iff)
qed

lemma pair_chars:
  assumes "plain_cookie c"
  shows "cookie_pair c = ck_name c @ CHR ''='' # ck_value c"
    and "CHR '';'' \<notin> set (cookie_pair c)" "\<forall>x \<in> set (cookie_pair c). \<not> is_blank x"
proof -
  show pair: "cookie_pair c = ck_name c @ CHR ''='' # ck_value c"
    using assms by (simp add: cookie_pair_def plain_cookie_def quote_plain)
  have "\<not> cookie_char (CHR '';'')" by code_simp
  with assms show "CHR '';'' \<notin> set (cookie_pair c)" by (auto simp: pair plain_cookie_def list_all_iff)
  have "\<not> is_blank x" if "cookie_char x \<or> x = CHR ''=''" for x
    using that by (auto simp: cookie_char_def is_blank_def char_class_defs)
  with assms show "\<forall>x \<in> set (cookie_pair c). \<not> is_blank x"
    by (auto simp: pair plain_cookie_def list_all_iff)
qed

lemma strip_plain:
  assumes "\<forall>x \<in> set s. \<not> is_blank x"
  shows "strip s = s" "strip (CHR '' '' # s) = s"
proof -
  have "dropWhile is_blank s = s" "dropWhile is_blank (rev s) = rev s"
    using assms by (cases s, auto) (cases "rev s", auto simp: rev_eq_Cons_iff)
  moreover have "is_blank (CHR '' '')" by code_simp
  ultimately show "strip s = s" "strip (CHR '' '' # s) = s" by (simp_all add: strip_def)
qed

lemma cookie_part_plain:
  assumes "plain_cookie c"
  shows "cookie_part (cookie_pair c) = [(ck_name c, ck_value c)]"
    and "cookie_part (CHR '' '' # cookie_pair c) = [(ck_name c, ck_value c)]"
proof -
  have "\<not> cookie_char (CHR ''='')" by code_simp
  then have "\<forall>x \<in> set (ck_name c). x \<noteq> CHR ''=''" using assms by (auto simp: plain_cookie_def list_all_iff)
  then have "takeWhile (\<lambda>x. x \<noteq> CHR ''='') (ck_name c @ CHR ''='' # ck_value c) = ck_name c"
    "dropWhile (\<lambda>x. x \<noteq> CHR ''='') (ck_name c @ CHR ''='' # ck_value c) = CHR ''='' # ck_value c"
    by (simp_all add: takeWhile_append dropWhile_append)
  then show "cookie_part (cookie_pair c) = [(ck_name c, ck_value c)]"
    "cookie_part (CHR '' '' # cookie_pair c) = [(ck_name c, ck_value c)]"
    using strip_plain [OF pair_chars(3) [OF assms]] pair_chars(1) [OF assms]
    by (simp_all add: cookie_part_def Let_def)
qed

lemma cookie_header_parts:
  "cs \<noteq> [] \<Longrightarrow> list_all plain_cookie cs \<Longrightarrow>
     concat (map cookie_part (split_on (CHR '';'') (cookie_header cs))) = map (\<lambda>c. (ck_name c, ck_value c)) cs \<and>
     concat (map cookie_part (split_on (CHR '';'') (CHR '' '' # cookie_header cs))) =
       map (\<lambda>c. (ck_name c, ck_value c)) cs"
proof (induction cs rule: cookie_header.induct)
  case (2 c)
  then have "CHR '';'' \<notin> set (cookie_pair c)" "CHR '';'' \<notin> set (CHR '' '' # cookie_pair c)"
    using pair_chars(2) [of c] by simp_all
  from split_on_absent [OF this(1)] split_on_absent [OF this(2)] show ?case
    using 2 by (simp add: cookie_part_plain del: split_on.simps)
next
  case (3 c d cs)
  let ?rest = "CHR '' '' # cookie_header (d # cs)"
  have "CHR '';'' \<notin> set (cookie_pair c)" "CHR '';'' \<notin> set (CHR '' '' # cookie_pair c)"
    using pair_chars(2) [of c] 3(3) by simp_all
  from split_on_first [OF this(1), of ?rest] split_on_first [OF this(2), of ?rest]
  show ?case using 3 by (simp add: cookie_part_plain del: split_on.simps)
qed simp

lemma cookie_values_header:
  assumes "cs \<noteq> []" "list_all plain_cookie cs"
  shows "cookie_values decode [cookie_header cs] name = map ck_value (filter (\<lambda>c. ck_name c = name) cs)"
proof -
  have "map (unquote decode \<circ> snd) (filter (\<lambda>(k, _). k = name) (map (\<lambda>c. (ck_name c, ck_value c)) cs)) =
      map ck_value (filter (\<lambda>c. ck_name c = name) cs)"
    using assms(2) by (induction cs) (auto simp: plain_cookie_def unquote_plain)
  then show ?thesis using cookie_header_parts [OF assms] by (simp add: cookie_values_def)
qed

section \<open>A login and its logout\<close>

lemma accept_identity_active: "accept_identity sha x i n = Inr (p, e) \<Longrightarrow> pr_active p"
  by (auto simp: accept_identity_def res_simps session_principal_def)

lemma finish_login_returns:
  assumes "finish_login sha (app_shell v) tid binding code st now draws s = (Inr h, t)"
  obtains r token p where "is_session_handle h" "bf_sessions t (sha h) = Some r" "pr_active p"
    "\<exists>strength. new_session_record (sha h) token p now 3600000000 strength = Inr r"
proof -
  obtain p e u where c: "complete_browser_auth sha consume_transaction (app_oidc (bv_fixture v) (bv_oidc v)) tid binding
      code st now s = (Inr (p, e), u)"
    and i: "issue_browser_session sha bff_session_create p now 3600000000 (Some e) draws u = (Inr h, t)"
    using assms by (auto simp: finish_login_def bindS_returns_iff app_shell_def)
  have "pr_active p"
    using c unfolding complete_browser_auth_def sequence_returns liftS_returns_iff
    by (auto simp: sequence_returns liftS_returns_iff simp del: thenS_apply
        dest: accept_identity_active split: option.splits)
  moreover have "is_session_handle h \<and> (\<exists>token r. new_session_record (sha h) token p now 3600000000 (Some e) = Inr r \<and>
      bf_sessions t (sha h) = Some r)"
    using i bff_sessions.issue_returns by (auto simp: issue_browser_session_def split: prod.splits)
  ultimately show thesis using that by blast
qed

lemma csrf_issue_returns:
  assumes "valid_key_ring k" "csrf_issue mac k l = Inr token"
  shows "csrf_validate mac k token l = Inr True" "is_ascii token" "list_all cookie_char token"
proof -
  obtain key where key: "map_of (kr_keys k) (kr_current_version k) = Some key"
    using ring_key [OF assms(1)] by blast
  then have token: "is_lineage l" "token = kr_current_version k @ CHR ''.'' # b64url (mac key l)"
    using assms(2) by (auto simp: csrf_issue_def session_lineage_def construct_def split: if_splits)
  have version: "is_key_version (kr_current_version k)" using assms(1) by (simp add: valid_key_ring_def)
  have "split_on (CHR ''.'') token = [kr_current_version k, b64url (mac key l)]"
    unfolding token by (simp add: key_version_no_dot [OF version] split_on_first
        split_on_absent url_token_no_dot [OF b64url_class])
  then show "csrf_validate mac k token l = Inr True"
    using key token(1) by (simp add: csrf_validate_def session_lineage_def construct_def compare_digest_def
        url_token_ascii [OF b64url_class])
  have "list_all cookie_char (kr_current_version k)"
    using version by (cases "kr_current_version k")
      (auto simp: is_key_version_def key_version_char_def cookie_char_def list_all_iff)
  moreover have "list_all cookie_char (b64url (mac key l))"
    using b64url_class [of "mac key l"] by (auto simp: list_all_iff url_token_char_def cookie_char_def)
  moreover have "cookie_char (CHR ''.'')" by code_simp
  ultimately show "list_all cookie_char token" by (simp add: token)
  then show "is_ascii token" using cookie_char_code by (auto simp: is_ascii_def list_all_iff)
qed

lemma bind_session_returns:
  assumes "bind_session v q lineage handle s = (Inr (BffRedirect loc cookies), t)"
  obtains csrf where "csrf_issue (bv_mac v) (bv_ring v) lineage = Inr csrf" "cookies = login_cookies handle csrf"
    "bf_sessions t = bf_sessions s" "bf_lineages t = (bf_lineages s)(bv_sha v handle \<mapsto> lineage)"
  using assms
  by (auto simp: bind_session_def set_mode_def bindS_apply ensure_def modifyS_def
      split: sum.splits prod.splits if_splits)

lemma callback_returns:
  assumes "rq_path q = ''/__fixture__/idp/callback''"
    and "do_get v q draws now s = (Inr (BffRedirect loc cookies), t)"
  obtains handle csrf lineage token p strength r where "cookies = login_cookies handle csrf"
    "csrf_issue (bv_mac v) (bv_ring v) lineage = Inr csrf" "is_session_handle handle"
    "bf_lineages t (bv_sha v handle) = Some lineage" "bf_sessions t (bv_sha v handle) = Some r" "pr_active p"
    "new_session_record (bv_sha v handle) token p (Aware now) 3600000000 strength = Inr r"
proof -
  have "\<not> is_shell_path ''/__fixture__/idp/callback''" by code_simp
  then have "handle_callback v q draws now s = (Inr (BffRedirect loc cookies), t)"
    using assms by (simp add: do_get_def Let_def)
  then obtain binding tid st code handle u where
    f: "finish_login (bv_sha v) (app_shell v) tid binding st code (Aware now) (dw_handles draws) s = (Inr handle, u)"
    and b: "bind_session v (rq_query q) (dw_lineage draws) handle u = (Inr (BffRedirect loc cookies), t)"
    by (auto simp: handle_callback_def state_only_def Let_def split: if_splits option.splits prod.splits sum.splits)
  show thesis
    by (rule finish_login_returns [OF f], rule bind_session_returns [OF b]) (use that in auto)
qed

lemma handle_is_plain: "is_session_handle h \<Longrightarrow> list_all cookie_char h"
  by (auto simp: is_session_handle_def list_all_iff token_char_def cookie_char_def)

text \<open>C9: the cookies of a login end its session. When a callback answers with its redirect, a
  browser that keeps the cookies that do not expire at once and sends them back within the
  hour, from the server's origin and with the CSRF cookie repeated as the header, is
  answered 204: the cookie texts are read back as they were set, the token is accepted for
  the lineage of the session, and the session and its lineage are gone.\<close>

theorem login_cookies_log_out:
  assumes "valid_key_ring (bv_ring v)" "rq_path q = ''/__fixture__/idp/callback''"
    and "do_get v q draws now s = (Inr (BffRedirect loc cookies), t)"
    and "now \<le> later" "later < add_lifetime now 3600000000"
    and "rq_path q' = ''/bff/v1/logout''" "rq_origins q' = [server_origin v]"
    and "rq_cookies q' = [cookie_header (filter (\<lambda>c. 0 < ck_max_age c) cookies)]"
    and "c \<in> set cookies" "ck_name c = csrf_cookie" "rq_csrf q' = [ck_value c]"
  shows "\<exists>u h r. do_post v q' later t = (Inr cleared, u) \<and> request_cookie v q' session_cookie = Some h \<and>
    bf_sessions t (bv_sha v h) = Some r \<and> \<not> bs_retired r \<and>
    bf_sessions u (bv_sha v h) = Some (retired_copy r) \<and> bf_lineages u (bv_sha v h) = None"
proof -
  obtain handle csrf lineage token p strength r where cookies: "cookies = login_cookies handle csrf"
    and csrf: "csrf_issue (bv_mac v) (bv_ring v) lineage = Inr csrf"
    and handle: "is_session_handle handle"
    and state: "bf_lineages t (bv_sha v handle) = Some lineage" "bf_sessions t (bv_sha v handle) = Some r"
    and new: "pr_active p" "new_session_record (bv_sha v handle) token p (Aware now) 3600000000 strength = Inr r"
    by (rule callback_returns [OF assms(2,3)])
  note token = csrf_issue_returns [OF assms(1) csrf] and stored = new_session_record_Inr [OF new(2)]
  let ?kept = "filter (\<lambda>c. 0 < ck_max_age c) cookies"
  have names: "session_cookie \<noteq> csrf_cookie" "csrf_cookie \<noteq> session_cookie" "csrf_cookie \<noteq> binding_cookie"
    "list_all cookie_char session_cookie" "list_all cookie_char csrf_cookie"
    by code_simp+
  have "?kept \<noteq> []" "list_all plain_cookie ?kept"
    using names token(3) handle_is_plain [OF handle] by (simp_all add: cookies login_cookies_def plain_cookie_def)
  from cookie_values_header [OF this] have read: "request_cookie v q' session_cookie = Some handle"
    "request_cookie v q' csrf_cookie = Some csrf"
    using names by (simp_all add: request_cookie_def single_cookie_def assms(8) cookies login_cookies_def)
  have "ck_value c = csrf" using assms(9,10) names by (auto simp: cookies login_cookies_def)
  with assms(11) have header: "rq_csrf q' = [csrf]" by simp
  have current: "session_is_current r (Aware later) = Inr True"
    using stored new(1) assms(4,5) by (auto simp: session_is_current_def window_contains_def)
  then obtain u where u: "checked_logout v csrf handle csrf later t = (Inr (bv_sha v handle), u)"
    "u = t\<lparr>bf_sessions := (bf_sessions t)(bv_sha v handle \<mapsto> retired_copy r)\<rparr>"
    using handle token state stored unfolding checked_logout_returns by auto
  then have "do_post v q' later t = (Inr cleared, u\<lparr>bf_lineages := (bf_lineages u)(bv_sha v handle := None)\<rparr>)"
    by (simp add: do_post_def assms(6,7) handle_logout_def header read end_session_def)
  then show ?thesis using read state u(2) stored by auto
qed

section \<open>A server and its requests\<close>

definition sample_identity_of :: "string \<Rightarrow> oidc_identity" where
  "sample_identity_of issuer =
     \<lparr>oi_principal_id = ''principal-a'', oi_issuer = issuer, oi_client_id = ''jlmirror-bff'', oi_nonce = ''nc'',
      oi_authenticated_at = Aware (At 4), oi_token_expires_at = Aware (At 9000), oi_acr = None,
      oi_amr = {''pwd''}, oi_policy_version = ''fixture-auth-strength-v1''\<rparr>"

definition sample_server :: bff_server where
  "sample_server =
     \<lparr>bv_fixture = True, bv_host = ''0.0.0.0'', bv_port = 8444,
      bv_ring = app_keys True ([], []), bv_sha = sample_sha, bv_challenge = id, bv_mac = (\<lambda>key l. take 3 key),
      bv_decode = map char_of, bv_oidc = (\<lambda>code verifier issuer client redirect. Returned (sample_identity_of issuer))\<rparr>"

definition sample_login_state :: bff_state where
  "sample_login_state = bff_empty
     \<lparr>bf_transactions := [replicate 32 (CHR ''t'') \<mapsto> sample_transaction
        \<lparr>bt_expected_issuer := ''https://identity.example.test/realms/jlmirror'',
         bt_expected_client_id := ''jlmirror-bff'',
         bt_expected_redirect_uri := ''https://app.example.test/auth/callback''\<rparr>]\<rparr>"

definition plain_request :: "string \<Rightarrow> bff_request" where
  "plain_request path =
     \<lparr>rq_path = path, rq_query = [], rq_cookies = [], rq_origins = [], rq_csrf = []\<rparr>"

definition sample_callback :: bff_request where
  "sample_callback = (plain_request ''/__fixture__/idp/callback'')
     \<lparr>rq_query := [(''transaction_id'', [replicate 32 (CHR ''t'')]), (''state'', [''st'']),
        (''authorization_code'', [''code'']), (''target_tenant'', [''tenant-a'']),
        (''scenario'', [''allowed'']), (''mode'', [''allowed''])],
      rq_cookies := [''x=1; __Host-jlmirror_login=browser'']\<rparr>"

definition sample_bff_draws :: bff_draws where
  "sample_bff_draws =
     \<lparr>dw_binding = ''browser'', dw_login = sample_draws,
      dw_handles = ((replicate 43 (CHR ''h''), ''t1''), (replicate 43 (CHR ''i''), ''t2''), (replicate 43 (CHR ''j''), ''t3'')),
      dw_lineage = replicate 32 (CHR ''l'')\<rparr>"

section \<open>Requests that are answered\<close>

definition sample_member :: session_record where
  "sample_member =
     \<lparr>bs_handle_digest = sample_sha (replicate 43 (CHR ''h'')),
      bs_principal = \<lparr>pr_principal_id = ''principal-a'', pr_kind = HumanBrowserSession,
        pr_credential_generation = ''session-t1'', pr_active = True\<rparr>,
      bs_session_generation = ''session-t1'', bs_created_at = Aware (At 5), bs_expires_at = Aware (At 9),
      bs_retired = False,
      bs_authentication_strength = Some
        \<lparr>se_issuer = ''i'', se_acr = None, se_amr = {''pwd''}, se_authenticated_at = Aware (At 4),
         se_evidence_expires_at = Aware (At 9), se_policy_version = ''fixture-auth-strength-v1'',
         se_principal_id = Some ''principal-a'', se_principal_credential_generation = Some ''session-t1''\<rparr>\<rparr>"

definition sample_member_state :: bff_state where
  "sample_member_state = bff_empty
     \<lparr>bf_sessions := [sample_sha (replicate 43 (CHR ''h'')) \<mapsto> sample_member],
      bf_lineages := [sample_sha (replicate 43 (CHR ''h'')) \<mapsto> replicate 32 (CHR ''l'')]\<rparr>"

definition sample_cookies :: string where
  "sample_cookies =
     ''__Host-jlmirror_session='' @ replicate 43 (CHR ''h'') @ ''; __Host-jlmirror_csrf=csrf-v2.MjIy''"

definition sample_view :: bff_request where
  "sample_view = (plain_request ''/bff/v1/tenants/tenant-a/shell'')\<lparr>rq_cookies := [sample_cookies]\<rparr>"

definition sample_logout :: bff_request where
  "sample_logout = (plain_request ''/bff/v1/logout'')
     \<lparr>rq_cookies := [sample_cookies], rq_origins := [''https://127.0.0.1:8444''], rq_csrf := [''csrf-v2.MjIy'']\<rparr>"

lemma sample_origin: "server_origin sample_server = ''https://127.0.0.1:8444''"
proof -
  have "char_of (56 :: nat) = CHR ''8''" "char_of (52 :: nat) = CHR ''4''" by code_simp+
  then show ?thesis by (simp add: server_origin_def sample_server_def int_text_def nat_digits.simps)
qed

lemma sample_sha_hex: "is_sha256_hex (sample_sha s)"
  by (simp add: is_sha256_hex_def sample_sha_def list_all_iff char_class_defs)

lemma sample_requests:
  "request_cookie sample_server sample_view session_cookie = Some (replicate 43 (CHR ''h''))"
  "request_cookie sample_server sample_logout session_cookie = Some (replicate 43 (CHR ''h''))"
  "request_cookie sample_server sample_logout csrf_cookie = Some ''csrf-v2.MjIy''"
  "is_shell_path (rq_path sample_view)" "is_session_handle (replicate 43 (CHR ''h''))"
  "split_on (CHR ''/'') (rq_path sample_view) = ['''', ''bff'', ''v1'', ''tenants'', ''tenant-a'', ''shell'']"
  by code_simp+

lemma sample_member_stored:
  "bf_sessions sample_member_state (bv_sha sample_server (replicate 43 (CHR ''h''))) = Some sample_member"
  "bf_lineages sample_member_state (bv_sha sample_server (replicate 43 (CHR ''h''))) = Some (replicate 32 (CHR ''l''))"
  "bs_handle_digest sample_member = bv_sha sample_server (replicate 43 (CHR ''h''))"
  by (simp_all add: sample_member_state_def sample_server_def sample_member_def)

lemma sample_member_current: "session_is_current sample_member (Aware (At 6)) = Inr True"
  by (simp add: session_is_current_def sample_member_def window_contains_def less_instant_def)

lemma sample_member_valid: "valid_session_record sample_member"
  by (simp add: valid_session_record_def sample_member_def sample_sha_hex is_human_kind_def
      aware_ordered_def less_instant_def)

lemma sample_shell_admitted:
  "app_admission True (bs_principal sample_member) ''tenant-a'' (bs_authentication_strength sample_member)
     (Aware (At 6)) sample_member_state =
   (Returned \<lparr>ta_tenant_id = ''tenant-a'', ta_admission_revision = ''fixture-current-admission-r1''\<rparr>, sample_member_state)"
proof -
  have "fst (app_admission True (bs_principal sample_member) ''tenant-a'' (bs_authentication_strength sample_member)
      (Aware (At 6)) sample_member_state) =
    Returned \<lparr>ta_tenant_id = ''tenant-a'', ta_admission_revision = ''fixture-current-admission-r1''\<rparr>"
    by code_simp
  then show ?thesis using app_admission_keeps by (metis prod.collapse)
qed

lemma sample_shell_shown:
  "do_get sample_server sample_view sample_bff_draws (At 6) sample_member_state =
     (Inr (BffJson 200 [(''state'', ''ready''), (''tenant_id'', ''tenant-a''), (''principal_id'', ''principal-a''),
        (''admission_revision'', ''fixture-current-admission-r1'')]), sample_member_state)"
proof -
  have "bv_fixture sample_server" "unquote (bv_decode sample_server) ''tenant-a'' = ''tenant-a''"
    "pr_active (bs_principal sample_member)" "pr_principal_id (bs_principal sample_member) = ''principal-a''"
    by (simp_all add: sample_server_def unquote_def sample_member_def)
  moreover from this have "open_shell (bv_sha sample_server) (app_shell sample_server) (replicate 43 (CHR ''h'')) ''tenant-a''
      (Aware (At 6)) sample_member_state =
    (Inr \<lparr>sv_tenant_id = ''tenant-a'', sv_principal_id = ''principal-a'',
       sv_admission_revision = ''fixture-current-admission-r1'', sv_state = ''ready''\<rparr>, sample_member_state)"
    unfolding bff.open_shell_iff
    using sample_requests(5) sample_member_stored sample_member_current sample_shell_admitted
    by (simp add: app_shell_def)
  ultimately show ?thesis
    by (simp add: do_get_shell sample_requests handle_shell_def show_shell_def shell_body_def Let_def)
qed

theorem shell_shown_to_current_member_witness:
  "mode_for sample_member_state ''principal-a'' = ''allowed'' \<and>
   (\<exists>r. bf_sessions sample_member_state (sample_sha (replicate 43 (CHR ''h''))) = Some r \<and> \<not> bs_retired r)"
  using shell_shown_to_current_member [OF sample_requests(4) sample_shell_shown] sample_requests(1)
  by (auto simp: sample_server_def)

lemma sample_ring_valid: "valid_key_ring (bv_ring sample_server)"
  by code_simp

lemma sample_issue:
  "csrf_issue (bv_mac sample_server) (bv_ring sample_server) (replicate 32 (CHR ''l'')) = Inr ''csrf-v2.MjIy''"
proof -
  have "is_lineage (replicate 32 (CHR ''l''))" by code_simp
  moreover have "b64url [50, 50, 50] = ''MjIy''"
    by (simp add: b64url_text b64_char_def b64_alphabet_def)
  ultimately show ?thesis
    by (simp add: csrf_issue_def session_lineage_def construct_def sample_server_def app_keys_def numeral_nat)
qed

lemma sample_logged_out:
  obtains t where "do_post sample_server sample_logout (At 6) sample_member_state = (Inr cleared, t)"
proof -
  note token = csrf_issue_returns [OF sample_ring_valid sample_issue]
  then obtain u where "checked_logout sample_server ''csrf-v2.MjIy'' (replicate 43 (CHR ''h'')) ''csrf-v2.MjIy'' (At 6)
      sample_member_state = (Inr (bv_sha sample_server (replicate 43 (CHR ''h''))), u)"
    using sample_requests(5) sample_member_stored sample_member_current sample_member_valid
    unfolding checked_logout_returns by auto
  then have "fst (do_post sample_server sample_logout (At 6) sample_member_state) = Inr cleared"
    using sample_requests(2,3) sample_origin
    by (simp add: do_post_def handle_logout_def end_session_def sample_logout_def plain_request_def)
  then show thesis using that by (metis prod.collapse)
qed

theorem logged_out_cookie_opens_nothing_witness:
  "\<exists>t code x. do_post sample_server sample_logout (At 6) sample_member_state = (Inr cleared, t) \<and>
     do_get sample_server sample_view sample_bff_draws (At 7) t = (Inr (BffJson code [(''state'', x)]), t)"
proof -
  obtain t where t: "do_post sample_server sample_logout (At 6) sample_member_state = (Inr cleared, t)"
    by (rule sample_logged_out)
  from logged_out_cookie_opens_nothing [OF t sample_requests(2) rtranclp.rtrancl_refl sample_requests(4,1)] t
  show ?thesis by blast
qed

text \<open>A login that is answered, step by step.\<close>

definition sample_pending :: auth_transaction where
  "sample_pending = sample_transaction
     \<lparr>bt_expected_issuer := ''https://identity.example.test/realms/jlmirror'',
      bt_expected_client_id := ''jlmirror-bff'',
      bt_expected_redirect_uri := ''https://app.example.test/auth/callback''\<rparr>"

lemma sample_identity_accepted:
  obtains p e where
    "accept_identity sample_sha sample_pending (sample_identity_of (bt_expected_issuer sample_pending)) (At 5) = Inr (p, e)"
    "valid_principal p" "p = session_principal sample_pending (sample_identity_of (bt_expected_issuer sample_pending))"
    "e = oidc_strength sample_pending (sample_identity_of (bt_expected_issuer sample_pending))"
proof -
  have "\<not> isl (accept_identity sample_sha sample_pending (sample_identity_of (bt_expected_issuer sample_pending)) (At 5))"
    by code_simp
  then show thesis
    using that by (auto simp: isl_def accept_identity_def rethrow_def bindR_Inr_iff ensure_Inr_iff construct_Inr_iff
        split: sum.splits)
qed

lemma sample_completed:
  assumes "accept_identity sample_sha sample_pending (sample_identity_of (bt_expected_issuer sample_pending)) (At 5) = Inr (p, e)"
  obtains u where "complete_browser_auth sample_sha consume_transaction (app_oidc True (bv_oidc sample_server))
      (replicate 32 (CHR ''t'')) ''browser'' ''st'' ''code'' (Aware (At 5)) sample_login_state = (Inr (p, e), u)"
    "bf_sessions u = Map.empty"
proof -
  have "is_transaction_id (replicate 32 (CHR ''t''))"
    "is_explicit ''browser''" "is_explicit ''st''" "is_explicit ''code''"
    "transaction_current sample_pending (At 5) = Inr True" by code_simp+
  moreover have "bf_transactions sample_login_state (replicate 32 (CHR ''t'')) = Some sample_pending"
    by (simp add: sample_login_state_def sample_pending_def)
  moreover have "bt_transaction_id sample_pending = replicate 32 (CHR ''t'')"
    "bt_initiating_session_digest sample_pending = sample_sha ''browser''"
    "bt_state_digest sample_pending = sample_sha ''st''"
    by (simp_all add: sample_pending_def sample_transaction_def)
  moreover have "exchange_and_verify (app_oidc True (bv_oidc sample_server)) ''code'' sample_pending =
      Inr (sample_identity_of (bt_expected_issuer sample_pending))"
    by (simp add: exchange_and_verify_def app_oidc_def sample_server_def)
  moreover have "bf_sessions sample_login_state = Map.empty"
    by (simp add: sample_login_state_def bff_empty_def)
  ultimately show thesis
    using assms that by (simp add: complete_browser_auth_def bindS_apply consume_transaction_def)
qed

lemma sample_record_issued:
  assumes "p = session_principal sample_pending (sample_identity_of (bt_expected_issuer sample_pending))"
    and "e = oidc_strength sample_pending (sample_identity_of (bt_expected_issuer sample_pending))"
  shows "\<exists>r. new_session_record (sample_sha h) ''t1'' p (Aware (At 5)) 3600000000 (Some e) = Inr r"
proof -
  let ?g = "session_generation_of ''t1''"
  have "valid_principal \<lparr>pr_principal_id = ''principal-a'', pr_kind = HumanBrowserSession,
      pr_credential_generation = ?g, pr_active = True\<rparr>" by code_simp
  moreover have "valid_strength_evidence ((oidc_strength sample_pending (sample_identity_of (bt_expected_issuer sample_pending)))
      \<lparr>se_principal_credential_generation := Some ?g\<rparr>)" by code_simp
  moreover have "se_principal_id e = Some ''principal-a''" "strength_belongs p (Some e)"
    "pr_principal_id p = ''principal-a''" "pr_kind p = HumanBrowserSession" "pr_active p"
    using assms by (simp_all add: oidc_strength_def sample_identity_of_def session_principal_def strength_belongs_def)
  ultimately show ?thesis using assms(2)
    by (simp add: new_session_record_def rebind_strength_def construct_def is_human_kind_def
        valid_session_record_def sample_sha_hex aware_ordered_def less_instant_def add_lifetime_def
        session_generation_of_def)
qed

text \<open>
  The callback does not test the mode before the session exists: with another mode the
  request ends with an exception and the session stays without a lineage.
\<close>

lemma unknown_mode_leaves_session:
  assumes "query_first q ''mode'' [] \<notin> authority_modes"
  shows "bind_session v q lineage handle s = (Inl ValueError, s)"
  using assms by (simp add: bind_session_def set_mode_def bindS_apply ensure_def)

lemma bind_session_answers:
  assumes "query_first q ''mode'' [] \<in> authority_modes"
    and "csrf_issue (bv_mac v) (bv_ring v) lineage = Inr csrf"
  shows "\<exists>loc t. bind_session v q lineage handle s = (Inr (BffRedirect loc (login_cookies handle csrf)), t)"
  using assms by (simp add: bind_session_def set_mode_def bindS_apply modifyS_def)

lemma sample_logged_in:
  obtains loc cookies t c where
    "do_get sample_server sample_callback sample_bff_draws (At 5) sample_login_state = (Inr (BffRedirect loc cookies), t)"
    "c \<in> set cookies" "ck_name c = csrf_cookie"
proof -
  let ?h = "replicate 43 (CHR ''h'')"
  obtain p e where pe: "accept_identity sample_sha sample_pending (sample_identity_of (bt_expected_issuer sample_pending)) (At 5) = Inr (p, e)"
    "p = session_principal sample_pending (sample_identity_of (bt_expected_issuer sample_pending))"
    "e = oidc_strength sample_pending (sample_identity_of (bt_expected_issuer sample_pending))"
    by (rule sample_identity_accepted)
  obtain u where u: "complete_browser_auth sample_sha consume_transaction (app_oidc True (bv_oidc sample_server))
      (replicate 32 (CHR ''t'')) ''browser'' ''st'' ''code'' (Aware (At 5)) sample_login_state = (Inr (p, e), u)"
    "bf_sessions u = Map.empty"
    by (rule sample_completed [OF pe(1)])
  obtain r where r: "new_session_record (sample_sha ?h) ''t1'' p (Aware (At 5)) 3600000000 (Some e) = Inr r"
    using sample_record_issued [OF pe(2,3)] by blast
  have "finish_login sample_sha (app_shell sample_server) (replicate 32 (CHR ''t'')) ''browser'' ''st'' ''code''
      (Aware (At 5)) (dw_handles sample_bff_draws) sample_login_state =
    (Inr ?h, u\<lparr>bf_sessions := (bf_sessions u)(bs_handle_digest r \<mapsto> r)\<rparr>)"
    using u r sample_requests(5)
    by (simp add: finish_login_def app_shell_def bindS_apply sample_server_def issue_browser_session_def
        sample_bff_draws_def new_session_handle_def construct_def bff_session_create_def)
  moreover have "request_cookie sample_server sample_callback binding_cookie = Some ''browser''"
    "list_all (query_single (rq_query sample_callback)) callback_fields"
    "query_first (rq_query sample_callback) ''transaction_id'' [] = replicate 32 (CHR ''t'')"
    "query_first (rq_query sample_callback) ''state'' [] = ''st''"
    "query_first (rq_query sample_callback) ''authorization_code'' [] = ''code''"
    "query_first (rq_query sample_callback) ''mode'' [] \<in> authority_modes"
    "rq_path sample_callback = ''/__fixture__/idp/callback''"
    "\<not> is_shell_path ''/__fixture__/idp/callback''"
    by code_simp+
  moreover have "bv_fixture sample_server" "bv_sha sample_server = sample_sha"
    "dw_lineage sample_bff_draws = replicate 32 (CHR ''l'')"
    by (simp_all add: sample_server_def sample_bff_draws_def)
  ultimately have "do_get sample_server sample_callback sample_bff_draws (At 5) sample_login_state =
      bind_session sample_server (rq_query sample_callback) (replicate 32 (CHR ''l'')) ?h
        (u\<lparr>bf_sessions := (bf_sessions u)(bs_handle_digest r \<mapsto> r)\<rparr>)"
    and "query_first (rq_query sample_callback) ''mode'' [] \<in> authority_modes"
    by (simp_all add: do_get_def handle_callback_def Let_def)
  with bind_session_answers [OF _ sample_issue] have "\<exists>loc t. do_get sample_server sample_callback sample_bff_draws (At 5) sample_login_state =
      (Inr (BffRedirect loc (login_cookies ?h ''csrf-v2.MjIy'')), t)"
    by simp
  moreover have "\<exists>c \<in> set (login_cookies ?h ''csrf-v2.MjIy''). ck_name c = csrf_cookie"
    by (simp add: login_cookies_def)
  ultimately show thesis using that by blast
qed

theorem login_cookies_log_out_witness:
  "\<exists>loc cookies t c q u. do_get sample_server sample_callback sample_bff_draws (At 5) sample_login_state =
       (Inr (BffRedirect loc cookies), t) \<and> c \<in> set cookies \<and> rq_csrf q = [ck_value c] \<and>
     do_post sample_server q (At 3600000004) t = (Inr cleared, u)"
proof -
  obtain loc cookies t c where in_: "do_get sample_server sample_callback sample_bff_draws (At 5) sample_login_state =
      (Inr (BffRedirect loc cookies), t)" "c \<in> set cookies" "ck_name c = csrf_cookie"
    by (rule sample_logged_in)
  let ?q = "(plain_request ''/bff/v1/logout'')
    \<lparr>rq_origins := [server_origin sample_server], rq_csrf := [ck_value c],
     rq_cookies := [cookie_header (filter (\<lambda>c. 0 < ck_max_age c) cookies)]\<rparr>"
  have "rq_path sample_callback = ''/__fixture__/idp/callback''" by code_simp
  from login_cookies_log_out [OF sample_ring_valid this in_(1), of "At 3600000004" ?q c] in_
  obtain u where "do_post sample_server ?q (At 3600000004) t = (Inr cleared, u)" "rq_csrf ?q = [ck_value c]"
    by (auto simp: plain_request_def less_instant_def add_lifetime_def less_eq_instant_def)
  with in_ show ?thesis by blast
qed

end
