(* ===== verification/Views.thy ===== *)
theory Views
  imports Bound_Authorization Payloads
begin

text \<open>
  What the read models of the goals under src/apps share: the bound on their responses, the
  checks of request arguments, and the reading of a repository between two rounds of current
  authorization.
\<close>

section \<open>Bounded responses\<close>

definition max_response_bytes :: nat where "max_response_bytes = 1048576"

definition bounded_response :: "payload \<Rightarrow> payload res" where
  "bounded_response v = (if max_response_bytes < payload_bytes v then Inl RuntimeError else Inr v)"

lemma bounded_response_Inr_iff [res_simps]:
  "bounded_response v = Inr w \<longleftrightarrow> w = v \<and> payload_bytes v \<le> max_response_bytes"
  by (auto simp: bounded_response_def)

lemma bounded_response_small: "2 * weight v \<le> 1048576 \<Longrightarrow> bounded_response v = Inr v"
  using payload_bytes_weight [of v] by (simp add: bounded_response_def max_response_bytes_def)

definition opt_text :: "string option \<Rightarrow> payload" where
  "opt_text x = (case x of None \<Rightarrow> PNull | Some s \<Rightarrow> PText s)"

lemma opt_text_inj [simp]: "opt_text x = opt_text y \<longleftrightarrow> x = y"
  by (auto simp: opt_text_def split: option.splits)

text \<open>A field of an object, as \<open>value[key]\<close> reads it.\<close>

definition field :: "string \<Rightarrow> payload \<Rightarrow> payload option" where
  "field k v = (case v of PObj fs \<Rightarrow> map_of fs k | _ \<Rightarrow> None)"

lemma field_obj [simp]: "field k (PObj fs) = map_of fs k"
  by (simp add: field_def)

text \<open>A list comprehension over a function that may raise.\<close>

primrec mapR :: "('a \<Rightarrow> 'b res) \<Rightarrow> 'a list \<Rightarrow> 'b list res" where
  "mapR f [] = Inr []"
| "mapR f (x # xs) = bindR (f x) (\<lambda>y. bindR (mapR f xs) (\<lambda>ys. Inr (y # ys)))"

lemma mapR_Inr_iff [res_simps]: "mapR f xs = Inr ys \<longleftrightarrow> list_all2 (\<lambda>x y. f x = Inr y) xs ys"
  by (induction xs arbitrary: ys) (auto simp: bindR_Inr_iff list_all2_Cons1)

section \<open>Arguments of a request\<close>

definition bounded_text :: "nat \<Rightarrow> string \<Rightarrow> bool" where
  "bounded_text n s \<longleftrightarrow> s \<noteq> [] \<and> length s \<le> n"

definition opt_bounded :: "nat \<Rightarrow> string option \<Rightarrow> bool" where
  "opt_bounded n x = (case x of None \<Rightarrow> True | Some s \<Rightarrow> bounded_text n s)"

definition opt_member :: "string list \<Rightarrow> string option \<Rightarrow> bool" where
  "opt_member xs x = (case x of None \<Rightarrow> True | Some s \<Rightarrow> s \<in> set xs)"

definition validate_cursor :: "string option \<Rightarrow> unit res" where
  "validate_cursor c = ensure (opt_bounded 512 c) ValueError"

definition validate_limit :: "int \<Rightarrow> unit res" where
  "validate_limit n = ensure (1 \<le> n \<and> n \<le> 500) ValueError"

definition generation_states :: "string list" where
  "generation_states = [''active_generation'', ''historical_generation'']"

definition scope_states :: "string list" where "scope_states = [''in_scope'', ''out_of_scope'']"

definition scope_evidence_states :: "string list" where
  "scope_evidence_states = [''current'', ''reconciliation_required'']"

definition evidence_states :: "string list" where
  "evidence_states = [''current'', ''stale'', ''incomplete'', ''reconciliation_required'', ''unavailable'']"

text \<open>The page of a list: its length is checked against the limit, its items are presented.\<close>

definition present_page ::
  "('r \<Rightarrow> payload res) \<Rightarrow> int \<Rightarrow> 'r list \<times> string option \<Rightarrow> payload res" where
  "present_page item limit page =
     bindR (ensure (int (length (fst page)) \<le> limit) RuntimeError) (\<lambda>_.
     bindR (mapR item (fst page)) (\<lambda>items.
     bounded_response (PObj [(''items'', PArr items), (''next_cursor'', opt_text (snd page))])))"

lemma present_page_Inr_iff:
  "present_page item limit page = Inr v \<longleftrightarrow>
     (\<exists>items. int (length (fst page)) \<le> limit \<and> list_all2 (\<lambda>r i. item r = Inr i) (fst page) items \<and>
        v = PObj [(''items'', PArr items), (''next_cursor'', opt_text (snd page))] \<and>
        payload_bytes v \<le> max_response_bytes)"
  unfolding present_page_def bindR_Inr_iff ensure_Inr_iff mapR_Inr_iff bounded_response_Inr_iff by auto

lemma active_unless_historical:
  "x \<in> set generation_states \<Longrightarrow> x \<noteq> ''historical_generation'' \<longleftrightarrow> x = ''active_generation''"
  by (auto simp: generation_states_def)

section \<open>Reading under current authorization\<close>

definition resource_read :: string where "resource_read = ''monitoring.resource.read''"
definition metric_read :: string where "metric_read = ''monitoring.metric.read''"
definition problem_read :: string where "problem_read = ''monitoring.problem.read''"
definition health_read :: string where "health_read = ''monitoring.health.read''"

type_synonym 's admission = "string \<Rightarrow> string \<Rightarrow> ('s, actor_evidence) op"

text \<open>\<open>_admit\<close> for one action after the other.\<close>

primrec admit_all :: "'s admission \<Rightarrow> string \<Rightarrow> string list \<Rightarrow> ('s, unit) op" where
  "admit_all req tenant [] = returnS ()"
| "admit_all req tenant (a # as) = bindS (req tenant a) (\<lambda>_. admit_all req tenant as)"

lemma admit_all_Cons:
  "admit_all req tenant (a # as) s = (Inr x, t) \<longleftrightarrow>
     (\<exists>v u. req tenant a s = (Inr v, u) \<and> admit_all req tenant as u = (Inr x, t))"
  by (simp add: bindS_returns_iff)

lemma admit_all_append:
  "admit_all req tenant (as @ bs) = bindS (admit_all req tenant as) (\<lambda>_. admit_all req tenant bs)"
  by (induction as) (auto simp: fun_eq_iff bindS_apply split: prod.splits sum.splits)

text \<open>The actions granted before the read, the read, the actions granted after it.\<close>

definition read_between ::
  "'s admission \<Rightarrow> string \<Rightarrow> string list \<Rightarrow> ('s, 'a) op \<Rightarrow> ('a \<Rightarrow> string list) \<Rightarrow> ('s, 'a) op" where
  "read_between req tenant pre m post =
     bindS (admit_all req tenant pre) (\<lambda>_. bindS m (\<lambda>v.
     bindS (admit_all req tenant (post v)) (\<lambda>_. returnS v)))"

lemma read_between_returns:
  "read_between req tenant pre m post s = (Inr v, t) \<longleftrightarrow>
     (\<exists>u w. admit_all req tenant pre s = (Inr (), u) \<and> m u = (Inr v, w) \<and>
        admit_all req tenant (post v) w = (Inr (), t))"
  by (auto simp: read_between_def bindS_returns_iff)

text \<open>
  What a caller may rely on: the value was read from the repository in a state in which the
  last action asked for was just granted, and it is handed out in such a state again.
\<close>

definition read_under_grant ::
  "(string \<Rightarrow> string \<Rightarrow> 's \<Rightarrow> bool) \<Rightarrow> string \<Rightarrow> string \<Rightarrow> string \<Rightarrow> ('s, 'a) op \<Rightarrow> 'a \<Rightarrow> 's \<Rightarrow> bool" where
  "read_under_grant granted tenant first_action last_action m v t \<longleftrightarrow>
     granted tenant last_action t \<and>
     (\<exists>u w. granted tenant first_action u \<and> m u = (Inr v, w))"

context current_authorization
begin

lemma admit_all_granted:
  "admit_all require tenant as s = (Inr u, t) \<Longrightarrow> as \<noteq> [] \<Longrightarrow> granted_in tenant (last as) t"
proof (induction as arbitrary: s)
  case (Cons a as)
  from Cons.prems(1) obtain v w where w: "require tenant a s = (Inr v, w)"
    "admit_all require tenant as w = (Inr u, t)"
    unfolding admit_all_Cons by blast
  show ?case
  proof (cases as)
    case Nil
    then show ?thesis using w require_grants by simp
  next
    case (Cons b bs)
    then show ?thesis using Cons.IH [OF w(2)] by simp
  qed
qed simp

lemma read_between_granted:
  assumes "read_between require tenant pre m post s = (Inr v, t)" "pre \<noteq> []" "post v \<noteq> []"
  shows "read_under_grant granted_in tenant (last pre) (last (post v)) m v t"
  using assms admit_all_granted unfolding read_between_returns read_under_grant_def by blast

end

end
