(* ===== verification/Onboarding.thy ===== *)
theory Onboarding
  imports Views Monitoring_Source
begin

text \<open>
  src/apps/g2-monitoring-source-onboarding/onboarding.py: the creation of a monitoring source
  under the current grant of its caller, and the view of its progress. \<open>draw\<close> stands for
  the secrets: one drawn text for each call.
\<close>

section \<open>Requests\<close>

definition manage_action :: string where "manage_action = ''monitoring.source.manage''"
definition source_read :: string where "source_read = ''monitoring.source.read''"
definition sync_read :: string where "sync_read = ''monitoring.sync.read''"

record create_request =
  cr_display_name :: string
  cr_base_url :: string
  cr_credential_binding_ref :: string
  cr_host_group_refs :: "string list"

fun texts_of :: "payload list \<Rightarrow> string list option" where
  "texts_of [] = Some []"
| "texts_of (PText s # vs) = map_option (Cons s) (texts_of vs)"
| "texts_of _ = None"

text \<open>The mapping of a value, when it has exactly the one key.\<close>

definition single_field :: "string \<Rightarrow> payload option \<Rightarrow> payload res" where
  "single_field key v =
     (case v of
        Some (PObj fs) \<Rightarrow>
          (case map_of fs key of
             Some x \<Rightarrow> if fst ` set fs = {key} then Inr x else Inl ValueError
           | None \<Rightarrow> Inl ValueError)
      | _ \<Rightarrow> Inl ValueError)"

definition create_request_fields :: "string set" where
  "create_request_fields =
     {''provider_profile'', ''display_name'', ''provider_configuration'', ''credential_binding_ref'',
      ''configured_provider_scope''}"

definition request_from_mapping :: "(string, payload) dict \<Rightarrow> create_request res" where
  "request_from_mapping p =
     bindR (ensure (fst ` set p = create_request_fields) ValueError) (\<lambda>_.
     bindR (ensure (map_of p ''provider_profile'' = Some (PText ''zabbix'')) ValueError) (\<lambda>_.
     bindR (single_field ''base_url'' (map_of p ''provider_configuration'')) (\<lambda>base_url.
     bindR (single_field ''host_group_refs'' (map_of p ''configured_provider_scope'')) (\<lambda>refs.
     case refs of
       PArr vs \<Rightarrow>
         (case texts_of vs of
            None \<Rightarrow> Inl ValueError
          | Some groups \<Rightarrow>
              (case (map_of p ''display_name'', map_of p ''credential_binding_ref'', base_url) of
                 (Some (PText name), Some (PText binding), PText url) \<Rightarrow>
                   Inr \<lparr>cr_display_name = name, cr_base_url = url,
                        cr_credential_binding_ref = binding, cr_host_group_refs = groups\<rparr>
               | _ \<Rightarrow> Inl ValueError))
     | _ \<Rightarrow> Inl ValueError))))"

section \<open>The view\<close>

record source_snapshot =
  sn_source_id :: string
  sn_sync_operation_id :: string
  sn_evidence_state :: operational_evidence
  sn_sync_state :: sync_state

record onboarding_view =
  ov_source_id :: string
  ov_sync_operation_id :: string
  ov_state :: string
  ov_provider_connection_confirmed :: bool
  ov_can_recheck :: bool

definition onboarding_state :: "operational_evidence \<Rightarrow> sync_state \<Rightarrow> string \<times> bool \<times> bool" where
  "onboarding_state e x =
     (if e = EvidenceCurrent \<and> x = SyncSucceeded then (''current'', True, False)
      else if x \<in> {SyncPending, SyncRunning} then (''validation_pending'', False, False)
      else if e = EvidenceIncomplete then (''incomplete'', False, True)
      else if e = EvidenceUnavailable then (''unavailable'', False, True)
      else (''reconciliation_required'', False, True))"

definition present_snapshot :: "source_snapshot \<Rightarrow> onboarding_view" where
  "present_snapshot n =
     (let (state, confirmed, recheck) = onboarding_state (sn_evidence_state n) (sn_sync_state n)
      in \<lparr>ov_source_id = sn_source_id n, ov_sync_operation_id = sn_sync_operation_id n,
          ov_state = state, ov_provider_connection_confirmed = confirmed, ov_can_recheck = recheck\<rparr>)"

section \<open>Ports and operations\<close>

text \<open>\<open>create_initial\<close> takes the plan, the key, the actor's evidence and a correlation id.\<close>

record 's onboarding =
  on_instance_ref :: "string \<Rightarrow> string \<Rightarrow> ('s, string) op"
  on_create_initial ::
    "source_creation_plan \<Rightarrow> string \<Rightarrow> actor_evidence \<Rightarrow> string \<Rightarrow> ('s, source_snapshot) op"
  on_read_source :: "string \<Rightarrow> string \<Rightarrow> ('s, source_snapshot) op"
  on_make_ready :: "string \<Rightarrow> string \<Rightarrow> ('s, unit) op"

definition drawn_token :: "('s, string) op \<Rightarrow> string \<Rightarrow> ('s, string) op" where
  "drawn_token draw prefix = bindS draw (\<lambda>secret. liftS (opaque_token prefix secret))"

definition plan_with_defaults ::
  "(nat list \<Rightarrow> string) \<Rightarrow> ('s, string) op \<Rightarrow> ('s, datetime) op \<Rightarrow> create_source_command \<Rightarrow>
   ('s, source_creation_plan) op" where
  "plan_with_defaults sha draw now command =
     plan_source_creation sha (drawn_token draw ''mon-src'') (drawn_token draw ''mon-gen'')
       (drawn_token draw ''mon-bind'') (drawn_token draw ''mon-sync'') (drawn_token draw ''mon-audit'')
       now command"

definition command_of ::
  "string \<Rightarrow> create_request \<Rightarrow> string \<Rightarrow> create_source_command res" where
  "command_of tenant q instance_ref =
     bindR (provider_configuration_init \<lparr>pc_base_url = cr_base_url q\<rparr>) (\<lambda>configuration.
     bindR (from_refs (cr_host_group_refs q)) (\<lambda>scope.
     create_source_command_init
       \<lparr>cc_tenant_id = tenant, cc_display_name = cr_display_name q,
        cc_provider_instance_ref = instance_ref, cc_provider_configuration = configuration,
        cc_credential_binding_ref = cr_credential_binding_ref q,
        cc_configured_provider_scope = scope\<rparr>))"

definition create_source ::
  "(nat list \<Rightarrow> string) \<Rightarrow> ('s, string) op \<Rightarrow> ('s, datetime) op \<Rightarrow>
   (string \<Rightarrow> string \<Rightarrow> string \<Rightarrow> ('s, actor_evidence) op) \<Rightarrow> 's onboarding \<Rightarrow> string \<Rightarrow> string \<Rightarrow>
   string \<Rightarrow> (string, payload) dict \<Rightarrow> ('s, onboarding_view) op" where
  "create_source sha draw now req w actor tenant key p =
     thenS (ensureS (canonical_text 256 key) ValueError)
    (bindS (req actor tenant manage_action) (\<lambda>_.
     bindS (liftS (request_from_mapping p)) (\<lambda>q.
     bindS (on_instance_ref w tenant ''zabbix'') (\<lambda>instance_ref.
     bindS (liftS (command_of tenant q instance_ref)) (\<lambda>command.
     bindS (req actor tenant manage_action) (\<lambda>admission.
     bindS (plan_with_defaults sha draw now command) (\<lambda>plan.
     bindS draw (\<lambda>secret.
     bindS (on_create_initial w plan key admission (''g2-request:'' @ secret)) (\<lambda>committed.
     thenS (if sn_sync_state committed = SyncPending
            then on_make_ready w tenant (sn_sync_operation_id committed) else returnS ())
    (returnS (present_snapshot committed)))))))))))"

definition read_onboarding ::
  "(string \<Rightarrow> string \<Rightarrow> string \<Rightarrow> ('s, actor_evidence) op) \<Rightarrow> 's onboarding \<Rightarrow> string \<Rightarrow> string \<Rightarrow>
   string \<Rightarrow> ('s, onboarding_view) op" where
  "read_onboarding req w actor tenant source =
     bindS (req actor tenant source_read) (\<lambda>_.
     bindS (on_read_source w tenant source) (\<lambda>snapshot.
     bindS (req actor tenant source_read) (\<lambda>_.
     bindS (req actor tenant sync_read) (\<lambda>_.
     returnS (present_snapshot snapshot)))))"

section \<open>What a creation promises\<close>

lemma confirmed_iff:
  "ov_provider_connection_confirmed (present_snapshot n) \<longleftrightarrow>
     sn_evidence_state n = EvidenceCurrent \<and> sn_sync_state n = SyncSucceeded"
  by (auto simp: present_snapshot_def onboarding_state_def)

lemma command_of_Inr_iff:
  "command_of tenant q r = Inr c \<longleftrightarrow>
     valid_base_url (cr_base_url q) \<and> valid_provider_scope \<lparr>ps_host_group_refs = cr_host_group_refs q\<rparr> \<and>
     canonical_text 256 tenant \<and> canonical_text 512 (cr_display_name q) \<and> canonical_text 512 r \<and>
     canonical_text 512 (cr_credential_binding_ref q) \<and>
     c = \<lparr>cc_tenant_id = tenant, cc_display_name = cr_display_name q, cc_provider_instance_ref = r,
          cc_provider_configuration = \<lparr>pc_base_url = cr_base_url q\<rparr>,
          cc_credential_binding_ref = cr_credential_binding_ref q,
          cc_configured_provider_scope = \<lparr>ps_host_group_refs = cr_host_group_refs q\<rparr>\<rparr>"
  unfolding command_of_def provider_configuration_init_def from_refs_def create_source_command_init_def
    bindR_Inr_iff construct_Inr_iff by auto

lemma bound_require_granted:
  "require_bound allowed g actor tenant action s = (Inr v, t) \<Longrightarrow> bound_granted_in g tenant action t"
  using require_own_grants [of allowed g tenant action s v t]
  by (auto simp: require_own_def require_bound_returns)

lemma plan_restates_command:
  assumes "plan_source_creation sha f1 f2 f3 f4 f5 now command s = (Inr p, t)"
  shows "ms_tenant_id (sp_source p) = cc_tenant_id command"
    "ms_display_name (sp_source p) = cc_display_name command"
    "ms_credential_binding_ref (sp_source p) = cc_credential_binding_ref command"
    "ms_configured_provider_scope (sp_source p) = cc_configured_provider_scope command"
    "sg_provider_configuration (sp_generation p) = cc_provider_configuration command"
    "sg_provider_instance_ref (sp_generation p) = cc_provider_instance_ref command"
proof -
  from assms obtain created a b c d e where "p = linked_plan sha command created a b c d e"
    unfolding plan_source_creation_def Let_def sequence_returns op_simps prod.inject sum.inject by blast
  then show "ms_tenant_id (sp_source p) = cc_tenant_id command"
    "ms_display_name (sp_source p) = cc_display_name command"
    "ms_credential_binding_ref (sp_source p) = cc_credential_binding_ref command"
    "ms_configured_provider_scope (sp_source p) = cc_configured_provider_scope command"
    "sg_provider_configuration (sp_generation p) = cc_provider_configuration command"
    "sg_provider_instance_ref (sp_generation p) = cc_provider_instance_ref command"
    by (simp_all add: linked_plan_def)
qed

text \<open>C10: a source is created only for what its caller was just granted, and exactly as asked.
  When a creation returns, the key is canonical and the payload has the canonical shape; the
  last thing before the plan was drawn up is that the final authority granted the managing of
  sources of this very tenant to the caller; the record that is created is planned for that
  tenant, with the name, the credential binding, the scope and the address of the payload,
  all of them valid; the evidence that is stored with it names the caller; and the view
  confirms the provider connection only when the committed evidence is current after a
  synchronisation that succeeded.\<close>

theorem source_created_under_grant:
  assumes "create_source sha draw now (require_bound g2_actions g) w actor tenant key p s = (Inr v, t)"
  shows "\<exists>q plan admission committed correlation u u' w1 w2.
    canonical_text 256 key \<and> request_from_mapping p = Inr q \<and>
    bound_granted_in g tenant manage_action u \<and>
    (\<exists>command. plan_with_defaults sha draw now command u = (Inr plan, u')) \<and>
    on_create_initial w plan key admission correlation w1 = (Inr committed, w2) \<and>
    ac_principal_id admission = actor \<and> actor = pr_principal_id (ba_principal g) \<and>
    ms_tenant_id (sp_source plan) = tenant \<and>
    ms_display_name (sp_source plan) = cr_display_name q \<and>
    ms_credential_binding_ref (sp_source plan) = cr_credential_binding_ref q \<and>
    ps_host_group_refs (ms_configured_provider_scope (sp_source plan)) = cr_host_group_refs q \<and>
    pc_base_url (sg_provider_configuration (sp_generation plan)) = cr_base_url q \<and>
    valid_base_url (cr_base_url q) \<and>
    v = present_snapshot committed \<and>
    (ov_provider_connection_confirmed v \<longleftrightarrow>
       sn_evidence_state committed = EvidenceCurrent \<and> sn_sync_state committed = SyncSucceeded)"
proof -
  from assms obtain q r command admission u0 u plan u' secret w1 committed w2 where steps:
    "canonical_text 256 key" "request_from_mapping p = Inr q" "command_of tenant q r = Inr command"
    "plan_with_defaults sha draw now command u = (Inr plan, u')"
    "require_bound g2_actions g actor tenant manage_action u0 = (Inr admission, u)"
    "on_create_initial w plan key admission (''g2-request:'' @ secret) w1 = (Inr committed, w2)"
    "v = present_snapshot committed"
    unfolding create_source_def sequence_returns ensureS_returns_iff liftS_returns_iff
      op_simps prod.inject sum.inject ensure_Inr_iff by blast
  note actor = steps(5) [unfolded require_bound_returns]
  have "ac_principal_id admission = actor"
    using actor admit_tenant_returns unfolding finally_granted_def by (force simp: actor_of_def)
  with steps actor show ?thesis
    using bound_require_granted [OF steps(5)] plan_restates_command [OF steps(4) [unfolded plan_with_defaults_def]]
      confirmed_iff [of committed]
    unfolding command_of_Inr_iff
    by (intro exI [of _ q] exI [of _ plan] exI [of _ admission] exI [of _ committed]
        exI [of _ "''g2-request:'' @ secret"] exI [of _ u] exI [of _ u'] exI [of _ w1] exI [of _ w2]) auto
qed

section \<open>A creation that succeeds\<close>

definition sample_onboarding_payload :: "(string, payload) dict" where
  "sample_onboarding_payload =
     [(''provider_profile'', PText ''zabbix''), (''display_name'', PText ''Main site''),
      (''provider_configuration'', PObj [(''base_url'', PText ''https://z.io'')]),
      (''credential_binding_ref'', PText ''cred-1''),
      (''configured_provider_scope'', PObj [(''host_group_refs'', PArr [PText ''10'', PText ''20''])])]"

definition sample_onboarding :: "unit onboarding" where
  "sample_onboarding =
     \<lparr>on_instance_ref = (\<lambda>_ _. returnS ''zbx-1''),
      on_create_initial = (\<lambda>p _ _ _. returnS
        \<lparr>sn_source_id = ms_monitoring_source_id (sp_source p), sn_sync_operation_id = ''o'',
         sn_evidence_state = EvidenceReconciliation, sn_sync_state = SyncPending\<rparr>),
      on_read_source = (\<lambda>_ _. raiseS OtherError), on_make_ready = (\<lambda>_ _. returnS ())\<rparr>"

lemma sample_onboarding_request:
  "request_from_mapping sample_onboarding_payload =
     Inr \<lparr>cr_display_name = ''Main site'', cr_base_url = ''https://z.io'',
          cr_credential_binding_ref = ''cred-1'', cr_host_group_refs = [''10'', ''20'']\<rparr>"
  by code_simp

lemma sample_url: "valid_base_url ''https://z.io''"
  by code_simp

lemma sample_onboarding_texts:
  "canonical_text 256 ''tenant:dev''" "canonical_text 512 ''Main site''" "canonical_text 512 ''zbx-1''"
  "canonical_text 512 ''cred-1''" "valid_provider_scope \<lparr>ps_host_group_refs = [''10'', ''20'']\<rparr>"
  by code_simp+

lemma sample_onboarding_command:
  "\<exists>c. command_of ''tenant:dev'' \<lparr>cr_display_name = ''Main site'', cr_base_url = ''https://z.io'',
      cr_credential_binding_ref = ''cred-1'', cr_host_group_refs = [''10'', ''20'']\<rparr> ''zbx-1'' = Inr c"
  using sample_url sample_onboarding_texts unfolding command_of_Inr_iff by simp

lemma sample_tokens:
  "drawn_token (returnS ''x'') ''mon-src'' () = (Inr ''mon-src_x'', ())"
  "drawn_token (returnS ''x'') ''mon-gen'' () = (Inr ''mon-gen_x'', ())"
  "drawn_token (returnS ''x'') ''mon-bind'' () = (Inr ''mon-bind_x'', ())"
  "drawn_token (returnS ''x'') ''mon-sync'' () = (Inr ''mon-sync_x'', ())"
  "drawn_token (returnS ''x'') ''mon-audit'' () = (Inr ''mon-audit_x'', ())"
  by code_simp+

lemma sample_plan_made:
  "\<exists>plan. plan_with_defaults (map char_of) (returnS ''x'') (returnS (Aware (At 7))) command () = (Inr plan, ())"
proof -
  have "list_all (canonical_text 512)
      [''mon-src_x'', ''mon-gen_x'', ''mon-bind_x'', ''mon-sync_x'', ''mon-audit_x'']" by code_simp
  then show ?thesis
    by (simp add: plan_with_defaults_def plan_source_creation_def sample_tokens Let_def bindS_apply)
qed

lemma sample_source_created:
  "\<exists>v. create_source (map char_of) (returnS ''x'') (returnS (Aware (At 7)))
     (require_bound g2_actions sample_bound) sample_onboarding ''dev-user-1'' ''tenant:dev'' ''key-1''
     sample_onboarding_payload () = (Inr v, ())"
proof -
  have "canonical_text 256 ''key-1''" by code_simp
  moreover have "require_bound g2_actions sample_bound ''dev-user-1'' ''tenant:dev'' manage_action () =
      (Inr sample_actor, ())"
    by (rule sample_bound_runs; simp add: manage_action_def action_lists)
  moreover obtain command where "command_of ''tenant:dev'' \<lparr>cr_display_name = ''Main site'',
      cr_base_url = ''https://z.io'',
      cr_credential_binding_ref = ''cred-1'', cr_host_group_refs = [''10'', ''20'']\<rparr> ''zbx-1'' = Inr command"
    using sample_onboarding_command by blast
  moreover obtain plan where "plan_with_defaults (map char_of) (returnS ''x'') (returnS (Aware (At 7)))
      command () = (Inr plan, ())"
    using sample_plan_made by blast
  ultimately show ?thesis
    by (simp add: create_source_def sample_onboarding_def sample_onboarding_request bindS_apply)
qed

theorem source_created_under_grant_witness:
  "bound_granted_in sample_bound ''tenant:dev'' manage_action ()"
proof -
  obtain v where "create_source (map char_of) (returnS ''x'') (returnS (Aware (At 7)))
     (require_bound g2_actions sample_bound) sample_onboarding ''dev-user-1'' ''tenant:dev'' ''key-1''
     sample_onboarding_payload () = (Inr v, ())"
    using sample_source_created by blast
  from source_created_under_grant [OF this] show ?thesis by auto
qed

end
