(* ===== verification/Inventory_View.thy ===== *)
theory Inventory_View
  imports Views
begin

text \<open>src/apps/g3-resource-inventory/inventory.py: the list and the detail of monitored hosts.\<close>

section \<open>Records and ports\<close>

record resource_row =
  rr_resource_id :: string
  rr_source_id :: string
  rr_instance_generation :: string
  rr_generation_state :: string
  rr_display_name :: string
  rr_resource_kind :: string
  rr_scope_state :: string
  rr_scope_projection_revision :: int
  rr_scope_evidence_state :: string
  rr_presence_state :: string
  rr_presence_evidence_state :: string
  rr_provider_object_kind :: string
  rr_provider_external_ref :: "string option"
  rr_last_observed_at :: "string option"
  rr_last_confirmed_present_at :: "string option"
  rr_created_at :: string
  rr_updated_at :: string

record 's resource_port =
  rp_list_active :: "string \<Rightarrow> ('s, resource_row list) op"
  rp_get :: "string \<Rightarrow> string \<Rightarrow> ('s, resource_row option) op"

section \<open>Items\<close>

definition acceptable_resource :: "resource_row \<Rightarrow> bool" where
  "acceptable_resource r \<longleftrightarrow>
     rr_resource_kind r = ''host'' \<and> rr_provider_object_kind r = ''zabbix_host'' \<and>
     rr_generation_state r \<in> set generation_states \<and> rr_scope_state r \<in> set scope_states \<and>
     rr_presence_state r \<in> {''present'', ''removed''}"

definition resource_fields :: "resource_row \<Rightarrow> (string \<times> payload) list" where
  "resource_fields r =
     [(''monitoring_resource_id'', PText (rr_resource_id r)),
      (''monitoring_source_id'', PText (rr_source_id r)),
      (''source_instance_generation'', PText (rr_instance_generation r)),
      (''generation_state'', PText (rr_generation_state r)),
      (''display_name'', PText (rr_display_name r)),
      (''resource_kind'', PText (rr_resource_kind r)),
      (''scope_state'', PText (rr_scope_state r)),
      (''scope_projection_revision'', PInt (rr_scope_projection_revision r)),
      (''scope_evidence_state'', PText (rr_scope_evidence_state r)),
      (''presence_state'', PText (rr_presence_state r)),
      (''presence_evidence_state'', PText (rr_presence_evidence_state r)),
      (''last_observed_at'', opt_text (rr_last_observed_at r)),
      (''last_confirmed_present_at'', opt_text (rr_last_confirmed_present_at r)),
      (''created_at'', PText (rr_created_at r)),
      (''updated_at'', PText (rr_updated_at r))]"

definition resource_base :: "resource_row \<Rightarrow> (string \<times> payload) list res" where
  "resource_base r =
     bindR (ensure (acceptable_resource r) RuntimeError) (\<lambda>_. Inr (resource_fields r))"

definition resource_list_item :: "resource_row \<Rightarrow> payload res" where
  "resource_list_item r =
     bindR (ensure (rr_generation_state r = ''active_generation'') RuntimeError) (\<lambda>_.
     bindR (resource_base r) (\<lambda>fs. Inr (PObj fs)))"

definition resource_detail_item :: "resource_row \<Rightarrow> payload res" where
  "resource_detail_item r =
     bindR (resource_base r) (\<lambda>fs.
     Inr (PObj (AList.update ''external_references''
       (PObj [(''provider_object_kind'', PText (rr_provider_object_kind r)),
              (''provider_external_ref'', opt_text (rr_provider_external_ref r))]) fs)))"

section \<open>The operations\<close>

definition list_current_resources ::
  "'s admission \<Rightarrow> 's resource_port \<Rightarrow> string \<Rightarrow> ('s, payload) op" where
  "list_current_resources req p tenant =
     bindS (read_between req tenant [resource_read] (rp_list_active p tenant) (\<lambda>_. [resource_read])) (\<lambda>rows.
     bindS (liftS (mapR resource_list_item rows)) (\<lambda>items.
     returnS (PObj [(''generation_state'', PText ''active_generation''), (''items'', PArr items),
       (''next_cursor'', PNull)])))"

definition get_resource_detail ::
  "'s admission \<Rightarrow> 's resource_port \<Rightarrow> string \<Rightarrow> string \<Rightarrow> ('s, payload option) op" where
  "get_resource_detail req p tenant rid =
     thenS (ensureS (bounded_text 512 rid) ValueError)
    (bindS (read_between req tenant [resource_read] (rp_get p tenant rid) (\<lambda>_. [resource_read])) (\<lambda>row.
     case row of
       None \<Rightarrow> returnS None
     | Some r \<Rightarrow> bindS (liftS (resource_detail_item r)) (\<lambda>item. returnS (Some item))))"

section \<open>What the view returns\<close>

lemma resource_base_Inr_iff:
  "resource_base r = Inr fs \<longleftrightarrow> acceptable_resource r \<and> fs = resource_fields r"
  by (auto simp: resource_base_def bindR_Inr_iff ensure_Inr_iff)

lemma resource_list_item_Inr_iff:
  "resource_list_item r = Inr v \<longleftrightarrow>
     rr_generation_state r = ''active_generation'' \<and> acceptable_resource r \<and>
     v = PObj (resource_fields r)"
  by (auto simp: resource_list_item_def resource_base_Inr_iff bindR_Inr_iff ensure_Inr_iff)

lemma resource_list_items_Inr_iff:
  "mapR resource_list_item rows = Inr items \<longleftrightarrow>
     (\<forall>r \<in> set rows. rr_generation_state r = ''active_generation'' \<and> acceptable_resource r) \<and>
     items = map (PObj \<circ> resource_fields) rows"
  by (induction rows arbitrary: items) (auto simp: bindR_Inr_iff resource_list_item_Inr_iff)

lemma list_current_resources_returns:
  "list_current_resources req p tenant s = (Inr v, t) \<longleftrightarrow>
     (\<exists>rows. read_between req tenant [resource_read] (rp_list_active p tenant) (\<lambda>_. [resource_read]) s =
         (Inr rows, t) \<and>
       (\<forall>r \<in> set rows. rr_generation_state r = ''active_generation'' \<and> acceptable_resource r) \<and>
       v = PObj [(''generation_state'', PText ''active_generation''),
                 (''items'', PArr (map (PObj \<circ> resource_fields) rows)), (''next_cursor'', PNull)])"
  unfolding list_current_resources_def bindS_returns_iff liftS_returns_iff
    resource_list_items_Inr_iff by (auto simp: returnS_def)

text \<open>The inventory shows exactly the active hosts of the tenant, under a current grant.
  When the list is returned, the repository was asked for the active resources of this very
  tenant in a state in which the final authority had just granted the reading of resources
  to the principal of the request, and the same grant was given again last of all; every
  row is a host of the active generation with a Zabbix reference; and the items restate the
  rows one by one, in their order.\<close>

theorem inventory_lists_active_hosts:
  assumes "list_current_resources (require_own g3_actions g) p tenant s = (Inr v, t)"
  shows "\<exists>rows. read_under_grant (bound_granted_in g) tenant resource_read resource_read
      (rp_list_active p tenant) rows t \<and>
    (\<forall>r \<in> set rows. rr_generation_state r = ''active_generation'' \<and> rr_resource_kind r = ''host'' \<and>
       rr_provider_object_kind r = ''zabbix_host'') \<and>
    field ''items'' v = Some (PArr (map (PObj \<circ> resource_fields) rows))"
proof -
  from assms obtain rows where rows: "read_between (require_own g3_actions g) tenant [resource_read]
      (rp_list_active p tenant) (\<lambda>_. [resource_read]) s = (Inr rows, t)"
    "\<forall>r \<in> set rows. rr_generation_state r = ''active_generation'' \<and> acceptable_resource r"
    "v = PObj [(''generation_state'', PText ''active_generation''),
      (''items'', PArr (map (PObj \<circ> resource_fields) rows)), (''next_cursor'', PNull)]"
    unfolding list_current_resources_returns by blast
  then show ?thesis
    using bound.read_between_granted [OF rows(1)] by (auto simp: acceptable_resource_def)
qed

definition sample_resource :: resource_row where
  "sample_resource =
     \<lparr>rr_resource_id = ''r1'', rr_source_id = ''s1'', rr_instance_generation = ''g1'',
      rr_generation_state = ''active_generation'', rr_display_name = ''web'',
      rr_resource_kind = ''host'', rr_scope_state = ''in_scope'', rr_scope_projection_revision = 3,
      rr_scope_evidence_state = ''current'', rr_presence_state = ''present'',
      rr_presence_evidence_state = ''current'', rr_provider_object_kind = ''zabbix_host'',
      rr_provider_external_ref = Some ''10084'', rr_last_observed_at = None,
      rr_last_confirmed_present_at = None, rr_created_at = ''c'', rr_updated_at = ''u''\<rparr>"

definition sample_resource_port :: "unit resource_port" where
  "sample_resource_port =
     \<lparr>rp_list_active = (\<lambda>_. returnS [sample_resource]), rp_get = (\<lambda>_ _. returnS (Some sample_resource))\<rparr>"

lemma sample_inventory_runs:
  "list_current_resources (require_own g3_actions sample_bound) sample_resource_port ''tenant:dev'' () =
     (Inr (PObj [(''generation_state'', PText ''active_generation''),
        (''items'', PArr [PObj (resource_fields sample_resource)]), (''next_cursor'', PNull)]), ())"
proof -
  have "acceptable_resource sample_resource" by code_simp
  then have "resource_list_item sample_resource = Inr (PObj (resource_fields sample_resource))"
    by (simp add: resource_list_item_Inr_iff sample_resource_def)
  then show ?thesis
    using sample_require_own [of resource_read g3_actions]
    by (simp add: list_current_resources_def read_between_def sample_resource_port_def bindS_apply
        resource_read_def action_lists)
qed

theorem inventory_lists_active_hosts_witness:
  "bound_granted_in sample_bound ''tenant:dev'' resource_read ()"
  using inventory_lists_active_hosts [OF sample_inventory_runs] by (auto simp: read_under_grant_def)

end
