(* ===== verification/Metrics_View.thy ===== *)
theory Metrics_View
  imports Views
begin

text \<open>
  src/apps/g4-metrics/metrics.py: definitions, current values and histories of metrics. The
  parameter \<open>isof\<close> is \<open>datetime.fromisoformat\<close> followed by \<open>astimezone\<close>: the instant, a
  naive time or the exception.
\<close>

section \<open>Records and ports\<close>

definition value_kinds :: "string list" where
  "value_kinds = [''number'', ''integer'', ''boolean'', ''string'', ''text'', ''log'']"

record metric_definition_row =
  md_definition_id :: string
  md_resource_id :: string
  md_source_id :: string
  md_instance_generation :: string
  md_generation_state :: string
  md_name :: string
  md_value_kind :: string
  md_unit :: string
  md_scope_state :: string
  md_scope_projection_revision :: int
  md_scope_evidence_state :: string
  md_definition_state :: string
  md_provider_object_kind :: "string option"
  md_provider_external_ref :: "string option"

text \<open>\<open>projection_revision: int | str\<close> and \<open>value: object | None\<close> are payloads; \<open>None\<close> is \<open>PNull\<close>.\<close>

record metric_current_row =
  mc_definition_id :: string
  mc_resource_id :: string
  mc_source_id :: string
  mc_instance_generation :: string
  mc_generation_state :: string
  mc_scope_state :: string
  mc_scope_evidence_state :: string
  mc_current_observation_id :: "string option"
  mc_observed_at :: "string option"
  mc_accepted_at :: "string option"
  mc_value_kind :: string
  mc_value :: payload
  mc_evidence_state :: string
  mc_projection_revision :: payload
  mc_last_changed_at :: "string option"

record metric_observation_row =
  mo_observation_id :: string
  mo_definition_id :: string
  mo_resource_id :: string
  mo_source_id :: string
  mo_instance_generation :: string
  mo_observed_at :: string
  mo_accepted_at :: string
  mo_value_kind :: string
  mo_value :: payload

record history_coverage =
  hc_state :: string
  hc_covered_through :: "string option"
  hc_gap_refs :: "string list"

record history_read =
  hr_definition :: metric_definition_row
  hr_coverage :: history_coverage
  hr_observations :: "metric_observation_row list"
  hr_next_cursor :: "string option"

record 's metrics_port =
  mp_list_definitions ::
    "string \<Rightarrow> string \<Rightarrow> string option \<Rightarrow> int \<Rightarrow> ('s, metric_definition_row list \<times> string option) op"
  mp_get_definition :: "string \<Rightarrow> string \<Rightarrow> ('s, metric_definition_row option) op"
  mp_list_current ::
    "string \<Rightarrow> string \<Rightarrow> string option \<Rightarrow> int \<Rightarrow> ('s, metric_current_row list \<times> string option) op"
  mp_get_current :: "string \<Rightarrow> string \<Rightarrow> ('s, metric_current_row option) op"
  mp_history ::
    "string \<Rightarrow> string \<Rightarrow> string \<Rightarrow> string \<Rightarrow> string option \<Rightarrow> int \<Rightarrow> ('s, history_read option) op"

section \<open>Values and times\<close>

definition max_canonical_value_bytes :: nat where "max_canonical_value_bytes = 131072"

definition bounded_value :: "payload \<Rightarrow> payload res" where
  "bounded_value v =
     (if v = PNull then Inr PNull
      else if max_canonical_value_bytes < payload_bytes v then Inl RuntimeError else Inr v)"

definition replace_z :: "string \<Rightarrow> string" where
  "replace_z s = concat (map (\<lambda>c. if c = CHR ''Z'' then ''+00:00'' else [c]) s)"

definition parse_utc :: "(string \<Rightarrow> datetime res) \<Rightarrow> string \<Rightarrow> instant res" where
  "parse_utc isof s =
     bindR (ensure (bounded_text 64 s) ValueError) (\<lambda>_.
     bindR (isof (replace_z s)) aware)"

definition max_history_window :: int where "max_history_window = 86400 * 1000000"

section \<open>Items\<close>

definition definition_acceptable :: "metric_definition_row \<Rightarrow> bool" where
  "definition_acceptable r \<longleftrightarrow>
     md_generation_state r \<in> set generation_states \<and> md_value_kind r \<in> set value_kinds \<and>
     md_scope_state r \<in> set scope_states \<and> md_scope_evidence_state r \<in> set scope_evidence_states \<and>
     md_definition_state r \<in> {''active'', ''retired''}"

definition definition_item :: "bool \<Rightarrow> metric_definition_row \<Rightarrow> payload res" where
  "definition_item detail r =
     bindR (ensure (definition_acceptable r) RuntimeError) (\<lambda>_.
     let fs =
       [(''metric_definition_id'', PText (md_definition_id r)),
        (''monitoring_resource_id'', PText (md_resource_id r)),
        (''monitoring_source_id'', PText (md_source_id r)),
        (''source_instance_generation'', PText (md_instance_generation r)),
        (''generation_state'', PText (md_generation_state r)),
        (''name'', PText (md_name r)),
        (''value_kind'', PText (md_value_kind r)),
        (''unit'', if md_unit r = [] then PNull else PText (md_unit r)),
        (''scope_state'', PText (md_scope_state r)),
        (''scope_projection_revision'', PInt (md_scope_projection_revision r)),
        (''scope_evidence_state'', PText (md_scope_evidence_state r)),
        (''definition_state'', PText (md_definition_state r))]
     in Inr (PObj (if detail then AList.update ''external_references''
          (PObj [(''provider_object_kind'', opt_text (md_provider_object_kind r)),
                 (''provider_external_ref'', opt_text (md_provider_external_ref r))]) fs
        else fs)))"

text \<open>The evidence that is shown for a current value: the stored one, weakened.\<close>

definition shown_metric_evidence :: "metric_current_row \<Rightarrow> string" where
  "shown_metric_evidence r =
     (let stored = mc_evidence_state r;
          e = (if mc_generation_state r = ''historical_generation'' \<and> stored = ''current''
               then ''stale'' else stored)
      in if mc_scope_state r \<noteq> ''in_scope'' \<or> mc_scope_evidence_state r \<noteq> ''current''
         then (if e = ''current'' then ''reconciliation_required'' else e) else e)"

definition current_acceptable :: "metric_current_row \<Rightarrow> bool" where
  "current_acceptable r \<longleftrightarrow>
     mc_generation_state r \<in> set generation_states \<and> mc_value_kind r \<in> set value_kinds \<and>
     mc_evidence_state r \<in> set evidence_states"

definition current_item :: "metric_current_row \<Rightarrow> payload res" where
  "current_item r =
     bindR (ensure (current_acceptable r) RuntimeError) (\<lambda>_.
     bindR (bounded_value (mc_value r)) (\<lambda>v. Inr (PObj
       [(''metric_definition_id'', PText (mc_definition_id r)),
        (''monitoring_resource_id'', PText (mc_resource_id r)),
        (''monitoring_source_id'', PText (mc_source_id r)),
        (''source_instance_generation'', PText (mc_instance_generation r)),
        (''generation_state'', PText (mc_generation_state r)),
        (''scope_state'', PText (mc_scope_state r)),
        (''scope_evidence_state'', PText (mc_scope_evidence_state r)),
        (''current_observation_id'', opt_text (mc_current_observation_id r)),
        (''observed_at'', opt_text (mc_observed_at r)),
        (''accepted_at'', opt_text (mc_accepted_at r)),
        (''value_kind'', PText (mc_value_kind r)),
        (''value'', v),
        (''evidence_state'', PText (shown_metric_evidence r)),
        (''projection_revision'', mc_projection_revision r),
        (''last_changed_at'', opt_text (mc_last_changed_at r))])))"

definition observation_item :: "metric_observation_row \<Rightarrow> payload res" where
  "observation_item r =
     bindR (ensure (mo_value_kind r \<in> set value_kinds) RuntimeError) (\<lambda>_.
     bindR (bounded_value (mo_value r)) (\<lambda>v. Inr (PObj
       [(''observation_id'', PText (mo_observation_id r)),
        (''metric_definition_id'', PText (mo_definition_id r)),
        (''monitoring_resource_id'', PText (mo_resource_id r)),
        (''monitoring_source_id'', PText (mo_source_id r)),
        (''source_instance_generation'', PText (mo_instance_generation r)),
        (''observed_at'', PText (mo_observed_at r)),
        (''accepted_at'', PText (mo_accepted_at r)),
        (''value_kind'', PText (mo_value_kind r)),
        (''value'', v)])))"

section \<open>The operations\<close>

definition page_request :: "string \<Rightarrow> string option \<Rightarrow> int \<Rightarrow> unit res" where
  "page_request i cursor limit =
     bindR (ensure (bounded_text 512 i) ValueError) (\<lambda>_.
     bindR (validate_cursor cursor) (\<lambda>_. validate_limit limit))"

definition list_definitions ::
  "'s admission \<Rightarrow> 's metrics_port \<Rightarrow> string \<Rightarrow> string \<Rightarrow> string option \<Rightarrow> int \<Rightarrow> ('s, payload) op" where
  "list_definitions req p tenant rid cursor limit =
     thenS (liftS (page_request rid cursor limit))
    (bindS (read_between req tenant [resource_read, metric_read]
              (mp_list_definitions p tenant rid cursor limit) (\<lambda>_. [resource_read, metric_read])) (\<lambda>page.
     liftS (present_page (definition_item False) limit page)))"

definition list_current_metrics ::
  "'s admission \<Rightarrow> 's metrics_port \<Rightarrow> string \<Rightarrow> string \<Rightarrow> string option \<Rightarrow> int \<Rightarrow> ('s, payload) op" where
  "list_current_metrics req p tenant rid cursor limit =
     thenS (liftS (page_request rid cursor limit))
    (bindS (read_between req tenant [resource_read, metric_read]
              (mp_list_current p tenant rid cursor limit) (\<lambda>_. [resource_read, metric_read])) (\<lambda>page.
     liftS (present_page current_item limit page)))"

text \<open>After a read: the metric alone when nothing was found, else the resource and the metric.\<close>

definition grants_after :: "'a option \<Rightarrow> string list" where
  "grants_after row = (case row of None \<Rightarrow> [metric_read] | Some _ \<Rightarrow> [resource_read, metric_read])"

definition get_one ::
  "'s admission \<Rightarrow> string \<Rightarrow> string \<Rightarrow> ('s, 'r option) op \<Rightarrow> ('r \<Rightarrow> payload res) \<Rightarrow> ('s, payload option) op" where
  "get_one req tenant i m item =
     thenS (ensureS (bounded_text 512 i) ValueError)
    (bindS (read_between req tenant [metric_read] m grants_after) (\<lambda>row.
     case row of None \<Rightarrow> returnS None | Some r \<Rightarrow> bindS (liftS (item r)) (\<lambda>v. returnS (Some v))))"

definition get_metric_definition ::
  "'s admission \<Rightarrow> 's metrics_port \<Rightarrow> string \<Rightarrow> string \<Rightarrow> ('s, payload option) op" where
  "get_metric_definition req p tenant i =
     get_one req tenant i (mp_get_definition p tenant i) (definition_item True)"

definition get_current_metric ::
  "'s admission \<Rightarrow> 's metrics_port \<Rightarrow> string \<Rightarrow> string \<Rightarrow> ('s, payload option) op" where
  "get_current_metric req p tenant i =
     get_one req tenant i (mp_get_current p tenant i) current_item"

definition history_states :: "string list" where
  "history_states = [''complete'', ''incomplete'', ''gap_detected'', ''reconciliation_required'']"

definition history_window ::
  "(string \<Rightarrow> datetime res) \<Rightarrow> string \<Rightarrow> string \<Rightarrow> (instant \<times> instant) res" where
  "history_window isof from_ts to_ts =
     bindR (parse_utc isof from_ts) (\<lambda>first. bindR (parse_utc isof to_ts) (\<lambda>until.
     bindR (ensure (first < until) ValueError) (\<lambda>_.
     bindR (ensure (micros until - micros first \<le> max_history_window) ValueError) (\<lambda>_.
     Inr (first, until)))))"

definition check_coverage :: "(string \<Rightarrow> datetime res) \<Rightarrow> history_coverage \<Rightarrow> instant \<Rightarrow> unit res" where
  "check_coverage isof c until =
     bindR (ensure (hc_state c \<in> set history_states) RuntimeError) (\<lambda>_.
     if hc_state c = ''complete''
     then (case hc_covered_through c of
             None \<Rightarrow> Inl RuntimeError
           | Some x \<Rightarrow> bindR (parse_utc isof x) (\<lambda>covered. ensure (until \<le> covered) RuntimeError))
     else Inr ())"

definition check_attribution :: "string \<Rightarrow> history_read \<Rightarrow> unit res" where
  "check_attribution i h =
     ensure (\<forall>r \<in> set (hr_observations h). mo_definition_id r = i \<and>
       mo_instance_generation r = md_instance_generation (hr_definition h)) RuntimeError"

definition history_response ::
  "(string \<Rightarrow> datetime res) \<Rightarrow> string \<Rightarrow> string \<Rightarrow> string \<Rightarrow> int \<Rightarrow> instant \<Rightarrow> history_read \<Rightarrow> payload res" where
  "history_response isof i from_ts to_ts limit until h =
     bindR (ensure (md_generation_state (hr_definition h) \<in> set generation_states) RuntimeError) (\<lambda>_.
     bindR (check_coverage isof (hr_coverage h) until) (\<lambda>_.
     bindR (ensure (int (length (hr_observations h)) \<le> limit) RuntimeError) (\<lambda>_.
     bindR (check_attribution i h) (\<lambda>_.
     bindR (mapR observation_item (hr_observations h)) (\<lambda>items.
     bounded_response (PObj
       [(''metric_definition_id'', PText i),
        (''source_instance_generation'', PText (md_instance_generation (hr_definition h))),
        (''generation_state'', PText (md_generation_state (hr_definition h))),
        (''window'', PObj [(''from'', PText from_ts), (''to'', PText to_ts)]),
        (''completeness'', PObj
          [(''state'', PText (hc_state (hr_coverage h))),
           (''covered_through'', opt_text (hc_covered_through (hr_coverage h))),
           (''gap_refs'', PArr (map PText (hc_gap_refs (hr_coverage h))))]),
        (''items'', PArr items),
        (''next_cursor'', opt_text (hr_next_cursor h))]))))))"

definition metric_history ::
  "'s admission \<Rightarrow> 's metrics_port \<Rightarrow> (string \<Rightarrow> datetime res) \<Rightarrow> string \<Rightarrow> string \<Rightarrow> string \<Rightarrow> string \<Rightarrow>
   string option \<Rightarrow> int \<Rightarrow> ('s, payload option) op" where
  "metric_history req p isof tenant i from_ts to_ts cursor limit =
     thenS (liftS (page_request i cursor limit))
    (bindS (liftS (history_window isof from_ts to_ts)) (\<lambda>(first, until).
     bindS (read_between req tenant [metric_read]
              (mp_history p tenant i from_ts to_ts cursor limit) grants_after) (\<lambda>found.
     case found of
       None \<Rightarrow> returnS None
     | Some h \<Rightarrow> bindS (liftS (history_response isof i from_ts to_ts limit until h)) (\<lambda>v.
         returnS (Some v)))))"

section \<open>What the views return\<close>

lemma bounded_value_Inr_iff:
  "bounded_value v = Inr w \<longleftrightarrow> w = v \<and> (v = PNull \<or> payload_bytes v \<le> max_canonical_value_bytes)"
  by (auto simp: bounded_value_def)

lemma shown_metric_current_iff:
  "shown_metric_evidence r = ''current'' \<longleftrightarrow>
     mc_evidence_state r = ''current'' \<and> mc_generation_state r \<noteq> ''historical_generation'' \<and>
     mc_scope_state r = ''in_scope'' \<and> mc_scope_evidence_state r = ''current''"
  by (auto simp: shown_metric_evidence_def Let_def)

lemma shown_metric_weakens:
  "shown_metric_evidence r = mc_evidence_state r \<or>
   mc_evidence_state r = ''current'' \<and> shown_metric_evidence r \<in> {''stale'', ''reconciliation_required''}"
  by (auto simp: shown_metric_evidence_def Let_def)

text \<open>A presented value restates its row, with evidence that is never stronger.\<close>

definition restates_current :: "metric_current_row \<Rightarrow> payload \<Rightarrow> bool" where
  "restates_current r i \<longleftrightarrow>
     field ''metric_definition_id'' i = Some (PText (mc_definition_id r)) \<and>
     field ''source_instance_generation'' i = Some (PText (mc_instance_generation r)) \<and>
     field ''value'' i = Some (mc_value r) \<and>
     (\<exists>e. field ''evidence_state'' i = Some (PText e) \<and>
        (e = ''current'' \<longleftrightarrow>
           mc_evidence_state r = ''current'' \<and> mc_generation_state r = ''active_generation'' \<and>
           mc_scope_state r = ''in_scope'' \<and> mc_scope_evidence_state r = ''current'') \<and>
        (e = mc_evidence_state r \<or> mc_evidence_state r = ''current''))"

lemma current_item_restates:
  assumes "current_item r = Inr i"
  shows "restates_current r i"
proof -
  have fields: "field ''metric_definition_id'' i = Some (PText (mc_definition_id r))"
    "field ''source_instance_generation'' i = Some (PText (mc_instance_generation r))"
    "field ''value'' i = Some (mc_value r)"
    "field ''evidence_state'' i = Some (PText (shown_metric_evidence r))"
    using assms unfolding current_item_def bindR_Inr_iff bounded_value_Inr_iff by auto
  have "mc_generation_state r \<in> set generation_states"
    using assms unfolding current_item_def bindR_Inr_iff ensure_Inr_iff current_acceptable_def by blast
  then show ?thesis
    unfolding restates_current_def
    by (intro conjI exI [of _ "shown_metric_evidence r"] fields)
      (simp_all only: shown_metric_current_iff active_unless_historical, use shown_metric_weakens in blast)
qed

text \<open>C11: current values are shown under current grants and never overstated. When the list of
  a resource is returned, the repository was read for this tenant and resource in a state in
  which the final authority had just granted the reading of metrics to the principal of the
  request, and the same was granted again last of all; it holds at most as many items as the
  limit allows, in at most a MiB; and every item restates its row, where the evidence says
  current exactly if the stored evidence does, the generation is the active one, the metric
  is in scope and the scope itself is current, and otherwise is the stored evidence or a
  weaker one.\<close>

theorem current_metrics_not_overstated:
  assumes "list_current_metrics (require_own g4_actions g) p tenant rid cursor limit s = (Inr v, t)"
  shows "\<exists>rows next_page items.
    read_under_grant (bound_granted_in g) tenant metric_read metric_read
      (mp_list_current p tenant rid cursor limit) (rows, next_page) t \<and>
    int (length rows) \<le> limit \<and> limit \<le> 500 \<and> payload_bytes v \<le> max_response_bytes \<and>
    field ''items'' v = Some (PArr items) \<and> list_all2 restates_current rows items"
proof -
  from assms obtain page s' where page: "page_request rid cursor limit = Inr ()"
    "read_between (require_own g4_actions g) tenant [resource_read, metric_read]
       (mp_list_current p tenant rid cursor limit) (\<lambda>_. [resource_read, metric_read]) s' = (Inr page, t)"
    "present_page current_item limit page = Inr v"
    unfolding list_current_metrics_def sequence_returns liftS_returns_iff by blast
  from page(3) obtain items where items: "int (length (fst page)) \<le> limit"
    "list_all2 (\<lambda>r i. current_item r = Inr i) (fst page) items"
    "v = PObj [(''items'', PArr items), (''next_cursor'', opt_text (snd page))]"
    "payload_bytes v \<le> max_response_bytes"
    unfolding present_page_Inr_iff by blast
  have "limit \<le> 500"
    using page(1) by (simp add: page_request_def validate_limit_def bindR_Inr_iff ensure_Inr_iff)
  moreover have "list_all2 restates_current (fst page) items"
    using items(2) by (rule list_all2_mono) (rule current_item_restates)
  ultimately show ?thesis
    using bound.read_between_granted [OF page(2)] items by (cases page) auto
qed

lemma check_coverage_Inr_iff:
  "check_coverage isof c until = Inr u \<longleftrightarrow>
     hc_state c \<in> set history_states \<and>
     (hc_state c = ''complete'' \<longrightarrow>
        (\<exists>x covered. hc_covered_through c = Some x \<and> parse_utc isof x = Inr covered \<and> until \<le> covered))"
  by (auto simp: check_coverage_def bindR_Inr_iff ensure_Inr_iff split: option.splits)

lemma history_response_Inr_iff:
  "history_response isof i from_ts to_ts limit until h = Inr v \<longleftrightarrow>
     (\<exists>items. md_generation_state (hr_definition h) \<in> set generation_states \<and>
        check_coverage isof (hr_coverage h) until = Inr () \<and>
        int (length (hr_observations h)) \<le> limit \<and> check_attribution i h = Inr () \<and>
        list_all2 (\<lambda>r i. observation_item r = Inr i) (hr_observations h) items \<and>
        payload_bytes v \<le> max_response_bytes \<and>
        v = PObj
          [(''metric_definition_id'', PText i),
           (''source_instance_generation'', PText (md_instance_generation (hr_definition h))),
           (''generation_state'', PText (md_generation_state (hr_definition h))),
           (''window'', PObj [(''from'', PText from_ts), (''to'', PText to_ts)]),
           (''completeness'', PObj
             [(''state'', PText (hc_state (hr_coverage h))),
              (''covered_through'', opt_text (hc_covered_through (hr_coverage h))),
              (''gap_refs'', PArr (map PText (hc_gap_refs (hr_coverage h))))]),
           (''items'', PArr items),
           (''next_cursor'', opt_text (hr_next_cursor h))])"
  unfolding history_response_def bindR_Inr_iff ensure_Inr_iff mapR_Inr_iff bounded_response_Inr_iff
  by auto

lemma history_window_Inr_iff:
  "history_window isof a b = Inr (x, y) \<longleftrightarrow>
     parse_utc isof a = Inr x \<and> parse_utc isof b = Inr y \<and> x < y \<and>
     micros y - micros x \<le> max_history_window"
  unfolding history_window_def bindR_Inr_iff ensure_Inr_iff by auto

definition restates_observation :: "metric_observation_row \<Rightarrow> payload \<Rightarrow> bool" where
  "restates_observation r i \<longleftrightarrow>
     field ''observation_id'' i = Some (PText (mo_observation_id r)) \<and>
     field ''metric_definition_id'' i = Some (PText (mo_definition_id r)) \<and>
     field ''source_instance_generation'' i = Some (PText (mo_instance_generation r)) \<and>
     field ''observed_at'' i = Some (PText (mo_observed_at r)) \<and>
     field ''value'' i = Some (mo_value r)"

lemma observation_item_restates: "observation_item r = Inr i \<Longrightarrow> restates_observation r i"
  unfolding observation_item_def bindR_Inr_iff ensure_Inr_iff bounded_value_Inr_iff restates_observation_def
  by auto

text \<open>A history is that of one metric in one generation, and it is called complete only if
  it covers the window. When a history is returned, the window is not empty and at most a
  day long; the repository was read under a grant on metrics and the response is handed out
  under another one; every observation is of the requested metric and of the generation of
  its definition, and the items restate the observations one by one; and when the state is
  complete, the evidence covers the window up to its end.\<close>

theorem history_attributed_and_covered:
  assumes "metric_history (require_own g4_actions g) p isof tenant i from_ts to_ts cursor limit s =
    (Inr (Some v), t)"
  shows "\<exists>first until h items.
    history_window isof from_ts to_ts = Inr (first, until) \<and> first < until \<and>
    micros until - micros first \<le> 86400 * 1000000 \<and>
    read_under_grant (bound_granted_in g) tenant metric_read metric_read
      (mp_history p tenant i from_ts to_ts cursor limit) (Some h) t \<and>
    (\<forall>r \<in> set (hr_observations h). mo_definition_id r = i \<and>
       mo_instance_generation r = md_instance_generation (hr_definition h)) \<and>
    field ''items'' v = Some (PArr items) \<and>
    list_all2 restates_observation (hr_observations h) items \<and>
    int (length items) \<le> limit \<and> payload_bytes v \<le> max_response_bytes \<and>
    (\<exists>c. field ''completeness'' v = Some c \<and> field ''state'' c = Some (PText (hc_state (hr_coverage h)))) \<and>
    (hc_state (hr_coverage h) = ''complete'' \<longrightarrow>
       (\<exists>x covered. hc_covered_through (hr_coverage h) = Some x \<and>
          parse_utc isof x = Inr covered \<and> until \<le> covered))"
proof -
  from assms obtain first until found s' where w: "history_window isof from_ts to_ts = Inr (first, until)"
    and found: "read_between (require_own g4_actions g) tenant [metric_read]
      (mp_history p tenant i from_ts to_ts cursor limit) grants_after s' = (Inr found, t)"
    "\<exists>h. found = Some h \<and> history_response isof i from_ts to_ts limit until h = Inr v"
    unfolding metric_history_def sequence_returns liftS_returns_iff
    by (auto simp: bindS_returns_iff split: option.splits)
  then obtain h where h: "found = Some h" "history_response isof i from_ts to_ts limit until h = Inr v"
    by blast
  from h(2) obtain items where items: "check_coverage isof (hr_coverage h) until = Inr ()"
    "int (length (hr_observations h)) \<le> limit" "check_attribution i h = Inr ()"
    "list_all2 (\<lambda>r i. observation_item r = Inr i) (hr_observations h) items"
    "payload_bytes v \<le> max_response_bytes"
    "field ''items'' v = Some (PArr items)" "\<exists>c. field ''completeness'' v = Some c \<and>
       field ''state'' c = Some (PText (hc_state (hr_coverage h)))"
    unfolding history_response_Inr_iff by auto
  have "list_all2 restates_observation (hr_observations h) items"
    using items(4) by (rule list_all2_mono) (rule observation_item_restates)
  then show ?thesis
    using w items h(1) bound.read_between_granted [OF found(1)]
    by (auto simp: history_window_Inr_iff check_coverage_Inr_iff check_attribution_def ensure_Inr_iff
        max_history_window_def grants_after_def list_all2_lengthD)
qed

section \<open>A request that succeeds\<close>

definition sample_metric :: metric_current_row where
  "sample_metric =
     \<lparr>mc_definition_id = ''m1'', mc_resource_id = ''r1'', mc_source_id = ''s1'',
      mc_instance_generation = ''g1'', mc_generation_state = ''active_generation'',
      mc_scope_state = ''in_scope'', mc_scope_evidence_state = ''current'',
      mc_current_observation_id = Some ''o1'', mc_observed_at = Some ''t'', mc_accepted_at = Some ''t'',
      mc_value_kind = ''integer'', mc_value = PInt 42, mc_evidence_state = ''current'',
      mc_projection_revision = PInt 7, mc_last_changed_at = None\<rparr>"

definition sample_definition :: metric_definition_row where
  "sample_definition =
     \<lparr>md_definition_id = ''m1'', md_resource_id = ''r1'', md_source_id = ''s1'',
      md_instance_generation = ''g1'', md_generation_state = ''active_generation'', md_name = ''load'',
      md_value_kind = ''integer'', md_unit = [], md_scope_state = ''in_scope'',
      md_scope_projection_revision = 1, md_scope_evidence_state = ''current'',
      md_definition_state = ''active'', md_provider_object_kind = None,
      md_provider_external_ref = None\<rparr>"

definition sample_observation :: metric_observation_row where
  "sample_observation =
     \<lparr>mo_observation_id = ''o1'', mo_definition_id = ''m1'', mo_resource_id = ''r1'',
      mo_source_id = ''s1'', mo_instance_generation = ''g1'', mo_observed_at = ''t'',
      mo_accepted_at = ''t'', mo_value_kind = ''integer'', mo_value = PInt 42\<rparr>"

definition sample_history :: history_read where
  "sample_history =
     \<lparr>hr_definition = sample_definition,
      hr_coverage = \<lparr>hc_state = ''complete'', hc_covered_through = Some ''b'', hc_gap_refs = []\<rparr>,
      hr_observations = [sample_observation], hr_next_cursor = None\<rparr>"

definition sample_metrics_port :: "unit metrics_port" where
  "sample_metrics_port =
     \<lparr>mp_list_definitions = (\<lambda>_ _ _ _. returnS ([sample_definition], None)),
      mp_get_definition = (\<lambda>_ _. returnS (Some sample_definition)),
      mp_list_current = (\<lambda>_ _ _ _. returnS ([sample_metric], None)),
      mp_get_current = (\<lambda>_ _. returnS (Some sample_metric)),
      mp_history = (\<lambda>_ _ _ _ _ _. returnS (Some sample_history))\<rparr>"

definition sample_iso :: "string \<Rightarrow> datetime res" where
  "sample_iso s = (if s = ''a'' then Inr (Aware (At 0)) else if s = ''b'' then Inr (Aware (At 9)) else Inl ValueError)"

lemma sample_metric_grants:
  "require_own g4_actions sample_bound ''tenant:dev'' resource_read () = (Inr sample_actor, ())"
  "require_own g4_actions sample_bound ''tenant:dev'' metric_read () = (Inr sample_actor, ())"
  by (rule sample_require_own; simp add: resource_read_def metric_read_def action_lists)+

lemma sample_metric_reads:
  "read_between (require_own g4_actions sample_bound) ''tenant:dev'' [resource_read, metric_read]
     (returnS v) (\<lambda>_. [resource_read, metric_read]) () = (Inr v, ())"
  "read_between (require_own g4_actions sample_bound) ''tenant:dev'' [metric_read]
     (returnS (Some x)) grants_after () = (Inr (Some x), ())"
  using sample_metric_grants by (simp_all add: read_between_def bindS_apply grants_after_def)

lemma bounded_value_small: "2 * weight v \<le> 131072 \<Longrightarrow> bounded_value v = Inr v"
  using payload_bytes_weight [of v] by (auto simp: bounded_value_def max_canonical_value_bytes_def)

lemma sample_number: "int_text 42 = ''42''" "int_text 7 = ''7''"
  by code_simp+

lemma sample_current_runs:
  "\<exists>v. list_current_metrics (require_own g4_actions sample_bound) sample_metrics_port ''tenant:dev''
     ''r1'' None 200 () = (Inr v, ())"
proof -
  have "page_request ''r1'' None 200 = Inr ()" by code_simp
  moreover have "current_acceptable sample_metric" by code_simp
  then obtain i where i: "current_item sample_metric = Inr i" "weight i \<le> 9000"
    by (simp add: current_item_def sample_metric_def bounded_value_small sample_number opt_text_def
        shown_metric_evidence_def)
  then have "present_page current_item 200 ([sample_metric], None) =
      Inr (PObj [(''items'', PArr [i]), (''next_cursor'', PNull)])"
    by (simp add: present_page_def bounded_response_small opt_text_def)
  ultimately show ?thesis
    by (simp add: list_current_metrics_def sample_metrics_port_def bindS_apply sample_metric_reads)
qed

theorem current_metrics_not_overstated_witness:
  "bound_granted_in sample_bound ''tenant:dev'' metric_read ()"
proof -
  obtain v where "list_current_metrics (require_own g4_actions sample_bound) sample_metrics_port
      ''tenant:dev'' ''r1'' None 200 () = (Inr v, ())"
    using sample_current_runs by blast
  from current_metrics_not_overstated [OF this] show ?thesis by (auto simp: read_under_grant_def)
qed

lemma sample_window:
  "history_window sample_iso ''a'' ''b'' = Inr (At 0, At 9)" "parse_utc sample_iso ''b'' = Inr (At 9)"
  by code_simp+

lemma sample_history_runs:
  "\<exists>v. metric_history (require_own g4_actions sample_bound) sample_metrics_port sample_iso ''tenant:dev''
     ''m1'' ''a'' ''b'' None 200 () = (Inr (Some v), ())"
proof -
  have "page_request ''m1'' None 200 = Inr ()" by code_simp
  moreover have "check_coverage sample_iso (hr_coverage sample_history) (At 9) = Inr ()" by code_simp
  moreover obtain i where "observation_item sample_observation = Inr i" "weight i \<le> 9000"
    by (simp add: observation_item_def sample_observation_def bounded_value_small sample_number
        value_kinds_def)
  ultimately have "\<exists>v. history_response sample_iso ''m1'' ''a'' ''b'' 200 (At 9) sample_history = Inr v"
    by (simp add: history_response_def sample_history_def sample_definition_def check_attribution_def
        generation_states_def bounded_response_small opt_text_def)
      (simp add: sample_observation_def)
  with \<open>page_request ''m1'' None 200 = Inr ()\<close> show ?thesis
    by (auto simp: metric_history_def sample_metrics_port_def bindS_apply sample_metric_reads sample_window)
qed

theorem history_attributed_and_covered_witness:
  "\<exists>covered. parse_utc sample_iso ''b'' = Inr covered \<and> At 9 \<le> covered"
proof -
  obtain v where "metric_history (require_own g4_actions sample_bound) sample_metrics_port sample_iso
      ''tenant:dev'' ''m1'' ''a'' ''b'' None 200 () = (Inr (Some v), ())"
    using sample_history_runs by blast
  from history_attributed_and_covered [OF this] show ?thesis
    by (auto simp: read_under_grant_def sample_metrics_port_def sample_history_def sample_window)
qed

end
