(* ===== verification/Problem_Health_View.thy ===== *)
theory Problem_Health_View
  imports Views
begin

text \<open>src/apps/g5-problem-health/problem_health.py: problems and health of a tenant's resources.\<close>

section \<open>Records and ports\<close>

record problem_row =
  pw_problem_id :: string
  pw_source_id :: string
  pw_instance_generation :: string
  pw_generation_state :: string
  pw_resource_id :: string
  pw_summary :: string
  pw_problem_state :: string
  pw_severity_class :: string
  pw_opened_at :: string
  pw_resolved_at :: "string option"
  pw_last_confirmed_at :: string
  pw_evidence_state :: string
  pw_provider_object_kind :: "string option"
  pw_provider_external_ref :: "string option"

text \<open>\<open>projection_revision: int | str\<close> is a payload.\<close>

record health_row =
  hw_resource_id :: string
  hw_source_id :: string
  hw_instance_generation :: string
  hw_generation_state :: string
  hw_scope_state :: string
  hw_scope_evidence_state :: string
  hw_presence_state :: string
  hw_presence_evidence_state :: string
  hw_health_class :: string
  hw_evidence_state :: string
  hw_projection_revision :: payload
  hw_last_changed_at :: string
  hw_last_evidence_at :: string
  hw_reason_refs :: "string list"

record problem_query =
  pq_source_id :: "string option"
  pq_resource_id :: "string option"
  pq_generation_state :: string
  pq_problem_state :: "string option"
  pq_severity_class :: "string option"
  pq_cursor :: "string option"
  pq_limit :: int

record health_query =
  hq_source_id :: "string option"
  hq_generation_state :: string
  hq_health_class :: "string option"
  hq_evidence_state :: "string option"
  hq_scope_state :: "string option"
  hq_cursor :: "string option"
  hq_limit :: int

record 's problem_health_port =
  hp_list_problems :: "string \<Rightarrow> problem_query \<Rightarrow> ('s, problem_row list \<times> string option) op"
  hp_get_problem :: "string \<Rightarrow> string \<Rightarrow> ('s, problem_row option) op"
  hp_list_health :: "string \<Rightarrow> health_query \<Rightarrow> ('s, health_row list \<times> string option) op"
  hp_get_health :: "string \<Rightarrow> string \<Rightarrow> ('s, health_row option) op"

definition problem_states :: "string list" where "problem_states = [''active'', ''resolved'']"

definition severity_classes :: "string list" where
  "severity_classes = [''unknown'', ''informational'', ''warning'', ''degraded'', ''critical'']"

definition health_classes :: "string list" where
  "health_classes = [''unknown'', ''healthy'', ''degraded'', ''unhealthy'']"

section \<open>Items\<close>

definition problem_acceptable :: "problem_row \<Rightarrow> bool" where
  "problem_acceptable r \<longleftrightarrow>
     pw_generation_state r \<in> set generation_states \<and> pw_evidence_state r \<in> set evidence_states \<and>
     pw_problem_state r \<in> set problem_states \<and> pw_severity_class r \<in> set severity_classes \<and>
     \<not> (pw_problem_state r = ''active'' \<and> pw_resolved_at r \<noteq> None) \<and>
     \<not> (pw_problem_state r = ''resolved'' \<and> pw_resolved_at r = None)"

definition shown_problem_evidence :: "problem_row \<Rightarrow> string" where
  "shown_problem_evidence r =
     (if pw_generation_state r = ''historical_generation'' \<and> pw_evidence_state r = ''current''
      then ''stale'' else pw_evidence_state r)"

definition problem_item :: "bool \<Rightarrow> problem_row \<Rightarrow> payload res" where
  "problem_item detail r =
     bindR (ensure (problem_acceptable r) RuntimeError) (\<lambda>_.
     bindR (ensure (bounded_text 8192 (pw_summary r)) RuntimeError) (\<lambda>_.
     let fs =
       [(''problem_id'', PText (pw_problem_id r)),
        (''monitoring_source_id'', PText (pw_source_id r)),
        (''source_instance_generation'', PText (pw_instance_generation r)),
        (''generation_state'', PText (pw_generation_state r)),
        (''monitoring_resource_ids'', PArr [PText (pw_resource_id r)]),
        (''summary'', PText (pw_summary r)),
        (''problem_state'', PText (pw_problem_state r)),
        (''severity_class'', PText (pw_severity_class r)),
        (''opened_at'', PText (pw_opened_at r)),
        (''resolved_at'', opt_text (pw_resolved_at r)),
        (''last_confirmed_at'', PText (pw_last_confirmed_at r)),
        (''evidence_state'', PText (shown_problem_evidence r))]
     in Inr (PObj (if detail then AList.update ''external_references''
          (PObj [(''provider_object_kind'', opt_text (pw_provider_object_kind r)),
                 (''provider_external_ref'', opt_text (pw_provider_external_ref r))]) fs
        else fs))))"

definition health_acceptable :: "health_row \<Rightarrow> bool" where
  "health_acceptable r \<longleftrightarrow>
     hw_generation_state r \<in> set generation_states \<and> hw_evidence_state r \<in> set evidence_states \<and>
     hw_health_class r \<in> set health_classes \<and> hw_scope_state r \<in> set scope_states \<and>
     hw_scope_evidence_state r \<in> set scope_evidence_states \<and>
     hw_presence_state r \<in> {''present'', ''removed''} \<and>
     hw_presence_evidence_state r \<in> set scope_evidence_states"

definition shown_health_evidence :: "health_row \<Rightarrow> string" where
  "shown_health_evidence r =
     (let stored = hw_evidence_state r;
          e = (if hw_generation_state r = ''historical_generation'' \<and> stored = ''current''
               then ''stale'' else stored)
      in if (hw_scope_state r \<noteq> ''in_scope'' \<or> hw_scope_evidence_state r \<noteq> ''current'' \<or>
             hw_presence_state r \<noteq> ''present'' \<or> hw_presence_evidence_state r \<noteq> ''current'') \<and>
            e = ''current''
         then ''reconciliation_required'' else e)"

definition health_item :: "health_row \<Rightarrow> payload res" where
  "health_item r =
     bindR (ensure (health_acceptable r) RuntimeError) (\<lambda>_.
     bindR (ensure (length (hw_reason_refs r) \<le> 64 \<and> list_all (bounded_text 512) (hw_reason_refs r))
              RuntimeError) (\<lambda>_.
     Inr (PObj
       [(''monitoring_resource_id'', PText (hw_resource_id r)),
        (''monitoring_source_id'', PText (hw_source_id r)),
        (''source_instance_generation'', PText (hw_instance_generation r)),
        (''generation_state'', PText (hw_generation_state r)),
        (''scope_state'', PText (hw_scope_state r)),
        (''scope_evidence_state'', PText (hw_scope_evidence_state r)),
        (''health_class'', PText (hw_health_class r)),
        (''evidence_state'', PText (shown_health_evidence r)),
        (''projection_revision'', hw_projection_revision r),
        (''last_changed_at'', PText (hw_last_changed_at r)),
        (''last_evidence_at'', PText (hw_last_evidence_at r)),
        (''problem_refs'', PArr (map PText (hw_reason_refs r)))])))"

section \<open>The operations\<close>

definition problem_request :: "problem_query \<Rightarrow> unit res" where
  "problem_request q =
     bindR (validate_cursor (pq_cursor q)) (\<lambda>_. bindR (validate_limit (pq_limit q)) (\<lambda>_.
     ensure (opt_bounded 512 (pq_source_id q) \<and> opt_bounded 512 (pq_resource_id q) \<and>
       pq_generation_state q \<in> set generation_states \<and> opt_member problem_states (pq_problem_state q) \<and>
       opt_member severity_classes (pq_severity_class q)) ValueError))"

definition health_request :: "health_query \<Rightarrow> unit res" where
  "health_request q =
     bindR (validate_cursor (hq_cursor q)) (\<lambda>_. bindR (validate_limit (hq_limit q)) (\<lambda>_.
     ensure (opt_bounded 512 (hq_source_id q) \<and> hq_generation_state q \<in> set generation_states \<and>
       opt_member health_classes (hq_health_class q) \<and> opt_member evidence_states (hq_evidence_state q) \<and>
       opt_member scope_states (hq_scope_state q)) ValueError))"

text \<open>Naming a resource in a query asks for the reading of resources as well.\<close>

definition problem_grants :: "problem_query \<Rightarrow> string list" where
  "problem_grants q = (if pq_resource_id q = None then [problem_read] else [problem_read, resource_read])"

definition list_problems ::
  "'s admission \<Rightarrow> 's problem_health_port \<Rightarrow> string \<Rightarrow> problem_query \<Rightarrow> ('s, payload) op" where
  "list_problems req p tenant q =
     thenS (liftS (problem_request q))
    (bindS (read_between req tenant (problem_grants q) (hp_list_problems p tenant q)
              (\<lambda>_. problem_grants q)) (\<lambda>page.
     liftS (present_page (problem_item False) (pq_limit q) page)))"

definition get_problem ::
  "'s admission \<Rightarrow> 's problem_health_port \<Rightarrow> string \<Rightarrow> string \<Rightarrow> ('s, payload option) op" where
  "get_problem req p tenant i =
     thenS (ensureS (bounded_text 512 i) ValueError)
    (bindS (read_between req tenant [problem_read] (hp_get_problem p tenant i)
        (\<lambda>row. if row = None then [problem_read] else [resource_read, problem_read])) (\<lambda>row.
     case row of
       None \<Rightarrow> returnS None
     | Some r \<Rightarrow> bindS (liftS (problem_item True r)) (\<lambda>item.
         bindS (liftS (bounded_response item)) (\<lambda>v. returnS (Some v)))))"

definition list_health ::
  "'s admission \<Rightarrow> 's problem_health_port \<Rightarrow> string \<Rightarrow> health_query \<Rightarrow> ('s, payload) op" where
  "list_health req p tenant q =
     thenS (liftS (health_request q))
    (bindS (read_between req tenant [health_read] (hp_list_health p tenant q) (\<lambda>_. [health_read])) (\<lambda>page.
     liftS (present_page health_item (hq_limit q) page)))"

definition get_health ::
  "'s admission \<Rightarrow> 's problem_health_port \<Rightarrow> string \<Rightarrow> string \<Rightarrow> ('s, payload option) op" where
  "get_health req p tenant rid =
     thenS (ensureS (bounded_text 512 rid) ValueError)
    (bindS (read_between req tenant [health_read, resource_read] (hp_get_health p tenant rid)
        (\<lambda>_. [health_read, resource_read])) (\<lambda>row.
     case row of
       None \<Rightarrow> returnS None
     | Some r \<Rightarrow> bindS (liftS (health_item r)) (\<lambda>item.
         bindS (liftS (bounded_response item)) (\<lambda>v. returnS (Some v)))))"

section \<open>What the views return\<close>

lemma shown_health_current_iff:
  "shown_health_evidence r = ''current'' \<longleftrightarrow>
     hw_evidence_state r = ''current'' \<and> hw_generation_state r \<noteq> ''historical_generation'' \<and>
     hw_scope_state r = ''in_scope'' \<and> hw_scope_evidence_state r = ''current'' \<and>
     hw_presence_state r = ''present'' \<and> hw_presence_evidence_state r = ''current''"
  by (auto simp: shown_health_evidence_def Let_def)

lemma shown_health_weakens:
  "shown_health_evidence r = hw_evidence_state r \<or> hw_evidence_state r = ''current''"
  by (auto simp: shown_health_evidence_def Let_def)

definition restates_health :: "health_row \<Rightarrow> payload \<Rightarrow> bool" where
  "restates_health r i \<longleftrightarrow>
     field ''monitoring_resource_id'' i = Some (PText (hw_resource_id r)) \<and>
     field ''health_class'' i = Some (PText (hw_health_class r)) \<and>
     field ''problem_refs'' i = Some (PArr (map PText (hw_reason_refs r))) \<and>
     length (hw_reason_refs r) \<le> 64 \<and>
     (\<exists>e. field ''evidence_state'' i = Some (PText e) \<and>
        (e = ''current'' \<longleftrightarrow>
           hw_evidence_state r = ''current'' \<and> hw_generation_state r = ''active_generation'' \<and>
           hw_scope_state r = ''in_scope'' \<and> hw_scope_evidence_state r = ''current'' \<and>
           hw_presence_state r = ''present'' \<and> hw_presence_evidence_state r = ''current'') \<and>
        (e = hw_evidence_state r \<or> hw_evidence_state r = ''current''))"

lemma health_item_restates:
  assumes "health_item r = Inr i"
  shows "restates_health r i"
proof -
  have fields: "field ''monitoring_resource_id'' i = Some (PText (hw_resource_id r))"
    "field ''health_class'' i = Some (PText (hw_health_class r))"
    "field ''problem_refs'' i = Some (PArr (map PText (hw_reason_refs r)))"
    "length (hw_reason_refs r) \<le> 64"
    "field ''evidence_state'' i = Some (PText (shown_health_evidence r))"
    using assms unfolding health_item_def bindR_Inr_iff ensure_Inr_iff by auto
  have "hw_generation_state r \<in> set generation_states"
    using assms unfolding health_item_def bindR_Inr_iff ensure_Inr_iff health_acceptable_def by blast
  then show ?thesis
    unfolding restates_health_def
    by (intro conjI exI [of _ "shown_health_evidence r"] fields)
      (simp_all only: shown_health_current_iff active_unless_historical, use shown_health_weakens in blast)
qed

definition restates_problem :: "problem_row \<Rightarrow> payload \<Rightarrow> bool" where
  "restates_problem r i \<longleftrightarrow>
     field ''problem_id'' i = Some (PText (pw_problem_id r)) \<and>
     field ''problem_state'' i = Some (PText (pw_problem_state r)) \<and>
     field ''severity_class'' i = Some (PText (pw_severity_class r)) \<and>
     field ''resolved_at'' i = Some (opt_text (pw_resolved_at r)) \<and>
     (pw_problem_state r = ''resolved'' \<longleftrightarrow> pw_resolved_at r \<noteq> None) \<and>
     (\<exists>e. field ''evidence_state'' i = Some (PText e) \<and>
        (e = ''current'' \<longleftrightarrow>
           pw_evidence_state r = ''current'' \<and> pw_generation_state r = ''active_generation'') \<and>
        (e = pw_evidence_state r \<or> pw_evidence_state r = ''current''))"

lemma problem_item_restates:
  assumes "problem_item detail r = Inr i"
  shows "restates_problem r i"
proof -
  have ok: "problem_acceptable r"
    using assms unfolding problem_item_def bindR_Inr_iff ensure_Inr_iff by blast
  have fields: "field ''problem_id'' i = Some (PText (pw_problem_id r))"
    "field ''problem_state'' i = Some (PText (pw_problem_state r))"
    "field ''severity_class'' i = Some (PText (pw_severity_class r))"
    "field ''resolved_at'' i = Some (opt_text (pw_resolved_at r))"
    "field ''evidence_state'' i = Some (PText (shown_problem_evidence r))"
    using assms unfolding problem_item_def bindR_Inr_iff by (auto simp: Let_def split: if_splits)
  have "pw_problem_state r = ''resolved'' \<longleftrightarrow> pw_resolved_at r \<noteq> None"
    using ok by (auto simp: problem_acceptable_def problem_states_def)
  moreover have "shown_problem_evidence r = ''current'' \<longleftrightarrow>
      pw_evidence_state r = ''current'' \<and> pw_generation_state r = ''active_generation''"
    using ok active_unless_historical [of "pw_generation_state r"]
    by (auto simp: shown_problem_evidence_def problem_acceptable_def)
  moreover have "shown_problem_evidence r = pw_evidence_state r \<or> pw_evidence_state r = ''current''"
    by (simp add: shown_problem_evidence_def)
  ultimately show ?thesis unfolding restates_problem_def using fields by blast
qed

text \<open>A page that was read under a grant and presented item by item.\<close>

lemma granted_page:
  assumes "bindS (read_between (require_own g5_actions g) tenant as m (\<lambda>_. as))
      (\<lambda>page. liftS (present_page item limit page)) s = (Inr v, t)"
    and "as \<noteq> []" "\<And>r i. item r = Inr i \<Longrightarrow> restates r i"
  shows "\<exists>rows next_page items.
    read_under_grant (bound_granted_in g) tenant (last as) (last as) m (rows, next_page) t \<and>
    int (length rows) \<le> limit \<and> payload_bytes v \<le> max_response_bytes \<and>
    field ''items'' v = Some (PArr items) \<and> list_all2 restates rows items"
proof -
  from assms(1) obtain page where page:
    "read_between (require_own g5_actions g) tenant as m (\<lambda>_. as) s = (Inr page, t)"
    "present_page item limit page = Inr v"
    unfolding bindS_returns_iff liftS_returns_iff by blast
  from page(2) obtain items where "int (length (fst page)) \<le> limit"
    "list_all2 (\<lambda>r i. item r = Inr i) (fst page) items"
    "v = PObj [(''items'', PArr items), (''next_cursor'', opt_text (snd page))]"
    "payload_bytes v \<le> max_response_bytes"
    unfolding present_page_Inr_iff by blast
  moreover from this(2) have "list_all2 restates (fst page) items"
    by (rule list_all2_mono) (rule assms(3))
  ultimately show ?thesis
    using bound.read_between_granted [OF page(1)] assms(2) by (cases page) auto
qed

text \<open>Health is shown under a current grant and never overstated. When the list is
  returned, the repository was read for this tenant and query in a state in which the final
  authority had just granted the reading of health to the principal of the request, and
  the same was granted again last of all; the page has at most as many rows as the limit
  allows; and every item keeps the stored class with its at most 64 reasons, where the
  evidence says current exactly if the stored evidence does, the generation is the active
  one, and the resource is in scope and present with both of these current, and otherwise
  is the stored evidence or a weaker one.\<close>

theorem health_not_overstated:
  assumes "list_health (require_own g5_actions g) p tenant q s = (Inr v, t)"
  shows "\<exists>rows next_page items.
    read_under_grant (bound_granted_in g) tenant health_read health_read
      (hp_list_health p tenant q) (rows, next_page) t \<and>
    int (length rows) \<le> hq_limit q \<and> payload_bytes v \<le> max_response_bytes \<and>
    field ''items'' v = Some (PArr items) \<and> list_all2 restates_health rows items"
proof -
  from assms obtain s' where "bindS (read_between (require_own g5_actions g) tenant [health_read]
      (hp_list_health p tenant q) (\<lambda>_. [health_read]))
      (\<lambda>page. liftS (present_page health_item (hq_limit q) page)) s' = (Inr v, t)"
    unfolding list_health_def thenS_returns_iff by blast
  from granted_page [OF this _ health_item_restates] show ?thesis by simp
qed

text \<open>The same for problems, whose resolution time is there exactly when they are resolved.\<close>

theorem problems_not_overstated:
  assumes "list_problems (require_own g5_actions g) p tenant q s = (Inr v, t)"
  shows "\<exists>rows next_page items.
    read_under_grant (bound_granted_in g) tenant (last (problem_grants q)) (last (problem_grants q))
      (hp_list_problems p tenant q) (rows, next_page) t \<and>
    int (length rows) \<le> pq_limit q \<and> payload_bytes v \<le> max_response_bytes \<and>
    field ''items'' v = Some (PArr items) \<and> list_all2 restates_problem rows items"
proof -
  from assms obtain s' where "bindS (read_between (require_own g5_actions g) tenant (problem_grants q)
      (hp_list_problems p tenant q) (\<lambda>_. problem_grants q))
      (\<lambda>page. liftS (present_page (problem_item False) (pq_limit q) page)) s' = (Inr v, t)"
    unfolding list_problems_def thenS_returns_iff by blast
  from granted_page [OF this _ problem_item_restates] show ?thesis by (simp add: problem_grants_def)
qed

section \<open>A request that succeeds\<close>

definition sample_health :: health_row where
  "sample_health =
     \<lparr>hw_resource_id = ''r1'', hw_source_id = ''s1'', hw_instance_generation = ''g1'',
      hw_generation_state = ''active_generation'', hw_scope_state = ''in_scope'',
      hw_scope_evidence_state = ''current'', hw_presence_state = ''present'',
      hw_presence_evidence_state = ''current'', hw_health_class = ''healthy'',
      hw_evidence_state = ''current'', hw_projection_revision = PInt 7, hw_last_changed_at = ''t'',
      hw_last_evidence_at = ''t'', hw_reason_refs = []\<rparr>"

definition sample_problem_health_port :: "unit problem_health_port" where
  "sample_problem_health_port =
     \<lparr>hp_list_problems = (\<lambda>_ _. returnS ([], None)), hp_get_problem = (\<lambda>_ _. returnS None),
      hp_list_health = (\<lambda>_ _. returnS ([sample_health], None)),
      hp_get_health = (\<lambda>_ _. returnS (Some sample_health))\<rparr>"

definition sample_health_query :: health_query where
  "sample_health_query =
     \<lparr>hq_source_id = None, hq_generation_state = ''active_generation'', hq_health_class = None,
      hq_evidence_state = None, hq_scope_state = None, hq_cursor = None, hq_limit = 200\<rparr>"

lemma sample_health_runs:
  "\<exists>v. list_health (require_own g5_actions sample_bound) sample_problem_health_port ''tenant:dev''
     sample_health_query () = (Inr v, ())"
proof -
  have "health_request sample_health_query = Inr ()" by code_simp
  moreover have "health_acceptable sample_health" "int_text 7 = ''7''" by code_simp+
  then obtain i where i: "health_item sample_health = Inr i" "weight i \<le> 9000"
    by (simp add: health_item_def sample_health_def shown_health_evidence_def)
  then have "present_page health_item 200 ([sample_health], None) =
      Inr (PObj [(''items'', PArr [i]), (''next_cursor'', PNull)])"
    by (simp add: present_page_def bounded_response_small opt_text_def)
  moreover have "require_own g5_actions sample_bound ''tenant:dev'' health_read () = (Inr sample_actor, ())"
    by (rule sample_require_own; simp add: health_read_def action_lists)
  ultimately show ?thesis
    by (simp add: list_health_def sample_problem_health_port_def sample_health_query_def bindS_apply
        read_between_def)
qed

theorem health_not_overstated_witness:
  "bound_granted_in sample_bound ''tenant:dev'' health_read () \<and> int (length [sample_health]) \<le> 200"
proof -
  obtain v where "list_health (require_own g5_actions sample_bound) sample_problem_health_port
      ''tenant:dev'' sample_health_query () = (Inr v, ())"
    using sample_health_runs by blast
  from health_not_overstated [OF this] show ?thesis
    by (auto simp: read_under_grant_def sample_problem_health_port_def sample_health_query_def)
qed

end
