(* ===== verification/Alert_Policy.thy ===== *)
theory Alert_Policy
  imports Views
begin

text \<open>
  src/apps/g7-alert-policy-lifecycle/domain.py and service.py: policies, what they match in the
  current state of a source, and the decision to open or resolve an alert.
\<close>

section \<open>Policies and states\<close>

definition severity_order :: "(string, nat) dict" where
  "severity_order =
     [(''unknown'', 0), (''informational'', 1), (''warning'', 2), (''degraded'', 3), (''critical'', 4)]"

definition health_class_names :: "string set" where
  "health_class_names = {''unknown'', ''healthy'', ''degraded'', ''unhealthy''}"

record policy_version =
  pv_tenant_id :: string
  pv_policy_id :: string
  pv_policy_version :: int
  pv_source_kind :: string
  pv_content_hash :: string
  pv_problem_min_severity :: "string option"
  pv_health_classes :: "string list"
  pv_monitoring_source_id :: "string option"
  pv_monitoring_resource_id :: "string option"

definition known_severity :: "string option \<Rightarrow> bool" where
  "known_severity x = (case x of None \<Rightarrow> False | Some s \<Rightarrow> map_of severity_order s \<noteq> None)"

definition valid_policy :: "policy_version \<Rightarrow> bool" where
  "valid_policy p \<longleftrightarrow>
     pv_tenant_id p \<noteq> [] \<and> pv_policy_id p \<noteq> [] \<and> 1 \<le> pv_policy_version p \<and>
     (if pv_source_kind p = ''monitoring_problem''
      then known_severity (pv_problem_min_severity p) \<and> pv_health_classes p = []
      else if pv_source_kind p = ''monitoring_health_projection''
      then pv_problem_min_severity p = None \<and> pv_health_classes p \<noteq> [] \<and>
        set (pv_health_classes p) \<subseteq> health_class_names \<and> distinct (pv_health_classes p)
      else False)"

definition validate_policy :: "policy_version \<Rightarrow> unit res" where
  "validate_policy p = ensure (valid_policy p) ValueError"

record source_state =
  st_tenant_id :: string
  st_source_kind :: string
  st_subject_id :: string
  st_monitoring_source_id :: string
  st_monitoring_resource_id :: string
  st_instance_generation :: string
  st_active_instance_generation :: string
  st_source_evidence_state :: string
  st_projection_evidence_state :: string
  st_projection_revision :: int
  st_problem_state :: "string option"
  st_severity_class :: "string option"
  st_health_class :: "string option"

definition state_current :: "source_state \<Rightarrow> bool" where
  "state_current s \<longleftrightarrow>
     st_instance_generation s = st_active_instance_generation s \<and>
     st_source_evidence_state s = ''current'' \<and> st_projection_evidence_state s = ''current'' \<and>
     0 < st_projection_revision s"

record active_alert =
  aa_alert_id :: string
  aa_tenant_id :: string
  aa_policy_id :: string
  aa_policy_version :: int
  aa_source_kind :: string
  aa_subject_id :: string
  aa_occurrence_revision :: int
  aa_lifecycle_state :: string

datatype alert_action = AlertCreate | AlertResolve | AlertNone

fun alert_action_value :: "alert_action \<Rightarrow> string" where
  "alert_action_value AlertCreate = ''create''"
| "alert_action_value AlertResolve = ''resolve''"
| "alert_action_value AlertNone = ''none''"

record alert_decision =
  ad_decision_id :: string
  ad_decision_hash :: string
  ad_alert_action :: alert_action
  ad_policy_id :: string
  ad_policy_version :: int
  ad_source_kind :: string
  ad_subject_id :: string
  ad_source_revision :: int
  ad_alert_id :: "string option"

section \<open>Matching\<close>

text \<open>\<open>selector and selector != value\<close>: an empty selector selects everything.\<close>

definition selects :: "string option \<Rightarrow> string \<Rightarrow> bool" where
  "selects x v \<longleftrightarrow> x = None \<or> x = Some [] \<or> x = Some v"

definition severity_rank :: "string option \<Rightarrow> nat option" where
  "severity_rank x = (case x of None \<Rightarrow> None | Some s \<Rightarrow> map_of severity_order s)"

text \<open>\<open>policy.problem_min_severity or "critical"\<close>\<close>

definition minimum_severity :: "policy_version \<Rightarrow> string option" where
  "minimum_severity p =
     (if pv_problem_min_severity p = None \<or> pv_problem_min_severity p = Some []
      then Some ''critical'' else pv_problem_min_severity p)"

definition policy_matches :: "policy_version \<Rightarrow> source_state \<Rightarrow> bool res" where
  "policy_matches p s =
     bindR (validate_policy p) (\<lambda>_.
     if st_tenant_id s \<noteq> pv_tenant_id p \<or> st_source_kind s \<noteq> pv_source_kind p then Inr False
     else if \<not> state_current s then Inr False
     else if \<not> selects (pv_monitoring_source_id p) (st_monitoring_source_id s) then Inr False
     else if \<not> selects (pv_monitoring_resource_id p) (st_monitoring_resource_id s) then Inr False
     else if pv_source_kind p = ''monitoring_problem''
     then (if st_problem_state s \<noteq> Some ''active'' then Inr False
           else (case severity_rank (st_severity_class s) of
                   None \<Rightarrow> Inr False
                 | Some found \<Rightarrow>
                     (case severity_rank (minimum_severity p) of
                        None \<Rightarrow> Inl KeyError | Some least \<Rightarrow> Inr (least \<le> found))))
     else Inr (\<exists>c \<in> set (pv_health_classes p). st_health_class s = Some c))"

section \<open>The decision\<close>

definition binds_alert :: "policy_version \<Rightarrow> source_state \<Rightarrow> active_alert \<Rightarrow> bool" where
  "binds_alert p s a \<longleftrightarrow>
     aa_tenant_id a = pv_tenant_id p \<and> aa_policy_id a = pv_policy_id p \<and>
     aa_policy_version a = pv_policy_version p \<and> aa_source_kind a = pv_source_kind p \<and>
     aa_subject_id a = st_subject_id s \<and> aa_lifecycle_state a = ''active''"

definition chosen_action :: "source_state \<Rightarrow> active_alert option \<Rightarrow> bool \<Rightarrow> bool \<Rightarrow> alert_action" where
  "chosen_action s active matched effective =
     (if \<not> state_current s then AlertNone
      else if active \<noteq> None \<and> \<not> matched then AlertResolve
      else if active = None \<and> matched \<and> effective then AlertCreate
      else AlertNone)"

definition unit_separator :: char where "unit_separator = CHR 0x1F"

definition decision_parts :: "policy_version \<Rightarrow> source_state \<Rightarrow> string list" where
  "decision_parts p s =
     [pv_tenant_id p, pv_policy_id p, int_text (pv_policy_version p), pv_source_kind p,
      st_subject_id s, int_text (st_projection_revision s)]"

definition decision_material ::
  "policy_version \<Rightarrow> source_state \<Rightarrow> active_alert option \<Rightarrow> alert_action \<Rightarrow> string list" where
  "decision_material p s active action =
     [pv_tenant_id p, pv_policy_id p, int_text (pv_policy_version p), pv_content_hash p,
      pv_source_kind p, st_subject_id s, int_text (st_projection_revision s),
      alert_action_value action, (case active of None \<Rightarrow> [] | Some a \<Rightarrow> aa_alert_id a)]"

text \<open>\<open>sha\<close> is the hexadecimal SHA-256 digest of a sequence of bytes.\<close>

definition digest_of :: "(nat list \<Rightarrow> string) \<Rightarrow> string list \<Rightarrow> string" where
  "digest_of sha parts = sha (utf8 (joined unit_separator parts))"

definition decision_of ::
  "(nat list \<Rightarrow> string) \<Rightarrow> policy_version \<Rightarrow> source_state \<Rightarrow> active_alert option \<Rightarrow> alert_action \<Rightarrow>
   alert_decision" where
  "decision_of sha p s active action =
     (let i = ''g7-decision:'' @ digest_of sha (decision_parts p s)
      in \<lparr>ad_decision_id = i, ad_decision_hash = digest_of sha (decision_material p s active action),
          ad_alert_action = action, ad_policy_id = pv_policy_id p,
          ad_policy_version = pv_policy_version p, ad_source_kind = pv_source_kind p,
          ad_subject_id = st_subject_id s, ad_source_revision = st_projection_revision s,
          ad_alert_id =
            (if action = AlertCreate
             then Some (''g7-alert:'' @ sha (utf8 (i @ unit_separator # pv_content_hash p)))
             else map_option aa_alert_id active)\<rparr>)"

definition evaluate_alert ::
  "(nat list \<Rightarrow> string) \<Rightarrow> policy_version \<Rightarrow> source_state \<Rightarrow> active_alert option \<Rightarrow> bool \<Rightarrow>
   alert_decision res" where
  "evaluate_alert sha p s active effective =
     bindR (validate_policy p) (\<lambda>_.
     bindR (ensure (st_tenant_id s = pv_tenant_id p) ValueError) (\<lambda>_.
     bindR (ensure (st_source_kind s = pv_source_kind p) ValueError) (\<lambda>_.
     bindR (ensure (case active of None \<Rightarrow> True | Some a \<Rightarrow> binds_alert p s a) ValueError) (\<lambda>_.
     bindR (policy_matches p s) (\<lambda>matched.
     Inr (decision_of sha p s active (chosen_action s active matched effective)))))))"

section \<open>The service\<close>

text \<open>\<open>apply_decision\<close> returns a dictionary of the adapter.\<close>

record 's alert_effects =
  ae_current_policy :: "string \<Rightarrow> string \<Rightarrow> int \<Rightarrow> ('s, policy_version \<times> bool) op"
  ae_current_source :: "policy_version \<Rightarrow> string \<Rightarrow> ('s, source_state) op"
  ae_active_alert :: "policy_version \<Rightarrow> string \<Rightarrow> ('s, active_alert option) op"
  ae_apply_decision :: "alert_decision \<Rightarrow> ('s, payload) op"

definition no_action_reply :: "alert_decision \<Rightarrow> payload" where
  "no_action_reply d = PObj
     [(''decision_id'', PText (ad_decision_id d)), (''action'', PText ''none''),
      (''alert_id'', opt_text (ad_alert_id d)), (''source_revision'', PInt (ad_source_revision d))]"

definition evaluate_subject ::
  "(nat list \<Rightarrow> string) \<Rightarrow> 's alert_effects \<Rightarrow> string \<Rightarrow> string \<Rightarrow> int \<Rightarrow> string \<Rightarrow> ('s, payload) op" where
  "evaluate_subject sha w tenant policy_id version subject =
     bindS (ae_current_policy w tenant policy_id version) (\<lambda>(p, effective).
     bindS (ae_current_source w p subject) (\<lambda>s.
     bindS (ae_active_alert w p subject) (\<lambda>active.
     bindS (liftS (evaluate_alert sha p s active effective)) (\<lambda>d.
     if ad_alert_action d = AlertNone then returnS (no_action_reply d)
     else ae_apply_decision w d))))"

section \<open>The decision table\<close>

text \<open>What the policy asks for, as a condition on the state alone.\<close>

definition policy_condition :: "policy_version \<Rightarrow> source_state \<Rightarrow> bool" where
  "policy_condition p s \<longleftrightarrow>
     state_current s \<and> selects (pv_monitoring_source_id p) (st_monitoring_source_id s) \<and>
     selects (pv_monitoring_resource_id p) (st_monitoring_resource_id s) \<and>
     (if pv_source_kind p = ''monitoring_problem''
      then st_problem_state s = Some ''active'' \<and>
        (\<exists>least found. severity_rank (pv_problem_min_severity p) = Some least \<and>
           severity_rank (st_severity_class s) = Some found \<and> least \<le> found)
      else \<exists>c \<in> set (pv_health_classes p). st_health_class s = Some c)"

lemma valid_policy_minimum:
  assumes "valid_policy p" "pv_source_kind p = ''monitoring_problem''"
  shows "minimum_severity p = pv_problem_min_severity p"
    "\<exists>least. severity_rank (pv_problem_min_severity p) = Some least"
proof -
  from assms obtain x where x: "pv_problem_min_severity p = Some x" "map_of severity_order x \<noteq> None"
    by (auto simp: valid_policy_def known_severity_def split: option.splits)
  then have "x \<noteq> []" by (auto simp: severity_order_def)
  then show "minimum_severity p = pv_problem_min_severity p" using x by (simp add: minimum_severity_def)
  show "\<exists>least. severity_rank (pv_problem_min_severity p) = Some least"
    using x by (auto simp: severity_rank_def)
qed

lemma policy_matches_condition:
  assumes "valid_policy p" "st_tenant_id s = pv_tenant_id p" "st_source_kind s = pv_source_kind p"
  shows "policy_matches p s = Inr (policy_condition p s)"
proof (cases "pv_source_kind p = ''monitoring_problem''")
  case True
  obtain least where "severity_rank (pv_problem_min_severity p) = Some least"
    using valid_policy_minimum [OF assms(1) True] by blast
  then show ?thesis
    using assms True valid_policy_minimum(1) [OF assms(1) True]
    by (simp add: policy_matches_def validate_policy_def policy_condition_def split: option.splits)
next
  case False
  then show ?thesis
    using assms by (simp add: policy_matches_def validate_policy_def policy_condition_def)
qed

definition decision_admissible :: "policy_version \<Rightarrow> source_state \<Rightarrow> active_alert option \<Rightarrow> bool" where
  "decision_admissible p s active \<longleftrightarrow>
     valid_policy p \<and> st_tenant_id s = pv_tenant_id p \<and> st_source_kind s = pv_source_kind p \<and>
     (\<forall>a. active = Some a \<longrightarrow> binds_alert p s a)"

lemma evaluate_alert_total:
  "evaluate_alert sha p s active effective =
     (if decision_admissible p s active
      then Inr (decision_of sha p s active (chosen_action s active (policy_condition p s) effective))
      else Inl ValueError)"
proof (cases "valid_policy p \<and> st_tenant_id s = pv_tenant_id p \<and> st_source_kind s = pv_source_kind p")
  case True
  then show ?thesis
    using policy_matches_condition [of p s]
    by (cases active) (simp_all add: evaluate_alert_def validate_policy_def decision_admissible_def ensure_def)
next
  case False
  then show ?thesis
    by (auto simp: evaluate_alert_def validate_policy_def decision_admissible_def ensure_def)
qed

lemma chosen_action_iff:
  "chosen_action s active (policy_condition p s) effective = AlertCreate \<longleftrightarrow>
     active = None \<and> policy_condition p s \<and> effective"
  "chosen_action s active (policy_condition p s) effective = AlertResolve \<longleftrightarrow>
     active \<noteq> None \<and> state_current s \<and> \<not> policy_condition p s"
  by (auto simp: chosen_action_def policy_condition_def)

text \<open>C12: an alert opens and resolves on current evidence only, and exactly when its policy says
  so. When a subject is evaluated, policy, state and open alert were read one after the
  other and belong together. An alert is created, by one call of the effect port, exactly if
  none is open, the policy is effective and its condition holds; the open alert is resolved
  exactly if the state is current and the condition does not hold, whether the policy is
  still effective or not; in every other case, so whenever the evidence is not current,
  nothing is called. The decision carries the revision of the state, and the alert it names
  is the open one unless it creates one.\<close>

theorem alert_follows_current_evidence:
  assumes "evaluate_subject sha w tenant policy_id version subject s0 = (Inr v, t)"
  shows "\<exists>p effective s active d s1 s2 u.
    ae_current_policy w tenant policy_id version s0 = (Inr (p, effective), s1) \<and>
    ae_current_source w p subject s1 = (Inr s, s2) \<and> ae_active_alert w p subject s2 = (Inr active, u) \<and>
    decision_admissible p s active \<and> ad_source_revision d = st_projection_revision s \<and>
    ad_policy_id d = pv_policy_id p \<and>
    (if active = None \<and> policy_condition p s \<and> effective
     then ad_alert_action d = AlertCreate \<and> ae_apply_decision w d u = (Inr v, t)
     else if active \<noteq> None \<and> state_current s \<and> \<not> policy_condition p s
     then ad_alert_action d = AlertResolve \<and> ad_alert_id d = map_option aa_alert_id active \<and>
       ae_apply_decision w d u = (Inr v, t)
     else ad_alert_action d = AlertNone \<and> ad_alert_id d = map_option aa_alert_id active \<and>
       v = no_action_reply d \<and> t = u)"
proof -
  from assms obtain pe s1 where policy: "ae_current_policy w tenant policy_id version s0 = (Inr pe, s1)"
    and rest: "(case pe of (p, effective) \<Rightarrow> bindS (ae_current_source w p subject) (\<lambda>s.
      bindS (ae_active_alert w p subject) (\<lambda>active.
      bindS (liftS (evaluate_alert sha p s active effective)) (\<lambda>d.
      if ad_alert_action d = AlertNone then returnS (no_action_reply d) else ae_apply_decision w d)))) s1 =
      (Inr v, t)"
    unfolding evaluate_subject_def bindS_returns_iff by blast
  obtain p effective where pe: "pe = (p, effective)" by (cases pe)
  from policy rest obtain s s2 active u where
    reads: "ae_current_policy w tenant policy_id version s0 = (Inr (p, effective), s1)"
    "ae_current_source w p subject s1 = (Inr s, s2)" "ae_active_alert w p subject s2 = (Inr active, u)"
    and "bindS (liftS (evaluate_alert sha p s active effective)) (\<lambda>d.
      if ad_alert_action d = AlertNone then returnS (no_action_reply d) else ae_apply_decision w d) u =
      (Inr v, t)"
    unfolding pe bindS_returns_iff prod.case by blast
  then obtain d where d: "evaluate_alert sha p s active effective = Inr d"
    "(if ad_alert_action d = AlertNone then returnS (no_action_reply d) else ae_apply_decision w d) u =
      (Inr v, t)"
    unfolding bindS_returns_iff liftS_returns_iff by blast
  let ?a = "chosen_action s active (policy_condition p s) effective"
  from d(1) have ok: "decision_admissible p s active" and eq: "d = decision_of sha p s active ?a"
    by (auto simp: evaluate_alert_total split: if_splits)
  have action: "ad_alert_action d = ?a" unfolding eq by (simp add: decision_of_def Let_def)
  have fields: "ad_source_revision d = st_projection_revision s" "ad_policy_id d = pv_policy_id p"
    "?a \<noteq> AlertCreate \<Longrightarrow> ad_alert_id d = map_option aa_alert_id active"
    unfolding eq by (simp_all add: decision_of_def Let_def)
  have "if active = None \<and> policy_condition p s \<and> effective
     then ad_alert_action d = AlertCreate \<and> ae_apply_decision w d u = (Inr v, t)
     else if active \<noteq> None \<and> state_current s \<and> \<not> policy_condition p s
     then ad_alert_action d = AlertResolve \<and> ad_alert_id d = map_option aa_alert_id active \<and>
       ae_apply_decision w d u = (Inr v, t)
     else ad_alert_action d = AlertNone \<and> ad_alert_id d = map_option aa_alert_id active \<and>
       v = no_action_reply d \<and> t = u"
  proof (cases ?a)
    case AlertCreate
    then show ?thesis
      using d(2) action chosen_action_iff(1) [of s active p effective] by simp
  next
    case AlertResolve
    then show ?thesis
      using d(2) action chosen_action_iff(2) [of s active p effective] fields(3) by auto
  next
    case AlertNone
    then have "\<not> (active = None \<and> policy_condition p s \<and> effective)"
      "\<not> (active \<noteq> None \<and> state_current s \<and> \<not> policy_condition p s)"
      using chosen_action_iff [of s active p effective] by (metis alert_action.distinct)+
    then show ?thesis using d(2) action fields(3) AlertNone by (simp add: returnS_def)
  qed
  then show ?thesis using reads ok fields(1,2) by blast
qed

section \<open>What a decision id binds\<close>

definition separated :: "policy_version \<Rightarrow> source_state \<Rightarrow> bool" where
  "separated p s \<longleftrightarrow>
     (\<forall>x \<in> {pv_tenant_id p, pv_policy_id p, pv_source_kind p, st_subject_id s}. unit_separator \<notin> set x)"

lemma decision_parts_apart:
  "separated p s \<Longrightarrow> \<forall>x \<in> set (decision_parts p s). unit_separator \<notin> set x"
  by (simp add: separated_def decision_parts_def unit_separator_def int_text_chars)

definition hashed_subject :: "policy_version \<Rightarrow> source_state \<Rightarrow> nat list" where
  "hashed_subject p s = utf8 (joined unit_separator (decision_parts p s))"

text \<open>A decision id is one of its subject. Two evaluations produce the same id exactly if
  they decided for the same tenant, policy and version, the same source kind and subject and
  the same revision of its state, whatever each of them decided, as long as the texts are free
  of the separator and the digest does not collide on the two inputs at hand.\<close>

theorem decision_id_binds_subject:
  assumes "evaluate_alert sha p s active effective = Inr d" "evaluate_alert sha p' s' active' effective' = Inr d'"
    and "separated p s" "separated p' s'" "inj_on sha {hashed_subject p s, hashed_subject p' s'}"
  shows "ad_decision_id d = ad_decision_id d' \<longleftrightarrow>
    pv_tenant_id p = pv_tenant_id p' \<and> ad_policy_id d = ad_policy_id d' \<and>
    ad_policy_version d = ad_policy_version d' \<and> ad_source_kind d = ad_source_kind d' \<and>
    ad_subject_id d = ad_subject_id d' \<and> ad_source_revision d = ad_source_revision d'"
proof -
  obtain a a' where d: "d = decision_of sha p s active a" "d' = decision_of sha p' s' active' a'"
    using assms(1,2) by (auto simp: evaluate_alert_total split: if_splits)
  have apart: "\<forall>x \<in> set (decision_parts p s) \<union> set (decision_parts p' s'). unit_separator \<notin> set x"
    using decision_parts_apart assms(3,4) by blast
  have same: "joined unit_separator (decision_parts p s) = joined unit_separator (decision_parts p' s') \<longleftrightarrow>
      decision_parts p s = decision_parts p' s'"
    by (rule joined_inject [OF _ _ apart]) (simp_all add: decision_parts_def)
  have ids: "ad_decision_id d = ad_decision_id d' \<longleftrightarrow> sha (hashed_subject p s) = sha (hashed_subject p' s')"
    unfolding d decision_of_def Let_def digest_of_def hashed_subject_def by simp
  have subjects: "decision_parts p s = decision_parts p' s' \<longleftrightarrow>
      pv_tenant_id p = pv_tenant_id p' \<and> ad_policy_id d = ad_policy_id d' \<and>
      ad_policy_version d = ad_policy_version d' \<and> ad_source_kind d = ad_source_kind d' \<and>
      ad_subject_id d = ad_subject_id d' \<and> ad_source_revision d = ad_source_revision d'"
    unfolding d decision_of_def Let_def decision_parts_def by (simp add: int_text_inj)
  show ?thesis
    unfolding ids subjects [symmetric] same [symmetric]
    using inj_on_eq_iff [OF assms(5)] by (simp add: hashed_subject_def utf8_injective)
qed

section \<open>Evaluations that decide\<close>

definition sample_policy :: policy_version where
  "sample_policy =
     \<lparr>pv_tenant_id = ''t1'', pv_policy_id = ''p1'', pv_policy_version = 1,
      pv_source_kind = ''monitoring_problem'', pv_content_hash = ''h'',
      pv_problem_min_severity = Some ''warning'', pv_health_classes = [],
      pv_monitoring_source_id = None, pv_monitoring_resource_id = None\<rparr>"

definition sample_state :: source_state where
  "sample_state =
     \<lparr>st_tenant_id = ''t1'', st_source_kind = ''monitoring_problem'', st_subject_id = ''x1'',
      st_monitoring_source_id = ''s1'', st_monitoring_resource_id = ''r1'', st_instance_generation = ''g1'',
      st_active_instance_generation = ''g1'', st_source_evidence_state = ''current'',
      st_projection_evidence_state = ''current'', st_projection_revision = 5,
      st_problem_state = Some ''active'', st_severity_class = Some ''critical'', st_health_class = None\<rparr>"

definition sample_effects :: "alert_decision list alert_effects" where
  "sample_effects =
     \<lparr>ae_current_policy = (\<lambda>_ _ _. returnS (sample_policy, True)),
      ae_current_source = (\<lambda>_ _. returnS sample_state), ae_active_alert = (\<lambda>_ _. returnS None),
      ae_apply_decision = (\<lambda>d. bindS (modifyS (Cons d)) (\<lambda>_. returnS PNull))\<rparr>"

lemma sample_admissible: "decision_admissible sample_policy sample_state None"
  by (simp add: decision_admissible_def valid_policy_def known_severity_def severity_order_def
      sample_policy_def sample_state_def)

lemma sample_condition: "policy_condition sample_policy sample_state"
  by (simp add: policy_condition_def state_current_def selects_def severity_rank_def severity_order_def
      sample_policy_def sample_state_def)

lemma sample_current: "state_current sample_state"
  by (simp add: state_current_def sample_state_def)

lemma sample_alert_created:
  "\<exists>d. evaluate_subject (map char_of) sample_effects ''t1'' ''p1'' 1 ''x1'' [] = (Inr PNull, [d])"
  using sample_admissible sample_condition sample_current
  by (simp add: evaluate_subject_def sample_effects_def evaluate_alert_total chosen_action_def
      decision_of_def Let_def bindS_apply)

theorem alert_follows_current_evidence_witness:
  "\<exists>d. ad_alert_action d = AlertCreate \<and> ae_apply_decision sample_effects d [] = (Inr PNull, [d])"
proof -
  obtain d where "evaluate_subject (map char_of) sample_effects ''t1'' ''p1'' 1 ''x1'' [] = (Inr PNull, [d])"
    using sample_alert_created by blast
  from alert_follows_current_evidence [OF this] sample_condition show ?thesis
    by (auto simp: sample_effects_def)
qed

theorem decision_id_binds_subject_witness:
  "\<exists>d d'. evaluate_alert (map char_of) sample_policy sample_state None True = Inr d \<and>
     evaluate_alert (map char_of) sample_policy sample_state None False = Inr d' \<and>
     ad_alert_action d \<noteq> ad_alert_action d' \<and> ad_decision_id d = ad_decision_id d'"
proof -
  obtain d d' where d: "evaluate_alert (map char_of) sample_policy sample_state None True = Inr d"
    "evaluate_alert (map char_of) sample_policy sample_state None False = Inr d'"
    and forms: "d = decision_of (map char_of) sample_policy sample_state None AlertCreate"
      "d' = decision_of (map char_of) sample_policy sample_state None AlertNone"
    using sample_admissible sample_condition sample_current
    by (simp add: evaluate_alert_total chosen_action_def)
  have "separated sample_policy sample_state" by code_simp
  then have "ad_decision_id d = ad_decision_id d'"
    using decision_id_binds_subject [OF d] forms by (simp add: decision_of_def Let_def)
  then show ?thesis using d forms by (auto simp: decision_of_def Let_def)
qed

end
