(* ===== verification/Alert_Transport.thy ===== *)
theory Alert_Transport
  imports Views Execution
begin

text \<open>
  src/apps/g6-monitoring-alerting-transport/consumer.py: the consumption of a monitoring event
  by alerting, from the envelope over the durable receipt and the current execution
  admission to the completion of a claim.
\<close>

section \<open>Envelopes\<close>

definition consumer_contract :: string where "consumer_contract = ''alerting.monitoring-resync''"
definition problem_contract :: string where "problem_contract = ''monitoring.problem-state.changed''"
definition health_contract :: string where "health_contract = ''monitoring.health-projection.changed''"

record monitoring_envelope =
  me_producer_message_scope :: string
  me_message_id :: string
  me_message_class :: string
  me_contract_name :: string
  me_contract_version :: string
  me_producer :: string
  me_producer_generation :: "string option"
  me_scope_class :: string
  me_tenant_id :: string
  me_subject_type :: string
  me_subject_id :: string
  me_created_at :: "datetime option"
  me_operation_id :: "string option"
  me_not_before :: "datetime option"
  me_deadline :: "datetime option"
  me_correlation_id :: string
  me_causation_id :: string
  me_data_classification :: string
  me_serialization_profile_id :: string
  me_encoded_payload :: "nat list"

definition valid_envelope :: "monitoring_envelope \<Rightarrow> bool" where
  "valid_envelope e \<longleftrightarrow>
     me_contract_name e \<in> {problem_contract, health_contract} \<and>
     me_message_class e = ''integration_event'' \<and> me_contract_version e = ''1'' \<and>
     me_producer e = ''Monitoring'' \<and> me_producer_generation e = None \<and>
     me_scope_class e = ''tenant'' \<and> me_data_classification e = ''confidential_tenant'' \<and>
     me_serialization_profile_id e = ''jsonb-text-utf8@1'' \<and> me_created_at e = None \<and>
     me_operation_id e = None \<and> me_not_before e = None \<and> me_deadline e = None \<and>
     list_all (\<lambda>(v, bound). bounded_text bound v)
       [(me_producer_message_scope e, 512), (me_message_id e, 1024), (me_tenant_id e, 512),
        (me_subject_type e, 128), (me_subject_id e, 1024), (me_correlation_id e, 1024),
        (me_causation_id e, 1024)] \<and>
     length (me_encoded_payload e) \<le> 16384 \<and>
     (me_contract_name e = problem_contract \<longrightarrow> me_subject_type e = ''monitoring_problem'') \<and>
     (me_contract_name e = health_contract \<longrightarrow> me_subject_type e = ''monitoring_resource'')"

section \<open>Receipts and ports\<close>

record receipt_identity =
  ri_message_identity_scope :: string
  ri_message_id :: string
  ri_tenant_id :: string

definition scoped_identity_of :: "receipt_identity \<Rightarrow> scoped_message_identity res" where
  "scoped_identity_of i = construct valid_scoped_identity ValueError
     \<lparr>si_consumer_contract = consumer_contract,
      si_message_identity_scope = ri_message_identity_scope i, si_message_id = ri_message_id i,
      si_tenant_id = Some (ri_tenant_id i)\<rparr>"

record claim_evidence =
  ce_executor_id :: string
  ce_execution_generation :: int

record 's transport_port =
  tp_admit :: "monitoring_envelope \<Rightarrow> ('s, receipt_identity \<times> string) op"
  tp_claim ::
    "receipt_identity \<Rightarrow> string \<Rightarrow> int \<Rightarrow> execution_admission \<Rightarrow> ('s, string \<times> claim_evidence option) op"
  tp_complete :: "receipt_identity \<Rightarrow> claim_evidence \<Rightarrow> ('s, payload) op"

record 's alerting_transport =
  at_port :: "'s transport_port"
  at_execution_authority :: execution_authority
  at_executor_id :: string
  at_claim_seconds :: int

definition alerting_transport_init :: "'s alerting_transport \<Rightarrow> 's alerting_transport res" where
  "alerting_transport_init w =
     bindR (ensure (bounded_text 512 (at_executor_id w)) ValueError) (\<lambda>_.
     bindR (ensure (1 \<le> at_claim_seconds w \<and> at_claim_seconds w \<le> 300) ValueError) (\<lambda>_. Inr w))"

section \<open>Consumption\<close>

definition duplicate_reply :: "string \<Rightarrow> payload" where
  "duplicate_reply state = PObj [(''receipt_state'', PText state), (''duplicate'', PFlag True)]"

definition settled_receipts :: "string list" where
  "settled_receipts = [''completed'', ''reconciliation_required'', ''quarantined'', ''failed_terminal'',
     ''processing'']"

definition identity_of_envelope :: "receipt_identity \<Rightarrow> monitoring_envelope \<Rightarrow> bool" where
  "identity_of_envelope i e \<longleftrightarrow>
     ri_message_identity_scope i = me_producer_message_scope e \<and> ri_message_id i = me_message_id e \<and>
     ri_tenant_id i = me_tenant_id e"

definition consumer_request :: "receipt_identity \<Rightarrow> execution_request res" where
  "consumer_request i =
     bindR (scoped_identity_of i) (\<lambda>scoped.
     execution_request_init
       \<lparr>er_authority_contract = consumer_contract, er_runtime_profile_id = ''runtime.worker@1'',
        er_tenant_id = Some (ri_tenant_id i), er_message_identity = Some scoped, er_operation_id = None\<rparr>)"

definition completion_supported :: "payload \<Rightarrow> bool" where
  "completion_supported v \<longleftrightarrow>
     field ''receipt_state'' v \<in> {Some (PText ''completed''), Some (PText ''reconciliation_required'')}"

definition consume_claimed ::
  "'s alerting_transport \<Rightarrow> receipt_identity \<Rightarrow> execution_admission \<Rightarrow> ('s, payload) op" where
  "consume_claimed w i a =
     bindS (tp_claim (at_port w) i (at_executor_id w) (at_claim_seconds w) a) (\<lambda>(state, claim).
     case (state = ''processing'', claim) of
       (True, Some c) \<Rightarrow>
         bindS (tp_complete (at_port w) i c) (\<lambda>result.
         thenS (ensureS (completion_supported result) RuntimeError) (returnS result))
     | _ \<Rightarrow> returnS (duplicate_reply state))"

definition consume :: "'s alerting_transport \<Rightarrow> monitoring_envelope \<Rightarrow> ('s, payload) op" where
  "consume w e =
     thenS (ensureS (valid_envelope e) ValueError)
    (bindS (tp_admit (at_port w) e) (\<lambda>(i, state).
     thenS (ensureS (identity_of_envelope i e) RuntimeError)
    (if state \<in> set settled_receipts then returnS (duplicate_reply state)
     else thenS (ensureS (state = ''admitted'') RuntimeError)
    (bindS (liftS (consumer_request i)) (\<lambda>request.
     bindS (liftS (require_current_execution (at_execution_authority w) request)) (\<lambda>a.
     thenS (ensureS (ea_tenant_context a \<noteq> None) RuntimeError)
    (consume_claimed w i a)))))))"

section \<open>What a consumption promises\<close>

lemma consume_claimed_returns:
  "consume_claimed w i a s = (Inr v, t) \<longleftrightarrow>
     (\<exists>state claim u. tp_claim (at_port w) i (at_executor_id w) (at_claim_seconds w) a s =
         (Inr (state, claim), u) \<and>
       (case claim of
          Some c \<Rightarrow> if state = ''processing''
            then tp_complete (at_port w) i c u = (Inr v, t) \<and> completion_supported v
            else v = duplicate_reply state \<and> t = u
        | None \<Rightarrow> v = duplicate_reply state \<and> t = u))"
proof (cases "tp_claim (at_port w) i (at_executor_id w) (at_claim_seconds w) a s")
  case (Pair r u)
  show ?thesis
  proof (cases r)
    case (Inl x)
    then show ?thesis by (simp add: consume_claimed_def Pair)
  next
    case (Inr y)
    obtain state claim where y: "y = (state, claim)" by (cases y)
    show ?thesis
    proof (cases claim)
      case None
      then show ?thesis by (auto simp: consume_claimed_def Pair Inr y split: bool.split)
    next
      case (Some c)
      have "bindS (tp_complete (at_port w) i c) (\<lambda>result.
          thenS (ensureS (completion_supported result) RuntimeError) (returnS result)) u = (Inr v, t) \<longleftrightarrow>
        tp_complete (at_port w) i c u = (Inr v, t) \<and> completion_supported v"
        unfolding sequence_returns ensureS_returns_iff by (auto simp: returnS_def)
      then show ?thesis
        by (cases "state = ''processing''") (auto simp: consume_claimed_def Pair Inr y Some)
    qed
  qed
qed

text \<open>C13: alerting completes a monitoring event only under an execution that is current for this
  very message. When a consumption returns, the envelope is canonical and its durable
  receipt names its message. A receipt that is settled or in progress is reported and
  nothing else is done. Otherwise the authority admitted, as current, the execution of
  exactly this message of exactly this tenant by the worker, with a context; the claim was
  asked for with that admission; and the effect was completed exactly if the claim was won,
  with the evidence of that claim, and its outcome is returned.\<close>

theorem transport_completes_admitted_claims:
  assumes "consume w e s = (Inr v, t)"
  shows "valid_envelope e \<and> (\<exists>i state u. tp_admit (at_port w) e s = (Inr (i, state), u) \<and>
    identity_of_envelope i e \<and>
    (if state \<in> set settled_receipts then v = duplicate_reply state \<and> t = u
     else \<exists>f a request claim_state claim u'. state = ''admitted'' \<and> consumer_request i = Inr request \<and>
       at_execution_authority w = Some f \<and> f request = Returned a \<and> ea_request a = request \<and>
       ea_current a \<and> ea_tenant_context a \<noteq> None \<and>
       er_tenant_id request = Some (me_tenant_id e) \<and>
       (\<exists>scoped. er_message_identity request = Some scoped \<and> si_message_id scoped = me_message_id e \<and>
          si_message_identity_scope scoped = me_producer_message_scope e) \<and>
       tp_claim (at_port w) i (at_executor_id w) (at_claim_seconds w) a u = (Inr (claim_state, claim), u') \<and>
       (case claim of
          Some c \<Rightarrow> if claim_state = ''processing''
            then tp_complete (at_port w) i c u' = (Inr v, t) \<and> completion_supported v
            else v = duplicate_reply claim_state \<and> t = u'
        | None \<Rightarrow> v = duplicate_reply claim_state \<and> t = u')))"
proof -
  let ?settle = "\<lambda>i state. if state \<in> set settled_receipts then returnS (duplicate_reply state)
     else thenS (ensureS (state = ''admitted'') RuntimeError)
    (bindS (liftS (consumer_request i)) (\<lambda>request.
     bindS (liftS (require_current_execution (at_execution_authority w) request)) (\<lambda>a.
     thenS (ensureS (ea_tenant_context a \<noteq> None) RuntimeError)
    (consume_claimed w i a))))"
  from assms obtain x u where x: "valid_envelope e" "tp_admit (at_port w) e s = (Inr x, u)"
    "(case x of (i, state) \<Rightarrow> thenS (ensureS (identity_of_envelope i e) RuntimeError) (?settle i state)) u = (Inr v, t)"
    unfolding consume_def sequence_returns ensureS_returns_iff by blast
  obtain i state where i: "x = (i, state)" by (cases x)
  from x(3) have rest: "identity_of_envelope i e" "?settle i state u = (Inr v, t)"
    unfolding i prod.case sequence_returns ensureS_returns_iff by blast+
  show ?thesis
  proof (cases "state \<in> set settled_receipts")
    case True
    then show ?thesis using x(1,2) rest i by (auto simp: returnS_def)
  next
    case False
    from rest(2) False obtain request a where a: "state = ''admitted''" "consumer_request i = Inr request"
      "require_current_execution (at_execution_authority w) request = Inr a" "ea_tenant_context a \<noteq> None"
      "consume_claimed w i a u = (Inr v, t)"
      unfolding if_not_P [OF False] sequence_returns liftS_returns_iff ensure_Inr_iff by blast
    from a(2) rest(1) have request: "er_tenant_id request = Some (me_tenant_id e)"
      "\<exists>scoped. er_message_identity request = Some scoped \<and> si_message_id scoped = me_message_id e \<and>
         si_message_identity_scope scoped = me_producer_message_scope e"
      by (auto simp: consumer_request_def scoped_identity_of_def bindR_Inr_iff construct_Inr_iff
          execution_request_init_def identity_of_envelope_def)
    from a(3) obtain f where "at_execution_authority w = Some f" "f request = Returned a"
      "ea_request a = request" "ea_current a"
      unfolding require_current_execution_Inr_iff by blast
    then show ?thesis
      using x(1,2) rest(1) False i a(1,2,4) request a(5) unfolding consume_claimed_returns
      by (intro conjI exI [of _ i] exI [of _ state] exI [of _ u]) auto
  qed
qed

text \<open>
  The envelope admits message ids of up to 1024 characters, but the execution request only
  those of the identifier grammar, with at most 256: a longer one is recorded by the port
  and then refused, every time.
\<close>

lemma long_message_refused:
  assumes "valid_envelope e" "tp_admit (at_port w) e s = (Inr (i, ''admitted''), u)"
    "identity_of_envelope i e" "256 < length (me_message_id e)"
  shows "consume w e s = (Inl ValueError, u)"
proof -
  have "\<not> is_identifier (ri_message_id i)"
    using assms(3,4) is_identifier_bounds [of "me_message_id e"] by (auto simp: identity_of_envelope_def)
  then have "consumer_request i = Inl ValueError"
    by (simp add: consumer_request_def scoped_identity_of_def construct_def valid_scoped_identity_def)
  then show ?thesis
    using assms(1-3) by (simp add: consume_def settled_receipts_def)
qed

section \<open>A message that is completed\<close>

definition sample_envelope :: monitoring_envelope where
  "sample_envelope =
     \<lparr>me_producer_message_scope = ''scope'', me_message_id = ''m1'',
      me_message_class = ''integration_event'', me_contract_name = problem_contract,
      me_contract_version = ''1'', me_producer = ''Monitoring'', me_producer_generation = None,
      me_scope_class = ''tenant'', me_tenant_id = ''t1'', me_subject_type = ''monitoring_problem'',
      me_subject_id = ''x1'', me_created_at = None, me_operation_id = None, me_not_before = None,
      me_deadline = None, me_correlation_id = ''c'', me_causation_id = ''c'',
      me_data_classification = ''confidential_tenant'',
      me_serialization_profile_id = ''jsonb-text-utf8@1'', me_encoded_payload = []\<rparr>"

definition sample_receipt :: receipt_identity where
  "sample_receipt =
     \<lparr>ri_message_identity_scope = ''scope'', ri_message_id = ''m1'', ri_tenant_id = ''t1''\<rparr>"

definition sample_claim :: claim_evidence where
  "sample_claim = \<lparr>ce_executor_id = ''w1'', ce_execution_generation = 1\<rparr>"

definition sample_context :: tenant_context where
  "sample_context =
     \<lparr>tc_tenant_id = ''t1'', tc_principal_id = ''p1'', tc_principal_kind = InternalServicePrincipal,
      tc_principal_credential_generation = ''g'', tc_cell_id = ''c'', tc_placement_version = ''v'',
      tc_runtime_generation = ''r'', tc_runtime_profile_id = ''runtime.worker@1'',
      tc_runtime_isolation_class = ''i'', tc_configuration_generation = ''k'',
      tc_workload_credential_generation = ''w'', tc_network_policy_generation = ''n'',
      tc_environment_class = EnvValidation, tc_isolation_class = ''i'', tc_fence_scope_id = ''f'',
      tc_fence_epoch = 1, tc_constructed_at = Aware (At 0), tc_membership_id = None,
      tc_authorization_context = None, tc_request_id = None, tc_correlation_id = None,
      tc_causation_id = None, tc_operation_id = None\<rparr>"

definition sample_transport :: "nat alerting_transport" where
  "sample_transport =
     \<lparr>at_port =
        \<lparr>tp_admit = (\<lambda>_. returnS (sample_receipt, ''admitted'')),
         tp_claim = (\<lambda>_ _ _ _. returnS (''processing'', Some sample_claim)),
         tp_complete = (\<lambda>_ _ n. (Inr (PObj [(''receipt_state'', PText ''completed'')]), Suc n))\<rparr>,
      at_execution_authority = Some (\<lambda>r. Returned ((sample_admission r)\<lparr>ea_tenant_context := Some sample_context\<rparr>)),
      at_executor_id = ''w1'', at_claim_seconds = 30\<rparr>"

lemma sample_envelope_valid: "valid_envelope sample_envelope"
  by code_simp

lemma sample_consumption:
  "consume sample_transport sample_envelope 0 = (Inr (PObj [(''receipt_state'', PText ''completed'')]), 1)"
proof -
  have "\<not> isl (consumer_request sample_receipt)" by code_simp
  then obtain r where "consumer_request sample_receipt = Inr r"
    by (cases "consumer_request sample_receipt") auto
  moreover have "identity_of_envelope sample_receipt sample_envelope" by code_simp
  ultimately show ?thesis
    using sample_envelope_valid
    by (simp add: consume_def sample_transport_def settled_receipts_def require_current_execution_def
        sample_admission_def consume_claimed_def completion_supported_def)
qed

theorem transport_completes_admitted_claims_witness:
  "\<exists>request. consumer_request sample_receipt = Inr request \<and> er_tenant_id request = Some ''t1''"
  using transport_completes_admitted_claims [OF sample_consumption]
  by (auto simp: sample_transport_def settled_receipts_def sample_envelope_def)

end
