(* ===== verification/Provider_Callback.thy ===== *)
theory Provider_Callback
  imports Csrf Views
begin

text \<open>
  src/apps/g9-notification-delivery/callback.py: the admission of a provider's callback. HMAC,
  SHA-256 and \<open>json.loads\<close> are parameters; the clock is the second of the admission.
\<close>

section \<open>Routes and signatures\<close>

record callback_route =
  ro_provider_account_ref :: string
  ro_tenant_id :: string
  ro_secret :: "byte list"

definition hexdigest :: "byte list \<Rightarrow> string" where
  "hexdigest bs = concat (map (\<lambda>b. [hex_digit (unat b div 16), hex_digit (unat b mod 16)]) bs)"

text \<open>\<open>str(timestamp_epoch).encode() + b"." + body\<close>\<close>

definition signed_material :: "int \<Rightarrow> byte list \<Rightarrow> byte list" where
  "signed_material timestamp body = map of_nat (utf8 (int_text timestamp)) @ of_nat 46 # body"

definition evidence_kinds :: "string list" where
  "evidence_kinds = [''provider_accepted'', ''delivered'', ''external_read_observed'', ''failed'', ''unknown'']"

text \<open>The keys that are kept, when present with a scalar.\<close>

definition allowed_payload_keys :: "string list" where
  "allowed_payload_keys = [''status'', ''event_type'', ''error_code'', ''provider_timestamp'']"

fun scalar_payload :: "payload \<Rightarrow> bool" where
  "scalar_payload (PArr _) = False"
| "scalar_payload (PObj _) = False"
| "scalar_payload _ = True"

definition minimized :: "(string \<times> payload) list \<Rightarrow> (string \<times> payload) list" where
  "minimized p = concat (map (\<lambda>k. case map_of p k of
     Some v \<Rightarrow> if scalar_payload v then [(k, v)] else [] | None \<Rightarrow> []) allowed_payload_keys)"

record callback_record =
  cb_tenant_id :: string
  cb_callback_ref :: string
  cb_provider_message_ref :: string
  cb_payload_hash :: string
  cb_evidence_kind :: string
  cb_trusted_route_ref :: string
  cb_timestamp_epoch :: int
  cb_bounded_payload :: "(string \<times> payload) list"
  cb_provider_observed_at :: "datetime option"

record 's callback_boundary =
  bo_record :: "callback_record \<Rightarrow> ('s, payload) op"
  bo_routes :: "(string, callback_route) dict"
  bo_replay_window_seconds :: int
  bo_max_body_bytes :: int

record callback_request =
  rq_provider_account_ref :: string
  rq_callback_ref :: string
  rq_provider_message_ref :: string
  rq_evidence_kind :: string
  rq_body :: "byte list"
  rq_timestamp_epoch :: int
  rq_signature_hex :: string
  rq_provider_observed_at :: "datetime option"

section \<open>Admission\<close>

definition verified_payload ::
  "(byte list \<Rightarrow> byte list \<Rightarrow> byte list) \<Rightarrow> (byte list \<Rightarrow> payload res) \<Rightarrow> 's callback_boundary \<Rightarrow> int \<Rightarrow>
   callback_request \<Rightarrow> (callback_route \<times> (string \<times> payload) list) res" where
  "verified_payload mac loads w now q =
     (case map_of (bo_routes w) (rq_provider_account_ref q) of
        None \<Rightarrow> Inl PermissionError
      | Some route \<Rightarrow>
          bindR (ensure (int (length (rq_body q)) \<le> bo_max_body_bytes w) ValueError) (\<lambda>_.
          bindR (ensure (\<bar>now - rq_timestamp_epoch q\<bar> \<le> bo_replay_window_seconds w) PermissionError) (\<lambda>_.
          bindR (compare_digest
                   (hexdigest (mac (ro_secret route) (signed_material (rq_timestamp_epoch q) (rq_body q))))
                   (rq_signature_hex q)) (\<lambda>equal.
          bindR (ensure equal PermissionError) (\<lambda>_.
          bindR (loads (rq_body q)) (\<lambda>v.
          case v of PObj fs \<Rightarrow> Inr (route, minimized fs) | _ \<Rightarrow> Inl ValueError))))))"

definition admit_callback ::
  "(byte list \<Rightarrow> byte list \<Rightarrow> byte list) \<Rightarrow> (byte list \<Rightarrow> string) \<Rightarrow> (byte list \<Rightarrow> payload res) \<Rightarrow>
   's callback_boundary \<Rightarrow> int \<Rightarrow> callback_request \<Rightarrow> ('s, payload) op" where
  "admit_callback mac sha loads w now q =
     bindS (liftS (verified_payload mac loads w now q)) (\<lambda>(route, kept).
     thenS (ensureS (rq_evidence_kind q \<in> set evidence_kinds) ValueError)
    (bo_record w
       \<lparr>cb_tenant_id = ro_tenant_id route, cb_callback_ref = rq_callback_ref q,
        cb_provider_message_ref = rq_provider_message_ref q, cb_payload_hash = sha (rq_body q),
        cb_evidence_kind = rq_evidence_kind q, cb_trusted_route_ref = rq_provider_account_ref q,
        cb_timestamp_epoch = rq_timestamp_epoch q, cb_bounded_payload = kept,
        cb_provider_observed_at = rq_provider_observed_at q\<rparr>))"

section \<open>What a signature covers\<close>

lemma hex_pair: "n < 16 \<Longrightarrow> hex_value (hex_digit n) = n"
  by (rule hex_value_digit)

lemma hexdigest_inj: "hexdigest xs = hexdigest ys \<longleftrightarrow> xs = ys"
proof (induction xs arbitrary: ys)
  case Nil
  then show ?case by (cases ys) (simp_all add: hexdigest_def)
next
  case (Cons a xs)
  show ?case
  proof (cases ys)
    case Nil
    then show ?thesis by (simp add: hexdigest_def)
  next
    case [simp]: (Cons b zs)
    have digits: "hex_digit (unat a div 16) = hex_digit (unat b div 16) \<and>
        hex_digit (unat a mod 16) = hex_digit (unat b mod 16) \<longleftrightarrow> a = b"
    proof
      assume eq: "hex_digit (unat a div 16) = hex_digit (unat b div 16) \<and>
        hex_digit (unat a mod 16) = hex_digit (unat b mod 16)"
      have "unat x div 16 < 16" "unat x mod 16 < 16" for x :: byte
        using byte_bound [of x] by simp_all
      then have "unat a div 16 = unat b div 16" "unat a mod 16 = unat b mod 16"
        using eq by (metis hex_pair)+
      then have "unat a = unat b" by (metis div_mult_mod_eq)
      then show "a = b" by (simp add: word_unat_eq_iff)
    qed simp
    have "hexdigest (a # xs) = hexdigest ys \<longleftrightarrow>
        (hex_digit (unat a div 16) = hex_digit (unat b div 16) \<and>
         hex_digit (unat a mod 16) = hex_digit (unat b mod 16)) \<and> hexdigest xs = hexdigest zs"
      by (auto simp: hexdigest_def)
    then show ?thesis using digits Cons.IH by simp
  qed
qed

lemma hexdigest_ascii: "is_ascii (hexdigest bs)"
proof -
  have "n < 16 \<Longrightarrow> (of_char (hex_digit n) :: nat) < 128" for n by (simp add: hex_digit_def)
  moreover have "unat b div 16 < 16" "unat b mod 16 < 16" for b :: byte using byte_bound [of b] by simp_all
  ultimately show ?thesis by (auto simp: is_ascii_def hexdigest_def list_all_iff)
qed

text \<open>Digits and a sign, then the separator: the two parts can be told apart.\<close>

lemma int_text_ascii: "c \<in> set (int_text i) \<Longrightarrow> of_char c < (128 :: nat) \<and> of_char c \<noteq> (46 :: nat)"
proof -
  have "c \<in> set (nat_digits n) \<Longrightarrow> of_char c < (128 :: nat) \<and> of_char c \<noteq> (46 :: nat)" for n
    using nat_digits_chars [of n] by (auto simp: list_all_iff is_digit_def code_in_def)
  then show "c \<in> set (int_text i) \<Longrightarrow> of_char c < (128 :: nat) \<and> of_char c \<noteq> (46 :: nat)"
    by (auto simp: int_text_def split: if_splits)
qed

lemma utf8_ascii: "(\<And>c. c \<in> set s \<Longrightarrow> of_char c < (128 :: nat)) \<Longrightarrow> utf8 s = map of_char s"
  by (induction s) (simp_all add: utf8_def utf8_char_def)

lemma signed_prefix_apart:
  fixes d :: byte
  assumes "d \<notin> set xs" "d \<notin> set ys"
  shows "xs @ d # bs = ys @ d # cs \<longleftrightarrow> xs = ys \<and> bs = cs"
proof
  assume eq: "xs @ d # bs = ys @ d # cs"
  have "takeWhile (\<lambda>x. x \<noteq> d) (zs @ d # ws) = zs" if "d \<notin> set zs" for zs ws
    using that by (induction zs) auto
  then have "xs = ys" using eq assms by metis
  then show "xs = ys \<and> bs = cs" using eq by simp
qed simp

lemma byte_of_small: "m < 256 \<Longrightarrow> n < 256 \<Longrightarrow> (of_nat m :: byte) = of_nat n \<longleftrightarrow> m = n"
  by (auto simp: word_unat_eq_iff unat_of_nat)

lemma signed_material_inj: "signed_material t b = signed_material t' b' \<longleftrightarrow> t = t' \<and> b = b'"
proof -
  let ?d = "\<lambda>i. map of_nat (utf8 (int_text i)) :: byte list"
  have digits: "?d i = map (\<lambda>c. of_nat (of_char c)) (int_text i)" for i
    using utf8_ascii [of "int_text i"] int_text_ascii by (simp add: comp_def)
  have apart: "(of_nat 46 :: byte) \<notin> set (?d i)" for i
  proof
    assume "(of_nat 46 :: byte) \<in> set (?d i)"
    then obtain c where c: "c \<in> set (int_text i)" "(of_nat 46 :: byte) = of_nat (of_char c)"
      unfolding digits by auto
    then have "(46 :: nat) = of_char c"
      using int_text_ascii [OF c(1)] by (subst (asm) byte_of_small) simp_all
    then show False using int_text_ascii [OF c(1)] by simp
  qed
  have "?d t = ?d t' \<longleftrightarrow> t = t'"
  proof
    assume "?d t = ?d t'"
    then have eq: "map (\<lambda>c. of_nat (of_char c) :: byte) (int_text t) =
        map (\<lambda>c. of_nat (of_char c)) (int_text t')"
      unfolding digits .
    have "inj_on (\<lambda>c. of_nat (of_char c) :: byte) (set (int_text t) \<union> set (int_text t'))"
    proof (rule inj_onI)
      fix c d :: char
      assume "c \<in> set (int_text t) \<union> set (int_text t')" "d \<in> set (int_text t) \<union> set (int_text t')"
        "(of_nat (of_char c) :: byte) = of_nat (of_char d)"
      moreover have "of_char x < (256 :: nat)" for x :: char by simp
      ultimately have "(of_char c :: nat) = of_char d" using byte_of_small by blast
      then show "c = d" by simp
    qed
    with eq have "int_text t = int_text t'" by (rule map_inj_on)
    then show "t = t'" by (simp add: int_text_inj)
  qed simp
  then show ?thesis
    unfolding signed_material_def signed_prefix_apart [OF apart apart] by simp
qed

section \<open>What an admission proves, and what it does not\<close>

lemma compare_digest_hex:
  "compare_digest (hexdigest bs) x = Inr b \<longleftrightarrow> is_ascii x \<and> b = (hexdigest bs = x)"
  by (auto simp: compare_digest_def hexdigest_ascii)

lemma verified_payload_Inr_iff:
  "verified_payload mac loads w now q = Inr (route, kept) \<longleftrightarrow>
     map_of (bo_routes w) (rq_provider_account_ref q) = Some route \<and>
     int (length (rq_body q)) \<le> bo_max_body_bytes w \<and>
     \<bar>now - rq_timestamp_epoch q\<bar> \<le> bo_replay_window_seconds w \<and>
     rq_signature_hex q =
       hexdigest (mac (ro_secret route) (signed_material (rq_timestamp_epoch q) (rq_body q))) \<and>
     (\<exists>fs. loads (rq_body q) = Inr (PObj fs) \<and> kept = minimized fs)"
proof (cases "map_of (bo_routes w) (rq_provider_account_ref q)")
  case None
  then show ?thesis by (simp add: verified_payload_def)
next
  case (Some found)
  have parsed: "(case v of PObj fs \<Rightarrow> Inr (found, minimized fs) | _ \<Rightarrow> Inl ValueError) = Inr (route, kept) \<longleftrightarrow>
      (\<exists>fs. v = PObj fs \<and> found = route \<and> kept = minimized fs)" for v
    by (cases v) auto
  have signed: "(\<exists>equal. compare_digest (hexdigest bs) x = Inr equal \<and> ensure equal PermissionError = Inr u \<and> P) \<longleftrightarrow>
      x = hexdigest bs \<and> P" for bs x u P
    by (auto simp: compare_digest_hex ensure_Inr_iff hexdigest_ascii)
  show ?thesis
    unfolding verified_payload_def Some option.case bindR_Inr_iff parsed
    using signed by (auto simp: ensure_Inr_iff compare_digest_hex hexdigest_ascii)
qed

text \<open>C27: a callback is recorded only for the tenant of a trusted route whose secret signed this
  very body at this very second, within the replay window. What is recorded is the tenant
  and the account of the route, the digest of the body and at most the four allowed scalar
  fields of it. The signed bytes are those of no other pair of time and body.\<close>

theorem callback_signed_for_route:
  assumes "admit_callback mac sha loads w now q s = (Inr v, t)"
  shows "\<exists>route r. map_of (bo_routes w) (rq_provider_account_ref q) = Some route \<and>
    rq_signature_hex q =
      hexdigest (mac (ro_secret route) (signed_material (rq_timestamp_epoch q) (rq_body q))) \<and>
    (\<forall>time body. signed_material time body = signed_material (rq_timestamp_epoch q) (rq_body q) \<longleftrightarrow>
       time = rq_timestamp_epoch q \<and> body = rq_body q) \<and>
    \<bar>now - rq_timestamp_epoch q\<bar> \<le> bo_replay_window_seconds w \<and>
    int (length (rq_body q)) \<le> bo_max_body_bytes w \<and>
    cb_tenant_id r = ro_tenant_id route \<and> cb_trusted_route_ref r = rq_provider_account_ref q \<and>
    cb_payload_hash r = sha (rq_body q) \<and> rq_evidence_kind q \<in> set evidence_kinds \<and>
    (\<forall>(k, x) \<in> set (cb_bounded_payload r). k \<in> set allowed_payload_keys \<and> scalar_payload x) \<and>
    bo_record w r s = (Inr v, t)"
proof -
  from assms obtain route kept where p: "verified_payload mac loads w now q = Inr (route, kept)"
    "rq_evidence_kind q \<in> set evidence_kinds"
    and r: "bo_record w
       \<lparr>cb_tenant_id = ro_tenant_id route, cb_callback_ref = rq_callback_ref q,
        cb_provider_message_ref = rq_provider_message_ref q, cb_payload_hash = sha (rq_body q),
        cb_evidence_kind = rq_evidence_kind q, cb_trusted_route_ref = rq_provider_account_ref q,
        cb_timestamp_epoch = rq_timestamp_epoch q, cb_bounded_payload = kept,
        cb_provider_observed_at = rq_provider_observed_at q\<rparr> s = (Inr v, t)" (is "bo_record w ?r s = _")
    unfolding admit_callback_def
    by (auto simp: bindS_apply ensure_def split: sum.splits prod.splits if_splits)
  have "\<forall>(k, x) \<in> set kept. k \<in> set allowed_payload_keys \<and> scalar_payload x"
    using p(1) by (auto simp: verified_payload_Inr_iff minimized_def split: option.splits if_splits)
  then show ?thesis
    using p r unfolding verified_payload_Inr_iff
    by (intro exI [of _ route] exI [of _ ?r])
      (auto simp: signed_material_inj)
qed

text \<open>
  The signature covers the time and the body only. The event's identity, the message it is
  about and the kind of evidence come from other headers, so one signed request can be
  repeated within the window with any of them.
\<close>

theorem callback_evidence_unsigned:
  assumes "admit_callback mac sha loads w now q s = (Inr v, t)" "kind \<in> set evidence_kinds"
  shows "\<exists>(route :: callback_route) kept. admit_callback mac sha loads w now
      (q\<lparr>rq_callback_ref := ref, rq_provider_message_ref := message, rq_evidence_kind := kind\<rparr>) s' =
    bo_record w
      \<lparr>cb_tenant_id = ro_tenant_id route, cb_callback_ref = ref, cb_provider_message_ref = message,
       cb_payload_hash = sha (rq_body q), cb_evidence_kind = kind,
       cb_trusted_route_ref = rq_provider_account_ref q, cb_timestamp_epoch = rq_timestamp_epoch q,
       cb_bounded_payload = kept, cb_provider_observed_at = rq_provider_observed_at q\<rparr> s'"
proof -
  from assms(1) obtain route kept where p: "verified_payload mac loads w now q = Inr (route, kept)"
    unfolding admit_callback_def by (auto simp: bindS_apply split: sum.splits prod.splits)
  then have "verified_payload mac loads w now
      (q\<lparr>rq_callback_ref := ref, rq_provider_message_ref := message, rq_evidence_kind := kind\<rparr>) =
      Inr (route, kept)"
    by (simp add: verified_payload_Inr_iff)
  then show ?thesis
    using assms(2) by (intro exI [of _ route] exI [of _ kept]) (simp add: admit_callback_def)
qed

section \<open>A callback that is recorded\<close>

definition sample_route :: callback_route where
  "sample_route = \<lparr>ro_provider_account_ref = ''a1'', ro_tenant_id = ''t1'', ro_secret = [1, 2]\<rparr>"

definition sample_boundary :: "(callback_record list) callback_boundary" where
  "sample_boundary =
     \<lparr>bo_record = (\<lambda>r log. (Inr PNull, log @ [r])), bo_routes = [(''a1'', sample_route)],
      bo_replay_window_seconds = 300, bo_max_body_bytes = 16384\<rparr>"

definition sample_callback :: callback_request where
  "sample_callback =
     \<lparr>rq_provider_account_ref = ''a1'', rq_callback_ref = ''c1'', rq_provider_message_ref = ''m1'',
      rq_evidence_kind = ''failed'', rq_body = [123, 125], rq_timestamp_epoch = 1000,
      rq_signature_hex = hexdigest ([1, 2] @ signed_material 1000 [123, 125]),
      rq_provider_observed_at = None\<rparr>"

definition sample_log :: "callback_record list" where
  "sample_log =
     [\<lparr>cb_tenant_id = ''t1'', cb_callback_ref = ''c1'', cb_provider_message_ref = ''m1'',
       cb_payload_hash = [], cb_evidence_kind = ''failed'', cb_trusted_route_ref = ''a1'',
       cb_timestamp_epoch = 1000, cb_bounded_payload = [], cb_provider_observed_at = None\<rparr>]"

lemma sample_callback_admitted:
  "admit_callback (@) (\<lambda>_. []) (\<lambda>_. Inr (PObj [])) sample_boundary 1100 sample_callback [] =
     (Inr PNull, sample_log)"
proof -
  have "verified_payload (@) (\<lambda>_. Inr (PObj [])) sample_boundary 1100 sample_callback =
      Inr (sample_route, [])"
    by (simp add: verified_payload_Inr_iff sample_boundary_def sample_callback_def sample_route_def
        minimized_def allowed_payload_keys_def)
  moreover have "rq_evidence_kind sample_callback \<in> set evidence_kinds" by code_simp
  ultimately show ?thesis
    by (simp add: admit_callback_def sample_boundary_def sample_log_def)
      (simp add: sample_callback_def sample_route_def)
qed

theorem callback_signed_for_route_witness:
  "\<exists>r. bo_record sample_boundary r [] = (Inr PNull, sample_log) \<and> cb_tenant_id r = ''t1''"
  using callback_signed_for_route [OF sample_callback_admitted]
  by (auto simp: sample_boundary_def sample_callback_def sample_route_def)

theorem callback_evidence_unsigned_witness:
  "\<exists>r. admit_callback (@) (\<lambda>_. []) (\<lambda>_. Inr (PObj [])) sample_boundary 1100
     (sample_callback\<lparr>rq_callback_ref := ''c2'', rq_provider_message_ref := ''m2'',
        rq_evidence_kind := ''delivered''\<rparr>) sample_log = (Inr PNull, sample_log @ [r]) \<and>
     cb_evidence_kind r = ''delivered'' \<and> cb_provider_message_ref r = ''m2''"
  using callback_evidence_unsigned [OF sample_callback_admitted, where kind = "''delivered''" and ref = "''c2''"
      and message = "''m2''" and s' = sample_log]
  by (auto simp: sample_boundary_def evidence_kinds_def)

end
