(* ===== verification/Dispatch.thy ===== *)
theory Dispatch
  imports Views
begin

text \<open>
  The workers that perform external effects: src/apps/g9-notification-delivery/worker.py,
  src/apps/g10-itsm/worker.py and src/apps/g11-incident-response/worker.py. Each claims one
  candidate, calls its adapter and records what the adapter said. Dictionaries of ports and
  adapters are lists of fields.
\<close>

section \<open>Claim, effect and record\<close>

type_synonym fields = "(string \<times> payload) list"

text \<open>\<open>try: r = m() / except Exception: return handler(...)\<close>, then \<open>k(r)\<close>.\<close>

definition attemptS :: "('s, 'a) op \<Rightarrow> ('s, 'b) op \<Rightarrow> ('a \<Rightarrow> ('s, 'b) op) \<Rightarrow> ('s, 'b) op" where
  "attemptS m handler k = (\<lambda>s. case m s of (Inr v, t) \<Rightarrow> k v t | (Inl e, t) \<Rightarrow> handler t)"

lemma attemptS_steps [simp]:
  "m s = (Inr v, t) \<Longrightarrow> attemptS m handler k s = k v t"
  "m s = (Inl e, t) \<Longrightarrow> attemptS m handler k s = handler t"
  by (simp_all add: attemptS_def)

definition claimed_effect ::
  "('s, fields) op \<Rightarrow> string \<Rightarrow> ('s, 'r) op \<Rightarrow> ('s, fields) op \<Rightarrow> ('r \<Rightarrow> ('s, fields) op) \<Rightarrow>
   ('s, fields) op" where
  "claimed_effect claim won effect lost report =
     bindS claim (\<lambda>claimed.
     if map_of claimed ''state'' \<noteq> Some (PText won) then returnS claimed
     else attemptS effect lost report)"

text \<open>\<open>str(result.get("state", "unknown"))\<close>, or \<open>unknown\<close> if that is none of the states.\<close>

definition reported_state :: "string list \<Rightarrow> fields \<Rightarrow> string" where
  "reported_state known r =
     (case map_of r ''state'' of
        Some (PText x) \<Rightarrow> if x \<in> set known then x else ''unknown''
      | _ \<Rightarrow> ''unknown'')"

definition get_field :: "string \<Rightarrow> fields \<Rightarrow> payload" where
  "get_field k d = (case map_of d k of None \<Rightarrow> PNull | Some v \<Rightarrow> v)"

definition need_field :: "string \<Rightarrow> fields \<Rightarrow> payload res" where
  "need_field k d = (case map_of d k of None \<Rightarrow> Inl KeyError | Some v \<Rightarrow> Inr v)"

definition idle :: fields where "idle = [(''state'', PText ''idle'')]"

section \<open>Notifications\<close>

record 's dispatch_port =
  dp_next :: "string \<Rightarrow> ('s, fields option) op"
  dp_claim :: "string \<Rightarrow> payload \<Rightarrow> string \<Rightarrow> int \<Rightarrow> string \<Rightarrow> fields \<Rightarrow> ('s, fields) op"
  dp_complete :: "string \<Rightarrow> payload \<Rightarrow> string \<Rightarrow> string \<Rightarrow> payload \<Rightarrow> payload \<Rightarrow> ('s, fields) op"
  dp_reconcile :: "string \<Rightarrow> string \<Rightarrow> ('s, fields) op"
  dp_schedule_retry :: "string \<Rightarrow> string \<Rightarrow> ('s, fields) op"

record 's dispatcher =
  di_port :: "'s dispatch_port"
  di_version :: string
  di_send :: "fields \<Rightarrow> ('s, fields) op"
  di_executor_id :: string
  di_claim_seconds :: int

definition dispatch_states :: "string list" where
  "dispatch_states = [''sent'', ''provider_accepted'', ''delivered'', ''failed'', ''unknown'']"

definition dispatch :: "'s dispatcher \<Rightarrow> string \<Rightarrow> payload \<Rightarrow> fields \<Rightarrow> ('s, fields) op" where
  "dispatch w tenant outbox intent =
     bindS (liftS (need_field ''notification_intent_id'' intent)) (\<lambda>i.
     bindS (liftS (need_field ''payload_hash'' intent)) (\<lambda>h.
     claimed_effect
       (dp_claim (di_port w) tenant outbox (di_executor_id w) (di_claim_seconds w) (di_version w)
          [(''channel'', PText ''whatsapp_business@1''), (''notification_intent_id'', i),
           (''payload_hash'', h)])
       ''processing'' (di_send w intent)
       (dp_complete (di_port w) tenant outbox (di_executor_id w) ''unknown'' PNull
          (PText ''adapter_execution_unknown''))
       (\<lambda>r. dp_complete (di_port w) tenant outbox (di_executor_id w) (reported_state dispatch_states r)
          (get_field ''provider_message_ref'' r) (get_field ''failure_class'' r))))"

definition dispatch_next :: "'s dispatcher \<Rightarrow> string \<Rightarrow> ('s, fields) op" where
  "dispatch_next w tenant =
     bindS (dp_next (di_port w) tenant) (\<lambda>candidate.
     case candidate of
       None \<Rightarrow> returnS idle
     | Some intent \<Rightarrow>
         bindS (liftS (need_field ''dispatch_outbox_id'' intent)) (\<lambda>outbox.
         dispatch w tenant outbox intent))"

definition reconcile_expired_dispatch :: "'s dispatcher \<Rightarrow> string \<Rightarrow> string \<Rightarrow> ('s, fields) op" where
  "reconcile_expired_dispatch w tenant outbox = dp_reconcile (di_port w) tenant outbox"

definition reconcile_retry :: "'s dispatcher \<Rightarrow> string \<Rightarrow> string \<Rightarrow> ('s, fields) op" where
  "reconcile_retry w tenant intent = dp_schedule_retry (di_port w) tenant intent"

section \<open>Tickets\<close>

record 's sync_port =
  yp_next :: "string \<Rightarrow> ('s, fields option) op"
  yp_claim :: "string \<Rightarrow> payload \<Rightarrow> string \<Rightarrow> int \<Rightarrow> ('s, fields) op"
  yp_complete ::
    "string \<Rightarrow> payload \<Rightarrow> string \<Rightarrow> string \<Rightarrow> payload \<Rightarrow> fields \<Rightarrow> payload \<Rightarrow> ('s, fields) op"
  yp_schedule_retry :: "string \<Rightarrow> string \<Rightarrow> ('s, fields) op"
  yp_reconcile :: "string \<Rightarrow> string \<Rightarrow> ('s, fields) op"

record 's sync_worker =
  sy_port :: "'s sync_port"
  sy_version :: string
  sy_create_or_link :: "fields \<Rightarrow> payload \<Rightarrow> ('s, fields) op"
  sy_executor_id :: string
  sy_claim_seconds :: int

definition sync_states :: "string list" where "sync_states = [''linked'', ''failed'', ''unknown'']"

text \<open>The identity is looked up inside the \<open>try\<close>, the outbox before the claim.\<close>

definition sync_candidate :: "'s sync_worker \<Rightarrow> string \<Rightarrow> payload \<Rightarrow> fields \<Rightarrow> ('s, fields) op" where
  "sync_candidate w tenant outbox candidate =
     claimed_effect
       (yp_claim (sy_port w) tenant outbox (sy_executor_id w) (sy_claim_seconds w))
       ''dispatching''
       (bindS (liftS (need_field ''sync_identity'' candidate)) (\<lambda>i. sy_create_or_link w candidate i))
       (yp_complete (sy_port w) tenant outbox (sy_executor_id w) ''unknown'' PNull
          [(''adapter_version'', PText (sy_version w))] (PText ''adapter_execution_unknown''))
       (\<lambda>r. yp_complete (sy_port w) tenant outbox (sy_executor_id w) (reported_state sync_states r)
          (get_field ''provider_ticket_ref'' r)
          [(''adapter_version'', PText (sy_version w)), (''provider_status'', get_field ''provider_status'' r)]
          (get_field ''failure_class'' r))"

definition sync_next :: "'s sync_worker \<Rightarrow> string \<Rightarrow> ('s, fields) op" where
  "sync_next w tenant =
     bindS (yp_next (sy_port w) tenant) (\<lambda>found.
     case found of
       None \<Rightarrow> returnS idle
     | Some candidate \<Rightarrow>
         bindS (liftS (need_field ''sync_outbox_id'' candidate)) (\<lambda>outbox.
         sync_candidate w tenant outbox candidate))"

definition schedule_sync_retry :: "'s sync_worker \<Rightarrow> string \<Rightarrow> string \<Rightarrow> ('s, fields) op" where
  "schedule_sync_retry w tenant incident = yp_schedule_retry (sy_port w) tenant incident"

definition reconcile_expired_sync :: "'s sync_worker \<Rightarrow> string \<Rightarrow> string \<Rightarrow> ('s, fields) op" where
  "reconcile_expired_sync w tenant outbox = yp_reconcile (sy_port w) tenant outbox"

section \<open>Response actions\<close>

record 's action_port =
  xp_next :: "string \<Rightarrow> ('s, fields option) op"
  xp_claim :: "string \<Rightarrow> payload \<Rightarrow> string \<Rightarrow> int \<Rightarrow> ('s, fields) op"
  xp_complete :: "string \<Rightarrow> payload \<Rightarrow> string \<Rightarrow> string \<Rightarrow> payload \<Rightarrow> payload \<Rightarrow> ('s, fields) op"

type_synonym 's bridge = "payload \<Rightarrow> fields \<Rightarrow> ('s, fields) op"

record 's response_worker =
  rw_port :: "'s action_port"
  rw_create_ticket :: "'s bridge"
  rw_send_notification :: "'s bridge option"
  rw_executor_id :: string
  rw_claim_seconds :: int

definition response_states :: "string list" where
  "response_states = [''linked'', ''failed'', ''skipped'', ''unknown'']"

text \<open>\<open>int(candidate.get("attempts", 0))\<close>; \<open>to_int\<close> is \<open>int\<close> on values that are no integers.\<close>

definition attempts_of :: "(payload \<Rightarrow> int res) \<Rightarrow> fields \<Rightarrow> int res" where
  "attempts_of to_int c =
     (case map_of c ''attempts'' of None \<Rightarrow> Inr 0 | Some (PInt n) \<Rightarrow> Inr n | Some v \<Rightarrow> to_int v)"

definition action_kind_of :: "fields \<Rightarrow> payload" where
  "action_kind_of c = (case map_of c ''action_kind'' of None \<Rightarrow> PText ''open_ticket'' | Some v \<Rightarrow> v)"

definition event_of :: "fields \<Rightarrow> payload" where
  "event_of c = (case map_of c ''event'' of None \<Rightarrow> PObj [] | Some v \<Rightarrow> v)"

definition response_effect :: "'s response_worker \<Rightarrow> fields \<Rightarrow> ('s, fields) op" where
  "response_effect w c =
     (if action_kind_of c = PText ''open_ticket'' then rw_create_ticket w (event_of c) c
      else (case (action_kind_of c = PText ''notify'', rw_send_notification w) of
              (True, Some send) \<Rightarrow> send (event_of c) c
            | _ \<Rightarrow> returnS [(''state'', PText ''skipped''), (''failure_class'', PText ''no_adapter'')]))"

definition process_candidate ::
  "(payload \<Rightarrow> int res) \<Rightarrow> 's response_worker \<Rightarrow> string \<Rightarrow> payload \<Rightarrow> fields \<Rightarrow> ('s, fields) op" where
  "process_candidate to_int w tenant request c =
     claimed_effect
       (xp_claim (rw_port w) tenant request (rw_executor_id w) (rw_claim_seconds w))
       ''dispatching'' (response_effect w c)
       (bindS (liftS (attempts_of to_int c)) (\<lambda>n.
          if n + 1 < 3
          then xp_complete (rw_port w) tenant request (rw_executor_id w) ''pending'' PNull
                 (PText ''adapter_execution_transient'')
          else xp_complete (rw_port w) tenant request (rw_executor_id w) ''failed'' PNull
                 (PText ''adapter_execution_failed'')))
       (\<lambda>r. xp_complete (rw_port w) tenant request (rw_executor_id w) (reported_state response_states r)
          (get_field ''provider_ref'' r) (get_field ''failure_class'' r))"

definition process_next ::
  "(payload \<Rightarrow> int res) \<Rightarrow> 's response_worker \<Rightarrow> string \<Rightarrow> ('s, fields) op" where
  "process_next to_int w tenant =
     bindS (xp_next (rw_port w) tenant) (\<lambda>found.
     case found of
       None \<Rightarrow> returnS idle
     | Some c \<Rightarrow>
         bindS (liftS (need_field ''request_id'' c)) (\<lambda>request.
         process_candidate to_int w tenant request c))"

section \<open>What a worker promises\<close>

text \<open>The three outcomes of a claim.\<close>

lemma claimed_effect_outcomes:
  "claimed_effect claim won effect lost report s = (r, t) \<longleftrightarrow>
     (\<exists>e. claim s = (Inl e, t) \<and> r = Inl e) \<or>
     (\<exists>c. claim s = (Inr c, t) \<and> map_of c ''state'' \<noteq> Some (PText won) \<and> r = Inr c) \<or>
     (\<exists>c u. claim s = (Inr c, u) \<and> map_of c ''state'' = Some (PText won) \<and>
        ((\<exists>e w. effect u = (Inl e, w) \<and> lost w = (r, t)) \<or>
         (\<exists>v w. effect u = (Inr v, w) \<and> report v w = (r, t))))"
  by (auto simp: claimed_effect_def bindS_apply attemptS_def split: prod.splits sum.splits)

lemma claimed_effect_returns:
  "claimed_effect claim won effect lost report s = (Inr v, t) \<longleftrightarrow>
     (\<exists>c u. claim s = (Inr c, u) \<and>
        (if map_of c ''state'' \<noteq> Some (PText won) then v = c \<and> t = u
         else (\<exists>e u'. effect u = (Inl e, u') \<and> lost u' = (Inr v, t)) \<or>
           (\<exists>r u'. effect u = (Inr r, u') \<and> report r u' = (Inr v, t))))"
proof (cases "claim s")
  case (Pair r u)
  show ?thesis
    by (cases r; cases "effect u"; cases "fst (effect u)") (auto simp: claimed_effect_def Pair)
qed

text \<open>What is recorded of a call of the adapter: an exception leaves the outcome unknown.\<close>

definition recorded_dispatch :: "fields res \<Rightarrow> string \<times> payload \<times> payload" where
  "recorded_dispatch x =
     (case x of
        Inl _ \<Rightarrow> (''unknown'', PNull, PText ''adapter_execution_unknown'')
      | Inr r \<Rightarrow> (reported_state dispatch_states r, get_field ''provider_message_ref'' r,
          get_field ''failure_class'' r))"

lemma need_field_Inr_iff: "need_field k d = Inr v \<longleftrightarrow> map_of d k = Some v"
  by (auto simp: need_field_def split: option.splits)

lemma dispatch_returns:
  "dispatch w tenant outbox intent s = (Inr v, t) \<longleftrightarrow>
     (\<exists>i h c u. map_of intent ''notification_intent_id'' = Some i \<and> map_of intent ''payload_hash'' = Some h \<and>
        dp_claim (di_port w) tenant outbox (di_executor_id w) (di_claim_seconds w) (di_version w)
          [(''channel'', PText ''whatsapp_business@1''), (''notification_intent_id'', i),
           (''payload_hash'', h)] s = (Inr c, u) \<and>
        (if map_of c ''state'' \<noteq> Some (PText ''processing'') then v = c \<and> t = u
         else \<exists>x u'. di_send w intent u = (x, u') \<and>
           (case recorded_dispatch x of (state, ref, failure) \<Rightarrow> state \<in> set dispatch_states \<and>
              dp_complete (di_port w) tenant outbox (di_executor_id w) state ref failure u' = (Inr v, t))))"
proof -
  have known: "reported_state dispatch_states r \<in> set dispatch_states" "''unknown'' \<in> set dispatch_states" for r
    by (auto simp: reported_state_def dispatch_states_def split: option.split payload.split)
  let ?lost = "dp_complete (di_port w) tenant outbox (di_executor_id w) ''unknown'' PNull
    (PText ''adapter_execution_unknown'')"
  let ?report = "\<lambda>r. dp_complete (di_port w) tenant outbox (di_executor_id w)
    (reported_state dispatch_states r) (get_field ''provider_message_ref'' r) (get_field ''failure_class'' r)"
  have eq: "(\<exists>e u'. di_send w intent u = (Inl e, u') \<and> ?lost u' = (Inr v, t)) \<or>
      (\<exists>r u'. di_send w intent u = (Inr r, u') \<and> ?report r u' = (Inr v, t)) \<longleftrightarrow>
    (\<exists>x u'. di_send w intent u = (x, u') \<and>
       (case recorded_dispatch x of (state, ref, failure) \<Rightarrow> state \<in> set dispatch_states \<and>
          dp_complete (di_port w) tenant outbox (di_executor_id w) state ref failure u' = (Inr v, t)))" for u
    using known by (cases "di_send w intent u"; cases "fst (di_send w intent u)") (auto simp: recorded_dispatch_def)
  show ?thesis
    unfolding dispatch_def bindS_returns_iff liftS_returns_iff need_field_Inr_iff claimed_effect_returns eq
    by blast
qed

text \<open>C14: a notification is sent only under a claim, once, and what is recorded is what is known.
  A run of the dispatcher that returns found nothing to do; or the claim of the candidate
  was not won and nothing was sent; or the adapter was called exactly once, in the state
  after the claim, for the candidate that was claimed, and its outcome was recorded exactly
  once, for the same claim: the state it reported if that is one of the five known ones,
  and \<open>unknown\<close> when it reported another one or raised.\<close>

theorem dispatch_sends_once_under_claim:
  assumes "dispatch_next w tenant s = (Inr v, t)"
  shows "(dp_next (di_port w) tenant s = (Inr None, t) \<and> v = idle) \<or>
    (\<exists>intent u0 outbox evidence c u.
       dp_next (di_port w) tenant s = (Inr (Some intent), u0) \<and>
       map_of intent ''dispatch_outbox_id'' = Some outbox \<and>
       dp_claim (di_port w) tenant outbox (di_executor_id w) (di_claim_seconds w) (di_version w)
         evidence u0 = (Inr c, u) \<and>
       map_of evidence ''payload_hash'' = map_of intent ''payload_hash'' \<and>
       (if map_of c ''state'' \<noteq> Some (PText ''processing'') then v = c \<and> t = u
        else \<exists>x u'. di_send w intent u = (x, u') \<and>
          (case recorded_dispatch x of (state, ref, failure) \<Rightarrow> state \<in> set dispatch_states \<and>
             dp_complete (di_port w) tenant outbox (di_executor_id w) state ref failure u' = (Inr v, t))))"
proof -
  from assms obtain candidate u0 where next_one: "dp_next (di_port w) tenant s = (Inr candidate, u0)"
    and rest: "(case candidate of None \<Rightarrow> returnS idle
      | Some intent \<Rightarrow> bindS (liftS (need_field ''dispatch_outbox_id'' intent)) (\<lambda>outbox.
          dispatch w tenant outbox intent)) u0 = (Inr v, t)"
    unfolding dispatch_next_def bindS_returns_iff by blast
  show ?thesis
  proof (cases candidate)
    case None
    then show ?thesis using next_one rest by (simp add: returnS_def)
  next
    case (Some intent)
    with rest obtain outbox where outbox: "map_of intent ''dispatch_outbox_id'' = Some outbox"
      "dispatch w tenant outbox intent u0 = (Inr v, t)"
      unfolding Some option.case bindS_returns_iff liftS_returns_iff need_field_Inr_iff by blast
    from outbox(2) obtain i h c u where c: "map_of intent ''payload_hash'' = Some h"
      "dp_claim (di_port w) tenant outbox (di_executor_id w) (di_claim_seconds w) (di_version w)
          [(''channel'', PText ''whatsapp_business@1''), (''notification_intent_id'', i),
           (''payload_hash'', h)] u0 = (Inr c, u)"
      "if map_of c ''state'' \<noteq> Some (PText ''processing'') then v = c \<and> t = u
       else \<exists>x u'. di_send w intent u = (x, u') \<and>
         (case recorded_dispatch x of (state, ref, failure) \<Rightarrow> state \<in> set dispatch_states \<and>
            dp_complete (di_port w) tenant outbox (di_executor_id w) state ref failure u' = (Inr v, t))"
      unfolding dispatch_returns by blast
    have "map_of [(''channel'', PText ''whatsapp_business@1''), (''notification_intent_id'', i),
        (''payload_hash'', h)] ''payload_hash'' = map_of intent ''payload_hash''"
      using c(1) by simp
    then show ?thesis using next_one Some outbox(1) c(2,3) by blast
  qed
qed

section \<open>An effect that is repeated\<close>

text \<open>
  A port with one action, claimed and completed as the worker says: its state, the attempts so
  far and the tickets the provider has created. The provider creates the ticket and then
  loses the reply.
\<close>

definition lossy_worker :: "(string \<times> int \<times> nat) response_worker" where
  "lossy_worker =
     \<lparr>rw_port =
        \<lparr>xp_next = (\<lambda>_ (state, n, k).
           (Inr (if state = ''pending'' then Some [(''request_id'', PText ''q1''), (''attempts'', PInt n)]
                 else None), (state, n, k))),
         xp_claim = (\<lambda>_ _ _ _ (state, n, k).
           (Inr [(''state'', PText ''dispatching'')], (''dispatching'', n + 1, k))),
         xp_complete = (\<lambda>_ _ _ result _ _ (state, n, k). (Inr [(''state'', PText result)], (result, n, k)))\<rparr>,
      rw_create_ticket = (\<lambda>_ _ (state, n, k). (Inl OtherError, (state, n, Suc k))),
      rw_send_notification = None, rw_executor_id = ''w1'', rw_claim_seconds = 60\<rparr>"

text \<open>
  After two runs of the response worker the one action has two tickets and has failed a third
  time to record any; the workers for notifications and tickets record \<open>unknown\<close> instead
  and stop.
\<close>

lemma response_worker_repeats_effect:
  "process_next to_int lossy_worker tenant (''pending'', 0, 0) =
     (Inr [(''state'', PText ''pending'')], (''pending'', 1, 1))"
  "process_next to_int lossy_worker tenant (''pending'', 1, 1) =
     (Inr [(''state'', PText ''pending'')], (''pending'', 2, 2))"
  "process_next to_int lossy_worker tenant (''pending'', 2, 2) =
     (Inr [(''state'', PText ''failed'')], (''failed'', 3, 3))"
  by (simp_all add: process_next_def lossy_worker_def process_candidate_def claimed_effect_def
      need_field_def attempts_of_def response_effect_def action_kind_of_def bindS_apply attemptS_def)

section \<open>A dispatch that is recorded\<close>

definition sample_intent :: fields where
  "sample_intent =
     [(''dispatch_outbox_id'', PText ''o1''), (''notification_intent_id'', PText ''n1''),
      (''payload_hash'', PText ''h1'')]"

definition sample_dispatcher :: "(string list) dispatcher" where
  "sample_dispatcher =
     \<lparr>di_port =
        \<lparr>dp_next = (\<lambda>_. returnS (Some sample_intent)),
         dp_claim = (\<lambda>_ _ _ _ _ _. returnS [(''state'', PText ''processing'')]),
         dp_complete = (\<lambda>_ _ _ state _ _ log. (Inr [(''state'', PText state)], log @ [state])),
         dp_reconcile = (\<lambda>_ _. returnS []), dp_schedule_retry = (\<lambda>_ _. returnS [])\<rparr>,
      di_version = ''v1'', di_send = (\<lambda>_ log. (Inl OtherError, log @ [''send''])),
      di_executor_id = ''w1'', di_claim_seconds = 60\<rparr>"

lemma sample_dispatch:
  "dispatch_next sample_dispatcher ''t1'' [] =
     (Inr [(''state'', PText ''unknown'')], [''send'', ''unknown''])"
  by (simp add: dispatch_next_def sample_dispatcher_def dispatch_def sample_intent_def need_field_def
      claimed_effect_def bindS_apply attemptS_def)

theorem dispatch_sends_once_under_claim_witness:
  "\<exists>x u'. di_send sample_dispatcher sample_intent [] = (x, u') \<and> fst (recorded_dispatch x) = ''unknown''"
  using dispatch_sends_once_under_claim [OF sample_dispatch]
  by (auto simp: sample_dispatcher_def idle_def recorded_dispatch_def)

end
