(* ===== verification/Human_Operations.thy ===== *)
theory Human_Operations
  imports Dispatch
begin

text \<open>
  The services in front of the ledgers of human operations, notifications and incidents:
  domain.py and service.py of src/apps/g8-human-operations, src/apps/g9-notification-delivery and
  src/apps/g10-itsm. A port method takes its keyword arguments as a list of fields.
\<close>

section \<open>Authority\<close>

record authority_snapshot =
  sn_tenant_id :: string
  sn_principal_id :: string
  sn_current :: bool
  sn_action :: string
  sn_policy_revision :: string

definition authority_covers :: "authority_snapshot \<Rightarrow> string \<Rightarrow> string \<Rightarrow> bool" where
  "authority_covers a tenant actor \<longleftrightarrow>
     sn_current a \<and> sn_tenant_id a = tenant \<and> sn_principal_id a = actor \<and>
     sn_action a \<noteq> [] \<and> sn_policy_revision a \<noteq> []"

definition validate_authority :: "authority_snapshot \<Rightarrow> string \<Rightarrow> string \<Rightarrow> unit res" where
  "validate_authority a tenant actor = ensure (authority_covers a tenant actor) PermissionError"

type_synonym 's port_call = "authority_snapshot \<Rightarrow> fields \<Rightarrow> ('s, fields) op"

text \<open>Every method: the authority, then the arguments, then one call of the port.\<close>

definition gated ::
  "authority_snapshot \<Rightarrow> string \<Rightarrow> string \<Rightarrow> bool \<Rightarrow> ('s, fields) op \<Rightarrow> ('s, fields) op" where
  "gated a tenant actor ok call =
     thenS (liftS (validate_authority a tenant actor)) (thenS (ensureS ok ValueError) call)"

section \<open>Human operations\<close>

definition responsibility_roles :: "string list" where
  "responsibility_roles = [''technical_responsible'', ''service_owner'', ''operator'', ''customer_responsible'']"

definition assignment_sources :: "string list" where "assignment_sources = [''manual'', ''configured'']"

definition action_kinds :: "string list" where
  "action_kinds = [''investigate_alert'', ''acknowledge_alert'', ''review_alert'', ''customer_review_required'']"

definition viewer_sides :: "string list" where "viewer_sides = [''internal'', ''customer'']"

definition visibility_capability :: string where
  "visibility_capability = ''platform_native_authenticated_view@1''"

record 's human_port =
  ho_assign_resource :: "'s port_call"
  ho_end_resource :: "'s port_call"
  ho_assign_alert_action :: "'s port_call"
  ho_acknowledge_alert :: "'s port_call"
  ho_create_visibility :: "'s port_call"
  ho_record_visibility :: "'s port_call"

definition assign_resource ::
  "'s human_port \<Rightarrow> authority_snapshot \<Rightarrow> string \<Rightarrow> string \<Rightarrow> string \<Rightarrow> string \<Rightarrow> string \<Rightarrow> string \<Rightarrow>
   string \<Rightarrow> ('s, fields) op" where
  "assign_resource w a tenant resource responsible role source actor logical =
     gated a tenant actor (role \<in> set responsibility_roles \<and> source \<in> set assignment_sources)
       (ho_assign_resource w a
          [(''tenant_id'', PText tenant), (''resource_id'', PText resource),
           (''responsible_principal_id'', PText responsible), (''responsibility_role'', PText role),
           (''assignment_source'', PText source), (''actor_principal_id'', PText actor),
           (''logical_action_id'', PText logical)])"

definition end_resource ::
  "'s human_port \<Rightarrow> authority_snapshot \<Rightarrow> string \<Rightarrow> string \<Rightarrow> string \<Rightarrow> string \<Rightarrow> ('s, fields) op" where
  "end_resource w a tenant assignment actor reason =
     gated a tenant actor (bounded_text 256 reason)
       (ho_end_resource w a
          [(''tenant_id'', PText tenant), (''assignment_id'', PText assignment),
           (''actor_principal_id'', PText actor), (''end_reason'', PText reason)])"

definition assign_alert_action ::
  "'s human_port \<Rightarrow> authority_snapshot \<Rightarrow> string \<Rightarrow> string \<Rightarrow> string \<Rightarrow> string \<Rightarrow> string \<Rightarrow> string \<Rightarrow>
   ('s, fields) op" where
  "assign_alert_action w a tenant alert owner_id kind actor logical =
     gated a tenant actor (kind \<in> set action_kinds)
       (ho_assign_alert_action w a
          [(''tenant_id'', PText tenant), (''alert_id'', PText alert),
           (''owner_principal_id'', PText owner_id), (''action_kind'', PText kind),
           (''actor_principal_id'', PText actor), (''logical_action_id'', PText logical)])"

definition acknowledge_alert ::
  "'s human_port \<Rightarrow> authority_snapshot \<Rightarrow> string \<Rightarrow> string \<Rightarrow> string \<Rightarrow> string \<Rightarrow> string option \<Rightarrow>
   ('s, fields) op" where
  "acknowledge_alert w a tenant alert actor logical note =
     gated a tenant actor True
       (ho_acknowledge_alert w a
          [(''tenant_id'', PText tenant), (''alert_id'', PText alert),
           (''actor_principal_id'', PText actor), (''logical_action_id'', PText logical),
           (''note'', opt_text note)])"

definition require_alert_visibility ::
  "'s human_port \<Rightarrow> authority_snapshot \<Rightarrow> string \<Rightarrow> string \<Rightarrow> string \<Rightarrow> string \<Rightarrow> string \<Rightarrow> string \<Rightarrow>
   string \<Rightarrow> string \<Rightarrow> ('s, fields) op" where
  "require_alert_visibility w a tenant alert viewer side capability presentation actor logical =
     gated a tenant actor (side \<in> set viewer_sides \<and> capability = visibility_capability)
       (ho_create_visibility w a
          [(''tenant_id'', PText tenant), (''alert_id'', PText alert),
           (''viewer_principal_id'', PText viewer), (''viewer_side'', PText side),
           (''capability_class'', PText capability), (''presentation_ref'', PText presentation),
           (''actor_principal_id'', PText actor), (''logical_action_id'', PText logical)])"

text \<open>Here the viewer is the actor.\<close>

definition record_visibility ::
  "'s human_port \<Rightarrow> authority_snapshot \<Rightarrow> string \<Rightarrow> string \<Rightarrow> string \<Rightarrow> string \<Rightarrow> fields \<Rightarrow>
   ('s, fields) op" where
  "record_visibility w a tenant requirement viewer logical evidence =
     gated a tenant viewer (evidence \<noteq> [])
       (ho_record_visibility w a
          [(''tenant_id'', PText tenant), (''requirement_id'', PText requirement),
           (''viewer_principal_id'', PText viewer), (''logical_action_id'', PText logical),
           (''session_evidence'', PObj evidence)])"

section \<open>Notifications\<close>

definition notification_channel :: string where "notification_channel = ''whatsapp_business@1''"

definition intent_reasons :: "string list" where
  "intent_reasons = [''alert_requires_attention'', ''alert_action_requested'', ''customer_awareness_required'']"

definition create_notification ::
  "'s port_call \<Rightarrow> authority_snapshot \<Rightarrow> string \<Rightarrow> string \<Rightarrow> string option \<Rightarrow> string \<Rightarrow> string \<Rightarrow>
   string \<Rightarrow> string \<Rightarrow> string option \<Rightarrow> string \<Rightarrow> string \<Rightarrow> ('s, fields) op" where
  "create_notification create_intent a tenant alert recipient destination reason payload_ref
     payload_hash visibility actor logical =
     gated a tenant actor
       (reason \<in> set intent_reasons \<and> bounded_text 512 destination \<and> bounded_text 512 payload_ref \<and>
        bounded_text 128 payload_hash)
       (create_intent a
          [(''tenant_id'', PText tenant), (''alert_id'', PText alert),
           (''recipient_principal_id'', opt_text recipient), (''destination_ref'', PText destination),
           (''channel_class'', PText notification_channel), (''reason'', PText reason),
           (''payload_ref'', PText payload_ref), (''payload_hash'', PText payload_hash),
           (''visibility_requirement_id'', opt_text visibility),
           (''actor_principal_id'', PText actor), (''logical_action_id'', PText logical)])"

section \<open>Incidents\<close>

definition incident_transitions :: "(string \<times> string) list" where
  "incident_transitions =
     [(''open'', ''in_progress''), (''open'', ''resolved''), (''in_progress'', ''resolved''),
      (''resolved'', ''closed'')]"

definition require_transition :: "string \<Rightarrow> string \<Rightarrow> unit res" where
  "require_transition current target =
     ensure ((current, target) \<in> set incident_transitions) ValueError"

record 's incident_port =
  ip_create :: "'s port_call"
  ip_transition :: "'s port_call"
  ip_assign :: "'s port_call"
  ip_comment :: "'s port_call"

definition create_incident ::
  "'s incident_port \<Rightarrow> authority_snapshot \<Rightarrow> string \<Rightarrow> string \<Rightarrow> string \<Rightarrow> string option \<Rightarrow> string \<Rightarrow>
   string \<Rightarrow> ('s, fields) op" where
  "create_incident w a tenant alert title description actor logical =
     gated a tenant actor
       (bounded_text 240 title \<and> (case description of None \<Rightarrow> True | Some d \<Rightarrow> length d \<le> 8000))
       (ip_create w a
          [(''tenant_id'', PText tenant), (''alert_id'', PText alert), (''title'', PText title),
           (''description'', opt_text description), (''actor_principal_id'', PText actor),
           (''logical_action_id'', PText logical)])"

definition transition_incident ::
  "'s incident_port \<Rightarrow> authority_snapshot \<Rightarrow> string \<Rightarrow> string \<Rightarrow> string \<Rightarrow> string \<Rightarrow> string \<Rightarrow>
   ('s, fields) op" where
  "transition_incident w a tenant incident target actor logical =
     gated a tenant actor True
       (ip_transition w a
          [(''tenant_id'', PText tenant), (''incident_id'', PText incident),
           (''target_state'', PText target), (''actor_principal_id'', PText actor),
           (''logical_action_id'', PText logical)])"

definition assign_incident ::
  "'s incident_port \<Rightarrow> authority_snapshot \<Rightarrow> string \<Rightarrow> string \<Rightarrow> string \<Rightarrow> string \<Rightarrow> string \<Rightarrow>
   ('s, fields) op" where
  "assign_incident w a tenant incident assignee actor logical =
     gated a tenant actor (assignee \<noteq> [])
       (ip_assign w a
          [(''tenant_id'', PText tenant), (''incident_id'', PText incident),
           (''assignee_principal_id'', PText assignee), (''actor_principal_id'', PText actor),
           (''logical_action_id'', PText logical)])"

definition comment_incident ::
  "'s incident_port \<Rightarrow> authority_snapshot \<Rightarrow> string \<Rightarrow> string \<Rightarrow> string \<Rightarrow> string \<Rightarrow> string \<Rightarrow>
   ('s, fields) op" where
  "comment_incident w a tenant incident body actor logical =
     gated a tenant actor (bounded_text 4000 body)
       (ip_comment w a
          [(''tenant_id'', PText tenant), (''incident_id'', PText incident), (''body'', PText body),
           (''actor_principal_id'', PText actor), (''logical_action_id'', PText logical)])"

section \<open>What the gate promises\<close>

lemma gated_cases:
  "gated a tenant actor ok call s =
     (if \<not> authority_covers a tenant actor then (Inl PermissionError, s)
      else if \<not> ok then (Inl ValueError, s) else call s)"
  by (simp add: gated_def validate_authority_def ensure_def)

text \<open>
  A method \<open>m\<close> of the service for \<open>actor\<close> in front of the method \<open>call\<close> of the port.
\<close>

definition gates ::
  "authority_snapshot \<Rightarrow> string \<Rightarrow> 's \<Rightarrow> ('s, fields) op \<times> string \<times> 's port_call \<Rightarrow> bool" where
  "gates a tenant s x =
     (case x of (m, actor, call) \<Rightarrow>
        if \<not> authority_covers a tenant actor then m s = (Inl PermissionError, s)
        else m s = (Inl ValueError, s) \<or>
          (\<exists>args. map_of args ''tenant_id'' = Some (PText tenant) \<and>
             PText actor \<in> {get_field ''actor_principal_id'' args, get_field ''viewer_principal_id'' args} \<and>
             m s = call a args s))"

lemma gates_gated:
  assumes "map_of args ''tenant_id'' = Some (PText tenant)"
    "PText actor \<in> {get_field ''actor_principal_id'' args, get_field ''viewer_principal_id'' args}"
  shows "gates a tenant s (gated a tenant actor ok (call a args), actor, call)"
  using assms unfolding gates_def prod.case gated_cases by auto

text \<open>No operation of the three services reaches its port without an authority that is
  current and covers exactly the tenant and the actor of the request; it is then refused and
  leaves everything as it was. With one, it either refuses its arguments, again without an
  effect, or it is one call of the port, with that authority, that tenant and that actor.\<close>

theorem operations_gated:
  "list_all (gates a tenant s)
    [(assign_resource h a tenant r p role source actor l, actor, ho_assign_resource h),
     (end_resource h a tenant i actor reason, actor, ho_end_resource h),
     (assign_alert_action h a tenant al p kind actor l, actor, ho_assign_alert_action h),
     (acknowledge_alert h a tenant al actor l note, actor, ho_acknowledge_alert h),
     (require_alert_visibility h a tenant al p side cap pr actor l, actor, ho_create_visibility h),
     (record_visibility h a tenant i viewer l evidence, viewer, ho_record_visibility h),
     (create_notification n a tenant al rc dest reason ref hash vis actor l, actor, n),
     (create_incident w a tenant al title descr actor l, actor, ip_create w),
     (transition_incident w a tenant i target actor l, actor, ip_transition w),
     (assign_incident w a tenant i p actor l, actor, ip_assign w),
     (comment_incident w a tenant i body actor l, actor, ip_comment w)]"
  unfolding list.pred_inject assign_resource_def end_resource_def assign_alert_action_def
    acknowledge_alert_def require_alert_visibility_def record_visibility_def create_notification_def
    create_incident_def transition_incident_def assign_incident_def comment_incident_def
  by (intro conjI list.pred_inject(1); rule gates_gated; simp add: get_field_def)

end
