(* ===== verification/Incident_Response.thy ===== *)
theory Incident_Response
  imports Dispatch
begin

text \<open>
  src/apps/g11-incident-response/domain.py and service.py: the ingestion of application errors,
  their policy and the actions it asks for.
\<close>

section \<open>Events and policies\<close>

definition severities :: "string list" where
  "severities = [''LOW'', ''MEDIUM'', ''HIGH'', ''CRITICAL'']"

record error_event =
  ev_tenant_id :: string
  ev_application_id :: string
  ev_error_code :: string
  ev_error_message :: string
  ev_occurred_at :: string
  ev_source_principal_id :: string
  ev_principal_id :: "string option"
  ev_operation :: "string option"
  ev_session_context :: "string option"
  ev_severity_hint :: "string option"
  ev_raw_payload :: "payload"

record response_policy =
  rp_tenant_id :: string
  rp_severity_threshold :: string
  rp_auto_open_ticket :: bool
  rp_manual_override_only :: bool
  rp_notify_channels :: "payload list"
  rp_automation_triggers :: "payload list"

definition default_policy :: "string \<Rightarrow> response_policy" where
  "default_policy tenant =
     \<lparr>rp_tenant_id = tenant, rp_severity_threshold = ''HIGH'', rp_auto_open_ticket = False,
      rp_manual_override_only = False, rp_notify_channels = [], rp_automation_triggers = []\<rparr>"

definition opt_short :: "nat \<Rightarrow> string option \<Rightarrow> bool" where
  "opt_short n x = (case x of None \<Rightarrow> True | Some s \<Rightarrow> length s \<le> n)"

definition valid_event :: "error_event \<Rightarrow> bool" where
  "valid_event e \<longleftrightarrow>
     ev_tenant_id e \<noteq> [] \<and> bounded_text 128 (ev_application_id e) \<and> bounded_text 128 (ev_error_code e) \<and>
     bounded_text 4000 (ev_error_message e) \<and> bounded_text 64 (ev_occurred_at e) \<and>
     ev_source_principal_id e \<noteq> [] \<and> opt_member severities (ev_severity_hint e) \<and>
     opt_short 256 (ev_principal_id e) \<and> opt_short 256 (ev_operation e) \<and>
     opt_short 512 (ev_session_context e)"

definition validate_event :: "error_event \<Rightarrow> unit res" where
  "validate_event e = ensure (valid_event e) ValueError"

text \<open>\<open>SEVERITY_ORDER\<close>\<close>

definition severity_index :: "string \<Rightarrow> nat option" where
  "severity_index s = map_of (zip severities [0..<length severities]) s"

definition severity_meets_threshold :: "string option \<Rightarrow> string \<Rightarrow> bool" where
  "severity_meets_threshold hint threshold =
     (case hint of
        None \<Rightarrow> False
      | Some h \<Rightarrow>
          (case severity_index h of None \<Rightarrow> -1 | Some i \<Rightarrow> int i) \<ge>
          (case severity_index threshold of None \<Rightarrow> 999 | Some i \<Rightarrow> int i))"

section \<open>Actions\<close>

text \<open>
  \<open>x.get(k, fallback)\<close> on a parsed value, which only a mapping has, and \<open>hint in v\<close>: on a list,
  on a mapping's keys, or as a part of a text.
\<close>

definition get_or :: "string \<Rightarrow> payload \<Rightarrow> payload \<Rightarrow> payload res" where
  "get_or k fallback v =
     (case v of
        PObj fs \<Rightarrow> Inr (case map_of fs k of None \<Rightarrow> fallback | Some x \<Rightarrow> x)
      | _ \<Rightarrow> Inl OtherError)"

definition text_within :: "string \<Rightarrow> string \<Rightarrow> bool" where
  "text_within h s \<longleftrightarrow> list_ex (\<lambda>i. take (length h) (drop i s) = h) [0..<Suc (length s)]"

fun contains_hint :: "string option \<Rightarrow> payload \<Rightarrow> bool res" where
  "contains_hint hint (PArr vs) =
     Inr ((case hint of None \<Rightarrow> PNull | Some h \<Rightarrow> PText h) \<in> set vs)"
| "contains_hint hint (PObj fs) = Inr (case hint of None \<Rightarrow> False | Some h \<Rightarrow> h \<in> fst ` set fs)"
| "contains_hint hint (PText s) =
     (case hint of None \<Rightarrow> Inl TypeError | Some h \<Rightarrow> Inr (text_within h s))"
| "contains_hint hint _ = Inl TypeError"

type_synonym action = "string \<times> payload option"

primrec notify_actions :: "string option \<Rightarrow> payload list \<Rightarrow> action list res" where
  "notify_actions hint [] = Inr []"
| "notify_actions hint (ch # chs) =
     bindR (get_or ''on_severities'' (PArr []) ch) (\<lambda>sev.
     bindR (contains_hint hint sev) (\<lambda>hit.
     bindR (notify_actions hint chs) (\<lambda>more.
     Inr (if hit then (''notify'', Some ch) # more else more))))"

primrec automation_actions :: "payload list \<Rightarrow> action list res" where
  "automation_actions [] = Inr []"
| "automation_actions (tr # trs) =
     bindR (get_or ''trigger'' PNull tr) (\<lambda>x.
     if x = PText ''ALERT_OPEN'' then Inr [(''automation'', None)] else automation_actions trs)"

definition evaluate_policy :: "error_event \<Rightarrow> response_policy \<Rightarrow> action list res" where
  "evaluate_policy e p =
     (if rp_manual_override_only p then Inr []
      else if \<not> severity_meets_threshold (ev_severity_hint e) (rp_severity_threshold p) then Inr []
      else
        bindR (notify_actions (ev_severity_hint e) (rp_notify_channels p)) (\<lambda>notified.
        bindR (automation_actions (rp_automation_triggers p)) (\<lambda>automated.
        Inr ((if rp_auto_open_ticket p then [(''open_ticket'', None)] else []) @ notified @ automated))))"

section \<open>The service\<close>

text \<open>\<open>tuple(v)\<close>\<close>

fun items_of :: "payload \<Rightarrow> payload list res" where
  "items_of (PArr vs) = Inr vs"
| "items_of (PObj fs) = Inr (map (PText \<circ> fst) fs)"
| "items_of (PText s) = Inr (map (\<lambda>c. PText [c]) s)"
| "items_of _ = Inl TypeError"

definition field_or :: "string \<Rightarrow> payload \<Rightarrow> fields \<Rightarrow> payload" where
  "field_or k fallback d = (case map_of d k of None \<Rightarrow> fallback | Some v \<Rightarrow> v)"

fun require_bool :: "payload \<Rightarrow> bool res" where
  "require_bool (PFlag b) = Inr b"
| "require_bool _ = Inl ValueError"

definition policy_from_dict :: "string \<Rightarrow> fields \<Rightarrow> response_policy res" where
  "policy_from_dict tenant raw =
     (case field_or ''severity_threshold'' (PText ''HIGH'') raw of
        PText threshold \<Rightarrow>
          bindR (ensure (threshold \<in> set severities) ValueError) (\<lambda>_.
          bindR (require_bool (field_or ''auto_open_ticket'' (PFlag False) raw)) (\<lambda>auto_open.
          bindR (require_bool (field_or ''manual_override_only'' (PFlag False) raw)) (\<lambda>manual.
          bindR (items_of (field_or ''notify_channels'' (PArr []) raw)) (\<lambda>channels.
          bindR (items_of (field_or ''automation_triggers'' (PArr []) raw)) (\<lambda>triggers.
          Inr \<lparr>rp_tenant_id = tenant, rp_severity_threshold = threshold, rp_auto_open_ticket = auto_open,
               rp_manual_override_only = manual, rp_notify_channels = channels,
               rp_automation_triggers = triggers\<rparr>)))))
      | _ \<Rightarrow> Inl ValueError)"

definition policy_to_dict :: "response_policy \<Rightarrow> fields" where
  "policy_to_dict p =
     [(''tenant_id'', PText (rp_tenant_id p)), (''severity_threshold'', PText (rp_severity_threshold p)),
      (''auto_open_ticket'', PFlag (rp_auto_open_ticket p)),
      (''manual_override_only'', PFlag (rp_manual_override_only p)),
      (''notify_channels'', PArr (rp_notify_channels p)),
      (''automation_triggers'', PArr (rp_automation_triggers p))]"

record 's response_port =
  sp_get_policy :: "string \<Rightarrow> ('s, fields option) op"
  sp_upsert_policy :: "string \<Rightarrow> fields \<Rightarrow> string \<Rightarrow> ('s, fields) op"
  sp_claim_dedupe :: "string \<Rightarrow> string \<Rightarrow> string \<Rightarrow> string \<Rightarrow> ('s, bool) op"
  sp_store_event :: "error_event \<Rightarrow> ('s, fields) op"
  sp_enqueue_action :: "string \<Rightarrow> payload \<Rightarrow> string \<Rightarrow> payload option \<Rightarrow> ('s, fields) op"
  sp_list_events :: "string \<Rightarrow> ('s, fields list) op"
  sp_get_event :: "string \<Rightarrow> string \<Rightarrow> ('s, fields option) op"

definition get_response_policy :: "'s response_port \<Rightarrow> string \<Rightarrow> ('s, fields) op" where
  "get_response_policy w tenant =
     bindS (sp_get_policy w tenant) (\<lambda>raw.
     returnS (case raw of None \<Rightarrow> policy_to_dict (default_policy tenant) | Some p \<Rightarrow> p))"

definition upsert_response_policy ::
  "'s response_port \<Rightarrow> string \<Rightarrow> fields \<Rightarrow> string \<Rightarrow> ('s, fields) op" where
  "upsert_response_policy w tenant raw actor =
     thenS (ensureS (actor \<noteq> []) ValueError)
    (bindS (liftS (policy_from_dict tenant raw)) (\<lambda>p.
     sp_upsert_policy w tenant (policy_to_dict p) actor))"

primrec enqueue_all :: "'s response_port \<Rightarrow> string \<Rightarrow> payload \<Rightarrow> action list \<Rightarrow> ('s, unit) op" where
  "enqueue_all w tenant event [] = returnS ()"
| "enqueue_all w tenant event (a # as) =
     bindS (sp_enqueue_action w tenant event (fst a) (snd a)) (\<lambda>_. enqueue_all w tenant event as)"

text \<open>\<open>if raw_policy\<close>: neither missing nor empty.\<close>

definition effective_policy :: "string \<Rightarrow> fields option \<Rightarrow> response_policy res" where
  "effective_policy tenant raw =
     (case raw of
        None \<Rightarrow> Inr (default_policy tenant)
      | Some p \<Rightarrow> if p = [] then Inr (default_policy tenant) else policy_from_dict tenant p)"

definition minute_bucket :: "string \<Rightarrow> string" where "minute_bucket t = take 16 t"

definition ingest_event :: "'s response_port \<Rightarrow> error_event \<Rightarrow> ('s, fields) op" where
  "ingest_event w e =
     thenS (liftS (validate_event e))
    (bindS (sp_claim_dedupe w (ev_tenant_id e) (ev_application_id e) (ev_error_code e)
              (minute_bucket (ev_occurred_at e))) (\<lambda>is_first.
     if \<not> is_first then returnS [(''status'', PText ''deduplicated'')]
     else bindS (sp_store_event w e) (\<lambda>stored.
     bindS (liftS (need_field ''event_id'' stored)) (\<lambda>event.
     bindS (sp_get_policy w (ev_tenant_id e)) (\<lambda>raw.
     bindS (liftS (effective_policy (ev_tenant_id e) raw)) (\<lambda>p.
     bindS (liftS (evaluate_policy e p)) (\<lambda>actions.
     thenS (enqueue_all w (ev_tenant_id e) event actions)
    (returnS [(''status'', PText ''accepted''), (''event_id'', event),
       (''actions_enqueued'', PArr (map (PText \<circ> fst) actions))]))))))))"

definition list_response_events :: "'s response_port \<Rightarrow> string \<Rightarrow> ('s, fields list) op" where
  "list_response_events w tenant = sp_list_events w tenant"

definition get_response_event :: "'s response_port \<Rightarrow> string \<Rightarrow> string \<Rightarrow> ('s, fields) op" where
  "get_response_event w tenant i =
     bindS (sp_get_event w tenant i) (\<lambda>found.
     case found of None \<Rightarrow> raiseS KeyError | Some e \<Rightarrow> returnS e)"

section \<open>What is asked for\<close>

text \<open>A policy that is written is read back as it is.\<close>

lemma policy_round_trip:
  "rp_severity_threshold p \<in> set severities \<Longrightarrow>
   policy_from_dict (rp_tenant_id p) (policy_to_dict p) = Inr p"
  by (cases p) (simp add: policy_from_dict_def policy_to_dict_def field_or_def)

lemma severity_index_known: "s \<in> set severities \<longleftrightarrow> (\<exists>i. severity_index s = Some i)"
  by (auto simp: severity_index_def severities_def)

lemma policy_from_dict_threshold:
  "policy_from_dict tenant raw = Inr p \<Longrightarrow> rp_severity_threshold p \<in> set severities"
  unfolding policy_from_dict_def
  by (cases "field_or ''severity_threshold'' (PText ''HIGH'') raw") (auto simp: bindR_Inr_iff ensure_Inr_iff)

lemma effective_policy_threshold:
  assumes "effective_policy tenant raw = Inr p"
  shows "rp_severity_threshold p \<in> set severities"
proof (cases "raw = None \<or> raw = Some []")
  case True
  then have "p = default_policy tenant" using assms by (auto simp: effective_policy_def)
  then show ?thesis by (simp add: default_policy_def severities_def)
next
  case False
  then obtain d where "raw = Some d" "d \<noteq> []" by auto
  then have "policy_from_dict tenant d = Inr p" using assms by (simp add: effective_policy_def)
  then show ?thesis by (rule policy_from_dict_threshold)
qed

lemma notify_actions_of:
  "notify_actions hint chs = Inr as \<Longrightarrow> \<forall>(k, x) \<in> set as. k = ''notify'' \<and> (\<exists>ch \<in> set chs. x = Some ch)"
proof (induction chs arbitrary: as)
  case (Cons ch chs)
  from Cons.prems obtain more hit where more: "notify_actions hint chs = Inr more"
    "(if hit then (''notify'', Some ch) # more else more) = as"
    unfolding notify_actions.simps bindR_Inr_iff sum.inject by blast
  have "\<forall>(k, x) \<in> set more. k = ''notify'' \<and> (\<exists>c \<in> set (ch # chs). x = Some c)"
    using Cons.IH [OF more(1)] by auto
  then show ?case unfolding more(2) [symmetric] by simp
qed simp

lemma automation_actions_of: "automation_actions trs = Inr as \<Longrightarrow> as = [] \<or> as = [(''automation'', None)]"
  by (induction trs) (auto simp: bindR_Inr_iff split: if_splits)

lemma evaluate_policy_Inr:
  assumes "evaluate_policy e p = Inr actions"
  shows "(actions \<noteq> [] \<longrightarrow> \<not> rp_manual_override_only p \<and>
       severity_meets_threshold (ev_severity_hint e) (rp_severity_threshold p)) \<and>
     (\<forall>(k, x) \<in> set actions. k = ''open_ticket'' \<and> x = None \<and> rp_auto_open_ticket p \<or>
        k = ''notify'' \<and> (\<exists>ch \<in> set (rp_notify_channels p). x = Some ch) \<or>
        k = ''automation'' \<and> x = None) \<and>
     length (filter (\<lambda>a. fst a = ''open_ticket'') actions) \<le> 1 \<and>
     length (filter (\<lambda>a. fst a = ''automation'') actions) \<le> 1"
proof (cases "actions = []")
  case False
  with assms obtain notified automated where parts: "\<not> rp_manual_override_only p"
    "severity_meets_threshold (ev_severity_hint e) (rp_severity_threshold p)"
    "notify_actions (ev_severity_hint e) (rp_notify_channels p) = Inr notified"
    "automation_actions (rp_automation_triggers p) = Inr automated"
    "actions = (if rp_auto_open_ticket p then [(''open_ticket'', None)] else []) @ notified @ automated"
    unfolding evaluate_policy_def by (auto simp: bindR_Inr_iff split: if_splits)
  note n = notify_actions_of [OF parts(3)] and a = automation_actions_of [OF parts(4)]
  have "filter (\<lambda>x. fst x = ''open_ticket'') notified = []" "filter (\<lambda>x. fst x = ''automation'') notified = []"
    using n by (auto simp: filter_empty_conv)
  then have "length (filter (\<lambda>x. fst x = ''open_ticket'') actions) \<le> 1"
    "length (filter (\<lambda>x. fst x = ''automation'') actions) \<le> 1"
    using a unfolding parts(5) by auto
  moreover have "\<forall>(k, x) \<in> set actions. k = ''open_ticket'' \<and> x = None \<and> rp_auto_open_ticket p \<or>
      k = ''notify'' \<and> (\<exists>ch \<in> set (rp_notify_channels p). x = Some ch) \<or> k = ''automation'' \<and> x = None"
    using n a unfolding parts(5) by (auto split: if_splits)
  ultimately show ?thesis using parts(1,2) by blast
qed simp

lemma meets_known_threshold:
  assumes "severity_meets_threshold hint threshold" "threshold \<in> set severities"
  shows "\<exists>h i j. hint = Some h \<and> severity_index h = Some i \<and> severity_index threshold = Some j \<and> j \<le> i"
  using assms(1) unfolding severity_meets_threshold_def
  by (auto simp: assms(2) [unfolded severity_index_known] split: option.splits)
    (use assms(2) in \<open>auto simp: severity_index_known\<close>)

text \<open>An error is acted on once, and only as its tenant's policy asks for. When an ingestion
  returns, the event is well formed and its minute was claimed first; a duplicate does
  nothing else. Otherwise the event was stored, then the policy of the tenant was read, and
  exactly the actions it decides were enqueued for the stored event, in their order. There
  are any only if the policy is not manual and the event names a severity at or above the
  threshold; a ticket is opened at most once and only if the policy opens tickets, every
  notification goes to a channel of the policy, and automation is started at most once.\<close>

theorem ingest_enqueues_decided_actions:
  assumes "ingest_event w e s = (Inr v, t)"
  shows "valid_event e \<and> (\<exists>is_first u.
    sp_claim_dedupe w (ev_tenant_id e) (ev_application_id e) (ev_error_code e)
      (take 16 (ev_occurred_at e)) s = (Inr is_first, u) \<and>
    (if \<not> is_first then v = [(''status'', PText ''deduplicated'')] \<and> t = u
     else \<exists>stored event raw p actions u1 u2. sp_store_event w e u = (Inr stored, u1) \<and>
       map_of stored ''event_id'' = Some event \<and>
       sp_get_policy w (ev_tenant_id e) u1 = (Inr raw, u2) \<and>
       effective_policy (ev_tenant_id e) raw = Inr p \<and> evaluate_policy e p = Inr actions \<and>
       enqueue_all w (ev_tenant_id e) event actions u2 = (Inr (), t) \<and>
       v = [(''status'', PText ''accepted''), (''event_id'', event),
         (''actions_enqueued'', PArr (map (PText \<circ> fst) actions))] \<and>
       (actions \<noteq> [] \<longrightarrow> \<not> rp_manual_override_only p \<and>
          (\<exists>h i j. ev_severity_hint e = Some h \<and> severity_index h = Some i \<and>
             severity_index (rp_severity_threshold p) = Some j \<and> j \<le> i)) \<and>
       (\<forall>(k, x) \<in> set actions. k = ''open_ticket'' \<and> x = None \<and> rp_auto_open_ticket p \<or>
          k = ''notify'' \<and> (\<exists>ch \<in> set (rp_notify_channels p). x = Some ch) \<or>
          k = ''automation'' \<and> x = None) \<and>
       length (filter (\<lambda>a. fst a = ''open_ticket'') actions) \<le> 1 \<and>
       length (filter (\<lambda>a. fst a = ''automation'') actions) \<le> 1))"
proof -
  let ?store = "bindS (sp_store_event w e) (\<lambda>stored.
     bindS (liftS (need_field ''event_id'' stored)) (\<lambda>event.
     bindS (sp_get_policy w (ev_tenant_id e)) (\<lambda>raw.
     bindS (liftS (effective_policy (ev_tenant_id e) raw)) (\<lambda>p.
     bindS (liftS (evaluate_policy e p)) (\<lambda>actions.
     thenS (enqueue_all w (ev_tenant_id e) event actions)
    (returnS [(''status'', PText ''accepted''), (''event_id'', event),
       (''actions_enqueued'', PArr (map (PText \<circ> fst) actions))]))))))"
  from assms obtain is_first u where first: "valid_event e"
    "sp_claim_dedupe w (ev_tenant_id e) (ev_application_id e) (ev_error_code e)
       (minute_bucket (ev_occurred_at e)) s = (Inr is_first, u)"
    and rest: "(if \<not> is_first then returnS [(''status'', PText ''deduplicated'')] else ?store) u = (Inr v, t)"
    unfolding ingest_event_def validate_event_def sequence_returns ensureS_returns_iff by blast
  show ?thesis
  proof (cases is_first)
    case False
    then show ?thesis using first rest by (auto simp: minute_bucket_def returnS_def)
  next
    case True
    then have "?store u = (Inr v, t)" using rest by (simp only: not_True_eq_False if_False)
    then obtain stored event raw p actions u1 u2 where steps:
      "sp_store_event w e u = (Inr stored, u1)" "need_field ''event_id'' stored = Inr event"
      "sp_get_policy w (ev_tenant_id e) u1 = (Inr raw, u2)"
      "effective_policy (ev_tenant_id e) raw = Inr p" "evaluate_policy e p = Inr actions"
      "enqueue_all w (ev_tenant_id e) event actions u2 = (Inr (), t)"
      "v = [(''status'', PText ''accepted''), (''event_id'', event),
         (''actions_enqueued'', PArr (map (PText \<circ> fst) actions))]"
      unfolding sequence_returns liftS_returns_iff op_simps prod.inject sum.inject by blast
    from steps(2) have "map_of stored ''event_id'' = Some event"
      by (auto simp: need_field_def split: option.splits)
    then show ?thesis
      using True first steps evaluate_policy_Inr [OF steps(5)]
        meets_known_threshold [OF _ effective_policy_threshold [OF steps(4)]]
      by (intro conjI exI [of _ is_first] exI [of _ u]) (auto simp: minute_bucket_def)
  qed
qed

section \<open>An error that opens a ticket\<close>

definition sample_event :: error_event where
  "sample_event =
     \<lparr>ev_tenant_id = ''t1'', ev_application_id = ''a1'', ev_error_code = ''E1'', ev_error_message = ''m'',
      ev_occurred_at = ''2026-01-01T00:00:00Z'', ev_source_principal_id = ''p1'', ev_principal_id = None,
      ev_operation = None, ev_session_context = None, ev_severity_hint = Some ''CRITICAL'',
      ev_raw_payload = PNull\<rparr>"

definition sample_response_port :: "(string list) response_port" where
  "sample_response_port =
     \<lparr>sp_get_policy = (\<lambda>_. returnS (Some [(''auto_open_ticket'', PFlag True)])),
      sp_upsert_policy = (\<lambda>_ _ _. returnS []), sp_claim_dedupe = (\<lambda>_ _ _ _. returnS True),
      sp_store_event = (\<lambda>_. returnS [(''event_id'', PText ''e1'')]),
      sp_enqueue_action = (\<lambda>_ _ k _ log. (Inr [], log @ [k])),
      sp_list_events = (\<lambda>_. returnS []), sp_get_event = (\<lambda>_ _. returnS None)\<rparr>"

lemma sample_ingested:
  "ingest_event sample_response_port sample_event [] =
     (Inr [(''status'', PText ''accepted''), (''event_id'', PText ''e1''),
        (''actions_enqueued'', PArr [PText ''open_ticket''])], [''open_ticket''])"
  by code_simp

theorem ingest_enqueues_decided_actions_witness:
  "\<exists>actions. enqueue_all sample_response_port ''t1'' (PText ''e1'') actions [] = (Inr (), [''open_ticket'']) \<and>
     length (filter (\<lambda>a. fst a = ''open_ticket'') actions) \<le> 1"
  using ingest_enqueues_decided_actions [OF sample_ingested]
  by (auto simp: sample_response_port_def sample_event_def)

end
