(* ===== verification/Reference_Prelude.thy ===== *)
theory Reference_Prelude
  imports Payloads
begin

text \<open>
  What the executable reference models under src/tools/assurance share: transactions that
  roll back when they raise, the observation that an operation is refused, and lists of
  named checks.
\<close>

section \<open>Transactions\<close>

text \<open>\<open>BEGIN IMMEDIATE\<close>, and \<open>rollback\<close> or \<open>commit\<close>: an operation that raises changes nothing.\<close>

definition transaction :: "('s, 'a) op \<Rightarrow> ('s, 'a) op" where
  "transaction m = (\<lambda>s. case m s of (Inl e, _) \<Rightarrow> (Inl e, s) | (Inr v, t) \<Rightarrow> (Inr v, t))"

lemma transaction_returns_iff [simp]: "transaction m s = (Inr v, t) \<longleftrightarrow> m s = (Inr v, t)"
  by (auto simp: transaction_def split: prod.splits sum.splits)

lemma transaction_raises_iff: "transaction m s = (Inl e, t) \<longleftrightarrow> t = s \<and> (\<exists>u. m s = (Inl e, u))"
  by (auto simp: transaction_def split: prod.splits sum.splits)

lemma transaction_steps [simp]:
  "m s = (Inr v, t) \<Longrightarrow> transaction m s = (Inr v, t)"
  "m s = (Inl e, t) \<Longrightarrow> transaction m s = (Inl e, s)"
  by (simp_all add: transaction_def)

text \<open>The effect of an operation that changes the state only when it returns.\<close>

definition atomic :: "('s, 'a) op \<Rightarrow> bool" where
  "atomic m \<longleftrightarrow> (\<forall>s e t. m s = (Inl e, t) \<longrightarrow> t = s)"

lemma atomicD: "atomic m \<Longrightarrow> m s = (Inl e, t) \<Longrightarrow> t = s"
  unfolding atomic_def by blast

lemma atomic_transaction [simp, intro]: "atomic (transaction m)"
  by (simp add: atomic_def transaction_raises_iff)

lemma atomic_ensure [intro]: "atomic k \<Longrightarrow> atomic (thenS (ensureS b e) k)"
  by (auto simp: atomic_def ensure_def split: if_splits)

lemma atomic_basic [simp, intro]: "atomic (returnS v)" "atomic (raiseS e)" "atomic (liftS r)" "atomic (getS f)"
  by (simp_all add: atomic_def)

lemma atomic_get [intro]: "(\<And>v. atomic (k v)) \<Longrightarrow> atomic (bindS (getS f) k)"
  by (simp add: atomic_def)

section \<open>Refusals\<close>

text \<open>\<open>try: fn() / except E: return True / return False\<close>\<close>

definition expects :: "exn \<Rightarrow> ('s, 'a) op \<Rightarrow> ('s, bool) op" where
  "expects e m = (\<lambda>s. case m s of
     (Inr _, t) \<Rightarrow> (Inr False, t)
   | (Inl x, t) \<Rightarrow> (if x = e then Inr True else Inl x, t))"

text \<open>The same for a \<open>ContractViolation\<close>, whose code is compared.\<close>

definition blocked :: "string \<Rightarrow> ('s, 'a) op \<Rightarrow> ('s, bool) op" where
  "blocked code m = (\<lambda>s. case m s of
     (Inr _, t) \<Rightarrow> (Inr False, t)
   | (Inl (ContractViolation c), t) \<Rightarrow> (Inr (c = code), t)
   | (Inl x, t) \<Rightarrow> (Inl x, t))"

text \<open>The same of a call that keeps no state.\<close>

definition blockedR :: "string \<Rightarrow> 'a res \<Rightarrow> bool res" where
  "blockedR code r = (case r of
     Inr _ \<Rightarrow> Inr False
   | Inl (ContractViolation c) \<Rightarrow> Inr (c = code)
   | Inl x \<Rightarrow> Inl x)"

lemma blockedR_simps [simp]:
  "blockedR code (Inr v) = Inr False" "blockedR code (Inl (ContractViolation c)) = Inr (c = code)"
  by (simp_all add: blockedR_def)

lemma option_Inr_iff:
  "(case x of None \<Rightarrow> Inl e | Some v \<Rightarrow> k v) = Inr w \<longleftrightarrow> (\<exists>v. x = Some v \<and> k v = Inr w)"
  by (cases x) simp_all

lemma map_sum_Inr_iff: "map_sum f g r = Inr w \<longleftrightarrow> (\<exists>v. r = Inr v \<and> w = g v)"
  by (cases r) auto

lemma if_Inr_iff: "(if b then r else q) = Inr w \<longleftrightarrow> (if b then r = Inr w else q = Inr w)"
  by simp

lemmas res_Inr_iff = bindR_Inr_iff ensure_Inr_iff option_Inr_iff map_sum_Inr_iff sum.inject

lemma expects_steps [simp]:
  "m s = (Inr v, t) \<Longrightarrow> expects e m s = (Inr False, t)"
  "m s = (Inl x, t) \<Longrightarrow> expects e m s = (if x = e then Inr True else Inl x, t)"
  by (simp_all add: expects_def)

lemma blocked_steps [simp]:
  "m s = (Inr v, t) \<Longrightarrow> blocked code m s = (Inr False, t)"
  "m s = (Inl (ContractViolation c), t) \<Longrightarrow> blocked code m s = (Inr (c = code), t)"
  by (simp_all add: blocked_def)

text \<open>A script on a fresh state.\<close>

definition run_from :: "'s \<Rightarrow> ('s, 'a) op \<Rightarrow> 'a res" where
  "run_from s m = fst (m s)"

type_synonym checks = "(string \<times> bool) list"

definition all_hold :: "checks \<Rightarrow> bool" where
  "all_hold cs = list_all snd cs"

definition eligible :: string where "eligible = ''eligible_for_evidence_execution''"
definition insufficient :: string where "insufficient = ''insufficient_evidence''"

text \<open>A text between double quotes, for the JSON texts the scripts write out.\<close>

definition quoted :: "string \<Rightarrow> string" where
  "quoted x = [CHR 0x22] @ x @ [CHR 0x22]"

text \<open>Objects with one normal form have the same fields.\<close>

lemma normal_fields:
  assumes "normal (PObj fs) = normal (PObj gs)" "distinct (map fst fs)" "distinct (map fst gs)"
  shows "map_option normal (map_of fs k) = map_option normal (map_of gs k)"
proof -
  have maps: "map_of (map (map_prod id normal) hs) k = map_option normal (map_of hs k)" for hs
    by (induction hs) auto
  have "set (map (map_prod id normal) fs) = set (map (map_prod id normal) gs)"
  proof -
    have "sort_key fst (map (map_prod id normal) fs) = sort_key fst (map (map_prod id normal) gs)"
      using assms(1) by simp
    from arg_cong [where f = set, OF this] show ?thesis by (simp only: set_sort)
  qed
  then have "map_of (map (map_prod id normal) fs) = map_of (map (map_prod id normal) gs)"
    using assms(2,3) by (subst map_of_inject_set) (simp_all add: comp_def)
  then show ?thesis by (metis maps)
qed

text \<open>Named groups of checks, and what they say together about a candidate.\<close>

type_synonym proof_checks = "(string \<times> string list) list"

definition group_holds :: "checks \<Rightarrow> string list \<Rightarrow> bool" where
  "group_holds cs names = list_all (\<lambda>n. map_of cs n = Some True) names"

definition verdict :: "proof_checks \<Rightarrow> checks \<Rightarrow> string" where
  "verdict groups cs =
     (if all_hold cs \<and> list_all (\<lambda>(p, names). group_holds cs names) groups then eligible else insufficient)"

lemma verdict_eligible:
  "verdict groups cs = eligible \<longleftrightarrow> all_hold cs \<and> list_all (\<lambda>(p, names). group_holds cs names) groups"
  by (simp add: verdict_def eligible_def insufficient_def)

text \<open>Evaluation of scripts: a step whose result is known, and checks that all passed.\<close>

lemma bindS_value: "fst (m s) = Inr v \<Longrightarrow> fst (bindS m k s) = fst (k v (snd (m s)))"
  by (cases "m s") (simp add: bindS_def)

text \<open>\<open>bindS_simps\<close> at a flag: its premise would become a schematic proposition.\<close>

lemma bindS_flag [simp]:
  "m s = (Inr False, t) \<Longrightarrow> bindS m k s = k False t" "m s = (Inr True, t) \<Longrightarrow> bindS m k s = k True t"
  by simp_all

definition passed :: "string list \<Rightarrow> checks" where
  "passed names = map (\<lambda>n. (n, True)) names"

lemma passed_append [simp]: "passed xs @ passed ys = passed (xs @ ys)"
  by (simp add: passed_def)

lemma passed_lookup: "map_of (passed names) n = (if n \<in> set names then Some True else None)"
  by (induction names) (auto simp: passed_def)

lemma verdict_passed:
  "list_all (\<lambda>(p, ns). list_all (\<lambda>n. n \<in> set names) ns) groups \<Longrightarrow> verdict groups (passed names) = eligible"
  unfolding verdict_eligible all_hold_def group_holds_def passed_lookup
  by (auto simp: passed_def list_all_iff)

end
