(* ===== verification/Consumer_Receipts.thy ===== *)
theory Consumer_Receipts
  imports Reference_Prelude Lease_Protocol
begin

text \<open>
  src/tools/assurance/d4c_ack_lease_checkpoint/evaluate_candidates.py: the durable authority
  over a consumer's receipts and the checks of its candidates. The table is a map from scoped
  identities to rows; every method is one transaction. \<open>sha\<close> is the hexadecimal SHA-256
  digest of a sequence of bytes.
\<close>

section \<open>The authority\<close>

type_synonym scoped_identity = "string \<times> string \<times> string"

record consumer_receipt =
  rt_fingerprint :: "string option"
  rt_owner :: "string option"
  rt_epoch :: int
  rt_lease_expired :: bool
  rt_durable_responsibility :: bool
  rt_effect_committed :: bool
  rt_effect_count :: int
  rt_acked :: bool
  rt_checkpointed :: bool

type_synonym receipts = "scoped_identity \<Rightarrow> consumer_receipt option"

definition valid_identity :: "scoped_identity \<Rightarrow> bool" where
  "valid_identity i \<longleftrightarrow> (case i of (c, p, m) \<Rightarrow> c \<noteq> [] \<and> p \<noteq> [] \<and> m \<noteq> [])"

definition valid_owner_epoch :: "string \<Rightarrow> int \<Rightarrow> bool" where
  "valid_owner_epoch w e \<longleftrightarrow> w \<noteq> [] \<and> 0 < e"

definition get_receipt :: "scoped_identity \<Rightarrow> (receipts, consumer_receipt) op" where
  "get_receipt i = (\<lambda>s. (case s i of None \<Rightarrow> Inl PrematureProgress | Some r \<Rightarrow> Inr r, s))"

definition put_receipt :: "scoped_identity \<Rightarrow> consumer_receipt \<Rightarrow> (receipts, unit) op" where
  "put_receipt i r = modifyS (\<lambda>s. s(i \<mapsto> r))"

definition owns_receipt :: "consumer_receipt \<Rightarrow> string \<Rightarrow> int \<Rightarrow> bool" where
  "owns_receipt r w e \<longleftrightarrow> rt_owner r = Some w \<and> rt_epoch r = e \<and> \<not> rt_lease_expired r"

definition assert_owner :: "consumer_receipt \<Rightarrow> string \<Rightarrow> int \<Rightarrow> unit res" where
  "assert_owner r w e = ensure (owns_receipt r w e) FenceViolation"

definition new_receipt :: "string \<Rightarrow> string \<Rightarrow> int \<Rightarrow> consumer_receipt" where
  "new_receipt fp w e =
     \<lparr>rt_fingerprint = Some fp, rt_owner = Some w, rt_epoch = e, rt_lease_expired = False,
      rt_durable_responsibility = True, rt_effect_committed = False, rt_effect_count = 0,
      rt_acked = False, rt_checkpointed = False\<rparr>"

text \<open>A claim of a row that exists.\<close>

definition claim_existing ::
  "scoped_identity \<Rightarrow> consumer_receipt \<Rightarrow> string \<Rightarrow> string \<Rightarrow> int \<Rightarrow> (receipts, consumer_receipt) op" where
  "claim_existing i r fp w e =
     thenS (ensureS (rt_fingerprint r \<noteq> None) Uncertainty)
    (thenS (ensureS (rt_fingerprint r = Some fp) IntegrityFailure)
    (if rt_owner r \<noteq> None
     then thenS (ensureS (\<not> e < rt_epoch r) FenceViolation)
         (thenS (ensureS (\<not> (e = rt_epoch r \<and> rt_owner r \<noteq> Some w)) FenceViolation)
         (thenS (ensureS (\<not> rt_epoch r < e) FenceViolation)
         (returnS r)))
     else thenS (ensureS (rt_lease_expired r) FenceViolation)
         (thenS (ensureS (rt_epoch r < e) FenceViolation)
         (thenS (put_receipt i (r\<lparr>rt_owner := Some w, rt_epoch := e, rt_lease_expired := False\<rparr>))
         (get_receipt i)))))"

definition claim_receipt ::
  "(nat list \<Rightarrow> string) \<Rightarrow> scoped_identity \<Rightarrow> payload \<Rightarrow> string \<Rightarrow> int \<Rightarrow>
   (receipts, consumer_receipt) op" where
  "claim_receipt sha i content w e =
     thenS (ensureS (valid_identity i) ValueError)
    (thenS (ensureS (valid_owner_epoch w e) ValueError)
    (transaction
      (bindS (getS (\<lambda>s. s i)) (\<lambda>row.
       case row of
         None \<Rightarrow> thenS (put_receipt i (new_receipt (content_digest sha content) w e)) (get_receipt i)
       | Some r \<Rightarrow> claim_existing i r (content_digest sha content) w e))))"

definition expire_lease :: "scoped_identity \<Rightarrow> string \<Rightarrow> int \<Rightarrow> (receipts, unit) op" where
  "expire_lease i w e =
     thenS (ensureS (valid_identity i) ValueError)
    (thenS (ensureS (valid_owner_epoch w e) ValueError)
    (transaction
      (bindS (get_receipt i) (\<lambda>r.
       thenS (liftS (assert_owner r w e))
      (put_receipt i (r\<lparr>rt_owner := None, rt_lease_expired := True\<rparr>))))))"

definition complete_effect :: "scoped_identity \<Rightarrow> string \<Rightarrow> int \<Rightarrow> (receipts, string) op" where
  "complete_effect i w e =
     thenS (ensureS (valid_owner_epoch w e) ValueError)
    (transaction
      (bindS (get_receipt i) (\<lambda>r.
       thenS (liftS (assert_owner r w e))
      (thenS (ensureS (rt_fingerprint r \<noteq> None) Uncertainty)
      (if rt_effect_committed r then returnS ''duplicate_noop''
       else thenS (put_receipt i (r\<lparr>rt_effect_committed := True, rt_effect_count := rt_effect_count r + 1\<rparr>))
           (returnS ''effect_committed''))))))"

definition ack_receipt :: "scoped_identity \<Rightarrow> string \<Rightarrow> int \<Rightarrow> (receipts, unit) op" where
  "ack_receipt i w e =
     thenS (ensureS (valid_owner_epoch w e) ValueError)
    (transaction
      (bindS (get_receipt i) (\<lambda>r.
       thenS (liftS (assert_owner r w e))
      (thenS (ensureS (rt_durable_responsibility r) PrematureProgress)
      (put_receipt i (r\<lparr>rt_acked := True\<rparr>))))))"

definition checkpoint_receipt :: "scoped_identity \<Rightarrow> string \<Rightarrow> int \<Rightarrow> (receipts, unit) op" where
  "checkpoint_receipt i w e =
     thenS (ensureS (valid_owner_epoch w e) ValueError)
    (transaction
      (bindS (get_receipt i) (\<lambda>r.
       thenS (liftS (assert_owner r w e))
      (thenS (ensureS (rt_durable_responsibility r) PrematureProgress)
      (put_receipt i (r\<lparr>rt_checkpointed := True\<rparr>))))))"

definition business_effect_truth :: "scoped_identity \<Rightarrow> (receipts, bool) op" where
  "business_effect_truth i = getS (\<lambda>s. case s i of None \<Rightarrow> False | Some r \<Rightarrow> rt_effect_committed r)"

definition effect_count :: "scoped_identity \<Rightarrow> (receipts, int) op" where
  "effect_count i = bindS (get_receipt i) (\<lambda>r. returnS (rt_effect_count r))"

definition remove_equivalence_authority :: "scoped_identity \<Rightarrow> (receipts, unit) op" where
  "remove_equivalence_authority i =
     transaction (bindS (get_receipt i) (\<lambda>r. put_receipt i (r\<lparr>rt_fingerprint := None\<rparr>)))"

section \<open>Runs\<close>

declare split_paired_All [simp del] split_paired_Ex [simp del]

inductive consumer_step :: "(nat list \<Rightarrow> string) \<Rightarrow> receipts \<Rightarrow> receipts \<Rightarrow> bool"
  for sha :: "nat list \<Rightarrow> string" where
  rs_claim: "claim_receipt sha i c w e s = (r, t) \<Longrightarrow> consumer_step sha s t"
| rs_expire: "expire_lease i w e s = (r, t) \<Longrightarrow> consumer_step sha s t"
| rs_complete: "complete_effect i w e s = (r, t) \<Longrightarrow> consumer_step sha s t"
| rs_ack: "ack_receipt i w e s = (r, t) \<Longrightarrow> consumer_step sha s t"
| rs_checkpoint: "checkpoint_receipt i w e s = (r, t) \<Longrightarrow> consumer_step sha s t"
| rs_remove: "remove_equivalence_authority i s = (r, t) \<Longrightarrow> consumer_step sha s t"

inductive_cases consumer_stepE: "consumer_step sha s t"

lemmas receipt_op_defs =
  claim_receipt_def claim_existing_def expire_lease_def complete_effect_def ack_receipt_def
  checkpoint_receipt_def remove_equivalence_authority_def

text \<open>What one step does to a row.\<close>

inductive row_change :: "consumer_receipt option \<Rightarrow> consumer_receipt option \<Rightarrow> bool" where
  rc_new: "valid_owner_epoch w e \<Longrightarrow> row_change None (Some (new_receipt fp w e))"
| rc_take: "rt_owner r = None \<Longrightarrow> rt_epoch r < e \<Longrightarrow> rt_fingerprint r \<noteq> None \<Longrightarrow>
    row_change (Some r) (Some (r\<lparr>rt_owner := Some w, rt_epoch := e, rt_lease_expired := False\<rparr>))"
| rc_expire: "owns_receipt r w e \<Longrightarrow>
    row_change (Some r) (Some (r\<lparr>rt_owner := None, rt_lease_expired := True\<rparr>))"
| rc_effect: "owns_receipt r w e \<Longrightarrow> \<not> rt_effect_committed r \<Longrightarrow>
    row_change (Some r) (Some (r\<lparr>rt_effect_committed := True, rt_effect_count := rt_effect_count r + 1\<rparr>))"
| rc_ack: "owns_receipt r w e \<Longrightarrow> row_change (Some r) (Some (r\<lparr>rt_acked := True\<rparr>))"
| rc_checkpoint: "owns_receipt r w e \<Longrightarrow> row_change (Some r) (Some (r\<lparr>rt_checkpointed := True\<rparr>))"
| rc_forget: "row_change (Some r) (Some (r\<lparr>rt_fingerprint := None\<rparr>))"

lemma get_receipt_returns_iff: "get_receipt i s = (Inr r, t) \<longleftrightarrow> s i = Some r \<and> t = s"
  by (auto simp: get_receipt_def split: option.splits)

lemma put_receipt_apply [simp]: "put_receipt i r s = (Inr (), s(i \<mapsto> r))"
  by (simp add: put_receipt_def)

lemma assert_owner_Inr_iff: "assert_owner r w e = Inr u \<longleftrightarrow> owns_receipt r w e"
  by (simp add: assert_owner_def ensure_Inr_iff)

lemma atomic_receipts:
  "atomic (claim_receipt sha i c w e)" "atomic (expire_lease i w e)" "atomic (complete_effect i w e)"
  "atomic (ack_receipt i w e)" "atomic (checkpoint_receipt i w e)" "atomic (remove_equivalence_authority i)"
  unfolding receipt_op_defs by (intro atomic_ensure atomic_transaction)+

lemmas receipt_returns =
  sequence_returns transaction_returns_iff get_receipt_returns_iff ensureS_returns_iff liftS_returns_iff
  assert_owner_Inr_iff op_simps put_receipt_apply prod.inject sum.inject

lemma claim_receipt_returns:
  "claim_receipt sha i c w e s = (Inr r, t) \<Longrightarrow>
     valid_identity i \<and> valid_owner_epoch w e \<and>
     (case s i of
        None \<Rightarrow> r = new_receipt (content_digest sha c) w e \<and> t = s(i \<mapsto> r)
      | Some x \<Rightarrow> rt_fingerprint x = Some (content_digest sha c) \<and>
          (if rt_owner x = None
           then rt_epoch x < e \<and> r = x\<lparr>rt_owner := Some w, rt_epoch := e, rt_lease_expired := False\<rparr> \<and>
             t = s(i \<mapsto> r)
           else rt_owner x = Some w \<and> rt_epoch x = e \<and> r = x \<and> t = s))"
  unfolding claim_receipt_def claim_existing_def receipt_returns
  by (auto simp: get_receipt_def ensure_def split: option.splits if_splits)

lemma consumer_step_row:
  "consumer_step sha s t \<Longrightarrow> row_change (s k) (t k) \<or> t k = s k"
proof (erule consumer_stepE)
  fix i c w e r assume run: "claim_receipt sha i c w e s = (r, t)"
  show ?thesis
  proof (cases r)
    case (Inl x)
    then show ?thesis using run atomicD [OF atomic_receipts(1)] by blast
  next
    case (Inr r')
    note got = claim_receipt_returns [OF run [unfolded Inr]]
    show ?thesis
    proof (cases "s i")
      case None
      then show ?thesis using got rc_new [of w e "content_digest sha c"] by simp
    next
      case (Some x)
      then show ?thesis using got rc_take [of x e w] by (cases "rt_owner x = None") simp_all
    qed
  qed
next
  fix i w e r assume run: "expire_lease i w e s = (r, t)"
  show ?thesis
  proof (cases r)
    case (Inl x)
    then show ?thesis using run atomicD [OF atomic_receipts(2)] by blast
  next
    case (Inr u)
    from run [unfolded Inr expire_lease_def receipt_returns] show ?thesis by (auto intro: rc_expire)
  qed
next
  fix i w e r assume run: "complete_effect i w e s = (r, t)"
  show ?thesis
  proof (cases r)
    case (Inl x)
    then show ?thesis using run atomicD [OF atomic_receipts(3)] by blast
  next
    case (Inr u)
    from run [unfolded Inr complete_effect_def receipt_returns] show ?thesis
      by (auto simp: ensure_def intro: rc_effect split: if_splits)
  qed
next
  fix i w e r assume run: "ack_receipt i w e s = (r, t)"
  show ?thesis
  proof (cases r)
    case (Inl x)
    then show ?thesis using run atomicD [OF atomic_receipts(4)] by blast
  next
    case (Inr u)
    from run [unfolded Inr ack_receipt_def receipt_returns] show ?thesis by (auto intro: rc_ack)
  qed
next
  fix i w e r assume run: "checkpoint_receipt i w e s = (r, t)"
  show ?thesis
  proof (cases r)
    case (Inl x)
    then show ?thesis using run atomicD [OF atomic_receipts(5)] by blast
  next
    case (Inr u)
    from run [unfolded Inr checkpoint_receipt_def receipt_returns] show ?thesis by (auto intro: rc_checkpoint)
  qed
next
  fix i r assume run: "remove_equivalence_authority i s = (r, t)"
  show ?thesis
  proof (cases r)
    case (Inl x)
    then show ?thesis using run atomicD [OF atomic_receipts(6)] by blast
  next
    case (Inr u)
    from run [unfolded Inr remove_equivalence_authority_def receipt_returns] show ?thesis by (auto intro: rc_forget)
  qed
qed

section \<open>The invariant and the leases\<close>

definition receipt_ok :: "consumer_receipt \<Rightarrow> bool" where
  "receipt_ok r \<longleftrightarrow>
     0 < rt_epoch r \<and> rt_durable_responsibility r \<and> (rt_owner r = None \<longleftrightarrow> rt_lease_expired r) \<and>
     rt_effect_count r = (if rt_effect_committed r then 1 else 0)"

definition receipts_inv :: "receipts \<Rightarrow> bool" where
  "receipts_inv s \<longleftrightarrow> (\<forall>i r. s i = Some r \<longrightarrow> receipt_ok r)"

definition receipt_epoch :: "receipts \<Rightarrow> scoped_identity \<Rightarrow> int" where
  "receipt_epoch s i = (case s i of None \<Rightarrow> 0 | Some r \<Rightarrow> rt_epoch r)"

definition receipt_lease :: "receipts \<Rightarrow> scoped_identity \<Rightarrow> (string \<times> int) option" where
  "receipt_lease s i =
     (case s i of None \<Rightarrow> None | Some r \<Rightarrow> map_option (\<lambda>w. (w, rt_epoch r)) (rt_owner r))"

lemma row_change_ok: "row_change x y \<Longrightarrow> (\<And>r. x = Some r \<Longrightarrow> receipt_ok r) \<Longrightarrow> y = Some q \<Longrightarrow> receipt_ok q"
  by (induction rule: row_change.induct)
    (auto simp: receipt_ok_def new_receipt_def valid_owner_epoch_def owns_receipt_def)

text \<open>The contract of the ledgers' leases, for the receipts.\<close>

interpretation rl: fenced_lease "consumer_step sha" receipts_inv receipt_epoch receipt_lease snd for sha
proof
  fix s t i c
  show "receipts_inv t" if "receipts_inv s" "consumer_step sha s t"
    using consumer_step_row [OF that(2)] that(1) row_change_ok unfolding receipts_inv_def by metis
  show "snd c = receipt_epoch s i" if "receipt_lease s i = Some c"
    using that by (auto simp: receipt_lease_def receipt_epoch_def split: option.splits)
  show "receipt_epoch s i \<le> receipt_epoch t i" if "receipts_inv s" "consumer_step sha s t"
    using consumer_step_row [OF that(2), of i]
    by (auto simp: receipt_epoch_def new_receipt_def valid_owner_epoch_def elim!: row_change.cases)
  show "receipt_lease s i = Some c \<or> receipt_epoch s i < receipt_epoch t i"
    if "receipts_inv s" "consumer_step sha s t" "receipt_lease t i = Some c"
    using consumer_step_row [OF that(2), of i] that(3)
    by (auto simp: receipt_epoch_def receipt_lease_def new_receipt_def valid_owner_epoch_def
        split: option.splits if_splits elim!: row_change.cases)
qed

lemma receipts_inv_empty: "receipts_inv Map.empty"
  by (simp add: receipts_inv_def)

text \<open>Effects are never undone, and never repeated.\<close>

definition effects_of :: "receipts \<Rightarrow> scoped_identity \<Rightarrow> int" where
  "effects_of s i = (case s i of None \<Rightarrow> 0 | Some r \<Rightarrow> rt_effect_count r)"

lemma effects_of_step: "consumer_step sha s t \<Longrightarrow> effects_of s i \<le> effects_of t i"
  using consumer_step_row [of sha s t i] by (auto simp: effects_of_def new_receipt_def elim!: row_change.cases)

lemma effects_of_run: "(consumer_step sha)\<^sup>*\<^sup>* s t \<Longrightarrow> effects_of s i \<le> effects_of t i"
  by (induction rule: rtranclp_induct) (auto intro: order_trans effects_of_step)

lemma receipts_invD: "receipts_inv s \<Longrightarrow> s i = Some r \<Longrightarrow> receipt_ok r"
  unfolding receipts_inv_def by blast

lemma effects_of_bound: "receipts_inv s \<Longrightarrow> effects_of s i \<in> {0, 1}"
  using receipts_invD [of s i] by (cases "s i") (simp_all add: effects_of_def receipt_ok_def)

lemma complete_effect_returns:
  "complete_effect i w e s = (Inr v, t) \<Longrightarrow> receipts_inv s \<Longrightarrow>
     receipt_lease s i = Some (w, e) \<and> effects_of t i = 1 \<and>
     (v = ''effect_committed'' \<and> effects_of s i = 0 \<or> v = ''duplicate_noop'' \<and> effects_of s i = 1 \<and> t = s)"
  using receipts_invD [of s i] unfolding complete_effect_def receipt_returns
  by (auto simp: receipt_ok_def receipt_lease_def effects_of_def owns_receipt_def split: if_splits)

lemma lost_owner_refused:
  assumes "receipt_lease s i \<noteq> Some (w, e)" "receipts_inv s" "s i \<noteq> None" "valid_identity i" "valid_owner_epoch w e"
  shows "complete_effect i w e s = (Inl FenceViolation, s)" "ack_receipt i w e s = (Inl FenceViolation, s)"
    "checkpoint_receipt i w e s = (Inl FenceViolation, s)" "expire_lease i w e s = (Inl FenceViolation, s)"
proof -
  from assms(3) obtain r where r: "s i = Some r" by blast
  have "get_receipt i s = (Inr r, s)" by (simp add: get_receipt_def r)
  moreover have "assert_owner r w e = Inl FenceViolation"
    using assms(1) r by (auto simp: receipt_lease_def assert_owner_def ensure_def owns_receipt_def)
  ultimately show "complete_effect i w e s = (Inl FenceViolation, s)" "ack_receipt i w e s = (Inl FenceViolation, s)"
    "checkpoint_receipt i w e s = (Inl FenceViolation, s)" "expire_lease i w e s = (Inl FenceViolation, s)"
    using assms(4,5)
    by (simp_all add: complete_effect_def ack_receipt_def checkpoint_receipt_def expire_lease_def transaction_def)
qed

lemma known_stays: "(consumer_step sha)\<^sup>*\<^sup>* s t \<Longrightarrow> s i \<noteq> None \<Longrightarrow> t i \<noteq> None"
proof (induction rule: rtranclp_induct)
  case (step t u)
  then show ?case using consumer_step_row [OF step.hyps(2), of i] by (auto elim!: row_change.cases)
qed simp

section \<open>What the authority promises\<close>

text \<open>C18: the effect of a message takes place at most once. From an empty table, in every
  reachable state, an owner completes the effect only under the current lease; it is
  committed by the first completion and each later one, by whatever owner and however
  many crashes and takeovers lie in between, is a duplicate that changes nothing.\<close>

theorem consumer_effect_once:
  assumes "(consumer_step sha)\<^sup>*\<^sup>* Map.empty s" "complete_effect i w e s = (Inr v, t)"
    and "(consumer_step sha)\<^sup>*\<^sup>* t u" "complete_effect i w' e' u = (Inr v', u')"
  shows "receipt_lease s i = Some (w, e) \<and> effects_of t i = 1 \<and> v' = ''duplicate_noop'' \<and> u' = u \<and>
    effects_of u i = 1 \<and> receipt_lease u i = Some (w', e')"
proof -
  have inv: "receipts_inv s" using rl.inv_run [OF assms(1) receipts_inv_empty] .
  have first: "receipt_lease s i = Some (w, e)" "effects_of t i = 1"
    using complete_effect_returns [OF assms(2) inv] by blast+
  have "receipts_inv t" using rl.inv_step [OF inv rs_complete [OF assms(2)]] .
  then have inv': "receipts_inv u" by (rule rl.inv_run [OF assms(3)])
  have "effects_of u i = 1"
    using effects_of_run [OF assms(3), of i] first(2) effects_of_bound [OF inv', of i] by auto
  then show ?thesis using complete_effect_returns [OF assms(4) inv'] first by auto
qed

text \<open>An owner that lost its lease is powerless. Once a lease is not the recorded one and
  its epoch is not ahead, then after any further run every operation under it is refused
  with \<open>FenceViolation\<close> and changes nothing.\<close>

theorem lost_consumer_powerless:
  assumes "(consumer_step sha)\<^sup>*\<^sup>* Map.empty s" "s i \<noteq> None" "receipt_lease s i \<noteq> Some (w, e)"
    and "e \<le> receipt_epoch s i" "valid_identity i" "valid_owner_epoch w e" "(consumer_step sha)\<^sup>*\<^sup>* s t"
  shows "complete_effect i w e t = (Inl FenceViolation, t) \<and> ack_receipt i w e t = (Inl FenceViolation, t) \<and>
    checkpoint_receipt i w e t = (Inl FenceViolation, t) \<and> expire_lease i w e t = (Inl FenceViolation, t)"
proof -
  have inv: "receipts_inv s" using rl.inv_run [OF assms(1) receipts_inv_empty] .
  have "receipt_lease t i \<noteq> Some (w, e)"
    using rl.lost_lease_stays_lost [OF assms(7) inv assms(3)] assms(4) by simp
  then show ?thesis
    using lost_owner_refused rl.inv_run [OF assms(7) inv] known_stays [OF assms(7,2)] assms(5,6) by blast
qed

section \<open>The checks of the profiles\<close>

definition ack_candidates :: "string list" where
  "ack_candidates =
     [''durable_inbox_claim_then_broker_ack_profile'', ''broker_visibility_lease_plus_durable_receipt_profile'',
      ''database_owned_work_claim_plus_broker_checkpoint_profile'']"

definition advance_progress :: "string \<Rightarrow> scoped_identity \<Rightarrow> string \<Rightarrow> int \<Rightarrow> (receipts, unit) op" where
  "advance_progress profile i w e =
     (if profile = ''database_owned_work_claim_plus_broker_checkpoint_profile''
      then checkpoint_receipt i w e else ack_receipt i w e)"

definition profile_identity :: scoped_identity where
  "profile_identity = (''consumer.orders.v1'', ''tenant:t1/order:o1'', ''msg-001'')"

definition profile_content :: "string \<Rightarrow> int \<Rightarrow> payload" where
  "profile_content version revision =
     PObj [(''envelope'', PObj [(''event_type'', PText ''order.updated''), (''contract_version'', PText version),
             (''occurred_at'', PText ''2026-09-05T05:00:00Z''), (''source_generation'', PText ''generation-a'')]),
           (''payload'', PObj [(''order_id'', PText ''o1''), (''revision'', PInt revision)])]"

text \<open>\<open>w\<close> claims the message of the scripts under epoch \<open>e\<close>, with the content of the scripts.\<close>

definition own_claim :: "(nat list \<Rightarrow> string) \<Rightarrow> string \<Rightarrow> int \<Rightarrow> (receipts, consumer_receipt) op" where
  "own_claim sha w e = claim_receipt sha profile_identity (profile_content ''7'' 7) w e"

text \<open>Every script starts on an empty database; a restart reopens the same one.\<close>

definition premature_scripts :: "bool res \<times> bool res" where
  "premature_scripts =
     (run_from Map.empty (expects PrematureProgress (ack_receipt profile_identity ''w1'' 1)),
      run_from Map.empty (expects PrematureProgress (checkpoint_receipt profile_identity ''w1'' 1)))"

definition progress_script :: "(nat list \<Rightarrow> string) \<Rightarrow> string \<Rightarrow> (receipts, bool) op" where
  "progress_script sha profile =
     bindS (own_claim sha ''w1'' 1) (\<lambda>_.
     thenS (advance_progress profile profile_identity ''w1'' 1)
    (bindS (business_effect_truth profile_identity) (\<lambda>truth. returnS (\<not> truth))))"

definition ambiguous_script :: "(nat list \<Rightarrow> string) \<Rightarrow> (receipts, bool \<times> bool \<times> bool) op" where
  "ambiguous_script sha =
     bindS (own_claim sha ''w1'' 1) (\<lambda>_.
     bindS (expects FenceViolation (own_claim sha ''w2'' 2)) (\<lambda>stolen.
     bindS (complete_effect profile_identity ''w1'' 1) (\<lambda>_.
     thenS (expire_lease profile_identity ''w1'' 1)
    (bindS (expects FenceViolation (own_claim sha ''w2'' 1)) (\<lambda>same_epoch.
     bindS (own_claim sha ''w2'' 2) (\<lambda>_.
     bindS (complete_effect profile_identity ''w2'' 2) (\<lambda>duplicate.
     bindS (effect_count profile_identity) (\<lambda>n.
     returnS (stolen, same_epoch, duplicate = ''duplicate_noop'' \<and> n = 1)))))))))"

definition conflict_script :: "(nat list \<Rightarrow> string) \<Rightarrow> payload \<Rightarrow> (receipts, bool) op" where
  "conflict_script sha other =
     bindS (own_claim sha ''w1'' 1) (\<lambda>_.
     expects IntegrityFailure (claim_receipt sha profile_identity other ''w1'' 1))"

definition rewind_script :: "(nat list \<Rightarrow> string) \<Rightarrow> (receipts, bool) op" where
  "rewind_script sha =
     bindS (own_claim sha ''w1'' 1) (\<lambda>_.
     thenS (remove_equivalence_authority profile_identity)
    (expects Uncertainty (own_claim sha ''w1'' 1)))"

definition fenced_script :: "(nat list \<Rightarrow> string) \<Rightarrow> (receipts, bool) op" where
  "fenced_script sha =
     bindS (own_claim sha ''w1'' 1) (\<lambda>_.
     thenS (expire_lease profile_identity ''w1'' 1)
    (bindS (own_claim sha ''w2'' 2) (\<lambda>_.
     expects FenceViolation (complete_effect profile_identity ''w1'' 1))))"

definition crash_before_script :: "(nat list \<Rightarrow> string) \<Rightarrow> string \<Rightarrow> (receipts, bool \<times> bool) op" where
  "crash_before_script sha profile =
     bindS (own_claim sha ''w1'' 1) (\<lambda>_.
     bindS (business_effect_truth profile_identity) (\<lambda>truth.
     bindS (get_receipt profile_identity) (\<lambda>r.
     thenS (expire_lease profile_identity ''w1'' 1)
    (bindS (own_claim sha ''w2'' 2) (\<lambda>_.
     bindS (complete_effect profile_identity ''w2'' 2) (\<lambda>_.
     thenS (advance_progress profile profile_identity ''w2'' 2)
    (bindS (effect_count profile_identity) (\<lambda>n.
     returnS (\<not> truth \<and> rt_fingerprint r \<noteq> None, n = 1)))))))))"

definition crash_after_script :: "(nat list \<Rightarrow> string) \<Rightarrow> string \<Rightarrow> (receipts, bool \<times> bool) op" where
  "crash_after_script sha profile =
     bindS (own_claim sha ''w1'' 1) (\<lambda>_.
     bindS (complete_effect profile_identity ''w1'' 1) (\<lambda>_.
     bindS (business_effect_truth profile_identity) (\<lambda>truth.
     bindS (effect_count profile_identity) (\<lambda>once.
     thenS (expire_lease profile_identity ''w1'' 1)
    (bindS (own_claim sha ''w2'' 2) (\<lambda>_.
     bindS (complete_effect profile_identity ''w2'' 2) (\<lambda>second.
     thenS (advance_progress profile profile_identity ''w2'' 2)
    (bindS (effect_count profile_identity) (\<lambda>n.
     returnS (truth \<and> once = 1, second = ''duplicate_noop'' \<and> n = 1))))))))))"

definition run_profile :: "(nat list \<Rightarrow> string) \<Rightarrow> string \<Rightarrow> checks res" where
  "run_profile sha profile =
     bindR (ensure (profile \<in> set ack_candidates) ValueError) (\<lambda>_.
     bindR (fst premature_scripts) (\<lambda>premature_ack.
     bindR (snd premature_scripts) (\<lambda>premature_checkpoint.
     bindR (run_from Map.empty (progress_script sha profile)) (\<lambda>progress.
     bindR (run_from Map.empty (ambiguous_script sha)) (\<lambda>(stolen, same_epoch, ambiguous).
     bindR (run_from Map.empty (conflict_script sha (profile_content ''7'' 8))) (\<lambda>other_payload.
     bindR (run_from Map.empty (conflict_script sha (profile_content ''8'' 7))) (\<lambda>other_envelope.
     bindR (run_from Map.empty (rewind_script sha)) (\<lambda>rewind.
     bindR (run_from Map.empty (fenced_script sha)) (\<lambda>fenced.
     bindR (run_from Map.empty (crash_before_script sha profile)) (\<lambda>(kept, recovers).
     bindR (run_from Map.empty (crash_after_script sha profile)) (\<lambda>(truth, safe).
     Inr [(''premature_ack_rejected'', premature_ack), (''premature_checkpoint_rejected'', premature_checkpoint),
       (''broker_progress_not_effect_truth'', progress), (''unexpired_claim_cannot_be_stolen'', stolen),
       (''lease_expiry_requires_new_fence_epoch'', same_epoch),
       (''lease_expiry_is_ambiguity_with_idempotent_redelivery'', ambiguous),
       (''rewind_requires_content_equivalence_authority'', rewind),
       (''envelope_and_payload_conflicts_fail_closed'', other_payload \<and> other_envelope),
       (''stale_owner_is_fenced'', fenced),
       (''restart_preserves_durable_receipt_and_equivalence_authority'', kept),
       (''crash_after_responsibility_before_effect_or_progress_recovers'', recovers),
       (''restart_preserves_effect_truth'', truth),
       (''crash_after_effect_before_progress_does_not_repeat_effect'', safe)])))))))))))"

definition ack_result :: "checks \<Rightarrow> string" where
  "ack_result cs = (if all_hold cs then eligible else ''ineligible_by_contract'')"

text \<open>The operations on the one row of the scripts.\<close>

abbreviation own_digest :: "(nat list \<Rightarrow> string) \<Rightarrow> string" where
  "own_digest sha \<equiv> content_digest sha (profile_content ''7'' 7)"

abbreviation one_row :: "consumer_receipt \<Rightarrow> receipts" where
  "one_row r \<equiv> [profile_identity \<mapsto> r]"

lemmas receipt_op_simps =
  get_receipt_def assert_owner_def valid_owner_epoch_def transaction_def ensure_def

lemma own_identity [simp]: "valid_identity profile_identity"
  by (simp add: valid_identity_def profile_identity_def)

lemma own_claim_steps [simp]:
  "w \<noteq> [] \<Longrightarrow> 0 < e \<Longrightarrow>
     own_claim sha w e Map.empty = (Inr (new_receipt (own_digest sha) w e), one_row (new_receipt (own_digest sha) w e))"
  "w \<noteq> [] \<Longrightarrow> 0 < e \<Longrightarrow> rt_fingerprint r = Some (own_digest sha) \<Longrightarrow> rt_owner r = None \<Longrightarrow> rt_lease_expired r \<Longrightarrow>
     own_claim sha w e (one_row r) =
       (if rt_epoch r < e
        then (Inr (r\<lparr>rt_owner := Some w, rt_epoch := e, rt_lease_expired := False\<rparr>),
              one_row (r\<lparr>rt_owner := Some w, rt_epoch := e, rt_lease_expired := False\<rparr>))
        else (Inl FenceViolation, one_row r))"
  "w \<noteq> [] \<Longrightarrow> 0 < e \<Longrightarrow> rt_fingerprint r = Some (own_digest sha) \<Longrightarrow> rt_owner r = Some v \<Longrightarrow> (w, e) \<noteq> (v, rt_epoch r) \<Longrightarrow>
     own_claim sha w e (one_row r) = (Inl FenceViolation, one_row r)"
  "w \<noteq> [] \<Longrightarrow> 0 < e \<Longrightarrow> rt_fingerprint r = None \<Longrightarrow> own_claim sha w e (one_row r) = (Inl Uncertainty, one_row r)"
  by (auto simp: own_claim_def claim_receipt_def claim_existing_def receipt_op_simps)

lemma row_steps [simp]:
  "w \<noteq> [] \<Longrightarrow> 0 < e \<Longrightarrow> complete_effect profile_identity w e (one_row r) =
     (if \<not> owns_receipt r w e then (Inl FenceViolation, one_row r)
      else if rt_fingerprint r = None then (Inl Uncertainty, one_row r)
      else if rt_effect_committed r then (Inr ''duplicate_noop'', one_row r)
      else (Inr ''effect_committed'',
            one_row (r\<lparr>rt_effect_committed := True, rt_effect_count := rt_effect_count r + 1\<rparr>)))"
  "w \<noteq> [] \<Longrightarrow> 0 < e \<Longrightarrow> expire_lease profile_identity w e (one_row r) =
     (if owns_receipt r w e then (Inr (), one_row (r\<lparr>rt_owner := None, rt_lease_expired := True\<rparr>))
      else (Inl FenceViolation, one_row r))"
  "w \<noteq> [] \<Longrightarrow> 0 < e \<Longrightarrow> owns_receipt r w e \<Longrightarrow> rt_durable_responsibility r \<Longrightarrow>
     advance_progress profile profile_identity w e (one_row r) =
       (Inr (), one_row (if profile = ''database_owned_work_claim_plus_broker_checkpoint_profile''
                         then r\<lparr>rt_checkpointed := True\<rparr> else r\<lparr>rt_acked := True\<rparr>))"
  "business_effect_truth profile_identity (one_row r) = (Inr (rt_effect_committed r), one_row r)"
  "effect_count profile_identity (one_row r) = (Inr (rt_effect_count r), one_row r)"
  "get_receipt profile_identity (one_row r) = (Inr r, one_row r)"
  "remove_equivalence_authority profile_identity (one_row r) = (Inr (), one_row (r\<lparr>rt_fingerprint := None\<rparr>))"
  by (auto simp: complete_effect_def expire_lease_def ack_receipt_def checkpoint_receipt_def advance_progress_def
      business_effect_truth_def effect_count_def remove_equivalence_authority_def receipt_op_simps)

lemma conflict_step [simp]:
  "content_digest sha other \<noteq> own_digest sha \<Longrightarrow> rt_fingerprint r = Some (own_digest sha) \<Longrightarrow>
   claim_receipt sha profile_identity other ''w1'' 1 (one_row r) = (Inl IntegrityFailure, one_row r)"
  by (simp add: claim_receipt_def claim_existing_def receipt_op_simps)

lemmas profile_simps = run_from_def expects_def new_receipt_def owns_receipt_def

lemma premature_scripts_hold: "premature_scripts = (Inr True, Inr True)"
  by (simp add: premature_scripts_def ack_receipt_def checkpoint_receipt_def receipt_op_simps profile_simps)

lemma progress_script_holds: "run_from Map.empty (progress_script sha profile) = Inr True"
  by (simp add: progress_script_def profile_simps)

lemma ambiguous_script_holds: "run_from Map.empty (ambiguous_script sha) = Inr (True, True, True)"
  by (simp add: ambiguous_script_def profile_simps)

lemma conflict_script_holds:
  "content_digest sha other \<noteq> content_digest sha (profile_content ''7'' 7) \<Longrightarrow>
   run_from Map.empty (conflict_script sha other) = Inr True"
  by (simp add: conflict_script_def profile_simps)

lemma rewind_script_holds: "run_from Map.empty (rewind_script sha) = Inr True"
  by (simp add: rewind_script_def profile_simps)

lemma fenced_script_holds: "run_from Map.empty (fenced_script sha) = Inr True"
  by (simp add: fenced_script_def profile_simps)

lemma crash_before_script_holds: "run_from Map.empty (crash_before_script sha profile) = Inr (True, True)"
  by (simp add: crash_before_script_def profile_simps)

lemma crash_after_script_holds: "run_from Map.empty (crash_after_script sha profile) = Inr (True, True)"
  by (simp add: crash_after_script_def profile_simps)

text \<open>Every profile passes, as soon as the digest tells the three contents of the scripts apart.\<close>

lemma profiles_pass:
  assumes "profile \<in> set ack_candidates"
    and "content_digest sha (profile_content ''7'' 8) \<noteq> content_digest sha (profile_content ''7'' 7)"
    and "content_digest sha (profile_content ''8'' 7) \<noteq> content_digest sha (profile_content ''7'' 7)"
  shows "map_sum id ack_result (run_profile sha profile) = Inr eligible"
  using assms
  by (simp add: run_profile_def premature_scripts_hold progress_script_holds ambiguous_script_holds
      conflict_script_holds rewind_script_holds fenced_script_holds crash_before_script_holds
      crash_after_script_holds ack_result_def all_hold_def)

section \<open>A crash and a takeover\<close>

definition plain_sha :: "nat list \<Rightarrow> string" where
  "plain_sha bs = map char_of bs"

definition row_of :: "string option \<Rightarrow> int \<Rightarrow> bool \<Rightarrow> receipts" where
  "row_of w e committed =
     one_row ((new_receipt (own_digest plain_sha) ''w1'' e)
       \<lparr>rt_owner := w, rt_lease_expired := (w = None), rt_effect_committed := committed,
        rt_effect_count := (if committed then 1 else 0)\<rparr>)"

lemma crash_run:
  "snd (own_claim plain_sha ''w1'' 1 Map.empty) = row_of (Some ''w1'') 1 False"
  "complete_effect profile_identity ''w1'' 1 (row_of (Some ''w1'') 1 False) =
     (Inr ''effect_committed'', row_of (Some ''w1'') 1 True)"
  "expire_lease profile_identity ''w1'' 1 (row_of (Some ''w1'') 1 True) = (Inr (), row_of None 1 True)"
  "snd (own_claim plain_sha ''w2'' 2 (row_of None 1 True)) = row_of (Some ''w2'') 2 True"
  "complete_effect profile_identity ''w2'' 2 (row_of (Some ''w2'') 2 True) =
     (Inr ''duplicate_noop'', row_of (Some ''w2'') 2 True)"
  by (simp_all add: row_of_def profile_simps)

lemma claim_step: "snd (own_claim sha w e s) = t \<Longrightarrow> consumer_step sha s t"
  by (cases "own_claim sha w e s") (auto simp: own_claim_def intro: rs_claim)

lemma crash_steps:
  "(consumer_step plain_sha)\<^sup>*\<^sup>* Map.empty (row_of (Some ''w1'') 1 False)"
  "(consumer_step plain_sha)\<^sup>*\<^sup>* (row_of (Some ''w1'') 1 True) (row_of (Some ''w2'') 2 True)"
proof -
  show "(consumer_step plain_sha)\<^sup>*\<^sup>* Map.empty (row_of (Some ''w1'') 1 False)"
    using claim_step [OF crash_run(1)] by blast
  have "consumer_step plain_sha (row_of (Some ''w1'') 1 True) (row_of None 1 True)"
    by (rule rs_expire [OF crash_run(3)])
  moreover have "consumer_step plain_sha (row_of None 1 True) (row_of (Some ''w2'') 2 True)"
    by (rule claim_step [OF crash_run(4)])
  ultimately show "(consumer_step plain_sha)\<^sup>*\<^sup>* (row_of (Some ''w1'') 1 True) (row_of (Some ''w2'') 2 True)"
    by (meson r_into_rtranclp rtranclp.rtrancl_into_rtrancl)
qed

theorem consumer_effect_once_witness:
  "effects_of (row_of (Some ''w2'') 2 True) profile_identity = 1 \<and>
   receipt_lease (row_of (Some ''w2'') 2 True) profile_identity = Some (''w2'', 2)"
  using consumer_effect_once [OF crash_steps(1) crash_run(2) crash_steps(2) crash_run(5)] by blast

theorem lost_consumer_powerless_witness:
  "ack_receipt profile_identity ''w1'' 1 (row_of (Some ''w2'') 2 True) =
     (Inl FenceViolation, row_of (Some ''w2'') 2 True)"
proof -
  have "(consumer_step plain_sha)\<^sup>*\<^sup>* Map.empty (row_of (Some ''w2'') 2 True)"
    using crash_steps rs_complete [OF crash_run(2), of plain_sha]
    by (meson rtranclp.rtrancl_into_rtrancl rtranclp_trans)
  moreover have "row_of (Some ''w2'') 2 True profile_identity \<noteq> None"
    and "receipt_lease (row_of (Some ''w2'') 2 True) profile_identity \<noteq> Some (''w1'', 1)"
    and "(1 :: int) \<le> receipt_epoch (row_of (Some ''w2'') 2 True) profile_identity"
    and "valid_identity profile_identity" and "valid_owner_epoch ''w1'' 1"
    by (simp_all add: row_of_def receipt_lease_def receipt_epoch_def new_receipt_def valid_identity_def
        valid_owner_epoch_def profile_identity_def)
  ultimately show ?thesis using lost_consumer_powerless by blast
qed

end
