(* ===== verification/Source_Generations.thy ===== *)
theory Source_Generations
  imports Reference_Prelude
begin

text \<open>
  src/tools/assurance/d4c_producer_generation/evaluate_candidates.py: the generations of a
  source under three representations, the admission of effects under the current one, and the
  checks of the candidates. The candidate and the identity of an authority never change and are
  arguments; the state is its durable state.
\<close>

section \<open>Generations\<close>

text \<open>\<open>Generation\<close> is \<open>int | str\<close>; a flag is what the representation check also has to refuse.\<close>

datatype generation = GInt int | GText string | GFlag bool

definition positive_integer :: string where "positive_integer = ''positive_integer_fenced_generation''"
definition opaque_token_candidate :: string where "opaque_token_candidate = ''opaque_fenced_generation_token''"
definition issued_epoch :: string where "issued_epoch = ''authority_issued_epoch_generation''"

definition generation_candidates :: "string list" where
  "generation_candidates = [positive_integer, opaque_token_candidate, issued_epoch]"

text \<open>\<open>f"{n:04d}"\<close> for a number that is not negative.\<close>

definition padded4 :: "nat \<Rightarrow> string" where
  "padded4 n = replicate (4 - length (nat_digits n)) (CHR ''0'') @ nat_digits n"

definition format_generation :: "string \<Rightarrow> nat \<Rightarrow> generation res" where
  "format_generation c n =
     (if c = positive_integer then Inr (GInt (int n))
      else if c = opaque_token_candidate then Inr (GText (''g-'' @ padded4 n @ ''-opaque-token''))
      else if c = issued_epoch then Inr (GText (''epoch-'' @ padded4 n))
      else Inl AssertionError)"

definition validate_representation :: "string \<Rightarrow> generation \<Rightarrow> unit res" where
  "validate_representation c g =
     (if c = positive_integer
      then ensure (case g of GInt i \<Rightarrow> 0 < i | _ \<Rightarrow> False) (ContractViolation ''generation_representation_invalid'')
      else ensure (case g of GText x \<Rightarrow> x \<noteq> [] | _ \<Rightarrow> False) (ContractViolation ''generation_representation_invalid''))"

fun same_type :: "generation \<Rightarrow> generation \<Rightarrow> bool" where
  "same_type (GInt _) (GInt _) = True"
| "same_type (GText _) (GText _) = True"
| "same_type (GFlag _) (GFlag _) = True"
| "same_type _ _ = False"

section \<open>The authority\<close>

record source_identity =
  so_tenant_id :: string
  so_logical_source_id :: string

record source_authority =
  sa_identity :: source_identity
  sa_generation :: generation
  sa_placement :: string

record historical_fact =
  hf_identity :: source_identity
  hf_generation :: generation
  hf_message_id :: string
  hf_semantic_content :: string

record generation_state =
  gs_current :: source_authority
  gs_retired_generations :: "generation set"
  gs_sequence :: nat

definition generation_init :: "string \<Rightarrow> source_identity \<Rightarrow> generation_state res" where
  "generation_init c i =
     bindR (ensure (c \<in> set generation_candidates) ValueError) (\<lambda>_.
     bindR (format_generation c 1) (\<lambda>g.
     Inr \<lparr>gs_current = \<lparr>sa_identity = i, sa_generation = g, sa_placement = ''cell-a''\<rparr>,
          gs_retired_generations = {}, gs_sequence = 1\<rparr>))"

definition rotate_generation :: "string \<Rightarrow> string option \<Rightarrow> (generation_state, generation) op" where
  "rotate_generation c placement = (\<lambda>s.
     case format_generation c (gs_sequence s + 1) of
       Inl e \<Rightarrow> (Inl e, s)
     | Inr g \<Rightarrow>
         (Inr g,
          \<lparr>gs_current = \<lparr>sa_identity = sa_identity (gs_current s), sa_generation = g,
             sa_placement = (case placement of None \<Rightarrow> sa_placement (gs_current s) | Some p \<Rightarrow> p)\<rparr>,
           gs_retired_generations = gs_retired_generations s \<union> {sa_generation (gs_current s)},
           gs_sequence = gs_sequence s + 1\<rparr>))"

definition failover :: "string \<Rightarrow> (generation_state, unit) op" where
  "failover placement =
     modifyS (\<lambda>s. s\<lparr>gs_current := (gs_current s)\<lparr>sa_placement := placement\<rparr>\<rparr>)"

definition restore_snapshot :: "generation_state \<Rightarrow> (generation_state, unit) op" where
  "restore_snapshot r =
     bindS (getS gs_current) (\<lambda>surviving.
     thenS (ensureS (sa_identity (gs_current r) = sa_identity surviving) (ContractViolation ''restore_identity_mismatch''))
    (modifyS (\<lambda>s. s\<lparr>gs_retired_generations := gs_retired_generations s \<union> gs_retired_generations r\<rparr>)))"

text \<open>The generations of the provider and of the broker are not looked at.\<close>

definition admit_effect ::
  "string \<Rightarrow> source_identity \<Rightarrow> generation option \<Rightarrow> generation option \<Rightarrow> generation option \<Rightarrow>
   (generation_state, bool) op" where
  "admit_effect c i platform provider broker =
     bindS (getS id) (\<lambda>s.
     thenS (ensureS (i = sa_identity (gs_current s)) (ContractViolation ''source_identity_mismatch''))
    (case platform of
       None \<Rightarrow> raiseS (ContractViolation ''platform_generation_required'')
     | Some g \<Rightarrow>
         thenS (liftS (validate_representation c g))
        (thenS (ensureS (g \<notin> gs_retired_generations s) (ContractViolation ''retired_generation''))
        (thenS (ensureS (same_type g (sa_generation (gs_current s))) (ContractViolation ''generation_not_current''))
        (thenS (ensureS (g = sa_generation (gs_current s)) (ContractViolation ''generation_not_current''))
        (returnS True))))))"

definition read_historical_fact :: "source_identity \<Rightarrow> historical_fact \<Rightarrow> historical_fact res" where
  "read_historical_fact i f =
     bindR (ensure (hf_identity f = i) (ContractViolation ''historical_identity_mismatch'')) (\<lambda>_. Inr f)"

section \<open>Runs\<close>

text \<open>A snapshot is a state the authority was in; a restore may use any of them.\<close>

inductive generation_step ::
  "string \<Rightarrow> generation_state set \<times> generation_state \<Rightarrow> generation_state set \<times> generation_state \<Rightarrow> bool"
  for c :: string where
  gn_rotate: "rotate_generation c p s = (r, t) \<Longrightarrow> generation_step c (H, s) (insert t H, t)"
| gn_failover: "failover p s = (r, t) \<Longrightarrow> generation_step c (H, s) (insert t H, t)"
| gn_restore: "x \<in> H \<Longrightarrow> restore_snapshot x s = (r, t) \<Longrightarrow> generation_step c (H, s) (insert t H, t)"

definition generation_reach :: "string \<Rightarrow> source_identity \<Rightarrow> generation_state set \<times> generation_state \<Rightarrow> bool" where
  "generation_reach c i x \<longleftrightarrow>
     (\<exists>s0. generation_init c i = Inr s0 \<and> (generation_step c)\<^sup>*\<^sup>* ({s0}, s0) x)"

lemma digits_number_zeros: "digits_number (replicate k (CHR ''0'') @ s) = digits_number s"
  by (induction k) (simp_all add: digits_number_def)

lemma padded4_inj: "padded4 m = padded4 n \<longleftrightarrow> m = n"
  by (metis digits_number_zeros nat_digits_number padded4_def)

lemma format_generation_Inr_iff:
  "format_generation c n = Inr g \<longleftrightarrow>
     c = positive_integer \<and> g = GInt (int n) \<or>
     c = opaque_token_candidate \<and> g = GText (''g-'' @ padded4 n @ ''-opaque-token'') \<or>
     c = issued_epoch \<and> g = GText (''epoch-'' @ padded4 n)"
  by (auto simp: format_generation_def positive_integer_def opaque_token_candidate_def issued_epoch_def)

lemma format_generation_total: "c \<in> set generation_candidates \<Longrightarrow> \<exists>g. format_generation c n = Inr g"
  by (auto simp: format_generation_def generation_candidates_def)

lemma format_generation_inj:
  "format_generation c m = Inr g \<Longrightarrow> format_generation c n = Inr g \<Longrightarrow> m = n"
  by (auto simp: format_generation_def padded4_inj split: if_splits)

lemma format_generation_valid:
  "format_generation c n = Inr g \<Longrightarrow> 0 < n \<Longrightarrow> validate_representation c g = Inr ()"
  by (auto simp: format_generation_def validate_representation_def split: if_splits)

definition issued :: "string \<Rightarrow> nat \<Rightarrow> generation set" where
  "issued c n = {g. \<exists>k. 1 \<le> k \<and> k < n \<and> format_generation c k = Inr g}"

definition generation_ok :: "string \<Rightarrow> source_identity \<Rightarrow> generation_state \<Rightarrow> bool" where
  "generation_ok c i s \<longleftrightarrow>
     sa_identity (gs_current s) = i \<and> 1 \<le> gs_sequence s \<and>
     format_generation c (gs_sequence s) = Inr (sa_generation (gs_current s)) \<and>
     gs_retired_generations s = issued c (gs_sequence s)"

lemma issued_Suc: "1 \<le> n \<Longrightarrow> format_generation c n = Inr g \<Longrightarrow> issued c (n + 1) = issued c n \<union> {g}"
  by (auto simp: issued_def less_Suc_eq)

lemma issued_mono: "m \<le> n \<Longrightarrow> issued c m \<subseteq> issued c n"
  by (auto simp: issued_def)

lemma generation_init_ok: "generation_init c i = Inr s \<Longrightarrow> generation_ok c i s \<and> c \<in> set generation_candidates"
  by (auto simp: generation_init_def generation_ok_def issued_def bindR_Inr_iff ensure_Inr_iff)

definition history_ok :: "string \<Rightarrow> source_identity \<Rightarrow> generation_state set \<times> generation_state \<Rightarrow> bool" where
  "history_ok c i x \<longleftrightarrow>
     generation_ok c i (snd x) \<and> (\<forall>h \<in> fst x. generation_ok c i h \<and> gs_sequence h \<le> gs_sequence (snd x))"

lemma history_ok_step:
  assumes "generation_step c x y" "history_ok c i x"
  shows "history_ok c i y \<and> gs_sequence (snd x) \<le> gs_sequence (snd y)"
  using assms(1)
proof cases
  case (gn_rotate p s r t H)
  show ?thesis
  proof (cases "format_generation c (gs_sequence s + 1)")
    case (Inl e)
    then have "t = s" using gn_rotate(3) by (simp add: rotate_generation_def)
    then show ?thesis using assms(2) gn_rotate(1,2) by (simp add: history_ok_def)
  next
    case (Inr g)
    then show ?thesis
      using gn_rotate assms(2) issued_Suc [of "gs_sequence s" c "sa_generation (gs_current s)"]
      by (auto simp: history_ok_def generation_ok_def rotate_generation_def intro: le_SucI)
  qed
next
  case (gn_failover p s r t H)
  then show ?thesis using assms(2) by (auto simp: failover_def history_ok_def generation_ok_def)
next
  case (gn_restore z H s r t)
  have "gs_retired_generations s \<union> gs_retired_generations z = gs_retired_generations s"
    using assms(2) gn_restore(1,3) issued_mono [of "gs_sequence z" "gs_sequence s" c]
    by (auto simp: history_ok_def generation_ok_def)
  then have "t = s"
    using gn_restore(4) by (auto simp: restore_snapshot_def ensure_def split: if_splits)
  then show ?thesis using assms(2) gn_restore(1,2) by (simp add: history_ok_def)
qed

lemma history_ok_run:
  "(generation_step c)\<^sup>*\<^sup>* x y \<Longrightarrow> history_ok c i x \<Longrightarrow>
   history_ok c i y \<and> gs_sequence (snd x) \<le> gs_sequence (snd y)"
  by (induction rule: rtranclp_induct) (use history_ok_step order_trans in blast)+

lemma reach_ok: "generation_reach c i x \<Longrightarrow> history_ok c i x \<and> c \<in> set generation_candidates"
proof -
  assume "generation_reach c i x"
  then obtain s0 where s0: "generation_init c i = Inr s0" "(generation_step c)\<^sup>*\<^sup>* ({s0}, s0) x"
    unfolding generation_reach_def by blast
  have "generation_ok c i s0" "c \<in> set generation_candidates"
    using generation_init_ok [OF s0(1)] by blast+
  moreover from this have "history_ok c i ({s0}, s0)" by (simp add: history_ok_def)
  ultimately show ?thesis using history_ok_run [OF s0(2)] by blast
qed

text \<open>In a well-formed state exactly the current generation is admitted.\<close>

lemma admit_effect_exact:
  assumes "generation_ok c i s"
  shows "fst (admit_effect c j g p b s) = Inr True \<longleftrightarrow> j = i \<and> g = Some (sa_generation (gs_current s))"
    and "snd (admit_effect c j g p b s) = s"
proof -
  have "sa_generation (gs_current s) \<notin> issued c (gs_sequence s)"
    using assms format_generation_inj unfolding generation_ok_def issued_def by blast
  moreover have "validate_representation c (sa_generation (gs_current s)) = Inr ()"
    using assms format_generation_valid unfolding generation_ok_def by force
  moreover have "same_type h h" for h by (cases h) simp_all
  ultimately show "fst (admit_effect c j g p b s) = Inr True \<longleftrightarrow> j = i \<and> g = Some (sa_generation (gs_current s))"
    using assms
    by (cases g) (auto simp: admit_effect_def generation_ok_def ensure_def split: sum.split)
  show "snd (admit_effect c j g p b s) = s"
    by (cases g) (auto simp: admit_effect_def ensure_def split: sum.splits if_splits)
qed

lemma admit_retired:
  assumes "generation_ok c i s" "g \<in> issued c (gs_sequence s)"
  shows "admit_effect c i (Some g) p b s = (Inl (ContractViolation ''retired_generation''), s)"
proof -
  obtain k where "1 \<le> k" "format_generation c k = Inr g" using assms(2) by (auto simp: issued_def)
  then have "validate_representation c g = Inr ()" using format_generation_valid by fastforce
  then show ?thesis using assms by (simp add: admit_effect_def generation_ok_def)
qed

section \<open>What the authority promises\<close>

text \<open>C21: effects are admitted for exactly the current generation. In every reachable state, with
  any claims about the generations of the provider and of the broker, an effect is admitted
  exactly for the identity of the source and its current generation; the generation of an
  earlier state that is no longer current is refused as retired, after any further rotations,
  failovers and restores of snapshots, and none of these bring it back.\<close>

theorem current_generation_exact:
  assumes "generation_reach c i (H, s)" "(generation_step c)\<^sup>*\<^sup>* (H, s) (H', t)"
  shows "(fst (admit_effect c j g p b t) = Inr True \<longleftrightarrow> j = i \<and> g = Some (sa_generation (gs_current t))) \<and>
    (gs_sequence s < gs_sequence t \<longrightarrow>
       admit_effect c i (Some (sa_generation (gs_current s))) p b t =
         (Inl (ContractViolation ''retired_generation''), t))"
proof -
  have s: "history_ok c i (H, s)" using reach_ok [OF assms(1)] ..
  then have t: "history_ok c i (H', t)" using history_ok_run [OF assms(2)] by simp
  have ok: "generation_ok c i s" "generation_ok c i t" using s t by (simp_all add: history_ok_def)
  have "sa_generation (gs_current s) \<in> issued c (gs_sequence t)" if "gs_sequence s < gs_sequence t"
    using ok(1) that unfolding issued_def generation_ok_def by blast
  then show ?thesis using admit_effect_exact(1) [OF ok(2)] admit_retired [OF ok(2)] by blast
qed

section \<open>The checks of the candidates\<close>

definition future_generation :: "string \<Rightarrow> generation" where
  "future_generation c =
     (if c = positive_integer then GInt 999999
      else if c = opaque_token_candidate then GText ''zzzz-future-looking-token''
      else GText ''epoch-999999'')"

definition wrong_representation :: "string \<Rightarrow> generation" where
  "wrong_representation c = (if c = positive_integer then GText ''1'' else GInt 1)"

definition evidence_source :: source_identity where
  "evidence_source = \<lparr>so_tenant_id = ''tenant-a'', so_logical_source_id = ''source-1''\<rparr>"

definition admit_own ::
  "string \<Rightarrow> generation option \<Rightarrow> generation option \<Rightarrow> generation option \<Rightarrow> (generation_state, bool) op" where
  "admit_own c g p b = admit_effect c evidence_source g p b"

definition refused :: "string \<Rightarrow> string \<Rightarrow> generation \<Rightarrow> (generation_state, bool) op" where
  "refused c code g = blocked code (admit_own c (Some g) None None)"

text \<open>Before the first rotation.\<close>

definition check_fresh :: "string \<Rightarrow> (generation_state, checks) op" where
  "check_fresh c =
     bindS (getS (\<lambda>s. sa_generation (gs_current s))) (\<lambda>g1.
     bindS (admit_own c (Some g1) None None) (\<lambda>admitted.
     bindS (blocked ''platform_generation_required'' (admit_own c None None None)) (\<lambda>missing.
     bindS (refused c ''generation_representation_invalid'' (wrong_representation c)) (\<lambda>invalid.
     bindS (refused c ''generation_not_current'' (future_generation c)) (\<lambda>future.
     returnS
       [(''candidate_representation_is_exact'',
           (c = positive_integer \<and> (case g1 of GInt i \<Rightarrow> 0 < i | _ \<Rightarrow> False)) \<or>
           (c \<noteq> positive_integer \<and> (case g1 of GText x \<Rightarrow> x \<noteq> [] | _ \<Rightarrow> False))),
        (''current_generation_admitted'', admitted), (''missing_generation_rejected'', missing),
        (''invalid_generation_representation_rejected'', invalid),
        (''future_generation_rejected'', future)])))))"

text \<open>A rotation, a failover and the restore of the snapshot taken before them.\<close>

definition check_rotation ::
  "string \<Rightarrow> generation \<Rightarrow> (generation_state, generation \<times> checks) op" where
  "check_rotation c g1 =
     bindS (getS id) (\<lambda>pre_rotation.
     bindS (rotate_generation c None) (\<lambda>g2.
     bindS (refused c ''retired_generation'' g1) (\<lambda>stale.
     thenS (failover ''cell-b'')
    (bindS (getS id) (\<lambda>s1.
     bindS (refused c ''retired_generation'' g1) (\<lambda>after_failover.
     thenS (restore_snapshot pre_rotation)
    (bindS (getS id) (\<lambda>s2.
     bindS (refused c ''retired_generation'' g1) (\<lambda>after_restore.
     returnS (g2,
       [(''stale_generation_rejected'', stale), (''retired_generation_rejected_after_rotation'', stale),
        (''failover_preserves_retirement_fence'',
           g1 \<in> gs_retired_generations s1 \<and> sa_generation (gs_current s1) = g2 \<and>
           sa_placement (gs_current s1) = ''cell-b'' \<and> after_failover),
        (''restore_snapshot_cannot_resurrect_retired_generation'',
           sa_generation (gs_current s2) = g2 \<and> g1 \<in> gs_retired_generations s2 \<and> after_restore),
        (''restore_snapshot_cannot_override_surviving_current_generation'',
           sa_generation (gs_current s2) = g2)]))))))))))"

text \<open>History, identity, comparison and the generations of others.\<close>

definition check_history :: "string \<Rightarrow> generation \<Rightarrow> (generation_state, checks) op" where
  "check_history c g1 =
     (let f = \<lparr>hf_identity = evidence_source, hf_generation = g1, hf_message_id = ''msg-historical-1'',
              hf_semantic_content = ''{'' @ quoted ''event'' @ '':'' @ quoted ''source.changed'' @ ''}''\<rparr>
      in bindS (liftS (read_historical_fact evidence_source f)) (\<lambda>found.
         bindS (refused c ''retired_generation'' (hf_generation f)) (\<lambda>refusal.
         returnS [(''historical_fact_remains_readable'', found = f),
                  (''historical_generation_does_not_authorize_effect'', refusal)])))"

definition check_second ::
  "string \<Rightarrow> generation \<Rightarrow> (generation_state, generation \<times> checks) op" where
  "check_second c g2 =
     bindS (getS gs_current) (\<lambda>earlier.
     bindS (rotate_generation c (Some ''cell-c'')) (\<lambda>g3.
     bindS (refused c ''retired_generation'' g2) (\<lambda>retired.
     bindS (getS gs_current) (\<lambda>later.
     bindS (admit_own c (Some g3) None None) (\<lambda>admitted.
     returnS (g3,
       [(''retired_generation_rejected_after_second_rotation'', retired),
        (''logical_identity_stable_across_generation'', sa_identity later = sa_identity earlier),
        (''logical_identity_stable_across_placement'',
           sa_placement earlier \<noteq> sa_placement later \<and> sa_identity later = sa_identity earlier),
        (''comparison_is_exact_current_generation_equality'', admitted)]))))))"

definition check_magnitude :: "string \<Rightarrow> (generation_state, checks) op" where
  "check_magnitude c =
     bindS (refused c (if c = positive_integer then ''generation_not_current'' else ''generation_representation_invalid'')
       (GInt 999999999)) (\<lambda>numeric.
     bindS (refused c (if c = positive_integer then ''generation_representation_invalid'' else ''generation_not_current'')
       (GText ''zzzzzzzzzz'')) (\<lambda>lexical.
     bindS (if c = positive_integer
            then bindS (refused c ''generation_representation_invalid'' (GInt 0)) (\<lambda>x.
                 bindS (refused c ''generation_representation_invalid'' (GInt (- 1))) (\<lambda>y.
                 bindS (refused c ''generation_representation_invalid'' (GFlag True)) (\<lambda>z.
                 returnS (x \<and> y \<and> z))))
            else returnS True) (\<lambda>others.
     returnS [(''numeric_magnitude_does_not_imply_authority'', numeric),
              (''lexical_magnitude_does_not_imply_authority'', lexical),
              (''zero_negative_or_bool_never_become_positive_integer_authority'', others)])))"

definition check_foreign ::
  "string \<Rightarrow> generation \<Rightarrow> generation \<Rightarrow> generation \<Rightarrow> (generation_state, checks) op" where
  "check_foreign c g1 g2 g3 =
     bindS (blocked ''retired_generation'' (admit_own c (Some g1) (Some g3) None)) (\<lambda>provider.
     bindS (blocked ''retired_generation'' (admit_own c (Some g2) None (Some g3))) (\<lambda>broker.
     bindS (blocked ''retired_generation'' (admit_own c (Some g1) (Some g1) (Some g1))) (\<lambda>matching.
     returnS [(''provider_generation_does_not_substitute_platform_generation'', provider),
              (''broker_generation_does_not_substitute_platform_generation'', broker),
              (''matching_external_generation_cannot_revive_retired_platform_generation'', matching)])))"

definition check_generation_candidate :: "string \<Rightarrow> checks res" where
  "check_generation_candidate c =
     bindR (generation_init c evidence_source) (\<lambda>s0.
     run_from s0
      (bindS (getS (\<lambda>s. sa_generation (gs_current s))) (\<lambda>g1.
       bindS (check_fresh c) (\<lambda>fresh.
       bindS (check_rotation c g1) (\<lambda>(g2, rotation).
       bindS (check_history c g1) (\<lambda>history.
       bindS (check_second c g2) (\<lambda>(g3, second).
       bindS (check_magnitude c) (\<lambda>magnitude.
       bindS (check_foreign c g1 g2 g3) (\<lambda>foreign.
       returnS (fresh @ rotation @ history @ second @ magnitude @ foreign))))))))))"

definition generation_proof_checks :: proof_checks where
  "generation_proof_checks =
     [(''current_source_generation_is_explicitly_validated_at_effectful_admission'',
       [''candidate_representation_is_exact'', ''current_generation_admitted'', ''stale_generation_rejected'',
        ''future_generation_rejected'', ''missing_generation_rejected'',
        ''invalid_generation_representation_rejected'']),
      (''retired_generation_cannot_regain_current_authority'',
       [''retired_generation_rejected_after_rotation'', ''retired_generation_rejected_after_second_rotation'']),
      (''restore_or_failover_cannot_resurrect_retired_source_authority'',
       [''failover_preserves_retirement_fence'', ''restore_snapshot_cannot_resurrect_retired_generation'',
        ''restore_snapshot_cannot_override_surviving_current_generation'']),
      (''historical_fact_identity_remains_distinct_from_current_source_authority'',
       [''historical_fact_remains_readable'', ''historical_generation_does_not_authorize_effect'']),
      (''tenant_logical_identity_is_independent_of_generation_and_placement'',
       [''logical_identity_stable_across_generation'', ''logical_identity_stable_across_placement'']),
      (''generation_comparison_rule_is_unambiguous_and_does_not_infer_ungranted_ordering_semantics'',
       [''comparison_is_exact_current_generation_equality'', ''numeric_magnitude_does_not_imply_authority'',
        ''lexical_magnitude_does_not_imply_authority'',
        ''zero_negative_or_bool_never_become_positive_integer_authority'']),
      (''provider_or_broker_generation_is_not_platform_source_generation_by_implication'',
       [''provider_generation_does_not_substitute_platform_generation'',
        ''broker_generation_does_not_substitute_platform_generation'',
        ''matching_external_generation_cannot_revive_retired_platform_generation''])]"

lemma generation_candidates_pass:
  "list_all (\<lambda>c. map_sum id (verdict generation_proof_checks) (check_generation_candidate c) = Inr eligible)
     generation_candidates"
  by code_simp

section \<open>A run through a rotation and a restore\<close>

definition sample_generations :: "generation_state" where
  "sample_generations =
     \<lparr>gs_current = \<lparr>sa_identity = evidence_source, sa_generation = GInt 1, sa_placement = ''cell-a''\<rparr>,
      gs_retired_generations = {}, gs_sequence = 1\<rparr>"

definition sample_rotated :: "generation_state" where
  "sample_rotated =
     \<lparr>gs_current = \<lparr>sa_identity = evidence_source, sa_generation = GInt 2, sa_placement = ''cell-a''\<rparr>,
      gs_retired_generations = {GInt 1}, gs_sequence = 2\<rparr>"

lemma sample_generation_run:
  "generation_reach positive_integer evidence_source ({sample_generations}, sample_generations)"
  "(generation_step positive_integer)\<^sup>*\<^sup>* ({sample_generations}, sample_generations)
     ({sample_rotated, sample_generations}, sample_rotated)"
proof -
  have "generation_init positive_integer evidence_source = Inr sample_generations"
    by (simp add: generation_init_def generation_candidates_def format_generation_def sample_generations_def)
  then show "generation_reach positive_integer evidence_source ({sample_generations}, sample_generations)"
    unfolding generation_reach_def by blast
  have "rotate_generation positive_integer None sample_generations = (Inr (GInt 2), sample_rotated)"
    by (simp add: rotate_generation_def format_generation_def sample_generations_def sample_rotated_def)
  from gn_rotate [OF this] show "(generation_step positive_integer)\<^sup>*\<^sup>* ({sample_generations}, sample_generations)
     ({sample_rotated, sample_generations}, sample_rotated)" by blast
qed

theorem current_generation_exact_witness:
  "admit_effect positive_integer evidence_source (Some (GInt 1)) None None sample_rotated =
     (Inl (ContractViolation ''retired_generation''), sample_rotated)"
  using current_generation_exact [OF sample_generation_run, of evidence_source None None None]
  by (simp add: sample_generations_def sample_rotated_def)

end
