(* ===== verification/Privileged_Replay.thy ===== *)
theory Privileged_Replay
  imports Reference_Prelude
begin

text \<open>
  src/tools/assurance/d4c_privileged_replay/evaluate_candidates.py: the replay controller, what
  it promises of irreversible effects, and the checks of the candidates.
\<close>

section \<open>The controller\<close>

record historical_message =
  hm_tenant_id :: string
  hm_contract_id :: string
  hm_message_id :: string
  hm_semantic_content :: string
  hm_schema_version :: int
  hm_equivalence_profile :: string
  hm_verifier_version :: string

record replay_request =
  rq_actor :: string
  rq_authority_epoch :: string
  rq_max_messages :: int
  rq_target :: string
  rq_replay_generation :: string
  rq_disable_dedup :: bool

text \<open>The keyword arguments of \<open>replay\<close>.\<close>

record replay_conditions =
  rp_verifier_available :: bool
  rp_equivalence_available :: bool
  rp_recovery_evidence_available :: bool
  rp_schema_supported :: bool
  rp_data_access_allowed :: bool
  rp_duplicate_sensitive :: bool
  rp_irreversible :: bool
  rp_storage_identity :: string

record replay_audit =
  ra_actor :: string
  ra_authority_epoch :: string
  ra_target :: string
  ra_count :: nat

record replay_controller =
  rc_audit :: "replay_audit list"
  rc_completed :: "(string \<times> string \<times> string) set"

definition replay_epoch :: string where "replay_epoch = ''replay-auth-epoch-2''"

definition replay_actors :: "string set" where "replay_actors = {''ops-admin''}"

definition replay_candidates :: "string list" where
  "replay_candidates =
     [''canonical_event_history_store_profile'', ''broker_retained_log_plus_authoritative_history_index_profile'',
      ''hybrid_history_archive_plus_replay_controller_profile'']"

definition replay_init :: "string \<Rightarrow> replay_controller res" where
  "replay_init c =
     bindR (ensure (c \<in> set replay_candidates) ValueError) (\<lambda>_. Inr \<lparr>rc_audit = [], rc_completed = {}\<rparr>)"

definition replay_key :: "historical_message \<Rightarrow> string \<times> string \<times> string" where
  "replay_key m = (hm_tenant_id m, hm_contract_id m, hm_message_id m)"

definition record_audit :: "replay_request \<Rightarrow> nat \<Rightarrow> (replay_controller, unit) op" where
  "record_audit q n =
     modifyS (\<lambda>s. s\<lparr>rc_audit := rc_audit s @
       [\<lparr>ra_actor = rq_actor q, ra_authority_epoch = rq_authority_epoch q, ra_target = rq_target q, ra_count = n\<rparr>]\<rparr>)"

definition replay_admission :: "replay_request \<Rightarrow> nat \<Rightarrow> replay_conditions \<Rightarrow> unit res" where
  "replay_admission q n c =
     bindR (ensure (rq_actor q \<in> replay_actors \<and> rq_authority_epoch q = replay_epoch)
       (ContractViolation ''current_privileged_authority_required'')) (\<lambda>_.
     bindR (ensure (0 < rq_max_messages q \<and> int n \<le> rq_max_messages q)
       (ContractViolation ''replay_bound_exceeded'')) (\<lambda>_.
     bindR (ensure (\<not> rq_disable_dedup q) (ContractViolation ''dedup_bypass_forbidden'')) (\<lambda>_.
     bindR (ensure (rq_target q \<noteq> ''production-current'' \<and> rq_replay_generation q \<noteq> [])
       (ContractViolation ''isolated_replay_target_required'')) (\<lambda>_.
     bindR (ensure (rp_schema_supported c \<and> rp_data_access_allowed c \<and> rp_recovery_evidence_available c)
       (ContractViolation ''safe_replay_evidence_incomplete'')) (\<lambda>_.
     if rp_verifier_available c \<and> rp_equivalence_available c then Inr ()
     else if rp_duplicate_sensitive c then Inl (ContractViolation ''historical_comparison_authority_unavailable'')
     else Inl (ContractViolation ''replay_history_authority_unavailable''))))))"

text \<open>The loop over the messages; an effect is marked before the next message is looked at.\<close>

fun replay_messages ::
  "bool \<Rightarrow> historical_message list \<Rightarrow> historical_message list \<Rightarrow>
   (replay_controller, historical_message list) op" where
  "replay_messages irreversible emitted [] = returnS emitted"
| "replay_messages irreversible emitted (m # ms) =
     thenS (ensureS (hm_equivalence_profile m \<noteq> [] \<and> hm_verifier_version m \<noteq> [])
       (ContractViolation ''historical_verifier_metadata_missing''))
    (bindS (getS rc_completed) (\<lambda>completed.
     thenS (ensureS (\<not> (irreversible \<and> replay_key m \<in> completed))
       (ContractViolation ''irreversible_effect_already_completed''))
    (thenS (if irreversible then modifyS (\<lambda>s. s\<lparr>rc_completed := insert (replay_key m) (rc_completed s)\<rparr>)
            else returnS ())
    (replay_messages irreversible (emitted @ [m]) ms))))"

definition replay ::
  "replay_request \<Rightarrow> historical_message list \<Rightarrow> replay_conditions \<Rightarrow>
   (replay_controller, historical_message list) op" where
  "replay q ms c =
     thenS (record_audit q (length ms))
    (thenS (liftS (replay_admission q (length ms) c))
    (replay_messages (rp_irreversible c) [] ms))"

section \<open>Runs\<close>

inductive replay_step :: "replay_controller \<Rightarrow> replay_controller \<Rightarrow> bool" where
  rp_call: "replay q ms c s = (r, t) \<Longrightarrow> replay_step s t"

inductive_cases replay_stepE: "replay_step s t"

lemma replay_messages_mono: "rc_completed s \<subseteq> rc_completed (snd (replay_messages irr out ms s))"
proof (induction irr out ms arbitrary: s rule: replay_messages.induct)
  case (2 irr out m ms)
  show ?case
    using 2 [of s] 2 [of "s\<lparr>rc_completed := insert (replay_key m) (rc_completed s)\<rparr>"]
    by (auto simp: ensure_def)
qed simp

lemma replay_messages_audit: "rc_audit (snd (replay_messages irr out ms s)) = rc_audit s"
  by (induction irr out ms arbitrary: s rule: replay_messages.induct) (auto simp: ensure_def)

lemma replay_messages_Cons_returns:
  "replay_messages irr out (m # ms) s = (Inr v, t) \<longleftrightarrow>
     hm_equivalence_profile m \<noteq> [] \<and> hm_verifier_version m \<noteq> [] \<and>
     \<not> (irr \<and> replay_key m \<in> rc_completed s) \<and>
     replay_messages irr (out @ [m]) ms
       (if irr then s\<lparr>rc_completed := insert (replay_key m) (rc_completed s)\<rparr> else s) = (Inr v, t)"
  by (auto simp: ensure_def split: if_splits)

declare replay_messages.simps(2) [simp del]

lemma replay_messages_returns:
  "replay_messages irr out ms s = (Inr v, t) \<Longrightarrow>
     v = out @ ms \<and>
     rc_completed t = rc_completed s \<union> (if irr then replay_key ` set ms else {}) \<and>
     (irr \<longrightarrow> distinct (map replay_key ms) \<and> replay_key ` set ms \<inter> rc_completed s = {}) \<and>
     (\<forall>m \<in> set ms. hm_equivalence_profile m \<noteq> [] \<and> hm_verifier_version m \<noteq> [])"
proof (induction ms arbitrary: out s)
  case (Cons m ms)
  note run = Cons.prems [unfolded replay_messages_Cons_returns]
  note rest = Cons.IH [OF run [THEN conjunct2, THEN conjunct2, THEN conjunct2]]
  show ?case
  proof (cases irr)
    case True
    then have "replay_key m \<notin> replay_key ` set ms" using rest by force
    then show ?thesis using run rest True by simp
  next
    case False
    then show ?thesis using run rest by simp
  qed
qed simp

lemma record_audit_apply [simp]:
  "record_audit q n s = (Inr (), s\<lparr>rc_audit := rc_audit s @
     [\<lparr>ra_actor = rq_actor q, ra_authority_epoch = rq_authority_epoch q, ra_target = rq_target q, ra_count = n\<rparr>]\<rparr>)"
  by (simp add: record_audit_def)

lemma replay_admission_Inr_iff:
  "replay_admission q n c = Inr u \<longleftrightarrow>
     rq_actor q \<in> replay_actors \<and> rq_authority_epoch q = replay_epoch \<and>
     0 < rq_max_messages q \<and> int n \<le> rq_max_messages q \<and> \<not> rq_disable_dedup q \<and>
     rq_target q \<noteq> ''production-current'' \<and> rq_replay_generation q \<noteq> [] \<and>
     rp_schema_supported c \<and> rp_data_access_allowed c \<and> rp_recovery_evidence_available c \<and>
     rp_verifier_available c \<and> rp_equivalence_available c"
  by (auto simp: replay_admission_def bindR_Inr_iff ensure_Inr_iff)

lemma replay_mono: "rc_completed s \<subseteq> rc_completed (snd (replay q ms c s))"
proof -
  define s' where "s' = snd (record_audit q (length ms) s)"
  have "rc_completed s = rc_completed s'" by (simp add: s'_def)
  then show ?thesis
    using replay_messages_mono [of s' "rp_irreversible c" "[]" ms] by (simp add: replay_def s'_def split: sum.split)
qed

lemma replay_step_mono: "replay_step s t \<Longrightarrow> rc_completed s \<subseteq> rc_completed t"
  by (erule replay_stepE) (metis replay_mono snd_conv)

lemma replay_run_mono: "replay_step\<^sup>*\<^sup>* s t \<Longrightarrow> rc_completed s \<subseteq> rc_completed t"
  by (induction rule: rtranclp_induct) (use replay_step_mono in blast)+

lemma replay_returns:
  assumes "replay q ms c s = (Inr v, t)"
  shows "v = ms \<and> replay_admission q (length ms) c = Inr () \<and>
    rc_completed t = rc_completed s \<union> (if rp_irreversible c then replay_key ` set ms else {}) \<and>
    (rp_irreversible c \<longrightarrow> distinct (map replay_key ms) \<and> replay_key ` set ms \<inter> rc_completed s = {}) \<and>
    (\<forall>m \<in> set ms. hm_equivalence_profile m \<noteq> [] \<and> hm_verifier_version m \<noteq> [])"
proof -
  have "replay_admission q (length ms) c = Inr ()"
    and "replay_messages (rp_irreversible c) [] ms
      (s\<lparr>rc_audit := rc_audit s @ [\<lparr>ra_actor = rq_actor q, ra_authority_epoch = rq_authority_epoch q,
         ra_target = rq_target q, ra_count = length ms\<rparr>]\<rparr>) = (Inr v, t)"
    using assms by (auto simp: replay_def split: sum.splits)
  then show ?thesis using replay_messages_returns by fastforce
qed

section \<open>What the controller promises\<close>

text \<open>C22: an irreversible effect is replayed at most once. A replay that returns was asked for by a
  current privileged actor within the bound and outside production, keeps deduplication on, and returns
  exactly the messages given; if it is irreversible, these have distinct keys, and after any
  further calls no irreversible replay that returns has a message with one of those keys.\<close>

theorem irreversible_replayed_once:
  assumes "replay q ms c s = (Inr v, t)" "rp_irreversible c"
    and "replay_step\<^sup>*\<^sup>* t u" "replay q' ms' c' u = (Inr v', u')" "rp_irreversible c'"
  shows "v = ms \<and> distinct (map replay_key ms) \<and> replay_key ` set ms \<inter> replay_key ` set ms' = {} \<and>
    rq_actor q \<in> replay_actors \<and> rq_authority_epoch q = replay_epoch \<and> int (length ms) \<le> rq_max_messages q \<and>
    \<not> rq_disable_dedup q \<and> rq_target q \<noteq> ''production-current'' \<and>
    rp_verifier_available c \<and> rp_equivalence_available c"
proof -
  note first = replay_returns [OF assms(1), unfolded replay_admission_Inr_iff]
  note second = replay_returns [OF assms(4)]
  have "replay_key ` set ms \<subseteq> rc_completed u"
    using first replay_run_mono [OF assms(3)] assms(2) by (simp add: le_sup_iff)
  moreover have "replay_key ` set ms' \<inter> rc_completed u = {}" using second assms(5) by blast
  ultimately have "replay_key ` set ms \<inter> replay_key ` set ms' = {}" by blast
  then show ?thesis using first assms(2) by simp
qed

section \<open>The checks of the candidates\<close>

definition replay_sample :: historical_message where
  "replay_sample =
     \<lparr>hm_tenant_id = ''tenant-a'', hm_contract_id = ''orders.v1'', hm_message_id = ''msg-001'',
      hm_semantic_content = ''{'' @ quoted ''order'' @ '':'' @ quoted ''42'' @ '','' @ quoted ''state'' @ '':'' @ quoted ''paid'' @ ''}'',
      hm_schema_version = 1, hm_equivalence_profile = ''eq-v1'', hm_verifier_version = ''reader-v1''\<rparr>"

text \<open>The defaults of \<open>request\<close> and of the keyword arguments of \<open>replay\<close>.\<close>

definition replay_default :: replay_request where
  "replay_default =
     \<lparr>rq_actor = ''ops-admin'', rq_authority_epoch = replay_epoch, rq_max_messages = 10,
      rq_target = ''projection-shadow'', rq_replay_generation = ''replay-gen-001'', rq_disable_dedup = False\<rparr>"

definition safe_conditions :: replay_conditions where
  "safe_conditions =
     \<lparr>rp_verifier_available = True, rp_equivalence_available = True, rp_recovery_evidence_available = True,
      rp_schema_supported = True, rp_data_access_allowed = True, rp_duplicate_sensitive = False,
      rp_irreversible = False, rp_storage_identity = ''history-store-a''\<rparr>"

definition replay_refused ::
  "string \<Rightarrow> replay_request \<Rightarrow> historical_message list \<Rightarrow> replay_conditions \<Rightarrow> (replay_controller, bool) op" where
  "replay_refused code q ms c = blocked code (replay q ms c)"

definition check_replay_authority :: "(replay_controller, checks) op" where
  "check_replay_authority =
     bindS (replay replay_default [replay_sample] (safe_conditions\<lparr>rp_duplicate_sensitive := True\<rparr>)) (\<lambda>replayed.
     bindS (getS rc_audit) (\<lambda>audit.
     bindS (replay_refused ''current_privileged_authority_required''
       (replay_default\<lparr>rq_actor := ''unknown-actor''\<rparr>) [replay_sample] safe_conditions) (\<lambda>actor.
     bindS (replay_refused ''current_privileged_authority_required''
       (replay_default\<lparr>rq_authority_epoch := ''replay-auth-epoch-1''\<rparr>) [replay_sample] safe_conditions) (\<lambda>epoch.
     bindS (replay_refused ''replay_bound_exceeded''
       (replay_default\<lparr>rq_max_messages := 0\<rparr>) [replay_sample] safe_conditions) (\<lambda>bound.
     returnS
       [(''authorized_replay_audited'', replayed = [replay_sample] \<and> length audit = 1),
        (''unauthorized_actor_rejected'', actor), (''stale_authority_epoch_rejected'', epoch),
        (''bounded_replay_rejected'', bound),
        (''original_identity_preserved'', replay_key (replayed ! 0) = replay_key replay_sample),
        (''immutable_semantic_meaning_preserved'',
           hm_semantic_content (replayed ! 0) = hm_semantic_content replay_sample \<and>
           hm_schema_version (replayed ! 0) = hm_schema_version replay_sample),
        (''historical_authority_metadata_preserved'',
           hm_equivalence_profile (replayed ! 0) = hm_equivalence_profile replay_sample \<and>
           hm_verifier_version (replayed ! 0) = hm_verifier_version replay_sample)])))))"

definition check_replay_history :: "(replay_controller, checks) op" where
  "check_replay_history =
     bindS (replay_refused ''replay_history_authority_unavailable'' replay_default [replay_sample]
       (safe_conditions\<lparr>rp_verifier_available := False\<rparr>)) (\<lambda>verifier.
     bindS (replay_refused ''replay_history_authority_unavailable'' replay_default [replay_sample]
       (safe_conditions\<lparr>rp_equivalence_available := False\<rparr>)) (\<lambda>equivalence.
     bindS (replay_refused ''historical_comparison_authority_unavailable'' replay_default [replay_sample]
       (safe_conditions\<lparr>rp_equivalence_available := False, rp_duplicate_sensitive := True\<rparr>)) (\<lambda>sensitive.
     bindS (replay_refused ''historical_verifier_metadata_missing'' replay_default
       [replay_sample\<lparr>hm_equivalence_profile := []\<rparr>] safe_conditions) (\<lambda>metadata.
     bindS (replay_refused ''dedup_bypass_forbidden'' (replay_default\<lparr>rq_disable_dedup := True\<rparr>)
       [replay_sample] safe_conditions) (\<lambda>dedup.
     returnS
       [(''missing_verifier_blocks_all_replay'', verifier), (''missing_equivalence_blocks_all_replay'', equivalence),
        (''missing_comparison_authority_blocks_duplicate_sensitive_effect'', sensitive),
        (''missing_historical_metadata_rejected'', metadata), (''dedup_bypass_rejected'', dedup)])))))"

definition check_replay_bounds :: "(replay_controller, checks) op" where
  "check_replay_bounds =
     bindS (replay_refused ''isolated_replay_target_required'' (replay_default\<lparr>rq_target := ''production-current''\<rparr>)
       [replay_sample] safe_conditions) (\<lambda>target.
     bindS (replay_refused ''isolated_replay_target_required'' (replay_default\<lparr>rq_replay_generation := []\<rparr>)
       [replay_sample] safe_conditions) (\<lambda>generation.
     bindS (replay_refused ''safe_replay_evidence_incomplete'' replay_default [replay_sample]
       (safe_conditions\<lparr>rp_schema_supported := False\<rparr>)) (\<lambda>schema.
     bindS (replay_refused ''safe_replay_evidence_incomplete'' replay_default [replay_sample]
       (safe_conditions\<lparr>rp_data_access_allowed := False\<rparr>)) (\<lambda>access.
     bindS (replay_refused ''safe_replay_evidence_incomplete'' replay_default [replay_sample]
       (safe_conditions\<lparr>rp_recovery_evidence_available := False\<rparr>)) (\<lambda>recovery.
     bindS (replay replay_default [replay_sample] (safe_conditions\<lparr>rp_storage_identity := ''broker-x''\<rparr>)) (\<lambda>x.
     bindS (replay replay_default [replay_sample] (safe_conditions\<lparr>rp_storage_identity := ''archive-y''\<rparr>)) (\<lambda>y.
     returnS
       [(''projection_target_isolated'', target), (''replay_generation_required'', generation),
        (''schema_data_recovery_bounds_enforced'', schema \<and> access \<and> recovery),
        (''storage_identity_not_message_identity'', hm_message_id (x ! 0) = hm_message_id replay_sample),
        (''storage_identity_not_contract_identity'', hm_contract_id (y ! 0) = hm_contract_id replay_sample)])))))))"

definition check_replay_candidate :: "string \<Rightarrow> checks res" where
  "check_replay_candidate c =
     bindR (replay_init c) (\<lambda>s0.
     bindR (run_from s0
      (bindS check_replay_authority (\<lambda>authority.
       bindS check_replay_history (\<lambda>history.
       bindS check_replay_bounds (\<lambda>bounds.
       returnS (authority @ history @ bounds)))))) (\<lambda>shared.
     bindR (run_from s0
      (bindS (replay replay_default [replay_sample] (safe_conditions\<lparr>rp_irreversible := True\<rparr>)) (\<lambda>_.
       replay_refused ''irreversible_effect_already_completed'' replay_default [replay_sample]
         (safe_conditions\<lparr>rp_irreversible := True\<rparr>)))) (\<lambda>once.
     Inr (shared @ [(''irreversible_effect_not_repeatable'', once)]))))"

definition replay_proof_checks :: proof_checks where
  "replay_proof_checks =
     [(''replay_is_privileged_audited_bounded_and_currently_authorized'',
       [''authorized_replay_audited'', ''unauthorized_actor_rejected'', ''stale_authority_epoch_rejected'',
        ''bounded_replay_rejected'']),
      (''replayed_message_preserves_original_identity_and_immutable_semantic_meaning'',
       [''original_identity_preserved'', ''immutable_semantic_meaning_preserved'']),
      (''replay_retains_or_recovers_required_equivalence_and_historical_verifier_authority'',
       [''historical_authority_metadata_preserved'', ''missing_verifier_blocks_all_replay'',
        ''missing_equivalence_blocks_all_replay'', ''missing_historical_metadata_rejected'']),
      (''unavailable_historical_comparison_authority_blocks_or_reconciles_duplicate_sensitive_effects_instead_of_trusting_identity_alone'',
       [''missing_comparison_authority_blocks_duplicate_sensitive_effect'']),
      (''irreversible_effects_cannot_be_repeated_by_disabling_dedup'',
       [''dedup_bypass_rejected'', ''irreversible_effect_not_repeatable'']),
      (''projection_rebuild_uses_isolated_generation_or_target'',
       [''projection_target_isolated'', ''replay_generation_required'']),
      (''replay_cannot_exceed_safe_schema_data_dedup_equivalence_and_recovery_evidence'',
       [''schema_data_recovery_bounds_enforced'', ''missing_verifier_blocks_all_replay'',
        ''missing_equivalence_blocks_all_replay'', ''dedup_bypass_rejected'']),
      (''history_storage_product_identity_does_not_become_message_or_contract_identity'',
       [''storage_identity_not_message_identity'', ''storage_identity_not_contract_identity''])]"

lemmas replay_script_simps =
  replay_refused_def replay_def replay_default_def replay_sample_def safe_conditions_def replay_admission_def
  replay_actors_def replay_epoch_def replay_key_def quoted_def replay_messages.simps blocked_def record_audit_def

lemma check_replay_authority_holds:
  "rc_audit s = [] \<Longrightarrow> fst (check_replay_authority s) =
     Inr (passed [''authorized_replay_audited'', ''unauthorized_actor_rejected'',
       ''stale_authority_epoch_rejected'', ''bounded_replay_rejected'', ''original_identity_preserved'',
       ''immutable_semantic_meaning_preserved'', ''historical_authority_metadata_preserved''])"
  by (simp add: check_replay_authority_def replay_script_simps passed_def)

lemma check_replay_history_holds:
  "fst (check_replay_history s) =
     Inr (passed [''missing_verifier_blocks_all_replay'', ''missing_equivalence_blocks_all_replay'',
       ''missing_comparison_authority_blocks_duplicate_sensitive_effect'', ''missing_historical_metadata_rejected'',
       ''dedup_bypass_rejected''])"
  by (simp add: check_replay_history_def replay_script_simps passed_def)

lemma check_replay_bounds_holds:
  "fst (check_replay_bounds s) =
     Inr (passed [''projection_target_isolated'', ''replay_generation_required'',
       ''schema_data_recovery_bounds_enforced'', ''storage_identity_not_message_identity'',
       ''storage_identity_not_contract_identity''])"
  by (simp add: check_replay_bounds_def replay_script_simps passed_def)

lemma irreversible_script_holds:
  "run_from \<lparr>rc_audit = [], rc_completed = {}\<rparr>
     (bindS (replay replay_default [replay_sample] (safe_conditions\<lparr>rp_irreversible := True\<rparr>)) (\<lambda>_.
      replay_refused ''irreversible_effect_already_completed'' replay_default [replay_sample]
         (safe_conditions\<lparr>rp_irreversible := True\<rparr>))) = Inr True"
  by (simp add: run_from_def replay_script_simps)

lemma replay_candidates_pass:
  assumes "c \<in> set replay_candidates"
  shows "map_sum id (verdict replay_proof_checks) (check_replay_candidate c) = Inr eligible"
proof -
  have "check_replay_candidate c = Inr (passed
     [''authorized_replay_audited'', ''unauthorized_actor_rejected'',
       ''stale_authority_epoch_rejected'', ''bounded_replay_rejected'', ''original_identity_preserved'',
       ''immutable_semantic_meaning_preserved'', ''historical_authority_metadata_preserved'',
       ''missing_verifier_blocks_all_replay'', ''missing_equivalence_blocks_all_replay'',
       ''missing_comparison_authority_blocks_duplicate_sensitive_effect'', ''missing_historical_metadata_rejected'',
       ''dedup_bypass_rejected'', ''projection_target_isolated'', ''replay_generation_required'',
       ''schema_data_recovery_bounds_enforced'', ''storage_identity_not_message_identity'',
       ''storage_identity_not_contract_identity'', ''irreversible_effect_not_repeatable''])"
    using assms
    by (simp add: check_replay_candidate_def replay_init_def irreversible_script_holds)
      (simp add: run_from_def bindS_value check_replay_authority_holds check_replay_history_holds
        check_replay_bounds_holds passed_def)
  then show ?thesis by (simp add: verdict_passed replay_proof_checks_def)
qed

section \<open>Concrete runs\<close>

definition replay_empty :: replay_controller where
  "replay_empty = \<lparr>rc_audit = [], rc_completed = {}\<rparr>"

definition irreversible_conditions :: replay_conditions where
  "irreversible_conditions = safe_conditions\<lparr>rp_irreversible := True\<rparr>"

definition second_sample :: historical_message where
  "second_sample = replay_sample\<lparr>hm_message_id := ''msg-002''\<rparr>"

lemma first_replay:
  "replay replay_default [replay_sample] irreversible_conditions replay_empty =
     (Inr [replay_sample],
      \<lparr>rc_audit = [\<lparr>ra_actor = ''ops-admin'', ra_authority_epoch = ''replay-auth-epoch-2'',
         ra_target = ''projection-shadow'', ra_count = 1\<rparr>],
       rc_completed = {(''tenant-a'', ''orders.v1'', ''msg-001'')}\<rparr>)"
  by (simp add: replay_def replay_default_def replay_sample_def irreversible_conditions_def safe_conditions_def
      replay_empty_def replay_admission_def replay_actors_def replay_epoch_def replay_key_def
      replay_messages.simps)

lemma second_replay:
  "\<exists>t. replay replay_default [second_sample] irreversible_conditions
     \<lparr>rc_audit = [\<lparr>ra_actor = ''ops-admin'', ra_authority_epoch = ''replay-auth-epoch-2'',
        ra_target = ''projection-shadow'', ra_count = 1\<rparr>],
      rc_completed = {(''tenant-a'', ''orders.v1'', ''msg-001'')}\<rparr> = (Inr [second_sample], t)"
  by (simp add: replay_def replay_default_def replay_sample_def second_sample_def irreversible_conditions_def
      safe_conditions_def replay_admission_def replay_actors_def replay_epoch_def replay_key_def
      replay_messages.simps)

theorem irreversible_replayed_once_witness:
  "replay_key ` set [replay_sample] \<inter> replay_key ` set [second_sample] = {}"
proof -
  obtain t where t: "replay replay_default [second_sample] irreversible_conditions
     \<lparr>rc_audit = [\<lparr>ra_actor = ''ops-admin'', ra_authority_epoch = ''replay-auth-epoch-2'',
        ra_target = ''projection-shadow'', ra_count = 1\<rparr>],
      rc_completed = {(''tenant-a'', ''orders.v1'', ''msg-001'')}\<rparr> = (Inr [second_sample], t)"
    using second_replay by blast
  have "rp_irreversible irreversible_conditions" by (simp add: irreversible_conditions_def)
  then show ?thesis
    using irreversible_replayed_once [OF first_replay _ rtranclp.rtrancl_refl t] by blast
qed

text \<open>A replay that fails at its second message has already marked the first as completed,
  although it returned nothing: the first is then refused although it was never emitted.\<close>

lemma failed_replay_marks_unemitted:
  "let (r, s) = replay replay_default [replay_sample, second_sample\<lparr>hm_verifier_version := []\<rparr>]
         irreversible_conditions replay_empty
   in r = Inl (ContractViolation ''historical_verifier_metadata_missing'') \<and>
      fst (replay replay_default [replay_sample] irreversible_conditions s) =
        Inl (ContractViolation ''irreversible_effect_already_completed'')"
  by (simp add: irreversible_conditions_def second_sample_def replay_empty_def replay_script_simps)

end
