(* ===== verification/Recovery_Reconciliation.thy ===== *)
theory Recovery_Reconciliation
  imports Reference_Prelude
begin

text \<open>
  src/tools/assurance/d4c_recovery_generation/evaluate_candidates.py: the manifest of a restore,
  the reconciliation of its inventory before effects are activated again, and the checks of
  the candidates. \<open>loads\<close> stands for \<open>json.loads\<close>.
\<close>

section \<open>Manifests and evidence\<close>

record recovery_evidence =
  re_name :: string
  re_generation :: int
  re_status :: string
  re_identity :: string
  re_semantic_digest :: string
  re_scope :: string
  re_reproduction_authority :: string

record recovery_manifest =
  rm_restore_generation :: int
  rm_fence_generation :: int
  rm_producer_generation :: int
  rm_replay_authorization_generation :: int
  rm_destination_generation :: int
  rm_verifier_generation :: int
  rm_comparison_profile_generation :: int

definition manifest_fields :: "recovery_manifest \<Rightarrow> (string \<times> payload) list" where
  "manifest_fields m =
     [(''restore_generation'', PInt (rm_restore_generation m)),
      (''fence_generation'', PInt (rm_fence_generation m)),
      (''producer_generation'', PInt (rm_producer_generation m)),
      (''replay_authorization_generation'', PInt (rm_replay_authorization_generation m)),
      (''destination_generation'', PInt (rm_destination_generation m)),
      (''verifier_generation'', PInt (rm_verifier_generation m)),
      (''comparison_profile_generation'', PInt (rm_comparison_profile_generation m))]"

definition durable_json :: "recovery_manifest \<Rightarrow> string" where
  "durable_json m = canonical True (PObj (manifest_fields m))"

text \<open>\<open>cls(**fields)\<close>: every field once, in any order, and no other. The fields are integers, as they
  are declared; a document with a field of another type, which the class would keep, is refused.\<close>

definition int_field :: "(string \<times> payload) list \<Rightarrow> string \<Rightarrow> int res" where
  "int_field fs k = (case map_of fs k of Some (PInt i) \<Rightarrow> Inr i | _ \<Rightarrow> Inl TypeError)"

definition manifest_of_payload :: "payload \<Rightarrow> recovery_manifest res" where
  "manifest_of_payload v =
     (case v of
        PObj fs \<Rightarrow>
          bindR (ensure (length fs = 7) TypeError) (\<lambda>_.
          bindR (int_field fs ''restore_generation'') (\<lambda>restore_generation.
          bindR (int_field fs ''fence_generation'') (\<lambda>fence.
          bindR (int_field fs ''producer_generation'') (\<lambda>producer.
          bindR (int_field fs ''replay_authorization_generation'') (\<lambda>replay.
          bindR (int_field fs ''destination_generation'') (\<lambda>destination.
          bindR (int_field fs ''verifier_generation'') (\<lambda>verifier.
          bindR (int_field fs ''comparison_profile_generation'') (\<lambda>profile.
          Inr \<lparr>rm_restore_generation = restore_generation, rm_fence_generation = fence,
            rm_producer_generation = producer, rm_replay_authorization_generation = replay,
            rm_destination_generation = destination, rm_verifier_generation = verifier,
            rm_comparison_profile_generation = profile\<rparr>))))))))
      | _ \<Rightarrow> Inl TypeError)"

definition from_durable_json :: "(string \<Rightarrow> payload res) \<Rightarrow> string \<Rightarrow> recovery_manifest res" where
  "from_durable_json loads raw = bindR (loads raw) manifest_of_payload"

section \<open>Reconciliation\<close>

type_synonym inventory = "string \<Rightarrow> recovery_evidence option"

record recovery_result =
  rs_restore_generation :: int
  rs_fence_generation :: int
  rs_scope :: string
  rs_inventory :: "string list"
  rs_message_identity :: string
  rs_webhook_delivery_identity :: string
  rs_semantic_digest :: string
  rs_external_authority :: string
  rs_activation :: string

definition required_stores :: "string list" where
  "required_stores =
     [''broker_history'', ''inbox'', ''outbox'', ''equivalence'', ''external_effect'', ''webhook_delivery'']"

definition recovery_candidates :: "string list" where
  "recovery_candidates =
     [''restore_generation_fence_manifest_profile'', ''reconciliation_inventory_job_plus_activation_gate_profile'',
      ''hybrid_generation_manifest_plus_multi_store_reconciler_profile'']"

definition check_manifest :: "recovery_manifest \<Rightarrow> int \<Rightarrow> unit res" where
  "check_manifest m g =
     bindR (ensure (0 < rm_restore_generation m \<and> rm_fence_generation m = g)
       (ContractViolation ''restore_generation_fence_invalid'')) (\<lambda>_.
     bindR (ensure (rm_producer_generation m = g) (ContractViolation ''stale_producer_generation'')) (\<lambda>_.
     bindR (ensure (rm_replay_authorization_generation m = g)
       (ContractViolation ''stale_replay_authorization_generation'')) (\<lambda>_.
     bindR (ensure (rm_destination_generation m = g) (ContractViolation ''stale_destination_generation'')) (\<lambda>_.
     bindR (ensure (rm_verifier_generation m = g)
       (ContractViolation ''stale_historical_verifier_generation'')) (\<lambda>_.
     ensure (rm_comparison_profile_generation m = g)
       (ContractViolation ''stale_comparison_profile_generation''))))))"

definition check_item :: "string \<Rightarrow> recovery_evidence \<Rightarrow> int \<Rightarrow> string \<Rightarrow> unit res" where
  "check_item name e g scope =
     bindR (ensure (re_generation e = g) (ContractViolation (''stale_inventory_generation:'' @ name))) (\<lambda>_.
     bindR (ensure (re_status e \<in> {''present'', ''confirmed_effect''})
       (ContractViolation (''uncertain_inventory_state:'' @ name))) (\<lambda>_.
     ensure (re_scope e = scope) (ContractViolation (''inventory_scope_mismatch:'' @ name))))"

text \<open>The loop over the required stores; all of them are in the inventory when it starts.\<close>

fun check_items :: "string list \<Rightarrow> inventory \<Rightarrow> int \<Rightarrow> string \<Rightarrow> unit res" where
  "check_items [] iv g scope = Inr ()"
| "check_items (n # ns) iv g scope =
     (case iv n of
        None \<Rightarrow> Inl LookupError
      | Some e \<Rightarrow> bindR (check_item n e g scope) (\<lambda>_. check_items ns iv g scope))"

definition item :: "inventory \<Rightarrow> string \<Rightarrow> recovery_evidence res" where
  "item iv n = (case iv n of None \<Rightarrow> Inl LookupError | Some e \<Rightarrow> Inr e)"

definition reconcile :: "recovery_manifest \<Rightarrow> inventory \<Rightarrow> int \<Rightarrow> string \<Rightarrow> recovery_result res" where
  "reconcile m iv g scope =
     bindR (check_manifest m g) (\<lambda>_.
     bindR (ensure (list_all (\<lambda>n. iv n \<noteq> None) required_stores)
       (ContractViolation ''restored_state_uncertain'')) (\<lambda>_.
     bindR (check_items required_stores iv g scope) (\<lambda>_.
     bindR (item iv ''equivalence'') (\<lambda>eq.
     bindR (ensure (re_semantic_digest eq \<noteq> []) (ContractViolation ''comparison_evidence_unverifiable'')) (\<lambda>_.
     bindR (item iv ''external_effect'') (\<lambda>ext.
     bindR (item iv ''inbox'') (\<lambda>inbox.
     bindR (item iv ''outbox'') (\<lambda>outbox.
     bindR (item iv ''broker_history'') (\<lambda>broker.
     bindR (item iv ''webhook_delivery'') (\<lambda>webhook.
     bindR (ensure (card {re_identity broker, re_identity inbox, re_identity outbox} = 1)
       (ContractViolation ''message_identity_continuity_broken'')) (\<lambda>_.
     bindR (ensure (re_identity webhook = ''delivery-001'')
       (ContractViolation ''webhook_delivery_identity_broken'')) (\<lambda>_.
     bindR (ensure (re_semantic_digest webhook = re_semantic_digest eq \<or>
         re_reproduction_authority webhook = ''governed_reproduction'')
       (ContractViolation ''webhook_semantic_recovery_unavailable'')) (\<lambda>_.
     Inr \<lparr>rs_restore_generation = rm_restore_generation m, rs_fence_generation = rm_fence_generation m,
       rs_scope = scope, rs_inventory = sort required_stores, rs_message_identity = re_identity broker,
       rs_webhook_delivery_identity = re_identity webhook, rs_semantic_digest = re_semantic_digest eq,
       rs_external_authority =
         (if re_status ext = ''confirmed_effect'' \<and>
             (\<exists>e \<in> set [broker, inbox, outbox]. re_semantic_digest e = ''claims-absence'')
          then ''external_effect_survives'' else ''reconciled''),
       rs_activation = ''eligible''\<rparr>)))))))))))))"

text \<open>The fingerprint of a result is the canonical text of its fields.\<close>

definition result_fields :: "recovery_result \<Rightarrow> (string \<times> payload) list" where
  "result_fields r =
     [(''restore_generation'', PInt (rs_restore_generation r)),
       (''fence_generation'', PInt (rs_fence_generation r)), (''scope'', PText (rs_scope r)),
       (''inventory'', PArr (map PText (rs_inventory r))), (''message_identity'', PText (rs_message_identity r)),
       (''webhook_delivery_identity'', PText (rs_webhook_delivery_identity r)),
       (''semantic_digest'', PText (rs_semantic_digest r)),
       (''external_authority'', PText (rs_external_authority r)), (''activation'', PText (rs_activation r))]"

definition result_payload :: "recovery_result \<Rightarrow> payload" where
  "result_payload r = PObj (result_fields r)"

definition audit_fingerprint :: "recovery_result \<Rightarrow> string" where
  "audit_fingerprint r = canonical True (result_payload r)"

section \<open>Lemmas\<close>

lemma card_three: "card {a, b, c} = Suc 0 \<longleftrightarrow> a = b \<and> b = c"
  by (auto simp: card_1_singleton_iff)

lemma check_manifest_Inr_iff:
  "check_manifest m g = Inr u \<longleftrightarrow>
     0 < rm_restore_generation m \<and> rm_fence_generation m = g \<and> rm_producer_generation m = g \<and>
     rm_replay_authorization_generation m = g \<and> rm_destination_generation m = g \<and>
     rm_verifier_generation m = g \<and> rm_comparison_profile_generation m = g"
  by (auto simp: check_manifest_def bindR_Inr_iff ensure_Inr_iff)

definition item_admitted :: "recovery_evidence \<Rightarrow> int \<Rightarrow> string \<Rightarrow> bool" where
  "item_admitted e g scope \<longleftrightarrow>
     re_generation e = g \<and> re_status e \<in> {''present'', ''confirmed_effect''} \<and> re_scope e = scope"

lemma check_item_Inr_iff: "check_item n e g scope = Inr u \<longleftrightarrow> item_admitted e g scope"
  by (auto simp: check_item_def item_admitted_def bindR_Inr_iff ensure_Inr_iff)

lemma check_items_Inr_iff:
  "check_items ns iv g scope = Inr u \<longleftrightarrow> (\<forall>n \<in> set ns. \<exists>e. iv n = Some e \<and> item_admitted e g scope)"
  by (induction ns iv g scope rule: check_items.induct)
    (auto simp: bindR_Inr_iff check_item_Inr_iff split: option.splits)

lemma item_Inr_iff: "item iv n = Inr e \<longleftrightarrow> iv n = Some e"
  by (auto simp: item_def split: option.splits)

lemma reconcile_returns:
  assumes "reconcile m iv g scope = Inr r"
  shows "check_manifest m g = Inr ()"
    and "\<forall>n \<in> set required_stores. \<exists>e. iv n = Some e \<and> item_admitted e g scope"
    and "\<exists>broker inbox outbox eq webhook.
      iv ''broker_history'' = Some broker \<and> iv ''inbox'' = Some inbox \<and> iv ''outbox'' = Some outbox \<and>
      iv ''equivalence'' = Some eq \<and> iv ''webhook_delivery'' = Some webhook \<and>
      re_identity broker = rs_message_identity r \<and> re_identity inbox = rs_message_identity r \<and>
      re_identity outbox = rs_message_identity r \<and> re_semantic_digest eq = rs_semantic_digest r \<and>
      rs_semantic_digest r \<noteq> [] \<and>
      (re_semantic_digest webhook = rs_semantic_digest r \<or>
       re_reproduction_authority webhook = ''governed_reproduction'')"
    and "rs_fence_generation r = g \<and> rs_scope r = scope \<and> rs_activation r = ''eligible''"
  using assms
  by (auto simp: reconcile_def bindR_Inr_iff ensure_Inr_iff item_Inr_iff check_items_Inr_iff card_three
      check_manifest_Inr_iff)

lemma manifest_round_trip:
  assumes "loads (durable_json m) = Inr (PObj fs)" "normal (PObj fs) = normal (PObj (manifest_fields m))"
    and "distinct (map fst fs)"
  shows "from_durable_json loads (durable_json m) = Inr m"
proof -
  have "map_option normal (map_of fs k) = map_option normal (map_of (manifest_fields m) k)" for k
    by (rule normal_fields [OF assms(2,3)]) (simp add: manifest_fields_def)
  moreover have "normal v = PInt i \<longleftrightarrow> v = PInt i" for v i by (cases v) simp_all
  ultimately have fields: "map_of fs k = Some (PInt i)" if "map_of (manifest_fields m) k = Some (PInt i)" for k i
    using that by (metis map_option_eq_Some normal.simps(3) option.simps(9))
  have "length fs = length (manifest_fields m)"
  proof -
    have "sort_key fst (map (map_prod id normal) fs) = sort_key fst (map (map_prod id normal) (manifest_fields m))"
      using assms(2) by simp
    from arg_cong [where f = length, OF this] show ?thesis by (simp only: length_sort length_map)
  qed
  then have "length fs = 7" by (simp add: manifest_fields_def)
  then show ?thesis
    using fields [of "''restore_generation''"] fields [of "''fence_generation''"] fields [of "''producer_generation''"]
      fields [of "''replay_authorization_generation''"] fields [of "''destination_generation''"]
      fields [of "''verifier_generation''"] fields [of "''comparison_profile_generation''"]
    by (simp add: from_durable_json_def assms(1) manifest_of_payload_def int_field_def manifest_fields_def)
qed

lemma result_payload_normal: "normal (result_payload r) = normal (result_payload q) \<longleftrightarrow> r = q"
proof
  assume "normal (result_payload r) = normal (result_payload q)"
  moreover have "distinct (map fst (result_fields x))" for x by (simp add: result_fields_def)
  ultimately have same: "map_option normal (map_of (result_fields r) k) = map_option normal (map_of (result_fields q) k)" for k
    unfolding result_payload_def using normal_fields by blast
  have texts: "map (normal \<circ> PText) xs = map (normal \<circ> PText) ys \<longleftrightarrow> xs = ys" for xs ys :: "string list"
    by (rule inj_map_eq_map) (simp add: inj_def)
  show "r = q"
    using same [of "''restore_generation''"] same [of "''fence_generation''"] same [of "''scope''"]
      same [of "''inventory''"] same [of "''message_identity''"] same [of "''webhook_delivery_identity''"]
      same [of "''semantic_digest''"] same [of "''external_authority''"] same [of "''activation''"]
    by (intro recovery_result.equality) (simp_all add: result_fields_def texts)
qed simp

lemma result_payload_plain: "plain_payload (result_payload r)"
  by (simp add: result_payload_def result_fields_def list_all_iff)

lemma fingerprint_binds: "audit_fingerprint r = audit_fingerprint q \<longleftrightarrow> r = q"
  unfolding audit_fingerprint_def
  using canonical_binds [OF result_payload_plain result_payload_plain] result_payload_normal by blast

lemma check_items_one:
  assumes "n \<in> set ns" "distinct ns" "\<forall>k \<in> set ns. \<exists>e. iv k = Some e \<and> item_admitted e g scope"
  shows "check_items ns (iv(n \<mapsto> e)) g scope = check_item n e g scope"
  using assms
proof (induction ns)
  case (Cons k ks)
  show ?case
  proof (cases "k = n")
    case True
    then have "check_items ks (iv(n \<mapsto> e)) g scope = Inr ()"
      using Cons.prems by (auto simp: check_items_Inr_iff)
    then show ?thesis using True by (cases "check_item n e g scope") (simp_all add: fun_upd_same del: fun_upd_apply)
  next
    case False
    obtain d where d: "iv k = Some d" "item_admitted d g scope" using Cons.prems(3) by auto
    then have "check_item k d g scope = Inr ()" using check_item_Inr_iff by blast
    then show ?thesis using Cons False d by simp
  qed
qed simp

lemma required_distinct: "distinct required_stores"
  by (simp add: required_stores_def)

section \<open>What the reconciliation promises\<close>

text \<open>C23: effects are activated only when every store is reconciled. A reconciliation that returns
  had every generation of the manifest current and every required store present, of the current
  generation and of the scope, with one message identity in the history, the inbox and the
  outbox; with any required store missing, or of another generation, or of another scope, the same
  call is refused with the code of that store; and the fingerprint determines the whole result.\<close>

theorem activation_needs_every_store:
  assumes "reconcile m iv g scope = Inr r" "n \<in> set required_stores"
  shows "(\<exists>e. iv n = Some e \<and> item_admitted e g scope) \<and>
    reconcile m (iv(n := None)) g scope = Inl (ContractViolation ''restored_state_uncertain'') \<and>
    (re_generation d \<noteq> g \<longrightarrow>
       reconcile m (iv(n \<mapsto> d)) g scope = Inl (ContractViolation (''stale_inventory_generation:'' @ n))) \<and>
    (re_generation d = g \<and> re_status d \<in> {''present'', ''confirmed_effect''} \<and> re_scope d \<noteq> scope \<longrightarrow>
       reconcile m (iv(n \<mapsto> d)) g scope = Inl (ContractViolation (''inventory_scope_mismatch:'' @ n))) \<and>
    (n \<in> {''broker_history'', ''inbox'', ''outbox''} \<longrightarrow> map_option re_identity (iv n) = Some (rs_message_identity r)) \<and>
    (rm_fence_generation m' \<noteq> g \<longrightarrow>
       reconcile m' iv g scope = Inl (ContractViolation ''restore_generation_fence_invalid'')) \<and>
    (audit_fingerprint r = audit_fingerprint q \<longleftrightarrow> r = q)"
proof -
  note got = reconcile_returns [OF assms(1)]
  have present: "list_all (\<lambda>k. (iv(n \<mapsto> d)) k \<noteq> None) required_stores" using got(2) by (auto simp: list_all_iff)
  have absent: "\<not> list_all (\<lambda>k. (iv(n := None)) k \<noteq> None) required_stores" using assms(2) by (auto simp: list_all_iff)
  have "reconcile m (iv(n := None)) g scope = Inl (ContractViolation ''restored_state_uncertain'')"
    unfolding reconcile_def got(1) bindR_simps using absent by (simp add: ensure_def)
  moreover have "reconcile m (iv(n \<mapsto> d)) g scope = Inl x" if "check_item n d g scope = Inl x" for x
    unfolding reconcile_def got(1) bindR_simps
    using present check_items_one [OF assms(2) required_distinct got(2), of d] that
    by (simp add: ensure_def)
  moreover have "check_item n d g scope = Inl (ContractViolation (''stale_inventory_generation:'' @ n))"
    if "re_generation d \<noteq> g" using that by (simp add: check_item_def ensure_def)
  moreover have "check_item n d g scope = Inl (ContractViolation (''inventory_scope_mismatch:'' @ n))"
    if "re_generation d = g" "re_status d \<in> {''present'', ''confirmed_effect''}" "re_scope d \<noteq> scope"
    using that by (auto simp: check_item_def ensure_def)
  moreover have "reconcile m' iv g scope = Inl (ContractViolation ''restore_generation_fence_invalid'')"
    if "rm_fence_generation m' \<noteq> g" using that by (simp add: reconcile_def check_manifest_def ensure_def)
  moreover have "map_option re_identity (iv n) = Some (rs_message_identity r)"
    if "n \<in> {''broker_history'', ''inbox'', ''outbox''}" using that got(3) by auto
  ultimately show ?thesis using got(2) assms(2) fingerprint_binds by blast
qed

section \<open>The checks of the candidates\<close>

definition recovery_init :: "string \<Rightarrow> unit res" where
  "recovery_init c = ensure (c \<in> set recovery_candidates) ValueError"

definition sample_manifest :: recovery_manifest where
  "sample_manifest =
     \<lparr>rm_restore_generation = 7, rm_fence_generation = 9, rm_producer_generation = 9,
      rm_replay_authorization_generation = 9, rm_destination_generation = 9, rm_verifier_generation = 9,
      rm_comparison_profile_generation = 9\<rparr>"

definition evidence :: "string \<Rightarrow> int \<Rightarrow> string \<Rightarrow> string \<Rightarrow> string \<Rightarrow> recovery_evidence" where
  "evidence n g status i digest =
     \<lparr>re_name = n, re_generation = g, re_status = status, re_identity = i, re_semantic_digest = digest,
      re_scope = ''tenant-a/orders'', re_reproduction_authority = ''none''\<rparr>"

definition sample_inventory :: inventory where
  "sample_inventory =
     [''broker_history'' \<mapsto> evidence ''broker_history'' 9 ''present'' ''msg-001'' ''sem-001'',
      ''inbox'' \<mapsto> evidence ''inbox'' 9 ''present'' ''msg-001'' ''sem-001'',
      ''outbox'' \<mapsto> evidence ''outbox'' 9 ''present'' ''msg-001'' ''sem-001'',
      ''equivalence'' \<mapsto> evidence ''equivalence'' 9 ''present'' ''eq-001'' ''sem-001'',
      ''external_effect'' \<mapsto> evidence ''external_effect'' 9 ''confirmed_effect'' ''effect-001'' ''sem-001'',
      ''webhook_delivery'' \<mapsto> evidence ''webhook_delivery'' 9 ''present'' ''delivery-001'' ''sem-001'']"

definition conflict_inventory :: inventory where
  "conflict_inventory = sample_inventory
     (''broker_history'' \<mapsto> evidence ''broker_history'' 9 ''present'' ''msg-001'' ''claims-absence'',
      ''inbox'' \<mapsto> evidence ''inbox'' 9 ''present'' ''msg-001'' ''claims-absence'',
      ''outbox'' \<mapsto> evidence ''outbox'' 9 ''present'' ''msg-001'' ''claims-absence'')"

definition sample_reconcile :: "recovery_manifest \<Rightarrow> inventory \<Rightarrow> recovery_result res" where
  "sample_reconcile m iv = reconcile m iv 9 ''tenant-a/orders''"

definition inventory_refused :: "string \<Rightarrow> string \<Rightarrow> recovery_evidence option \<Rightarrow> bool res" where
  "inventory_refused code n e = blockedR code (sample_reconcile sample_manifest (sample_inventory(n := e)))"

definition manifest_refused :: "string \<Rightarrow> recovery_manifest \<Rightarrow> bool res" where
  "manifest_refused code m = blockedR code (sample_reconcile m sample_inventory)"

definition check_recovery_stores :: "checks res" where
  "check_recovery_stores =
     bindR (inventory_refused ''webhook_semantic_recovery_unavailable'' ''webhook_delivery''
       (Some (evidence ''webhook_delivery'' 9 ''present'' ''delivery-001'' ''different-semantic''))) (\<lambda>webhook.
     bindR (inventory_refused ''restored_state_uncertain'' ''equivalence'' None) (\<lambda>missing.
     bindR (inventory_refused ''stale_inventory_generation:equivalence'' ''equivalence''
       (Some (evidence ''equivalence'' 8 ''present'' ''eq-001'' ''sem-001''))) (\<lambda>older.
     bindR (inventory_refused ''comparison_evidence_unverifiable'' ''equivalence''
       (Some (evidence ''equivalence'' 9 ''present'' ''eq-001'' []))) (\<lambda>blank.
     bindR (inventory_refused ''inventory_scope_mismatch:equivalence'' ''equivalence''
       (Some ((evidence ''equivalence'' 9 ''present'' ''eq-001'' ''sem-001'')\<lparr>re_scope := ''tenant-b/orders''\<rparr>)))
       (\<lambda>scope.
     Inr [(''webhook_semantic_drift_blocks'', webhook), (''missing_state_blocks'', missing),
       (''older_equivalence_blocks'', older), (''unverifiable_equivalence_blocks'', blank),
       (''cross_scope_verifier_blocks'', scope)])))))"

definition check_recovery_generations :: "checks res" where
  "check_recovery_generations =
     bindR (manifest_refused ''stale_producer_generation''
       (sample_manifest\<lparr>rm_producer_generation := 8\<rparr>)) (\<lambda>producer.
     bindR (manifest_refused ''stale_replay_authorization_generation''
       (sample_manifest\<lparr>rm_replay_authorization_generation := 8\<rparr>)) (\<lambda>replay.
     bindR (manifest_refused ''stale_destination_generation''
       (sample_manifest\<lparr>rm_destination_generation := 8\<rparr>)) (\<lambda>destination.
     bindR (manifest_refused ''stale_historical_verifier_generation''
       (sample_manifest\<lparr>rm_verifier_generation := 8\<rparr>)) (\<lambda>verifier.
     bindR (manifest_refused ''stale_comparison_profile_generation''
       (sample_manifest\<lparr>rm_comparison_profile_generation := 8\<rparr>)) (\<lambda>profile.
     Inr [(''stale_producer_blocks'', producer), (''stale_replay_auth_blocks'', replay),
       (''stale_destination_blocks'', destination), (''obsolete_verifier_blocks'', verifier),
       (''obsolete_profile_blocks'', profile)])))))"

definition check_recovery_candidate :: "(string \<Rightarrow> payload res) \<Rightarrow> string \<Rightarrow> checks res" where
  "check_recovery_candidate loads c =
     bindR (recovery_init c) (\<lambda>_.
     bindR (sample_reconcile sample_manifest sample_inventory) (\<lambda>r.
     bindR (from_durable_json loads (durable_json sample_manifest)) (\<lambda>durable.
     bindR (sample_reconcile sample_manifest conflict_inventory) (\<lambda>conflict.
     bindR check_recovery_stores (\<lambda>stores.
     bindR check_recovery_generations (\<lambda>generations.
     bindR (inventory_refused ''restored_state_uncertain'' ''equivalence'' None) (\<lambda>missing.
     bindR (sample_reconcile sample_manifest sample_inventory) (\<lambda>again.
     Inr ([(''generation_and_fence_explicit'', rs_restore_generation r = 7 \<and> rs_fence_generation r = 9),
       (''manifest_durable_roundtrip'', durable = sample_manifest \<and> rm_fence_generation durable = 9),
       (''rf_inventory_complete'', rs_inventory r = sort required_stores),
       (''webhook_identity_stable'', rs_webhook_delivery_identity r = ''delivery-001''),
       (''webhook_semantic_recovery_proven'',
          Some (rs_semantic_digest r) = map_option re_semantic_digest (sample_inventory ''webhook_delivery''))]
       @ stores @ generations @
      [(''external_effect_not_overridden'', rs_external_authority conflict = ''external_effect_survives''),
       (''activation_fail_closed_until_reconciled'', rs_activation r = ''eligible'' \<and> missing),
       (''reconciliation_reproducible'', audit_fingerprint r = audit_fingerprint again)])))))))))"

definition recovery_proof_checks :: proof_checks where
  "recovery_proof_checks =
     [(''restore_generation_and_fence_boundary_are_explicit_and_durable'',
       [''generation_and_fence_explicit'', ''manifest_durable_roundtrip'']),
      (''r_f_window_inventory_reconciles_broker_history_inbox_outbox_equivalence_and_external_effect_evidence'',
       [''rf_inventory_complete'']),
      (''webhook_recovery_preserves_stable_delivery_identity_semantic_snapshot_or_reproduction_authority_and_destination_generation_fences'',
       [''webhook_identity_stable'', ''webhook_semantic_recovery_proven'', ''webhook_semantic_drift_blocks'',
        ''stale_destination_blocks'']),
      (''missing_restored_state_is_uncertainty_not_absence'', [''missing_state_blocks'']),
      (''missing_or_older_content_comparison_evidence_is_not_safe_duplicate_proof'',
       [''older_equivalence_blocks'', ''unverifiable_equivalence_blocks'']),
      (''missing_or_stale_historical_comparison_authority_blocks_duplicate_sensitive_effects'',
       [''obsolete_verifier_blocks'', ''obsolete_profile_blocks'', ''cross_scope_verifier_blocks'']),
      (''duplicate_classification_and_effectful_async_admission_remain_fail_closed_until_continuity_equivalence_and_historical_authority_are_proven'',
       [''missing_state_blocks'', ''older_equivalence_blocks'', ''activation_fail_closed_until_reconciled'']),
      (''stale_producer_replay_authorization_and_destination_generations_do_not_revive'',
       [''stale_producer_blocks'', ''stale_replay_auth_blocks'', ''stale_destination_blocks'']),
      (''obsolete_restored_verifier_or_profile_cannot_become_current_authority_for_unrelated_scope'',
       [''obsolete_verifier_blocks'', ''obsolete_profile_blocks'', ''cross_scope_verifier_blocks'']),
      (''offset_outbox_or_inbox_state_cannot_override_surviving_external_audit_effect_or_equivalence_evidence'',
       [''external_effect_not_overridden'']),
      (''effectful_async_activation_is_fail_closed_until_required_reconciliation_is_proven'',
       [''activation_fail_closed_until_reconciled'']),
      (''reconciliation_results_are_generation_scoped_auditable_and_reproducible'',
       [''reconciliation_reproducible'', ''generation_and_fence_explicit''])]"

lemmas recovery_simps =
  sample_reconcile_def reconcile_def check_manifest_def check_item_def item_def required_stores_def
  sample_manifest_def sample_inventory_def conflict_inventory_def evidence_def

lemma sample_result:
  "sample_reconcile sample_manifest sample_inventory = Inr
     \<lparr>rs_restore_generation = 7, rs_fence_generation = 9, rs_scope = ''tenant-a/orders'',
      rs_inventory = sort required_stores, rs_message_identity = ''msg-001'',
      rs_webhook_delivery_identity = ''delivery-001'', rs_semantic_digest = ''sem-001'',
      rs_external_authority = ''reconciled'', rs_activation = ''eligible''\<rparr>"
  by (simp add: recovery_simps)

lemma conflict_result:
  "map_sum id rs_external_authority (sample_reconcile sample_manifest conflict_inventory) =
     Inr ''external_effect_survives''"
  by (simp add: recovery_simps)

lemma check_recovery_stores_hold:
  "check_recovery_stores = Inr (passed [''webhook_semantic_drift_blocks'', ''missing_state_blocks'',
     ''older_equivalence_blocks'', ''unverifiable_equivalence_blocks'', ''cross_scope_verifier_blocks''])"
  by (simp add: check_recovery_stores_def inventory_refused_def recovery_simps passed_def)

lemma check_recovery_generations_hold:
  "check_recovery_generations = Inr (passed [''stale_producer_blocks'', ''stale_replay_auth_blocks'',
     ''stale_destination_blocks'', ''obsolete_verifier_blocks'', ''obsolete_profile_blocks''])"
  by (simp add: check_recovery_generations_def manifest_refused_def recovery_simps passed_def)

lemma recovery_candidates_pass:
  assumes "c \<in> set recovery_candidates" "loads (durable_json sample_manifest) = Inr (PObj fs)"
    and "normal (PObj fs) = normal (PObj (manifest_fields sample_manifest))" "distinct (map fst fs)"
  shows "map_sum id (verdict recovery_proof_checks) (check_recovery_candidate loads c) = Inr eligible"
proof -
  obtain x where x: "sample_reconcile sample_manifest conflict_inventory = Inr x"
    "rs_external_authority x = ''external_effect_survives''"
    using conflict_result by (cases "sample_reconcile sample_manifest conflict_inventory") auto
  have missing: "inventory_refused ''restored_state_uncertain'' ''equivalence'' None = Inr True"
    by (simp add: inventory_refused_def recovery_simps)
  have durable: "from_durable_json loads (durable_json sample_manifest) = Inr sample_manifest"
    using assms(2-4) by (rule manifest_round_trip)
  have "rm_fence_generation sample_manifest = 9" "\<exists>e. sample_inventory ''webhook_delivery'' = Some e \<and>
      re_semantic_digest e = ''sem-001''"
    by (simp_all add: sample_manifest_def sample_inventory_def evidence_def)
  then have "check_recovery_candidate loads c = Inr (passed
    ([''generation_and_fence_explicit'', ''manifest_durable_roundtrip'', ''rf_inventory_complete'',
      ''webhook_identity_stable'', ''webhook_semantic_recovery_proven''] @
     [''webhook_semantic_drift_blocks'', ''missing_state_blocks'',
      ''older_equivalence_blocks'', ''unverifiable_equivalence_blocks'', ''cross_scope_verifier_blocks''] @
     [''stale_producer_blocks'', ''stale_replay_auth_blocks'',
      ''stale_destination_blocks'', ''obsolete_verifier_blocks'', ''obsolete_profile_blocks''] @
     [''external_effect_not_overridden'', ''activation_fail_closed_until_reconciled'',
      ''reconciliation_reproducible'']))"
    using assms(1)
    by (auto simp: check_recovery_candidate_def recovery_init_def sample_result x missing
        durable check_recovery_stores_hold check_recovery_generations_hold passed_def)
  then show ?thesis by (simp add: verdict_passed recovery_proof_checks_def)
qed

theorem activation_needs_every_store_witness:
  "reconcile sample_manifest (sample_inventory(''outbox'' := None)) 9 ''tenant-a/orders'' =
     Inl (ContractViolation ''restored_state_uncertain'')"
  using activation_needs_every_store [OF sample_result [unfolded sample_reconcile_def], of "''outbox''"]
  by (simp add: required_stores_def)

end
