(* ===== verification/Historical_Reader.thy ===== *)
theory Historical_Reader
  imports Reference_Prelude
begin

text \<open>
  src/tools/assurance/d4c_historical_reader/evaluate_candidates.py: reading records of earlier
  schema versions, and the checks of the candidates. A \<open>dict[str, str]\<close> is a list of pairs with
  distinct keys, and two of them are equal when they have the same entries; \<open>sha\<close> is the
  hexadecimal SHA-256 digest of a sequence of bytes.
\<close>

section \<open>Reading\<close>

type_synonym text_dict = "(string, string) dict"

definition same_dict :: "text_dict \<Rightarrow> text_dict \<Rightarrow> bool" where
  "same_dict x y \<longleftrightarrow> set x = set y"

record historical_record =
  hr_tenant_id :: string
  hr_contract_id :: string
  hr_message_id :: string
  hr_occurrence_id :: string
  hr_schema_version :: int
  hr_reader_version :: string
  hr_equivalence_profile :: string
  hr_payload :: text_dict

record interpreted_record =
  ir_tenant_id :: string
  ir_contract_id :: string
  ir_message_id :: string
  ir_occurrence_id :: string
  ir_source_schema_version :: int
  ir_reader_version :: string
  ir_comparison_profile :: string
  ir_semantic_fields :: text_dict
  ir_equivalence_fingerprint :: string

definition dict_payload :: "text_dict \<Rightarrow> payload" where
  "dict_payload fs = PObj (map (map_prod id PText) fs)"

definition canonical_semantics :: "text_dict \<Rightarrow> nat list res" where
  "canonical_semantics fs =
     bindR (ensure (set (map fst fs) = {''order_id'', ''state''})
       (ContractViolation ''canonical_semantic_shape_invalid'')) (\<lambda>_.
     Inr (utf8 (canonical True (dict_payload fs))))"

definition semantic_fingerprint :: "(nat list \<Rightarrow> string) \<Rightarrow> string \<Rightarrow> text_dict \<Rightarrow> string res" where
  "semantic_fingerprint sha profile fs =
     bindR (ensure (profile \<in> {''eq-v1'', ''eq-v2-compat''})
       (ContractViolation ''historical_equivalence_profile_unavailable'')) (\<lambda>_.
     map_sum id sha (canonical_semantics fs))"

definition reader_candidates :: "string list" where
  "reader_candidates =
     [''in_process_versioned_reader_upcaster_registry'', ''sidecar_or_library_historical_reader_profile'',
      ''offline_replay_transform_pipeline_profile'']"

definition readers :: "int \<Rightarrow> string option" where
  "readers v = (if v = 1 then Some ''reader-v1'' else if v = 2 then Some ''reader-v2'' else None)"

definition profile_map :: "string \<Rightarrow> string option" where
  "profile_map p = (if p \<in> {''eq-v1'', ''eq-v2-compat''} then Some ''eq-v2-compat'' else None)"

definition v1_states :: "text_dict" where
  "v1_states = [(''P'', ''paid''), (''C'', ''created'')]"

definition interpret_record :: "historical_record \<Rightarrow> text_dict res" where
  "interpret_record r =
     (if hr_schema_version r = 1
      then bindR (ensure (set (map fst (hr_payload r)) = {''order'', ''status_code''})
             (ContractViolation ''historical_semantic_shape_untrusted'')) (\<lambda>_.
           case Option.bind (map_of (hr_payload r) ''status_code'') (map_of v1_states) of
             None \<Rightarrow> Inl (ContractViolation ''historical_semantic_value_untrusted'')
           | Some state \<Rightarrow>
               (case map_of (hr_payload r) ''order'' of
                  None \<Rightarrow> Inl LookupError
                | Some i \<Rightarrow> Inr [(''order_id'', i), (''state'', state)]))
      else if hr_schema_version r = 2
      then bindR (ensure (set (map fst (hr_payload r)) = {''order_id'', ''state''})
             (ContractViolation ''historical_semantic_shape_untrusted'')) (\<lambda>_.
           bindR (ensure (the (map_of (hr_payload r) ''state'') \<in> set (map snd v1_states))
             (ContractViolation ''historical_semantic_value_untrusted'')) (\<lambda>_.
           Inr (hr_payload r)))
      else Inl (ContractViolation ''unsupported_historical_schema_version''))"

text \<open>\<open>fabricated\<close> are the fields the caller wants added; none and an empty dict are both allowed.\<close>

definition read_record ::
  "(nat list \<Rightarrow> string) \<Rightarrow> historical_record \<Rightarrow> bool \<Rightarrow> string option \<Rightarrow> text_dict option \<Rightarrow> interpreted_record res" where
  "read_record sha r dynamic_code requested fabricated =
     bindR (ensure (\<not> dynamic_code) (ContractViolation ''dynamic_untrusted_execution_forbidden'')) (\<lambda>_.
     case readers (hr_schema_version r) of
       None \<Rightarrow> Inl (ContractViolation ''unsupported_historical_schema_version'')
     | Some expected \<Rightarrow>
         bindR (ensure (hr_reader_version r = expected)
           (ContractViolation ''historical_reader_version_unrecoverable'')) (\<lambda>_.
         bindR (ensure (requested = None \<or> requested = Some expected)
           (ContractViolation ''historical_reader_version_mismatch'')) (\<lambda>_.
         case profile_map (hr_equivalence_profile r) of
           None \<Rightarrow> Inl (ContractViolation ''historical_equivalence_profile_unavailable'')
         | Some profile \<Rightarrow>
             bindR (ensure (fabricated = None \<or> fabricated = Some [])
               (ContractViolation ''upcaster_new_fact_fabrication_forbidden'')) (\<lambda>_.
             bindR (interpret_record r) (\<lambda>fields.
             bindR (semantic_fingerprint sha profile fields) (\<lambda>digest.
             Inr \<lparr>ir_tenant_id = hr_tenant_id r, ir_contract_id = hr_contract_id r,
               ir_message_id = hr_message_id r, ir_occurrence_id = hr_occurrence_id r,
               ir_source_schema_version = hr_schema_version r, ir_reader_version = expected,
               ir_comparison_profile = profile, ir_semantic_fields = fields,
               ir_equivalence_fingerprint = digest\<rparr>))))))"

text \<open>
  What a record means, from its own payload: the number of an order and its state. The first
  version writes the state as a code, P for paid and C for created; the second in full.
\<close>

definition record_means :: "historical_record \<Rightarrow> string \<Rightarrow> string \<Rightarrow> bool" where
  "record_means r n state \<longleftrightarrow>
     (hr_schema_version r = 1 \<and> map_of (hr_payload r) ''order'' = Some n \<and>
        (map_of (hr_payload r) ''status_code'' = Some ''P'' \<and> state = ''paid'' \<or>
         map_of (hr_payload r) ''status_code'' = Some ''C'' \<and> state = ''created'')) \<or>
     (hr_schema_version r = 2 \<and> map_of (hr_payload r) ''order_id'' = Some n \<and>
        map_of (hr_payload r) ''state'' = Some state \<and> (state = ''paid'' \<or> state = ''created''))"

section \<open>Lemmas\<close>

definition well_formed :: "historical_record \<Rightarrow> bool" where
  "well_formed r \<longleftrightarrow> distinct (map fst (hr_payload r))"

lemma interpret_returns:
  assumes "interpret_record r = Inr fs"
  shows "hr_schema_version r = 1 \<and> set (map fst (hr_payload r)) = {''order'', ''status_code''} \<and>
      (\<exists>code state i. map_of (hr_payload r) ''status_code'' = Some code \<and> map_of v1_states code = Some state \<and>
         map_of (hr_payload r) ''order'' = Some i \<and> fs = [(''order_id'', i), (''state'', state)]) \<or>
    hr_schema_version r = 2 \<and> set (map fst (hr_payload r)) = {''order_id'', ''state''} \<and>
      fs = hr_payload r \<and> the (map_of fs ''state'') \<in> set (map snd v1_states)"
  using assms unfolding interpret_record_def if_Inr_iff res_Inr_iff Option.bind_eq_Some_conv
  by (cases "hr_schema_version r = 1"; cases "hr_schema_version r = 2") (simp_all, blast?)

lemma two_keys:
  assumes "set (map fst fs) = {a, b}" "distinct (map fst fs)" "map_of fs a = Some x" "map_of fs b = Some y"
  shows "set fs = {(a, x), (b, y)}"
proof
  show "set fs \<subseteq> {(a, x), (b, y)}"
  proof
    fix z assume z: "z \<in> set fs"
    then have "fst z = a \<or> fst z = b" using assms(1) by (metis imageI insert_iff set_map singletonD)
    moreover have "map_of fs (fst z) = Some (snd z)" using z assms(2) by simp
    ultimately show "z \<in> {(a, x), (b, y)}" using assms(3,4) by (cases z) auto
  qed
qed (use assms(3,4) in \<open>simp add: map_of_SomeD\<close>)

lemma interpret_means:
  assumes "interpret_record r = Inr fs" "well_formed r"
  shows "\<exists>n state. record_means r n state \<and> distinct (map fst fs) \<and>
    set fs = {(''order_id'', n), (''state'', state)}"
  using interpret_returns [OF assms(1)]
proof (elim disjE conjE exE)
  fix code state i
  assume version: "hr_schema_version r = 1" and code: "map_of (hr_payload r) ''status_code'' = Some code"
    "map_of v1_states code = Some state" and i: "map_of (hr_payload r) ''order'' = Some i"
    and fs: "fs = [(''order_id'', i), (''state'', state)]"
  have "record_means r i state"
    using version code i by (auto simp: record_means_def v1_states_def split: if_splits)
  then show ?thesis by (intro exI [of _ i] exI [of _ state]) (simp add: fs)
next
  assume version: "hr_schema_version r = 2" and keys: "set (map fst (hr_payload r)) = {''order_id'', ''state''}"
    and fs: "fs = hr_payload r" and trusted: "the (map_of fs ''state'') \<in> set (map snd v1_states)"
  have apart: "distinct (map fst fs)" using assms(2) by (simp add: well_formed_def fs)
  have "''order_id'' \<in> set (map fst fs)" "''state'' \<in> set (map fst fs)" using keys fs by simp_all
  then obtain n state where n: "map_of fs ''order_id'' = Some n" "map_of fs ''state'' = Some state"
    by (metis map_of_eq_None_iff not_None_eq set_map)
  have "record_means r n state"
    using version n trusted by (auto simp: record_means_def v1_states_def fs)
  moreover have "set fs = {(''order_id'', n), (''state'', state)}"
    by (rule two_keys) (use keys apart n in \<open>simp_all add: fs\<close>)
  ultimately show ?thesis using apart by blast
qed

lemma read_record_returns:
  assumes "read_record sha r d q f = Inr x"
  shows "\<not> d \<and> (f = None \<or> f = Some []) \<and> interpret_record r = Inr (ir_semantic_fields x) \<and>
    ir_tenant_id x = hr_tenant_id r \<and> ir_contract_id x = hr_contract_id r \<and>
    ir_message_id x = hr_message_id r \<and> ir_occurrence_id x = hr_occurrence_id r \<and>
    ir_source_schema_version x = hr_schema_version r \<and> ir_reader_version x = hr_reader_version r \<and>
    ir_comparison_profile x = ''eq-v2-compat'' \<and>
    ir_equivalence_fingerprint x = sha (utf8 (canonical True (dict_payload (ir_semantic_fields x))))"
proof -
  obtain expected profile fields digest where
    run: "\<not> d" "f = None \<or> f = Some []" "hr_reader_version r = expected"
      "profile_map (hr_equivalence_profile r) = Some profile" "interpret_record r = Inr fields"
      "semantic_fingerprint sha profile fields = Inr digest"
    and x: "x = \<lparr>ir_tenant_id = hr_tenant_id r, ir_contract_id = hr_contract_id r,
      ir_message_id = hr_message_id r, ir_occurrence_id = hr_occurrence_id r,
      ir_source_schema_version = hr_schema_version r, ir_reader_version = expected,
      ir_comparison_profile = profile, ir_semantic_fields = fields, ir_equivalence_fingerprint = digest\<rparr>"
    using assms unfolding read_record_def res_Inr_iff by blast
  have "profile = ''eq-v2-compat''" using run(4) by (simp add: profile_map_def split: if_splits)
  moreover have "digest = sha (utf8 (canonical True (dict_payload fields)))"
    using run(6) unfolding semantic_fingerprint_def canonical_semantics_def res_Inr_iff by blast
  ultimately show ?thesis using run by (simp add: x)
qed

lemma dict_payload_plain: "distinct (map fst fs) \<Longrightarrow> plain_payload (dict_payload fs)"
  by (auto simp: dict_payload_def list_all_iff comp_def)

lemma dict_payload_normal:
  assumes "distinct (map fst fs)" "distinct (map fst gs)"
  shows "normal (dict_payload fs) = normal (dict_payload gs) \<longleftrightarrow> set fs = set gs"
proof -
  have maps: "map_of (map (map_prod id PText) hs) k = map_option PText (map_of hs k)" for hs :: text_dict and k
    by (induction hs) auto
  have keys: "distinct (map fst (map (map_prod id PText) hs)) = distinct (map fst hs)" for hs :: text_dict
    by (simp add: comp_def)
  show ?thesis
  proof
    assume same: "normal (dict_payload fs) = normal (dict_payload gs)"
    have "map_of fs k = map_of gs k" for k
    proof -
      have "map_option normal (map_option PText (map_of fs k)) = map_option normal (map_option PText (map_of gs k))"
        using normal_fields [OF same [unfolded dict_payload_def]] assms unfolding keys maps by blast
      then show ?thesis by (cases "map_of fs k"; cases "map_of gs k") simp_all
    qed
    then show "set fs = set gs" using map_of_inject_set [OF assms] by blast
  next
    assume "set fs = set gs"
    then have sets: "set (sort_key fst (map (map_prod id (normal \<circ> PText)) fs)) =
      set (sort_key fst (map (map_prod id (normal \<circ> PText)) gs))" by simp
    have sorts: "map fst (sort_key fst (map (map_prod id (normal \<circ> PText)) hs)) = sort (map fst hs)" for hs :: text_dict
      using keys_sorted [of "map (map_prod id (normal \<circ> PText)) hs"] by (simp add: comp_def)
    have "sort_key fst (map (map_prod id (normal \<circ> PText)) fs) = sort_key fst (map (map_prod id (normal \<circ> PText)) gs)"
      by (rule map_sorted_distinct_set_unique [of fst])
        (use sets sorts assms in \<open>auto simp: distinct_map inj_on_def\<close>)
    then show "normal (dict_payload fs) = normal (dict_payload gs)"
      by (simp add: dict_payload_def comp_def prod.map_comp id_def)
  qed
qed

section \<open>What a read promises\<close>

text \<open>C24: a read never changes the identity or the meaning of a record. It preserves the tenant, the
  contract, the message, the occurrence and the schema version of a record, and gives exactly the
  order and the state its own payload means: of the first version its order with P read as paid
  and C as created, of the second the two fields as they are. Records of one meaning, of the same
  or of different versions, have one fingerprint, and records of different meanings have
  different ones as long as the digest does not take their two texts to the same value. Nothing
  is read with dynamic code or fabricated fields.\<close>

theorem fingerprint_is_meaning:
  assumes "read_record sha r d q f = Inr x" "read_record sha s d' q' f' = Inr y" "well_formed r" "well_formed s"
  shows "\<exists>n state m other. record_means r n state \<and> record_means s m other \<and>
    set (ir_semantic_fields x) = {(''order_id'', n), (''state'', state)} \<and>
    ((n, state) = (m, other) \<longrightarrow> ir_equivalence_fingerprint x = ir_equivalence_fingerprint y) \<and>
    ((n, state) \<noteq> (m, other) \<and>
      inj_on sha {utf8 (canonical True (dict_payload (ir_semantic_fields x))),
        utf8 (canonical True (dict_payload (ir_semantic_fields y)))} \<longrightarrow>
      ir_equivalence_fingerprint x \<noteq> ir_equivalence_fingerprint y) \<and>
    ir_tenant_id x = hr_tenant_id r \<and> ir_contract_id x = hr_contract_id r \<and>
    ir_message_id x = hr_message_id r \<and> ir_occurrence_id x = hr_occurrence_id r \<and>
    ir_source_schema_version x = hr_schema_version r \<and> \<not> d \<and> (f = None \<or> f = Some [])"
proof -
  note x = read_record_returns [OF assms(1)] and y = read_record_returns [OF assms(2)]
  obtain n state where r: "record_means r n state" "distinct (map fst (ir_semantic_fields x))"
    "set (ir_semantic_fields x) = {(''order_id'', n), (''state'', state)}"
    using interpret_means [OF _ assms(3)] x by blast
  obtain m other where s: "record_means s m other" "distinct (map fst (ir_semantic_fields y))"
    "set (ir_semantic_fields y) = {(''order_id'', m), (''state'', other)}"
    using interpret_means [OF _ assms(4)] y by blast
  have texts: "utf8 (canonical True (dict_payload (ir_semantic_fields x))) =
      utf8 (canonical True (dict_payload (ir_semantic_fields y))) \<longleftrightarrow> (n, state) = (m, other)"
    using canonical_binds [OF r(2) [THEN dict_payload_plain] s(2) [THEN dict_payload_plain]]
      dict_payload_normal [OF r(2) s(2)] r(3) s(3)
    by (auto simp: utf8_injective doubleton_eq_iff)
  have "ir_equivalence_fingerprint x \<noteq> ir_equivalence_fingerprint y"
    if "(n, state) \<noteq> (m, other)" "inj_on sha {utf8 (canonical True (dict_payload (ir_semantic_fields x))),
      utf8 (canonical True (dict_payload (ir_semantic_fields y)))}"
    using x y texts that inj_on_eq_iff [OF that(2)] by simp
  moreover have "ir_equivalence_fingerprint x = ir_equivalence_fingerprint y" if "(n, state) = (m, other)"
    using x y texts that by simp
  ultimately show ?thesis using x r(1,3) s(1) by blast
qed

section \<open>The checks of the candidates\<close>

definition reader_init :: "string \<Rightarrow> unit res" where
  "reader_init c = ensure (c \<in> set reader_candidates) ValueError"

definition sample_v1 :: historical_record where
  "sample_v1 =
     \<lparr>hr_tenant_id = ''tenant-a'', hr_contract_id = ''orders.created'', hr_message_id = ''msg-001'',
      hr_occurrence_id = ''occ-001'', hr_schema_version = 1, hr_reader_version = ''reader-v1'',
      hr_equivalence_profile = ''eq-v1'', hr_payload = [(''order'', ''42''), (''status_code'', ''P'')]\<rparr>"

definition sample_v2 :: historical_record where
  "sample_v2 =
     \<lparr>hr_tenant_id = ''tenant-a'', hr_contract_id = ''orders.created'', hr_message_id = ''msg-002'',
      hr_occurrence_id = ''occ-002'', hr_schema_version = 2, hr_reader_version = ''reader-v2'',
      hr_equivalence_profile = ''eq-v2-compat'', hr_payload = [(''order_id'', ''43''), (''state'', ''created'')]\<rparr>"

definition equivalent_v2 :: historical_record where
  "equivalent_v2 =
     sample_v2\<lparr>hr_message_id := ''msg-equivalent-v2'', hr_occurrence_id := ''occ-equivalent-v2'',
       hr_payload := [(''order_id'', ''42''), (''state'', ''paid'')]\<rparr>"

definition read_default :: "(nat list \<Rightarrow> string) \<Rightarrow> historical_record \<Rightarrow> interpreted_record res" where
  "read_default sha r = read_record sha r False None None"

definition read_refused :: "string \<Rightarrow> (nat list \<Rightarrow> string) \<Rightarrow> historical_record \<Rightarrow> bool res" where
  "read_refused code sha r = blockedR code (read_default sha r)"

definition check_reader_refusals :: "(nat list \<Rightarrow> string) \<Rightarrow> checks res" where
  "check_reader_refusals sha =
     bindR (blockedR ''upcaster_new_fact_fabrication_forbidden''
       (read_record sha sample_v1 False None (Some [(''settled_at'', ''future'')]))) (\<lambda>fabricated.
     bindR (read_refused ''historical_semantic_shape_untrusted'' sha
       (sample_v1\<lparr>hr_payload := hr_payload sample_v1 @ [(''new_fact'', ''x'')]\<rparr>)) (\<lambda>shape.
     bindR (read_refused ''historical_semantic_value_untrusted'' sha
       (sample_v1\<lparr>hr_payload := [(''order'', ''42''), (''status_code'', ''UNKNOWN'')]\<rparr>)) (\<lambda>state.
     bindR (read_refused ''unsupported_historical_schema_version'' sha
       (sample_v1\<lparr>hr_schema_version := 0, hr_reader_version := ''reader-v0''\<rparr>)) (\<lambda>unsupported.
     bindR (read_refused ''historical_equivalence_profile_unavailable'' sha
       (sample_v1\<lparr>hr_equivalence_profile := ''eq-unknown''\<rparr>)) (\<lambda>profile.
     bindR (read_refused ''historical_reader_version_unrecoverable'' sha
       (sample_v1\<lparr>hr_reader_version := ''reader-v2''\<rparr>)) (\<lambda>version.
     bindR (blockedR ''historical_reader_version_mismatch''
       (read_record sha sample_v1 False (Some ''reader-v2'') None)) (\<lambda>requested.
     bindR (blockedR ''dynamic_untrusted_execution_forbidden''
       (read_record sha sample_v1 True None None)) (\<lambda>dynamic.
     Inr [(''fabricated_new_fact_rejected'', fabricated), (''untrusted_shape_rejected'', shape),
       (''untrusted_value_rejected'', state), (''unsupported_history_fails_closed'', unsupported),
       (''missing_equivalence_profile_fails_closed'', profile), (''wrong_reader_version_rejected'', version),
       (''requested_reader_mismatch_rejected'', requested), (''dynamic_code_rejected'', dynamic)]))))))))"

definition check_reader_candidate :: "(nat list \<Rightarrow> string) \<Rightarrow> string \<Rightarrow> checks res" where
  "check_reader_candidate sha c =
     bindR (reader_init c) (\<lambda>_.
     bindR (read_default sha sample_v1) (\<lambda>v1.
     bindR (read_default sha sample_v2) (\<lambda>v2.
     bindR (read_default sha equivalent_v2) (\<lambda>remapped.
     bindR (check_reader_refusals sha) (\<lambda>refusals.
     Inr ([(''real_v1_representation_upcasted'',
            same_dict (hr_payload sample_v1) [(''order'', ''42''), (''status_code'', ''P'')] \<and>
            same_dict (ir_semantic_fields v1) [(''order_id'', ''42''), (''state'', ''paid'')]),
       (''semantic_fields_preserved'', same_dict (ir_semantic_fields v1) (ir_semantic_fields remapped)),
       (''source_schema_traceable'', ir_source_schema_version v1 = 1),
       (''identity_traceable'',
          ir_tenant_id v1 = hr_tenant_id sample_v1 \<and> ir_contract_id v1 = hr_contract_id sample_v1 \<and>
          ir_message_id v1 = hr_message_id sample_v1 \<and> ir_occurrence_id v1 = hr_occurrence_id sample_v1),
       (''v1_history_interpretable'', ir_reader_version v1 = ''reader-v1''),
       (''v2_history_interpretable'', ir_reader_version v2 = ''reader-v2''),
       (''equivalence_mapping_deterministic'',
          ir_equivalence_fingerprint v1 = ir_equivalence_fingerprint remapped \<and>
          ir_comparison_profile v1 = ir_comparison_profile remapped \<and>
          ir_comparison_profile remapped = ''eq-v2-compat''),
       (''reader_version_explicit'', ir_reader_version v1 = hr_reader_version sample_v1)] @ refusals))))))"

definition reader_proof_checks :: proof_checks where
  "reader_proof_checks =
     [(''historical_semantic_meaning_is_immutable'',
       [''real_v1_representation_upcasted'', ''semantic_fields_preserved'', ''untrusted_value_rejected'']),
      (''upcasting_cannot_fabricate_newer_historical_facts'',
       [''fabricated_new_fact_rejected'', ''untrusted_shape_rejected'']),
      (''source_message_identity_tenant_and_occurrence_semantics_remain_traceable'',
       [''identity_traceable'', ''source_schema_traceable'']),
      (''supported_retained_history_remains_interpretable'',
       [''v1_history_interpretable'', ''v2_history_interpretable'', ''unsupported_history_fails_closed'']),
      (''equivalence_evidence_and_comparison_profile_semantics_are_preserved_or_deterministically_mapped'',
       [''equivalence_mapping_deterministic'', ''missing_equivalence_profile_fails_closed'']),
      (''reader_or_upcaster_version_is_explicit_and_historically_recoverable'',
       [''reader_version_explicit'', ''wrong_reader_version_rejected'', ''requested_reader_mismatch_rejected'']),
      (''dynamic_untrusted_code_or_schema_execution_is_not_required_for_historical_read'',
       [''dynamic_code_rejected''])]"

lemmas reader_simps =
  read_default_def read_record_def readers_def profile_map_def interpret_record_def v1_states_def
  semantic_fingerprint_def canonical_semantics_def

lemma extra_key: "{''order'', ''status_code'', ''new_fact''} \<noteq> {''order'', ''status_code''}"
proof -
  have "x \<in> {a, b, x}" for a b x :: string by simp
  moreover have "''new_fact'' \<notin> {''order'', ''status_code''}" by simp
  ultimately show ?thesis by metis
qed

lemma sample_reads:
  "read_default sha sample_v1 = Inr
     \<lparr>ir_tenant_id = ''tenant-a'', ir_contract_id = ''orders.created'', ir_message_id = ''msg-001'',
      ir_occurrence_id = ''occ-001'', ir_source_schema_version = 1, ir_reader_version = ''reader-v1'',
      ir_comparison_profile = ''eq-v2-compat'', ir_semantic_fields = [(''order_id'', ''42''), (''state'', ''paid'')],
      ir_equivalence_fingerprint = sha (utf8 (canonical True (dict_payload [(''order_id'', ''42''), (''state'', ''paid'')])))\<rparr>"
  "read_default sha sample_v2 = Inr
     \<lparr>ir_tenant_id = ''tenant-a'', ir_contract_id = ''orders.created'', ir_message_id = ''msg-002'',
      ir_occurrence_id = ''occ-002'', ir_source_schema_version = 2, ir_reader_version = ''reader-v2'',
      ir_comparison_profile = ''eq-v2-compat'', ir_semantic_fields = [(''order_id'', ''43''), (''state'', ''created'')],
      ir_equivalence_fingerprint = sha (utf8 (canonical True (dict_payload [(''order_id'', ''43''), (''state'', ''created'')])))\<rparr>"
  "read_default sha equivalent_v2 = Inr
     \<lparr>ir_tenant_id = ''tenant-a'', ir_contract_id = ''orders.created'', ir_message_id = ''msg-equivalent-v2'',
      ir_occurrence_id = ''occ-equivalent-v2'', ir_source_schema_version = 2, ir_reader_version = ''reader-v2'',
      ir_comparison_profile = ''eq-v2-compat'', ir_semantic_fields = [(''order_id'', ''42''), (''state'', ''paid'')],
      ir_equivalence_fingerprint = sha (utf8 (canonical True (dict_payload [(''order_id'', ''42''), (''state'', ''paid'')])))\<rparr>"
  by (simp_all add: reader_simps sample_v1_def sample_v2_def equivalent_v2_def)

lemma check_reader_refusals_hold:
  "check_reader_refusals sha = Inr (passed [''fabricated_new_fact_rejected'', ''untrusted_shape_rejected'',
     ''untrusted_value_rejected'', ''unsupported_history_fails_closed'',
     ''missing_equivalence_profile_fails_closed'', ''wrong_reader_version_rejected'',
     ''requested_reader_mismatch_rejected'', ''dynamic_code_rejected''])"
  by (simp add: check_reader_refusals_def read_refused_def reader_simps extra_key sample_v1_def passed_def)

lemma reader_candidates_pass:
  assumes "c \<in> set reader_candidates"
  shows "map_sum id (verdict reader_proof_checks) (check_reader_candidate sha c) = Inr eligible"
proof -
  have "check_reader_candidate sha c = Inr (passed
    ([''real_v1_representation_upcasted'', ''semantic_fields_preserved'', ''source_schema_traceable'',
      ''identity_traceable'', ''v1_history_interpretable'', ''v2_history_interpretable'',
      ''equivalence_mapping_deterministic'', ''reader_version_explicit''] @
     [''fabricated_new_fact_rejected'', ''untrusted_shape_rejected'',
      ''untrusted_value_rejected'', ''unsupported_history_fails_closed'',
      ''missing_equivalence_profile_fails_closed'', ''wrong_reader_version_rejected'',
      ''requested_reader_mismatch_rejected'', ''dynamic_code_rejected'']))"
    using assms
    by (simp add: check_reader_candidate_def reader_init_def sample_reads check_reader_refusals_hold same_dict_def
        passed_def) (simp add: sample_v1_def)
  then show ?thesis by (simp add: verdict_passed reader_proof_checks_def)
qed

text \<open>
  A record of each version with one meaning, and one of another meaning: the first two have one
  fingerprint and the third another.
\<close>

theorem fingerprint_is_meaning_witness:
  "\<exists>x y z. read_default (map char_of) sample_v1 = Inr x \<and> read_default (map char_of) equivalent_v2 = Inr y \<and>
     read_default (map char_of) sample_v2 = Inr z \<and>
     record_means sample_v1 ''42'' ''paid'' \<and> record_means equivalent_v2 ''42'' ''paid'' \<and>
     record_means sample_v2 ''43'' ''created'' \<and>
     ir_equivalence_fingerprint x = ir_equivalence_fingerprint y \<and>
     ir_equivalence_fingerprint x \<noteq> ir_equivalence_fingerprint z"
proof -
  let ?sha = "map char_of :: nat list \<Rightarrow> string"
  obtain x where x: "read_default ?sha sample_v1 = Inr x"
    "ir_semantic_fields x = [(''order_id'', ''42''), (''state'', ''paid'')]" using sample_reads(1) [of ?sha] by simp
  obtain y where y: "read_default ?sha equivalent_v2 = Inr y" using sample_reads(3) [of ?sha] by simp
  obtain z where z: "read_default ?sha sample_v2 = Inr z"
    "ir_semantic_fields z = [(''order_id'', ''43''), (''state'', ''created'')]" using sample_reads(2) [of ?sha] by simp
  have formed: "well_formed sample_v1" "well_formed equivalent_v2" "well_formed sample_v2"
    by (simp_all add: well_formed_def sample_v1_def sample_v2_def equivalent_v2_def)
  have means: "record_means sample_v1 n t \<longleftrightarrow> n = ''42'' \<and> t = ''paid''"
    "record_means equivalent_v2 n t \<longleftrightarrow> n = ''42'' \<and> t = ''paid''"
    "record_means sample_v2 n t \<longleftrightarrow> n = ''43'' \<and> t = ''created''" for n t
    by (auto simp: record_means_def sample_v1_def sample_v2_def equivalent_v2_def)
  have inj: "inj_on ?sha {utf8 (canonical True (dict_payload (ir_semantic_fields x))),
      utf8 (canonical True (dict_payload (ir_semantic_fields z)))}"
  proof -
    have "?sha (utf8 (canonical True (dict_payload [(''order_id'', ''42''), (''state'', ''paid'')]))) \<noteq>
        ?sha (utf8 (canonical True (dict_payload [(''order_id'', ''43''), (''state'', ''created'')])))"
      by code_simp
    then show ?thesis unfolding x(2) z(2) inj_on_def by (simp del: list.map_ident)
  qed
  have "ir_equivalence_fingerprint x = ir_equivalence_fingerprint y"
    using fingerprint_is_meaning [OF x(1) [unfolded read_default_def] y [unfolded read_default_def] formed(1,2)]
    unfolding means by auto
  moreover have "ir_equivalence_fingerprint x \<noteq> ir_equivalence_fingerprint z"
    using fingerprint_is_meaning [OF x(1) [unfolded read_default_def] z(1) [unfolded read_default_def] formed(1,3)] inj
    unfolding means by auto
  ultimately show ?thesis using x(1) y z(1) by (auto simp: means)
qed

end
