(* ===== verification/Contract_Versions.thy ===== *)
theory Contract_Versions
  imports Reference_Prelude "HOL-Library.Word"
begin

text \<open>
  src/tools/assurance/d4b_contract_version/evaluate_candidates.py: the three families of contract
  versions, the issuer of opaque tokens, and the checks of the families. The masked affine map of the
  issuer is arithmetic on 64-bit words.
\<close>

section \<open>Families of versions\<close>

datatype family = PositiveInteger | SemanticVersion | OpaqueToken

record parsed_version =
  pv_candidate :: family
  pv_canonical :: string

record version_evidence =
  ve_candidate :: family
  ve_original_bytes :: "nat list"

text \<open>\<open>[1-9][0-9]{0,9}\Z\<close>\<close>

definition leading_digit :: "char \<Rightarrow> bool" where
  "leading_digit c \<longleftrightarrow> code_in 49 57 c"

definition is_revision :: "nat \<Rightarrow> string \<Rightarrow> bool" where
  "is_revision n s \<longleftrightarrow> head_tail_ok leading_digit is_digit s \<and> length s \<le> Suc n"

text \<open>\<open>(?:0|[1-9][0-9]{0,5})\<close>, three times with dots between\<close>

definition is_semver :: "string \<Rightarrow> bool" where
  "is_semver s =
     (let ws = split_on (CHR ''.'') s
      in length ws = 3 \<and> list_all (\<lambda>w. w = ''0'' \<or> is_revision 5 w) ws)"

text \<open>\<open>cv_[A-Z2-7]{8,24}\Z\<close>\<close>

definition token_char :: "char \<Rightarrow> bool" where
  "token_char c \<longleftrightarrow> is_upper c \<or> code_in 50 55 c"

definition is_opaque :: "string \<Rightarrow> bool" where
  "is_opaque s \<longleftrightarrow>
     take 3 s = ''cv_'' \<and> list_all token_char (drop 3 s) \<and> 8 \<le> length (drop 3 s) \<and> length (drop 3 s) \<le> 24"

definition version_ok :: "family \<Rightarrow> string \<Rightarrow> bool" where
  "version_ok a s =
     (case a of PositiveInteger \<Rightarrow> is_revision 9 s | SemanticVersion \<Rightarrow> is_semver s | OpaqueToken \<Rightarrow> is_opaque s)"

definition parse_version :: "family \<Rightarrow> string \<Rightarrow> parsed_version res" where
  "parse_version a s =
     bindR (ensure (version_ok a s) ValueError) (\<lambda>_. Inr \<lparr>pv_candidate = a, pv_canonical = s\<rparr>)"

definition equal_versions :: "family \<Rightarrow> string \<Rightarrow> string \<Rightarrow> bool res" where
  "equal_versions a l r =
     bindR (parse_version a l) (\<lambda>x. bindR (parse_version a r) (\<lambda>y. Inr (pv_canonical x = pv_canonical y)))"

definition compare_order :: "family \<Rightarrow> string \<Rightarrow> string \<Rightarrow> int res" where
  "compare_order a l r = Inl ValueError"

definition authority_projection :: "family \<Rightarrow> string \<Rightarrow> (string, string) dict res" where
  "authority_projection a s = bindR (parse_version a s) (\<lambda>p. Inr [(''contract_version'', pv_canonical p)])"

text \<open>\<open>str.encode("ascii")\<close> and \<open>bytes.decode("ascii", errors="strict")\<close>\<close>

definition encode_ascii :: "string \<Rightarrow> nat list res" where
  "encode_ascii s = (if list_all (\<lambda>c. (of_char c :: nat) < 128) s then Inr (map of_char s) else Inl ValueError)"

definition decode_ascii :: "nat list \<Rightarrow> string res" where
  "decode_ascii bs = (if list_all (\<lambda>b. b < 128) bs then Inr (map char_of bs) else Inl ValueError)"

definition retain_historical :: "family \<Rightarrow> string \<Rightarrow> version_evidence res" where
  "retain_historical a s =
     bindR (parse_version a s) (\<lambda>p.
     bindR (encode_ascii (pv_canonical p)) (\<lambda>bs.
     Inr \<lparr>ve_candidate = a, ve_original_bytes = bs\<rparr>))"

definition restore_historical :: "family \<Rightarrow> version_evidence \<Rightarrow> parsed_version res" where
  "restore_historical a e =
     bindR (ensure (ve_candidate e = a) ValueError) (\<lambda>_.
     bindR (decode_ascii (ve_original_bytes e)) (\<lambda>raw.
     bindR (parse_version a raw) (\<lambda>p.
     bindR (encode_ascii (pv_canonical p)) (\<lambda>bs.
     bindR (ensure (bs = ve_original_bytes e) ValueError) (\<lambda>_. Inr p)))))"

section \<open>The issuer of opaque tokens\<close>

text \<open>\<open>base64.b32encode\<close>: groups of five bytes give eight characters, a last group is padded.\<close>

definition b32_char :: "nat \<Rightarrow> char" where
  "b32_char n = char_of (if n < 26 then 65 + n else 24 + n)"

fun base32 :: "nat \<Rightarrow> nat \<Rightarrow> nat list" where
  "base32 0 q = []"
| "base32 (Suc k) q = base32 k (q div 32) @ [q mod 32]"

fun b32_groups :: "nat list \<Rightarrow> string" where
  "b32_groups (a # b # c # d # e # bs) =
     map b32_char (base32 8 (foldl (\<lambda>n x. 256 * n + x) 0 [a, b, c, d, e])) @ b32_groups bs"
| "b32_groups _ = []"

definition b32_padding :: "nat \<Rightarrow> nat" where
  "b32_padding leftover =
     (if leftover = 1 then 6 else if leftover = 2 then 4 else if leftover = 3 then 3
      else if leftover = 4 then 1 else 0)"

definition b32encode :: "nat list \<Rightarrow> string" where
  "b32encode bs =
     (let leftover = length bs mod 5;
          text = b32_groups (bs @ replicate ((5 - leftover) mod 5) 0);
          pad = b32_padding leftover
      in take (length text - pad) text @ replicate pad (CHR ''=''))"

text \<open>\<open>str.rstrip("=")\<close>\<close>

definition rstrip_equals :: "string \<Rightarrow> string" where
  "rstrip_equals s = rev (dropWhile (\<lambda>c. c = CHR ''='') (rev s))"

definition big_endian8 :: "64 word \<Rightarrow> nat list" where
  "big_endian8 w = map (\<lambda>i. unat w div 256 ^ (7 - i) mod 256) [0..<8]"

definition permute_multiplier :: "64 word" where "permute_multiplier = 0x9E3779B185EBCA87"
definition permute_offset :: "64 word" where "permute_offset = 0xD4B0C0DE5A17E11D"
definition max_issuance :: int where "max_issuance = 2 ^ 64 - 1"

definition permuted :: "int \<Rightarrow> 64 word" where
  "permuted n = word_of_int n * permute_multiplier + permute_offset"

definition opaque_fixture_body :: "int \<Rightarrow> string" where
  "opaque_fixture_body n = rstrip_equals (b32encode (big_endian8 (permuted n)))"

text \<open>The state is \<open>_last_sequence\<close>.\<close>

definition issue_token :: "int \<Rightarrow> (int, string) op" where
  "issue_token n =
     thenS (ensureS (0 < n \<and> n \<le> max_issuance) ValueError)
    (bindS (getS id) (\<lambda>last.
     thenS (ensureS (last < n) ValueError)
    (thenS (modifyS (\<lambda>_. n))
    (returnS (''cv_'' @ opaque_fixture_body n)))))"

section \<open>The map of the issuer\<close>

lemma permute_inverse: "permute_multiplier * (614540362697595703 :: 64 word) = 1"
  by (simp add: permute_multiplier_def)

lemma permuted_inj:
  assumes "0 \<le> m" "m \<le> max_issuance" "0 \<le> n" "n \<le> max_issuance" "permuted m = permuted n"
  shows "m = n"
proof -
  have "word_of_int m * permute_multiplier * 614540362697595703 =
    (word_of_int n * permute_multiplier * 614540362697595703 :: 64 word)"
    using assms(5) by (simp add: permuted_def)
  then have "(word_of_int m :: 64 word) = word_of_int n"
    by (simp only: mult.assoc permute_inverse mult_1_right)
  then have "uint (word_of_int m :: 64 word) = uint (word_of_int n :: 64 word)" by simp
  then show ?thesis using assms by (simp add: uint_word_of_int max_issuance_def)
qed

lemma base32_length [simp]: "length (base32 k q) = k"
  by (induction k arbitrary: q) simp_all

lemma base32_add: "base32 (k + j) q = base32 k (q div 32 ^ j) @ base32 j q"
  by (induction j arbitrary: q) (simp_all add: div_mult2_eq)

lemma base32_inj: "base32 k q = base32 k r \<Longrightarrow> q < 32 ^ k \<Longrightarrow> r < 32 ^ k \<Longrightarrow> q = r"
proof (induction k arbitrary: q r)
  case (Suc k)
  have "q div 32 = r div 32" using Suc.IH [of "q div 32" "r div 32"] Suc.prems by (simp add: less_mult_imp_div_less)
  moreover have "q mod 32 = r mod 32" using Suc.prems(1) by simp
  ultimately show ?case by (metis div_mult_mod_eq)
qed simp

lemma base32_bound: "x \<in> set (base32 k q) \<Longrightarrow> x < 32"
  by (induction k arbitrary: q) auto

lemma b32_char_inj: "x < 32 \<Longrightarrow> y < 32 \<Longrightarrow> b32_char x = b32_char y \<longleftrightarrow> x = y"
  by (auto simp: b32_char_def split: if_splits dest!: arg_cong [where f = "of_char :: char \<Rightarrow> nat"])

lemma b32_char_token: "x < 32 \<Longrightarrow> token_char (b32_char x) \<and> b32_char x \<noteq> CHR ''=''"
  by (auto simp: b32_char_def token_char_def is_upper_def code_in_def
      dest!: arg_cong [where f = "of_char :: char \<Rightarrow> nat"])

text \<open>The bytes of a number, most significant first.\<close>

fun bytes_of :: "nat \<Rightarrow> nat \<Rightarrow> nat list" where
  "bytes_of 0 v = []"
| "bytes_of (Suc k) v = bytes_of k (v div 256) @ [v mod 256]"

definition from_bytes :: "nat list \<Rightarrow> nat" where
  "from_bytes = foldl (\<lambda>n x. 256 * n + x) 0"

lemma bytes_of_length [simp]: "length (bytes_of k v) = k"
  by (induction k arbitrary: v) simp_all

lemma bytes_of_add: "bytes_of (k + j) v = bytes_of k (v div 256 ^ j) @ bytes_of j v"
  by (induction j arbitrary: v) (simp_all add: div_mult2_eq)

lemma from_bytes_snoc: "from_bytes (xs @ [x]) = 256 * from_bytes xs + x"
  by (simp add: from_bytes_def)

lemma from_bytes_of: "from_bytes (bytes_of k v) = v mod 256 ^ k"
proof (induction k arbitrary: v)
  case 0
  then show ?case by (simp add: from_bytes_def)
next
  case (Suc k)
  have "v mod (256 * 256 ^ k) = 256 * (v div 256 mod 256 ^ k) + v mod 256" by (rule mod_mult2_eq)
  then show ?case by (simp add: Suc.IH from_bytes_snoc)
qed

lemma bytes_of_map: "bytes_of k v = map (\<lambda>i. v div 256 ^ (k - 1 - i) mod 256) [0..<k]"
proof (induction k arbitrary: v)
  case (Suc k)
  have "v div 256 div 256 ^ (k - 1 - i) mod 256 = v div 256 ^ (k - i) mod 256" if "i < k" for i
  proof -
    have "k - i = Suc (k - 1 - i)" using that by simp
    then show ?thesis by (simp add: div_mult2_eq)
  qed
  then show ?case by (simp add: Suc.IH)
qed simp

lemma big_endian8_bytes: "big_endian8 w = bytes_of 8 (unat w)"
  using bytes_of_map [of 8 "unat w"] by (simp add: big_endian8_def)

lemma b32_groups_five:
  "length xs = 5 \<Longrightarrow> b32_groups (xs @ ys) = map b32_char (base32 8 (from_bytes xs)) @ b32_groups ys"
proof -
  assume "length xs = 5"
  then obtain a b c d e where "xs = [a, b, c, d, e]" by (auto simp: length_Suc_conv eval_nat_numeral)
  then show ?thesis by (simp add: from_bytes_def)
qed

lemma b32encode_eight:
  assumes "v < 2 ^ 64"
  shows "b32encode (bytes_of 8 v) =
    map b32_char (base32 8 (v div 2 ^ 24) @ base32 5 (v mod 2 ^ 24 * 2)) @ ''===''"
proof -
  have parts: "bytes_of 8 v = bytes_of 5 (v div 256 ^ 3) @ bytes_of 3 v"
    using bytes_of_add [of 5 3 v] by simp
  have "v div 256 ^ 3 < 256 ^ 5" using assms by (simp add: less_mult_imp_div_less)
  then have first: "from_bytes (bytes_of 5 (v div 256 ^ 3)) = v div 2 ^ 24" by (simp add: from_bytes_of)
  have last: "from_bytes (bytes_of 3 v @ [0, 0]) = v mod 2 ^ 24 * 2 ^ 16"
    using from_bytes_snoc [of "bytes_of 3 v @ [0]" 0] from_bytes_snoc [of "bytes_of 3 v" 0]
    by (simp add: from_bytes_of)
  have "b32_groups (bytes_of 8 v @ [0, 0]) =
    map b32_char (base32 8 (v div 2 ^ 24)) @ map b32_char (base32 8 (v mod 2 ^ 24 * 2 ^ 16))"
    unfolding parts append_assoc
    using b32_groups_five [of "bytes_of 5 (v div 256 ^ 3)" "bytes_of 3 v @ [0, 0]"]
      b32_groups_five [of "bytes_of 3 v @ [0, 0]" "[]"] first last by simp
  moreover have "base32 8 (v mod 2 ^ 24 * 2 ^ 16) = base32 5 (v mod 2 ^ 24 * 2) @ base32 3 (v mod 2 ^ 24 * 2 ^ 16)"
    using base32_add [of 5 3 "v mod 2 ^ 24 * 2 ^ 16"] by (simp add: mult.commute)
  moreover have "replicate 2 (0 :: nat) = [0, 0]" "replicate 3 (CHR ''='') = ''===''"
    by (simp_all add: numeral_2_eq_2 numeral_3_eq_3)
  ultimately show ?thesis by (simp add: b32encode_def b32_padding_def Let_def)
qed

lemma rstrip_padding: "list_all (\<lambda>c. c \<noteq> CHR ''='') s \<Longrightarrow> s \<noteq> [] \<Longrightarrow> rstrip_equals (s @ ''==='') = s"
  by (cases s rule: rev_cases) (simp_all add: rstrip_equals_def)

lemma unat64: "unat (w :: 64 word) < 2 ^ 64"
  by transfer (simp add: nat_less_iff take_bit_eq_mod)

definition body_digits :: "int \<Rightarrow> nat list" where
  "body_digits n = base32 8 (unat (permuted n) div 2 ^ 24) @ base32 5 (unat (permuted n) mod 2 ^ 24 * 2)"

lemma body_digits_length [simp]: "length (body_digits n) = 13"
  by (simp add: body_digits_def)

lemma body_digits_bound: "x \<in> set (body_digits n) \<Longrightarrow> x < 32"
  by (auto simp: body_digits_def dest: base32_bound)

lemma opaque_body: "opaque_fixture_body n = map b32_char (body_digits n)"
proof -
  have "unat (permuted n) < 2 ^ 64" by (rule unat64)
  then have "b32encode (big_endian8 (permuted n)) = map b32_char (body_digits n) @ ''===''"
    by (simp only: big_endian8_bytes b32encode_eight body_digits_def)
  moreover have "list_all (\<lambda>c. c \<noteq> CHR ''='') (map b32_char (body_digits n))"
    using body_digits_bound b32_char_token by (auto simp: list_all_iff)
  moreover have "map b32_char (body_digits n) \<noteq> []" by (simp flip: length_greater_0_conv)
  ultimately show ?thesis by (simp add: opaque_fixture_body_def rstrip_padding)
qed

lemma opaque_body_ok: "is_opaque (''cv_'' @ opaque_fixture_body n) \<and> length (opaque_fixture_body n) = 13"
  using body_digits_bound b32_char_token
  by (auto simp: is_opaque_def opaque_body list_all_iff)

lemma opaque_body_inj:
  assumes "0 \<le> m" "m \<le> max_issuance" "0 \<le> n" "n \<le> max_issuance"
    and "opaque_fixture_body m = opaque_fixture_body n"
  shows "m = n"
proof -
  let ?v = "unat (permuted m)" and ?w = "unat (permuted n)"
  have "map b32_char (body_digits m) = map b32_char (body_digits n)" using assms(5) by (simp add: opaque_body)
  moreover have "inj_on b32_char (set (body_digits m) \<union> set (body_digits n))"
    using body_digits_bound b32_char_inj by (auto simp: inj_on_def)
  ultimately have "body_digits m = body_digits n" using map_inj_on by blast
  then have digits: "base32 8 (?v div 2 ^ 24) = base32 8 (?w div 2 ^ 24)"
    "base32 5 (?v mod 2 ^ 24 * 2) = base32 5 (?w mod 2 ^ 24 * 2)"
    by (simp_all add: body_digits_def)
  have "?v < 2 ^ 64" "?w < 2 ^ 64" by (rule unat64)+
  then have "?v div 2 ^ 24 < 32 ^ 8" "?w div 2 ^ 24 < 32 ^ 8" by (simp_all add: less_mult_imp_div_less)
  then have high: "?v div 2 ^ 24 = ?w div 2 ^ 24" by (rule base32_inj [OF digits(1)])
  have "?v mod 2 ^ 24 < 2 ^ 24" "?w mod 2 ^ 24 < 2 ^ 24" by simp_all
  then have "?v mod 2 ^ 24 * 2 < 32 ^ 5" "?w mod 2 ^ 24 * 2 < 32 ^ 5" by simp_all
  then have "?v mod 2 ^ 24 * 2 = ?w mod 2 ^ 24 * 2" by (rule base32_inj [OF digits(2)])
  then have "?v mod 2 ^ 24 = ?w mod 2 ^ 24" by simp
  with high have "?v = ?w" by (metis div_mult_mod_eq)
  then show ?thesis using permuted_inj assms by (simp add: word_unat_eq_iff)
qed

section \<open>Runs of the issuer\<close>

inductive issuer_step :: "int \<Rightarrow> int \<Rightarrow> bool" where
  is_issue: "issue_token n s = (r, t) \<Longrightarrow> issuer_step s t"

lemma issue_token_returns_iff:
  "issue_token n s = (Inr x, t) \<longleftrightarrow>
     0 < n \<and> n \<le> max_issuance \<and> s < n \<and> t = n \<and> x = ''cv_'' @ opaque_fixture_body n"
  by (auto simp: issue_token_def ensure_def)

lemma issuer_step_mono: "issuer_step s t \<Longrightarrow> s \<le> t"
  by (auto simp: issue_token_def ensure_def elim!: issuer_step.cases split: if_splits)

lemma issuer_run_mono: "issuer_step\<^sup>*\<^sup>* s t \<Longrightarrow> s \<le> t"
  by (induction rule: rtranclp_induct) (auto dest: issuer_step_mono)

text \<open>C25: tokens are unique and opaque. Whatever sequence numbers are asked for in between, a token
  issued later differs from one issued before, by a number that is larger and at most
  \<open>2 ^ 64 - 1\<close>; both have the canonical form of the family and thirteen characters after the
  prefix. A number that is not above the last one, not positive or too large is refused with
  \<open>ValueError\<close> and issues nothing.\<close>

theorem tokens_unique:
  assumes "issue_token m s = (Inr x, t)" "issuer_step\<^sup>*\<^sup>* t u" "issue_token n u = (Inr y, w)"
  shows "x \<noteq> y \<and> m < n \<and> n \<le> max_issuance \<and> length y = 16 \<and>
    parse_version OpaqueToken x = Inr \<lparr>pv_candidate = OpaqueToken, pv_canonical = x\<rparr> \<and>
    parse_version OpaqueToken y = Inr \<lparr>pv_candidate = OpaqueToken, pv_canonical = y\<rparr> \<and>
    (k \<le> w \<or> max_issuance < k \<longrightarrow> issue_token k w = (Inl ValueError, w))"
proof -
  have first: "0 < m" "m \<le> max_issuance" "t = m" "x = ''cv_'' @ opaque_fixture_body m"
    and second: "0 < n" "n \<le> max_issuance" "u < n" "w = n" "y = ''cv_'' @ opaque_fixture_body n"
    using assms(1,3) by (simp_all add: issue_token_returns_iff)
  have "m < n" using issuer_run_mono [OF assms(2)] first second by simp
  moreover from this have "x \<noteq> y" using opaque_body_inj [of m n] first second by auto
  moreover have "parse_version OpaqueToken (''cv_'' @ opaque_fixture_body i) =
      Inr \<lparr>pv_candidate = OpaqueToken, pv_canonical = ''cv_'' @ opaque_fixture_body i\<rparr>" for i
    using opaque_body_ok [of i] by (simp add: parse_version_def version_ok_def)
  moreover have "length y = 16" using opaque_body_ok [of n] second by simp
  moreover have "issue_token k w = (Inl ValueError, w)" if "k \<le> w \<or> max_issuance < k"
    using that by (auto simp: issue_token_def ensure_def)
  ultimately show ?thesis using first second by blast
qed

section \<open>Historical versions\<close>

lemma version_ascii: "version_ok a s \<Longrightarrow> list_all (\<lambda>c. (of_char c :: nat) < 128) s"
proof (cases a)
  case PositiveInteger
  then show "version_ok a s \<Longrightarrow> ?thesis"
    by (cases s) (auto simp: version_ok_def is_revision_def leading_digit_def char_class_defs list_all_iff)
next
  case SemanticVersion
  have split: "set s \<subseteq> insert d (\<Union>(set ` set (split_on d s)))" for d s
    by (induction d s rule: split_on.induct) (auto split: list.splits if_splits, blast?)
  have small: "(of_char c :: nat) < 128" if "w = ''0'' \<or> is_revision 5 w" "c \<in> set w" for w c
    using that by (cases w) (auto simp: is_revision_def leading_digit_def char_class_defs list_all_iff)
  show "?thesis" if "version_ok a s"
  proof -
    have parts: "w = ''0'' \<or> is_revision 5 w" if "w \<in> set (split_on (CHR ''.'') s)" for w
      using that \<open>version_ok a s\<close> SemanticVersion by (simp add: version_ok_def is_semver_def Let_def list_all_iff)
    have "(of_char c :: nat) < 128" if "c \<in> set s" for c
    proof -
      have "c \<in> insert (CHR ''.'') (\<Union>(set ` set (split_on (CHR ''.'') s)))"
        using split [of s "CHR ''.''"] that by (rule subsetD)
      then show ?thesis
      proof
        assume "c = CHR ''.''"
        then show ?thesis by simp
      next
        assume "c \<in> \<Union>(set ` set (split_on (CHR ''.'') s))"
        then obtain w where "w \<in> set (split_on (CHR ''.'') s)" "c \<in> set w" by blast
        then show ?thesis using small [OF parts] by blast
      qed
    qed
    then show ?thesis by (simp add: list_all_iff)
  qed
next
  case OpaqueToken
  show "?thesis" if "version_ok a s"
  proof -
    have s: "s = ''cv_'' @ drop 3 s" and rest: "list_all token_char (drop 3 s)"
      using that OpaqueToken append_take_drop_id [of 3 s] by (simp_all add: version_ok_def is_opaque_def)
    have "list_all (\<lambda>c. (of_char c :: nat) < 128) (drop 3 s)"
      using rest by (auto simp: token_char_def char_class_defs list_all_iff)
    then have "list_all (\<lambda>c. (of_char c :: nat) < 128) (''cv_'' @ drop 3 s)" by simp
    then show ?thesis by (simp only: s [symmetric])
  qed
qed

lemma char_of_of_char_map: "map (char_of \<circ> (of_char :: char \<Rightarrow> nat)) s = s"
  by (induction s) simp_all

lemma versions_kept:
  assumes "parse_version a s = Inr p"
  shows "bindR (retain_historical a s) (restore_historical a) = Inr p \<and>
    (b \<noteq> a \<longrightarrow> bindR (retain_historical a s) (restore_historical b) = Inl ValueError) \<and>
    (parse_version a r = Inr q \<longrightarrow> equal_versions a s r = Inr (s = r)) \<and>
    compare_order a s r = Inl ValueError \<and> pv_canonical p = s"
proof -
  have ok: "version_ok a s" "p = \<lparr>pv_candidate = a, pv_canonical = s\<rparr>"
    using assms by (auto simp: parse_version_def bindR_Inr_iff ensure_Inr_iff)
  have kept: "encode_ascii s = Inr (map of_char s)" using version_ascii [OF ok(1)] by (simp add: encode_ascii_def)
  have retained: "retain_historical a s = Inr \<lparr>ve_candidate = a, ve_original_bytes = map of_char s\<rparr>"
    using assms ok(2) kept by (simp add: retain_historical_def)
  have "decode_ascii (map of_char s) = Inr s"
    using version_ascii [OF ok(1)] char_of_of_char_map [of s] by (simp add: decode_ascii_def list_all_iff)
  then have "restore_historical a \<lparr>ve_candidate = a, ve_original_bytes = map of_char s\<rparr> = Inr p"
    using assms ok(2) kept by (simp add: restore_historical_def)
  moreover have "restore_historical b \<lparr>ve_candidate = a, ve_original_bytes = map of_char s\<rparr> = Inl ValueError"
    if "b \<noteq> a" using that by (simp add: restore_historical_def ensure_def)
  moreover have "equal_versions a s r = Inr (s = r)" if "parse_version a r = Inr q"
    using that assms by (auto simp: equal_versions_def parse_version_def bindR_Inr_iff ensure_Inr_iff)
  ultimately show ?thesis using ok(2) by (simp add: retained compare_order_def)
qed

text \<open>A version that is kept can be read back as it was. The bytes kept of a version that its
  family accepts give that version again under the same family and are refused with
  \<open>ValueError\<close> by every other family; two versions of a family are equal exactly when
  their texts are, and no family orders them.\<close>

theorem versions_restored:
  assumes "parse_version a s = Inr p"
  shows "bindR (retain_historical a s) (restore_historical a) = Inr p \<and>
    (b \<noteq> a \<longrightarrow> bindR (retain_historical a s) (restore_historical b) = Inl ValueError) \<and>
    (parse_version a r = Inr q \<longrightarrow> equal_versions a s r = Inr (s = r)) \<and>
    compare_order a s r = Inl ValueError \<and> pv_canonical p = s"
  by (rule versions_kept [OF assms])

section \<open>The checks of the families\<close>

definition assert_rejected :: "family \<Rightarrow> string list \<Rightarrow> unit res" where
  "assert_rejected a vectors = ensure (list_all (\<lambda>s. parse_version a s = Inl ValueError) vectors) AssertionError"

definition assert_ordering_absent :: "family \<Rightarrow> string \<Rightarrow> string \<Rightarrow> unit res" where
  "assert_ordering_absent a l r =
     (case compare_order a l r of Inl _ \<Rightarrow> Inr () | Inr _ \<Rightarrow> Inl AssertionError)"

definition assert_no_authority_fields :: "family \<Rightarrow> string \<Rightarrow> unit res" where
  "assert_no_authority_fields a s =
     bindR (authority_projection a s) (\<lambda>d. ensure (set (map fst d) = {''contract_version''}) AssertionError)"

definition breaking_change :: "family \<Rightarrow> string \<Rightarrow> string \<Rightarrow> unit res" where
  "breaking_change a old new =
     bindR (parse_version a old) (\<lambda>x. bindR (parse_version a new) (\<lambda>y.
     ensure (pv_canonical x \<noteq> pv_canonical y) ValueError))"

text \<open>\<open>try: ... except ValueError: pass else: raise AssertionError\<close>\<close>

definition must_fail :: "'a res \<Rightarrow> unit res" where
  "must_fail r = (case r of Inl ValueError \<Rightarrow> Inr () | Inl e \<Rightarrow> Inl e | Inr _ \<Rightarrow> Inl AssertionError)"

definition assert_historical_continuity :: "family \<Rightarrow> string \<Rightarrow> family \<Rightarrow> unit res" where
  "assert_historical_continuity a raw other =
     bindR (retain_historical a raw) (\<lambda>e.
     bindR (restore_historical a e) (\<lambda>p.
     bindR (encode_ascii raw) (\<lambda>bs.
     bindR (ensure (pv_canonical p = raw \<and> ve_original_bytes e = bs) AssertionError) (\<lambda>_.
     must_fail (restore_historical other e)))))"

definition prove_opaque_monotonic_issuance :: "(string \<times> string) res" where
  "prove_opaque_monotonic_issuance =
     run_from 0
      (bindS (issue_token 1) (\<lambda>first.
       bindS (issue_token 2) (\<lambda>second.
       bindS (liftS (parse_version OpaqueToken first)) (\<lambda>_.
       bindS (liftS (parse_version OpaqueToken second)) (\<lambda>_.
       thenS (ensureS (first \<noteq> second) AssertionError)
      (thenS (ensureS (opaque_fixture_body 1 \<noteq> opaque_fixture_body 2) AssertionError)
      (bindS (expects ValueError (issue_token 2)) (\<lambda>r2.
       bindS (expects ValueError (issue_token 1)) (\<lambda>r1.
       bindS (expects ValueError (issue_token 0)) (\<lambda>r0.
       bindS (expects ValueError (issue_token (- 1))) (\<lambda>neg.
       bindS (expects ValueError (issue_token (max_issuance + 1))) (\<lambda>big.
       thenS (ensureS (r2 \<and> r1 \<and> r0 \<and> neg \<and> big) AssertionError)
      (thenS (liftS (assert_ordering_absent OpaqueToken first second))
      (returnS (first, second)))))))))))))))"

definition check_family :: "family \<Rightarrow> string \<Rightarrow> string \<Rightarrow> family \<Rightarrow> unit res" where
  "check_family a x y other =
     bindR (assert_ordering_absent a x y) (\<lambda>_.
     bindR (assert_no_authority_fields a x) (\<lambda>_.
     bindR (must_fail (breaking_change a x x)) (\<lambda>_.
     bindR (breaking_change a x y) (\<lambda>_.
     assert_historical_continuity a x other))))"

definition evaluate_versions :: "(family \<times> string) list res" where
  "evaluate_versions =
     bindR (parse_version PositiveInteger ''1'') (\<lambda>_.
     bindR (parse_version PositiveInteger ''9999999999'') (\<lambda>_.
     bindR (assert_rejected PositiveInteger [''0'', ''01'', ''+1'', ''-1'', ''1 '', '' 1'', ''1.0'']) (\<lambda>_.
     bindR (check_family PositiveInteger ''1'' ''2'' SemanticVersion) (\<lambda>_.
     bindR (parse_version SemanticVersion ''0.0.1'') (\<lambda>_.
     bindR (parse_version SemanticVersion ''12.34.56'') (\<lambda>_.
     bindR (assert_rejected SemanticVersion
       [''01.0.0'', ''1.0'', ''1.0.0-alpha'', ''1.0.0+build'', ''1.00.0'', '' 1.0.0'']) (\<lambda>_.
     bindR (check_family SemanticVersion ''1.0.0'' ''2.0.0'' OpaqueToken) (\<lambda>_.
     bindR (parse_version OpaqueToken ''cv_ABCDEFG2'') (\<lambda>_.
     bindR (parse_version OpaqueToken ''cv_234567ABCDEFGHJK'') (\<lambda>_.
     bindR (assert_rejected OpaqueToken
       [''cv_abcdefg2'', ''CV_ABCDEFG2'', ''cv_ABC'', ''cv_ABCDEFG0'', '' cv_ABCDEFG2'', ''cv_ABCDEFG2 '']) (\<lambda>_.
     bindR prove_opaque_monotonic_issuance (\<lambda>(first, second).
     bindR (equal_versions OpaqueToken first second) (\<lambda>same.
     bindR (ensure (\<not> same) AssertionError) (\<lambda>_.
     bindR (check_family OpaqueToken first second PositiveInteger) (\<lambda>_.
     Inr [(PositiveInteger, eligible), (SemanticVersion, eligible), (OpaqueToken, eligible)])))))))))))))))"

lemma check_family_passes:
  assumes "version_ok a x" "version_ok a y" "x \<noteq> y" "other \<noteq> a"
  shows "check_family a x y other = Inr ()"
proof -
  have p: "parse_version a x = Inr \<lparr>pv_candidate = a, pv_canonical = x\<rparr>"
    "parse_version a y = Inr \<lparr>pv_candidate = a, pv_canonical = y\<rparr>"
    using assms(1,2) by (simp_all add: parse_version_def)
  have kept: "encode_ascii x = Inr (map of_char x)" using version_ascii [OF assms(1)] by (simp add: encode_ascii_def)
  then have e: "retain_historical a x = Inr \<lparr>ve_candidate = a, ve_original_bytes = map of_char x\<rparr>"
    by (simp add: retain_historical_def p)
  have "restore_historical a \<lparr>ve_candidate = a, ve_original_bytes = map of_char x\<rparr> =
      Inr \<lparr>pv_candidate = a, pv_canonical = x\<rparr>"
    "restore_historical other \<lparr>ve_candidate = a, ve_original_bytes = map of_char x\<rparr> = Inl ValueError"
    using versions_kept [OF p(1)] assms(4) by (simp_all add: e)
  then show ?thesis
    using assms(3,4)
    by (simp add: check_family_def assert_ordering_absent_def compare_order_def assert_no_authority_fields_def
        authority_projection_def p breaking_change_def must_fail_def assert_historical_continuity_def e kept)
qed

lemma issuance_proven:
  "prove_opaque_monotonic_issuance = Inr (''cv_'' @ opaque_fixture_body 1, ''cv_'' @ opaque_fixture_body 2)"
proof -
  have ne: "opaque_fixture_body 1 \<noteq> opaque_fixture_body 2"
    using opaque_body_inj [of 1 2] by (auto simp: max_issuance_def)
  have p: "parse_version OpaqueToken (''cv_'' @ opaque_fixture_body i) =
      Inr \<lparr>pv_candidate = OpaqueToken, pv_canonical = ''cv_'' @ opaque_fixture_body i\<rparr>" for i
    using opaque_body_ok [of i] by (simp add: parse_version_def version_ok_def)
  show ?thesis
    using ne p [of 1] p [of 2]
    by (simp add: prove_opaque_monotonic_issuance_def run_from_def issue_token_def max_issuance_def expects_def
        assert_ordering_absent_def compare_order_def)
qed

lemma families_pass: "evaluate_versions = Inr [(PositiveInteger, eligible), (SemanticVersion, eligible), (OpaqueToken, eligible)]"
proof -
  define x y where "x = ''cv_'' @ opaque_fixture_body 1" and "y = ''cv_'' @ opaque_fixture_body 2"
  have ne: "x \<noteq> y" using opaque_body_inj [of 1 2] by (auto simp: max_issuance_def x_def y_def)
  have ok: "version_ok OpaqueToken x" "version_ok OpaqueToken y"
    using opaque_body_ok [of 1] opaque_body_ok [of 2] by (simp_all add: version_ok_def x_def y_def)
  have small: "version_ok PositiveInteger ''1''" "version_ok PositiveInteger ''2''"
    "version_ok SemanticVersion ''1.0.0''" "version_ok SemanticVersion ''2.0.0''"
    "version_ok PositiveInteger ''9999999999''" "version_ok SemanticVersion ''0.0.1''"
    "version_ok SemanticVersion ''12.34.56''" "version_ok OpaqueToken ''cv_ABCDEFG2''"
    "version_ok OpaqueToken ''cv_234567ABCDEFGHJK''"
    by code_simp+
  have bad: "list_all (\<lambda>s. \<not> version_ok PositiveInteger s) [''0'', ''01'', ''+1'', ''-1'', ''1 '', '' 1'', ''1.0'']"
    "list_all (\<lambda>s. \<not> version_ok SemanticVersion s)
       [''01.0.0'', ''1.0'', ''1.0.0-alpha'', ''1.0.0+build'', ''1.00.0'', '' 1.0.0'']"
    "list_all (\<lambda>s. \<not> version_ok OpaqueToken s)
       [''cv_abcdefg2'', ''CV_ABCDEFG2'', ''cv_ABC'', ''cv_ABCDEFG0'', '' cv_ABCDEFG2'', ''cv_ABCDEFG2 '']"
    by code_simp+
  have parses: "version_ok a s \<Longrightarrow> parse_version a s = Inr \<lparr>pv_candidate = a, pv_canonical = s\<rparr>" for a s
    by (simp add: parse_version_def)
  have rejects: "list_all (\<lambda>s. \<not> version_ok a s) xs \<Longrightarrow> assert_rejected a xs = Inr ()" for a xs
    by (auto simp: assert_rejected_def parse_version_def list_all_iff ensure_def)
  have equal: "equal_versions OpaqueToken x y = Inr False"
    using ne by (simp add: equal_versions_def parses [OF ok(1)] parses [OF ok(2)])
  show ?thesis
    unfolding evaluate_versions_def issuance_proven [folded x_def y_def]
    using bad [THEN rejects] small [THEN parses] equal check_family_passes small ok ne
    by simp
qed

theorem tokens_unique_witness:
  "''cv_'' @ opaque_fixture_body 1 \<noteq> ''cv_'' @ opaque_fixture_body 2 \<and>
   issue_token 2 2 = (Inl ValueError, 2)"
proof -
  have "issue_token 1 0 = (Inr (''cv_'' @ opaque_fixture_body 1), 1)"
    "issue_token 2 1 = (Inr (''cv_'' @ opaque_fixture_body 2), 2)"
    by (simp_all add: issue_token_returns_iff max_issuance_def)
  from tokens_unique [OF this(1) rtranclp.rtrancl_refl this(2), of 2] show ?thesis by simp
qed

theorem versions_restored_witness:
  "bindR (retain_historical SemanticVersion ''1.0.0'') (restore_historical PositiveInteger) = Inl ValueError"
proof -
  have "version_ok SemanticVersion ''1.0.0''" by code_simp
  then have "parse_version SemanticVersion ''1.0.0'' =
      Inr \<lparr>pv_candidate = SemanticVersion, pv_canonical = ''1.0.0''\<rparr>"
    by (simp add: parse_version_def)
  from versions_restored [OF this, of PositiveInteger] show ?thesis by simp
qed

end
