(* ===== verification/Bounded_Parser.thy ===== *)
theory Bounded_Parser
  imports Reference_Prelude
begin

text \<open>
  src/tools/assurance/d4c_bounded_parser_limits/evaluate_candidates.py: reading a message within
  bounds before it is trusted. \<open>LimitViolation(code)\<close> is \<open>ContractViolation code\<close>. The zlib
  decompressor and \<open>json.loads\<close> are parameters; the stacks of the validators are lists whose
  head is the top.
\<close>

section \<open>Limits\<close>

definition max_wire_bytes :: nat where "max_wire_bytes = 4096"
definition max_decompressed_bytes :: nat where "max_decompressed_bytes = 8192"
definition max_batch_items :: nat where "max_batch_items = 4"
definition max_nesting_depth :: nat where "max_nesting_depth = 6"
definition max_string_chars :: nat where "max_string_chars = 128"
definition max_collection_items :: nat where "max_collection_items = 16"
definition max_total_fields :: nat where "max_total_fields = 32"

record candidate_policy =
  cp_name :: string
  cp_transport_limit :: nat

definition effective_wire_limit :: "candidate_policy \<Rightarrow> nat" where
  "effective_wire_limit p = min (cp_transport_limit p) max_wire_bytes"

definition parser_candidates :: "string list" where
  "parser_candidates =
     [''contract_bound_application_limits_with_transport_precheck'', ''bounded_envelope_codec_profile'',
      ''layered_transport_and_application_bounds_profile'']"

definition policy_for :: "string \<Rightarrow> candidate_policy res" where
  "policy_for c =
     bindR (ensure (c \<in> set parser_candidates) ValueError) (\<lambda>_.
     Inr \<lparr>cp_name = c, cp_transport_limit =
       (if c = ''layered_transport_and_application_bounds_profile'' then max_wire_bytes * 4 else max_wire_bytes)\<rparr>)"

definition limit_violation :: "string \<Rightarrow> exn" where
  "limit_violation code = ContractViolation code"

section \<open>The wire\<close>

text \<open>The state counts the chunks taken from the sender.\<close>

fun read_chunks :: "nat \<Rightarrow> nat list \<Rightarrow> nat list list \<Rightarrow> (nat, nat list) op" where
  "read_chunks limit out [] = returnS out"
| "read_chunks limit out (c # cs) =
     thenS (modifyS Suc)
    (thenS (ensureS (length c \<le> limit - length out) (limit_violation ''wire_bytes_exceeded''))
    (read_chunks limit (out @ c) cs))"

definition bounded_read ::
  "nat list list \<Rightarrow> int option \<Rightarrow> candidate_policy \<Rightarrow> (nat, nat list) op" where
  "bounded_read chunks declared p =
     thenS (case declared of
         None \<Rightarrow> returnS ()
       | Some n \<Rightarrow>
           thenS (ensureS (0 \<le> n) (limit_violation ''invalid_declared_length''))
          (ensureS (n \<le> int (effective_wire_limit p)) (limit_violation ''wire_bytes_exceeded'')))
    (bindS (read_chunks (effective_wire_limit p) [] chunks) (\<lambda>out.
     thenS (ensureS (declared = None \<or> declared = Some (int (length out)))
       (limit_violation ''declared_length_mismatch''))
    (returnS out)))"

section \<open>Decompression\<close>

text \<open>
  A \<open>zlib.decompressobj\<close> in state \<open>z\<close>: \<open>decompress data max_length\<close> and \<open>flush length\<close>
  give some output and the next state, or raise \<open>zlib.error\<close>.
\<close>

record 'z zlib =
  zl_fresh :: 'z
  zl_decompress :: "'z \<Rightarrow> nat list \<Rightarrow> nat \<Rightarrow> (nat list \<times> 'z) option"
  zl_unconsumed_tail :: "'z \<Rightarrow> nat list"
  zl_flush :: "'z \<Rightarrow> nat \<Rightarrow> (nat list \<times> 'z) option"
  zl_eof :: "'z \<Rightarrow> bool"
  zl_unused_data :: "'z \<Rightarrow> nat list"

text \<open>The loop may not end for a decompressor that consumes nothing: then its result is \<open>None\<close>.\<close>

partial_function (option) inflate ::
  "'z zlib \<Rightarrow> 'z \<Rightarrow> nat list \<Rightarrow> nat list \<Rightarrow> (nat list \<times> 'z) res option" where
  "inflate zl z out pending =
     (if pending = [] then Some (Inr (out, z))
      else if max_decompressed_bytes < length out then Some (Inl (limit_violation ''decompressed_bytes_exceeded''))
      else case zl_decompress zl z pending (max_decompressed_bytes - length out + 1) of
             None \<Rightarrow> Some (Inl (limit_violation ''invalid_compressed_payload''))
           | Some (piece, z') \<Rightarrow>
               if max_decompressed_bytes < length (out @ piece)
               then Some (Inl (limit_violation ''decompressed_bytes_exceeded''))
               else inflate zl z' (out @ piece) (zl_unconsumed_tail zl z'))"

definition bounded_gzip_decode :: "'z zlib \<Rightarrow> nat list \<Rightarrow> nat list res option" where
  "bounded_gzip_decode zl data =
     (case inflate zl (zl_fresh zl) [] data of
        None \<Rightarrow> None
      | Some (Inl e) \<Rightarrow> Some (Inl e)
      | Some (Inr (out, z)) \<Rightarrow> Some
         (case zl_flush zl z (max_decompressed_bytes - length out + 1) of
            None \<Rightarrow> Inl (limit_violation ''invalid_compressed_payload'')
          | Some (tail, z') \<Rightarrow>
              bindR (ensure (length (out @ tail) \<le> max_decompressed_bytes)
                (limit_violation ''decompressed_bytes_exceeded'')) (\<lambda>_.
              bindR (ensure (zl_eof zl z') (limit_violation ''invalid_compressed_payload'')) (\<lambda>_.
              bindR (ensure (zl_unused_data zl z' = []) (limit_violation ''compressed_trailing_data'')) (\<lambda>_.
              Inr (out @ tail))))))"

text \<open>What the documentation of zlib says of \<open>max_length\<close>: it bounds the output, and input is only
  left over when the output has reached it.\<close>

definition honours_max_length :: "'z zlib \<Rightarrow> bool" where
  "honours_max_length zl \<longleftrightarrow>
     (\<forall>z data n piece z'. zl_decompress zl z data n = Some (piece, z') \<longrightarrow>
        length piece \<le> n \<and> (zl_unconsumed_tail zl z' \<noteq> [] \<longrightarrow> length piece = n))"

text \<open>Every exception of the reader is a \<open>LimitViolation\<close>.\<close>

definition limited :: "'a res \<Rightarrow> bool" where
  "limited r \<longleftrightarrow> (\<forall>e. r = Inl e \<longrightarrow> (\<exists>code. e = ContractViolation code))"

lemma limitedI: "limited (Inr v)" "limited (Inl (limit_violation c))"
  by (simp_all add: limited_def limit_violation_def)

lemma limited_ensure: "limited (ensure b (limit_violation c))"
  by (simp add: limited_def ensure_def limit_violation_def)

lemma limited_bind: "limited r \<Longrightarrow> (\<And>v. limited (k v)) \<Longrightarrow> limited (bindR r k)"
  by (cases r) (simp_all add: limited_def)

lemmas limited_intros = limitedI limited_ensure limited_bind

lemma inflate_ends:
  assumes "honours_max_length zl" "length out \<le> max_decompressed_bytes"
  shows "\<exists>r. inflate zl z out pending = Some r \<and> limited r \<and> (\<forall>v w. r = Inr (v, w) \<longrightarrow> length v \<le> max_decompressed_bytes)"
proof (cases "pending = []")
  case True
  then show ?thesis using assms(2) by (subst inflate.simps) (simp add: limitedI)
next
  case False
  let ?n = "max_decompressed_bytes - length out + 1"
  show ?thesis
  proof (cases "zl_decompress zl z pending ?n")
    case None
    then show ?thesis using False assms(2) by (subst inflate.simps) (simp add: limitedI)
  next
    case (Some x)
    obtain piece z' where x: "x = (piece, z')" by (cases x)
    show ?thesis
    proof (cases "max_decompressed_bytes < length (out @ piece)")
      case True
      then show ?thesis using False assms(2) Some x by (subst inflate.simps) (simp add: limitedI)
    next
      case fits: False
      have "length piece \<noteq> ?n" using fits assms(2) by simp
      then have "zl_unconsumed_tail zl z' = []"
        using assms(1) Some x unfolding honours_max_length_def by blast
      then have "inflate zl z' (out @ piece) (zl_unconsumed_tail zl z') = Some (Inr (out @ piece, z'))"
        by (subst inflate.simps) (simp add: limitedI)
      then show ?thesis using False assms(2) Some x fits by (subst inflate.simps) (simp add: limitedI)
    qed
  qed
qed

lemma gzip_ends:
  assumes "honours_max_length zl"
  shows "\<exists>r. bounded_gzip_decode zl data = Some r \<and> limited r \<and> (\<forall>v. r = Inr v \<longrightarrow> length v \<le> max_decompressed_bytes)"
proof -
  obtain r where r: "inflate zl (zl_fresh zl) [] data = Some r" "limited r"
    using inflate_ends [OF assms, of "[]"] by fastforce
  define rest where "rest out z =
     (case zl_flush zl z (max_decompressed_bytes - length out + 1) of
        None \<Rightarrow> Inl (limit_violation ''invalid_compressed_payload'')
      | Some (tail, z') \<Rightarrow>
          bindR (ensure (length (out @ tail) \<le> max_decompressed_bytes)
            (limit_violation ''decompressed_bytes_exceeded'')) (\<lambda>_.
          bindR (ensure (zl_eof zl z') (limit_violation ''invalid_compressed_payload'')) (\<lambda>_.
          bindR (ensure (zl_unused_data zl z' = []) (limit_violation ''compressed_trailing_data'')) (\<lambda>_.
          Inr (out @ tail)))))" for out z
  have "limited (rest out z)" for out z
    unfolding rest_def by (auto split: option.split prod.split intro!: limited_intros)
  moreover have "length v \<le> max_decompressed_bytes" if "rest out z = Inr v" for out z v
    using that unfolding rest_def by (auto simp: bindR_Inr_iff ensure_Inr_iff split: option.splits prod.splits)
  moreover have "bounded_gzip_decode zl data = Some (case r of Inl e \<Rightarrow> Inl e | Inr (out, z) \<Rightarrow> rest out z)"
    by (simp add: bounded_gzip_decode_def r rest_def split: sum.split prod.split)
  ultimately show ?thesis using r(2) by (auto simp: limited_def split: sum.splits prod.splits)
qed

lemma read_chunks_returns:
  "read_chunks limit out cs s = (Inr v, t) \<Longrightarrow> length out \<le> limit \<Longrightarrow>
     v = out @ concat cs \<and> length v \<le> limit"
  by (induction limit out cs arbitrary: s rule: read_chunks.induct) (auto simp: ensure_def split: if_splits)

lemma bounded_read_returns:
  "bounded_read cs d p s = (Inr v, t) \<Longrightarrow>
     v = concat cs \<and> length v \<le> effective_wire_limit p \<and> (d = None \<or> d = Some (int (length v)))"
  using read_chunks_returns [of "effective_wire_limit p" "[]" cs]
  by (auto simp: bounded_read_def ensure_def bindS_returns_iff split: option.splits if_splits)

lemma wire_limit: "effective_wire_limit p \<le> max_wire_bytes"
  by (simp add: effective_wire_limit_def)

section \<open>Parsing\<close>

text \<open>The scan over the bytes: the depth, whether it is inside a string, and after a backslash.\<close>

fun scan_nesting :: "int \<Rightarrow> bool \<Rightarrow> bool \<Rightarrow> nat list \<Rightarrow> unit res" where
  "scan_nesting depth in_string escaped [] = Inr ()"
| "scan_nesting depth in_string escaped (b # bs) =
     (if in_string then
        (if escaped then scan_nesting depth in_string False bs
         else if b = 0x5C then scan_nesting depth in_string True bs
         else if b = 0x22 then scan_nesting depth False escaped bs
         else scan_nesting depth in_string escaped bs)
      else if b = 0x22 then scan_nesting depth True escaped bs
      else if b = 0x7B \<or> b = 0x5B then
        (if int max_nesting_depth < depth + 1 then Inl (limit_violation ''nesting_depth_exceeded'')
         else scan_nesting (depth + 1) in_string escaped bs)
      else if b = 0x7D \<or> b = 0x5D then scan_nesting (depth - 1) in_string escaped bs
      else scan_nesting depth in_string escaped bs)"

definition precheck_json_nesting :: "nat list \<Rightarrow> unit res" where
  "precheck_json_nesting bytes = scan_nesting 0 False False bytes"

text \<open>
  \<open>json.loads\<close> calls the hooks while it reads. The parser gives the value it read, its objects
  still with all their members, or else the complete values it had read, in order, when it
  came upon an error, or upon an integer of more digits than \<open>int\<close> converts: that raises a
  \<open>ValueError\<close> which is no \<open>JSONDecodeError\<close>. The constants \<open>NaN\<close>, \<open>Infinity\<close> and \<open>-Infinity\<close> are numbers with these texts.
\<close>

datatype parse_outcome = Parsed payload | Broken "payload list" | Overlong "payload list"

definition in_turn :: "('s, unit) op list \<Rightarrow> ('s, unit) op" where
  "in_turn ops = foldr thenS ops (returnS ())"

lemma in_turn_simps [simp]: "in_turn [] = returnS ()" "in_turn (m # ms) = thenS m (in_turn ms)"
  by (simp_all add: in_turn_def)

fun strict_keys :: "string set \<Rightarrow> string list \<Rightarrow> unit res" where
  "strict_keys seen [] = Inr ()"
| "strict_keys seen (k # ks) =
     bindR (ensure (k \<notin> seen) (limit_violation ''duplicate_json_member'')) (\<lambda>_.
     bindR (ensure (length k \<le> max_string_chars) (limit_violation ''field_name_invalid_or_exceeded'')) (\<lambda>_.
     strict_keys (insert k seen) ks))"

text \<open>The state is \<open>parsed_fields\<close>.\<close>

definition strict_pairs :: "string list \<Rightarrow> (nat, unit) op" where
  "strict_pairs ks =
     thenS (ensureS (length ks \<le> max_collection_items) (limit_violation ''collection_items_exceeded''))
    (thenS (modifyS (\<lambda>n. n + length ks))
    (bindS (getS id) (\<lambda>n.
     thenS (ensureS (n \<le> max_total_fields) (limit_violation ''total_fields_exceeded''))
    (liftS (strict_keys {} ks)))))"

primrec hooks :: "payload \<Rightarrow> (nat, unit) op" where
  "hooks PNull = returnS ()"
| "hooks (PText s) = returnS ()"
| "hooks (PInt i) = returnS ()"
| "hooks (PNumber x) =
     (if x \<in> {''NaN'', ''Infinity'', ''-Infinity''} then raiseS (limit_violation ''invalid_json_constant'')
      else returnS ())"
| "hooks (PFlag b) = returnS ()"
| "hooks (PArr vs) = in_turn (map hooks vs)"
| "hooks (PObj fs) = thenS (in_turn (map snd (map (map_prod id hooks) fs))) (strict_pairs (map fst fs))"

definition strict_json_loads :: "(nat list \<Rightarrow> parse_outcome) \<Rightarrow> nat list \<Rightarrow> payload res" where
  "strict_json_loads parse bytes =
     (case parse bytes of
        Parsed v \<Rightarrow> run_from 0 (thenS (hooks v) (returnS v))
      | Broken vs \<Rightarrow> run_from 0 (thenS (in_turn (map hooks vs)) (raiseS (limit_violation ''invalid_json'')))
      | Overlong vs \<Rightarrow> run_from 0 (thenS (in_turn (map hooks vs)) (raiseS ValueError)))"

section \<open>The validators\<close>

primrec nodes :: "payload \<Rightarrow> nat" where
  "nodes PNull = 1"
| "nodes (PText s) = 1"
| "nodes (PInt i) = 1"
| "nodes (PNumber x) = 1"
| "nodes (PFlag b) = 1"
| "nodes (PArr vs) = 1 + sum_list (map nodes vs)"
| "nodes (PObj fs) = 1 + sum_list (map snd (map (map_prod id nodes) fs))"

lemma nodes_children [simp]:
  "sum_list (map (nodes \<circ> fst) (rev (map (\<lambda>(k, c). (c, d)) fs))) = sum_list (map snd (map (map_prod id nodes) fs))"
  "sum_list (map (nodes \<circ> fst) (rev (map (\<lambda>c. (c, d)) vs))) = sum_list (map nodes vs)"
  by (simp_all add: rev_map [symmetric] comp_def case_prod_unfold)

definition check_names :: "string list \<Rightarrow> unit res" where
  "check_names ks = ensure (list_all (\<lambda>k. length k \<le> max_string_chars) ks)
     (limit_violation ''field_name_invalid_or_exceeded'')"

function validate_stack :: "(payload \<times> nat) list \<Rightarrow> nat \<Rightarrow> unit res" where
  "validate_stack [] counted = Inr ()"
| "validate_stack ((v, d) # st) counted =
     bindR (ensure (d \<le> max_nesting_depth) (limit_violation ''nesting_depth_exceeded'')) (\<lambda>_.
     case v of
       PText s \<Rightarrow>
         bindR (ensure (length s \<le> max_string_chars) (limit_violation ''string_chars_exceeded'')) (\<lambda>_.
         validate_stack st counted)
     | PObj fs \<Rightarrow>
         bindR (ensure (length fs \<le> max_collection_items) (limit_violation ''collection_items_exceeded'')) (\<lambda>_.
         bindR (ensure (counted + length fs \<le> max_total_fields) (limit_violation ''total_fields_exceeded'')) (\<lambda>_.
         bindR (check_names (map fst fs)) (\<lambda>_.
         validate_stack (rev (map (\<lambda>(k, c). (c, d + 1)) fs) @ st) (counted + length fs))))
     | PArr vs \<Rightarrow>
         bindR (ensure (length vs \<le> max_collection_items) (limit_violation ''collection_items_exceeded'')) (\<lambda>_.
         validate_stack (rev (map (\<lambda>c. (c, d + 1)) vs) @ st) counted)
     | _ \<Rightarrow> validate_stack st counted)"
  by pat_completeness auto
termination
  by (relation "measure (\<lambda>(st, counted). sum_list (map (nodes \<circ> fst) st))")
    (auto simp: rev_map [symmetric] comp_def case_prod_unfold)

definition validate_structure :: "payload \<Rightarrow> unit res" where
  "validate_structure v = validate_stack [(v, 1)] 0"

text \<open>A reference that carries a text.\<close>

definition refers :: "(string \<times> payload) list \<Rightarrow> string \<Rightarrow> bool" where
  "refers fs k \<longleftrightarrow> map_of fs ''inline'' = None \<and>
     (case map_of fs k of Some (PText s) \<Rightarrow> s \<noteq> [] | _ \<Rightarrow> False)"

definition check_kind :: "(string \<times> payload) list \<Rightarrow> unit res" where
  "check_kind fs =
     bindR (ensure (map_of fs ''kind'' = Some (PText ''artifact'') \<longrightarrow> refers fs ''artifact_ref'')
       (limit_violation ''artifact_reference_required'')) (\<lambda>_.
     ensure (map_of fs ''kind'' = Some (PText ''raw_telemetry'') \<longrightarrow> refers fs ''telemetry_ref'')
       (limit_violation ''telemetry_reference_required''))"

function validate_planes :: "payload list \<Rightarrow> unit res" where
  "validate_planes [] = Inr ()"
| "validate_planes (v # st) =
     (case v of
        PObj fs \<Rightarrow> bindR (check_kind fs) (\<lambda>_. validate_planes (rev (map snd fs) @ st))
      | PArr vs \<Rightarrow> validate_planes (rev vs @ st)
      | _ \<Rightarrow> validate_planes st)"
  by pat_completeness auto
termination
  by (relation "measure (\<lambda>st. sum_list (map nodes st))") (auto simp: rev_map [symmetric] comp_def)

definition validate_specialized_planes :: "payload \<Rightarrow> unit res" where
  "validate_specialized_planes v = validate_planes [v]"

section \<open>The whole reader\<close>

record parse_failure =
  pf_code :: string
  pf_retryable :: bool
  pf_candidate :: string

record parse_report =
  pr_accepted :: bool
  pr_failure :: "parse_failure option"
  pr_events :: "parse_failure list"

definition accepted_report :: parse_report where
  "accepted_report = \<lparr>pr_accepted = True, pr_failure = None, pr_events = []\<rparr>"

definition failure_report :: "string \<Rightarrow> string \<Rightarrow> parse_report" where
  "failure_report candidate code =
     (let event = \<lparr>pf_code = code, pf_retryable = False, pf_candidate = candidate\<rparr>
      in \<lparr>pr_accepted = False, pr_failure = Some event, pr_events = [event]\<rparr>)"

text \<open>What follows the wire and the decompression.\<close>

definition validate_payload :: "(nat list \<Rightarrow> parse_outcome) \<Rightarrow> nat list \<Rightarrow> payload res" where
  "validate_payload parse bytes =
     bindR (precheck_json_nesting bytes) (\<lambda>_.
     bindR (strict_json_loads parse bytes) (\<lambda>v.
     bindR (ensure (case v of PArr vs \<Rightarrow> length vs \<le> max_batch_items | _ \<Rightarrow> True)
       (limit_violation ''batch_items_exceeded'')) (\<lambda>_.
     bindR (validate_structure v) (\<lambda>_.
     bindR (validate_specialized_planes v) (\<lambda>_. Inr v)))))"

definition decode_bytes ::
  "'z zlib \<Rightarrow> (nat list \<Rightarrow> parse_outcome) \<Rightarrow> string \<Rightarrow> nat list \<Rightarrow> payload res option" where
  "decode_bytes zl parse encoding wire =
     (if encoding = ''gzip'' then
        (case bounded_gzip_decode zl wire of
           None \<Rightarrow> None
         | Some r \<Rightarrow> Some (bindR r (validate_payload parse)))
      else if encoding = ''identity'' then Some (validate_payload parse wire)
      else Some (Inl (limit_violation ''unsupported_content_encoding'')))"

text \<open>\<open>except LimitViolation\<close>: any other exception goes through.\<close>

definition report_of :: "string \<Rightarrow> 'a res \<Rightarrow> parse_report res" where
  "report_of candidate r =
     (case r of
        Inr _ \<Rightarrow> Inr accepted_report
      | Inl (ContractViolation code) \<Rightarrow> Inr (failure_report candidate code)
      | Inl e \<Rightarrow> Inl e)"

definition decode_and_validate ::
  "'z zlib \<Rightarrow> (nat list \<Rightarrow> parse_outcome) \<Rightarrow> string \<Rightarrow> nat list list \<Rightarrow> int option \<Rightarrow> string \<Rightarrow>
   nat \<Rightarrow> (parse_report res \<times> nat) option" where
  "decode_and_validate zl parse candidate chunks declared encoding taken =
     (case policy_for candidate of
        Inl e \<Rightarrow> Some (Inl e, taken)
      | Inr p \<Rightarrow>
          (case bounded_read chunks declared p taken of
             (Inl e, n) \<Rightarrow> Some (report_of candidate (Inl e :: payload res), n)
           | (Inr wire, n) \<Rightarrow>
               (case decode_bytes zl parse encoding wire of
                  None \<Rightarrow> None
                | Some r \<Rightarrow> Some (report_of candidate r, n))))"

section \<open>What the validators accept\<close>

primrec depth_of :: "payload \<Rightarrow> nat" where
  "depth_of PNull = 1"
| "depth_of (PText s) = 1"
| "depth_of (PInt i) = 1"
| "depth_of (PNumber x) = 1"
| "depth_of (PFlag b) = 1"
| "depth_of (PArr vs) = 1 + foldr max (map depth_of vs) 0"
| "depth_of (PObj fs) = 1 + foldr max (map snd (map (map_prod id depth_of) fs)) 0"

primrec fields_of :: "payload \<Rightarrow> nat" where
  "fields_of PNull = 0"
| "fields_of (PText s) = 0"
| "fields_of (PInt i) = 0"
| "fields_of (PNumber x) = 0"
| "fields_of (PFlag b) = 0"
| "fields_of (PArr vs) = sum_list (map fields_of vs)"
| "fields_of (PObj fs) = length fs + sum_list (map snd (map (map_prod id fields_of) fs))"

fun sized :: "payload \<Rightarrow> bool" where
  "sized (PText s) = (length s \<le> max_string_chars)"
| "sized (PArr vs) = (length vs \<le> max_collection_items \<and> list_all sized vs)"
| "sized (PObj fs) =
     (length fs \<le> max_collection_items \<and>
      list_all (\<lambda>(k, c). length k \<le> max_string_chars \<and> sized c) fs)"
| "sized _ = True"

definition within_limits :: "payload \<Rightarrow> bool" where
  "within_limits v \<longleftrightarrow>
     depth_of v \<le> max_nesting_depth \<and> sized v \<and> fields_of v \<le> max_total_fields"

fun planes_ok :: "payload \<Rightarrow> bool" where
  "planes_ok (PArr vs) = list_all planes_ok vs"
| "planes_ok (PObj fs) = (check_kind fs = Inr () \<and> list_all (\<lambda>(k, c). planes_ok c) fs)"
| "planes_ok _ = True"

lemma foldr_max: "foldr max (xs :: nat list) 0 + d \<le> b \<longleftrightarrow> d \<le> b \<and> (\<forall>x \<in> set xs. x + d \<le> b)"
  by (induction xs) auto

lemma fields_children:
  "sum_list (map (fields_of \<circ> fst) (rev (map (\<lambda>(k, c). (c, d :: nat)) fs))) = sum_list (map snd (map (map_prod id fields_of) fs))"
  "sum_list (map (fields_of \<circ> fst) (rev (map (\<lambda>c. (c, d :: nat)) vs))) = sum_list (map fields_of vs)"
  by (simp_all add: rev_map [symmetric] comp_def case_prod_unfold)

lemma depth_positive: "1 \<le> depth_of v"
  by (cases v) simp_all

definition entry_ok :: "payload \<times> nat \<Rightarrow> bool" where
  "entry_ok x \<longleftrightarrow> depth_of (fst x) + snd x \<le> Suc max_nesting_depth \<and> sized (fst x)"

lemma validate_stack_Inr_iff:
  "counted \<le> max_total_fields \<Longrightarrow>
   validate_stack st counted = Inr u \<longleftrightarrow>
     list_all entry_ok st \<and> counted + sum_list (map (fields_of \<circ> fst) st) \<le> max_total_fields"
proof (induction st counted rule: validate_stack.induct)
  case (2 v d st counted)
  show ?case
  proof (cases v)
    case (PArr vs)
    define K where "K = rev (map (\<lambda>c. (c, d + 1)) vs)"
    have kids: "list_all entry_ok K \<longleftrightarrow> (\<forall>c \<in> set vs. depth_of c + d \<le> max_nesting_depth \<and> sized c)"
      by (auto simp: list_all_iff entry_ok_def K_def)
    have sums: "sum_list (map (fields_of \<circ> fst) K) = fields_of (PArr vs)"
      unfolding K_def fields_children by simp
    have here: "entry_ok (PArr vs, d) \<longleftrightarrow> d \<le> max_nesting_depth \<and> length vs \<le> max_collection_items \<and>
        (\<forall>c \<in> set vs. depth_of c + d \<le> max_nesting_depth \<and> sized c)"
      using foldr_max [of "map depth_of vs" d max_nesting_depth] by (auto simp: entry_ok_def list_all_iff)
    have rest: "validate_stack (K @ st) counted = Inr u \<longleftrightarrow> list_all entry_ok (K @ st) \<and>
        counted + sum_list (map (fields_of \<circ> fst) (K @ st)) \<le> max_total_fields"
      using 2 PArr unfolding K_def by blast
    have step: "validate_stack ((v, d) # st) counted = Inr u \<longleftrightarrow>
        d \<le> max_nesting_depth \<and> length vs \<le> max_collection_items \<and> validate_stack (K @ st) counted = Inr u"
      by (simp add: PArr bindR_Inr_iff ensure_Inr_iff K_def)
    show ?thesis unfolding step rest list_all_append kids using sums by (auto simp: PArr here comp_def)
  next
    case (PObj fs)
    define K where "K = rev (map (\<lambda>(k, c). (c, d + 1)) fs)"
    have kids: "list_all entry_ok K \<longleftrightarrow> (\<forall>(k, c) \<in> set fs. depth_of c + d \<le> max_nesting_depth \<and> sized c)"
      by (auto simp: list_all_iff entry_ok_def K_def)
    have sums: "length fs + sum_list (map (fields_of \<circ> fst) K) = fields_of (PObj fs)"
      unfolding K_def fields_children by simp
    have here: "entry_ok (PObj fs, d) \<longleftrightarrow> d \<le> max_nesting_depth \<and> length fs \<le> max_collection_items \<and>
        (\<forall>(k, c) \<in> set fs. length k \<le> max_string_chars) \<and>
        (\<forall>(k, c) \<in> set fs. depth_of c + d \<le> max_nesting_depth \<and> sized c)"
      using foldr_max [of "map snd (map (map_prod id depth_of) fs)" d max_nesting_depth]
      by (auto simp: entry_ok_def list_all_iff)
    have rest: "validate_stack (K @ st) (counted + length fs) = Inr u \<longleftrightarrow> list_all entry_ok (K @ st) \<and>
        counted + length fs + sum_list (map (fields_of \<circ> fst) (K @ st)) \<le> max_total_fields"
      if "counted + length fs \<le> max_total_fields"
      using 2 PObj that unfolding K_def by blast
    have step: "validate_stack ((v, d) # st) counted = Inr u \<longleftrightarrow>
        d \<le> max_nesting_depth \<and> length fs \<le> max_collection_items \<and> counted + length fs \<le> max_total_fields \<and>
        (\<forall>(k, c) \<in> set fs. length k \<le> max_string_chars) \<and> validate_stack (K @ st) (counted + length fs) = Inr u"
      by (auto simp: PObj bindR_Inr_iff ensure_Inr_iff K_def check_names_def list_all_iff)
    have "counted + (fields_of v + sum_list (map (fields_of \<circ> fst) st)) =
        counted + length fs + sum_list (map (fields_of \<circ> fst) (K @ st))"
      using sums PObj by simp
    then show ?thesis
      unfolding step using rest by (auto simp: PObj kids here comp_def)
  qed (use 2 in \<open>auto simp: bindR_Inr_iff ensure_Inr_iff entry_ok_def\<close>)
qed simp

lemma validate_planes_Inr_iff: "validate_planes st = Inr u \<longleftrightarrow> list_all planes_ok st"
  by (induction st rule: validate_planes.induct)
    (auto simp: bindR_Inr_iff list_all_iff split: payload.splits, force+)

lemma validate_structure_exact: "validate_structure v = Inr () \<longleftrightarrow> within_limits v"
  using validate_stack_Inr_iff [of 0 "[(v, 1)]" "()"]
  by (simp add: validate_structure_def within_limits_def entry_ok_def del: validate_stack.simps)

lemma validate_planes_exact: "validate_specialized_planes v = Inr () \<longleftrightarrow> planes_ok v"
  by (simp add: validate_specialized_planes_def validate_planes_Inr_iff del: validate_planes.simps)

lemma limited_scan: "limited (scan_nesting d q e bs)"
  by (induction d q e bs rule: scan_nesting.induct) (simp add: limitedI, auto simp: limitedI)

lemma limited_keys: "limited (strict_keys seen ks)"
  by (induction seen ks rule: strict_keys.induct) (simp_all add: limited_intros)

lemma limited_stack: "limited (validate_stack st n)"
  by (induction st n rule: validate_stack.induct)
    (auto simp: check_names_def split: payload.split intro!: limited_intros)

lemma limited_planes: "limited (validate_planes st)"
  by (induction st rule: validate_planes.induct)
    (auto simp: check_kind_def split: payload.split intro!: limited_intros)

definition limitedS :: "('s, 'a) op \<Rightarrow> bool" where
  "limitedS m \<longleftrightarrow> (\<forall>s. limited (fst (m s)))"

lemma limitedS_basic: "limitedS (returnS v)" "limitedS (getS f)" "limitedS (modifyS h)"
  "limited r \<Longrightarrow> limitedS (liftS r)" "limitedS (raiseS (limit_violation c))"
  by (simp_all add: limitedS_def limitedI)

lemma limitedS_bind: "limitedS m \<Longrightarrow> (\<And>v. limitedS (k v)) \<Longrightarrow> limitedS (bindS m k)"
  unfolding limitedS_def bindS_def by (auto simp: limited_def split: prod.splits sum.splits) (metis fst_conv)+

lemma limitedS_then: "limitedS m \<Longrightarrow> limitedS k \<Longrightarrow> limitedS (thenS m k)"
  by (simp add: thenS_def limitedS_bind)

lemmas limitedS_intros = limitedS_basic limitedS_then limitedS_bind limited_ensure limited_keys

lemma limitedS_turn: "(\<And>m. m \<in> set ms \<Longrightarrow> limitedS m) \<Longrightarrow> limitedS (in_turn ms)"
  by (induction ms) (auto intro: limitedS_intros)

lemma limitedS_hooks: "limitedS (hooks v)"
proof (induction v)
  case (PArr vs)
  then show ?case by (auto intro!: limitedS_turn)
next
  case (PObj fs)
  have "limitedS (strict_pairs ks)" for ks
    unfolding strict_pairs_def by (intro limitedS_intros)
  moreover have "limitedS (in_turn (map snd (map (map_prod id hooks) fs)))"
    using PObj by (intro limitedS_turn) fastforce
  ultimately show ?case unfolding hooks.simps by (intro limitedS_then)
qed (simp_all only: hooks.simps limitedS_basic if_True if_False split: if_split, blast?)

text \<open>A limit violation, or the \<open>ValueError\<close> of an integer too long to convert, which is not one.\<close>

definition limited_or_overlong :: "(nat list \<Rightarrow> parse_outcome) \<Rightarrow> nat list \<Rightarrow> 'a res \<Rightarrow> bool" where
  "limited_or_overlong parse bytes r \<longleftrightarrow> limited r \<or> (r = Inl ValueError \<and> (\<exists>vs. parse bytes = Overlong vs))"

lemma limited_or_overlongI: "limited r \<Longrightarrow> limited_or_overlong parse bytes r"
  by (simp add: limited_or_overlong_def)

lemma limited_or_overlong_bind:
  assumes "limited_or_overlong parse bytes r" "\<And>v. limited (k v)"
  shows "limited_or_overlong parse bytes (bindR r k)"
proof (cases "limited r")
  case True
  then show ?thesis by (intro limited_or_overlongI limited_bind assms(2))
next
  case False
  then show ?thesis using assms(1) by (auto simp: limited_or_overlong_def)
qed

lemma limited_loads: "limited_or_overlong parse bytes (strict_json_loads parse bytes)"
proof -
  have turn: "limitedS (in_turn (map hooks vs))" for vs
    by (rule limitedS_turn) (auto simp: limitedS_hooks)
  have "limited (fst (thenS (hooks v) (returnS v) 0))" for v
    using limitedS_then [OF limitedS_hooks [of v] limitedS_basic(1) [of v]] unfolding limitedS_def by blast
  moreover have "limited (fst (thenS (in_turn (map hooks vs))
      (raiseS (limit_violation ''invalid_json'') :: (nat, payload) op) 0))" for vs
    using limitedS_then [OF turn [of vs] limitedS_basic(5)] unfolding limitedS_def by blast
  moreover have "limited r \<or> r = Inl ValueError"
    if "r = fst (thenS (in_turn (map hooks vs)) (raiseS ValueError :: (nat, payload) op) 0)" for vs r
    using turn [of vs] that unfolding limitedS_def
    by (cases "in_turn (map hooks vs) 0") (auto simp: limited_def bindS_def split: sum.splits, metis fst_conv)
  ultimately show ?thesis
    unfolding strict_json_loads_def run_from_def limited_or_overlong_def
    by (simp del: thenS_apply split: parse_outcome.split)
qed

lemma limited_payload: "limited_or_overlong parse bytes (validate_payload parse bytes)"
proof (cases "precheck_json_nesting bytes")
  case (Inl e)
  then have "validate_payload parse bytes = Inl e" by (simp add: validate_payload_def)
  moreover have "limited (Inl e :: unit res)"
    using limited_scan [of 0 False False bytes] Inl by (simp add: precheck_json_nesting_def)
  ultimately show ?thesis by (simp add: limited_or_overlong_def limited_def)
next
  case (Inr u)
  then show ?thesis
    unfolding validate_payload_def validate_structure_def validate_specialized_planes_def
    by (simp del: validate_stack.simps validate_planes.simps,
        intro limited_or_overlong_bind limited_loads limited_intros limited_stack limited_planes)
qed

lemma validate_payload_Inr_iff:
  "validate_payload parse bytes = Inr v \<longleftrightarrow>
     precheck_json_nesting bytes = Inr () \<and> strict_json_loads parse bytes = Inr v \<and>
     (case v of PArr vs \<Rightarrow> length vs \<le> max_batch_items | _ \<Rightarrow> True) \<and> within_limits v \<and> planes_ok v"
  by (auto simp: validate_payload_def bindR_Inr_iff ensure_Inr_iff validate_structure_exact validate_planes_exact)

lemma strict_json_loads_value: "strict_json_loads parse bytes = Inr v \<Longrightarrow> parse bytes = Parsed v"
  by (auto simp: strict_json_loads_def run_from_def bindS_def split: parse_outcome.splits prod.splits sum.splits)

lemma limitedS_chunks: "limitedS (read_chunks limit out cs)"
  by (induction limit out cs rule: read_chunks.induct) (simp_all only: read_chunks.simps limitedS_intros)

lemma limitedS_read: "limitedS (bounded_read chunks declared p)"
  unfolding bounded_read_def
  by (intro limitedS_intros limitedS_chunks) (auto split: option.split intro!: limitedS_intros simp del: thenS_apply)

lemma bounded_read_refused:
  "declared = Some k \<Longrightarrow> int (effective_wire_limit p) < k \<Longrightarrow>
   bounded_read chunks declared p n = (Inl (limit_violation ''wire_bytes_exceeded''), n)"
  by (simp add: bounded_read_def ensure_def)

lemma report_of_limited:
  "limited r \<Longrightarrow> \<exists>rep. report_of candidate r = Inr rep \<and> (pr_accepted rep \<longleftrightarrow> (\<exists>v. r = Inr v)) \<and>
     (\<forall>f \<in> set_option (pr_failure rep). \<not> pf_retryable f \<and> r = Inl (ContractViolation (pf_code f))) \<and>
     (pr_failure rep = None \<longleftrightarrow> pr_accepted rep)"
  by (cases r) (auto simp: limited_def report_of_def accepted_report_def failure_report_def Let_def)

text \<open>The body of a message: its wire bytes, or what they decompress to.\<close>

definition body_of :: "'z zlib \<Rightarrow> string \<Rightarrow> nat list \<Rightarrow> nat list \<Rightarrow> bool" where
  "body_of zl encoding wire bytes \<longleftrightarrow>
     encoding = ''identity'' \<and> bytes = wire \<or>
     encoding = ''gzip'' \<and> bounded_gzip_decode zl wire = Some (Inr bytes)"

lemma body_small:
  assumes "honours_max_length zl" "length wire \<le> max_wire_bytes" "body_of zl encoding wire bytes"
  shows "length bytes \<le> max_decompressed_bytes"
proof -
  have "max_wire_bytes \<le> max_decompressed_bytes" by (simp add: max_wire_bytes_def max_decompressed_bytes_def)
  then show ?thesis using assms gzip_ends [OF assms(1), of wire] by (auto simp: body_of_def)
qed

lemma decode_bytes_ends:
  assumes "honours_max_length zl"
  shows "\<exists>r. decode_bytes zl parse encoding wire = Some r \<and>
    (limited r \<and> (\<forall>v. r \<noteq> Inr v) \<or>
     (\<exists>bytes. body_of zl encoding wire bytes \<and> r = validate_payload parse bytes))"
proof -
  obtain q where q: "bounded_gzip_decode zl wire = Some q" "limited q" using gzip_ends [OF assms] by blast
  show ?thesis
  proof (cases q)
    case (Inl e)
    then show ?thesis using q limitedI(2)
      by (auto simp: decode_bytes_def body_of_def limited_def)
  next
    case (Inr bytes)
    then show ?thesis using q limitedI(2) by (auto simp: decode_bytes_def body_of_def)
  qed
qed

section \<open>What the reader promises\<close>

text \<open>C26: the reader ends within its bounds on every input. For every candidate, with a decompressor
  that honours \<open>max_length\<close> and any parser, every call ends: with a report, or with the
  \<open>ValueError\<close> that the parser raises for an integer with more digits than it converts, in a body
  within the limits of bytes. A failure is never retryable. A message is accepted only if its wire
  bytes are at most 4096, its body at most 8192 and the value parsed from that body within every
  limit, at any depth. The validator with its explicit stack accepts exactly the values within
  these limits, and a declared length above the limit is refused before any chunk is taken.\<close>

theorem reader_bounded:
  assumes "honours_max_length zl" "candidate \<in> set parser_candidates"
  shows "\<exists>res n. decode_and_validate zl parse candidate chunks declared encoding taken = Some (res, n) \<and>
    (case res of
       Inr rep \<Rightarrow>
         (\<forall>f \<in> set_option (pr_failure rep). \<not> pf_retryable f) \<and> (pr_failure rep = None \<longleftrightarrow> pr_accepted rep) \<and>
         (pr_accepted rep \<longrightarrow> length (concat chunks) \<le> max_wire_bytes \<and>
           (\<exists>bytes v. body_of zl encoding (concat chunks) bytes \<and> length bytes \<le> max_decompressed_bytes \<and>
              parse bytes = Parsed v \<and> within_limits v \<and> planes_ok v))
     | Inl e \<Rightarrow> e = ValueError \<and> length (concat chunks) \<le> max_wire_bytes \<and>
         (\<exists>bytes vs. body_of zl encoding (concat chunks) bytes \<and> length bytes \<le> max_decompressed_bytes \<and>
            parse bytes = Overlong vs)) \<and>
    (\<forall>k. declared = Some k \<and> int max_wire_bytes < k \<longrightarrow> (\<exists>rep. res = Inr rep \<and> \<not> pr_accepted rep) \<and> n = taken) \<and>
    (validate_structure w = Inr () \<longleftrightarrow> within_limits w)"
proof -
  obtain p where p: "policy_for candidate = Inr p" using assms(2) by (simp add: policy_for_def)
  obtain r n where read: "bounded_read chunks declared p taken = (r, n)" by fastforce
  show ?thesis
  proof (cases r)
    case (Inl e)
    have "limited (fst (bounded_read chunks declared p taken))"
      using limitedS_read unfolding limitedS_def by blast
    then have "limited (Inl e :: payload res)" by (simp add: read Inl limited_def)
    from report_of_limited [OF this, of candidate] obtain rep where
      rep: "report_of candidate (Inl e :: payload res) = Inr rep" "\<not> pr_accepted rep"
        "\<forall>f \<in> set_option (pr_failure rep). \<not> pf_retryable f" "pr_failure rep \<noteq> None" by auto
    have "n = taken" if "declared = Some k" "int max_wire_bytes < k" for k
    proof -
      have "int (effective_wire_limit p) < k" using wire_limit [of p] that(2) by simp
      from bounded_read_refused [OF that(1) this] show ?thesis using read by simp
    qed
    then show ?thesis using rep by (auto simp: decode_and_validate_def p read Inl validate_structure_exact)
  next
    case (Inr wire)
    note got = bounded_read_returns [OF read [unfolded Inr]]
    have "length wire \<le> effective_wire_limit p" using got by blast
    then have small: "length wire \<le> max_wire_bytes" using wire_limit by (rule order_trans)
    have wire: "wire = concat chunks" using got by blast
    have late: "\<not> (declared = Some k \<and> int max_wire_bytes < k)" for k using got small by auto
    obtain q where q: "decode_bytes zl parse encoding wire = Some q"
      "limited q \<and> (\<forall>v. q \<noteq> Inr v) \<or> (\<exists>bytes. body_of zl encoding wire bytes \<and> q = validate_payload parse bytes)"
      using decode_bytes_ends [OF assms(1)] by blast
    have run: "decode_and_validate zl parse candidate chunks declared encoding taken =
        Some (report_of candidate q, n)"
      by (simp add: decode_and_validate_def p read Inr q(1))
    have sound: "\<exists>bytes v. body_of zl encoding (concat chunks) bytes \<and> length bytes \<le> max_decompressed_bytes \<and>
        parse bytes = Parsed v \<and> within_limits v \<and> planes_ok v" if "q = Inr v" for v
      using q(2) that body_small [OF assms(1) small] strict_json_loads_value validate_payload_Inr_iff [of parse _ v]
      unfolding wire by metis
    show ?thesis
    proof (cases "limited q")
      case True
      obtain rep where rep: "report_of candidate q = Inr rep" "pr_accepted rep \<longleftrightarrow> (\<exists>v. q = Inr v)"
        "\<forall>f \<in> set_option (pr_failure rep). \<not> pf_retryable f" "pr_failure rep = None \<longleftrightarrow> pr_accepted rep"
        using report_of_limited [OF True, of candidate] by auto
      show ?thesis
        by (rule exI [of _ "Inr rep"], rule exI [of _ n])
          (use run rep sound small wire late validate_structure_exact [of w] in auto)
    next
      case False
      then obtain bytes vs where bytes: "body_of zl encoding wire bytes" "q = Inl ValueError" "parse bytes = Overlong vs"
        using q(2) limited_payload [of parse] unfolding limited_or_overlong_def by metis
      then have "report_of candidate q = Inl ValueError" by (simp add: report_of_def)
      then show ?thesis
        using run bytes body_small [OF assms(1) small bytes(1)] small late validate_structure_exact [of w]
        unfolding wire by auto
    qed
  qed
qed

text \<open>A decompressor that gives back its input, as many bytes at a time as it may.\<close>

definition stored_zlib :: "nat list zlib" where
  "stored_zlib = \<lparr>zl_fresh = [], zl_decompress = (\<lambda>z data n. Some (take n data, drop n data)),
     zl_unconsumed_tail = id, zl_flush = (\<lambda>z n. Some ([], z)), zl_eof = (\<lambda>z. z = []), zl_unused_data = (\<lambda>_. [])\<rparr>"

lemma stored_honours: "honours_max_length stored_zlib"
  by (auto simp: honours_max_length_def stored_zlib_def)

text \<open>
  With a parser that converts no integer of more than 4300 digits: a declared length above the
  limit is refused and nothing is taken, and a short body ends with a report.
\<close>

definition digits_parse :: "nat list \<Rightarrow> parse_outcome" where
  "digits_parse bytes = (if 4300 < length bytes then Overlong [] else Parsed PNull)"

theorem reader_bounded_witness:
  "(\<exists>rep n. decode_and_validate stored_zlib digits_parse ''bounded_envelope_codec_profile'' [[0x7B]] (Some 5000)
      ''gzip'' 0 = Some (Inr rep, n) \<and> \<not> pr_accepted rep \<and> n = 0) \<and>
   (\<exists>res n. decode_and_validate stored_zlib digits_parse ''bounded_envelope_codec_profile'' [[0x31], [0x32]] None
      ''identity'' 0 = Some (Inr res, n))"
proof
  have member: "''bounded_envelope_codec_profile'' \<in> set parser_candidates" by (simp add: parser_candidates_def)
  show "\<exists>rep n. decode_and_validate stored_zlib digits_parse ''bounded_envelope_codec_profile'' [[0x7B]] (Some 5000)
      ''gzip'' 0 = Some (Inr rep, n) \<and> \<not> pr_accepted rep \<and> n = 0"
    using reader_bounded [OF stored_honours member, of digits_parse "[[0x7B]]" "Some 5000" "''gzip''" 0]
    by (auto simp: max_wire_bytes_def)
  obtain res n where run: "decode_and_validate stored_zlib digits_parse ''bounded_envelope_codec_profile''
      [[0x31], [0x32]] None ''identity'' 0 = Some (res, n)"
    and ends: "\<forall>e. res = Inl e \<longrightarrow>
      (\<exists>bytes vs. body_of stored_zlib ''identity'' (concat [[0x31], [0x32]]) bytes \<and> digits_parse bytes = Overlong vs)"
    using reader_bounded [OF stored_honours member, of digits_parse "[[0x31], [0x32]]" None "''identity''" 0 PNull]
    by (elim exE conjE) (rule that, assumption, auto split: sum.splits)
  have "\<not> (\<exists>e. res = Inl e)" using ends by (auto simp: body_of_def digits_parse_def)
  then show "\<exists>res n. decode_and_validate stored_zlib digits_parse ''bounded_envelope_codec_profile''
      [[0x31], [0x32]] None ''identity'' 0 = Some (Inr res, n)"
    using run by (cases res) auto
qed

text \<open>
  The interpreter converts integers of at most 4300 digits and a compressed body may decode to
  8192 bytes: on a longer integer the reader raises the error instead of reporting an invalid
  message.
\<close>

lemma overlong_integer_escapes:
  "decode_and_validate stored_zlib (\<lambda>_. Overlong []) ''bounded_envelope_codec_profile'' [[0x31]] None ''gzip'' 0 =
     Some (Inl ValueError, 1)"
proof -
  have gzip: "bounded_gzip_decode stored_zlib [0x31] = Some (Inr [0x31])"
    by (simp add: bounded_gzip_decode_def stored_zlib_def max_decompressed_bytes_def inflate.simps)
  show ?thesis
    by (simp add: decode_and_validate_def policy_for_def parser_candidates_def bounded_read_def decode_bytes_def gzip
        effective_wire_limit_def max_wire_bytes_def validate_payload_def precheck_json_nesting_def max_nesting_depth_def
        strict_json_loads_def run_from_def report_of_def)
qed

text \<open>A message that is accepted, and two that are not.\<close>

lemma reader_examples:
  "map_option fst (decode_and_validate stored_zlib (\<lambda>_. Parsed (PObj [(''kind'', PText ''event'')]))
     ''bounded_envelope_codec_profile'' [[0x7B], [0x7D]] (Some 2) ''identity'' 0) = Some (Inr accepted_report)"
  "map_option fst (decode_and_validate stored_zlib (\<lambda>_. Parsed (PObj [(''kind'', PText ''artifact''), (''inline'', PText ''abc'')]))
     ''bounded_envelope_codec_profile'' [[0x7B], [0x7D]] (Some 2) ''identity'' 0) =
     Some (Inr (failure_report ''bounded_envelope_codec_profile'' ''artifact_reference_required''))"
  "map_option fst (decode_and_validate stored_zlib (\<lambda>_. Parsed (PObj [(''dup'', PInt 0), (''dup'', PInt 1)]))
     ''bounded_envelope_codec_profile'' [[0x7B], [0x7D]] (Some 2) ''identity'' 0) =
     Some (Inr (failure_report ''bounded_envelope_codec_profile'' ''duplicate_json_member''))"
  by (simp_all add: decode_and_validate_def policy_for_def parser_candidates_def bounded_read_def decode_bytes_def
      effective_wire_limit_def max_wire_bytes_def validate_payload_def precheck_json_nesting_def max_nesting_depth_def
      strict_json_loads_def run_from_def strict_pairs_def max_collection_items_def max_total_fields_def
      max_string_chars_def validate_structure_def check_names_def validate_specialized_planes_def check_kind_def
      refers_def report_of_def limit_violation_def)

end
