(* ===== verification/Publication_Policy.thy ===== *)
theory Publication_Policy
  imports Reference_Prelude
begin

text \<open>
  src/tools/assurance/d4a_data_topology/policy_boundary.py: which values may be published, the
  store of governed records, and the mapping of logical deliveries to physical routes. The
  seal of an authority is an object nobody else has: it is the identity of the authority. The
  types of the arguments make the \<open>isinstance\<close> tests hold; a missing authority is \<open>None\<close>.
\<close>

section \<open>Tokens\<close>

definition valid_token :: "string \<Rightarrow> bool" where
  "valid_token s \<longleftrightarrow> s \<noteq> [] \<and> \<not> is_blank (hd s) \<and> \<not> is_blank (last s)"

definition require :: "bool \<Rightarrow> unit res" where
  "require b = ensure b PolicyViolation"

lemma require_simps [simp]: "require True = Inr ()" "require False = Inl PolicyViolation"
  by (simp_all add: require_def)

lemma require_Inr_iff: "require b = Inr u \<longleftrightarrow> b"
  by (simp add: require_def ensure_Inr_iff)

datatype data_classification =
  Public | Internal | ConfidentialTenant | SensitiveOrRegulated | SecretOrCredential

section \<open>Governed records\<close>

record opaque_reference =
  or_tenant_id :: string
  or_record_id :: string
  or_reference_id :: string

definition opaque_reference_ok :: "opaque_reference \<Rightarrow> bool" where
  "opaque_reference_ok r \<longleftrightarrow>
     valid_token (or_tenant_id r) \<and> valid_token (or_record_id r) \<and> valid_token (or_reference_id r)"

type_synonym opaque_store = "opaque_reference \<Rightarrow> nat list option"

definition authorize_reference :: "opaque_reference \<Rightarrow> string \<Rightarrow> unit res" where
  "authorize_reference r tenant = require (valid_token tenant \<and> or_tenant_id r = tenant)"

definition store_put :: "opaque_reference \<Rightarrow> nat list \<Rightarrow> string \<Rightarrow> (opaque_store, unit) op" where
  "store_put r v tenant =
     thenS (liftS (authorize_reference r tenant))
    (thenS (liftS (require (v \<noteq> [])))
    (modifyS (\<lambda>s. s(r \<mapsto> v))))"

definition store_exists :: "opaque_reference \<Rightarrow> string \<Rightarrow> (opaque_store, bool) op" where
  "store_exists r tenant =
     thenS (liftS (authorize_reference r tenant)) (getS (\<lambda>s. s r \<noteq> None))"

definition erase_record :: "opaque_reference \<Rightarrow> string \<Rightarrow> (opaque_store, unit) op" where
  "erase_record r tenant =
     thenS (liftS (authorize_reference r tenant)) (modifyS (\<lambda>s. s(r := None)))"

section \<open>Assignments and approvals\<close>

text \<open>An authority is the identity of its seal.\<close>

type_synonym seal = nat

record raw_assignment =
  as_tenant_id :: string
  as_kind :: string
  as_id :: string
  as_seal :: seal

definition assignment_kinds :: "string set" where
  "assignment_kinds = {''topic'', ''partition''}"

definition issue_assignment :: "seal \<Rightarrow> string \<Rightarrow> string \<Rightarrow> string \<Rightarrow> raw_assignment res" where
  "issue_assignment authority tenant kind i =
     bindR (require (valid_token tenant)) (\<lambda>_.
     bindR (require (kind \<in> assignment_kinds)) (\<lambda>_.
     bindR (require (valid_token i)) (\<lambda>_.
     Inr \<lparr>as_tenant_id = tenant, as_kind = kind, as_id = i, as_seal = authority\<rparr>)))"

definition verifies_assignment :: "seal \<Rightarrow> raw_assignment option \<Rightarrow> string \<Rightarrow> bool" where
  "verifies_assignment authority a tenant \<longleftrightarrow>
     (case a of None \<Rightarrow> False | Some a \<Rightarrow>
        as_seal a = authority \<and> valid_token tenant \<and> as_tenant_id a = tenant \<and>
        as_kind a \<in> assignment_kinds \<and> valid_token (as_id a))"

record erasure_approval =
  ea_tenant_id :: string
  ea_approval_id :: string
  ea_seal :: seal

definition approve_erasure :: "seal \<Rightarrow> string \<Rightarrow> string \<Rightarrow> erasure_approval res" where
  "approve_erasure authority tenant i =
     bindR (require (valid_token tenant)) (\<lambda>_.
     bindR (require (valid_token i)) (\<lambda>_.
     Inr \<lparr>ea_tenant_id = tenant, ea_approval_id = i, ea_seal = authority\<rparr>))"

definition verifies_approval :: "seal \<Rightarrow> erasure_approval option \<Rightarrow> string \<Rightarrow> bool" where
  "verifies_approval authority a tenant \<longleftrightarrow>
     (case a of None \<Rightarrow> False | Some a \<Rightarrow>
        ea_seal a = authority \<and> valid_token tenant \<and> ea_tenant_id a = tenant \<and> valid_token (ea_approval_id a))"

record raw_exception =
  rx_assignment :: "raw_assignment option"
  rx_retention_seconds :: "int option"
  rx_erasure_sla_seconds :: "int option"
  rx_approval :: "erasure_approval option"

definition is_fully_authorized :: "raw_exception \<Rightarrow> string \<Rightarrow> seal option \<Rightarrow> seal option \<Rightarrow> bool" where
  "is_fully_authorized x tenant assignments approvals \<longleftrightarrow>
     (case assignments of None \<Rightarrow> False | Some a \<Rightarrow> verifies_assignment a (rx_assignment x) tenant) \<and>
     (case approvals of None \<Rightarrow> False | Some a \<Rightarrow> verifies_approval a (rx_approval x) tenant) \<and>
     (case (rx_retention_seconds x, rx_erasure_sla_seconds x) of
        (Some r, Some sla) \<Rightarrow> 0 < r \<and> 0 < sla \<and> r \<le> sla
      | _ \<Rightarrow> False)"

section \<open>The policy of publication\<close>

record publication =
  pb_classification :: data_classification
  pb_raw_value :: "nat list option"
  pb_reference :: "opaque_reference option"
  pb_exception :: "raw_exception option"

definition validate_regulated :: "publication \<Rightarrow> string \<Rightarrow> seal option \<Rightarrow> seal option \<Rightarrow> unit res" where
  "validate_regulated p tenant assignments approvals =
     (if pb_raw_value p \<noteq> None then
        bindR (require (pb_reference p = None)) (\<lambda>_.
        require (case pb_exception p of None \<Rightarrow> False
                 | Some x \<Rightarrow> is_fully_authorized x tenant assignments approvals))
      else
        bindR (require (pb_exception p = None)) (\<lambda>_. require (pb_reference p \<noteq> None)))"

definition validate_publication :: "publication \<Rightarrow> string \<Rightarrow> seal option \<Rightarrow> seal option \<Rightarrow> unit res" where
  "validate_publication p tenant assignments approvals =
     bindR (require (valid_token tenant)) (\<lambda>_.
     bindR (require (pb_classification p \<noteq> SecretOrCredential)) (\<lambda>_.
     bindR (require (case pb_reference p of None \<Rightarrow> True | Some r \<Rightarrow> or_tenant_id r = tenant)) (\<lambda>_.
     if pb_classification p = SensitiveOrRegulated then validate_regulated p tenant assignments approvals
     else require (pb_exception p = None))))"

section \<open>Deliveries and routes\<close>

record logical_delivery =
  ld_tenant_id :: string
  ld_contract_name :: string
  ld_contract_version :: int
  ld_identity_scope :: string
  ld_message_id :: string

definition logical_delivery_ok :: "logical_delivery \<Rightarrow> bool" where
  "logical_delivery_ok d \<longleftrightarrow>
     valid_token (ld_tenant_id d) \<and> valid_token (ld_contract_name d) \<and> valid_token (ld_identity_scope d) \<and>
     valid_token (ld_message_id d) \<and> 0 < ld_contract_version d"

definition semantic_identity :: "logical_delivery \<Rightarrow> string \<times> string \<times> int \<times> string \<times> string" where
  "semantic_identity d =
     (ld_tenant_id d, ld_contract_name d, ld_contract_version d, ld_identity_scope d, ld_message_id d)"

record physical_route =
  ro_topic :: string
  ro_consumer_group :: string
  ro_cell :: string

definition physical_route_ok :: "physical_route \<Rightarrow> bool" where
  "physical_route_ok r \<longleftrightarrow> valid_token (ro_topic r) \<and> valid_token (ro_consumer_group r) \<and> valid_token (ro_cell r)"

record tenant_authorization =
  ta_tenant_id :: string
  ta_allowed_contracts :: "string set"

definition authorization_ok :: "tenant_authorization \<Rightarrow> bool" where
  "authorization_ok a \<longleftrightarrow> valid_token (ta_tenant_id a) \<and> (\<forall>c \<in> ta_allowed_contracts a. valid_token c)"

definition authorizes :: "tenant_authorization \<Rightarrow> logical_delivery \<Rightarrow> bool" where
  "authorizes a d \<longleftrightarrow> ta_tenant_id a = ld_tenant_id d \<and> ld_contract_name d \<in> ta_allowed_contracts a"

type_synonym topology = "(string \<times> string) \<Rightarrow> physical_route option"

definition topology_init :: "((string \<times> string) \<times> physical_route) list \<Rightarrow> topology res" where
  "topology_init routes =
     bindR (require (list_all (\<lambda>((t, c), r). valid_token t \<and> valid_token c) routes)) (\<lambda>_.
     Inr (map_of routes))"

definition map_authorized :: "topology \<Rightarrow> logical_delivery \<Rightarrow> tenant_authorization \<Rightarrow> physical_route res" where
  "map_authorized t d a =
     bindR (require (authorizes a d)) (\<lambda>_.
     case t (ld_tenant_id d, ld_contract_name d) of None \<Rightarrow> Inl PolicyViolation | Some r \<Rightarrow> Inr r)"

record logical_result =
  lr_tenant_id :: string
  lr_contract_name :: string
  lr_contract_version :: int
  lr_identity_scope :: string
  lr_message_id :: string
  lr_effect_key :: string

definition logical_result :: "logical_delivery \<Rightarrow> logical_result" where
  "logical_result d =
     \<lparr>lr_tenant_id = ld_tenant_id d, lr_contract_name = ld_contract_name d,
      lr_contract_version = ld_contract_version d, lr_identity_scope = ld_identity_scope d,
      lr_message_id = ld_message_id d,
      lr_effect_key = joined (CHR ''|'') [ld_tenant_id d, ld_contract_name d, ld_identity_scope d, ld_message_id d]\<rparr>"

definition execute_projection ::
  "logical_delivery \<Rightarrow> tenant_authorization \<Rightarrow> topology \<Rightarrow> logical_result res" where
  "execute_projection d a t = bindR (map_authorized t d a) (\<lambda>_. Inr (logical_result d))"

text \<open>The negative control.\<close>

definition execute_coupled ::
  "logical_delivery \<Rightarrow> tenant_authorization \<Rightarrow> topology \<Rightarrow> (logical_result \<times> string) res" where
  "execute_coupled d a t =
     bindR (map_authorized t d a) (\<lambda>r. bindR (execute_projection d a t) (\<lambda>x. Inr (x, ro_topic r)))"

text \<open>The consumer is any function of a delivery, an authorization and a topology.\<close>

definition assert_replacement_mapping ::
  "(logical_delivery \<Rightarrow> tenant_authorization \<Rightarrow> topology \<Rightarrow> 'r res) \<Rightarrow>
   logical_delivery \<Rightarrow> tenant_authorization \<Rightarrow> topology \<Rightarrow> topology \<Rightarrow>
   (physical_route \<times> physical_route \<times> 'r \<times> 'r) res" where
  "assert_replacement_mapping consumer d a first replacement =
     bindR (map_authorized first d a) (\<lambda>r1.
     bindR (map_authorized replacement d a) (\<lambda>r2.
     bindR (ensure (r1 \<noteq> r2) AssertionError) (\<lambda>_.
     bindR (consumer d a first) (\<lambda>x.
     bindR (consumer d a replacement) (\<lambda>y.
     bindR (ensure (x = y) AssertionError) (\<lambda>_. Inr (r1, r2, x, y)))))))"

section \<open>What may be published\<close>

lemma validate_publication_Inr_iff:
  "validate_publication p tenant assignments approvals = Inr () \<longleftrightarrow>
     valid_token tenant \<and> pb_classification p \<noteq> SecretOrCredential \<and>
     (\<forall>r. pb_reference p = Some r \<longrightarrow> or_tenant_id r = tenant) \<and>
     (pb_classification p = SensitiveOrRegulated \<and> pb_raw_value p \<noteq> None \<longrightarrow>
        pb_reference p = None \<and> (\<exists>x. pb_exception p = Some x \<and> is_fully_authorized x tenant assignments approvals)) \<and>
     (pb_classification p = SensitiveOrRegulated \<and> pb_raw_value p = None \<longrightarrow>
        pb_exception p = None \<and> pb_reference p \<noteq> None) \<and>
     (pb_classification p \<noteq> SensitiveOrRegulated \<longrightarrow> pb_exception p = None)"
  unfolding validate_publication_def validate_regulated_def bindR_Inr_iff require_Inr_iff if_Inr_iff
  by (cases "pb_exception p"; cases "pb_reference p"; cases "pb_raw_value p") auto

lemma is_fully_authorizedD:
  assumes "is_fully_authorized x tenant assignments approvals"
  shows "\<exists>a e. rx_assignment x = Some a \<and> rx_approval x = Some e \<and> assignments = Some (as_seal a) \<and>
    approvals = Some (ea_seal e) \<and> as_tenant_id a = tenant \<and> ea_tenant_id e = tenant \<and>
    (\<exists>r sla. rx_retention_seconds x = Some r \<and> rx_erasure_sla_seconds x = Some sla \<and> 0 < r \<and> r \<le> sla)"
  using assms
  by (auto simp: is_fully_authorized_def verifies_assignment_def verifies_approval_def split: option.splits)

text \<open>Raw regulated data leaves only under two authorities of its tenant. A published
  projection is never a secret, its reference belongs to the trusted tenant, and if it is
  regulated and raw then the named assignment authority and the named erasure authority, both
  given, sealed an assignment and an approval of this tenant, and the positive retention
  is within the positive erasure deadline; so with any authority that did not seal them,
  or for any other tenant, the same projection is refused.\<close>

theorem raw_regulated_needs_both:
  assumes "validate_publication p tenant assignments approvals = Inr ()"
    and "pb_classification p = SensitiveOrRegulated" "pb_raw_value p = Some v"
  shows "\<exists>x a e. pb_exception p = Some x \<and> rx_assignment x = Some a \<and> rx_approval x = Some e \<and>
    as_tenant_id a = tenant \<and> ea_tenant_id e = tenant \<and>
    assignments = Some (as_seal a) \<and> approvals = Some (ea_seal e) \<and>
    (\<exists>r sla. rx_retention_seconds x = Some r \<and> rx_erasure_sla_seconds x = Some sla \<and> 0 < r \<and> r \<le> sla) \<and>
    (assignments' \<noteq> assignments \<or> approvals' \<noteq> approvals \<or> tenant' \<noteq> tenant \<longrightarrow>
       validate_publication p tenant' assignments' approvals' = Inl PolicyViolation)"
proof -
  obtain x where x: "pb_exception p = Some x" "is_fully_authorized x tenant assignments approvals"
    using assms unfolding validate_publication_Inr_iff by auto
  obtain a e where parts: "rx_assignment x = Some a" "rx_approval x = Some e" "assignments = Some (as_seal a)"
    "approvals = Some (ea_seal e)" "as_tenant_id a = tenant" "ea_tenant_id e = tenant"
    "\<exists>r sla. rx_retention_seconds x = Some r \<and> rx_erasure_sla_seconds x = Some sla \<and> 0 < r \<and> r \<le> sla"
    using is_fully_authorizedD [OF x(2)] by blast
  have only: "e' = PolicyViolation" if "validate_publication p t b c = Inl e'" for t b c e'
    using that unfolding validate_publication_def validate_regulated_def require_def ensure_def
    by (auto simp: bindR_Inl_iff split: if_splits option.splits)
  have "validate_publication p tenant' assignments' approvals' \<noteq> Inr ()"
    if "assignments' \<noteq> assignments \<or> approvals' \<noteq> approvals \<or> tenant' \<noteq> tenant"
  proof
    assume "validate_publication p tenant' assignments' approvals' = Inr ()"
    then have "is_fully_authorized x tenant' assignments' approvals'"
      using assms(2,3) x(1) unfolding validate_publication_Inr_iff by auto
    then show False using is_fully_authorizedD parts that by fastforce
  qed
  then have "validate_publication p tenant' assignments' approvals' = Inl PolicyViolation"
    if "assignments' \<noteq> assignments \<or> approvals' \<noteq> approvals \<or> tenant' \<noteq> tenant"
    using that only by (cases "validate_publication p tenant' assignments' approvals'") auto
  then show ?thesis using x(1) parts by blast
qed

section \<open>Stores and routes\<close>

lemma erase_is_local:
  assumes "erase_record r tenant s = (Inr (), t)"
  shows "t r = None" and "\<And>q. q \<noteq> r \<Longrightarrow> t q = s q" and "or_tenant_id r = tenant"
  using assms by (auto simp: erase_record_def authorize_reference_def require_Inr_iff split: sum.splits)

lemma foreign_store_refused:
  "or_tenant_id r \<noteq> tenant \<Longrightarrow> store_put r v tenant s = (Inl PolicyViolation, s)"
  "or_tenant_id r \<noteq> tenant \<Longrightarrow> store_exists r tenant s = (Inl PolicyViolation, s)"
  "or_tenant_id r \<noteq> tenant \<Longrightarrow> erase_record r tenant s = (Inl PolicyViolation, s)"
  by (simp_all add: store_put_def store_exists_def erase_record_def authorize_reference_def)

lemma map_authorized_Inr_iff:
  "map_authorized t d a = Inr r \<longleftrightarrow> authorizes a d \<and> t (ld_tenant_id d, ld_contract_name d) = Some r"
  by (auto simp: map_authorized_def bindR_Inr_iff require_Inr_iff option_Inr_iff)

text \<open>The result of a delivery does not depend on its route. For every authorized delivery and any
  two topologies that route it differently, the replacement of one by the other is accepted for
  the consumer of logical projections, with one result on both; for the consumer that gives
  away its topic it is refused with \<open>AssertionError\<close> as soon as the topics differ; and
  neither runs for a delivery its authorization does not cover.\<close>

theorem results_route_neutral:
  assumes "map_authorized t d a = Inr r" "map_authorized u d a = Inr q" "r \<noteq> q"
  shows "assert_replacement_mapping execute_projection d a t u = Inr (r, q, logical_result d, logical_result d) \<and>
    (ro_topic r \<noteq> ro_topic q \<longrightarrow> assert_replacement_mapping execute_coupled d a t u = Inl AssertionError) \<and>
    (\<not> authorizes b d \<longrightarrow> execute_projection d b t = Inl PolicyViolation)"
  using assms
  by (simp add: assert_replacement_mapping_def execute_projection_def execute_coupled_def)
    (simp add: map_authorized_def)

text \<open>Two deliveries of different tenants with the same effect key: the separator is not excluded
  from the parts.\<close>

definition left_delivery :: logical_delivery where
  "left_delivery =
     \<lparr>ld_tenant_id = ''a|b'', ld_contract_name = ''c'', ld_contract_version = 1, ld_identity_scope = ''s'',
      ld_message_id = ''m''\<rparr>"

definition right_delivery :: logical_delivery where
  "right_delivery =
     \<lparr>ld_tenant_id = ''a'', ld_contract_name = ''b|c'', ld_contract_version = 1, ld_identity_scope = ''s'',
      ld_message_id = ''m''\<rparr>"

lemma effect_keys_collide:
  "logical_delivery_ok left_delivery \<and> logical_delivery_ok right_delivery \<and>
   ld_tenant_id left_delivery \<noteq> ld_tenant_id right_delivery \<and>
   lr_effect_key (logical_result left_delivery) = lr_effect_key (logical_result right_delivery)"
  by (simp add: left_delivery_def right_delivery_def logical_delivery_ok_def valid_token_def is_blank_def
      char_class_defs logical_result_def)

text \<open>Without the separator in the parts the key determines them, but not the contract version.\<close>

lemma effect_key_binds:
  assumes "\<forall>x \<in> {ld_tenant_id d, ld_contract_name d, ld_identity_scope d, ld_message_id d}. CHR ''|'' \<notin> set x"
    and "\<forall>x \<in> {ld_tenant_id e, ld_contract_name e, ld_identity_scope e, ld_message_id e}. CHR ''|'' \<notin> set x"
  shows "lr_effect_key (logical_result d) = lr_effect_key (logical_result e) \<longleftrightarrow>
    ld_tenant_id d = ld_tenant_id e \<and> ld_contract_name d = ld_contract_name e \<and>
    ld_identity_scope d = ld_identity_scope e \<and> ld_message_id d = ld_message_id e"
  using assms
    joined_inject [of "[ld_tenant_id d, ld_contract_name d, ld_identity_scope d, ld_message_id d]"
      "[ld_tenant_id e, ld_contract_name e, ld_identity_scope e, ld_message_id e]" "CHR ''|''"]
  by (simp add: logical_result_def del: joined.simps)

section \<open>Concrete publications\<close>

definition sample_assignment :: raw_assignment where
  "sample_assignment = \<lparr>as_tenant_id = ''t'', as_kind = ''topic'', as_id = ''i'', as_seal = 1\<rparr>"

definition sample_approval :: erasure_approval where
  "sample_approval = \<lparr>ea_tenant_id = ''t'', ea_approval_id = ''e'', ea_seal = 2\<rparr>"

definition sample_publication :: publication where
  "sample_publication =
     \<lparr>pb_classification = SensitiveOrRegulated, pb_raw_value = Some [1], pb_reference = None,
      pb_exception = Some \<lparr>rx_assignment = Some sample_assignment, rx_retention_seconds = Some 10,
        rx_erasure_sla_seconds = Some 20, rx_approval = Some sample_approval\<rparr>\<rparr>"

lemma sample_publication_ok: "validate_publication sample_publication ''t'' (Some 1) (Some 2) = Inr ()"
  by (simp add: validate_publication_def validate_regulated_def sample_publication_def sample_assignment_def
      sample_approval_def is_fully_authorized_def verifies_assignment_def verifies_approval_def valid_token_def
      is_blank_def char_class_defs assignment_kinds_def)

theorem raw_regulated_needs_both_witness:
  "validate_publication sample_publication ''t'' (Some 2) (Some 2) = Inl PolicyViolation"
proof -
  have "pb_classification sample_publication = SensitiveOrRegulated" "pb_raw_value sample_publication = Some [1]"
    by (simp_all add: sample_publication_def)
  from raw_regulated_needs_both [OF sample_publication_ok this, of "Some 2" "Some 2" "''t''"] show ?thesis by auto
qed

definition sample_route :: "string \<Rightarrow> physical_route" where
  "sample_route topic = \<lparr>ro_topic = topic, ro_consumer_group = ''g'', ro_cell = ''cell''\<rparr>"

definition sample_rights :: tenant_authorization where
  "sample_rights = \<lparr>ta_tenant_id = ''a'', ta_allowed_contracts = {''b|c''}\<rparr>"

theorem results_route_neutral_witness:
  "assert_replacement_mapping execute_coupled right_delivery sample_rights
     [(''a'', ''b|c'') \<mapsto> sample_route ''x''] [(''a'', ''b|c'') \<mapsto> sample_route ''y''] = Inl AssertionError"
proof -
  have "map_authorized [(''a'', ''b|c'') \<mapsto> sample_route x] right_delivery sample_rights = Inr (sample_route x)" for x
    by (simp add: map_authorized_Inr_iff authorizes_def sample_rights_def right_delivery_def)
  moreover have "sample_route ''x'' \<noteq> sample_route ''y''" "ro_topic (sample_route ''x'') \<noteq> ro_topic (sample_route ''y'')"
    by (simp_all add: sample_route_def)
  ultimately show ?thesis using results_route_neutral by blast
qed

end
