(* ===== verification/Effect_Protection.thy ===== *)
theory Effect_Protection
  imports Reference_Prelude
begin

text \<open>
  src/tools/assurance/d4a_semantic_boundary/effect_protection.py: the guard that records a
  message in an inbox and applies its effect in one transaction, and the check that its
  receipt is backed by committed state. The three tables are maps from their primary keys to
  rows, \<open>sqlite3.IntegrityError\<close> is \<open>OtherError\<close>, and \<open>sha\<close> is the hexadecimal SHA-256 digest of
  a sequence of bytes.
\<close>

section \<open>The tables\<close>

type_synonym message_identity = "string \<times> string \<times> string"

record responsibility_receipt =
  dr_identity :: message_identity
  dr_contract_name :: string
  dr_contract_version :: string
  dr_receipt_id :: string
  dr_semantic_digest :: string
  dr_effect_key :: string

record inbox_row =
  ix_contract_name :: string
  ix_contract_version :: string
  ix_semantic_digest :: string

record effect_row =
  ef_identity :: message_identity
  ef_contract_name :: string
  ef_contract_version :: string
  ef_payload :: string
  ef_apply_count :: int

record receipt_row =
  dc_identity :: message_identity
  dc_contract_name :: string
  dc_contract_version :: string
  dc_semantic_digest :: string
  dc_effect_key :: string

record guard_state =
  gd_inbox :: "message_identity \<Rightarrow> inbox_row option"
  gd_effects :: "string \<Rightarrow> effect_row option"
  gd_receipts :: "string \<Rightarrow> receipt_row option"

definition guard_empty :: guard_state where
  "guard_empty = \<lparr>gd_inbox = Map.empty, gd_effects = Map.empty, gd_receipts = Map.empty\<rparr>"

definition bar_digest :: "(nat list \<Rightarrow> string) \<Rightarrow> string list \<Rightarrow> string" where
  "bar_digest sha parts = sha (utf8 (joined (CHR ''|'') parts))"

definition semantic_digest :: "(nat list \<Rightarrow> string) \<Rightarrow> string \<Rightarrow> string \<Rightarrow> string \<Rightarrow> string" where
  "semantic_digest sha name version payload = bar_digest sha [name, version, payload]"

definition receipt_id_of :: "(nat list \<Rightarrow> string) \<Rightarrow> message_identity \<Rightarrow> string \<Rightarrow> string" where
  "receipt_id_of sha i digest =
     (case i of (c, p, m) \<Rightarrow> bar_digest sha [c, p, m, digest, ''d4a-responsibility-v2''])"

definition effect_key_of :: "(nat list \<Rightarrow> string) \<Rightarrow> message_identity \<Rightarrow> string" where
  "effect_key_of sha i = (case i of (c, p, m) \<Rightarrow> bar_digest sha [c, p, m, ''d4a-effect-v1''])"

section \<open>The guard\<close>

text \<open>The insertions of a first delivery.\<close>

definition insert_first ::
  "(nat list \<Rightarrow> string) \<Rightarrow> message_identity \<Rightarrow> string \<Rightarrow> string \<Rightarrow> string \<Rightarrow> (guard_state, unit) op" where
  "insert_first sha i name version payload =
     thenS (modifyS (\<lambda>s. s\<lparr>gd_inbox := (gd_inbox s)(i \<mapsto>
       \<lparr>ix_contract_name = name, ix_contract_version = version,
        ix_semantic_digest = semantic_digest sha name version payload\<rparr>)\<rparr>))
    (bindS (getS (\<lambda>s. gd_effects s (effect_key_of sha i))) (\<lambda>taken.
     thenS (ensureS (taken = None) OtherError)
    (modifyS (\<lambda>s. s\<lparr>gd_effects := (gd_effects s)(effect_key_of sha i \<mapsto>
       \<lparr>ef_identity = i, ef_contract_name = name, ef_contract_version = version, ef_payload = payload,
        ef_apply_count = 1\<rparr>)\<rparr>))))"

definition insert_receipt ::
  "(nat list \<Rightarrow> string) \<Rightarrow> message_identity \<Rightarrow> string \<Rightarrow> string \<Rightarrow> string \<Rightarrow> (guard_state, unit) op" where
  "insert_receipt sha i name version digest =
     modifyS (\<lambda>s. if gd_receipts s (receipt_id_of sha i digest) \<noteq> None then s
       else s\<lparr>gd_receipts := (gd_receipts s)(receipt_id_of sha i digest \<mapsto>
         \<lparr>dc_identity = i, dc_contract_name = name, dc_contract_version = version, dc_semantic_digest = digest,
          dc_effect_key = effect_key_of sha i\<rparr>)\<rparr>)"

definition store_message ::
  "(nat list \<Rightarrow> string) \<Rightarrow> message_identity \<Rightarrow> string \<Rightarrow> string \<Rightarrow> string \<Rightarrow> (guard_state, unit) op" where
  "store_message sha i name version payload =
     transaction
      (bindS (getS (\<lambda>s. gd_inbox s i)) (\<lambda>existing.
       thenS (case existing of
           None \<Rightarrow> insert_first sha i name version payload
         | Some x \<Rightarrow> ensureS (x = \<lparr>ix_contract_name = name, ix_contract_version = version,
             ix_semantic_digest = semantic_digest sha name version payload\<rparr>) ValueError)
      (insert_receipt sha i name version (semantic_digest sha name version payload))))"

text \<open>The row of the join of the three tables, and the comparisons made with it.\<close>

definition backing_row ::
  "responsibility_receipt \<Rightarrow> guard_state \<Rightarrow> (receipt_row \<times> inbox_row \<times> effect_row) option" where
  "backing_row r s =
     (case gd_receipts s (dr_receipt_id r) of
        None \<Rightarrow> None
      | Some q \<Rightarrow>
          if dc_identity q = dr_identity r \<and> dc_contract_name q = dr_contract_name r \<and>
             dc_contract_version q = dr_contract_version r \<and> dc_effect_key q = dr_effect_key r
          then (case (gd_inbox s (dc_identity q), gd_effects s (dc_effect_key q)) of
                  (Some x, Some e) \<Rightarrow> Some (q, x, e)
                | _ \<Rightarrow> None)
          else None)"

definition assert_durable :: "(nat list \<Rightarrow> string) \<Rightarrow> responsibility_receipt \<Rightarrow> (guard_state, unit) op" where
  "assert_durable sha r =
     bindS (getS (backing_row r)) (\<lambda>row.
     case row of
       None \<Rightarrow> raiseS PermissionError
     | Some (q, x, e) \<Rightarrow>
         thenS (ensureS (dc_semantic_digest q = dr_semantic_digest r \<and>
           ix_semantic_digest x = dr_semantic_digest r) PermissionError)
        (thenS (ensureS ((dc_contract_name q, dc_contract_version q) =
           (dr_contract_name r, dr_contract_version r)) PermissionError)
        (thenS (ensureS ((ix_contract_name x, ix_contract_version x) =
           (dr_contract_name r, dr_contract_version r)) PermissionError)
        (thenS (ensureS ((ef_contract_name e, ef_contract_version e) =
           (dr_contract_name r, dr_contract_version r)) PermissionError)
        (thenS (ensureS (ef_identity e = dr_identity r) PermissionError)
        (ensureS (semantic_digest sha (ef_contract_name e) (ef_contract_version e) (ef_payload e) =
             dr_semantic_digest r \<and> ef_apply_count e = 1) PermissionError))))))"

definition receipt_for ::
  "(nat list \<Rightarrow> string) \<Rightarrow> message_identity \<Rightarrow> string \<Rightarrow> string \<Rightarrow> string \<Rightarrow> responsibility_receipt" where
  "receipt_for sha i name version payload =
     \<lparr>dr_identity = i, dr_contract_name = name, dr_contract_version = version,
      dr_receipt_id = receipt_id_of sha i (semantic_digest sha name version payload),
      dr_semantic_digest = semantic_digest sha name version payload, dr_effect_key = effect_key_of sha i\<rparr>"

definition record_and_apply ::
  "(nat list \<Rightarrow> string) \<Rightarrow> message_identity \<Rightarrow> string \<Rightarrow> string \<Rightarrow> string \<Rightarrow>
   (guard_state, responsibility_receipt) op" where
  "record_and_apply sha i name version payload =
     thenS (ensureS (fst (snd i) \<noteq> []) ValueError)
    (thenS (ensureS (name \<noteq> [] \<and> version \<noteq> []) ValueError)
    (thenS (store_message sha i name version payload)
    (thenS (assert_durable sha (receipt_for sha i name version payload))
    (returnS (receipt_for sha i name version payload)))))"

definition observe_effect :: "(nat list \<Rightarrow> string) \<Rightarrow> string \<Rightarrow> (guard_state, effect_row \<times> string) op" where
  "observe_effect sha key =
     bindS (getS (\<lambda>s. gd_effects s key)) (\<lambda>row.
     case row of
       None \<Rightarrow> raiseS LookupError
     | Some e \<Rightarrow> returnS (e, semantic_digest sha (ef_contract_name e) (ef_contract_version e) (ef_payload e)))"

section \<open>Runs\<close>

inductive guard_step :: "(nat list \<Rightarrow> string) \<Rightarrow> guard_state \<Rightarrow> guard_state \<Rightarrow> bool"
  for sha :: "nat list \<Rightarrow> string" where
  gs_record: "record_and_apply sha i name version payload s = (r, t) \<Longrightarrow> guard_step sha s t"
| gs_assert: "assert_durable sha q s = (u, t) \<Longrightarrow> guard_step sha s t"
| gs_observe: "observe_effect sha key s = (e, t) \<Longrightarrow> guard_step sha s t"

declare split_paired_All [simp del] split_paired_Ex [simp del]

text \<open>Rows are added, and never changed or taken away.\<close>

definition extends :: "guard_state \<Rightarrow> guard_state \<Rightarrow> bool" where
  "extends s t \<longleftrightarrow>
     gd_inbox s \<subseteq>\<^sub>m gd_inbox t \<and> gd_effects s \<subseteq>\<^sub>m gd_effects t \<and> gd_receipts s \<subseteq>\<^sub>m gd_receipts t"

lemma extends_refl [simp]: "extends s s"
  by (simp add: extends_def)

lemma extends_trans: "extends s t \<Longrightarrow> extends t u \<Longrightarrow> extends s u"
  unfolding extends_def by (blast intro: map_le_trans)

lemma assert_durable_same: "snd (assert_durable sha r s) = s"
  by (auto simp: assert_durable_def ensure_def split: option.split prod.split)

lemma observe_effect_same: "snd (observe_effect sha k s) = s"
  by (auto simp: observe_effect_def split: option.split)

lemma map_le_fresh: "m k = None \<Longrightarrow> m \<subseteq>\<^sub>m m(k \<mapsto> v)"
  by (auto simp: map_le_def)

lemma map_leD: "m \<subseteq>\<^sub>m n \<Longrightarrow> m k = Some v \<Longrightarrow> n k = Some v"
  by (metis domI map_le_def)

lemma insert_receipt_cases:
  "\<exists>t. insert_receipt sha i name version digest s = (Inr (), t) \<and> extends s t \<and>
     gd_inbox t = gd_inbox s \<and> gd_effects t = gd_effects s"
  by (auto simp: insert_receipt_def extends_def intro: map_le_fresh)

lemma insert_first_cases:
  "gd_inbox s i = None \<Longrightarrow>
     (\<exists>t. insert_first sha i name version payload s = (Inr (), t) \<and> extends s t \<and>
       gd_inbox t i = Some \<lparr>ix_contract_name = name, ix_contract_version = version,
         ix_semantic_digest = semantic_digest sha name version payload\<rparr>) \<or>
     (\<exists>e t. insert_first sha i name version payload s = (Inl e, t))"
  by (cases "gd_effects s (effect_key_of sha i)")
    (auto simp: insert_first_def extends_def intro: map_le_fresh)

lemma store_message_cases:
  assumes "store_message sha i name version payload s = (r, t)"
  shows "(\<exists>e. r = Inl e \<and> t = s) \<or>
    (r = Inr () \<and> extends s t \<and>
     gd_inbox t i = Some \<lparr>ix_contract_name = name, ix_contract_version = version,
       ix_semantic_digest = semantic_digest sha name version payload\<rparr> \<and>
     (gd_inbox s i \<noteq> None \<longrightarrow> gd_effects t = gd_effects s))"
proof (cases "gd_inbox s i")
  case None
  from insert_first_cases [OF this, of sha name version payload] show ?thesis
  proof (elim disjE exE conjE)
    fix u
    assume u: "insert_first sha i name version payload s = (Inr (), u)" "extends s u"
      "gd_inbox u i = Some \<lparr>ix_contract_name = name, ix_contract_version = version,
         ix_semantic_digest = semantic_digest sha name version payload\<rparr>"
    obtain w where "insert_receipt sha i name version (semantic_digest sha name version payload) u = (Inr (), w)"
      "extends u w" "gd_inbox w = gd_inbox u" using insert_receipt_cases by blast
    then show ?thesis using assms u None extends_trans [of s u w] by (simp add: store_message_def)
  next
    fix e u
    assume "insert_first sha i name version payload s = (Inl e, u)"
    then show ?thesis using assms None by (auto simp: store_message_def)
  qed
next
  case (Some x)
  obtain w where "insert_receipt sha i name version (semantic_digest sha name version payload) s = (Inr (), w)"
    "extends s w" "gd_inbox w = gd_inbox s" "gd_effects w = gd_effects s" using insert_receipt_cases by blast
  then show ?thesis using assms Some by (auto simp: store_message_def ensure_def transaction_def split: if_splits)
qed

lemma record_and_apply_same:
  "record_and_apply sha i name version payload s = (r, t) \<Longrightarrow>
     t = s \<or> t = snd (store_message sha i name version payload s)"
  using assert_durable_same [of sha "receipt_for sha i name version payload" "snd (store_message sha i name version payload s)"]
  by (cases "store_message sha i name version payload s")
    (auto simp: record_and_apply_def ensure_def bindS_def split: if_splits sum.splits prod.splits)

lemma record_extends: "record_and_apply sha i name version payload s = (r, t) \<Longrightarrow> extends s t"
  using record_and_apply_same [of sha i name version payload s r t]
    store_message_cases [of sha i name version payload s] by (metis extends_refl prod.collapse)

lemma guard_step_extends: "guard_step sha s t \<Longrightarrow> extends s t"
  by (erule guard_step.cases)
    (use record_extends assert_durable_same observe_effect_same extends_refl in \<open>metis snd_conv\<close>)+

lemma guard_run_extends: "(guard_step sha)\<^sup>*\<^sup>* s t \<Longrightarrow> extends s t"
  by (induction rule: rtranclp_induct) (auto intro: extends_trans guard_step_extends)

lemma backing_row_extends: "extends s t \<Longrightarrow> backing_row r s = Some x \<Longrightarrow> backing_row r t = Some x"
  by (auto simp: backing_row_def extends_def split: option.splits if_splits dest: map_leD)

lemma assert_durable_extends:
  assumes "extends s t" "assert_durable sha r s = (Inr (), s)"
  shows "assert_durable sha r t = (Inr (), t)"
proof -
  obtain x where "backing_row r s = Some x"
    using assms(2) by (cases "backing_row r s") (auto simp: assert_durable_def)
  moreover from this have "backing_row r t = Some x" by (rule backing_row_extends [OF assms(1)])
  ultimately show ?thesis using assms(2) by (auto simp: assert_durable_def ensure_def split: prod.splits if_splits)
qed

lemma record_returns:
  assumes "record_and_apply sha i name version payload s = (Inr r, t)"
  shows "r = receipt_for sha i name version payload" and "assert_durable sha r t = (Inr (), t)"
    and "gd_inbox t i = Some \<lparr>ix_contract_name = name, ix_contract_version = version,
       ix_semantic_digest = semantic_digest sha name version payload\<rparr>"
    and "gd_inbox s i \<noteq> None \<Longrightarrow> gd_effects t = gd_effects s" and "fst (snd i) \<noteq> [] \<and> name \<noteq> [] \<and> version \<noteq> []"
proof -
  obtain u where run: "store_message sha i name version payload s = (Inr (), u)"
      "assert_durable sha (receipt_for sha i name version payload) u = (Inr (), t)"
    and r: "r = receipt_for sha i name version payload" "fst (snd i) \<noteq> [] \<and> name \<noteq> [] \<and> version \<noteq> []"
    using assms unfolding record_and_apply_def sequence_returns liftS_returns_iff ensure_Inr_iff op_simps
      prod.inject sum.inject by blast
  have "t = u" using assert_durable_same [of sha "receipt_for sha i name version payload" u] run(2) by simp
  then show "r = receipt_for sha i name version payload" "assert_durable sha r t = (Inr (), t)"
    "gd_inbox t i = Some \<lparr>ix_contract_name = name, ix_contract_version = version,
       ix_semantic_digest = semantic_digest sha name version payload\<rparr>"
    "gd_inbox s i \<noteq> None \<Longrightarrow> gd_effects t = gd_effects s" "fst (snd i) \<noteq> [] \<and> name \<noteq> [] \<and> version \<noteq> []"
    using run r store_message_cases [OF run(1)] by auto
qed

lemma durable_effect:
  assumes "assert_durable sha r s = (Inr (), t)"
  shows "\<exists>e. gd_effects s (dr_effect_key r) = Some e \<and> ef_identity e = dr_identity r \<and>
    ef_contract_name e = dr_contract_name r \<and> ef_contract_version e = dr_contract_version r \<and>
    semantic_digest sha (ef_contract_name e) (ef_contract_version e) (ef_payload e) = dr_semantic_digest r \<and>
    ef_apply_count e = 1"
  using assms
  by (auto simp: assert_durable_def backing_row_def ensure_def split: option.splits if_splits)

lemma semantic_digest_binds:
  assumes "inj_on sha {utf8 (joined (CHR ''|'') [n, v, p]), utf8 (joined (CHR ''|'') [n, v, q])}"
  shows "semantic_digest sha n v p = semantic_digest sha n v q \<longleftrightarrow> p = q"
  using inj_on_eq_iff [OF assms, of "utf8 (joined (CHR ''|'') [n, v, p])" "utf8 (joined (CHR ''|'') [n, v, q])"]
  by (simp add: semantic_digest_def bar_digest_def utf8_injective)

lemma conflict_refused:
  assumes "gd_inbox s i = Some x" "x \<noteq> \<lparr>ix_contract_name = n, ix_contract_version = v,
      ix_semantic_digest = semantic_digest sha n v p\<rparr>"
  shows "record_and_apply sha i n v p s = (Inl ValueError, s)"
  using assms by (simp add: record_and_apply_def store_message_def ensure_def)

section \<open>What the guard promises\<close>

lemma record_again:
  assumes "gd_inbox s i = Some \<lparr>ix_contract_name = n, ix_contract_version = v,
      ix_semantic_digest = semantic_digest sha n v p\<rparr>"
    and "assert_durable sha (receipt_for sha i n v p) s = (Inr (), s)"
    and "fst (snd i) \<noteq> [] \<and> n \<noteq> [] \<and> v \<noteq> []"
  shows "record_and_apply sha i n v p s = (Inr (receipt_for sha i n v p), s)"
proof -
  have "gd_receipts s (receipt_id_of sha i (semantic_digest sha n v p)) \<noteq> None"
    using assms(2) by (auto simp: assert_durable_def backing_row_def receipt_for_def split: option.splits)
  then have "store_message sha i n v p s = (Inr (), s)"
    using assms(1) by (simp add: store_message_def insert_receipt_def transaction_def ensure_def)
  then show ?thesis using assms(2,3) by (simp add: record_and_apply_def ensure_def)
qed

text \<open>C17: the effect of a message is applied once and stays. After a message was recorded, and any
  further calls, its receipt is backed by the committed state and the effect under its key is
  that of the message, applied once, with a payload of the recorded digest. Recording the same
  identity again is idempotent: with the contract, the version and the digest of the first
  time it returns the same receipt, and with any other it is refused with \<open>ValueError\<close>; either
  way nothing is written.\<close>

theorem effect_applied_once:
  assumes "record_and_apply sha i n v p s = (Inr r, t)" "(guard_step sha)\<^sup>*\<^sup>* t u"
  shows "assert_durable sha r u = (Inr (), u) \<and>
    (\<exists>e. gd_effects u (effect_key_of sha i) = Some e \<and> ef_identity e = i \<and> ef_contract_name e = n \<and>
       ef_contract_version e = v \<and> ef_apply_count e = 1 \<and>
       semantic_digest sha n v (ef_payload e) = semantic_digest sha n v p) \<and>
    record_and_apply sha i n' v' p' u =
      (if n' = n \<and> v' = v \<and> semantic_digest sha n' v' p' = semantic_digest sha n v p
       then Inr r else Inl ValueError, u)"
proof -
  note first = record_returns [OF assms(1)]
  have ext: "extends t u" by (rule guard_run_extends [OF assms(2)])
  have durable: "assert_durable sha r u = (Inr (), u)" by (rule assert_durable_extends [OF ext first(2)])
  have inbox: "gd_inbox u i = Some \<lparr>ix_contract_name = n, ix_contract_version = v,
      ix_semantic_digest = semantic_digest sha n v p\<rparr>"
    using ext first(3) unfolding extends_def by (blast dest: map_leD)
  have "record_and_apply sha i n' v' p' u =
      (if n' = n \<and> v' = v \<and> semantic_digest sha n' v' p' = semantic_digest sha n v p
       then Inr r else Inl ValueError, u)"
  proof (cases "n' = n \<and> v' = v \<and> semantic_digest sha n' v' p' = semantic_digest sha n v p")
    case True
    then have digest: "n' = n" "v' = v" "semantic_digest sha n v p' = semantic_digest sha n v p" by auto
    then have same: "receipt_for sha i n' v' p' = r" using first(1) by (simp add: receipt_for_def)
    have "record_and_apply sha i n' v' p' u = (Inr (receipt_for sha i n' v' p'), u)"
      by (rule record_again) (use inbox durable first(5) digest same in simp_all)
    then show ?thesis using digest same by simp
  next
    case False
    have "record_and_apply sha i n' v' p' u = (Inl ValueError, u)"
      by (rule conflict_refused [OF inbox]) (use False in auto)
    then show ?thesis using False by simp
  qed
  moreover have "\<exists>e. gd_effects u (effect_key_of sha i) = Some e \<and> ef_identity e = i \<and> ef_contract_name e = n \<and>
       ef_contract_version e = v \<and> ef_apply_count e = 1 \<and>
       semantic_digest sha n v (ef_payload e) = semantic_digest sha n v p"
    using durable_effect [OF durable] first(1) by (auto simp: receipt_for_def)
  ultimately show ?thesis using durable by blast
qed

section \<open>A message and its redelivery\<close>

definition text_sha :: "nat list \<Rightarrow> string" where
  "text_sha bs = map char_of bs"

definition sample_message :: message_identity where
  "sample_message = (''c'', ''s'', ''m'')"

lemma record_sample:
  "\<exists>t. record_and_apply text_sha sample_message ''n'' ''v'' ''p'' guard_empty =
     (Inr (receipt_for text_sha sample_message ''n'' ''v'' ''p''), t)"
  by (simp add: record_and_apply_def store_message_def insert_first_def insert_receipt_def guard_empty_def
      sample_message_def assert_durable_def backing_row_def receipt_for_def)

theorem effect_applied_once_witness:
  "\<exists>t. fst (record_and_apply text_sha sample_message ''n'' ''v'' ''p'' guard_empty) =
       Inr (receipt_for text_sha sample_message ''n'' ''v'' ''p'') \<and>
     record_and_apply text_sha sample_message ''n'' ''v'' ''p'' t =
       (Inr (receipt_for text_sha sample_message ''n'' ''v'' ''p''), t) \<and>
     record_and_apply text_sha sample_message ''n'' ''w'' ''p'' t = (Inl ValueError, t)"
proof -
  obtain t where t: "record_and_apply text_sha sample_message ''n'' ''v'' ''p'' guard_empty =
     (Inr (receipt_for text_sha sample_message ''n'' ''v'' ''p''), t)" using record_sample by blast
  note promise = effect_applied_once [OF t rtranclp.rtrancl_refl]
  have "record_and_apply text_sha sample_message ''n'' ''w'' ''p'' t = (Inl ValueError, t)"
    using promise [of "''n''" "''w''" "''p''"] by simp
  moreover have "record_and_apply text_sha sample_message ''n'' ''v'' ''p'' t =
      (Inr (receipt_for text_sha sample_message ''n'' ''v'' ''p''), t)"
    using promise [of "''n''" "''v''" "''p''"] by simp
  ultimately show ?thesis using t by (intro exI [of _ t]) simp
qed

end
