(* ===== verification/Broker_Boundary.thy ===== *)
theory Broker_Boundary
  imports Effect_Protection
begin

text \<open>
  src/tools/assurance/d4a_semantic_boundary/broker_boundary.py: the two transports behind the
  broker port, the paths that use it, and the transcript that compares the transports. A
  physical record keeps its headers as a dictionary; a trace only grows and is never read.
\<close>

section \<open>Messages\<close>

record logical_message =
  lg_contract_name :: string
  lg_contract_version :: string
  lg_message_id :: string
  lg_tenant_scope :: string
  lg_payload :: string

record logical_receipt =
  lc_message_id :: string
  lc_accepted :: bool

definition logical_semantic_digest :: "(nat list \<Rightarrow> string) \<Rightarrow> logical_message \<Rightarrow> string" where
  "logical_semantic_digest sha m = bar_digest sha [lg_contract_name m, lg_contract_version m, lg_payload m]"

text \<open>What an acknowledgement names, besides its consumer.\<close>

record acknowledgement =
  ak_scope :: string
  ak_message_id :: string
  ak_contract_name :: string
  ak_contract_version :: string
  ak_digest :: string

definition matches_current :: "(nat list \<Rightarrow> string) \<Rightarrow> acknowledgement \<Rightarrow> logical_message \<Rightarrow> bool" where
  "matches_current sha a m \<longleftrightarrow>
     (lg_tenant_scope m, lg_message_id m) = (ak_scope a, ak_message_id a) \<and>
     (lg_contract_name m, lg_contract_version m) = (ak_contract_name a, ak_contract_version a) \<and>
     logical_semantic_digest sha m = ak_digest a"

section \<open>The Kafka-shaped transport\<close>

record kafka_record =
  kr_topic :: string
  kr_partition :: nat
  kr_offset :: "nat option"
  kr_headers :: "(string, string) dict"
  kr_value :: string

datatype kafka_trace = KPublished string nat "nat option" | KGroup string | KAcked string

record kafka_state =
  kf_queue :: "kafka_record list"
  kf_consumer :: "string option"
  kf_trace :: "kafka_trace list"

definition kafka_init :: kafka_state where
  "kafka_init = \<lparr>kf_queue = [], kf_consumer = None, kf_trace = []\<rparr>"

definition kafka_encode :: "logical_message \<Rightarrow> kafka_record" where
  "kafka_encode m =
     \<lparr>kr_topic = ''evidence.'' @ lg_contract_name m @ ''.'' @ lg_contract_version m, kr_partition = 0,
      kr_offset = None,
      kr_headers = [(''contract_name'', lg_contract_name m), (''contract_version'', lg_contract_version m),
        (''message_id'', lg_message_id m), (''tenant_scope'', lg_tenant_scope m)],
      kr_value = lg_payload m\<rparr>"

definition header :: "kafka_record \<Rightarrow> string \<Rightarrow> string res" where
  "header r k =
     (case map_of (kr_headers r) k of None \<Rightarrow> Inl ValueError
      | Some x \<Rightarrow> bindR (ensure (x \<noteq> []) ValueError) (\<lambda>_. Inr x))"

definition kafka_decode :: "kafka_record \<Rightarrow> logical_message res" where
  "kafka_decode r =
     bindR (header r ''contract_name'') (\<lambda>name.
     bindR (header r ''contract_version'') (\<lambda>version.
     bindR (header r ''message_id'') (\<lambda>i.
     bindR (header r ''tenant_scope'') (\<lambda>scope.
     Inr \<lparr>lg_contract_name = name, lg_contract_version = version, lg_message_id = i, lg_tenant_scope = scope,
       lg_payload = kr_value r\<rparr>))))"

definition kafka_publish :: "logical_message \<Rightarrow> (kafka_state, logical_receipt) op" where
  "kafka_publish m =
     bindS (getS (\<lambda>s. length (kf_queue s))) (\<lambda>n.
     let r = (kafka_encode m)\<lparr>kr_offset := Some n\<rparr>
     in thenS (modifyS (\<lambda>s. s\<lparr>kf_queue := kf_queue s @ [r],
            kf_trace := kf_trace s @ [KPublished (kr_topic r) (kr_partition r) (kr_offset r)]\<rparr>))
       (returnS \<lparr>lc_message_id = lg_message_id m, lc_accepted = True\<rparr>))"

definition kafka_receive :: "string \<Rightarrow> (kafka_state, logical_message) op" where
  "kafka_receive c =
     bindS (getS id) (\<lambda>s.
     thenS (ensureS (kf_queue s \<noteq> []) LookupError)
    (thenS (if kf_consumer s = None then modifyS (\<lambda>s. s\<lparr>kf_consumer := Some c\<rparr>)
            else ensureS (kf_consumer s = Some c) PermissionError)
    (thenS (modifyS (\<lambda>s. s\<lparr>kf_trace := kf_trace s @ [KGroup (''evidence.'' @ c)]\<rparr>))
    (liftS (kafka_decode (hd (kf_queue s)))))))"

definition kafka_acknowledge ::
  "(nat list \<Rightarrow> string) \<Rightarrow> string \<Rightarrow> acknowledgement \<Rightarrow> (kafka_state, unit) op" where
  "kafka_acknowledge sha c a =
     bindS (getS id) (\<lambda>s.
     thenS (ensureS (kf_queue s \<noteq> []) ValueError)
    (thenS (ensureS (kf_consumer s = Some c) ValueError)
    (bindS (liftS (kafka_decode (hd (kf_queue s)))) (\<lambda>current.
     thenS (ensureS (matches_current sha a current) ValueError)
    (modifyS (\<lambda>s. s\<lparr>kf_queue := List.tl (kf_queue s), kf_consumer := None,
       kf_trace := kf_trace s @ [KAcked (''evidence.'' @ c)]\<rparr>))))))"

section \<open>The alternate transport\<close>

datatype mailbox_trace = MMailbox string | MSubscription string | MAcked string

record mailbox_state =
  mb_queue :: "logical_message list"
  mb_consumer :: "string option"
  mb_trace :: "mailbox_trace list"

definition mailbox_init :: mailbox_state where
  "mailbox_init = \<lparr>mb_queue = [], mb_consumer = None, mb_trace = []\<rparr>"

definition mailbox_publish :: "logical_message \<Rightarrow> (mailbox_state, logical_receipt) op" where
  "mailbox_publish m =
     thenS (modifyS (\<lambda>s. s\<lparr>mb_queue := mb_queue s @ [m],
       mb_trace := mb_trace s @ [MMailbox (lg_contract_name m @ '':'' @ lg_contract_version m)]\<rparr>))
    (returnS \<lparr>lc_message_id = lg_message_id m, lc_accepted = True\<rparr>)"

definition mailbox_receive :: "string \<Rightarrow> (mailbox_state, logical_message) op" where
  "mailbox_receive c =
     bindS (getS id) (\<lambda>s.
     thenS (ensureS (mb_queue s \<noteq> []) LookupError)
    (thenS (if mb_consumer s = None then modifyS (\<lambda>s. s\<lparr>mb_consumer := Some c\<rparr>)
            else ensureS (mb_consumer s = Some c) PermissionError)
    (thenS (modifyS (\<lambda>s. s\<lparr>mb_trace := mb_trace s @ [MSubscription c]\<rparr>))
    (returnS (hd (mb_queue s))))))"

definition mailbox_acknowledge ::
  "(nat list \<Rightarrow> string) \<Rightarrow> string \<Rightarrow> acknowledgement \<Rightarrow> (mailbox_state, unit) op" where
  "mailbox_acknowledge sha c a =
     bindS (getS id) (\<lambda>s.
     thenS (ensureS (mb_queue s \<noteq> []) ValueError)
    (thenS (ensureS (mb_consumer s = Some c) ValueError)
    (thenS (ensureS (matches_current sha a (hd (mb_queue s))) ValueError)
    (modifyS (\<lambda>s. s\<lparr>mb_queue := List.tl (mb_queue s), mb_consumer := None,
       mb_trace := mb_trace s @ [MAcked c]\<rparr>)))))"

section \<open>The contract of the port\<close>

text \<open>What the port promises: a queue of messages of which the first may be held by a consumer.\<close>

type_synonym port_view = "logical_message list \<times> string option"

definition port_publish :: "logical_message \<Rightarrow> (port_view, logical_receipt) op" where
  "port_publish m = (\<lambda>(q, h). (Inr \<lparr>lc_message_id = lg_message_id m, lc_accepted = True\<rparr>, (q @ [m], h)))"

definition port_receive :: "string \<Rightarrow> (port_view, logical_message) op" where
  "port_receive c = (\<lambda>(q, h).
     case q of
       [] \<Rightarrow> (Inl LookupError, (q, h))
     | m # _ \<Rightarrow> (if h = None \<or> h = Some c then (Inr m, (q, Some c)) else (Inl PermissionError, (q, h))))"

definition port_acknowledge :: "(nat list \<Rightarrow> string) \<Rightarrow> string \<Rightarrow> acknowledgement \<Rightarrow> (port_view, unit) op" where
  "port_acknowledge sha c a = (\<lambda>(q, h).
     case q of
       [] \<Rightarrow> (Inl ValueError, (q, h))
     | m # ms \<Rightarrow> (if h = Some c \<and> matches_current sha a m then (Inr (), (ms, None)) else (Inl ValueError, (q, h))))"

definition message_ok :: "logical_message \<Rightarrow> bool" where
  "message_ok m \<longleftrightarrow>
     lg_contract_name m \<noteq> [] \<and> lg_contract_version m \<noteq> [] \<and> lg_message_id m \<noteq> [] \<and> lg_tenant_scope m \<noteq> []"

definition simulates :: "('s \<Rightarrow> 'v) \<Rightarrow> 'a res \<times> 's \<Rightarrow> 'a res \<times> 'v \<Rightarrow> bool" where
  "simulates view x y \<longleftrightarrow> fst x = fst y \<and> view (snd x) = snd y"

locale broker_port =
  fixes publish :: "logical_message \<Rightarrow> ('s, logical_receipt) op"
    and receive :: "string \<Rightarrow> ('s, logical_message) op"
    and acknowledge :: "(nat list \<Rightarrow> string) \<Rightarrow> string \<Rightarrow> acknowledgement \<Rightarrow> ('s, unit) op"
    and view :: "'s \<Rightarrow> port_view"
    and sound :: "'s \<Rightarrow> bool"
  assumes publish_spec: "sound s \<Longrightarrow> message_ok m \<Longrightarrow>
      simulates view (publish m s) (port_publish m (view s)) \<and> sound (snd (publish m s))"
    and receive_spec: "sound s \<Longrightarrow> simulates view (receive c s) (port_receive c (view s)) \<and> sound (snd (receive c s))"
    and acknowledge_spec: "sound s \<Longrightarrow>
      simulates view (acknowledge sha c a s) (port_acknowledge sha c a (view s)) \<and> sound (snd (acknowledge sha c a s))"

section \<open>The two transports keep the contract\<close>

lemma decode_encode: "message_ok m \<Longrightarrow> kafka_decode ((kafka_encode m)\<lparr>kr_offset := n\<rparr>) = Inr m"
  by (simp add: kafka_decode_def kafka_encode_def header_def message_ok_def)

definition kafka_sound :: "kafka_state \<Rightarrow> bool" where
  "kafka_sound s \<longleftrightarrow> list_all (\<lambda>r. \<exists>m. kafka_decode r = Inr m) (kf_queue s)"

definition decoded :: "kafka_record \<Rightarrow> logical_message" where
  "decoded r = (case kafka_decode r of Inr m \<Rightarrow> m | Inl _ \<Rightarrow>
     \<lparr>lg_contract_name = [], lg_contract_version = [], lg_message_id = [], lg_tenant_scope = [], lg_payload = []\<rparr>)"

definition kafka_view :: "kafka_state \<Rightarrow> port_view" where
  "kafka_view s = (map decoded (kf_queue s), kf_consumer s)"

definition mailbox_view :: "mailbox_state \<Rightarrow> port_view" where
  "mailbox_view s = (mb_queue s, mb_consumer s)"

interpretation kp: broker_port kafka_publish kafka_receive kafka_acknowledge kafka_view kafka_sound
proof
  fix s m assume "kafka_sound s" "message_ok m"
  then show "simulates kafka_view (kafka_publish m s) (port_publish m (kafka_view s)) \<and> kafka_sound (snd (kafka_publish m s))"
    by (simp add: simulates_def kafka_publish_def port_publish_def kafka_view_def kafka_sound_def Let_def
        decode_encode decoded_def)
next
  fix s c assume "kafka_sound s"
  then show "simulates kafka_view (kafka_receive c s) (port_receive c (kafka_view s)) \<and> kafka_sound (snd (kafka_receive c s))"
    by (cases "kf_queue s"; cases "kf_consumer s")
      (auto simp: simulates_def kafka_receive_def port_receive_def kafka_view_def kafka_sound_def decoded_def ensure_def)
next
  fix s sha c a assume "kafka_sound s"
  then show "simulates kafka_view (kafka_acknowledge sha c a s) (port_acknowledge sha c a (kafka_view s)) \<and>
      kafka_sound (snd (kafka_acknowledge sha c a s))"
    by (cases "kf_queue s")
      (auto simp: simulates_def kafka_acknowledge_def port_acknowledge_def kafka_view_def kafka_sound_def decoded_def
        ensure_def)
qed

interpretation mp: broker_port mailbox_publish mailbox_receive mailbox_acknowledge mailbox_view "\<lambda>_. True"
proof
  fix s m show "simulates mailbox_view (mailbox_publish m s) (port_publish m (mailbox_view s)) \<and> True"
    by (simp add: simulates_def mailbox_publish_def port_publish_def mailbox_view_def)
next
  fix s c show "simulates mailbox_view (mailbox_receive c s) (port_receive c (mailbox_view s)) \<and> True"
    by (cases "mb_queue s"; cases "mb_consumer s")
      (auto simp: simulates_def mailbox_receive_def port_receive_def mailbox_view_def ensure_def)
next
  fix s sha c a
  show "simulates mailbox_view (mailbox_acknowledge sha c a s) (port_acknowledge sha c a (mailbox_view s)) \<and> True"
    by (cases "mb_queue s")
      (auto simp: simulates_def mailbox_acknowledge_def port_acknowledge_def mailbox_view_def ensure_def)
qed

section \<open>Commands\<close>

datatype port_command = Publish logical_message | Receive string | Acknowledge string acknowledgement

datatype port_outcome =
    Published "logical_receipt res" | Received "logical_message res" | Acknowledged "unit res"

text \<open>A caller that goes on whatever is raised.\<close>

fun run_commands ::
  "(logical_message \<Rightarrow> ('s, logical_receipt) op) \<Rightarrow> (string \<Rightarrow> ('s, logical_message) op) \<Rightarrow>
   (string \<Rightarrow> acknowledgement \<Rightarrow> ('s, unit) op) \<Rightarrow> port_command list \<Rightarrow> 's \<Rightarrow> port_outcome list \<times> 's" where
  "run_commands pub recv ack [] s = ([], s)"
| "run_commands pub recv ack (Publish m # cs) s =
     (let (r, t) = pub m s; (os, u) = run_commands pub recv ack cs t in (Published r # os, u))"
| "run_commands pub recv ack (Receive c # cs) s =
     (let (r, t) = recv c s; (os, u) = run_commands pub recv ack cs t in (Received r # os, u))"
| "run_commands pub recv ack (Acknowledge c a # cs) s =
     (let (r, t) = ack c a s; (os, u) = run_commands pub recv ack cs t in (Acknowledged r # os, u))"

definition command_ok :: "port_command \<Rightarrow> bool" where
  "command_ok c = (case c of Publish m \<Rightarrow> message_ok m | _ \<Rightarrow> True)"

context broker_port begin

lemma commands_spec:
  "sound s \<Longrightarrow> list_all command_ok cs \<Longrightarrow>
     fst (run_commands publish receive (acknowledge sha) cs s) =
       fst (run_commands port_publish port_receive (port_acknowledge sha) cs (view s)) \<and>
     view (snd (run_commands publish receive (acknowledge sha) cs s)) =
       snd (run_commands port_publish port_receive (port_acknowledge sha) cs (view s))"
proof (induction cs arbitrary: s)
  case (Cons c cs)
  show ?case
  proof (cases c)
    case (Publish m)
    obtain r t where run: "publish m s = (r, t)" by fastforce
    then have spec: "port_publish m (view s) = (r, view t)" "sound t"
      using publish_spec [of s m] Cons.prems Publish by (auto simp: command_ok_def simulates_def prod_eq_iff)
    show ?thesis using Cons.IH [OF spec(2)] Cons.prems by (simp add: Publish run spec case_prod_unfold Let_def)
  next
    case (Receive k)
    obtain r t where run: "receive k s = (r, t)" by fastforce
    then have spec: "port_receive k (view s) = (r, view t)" "sound t"
      using receive_spec [of s k] Cons.prems by (auto simp: simulates_def prod_eq_iff)
    show ?thesis using Cons.IH [OF spec(2)] Cons.prems by (simp add: Receive run spec case_prod_unfold Let_def)
  next
    case (Acknowledge k a)
    obtain r t where run: "acknowledge sha k a s = (r, t)" by fastforce
    then have spec: "port_acknowledge sha k a (view s) = (r, view t)" "sound t"
      using acknowledge_spec [of s sha k a] Cons.prems by (auto simp: simulates_def prod_eq_iff)
    show ?thesis using Cons.IH [OF spec(2)] Cons.prems by (simp add: Acknowledge run spec case_prod_unfold Let_def)
  qed
qed simp

end

text \<open>C16: the transports are interchangeable. For every sequence of publications, receptions and
  acknowledgements of messages with non-empty headers, by any consumers and with any
  acknowledgements, the Kafka-shaped transport and the alternate one give the same outcomes,
  errors included, and are left with the same messages and the same holder.\<close>

theorem transports_interchangeable:
  assumes "list_all command_ok cs"
  shows "fst (run_commands kafka_publish kafka_receive (kafka_acknowledge sha) cs kafka_init) =
      fst (run_commands mailbox_publish mailbox_receive (mailbox_acknowledge sha) cs mailbox_init) \<and>
    kafka_view (snd (run_commands kafka_publish kafka_receive (kafka_acknowledge sha) cs kafka_init)) =
      mailbox_view (snd (run_commands mailbox_publish mailbox_receive (mailbox_acknowledge sha) cs mailbox_init))"
proof -
  have "kafka_sound kafka_init" by (simp add: kafka_sound_def kafka_init_def)
  moreover have "kafka_view kafka_init = mailbox_view mailbox_init"
    by (simp add: kafka_view_def mailbox_view_def kafka_init_def mailbox_init_def)
  ultimately show ?thesis
    using kp.commands_spec [OF _ assms] mp.commands_spec [OF _ assms] by metis
qed

text \<open>With an empty header they differ: only the Kafka-shaped transport refuses to give the message out.\<close>

lemma empty_header_differs:
  "let m = \<lparr>lg_contract_name = ''c'', lg_contract_version = [], lg_message_id = ''m'', lg_tenant_scope = ''t'',
        lg_payload = ''p''\<rparr>
   in fst (kafka_receive ''k'' (snd (kafka_publish m kafka_init))) = Inl ValueError \<and>
      fst (mailbox_receive ''k'' (snd (mailbox_publish m mailbox_init))) = Inr m"
  by (simp add: Let_def kafka_receive_def kafka_publish_def kafka_init_def kafka_decode_def kafka_encode_def
      header_def mailbox_receive_def mailbox_publish_def mailbox_init_def)

section \<open>Acknowledgement after durable responsibility\<close>

text \<open>The guard's database beside the broker.\<close>

definition on_guard :: "(guard_state, 'a) op \<Rightarrow> (guard_state \<times> 's, 'a) op" where
  "on_guard m = (\<lambda>(g, b). case m g of (r, g') \<Rightarrow> (r, (g', b)))"

definition on_broker :: "('s, 'a) op \<Rightarrow> (guard_state \<times> 's, 'a) op" where
  "on_broker m = (\<lambda>(g, b). case m b of (r, b') \<Rightarrow> (r, (g, b')))"

definition acknowledgement_of :: "responsibility_receipt \<Rightarrow> acknowledgement" where
  "acknowledgement_of r =
     (case dr_identity r of (c, p, m) \<Rightarrow>
        \<lparr>ak_scope = p, ak_message_id = m, ak_contract_name = dr_contract_name r,
         ak_contract_version = dr_contract_version r, ak_digest = dr_semantic_digest r\<rparr>)"

definition acknowledge_after_durable ::
  "(string \<Rightarrow> acknowledgement \<Rightarrow> ('s, unit) op) \<Rightarrow> (nat list \<Rightarrow> string) \<Rightarrow> responsibility_receipt \<Rightarrow>
   (guard_state \<times> 's, unit) op" where
  "acknowledge_after_durable ack sha r =
     thenS (on_guard (assert_durable sha r))
    (on_broker (ack (fst (dr_identity r)) (acknowledgement_of r)))"

text \<open>
  The outbox and the replay publish, a consumer receives, the guard records, and the inbox
  acknowledges; beside the state, the messages published so far and those acknowledged.
\<close>

record 's boundary =
  bd_state :: "guard_state \<times> 's"
  bd_published :: "logical_message list"
  bd_acknowledged :: "logical_message list"

inductive boundary_step ::
  "(logical_message \<Rightarrow> ('s, logical_receipt) op) \<Rightarrow> (string \<Rightarrow> ('s, logical_message) op) \<Rightarrow>
   (string \<Rightarrow> acknowledgement \<Rightarrow> ('s, unit) op) \<Rightarrow> ('s \<Rightarrow> logical_message list) \<Rightarrow> (nat list \<Rightarrow> string) \<Rightarrow>
   's boundary \<Rightarrow> 's boundary \<Rightarrow> bool"
  for publish receive acknowledge queue sha where
  bs_publish: "on_broker (publish m) (bd_state x) = (r, t) \<Longrightarrow>
    boundary_step publish receive acknowledge queue sha x (x\<lparr>bd_state := t, bd_published := bd_published x @ [m]\<rparr>)"
| bs_receive: "on_broker (receive c) (bd_state x) = (m, t) \<Longrightarrow> boundary_step publish receive acknowledge queue sha x (x\<lparr>bd_state := t\<rparr>)"
| bs_record: "on_guard (record_and_apply sha i n v p) (bd_state x) = (r, t) \<Longrightarrow>
    boundary_step publish receive acknowledge queue sha x (x\<lparr>bd_state := t\<rparr>)"
| bs_refused: "acknowledge_after_durable acknowledge sha q (bd_state x) = (Inl e, t) \<Longrightarrow>
    boundary_step publish receive acknowledge queue sha x (x\<lparr>bd_state := t\<rparr>)"
| bs_acknowledge: "acknowledge_after_durable acknowledge sha q (bd_state x) = (Inr (), t) \<Longrightarrow>
    boundary_step publish receive acknowledge queue sha x (x\<lparr>bd_state := t,
      bd_acknowledged := bd_acknowledged x @ [hd (queue (snd (bd_state x)))]\<rparr>)"

text \<open>The effect of a message, for some consumer, is committed.\<close>

definition effective :: "(nat list \<Rightarrow> string) \<Rightarrow> guard_state \<Rightarrow> logical_message \<Rightarrow> bool" where
  "effective sha g m \<longleftrightarrow>
     (\<exists>key e c. gd_effects g key = Some e \<and> ef_identity e = (c, lg_tenant_scope m, lg_message_id m) \<and>
        ef_contract_name e = lg_contract_name m \<and> ef_contract_version e = lg_contract_version m \<and>
        ef_apply_count e = 1 \<and>
        semantic_digest sha (ef_contract_name e) (ef_contract_version e) (ef_payload e) = logical_semantic_digest sha m)"

lemma effective_extends: "extends g h \<Longrightarrow> effective sha g m \<Longrightarrow> effective sha h m"
  unfolding effective_def extends_def by (meson map_leD)

lemma acknowledge_after_durable_returns:
  assumes "acknowledge_after_durable ack sha r (g, b) = (Inr (), t)"
  shows "\<exists>b'. t = (g, b') \<and> assert_durable sha r g = (Inr (), g) \<and>
    ack (fst (dr_identity r)) (acknowledgement_of r) b = (Inr (), b')"
  using assms assert_durable_same [of sha r g]
  by (cases "assert_durable sha r g"; cases "ack (fst (dr_identity r)) (acknowledgement_of r) b"; cases "fst (assert_durable sha r g)")
    (auto simp: acknowledge_after_durable_def on_guard_def on_broker_def bindS_def)

lemma matching_effective:
  assumes "assert_durable sha r g = (Inr (), g)" "matches_current sha (acknowledgement_of r) m"
  shows "effective sha g m"
proof -
  obtain c p i where who: "dr_identity r = (c, p, i)" by (cases "dr_identity r")
  obtain e where e: "gd_effects g (dr_effect_key r) = Some e" "ef_identity e = dr_identity r"
    "ef_contract_name e = dr_contract_name r" "ef_contract_version e = dr_contract_version r"
    "semantic_digest sha (ef_contract_name e) (ef_contract_version e) (ef_payload e) = dr_semantic_digest r"
    "ef_apply_count e = 1"
    using durable_effect [OF assms(1)] by blast
  have m: "lg_tenant_scope m = p" "lg_message_id m = i" "lg_contract_name m = dr_contract_name r"
    "lg_contract_version m = dr_contract_version r" "logical_semantic_digest sha m = dr_semantic_digest r"
    using assms(2) by (simp_all add: matches_current_def acknowledgement_of_def who)
  show ?thesis
    unfolding effective_def
    by (rule exI [of _ "dr_effect_key r"], rule exI [of _ e], rule exI [of _ c]) (use e m who in simp)
qed

text \<open>
  What a transport promises for every message, also for those it cannot give out again: it
  appends, it gives nothing away by a reception or a refused acknowledgement, and an
  acknowledgement it accepts matches the first message and removes this one alone.
\<close>

locale delivery_queue =
  fixes publish :: "logical_message \<Rightarrow> ('s, logical_receipt) op"
    and receive :: "string \<Rightarrow> ('s, logical_message) op"
    and acknowledge :: "(nat list \<Rightarrow> string) \<Rightarrow> string \<Rightarrow> acknowledgement \<Rightarrow> ('s, unit) op"
    and queue :: "'s \<Rightarrow> logical_message list"
  assumes publish_appends: "publish m s = (r, t) \<Longrightarrow> queue t = queue s @ [m]"
    and receive_keeps: "receive c s = (d, t) \<Longrightarrow> queue t = queue s"
    and acknowledge_removes: "acknowledge sha c a s = (Inr u, t) \<Longrightarrow> \<exists>m. queue s = m # queue t \<and> matches_current sha a m"
    and acknowledge_refused: "acknowledge sha c a s = (Inl e, t) \<Longrightarrow> queue t = queue s"
begin

definition boundary_ok :: "(nat list \<Rightarrow> string) \<Rightarrow> 's boundary \<Rightarrow> bool" where
  "boundary_ok sha x \<longleftrightarrow>
     bd_published x = bd_acknowledged x @ queue (snd (bd_state x)) \<and>
     list_all (effective sha (fst (bd_state x))) (bd_acknowledged x)"

lemma boundary_step_ok:
  assumes "boundary_step publish receive (acknowledge sha) queue sha x y" "boundary_ok sha x"
  shows "boundary_ok sha y"
  using assms(1)
proof cases
  case (bs_publish m r t)
  obtain g b where x: "bd_state x = (g, b)" by (cases "bd_state x")
  then obtain b' where "publish m b = (r, b')" "t = (g, b')"
    using bs_publish(2) by (auto simp: on_broker_def split: prod.splits)
  then show ?thesis using bs_publish(1) publish_appends [of m b r b'] x assms(2) by (simp add: boundary_ok_def)
next
  case (bs_receive c m t)
  obtain g b where x: "bd_state x = (g, b)" by (cases "bd_state x")
  then obtain b' where "receive c b = (m, b')" "t = (g, b')"
    using bs_receive(2) by (auto simp: on_broker_def split: prod.splits)
  then show ?thesis using bs_receive(1) receive_keeps [of c b m b'] x assms(2) by (simp add: boundary_ok_def)
next
  case (bs_record i n v p r t)
  obtain g b where x: "bd_state x = (g, b)" by (cases "bd_state x")
  then obtain g' where t: "t = (g', b)" "record_and_apply sha i n v p g = (r, g')"
    using bs_record by (auto simp: on_guard_def split: prod.splits)
  have "extends g g'" by (rule record_extends [OF t(2)])
  then show ?thesis
    using bs_record(1) t x assms(2) effective_extends by (auto simp: boundary_ok_def list_all_iff)
next
  case (bs_refused q e t)
  obtain g b where x: "bd_state x = (g, b)" by (cases "bd_state x")
  obtain u g' where d: "assert_durable sha q g = (u, g')" by fastforce
  then have g': "g' = g" using assert_durable_same [of sha q g] by simp
  show ?thesis
  proof (cases u)
    case (Inl e')
    then have "t = (g, b)"
      using bs_refused(2) x d g' by (simp add: acknowledge_after_durable_def on_guard_def)
    then show ?thesis using bs_refused(1) x assms(2) by (simp add: boundary_ok_def)
  next
    case (Inr v)
    obtain w b' where a: "acknowledge sha (fst (dr_identity q)) (acknowledgement_of q) b = (w, b')" by fastforce
    then have t: "w = Inl e" "t = (g, b')"
      using bs_refused(2) x d g' Inr by (auto simp: acknowledge_after_durable_def on_guard_def on_broker_def)
    then show ?thesis using acknowledge_refused [of sha _ _ b e b'] a bs_refused(1) x assms(2)
      by (simp add: boundary_ok_def)
  qed
next
  case (bs_acknowledge q t)
  obtain g b where x: "bd_state x = (g, b)" by (cases "bd_state x")
  obtain b' where got: "t = (g, b')" "assert_durable sha q g = (Inr (), g)"
    "acknowledge sha (fst (dr_identity q)) (acknowledgement_of q) b = (Inr (), b')"
    using acknowledge_after_durable_returns [OF bs_acknowledge(2) [unfolded x]] by blast
  obtain m where m: "queue b = m # queue b'" "matches_current sha (acknowledgement_of q) m"
    using acknowledge_removes [OF got(3)] by blast
  have "effective sha g m" by (rule matching_effective [OF got(2) m(2)])
  then show ?thesis using bs_acknowledge(1) got(1) x m assms(2) by (simp add: boundary_ok_def)
qed

lemma boundary_run_ok:
  "(boundary_step publish receive (acknowledge sha) queue sha)\<^sup>*\<^sup>* x y \<Longrightarrow> boundary_ok sha x \<Longrightarrow> boundary_ok sha y"
  by (induction rule: rtranclp_induct) (use boundary_step_ok in blast)+

end

text \<open>What a record says, its headers empty or not.\<close>

definition written :: "kafka_record \<Rightarrow> logical_message" where
  "written r =
     (let h = (\<lambda>k. case map_of (kr_headers r) k of None \<Rightarrow> [] | Some x \<Rightarrow> x)
      in \<lparr>lg_contract_name = h ''contract_name'', lg_contract_version = h ''contract_version'',
          lg_message_id = h ''message_id'', lg_tenant_scope = h ''tenant_scope'', lg_payload = kr_value r\<rparr>)"

definition kafka_messages :: "kafka_state \<Rightarrow> logical_message list" where
  "kafka_messages s = map written (kf_queue s)"

lemma written_encode: "written ((kafka_encode m)\<lparr>kr_offset := n\<rparr>) = m"
  by (simp add: written_def kafka_encode_def)

lemma kafka_decode_written: "kafka_decode r = Inr m \<Longrightarrow> written r = m"
  by (auto simp: kafka_decode_def bindR_Inr_iff header_def ensure_Inr_iff written_def split: option.splits)

interpretation kq: delivery_queue kafka_publish kafka_receive kafka_acknowledge kafka_messages
proof
  fix m s r t assume "kafka_publish m s = (r, t)"
  then show "kafka_messages t = kafka_messages s @ [m]"
    by (auto simp: kafka_publish_def kafka_messages_def written_encode Let_def)
next
  fix c s d t assume "kafka_receive c s = (d, t)"
  then show "kafka_messages t = kafka_messages s"
    by (auto simp: kafka_receive_def kafka_messages_def ensure_def split: if_splits)
next
  fix sha c a s u t assume run: "kafka_acknowledge sha c a s = (Inr u, t)"
  then obtain m where m: "kf_queue s \<noteq> []" "kafka_decode (hd (kf_queue s)) = Inr m" "matches_current sha a m"
    "kf_queue t = List.tl (kf_queue s)"
    by (auto simp: kafka_acknowledge_def ensure_def bindS_apply split: if_splits sum.splits)
  then show "\<exists>m. kafka_messages s = m # kafka_messages t \<and> matches_current sha a m"
    using kafka_decode_written [OF m(2)] by (cases "kf_queue s") (auto simp: kafka_messages_def)
next
  fix sha c a s e t assume "kafka_acknowledge sha c a s = (Inl e, t)"
  then show "kafka_messages t = kafka_messages s"
    by (auto simp: kafka_acknowledge_def ensure_def bindS_apply split: if_splits sum.splits)
qed

interpretation mq: delivery_queue mailbox_publish mailbox_receive mailbox_acknowledge mb_queue
proof
  fix sha c a s u t assume "mailbox_acknowledge sha c a s = (Inr u, t)"
  then show "\<exists>m. mb_queue s = m # mb_queue t \<and> matches_current sha a m"
    by (cases "mb_queue s") (auto simp: mailbox_acknowledge_def ensure_def split: if_splits)
qed (auto simp: mailbox_publish_def mailbox_receive_def mailbox_acknowledge_def ensure_def split: if_splits)


section \<open>The transcript\<close>

definition transcript_message :: logical_message where
  "transcript_message =
     \<lparr>lg_contract_name = ''evidence.device-state.changed'', lg_contract_version = ''v1'',
      lg_message_id = ''msg-evidence-0001'', lg_tenant_scope = ''tenant-evidence-a'',
      lg_payload = ''{'' @ quoted ''device'' @ '':'' @ quoted ''canonical-device-1'' @ '','' @ quoted ''state'' @ '':'' @
        quoted ''up'' @ ''}''\<rparr>"

definition evidence_consumer :: string where "evidence_consumer = ''evidence.consumer.v1''"

definition record_delivered ::
  "(nat list \<Rightarrow> string) \<Rightarrow> logical_message \<Rightarrow> (guard_state, responsibility_receipt) op" where
  "record_delivered sha m =
     record_and_apply sha (evidence_consumer, lg_tenant_scope m, lg_message_id m) (lg_contract_name m)
       (lg_contract_version m) (lg_payload m)"

definition message_fields :: "string \<Rightarrow> logical_message \<Rightarrow> (string \<times> payload) list" where
  "message_fields prefix m =
     [(prefix @ ''_contract'', PText (lg_contract_name m)),
      (prefix @ ''_contract_version'', PText (lg_contract_version m)), (prefix @ ''_id'', PText (lg_message_id m)),
      (prefix @ ''_scope'', PText (lg_tenant_scope m)), (prefix @ ''_payload'', PText (lg_payload m))]"

text \<open>A first delivery, and a replay of the same message after the database was reopened.\<close>

definition semantic_transcript ::
  "(logical_message \<Rightarrow> ('s, logical_receipt) op) \<Rightarrow> (string \<Rightarrow> ('s, logical_message) op) \<Rightarrow>
   (string \<Rightarrow> acknowledgement \<Rightarrow> ('s, unit) op) \<Rightarrow> (nat list \<Rightarrow> string) \<Rightarrow>
   (guard_state \<times> 's, (string \<times> payload) list) op" where
  "semantic_transcript pub recv ack sha =
     bindS (on_broker (pub transcript_message)) (\<lambda>first.
     bindS (on_broker (recv evidence_consumer)) (\<lambda>delivered.
     bindS (on_guard (record_delivered sha delivered)) (\<lambda>durable.
     thenS (acknowledge_after_durable ack sha durable)
    (bindS (on_broker (pub transcript_message)) (\<lambda>replay.
     bindS (on_broker (recv evidence_consumer)) (\<lambda>replayed.
     bindS (on_guard (record_delivered sha replayed)) (\<lambda>replay_durable.
     thenS (acknowledge_after_durable ack sha replay_durable)
    (bindS (on_guard (observe_effect sha (dr_effect_key durable))) (\<lambda>(e, digest).
     returnS
      ([(''published_id'', PText (lc_message_id first)), (''published_accepted'', PFlag (lc_accepted first))]
       @ message_fields ''delivered'' delivered
       @ [(''replay_id'', PText (lc_message_id replay)), (''replay_accepted'', PFlag (lc_accepted replay))]
       @ message_fields ''replayed'' replayed
       @ [(''durable_effect_contract'', PText (ef_contract_name e)),
          (''durable_effect_contract_version'', PText (ef_contract_version e)),
          (''durable_effect_scope'', PText (fst (snd (ef_identity e)))),
          (''durable_effect_message_id'', PText (snd (snd (ef_identity e)))),
          (''durable_effect_payload'', PText (ef_payload e)), (''durable_effect_semantic_digest'', PText digest),
          (''durable_effect_apply_count'', PInt (ef_apply_count e)),
          (''durable_responsibility_receipt'', PText (dr_receipt_id durable)),
          (''replay_durable_responsibility_receipt'', PText (dr_receipt_id replay_durable))]))))))))))"

text \<open>A message whose headers are not empty, without looking at their texts.\<close>

lemma transcript_message_ok: "message_ok transcript_message"
  by (simp add: message_ok_def transcript_message_def)

text \<open>One message on its way through either transport: published, received, recorded, acknowledged.\<close>

lemma boundary_delivery:
  assumes "publish m b = (Inr p, u)" "receive c u = (Inr m, w)"
    and "record_and_apply sha i (lg_contract_name m) (lg_contract_version m) (lg_payload m) g = (Inr r, g')"
    and "acknowledge (fst (dr_identity r)) (acknowledgement_of r) w = (Inr (), z)" "queue w = [m]"
  shows "(boundary_step publish receive acknowledge queue sha)\<^sup>*\<^sup>*
    \<lparr>bd_state = (g, b), bd_published = [], bd_acknowledged = []\<rparr>
    \<lparr>bd_state = (g', z), bd_published = [m], bd_acknowledged = [m]\<rparr>"
proof -
  let ?step = "boundary_step publish receive acknowledge queue sha"
  let ?x = "\<lambda>s a. \<lparr>bd_state = s, bd_published = [m], bd_acknowledged = a\<rparr>"
  have "?step \<lparr>bd_state = (g, b), bd_published = [], bd_acknowledged = []\<rparr> (?x (g, u) [])"
    using bs_publish [where publish = publish and m = m and x = "\<lparr>bd_state = (g, b), bd_published = [], bd_acknowledged = []\<rparr>" and r = "Inr p" and t = "(g, u)"]
      assms(1) by (simp add: on_broker_def)
  moreover have "?step (?x (g, u) []) (?x (g, w) [])"
    using bs_receive [of receive c "?x (g, u) []" "Inr m" "(g, w)"] assms(2) by (simp add: on_broker_def)
  moreover have "?step (?x (g, w) []) (?x (g', w) [])"
    using bs_record [of sha i "lg_contract_name m" "lg_contract_version m" "lg_payload m" "?x (g, w) []" "Inr r" "(g', w)"]
      assms(3) by (simp add: on_guard_def)
  moreover have "?step (?x (g', w) []) (?x (g', z) [m])"
    using bs_acknowledge [where acknowledge = acknowledge and queue = queue and q = r and x = "?x (g', w) []" and t = "(g', z)"] assms(4,5) record_returns(2) [OF assms(3)]
    by (simp add: acknowledge_after_durable_def on_guard_def on_broker_def)
  ultimately show ?thesis by (meson converse_rtranclp_into_rtranclp rtranclp.rtrancl_refl)
qed

definition sample_logical :: logical_message where
  "sample_logical = \<lparr>lg_contract_name = ''n'', lg_contract_version = ''v'', lg_message_id = ''m'',
     lg_tenant_scope = ''s'', lg_payload = ''p''\<rparr>"


theorem transports_interchangeable_witness:
  "fst (run_commands kafka_publish kafka_receive (kafka_acknowledge text_sha)
      [Publish transcript_message, Receive ''a'', Receive ''b''] kafka_init) =
   fst (run_commands mailbox_publish mailbox_receive (mailbox_acknowledge text_sha)
      [Publish transcript_message, Receive ''a'', Receive ''b''] mailbox_init)"
proof -
  have "list_all command_ok [Publish transcript_message, Receive ''a'', Receive ''b'']"
    by (simp add: command_ok_def transcript_message_ok)
  from transports_interchangeable [OF this] show ?thesis by blast
qed

lemma transcripts_agree:
  "fst (semantic_transcript kafka_publish kafka_receive (kafka_acknowledge sha) sha (guard_empty, kafka_init)) =
   fst (semantic_transcript mailbox_publish mailbox_receive (mailbox_acknowledge sha) sha (guard_empty, mailbox_init))"
proof -
  obtain n v i p d where m: "transcript_message = \<lparr>lg_contract_name = n, lg_contract_version = v, lg_message_id = i,
      lg_tenant_scope = p, lg_payload = d\<rparr>" by (cases transcript_message)
  have "message_ok \<lparr>lg_contract_name = n, lg_contract_version = v, lg_message_id = i,
      lg_tenant_scope = p, lg_payload = d\<rparr>" using transcript_message_ok unfolding m .
  then have ok: "n \<noteq> []" "v \<noteq> []" "i \<noteq> []" "p \<noteq> []" by (simp_all add: message_ok_def)
  then show ?thesis
    unfolding semantic_transcript_def m
    by (simp add: on_broker_def on_guard_def kafka_publish_def kafka_receive_def kafka_acknowledge_def kafka_init_def
        mailbox_publish_def mailbox_receive_def mailbox_acknowledge_def mailbox_init_def Let_def
        kafka_decode_def kafka_encode_def header_def record_delivered_def acknowledge_after_durable_def
        record_and_apply_def store_message_def insert_first_def insert_receipt_def guard_empty_def
        assert_durable_def backing_row_def receipt_for_def acknowledgement_of_def matches_current_def
        logical_semantic_digest_def semantic_digest_def observe_effect_def)
qed

end
