(* ===== verification/Consumer_Registration.thy ===== *)
theory Consumer_Registration
  imports Reference_Prelude
begin

text \<open>
  src/tools/assurance/d4a_semantic_boundary/consumer_registration_gate.py: the validation of
  consumer manifests, the permits it issues, the registrar that accepts them, and the discovery
  of manifests. A manifest is the list of the members of a decoded JSON object; what
  \<open>uuid4\<close> gives is an argument; a file under the root is its parts below it and its content.
\<close>

section \<open>Manifests\<close>

type_synonym members = "(string \<times> payload) list"

text \<open>\<open>bool(value)\<close>; the texts of the zeros of a float are \<open>0.0\<close> and \<open>-0.0\<close>.\<close>

definition truthy :: "payload option \<Rightarrow> bool" where
  "truthy v =
     (case v of
        None \<Rightarrow> False | Some PNull \<Rightarrow> False | Some (PText s) \<Rightarrow> s \<noteq> [] | Some (PInt i) \<Rightarrow> i \<noteq> 0
      | Some (PNumber x) \<Rightarrow> x \<notin> {''0.0'', ''-0.0''} | Some (PFlag b) \<Rightarrow> b
      | Some (PArr vs) \<Rightarrow> vs \<noteq> [] | Some (PObj fs) \<Rightarrow> fs \<noteq> [])"

definition topic_char :: "char \<Rightarrow> bool" where
  "topic_char c \<longleftrightarrow> is_alnum c \<or> c \<in> set ''._-''"

text \<open>\<open>^[A-Za-z0-9][A-Za-z0-9._-]{0,248}[A-Za-z0-9]$|^[A-Za-z0-9]$\<close>\<close>

definition is_topic :: "string \<Rightarrow> bool" where
  "is_topic s \<longleftrightarrow>
     s \<noteq> [] \<and> length s \<le> 250 \<and> is_alnum (hd s) \<and> is_alnum (last s) \<and> list_all topic_char s"

definition valid_topic :: "payload option \<Rightarrow> bool" where
  "valid_topic v = (case v of Some (PText s) \<Rightarrow> is_topic s | _ \<Rightarrow> False)"

definition valid_consumer_contract :: "payload option \<Rightarrow> bool" where
  "valid_consumer_contract v = (case v of Some (PText s) \<Rightarrow> is_contract_name s | _ \<Rightarrow> False)"

definition object_of :: "payload option \<Rightarrow> members option" where
  "object_of v = (case v of Some (PObj fs) \<Rightarrow> Some fs | _ \<Rightarrow> None)"

type_synonym binding = "payload option \<times> payload option \<times> payload option"

definition effect_binding :: "members \<Rightarrow> binding" where
  "effect_binding m =
     (case Option.bind (object_of (map_of m ''inbox'')) (\<lambda>ib. object_of (map_of ib ''effect_protection'')) of
        None \<Rightarrow> (None, None, None)
      | Some e \<Rightarrow> (map_of e ''profile'', map_of e ''implementation'', map_of e ''contract''))"

text \<open>The one supported binding, and the descriptor of its class.\<close>

definition guard_profile :: string where "guard_profile = ''atomic_local''"
definition guard_contract :: string where "guard_contract = ''sqlite_atomic_inbox_effect_v1''"

definition supported_binding :: binding where
  "supported_binding =
     (Some (PText guard_profile), Some (PText ''SQLiteAtomicInboxEffectGuard''), Some (PText guard_contract))"

text \<open>\<open>dict.get(binding)\<close> hashes the three values: a list or an object has no hash.\<close>

definition hashable :: "payload option \<Rightarrow> bool" where
  "hashable v = (case v of Some (PArr _) \<Rightarrow> False | Some (PObj _) \<Rightarrow> False | _ \<Rightarrow> True)"

definition binding_errors :: "binding \<Rightarrow> string list res" where
  "binding_errors b =
     (case b of (p, i, c) \<Rightarrow>
        bindR (ensure (hashable p \<and> hashable i \<and> hashable c) TypeError) (\<lambda>_.
        Inr (if b = supported_binding then []
             else [''effect protection must bind to an executable supported guard contract''])))"

definition note_error :: "bool \<Rightarrow> string \<Rightarrow> string list" where
  "note_error ok e = (if ok then [] else [e])"

definition validate_manifest :: "members \<Rightarrow> string list res" where
  "validate_manifest m =
     (let e1 = note_error (map_of m ''transport_candidate'' = Some (PText ''kafka''))
            ''transport_candidate must be kafka for this D4-A source gate'';
          e2 = note_error (valid_consumer_contract (map_of m ''consumer_contract''))
            ''consumer_contract must satisfy canonical async contract-name rules'';
          e3 = note_error (valid_topic (map_of m ''topic''))
            ''topic must be a stable nonempty Kafka-compatible identifier'';
          e4 = note_error (map_of m ''inbox'' = None \<or> object_of (map_of m ''inbox'') \<noteq> None)
            ''inbox must be an object'';
          ib = (case object_of (map_of m ''inbox'') of None \<Rightarrow> [] | Some fs \<Rightarrow> fs);
          e5 = note_error (map_of ib ''durable'' = Some (PFlag True)) ''durable inbox is required'';
          e6 = note_error (map_of ib ''dedup_identity'' =
              Some (PText ''consumer_contract+message_identity_scope+message_id''))
            ''trusted inbox dedup identity is required''
      in bindR (binding_errors (effect_binding m)) (\<lambda>e7.
         let e8 = note_error (map_of m ''kafka_features'' = None \<or> object_of (map_of m ''kafka_features'') \<noteq> None)
               ''kafka_features must be an object'';
             kafka = (case object_of (map_of m ''kafka_features'') of None \<Rightarrow> [] | Some fs \<Rightarrow> fs);
             earlier = e1 @ e2 @ e3 @ e4 @ e5 @ e6 @ e7 @ e8
         in Inr (earlier @ note_error
              (\<not> ((truthy (map_of kafka ''idempotent_producer'') \<or> truthy (map_of kafka ''transactions'')) \<and>
                  earlier \<noteq> []))
              ''kafka idempotence/transactions cannot bypass inbox/effect rejection'')))"

section \<open>Permits\<close>

record permit =
  pm_consumer_contract :: string
  pm_topic :: string
  pm_effect_profile :: string
  pm_effect_contract :: string
  pm_issuance_id :: string
  pm_validation_profile :: string

record registry =
  rg_issued :: "permit set"
  rg_registrations :: "permit list"

definition text_member :: "members \<Rightarrow> string \<Rightarrow> string" where
  "text_member m k = (case map_of m k of Some (PText s) \<Rightarrow> s | _ \<Rightarrow> [])"

definition permit_for :: "members \<Rightarrow> string \<Rightarrow> permit" where
  "permit_for m i =
     \<lparr>pm_consumer_contract = text_member m ''consumer_contract'', pm_topic = text_member m ''topic'',
      pm_effect_profile = guard_profile, pm_effect_contract = guard_contract, pm_issuance_id = i,
      pm_validation_profile = ''d4a-inbox-effect-v2''\<rparr>"

definition issue_permit :: "members \<Rightarrow> string \<Rightarrow> (registry, permit) op" where
  "issue_permit m i =
     bindS (liftS (validate_manifest m)) (\<lambda>errors.
     thenS (ensureS (errors = []) ValueError)
    (thenS (modifyS (\<lambda>s. s\<lparr>rg_issued := insert (permit_for m i) (rg_issued s)\<rparr>))
    (returnS (permit_for m i))))"

text \<open>The registrations keep all of a permit but its issuance.\<close>

definition register_validated :: "permit \<Rightarrow> (registry, unit) op" where
  "register_validated p =
     bindS (getS rg_issued) (\<lambda>issued.
     thenS (ensureS (p \<in> issued) PermissionError)
    (modifyS (\<lambda>s. s\<lparr>rg_issued := rg_issued s - {p},
       rg_registrations := rg_registrations s @ [p\<lparr>pm_issuance_id := []\<rparr>]\<rparr>)))"

definition register_consumer :: "members \<Rightarrow> string \<Rightarrow> (registry, unit) op" where
  "register_consumer m i = bindS (issue_permit m i) register_validated"

definition registry_init :: registry where
  "registry_init = \<lparr>rg_issued = {}, rg_registrations = []\<rparr>"

section \<open>Discovery\<close>

definition declaration_markers :: "string list" where
  "declaration_markers = [''consumer_contract'', ''topic'', ''transport_candidate'', ''inbox'', ''kafka_features'']"

definition looks_like_declaration :: "members \<Rightarrow> bool" where
  "looks_like_declaration m \<longleftrightarrow>
     (let has = (\<lambda>k. map_of m k \<noteq> None)
      in map_of m ''transport_candidate'' = Some (PText ''kafka'') \<or> has ''consumer_contract'' \<or>
         (has ''topic'' \<and> (has ''inbox'' \<or> has ''kafka_features'')) \<or>
         3 \<le> length (filter has declaration_markers))"

text \<open>A file is read as a value, or it is not UTF-8 or not JSON.\<close>

type_synonym json_file = "string list \<times> payload option"

definition is_registry_path :: "string list \<Rightarrow> bool" where
  "is_registry_path parts \<longleftrightarrow> (\<exists>p \<in> set (butlast parts). p \<in> {''consumer-registry'', ''consumer_registry''})"

definition read_governed :: "json_file \<Rightarrow> payload res" where
  "read_governed f = (case snd f of None \<Rightarrow> Inl ValueError | Some v \<Rightarrow> Inr v)"

text \<open>The files are those under the root named \<open>*.json\<close>, sorted.\<close>

fun discover :: "json_file list \<Rightarrow> json_file list res" where
  "discover [] = Inr []"
| "discover (f # fs) =
     bindR (read_governed f) (\<lambda>v.
     bindR (discover fs) (\<lambda>found.
     Inr (if is_registry_path (fst f) \<or> (case v of PObj m \<Rightarrow> looks_like_declaration m | _ \<Rightarrow> False)
          then f # found else found)))"

fun register_all :: "json_file list \<Rightarrow> string list \<Rightarrow> (registry, unit) op" where
  "register_all (f # fs) (i # is) =
     bindS (liftS (read_governed f)) (\<lambda>v.
     case v of
       PObj m \<Rightarrow> thenS (register_consumer m i) (register_all fs is)
     | _ \<Rightarrow> raiseS ValueError)"
| "register_all _ _ = returnS ()"

definition validate_discovered :: "json_file list \<Rightarrow> string list \<Rightarrow> (registry, unit) op" where
  "validate_discovered files is =
     bindS (liftS (discover files)) (\<lambda>found.
     thenS (ensureS (found \<noteq> []) OtherError) (register_all found is))"

section \<open>Lemmas\<close>

lemma note_error_Nil [simp]: "note_error ok e = [] \<longleftrightarrow> ok"
  by (simp add: note_error_def)

definition manifest_ok :: "members \<Rightarrow> bool" where
  "manifest_ok m \<longleftrightarrow>
     map_of m ''transport_candidate'' = Some (PText ''kafka'') \<and>
     (\<exists>c. map_of m ''consumer_contract'' = Some (PText c) \<and> is_contract_name c) \<and>
     (\<exists>t. map_of m ''topic'' = Some (PText t) \<and> is_topic t) \<and>
     (\<exists>ib. map_of m ''inbox'' = Some (PObj ib) \<and> map_of ib ''durable'' = Some (PFlag True) \<and>
        map_of ib ''dedup_identity'' = Some (PText ''consumer_contract+message_identity_scope+message_id'') \<and>
        (\<exists>e. map_of ib ''effect_protection'' = Some (PObj e) \<and>
           (map_of e ''profile'', map_of e ''implementation'', map_of e ''contract'') = supported_binding)) \<and>
     (\<forall>v. map_of m ''kafka_features'' = Some v \<longrightarrow> (\<exists>fs. v = PObj fs))"

lemma object_of_Some_iff [simp]: "object_of v = Some fs \<longleftrightarrow> v = Some (PObj fs)"
  by (auto simp: object_of_def split: option.splits payload.splits)

lemma valid_topic_iff: "valid_topic v \<longleftrightarrow> (\<exists>t. v = Some (PText t) \<and> is_topic t)"
  by (auto simp: valid_topic_def split: option.splits payload.splits)

lemma valid_contract_iff: "valid_consumer_contract v \<longleftrightarrow> (\<exists>t. v = Some (PText t) \<and> is_contract_name t)"
  by (auto simp: valid_consumer_contract_def split: option.splits payload.splits)

lemma supported_hashable: "binding_errors b = Inr [] \<longleftrightarrow> b = supported_binding"
  by (auto simp: binding_errors_def supported_binding_def hashable_def bindR_Inr_iff ensure_Inr_iff split: prod.splits)

lemma effect_binding_supported:
  "effect_binding m = supported_binding \<longleftrightarrow>
     (\<exists>ib e. map_of m ''inbox'' = Some (PObj ib) \<and> map_of ib ''effect_protection'' = Some (PObj e) \<and>
        (map_of e ''profile'', map_of e ''implementation'', map_of e ''contract'') = supported_binding)"
proof (cases "Option.bind (object_of (map_of m ''inbox'')) (\<lambda>ib. object_of (map_of ib ''effect_protection''))")
  case None
  then have "\<not> (\<exists>ib e. map_of m ''inbox'' = Some (PObj ib) \<and> map_of ib ''effect_protection'' = Some (PObj e))"
    by (auto simp: object_of_def)
  then show ?thesis using None by (auto simp: effect_binding_def supported_binding_def)
next
  case (Some e)
  then obtain ib where "map_of m ''inbox'' = Some (PObj ib)" "map_of ib ''effect_protection'' = Some (PObj e)"
    by (auto simp: Option.bind_eq_Some_conv)
  then show ?thesis using Some by (auto simp: effect_binding_def)
qed

lemma validate_manifest_exact: "validate_manifest m = Inr [] \<longleftrightarrow> manifest_ok m"
proof -
  have "validate_manifest m = Inr [] \<longleftrightarrow>
      map_of m ''transport_candidate'' = Some (PText ''kafka'') \<and>
      valid_consumer_contract (map_of m ''consumer_contract'') \<and> valid_topic (map_of m ''topic'') \<and>
      (map_of m ''inbox'' = None \<or> object_of (map_of m ''inbox'') \<noteq> None) \<and>
      (let ib = (case object_of (map_of m ''inbox'') of None \<Rightarrow> [] | Some fs \<Rightarrow> fs)
       in map_of ib ''durable'' = Some (PFlag True) \<and>
          map_of ib ''dedup_identity'' = Some (PText ''consumer_contract+message_identity_scope+message_id'')) \<and>
      binding_errors (effect_binding m) = Inr [] \<and>
      (map_of m ''kafka_features'' = None \<or> object_of (map_of m ''kafka_features'') \<noteq> None)"
    by (auto simp: validate_manifest_def Let_def bindR_Inr_iff)
  then show ?thesis
    unfolding manifest_ok_def supported_hashable effect_binding_supported valid_contract_iff valid_topic_iff
    by (cases "map_of m ''inbox''"; cases "object_of (map_of m ''inbox'')"; cases "map_of m ''kafka_features''")
      (auto simp: object_of_def split: payload.splits)
qed

section \<open>Runs of the gate\<close>

text \<open>Permits are issued for any manifest, and anyone presents any permit to the registrar.\<close>

inductive registry_step :: "registry \<Rightarrow> registry \<Rightarrow> bool" where
  rg_issue: "issue_permit m i s = (r, t) \<Longrightarrow> registry_step s t"
| rg_register: "register_validated p s = (u, t) \<Longrightarrow> registry_step s t"

lemma issue_permit_returns:
  "issue_permit m i s = (Inr p, t) \<longleftrightarrow>
     manifest_ok m \<and> p = permit_for m i \<and> t = s\<lparr>rg_issued := insert (permit_for m i) (rg_issued s)\<rparr>"
  unfolding issue_permit_def sequence_returns liftS_returns_iff ensure_Inr_iff op_simps prod.inject sum.inject
    validate_manifest_exact [symmetric] by auto

lemma issue_permit_raises: "issue_permit m i s = (Inl e, t) \<Longrightarrow> t = s"
  by (cases "validate_manifest m") (auto simp: issue_permit_def ensure_def split: if_splits)

lemma register_validated_apply:
  "register_validated p s =
     (if p \<in> rg_issued s
      then (Inr (), s\<lparr>rg_issued := rg_issued s - {p}, rg_registrations := rg_registrations s @ [p\<lparr>pm_issuance_id := []\<rparr>]\<rparr>)
      else (Inl PermissionError, s))"
  by (simp add: register_validated_def)

text \<open>A permit, or what a registration kept of it, that a valid manifest stands behind.\<close>

definition backed :: "permit \<Rightarrow> bool" where
  "backed p \<longleftrightarrow> (\<exists>m i. manifest_ok m \<and> p\<lparr>pm_issuance_id := i\<rparr> = permit_for m i)"

definition registry_ok :: "registry \<Rightarrow> bool" where
  "registry_ok s \<longleftrightarrow> (\<forall>p \<in> rg_issued s. backed p) \<and> (\<forall>p \<in> set (rg_registrations s). backed p)"

lemma backed_permit: "manifest_ok m \<Longrightarrow> backed (permit_for m i)"
  unfolding backed_def by (rule exI [of _ m], rule exI [of _ i]) (simp add: permit_for_def)

lemma backed_any_id: "backed p \<Longrightarrow> backed (p\<lparr>pm_issuance_id := j\<rparr>)"
  unfolding backed_def by simp

lemma registry_step_ok:
  assumes "registry_step s t" "registry_ok s"
  shows "registry_ok t"
  using assms(1)
proof cases
  case (rg_issue m i r)
  show ?thesis
  proof (cases r)
    case (Inl e)
    then show ?thesis using rg_issue issue_permit_raises assms(2) by blast
  next
    case (Inr p)
    then show ?thesis
      using rg_issue assms(2) backed_permit [of m i] by (auto simp: issue_permit_returns registry_ok_def)
  qed
next
  case (rg_register p u)
  then show ?thesis
    using assms(2) backed_any_id [of p "[]"] by (auto simp: register_validated_apply registry_ok_def split: if_splits)
qed

lemma registry_run_ok: "registry_step\<^sup>*\<^sup>* s t \<Longrightarrow> registry_ok s \<Longrightarrow> registry_ok t"
  by (induction rule: rtranclp_induct) (use registry_step_ok in blast)+

section \<open>What the gate promises\<close>

text \<open>Only validated consumers are registered, once per permit. In every reachable state, whatever
  permits were presented, each registration carries the contract and the topic of a manifest that
  satisfies every rule of the gate and is bound to the supported guard; a permit that is not
  issued is refused with \<open>PermissionError\<close>; and a permit that was accepted is refused the
  next time.\<close>

theorem registered_was_validated:
  assumes "registry_step\<^sup>*\<^sup>* registry_init s"
  shows "(\<forall>p \<in> set (rg_registrations s).
      (\<exists>m. manifest_ok m \<and> map_of m ''consumer_contract'' = Some (PText (pm_consumer_contract p)) \<and>
         map_of m ''topic'' = Some (PText (pm_topic p))) \<and>
      pm_effect_profile p = guard_profile \<and> pm_effect_contract p = guard_contract) \<and>
    (q \<notin> rg_issued s \<longrightarrow> register_validated q s = (Inl PermissionError, s)) \<and>
    (register_validated q s = (Inr (), t) \<longrightarrow> register_validated q t = (Inl PermissionError, t)) \<and>
    (validate_manifest k = Inr [] \<longleftrightarrow> manifest_ok k)"
proof -
  have "registry_ok s" by (rule registry_run_ok [OF assms]) (simp add: registry_ok_def registry_init_def)
  then have backs: "backed p" if "p \<in> set (rg_registrations s)" for p using that by (simp add: registry_ok_def)
  have "\<exists>m. manifest_ok m \<and> map_of m ''consumer_contract'' = Some (PText (pm_consumer_contract p)) \<and>
         map_of m ''topic'' = Some (PText (pm_topic p)) \<and>
         pm_effect_profile p = guard_profile \<and> pm_effect_contract p = guard_contract"
    if reg: "p \<in> set (rg_registrations s)" for p
  proof -
    obtain m i where m: "manifest_ok m" "p\<lparr>pm_issuance_id := i\<rparr> = permit_for m i"
      using backs [OF reg] unfolding backed_def by blast
    obtain c t where ct: "map_of m ''consumer_contract'' = Some (PText c)" "map_of m ''topic'' = Some (PText t)"
      using m(1) unfolding manifest_ok_def by blast
    have "pm_consumer_contract (p\<lparr>pm_issuance_id := i\<rparr>) = c" "pm_topic (p\<lparr>pm_issuance_id := i\<rparr>) = t"
      "pm_effect_profile (p\<lparr>pm_issuance_id := i\<rparr>) = guard_profile"
      "pm_effect_contract (p\<lparr>pm_issuance_id := i\<rparr>) = guard_contract"
      unfolding m(2) using ct by (simp_all add: permit_for_def text_member_def)
    then show ?thesis using m(1) ct by (intro exI [of _ m]) simp
  qed
  then show ?thesis
    using validate_manifest_exact [of k] by (auto simp: register_validated_apply split: if_splits)
qed

section \<open>A manifest\<close>

definition sample_consumer :: members where
  "sample_consumer =
     [(''consumer_contract'', PText ''evidence.consumer''), (''topic'', PText ''orders''),
      (''transport_candidate'', PText ''kafka''),
      (''inbox'', PObj [(''durable'', PFlag True),
         (''dedup_identity'', PText ''consumer_contract+message_identity_scope+message_id''),
         (''effect_protection'', PObj [(''profile'', PText guard_profile),
            (''implementation'', PText ''SQLiteAtomicInboxEffectGuard''), (''contract'', PText guard_contract)])])]"

lemma sample_consumer_ok: "manifest_ok sample_consumer"
  by (simp add: manifest_ok_def sample_consumer_def supported_binding_def is_contract_name_def contract_char_def
      is_topic_def topic_char_def char_class_defs Let_def)

theorem registered_was_validated_witness:
  "let s = snd (register_consumer sample_consumer ''id-1'' registry_init)
   in rg_registrations s \<noteq> [] \<and>
      register_validated (permit_for sample_consumer ''id-1'') s = (Inl PermissionError, s)"
proof -
  let ?p = "permit_for sample_consumer ''id-1''"
  let ?s = "\<lparr>rg_issued = {?p}, rg_registrations = []\<rparr>"
  let ?t = "\<lparr>rg_issued = {}, rg_registrations = [?p\<lparr>pm_issuance_id := []\<rparr>]\<rparr>"
  have issue: "issue_permit sample_consumer ''id-1'' registry_init = (Inr ?p, ?s)"
    using sample_consumer_ok by (simp add: issue_permit_returns registry_init_def)
  moreover have reg: "register_validated ?p ?s = (Inr (), ?t)" by (simp add: register_validated_apply)
  ultimately have end_state: "register_consumer sample_consumer ''id-1'' registry_init = (Inr (), ?t)"
    by (simp add: register_consumer_def)
  have "registry_step\<^sup>*\<^sup>* registry_init ?t"
    using rg_issue [OF issue] rg_register [OF reg] by (meson r_into_rtranclp rtranclp.rtrancl_into_rtrancl)
  from registered_was_validated [OF this, of ?p] show ?thesis by (simp add: end_state)
qed

text \<open>A manifest whose binding is not a text makes the gate raise \<open>TypeError\<close> instead of listing errors.\<close>

lemma unhashable_binding_escapes:
  "validate_manifest [(''inbox'', PObj [(''effect_protection'', PObj [(''profile'', PArr [])])])] = Inl TypeError"
  by (simp add: validate_manifest_def Let_def binding_errors_def effect_binding_def object_of_def hashable_def)

end
