(* ===== verification/Redrive_Authority.thy ===== *)
theory Redrive_Authority
  imports Reference_Prelude "HOL-Library.Sublist"
begin

text \<open>
  src/tools/assurance/d4c_quarantine_redrive/evaluate_candidates.py: the quarantine of failed
  messages and the authority to redrive them. The two tables are maps from their primary keys;
  each method does as many transactions as the code. A stored JSON text is the value it
  stands for, and \<open>sha\<close> is the hexadecimal SHA-256 digest of a sequence of bytes.
\<close>

section \<open>The tables\<close>

type_synonym quarantine_key = "string \<times> string \<times> string"

record quarantine_row =
  qr_tenant_scope :: string
  qr_fingerprint :: "string option"
  qr_payload :: payload
  qr_classification :: string
  qr_retention_class :: string
  qr_retry_count :: int
  qr_retry_budget :: int
  qr_state :: string
  qr_broker_adapter :: string
  qr_broker_dlq_ref :: "string option"
  qr_effect_committed :: bool
  qr_outcome_unknown :: bool
  qr_audit :: "payload list"

record quarantine_db =
  qa_rows :: "quarantine_key \<Rightarrow> quarantine_row option"
  qa_grants :: "string \<times> string \<times> string \<Rightarrow> bool"

definition quarantine_empty :: quarantine_db where
  "quarantine_empty = \<lparr>qa_rows = Map.empty, qa_grants = (\<lambda>_. False)\<rparr>"

definition key_ok :: "quarantine_key \<Rightarrow> bool" where
  "key_ok i \<longleftrightarrow> (case i of (c, p, m) \<Rightarrow> c \<noteq> [] \<and> p \<noteq> [] \<and> m \<noteq> [])"

definition tenant_scope_ok :: "string \<Rightarrow> bool" where
  "tenant_scope_ok s \<longleftrightarrow> take 7 s = ''tenant:'' \<and> CHR ''/'' \<notin> set s"

text \<open>\<open>str.isdigit\<close> on the code points up to 255: the digits and the superscripts.\<close>

definition digit_char :: "char \<Rightarrow> bool" where
  "digit_char c \<longleftrightarrow> is_digit c \<or> code_in 178 179 c \<or> code_in 185 185 c"

definition get_row :: "quarantine_key \<Rightarrow> (quarantine_db, quarantine_row) op" where
  "get_row i = (\<lambda>s. (case qa_rows s i of None \<Rightarrow> Inl Uncertainty | Some r \<Rightarrow> Inr r, s))"

definition put_row :: "quarantine_key \<Rightarrow> quarantine_row \<Rightarrow> (quarantine_db, unit) op" where
  "put_row i r = modifyS (\<lambda>s. s\<lparr>qa_rows := (qa_rows s)(i \<mapsto> r)\<rparr>)"

definition append_audit :: "quarantine_key \<Rightarrow> payload \<Rightarrow> (quarantine_db, unit) op" where
  "append_audit i e = transaction (bindS (get_row i) (\<lambda>r. put_row i (r\<lparr>qr_audit := qr_audit r @ [e]\<rparr>)))"

section \<open>Grants\<close>

definition grant_redrive :: "string \<Rightarrow> string \<Rightarrow> string set \<Rightarrow> (quarantine_db, unit) op" where
  "grant_redrive actor tenant classes =
     thenS (ensureS (actor \<noteq> []) ValueError)
    (thenS (ensureS (tenant_scope_ok tenant) ValueError)
    (thenS (ensureS (classes \<noteq> {} \<and> [] \<notin> classes) ValueError)
    (modifyS (\<lambda>s. s\<lparr>qa_grants := (\<lambda>(a, t, c). qa_grants s (a, t, c) \<or> a = actor \<and> t = tenant \<and> c \<in> classes)\<rparr>))))"

definition revoke_redrive :: "string \<Rightarrow> string option \<Rightarrow> (quarantine_db, unit) op" where
  "revoke_redrive actor tenant =
     thenS (ensureS (actor \<noteq> []) ValueError)
    (thenS (ensureS (case tenant of None \<Rightarrow> True | Some t \<Rightarrow> tenant_scope_ok t) ValueError)
    (modifyS (\<lambda>s. s\<lparr>qa_grants := (\<lambda>(a, t, c). qa_grants s (a, t, c) \<and>
       \<not> (a = actor \<and> (tenant = None \<or> tenant = Some t)))\<rparr>)))"

definition has_tenant_grant :: "quarantine_db \<Rightarrow> string \<Rightarrow> string \<Rightarrow> bool" where
  "has_tenant_grant s actor tenant \<longleftrightarrow> (\<exists>c. qa_grants s (actor, tenant, c))"

definition has_current_grant :: "quarantine_db \<Rightarrow> string \<Rightarrow> string \<Rightarrow> string \<Rightarrow> bool" where
  "has_current_grant s actor tenant c \<longleftrightarrow> qa_grants s (actor, tenant, c)"

section \<open>Failures\<close>

record failure_report =
  fl_tenant_scope :: string
  fl_classification :: string
  fl_retention_class :: string
  fl_retry_count :: int
  fl_retry_budget :: int
  fl_broker_adapter :: string
  fl_broker_dlq_ref :: "string option"

definition failure_ok :: "failure_report \<Rightarrow> bool" where
  "failure_ok f \<longleftrightarrow>
     tenant_scope_ok (fl_tenant_scope f) \<and> 0 \<le> fl_retry_count f \<and> 0 < fl_retry_budget f \<and>
     fl_classification f \<noteq> [] \<and> fl_retention_class f \<noteq> [] \<and>
     \<not> list_ex digit_char (fl_retention_class f) \<and> fl_broker_adapter f \<noteq> []"

definition failure_event :: "int \<Rightarrow> string \<Rightarrow> payload" where
  "failure_event n state =
     PObj [(''action'', PText ''failure_recorded''), (''retry_count'', PInt n), (''state'', PText state)]"

definition starts_quarantined :: "string \<Rightarrow> bool" where
  "starts_quarantined state \<longleftrightarrow> take 11 state = ''quarantined''"

definition failure_state :: "bool \<Rightarrow> failure_report \<Rightarrow> string" where
  "failure_state was f =
     (if was \<or> fl_retry_budget f \<le> fl_retry_count f then ''quarantined'' else ''retryable'')"

definition first_failure :: "string \<Rightarrow> payload \<Rightarrow> failure_report \<Rightarrow> quarantine_row" where
  "first_failure fp content f =
     \<lparr>qr_tenant_scope = fl_tenant_scope f, qr_fingerprint = Some fp, qr_payload = normal content,
      qr_classification = fl_classification f, qr_retention_class = fl_retention_class f,
      qr_retry_count = fl_retry_count f, qr_retry_budget = fl_retry_budget f,
      qr_state = failure_state False f, qr_broker_adapter = fl_broker_adapter f,
      qr_broker_dlq_ref = fl_broker_dlq_ref f, qr_effect_committed = False, qr_outcome_unknown = False,
      qr_audit = [failure_event (fl_retry_count f) (failure_state False f)]\<rparr>"

definition same_failure :: "string \<Rightarrow> failure_report \<Rightarrow> quarantine_row \<Rightarrow> bool" where
  "same_failure fp f r \<longleftrightarrow>
     qr_tenant_scope r = fl_tenant_scope f \<and> qr_fingerprint r = Some fp \<and>
     qr_classification r = fl_classification f \<and> qr_retention_class r = fl_retention_class f \<and>
     qr_retry_budget r = fl_retry_budget f \<and> qr_retry_count r \<le> fl_retry_count f"

definition later_failure :: "failure_report \<Rightarrow> quarantine_row \<Rightarrow> quarantine_row" where
  "later_failure f r =
     (let state = failure_state (starts_quarantined (qr_state r)) f
      in r\<lparr>qr_retry_count := fl_retry_count f, qr_state := state, qr_broker_adapter := fl_broker_adapter f,
           qr_broker_dlq_ref := fl_broker_dlq_ref f,
           qr_audit := qr_audit r @ [failure_event (fl_retry_count f) state]\<rparr>)"

definition record_failure ::
  "(nat list \<Rightarrow> string) \<Rightarrow> quarantine_key \<Rightarrow> payload \<Rightarrow> failure_report \<Rightarrow> (quarantine_db, string) op" where
  "record_failure sha i content f =
     thenS (ensureS (key_ok i) ValueError)
    (thenS (ensureS (failure_ok f) ValueError)
    (transaction
      (bindS (getS (\<lambda>s. qa_rows s i)) (\<lambda>existing.
       case existing of
         None \<Rightarrow> thenS (put_row i (first_failure (content_digest sha content) content f))
                   (returnS (failure_state False f))
       | Some r \<Rightarrow>
           thenS (ensureS (same_failure (content_digest sha content) f r) IntegrityFailure)
          (thenS (put_row i (later_failure f r))
          (returnS (qr_state (later_failure f r))))))))"

definition set_effect_truth :: "quarantine_key \<Rightarrow> bool \<Rightarrow> bool \<Rightarrow> (quarantine_db, unit) op" where
  "set_effect_truth i committed unknown =
     transaction (bindS (get_row i) (\<lambda>r.
       put_row i (r\<lparr>qr_effect_committed := committed, qr_outcome_unknown := unknown\<rparr>)))"

definition drop_equivalence :: "quarantine_key \<Rightarrow> (quarantine_db, unit) op" where
  "drop_equivalence i = transaction (bindS (get_row i) (\<lambda>r. put_row i (r\<lparr>qr_fingerprint := None\<rparr>)))"

definition read_payload :: "quarantine_key \<Rightarrow> string \<Rightarrow> (quarantine_db, payload) op" where
  "read_payload i actor =
     thenS (ensureS (actor \<noteq> []) ValueError)
    (bindS (get_row i) (\<lambda>r.
     bindS (getS (\<lambda>s. has_current_grant s actor (qr_tenant_scope r) (qr_classification r))) (\<lambda>granted.
     thenS (ensureS granted ClassificationDenied)
    (returnS (qr_payload r)))))"

section \<open>Redrive\<close>

definition redrive_event :: "string \<Rightarrow> string \<Rightarrow> string \<Rightarrow> string \<Rightarrow> string \<Rightarrow> payload" where
  "redrive_event action actor tenant field x =
     PObj [(''action'', PText action), (''actor'', PText actor), (''tenant_scope'', PText tenant), (field, PText x)]"

text \<open>A refusal is recorded before it is raised.\<close>

definition refuse_redrive ::
  "quarantine_key \<Rightarrow> string \<Rightarrow> string \<Rightarrow> string \<Rightarrow> string \<Rightarrow> exn \<Rightarrow> (quarantine_db, 'a) op" where
  "refuse_redrive i action actor tenant reason e =
     thenS (append_audit i (redrive_event action actor tenant ''reason'' reason)) (raiseS e)"

definition redrive_outcome :: "quarantine_row \<Rightarrow> string \<times> string" where
  "redrive_outcome r =
     (if qr_outcome_unknown r then (''reconciliation_required'', ''quarantined_reconciliation'')
      else if qr_effect_committed r then (''duplicate_noop'', ''resolved_duplicate'')
      else (''admitted_for_reprocessing'', ''redrive_admitted''))"

definition set_state :: "quarantine_key \<Rightarrow> string \<Rightarrow> (quarantine_db, unit) op" where
  "set_state i state =
     modifyS (\<lambda>s. case qa_rows s i of None \<Rightarrow> s
       | Some r \<Rightarrow> s\<lparr>qa_rows := (qa_rows s)(i \<mapsto> r\<lparr>qr_state := state\<rparr>)\<rparr>)"

text \<open>After the attempt was recorded and the row was read again.\<close>

definition decide_redrive ::
  "quarantine_key \<Rightarrow> string \<Rightarrow> string \<Rightarrow> string \<Rightarrow> quarantine_row \<Rightarrow> (quarantine_db, string) op" where
  "decide_redrive i fp actor tenant r =
     bindS (getS id) (\<lambda>s.
     if \<not> has_current_grant s actor tenant (qr_classification r) then
       (if has_tenant_grant s actor tenant
        then refuse_redrive i ''redrive_denied'' actor tenant ''classification_denied'' ClassificationDenied
        else refuse_redrive i ''redrive_denied'' actor tenant ''tenant_or_authority_denied'' AuthorizationDenied)
     else if qr_fingerprint r = None
       then refuse_redrive i ''redrive_blocked'' actor tenant ''equivalence_unavailable'' Uncertainty
     else if qr_fingerprint r \<noteq> Some fp
       then refuse_redrive i ''redrive_blocked'' actor tenant ''content_conflict'' IntegrityFailure
     else
       thenS (append_audit i (redrive_event ''redrive_admission'' actor tenant ''outcome'' (fst (redrive_outcome r))))
      (thenS (set_state i (snd (redrive_outcome r)))
      (returnS (fst (redrive_outcome r)))))"

definition redrive ::
  "(nat list \<Rightarrow> string) \<Rightarrow> quarantine_key \<Rightarrow> payload \<Rightarrow> string \<Rightarrow> string \<Rightarrow> (quarantine_db, string) op" where
  "redrive sha i content actor reason =
     thenS (ensureS (key_ok i) ValueError)
    (thenS (ensureS (actor \<noteq> []) ValueError)
    (thenS (ensureS (reason \<noteq> []) ValueError)
    (bindS (get_row i) (\<lambda>initial.
     thenS (ensureS (qr_state initial = ''quarantined'') Uncertainty)
    (thenS (append_audit i (redrive_event ''redrive_attempt'' actor (qr_tenant_scope initial) ''reason'' reason))
    (bindS (get_row i) (\<lambda>r.
     decide_redrive i (content_digest sha content) actor (qr_tenant_scope initial) r)))))))"

definition replace_broker :: "quarantine_key \<Rightarrow> string \<Rightarrow> string option \<Rightarrow> (quarantine_db, unit) op" where
  "replace_broker i adapter dlq =
     thenS (ensureS (adapter \<noteq> []) ValueError)
    (transaction (bindS (get_row i) (\<lambda>r.
       put_row i (r\<lparr>qr_broker_adapter := adapter, qr_broker_dlq_ref := dlq,
         qr_audit := qr_audit r @ [PObj [(''action'', PText ''broker_adapter_replaced''),
           (''from'', PText (qr_broker_adapter r)), (''to'', PText adapter)]]\<rparr>))))"

section \<open>Runs\<close>

text \<open>A call of the authority, and the tables after it.\<close>

datatype quarantine_call =
    Grant_Redrive string string "string set"
  | Revoke_Redrive string "string option"
  | Record_Failure quarantine_key payload failure_report
  | Set_Effect_Truth quarantine_key bool bool
  | Drop_Equivalence quarantine_key
  | Read_Payload quarantine_key string
  | Redrive quarantine_key payload string string
  | Replace_Broker quarantine_key string "string option"

fun quarantine_step :: "(nat list \<Rightarrow> string) \<Rightarrow> quarantine_call \<Rightarrow> quarantine_db \<Rightarrow> quarantine_db" where
  "quarantine_step sha (Grant_Redrive a t c) s = snd (grant_redrive a t c s)"
| "quarantine_step sha (Revoke_Redrive a t) s = snd (revoke_redrive a t s)"
| "quarantine_step sha (Record_Failure i v f) s = snd (record_failure sha i v f s)"
| "quarantine_step sha (Set_Effect_Truth i b u) s = snd (set_effect_truth i b u s)"
| "quarantine_step sha (Drop_Equivalence i) s = snd (drop_equivalence i s)"
| "quarantine_step sha (Read_Payload i a) s = snd (read_payload i a s)"
| "quarantine_step sha (Redrive i v a why) s = snd (redrive sha i v a why s)"
| "quarantine_step sha (Replace_Broker i w d) s = snd (replace_broker i w d s)"

abbreviation quarantine_run :: "(nat list \<Rightarrow> string) \<Rightarrow> quarantine_call list \<Rightarrow> quarantine_db \<Rightarrow> quarantine_db" where
  "quarantine_run sha calls s \<equiv> fold (quarantine_step sha) calls s"

text \<open>
  What is known of the effect and the content of a message, and what a call reports about it: the
  effect truth reported for its key, and the loss of its fingerprint.
\<close>

type_synonym known = "(bool \<times> bool) \<times> string option"

definition known :: "quarantine_row \<Rightarrow> known" where
  "known r = ((qr_effect_committed r, qr_outcome_unknown r), qr_fingerprint r)"

fun reported :: "quarantine_call \<Rightarrow> quarantine_key \<Rightarrow> known \<Rightarrow> known" where
  "reported (Set_Effect_Truth j b u) i k = (if i = j then ((b, u), snd k) else k)"
| "reported (Drop_Equivalence j) i k = (if i = j then (fst k, None) else k)"
| "reported _ i k = k"

declare split_paired_All [simp del] split_paired_Ex [simp del]

text \<open>What a step may do to a row that exists.\<close>

definition row_later :: "quarantine_row \<Rightarrow> quarantine_row \<Rightarrow> bool" where
  "row_later r q \<longleftrightarrow>
     qr_tenant_scope q = qr_tenant_scope r \<and> qr_payload q = qr_payload r \<and>
     qr_classification q = qr_classification r \<and> qr_retention_class q = qr_retention_class r \<and>
     qr_retry_budget q = qr_retry_budget r \<and> qr_retry_count r \<le> qr_retry_count q \<and>
     prefix (qr_audit r) (qr_audit q)"

definition row_ok :: "quarantine_row \<Rightarrow> bool" where
  "row_ok r \<longleftrightarrow> (qr_state r \<noteq> ''retryable'' \<longrightarrow> qr_retry_budget r \<le> qr_retry_count r)"

definition rows_ok :: "quarantine_db \<Rightarrow> bool" where
  "rows_ok s \<longleftrightarrow> (\<forall>i r. qa_rows s i = Some r \<longrightarrow> row_ok r)"

text \<open>Every row is kept or moves on, \<open>g\<close> says how its known part changes, and new rows are well-formed.\<close>

definition moves :: "(quarantine_key \<Rightarrow> known \<Rightarrow> known) \<Rightarrow> quarantine_db \<Rightarrow> quarantine_db \<Rightarrow> bool" where
  "moves g s t \<longleftrightarrow>
     (\<forall>i r. qa_rows s i = Some r \<longrightarrow>
       (\<exists>q. qa_rows t i = Some q \<and> row_later r q \<and> known q = g i (known r))) \<and>
     (rows_ok s \<longrightarrow> rows_ok t)"

abbreviation moves_on :: "quarantine_db \<Rightarrow> quarantine_db \<Rightarrow> bool" where
  "moves_on \<equiv> moves (\<lambda>i k. k)"

lemma row_later_refl [simp]: "row_later r r"
  by (simp add: row_later_def)

lemma row_later_trans: "row_later r q \<Longrightarrow> row_later q p \<Longrightarrow> row_later r p"
  unfolding row_later_def by (auto intro: prefix_order.trans)

lemma moves_refl [simp]: "moves_on s s"
  by (simp add: moves_def)

lemma moves_trans:
  assumes "moves g s t" "moves h t u"
  shows "moves (\<lambda>i k. h i (g i k)) s u"
  using assms unfolding moves_def by (metis row_later_trans)

lemma moves_put:
  assumes "\<And>r. qa_rows s i = Some r \<Longrightarrow> row_later r q \<and> known q = g i (known r)" "rows_ok s \<Longrightarrow> row_ok q"
    "\<And>j k. j \<noteq> i \<Longrightarrow> g j k = k"
  shows "moves g s (s\<lparr>qa_rows := (qa_rows s)(i \<mapsto> q)\<rparr>)"
  using assms by (auto simp: moves_def rows_ok_def)

lemma moves_grants [simp]: "moves_on s (s\<lparr>qa_grants := g\<rparr>)"
  by (simp add: moves_def rows_ok_def)

lemma get_row_apply:
  "get_row i s = (case qa_rows s i of None \<Rightarrow> (Inl Uncertainty, s) | Some r \<Rightarrow> (Inr r, s))"
  by (simp add: get_row_def split: option.split)

lemma put_row_apply [simp]: "put_row i r s = (Inr (), s\<lparr>qa_rows := (qa_rows s)(i \<mapsto> r)\<rparr>)"
  by (simp add: put_row_def)

lemma rows_okD: "rows_ok s \<Longrightarrow> qa_rows s i = Some r \<Longrightarrow> row_ok r"
  unfolding rows_ok_def by blast

text \<open>An update of a present row in a transaction.\<close>

lemma update_moves:
  assumes "\<And>r. row_later r (f r) \<and> known (f r) = g i (known r)" "\<And>r. row_ok r \<Longrightarrow> row_ok (f r)"
    "\<And>j k. j \<noteq> i \<Longrightarrow> g j k = k"
  shows "moves g s (snd (transaction (bindS (get_row i) (\<lambda>r. put_row i (f r))) s))"
proof (cases "qa_rows s i")
  case None
  then show ?thesis
    using assms(3) by (simp add: get_row_apply transaction_def moves_def) (metis option.distinct(1) row_later_refl)
next
  case (Some r)
  then have "moves g s (s\<lparr>qa_rows := (qa_rows s)(i \<mapsto> f r)\<rparr>)"
    by (intro moves_put) (use assms(1,3) in simp_all, use assms(2) rows_okD [OF _ Some] in blast)
  then show ?thesis using Some by (simp add: get_row_apply transaction_def)
qed

lemma append_audit_apply:
  "qa_rows s i = Some r \<Longrightarrow>
     append_audit i e s = (Inr (), s\<lparr>qa_rows := (qa_rows s)(i \<mapsto> r\<lparr>qr_audit := qr_audit r @ [e]\<rparr>)\<rparr>)"
  by (simp add: append_audit_def get_row_apply)

lemma failure_state_ok: "failure_state was f \<noteq> ''retryable'' \<Longrightarrow> was \<or> fl_retry_budget f \<le> fl_retry_count f"
  by (simp add: failure_state_def split: if_splits)

lemma later_failure_row:
  assumes "same_failure fp f r"
  shows "row_later r (later_failure f r)" "known (later_failure f r) = known r"
    and "row_ok r \<Longrightarrow> row_ok (later_failure f r)"
proof -
  show "row_later r (later_failure f r)" "known (later_failure f r) = known r"
    using assms by (simp_all add: row_later_def known_def later_failure_def same_failure_def Let_def)
  assume ok: "row_ok r"
  have "starts_quarantined (qr_state r) \<Longrightarrow> qr_state r \<noteq> ''retryable''" by (auto simp: starts_quarantined_def)
  then show "row_ok (later_failure f r)"
    using ok assms failure_state_ok [of "starts_quarantined (qr_state r)" f]
    by (auto simp: row_ok_def later_failure_def same_failure_def Let_def)
qed

lemma record_failure_moves: "moves_on s (snd (record_failure sha i v f s))"
proof (cases "qa_rows s i")
  case None
  have "row_ok (first_failure fp v f)" for fp
    using failure_state_ok [of False f] by (auto simp: row_ok_def first_failure_def)
  then show ?thesis using None
    by (auto simp: record_failure_def ensure_def intro!: moves_put)
next
  case (Some r)
  then show ?thesis
    using later_failure_row [of "content_digest sha v" f r]
    by (auto simp: record_failure_def ensure_def transaction_def intro!: moves_put dest: rows_okD)
qed

text \<open>A redrive of a row in quarantine, in terms of that row.\<close>

definition attempt_event :: "string \<Rightarrow> string \<Rightarrow> string \<Rightarrow> payload" where
  "attempt_event actor tenant reason = redrive_event ''redrive_attempt'' actor tenant ''reason'' reason"

definition redrive_refusal ::
  "quarantine_db \<Rightarrow> quarantine_row \<Rightarrow> string \<Rightarrow> string \<Rightarrow> (payload \<times> exn) option" where
  "redrive_refusal s r fp actor =
     (let t = qr_tenant_scope r in
      if \<not> has_current_grant s actor t (qr_classification r) then
        Some (if has_tenant_grant s actor t
              then (redrive_event ''redrive_denied'' actor t ''reason'' ''classification_denied'', ClassificationDenied)
              else (redrive_event ''redrive_denied'' actor t ''reason'' ''tenant_or_authority_denied'', AuthorizationDenied))
      else if qr_fingerprint r = None
        then Some (redrive_event ''redrive_blocked'' actor t ''reason'' ''equivalence_unavailable'', Uncertainty)
      else if qr_fingerprint r \<noteq> Some fp
        then Some (redrive_event ''redrive_blocked'' actor t ''reason'' ''content_conflict'', IntegrityFailure)
      else None)"

definition redriven :: "quarantine_row \<Rightarrow> string \<Rightarrow> string \<Rightarrow> quarantine_row" where
  "redriven r actor reason =
     r\<lparr>qr_state := snd (redrive_outcome r),
       qr_audit := qr_audit r @ [attempt_event actor (qr_tenant_scope r) reason,
         redrive_event ''redrive_admission'' actor (qr_tenant_scope r) ''outcome'' (fst (redrive_outcome r))]\<rparr>"

lemma refuse_redrive_apply:
  "qa_rows s i = Some r \<Longrightarrow>
     refuse_redrive i action actor tenant reason e s =
       (Inl e, s\<lparr>qa_rows := (qa_rows s)(i \<mapsto>
          r\<lparr>qr_audit := qr_audit r @ [redrive_event action actor tenant ''reason'' reason]\<rparr>)\<rparr>)"
  by (simp add: refuse_redrive_def append_audit_apply)

definition row_put :: "quarantine_db \<Rightarrow> quarantine_key \<Rightarrow> quarantine_row \<Rightarrow> quarantine_db" where
  "row_put s i r = s\<lparr>qa_rows := (qa_rows s)(i \<mapsto> r)\<rparr>"

lemma state_and_audit: "r\<lparr>qr_audit := l, qr_state := x\<rparr> = r\<lparr>qr_state := x, qr_audit := l\<rparr>"
  by (cases r) simp

lemma decide_redrive_apply:
  assumes "qa_rows s i = Some r"
  shows "decide_redrive i fp actor (qr_tenant_scope r) r s =
    (case redrive_refusal s r fp actor of
       Some (e, x) \<Rightarrow> (Inl x, row_put s i (r\<lparr>qr_audit := qr_audit r @ [e]\<rparr>))
     | None \<Rightarrow> (Inr (fst (redrive_outcome r)),
         row_put s i (r\<lparr>qr_state := snd (redrive_outcome r),
           qr_audit := qr_audit r @ [redrive_event ''redrive_admission'' actor (qr_tenant_scope r) ''outcome''
             (fst (redrive_outcome r))]\<rparr>)))"
proof -
  consider (denied) "\<not> has_current_grant s actor (qr_tenant_scope r) (qr_classification r)"
    | (lost) "has_current_grant s actor (qr_tenant_scope r) (qr_classification r)" "qr_fingerprint r = None"
    | (other) "has_current_grant s actor (qr_tenant_scope r) (qr_classification r)"
        "qr_fingerprint r \<noteq> None" "qr_fingerprint r \<noteq> Some fp"
    | (same) "has_current_grant s actor (qr_tenant_scope r) (qr_classification r)" "qr_fingerprint r = Some fp"
    by blast
  then show ?thesis
  proof cases
    case denied
    then show ?thesis
      by (simp only: decide_redrive_def bindS_def getS_def redrive_refusal_def Let_def id_apply prod.case sum.case
          refuse_redrive_apply [OF assms] row_put_def option.case if_True not_True_eq_False not_False_eq_True
          split: if_split) simp
  next
    case lost
    then show ?thesis
      by (simp add: decide_redrive_def redrive_refusal_def Let_def refuse_redrive_apply [OF assms] row_put_def
          cong del: if_weak_cong)
  next
    case other
    then show ?thesis
      by (simp add: decide_redrive_def redrive_refusal_def Let_def refuse_redrive_apply [OF assms] row_put_def
          cong del: if_weak_cong)
  next
    case same
    then show ?thesis
      by (simp add: decide_redrive_def redrive_refusal_def Let_def append_audit_apply [OF assms] row_put_def
          set_state_def state_and_audit)
  qed
qed

lemma row_put_twice [simp]: "row_put (row_put s i r) i q = row_put s i q"
  by (simp add: row_put_def)

lemma redrive_refusal_audit [simp]:
  "redrive_refusal (row_put s i q) (r\<lparr>qr_audit := l\<rparr>) fp actor = redrive_refusal s r fp actor"
  by (simp add: redrive_refusal_def row_put_def has_current_grant_def has_tenant_grant_def Let_def
      cong del: if_weak_cong)

lemma redrive_outcome_audit [simp]: "redrive_outcome (r\<lparr>qr_audit := l\<rparr>) = redrive_outcome r"
  by (simp add: redrive_outcome_def)

lemma redrive_apply:
  assumes "qa_rows s i = Some r" "qr_state r = ''quarantined''" "key_ok i" "actor \<noteq> []" "reason \<noteq> []"
  shows "redrive sha i content actor reason s =
    (case redrive_refusal s r (content_digest sha content) actor of
       Some (e, x) \<Rightarrow> (Inl x,
         row_put s i (r\<lparr>qr_audit := qr_audit r @ [attempt_event actor (qr_tenant_scope r) reason, e]\<rparr>))
     | None \<Rightarrow> (Inr (fst (redrive_outcome r)), row_put s i (redriven r actor reason)))"
proof -
  define q where "q = r\<lparr>qr_audit := qr_audit r @ [attempt_event actor (qr_tenant_scope r) reason]\<rparr>"
  have row: "qa_rows (row_put s i q) i = Some q" by (simp add: row_put_def)
  have tenant: "qr_tenant_scope q = qr_tenant_scope r" by (simp add: q_def)
  have "redrive sha i content actor reason s =
      decide_redrive i (content_digest sha content) actor (qr_tenant_scope r) q (row_put s i q)"
    using assms
    by (simp add: redrive_def get_row_apply append_audit_apply attempt_event_def q_def row_put_def ensure_def)
  also have "\<dots> = decide_redrive i (content_digest sha content) actor (qr_tenant_scope q) q (row_put s i q)"
    by (simp add: tenant)
  finally show ?thesis
    unfolding decide_redrive_apply [OF row] by (simp add: q_def redriven_def split: option.split)
qed

lemma redrive_idle:
  "\<not> (\<exists>r. qa_rows s i = Some r \<and> qr_state r = ''quarantined'' \<and> key_ok i \<and> actor \<noteq> [] \<and> reason \<noteq> []) \<Longrightarrow>
     snd (redrive sha i content actor reason s) = s \<and> (\<exists>x. fst (redrive sha i content actor reason s) = Inl x)"
  by (cases "qa_rows s i") (auto simp: redrive_def get_row_apply ensure_def)

lemma redrive_moves: "moves_on s (snd (redrive sha i content actor reason s))"
proof (cases "\<exists>r. qa_rows s i = Some r \<and> qr_state r = ''quarantined'' \<and> key_ok i \<and> actor \<noteq> [] \<and> reason \<noteq> []")
  case False
  then show ?thesis using redrive_idle by simp
next
  case True
  then obtain r where r: "qa_rows s i = Some r" "qr_state r = ''quarantined''" "key_ok i" "actor \<noteq> []" "reason \<noteq> []"
    by blast
  show ?thesis
    unfolding redrive_apply [OF r]
    using r(1,2) rows_okD [of s i r]
    by (auto simp: row_put_def row_later_def known_def row_ok_def redriven_def intro!: moves_put split: option.split)
qed

lemma set_effect_truth_moves:
  "moves (reported (Set_Effect_Truth i b u)) s (snd (set_effect_truth i b u s))"
  unfolding set_effect_truth_def by (rule update_moves) (simp_all add: row_later_def row_ok_def known_def)

lemma drop_equivalence_moves: "moves (reported (Drop_Equivalence i)) s (snd (drop_equivalence i s))"
  unfolding drop_equivalence_def by (rule update_moves) (simp_all add: row_later_def row_ok_def known_def)

lemma replace_broker_moves: "moves_on s (snd (replace_broker i w d s))"
proof -
  define f where "f r = r\<lparr>qr_broker_adapter := w, qr_broker_dlq_ref := d,
      qr_audit := qr_audit r @ [PObj [(''action'', PText ''broker_adapter_replaced''),
        (''from'', PText (qr_broker_adapter r)), (''to'', PText w)]]\<rparr>" for r :: quarantine_row
  have "moves_on s (snd (transaction (bindS (get_row i) (\<lambda>r. put_row i (f r))) s))"
    by (rule update_moves) (simp_all add: f_def row_later_def row_ok_def known_def)
  then show ?thesis by (auto simp: replace_broker_def f_def ensure_def split: if_splits)
qed

lemma read_payload_idle [simp]: "snd (read_payload i a s) = s"
  by (cases "qa_rows s i") (simp_all add: read_payload_def get_row_apply ensure_def)

lemma reported_nothing:
  "reported (Grant_Redrive a t x) = (\<lambda>i k. k)" "reported (Revoke_Redrive a w) = (\<lambda>i k. k)"
  "reported (Record_Failure j v f) = (\<lambda>i k. k)" "reported (Read_Payload j a) = (\<lambda>i k. k)"
  "reported (Redrive j v a r) = (\<lambda>i k. k)" "reported (Replace_Broker j a w) = (\<lambda>i k. k)"
  by (intro ext; simp)+

lemma quarantine_step_moves: "moves (reported c) s (quarantine_step sha c s)"
proof (cases c)
  case (Grant_Redrive a t x)
  then show ?thesis by (auto simp: reported_nothing grant_redrive_def ensure_def)
next
  case (Revoke_Redrive a t)
  then show ?thesis by (auto simp: reported_nothing revoke_redrive_def ensure_def)
qed (simp_all add: reported_nothing record_failure_moves redrive_moves replace_broker_moves set_effect_truth_moves
  drop_equivalence_moves del: reported.simps(1,2))

lemma quarantine_run_moves:
  "moves (\<lambda>i. fold (\<lambda>c. reported c i) calls) s (quarantine_run sha calls s)"
proof (induction calls arbitrary: s)
  case (Cons c calls)
  show ?case using moves_trans [OF quarantine_step_moves [of c s sha] Cons.IH] by (simp add: comp_def)
qed (simp add: id_def)

text \<open>The two parts of the reports.\<close>

lemma fold_reported_truth:
  "fst (fold (\<lambda>c. reported c i) calls k) =
     fold (\<lambda>c k. case c of Set_Effect_Truth j b u \<Rightarrow> if j = i then (b, u) else k | _ \<Rightarrow> k) calls (fst k)"
proof (induction calls arbitrary: k)
  case (Cons c calls)
  show ?case by (cases c) (auto simp: Cons.IH)
qed simp

lemma fold_reported_fingerprint:
  "snd (fold (\<lambda>c. reported c i) calls k) = (if Drop_Equivalence i \<in> set calls then None else snd k)"
proof (induction calls arbitrary: k)
  case (Cons c calls)
  show ?case by (cases c) (auto simp: Cons.IH)
qed simp

section \<open>What the authority promises\<close>

text \<open>C19: a message leaves quarantine only under a current grant, with its own content and with a
  record. A redrive that returns was asked for by an actor with a current grant for the tenant and
  the classification of the message, with content of the recorded fingerprint, of a message in
  quarantine; its result and the new state are those the recorded effect and the known outcome
  call for, the attempt and the admission are added to the audit, and no other row changes. One
  that is refused leaves the row as it is but for the audit.\<close>

theorem redrive_current_and_audited:
  assumes "redrive sha i content actor reason s = (x, t)"
  shows "(\<forall>v. x = Inr v \<longrightarrow>
      (\<exists>r. qa_rows s i = Some r \<and> qr_state r = ''quarantined'' \<and>
         qa_grants s (actor, qr_tenant_scope r, qr_classification r) \<and>
         qr_fingerprint r = Some (content_digest sha content) \<and>
         (v, qr_state (redriven r actor reason)) = redrive_outcome r \<and>
         t = row_put s i (redriven r actor reason))) \<and>
    (\<forall>e. x = Inl e \<longrightarrow>
      t = s \<or> (\<exists>r new. qa_rows s i = Some r \<and> length new = 2 \<and>
        t = row_put s i (r\<lparr>qr_audit := qr_audit r @ new\<rparr>)))"
proof (cases "\<exists>r. qa_rows s i = Some r \<and> qr_state r = ''quarantined'' \<and> key_ok i \<and> actor \<noteq> [] \<and> reason \<noteq> []")
  case False
  then show ?thesis using redrive_idle [OF False, of sha content] assms by auto
next
  case True
  then obtain r where r: "qa_rows s i = Some r" "qr_state r = ''quarantined''" "key_ok i" "actor \<noteq> []" "reason \<noteq> []"
    by blast
  note run = redrive_apply [OF r, of sha content, unfolded assms]
  show ?thesis
  proof (cases "redrive_refusal s r (content_digest sha content) actor")
    case None
    then have "has_current_grant s actor (qr_tenant_scope r) (qr_classification r)"
      "qr_fingerprint r = Some (content_digest sha content)"
      by (auto simp: redrive_refusal_def Let_def split: if_splits)
    then show ?thesis using run None r(1,2) by (simp add: has_current_grant_def redriven_def)
  next
    case (Some ex)
    obtain e y where "ex = (e, y)" by (cases ex)
    then have "x = Inl y" and t: "t = row_put s i
        (r\<lparr>qr_audit := qr_audit r @ [attempt_event actor (qr_tenant_scope r) reason, e]\<rparr>)"
      using run Some by simp_all
    moreover have "\<exists>r new. qa_rows s i = Some r \<and> length new = 2 \<and>
        t = row_put s i (r\<lparr>qr_audit := qr_audit r @ new\<rparr>)"
      by (rule exI [of _ r], rule exI [of _ "[attempt_event actor (qr_tenant_scope r) reason, e]"]) (simp add: r(1) t)
    ultimately show ?thesis by simp
  qed
qed

text \<open>C20: what the quarantine knows of a message changes only by a report about that message. After
  any further calls, by any actors and brokers and about any messages, a message still has its
  tenant, content, classification, retention class and retry budget, its retry count has not gone
  down and its audit continues the earlier one. Its committed effect and its unknown outcome are
  those last reported for it, and its fingerprint is the one it had unless the loss of its
  equivalence was reported: no failure, redrive, grant or broker replacement changes them. One
  that was ever past its budget is never again retryable.\<close>

theorem quarantine_truth_kept:
  assumes "qa_rows (quarantine_run sha earlier quarantine_empty) i = Some r"
  shows "\<exists>q. qa_rows (quarantine_run sha (earlier @ later) quarantine_empty) i = Some q \<and>
    qr_tenant_scope q = qr_tenant_scope r \<and> qr_payload q = qr_payload r \<and>
    qr_classification q = qr_classification r \<and> qr_retention_class q = qr_retention_class r \<and>
    qr_retry_budget q = qr_retry_budget r \<and> qr_retry_count r \<le> qr_retry_count q \<and>
    prefix (qr_audit r) (qr_audit q) \<and>
    (qr_effect_committed q, qr_outcome_unknown q) =
      fold (\<lambda>c k. case c of Set_Effect_Truth j b u \<Rightarrow> if j = i then (b, u) else k | _ \<Rightarrow> k) later
        (qr_effect_committed r, qr_outcome_unknown r) \<and>
    qr_fingerprint q = (if Drop_Equivalence i \<in> set later then None else qr_fingerprint r) \<and>
    (qr_state r \<noteq> ''retryable'' \<longrightarrow> qr_retry_budget q \<le> qr_retry_count q)"
proof -
  have "rows_ok quarantine_empty" by (simp add: rows_ok_def quarantine_empty_def)
  then have "rows_ok (quarantine_run sha earlier quarantine_empty)"
    using quarantine_run_moves [of earlier quarantine_empty sha] by (simp add: moves_def)
  then have ok: "row_ok r" using assms rows_okD by blast
  obtain q where q: "qa_rows (quarantine_run sha (earlier @ later) quarantine_empty) i = Some q" "row_later r q"
    "known q = fold (\<lambda>c. reported c i) later (known r)"
    using quarantine_run_moves [of later "quarantine_run sha earlier quarantine_empty" sha] assms
    unfolding moves_def by auto
  have "qr_retry_budget q \<le> qr_retry_count q" if "qr_state r \<noteq> ''retryable''"
    using ok q(2) that unfolding row_ok_def row_later_def by auto
  moreover have "(qr_effect_committed q, qr_outcome_unknown q) =
      fold (\<lambda>c k. case c of Set_Effect_Truth j b u \<Rightarrow> if j = i then (b, u) else k | _ \<Rightarrow> k) later
        (qr_effect_committed r, qr_outcome_unknown r)"
    using arg_cong [OF q(3), of fst] unfolding fold_reported_truth by (simp add: known_def)
  moreover have "qr_fingerprint q = (if Drop_Equivalence i \<in> set later then None else qr_fingerprint r)"
    using arg_cong [OF q(3), of snd] unfolding fold_reported_fingerprint by (simp add: known_def)
  ultimately show ?thesis using q(1,2) unfolding row_later_def by blast
qed

section \<open>A concrete quarantine\<close>

definition sample_key :: quarantine_key where
  "sample_key = (''orders'', ''o1'', ''m9'')"

definition sample_failure :: failure_report where
  "sample_failure = \<lparr>fl_tenant_scope = ''tenant:t1'', fl_classification = ''confidential'',
     fl_retention_class = ''policy'', fl_retry_count = 3, fl_retry_budget = 3, fl_broker_adapter = ''b'',
     fl_broker_dlq_ref = None\<rparr>"

definition sample_quarantine :: quarantine_db where
  "sample_quarantine =
     (let s = snd (record_failure (\<lambda>_. ''d'') sample_key PNull sample_failure quarantine_empty)
      in snd (grant_redrive ''admin'' ''tenant:t1'' {''confidential''} s))"

definition sample_row :: quarantine_row where
  "sample_row = first_failure ''d'' PNull sample_failure"

lemma sample_digest [simp]: "content_digest (\<lambda>_. ''d'') v = ''d''"
  by (simp add: content_digest_def)

lemma sample_recorded:
  "record_failure (\<lambda>_. ''d'') sample_key PNull sample_failure quarantine_empty =
     (Inr ''quarantined'', row_put quarantine_empty sample_key sample_row)"
  by (simp add: record_failure_def sample_key_def sample_failure_def sample_row_def quarantine_empty_def ensure_def
      key_ok_def failure_ok_def tenant_scope_ok_def digit_char_def is_digit_def code_in_def failure_state_def row_put_def
      transaction_def)

lemma sample_quarantine_row:
  "qa_rows sample_quarantine sample_key = Some sample_row"
  "qa_grants sample_quarantine (a, t, c) \<longleftrightarrow> a = ''admin'' \<and> t = ''tenant:t1'' \<and> c = ''confidential''"
  unfolding sample_quarantine_def sample_recorded Let_def snd_conv
  by (simp_all add: row_put_def grant_redrive_def tenant_scope_ok_def ensure_def quarantine_empty_def)

theorem redrive_current_and_audited_witness:
  "let r = sample_row;
       out = redrive (\<lambda>_. ''d'') sample_key PNull ''admin'' ''again'' sample_quarantine
   in fst out = Inr ''admitted_for_reprocessing'' \<and> qr_state (redriven r ''admin'' ''again'') = ''redrive_admitted'' \<and>
      snd out = row_put sample_quarantine sample_key (redriven r ''admin'' ''again'')"
proof -
  have fields: "qr_state sample_row = ''quarantined''" "qr_tenant_scope sample_row = ''tenant:t1''"
    "qr_classification sample_row = ''confidential''" "qr_fingerprint sample_row = Some ''d''"
    "qr_effect_committed sample_row = False" "qr_outcome_unknown sample_row = False"
    by (simp_all add: sample_row_def first_failure_def sample_failure_def failure_state_def)
  have key: "key_ok sample_key" by (simp add: key_ok_def sample_key_def)
  have key: "key_ok sample_key" by (simp add: key_ok_def sample_key_def)
  have out: "fst (redrive (\<lambda>_. ''d'') sample_key PNull ''admin'' ''again'' sample_quarantine) =
      Inr ''admitted_for_reprocessing''"
    using fields key
    by (simp add: redrive_apply [OF sample_quarantine_row(1)] redrive_refusal_def has_current_grant_def
        sample_quarantine_row redrive_outcome_def)
  show ?thesis
    using redrive_current_and_audited [OF surjective_pairing, of "\<lambda>_. ''d''" sample_key PNull "''admin''" "''again''"
        sample_quarantine] out fields
    by (simp add: sample_quarantine_row redriven_def redrive_outcome_def)
qed

text \<open>
  A failure is recorded and a grant given; then the effect of another message is reported, a
  redrive is admitted, the effect is reported committed, the outcome of a second redrive follows it,
  and the broker is replaced.
\<close>

definition sample_earlier :: "quarantine_call list" where
  "sample_earlier =
     [Record_Failure sample_key PNull sample_failure, Grant_Redrive ''admin'' ''tenant:t1'' {''confidential''}]"

definition sample_later :: "quarantine_call list" where
  "sample_later =
     [Set_Effect_Truth (''orders'', ''o1'', ''m8'') False True, Redrive sample_key PNull ''admin'' ''again'',
      Set_Effect_Truth sample_key True False, Drop_Equivalence (''orders'', ''o1'', ''m8''),
      Replace_Broker sample_key ''k'' None, Record_Failure sample_key PNull sample_failure]"

lemma sample_earlier_run: "quarantine_run (\<lambda>_. ''d'') sample_earlier quarantine_empty = sample_quarantine"
  by (simp add: sample_earlier_def sample_quarantine_def)

theorem quarantine_truth_kept_witness:
  "\<exists>q. qa_rows (quarantine_run (\<lambda>_. ''d'') (sample_earlier @ sample_later) quarantine_empty) sample_key = Some q \<and>
     qr_payload q = PNull \<and> qr_effect_committed q \<and> \<not> qr_outcome_unknown q \<and>
     qr_fingerprint q = Some ''d'' \<and> qr_retry_budget q \<le> qr_retry_count q \<and> 3 \<le> qr_retry_count q"
proof -
  have first: "qa_rows (quarantine_run (\<lambda>_. ''d'') sample_earlier quarantine_empty) sample_key = Some sample_row"
    by (simp add: sample_earlier_run sample_quarantine_row)
  show ?thesis
    using quarantine_truth_kept [OF first, of sample_later]
    by (simp add: sample_later_def sample_key_def sample_row_def first_failure_def sample_failure_def
        failure_state_def) blast
qed

end
