(* ===== verification/Spec2Isabelle.thy ===== *)
theory Spec2Isabelle
  imports Outbox Async_System Quarantine Fencing Session Machine Workload Dev_App
    Host_Inventory Metric_History Problem_Reads Health Release_Authority
    Configuration Csrf Identity_Shell Identity_Bff Onboarding Inventory_View Metrics_View Problem_Health_View
    Alert_Policy Alert_Transport Provider_Callback Human_Operations Incident_Response
    Consumer_Receipts Source_Generations Privileged_Replay Recovery_Reconciliation Historical_Reader
    Contract_Versions Bounded_Parser Publication_Policy Broker_Boundary Consumer_Registration
    Redrive_Authority
begin

text \<open>
  A model of the correctness core of the platform: asynchronous delivery
  (src/src/jlmirror_async), identity and admission (src/src/jlmirror_authority), the
  development application that composes the latter (src/app), the monitoring domain
  (src/src/jlmirror_monitoring), releases with the telemetry profiles they depend on
  (src/src/jlmirror_release, src/src/jlmirror_observability), the identity shell
  (src/src/jlmirror_g1), the applications of the goals g2 to g11 (src/apps), from the
  onboarding of a source over the read views and the alert policies to the workers that
  perform external effects, and the executable reference models of the messaging semantics
  (src/tools/assurance).

  \<^bold>\<open>Parts and theories.\<close>

  \<^item> JL_Prelude: exceptions as values (\<open>res\<close>), operations that thread a state and keep it
    when they raise (\<open>op\<close>), replies of injected authorities (\<open>reply\<close>, \<open>call\<close>), aware and
    naive timestamps, dictionaries in insertion order, identifier grammars.
  \<^item> Authority_Model: jlmirror_authority/model.py. Runtime_Profiles: runtime_profiles.py.
  \<^item> Async_Model: jlmirror_async/model.py (messages, comparison evidence, identities,
    operation snapshots). Execution: execution.py, the fail-closed execution admission.
  \<^item> Outbox: outbox.py, \<open>InMemoryOutboxLedger\<close>, one operation per method.
  \<^item> Reconciliation: reconciliation.py, \<open>InMemoryCrossAuthorityOperationLedger\<close>.
  \<^item> Inbox: inbox.py, \<open>InMemoryInboxLedger\<close>. Lease_Protocol: the contract that the three
    ledgers share (a claim that was superseded never acts again), a locale that each of
    them interprets.
  \<^item> Async_System: inbox and operation ledger together. The inbox sees the operation
    ledger only through \<open>CrossAuthorityReconciliationPort\<close>; that port is the locale
    \<open>operation_authority_port\<close>, which the operation ledger interprets.
  \<^item> Quarantine: quarantine.py, redrive requests and admissions.
  \<^item> Fencing: fencing.py and \<open>InMemoryFenceAuthority\<close> of app/auth.py; the port is the locale
    \<open>fence_authority\<close>. Session: session.py and \<open>InMemorySessionAuthority\<close>; the port is the
    locale \<open>session_authority\<close>, which adds rotation to \<open>session_registry\<close>.
  \<^item> Machine: machine.py. Workload: workload.py, SPIFFE identities and peers. Browser:
    browser.py, logins and authentication strength.
  \<^item> Admission_Evidence and Control_Plane: control_plane.py. The admission of a protected
    operation asks its authorities several times; each call is an operation on the state
    of the environment, so the answers may change in between.
  \<^item> Dev_App: the development authorities of app/auth.py, the request dependencies of
    app/context.py and the authorization endpoint of app/routers/authority.py, over the
    locale \<open>steady_environment\<close>.
  \<^item> Canonical_JSON: \<open>json.dumps\<close> with sorted keys and UTF-8, with unique readability.
    Monitoring_Source: source.py, configuration, fingerprint and creation plan; \<open>urlsplit\<close>
    and the address grammars are written out there.
  \<^item> Provider_Access: validation_worker.py, the provider ports, \<open>try\<close>/\<open>except\<close> as an operation
    (\<open>tryS\<close>) and the locale \<open>evidence_collector\<close>, the contract of every collector, with the
    worker as its client. It is interpreted in Provider_Access (initial validation),
    Host_Inventory (host_inventory.py), Metric_Definitions (metric_definitions.py),
    Metric_Values (metric_current_state.py, with \<open>Decimal\<close> and \<open>int\<close> on text written out),
    Metric_History (metric_history.py) and Problem_State (problem_state.py).
  \<^item> Paging: the keyset pages of the two read models and the locale \<open>keyset_repository\<close>, in
    which following the cursors reads every row once. Problem_Reads (problem_reads.py)
    interprets it on any ports that keep their protocols (\<open>serves_problems\<close>) and Health
    (health_projection.py, health_reads.py) on the list repository of src/tests/wave4.
  \<^item> Observability: model.py, pipeline.py, policy.py and catalog.py of
    jlmirror_observability, with the tables of profiles written out.
  \<^item> Release_Evidence: model.py, provenance.py, compatibility.py, configuration.py and
    recovery.py of jlmirror_release; a check that raises \<open>ReleaseError\<close> is a predicate under
    \<open>demand\<close>. Release_Verification: verification.py. Release_Authority: authority.py,
    \<open>DeploymentAuthority\<close> with its runs; a step changes one record, and \<open>release_change\<close>
    lists the ways in which it does.
  \<^item> Configuration: config.py of jlmirror_authority. Csrf and Identity_Shell: csrf.py, shell.py
    and authority.py of jlmirror_g1, over Browser, Session and Control_Plane; the locale
    \<open>shell_environment\<close> is a session registry with the rest of the environment of a shell.
    Identity_Bff: bff_server.py of g1, cookies, stores, fixture authorities and handlers; its
    stores interpret both locales.
  \<^item> Bound_Authorization: current_authorization.py of the goals g2 to g5, the admission of one
    action for the principal of a request; the views see it through the locale
    \<open>current_authorization\<close>. Views: payloads, their bound and rendering, argument checks and
    the reading between two admissions. Onboarding (g2), Inventory_View (g3), Metrics_View
    (g4) and Problem_Health_View (g5) are its clients.
  \<^item> Alert_Transport: consumer.py of g6, over Execution. Alert_Policy: domain.py and service.py
    of g7. Human_Operations: domain.py and service.py of g8, g9 and g10, which share the shape
    of an authority snapshot. Provider_Callback: callback.py of g9. Incident_Response:
    domain.py and service.py of g11. Dispatch: the workers of g9, g10 and g11, all instances of
    \<open>claimed_effect\<close> (claim, effect, record).
  \<^item> Payloads: \<open>json.dumps\<close> of decoded values, compact and canonical, with unique readability.
    Reference_Prelude: transactions that roll back, expected refusals and the tallies of
    checks that the reference models share.
  \<^item> Effect_Protection and Broker_Boundary: effect_protection.py and broker_boundary.py of
    d4a_semantic_boundary. The port of a broker is the locale \<open>broker_port\<close>, stated against a
    queue with a holder; both transports interpret it, and the locale \<open>delivery_queue\<close>, which
    keeps the order of any messages. Consumer_Registration:
    consumer_registration_gate.py. Publication_Policy: policy_boundary.py of d4a_data_topology.
  \<^item> The candidate evaluations, evaluate_candidates.py of their directories, with the checks
    they run where these are written in the program: Contract_Versions (d4b_contract_version),
    Consumer_Receipts (d4c_ack_lease_checkpoint, another interpretation of \<open>fenced_lease\<close>),
    Redrive_Authority (d4c_quarantine_redrive), Source_Generations (d4c_producer_generation),
    Privileged_Replay (d4c_privileged_replay), Recovery_Reconciliation
    (d4c_recovery_generation), Historical_Reader (d4c_historical_reader) and Bounded_Parser
    (d4c_bounded_parser_limits). A SQLite table is a map from its primary key, a transaction an
    operation that restores the state when it raises.

  \<^bold>\<open>State and operations.\<close> A class with mutable fields is a record, each method one
  operation on it; a lock makes a method atomic, and callbacks into a ledger from an
  injected authority are not modelled. Frozen dataclasses are records with a validity
  predicate for \<open>__post_init__\<close>; \<open>isinstance\<close> tests hold by typing. Ports are functions,
  operations or calls that are parameters of the definitions; a missing port is \<open>None\<close>.
  Mutations made before an exception persist. Values drawn from \<open>secrets\<close>, SHA-256, HMAC,
  \<open>json.loads\<close>, \<open>datetime.fromisoformat\<close> and \<open>int\<close> of a value that is no integer are arguments.

  \<^bold>\<open>What the lemmas show.\<close> Each ledger has an invariant that every operation keeps, with
  reachability as an inductive step relation; exact behaviour of the settling operations
  on every branch; that lost claims are powerless; and for the composed system that a
  recorded effect is final and that a retry needs proven absence of the earlier attempts.
  The identity components have exact admission conditions, at-most-once claims, the
  outcome of every completion of a login, round trips of identities, and that tokens, sessions and strengths are not
  transferable. The admission of operations fails closed, but for the exceptions of its placement and
  strength ports, and binds the final authority's
  evidence to exactly the request. A collector yields current evidence only for what it
  read completely under resolved credentials and an admitted endpoint; observations restate
  provider rows one by one; pages are bounded and their cursors complete; health is the
  worst active severity. A release target has one deployment in flight, its version counts
  confirmed effects, what is current was admitted and verified, and a verified deployment
  meets the reliability floor of its runtime profiles. A view of the goals is read between
  two grants, has bounded size and restates its rows without better evidence than they have.
  The shell opens for a granted current session only and never again after its logout; its
  server logs out exactly when origin, tokens and session agree, and reads its own cookies
  back. An
  alert follows the current evidence, an external effect is performed at most once under a
  claim that was won, and its outcome is recorded whatever the adapter does. In the reference
  models a message leaves the broker only with its effect committed, on either transport;
  effects, replays and redrives happen once and under current authority; restores never
  bring a generation back; issued tokens are distinct 64-bit permutations; a bounded reader
  ends within its limits on every input, with a report or the error its parser raises on an
  overlong integer; and every candidate passes the checks written for it.

  \<^bold>\<open>Bounds.\<close> Integers are unbounded as in Python; the fence epoch is checked against
  2^63 - 1 as in the code. The loops of the code are structural recursions over lists and
  dictionaries or fixed attempts, so they need no fuel. Only the client that follows cursors,
  \<open>read_all\<close>, counts its requests; n requests are proved enough for n pages of rows. The
  decompression loop of Bounded_Parser is a \<open>partial_function\<close>, proved to return for every
  decompressor that honours \<open>max_length\<close>. Contract_Versions computes on 64-bit words. Strings
  consist of the code points 0 to 255, a timestamp is its instant in microseconds, and
  \<open>datetime\<close> overflow is not modelled.

  \<^bold>\<open>Not modelled.\<close> Message texts of exceptions, logging and \<open>__repr__\<close>; SQL and
  migrations, front ends, the conformance harnesses under
  implementation/, validators and generators under tools/ and scripts/ (among them the outbox
  claim and content equivalence evaluations, and the check scripts of the bounded parser and
  of the redrive authority), the PostgreSQL
  repositories of the collectors and of the goals, the other HTTP servers and all pages under
  src/apps, the fixture identity provider of g1,
  the adapters and workers of src/app, the fixture adapters of the workers, and the evidence
  report of config.py.
\<close>

end
